(* ===== verification/Prelude.thy ===== *)
theory Prelude
  imports Main "HOL-Library.Signed_Division"
begin

text \<open>
  What every component of the development shares: programs as explicit state passing with an
  error result, the calculus that carries invariants through them, Go's fixed-width integer
  arithmetic, and the list operations (first occurrences, lookup by key) the repository uses.
\<close>

section \<open>Programs with state and errors\<close>

text \<open>
  A Go function that may touch the database and returns \<open>(value, error)\<close> is a program: it takes
  the state and returns the error or the value, and the state it leaves. The state is returned
  in the error case too, because a Go function that fails has already done what it did.
\<close>

type_synonym ('s, 'e, 'a) prog = "'s \<Rightarrow> ('e + 'a) \<times> 's"

definition ret :: "'a \<Rightarrow> ('s, 'e, 'a) prog" where
  "ret x s = (Inr x, s)"

definition fail :: "'e \<Rightarrow> ('s, 'e, 'a) prog" where
  "fail e s = (Inl e, s)"

definition bindp :: "('s, 'e, 'a) prog \<Rightarrow> ('a \<Rightarrow> ('s, 'e, 'b) prog) \<Rightarrow> ('s, 'e, 'b) prog" where
  "bindp m f s = (case m s of (Inl e, s') \<Rightarrow> (Inl e, s') | (Inr x, s') \<Rightarrow> f x s')"

text \<open>\<open>attempt m\<close> is \<open>x, err := m()\<close>: the error becomes a value the caller inspects.\<close>

definition attempt :: "('s, 'e, 'a) prog \<Rightarrow> ('s, 'f, 'e + 'a) prog" where
  "attempt m s = (case m s of (r, s') \<Rightarrow> (Inr r, s'))"

text \<open>\<open>ignore m\<close> is \<open>_ = m()\<close>.\<close>

definition ignore :: "('s, 'e, 'a) prog \<Rightarrow> ('s, 'f, unit) prog" where
  "ignore m s = (Inr (), snd (m s))"

text \<open>A \<open>for\<close> loop over a list that returns at the first error.\<close>

fun for_each :: "('a \<Rightarrow> ('s, 'e, unit) prog) \<Rightarrow> 'a list \<Rightarrow> ('s, 'e, unit) prog" where
  "for_each f [] = ret ()"
| "for_each f (x # xs) = bindp (f x) (\<lambda>_. for_each f xs)"

text \<open>A loop that collects the values its body returns, again up to the first error.\<close>

fun map_prog :: "('a \<Rightarrow> ('s, 'e, 'b) prog) \<Rightarrow> 'a list \<Rightarrow> ('s, 'e, 'b list) prog" where
  "map_prog f [] = ret []"
| "map_prog f (x # xs) = bindp (f x) (\<lambda>y. bindp (map_prog f xs) (\<lambda>ys. ret (y # ys)))"

named_theorems run_simps \<open>execution of programs\<close>

lemmas prog_defs = ret_def fail_def bindp_def attempt_def ignore_def

declare ret_def [run_simps] fail_def [run_simps] bindp_def [run_simps]
  attempt_def [run_simps] ignore_def [run_simps]

lemma bindp_ret [simp]: "bindp (ret x) f = f x"
  by (simp add: fun_eq_iff prog_defs)

lemma bindp_fail [simp]: "bindp (fail e) f = fail e"
  by (simp add: fun_eq_iff prog_defs)

lemma bindp_assoc: "bindp (bindp m f) g = bindp m (\<lambda>x. bindp (f x) g)"
  by (auto simp: fun_eq_iff prog_defs split: prod.splits sum.splits)

lemma bindp_attemptE:
  assumes "bindp (attempt m) f s = (r, t)"
  obtains x u where "m s = (x, u)" "f x u = (r, t)"
  using assms by (auto simp: bindp_def attempt_def split: prod.splits)

lemma bindp_InrE:
  assumes "bindp m f s = (Inr y, t)"
  obtains x u where "m s = (Inr x, u)" "f x u = (Inr y, t)"
  using assms by (auto simp: bindp_def split: prod.splits sum.splits)

section \<open>Invariants of programs\<close>

text \<open>
  \<open>keeps I m\<close>: whatever \<open>m\<close> returns, error or value, it leaves a state that satisfies \<open>I\<close> when it
  starts in one. The rules follow the program text, so \<open>auto intro!: keeps_intros\<close> reduces a
  function to its statements.
\<close>

definition keeps :: "('s \<Rightarrow> bool) \<Rightarrow> ('s, 'e, 'a) prog \<Rightarrow> bool" where
  "keeps I m \<longleftrightarrow> (\<forall>s. I s \<longrightarrow> I (snd (m s)))"

named_theorems keeps_intros \<open>rules that carry an invariant through a program\<close>

lemma keepsI [intro?]: "(\<And>s. I s \<Longrightarrow> I (snd (m s))) \<Longrightarrow> keeps I m"
  by (simp add: keeps_def)

lemma keepsD: "keeps I m \<Longrightarrow> I s \<Longrightarrow> I (snd (m s))"
  by (simp add: keeps_def)

lemma keeps_result: "keeps I m \<Longrightarrow> I s \<Longrightarrow> m s = (r, t) \<Longrightarrow> I t"
  by (metis keepsD snd_conv)

lemma keeps_conj: "keeps I m \<Longrightarrow> keeps J m \<Longrightarrow> keeps (\<lambda>s. I s \<and> J s) m"
  by (simp add: keeps_def)

lemma keeps_ret [keeps_intros]: "keeps I (ret x)"
  by (simp add: keeps_def ret_def)

lemma keeps_fail [keeps_intros]: "keeps I (fail e)"
  by (simp add: keeps_def fail_def)

lemma keeps_bindp [keeps_intros]:
  "keeps I m \<Longrightarrow> (\<And>x. keeps I (f x)) \<Longrightarrow> keeps I (bindp m f)"
  by (auto simp: keeps_def bindp_def split: prod.splits sum.splits)

lemma keeps_attempt [keeps_intros]: "keeps I m \<Longrightarrow> keeps I (attempt m)"
  by (auto simp: keeps_def attempt_def split: prod.splits)

lemma keeps_ignore [keeps_intros]: "keeps I m \<Longrightarrow> keeps I (ignore m)"
  by (auto simp: keeps_def ignore_def)

lemma keeps_for_each [keeps_intros]:
  "(\<And>x. keeps I (f x)) \<Longrightarrow> keeps I (for_each f xs)"
  by (induction xs) (auto intro: keeps_ret keeps_bindp)

lemma keeps_map_prog [keeps_intros]:
  "(\<And>x. keeps I (f x)) \<Longrightarrow> keeps I (map_prog f xs)"
  by (induction xs) (auto intro!: keeps_ret keeps_bindp)

lemma keeps_if [keeps_intros]:
  "(b \<Longrightarrow> keeps I m) \<Longrightarrow> (\<not> b \<Longrightarrow> keeps I n) \<Longrightarrow> keeps I (if b then m else n)"
  by simp

lemma keeps_case_sum [keeps_intros]:
  "(\<And>e. r = Inl e \<Longrightarrow> keeps I (f e)) \<Longrightarrow> (\<And>x. r = Inr x \<Longrightarrow> keeps I (g x)) \<Longrightarrow>
   keeps I (case r of Inl e \<Rightarrow> f e | Inr x \<Rightarrow> g x)"
  by (cases r) auto

lemma keeps_case_option [keeps_intros]:
  "(r = None \<Longrightarrow> keeps I m) \<Longrightarrow> (\<And>x. r = Some x \<Longrightarrow> keeps I (g x)) \<Longrightarrow>
   keeps I (case r of None \<Rightarrow> m | Some x \<Rightarrow> g x)"
  by (cases r) auto

lemma keeps_case_list [keeps_intros]:
  "(r = [] \<Longrightarrow> keeps I m) \<Longrightarrow> (\<And>x xs. r = x # xs \<Longrightarrow> keeps I (g x xs)) \<Longrightarrow>
   keeps I (case r of [] \<Rightarrow> m | x # xs \<Rightarrow> g x xs)"
  by (cases r) auto

lemma keeps_case_prod [keeps_intros]:
  "(\<And>x y. p = (x, y) \<Longrightarrow> keeps I (f x y)) \<Longrightarrow> keeps I (case p of (x, y) \<Rightarrow> f x y)"
  by (cases p) auto

lemma keeps_let [keeps_intros]: "keeps I (f x) \<Longrightarrow> keeps I (let y = x in f y)"
  by simp

section \<open>Go's 64-bit signed integers\<close>

text \<open>
  \<open>int\<close> and \<open>int64\<close> are 64 bits wide on the platforms the program is built for. A value is an
  \<open>int\<close>; where an operation of the code can leave the range, its result is wrapped by \<open>i64\<close>.
  Division is Go's, which truncates towards zero (\<open>sdiv\<close>).
\<close>

definition i64 :: "int \<Rightarrow> int" where
  "i64 x = (x + 2 ^ 63) mod 2 ^ 64 - 2 ^ 63"

definition in_i64 :: "int \<Rightarrow> bool" where
  "in_i64 x \<longleftrightarrow> - (2 ^ 63) \<le> x \<and> x < 2 ^ 63"

lemma i64_id: "in_i64 x \<Longrightarrow> i64 x = x"
  by (simp add: i64_def in_i64_def)

lemma in_i64_i64 [simp]: "in_i64 (i64 x)"
proof -
  have "0 \<le> (x + 2 ^ 63) mod 2 ^ 64" "(x + 2 ^ 63) mod 2 ^ 64 < (2 :: int) ^ 64"
    by simp_all
  then show ?thesis by (simp add: i64_def in_i64_def)
qed

lemma sdiv_nonneg: "(0 :: int) \<le> a \<Longrightarrow> 0 < b \<Longrightarrow> a sdiv b = a div b"
  by (cases "a = 0") (simp_all add: signed_divide_int_def)

section \<open>Lists\<close>

text \<open>The first occurrences of a list, in order: the \<open>seen\<close> map loops of the code.\<close>

fun first_occs :: "'a list \<Rightarrow> 'a list \<Rightarrow> 'a list" where
  "first_occs seen [] = []"
| "first_occs seen (x # xs) =
     (if x \<in> set seen then first_occs seen xs else x # first_occs (x # seen) xs)"

lemma set_first_occs [simp]: "set (first_occs seen xs) = set xs - set seen"
  by (induction xs arbitrary: seen) auto

lemma distinct_first_occs [simp]: "distinct (first_occs seen xs)"
  by (induction xs arbitrary: seen) auto

lemma first_occs_id: "distinct xs \<Longrightarrow> set xs \<inter> set seen = {} \<Longrightarrow> first_occs seen xs = xs"
  by (induction xs arbitrary: seen) auto

lemma first_occs_idem [simp]: "first_occs [] (first_occs [] xs) = first_occs [] xs"
  by (rule first_occs_id) auto

lemma first_occs_Nil_iff: "first_occs seen xs = [] \<longleftrightarrow> set xs \<subseteq> set seen"
  by (metis Diff_eq_empty_iff set_empty set_first_occs)

text \<open>The row of a table with a given key.\<close>

definition row_of :: "('r \<Rightarrow> 'k) \<Rightarrow> 'k \<Rightarrow> 'r list \<Rightarrow> 'r option" where
  "row_of key k rs = find (\<lambda>r. key r = k) rs"

lemma row_of_SomeD: "row_of key k rs = Some r \<Longrightarrow> r \<in> set rs \<and> key r = k"
  by (auto simp: row_of_def find_Some_iff)

lemma row_of_None_iff: "row_of key k rs = None \<longleftrightarrow> k \<notin> key ` set rs"
  by (auto simp: row_of_def find_None_iff)

lemma row_of_distinct:
  "distinct (map key rs) \<Longrightarrow> r \<in> set rs \<Longrightarrow> row_of key (key r) rs = Some r"
proof (induction rs)
  case (Cons a rs)
  show ?case
  proof (cases "key a = key r")
    case True
    with Cons.prems have "a = r" by (auto simp: image_iff)
    with True show ?thesis by (simp add: row_of_def)
  next
    case False
    with Cons show ?thesis by (auto simp: row_of_def)
  qed
qed simp

text \<open>\<open>UPDATE ... SET f WHERE p\<close> on the rows of a table.\<close>

definition upd_where :: "('r \<Rightarrow> bool) \<Rightarrow> ('r \<Rightarrow> 'r) \<Rightarrow> 'r list \<Rightarrow> 'r list" where
  "upd_where p f rs = map (\<lambda>r. if p r then f r else r) rs"

lemma upd_where_key [simp]:
  "(\<And>r. key (f r) = key r) \<Longrightarrow> map key (upd_where p f rs) = map key rs"
  by (simp add: upd_where_def)

lemma set_upd_where: "set (upd_where p f rs) = (\<lambda>r. if p r then f r else r) ` set rs"
  by (simp add: upd_where_def)

lemma row_of_upd_where:
  assumes "\<And>r. key (f r) = key r"
  shows "row_of key k (upd_where p f rs) =
    map_option (\<lambda>r. if p r then f r else r) (row_of key k rs)"
  by (induction rs) (auto simp: row_of_def upd_where_def assms)

lemma row_of_append:
  "row_of key k (rs @ qs) = (case row_of key k rs of None \<Rightarrow> row_of key k qs | Some r \<Rightarrow> Some r)"
  by (induction rs) (auto simp: row_of_def)

lemma row_of_filter:
  "row_of key k (filter (\<lambda>r. p (key r)) rs) = (if p k then row_of key k rs else None)"
  by (induction rs) (auto simp: row_of_def)

text \<open>Changing the one row with key \<open>k\<close> keeps another column unique when no other row has the new
  value.\<close>

lemma distinct_upd_where:
  assumes "distinct (map key rs)" "distinct (map col rs)"
    and "\<And>q. q \<in> set rs \<Longrightarrow> key q = k \<Longrightarrow> \<forall>p \<in> set rs. key p \<noteq> k \<longrightarrow> col p \<noteq> col (f q)"
  shows "distinct (map col (upd_where (\<lambda>q. key q = k) f rs))"
  using assms
proof (induction rs)
  case (Cons a rs)
  have IH: "distinct (map col (upd_where (\<lambda>q. key q = k) f rs))"
    using Cons.prems by (intro Cons.IH) auto
  show ?case
  proof (cases "key a = k")
    case True
    with Cons.prems(1) have "k \<notin> key ` set rs" by simp
    then have "\<forall>q \<in> set rs. key q \<noteq> k" by blast
    then have "upd_where (\<lambda>q. key q = k) f rs = rs"
      by (simp add: upd_where_def map_idI)
    moreover have "col (f a) \<notin> col ` set rs"
      using Cons.prems(3) [of a] True \<open>\<forall>q \<in> set rs. key q \<noteq> k\<close> by fastforce
    ultimately show ?thesis using True Cons.prems by (simp add: upd_where_def)
  next
    case False
    have "col a \<noteq> col (if key q = k then f q else q)" if "q \<in> set rs" for q
    proof (cases "key q = k")
      case True
      with that False Cons.prems(3) [of q] show ?thesis by auto
    next
      case False
      with that Cons.prems(2) show ?thesis by (auto simp: image_iff)
    qed
    with IH False show ?thesis by (auto simp: upd_where_def)
  qed
qed (simp add: upd_where_def)

end
