(* ===== verification/GoStrings.thy ===== *)
theory GoStrings
  imports Prelude
begin

text \<open>
  The part of Go's standard library the modelled code uses on strings: \<open>strings\<close> and
  \<open>strconv\<close>. A Go string is a sequence of bytes and so is Isabelle's \<open>string\<close>; white space is
  Unicode's, in its UTF-8 encoding. Case mapping is the one of ASCII: a byte from 128 on is left
  alone, which is exact for every string with no upper-case letter outside ASCII.
\<close>

section \<open>White space\<close>

definition ascii_space :: "char \<Rightarrow> bool" where
  "ascii_space c \<longleftrightarrow>
     c \<in> set [CHR 0x20, CHR 0x09, CHR 0x0A, CHR 0x0B, CHR 0x0C, CHR 0x0D]"

text \<open>The UTF-8 encodings of the white space runes outside ASCII (\<open>unicode.IsSpace\<close>).\<close>

definition wide_spaces :: "string list" where
  "wide_spaces =
    [[CHR 0xC2, CHR 0x85], [CHR 0xC2, CHR 0xA0], [CHR 0xE1, CHR 0x9A, CHR 0x80],
     [CHR 0xE2, CHR 0x80, CHR 0x80], [CHR 0xE2, CHR 0x80, CHR 0x81], [CHR 0xE2, CHR 0x80, CHR 0x82],
     [CHR 0xE2, CHR 0x80, CHR 0x83], [CHR 0xE2, CHR 0x80, CHR 0x84], [CHR 0xE2, CHR 0x80, CHR 0x85],
     [CHR 0xE2, CHR 0x80, CHR 0x86], [CHR 0xE2, CHR 0x80, CHR 0x87], [CHR 0xE2, CHR 0x80, CHR 0x88],
     [CHR 0xE2, CHR 0x80, CHR 0x89], [CHR 0xE2, CHR 0x80, CHR 0x8A], [CHR 0xE2, CHR 0x80, CHR 0xA8],
     [CHR 0xE2, CHR 0x80, CHR 0xA9], [CHR 0xE2, CHR 0x80, CHR 0xAF], [CHR 0xE2, CHR 0x81, CHR 0x9F],
     [CHR 0xE3, CHR 0x80, CHR 0x80]]"

text \<open>The number of bytes of the white space rune at the head of a string, 0 when there is none.\<close>

definition space_len :: "string list \<Rightarrow> string \<Rightarrow> nat" where
  "space_len ws s =
    (case s of [] \<Rightarrow> 0
     | c # _ \<Rightarrow> if ascii_space c then 1
        else if take 2 s \<in> set ws then 2
        else if take 3 s \<in> set ws then 3 else 0)"

function trim_head :: "string list \<Rightarrow> string \<Rightarrow> string" where
  "trim_head ws s = (let n = space_len ws s in if n = 0 then s else trim_head ws (drop n s))"
  by pat_completeness auto
termination
  by (relation "measure (\<lambda>(ws, s). length s)") (auto simp: space_len_def split: list.splits if_splits)

declare trim_head.simps [simp del]

definition TrimSpace :: "string \<Rightarrow> string" where
  "TrimSpace s = rev (trim_head (map rev wide_spaces) (rev (trim_head wide_spaces s)))"

lemma space_len_Nil [simp]: "space_len ws [] = 0"
  by (simp add: space_len_def)

lemma trim_head_Nil [simp]: "trim_head ws [] = []"
  by (simp add: trim_head.simps)

lemma trim_head_id: "space_len ws s = 0 \<Longrightarrow> trim_head ws s = s"
  by (subst trim_head.simps) simp

lemma space_len_trim_head [simp]: "space_len ws (trim_head ws s) = 0"
proof (induction ws s rule: trim_head.induct)
  case (1 ws s)
  then show ?case by (cases "space_len ws s = 0") (simp_all add: trim_head.simps [of ws s] Let_def)
qed

lemma trim_head_suffix: "\<exists>p. s = p @ trim_head ws s"
proof (induction ws s rule: trim_head.induct)
  case (1 ws s)
  show ?case
  proof (cases "space_len ws s = 0")
    case False
    with 1 obtain p where p: "drop (space_len ws s) s = p @ trim_head ws (drop (space_len ws s) s)"
      by blast
    have "s = take (space_len ws s) s @ p @ trim_head ws (drop (space_len ws s) s)"
      by (simp flip: p)
    moreover have "trim_head ws s = trim_head ws (drop (space_len ws s) s)"
      using False by (subst trim_head.simps) (simp add: Let_def)
    ultimately show ?thesis by (metis append.assoc)
  qed (simp add: trim_head_id)
qed

text \<open>A prefix of a string that does not start with white space does not either, when every
  encoding has at least two bytes and no encoding is a proper prefix of another.\<close>

lemma space_len_prefix:
  assumes "space_len ws (p @ q) = 0"
    and "\<forall>w \<in> set ws. length w = 2 \<or> length w = 3"
  shows "space_len ws p = 0"
proof (cases p)
  case (Cons c cs)
  have "take n p \<in> set ws \<Longrightarrow> take n (p @ q) = take n p" if "n = 2 \<or> n = 3" for n
  proof -
    assume m: "take n p \<in> set ws"
    show ?thesis
    proof (cases "n \<le> length p")
      case False
      with m that assms(2) Cons have "n = 3" "length p = 2" by fastforce+
      with m have "take 2 (p @ q) \<in> set ws" by simp
      with assms(1) Cons have "ascii_space c"
        by (auto simp: space_len_def split: if_splits)
      with assms(1) Cons show ?thesis by (simp add: space_len_def)
    qed simp
  qed
  from this [of 2] this [of 3] show ?thesis
    using assms(1) Cons by (auto simp: space_len_def split: if_splits)
qed simp

lemma wide_spaces_lengths: "\<forall>w \<in> set wide_spaces. length w = 2 \<or> length w = 3"
  by (simp add: wide_spaces_def)

lemma wide_spaces_rev_lengths: "\<forall>w \<in> set (map rev wide_spaces). length w = 2 \<or> length w = 3"
  using wide_spaces_lengths by auto

lemma TrimSpace_idem [simp]: "TrimSpace (TrimSpace s) = TrimSpace s"
proof -
  let ?r = "map rev wide_spaces"
  let ?t = "trim_head wide_spaces s"
  obtain p where p: "rev ?t = p @ trim_head ?r (rev ?t)" using trim_head_suffix by blast
  then have t: "?t = TrimSpace s @ rev p"
    by (metis TrimSpace_def rev_append rev_rev_ident)
  have "space_len wide_spaces (TrimSpace s) = 0"
    by (rule space_len_prefix [where q = "rev p", OF _ wide_spaces_lengths])
      (simp flip: t)
  then have h: "trim_head wide_spaces (TrimSpace s) = TrimSpace s" by (rule trim_head_id)
  have "space_len ?r (rev (TrimSpace s)) = 0" by (simp add: TrimSpace_def)
  then have "trim_head ?r (rev (TrimSpace s)) = rev (TrimSpace s)" by (rule trim_head_id)
  with h show ?thesis by (metis TrimSpace_def rev_rev_ident)
qed

lemma TrimSpace_Nil [simp]: "TrimSpace [] = []"
  by (simp add: TrimSpace_def)

text \<open>A string with no white space at either end is its own trimming.\<close>

lemma TrimSpace_id:
  "space_len wide_spaces s = 0 \<Longrightarrow> space_len (map rev wide_spaces) (rev s) = 0 \<Longrightarrow> TrimSpace s = s"
  by (simp add: TrimSpace_def trim_head_id)

section \<open>Case, prefixes, cutting\<close>

definition lower_char :: "char \<Rightarrow> char" where
  "lower_char c = (if 65 \<le> (of_char c :: nat) \<and> (of_char c :: nat) \<le> 90
     then char_of (of_char c + 32 :: nat) else c)"

definition ToLower :: "string \<Rightarrow> string" where
  "ToLower s = map lower_char s"

definition EqualFold :: "string \<Rightarrow> string \<Rightarrow> bool" where
  "EqualFold s t \<longleftrightarrow> ToLower s = ToLower t"

lemma lower_char_idem [simp]: "lower_char (lower_char c) = lower_char c"
proof (cases "65 \<le> (of_char c :: nat) \<and> (of_char c :: nat) \<le> 90")
  case True
  then have "(of_char c + 32 :: nat) < 256" by simp
  then have "of_char (char_of (of_char c + 32 :: nat) :: char) = (of_char c + 32 :: nat)"
    by (simp add: of_char_of)
  with True show ?thesis by (simp add: lower_char_def)
next
  case False
  then have "lower_char c = c" by (auto simp: lower_char_def)
  then show ?thesis by simp
qed

lemma ToLower_idem [simp]: "ToLower (ToLower s) = ToLower s"
  by (simp add: ToLower_def)

lemma ToLower_Nil_iff [simp]: "ToLower s = [] \<longleftrightarrow> s = []" "[] = ToLower s \<longleftrightarrow> s = []"
  by (auto simp: ToLower_def)

fun HasPrefix :: "string \<Rightarrow> string \<Rightarrow> bool" where
  "HasPrefix s [] = True"
| "HasPrefix [] (p # ps) = False"
| "HasPrefix (c # s) (p # ps) = (c = p \<and> HasPrefix s ps)"

definition HasSuffix :: "string \<Rightarrow> string \<Rightarrow> bool" where
  "HasSuffix s p \<longleftrightarrow> HasPrefix (rev s) (rev p)"

definition TrimPrefix :: "string \<Rightarrow> string \<Rightarrow> string" where
  "TrimPrefix s p = (if HasPrefix s p then drop (length p) s else s)"

lemma HasPrefix_append_iff: "HasPrefix s p \<longleftrightarrow> (\<exists>r. s = p @ r)"
  by (induction s p rule: HasPrefix.induct) auto

lemma HasPrefix_append [simp]: "HasPrefix (p @ r) p"
  by (auto simp: HasPrefix_append_iff)

lemma TrimPrefix_append [simp]: "TrimPrefix (p @ r) p = r"
  by (simp add: TrimPrefix_def)

text \<open>The position of the first occurrence (\<open>strings.Index\<close>), \<open>None\<close> for -1.\<close>

fun Index :: "string \<Rightarrow> string \<Rightarrow> nat option" where
  "Index [] p = (if p = [] then Some 0 else None)"
| "Index (c # s) p = (if HasPrefix (c # s) p then Some 0 else map_option Suc (Index s p))"

definition Contains :: "string \<Rightarrow> string \<Rightarrow> bool" where
  "Contains s p \<longleftrightarrow> Index s p \<noteq> None"

lemma Contains_Cons: "Contains (c # s) p \<longleftrightarrow> HasPrefix (c # s) p \<or> Contains s p"
  by (simp add: Contains_def)

lemma Contains_iff: "Contains s p \<longleftrightarrow> (\<exists>a b. s = a @ p @ b)"
proof (induction s)
  case Nil
  show ?case by (auto simp: Contains_def)
next
  case (Cons c s)
  show ?case
  proof
    assume "Contains (c # s) p"
    then consider "HasPrefix (c # s) p" | "Contains s p" by (auto simp: Contains_Cons)
    then show "\<exists>a b. c # s = a @ p @ b"
    proof cases
      case 1
      then obtain r where "c # s = [] @ p @ r" unfolding HasPrefix_append_iff by auto
      then show ?thesis by blast
    next
      case 2
      then obtain a b where "s = a @ p @ b" using Cons.IH by blast
      then have "c # s = (c # a) @ p @ b" by simp
      then show ?thesis by blast
    qed
  next
    note IH = Cons.IH
    assume "\<exists>a b. c # s = a @ p @ b"
    then obtain a b where ab: "c # s = a @ p @ b" by blast
    show "Contains (c # s) p"
    proof (cases a)
      case Nil
      with ab have "HasPrefix (c # s) p" unfolding HasPrefix_append_iff by auto
      then show ?thesis by (simp add: Contains_Cons)
    next
      case (Cons x a')
      with ab have "s = a' @ p @ b" by simp
      then have "Contains s p" using IH by blast
      then show ?thesis by (simp add: Contains_Cons)
    qed
  qed
qed

text \<open>\<open>strings.Split\<close> at a one-byte separator: always at least one part.\<close>

fun Split :: "char \<Rightarrow> string \<Rightarrow> string list" where
  "Split d [] = [[]]"
| "Split d (c # s) =
     (if c = d then [] # Split d s
      else (case Split d s of [] \<Rightarrow> [[c]] | p # ps \<Rightarrow> (c # p) # ps))"

lemma Split_not_Nil [simp]: "Split d s \<noteq> []"
  by (induction s) (auto split: list.splits)

text \<open>\<open>strings.SplitN(s, d, 2)\<close>: the two sides of the first separator, or the string alone.\<close>

definition SplitN2 :: "char \<Rightarrow> string \<Rightarrow> string list" where
  "SplitN2 d s = (case dropWhile (\<lambda>c. c \<noteq> d) s of [] \<Rightarrow> [s]
     | _ # r \<Rightarrow> [takeWhile (\<lambda>c. c \<noteq> d) s, r])"

fun Join :: "string list \<Rightarrow> string \<Rightarrow> string" where
  "Join [] d = []"
| "Join [s] d = s"
| "Join (s # ss) d = s @ d @ Join ss d"

lemma Join_Cons: "ss \<noteq> [] \<Longrightarrow> Join (s # ss) d = s @ d @ Join ss d"
  by (cases ss) simp_all

lemma Join_Split: "Join (Split d s) [d] = s"
proof (induction s)
  case (Cons c s)
  obtain p ps where ps: "Split d s = p # ps" by (cases "Split d s") auto
  show ?case
  proof (cases "c = d")
    case True
    with Cons show ?thesis by (simp add: Join_Cons)
  next
    case False
    with Cons ps show ?thesis by (cases ps) simp_all
  qed
qed simp

text \<open>\<open>strings.Trim\<close> and \<open>strings.TrimLeft\<close> with a cut set of ASCII bytes.\<close>

definition TrimLeft :: "string \<Rightarrow> string \<Rightarrow> string" where
  "TrimLeft s cset = dropWhile (\<lambda>c. c \<in> set cset) s"

definition TrimCut :: "string \<Rightarrow> string \<Rightarrow> string" where
  "TrimCut s cset = rev (TrimLeft (rev (TrimLeft s cset)) cset)"

text \<open>\<open>strings.Fields\<close>: the maximal runs without white space.\<close>

function fields_acc :: "string \<Rightarrow> string \<Rightarrow> string list" where
  "fields_acc cur s =
    (case s of [] \<Rightarrow> (if cur = [] then [] else [rev cur])
     | c # r \<Rightarrow> (let n = space_len wide_spaces s in
         if n = 0 then fields_acc (c # cur) r
         else (if cur = [] then [] else [rev cur]) @ fields_acc [] (drop n s)))"
  by pat_completeness auto
termination
  by (relation "measure (\<lambda>(cur, s). length s)") auto

declare fields_acc.simps [simp del]

definition Fields :: "string \<Rightarrow> string list" where
  "Fields s = fields_acc [] s"

lemma fields_acc_not_empty: "[] \<notin> set (fields_acc cur s)"
proof (induction cur s rule: fields_acc.induct)
  case (1 cur s)
  show ?case
  proof (cases s)
    case (Cons c r)
    with 1 show ?thesis
      by (cases "space_len wide_spaces s = 0") (simp_all add: fields_acc.simps [of cur "c # r"] Let_def)
  qed (simp add: fields_acc.simps)
qed

lemma Fields_not_empty: "[] \<notin> set (Fields s)"
  by (simp add: Fields_def fields_acc_not_empty)

section \<open>Numbers\<close>

definition is_digit :: "char \<Rightarrow> bool" where
  "is_digit c \<longleftrightarrow> 48 \<le> (of_char c :: int) \<and> (of_char c :: int) \<le> 57"

definition digit_val :: "char \<Rightarrow> int" where
  "digit_val c = of_char c - 48"

datatype uint_scan = Scanned int | SyntaxErr | RangeErr

text \<open>\<open>strconv.ParseUint(s, 10, 64)\<close> on a non-empty string: the scan stops at the first bad byte
  or at the first value past 64 bits.\<close>

fun scan_uint :: "int \<Rightarrow> string \<Rightarrow> uint_scan" where
  "scan_uint n [] = Scanned n"
| "scan_uint n (c # s) =
    (if \<not> is_digit c then SyntaxErr
     else if 10 * n + digit_val c > 18446744073709551615 then RangeErr
     else scan_uint (10 * n + digit_val c) s)"

lemma digit_val_nonneg: "is_digit c \<Longrightarrow> 0 \<le> digit_val c"
  by (simp add: is_digit_def digit_val_def)

lemma scan_uint_nonneg: "0 \<le> n \<Longrightarrow> scan_uint n s = Scanned m \<Longrightarrow> 0 \<le> m"
  by (induction n s rule: scan_uint.induct) (auto simp: digit_val_nonneg split: if_splits)

text \<open>
  \<open>strconv.ParseInt(s, 10, 64)\<close> and \<open>strconv.Atoi\<close>: the value and whether it parsed. On a syntax
  error the value is 0; on a range error it is the nearest bound. Callers that drop the error
  use that value.
\<close>

definition ParseInt :: "string \<Rightarrow> int \<times> bool" where
  "ParseInt s =
    (let neg = (case s of c # _ \<Rightarrow> c = CHR ''-'' | [] \<Rightarrow> False);
         body = (case s of c # r \<Rightarrow> if c = CHR ''-'' \<or> c = CHR ''+'' then r else s | [] \<Rightarrow> [])
     in if body = [] then (0, False)
        else (case scan_uint 0 body of
            SyntaxErr \<Rightarrow> (0, False)
          | RangeErr \<Rightarrow> (if neg then - 9223372036854775808 else 9223372036854775807, False)
          | Scanned n \<Rightarrow>
              if \<not> neg \<and> n \<ge> 9223372036854775808 then (9223372036854775807, False)
              else if neg \<and> n > 9223372036854775808 then (- 9223372036854775808, False)
              else (if neg then - n else n, True)))"

lemma ParseInt_in_i64: "in_i64 (fst (ParseInt s))"
  using scan_uint_nonneg [of 0]
  by (auto simp: ParseInt_def in_i64_def Let_def split: uint_scan.splits)
    (fastforce simp: not_le)+

text \<open>\<open>strconv.Itoa\<close>, \<open>%d\<close>.\<close>

fun dec_nat :: "nat \<Rightarrow> string" where
  "dec_nat n = (if n < 10 then [char_of (48 + n)] else dec_nat (n div 10) @ [char_of (48 + n mod 10)])"

declare dec_nat.simps [simp del]

definition Itoa :: "int \<Rightarrow> string" where
  "Itoa z = (if z < 0 then CHR ''-'' # dec_nat (nat (- z)) else dec_nat (nat z))"

section \<open>Runes, replacement\<close>

text \<open>\<open>len([]rune(s))\<close> of a valid UTF-8 text: the bytes that do not continue a rune.\<close>

definition rune_count :: "string \<Rightarrow> nat" where
  "rune_count s = length (filter (\<lambda>c. (of_char c :: nat) div 64 \<noteq> 2) s)"

text \<open>\<open>strings.ReplaceAll\<close> for a pattern that is not empty; the fuel is the length of the text.\<close>

fun replace_fuel :: "nat \<Rightarrow> string \<Rightarrow> string \<Rightarrow> string \<Rightarrow> string" where
  "replace_fuel 0 s p r = s"
| "replace_fuel (Suc k) [] p r = []"
| "replace_fuel (Suc k) (c # s) p r =
     (if HasPrefix (c # s) p then r @ replace_fuel k (drop (length p) (c # s)) p r
      else c # replace_fuel k s p r)"

definition ReplaceAll :: "string \<Rightarrow> string \<Rightarrow> string \<Rightarrow> string" where
  "ReplaceAll s p r = replace_fuel (length s) s p r"

end
