(* ===== verification/Json_Value.thy ===== *)
theory Json_Value
  imports GoStrings "HOL-Library.AList" Complex_Main
begin

text \<open>
  A JSON value as \<open>encoding/json\<close> decodes it into \<open>any\<close>, and the configurations the settings keep: a
  \<open>map[string]any\<close> is the list of its members, of which the first one counts. A \<open>float64\<close> is the rational it
  denotes. The conversions are those of \<open>api/router/notifications.go\<close> and \<open>auth_providers.go\<close>.
\<close>

datatype jvalue =
    VNull
  | VBool bool
  | VNum rat
  | VStr string
  | VList "jvalue list"
  | VObj "(string \<times> jvalue) list"

type_synonym members = "(string \<times> jvalue) list"

text \<open>\<open>m[k]\<close>, \<open>m[k] = v\<close> and \<open>delete(m, k)\<close>; a missing key reads as nil.\<close>

definition json_get :: "members \<Rightarrow> string \<Rightarrow> jvalue" where
  "json_get m k = (case map_of m k of None \<Rightarrow> VNull | Some v \<Rightarrow> v)"

definition json_set :: "string \<Rightarrow> jvalue \<Rightarrow> members \<Rightarrow> members" where
  "json_set k v m = AList.update k v m"

definition json_drop :: "string \<Rightarrow> members \<Rightarrow> members" where
  "json_drop k m = filter (\<lambda>(q, _). q \<noteq> k) m"

lemma map_of_json_set [simp]: "map_of (json_set k v m) = (map_of m)(k \<mapsto> v)"
  by (simp add: json_set_def update_conv')

lemma map_of_json_drop [simp]: "map_of (json_drop k m) q = (if q = k then None else map_of m q)"
  by (induction m) (auto simp: json_drop_def)

lemma json_get_set [simp]: "json_get (json_set k v m) q = (if q = k then v else json_get m q)"
  by (simp add: json_get_def)

lemma json_get_drop [simp]: "json_get (json_drop k m) q = (if q = k then VNull else json_get m q)"
  by (simp add: json_get_def)

section \<open>Conversions\<close>

definition stringValue :: "jvalue \<Rightarrow> string" where
  "stringValue v = (case v of VStr s \<Rightarrow> TrimSpace s | _ \<Rightarrow> [])"

definition boolValue :: "jvalue \<Rightarrow> bool" where
  "boolValue v = (case v of VBool b \<Rightarrow> b | _ \<Rightarrow> False)"

lemma stringValue_simps [simp]:
  "stringValue VNull = []" "stringValue (VBool b) = []" "stringValue (VNum q) = []"
  "stringValue (VStr s) = TrimSpace s" "stringValue (VList vs) = []" "stringValue (VObj ms) = []"
  by (simp_all add: stringValue_def)

lemma boolValue_simps [simp]:
  "boolValue VNull = False" "boolValue (VBool b) = b" "boolValue (VNum q) = False"
  "boolValue (VStr s) = False" "boolValue (VList vs) = False" "boolValue (VObj ms) = False"
  by (simp_all add: boolValue_def)

text \<open>
  \<open>strconv.ParseFloat\<close>, whose error is dropped: 0 for a text that is no number, an infinity for one out of the
  range of a \<open>float64\<close>. A decimal number is the rational it denotes, without the rounding to 53 bits; hexadecimal
  numbers are not read.
\<close>

datatype go_float = Finite rat | PosInf | NegInf | NotANumber

fun scan_digits :: "nat \<Rightarrow> nat \<Rightarrow> string \<Rightarrow> nat \<times> nat \<times> string" where
  "scan_digits v n [] = (v, n, [])"
| "scan_digits v n (c # s) =
    (if is_digit c then scan_digits (10 * v + nat (digit_val c)) (Suc n) s else (v, n, c # s))"

definition scan_fraction :: "nat \<Rightarrow> nat \<Rightarrow> string \<Rightarrow> nat \<times> nat \<times> nat \<times> string" where
  "scan_fraction v n s = (case s of
      c # r \<Rightarrow> if c = CHR ''.'' then (let (v', m, r') = scan_digits v 0 r in (v', n + m, m, r')) else (v, n, 0, s)
    | [] \<Rightarrow> (v, n, 0, []))"

definition sign_of :: "string \<Rightarrow> bool \<times> string" where
  "sign_of s = (case s of
      c # r \<Rightarrow> if c = CHR ''-'' then (True, r) else if c = CHR ''+'' then (False, r) else (False, s)
    | [] \<Rightarrow> (False, []))"

text \<open>The exponent, if the rest of the text is one.\<close>

definition scan_exponent :: "string \<Rightarrow> int option" where
  "scan_exponent s = (case s of
      [] \<Rightarrow> Some 0
    | c # r \<Rightarrow>
        if c = CHR ''e'' \<or> c = CHR ''E'' then
          (let (neg, t) = sign_of r; (e, n, rest) = scan_digits 0 0 t in
           if n = 0 \<or> rest \<noteq> [] then None else Some (if neg then - int e else int e))
        else None)"

definition power10 :: "int \<Rightarrow> rat" where
  "power10 e = (if 0 \<le> e then 10 ^ nat e else 1 / 10 ^ nat (- e))"

definition ParseFloat :: "string \<Rightarrow> go_float" where
  "ParseFloat s =
    (let (neg, t) = sign_of s; word = ToLower t in
     if word = ''inf'' \<or> word = ''infinity'' then (if neg then NegInf else PosInf)
     else if word = ''nan'' \<and> t = s then NotANumber
     else
      (let (v, n, r) = scan_digits 0 0 t; (v, n, m, r) = scan_fraction v n r in
       if n = 0 then Finite 0
       else (case scan_exponent r of
           None \<Rightarrow> Finite 0
         | Some e \<Rightarrow>
            (let q = of_nat v * power10 (e - int m) in
             if q \<ge> 2 ^ 1024 then (if neg then NegInf else PosInf)
             else if q \<le> 1 / 2 ^ 1075 then Finite 0
             else Finite (if neg then - q else q)))))"

definition numberValue :: "jvalue \<Rightarrow> go_float" where
  "numberValue v = (case v of VNum q \<Rightarrow> Finite q | VStr s \<Rightarrow> ParseFloat (TrimSpace s) | _ \<Rightarrow> Finite 0)"

text \<open>\<open>x <= 0\<close>, and \<open>int(x)\<close>, the smallest integer for what has none (amd64).\<close>

definition not_positive :: "go_float \<Rightarrow> bool" where
  "not_positive x = (case x of Finite q \<Rightarrow> q \<le> 0 | PosInf \<Rightarrow> False | NegInf \<Rightarrow> True | NotANumber \<Rightarrow> False)"

definition truncate_rat :: "rat \<Rightarrow> int" where
  "truncate_rat q = (if 0 \<le> q then \<lfloor>q\<rfloor> else \<lceil>q\<rceil>)"

definition int_of_float :: "go_float \<Rightarrow> int" where
  "int_of_float x = (case x of
      Finite q \<Rightarrow> if in_i64 (truncate_rat q) then truncate_rat q else - 9223372036854775808
    | _ \<Rightarrow> - 9223372036854775808)"

definition stringList :: "jvalue \<Rightarrow> string list" where
  "stringList v = (case v of
      VList vs \<Rightarrow> filter (\<lambda>t. t \<noteq> []) (map stringValue vs)
    | _ \<Rightarrow> [])"

section \<open>Cleaning a configuration\<close>

definition clean_item :: "jvalue \<Rightarrow> jvalue option" where
  "clean_item v = (case v of
      VStr s \<Rightarrow> if TrimSpace s = [] then None else Some (VStr (TrimSpace s))
    | VNull \<Rightarrow> None
    | _ \<Rightarrow> Some v)"

fun removeEmptyConfigValues :: "members \<Rightarrow> members" and clean_value :: "jvalue \<Rightarrow> jvalue option" where
  "clean_value VNull = None"
| "clean_value (VBool b) = Some (VBool b)"
| "clean_value (VNum q) = (if q \<le> 0 then None else Some (VNum q))"
| "clean_value (VStr s) = (if TrimSpace s = [] then None else Some (VStr (TrimSpace s)))"
| "clean_value (VList vs) =
    (let items = List.map_filter clean_item vs in if items = [] then None else Some (VList items))"
| "clean_value (VObj ms) =
    (let cleaned = removeEmptyConfigValues ms in if cleaned = [] then None else Some (VObj cleaned))"
| "removeEmptyConfigValues [] = []"
| "removeEmptyConfigValues ((k, v) # ms) =
    (case clean_value v of
      None \<Rightarrow> removeEmptyConfigValues ms
    | Some w \<Rightarrow> (k, w) # removeEmptyConfigValues ms)"

definition trim_texts :: "members \<Rightarrow> members" where
  "trim_texts m = map (\<lambda>(k, v). (k, case v of VStr s \<Rightarrow> VStr (TrimSpace s) | _ \<Rightarrow> v)) m"

section \<open>Decoding into a struct\<close>

text \<open>
  A field of a struct: the member with its name, or else one whose name differs from it in case only. Two
  members of one spelling besides the exact one do not occur in what the browsers send.
\<close>

definition json_field :: "members \<Rightarrow> string \<Rightarrow> jvalue" where
  "json_field m k = (case map_of m k of
      Some v \<Rightarrow> v
    | None \<Rightarrow> (case find (\<lambda>(q, _). EqualFold q k) m of None \<Rightarrow> VNull | Some (_, v) \<Rightarrow> v))"

definition text_field :: "members \<Rightarrow> string \<Rightarrow> string" where
  "text_field m k = (case json_field m k of VStr s \<Rightarrow> s | _ \<Rightarrow> [])"

definition bool_field :: "members \<Rightarrow> string \<Rightarrow> bool" where
  "bool_field m k = (case json_field m k of VBool b \<Rightarrow> b | _ \<Rightarrow> False)"

definition int_field :: "members \<Rightarrow> string \<Rightarrow> int" where
  "int_field m k = (case json_field m k of VNum q \<Rightarrow> \<lfloor>q\<rfloor> | _ \<Rightarrow> 0)"

text \<open>Whether \<open>json.Unmarshal\<close> takes the member for a string, a bool, an int; null is taken for any of them.\<close>

definition is_text :: "jvalue \<Rightarrow> bool" where
  "is_text v = (case v of VStr _ \<Rightarrow> True | VNull \<Rightarrow> True | _ \<Rightarrow> False)"

definition is_bool :: "jvalue \<Rightarrow> bool" where
  "is_bool v = (case v of VBool _ \<Rightarrow> True | VNull \<Rightarrow> True | _ \<Rightarrow> False)"

definition is_int :: "jvalue \<Rightarrow> bool" where
  "is_int v = (case v of VNum q \<Rightarrow> q = of_int \<lfloor>q\<rfloor> \<and> in_i64 \<lfloor>q\<rfloor> | VNull \<Rightarrow> True | _ \<Rightarrow> False)"

end
