(* ===== verification/Domain.thy ===== *)
theory Domain
  imports Json_Value
begin

text \<open>
  The data of the backend: the structs of \<open>internal/domain\<close>, the rows of the tables the
  migrations create, the database as one state, and what a statement is. A time is an instant in
  seconds. An identifier is the canonical text of a UUID; a text that is no UUID makes
  PostgreSQL refuse the statement, which is one of the failures \<open>faults\<close> schedules.
\<close>

section \<open>Domain structs\<close>

record role =
  role_id :: string
  role_key :: string
  role_name :: string
  role_description :: string
  role_permissions :: "string list"
  role_builtin :: bool
  role_created_at :: int
  role_updated_at :: int

record user =
  ID :: string
  Username :: string
  Email :: string
  DisplayName :: string
  Role :: string
  Source :: string
  Roles :: "role list"
  Permissions :: "string list"
  Disabled :: bool
  LastLoginAt :: "int option"
  CreatedAt :: int
  UpdatedAt :: int

record user_group =
  group_id :: string
  group_name :: string
  group_description :: string
  group_disabled :: bool
  group_members_of :: "user list"
  group_roles_of :: "role list"

record session =
  sess_token :: string
  sess_expires_at :: int
  sess_user :: user
  sess_wecom_bound :: bool

record user_session =
  jti :: string
  us_user_id :: string
  us_username :: string
  us_source :: string
  us_created_at :: int
  us_expires_at :: int

record agent =
  agent_id :: string
  agent_name :: string
  agent_endpoint :: string
  agent_tls_insecure :: bool
  agent_status :: string
  agent_version :: string
  agent_capabilities :: "string list"
  agent_last_heartbeat_at :: "int option"
  agent_last_error :: string
  agent_token_hash :: string
  agent_token_ciphertext :: string
  agent_failure_count :: int
  agent_last_sync_started_at :: "int option"
  agent_last_sync_finished_at :: "int option"
  agent_created_at :: int
  agent_updated_at :: int

text \<open>The value of a metadata entry (\<open>map[string]any\<close>).\<close>

datatype json = JStr string | JInt int | JBool bool

record alert =
  alert_id :: string
  alert_level :: string
  alert_status :: string
  alert_source_type :: string
  alert_source_id :: string
  alert_title :: string
  alert_message :: string
  alert_metadata :: "string \<rightharpoonup> json"
  alert_first_seen_at :: int
  alert_last_seen_at :: int
  alert_resolved_at :: "int option"
  alert_notification_sent_at :: "int option"
  alert_read_at :: "int option"
  alert_dismissed_at :: "int option"
  alert_created_at :: int
  alert_updated_at :: int

text \<open>\<open>realtime.RefreshProgress\<close>, the payload of the refresh tasks.\<close>

record refresh_agent_result =
  rr_id :: string
  rr_name :: string
  rr_status :: string
  rr_error :: string

record refresh_progress =
  TotalAgents :: int
  SyncedAgents :: int
  FailedAgents :: int
  CurrentAgent :: string
  Message :: string
  StartedAt :: "int option"
  FinishedAt :: "int option"
  AgentResults :: "refresh_agent_result list"

text \<open>The payload of a task: the progress of a refresh, or a JSON object.\<close>

datatype task_payload =
    Progress refresh_progress
  | Fields "string \<rightharpoonup> json"

record task =
  task_id :: string
  task_type :: string
  task_status :: string
  task_target_type :: string
  task_target_id :: string
  task_payload_of :: task_payload
  task_error_message :: string
  task_created_by :: string
  task_created_at :: int
  task_updated_at :: int
  task_finished_at :: "int option"

record VMDisk =
  vd_Name :: string
  vd_Path :: string
  vd_Bytes :: int
  vd_UsedBytes :: int

record VirtualMachine =
  vm_ID :: string
  vm_HostID :: string
  vm_HostName :: string
  vm_Name :: string
  vm_UUID :: string
  vm_Description :: string
  vm_OSType :: string
  vm_Status :: string
  vm_CPUCores :: int
  vm_MemoryBytes :: int
  vm_DiskBytes :: int
  vm_DiskUsedBytes :: int
  vm_Disks :: "VMDisk list"
  vm_PrimaryIP :: string
  vm_CPUUsage :: int
  vm_CPUUsageAvailable :: bool
  vm_MemoryUsage :: int
  vm_MemoryUsageAvailable :: bool
  vm_DiskUsage :: int
  vm_DiskUsageAvailable :: bool
  vm_DiskReadBytesPerSec :: int
  vm_DiskWriteBytesPerSec :: int
  vm_NetworkRxBytesPerSec :: int
  vm_NetworkTxBytesPerSec :: int
  vm_UptimeSeconds :: int
  vm_IsTemplate :: bool
  vm_TemplateID :: string
  vm_TemplateName :: string
  vm_TemplateDescription :: string
  vm_CreatedAt :: int
  vm_UpdatedAt :: int

record Host =
  h_ID :: string
  h_Name :: string
  h_Address :: string
  h_Hostname :: string
  h_Cluster :: string
  h_Status :: string
  h_CPUCores :: int
  h_CPUUsage :: int
  h_MemoryBytes :: int
  h_MemoryUsage :: int
  h_StorageBytes :: int
  h_StorageUsage :: int
  h_DiskReadBytesPerSec :: int
  h_DiskWriteBytesPerSec :: int
  h_NetworkRxBytesPerSec :: int
  h_NetworkTxBytesPerSec :: int
  h_VMCount :: int
  h_KVMVersion :: string
  h_KVMFullVersion :: string
  h_CreatedAt :: int
  h_UpdatedAt :: int

record Snapshot =
  sn_ID :: string
  sn_HostID :: string
  sn_HostName :: string
  sn_VMID :: string
  sn_VMName :: string
  sn_Name :: string
  sn_DisplayName :: string
  sn_Description :: string
  sn_Tags :: "string list"
  sn_SizeBytes :: int
  sn_Type :: string
  sn_Status :: string
  sn_CreatedAt :: int
  sn_UpdatedAt :: int

record MetricPoint =
  mp_Time :: int
  mp_CPU :: int
  mp_Memory :: int
  mp_Storage :: int
  mp_Disk :: int
  mp_DiskRead :: int
  mp_DiskWrite :: int
  mp_NetworkRx :: int
  mp_NetworkTx :: int
  mp_VMCount :: int

section \<open>Rows\<close>

record user_row =
  ur_id :: string
  ur_username :: string
  ur_email :: string
  ur_password_hash :: string
  ur_display_name :: string
  ur_role :: string
  ur_source :: string
  ur_disabled :: bool
  ur_last_login_at :: "int option"
  ur_created_at :: int
  ur_updated_at :: int

record group_row =
  gr_id :: string
  gr_name :: string
  gr_description :: string
  gr_disabled :: bool

record auth_state =
  as_state :: string
  as_provider :: string
  as_purpose :: string
  as_user_id :: string
  as_redirect :: string
  as_remote_ip :: string
  as_expires_at :: int

record channel =
  ch_id :: string
  ch_enabled :: bool
  ch_password_reset_enabled :: bool
  ch_config :: members

record delivery =
  dl_id :: string
  dl_alert_id :: string
  dl_event_type :: string
  dl_channel_id :: string
  dl_status :: string
  dl_error :: string
  dl_retry_count :: int
  dl_next_retry_at :: int
  dl_last_attempt_at :: "int option"
  dl_sent_at :: "int option"
  dl_created_at :: int
  dl_updated_at :: int

record audit_row =
  au_user_id :: string
  au_action :: string
  au_resource_type :: string
  au_resource_id :: string
  au_ip :: string
  au_metadata :: "string \<rightharpoonup> json"
  au_created_at :: int

text \<open>
  The key of a configuration that \<open>notificationConfigSendRecovery\<close> and the template settings read. An error of
  the decoder is dropped.
\<close>

definition ch_send_recovery :: "channel \<Rightarrow> bool" where
  "ch_send_recovery c = bool_field (ch_config c) ''sendRecovery''"

text \<open>A row of \<open>password_reset_tokens\<close>, and the configuration of an LDAP provider as it is decoded.\<close>

record reset_token =
  rt_id :: string
  rt_user_id :: string
  rt_channel_id :: string
  rt_contact :: string
  rt_code_hash :: string
  rt_request_ip :: string
  rt_expires_at :: int
  rt_used_at :: "int option"
  rt_created_at :: int

record LDAPConfig =
  ldap_Host :: string
  ldap_Port :: int
  ldap_BaseDN :: string
  ldap_UserFilter :: string
  ldap_BindDN :: string
  ldap_BindPassword :: string
  ldap_UseTLS :: bool
  ldap_StartTLS :: bool
  ldap_InsecureSkipVerify :: bool
  ldap_UsernameAttribute :: string
  ldap_DisplayNameAttribute :: string
  ldap_EmailAttribute :: string
  ldap_TimeoutSeconds :: int
  ldap_GroupFilter :: string

record auth_provider =
  ap_id :: string
  ap_type :: string
  ap_name :: string
  ap_enabled :: bool
  ap_config :: members

text \<open>
  \<open>domain.SystemBaseConfig\<close>, and the JSON text of the settings row as \<open>decodeSystemBaseConfig\<close> reads
  it: a missing key is the zero value (\<open>None\<close> for the one pointer). The one \<open>float64\<close> is the
  rational it denotes.
\<close>

record base_config =
  SiteName :: string
  LoginName :: string
  AppName :: string
  AppSubtitle :: string
  IconData :: string
  PasswordResetCodeTTLMinutes :: int
  PasswordResetCaptchaTTLMinutes :: int
  PasswordResetSendCooldownMinutes :: rat
  PasswordResetRateLimitMinutes :: int
  ResourceWarningThreshold :: int
  ResourceCriticalThreshold :: int
  ResourceAlertConsecutiveCount :: int
  AgentOfflineFailureCount :: int
  AlertNotificationTimeoutSeconds :: int
  AlertNotificationMaxRetryCount :: int
  AlertNotificationRetryBaseSeconds :: int
  AlertNotificationRetryMaxMinutes :: int
  AlertNotificationBatchSize :: int
  WecomStateTTLMinutes :: int
  LoginMaxFailures :: int
  LoginLockoutMinutes :: int

record base_payload =
  siteName :: string
  loginName :: string
  appName :: string
  appSubtitle :: string
  iconData :: string
  passwordResetCodeTtlMinutes :: int
  passwordResetCaptchaTtlMinutes :: int
  passwordResetSendCooldownMinutes :: rat
  passwordResetRateLimitMinutes :: int
  resourceWarningThreshold :: int
  resourceCriticalThreshold :: int
  resourceAlertConsecutiveCount :: int
  agentOfflineFailureCount :: int
  alertNotificationTimeoutSeconds :: int
  alertNotificationMaxRetryCount :: "int option"
  alertNotificationRetryBaseSeconds :: int
  alertNotificationRetryMaxMinutes :: int
  alertNotificationBatchSize :: int
  wecomStateTtlMinutes :: int
  loginMaxFailures :: int
  loginLockoutMinutes :: int

text \<open>\<open>vm_template_marks\<close>, \<open>snapshot_annotations\<close>, and the samples and averages of the metrics.\<close>

record VMTemplateMark =
  tm_id :: string
  tm_agent_id :: string
  tm_vm_uuid :: string
  tm_name :: string
  tm_description :: string
  tm_created_by :: string
  tm_created_at :: int
  tm_updated_at :: int

record snapshot_annotation =
  sa_agent_id :: string
  sa_vm_name :: string
  sa_snapshot_name :: string
  sa_display_name :: string
  sa_description :: string
  sa_tags :: "string list"

record HostMetricSample =
  hs_AgentID :: string
  hs_HostName :: string
  hs_CPUUsage :: int
  hs_MemoryUsage :: int
  hs_MemoryBytes :: int
  hs_StorageUsage :: int
  hs_StorageBytes :: int
  hs_DiskReadBytesPerSec :: int
  hs_DiskWriteBytesPerSec :: int
  hs_NetworkRxBytesPerSec :: int
  hs_NetworkTxBytesPerSec :: int
  hs_VMCount :: int
  hs_CollectedAt :: int

record VMMetricSample =
  vs_AgentID :: string
  vs_VMID :: string
  vs_VMName :: string
  vs_Status :: string
  vs_CPUUsage :: int
  vs_CPUUsageAvailable :: bool
  vs_MemoryUsage :: int
  vs_MemoryUsageAvailable :: bool
  vs_DiskUsage :: int
  vs_DiskUsageAvailable :: bool
  vs_DiskReadBytesPerSec :: int
  vs_DiskWriteBytesPerSec :: int
  vs_NetworkRxBytesPerSec :: int
  vs_NetworkTxBytesPerSec :: int
  vs_UptimeSeconds :: int
  vs_CollectedAt :: int

record host_rollup =
  hr_bucket_size :: string
  hr_bucket_at :: int
  hr_agent_id :: string
  hr_host_name :: string
  hr_cpu_usage :: int
  hr_memory_usage :: int
  hr_storage_usage :: int
  hr_disk_read :: int
  hr_disk_write :: int
  hr_network_rx :: int
  hr_network_tx :: int
  hr_vm_count :: int

record vm_rollup =
  vr_bucket_size :: string
  vr_bucket_at :: int
  vr_agent_id :: string
  vr_vm_id :: string
  vr_vm_name :: string
  vr_status :: string
  vr_cpu_usage :: int
  vr_memory_usage :: int
  vr_disk_usage :: int
  vr_disk_read :: int
  vr_disk_write :: int
  vr_network_rx :: int
  vr_network_tx :: int

section \<open>The database\<close>

record db =
  faults :: "bool list"
  clock :: int
  uuids :: "string list"
  users :: "user_row list"
  roles :: "role list"
  user_roles :: "(string \<times> string) list"
  user_groups :: "group_row list"
  group_members :: "(string \<times> string) list"
  group_roles :: "(string \<times> string) list"
  sessions :: "user_session list"
  login_failures :: "(string \<times> int) list"
  auth_states :: "auth_state list"
  wecom_bindings :: "(string \<times> string) list"
  agents :: "agent list"
  tasks :: "task list"
  alerts :: "alert list"
  channels :: "channel list"
  deliveries :: "delivery list"
  audit_log :: "audit_row list"
  settings :: "base_payload option"
  auth_providers :: "auth_provider list"
  reset_tokens :: "reset_token list"
  template_marks :: "VMTemplateMark list"
  annotations :: "snapshot_annotation list"
  host_samples :: "HostMetricSample list"
  vm_samples :: "VMMetricSample list"
  host_rollups :: "host_rollup list"
  vm_rollups :: "vm_rollup list"

datatype store_error =
    ErrNotFound | UniqueViolation | ForeignKeyViolation | ErrWecomAlreadyBound | DbFailure

type_synonym 'a db_prog = "(db, store_error, 'a) prog"

text \<open>
  One statement. \<open>faults\<close> says which of the statements to come fail for a reason outside the
  program (a lost connection, a timeout, a malformed identifier): such a statement returns an
  error and changes no table. The theorems either hold for every list or say that it is empty.
\<close>

definition stmt :: "(db \<Rightarrow> (store_error + 'a) \<times> db) \<Rightarrow> 'a db_prog" where
  "stmt f d = (case faults d of
      [] \<Rightarrow> f d
    | b # fs \<Rightarrow> if b then (Inl DbFailure, d\<lparr>faults := fs\<rparr>) else f (d\<lparr>faults := fs\<rparr>))"

text \<open>A query, and an update that returns nothing or the number of rows it touched.\<close>

definition query :: "(db \<Rightarrow> 'a) \<Rightarrow> 'a db_prog" where
  "query f = stmt (\<lambda>d. (Inr (f d), d))"

definition exec :: "(db \<Rightarrow> db) \<Rightarrow> unit db_prog" where
  "exec f = stmt (\<lambda>d. (Inr (), f d))"

definition exec_count :: "(db \<Rightarrow> nat) \<Rightarrow> (db \<Rightarrow> db) \<Rightarrow> nat db_prog" where
  "exec_count n f = stmt (\<lambda>d. (Inr (n d), f d))"

text \<open>\<open>DEFAULT gen_random_uuid()\<close>: the next identifier of the supply.\<close>

definition gen_uuid :: "db \<Rightarrow> string \<times> db" where
  "gen_uuid d = (case uuids d of [] \<Rightarrow> ([], d) | u # us \<Rightarrow> (u, d\<lparr>uuids := us\<rparr>))"

lemma stmt_no_fault [run_simps]: "faults d = [] \<Longrightarrow> stmt f d = f d"
  by (simp add: stmt_def)

lemma query_no_fault [run_simps]: "faults d = [] \<Longrightarrow> query f d = (Inr (f d), d)"
  by (simp add: query_def stmt_def)

lemma exec_no_fault [run_simps]: "faults d = [] \<Longrightarrow> exec f d = (Inr (), f d)"
  by (simp add: exec_def stmt_def)

lemma exec_count_no_fault [run_simps]: "faults d = [] \<Longrightarrow> exec_count n f d = (Inr (n d), f d)"
  by (simp add: exec_count_def stmt_def)

text \<open>An invariant of the tables does not see the fault script.\<close>

definition fault_blind :: "(db \<Rightarrow> bool) \<Rightarrow> bool" where
  "fault_blind I \<longleftrightarrow> (\<forall>d fs. I (d\<lparr>faults := fs\<rparr>) = I d)"

lemma keeps_stmt:
  assumes "fault_blind I" "\<And>d. I d \<Longrightarrow> I (snd (f d))"
  shows "keeps I (stmt f)"
proof (rule keepsI)
  fix d assume "I d"
  with assms show "I (snd (stmt f d))"
    by (cases "faults d") (auto simp: stmt_def fault_blind_def)
qed

lemma keeps_query [keeps_intros]: "fault_blind I \<Longrightarrow> keeps I (query f)"
  unfolding query_def by (rule keeps_stmt) auto

lemma keeps_exec [keeps_intros]:
  "fault_blind I \<Longrightarrow> (\<And>d. I d \<Longrightarrow> I (f d)) \<Longrightarrow> keeps I (exec f)"
  unfolding exec_def by (rule keeps_stmt) auto

lemma keeps_exec_count [keeps_intros]:
  "fault_blind I \<Longrightarrow> (\<And>d. I d \<Longrightarrow> I (f d)) \<Longrightarrow> keeps I (exec_count n f)"
  unfolding exec_count_def by (rule keeps_stmt) auto

text \<open>\<open>time.Now()\<close> is no statement.\<close>

definition now :: "(db, 'e, int) prog" where
  "now d = (Inr (clock d), d)"

lemma keeps_now [keeps_intros]: "keeps I now"
  by (simp add: keeps_def now_def)

text \<open>A statement that fails, whatever the reason, returns an error and leaves its tables.\<close>

lemma query_InrD: "query f d = (Inr x, d') \<Longrightarrow> \<exists>fs. d' = d\<lparr>faults := fs\<rparr> \<and> x = f d'"
  by (cases d) (auto simp: query_def stmt_def split: list.splits if_splits)

lemma query_snd: "\<exists>fs. snd (query f d) = d\<lparr>faults := fs\<rparr>"
  by (cases d) (auto simp: query_def stmt_def split: list.splits)

end
