(* ===== verification/Access_Repo.thy ===== *)
theory Access_Repo
  imports Domain "HOL-Library.List_Lexorder" "HOL-Library.Char_ord" "HOL-Library.Product_Lexorder"
begin

text \<open>
  \<open>backend/internal/repository/rbac.go\<close> and the user queries of \<open>repository.go\<close>: permissions and
  their normalisation, users, roles, groups, the roles a user effectively has. Each function is the
  Go function, its SQL statements written over the tables of \<open>db\<close>. Text is ordered by its bytes.
\<close>

section \<open>Permissions\<close>

text \<open>The keys of \<open>BuiltinPermissions\<close>, in order; names, descriptions and categories are text for the
  user interface.\<close>

definition BuiltinPermissions :: "string list" where
  "BuiltinPermissions =
    [''dashboard.read'', ''hosts.read'', ''host.interfaces.read'', ''host.interfaces.manage'',
     ''agents.read'', ''agents.manage'',
     ''vms.read'', ''vms.create'', ''vms.update'', ''vms.power'', ''vms.delete'', ''vms.force'',
     ''vms.console'', ''vms.clone'', ''vms.migrate'',
     ''snapshots.read'', ''snapshots.create'', ''snapshots.update'', ''snapshots.revert'',
     ''snapshots.delete'',
     ''storage.read'', ''storage.manage'', ''network.read'', ''network.manage'',
     ''operations.read'', ''alerts.manage'',
     ''settings.base.read'', ''settings.base.manage'', ''settings.users.read'',
     ''settings.users.manage'', ''settings.auth.read'', ''settings.auth.manage'',
     ''settings.notifications.read'', ''settings.notifications.manage'']"

definition ImpliedReadPermissions :: "(string \<times> string) list" where
  "ImpliedReadPermissions =
    [(''agents.manage'', ''agents.read''), (''host.interfaces.manage'', ''host.interfaces.read''),
     (''vms.create'', ''vms.read''), (''vms.update'', ''vms.read''), (''vms.power'', ''vms.read''),
     (''vms.delete'', ''vms.read''), (''vms.force'', ''vms.read''), (''vms.console'', ''vms.read''),
     (''vms.clone'', ''vms.read''), (''vms.migrate'', ''vms.read''),
     (''snapshots.create'', ''snapshots.read''), (''snapshots.update'', ''snapshots.read''),
     (''snapshots.revert'', ''snapshots.read''), (''snapshots.delete'', ''snapshots.read''),
     (''storage.manage'', ''storage.read''), (''network.manage'', ''network.read''),
     (''alerts.manage'', ''operations.read''), (''settings.base.manage'', ''settings.base.read''),
     (''settings.users.manage'', ''settings.users.read''),
     (''settings.auth.manage'', ''settings.auth.read''),
     (''settings.notifications.manage'', ''settings.notifications.read'')]"

text \<open>The loop of \<open>normalizePermissions\<close>: \<open>seen\<close> collects each permission and its read counterpart.\<close>

fun collect_permissions :: "string list \<Rightarrow> string list \<Rightarrow> string list" where
  "collect_permissions seen [] = seen"
| "collect_permissions seen (p # ps) =
    (let permission = TrimSpace p in
     if permission = [] then collect_permissions seen ps
     else (case map_of ImpliedReadPermissions permission of
         None \<Rightarrow> collect_permissions (permission # seen) ps
       | Some readPermission \<Rightarrow> collect_permissions (readPermission # permission # seen) ps))"

definition normalizePermissions :: "string list \<Rightarrow> string list" where
  "normalizePermissions permissions = sort (remdups (collect_permissions [] permissions))"

definition uniquePermissions :: "role list \<Rightarrow> string list" where
  "uniquePermissions rs = sort (remdups
     (filter (\<lambda>p. p \<noteq> []) (map TrimSpace (concat (map role_permissions rs)))))"

section \<open>Normalising lists of names\<close>

text \<open>The loop the three normalisers share: trim, drop what is blank, keep first occurrences.\<close>

fun norm_loop :: "string list \<Rightarrow> string list \<Rightarrow> string list" where
  "norm_loop seen [] = []"
| "norm_loop seen (v # vs) =
    (let value = TrimSpace v in
     if value = [] then norm_loop seen vs
     else if value \<in> set seen then norm_loop seen vs
     else value # norm_loop (value # seen) vs)"

definition normalizeRoleKeys :: "string list \<Rightarrow> string list" where
  "normalizeRoleKeys keys =
    (let normalized = norm_loop [] keys in
     if normalized = [] then [''viewer''] else normalized)"

definition normalizeIDs :: "string list \<Rightarrow> string list" where
  "normalizeIDs ids = norm_loop [] ids"

definition normalizeUserSource :: "string \<Rightarrow> string" where
  "normalizeUserSource source =
    (let s = ToLower (TrimSpace source) in
     if s = ''ldap'' then ''ldap'' else if s = ''wecom'' then ''wecom'' else ''local'')"

text \<open>What the callers of a normaliser rely on.\<close>

locale name_normalizer =
  fixes norm :: "string list \<Rightarrow> string list"
    and dflt :: "string list"
  assumes norm_spec: "norm xs = (let n = first_occs [] (filter (\<lambda>v. v \<noteq> []) (map TrimSpace xs))
     in if n = [] then dflt else n)"
    and dflt_clean: "distinct dflt \<and> (\<forall>d \<in> set dflt. d \<noteq> [] \<and> TrimSpace d = d)"
begin

lemma norm_distinct: "distinct (norm xs)"
  using dflt_clean by (auto simp: norm_spec Let_def)

lemma norm_clean: "x \<in> set (norm xs) \<Longrightarrow> x \<noteq> [] \<and> TrimSpace x = x"
  using dflt_clean by (auto simp: norm_spec Let_def split: if_splits)

lemma norm_members:
  "(\<exists>x \<in> set xs. TrimSpace x \<noteq> []) \<Longrightarrow> set (norm xs) = {TrimSpace x | x. x \<in> set xs \<and> TrimSpace x \<noteq> []}"
  by (auto simp: norm_spec Let_def first_occs_Nil_iff)

lemma norm_id:
  assumes "xs \<noteq> []" "distinct xs" "\<And>x. x \<in> set xs \<Longrightarrow> x \<noteq> [] \<and> TrimSpace x = x"
  shows "norm xs = xs"
proof -
  have "map TrimSpace xs = xs" using assms(3) by (simp add: map_idI)
  moreover have "filter (\<lambda>v. v \<noteq> []) xs = xs" using assms(3) by (auto intro: filter_True)
  ultimately show ?thesis using assms(1,2) by (simp add: norm_spec first_occs_id)
qed

lemma norm_idem: "norm (norm xs) = norm xs"
proof (cases "norm xs = []")
  case True
  then have "dflt = []" "norm [] = dflt" by (auto simp: norm_spec Let_def split: if_splits)
  with True show ?thesis by simp
next
  case False
  then show ?thesis using norm_distinct norm_clean by (intro norm_id) auto
qed

end

lemma norm_loop_first_occs:
  "norm_loop seen xs = first_occs seen (filter (\<lambda>v. v \<noteq> []) (map TrimSpace xs))"
  by (induction seen xs rule: norm_loop.induct) (auto simp: Let_def)

lemma TrimSpace_viewer [simp]: "TrimSpace ''viewer'' = ''viewer''"
  by code_simp

interpretation role_keys: name_normalizer normalizeRoleKeys "[''viewer'']"
  by unfold_locales (simp_all add: normalizeRoleKeys_def norm_loop_first_occs)

interpretation ids: name_normalizer normalizeIDs "[]"
  by unfold_locales (simp_all add: normalizeIDs_def norm_loop_first_occs)

lemma normalizeRoleKeys_not_Nil [simp]: "normalizeRoleKeys ks \<noteq> []"
  by (simp add: normalizeRoleKeys_def Let_def)

section \<open>Users and their roles\<close>

record user_input =
  ui_Username :: string
  ui_Email :: string
  ui_DisplayName :: string
  ui_Source :: string
  ui_RoleKeys :: "string list"
  ui_Disabled :: bool

record role_input =
  ri_Key :: string
  ri_Name :: string
  ri_Description :: string
  ri_Permissions :: "string list"

record user_group_input =
  gi_Name :: string
  gi_Description :: string
  gi_Disabled :: bool
  gi_MemberIDs :: "string list"
  gi_RoleKeys :: "string list"

definition role_rank :: "string \<Rightarrow> nat" where
  "role_rank key = (if key = ''admin'' then 1 else if key = ''operator'' then 2
     else if key = ''viewer'' then 3 else 9)"

text \<open>\<open>ORDER BY CASE key ... END, key\<close>.\<close>

definition order_roles :: "role list \<Rightarrow> role list" where
  "order_roles rs = sort_key (\<lambda>r. (role_rank (role_key r), role_key r)) rs"

definition user_of_row :: "user_row \<Rightarrow> user" where
  "user_of_row r = \<lparr>ID = ur_id r, Username = ur_username r, Email = ur_email r,
     DisplayName = ur_display_name r, Role = ur_role r,
     Source = (if ur_source r = [] then ''local'' else ur_source r), Roles = [], Permissions = [],
     Disabled = ur_disabled r, LastLoginAt = ur_last_login_at r,
     CreatedAt = ur_created_at r, UpdatedAt = ur_updated_at r\<rparr>"

text \<open>The insertion of one role of \<open>replaceUserRoles\<close>: the number of rows inserted.\<close>

definition insert_user_role :: "string \<Rightarrow> string \<Rightarrow> nat db_prog" where
  "insert_user_role userID roleKey = stmt (\<lambda>d.
     case row_of role_key roleKey (roles d) of
       None \<Rightarrow> (Inr 0, d)
     | Some r \<Rightarrow>
         if (userID, role_id r) \<in> set (user_roles d) then (Inr 0, d)
         else if userID \<notin> ur_id ` set (users d) then (Inl ForeignKeyViolation, d)
         else (Inr 1, d\<lparr>user_roles := user_roles d @ [(userID, role_id r)]\<rparr>))"

definition replaceUserRoles :: "string \<Rightarrow> string list \<Rightarrow> unit db_prog" where
  "replaceUserRoles userID roleKeys =
    bindp (exec (\<lambda>d. d\<lparr>user_roles := filter (\<lambda>(u, _). u \<noteq> userID) (user_roles d)\<rparr>)) (\<lambda>_.
    for_each (\<lambda>roleKey. bindp (insert_user_role userID roleKey) (\<lambda>n.
      if n = 0 then fail ErrNotFound else ret ())) roleKeys)"

text \<open>The roles of \<open>listUserEffectiveRoles\<close>' query: the user's own and those of enabled groups.\<close>

definition effective_roles :: "db \<Rightarrow> string \<Rightarrow> role list" where
  "effective_roles d userID = order_roles (filter (\<lambda>r.
      (userID, role_id r) \<in> set (user_roles d)
      \<or> (\<exists>g \<in> set (user_groups d). \<not> gr_disabled g \<and> (gr_id g, role_id r) \<in> set (group_roles d)
           \<and> (gr_id g, userID) \<in> set (group_members d))) (roles d))"

definition fallbackRole :: "string \<Rightarrow> role list db_prog" where
  "fallbackRole userID =
    bindp (stmt (\<lambda>d. case row_of ur_id userID (users d) of
        None \<Rightarrow> (Inl DbFailure, d)
      | Some r \<Rightarrow> (Inr (if ur_role r = [] then ''viewer'' else ur_role r), d))) (\<lambda>roleKey.
    bindp (query (\<lambda>d. row_of role_key roleKey (roles d))) (\<lambda>found.
    case found of
      None \<Rightarrow> ret []
    | Some role \<Rightarrow> bindp (ignore (replaceUserRoles userID [role_key role])) (\<lambda>_. ret [role])))"

definition listUserEffectiveRoles :: "string \<Rightarrow> role list db_prog" where
  "listUserEffectiveRoles userID =
    bindp (query (\<lambda>d. effective_roles d userID)) (\<lambda>rs.
    if rs = [] then fallbackRole userID else ret rs)"

definition attachAccessToUsers :: "user list \<Rightarrow> user list db_prog" where
  "attachAccessToUsers us = map_prog (\<lambda>u. bindp (listUserEffectiveRoles (ID u)) (\<lambda>rs.
     ret (u\<lparr>Roles := rs, Permissions := uniquePermissions rs\<rparr>))) us"

definition FindUserByID :: "string \<Rightarrow> user db_prog" where
  "FindUserByID userID =
    bindp (query (\<lambda>d. row_of ur_id userID (users d))) (\<lambda>found.
    case found of
      None \<Rightarrow> fail ErrNotFound
    | Some r \<Rightarrow> bindp (attachAccessToUsers [user_of_row r]) (\<lambda>us. ret (hd us)))"

definition FindUserByUsername :: "string \<Rightarrow> (user \<times> string) db_prog" where
  "FindUserByUsername username =
    bindp (query (\<lambda>d. row_of ur_username username (users d))) (\<lambda>found.
    case found of
      None \<Rightarrow> fail ErrNotFound
    | Some r \<Rightarrow> bindp (attachAccessToUsers [user_of_row r]) (\<lambda>us.
        ret (hd us, ur_password_hash r)))"

definition ListManagedUsers :: "user list db_prog" where
  "ListManagedUsers =
    bindp (query (\<lambda>d. map user_of_row (sort_key ur_username (users d)))) attachAccessToUsers"

definition insert_user :: "user_input \<Rightarrow> string \<Rightarrow> string \<Rightarrow> string \<Rightarrow> string db_prog" where
  "insert_user input passwordHash role source = stmt (\<lambda>d.
     let (uid, d1) = gen_uuid d in
     if ui_Username input \<in> ur_username ` set (users d1) \<or> uid \<in> ur_id ` set (users d1)
     then (Inl UniqueViolation, d1)
     else (Inr uid, d1\<lparr>users := users d1 @
       [\<lparr>ur_id = uid, ur_username = ui_Username input, ur_email = ui_Email input,
         ur_password_hash = passwordHash, ur_display_name = ui_DisplayName input, ur_role = role,
         ur_source = source, ur_disabled = ui_Disabled input, ur_last_login_at = None,
         ur_created_at = clock d1, ur_updated_at = clock d1\<rparr>]\<rparr>))"

definition CreateManagedUser :: "user_input \<Rightarrow> string \<Rightarrow> user db_prog" where
  "CreateManagedUser input passwordHash =
    (let roleKeys = normalizeRoleKeys (ui_RoleKeys input);
         source = normalizeUserSource (ui_Source input) in
     bindp (insert_user input passwordHash (hd roleKeys) source) (\<lambda>uid.
     bindp (replaceUserRoles uid roleKeys) (\<lambda>_.
     FindUserByID uid)))"

text \<open>An \<open>UPDATE users SET ... WHERE id=$1\<close> that may change the username: the number of rows.\<close>

definition update_user :: "string \<Rightarrow> (int \<Rightarrow> user_row \<Rightarrow> user_row) \<Rightarrow> nat db_prog" where
  "update_user userID f = stmt (\<lambda>d.
     case row_of ur_id userID (users d) of
       None \<Rightarrow> (Inr 0, d)
     | Some r \<Rightarrow>
         if \<exists>q \<in> set (users d). ur_id q \<noteq> userID \<and> ur_username q = ur_username (f (clock d) r)
         then (Inl UniqueViolation, d)
         else (Inr 1, d\<lparr>users := upd_where (\<lambda>q. ur_id q = userID) (f (clock d)) (users d)\<rparr>))"

definition UpdateManagedUser :: "string \<Rightarrow> user_input \<Rightarrow> string \<Rightarrow> user db_prog" where
  "UpdateManagedUser userID input passwordHash =
    (let roleKeys = normalizeRoleKeys (ui_RoleKeys input);
         source = normalizeUserSource (ui_Source input);
         set_fields = (\<lambda>now r. r\<lparr>ur_username := ui_Username input, ur_email := ui_Email input,
           ur_display_name := ui_DisplayName input, ur_role := hd roleKeys, ur_source := source,
           ur_disabled := ui_Disabled input, ur_updated_at := now\<rparr>) in
     bindp (if passwordHash = [] then update_user userID set_fields
            else update_user userID (\<lambda>now r. (set_fields now r)\<lparr>ur_password_hash := passwordHash\<rparr>)) (\<lambda>n.
     if n = 0 then fail ErrNotFound
     else bindp (replaceUserRoles userID roleKeys) (\<lambda>_. FindUserByID userID)))"

definition SetManagedUserDisabled :: "string \<Rightarrow> bool \<Rightarrow> user db_prog" where
  "SetManagedUserDisabled userID disabled =
    bindp (update_user userID (\<lambda>now r. r\<lparr>ur_disabled := disabled, ur_updated_at := now\<rparr>)) (\<lambda>n.
    if n = 0 then fail ErrNotFound else FindUserByID userID)"

text \<open>\<open>DELETE FROM users\<close> with the foreign keys of the schema: what belongs to the user goes with it,
  what it only created loses the reference.\<close>

definition delete_user_rows :: "string \<Rightarrow> db \<Rightarrow> db" where
  "delete_user_rows userID d = d\<lparr>
     users := filter (\<lambda>r. ur_id r \<noteq> userID) (users d),
     user_roles := filter (\<lambda>(u, _). u \<noteq> userID) (user_roles d),
     group_members := filter (\<lambda>(_, u). u \<noteq> userID) (group_members d),
     sessions := filter (\<lambda>s. us_user_id s \<noteq> userID) (sessions d),
     wecom_bindings := filter (\<lambda>(u, _). u \<noteq> userID) (wecom_bindings d),
     reset_tokens := filter (\<lambda>t. rt_user_id t \<noteq> userID) (reset_tokens d),
     tasks := upd_where (\<lambda>t. task_created_by t = userID) (\<lambda>t. t\<lparr>task_created_by := []\<rparr>) (tasks d),
     audit_log := upd_where (\<lambda>a. au_user_id a = userID) (\<lambda>a. a\<lparr>au_user_id := []\<rparr>) (audit_log d),
     template_marks := upd_where (\<lambda>m. tm_created_by m = userID) (\<lambda>m. m\<lparr>tm_created_by := []\<rparr>) (template_marks d)\<rparr>"

definition DeleteManagedUser :: "string \<Rightarrow> unit db_prog" where
  "DeleteManagedUser userID =
    bindp (exec_count (\<lambda>d. length (filter (\<lambda>r. ur_id r = userID) (users d))) (delete_user_rows userID)) (\<lambda>n.
    if n = 0 then fail ErrNotFound else ret ())"

definition UpdateUserPassword :: "string \<Rightarrow> string \<Rightarrow> unit db_prog" where
  "UpdateUserPassword userID passwordHash =
    bindp (update_user userID (\<lambda>now r. r\<lparr>ur_password_hash := passwordHash, ur_updated_at := now\<rparr>))
      (\<lambda>n. if n = 0 then fail ErrNotFound else ret ())"

definition RecordUserLogin :: "string \<Rightarrow> unit db_prog" where
  "RecordUserLogin userID =
    bindp (update_user userID (\<lambda>now r. r\<lparr>ur_last_login_at := Some now, ur_updated_at := now\<rparr>))
      (\<lambda>n. if n = 0 then fail ErrNotFound else ret ())"

text \<open>\<open>INSERT ... ON CONFLICT (username) DO UPDATE\<close>.\<close>

definition UpsertUser :: "string \<Rightarrow> string \<Rightarrow> string \<Rightarrow> string \<Rightarrow> user db_prog" where
  "UpsertUser username passwordHash displayName role =
    bindp (stmt (\<lambda>d. let (uid, d1) = gen_uuid d in
      case row_of ur_username username (users d1) of
        Some r \<Rightarrow> (Inr (ur_id r), d1\<lparr>users := upd_where (\<lambda>q. ur_username q = username)
          (\<lambda>q. q\<lparr>ur_password_hash := passwordHash, ur_display_name := displayName, ur_role := role,
             ur_disabled := False, ur_updated_at := clock d1\<rparr>) (users d1)\<rparr>)
      | None \<Rightarrow> if uid \<in> ur_id ` set (users d1) then (Inl UniqueViolation, d1)
          else (Inr uid, d1\<lparr>users := users d1 @
            [\<lparr>ur_id = uid, ur_username = username, ur_email = [], ur_password_hash = passwordHash,
              ur_display_name = displayName, ur_role = role, ur_source = ''local'',
              ur_disabled = False, ur_last_login_at = None,
              ur_created_at = clock d1, ur_updated_at = clock d1\<rparr>]\<rparr>))) (\<lambda>uid.
    bindp (replaceUserRoles uid [role]) (\<lambda>_.
    FindUserByID uid))"

text \<open>\<open>HashPassword\<close> is bcrypt's: a parameter.\<close>

definition EnsureDefaultAdmin :: "(string \<Rightarrow> string option) \<Rightarrow> unit db_prog" where
  "EnsureDefaultAdmin HashPassword =
    bindp (query (\<lambda>d. length (users d))) (\<lambda>userCount.
    if userCount > 0 then ret ()
    else (case HashPassword ''123456'' of
        None \<Rightarrow> fail DbFailure
      | Some passwordHash \<Rightarrow> bindp (UpsertUser ''admin'' passwordHash ''admin'' ''admin'') (\<lambda>_. ret ())))"

end
