(* ===== verification/Access_Groups.thy ===== *)
theory Access_Groups
  imports Access_Repo
begin

text \<open>
  The rest of \<open>repository/rbac.go\<close>: custom roles and user groups, and the fixed content the first
  migration gives the table of roles.
\<close>

section \<open>Roles\<close>

definition ListRoles :: "role list db_prog" where
  "ListRoles = query (\<lambda>d. sort_key (\<lambda>r. (if role_builtin r then 0 else 1 :: nat,
     role_rank (role_key r), role_key r)) (roles d))"

definition insert_role :: "role_input \<Rightarrow> role db_prog" where
  "insert_role input = stmt (\<lambda>d.
     let (rid, d1) = gen_uuid d in
     if ri_Key input \<in> role_key ` set (roles d1) \<or> rid \<in> role_id ` set (roles d1)
     then (Inl UniqueViolation, d1)
     else let r = \<lparr>role_id = rid, role_key = ri_Key input, role_name = ri_Name input,
         role_description = ri_Description input, role_permissions = ri_Permissions input,
         role_builtin = False, role_created_at = clock d1, role_updated_at = clock d1\<rparr>
       in (Inr r, d1\<lparr>roles := roles d1 @ [r]\<rparr>))"

definition update_role :: "string \<Rightarrow> role_input \<Rightarrow> role option db_prog" where
  "update_role rid input = stmt (\<lambda>d.
     case find (\<lambda>r. role_id r = rid \<and> \<not> role_builtin r) (roles d) of
       None \<Rightarrow> (Inr None, d)
     | Some r \<Rightarrow>
         if \<exists>q \<in> set (roles d). role_id q \<noteq> rid \<and> role_key q = ri_Key input
         then (Inl UniqueViolation, d)
         else let r' = r\<lparr>role_key := ri_Key input, role_name := ri_Name input,
             role_description := ri_Description input, role_permissions := ri_Permissions input,
             role_updated_at := clock d\<rparr>
           in (Inr (Some r'),
               d\<lparr>roles := upd_where (\<lambda>q. role_id q = rid \<and> \<not> role_builtin q) (\<lambda>_. r') (roles d)\<rparr>))"

definition UpsertCustomRole :: "string \<Rightarrow> role_input \<Rightarrow> role db_prog" where
  "UpsertCustomRole rid input0 =
    (let input = input0\<lparr>ri_Permissions := normalizePermissions (ri_Permissions input0)\<rparr> in
     if rid = [] then insert_role input
     else bindp (update_role rid input) (\<lambda>found.
       case found of None \<Rightarrow> fail ErrNotFound | Some r \<Rightarrow> ret r))"

definition delete_role_rows :: "string \<Rightarrow> db \<Rightarrow> db" where
  "delete_role_rows rid d =
    (if \<exists>r \<in> set (roles d). role_id r = rid \<and> \<not> role_builtin r
     then d\<lparr>roles := filter (\<lambda>r. \<not> (role_id r = rid \<and> \<not> role_builtin r)) (roles d),
            user_roles := filter (\<lambda>(_, r). r \<noteq> rid) (user_roles d),
            group_roles := filter (\<lambda>(_, r). r \<noteq> rid) (group_roles d)\<rparr>
     else d)"

definition DeleteCustomRole :: "string \<Rightarrow> unit db_prog" where
  "DeleteCustomRole rid =
    bindp (exec_count (\<lambda>d. length (filter (\<lambda>r. role_id r = rid \<and> \<not> role_builtin r) (roles d)))
      (delete_role_rows rid)) (\<lambda>n.
    if n = 0 then fail ErrNotFound else ret ())"

section \<open>Groups\<close>

definition replaceGroupMembers :: "string \<Rightarrow> string list \<Rightarrow> unit db_prog" where
  "replaceGroupMembers groupID memberIDs =
    bindp (exec (\<lambda>d. d\<lparr>group_members := filter (\<lambda>(g, _). g \<noteq> groupID) (group_members d)\<rparr>)) (\<lambda>_.
    for_each (\<lambda>memberID. stmt (\<lambda>d.
      if (groupID, memberID) \<in> set (group_members d) then (Inr (), d)
      else if memberID \<notin> ur_id ` set (users d) \<or> groupID \<notin> gr_id ` set (user_groups d)
        then (Inl ForeignKeyViolation, d)
      else (Inr (), d\<lparr>group_members := group_members d @ [(groupID, memberID)]\<rparr>)))
      (normalizeIDs memberIDs))"

definition replaceGroupRoles :: "string \<Rightarrow> string list \<Rightarrow> unit db_prog" where
  "replaceGroupRoles groupID roleKeys =
    bindp (exec (\<lambda>d. d\<lparr>group_roles := filter (\<lambda>(g, _). g \<noteq> groupID) (group_roles d)\<rparr>)) (\<lambda>_.
    for_each (\<lambda>roleKey. stmt (\<lambda>d.
      case row_of role_key roleKey (roles d) of
        None \<Rightarrow> (Inr (), d)
      | Some r \<Rightarrow>
          if (groupID, role_id r) \<in> set (group_roles d) then (Inr (), d)
          else if groupID \<notin> gr_id ` set (user_groups d) then (Inl ForeignKeyViolation, d)
          else (Inr (), d\<lparr>group_roles := group_roles d @ [(groupID, role_id r)]\<rparr>)))
      roleKeys)"

definition listGroupMembers :: "string \<Rightarrow> user list db_prog" where
  "listGroupMembers groupID =
    bindp (query (\<lambda>d. map user_of_row (sort_key ur_username
      (filter (\<lambda>r. (groupID, ur_id r) \<in> set (group_members d)) (users d))))) attachAccessToUsers"

definition listGroupRoles :: "string \<Rightarrow> role list db_prog" where
  "listGroupRoles groupID = query (\<lambda>d.
     order_roles (filter (\<lambda>r. (groupID, role_id r) \<in> set (group_roles d)) (roles d)))"

definition ListUserGroups :: "user_group list db_prog" where
  "ListUserGroups =
    bindp (query (\<lambda>d. sort_key gr_name (user_groups d))) (\<lambda>rows.
    map_prog (\<lambda>g. bindp (listGroupMembers (gr_id g)) (\<lambda>members.
      bindp (listGroupRoles (gr_id g)) (\<lambda>rs.
      ret \<lparr>group_id = gr_id g, group_name = gr_name g, group_description = gr_description g,
        group_disabled = gr_disabled g, group_members_of = members, group_roles_of = rs\<rparr>))) rows)"

definition insert_group :: "user_group_input \<Rightarrow> string db_prog" where
  "insert_group input = stmt (\<lambda>d.
     let (gid, d1) = gen_uuid d in
     if gi_Name input \<in> gr_name ` set (user_groups d1) \<or> gid \<in> gr_id ` set (user_groups d1)
     then (Inl UniqueViolation, d1)
     else (Inr gid, d1\<lparr>user_groups := user_groups d1 @
       [\<lparr>gr_id = gid, gr_name = gi_Name input, gr_description = gi_Description input,
         gr_disabled = gi_Disabled input\<rparr>]\<rparr>))"

definition update_group :: "string \<Rightarrow> user_group_input \<Rightarrow> string option db_prog" where
  "update_group gid input = stmt (\<lambda>d.
     if gid \<notin> gr_id ` set (user_groups d) then (Inr None, d)
     else if \<exists>q \<in> set (user_groups d). gr_id q \<noteq> gid \<and> gr_name q = gi_Name input
     then (Inl UniqueViolation, d)
     else (Inr (Some gid), d\<lparr>user_groups := upd_where (\<lambda>q. gr_id q = gid)
       (\<lambda>q. q\<lparr>gr_name := gi_Name input, gr_description := gi_Description input,
          gr_disabled := gi_Disabled input\<rparr>) (user_groups d)\<rparr>))"

definition UpsertUserGroup :: "string \<Rightarrow> user_group_input \<Rightarrow> user_group db_prog" where
  "UpsertUserGroup groupID input =
    bindp (if groupID = [] then insert_group input
           else bindp (update_group groupID input) (\<lambda>found.
             case found of None \<Rightarrow> fail ErrNotFound | Some gid \<Rightarrow> ret gid)) (\<lambda>gid.
    bindp (replaceGroupMembers gid (gi_MemberIDs input)) (\<lambda>_.
    bindp (replaceGroupRoles gid (normalizeRoleKeys (gi_RoleKeys input))) (\<lambda>_.
    bindp ListUserGroups (\<lambda>groups.
    case find (\<lambda>g. group_id g = gid) groups of
      None \<Rightarrow> fail ErrNotFound
    | Some g \<Rightarrow> ret g))))"

definition delete_group_rows :: "string \<Rightarrow> db \<Rightarrow> db" where
  "delete_group_rows gid d = d\<lparr>
     user_groups := filter (\<lambda>g. gr_id g \<noteq> gid) (user_groups d),
     group_members := filter (\<lambda>(g, _). g \<noteq> gid) (group_members d),
     group_roles := filter (\<lambda>(g, _). g \<noteq> gid) (group_roles d)\<rparr>"

definition DeleteUserGroup :: "string \<Rightarrow> unit db_prog" where
  "DeleteUserGroup gid =
    bindp (exec_count (\<lambda>d. length (filter (\<lambda>g. gr_id g = gid) (user_groups d)))
      (delete_group_rows gid)) (\<lambda>n.
    if n = 0 then fail ErrNotFound else ret ())"

text \<open>\<open>WriteAudit\<close> of \<open>repository.go\<close>: an empty user is stored as none, an unknown one is refused by
  the foreign key.\<close>

definition WriteAudit ::
  "string \<Rightarrow> string \<Rightarrow> string \<Rightarrow> string \<Rightarrow> string \<Rightarrow> (string \<rightharpoonup> json) \<Rightarrow> unit db_prog" where
  "WriteAudit userID action resourceType resourceID ipAddress metadata = stmt (\<lambda>d.
     if userID \<noteq> [] \<and> userID \<notin> ur_id ` set (users d) then (Inl ForeignKeyViolation, d)
     else (Inr (), d\<lparr>audit_log := audit_log d @
       [\<lparr>au_user_id = userID, au_action = action, au_resource_type = resourceType,
         au_resource_id = resourceID, au_ip = ipAddress, au_metadata = metadata,
         au_created_at = clock d\<rparr>]\<rparr>))"

section \<open>The tables stay well formed\<close>

text \<open>
  The constraints of the schema: keys are unique, every reference leads to a row. The statements
  above keep them because they refuse what would break them, and the functions keep them because
  they are made of such statements, however far they get before an error.
\<close>

definition access_wf :: "db \<Rightarrow> bool" where
  "access_wf d \<longleftrightarrow>
     distinct (map ur_id (users d)) \<and> distinct (map ur_username (users d)) \<and>
     distinct (map role_id (roles d)) \<and> distinct (map role_key (roles d)) \<and>
     distinct (map gr_id (user_groups d)) \<and> distinct (map gr_name (user_groups d)) \<and>
     distinct (user_roles d) \<and> set (user_roles d) \<subseteq> ur_id ` set (users d) \<times> role_id ` set (roles d) \<and>
     distinct (group_members d) \<and>
     set (group_members d) \<subseteq> gr_id ` set (user_groups d) \<times> ur_id ` set (users d) \<and>
     distinct (group_roles d) \<and>
     set (group_roles d) \<subseteq> gr_id ` set (user_groups d) \<times> role_id ` set (roles d) \<and>
     (\<forall>s \<in> set (sessions d). us_user_id s \<in> ur_id ` set (users d))"

lemma fault_blind_access_wf [simp]: "fault_blind access_wf"
  by (simp add: fault_blind_def access_wf_def)

lemma access_wf_uuids [simp]: "access_wf (d\<lparr>uuids := us\<rparr>) = access_wf d"
  by (simp add: access_wf_def)

lemma gen_uuid_tables: "gen_uuid d = (u, d1) \<Longrightarrow> \<exists>us. d1 = d\<lparr>uuids := us\<rparr>"
  by (cases d) (auto simp: gen_uuid_def split: list.splits)

lemma access_wf_gen_uuid: "gen_uuid d = (u, d1) \<Longrightarrow> access_wf d1 = access_wf d"
  by (auto dest: gen_uuid_tables)

lemmas keeps_wf_stmt = keeps_stmt [OF fault_blind_access_wf]

lemma keeps_wf_query [keeps_intros]: "keeps access_wf (query f)"
  by (rule keeps_query) simp

lemma wf_insert_user_role [keeps_intros]: "keeps access_wf (insert_user_role u k)"
  unfolding insert_user_role_def
  by (rule keeps_wf_stmt) (auto simp: access_wf_def dest: row_of_SomeD split: option.splits)

lemma access_wf_filter_user_roles:
  "access_wf d \<Longrightarrow> access_wf (d\<lparr>user_roles := filter p (user_roles d)\<rparr>)"
  by (auto simp: access_wf_def)

lemma wf_replaceUserRoles [keeps_intros]: "keeps access_wf (replaceUserRoles u ks)"
  unfolding replaceUserRoles_def
  by (intro keeps_intros) (auto simp: access_wf_filter_user_roles)

lemma wf_fallbackRole [keeps_intros]: "keeps access_wf (fallbackRole u)"
  unfolding fallbackRole_def
  by (intro keeps_intros keeps_wf_stmt) (auto split: option.splits)

lemma wf_attach [keeps_intros]: "keeps access_wf (attachAccessToUsers us)"
  unfolding attachAccessToUsers_def listUserEffectiveRoles_def by (intro keeps_intros)

lemma wf_FindUserByID [keeps_intros]: "keeps access_wf (FindUserByID u)"
  unfolding FindUserByID_def by (intro keeps_intros)

lemma wf_FindUserByUsername [keeps_intros]: "keeps access_wf (FindUserByUsername u)"
  unfolding FindUserByUsername_def by (intro keeps_intros)

lemma wf_ListManagedUsers [keeps_intros]: "keeps access_wf ListManagedUsers"
  unfolding ListManagedUsers_def by (intro keeps_intros)

lemma wf_insert_user [keeps_intros]: "keeps access_wf (insert_user input h r s)"
  unfolding insert_user_def
  by (rule keeps_wf_stmt)
    (auto simp: Let_def access_wf_gen_uuid split: prod.splits;
     auto simp: access_wf_def dest!: gen_uuid_tables)

lemma upd_where_image:
  "(\<And>r. key (f r) = key r) \<Longrightarrow> key ` set (upd_where p f rs) = key ` set rs"
  by (metis list.set_map upd_where_key)

lemma wf_update_user [keeps_intros]:
  assumes "\<And>now r. ur_id (f now r) = ur_id r"
  shows "keeps access_wf (update_user uid f)"
  unfolding update_user_def
proof (rule keeps_wf_stmt)
  fix d assume wf: "access_wf d"
  have "distinct (map ur_username (upd_where (\<lambda>q. ur_id q = uid) (f (clock d)) (users d)))"
    if r: "row_of ur_id uid (users d) = Some r"
      and free: "\<forall>q \<in> set (users d). ur_id q = uid \<or> ur_username q \<noteq> ur_username (f (clock d) r)" for r
  proof (rule distinct_upd_where)
    fix q assume q: "q \<in> set (users d)" "ur_id q = uid"
    then have "q = r" using r wf row_of_distinct [of ur_id "users d" q]
      by (simp add: access_wf_def)
    with free show "\<forall>p \<in> set (users d). ur_id p \<noteq> uid \<longrightarrow> ur_username p \<noteq> ur_username (f (clock d) q)"
      by auto
  qed (use wf in \<open>auto simp: access_wf_def\<close>)
  then show "access_wf (snd (case row_of ur_id uid (users d) of None \<Rightarrow> (Inr 0, d)
     | Some r \<Rightarrow> if \<exists>q \<in> set (users d). ur_id q \<noteq> uid \<and> ur_username q = ur_username (f (clock d) r)
         then (Inl UniqueViolation, d)
         else (Inr 1, d\<lparr>users := upd_where (\<lambda>q. ur_id q = uid) (f (clock d)) (users d)\<rparr>)))"
    using wf assms by (auto simp: access_wf_def upd_where_image split: option.splits)
qed

lemma wf_CreateManagedUser [keeps_intros]: "keeps access_wf (CreateManagedUser input h)"
  unfolding CreateManagedUser_def by (intro keeps_intros)

lemma wf_UpdateManagedUser [keeps_intros]: "keeps access_wf (UpdateManagedUser u input h)"
  unfolding UpdateManagedUser_def by (intro keeps_intros) simp_all

lemma wf_SetManagedUserDisabled [keeps_intros]: "keeps access_wf (SetManagedUserDisabled u b)"
  unfolding SetManagedUserDisabled_def by (intro keeps_intros) simp

lemma wf_delete_user_rows: "access_wf d \<Longrightarrow> access_wf (delete_user_rows u d)"
  by (auto simp: access_wf_def delete_user_rows_def distinct_map_filter)

lemma wf_DeleteManagedUser [keeps_intros]: "keeps access_wf (DeleteManagedUser u)"
  unfolding DeleteManagedUser_def by (intro keeps_intros) (simp_all add: wf_delete_user_rows)

lemma wf_UpdateUserPassword [keeps_intros]: "keeps access_wf (UpdateUserPassword u h)"
  unfolding UpdateUserPassword_def by (intro keeps_intros) simp

lemma wf_RecordUserLogin [keeps_intros]: "keeps access_wf (RecordUserLogin u)"
  unfolding RecordUserLogin_def by (intro keeps_intros) simp

lemma wf_insert_role [keeps_intros]: "keeps access_wf (insert_role input)"
  unfolding insert_role_def
  by (rule keeps_wf_stmt)
    (auto simp: Let_def access_wf_gen_uuid split: prod.splits;
     auto simp: access_wf_def dest!: gen_uuid_tables)

end
