(* ===== verification/Http.thy ===== *)
theory Http
  imports Domain
begin

text \<open>
  What the handlers of \<open>backend/api/router\<close> answer: the status, and the body as the value that is
  encoded. An error body is its code; the localised message beside it is left out.
\<close>

datatype body =
    BError string
  | BErrorMinutes string int
  | BUser user | BUsers "user list"
  | BRole role | BRoles "role list"
  | BGroup user_group | BGroups "user_group list"
  | BPermissions "(string \<times> string) list"
  | BConfig base_config
  | BSession session
  | BMe user int bool
  | BUnbound string
  | BChannels "string list" string
  | BCaptcha string string int
  | BCodeSent int int
  | BTask task | BQueued task
  | BAlerts "alert list" nat
  | BCount nat
  | BDeliveries "(delivery \<times> alert) list"
  | BAgents "agent list" | BAgent agent | BAgentName string
  | BHosts "Host list" | BVMs "VirtualMachine list" | BVM VirtualMachine
  | BSnapshots "Snapshot list" | BSnapshot Snapshot
  | BMark VMTemplateMark
  | BMetrics string int "MetricPoint list"
  | BStatusOk
  | BEmpty

type_synonym response = "nat \<times> body"

definition writeError :: "nat \<Rightarrow> string \<Rightarrow> response" where
  "writeError status code = (status, BError code)"

end
