(* ===== verification/Access_Router.thy ===== *)
theory Access_Router
  imports Access_Groups Http
begin

text \<open>
  \<open>backend/api/router/rbac.go\<close> and the permission middleware: which permission a request needs, who
  has it, and the handlers that manage users, roles and groups. A handler is a program over the
  database that returns the response: the status and the body, an error body being its code (the
  localised message is left out). A decoded request body is an argument, \<open>None\<close> when
  \<open>decodeJSONBody\<close> fails. The acting user's id (\<open>currentSession(req).User.ID\<close>) and the client address are arguments.
\<close>

section \<open>Who may do what\<close>

definition isDefaultAdminUser :: "user \<Rightarrow> bool" where
  "isDefaultAdminUser u \<longleftrightarrow> Username u = ''admin''"

definition hasPermission :: "user \<Rightarrow> string \<Rightarrow> bool" where
  "hasPermission u permission \<longleftrightarrow> Role u = ''admin'' \<or> permission \<in> set (Permissions u)"

definition hasAnyPermission :: "user \<Rightarrow> string list \<Rightarrow> bool" where
  "hasAnyPermission u permissions \<longleftrightarrow> list_ex (hasPermission u) permissions"

definition hasAssociatedHostReadPermission :: "user \<Rightarrow> bool" where
  "hasAssociatedHostReadPermission u = hasAnyPermission u
    [''hosts.read'', ''host.interfaces.read'', ''host.interfaces.manage'', ''agents.read'',
     ''agents.manage'', ''storage.read'', ''storage.manage'', ''network.read'', ''network.manage'',
     ''vms.read'', ''vms.create'', ''vms.update'', ''vms.power'', ''vms.delete'', ''vms.force'',
     ''vms.console'', ''vms.clone'', ''vms.migrate'', ''snapshots.read'', ''snapshots.create'',
     ''snapshots.update'', ''snapshots.revert'', ''snapshots.delete'']"

definition hasAssociatedVMReadPermission :: "user \<Rightarrow> bool" where
  "hasAssociatedVMReadPermission u = hasAnyPermission u
    [''vms.read'', ''vms.create'', ''vms.update'', ''vms.power'', ''vms.delete'', ''vms.force'',
     ''vms.console'', ''vms.clone'', ''vms.migrate'', ''host.interfaces.read'',
     ''host.interfaces.manage'', ''hosts.read'', ''agents.read'', ''agents.manage'',
     ''snapshots.read'', ''snapshots.create'', ''snapshots.update'', ''snapshots.revert'',
     ''snapshots.delete'']"

definition hasAssociatedStoragePoolReadPermission :: "user \<Rightarrow> bool" where
  "hasAssociatedStoragePoolReadPermission u = hasAnyPermission u
    [''storage.read'', ''storage.manage'', ''vms.read'', ''vms.create'', ''vms.update'',
     ''vms.clone'', ''vms.migrate'']"

definition hasAssociatedNetworkPoolReadPermission :: "user \<Rightarrow> bool" where
  "hasAssociatedNetworkPoolReadPermission u = hasAnyPermission u
    [''network.read'', ''network.manage'', ''vms.read'', ''vms.create'', ''vms.update'',
     ''vms.clone'', ''vms.migrate'']"

definition vmRoutePermission :: "string \<Rightarrow> string \<Rightarrow> string" where
  "vmRoutePermission meth action =
    (if meth = ''GET'' then (if action = ''console'' then ''vms.console'' else ''vms.read'')
     else if meth = ''POST'' \<and> action = [] then ''vms.create''
     else if meth = ''POST'' then
       (if action = ''clone'' then ''vms.clone''
        else if action = ''template-mark'' then ''vms.update''
        else if action = ''template-create'' then ''vms.create''
        else if action \<in> set [''migrate'', ''migrate-precheck'', ''migrate-ssh-key'', ''migrate-hostname'']
          then ''vms.migrate''
        else if action = ''refresh'' then ''vms.read''
        else if action = ''delete'' then ''vms.delete''
        else if action \<in> set [''force-stop'', ''force-shutdown'', ''force-reboot'', ''force-delete'']
          then ''vms.force''
        else ''vms.power'')
     else if meth = ''PUT'' \<or> meth = ''DELETE'' then ''vms.update'' else [])"

definition ensurePermission :: "user \<Rightarrow> string \<Rightarrow> response option" where
  "ensurePermission u permission =
    (if hasPermission u permission then None
     else Some (writeError 403 ''permission_denied''))"

text \<open>\<open>bearerToken\<close>: the value of the \<open>Authorization\<close> header (empty when absent).\<close>

definition bearerToken :: "string \<Rightarrow> string" where
  "bearerToken value =
    (if value = [] then []
     else if \<not> HasPrefix value ''Bearer '' then []
     else TrimSpace (TrimPrefix value ''Bearer ''))"

text \<open>
  \<open>requireAuth\<close> and \<open>requirePermission\<close>: \<open>validate\<close> is the session check of the auth service, \<open>next\<close>
  the handler behind the middleware.
\<close>

definition requireAuth ::
  "(string \<Rightarrow> (db, 'e, session) prog) \<Rightarrow> string \<Rightarrow> string \<Rightarrow> (session \<Rightarrow> response db_prog) \<Rightarrow> response db_prog"
where
  "requireAuth validate authorization queryToken next_handler =
    (let token = bearerToken authorization;
         token = (if token = [] then TrimSpace queryToken else token) in
     bindp (attempt (validate token)) (\<lambda>r.
     case r of
       Inl _ \<Rightarrow> ret (writeError 401 ''unauthorized'')
     | Inr sess \<Rightarrow> next_handler sess))"

definition requirePermission ::
  "(string \<Rightarrow> (db, 'e, session) prog) \<Rightarrow> string \<Rightarrow> string \<Rightarrow> string \<Rightarrow> (session \<Rightarrow> response db_prog) \<Rightarrow>
   response db_prog"
where
  "requirePermission validate permission authorization queryToken next_handler =
    requireAuth validate authorization queryToken (\<lambda>sess.
      if \<not> hasPermission (sess_user sess) permission
      then ret (writeError 403 ''permission_denied'')
      else next_handler sess)"

text \<open>\<open>withCORS\<close>: the headers it sets, and whether the request ends there.\<close>

definition withCORS :: "string \<Rightarrow> string \<Rightarrow> (string \<times> string) list \<times> bool" where
  "withCORS origin meth =
    ((if origin \<noteq> [] then
        [(''Access-Control-Allow-Origin'', origin), (''Vary'', ''Origin''),
         (''Access-Control-Allow-Headers'', ''Content-Type, Authorization''),
         (''Access-Control-Allow-Methods'', ''GET, POST, PUT, DELETE, OPTIONS''),
         (''Access-Control-Allow-Credentials'', ''true'')] else []),
     meth = ''OPTIONS'')"

section \<open>Request bodies\<close>

definition normalizeRequestStrings :: "string list \<Rightarrow> string list" where
  "normalizeRequestStrings values = norm_loop [] values"

interpretation request_strings: name_normalizer normalizeRequestStrings "[]"
  by unfold_locales (simp_all add: normalizeRequestStrings_def norm_loop_first_occs)

text \<open>The regular expression \<open>^[a-z][a-z0-9._-]{1,40}$\<close>.\<close>

definition is_lower :: "char \<Rightarrow> bool" where
  "is_lower c \<longleftrightarrow> 97 \<le> (of_char c :: int) \<and> (of_char c :: int) \<le> 122"

definition roleKeyPattern :: "string \<Rightarrow> bool" where
  "roleKeyPattern s = (case s of [] \<Rightarrow> False
     | c # r \<Rightarrow> is_lower c \<and> 1 \<le> length r \<and> length r \<le> 40 \<and>
         list_all (\<lambda>x. is_lower x \<or> is_digit x \<or> x \<in> set ''._-'') r)"

text \<open>The regular expression \<open>^[^\s@]+@[^\s@]+\.[^\s@]+$\<close>.\<close>

definition email_char :: "char \<Rightarrow> bool" where
  "email_char c \<longleftrightarrow> c \<notin> set [CHR 0x09, CHR 0x0A, CHR 0x0C, CHR 0x0D, CHR 0x20, CHR ''@'']"

definition emailAddressPattern :: "string \<Rightarrow> bool" where
  "emailAddressPattern s = (case Split CHR ''@'' s of
      [a, b] \<Rightarrow> a \<noteq> [] \<and> list_all email_char a \<and> list_all email_char b \<and>
        CHR ''.'' \<in> set (butlast (tl b))
    | _ \<Rightarrow> False)"

record managed_user_request =
  mu_Username :: string
  mu_Password :: string
  mu_Email :: string
  mu_DisplayName :: string
  mu_RoleKeys :: "string list"
  mu_Disabled :: bool

definition decodeManagedUserRequest ::
  "managed_user_request option \<Rightarrow> bool \<Rightarrow> response + managed_user_request" where
  "decodeManagedUserRequest body create =
    (case body of
      None \<Rightarrow> Inl (writeError 400 ''invalid_request'')
    | Some raw \<Rightarrow>
        let input = raw\<lparr>mu_Username := TrimSpace (mu_Username raw), mu_Email := TrimSpace (mu_Email raw),
          mu_DisplayName := TrimSpace (mu_DisplayName raw),
          mu_RoleKeys := normalizeRequestStrings (mu_RoleKeys raw)\<rparr> in
        if mu_Username input = [] then Inl (writeError 400 ''invalid_username'')
        else if \<not> emailAddressPattern (mu_Email input) then Inl (writeError 400 ''invalid_email'')
        else
          let input = (if mu_DisplayName input = []
            then input\<lparr>mu_DisplayName := mu_Username input\<rparr> else input) in
          if create \<and> length (mu_Password input) < 6 then Inl (writeError 400 ''invalid_password'')
          else if \<not> create \<and> mu_Password input \<noteq> [] \<and> length (mu_Password input) < 6
            then Inl (writeError 400 ''invalid_password'')
          else Inr (if mu_RoleKeys input = [] then input\<lparr>mu_RoleKeys := [''viewer'']\<rparr> else input))"

record role_request =
  rq_Key :: string
  rq_Name :: string
  rq_Description :: string
  rq_Permissions :: "string list"

definition decodeRoleRequest :: "role_request option \<Rightarrow> response + role_input" where
  "decodeRoleRequest body =
    (case body of
      None \<Rightarrow> Inl (writeError 400 ''invalid_request'')
    | Some raw \<Rightarrow>
        let key = TrimSpace (rq_Key raw); name = TrimSpace (rq_Name raw) in
        if \<not> roleKeyPattern key then Inl (writeError 400 ''invalid_role_key'')
        else if name = [] then Inl (writeError 400 ''invalid_role_name'')
        else Inr \<lparr>ri_Key = key, ri_Name = name, ri_Description = TrimSpace (rq_Description raw),
          ri_Permissions = normalizeRequestStrings (rq_Permissions raw)\<rparr>)"

record user_group_request =
  gq_Name :: string
  gq_Description :: string
  gq_Disabled :: bool
  gq_MemberIDs :: "string list"
  gq_RoleKeys :: "string list"

definition decodeUserGroupRequest :: "user_group_request option \<Rightarrow> response + user_group_input" where
  "decodeUserGroupRequest body =
    (case body of
      None \<Rightarrow> Inl (writeError 400 ''invalid_request'')
    | Some raw \<Rightarrow>
        let name = TrimSpace (gq_Name raw) in
        if name = [] then Inl (writeError 400 ''invalid_user_group_name'')
        else Inr \<lparr>gi_Name = name, gi_Description = TrimSpace (gq_Description raw),
          gi_Disabled = gq_Disabled raw, gi_MemberIDs = normalizeRequestStrings (gq_MemberIDs raw),
          gi_RoleKeys = normalizeRequestStrings (gq_RoleKeys raw)\<rparr>)"

text \<open>\<open>parseSettingsResourcePath\<close>: the identifier and the action of a path under a prefix.\<close>

definition parseSettingsResourcePath :: "string \<Rightarrow> string \<Rightarrow> (string \<times> string) option" where
  "parseSettingsResourcePath path prefix =
    (case Split CHR ''/'' (TrimCut (TrimPrefix path prefix) ''/'') of
      [a] \<Rightarrow> if a \<noteq> [] then Some (a, []) else None
    | [a, b] \<Rightarrow> if a \<noteq> [] \<and> b \<noteq> [] then Some (a, b) else None
    | _ \<Rightarrow> None)"

section \<open>Handlers: users\<close>

definition handleListManagedUsers :: "response db_prog" where
  "handleListManagedUsers =
    bindp (attempt ListManagedUsers) (\<lambda>r.
    case r of Inl _ \<Rightarrow> ret (writeError 500 ''list_users_failed'')
    | Inr items \<Rightarrow> ret (200, BUsers items))"

definition user_input_of :: "managed_user_request \<Rightarrow> user_input" where
  "user_input_of i = \<lparr>ui_Username = mu_Username i, ui_Email = mu_Email i,
     ui_DisplayName = mu_DisplayName i, ui_Source = [], ui_RoleKeys = mu_RoleKeys i,
     ui_Disabled = mu_Disabled i\<rparr>"

definition handleCreateManagedUser ::
  "(string \<Rightarrow> string option) \<Rightarrow> string \<Rightarrow> string \<Rightarrow> managed_user_request option \<Rightarrow> response db_prog" where
  "handleCreateManagedUser HashPassword actor ip body =
    (case decodeManagedUserRequest body True of
      Inl resp \<Rightarrow> ret resp
    | Inr input \<Rightarrow>
       (case HashPassword (mu_Password input) of
          None \<Rightarrow> ret (writeError 500 ''create_user_failed'')
        | Some passwordHash \<Rightarrow>
            bindp (attempt (CreateManagedUser (user_input_of input) passwordHash)) (\<lambda>r.
            case r of
              Inl e \<Rightarrow>
                if e = UniqueViolation then ret (writeError 409 ''user_exists'')
                else if e = ErrNotFound then ret (writeError 400 ''role_not_found'')
                else ret (writeError 500 ''create_user_failed'')
            | Inr u \<Rightarrow>
                bindp (ignore (WriteAudit actor ''settings.user.create'' ''user'' (ID u) ip
                  [''username'' \<mapsto> JStr (Username u)])) (\<lambda>_. ret (201, BUser u)))))"

definition handleDeleteManagedUser :: "string \<Rightarrow> string \<Rightarrow> string \<Rightarrow> response db_prog" where
  "handleDeleteManagedUser actor ip uid =
    (if uid = actor then ret (writeError 400 ''delete_self_forbidden'')
     else bindp (attempt (FindUserByID uid)) (\<lambda>r.
       case r of
         Inl e \<Rightarrow> if e = ErrNotFound then ret (writeError 404 ''user_not_found'')
           else ret (writeError 500 ''delete_user_failed'')
       | Inr u \<Rightarrow>
           if isDefaultAdminUser u then ret (writeError 400 ''default_admin_protected'')
           else if \<not> Disabled u then ret (writeError 400 ''user_must_be_disabled'')
           else bindp (attempt (DeleteManagedUser uid)) (\<lambda>q.
             case q of
               Inl e \<Rightarrow> if e = ErrNotFound then ret (writeError 404 ''user_not_found'')
                 else ret (writeError 500 ''delete_user_failed'')
             | Inr _ \<Rightarrow> bindp (ignore (WriteAudit actor ''settings.user.delete'' ''user'' uid ip
                 [''username'' \<mapsto> JStr (Username u)])) (\<lambda>_. ret (204, BEmpty)))))"

definition handleUpdateManagedUser ::
  "(string \<Rightarrow> string option) \<Rightarrow> string \<Rightarrow> string \<Rightarrow> string \<Rightarrow> managed_user_request option \<Rightarrow>
   response db_prog" where
  "handleUpdateManagedUser HashPassword actor ip uid body =
    (case decodeManagedUserRequest body False of
      Inl resp \<Rightarrow> ret resp
    | Inr input \<Rightarrow>
       if uid = actor \<and> mu_Disabled input then ret (writeError 400 ''disable_self_forbidden'')
       else bindp (attempt (FindUserByID uid)) (\<lambda>r.
         case r of
           Inl e \<Rightarrow> if e = ErrNotFound then ret (writeError 404 ''user_not_found'')
             else ret (writeError 500 ''update_user_failed'')
         | Inr currentUser \<Rightarrow>
             if isDefaultAdminUser currentUser \<and>
                (mu_Disabled input \<or> mu_Username input \<noteq> Username currentUser)
             then ret (writeError 400 ''default_admin_protected'')
             else (case (if mu_Password input \<noteq> [] then HashPassword (mu_Password input) else Some []) of
               None \<Rightarrow> ret (writeError 500 ''update_user_failed'')
             | Some passwordHash \<Rightarrow>
                 bindp (attempt (UpdateManagedUser uid (user_input_of input) passwordHash)) (\<lambda>q.
                 case q of
                   Inl e \<Rightarrow>
                     if e = ErrNotFound then ret (writeError 404 ''user_not_found'')
                     else if e = UniqueViolation then ret (writeError 409 ''user_exists'')
                     else ret (writeError 500 ''update_user_failed'')
                 | Inr u \<Rightarrow>
                     bindp (ignore (WriteAudit actor ''settings.user.update'' ''user'' (ID u) ip
                       [''username'' \<mapsto> JStr (Username u)])) (\<lambda>_. ret (200, BUser u))))))"

definition handleSetManagedUserDisabled ::
  "string \<Rightarrow> string \<Rightarrow> string \<Rightarrow> bool option \<Rightarrow> response db_prog" where
  "handleSetManagedUserDisabled actor ip uid body =
    (case body of
      None \<Rightarrow> ret (writeError 400 ''invalid_request'')
    | Some disabled \<Rightarrow>
       if uid = actor \<and> disabled then ret (writeError 400 ''disable_self_forbidden'')
       else
         let save = bindp (attempt (SetManagedUserDisabled uid disabled)) (\<lambda>q.
           case q of
             Inl e \<Rightarrow> if e = ErrNotFound then ret (writeError 404 ''user_not_found'')
               else ret (writeError 500 ''update_user_failed'')
           | Inr u \<Rightarrow> bindp (ignore (WriteAudit actor ''settings.user.disabled'' ''user'' (ID u) ip
               [''disabled'' \<mapsto> JBool disabled])) (\<lambda>_. ret (200, BUser u))) in
         if disabled then
           bindp (attempt (FindUserByID uid)) (\<lambda>r.
           case r of
             Inl e \<Rightarrow> if e = ErrNotFound then ret (writeError 404 ''user_not_found'')
               else ret (writeError 500 ''update_user_failed'')
           | Inr currentUser \<Rightarrow>
               if isDefaultAdminUser currentUser
               then ret (writeError 400 ''default_admin_protected'')
               else save)
         else save)"

text \<open>The route of \<open>/api/settings/users/\<close>; a request carries the body each route decodes.\<close>

definition handleManagedUserRoute ::
  "(string \<Rightarrow> string option) \<Rightarrow> string \<Rightarrow> string \<Rightarrow> string \<Rightarrow> string \<Rightarrow>
   managed_user_request option \<Rightarrow> bool option \<Rightarrow> response db_prog" where
  "handleManagedUserRoute HashPassword actor ip meth path userBody disabledBody =
    (case parseSettingsResourcePath path ''/api/settings/users/'' of
      None \<Rightarrow> ret (writeError 404 ''not_found'')
    | Some (uid, action) \<Rightarrow>
        if meth = ''PUT'' \<and> action = [] then handleUpdateManagedUser HashPassword actor ip uid userBody
        else if meth = ''DELETE'' \<and> action = [] then handleDeleteManagedUser actor ip uid
        else if meth = ''POST'' \<and> action = ''disabled''
          then handleSetManagedUserDisabled actor ip uid disabledBody
        else ret (writeError 405 ''method_not_allowed''))"

section \<open>Handlers: roles and groups\<close>

definition handleListRoles :: "response db_prog" where
  "handleListRoles = bindp (attempt ListRoles) (\<lambda>r.
     case r of Inl _ \<Rightarrow> ret (writeError 500 ''list_roles_failed'')
     | Inr items \<Rightarrow> ret (200, BRoles items))"

definition handleCreateRole :: "string \<Rightarrow> string \<Rightarrow> role_request option \<Rightarrow> response db_prog" where
  "handleCreateRole actor ip body =
    (case decodeRoleRequest body of
      Inl resp \<Rightarrow> ret resp
    | Inr input \<Rightarrow> bindp (attempt (UpsertCustomRole [] input)) (\<lambda>r.
        case r of
          Inl e \<Rightarrow> if e = UniqueViolation then ret (writeError 409 ''role_exists'')
            else ret (writeError 500 ''save_role_failed'')
        | Inr role \<Rightarrow> bindp (ignore (WriteAudit actor ''settings.role.create'' ''role'' (role_id role) ip
            [''key'' \<mapsto> JStr (role_key role)])) (\<lambda>_. ret (201, BRole role))))"

definition handleRoleRoute ::
  "string \<Rightarrow> string \<Rightarrow> string \<Rightarrow> string \<Rightarrow> role_request option \<Rightarrow> response db_prog" where
  "handleRoleRoute actor ip meth path body =
    (case parseSettingsResourcePath path ''/api/settings/roles/'' of
      None \<Rightarrow> ret (writeError 404 ''not_found'')
    | Some (rid, _) \<Rightarrow>
       if meth = ''PUT'' then
         (case decodeRoleRequest body of
           Inl resp \<Rightarrow> ret resp
         | Inr input \<Rightarrow> bindp (attempt (UpsertCustomRole rid input)) (\<lambda>r.
             case r of
               Inl e \<Rightarrow> if e = ErrNotFound then ret (writeError 404 ''role_not_found'')
                 else ret (writeError 500 ''save_role_failed'')
             | Inr role \<Rightarrow> bindp (ignore (WriteAudit actor ''settings.role.update'' ''role''
                 (role_id role) ip [''key'' \<mapsto> JStr (role_key role)])) (\<lambda>_. ret (200, BRole role))))
       else if meth = ''DELETE'' then
         bindp (attempt (DeleteCustomRole rid)) (\<lambda>r.
         case r of
           Inl e \<Rightarrow> if e = ErrNotFound then ret (writeError 404 ''role_not_found'')
             else ret (writeError 500 ''delete_role_failed'')
         | Inr _ \<Rightarrow> bindp (ignore (WriteAudit actor ''settings.role.delete'' ''role'' rid ip Map.empty))
             (\<lambda>_. ret (200, BStatusOk)))
       else ret (writeError 405 ''method_not_allowed''))"

definition handleListUserGroups :: "response db_prog" where
  "handleListUserGroups = bindp (attempt ListUserGroups) (\<lambda>r.
     case r of Inl _ \<Rightarrow> ret (writeError 500 ''list_user_groups_failed'')
     | Inr items \<Rightarrow> ret (200, BGroups items))"

definition handleCreateUserGroup ::
  "string \<Rightarrow> string \<Rightarrow> user_group_request option \<Rightarrow> response db_prog" where
  "handleCreateUserGroup actor ip body =
    (case decodeUserGroupRequest body of
      Inl resp \<Rightarrow> ret resp
    | Inr input \<Rightarrow> bindp (attempt (UpsertUserGroup [] input)) (\<lambda>r.
        case r of
          Inl e \<Rightarrow> if e = UniqueViolation then ret (writeError 409 ''user_group_exists'')
            else ret (writeError 500 ''save_user_group_failed'')
        | Inr g \<Rightarrow> bindp (ignore (WriteAudit actor ''settings.user_group.create'' ''user_group''
            (group_id g) ip [''name'' \<mapsto> JStr (group_name g)])) (\<lambda>_. ret (201, BGroup g))))"

definition handleUserGroupRoute ::
  "string \<Rightarrow> string \<Rightarrow> string \<Rightarrow> string \<Rightarrow> user_group_request option \<Rightarrow> response db_prog" where
  "handleUserGroupRoute actor ip meth path body =
    (case parseSettingsResourcePath path ''/api/settings/user-groups/'' of
      None \<Rightarrow> ret (writeError 404 ''not_found'')
    | Some (gid, _) \<Rightarrow>
       if meth = ''PUT'' then
         (case decodeUserGroupRequest body of
           Inl resp \<Rightarrow> ret resp
         | Inr input \<Rightarrow> bindp (attempt (UpsertUserGroup gid input)) (\<lambda>r.
             case r of
               Inl e \<Rightarrow> if e = ErrNotFound then ret (writeError 404 ''user_group_not_found'')
                 else ret (writeError 500 ''save_user_group_failed'')
             | Inr g \<Rightarrow> bindp (ignore (WriteAudit actor ''settings.user_group.update'' ''user_group''
                 (group_id g) ip [''name'' \<mapsto> JStr (group_name g)])) (\<lambda>_. ret (200, BGroup g))))
       else if meth = ''DELETE'' then
         bindp (attempt (DeleteUserGroup gid)) (\<lambda>r.
         case r of
           Inl e \<Rightarrow> if e = ErrNotFound then ret (writeError 404 ''user_group_not_found'')
             else ret (writeError 500 ''delete_user_group_failed'')
         | Inr _ \<Rightarrow> bindp (ignore (WriteAudit actor ''settings.user_group.delete'' ''user_group'' gid ip
             Map.empty)) (\<lambda>_. ret (200, BStatusOk)))
       else ret (writeError 405 ''method_not_allowed''))"

definition handleListPermissions :: response where
  "handleListPermissions = (200, BPermissions (map (\<lambda>k. (k,
     case map_of ImpliedReadPermissions k of None \<Rightarrow> [] | Some r \<Rightarrow> r)) BuiltinPermissions))"

end
