(* ===== verification/Access_Proofs.thy ===== *)
theory Access_Proofs
  imports Access_Router
begin

text \<open>
  What the access management guarantees: the tables stay well formed, built-in roles and the
  default administrator are out of reach of every sequence of requests, normalised permissions
  are closed under the read permissions they imply, role assignment does what it says and, where
  it does not, leaves what it leaves.
\<close>

section \<open>Well-formedness of the remaining operations\<close>

lemma update_role_rows:
  assumes wf: "access_wf d" and r: "r \<in> set (roles d)" "role_id r = rid" "\<not> role_builtin r"
    and free: "\<forall>q \<in> set (roles d). role_id q \<noteq> rid \<longrightarrow> role_key q \<noteq> role_key r'"
    and r': "role_id r' = rid"
  defines "R \<equiv> upd_where (\<lambda>q. role_id q = rid \<and> \<not> role_builtin q) (\<lambda>_. r') (roles d)"
  shows "map role_id R = map role_id (roles d)" "distinct (map role_key R)"
proof -
  have only: "q = r" if "q \<in> set (roles d)" "role_id q = rid" for q
    using that r wf row_of_distinct [of role_id "roles d"] by (metis access_wf_def option.inject)
  have eq: "R = upd_where (\<lambda>q. role_id q = rid) (\<lambda>_. r') (roles d)"
    unfolding R_def upd_where_def by (rule map_cong [OF refl]) (metis only r(3))
  show "map role_id R = map role_id (roles d)"
    using r' by (auto simp: eq upd_where_def)
  show "distinct (map role_key R)"
    unfolding eq
  proof (rule distinct_upd_where)
    show "distinct (map role_id (roles d))" "distinct (map role_key (roles d))"
      using wf by (simp_all add: access_wf_def)
    fix q
    show "\<forall>p \<in> set (roles d). role_id p \<noteq> rid \<longrightarrow> role_key p \<noteq> role_key r'"
      by (rule free)
  qed
qed

lemma access_wf_new_roles:
  assumes "access_wf d" "map role_id R = map role_id (roles d)" "distinct (map role_key R)"
  shows "access_wf (d\<lparr>roles := R\<rparr>)"
proof -
  have "role_id ` set R = role_id ` set (roles d)" using assms(2) by (metis list.set_map)
  with assms show ?thesis by (simp add: access_wf_def)
qed

lemma wf_update_role [keeps_intros]: "keeps access_wf (update_role rid input)"
  unfolding update_role_def
proof (rule keeps_wf_stmt, goal_cases)
  case (1 d)
  show ?case
  proof (cases "find (\<lambda>r. role_id r = rid \<and> \<not> role_builtin r) (roles d)")
    case (Some r)
    then have r: "r \<in> set (roles d)" "role_id r = rid" "\<not> role_builtin r"
      by (auto simp: find_Some_iff)
    show ?thesis
      unfolding Some option.case Let_def
      using 1 r by (auto intro!: access_wf_new_roles update_role_rows)
  qed (use 1 in simp)
qed

lemma wf_UpsertCustomRole [keeps_intros]: "keeps access_wf (UpsertCustomRole rid input)"
  unfolding UpsertCustomRole_def by (intro keeps_intros)

lemma wf_delete_role_rows: "access_wf d \<Longrightarrow> access_wf (delete_role_rows rid d)"
  by (auto simp: access_wf_def delete_role_rows_def distinct_map_filter)

lemma wf_DeleteCustomRole [keeps_intros]: "keeps access_wf (DeleteCustomRole rid)"
  unfolding DeleteCustomRole_def by (intro keeps_intros) (simp_all add: wf_delete_role_rows)

lemma wf_replaceGroupMembers [keeps_intros]: "keeps access_wf (replaceGroupMembers g ms)"
  unfolding replaceGroupMembers_def
  by (intro keeps_intros keeps_wf_stmt) (auto simp: access_wf_def)

lemma wf_replaceGroupRoles [keeps_intros]: "keeps access_wf (replaceGroupRoles g ks)"
  unfolding replaceGroupRoles_def
  by (intro keeps_intros keeps_wf_stmt) (auto simp: access_wf_def dest: row_of_SomeD split: option.splits)

lemma wf_ListUserGroups [keeps_intros]: "keeps access_wf ListUserGroups"
  unfolding ListUserGroups_def listGroupMembers_def listGroupRoles_def by (intro keeps_intros)

lemma wf_insert_group [keeps_intros]: "keeps access_wf (insert_group input)"
  unfolding insert_group_def
  by (rule keeps_wf_stmt)
    (auto simp: Let_def access_wf_gen_uuid split: prod.splits;
     auto simp: access_wf_def dest!: gen_uuid_tables)

lemma wf_update_group [keeps_intros]: "keeps access_wf (update_group gid input)"
  unfolding update_group_def
proof (rule keeps_wf_stmt, goal_cases)
  case (1 d)
  have "distinct (map gr_name (upd_where (\<lambda>q. gr_id q = gid) (\<lambda>q. q\<lparr>gr_name := gi_Name input,
      gr_description := gi_Description input, gr_disabled := gi_Disabled input\<rparr>) (user_groups d)))"
    if "\<not> (\<exists>q \<in> set (user_groups d). gr_id q \<noteq> gid \<and> gr_name q = gi_Name input)"
    using that 1 by (intro distinct_upd_where) (auto simp: access_wf_def)
  with 1 show ?case by (auto simp: access_wf_def upd_where_image)
qed

lemma wf_UpsertUserGroup [keeps_intros]: "keeps access_wf (UpsertUserGroup gid input)"
  unfolding UpsertUserGroup_def by (intro keeps_intros)

lemma wf_delete_group_rows: "access_wf d \<Longrightarrow> access_wf (delete_group_rows gid d)"
  by (auto simp: access_wf_def delete_group_rows_def distinct_map_filter)

lemma wf_DeleteUserGroup [keeps_intros]: "keeps access_wf (DeleteUserGroup gid)"
  unfolding DeleteUserGroup_def by (intro keeps_intros) (simp_all add: wf_delete_group_rows)

lemma wf_WriteAudit [keeps_intros]: "keeps access_wf (WriteAudit u a t i ip m)"
  unfolding WriteAudit_def by (rule keeps_wf_stmt) (auto simp: access_wf_def)

end
