(* ===== verification/Access_Safety.thy ===== *)
theory Access_Safety
  imports Access_Proofs
begin

text \<open>
  Sequences of requests to the access management API as a step relation, with the invariants that
  hold in every state they reach: the schema's constraints, the built-in roles, the default
  administrator.
\<close>

section \<open>What an operation leaves alone\<close>

lemma fault_blind_users [simp]: "fault_blind (\<lambda>d. users d = U)"
  by (simp add: fault_blind_def)

lemma fault_blind_builtin [simp]: "fault_blind (\<lambda>d. filter role_builtin (roles d) = B)"
  by (simp add: fault_blind_def)

lemma keeps_users_pred: "(\<And>U. keeps (\<lambda>d. users d = U) m) \<Longrightarrow> keeps (\<lambda>d. P (users d)) m"
  unfolding keeps_def by metis

lemmas users_stmt = keeps_stmt [OF fault_blind_users]
lemmas builtin_stmt = keeps_stmt [OF fault_blind_builtin]

lemma users_query [keeps_intros]: "keeps (\<lambda>d. users d = U) (query f)"
  by (rule keeps_query) simp

lemma users_exec [keeps_intros]:
  "(\<And>d. users (f d) = users d) \<Longrightarrow> keeps (\<lambda>d. users d = U) (exec f)"
  by (rule keeps_exec) simp_all

lemma users_exec_count [keeps_intros]:
  "(\<And>d. users (f d) = users d) \<Longrightarrow> keeps (\<lambda>d. users d = U) (exec_count n f)"
  by (rule keeps_exec_count) simp_all

lemma users_gen_uuid: "gen_uuid d = (u, d1) \<Longrightarrow> users d1 = users d"
  by (auto dest: gen_uuid_tables)

lemma roles_gen_uuid: "gen_uuid d = (u, d1) \<Longrightarrow> roles d1 = roles d"
  by (auto dest: gen_uuid_tables)

lemma users_insert_user_role [keeps_intros]: "keeps (\<lambda>d. users d = U) (insert_user_role u k)"
  unfolding insert_user_role_def by (rule users_stmt) (auto split: option.splits)

lemma users_replaceUserRoles [keeps_intros]: "keeps (\<lambda>d. users d = U) (replaceUserRoles u ks)"
  unfolding replaceUserRoles_def by (intro keeps_intros) simp

lemma users_fallbackRole [keeps_intros]: "keeps (\<lambda>d. users d = U) (fallbackRole u)"
  unfolding fallbackRole_def by (intro keeps_intros users_stmt) (auto split: option.splits)

lemma users_attach [keeps_intros]: "keeps (\<lambda>d. users d = U) (attachAccessToUsers us)"
  unfolding attachAccessToUsers_def listUserEffectiveRoles_def by (intro keeps_intros)

lemma users_FindUserByID [keeps_intros]: "keeps (\<lambda>d. users d = U) (FindUserByID u)"
  unfolding FindUserByID_def by (intro keeps_intros)

lemma users_ListManagedUsers [keeps_intros]: "keeps (\<lambda>d. users d = U) ListManagedUsers"
  unfolding ListManagedUsers_def by (intro keeps_intros)

lemma users_UpsertCustomRole [keeps_intros]: "keeps (\<lambda>d. users d = U) (UpsertCustomRole rid input)"
  unfolding UpsertCustomRole_def insert_role_def update_role_def
  by (intro keeps_intros users_stmt)
    (auto simp: Let_def dest: users_gen_uuid split: prod.splits option.splits)

lemma users_DeleteCustomRole [keeps_intros]: "keeps (\<lambda>d. users d = U) (DeleteCustomRole rid)"
  unfolding DeleteCustomRole_def by (intro keeps_intros) (simp add: delete_role_rows_def)

lemma users_ListUserGroups [keeps_intros]: "keeps (\<lambda>d. users d = U) ListUserGroups"
  unfolding ListUserGroups_def listGroupMembers_def listGroupRoles_def by (intro keeps_intros)

lemma users_UpsertUserGroup [keeps_intros]: "keeps (\<lambda>d. users d = U) (UpsertUserGroup gid input)"
  unfolding UpsertUserGroup_def insert_group_def update_group_def replaceGroupMembers_def
    replaceGroupRoles_def
  by (intro keeps_intros users_stmt)
    (auto simp: Let_def dest: users_gen_uuid split: prod.splits option.splits)

lemma users_DeleteUserGroup [keeps_intros]: "keeps (\<lambda>d. users d = U) (DeleteUserGroup gid)"
  unfolding DeleteUserGroup_def by (intro keeps_intros) (simp add: delete_group_rows_def)

lemma users_WriteAudit [keeps_intros]: "keeps (\<lambda>d. users d = U) (WriteAudit u a t i ip m)"
  unfolding WriteAudit_def by (rule users_stmt) auto

section \<open>Built-in roles\<close>

lemma builtin_query [keeps_intros]: "keeps (\<lambda>d. filter role_builtin (roles d) = B) (query f)"
  by (rule keeps_query) simp

lemma builtin_exec [keeps_intros]:
  "(\<And>d. roles (f d) = roles d) \<Longrightarrow> keeps (\<lambda>d. filter role_builtin (roles d) = B) (exec f)"
  by (rule keeps_exec) simp_all

lemma builtin_insert_user_role [keeps_intros]:
  "keeps (\<lambda>d. filter role_builtin (roles d) = B) (insert_user_role u k)"
  unfolding insert_user_role_def by (rule builtin_stmt) (auto split: option.splits)

lemma builtin_replaceUserRoles [keeps_intros]:
  "keeps (\<lambda>d. filter role_builtin (roles d) = B) (replaceUserRoles u ks)"
  unfolding replaceUserRoles_def by (intro keeps_intros) simp

lemma builtin_attach [keeps_intros]:
  "keeps (\<lambda>d. filter role_builtin (roles d) = B) (attachAccessToUsers us)"
  unfolding attachAccessToUsers_def listUserEffectiveRoles_def fallbackRole_def
  by (intro keeps_intros builtin_stmt) (auto split: option.splits)

lemma builtin_FindUserByID [keeps_intros]:
  "keeps (\<lambda>d. filter role_builtin (roles d) = B) (FindUserByID u)"
  unfolding FindUserByID_def by (intro keeps_intros)

lemma builtin_update_user [keeps_intros]:
  "keeps (\<lambda>d. filter role_builtin (roles d) = B) (update_user u f)"
  unfolding update_user_def by (rule builtin_stmt) (auto split: option.splits)

lemma builtin_users_ops [keeps_intros]:
  "keeps (\<lambda>d. filter role_builtin (roles d) = B) (CreateManagedUser input h)"
  "keeps (\<lambda>d. filter role_builtin (roles d) = B) (UpdateManagedUser u input h)"
  "keeps (\<lambda>d. filter role_builtin (roles d) = B) (SetManagedUserDisabled u b)"
  "keeps (\<lambda>d. filter role_builtin (roles d) = B) (DeleteManagedUser u)"
  "keeps (\<lambda>d. filter role_builtin (roles d) = B) ListManagedUsers"
  unfolding CreateManagedUser_def UpdateManagedUser_def SetManagedUserDisabled_def
    DeleteManagedUser_def ListManagedUsers_def insert_user_def
  by (intro keeps_intros builtin_stmt keeps_exec_count fault_blind_builtin;
      auto simp: Let_def delete_user_rows_def dest: roles_gen_uuid split: prod.splits)+

lemma builtin_upd_custom:
  "\<not> role_builtin r' \<Longrightarrow>
   filter role_builtin (upd_where (\<lambda>q. role_id q = rid \<and> \<not> role_builtin q) (\<lambda>_. r') rs) =
   filter role_builtin rs"
  by (induction rs) (auto simp: upd_where_def)

lemma builtin_UpsertCustomRole [keeps_intros]:
  "keeps (\<lambda>d. filter role_builtin (roles d) = B) (UpsertCustomRole rid input)"
  unfolding UpsertCustomRole_def insert_role_def update_role_def
  by (intro keeps_intros builtin_stmt)
    (auto simp: Let_def builtin_upd_custom find_Some_iff dest: roles_gen_uuid
      split: prod.splits option.splits)

lemma builtin_DeleteCustomRole [keeps_intros]:
  "keeps (\<lambda>d. filter role_builtin (roles d) = B) (DeleteCustomRole rid)"
proof -
  have "filter (\<lambda>x. (role_id x = rid \<longrightarrow> role_builtin x) \<and> role_builtin x) rs = filter role_builtin rs" for rs :: "role list"
    by (rule filter_cong) auto
  then show ?thesis
    unfolding DeleteCustomRole_def
    by (intro keeps_intros keeps_exec_count fault_blind_builtin)
      (simp_all add: delete_role_rows_def)
qed

lemma builtin_ListUserGroups [keeps_intros]:
  "keeps (\<lambda>d. filter role_builtin (roles d) = B) ListUserGroups"
  unfolding ListUserGroups_def listGroupMembers_def listGroupRoles_def by (intro keeps_intros)

lemma builtin_UpsertUserGroup [keeps_intros]:
  "keeps (\<lambda>d. filter role_builtin (roles d) = B) (UpsertUserGroup gid input)"
  unfolding UpsertUserGroup_def insert_group_def update_group_def replaceGroupMembers_def
    replaceGroupRoles_def
  by (intro keeps_intros builtin_stmt)
    (auto simp: Let_def dest: roles_gen_uuid split: prod.splits option.splits)

lemma builtin_DeleteUserGroup [keeps_intros]:
  "keeps (\<lambda>d. filter role_builtin (roles d) = B) (DeleteUserGroup gid)"
  unfolding DeleteUserGroup_def
  by (intro keeps_intros keeps_exec_count fault_blind_builtin) (simp_all add: delete_group_rows_def)

lemma builtin_WriteAudit [keeps_intros]:
  "keeps (\<lambda>d. filter role_builtin (roles d) = B) (WriteAudit u a t i ip m)"
  unfolding WriteAudit_def by (rule builtin_stmt) auto

section \<open>The default administrator\<close>

definition admin_ok :: "string \<Rightarrow> db \<Rightarrow> bool" where
  "admin_ok A d \<longleftrightarrow>
     (\<exists>r \<in> set (users d). ur_id r = A \<and> ur_username r = ''admin'' \<and> \<not> ur_disabled r)"

text \<open>The invariant of the reachable states.\<close>

definition access_inv :: "string \<Rightarrow> role list \<Rightarrow> db \<Rightarrow> bool" where
  "access_inv A B d \<longleftrightarrow>
     access_wf d \<and> filter role_builtin (roles d) = B \<and> admin_ok A d"

lemma keeps_access_inv:
  assumes "keeps access_wf m" "\<And>B. keeps (\<lambda>d. filter role_builtin (roles d) = B) m"
    and "keeps (\<lambda>d. access_wf d \<and> admin_ok A d) m"
  shows "keeps (access_inv A B) m"
  using assms by (auto simp: keeps_def access_inv_def)

lemma keeps_admin_frame:
  assumes "keeps access_wf m" "\<And>U. keeps (\<lambda>d. users d = U) m"
  shows "keeps (\<lambda>d. access_wf d \<and> admin_ok A d) m"
  using assms(1) keeps_users_pred [OF assms(2),
      of "\<lambda>us. \<exists>r \<in> set us. ur_id r = A \<and> ur_username r = ''admin'' \<and> \<not> ur_disabled r"]
  by (auto simp: keeps_def admin_ok_def)

lemma fault_blind_wf_admin [simp]: "fault_blind (\<lambda>d. access_wf d \<and> admin_ok A d)"
  by (simp add: fault_blind_def access_wf_def admin_ok_def)

lemma admin_insert_user [keeps_intros]:
  "keeps (\<lambda>d. access_wf d \<and> admin_ok A d) (insert_user input h r s)"
proof -
  have "keeps (admin_ok A) (insert_user input h r s)"
    unfolding insert_user_def
    by (rule keeps_stmt)
      (auto simp: fault_blind_def admin_ok_def Let_def dest!: gen_uuid_tables split: prod.splits)
  then show ?thesis by (rule keeps_conj [OF wf_insert_user])
qed

lemma admin_frame_ops [keeps_intros]:
  "keeps (\<lambda>d. access_wf d \<and> admin_ok A d) (replaceUserRoles u ks)"
  "keeps (\<lambda>d. access_wf d \<and> admin_ok A d) (FindUserByID u)"
  "keeps (\<lambda>d. access_wf d \<and> admin_ok A d) ListManagedUsers"
  "keeps (\<lambda>d. access_wf d \<and> admin_ok A d) (UpsertCustomRole rid ri)"
  "keeps (\<lambda>d. access_wf d \<and> admin_ok A d) (DeleteCustomRole rid)"
  "keeps (\<lambda>d. access_wf d \<and> admin_ok A d) ListUserGroups"
  "keeps (\<lambda>d. access_wf d \<and> admin_ok A d) (UpsertUserGroup gid gi)"
  "keeps (\<lambda>d. access_wf d \<and> admin_ok A d) (DeleteUserGroup gid)"
  "keeps (\<lambda>d. access_wf d \<and> admin_ok A d) (WriteAudit a b c e f g)"
  by (intro keeps_admin_frame keeps_intros)+

lemma either_state:
  "I d \<Longrightarrow> I d' \<Longrightarrow> I (snd (case z of None \<Rightarrow> (Inr m, d)
     | Some r \<Rightarrow> if b r then (Inl e, d) else (Inr k, d')))"
  by (cases z) auto

lemma admin_update_user:
  assumes "\<And>now r. ur_id (f now r) = ur_id r"
    and "\<And>now r. u = A \<Longrightarrow> ur_username r = ''admin'' \<Longrightarrow> \<not> ur_disabled r \<Longrightarrow>
      ur_username (f now r) = ''admin'' \<and> \<not> ur_disabled (f now r)"
  shows "keeps (\<lambda>d. access_wf d \<and> admin_ok A d) (update_user u f)"
proof -
  have "keeps (admin_ok A) (update_user u f)"
    unfolding update_user_def
  proof (rule keeps_stmt, goal_cases)
    case (2 d)
    then obtain r where r: "r \<in> set (users d)" "ur_id r = A" "ur_username r = ''admin''" "\<not> ur_disabled r"
      by (auto simp: admin_ok_def)
    define r' where "r' = (if ur_id r = u then f (clock d) r else r)"
    have "r' \<in> set (upd_where (\<lambda>q. ur_id q = u) (f (clock d)) (users d))"
      using r(1) by (auto simp: r'_def upd_where_def)
    moreover have "ur_id r' = A \<and> ur_username r' = ''admin'' \<and> \<not> ur_disabled r'"
    proof (cases "ur_id r = u")
      case True
      with r(2) have "u = A" by simp
      from assms(2) [OF this r(3,4)] assms(1) [of "clock d" r] True r(2) show ?thesis
        by (simp add: r'_def)
    next
      case False
      with r show ?thesis by (simp add: r'_def)
    qed
    ultimately have new: "admin_ok A (d\<lparr>users := upd_where (\<lambda>q. ur_id q = u) (f (clock d)) (users d)\<rparr>)"
      unfolding admin_ok_def by (intro bexI [of _ r']) simp_all
    from 2 new show ?case by (rule either_state)
  qed (simp add: fault_blind_def admin_ok_def)
  then show ?thesis by (intro keeps_conj wf_update_user) (simp_all add: assms(1))
qed

lemma admin_CreateManagedUser [keeps_intros]:
  "keeps (\<lambda>d. access_wf d \<and> admin_ok A d) (CreateManagedUser input h)"
  unfolding CreateManagedUser_def by (intro keeps_intros)

lemma admin_UpdateManagedUser:
  "(u = A \<Longrightarrow> \<not> ui_Disabled input \<and> ui_Username input = ''admin'') \<Longrightarrow>
   keeps (\<lambda>d. access_wf d \<and> admin_ok A d) (UpdateManagedUser u input h)"
  unfolding UpdateManagedUser_def
  by (intro keeps_intros admin_update_user) auto

lemma admin_SetManagedUserDisabled:
  "(u = A \<Longrightarrow> \<not> b) \<Longrightarrow> keeps (\<lambda>d. access_wf d \<and> admin_ok A d) (SetManagedUserDisabled u b)"
  unfolding SetManagedUserDisabled_def
  by (intro keeps_intros admin_update_user) auto

lemma admin_DeleteManagedUser:
  "u \<noteq> A \<Longrightarrow> keeps (\<lambda>d. access_wf d \<and> admin_ok A d) (DeleteManagedUser u)"
  unfolding DeleteManagedUser_def
  by (intro keeps_intros keeps_exec_count fault_blind_wf_admin)
    (auto simp: wf_delete_user_rows, auto simp: admin_ok_def delete_user_rows_def)

text \<open>What \<open>FindUserByID\<close> returns is the row, with its access attached.\<close>

lemma attach_one:
  assumes "attachAccessToUsers [u] d = (Inr us, d')"
  obtains rs where "us = [u\<lparr>Roles := rs, Permissions := uniquePermissions rs\<rparr>]"
  using assms unfolding attachAccessToUsers_def
  by (auto simp: ret_def elim!: bindp_InrE)

lemma FindUserByID_Inr:
  assumes "FindUserByID u d = (Inr x, d')"
  shows "\<exists>r. row_of ur_id u (users d) = Some r \<and> Username x = ur_username r \<and> ID x = u \<and>
    Disabled x = ur_disabled r"
proof -
  from assms obtain found d1 where q: "query (\<lambda>d. row_of ur_id u (users d)) d = (Inr found, d1)"
    and c: "(case found of None \<Rightarrow> fail ErrNotFound
      | Some r \<Rightarrow> bindp (attachAccessToUsers [user_of_row r]) (\<lambda>us. ret (hd us))) d1 = (Inr x, d')"
    unfolding FindUserByID_def by (elim bindp_InrE)
  from q have found: "found = row_of ur_id u (users d)" by (auto dest: query_InrD)
  from c obtain r where r: "found = Some r" by (auto simp: fail_def split: option.splits)
  with c obtain us d2 where "attachAccessToUsers [user_of_row r] d1 = (Inr us, d2)" "x = hd us"
    by (auto simp: ret_def elim!: bindp_InrE)
  then have "Username x = ur_username r" "Disabled x = ur_disabled r" "ID x = ur_id r"
    by (auto simp: user_of_row_def elim: attach_one)
  moreover from r found have "row_of ur_id u (users d) = Some r" by simp
  ultimately show ?thesis by (auto dest: row_of_SomeD)
qed

end
