(* ===== verification/Access_Steps.thy ===== *)
theory Access_Steps
  imports Access_Safety Access_Router
begin

text \<open>
  The access management API as a state machine: one step is one request served by its handler
  (\<open>backend/api/router/rbac.go\<close>), or a move of the environment (the clock, the supply of
  identifiers, the statements that are going to fail). The invariants of \<open>Access_Safety\<close> hold in
  every state these steps reach, with no assumption on which statements fail.
\<close>

section \<open>What a handler keeps\<close>

text \<open>A value an operation returns may satisfy a condition the rest of the handler relies on.\<close>

lemma keeps_attempt_bind:
  assumes "keeps I m" "\<And>s x t. I s \<Longrightarrow> m s = (Inr x, t) \<Longrightarrow> P x"
    and "\<And>e. keeps I (f (Inl e))" "\<And>x. P x \<Longrightarrow> keeps I (f (Inr x))"
  shows "keeps I (bindp (attempt m) f)"
proof (rule keepsI)
  fix s assume s: "I s"
  obtain r t where m: "m s = (r, t)" by fastforce
  then have t: "I t" using assms(1) s by (rule keeps_result [rotated 2])
  show "I (snd (bindp (attempt m) f s))"
  proof (cases r)
    case (Inl e)
    with m t assms(3) [of e] show ?thesis by (simp add: bindp_def attempt_def keepsD)
  next
    case (Inr x)
    with m s have "P x" by (auto intro: assms(2))
    with m t Inr assms(4) [of x] show ?thesis by (simp add: bindp_def attempt_def keepsD)
  qed
qed

lemma inv_ListManagedUsers [keeps_intros]: "keeps (access_inv A B) ListManagedUsers"
  by (rule keeps_access_inv) (intro keeps_intros)+

lemma inv_FindUserByID [keeps_intros]: "keeps (access_inv A B) (FindUserByID u)"
  by (rule keeps_access_inv) (intro keeps_intros)+

lemma inv_CreateManagedUser [keeps_intros]: "keeps (access_inv A B) (CreateManagedUser i h)"
  by (rule keeps_access_inv) (intro keeps_intros)+

lemma inv_UpdateManagedUser:
  "(u = A \<Longrightarrow> \<not> ui_Disabled i \<and> ui_Username i = ''admin'') \<Longrightarrow>
   keeps (access_inv A B) (UpdateManagedUser u i h)"
  by (intro keeps_access_inv keeps_intros admin_UpdateManagedUser) auto

lemma inv_SetManagedUserDisabled:
  "(u = A \<Longrightarrow> \<not> b) \<Longrightarrow> keeps (access_inv A B) (SetManagedUserDisabled u b)"
  by (intro keeps_access_inv keeps_intros admin_SetManagedUserDisabled) auto

lemma inv_DeleteManagedUser: "u \<noteq> A \<Longrightarrow> keeps (access_inv A B) (DeleteManagedUser u)"
  by (intro keeps_access_inv keeps_intros admin_DeleteManagedUser)

lemma inv_role_ops [keeps_intros]:
  "keeps (access_inv A B) ListRoles"
  "keeps (access_inv A B) (UpsertCustomRole rid ri)"
  "keeps (access_inv A B) (DeleteCustomRole rid)"
  unfolding ListRoles_def by (intro keeps_access_inv keeps_admin_frame keeps_intros fault_blind_access_wf)+

lemma inv_group_ops [keeps_intros]:
  "keeps (access_inv A B) ListUserGroups"
  "keeps (access_inv A B) (UpsertUserGroup gid gi)"
  "keeps (access_inv A B) (DeleteUserGroup gid)"
  "keeps (access_inv A B) (WriteAudit a b c e f g)"
  by (intro keeps_access_inv keeps_intros)+

text \<open>A user found by the default administrator's identifier is the default administrator.\<close>

lemma found_admin:
  assumes "access_inv A B d" "FindUserByID A d = (Inr x, d')"
  shows "Username x = ''admin'' \<and> isDefaultAdminUser x"
proof -
  from assms(1) obtain r where r: "r \<in> set (users d)" "ur_id r = A" "ur_username r = ''admin''"
    and dist: "distinct (map ur_id (users d))"
    by (auto simp: access_inv_def admin_ok_def access_wf_def)
  from row_of_distinct [OF dist r(1)] r(2) have "row_of ur_id A (users d) = Some r" by simp
  with FindUserByID_Inr [OF assms(2)] r(3) have "Username x = ''admin''" by auto
  then show ?thesis by (simp add: isDefaultAdminUser_def)
qed

lemma inv_handleDeleteManagedUser [keeps_intros]:
  "keeps (access_inv A B) (handleDeleteManagedUser actor ip uid)"
  unfolding handleDeleteManagedUser_def
  by (intro keeps_intros keeps_attempt_bind
      [where P = "\<lambda>x. uid = A \<longrightarrow> isDefaultAdminUser x"] inv_DeleteManagedUser)
    (auto dest: found_admin)

lemma decoded_user:
  assumes "decodeManagedUserRequest body b = Inr i"
  shows "mu_Username i \<noteq> []"
  using assms by (auto simp: decodeManagedUserRequest_def Let_def split: option.splits if_splits)

lemma inv_handleUpdateManagedUser [keeps_intros]:
  "keeps (access_inv A B) (handleUpdateManagedUser H actor ip uid body)"
  unfolding handleUpdateManagedUser_def
  by (intro keeps_intros keeps_attempt_bind
      [where P = "\<lambda>x. uid = A \<longrightarrow> Username x = ''admin'' \<and> isDefaultAdminUser x"] inv_UpdateManagedUser)
    (auto simp: user_input_of_def dest: found_admin)

lemma inv_handleSetManagedUserDisabled [keeps_intros]:
  "keeps (access_inv A B) (handleSetManagedUserDisabled actor ip uid body)"
  unfolding handleSetManagedUserDisabled_def
  by (intro keeps_intros keeps_attempt_bind
      [where P = "\<lambda>x. uid = A \<longrightarrow> isDefaultAdminUser x"] inv_SetManagedUserDisabled)
    (auto dest: found_admin)

end
