(* ===== verification/Settings.thy ===== *)
theory Settings
  imports Access_Groups Http
begin

text \<open>
  The base configuration: \<open>backend/internal/repository/system_settings.go\<close> (the row, its defaults) and
  the handlers of \<open>backend/api/router/system_base_config.go\<close> (what a save accepts).
\<close>

section \<open>The stored row\<close>

definition fallbackText :: "string \<Rightarrow> string \<Rightarrow> string" where
  "fallbackText v fallback = (if v = [] then fallback else v)"

definition fallbackInt :: "int \<Rightarrow> int \<Rightarrow> int" where
  "fallbackInt v fallback = (if v \<le> 0 then fallback else v)"

definition fallbackIntPointer :: "int option \<Rightarrow> int \<Rightarrow> int" where
  "fallbackIntPointer v fallback =
    (case v of None \<Rightarrow> fallback | Some x \<Rightarrow> if x < 0 then fallback else x)"

definition fallbackFloat :: "rat \<Rightarrow> rat \<Rightarrow> rat" where
  "fallbackFloat v fallback = (if v \<le> 0 then fallback else v)"

text \<open>The JSON the package stores when there is no row; it has no login throttle keys.\<close>

definition default_payload :: base_payload where
  "default_payload = \<lparr>siteName = ''KVM Manager'', loginName = ''KVM Manager'', appName = ''KVM Manager'',
     appSubtitle = ''VIRTUALIZATION OPS'', iconData = ''/favicon.svg'',
     passwordResetCodeTtlMinutes = 10, passwordResetCaptchaTtlMinutes = 1,
     passwordResetSendCooldownMinutes = 1 / 2, passwordResetRateLimitMinutes = 5,
     resourceWarningThreshold = 70, resourceCriticalThreshold = 85, resourceAlertConsecutiveCount = 3,
     agentOfflineFailureCount = 3, alertNotificationTimeoutSeconds = 8,
     alertNotificationMaxRetryCount = Some 6, alertNotificationRetryBaseSeconds = 30,
     alertNotificationRetryMaxMinutes = 15, alertNotificationBatchSize = 50,
     wecomStateTtlMinutes = 5, loginMaxFailures = 0, loginLockoutMinutes = 0\<rparr>"

definition decodeSystemBaseConfig :: "base_payload \<Rightarrow> base_config" where
  "decodeSystemBaseConfig p = \<lparr>
     SiteName = fallbackText (siteName p) ''KVM Manager'',
     LoginName = fallbackText (loginName p) ''KVM Manager'',
     AppName = fallbackText (appName p) ''KVM Manager'',
     AppSubtitle = fallbackText (appSubtitle p) ''VIRTUALIZATION OPS'',
     IconData = fallbackText (iconData p) ''/favicon.svg'',
     PasswordResetCodeTTLMinutes = fallbackInt (passwordResetCodeTtlMinutes p) 10,
     PasswordResetCaptchaTTLMinutes = fallbackInt (passwordResetCaptchaTtlMinutes p) 1,
     PasswordResetSendCooldownMinutes = fallbackFloat (passwordResetSendCooldownMinutes p) (1 / 2),
     PasswordResetRateLimitMinutes = fallbackInt (passwordResetRateLimitMinutes p) 5,
     ResourceWarningThreshold = fallbackInt (resourceWarningThreshold p) 70,
     ResourceCriticalThreshold = fallbackInt (resourceCriticalThreshold p) 85,
     ResourceAlertConsecutiveCount = fallbackInt (resourceAlertConsecutiveCount p) 3,
     AgentOfflineFailureCount = fallbackInt (agentOfflineFailureCount p) 3,
     AlertNotificationTimeoutSeconds = fallbackInt (alertNotificationTimeoutSeconds p) 8,
     AlertNotificationMaxRetryCount = fallbackIntPointer (alertNotificationMaxRetryCount p) 6,
     AlertNotificationRetryBaseSeconds = fallbackInt (alertNotificationRetryBaseSeconds p) 30,
     AlertNotificationRetryMaxMinutes = fallbackInt (alertNotificationRetryMaxMinutes p) 15,
     AlertNotificationBatchSize = fallbackInt (alertNotificationBatchSize p) 50,
     WecomStateTTLMinutes = fallbackInt (wecomStateTtlMinutes p) 5,
     LoginMaxFailures = fallbackInt (loginMaxFailures p) 5,
     LoginLockoutMinutes = fallbackInt (loginLockoutMinutes p) 2\<rparr>"

definition UpsertSystemBaseConfig :: "base_payload \<Rightarrow> base_config db_prog" where
  "UpsertSystemBaseConfig p =
    bindp (exec (\<lambda>d. d\<lparr>settings := Some p\<rparr>)) (\<lambda>_. ret (decodeSystemBaseConfig p))"

definition GetSystemBaseConfig :: "base_config db_prog" where
  "GetSystemBaseConfig =
    bindp (query settings) (\<lambda>row.
    case row of
      None \<Rightarrow> UpsertSystemBaseConfig default_payload
    | Some p \<Rightarrow> ret (decodeSystemBaseConfig p))"

section \<open>Saving the configuration\<close>

definition positiveOrDefault :: "int \<Rightarrow> int \<Rightarrow> int" where
  "positiveOrDefault v fallback = (if v \<le> 0 then fallback else v)"

definition nonNegativePointerOrDefault :: "int option \<Rightarrow> int \<Rightarrow> int" where
  "nonNegativePointerOrDefault v fallback =
    (case v of None \<Rightarrow> fallback | Some x \<Rightarrow> if x < 0 then fallback else x)"

definition positiveFloatOrDefault :: "rat \<Rightarrow> rat \<Rightarrow> rat" where
  "positiveFloatOrDefault v fallback = (if v \<le> 0 then fallback else v)"

text \<open>\<open>math.Round\<close> rounds halves away from zero; its argument here is positive.\<close>

definition isHalfMinuteStep :: "rat \<Rightarrow> bool" where
  "isHalfMinuteStep v =
    (let steps = v * 2 in \<bar>steps - of_int (floor (steps + 1 / 2))\<bar> < 1 / 1000000)"

definition sanitizeSystemBaseConfig :: "base_payload \<Rightarrow> response + base_payload" where
  "sanitizeSystemBaseConfig b =
    (let siteName' = TrimSpace (siteName b); loginName' = TrimSpace (loginName b);
         appName' = TrimSpace (appName b); appSubtitle' = TrimSpace (appSubtitle b);
         iconData' = TrimSpace (iconData b);
         bad = Inl (writeError 400 ''invalid_base_config'') in
     if siteName' = [] \<or> loginName' = [] \<or> appName' = [] \<or> appSubtitle' = [] then bad
     else if rune_count siteName' > 60 \<or> rune_count loginName' > 60 \<or> rune_count appName' > 60
       \<or> rune_count appSubtitle' > 60 then bad
     else
     (let iconData' = (if iconData' = [] then ''/favicon.svg'' else iconData') in
      if length iconData' > 512 * 1024 then bad
      else if \<not> HasPrefix iconData' ''data:image/'' \<and> \<not> HasPrefix iconData' ''/'' then bad
      else
      (let codeTTL = positiveOrDefault (passwordResetCodeTtlMinutes b) 10;
           captchaTTL = positiveOrDefault (passwordResetCaptchaTtlMinutes b) 1;
           cooldown = positiveFloatOrDefault (passwordResetSendCooldownMinutes b) (1 / 2);
           rateLimit = positiveOrDefault (passwordResetRateLimitMinutes b) 5;
           warning = positiveOrDefault (resourceWarningThreshold b) 70;
           critical = positiveOrDefault (resourceCriticalThreshold b) 85;
           consecutive = positiveOrDefault (resourceAlertConsecutiveCount b) 3;
           offline = positiveOrDefault (agentOfflineFailureCount b) 3;
           timeout = positiveOrDefault (alertNotificationTimeoutSeconds b) 8;
           maxRetry = nonNegativePointerOrDefault (alertNotificationMaxRetryCount b) 6;
           retryBase = positiveOrDefault (alertNotificationRetryBaseSeconds b) 30;
           retryMax = positiveOrDefault (alertNotificationRetryMaxMinutes b) 15;
           batch = positiveOrDefault (alertNotificationBatchSize b) 50;
           wecomTTL = positiveOrDefault (wecomStateTtlMinutes b) 5;
           maxFailures = positiveOrDefault (loginMaxFailures b) 5;
           lockout = positiveOrDefault (loginLockoutMinutes b) 2 in
       if maxFailures < 3 \<or> maxFailures > 10 then bad
       else if lockout < 1 \<or> lockout > 10 then bad
       else if codeTTL < 1 \<or> codeTTL > 60 then bad
       else if captchaTTL < 1 \<or> captchaTTL > 10 then bad
       else if cooldown < 1 / 2 \<or> cooldown > 10 \<or> \<not> isHalfMinuteStep cooldown then bad
       else if rateLimit < 5 \<or> rateLimit > 10 then bad
       else if warning < 1 \<or> warning > 99 \<or> critical < 2 \<or> critical > 100 \<or> warning \<ge> critical then bad
       else if consecutive < 1 \<or> consecutive > 20 then bad
       else if offline < 1 \<or> offline > 20 then bad
       else if timeout < 3 \<or> timeout > 60 then bad
       else if maxRetry < 0 \<or> maxRetry > 10 then bad
       else if retryBase < 10 \<or> retryBase > 300 then bad
       else if retryMax < 1 \<or> retryMax > 120 then bad
       else if retryMax * 60 < retryBase then bad
       else if batch < 10 \<or> batch > 100 then bad
       else Inr \<lparr>siteName = siteName', loginName = loginName', appName = appName',
         appSubtitle = appSubtitle', iconData = iconData',
         passwordResetCodeTtlMinutes = codeTTL, passwordResetCaptchaTtlMinutes = captchaTTL,
         passwordResetSendCooldownMinutes = cooldown, passwordResetRateLimitMinutes = rateLimit,
         resourceWarningThreshold = warning, resourceCriticalThreshold = critical,
         resourceAlertConsecutiveCount = consecutive, agentOfflineFailureCount = offline,
         alertNotificationTimeoutSeconds = timeout, alertNotificationMaxRetryCount = Some maxRetry,
         alertNotificationRetryBaseSeconds = retryBase, alertNotificationRetryMaxMinutes = retryMax,
         alertNotificationBatchSize = batch, wecomStateTtlMinutes = wecomTTL,
         loginMaxFailures = maxFailures, loginLockoutMinutes = lockout\<rparr>)))"

definition handleGetSystemBaseConfig :: "response db_prog" where
  "handleGetSystemBaseConfig =
    bindp (attempt GetSystemBaseConfig) (\<lambda>r.
    case r of Inl _ \<Rightarrow> ret (writeError 500 ''get_base_config_failed'')
    | Inr config \<Rightarrow> ret (200, BConfig config))"

text \<open>\<open>router.defaultSystemBaseConfig\<close>, which the public endpoint falls back to.\<close>

definition defaultSystemBaseConfig :: base_config where
  "defaultSystemBaseConfig = \<lparr>SiteName = ''KVM Manager'', LoginName = ''KVM Manager'',
     AppName = ''KVM Manager'', AppSubtitle = ''VIRTUALIZATION OPS'', IconData = ''/favicon.svg'',
     PasswordResetCodeTTLMinutes = 10, PasswordResetCaptchaTTLMinutes = 1,
     PasswordResetSendCooldownMinutes = 1 / 2, PasswordResetRateLimitMinutes = 5,
     ResourceWarningThreshold = 70, ResourceCriticalThreshold = 85, ResourceAlertConsecutiveCount = 3,
     AgentOfflineFailureCount = 3, AlertNotificationTimeoutSeconds = 8,
     AlertNotificationMaxRetryCount = 6, AlertNotificationRetryBaseSeconds = 30,
     AlertNotificationRetryMaxMinutes = 15, AlertNotificationBatchSize = 50,
     WecomStateTTLMinutes = 5, LoginMaxFailures = 5, LoginLockoutMinutes = 2\<rparr>"

definition handlePublicSystemBaseConfig :: "response db_prog" where
  "handlePublicSystemBaseConfig =
    bindp (attempt GetSystemBaseConfig) (\<lambda>r.
    case r of Inl _ \<Rightarrow> ret (200, BConfig defaultSystemBaseConfig)
    | Inr config \<Rightarrow> ret (200, BConfig config))"

definition handleUpdateSystemBaseConfig ::
  "string \<Rightarrow> string \<Rightarrow> base_payload option \<Rightarrow> response db_prog" where
  "handleUpdateSystemBaseConfig actor ip body =
    (case body of
      None \<Rightarrow> ret (writeError 400 ''invalid_request'')
    | Some b \<Rightarrow>
       (case sanitizeSystemBaseConfig b of
         Inl resp \<Rightarrow> ret resp
       | Inr payload \<Rightarrow>
           bindp (attempt (UpsertSystemBaseConfig payload)) (\<lambda>r.
           case r of
             Inl _ \<Rightarrow> ret (writeError 500 ''save_base_config_failed'')
           | Inr config \<Rightarrow>
               bindp (ignore (WriteAudit actor ''settings.base.update'' ''system_setting'' ''base_config'' ip
                 [''siteName'' \<mapsto> JStr (SiteName config)])) (\<lambda>_. ret (200, BConfig config)))))"

section \<open>What a saved configuration satisfies\<close>

text \<open>
  The ranges the messages of \<open>sanitizeSystemBaseConfig\<close> state. The lifetime of a WeCom state has none:
  any positive number of minutes is saved.
\<close>

definition payload_in_range :: "base_payload \<Rightarrow> bool" where
  "payload_in_range p \<longleftrightarrow>
     passwordResetCodeTtlMinutes p \<in> {1..60} \<and> passwordResetCaptchaTtlMinutes p \<in> {1..10} \<and>
     passwordResetSendCooldownMinutes p \<in> {1 / 2..10} \<and>
     isHalfMinuteStep (passwordResetSendCooldownMinutes p) \<and>
     passwordResetRateLimitMinutes p \<in> {5..10} \<and>
     1 \<le> resourceWarningThreshold p \<and> resourceWarningThreshold p < resourceCriticalThreshold p \<and>
     resourceCriticalThreshold p \<le> 100 \<and>
     resourceAlertConsecutiveCount p \<in> {1..20} \<and> agentOfflineFailureCount p \<in> {1..20} \<and>
     alertNotificationTimeoutSeconds p \<in> {3..60} \<and>
     (\<exists>n \<in> {0..10}. alertNotificationMaxRetryCount p = Some n) \<and>
     alertNotificationRetryBaseSeconds p \<in> {10..300} \<and>
     alertNotificationRetryMaxMinutes p \<in> {1..120} \<and>
     alertNotificationRetryBaseSeconds p \<le> alertNotificationRetryMaxMinutes p * 60 \<and>
     alertNotificationBatchSize p \<in> {10..100} \<and> 1 \<le> wecomStateTtlMinutes p \<and>
     loginMaxFailures p \<in> {3..10} \<and> loginLockoutMinutes p \<in> {1..10}"

definition payload_texts :: "base_payload \<Rightarrow> bool" where
  "payload_texts p \<longleftrightarrow>
     (\<forall>t \<in> set [siteName p, loginName p, appName p, appSubtitle p].
        t \<noteq> [] \<and> rune_count t \<le> 60 \<and> TrimSpace t = t) \<and>
     iconData p \<noteq> [] \<and> TrimSpace (iconData p) = iconData p \<and> length (iconData p) \<le> 512 * 1024 \<and>
     (HasPrefix (iconData p) ''data:image/'' \<or> HasPrefix (iconData p) ''/'')"

lemma positiveOrDefault_pos: "0 < f \<Longrightarrow> 0 < positiveOrDefault v f"
  by (simp add: positiveOrDefault_def)

lemma sanitize_in_range:
  assumes "sanitizeSystemBaseConfig b = Inr p"
  shows "payload_in_range p"
  using assms positiveOrDefault_pos [of 5 "wecomStateTtlMinutes b"]
  unfolding sanitizeSystemBaseConfig_def Let_def payload_in_range_def
  by (clarsimp split: if_split_asm)

lemma favicon_trimmed: "TrimSpace ''/favicon.svg'' = ''/favicon.svg''"
  by code_simp

lemma sanitize_texts:
  assumes "sanitizeSystemBaseConfig b = Inr p"
  shows "payload_texts p"
  using assms favicon_trimmed
  unfolding sanitizeSystemBaseConfig_def Let_def payload_texts_def
  by (clarsimp split: if_split_asm)

lemma sanitize_accepts:
  assumes "payload_in_range p" "payload_texts p"
  shows "sanitizeSystemBaseConfig p = Inr p"
  using assms
  unfolding sanitizeSystemBaseConfig_def Let_def payload_in_range_def payload_texts_def
  by (auto simp: positiveOrDefault_def positiveFloatOrDefault_def nonNegativePointerOrDefault_def)

lemma decode_saved:
  assumes "payload_in_range p" "payload_texts p"
  shows "decodeSystemBaseConfig p = \<lparr>SiteName = siteName p, LoginName = loginName p,
     AppName = appName p, AppSubtitle = appSubtitle p, IconData = iconData p,
     PasswordResetCodeTTLMinutes = passwordResetCodeTtlMinutes p,
     PasswordResetCaptchaTTLMinutes = passwordResetCaptchaTtlMinutes p,
     PasswordResetSendCooldownMinutes = passwordResetSendCooldownMinutes p,
     PasswordResetRateLimitMinutes = passwordResetRateLimitMinutes p,
     ResourceWarningThreshold = resourceWarningThreshold p,
     ResourceCriticalThreshold = resourceCriticalThreshold p,
     ResourceAlertConsecutiveCount = resourceAlertConsecutiveCount p,
     AgentOfflineFailureCount = agentOfflineFailureCount p,
     AlertNotificationTimeoutSeconds = alertNotificationTimeoutSeconds p,
     AlertNotificationMaxRetryCount = the (alertNotificationMaxRetryCount p),
     AlertNotificationRetryBaseSeconds = alertNotificationRetryBaseSeconds p,
     AlertNotificationRetryMaxMinutes = alertNotificationRetryMaxMinutes p,
     AlertNotificationBatchSize = alertNotificationBatchSize p,
     WecomStateTTLMinutes = wecomStateTtlMinutes p,
     LoginMaxFailures = loginMaxFailures p, LoginLockoutMinutes = loginLockoutMinutes p\<rparr>"
  using assms
  unfolding decodeSystemBaseConfig_def payload_in_range_def payload_texts_def
  by (auto simp: fallbackText_def fallbackInt_def fallbackFloat_def fallbackIntPointer_def)

end
