(* ===== verification/Auth_Store.thy ===== *)
theory Auth_Store
  imports Access_Safety Settings
begin

text \<open>
  The tables behind a login: \<open>sessions.go\<close>, \<open>login_failures.go\<close>, \<open>auth_states.go\<close>, \<open>auth_providers.go\<close>,
  \<open>auth_wecom_bindings.go\<close> and \<open>password_reset.go\<close> of \<open>backend/internal/repository\<close>, each operation with
  what its statement does to its table. The locale \<open>token_table\<close> is the contract the sessions and the
  one-time states share.
\<close>

section \<open>Sessions\<close>

definition CreateSession :: "user_session \<Rightarrow> unit db_prog" where
  "CreateSession s = stmt (\<lambda>d.
     if us_user_id s \<notin> ur_id ` set (users d) then (Inl ForeignKeyViolation, d)
     else if jti s \<in> jti ` set (sessions d) then (Inl UniqueViolation, d)
     else (Inr (), d\<lparr>sessions := sessions d @ [s]\<rparr>))"

text \<open>The join of the session with its user. The statement does not read the user's email.\<close>

definition FindSession :: "string \<Rightarrow> session db_prog" where
  "FindSession j =
    bindp (query (\<lambda>d. case row_of jti j (sessions d) of
        None \<Rightarrow> None
      | Some s \<Rightarrow> (case row_of ur_id (us_user_id s) (users d) of
            None \<Rightarrow> None
          | Some r \<Rightarrow> Some (us_expires_at s, (user_of_row r)\<lparr>Email := []\<rparr>)))) (\<lambda>found.
    case found of
      None \<Rightarrow> fail ErrNotFound
    | Some (expiresAt, u) \<Rightarrow>
        bindp (attachAccessToUsers [u]) (\<lambda>us.
        ret \<lparr>sess_token = [], sess_expires_at = expiresAt, sess_user = hd us,
          sess_wecom_bound = False\<rparr>))"

definition DeleteSession :: "string \<Rightarrow> unit db_prog" where
  "DeleteSession j = exec (\<lambda>d. d\<lparr>sessions := filter (\<lambda>s. jti s \<noteq> j) (sessions d)\<rparr>)"

definition DeleteExpiredSessions :: "unit db_prog" where
  "DeleteExpiredSessions =
    exec (\<lambda>d. d\<lparr>sessions := filter (\<lambda>s. \<not> us_expires_at s \<le> clock d) (sessions d)\<rparr>)"

definition DeleteUserSessions :: "string \<Rightarrow> unit db_prog" where
  "DeleteUserSessions userID =
    exec (\<lambda>d. d\<lparr>sessions := filter (\<lambda>s. us_user_id s \<noteq> userID) (sessions d)\<rparr>)"

section \<open>Password failures\<close>

definition failures_of :: "string \<Rightarrow> (string \<times> int) list \<Rightarrow> int list" where
  "failures_of name rows = map snd (filter (\<lambda>(u, _). u = name) rows)"

text \<open>\<open>COUNT(*)\<close> and \<open>COALESCE(MAX(failed_at),0)\<close>.\<close>

definition CountLoginFailures :: "string \<Rightarrow> (int \<times> int) db_prog" where
  "CountLoginFailures username = query (\<lambda>d.
     let ts = failures_of username (login_failures d) in
     (int (length ts), case ts of [] \<Rightarrow> 0 | t # r \<Rightarrow> fold max r t))"

definition CreateLoginFailure :: "string \<Rightarrow> int \<Rightarrow> unit db_prog" where
  "CreateLoginFailure username failedAt =
    bindp (exec (\<lambda>d. d\<lparr>login_failures := login_failures d @ [(username, failedAt)]\<rparr>)) (\<lambda>_.
    exec (\<lambda>d. d\<lparr>login_failures :=
      filter (\<lambda>(_, t). \<not> t < failedAt - 24 * 3600) (login_failures d)\<rparr>))"

definition ClearLoginFailures :: "string \<Rightarrow> nat db_prog" where
  "ClearLoginFailures username =
    exec_count (\<lambda>d. length (failures_of username (login_failures d)))
      (\<lambda>d. d\<lparr>login_failures := filter (\<lambda>(u, _). u \<noteq> username) (login_failures d)\<rparr>)"

section \<open>One-time states\<close>

definition CreateAuthState :: "auth_state \<Rightarrow> unit db_prog" where
  "CreateAuthState item =
    bindp (exec (\<lambda>d. d\<lparr>auth_states := filter (\<lambda>s. \<not> as_expires_at s < clock d) (auth_states d)\<rparr>)) (\<lambda>_.
    stmt (\<lambda>d. if as_state item \<in> as_state ` set (auth_states d) then (Inl UniqueViolation, d)
      else (Inr (), d\<lparr>auth_states := auth_states d @ [item]\<rparr>)))"

text \<open>\<open>DELETE ... RETURNING\<close>: the row is read and removed by the same statement.\<close>

definition TakeAuthState :: "string \<Rightarrow> auth_state db_prog" where
  "TakeAuthState state = stmt (\<lambda>d.
     case row_of as_state state (auth_states d) of
       None \<Rightarrow> (Inl ErrNotFound, d)
     | Some s \<Rightarrow> (Inr s, d\<lparr>auth_states := filter (\<lambda>q. as_state q \<noteq> state) (auth_states d)\<rparr>))"

section \<open>Providers and WeCom bindings\<close>

definition provider_rank :: "string \<Rightarrow> nat" where
  "provider_rank pid = (if pid = ''ldap'' then 1 else if pid = ''wecom'' then 2 else 9)"

definition ListAuthProviders :: "auth_provider list db_prog" where
  "ListAuthProviders =
    query (\<lambda>d. sort_key (\<lambda>p. (provider_rank (ap_id p), ap_id p)) (auth_providers d))"

definition ListEnabledPublicAuthProviders :: "auth_provider list db_prog" where
  "ListEnabledPublicAuthProviders =
    query (\<lambda>d. sort_key (\<lambda>p. (provider_rank (ap_id p), ap_id p)) (filter ap_enabled (auth_providers d)))"

definition GetAuthProvider :: "string \<Rightarrow> auth_provider db_prog" where
  "GetAuthProvider pid =
    bindp (query (\<lambda>d. row_of ap_id pid (auth_providers d))) (\<lambda>found.
    case found of None \<Rightarrow> fail ErrNotFound | Some p \<Rightarrow> ret p)"

definition UpsertAuthProvider :: "auth_provider \<Rightarrow> auth_provider db_prog" where
  "UpsertAuthProvider p = stmt (\<lambda>d.
     (Inr p, d\<lparr>auth_providers :=
       (if ap_id p \<in> ap_id ` set (auth_providers d)
        then upd_where (\<lambda>q. ap_id q = ap_id p) (\<lambda>_. p) (auth_providers d)
        else auth_providers d @ [p])\<rparr>))"

text \<open>The user is read without roles and permissions.\<close>

definition FindUserByWecomAccount :: "string \<Rightarrow> user db_prog" where
  "FindUserByWecomAccount userid =
    bindp (query (\<lambda>d. case row_of snd userid (wecom_bindings d) of
        None \<Rightarrow> None
      | Some (uid, _) \<Rightarrow> map_option user_of_row (row_of ur_id uid (users d)))) (\<lambda>found.
    case found of None \<Rightarrow> fail ErrNotFound | Some u \<Rightarrow> ret u)"

definition BindWecomAccount :: "string \<Rightarrow> string \<Rightarrow> unit db_prog" where
  "BindWecomAccount userID userid =
    bindp (stmt (\<lambda>d.
      if \<exists>(u, w) \<in> set (wecom_bindings d). w = userid \<and> u \<noteq> userID then (Inr 0, d)
      else if userID \<notin> ur_id ` set (users d) then (Inl ForeignKeyViolation, d)
      else (Inr (1 :: nat), d\<lparr>wecom_bindings :=
        (if userID \<in> fst ` set (wecom_bindings d)
         then upd_where (\<lambda>q. fst q = userID) (\<lambda>_. (userID, userid)) (wecom_bindings d)
         else wecom_bindings d @ [(userID, userid)])\<rparr>))) (\<lambda>n.
    if n = 0 then fail ErrWecomAlreadyBound else ret ())"

definition UnbindWecomAccount :: "string \<Rightarrow> string db_prog" where
  "UnbindWecomAccount userID = stmt (\<lambda>d.
     case row_of fst userID (wecom_bindings d) of
       None \<Rightarrow> (Inr [], d)
     | Some (_, w) \<Rightarrow> (Inr w, d\<lparr>wecom_bindings := filter (\<lambda>(u, _). u \<noteq> userID) (wecom_bindings d)\<rparr>))"

definition UserHasWecomBinding :: "string \<Rightarrow> bool db_prog" where
  "UserHasWecomBinding userID =
    query (\<lambda>d. length (filter (\<lambda>(u, _). u = userID) (wecom_bindings d)) > 0)"

section \<open>Password reset tokens\<close>

text \<open>\<open>hash_code\<close> stands for the hexadecimal SHA-256 of \<open>hashResetCode\<close>.\<close>

definition CreatePasswordResetToken ::
  "(string \<Rightarrow> string) \<Rightarrow> string \<Rightarrow> string \<Rightarrow> string \<Rightarrow> string \<Rightarrow> string \<Rightarrow> int \<Rightarrow> reset_token db_prog"
where
  "CreatePasswordResetToken hash_code userID channelID contact code requestIP expiresAt =
    stmt (\<lambda>d. let (tid, d1) = gen_uuid d;
        t = \<lparr>rt_id = tid, rt_user_id = userID, rt_channel_id = channelID, rt_contact = contact,
          rt_code_hash = hash_code code, rt_request_ip = requestIP, rt_expires_at = expiresAt,
          rt_used_at = None, rt_created_at = clock d1\<rparr> in
      if userID \<notin> ur_id ` set (users d1) \<or> channelID \<notin> ch_id ` set (channels d1)
      then (Inl ForeignKeyViolation, d1)
      else if tid \<in> rt_id ` set (reset_tokens d1) then (Inl UniqueViolation, d1)
      else (Inr t, d1\<lparr>reset_tokens := reset_tokens d1 @ [t]\<rparr>))"

definition CountRecentPasswordResetTokens :: "string \<Rightarrow> int \<Rightarrow> nat db_prog" where
  "CountRecentPasswordResetTokens userID since =
    query (\<lambda>d. length (filter (\<lambda>t. rt_created_at t \<ge> since \<and> rt_user_id t = userID) (reset_tokens d)))"

text \<open>\<open>ORDER BY created_at DESC LIMIT 1\<close>.\<close>

definition latest_token :: "reset_token list \<Rightarrow> reset_token option" where
  "latest_token ts = (case sort_key (\<lambda>t. - rt_created_at t) ts of [] \<Rightarrow> None | t # _ \<Rightarrow> Some t)"

definition LatestRecentPasswordResetTokenCreatedAt :: "string \<Rightarrow> int \<Rightarrow> int option db_prog" where
  "LatestRecentPasswordResetTokenCreatedAt userID since =
    query (\<lambda>d. map_option rt_created_at (latest_token
      (filter (\<lambda>t. rt_created_at t \<ge> since \<and> rt_user_id t = userID) (reset_tokens d))))"

definition FindUsablePasswordResetToken ::
  "(string \<Rightarrow> string) \<Rightarrow> string \<Rightarrow> string \<Rightarrow> (reset_token \<times> user) db_prog" where
  "FindUsablePasswordResetToken hash_code username code =
    bindp (query (\<lambda>d. case row_of ur_username username (users d) of
        None \<Rightarrow> None
      | Some r \<Rightarrow> map_option (\<lambda>t. (t, (user_of_row r)\<lparr>Email := []\<rparr>))
          (latest_token (filter (\<lambda>t. rt_user_id t = ur_id r \<and> rt_code_hash t = hash_code code \<and>
             rt_used_at t = None \<and> rt_expires_at t > clock d) (reset_tokens d))))) (\<lambda>found.
    case found of
      None \<Rightarrow> fail ErrNotFound
    | Some (t, u) \<Rightarrow> bindp (attachAccessToUsers [u]) (\<lambda>us. ret (t, hd us)))"

definition DeleteStalePasswordResetTokens :: "unit db_prog" where
  "DeleteStalePasswordResetTokens = exec (\<lambda>d. d\<lparr>reset_tokens := filter (\<lambda>t.
     \<not> (case rt_used_at t of Some u \<Rightarrow> u < clock d - 7 * 86400
        | None \<Rightarrow> rt_expires_at t < clock d - 7 * 86400)) (reset_tokens d)\<rparr>)"

definition MarkPasswordResetTokenUsed :: "string \<Rightarrow> unit db_prog" where
  "MarkPasswordResetTokenUsed tid =
    bindp (exec_count (\<lambda>d. length (filter (\<lambda>t. rt_id t = tid \<and> rt_used_at t = None) (reset_tokens d)))
      (\<lambda>d. d\<lparr>reset_tokens := upd_where (\<lambda>t. rt_id t = tid \<and> rt_used_at t = None)
         (\<lambda>t. t\<lparr>rt_used_at := Some (clock d)\<rparr>) (reset_tokens d)\<rparr>)) (\<lambda>n.
    if n = 0 then fail ErrNotFound else ret ())"

section \<open>Notification channels\<close>

definition channel_rank :: "string \<Rightarrow> nat" where
  "channel_rank cid = (if cid = ''webhook'' then 1 else if cid = ''email'' then 2
     else if cid = ''lark'' then 3 else if cid = ''lark_app'' then 4 else if cid = ''wechat'' then 5
     else if cid = ''wechat_app'' then 6 else if cid = ''dingtalk'' then 7
     else if cid = ''dingtalk_app'' then 8 else 9)"

definition ListNotificationChannels :: "channel list db_prog" where
  "ListNotificationChannels =
    query (\<lambda>d. sort_key (\<lambda>c. (channel_rank (ch_id c), ch_id c)) (channels d))"

definition GetNotificationChannel :: "string \<Rightarrow> channel db_prog" where
  "GetNotificationChannel cid =
    bindp (query (\<lambda>d. row_of ch_id cid (channels d))) (\<lambda>found.
    case found of None \<Rightarrow> fail ErrNotFound | Some c \<Rightarrow> ret c)"

section \<open>The contract of the token tables\<close>

text \<open>
  What the authentication relies on for its sessions and its one-time states: a row is found under its
  key until it is deleted, an insertion does not replace a row, and the operations on one key leave the
  others alone. A token that is gone stays gone until a row is put under its key again.
\<close>

datatype ('k, 'r) table_op = Put 'r | Del 'k

locale token_table =
  fixes key :: "'r \<Rightarrow> 'k"
    and look :: "'k \<Rightarrow> 's \<Rightarrow> 'r option"
    and put :: "'r \<Rightarrow> 's \<Rightarrow> 's"
    and del :: "'k \<Rightarrow> 's \<Rightarrow> 's"
  assumes look_put: "look k (put r s) =
      (case look k s of Some x \<Rightarrow> Some x | None \<Rightarrow> if key r = k then Some r else None)"
    and look_del: "look k (del j s) = (if k = j then None else look k s)"
begin

lemma look_put_fresh: "look (key r) s = None \<Longrightarrow> look (key r) (put r s) = Some r"
  by (simp add: look_put)

lemma look_del_same: "look k (del k s) = None"
  by (simp add: look_del)

primrec apply_op :: "('k, 'r) table_op \<Rightarrow> 's \<Rightarrow> 's" where
  "apply_op (Put r) s = put r s"
| "apply_op (Del j) s = del j s"

lemma gone_stays_gone:
  "look k s = None \<Longrightarrow> (\<And>r. Put r \<in> set ops \<Longrightarrow> key r \<noteq> k) \<Longrightarrow> look k (fold apply_op ops s) = None"
proof (induction ops arbitrary: s)
  case (Cons p ops)
  then have "look k (apply_op p s) = None"
    by (cases p) (auto simp: look_put look_del)
  with Cons show ?case by simp
qed simp

lemma used_once:
  assumes "\<And>r. Put r \<in> set ops \<Longrightarrow> key r \<noteq> k"
  shows "look k (fold apply_op ops (del k s)) = None"
  using gone_stays_gone [OF look_del_same assms] .

end

lemma row_of_filter_key:
  "row_of f k (filter (\<lambda>x. f x \<noteq> j) s) = (if k = j then None else row_of f k s)"
  using row_of_filter [of f k "\<lambda>v. v \<noteq> j" s] by simp

lemma row_of_single: "row_of f k [r] = (if f r = k then Some r else None)"
  by (simp add: row_of_def)

interpretation session_table: token_table jti "row_of jti" "\<lambda>r s. s @ [r]" "\<lambda>k. filter (\<lambda>x. jti x \<noteq> k)"
  by unfold_locales (auto simp: row_of_append row_of_filter_key row_of_single split: option.splits)

interpretation state_table: token_table as_state "row_of as_state" "\<lambda>r s. s @ [r]"
  "\<lambda>k. filter (\<lambda>x. as_state x \<noteq> k)"
  by unfold_locales (auto simp: row_of_append row_of_filter_key row_of_single split: option.splits)

end
