(* ===== verification/Encoding.thy ===== *)
theory Encoding
  imports GoStrings
begin

text \<open>
  What the program uses of Go's \<open>encoding/hex\<close>, \<open>encoding/base64\<close> (\<open>RawURLEncoding\<close>) and \<open>net/url\<close>: texts are
  byte strings.
\<close>

section \<open>Hexadecimal\<close>

definition byte :: "char \<Rightarrow> nat" where
  "byte c = of_char c"

lemma byte_lt [simp]: "byte c < 256"
  using nat_of_char_less_256 [of c] by (simp add: byte_def)

lemma char_of_byte [simp]: "char_of (byte c) = c"
  by (simp add: byte_def)

definition hex_digit :: "nat \<Rightarrow> char" where
  "hex_digit n = (if n < 10 then char_of (48 + n) else char_of (87 + n))"

definition EncodeHex :: "string \<Rightarrow> string" where
  "EncodeHex bs = concat (map (\<lambda>c. [hex_digit (byte c div 16), hex_digit (byte c mod 16)]) bs)"

section \<open>Base64, URL alphabet, no padding\<close>

definition b64_char :: "nat \<Rightarrow> char" where
  "b64_char n = (if n < 26 then char_of (65 + n) else if n < 52 then char_of (71 + n)
     else if n < 62 then char_of (n - 4) else if n = 62 then CHR ''-'' else CHR ''_'')"

definition b64_value :: "char \<Rightarrow> nat option" where
  "b64_value c = (let n = byte c in
     if 65 \<le> n \<and> n \<le> 90 then Some (n - 65) else if 97 \<le> n \<and> n \<le> 122 then Some (n - 71)
     else if 48 \<le> n \<and> n \<le> 57 then Some (n + 4) else if c = CHR ''-'' then Some 62
     else if c = CHR ''_'' then Some 63 else None)"

lemma byte_char_of: "n < 256 \<Longrightarrow> byte (char_of n) = n"
  by (simp add: byte_def of_char_of)

lemma byte_b64_char:
  "n < 64 \<Longrightarrow> byte (b64_char n) = (if n < 26 then 65 + n else if n < 52 then 71 + n
     else if n < 62 then n - 4 else if n = 62 then 45 else 95)"
  by (simp add: b64_char_def byte_char_of) (simp add: byte_def)

lemma b64_value_char: "n < 64 \<Longrightarrow> b64_value (b64_char n) = Some n"
  by (auto simp: b64_value_def Let_def byte_b64_char) (auto simp: b64_char_def split: if_splits)

lemma b64_char_printable: "n < 64 \<Longrightarrow> 32 < byte (b64_char n) \<and> byte (b64_char n) < 128"
  by (auto simp: byte_b64_char)

lemma b64_char_not:
  assumes "n < 64"
  shows "b64_char n \<noteq> CHR 0x0A" "b64_char n \<noteq> CHR 0x0D"
proof -
  have "byte (CHR 0x0A) = 10" "byte (CHR 0x0D) = 13" by (simp_all add: byte_def)
  with b64_char_printable [OF assms] show "b64_char n \<noteq> CHR 0x0A" "b64_char n \<noteq> CHR 0x0D"
    by force+
qed

fun b64_enc :: "nat list \<Rightarrow> nat list" where
  "b64_enc [] = []"
| "b64_enc [a] = [a div 4, a mod 4 * 16]"
| "b64_enc [a, b] = [a div 4, a mod 4 * 16 + b div 16, b mod 16 * 4]"
| "b64_enc (a # b # c # r) =
     [a div 4, a mod 4 * 16 + b div 16, b mod 16 * 4 + c div 64, c mod 64] @ b64_enc r"

text \<open>The trailing bits of a short last group are not checked, as in Go's non-strict decoder.\<close>

fun b64_dec :: "nat list \<Rightarrow> nat list option" where
  "b64_dec [] = Some []"
| "b64_dec [p] = None"
| "b64_dec [p, q] = Some [p * 4 + q div 16]"
| "b64_dec [p, q, r] = Some [p * 4 + q div 16, q mod 16 * 16 + r div 4]"
| "b64_dec (p # q # r # s # t) =
     map_option (\<lambda>x. [p * 4 + q div 16, q mod 16 * 16 + r div 4, r mod 4 * 64 + s] @ x) (b64_dec t)"

definition EncodeToString :: "string \<Rightarrow> string" where
  "EncodeToString s = map b64_char (b64_enc (map byte s))"

text \<open>\<open>map_list f\<close>: every element has a value, or none.\<close>

fun values_of :: "string \<Rightarrow> nat list option" where
  "values_of [] = Some []"
| "values_of (c # s) = (case b64_value c of None \<Rightarrow> None | Some v \<Rightarrow> map_option (Cons v) (values_of s))"

definition DecodeString :: "string \<Rightarrow> string option" where
  "DecodeString s =
    (case values_of (filter (\<lambda>c. c \<noteq> CHR 0x0A \<and> c \<noteq> CHR 0x0D) s) of
      None \<Rightarrow> None
    | Some vs \<Rightarrow> map_option (map char_of) (b64_dec vs))"

lemma b64_enc_lt: "\<forall>x \<in> set bs. x < 256 \<Longrightarrow> \<forall>y \<in> set (b64_enc bs). y < 64"
  by (induction bs rule: b64_enc.induct) auto

lemma b64_dec_enc: "\<forall>x \<in> set bs. x < 256 \<Longrightarrow> b64_dec (b64_enc bs) = Some bs"
  by (induction bs rule: b64_enc.induct) (auto simp: div_mult2_eq mod_mult2_eq)

lemma values_of_b64: "\<forall>y \<in> set vs. y < 64 \<Longrightarrow> values_of (map b64_char vs) = Some vs"
  by (induction vs) (auto simp: b64_value_char)

lemma DecodeString_EncodeToString [simp]: "DecodeString (EncodeToString s) = Some s"
proof -
  let ?vs = "b64_enc (map byte s)"
  have lt: "\<forall>y \<in> set ?vs. y < 64" by (rule b64_enc_lt) simp
  then have "filter (\<lambda>c. c \<noteq> CHR 0x0A \<and> c \<noteq> CHR 0x0D) (map b64_char ?vs) = map b64_char ?vs"
    by (auto simp: filter_id_conv b64_char_not)
  moreover have "b64_dec ?vs = Some (map byte s)" by (rule b64_dec_enc) simp
  ultimately show ?thesis
    using values_of_b64 [OF lt]
    by (simp add: DecodeString_def EncodeToString_def comp_def)
qed

section \<open>Query strings\<close>

definition unreserved :: "char \<Rightarrow> bool" where
  "unreserved c \<longleftrightarrow> (let n = byte c in
     (65 \<le> n \<and> n \<le> 90) \<or> (97 \<le> n \<and> n \<le> 122) \<or> (48 \<le> n \<and> n \<le> 57) \<or> c \<in> set ''-_.~'')"

definition upper_hex :: "nat \<Rightarrow> char" where
  "upper_hex n = (if n < 10 then char_of (48 + n) else char_of (55 + n))"

definition QueryEscape :: "string \<Rightarrow> string" where
  "QueryEscape s = concat (map (\<lambda>c.
     if unreserved c then [c] else if c = CHR '' '' then ''+''
     else [CHR ''%'', upper_hex (byte c div 16), upper_hex (byte c mod 16)]) s)"

text \<open>\<open>url.Values.Encode\<close> of values given in the order of their keys.\<close>

definition EncodeValues :: "(string \<times> string) list \<Rightarrow> string" where
  "EncodeValues kvs = Join (map (\<lambda>(k, v). QueryEscape k @ ''='' @ QueryEscape v) kvs) ''&''"

section \<open>Texts without white space\<close>

definition printable :: "char \<Rightarrow> bool" where
  "printable c \<longleftrightarrow> 32 < byte c \<and> byte c < 127"

lemma wide_first: "w \<in> set wide_spaces \<union> rev ` set wide_spaces \<Longrightarrow> w \<noteq> [] \<and> 128 \<le> byte (hd w)"
  by (auto simp: wide_spaces_def byte_def)

lemma space_len_printable:
  assumes "list_all printable s" "set ws \<subseteq> set wide_spaces \<union> rev ` set wide_spaces"
  shows "space_len ws s = 0"
proof (cases s)
  case (Cons c r)
  with assms(1) have c: "32 < byte c" "byte c < 127" by (auto simp: printable_def)
  have no: "take n s \<notin> set ws" if "0 < n" for n
  proof
    assume "take n s \<in> set ws"
    with assms(2) have "128 \<le> byte (hd (take n s))" using wide_first by blast
    with Cons that c show False by (cases n) auto
  qed
  have "\<not> ascii_space c"
  proof
    assume "ascii_space c"
    then have "byte c \<le> 32" by (auto simp: ascii_space_def byte_def)
    with c show False by simp
  qed
  then show ?thesis using Cons no [of 2] no [of 3] by (simp add: space_len_def del: take_Suc_Cons)
qed simp

lemma TrimSpace_printable: "list_all printable s \<Longrightarrow> TrimSpace s = s"
  by (rule TrimSpace_id) (auto intro!: space_len_printable simp: list_all_iff)

lemma b64_printable: "list_all printable (EncodeToString s)"
proof -
  have "\<forall>y \<in> set (b64_enc (map byte s)). y < 64" by (rule b64_enc_lt) simp
  then show ?thesis
    by (auto simp: EncodeToString_def list_all_iff printable_def byte_b64_char)
qed

lemma b64_no_dot: "CHR ''.'' \<notin> set (EncodeToString s)"
proof
  assume "CHR ''.'' \<in> set (EncodeToString s)"
  then obtain y where "y \<in> set (b64_enc (map byte s))" "b64_char y = CHR ''.''"
    by (auto simp: EncodeToString_def)
  moreover have "\<forall>y \<in> set (b64_enc (map byte s)). y < 64" by (rule b64_enc_lt) simp
  moreover have "byte (CHR ''.'') = 46" by (simp add: byte_def)
  ultimately show False using byte_b64_char [of y] by (auto split: if_splits)
qed

section \<open>Decimal texts\<close>

lemma int_of_char_of [simp]: "n < 256 \<Longrightarrow> (of_char (char_of n) :: int) = int n" for n :: nat
  by (metis of_nat_of_char of_char_of mod_less)

lemma dec_nat_digits: "list_all (\<lambda>c. is_digit c) (dec_nat n) \<and> dec_nat n \<noteq> []"
proof (induction n rule: dec_nat.induct)
  case (1 n)
  have d: "is_digit (char_of (48 + n mod 10))" by (simp add: is_digit_def)
  have e: "dec_nat n = (if n < 10 then [char_of (48 + n)] else dec_nat (n div 10) @ [char_of (48 + n mod 10)])"
    by (rule dec_nat.simps)
  show ?case
  proof (cases "n < 10")
    case True
    with d e show ?thesis by simp
  next
    case False
    with d e "1.IH" show ?thesis by simp
  qed
qed

lemma scan_uint_dec:
  assumes "int n \<le> 18446744073709551615"
  shows "scan_uint 0 (dec_nat n @ s) = scan_uint (int n) s"
  using assms
proof (induction n arbitrary: s rule: dec_nat.induct)
  case (1 n)
  show ?case
  proof (cases "n < 10")
    case True
    then show ?thesis
      by (subst dec_nat.simps) (simp add: is_digit_def digit_val_def of_char_of)
  next
    case False
    have d: "is_digit (char_of (48 + n mod 10))" "digit_val (char_of (48 + n mod 10)) = int (n mod 10)"
      by (simp_all add: is_digit_def digit_val_def of_char_of)
    have "scan_uint 0 (dec_nat n @ s) = scan_uint 0 (dec_nat (n div 10) @ char_of (48 + n mod 10) # s)"
      using False by (subst dec_nat.simps) simp
    also have "\<dots> = scan_uint (int (n div 10)) (char_of (48 + n mod 10) # s)"
      using False "1.prems" by (intro "1.IH") auto
    also have "\<dots> = scan_uint (int n) s"
    proof -
      have "10 * int (n div 10) + int (n mod 10) = int n" by (simp add: zdiv_int zmod_int)
      with "1.prems" d show ?thesis by simp
    qed
    finally show ?thesis .
  qed
qed

lemma ParseInt_Itoa: "in_i64 z \<Longrightarrow> ParseInt (Itoa z) = (z, True)"
proof -
  assume z: "in_i64 z"
  have first: "hd (dec_nat n) \<noteq> CHR ''-''" "hd (dec_nat n) \<noteq> CHR ''+''" for n
    using dec_nat_digits [of n] by (cases "dec_nat n"; auto simp: is_digit_def)+
  have scan: "scan_uint 0 (dec_nat n) = Scanned (int n)" if "int n \<le> 18446744073709551615" for n
    using scan_uint_dec [OF that, of "[]"] by simp
  show ?thesis
  proof (cases "z < 0")
    case True
    have "scan_uint 0 (dec_nat (nat (- z))) = Scanned (- z)"
      using z True scan [of "nat (- z)"] by (simp add: in_i64_def)
    with True z dec_nat_digits [of "nat (- z)"] show ?thesis
      by (simp add: ParseInt_def Itoa_def Let_def in_i64_def)
  next
    case False
    have s: "scan_uint 0 (dec_nat (nat z)) = Scanned z"
      using z False scan [of "nat z"] by (simp add: in_i64_def)
    obtain c r where c: "dec_nat (nat z) = c # r" "c \<noteq> CHR ''-''" "c \<noteq> CHR ''+''"
      using first [of "nat z"] dec_nat_digits [of "nat z"] by (cases "dec_nat (nat z)") auto
    with s False z show ?thesis by (simp add: ParseInt_def Itoa_def Let_def in_i64_def)
  qed
qed

lemma Split_no_sep: "d \<notin> set s \<Longrightarrow> Split d s = [s]"
  by (induction s) auto

lemma Split_append: "d \<notin> set s \<Longrightarrow> Split d (s @ d # r) = s # Split d r"
  by (induction s) auto

lemma digits_no_colon: "CHR '':'' \<notin> set (Itoa z)"
  using dec_nat_digits by (auto simp: Itoa_def list_all_iff is_digit_def) (fastforce simp: is_digit_def)+

lemma b64_no_colon: "CHR '':'' \<notin> set (EncodeToString s)"
proof
  assume "CHR '':'' \<in> set (EncodeToString s)"
  then obtain y where "y \<in> set (b64_enc (map byte s))" "b64_char y = CHR '':''"
    by (auto simp: EncodeToString_def)
  moreover have "\<forall>y \<in> set (b64_enc (map byte s)). y < 64" by (rule b64_enc_lt) simp
  moreover have "byte (CHR '':'') = 58" by (simp add: byte_def)
  ultimately show False using byte_b64_char [of y] by (auto split: if_splits)
qed

end
