(* ===== verification/Auth_Service.thy ===== *)
theory Auth_Service
  imports Auth_Store Access_Router Encoding
begin

text \<open>
  The authentication service, \<open>backend/internal/service/auth\<close>: password and LDAP logins, the sessions
  they issue, the check of a request's token, the login throttle (\<open>login_throttle.go\<close>) and the WeCom
  flow (\<open>wecom_sso.go\<close>). bcrypt, the JWT library, the LDAP connection, the random source and the
  WeCom services are arguments; \<open>s.now()\<close> and PostgreSQL's \<open>now()\<close> read the same clock.
\<close>

section \<open>What the service is given\<close>

record claims =
  cl_user_id :: string
  cl_username :: string
  cl_source :: string
  cl_jti :: string
  cl_subject :: string
  cl_issued_at :: int
  cl_expires_at :: int

text \<open>
  \<open>verify_password h p\<close>: bcrypt accepts \<open>p\<close> for the hash \<open>h\<close>. \<open>sign_claims secret c\<close>: the HS256 token.
  \<open>parse_claims secret now t\<close>: the claims of a token whose signature, method and expiry are accepted.
\<close>

record crypto =
  verify_password :: "string \<Rightarrow> string \<Rightarrow> bool"
  sign_claims :: "string \<Rightarrow> claims \<Rightarrow> string option"
  parse_claims :: "string \<Rightarrow> int \<Rightarrow> string \<Rightarrow> claims option"

record auth_service =
  svc_secret :: string
  svc_session_ttl :: int
  svc_crypto :: crypto

datatype auth_error =
    ErrInvalidCredentials
  | ErrInvalidSession
  | ErrUserNotProvisioned
  | ErrInvalidState
  | ErrAuthProviderDisabled
  | ErrWecomNotBound
  | LoginLockedError int
  | LDAPConfigError string
  | WecomConfigError
  | WecomRemoteError
  | WecomLoginError string string string auth_error
  | RandomError
  | SigningError
  | StoreError store_error

text \<open>A store call whose error the service returns as it is.\<close>

definition store :: "'a db_prog \<Rightarrow> (db, auth_error, 'a) prog" where
  "store m = bindp (attempt m) (\<lambda>r. case r of Inl e \<Rightarrow> fail (StoreError e) | Inr x \<Rightarrow> ret x)"

lemma keeps_store [keeps_intros]: "keeps I m \<Longrightarrow> keeps I (store m)"
  unfolding store_def by (intro keeps_intros)

section \<open>Sessions\<close>

text \<open>\<open>randomSessionID\<close>: the 16 bytes of the random source, in hexadecimal.\<close>

definition randomSessionID :: "string option \<Rightarrow> string option" where
  "randomSessionID rnd = map_option EncodeHex rnd"

definition issueSession :: "auth_service \<Rightarrow> string option \<Rightarrow> user \<Rightarrow> (db, auth_error, session) prog" where
  "issueSession svc rnd u =
    (case randomSessionID rnd of
      None \<Rightarrow> fail RandomError
    | Some j \<Rightarrow>
       bindp now (\<lambda>t.
       let expiresAt = t + svc_session_ttl svc;
           claims = \<lparr>cl_user_id = ID u, cl_username = Username u, cl_source = Source u, cl_jti = j,
             cl_subject = Username u, cl_issued_at = t, cl_expires_at = expiresAt\<rparr> in
       (case sign_claims (svc_crypto svc) (svc_secret svc) claims of
         None \<Rightarrow> fail SigningError
       | Some signed \<Rightarrow>
          bindp (store (CreateSession \<lparr>jti = j, us_user_id = ID u, us_username = Username u,
            us_source = Source u, us_created_at = t, us_expires_at = expiresAt\<rparr>)) (\<lambda>_.
          bindp (ignore DeleteExpiredSessions) (\<lambda>_.
          bindp (store (RecordUserLogin (ID u))) (\<lambda>_.
          bindp (store (UserHasWecomBinding (ID u))) (\<lambda>bound.
          ret \<lparr>sess_token = signed, sess_expires_at = expiresAt, sess_user = u,
            sess_wecom_bound = bound\<rparr>)))))))"

definition Login :: "auth_service \<Rightarrow> string option \<Rightarrow> string \<Rightarrow> string \<Rightarrow> (db, auth_error, session) prog" where
  "Login svc rnd username password =
    bindp (attempt (FindUserByUsername username)) (\<lambda>r.
    case r of
      Inl _ \<Rightarrow> fail ErrInvalidCredentials
    | Inr (u, passwordHash) \<Rightarrow>
        if Disabled u then fail ErrInvalidCredentials
        else if \<not> verify_password (svc_crypto svc) passwordHash password then fail ErrInvalidCredentials
        else issueSession svc rnd u)"

text \<open>\<open>sessionJTI\<close>: the empty text when the token is refused.\<close>

definition sessionJTI :: "auth_service \<Rightarrow> int \<Rightarrow> string \<Rightarrow> string" where
  "sessionJTI svc t token =
    (case parse_claims (svc_crypto svc) (svc_secret svc) t (TrimSpace token) of
      None \<Rightarrow> []
    | Some c \<Rightarrow> cl_jti c)"

definition Validate :: "auth_service \<Rightarrow> string \<Rightarrow> (db, auth_error, session) prog" where
  "Validate svc token =
    bindp now (\<lambda>t0.
    let j = sessionJTI svc t0 token in
    if j = [] then fail ErrInvalidSession
    else
      bindp (attempt (FindSession j)) (\<lambda>r.
      bindp now (\<lambda>t.
      case r of
        Inl _ \<Rightarrow> fail ErrInvalidSession
      | Inr s \<Rightarrow>
          if \<not> sess_expires_at s > t \<or> Disabled (sess_user s) then fail ErrInvalidSession
          else ret s)))"

definition Logout :: "auth_service \<Rightarrow> string \<Rightarrow> (db, auth_error, unit) prog" where
  "Logout svc token =
    bindp now (\<lambda>t.
    let j = sessionJTI svc t token in
    if j = [] then ret () else store (DeleteSession j))"

section \<open>The login throttle\<close>

definition login_name :: "string \<Rightarrow> string" where
  "login_name username = ToLower (TrimSpace username)"

text \<open>\<open>None\<close> is the return of \<open>nil\<close>; the remaining minutes are rounded up.\<close>

definition EnsureLoginAllowed :: "string \<Rightarrow> (db, auth_error, unit) prog" where
  "EnsureLoginAllowed username =
    (let name = login_name username in
     if name = [] \<or> EqualFold (TrimSpace username) ''admin'' then ret ()
     else
      bindp (store GetSystemBaseConfig) (\<lambda>base.
      let maxFailures = (if LoginMaxFailures base \<le> 0 then 5 else LoginMaxFailures base);
          lockoutMinutes = (if LoginLockoutMinutes base \<le> 0 then 2 else LoginLockoutMinutes base) in
      bindp (store (CountLoginFailures name)) (\<lambda>(count, lastFailedAt).
      if count < maxFailures \<or> lastFailedAt \<le> 0 then ret ()
      else
        bindp now (\<lambda>t.
        let remaining = lastFailedAt + lockoutMinutes * 60 - t in
        if remaining > 0 then fail (LoginLockedError ((remaining + 59) sdiv 60))
        else bindp (store (ClearLoginFailures name)) (\<lambda>_. ret ())))))"

definition RecordLoginFailure :: "string \<Rightarrow> (db, auth_error, unit) prog" where
  "RecordLoginFailure username =
    (let name = login_name username in
     if name = [] then ret ()
     else bindp now (\<lambda>t. store (CreateLoginFailure name t)))"

definition ClearFailures :: "string \<Rightarrow> (db, auth_error, nat) prog" where
  "ClearFailures username =
    (let name = login_name username in
     if name = [] then ret 0 else store (ClearLoginFailures name))"

section \<open>LDAP\<close>

text \<open>\<open>json.Unmarshal\<close> into the struct: none when a member has the wrong type.\<close>

definition unmarshal_ldap :: "members \<Rightarrow> LDAPConfig option" where
  "unmarshal_ldap m =
    (if \<not> list_all (\<lambda>k. is_text (json_field m k))
         [''host'', ''baseDN'', ''userFilter'', ''bindDN'', ''bindPassword'', ''usernameAttribute'',
          ''displayNameAttribute'', ''emailAttribute'', ''groupFilter'']
       \<or> \<not> list_all (\<lambda>k. is_bool (json_field m k)) [''useTLS'', ''startTLS'', ''insecureSkipVerify'']
       \<or> \<not> list_all (\<lambda>k. is_int (json_field m k)) [''port'', ''timeoutSeconds''] then None
     else Some \<lparr>ldap_Host = text_field m ''host'', ldap_Port = int_field m ''port'',
       ldap_BaseDN = text_field m ''baseDN'', ldap_UserFilter = text_field m ''userFilter'',
       ldap_BindDN = text_field m ''bindDN'', ldap_BindPassword = text_field m ''bindPassword'',
       ldap_UseTLS = bool_field m ''useTLS'', ldap_StartTLS = bool_field m ''startTLS'',
       ldap_InsecureSkipVerify = bool_field m ''insecureSkipVerify'',
       ldap_UsernameAttribute = text_field m ''usernameAttribute'',
       ldap_DisplayNameAttribute = text_field m ''displayNameAttribute'',
       ldap_EmailAttribute = text_field m ''emailAttribute'',
       ldap_TimeoutSeconds = int_field m ''timeoutSeconds'', ldap_GroupFilter = text_field m ''groupFilter''\<rparr>)"

definition decodeLDAPConfig :: "members \<Rightarrow> string + LDAPConfig" where
  "decodeLDAPConfig data =
    (case unmarshal_ldap data of
      None \<Rightarrow> Inl ''invalid json''
    | Some raw \<Rightarrow>
       let cfg = raw\<lparr>ldap_Host := TrimSpace (ldap_Host raw), ldap_BaseDN := TrimSpace (ldap_BaseDN raw),
         ldap_UserFilter := TrimSpace (ldap_UserFilter raw), ldap_BindDN := TrimSpace (ldap_BindDN raw),
         ldap_UsernameAttribute := TrimSpace (ldap_UsernameAttribute raw),
         ldap_DisplayNameAttribute := TrimSpace (ldap_DisplayNameAttribute raw),
         ldap_EmailAttribute := TrimSpace (ldap_EmailAttribute raw),
         ldap_GroupFilter := TrimSpace (ldap_GroupFilter raw)\<rparr>;
         cfg = (if ldap_Port cfg = 0 then cfg\<lparr>ldap_Port := if ldap_UseTLS cfg then 636 else 389\<rparr> else cfg) in
       if ldap_UseTLS cfg \<and> ldap_StartTLS cfg then Inl ''LDAPS and StartTLS cannot both be enabled''
       else
       let cfg = (if ldap_UserFilter cfg = []
             then cfg\<lparr>ldap_UserFilter := ''(sAMAccountName={username})''\<rparr> else cfg);
           cfg = (if ldap_UsernameAttribute cfg = []
             then cfg\<lparr>ldap_UsernameAttribute := ''sAMAccountName''\<rparr> else cfg);
           cfg = (if ldap_DisplayNameAttribute cfg = []
             then cfg\<lparr>ldap_DisplayNameAttribute := ''displayName''\<rparr> else cfg);
           cfg = (if ldap_EmailAttribute cfg = [] then cfg\<lparr>ldap_EmailAttribute := ''mail''\<rparr> else cfg);
           cfg = (if ldap_TimeoutSeconds cfg \<le> 0 \<or> ldap_TimeoutSeconds cfg > 30
             then cfg\<lparr>ldap_TimeoutSeconds := 8\<rparr> else cfg) in
       if ldap_Host cfg = [] \<or> ldap_BaseDN cfg = [] then Inl ''LDAP host and base DN are required''
       else Inr cfg)"

text \<open>
  The directory behind a connection. \<open>ldap_bind dn pw\<close>: the bind is accepted. \<open>ldap_search base filter\<close>:
  the entries, or none when the search fails (the size limit is one). \<open>EscapeFilter\<close> is the library's.
\<close>

record ldap_entry =
  le_dn :: string
  le_attr :: "string \<Rightarrow> string"

record ldap_server =
  ldap_bind :: "string \<Rightarrow> string \<Rightarrow> bool"
  ldap_search :: "string \<Rightarrow> string \<Rightarrow> ldap_entry list option"

record ldap_library =
  dialLDAP :: "LDAPConfig \<Rightarrow> ldap_server option"
  EscapeFilter :: "string \<Rightarrow> string"

definition ldapNormalizedGroupFilter :: "ldap_library \<Rightarrow> LDAPConfig \<Rightarrow> string" where
  "ldapNormalizedGroupFilter lib cfg =
    (let groupFilter = TrimSpace (ldap_GroupFilter cfg) in
     if groupFilter = [] then []
     else if HasPrefix groupFilter ''('' then groupFilter
     else ''(memberOf='' @ EscapeFilter lib groupFilter @ '')'')"

definition ldapLoginUserFilter :: "ldap_library \<Rightarrow> LDAPConfig \<Rightarrow> string \<Rightarrow> string" where
  "ldapLoginUserFilter lib cfg username =
    (let userFilter = ReplaceAll (ldap_UserFilter cfg) ''{username}'' (EscapeFilter lib username);
         groupFilter = ldapNormalizedGroupFilter lib cfg in
     if groupFilter = [] then userFilter else ''(&'' @ userFilter @ groupFilter @ '')'')"

definition authenticateLDAP ::
  "ldap_library \<Rightarrow> LDAPConfig \<Rightarrow> string \<Rightarrow> string \<Rightarrow> (string \<times> string) option" where
  "authenticateLDAP lib cfg username0 password =
    (let username = TrimSpace username0 in
     if username = [] \<or> password = [] then None
     else (case dialLDAP lib cfg of
        None \<Rightarrow> None
      | Some conn \<Rightarrow>
         if ldap_BindDN cfg \<noteq> [] \<and> \<not> ldap_bind conn (ldap_BindDN cfg) (ldap_BindPassword cfg) then None
         else (case ldap_search conn (ldap_BaseDN cfg) (ldapLoginUserFilter lib cfg username) of
            Some [entry] \<Rightarrow>
              if \<not> ldap_bind conn (le_dn entry) password then None
              else
               let resolved = le_attr entry (ldap_UsernameAttribute cfg);
                   resolved = (if TrimSpace resolved = [] then username else resolved);
                   display = le_attr entry (ldap_DisplayNameAttribute cfg);
                   display = (if TrimSpace display = [] then resolved else display) in
               Some (resolved, display)
          | _ \<Rightarrow> None)))"

definition LoginWithProvider ::
  "auth_service \<Rightarrow> ldap_library \<Rightarrow> string option \<Rightarrow> string \<Rightarrow> string \<Rightarrow> string \<Rightarrow>
   (db, auth_error, session) prog" where
  "LoginWithProvider svc lib rnd providerID username password =
    (if providerID = [] \<or> providerID = ''local'' then Login svc rnd username password
     else
      bindp (attempt (GetAuthProvider providerID)) (\<lambda>r.
      case r of
        Inl _ \<Rightarrow> fail ErrInvalidCredentials
      | Inr provider \<Rightarrow>
         if \<not> ap_enabled provider \<or> ap_type provider \<noteq> ''ldap'' then fail ErrInvalidCredentials
         else (case decodeLDAPConfig (ap_config provider) of
            Inl e \<Rightarrow> fail (LDAPConfigError e)
          | Inr cfg \<Rightarrow>
             (case authenticateLDAP lib cfg username password of
                None \<Rightarrow> fail ErrInvalidCredentials
              | Some (resolved, _) \<Rightarrow>
                  bindp (attempt (FindUserByUsername resolved)) (\<lambda>q.
                  case q of
                    Inl _ \<Rightarrow> fail ErrUserNotProvisioned
                  | Inr (stored, _) \<Rightarrow>
                      if Disabled stored then fail ErrUserNotProvisioned
                      else issueSession svc rnd stored)))))"

end
