(* ===== verification/Auth_Wecom.thy ===== *)
theory Auth_Wecom
  imports Auth_Service
begin

text \<open>
  Login and binding through WeCom: \<open>wecom.go\<close> (the configuration, the addresses it builds, the cached
  access token) and \<open>wecom_sso.go\<close> (one-time states, the callbacks) of
  \<open>backend/internal/service/auth\<close>. The WeCom API and the authentication centre are arguments.
\<close>

section \<open>Configuration and addresses\<close>

record WecomProviderConfig =
  AuthMode :: string
  CorpID :: string
  AgentID :: int
  Secret :: string
  RedirectPrefix :: string
  SSOBaseURL :: string
  SSOAppID :: string
  SSOAppSecret :: string

definition wecomIntValue :: "jvalue \<Rightarrow> int" where
  "wecomIntValue v = (case v of
      VNum q \<Rightarrow> int_of_float (Finite q)
    | VStr s \<Rightarrow> fst (ParseInt (TrimSpace s))
    | _ \<Rightarrow> 0)"

definition TrimRight :: "string \<Rightarrow> string \<Rightarrow> string" where
  "TrimRight s cutset = rev (dropWhile (\<lambda>c. c \<in> set cutset) (rev s))"

definition decodeWecomProviderConfig :: "members \<Rightarrow> WecomProviderConfig option" where
  "decodeWecomProviderConfig raw =
      (let txt = (\<lambda>key. stringValue (json_get raw key));
           cfg = \<lparr>AuthMode = txt ''authMode'', CorpID = txt ''corpid'',
             AgentID = wecomIntValue (json_get raw ''agentid''), Secret = txt ''secret'',
             RedirectPrefix = TrimRight (txt ''redirectPrefix'') ''/'',
             SSOBaseURL = TrimRight (txt ''ssoBaseUrl'') ''/'', SSOAppID = txt ''ssoAppID'',
             SSOAppSecret = txt ''ssoAppSecret''\<rparr>;
           cfg = (if AuthMode cfg \<noteq> ''sso'' then cfg\<lparr>AuthMode := ''direct''\<rparr> else cfg) in
       if AuthMode cfg = ''sso'' then
         (if SSOBaseURL cfg = [] \<or> SSOAppID cfg = [] \<or> SSOAppSecret cfg = [] then None else Some cfg)
       else if CorpID cfg = [] \<or> Secret cfg = [] then None
       else if AgentID cfg \<le> 0 then None
       else Some cfg)"

definition redirectBase :: "WecomProviderConfig \<Rightarrow> string \<Rightarrow> string" where
  "redirectBase c requestBase =
    (if RedirectPrefix c \<noteq> [] then RedirectPrefix c else TrimRight requestBase ''/'')"

definition wecomLoginURL :: "WecomProviderConfig \<Rightarrow> string \<Rightarrow> string \<Rightarrow> string" where
  "wecomLoginURL c redirectURI state =
    ''https://login.work.weixin.qq.com'' @ ''/wwlogin/sso/login?'' @ EncodeValues
      [(''agentid'', Itoa (AgentID c)), (''appid'', CorpID c), (''login_type'', ''CorpApp''),
       (''redirect_uri'', redirectURI), (''state'', state)]"

definition AuthorizeURL :: "WecomProviderConfig \<Rightarrow> string \<Rightarrow> string \<Rightarrow> string" where
  "AuthorizeURL c state requestBase =
    wecomLoginURL c (redirectBase c requestBase @ ''/api/auth/wecom/callback'') state"

definition EmbedAuthorizeURL :: "WecomProviderConfig \<Rightarrow> string \<Rightarrow> string \<Rightarrow> string" where
  "EmbedAuthorizeURL c state requestBase =
    wecomLoginURL c (redirectBase c requestBase @ ''/api/auth/wecom/embed/callback'') state"

definition WecomSSOLoginURL :: "WecomProviderConfig \<Rightarrow> string \<Rightarrow> string" where
  "WecomSSOLoginURL c redirect =
    SSOBaseURL c @ ''/login?'' @
    EncodeValues ((''app'', SSOAppID c) # (if redirect \<noteq> [] then [(''redirect'', redirect)] else []))"

section \<open>The cached access token\<close>

text \<open>
  The mutable part of \<open>wecomRealClient\<close>. \<open>gettoken\<close> is the answer of the API: a token with its lifetime,
  or an error text; \<open>getuserinfo\<close> the answer to a code with a token.
\<close>

record wecom_client =
  wc_token :: string
  wc_expiry :: int

record wecom_api =
  gettoken :: "int \<Rightarrow> string + string \<times> int"
  getuserinfo :: "string \<Rightarrow> string \<Rightarrow> string + string"

definition client_token :: "wecom_api \<Rightarrow> int \<Rightarrow> (wecom_client, string, string) prog" where
  "client_token api t c =
    (if wc_token c \<noteq> [] \<and> t < wc_expiry c then (Inr (wc_token c), c)
     else (case gettoken api t of
        Inl e \<Rightarrow> (Inl e, c)
      | Inr (tok, expiresIn) \<Rightarrow>
          if tok = [] then (Inl ''wecom gettoken returned empty access_token'', c)
          else (Inr tok, \<lparr>wc_token = tok, wc_expiry = t + (expiresIn - 300)\<rparr>)))"

definition invalidateToken :: "(wecom_client, string, unit) prog" where
  "invalidateToken c = (Inr (), \<lparr>wc_token = [], wc_expiry = 0\<rparr>)"

definition getUserInfo :: "wecom_api \<Rightarrow> int \<Rightarrow> string \<Rightarrow> (wecom_client, string, string) prog" where
  "getUserInfo api t code =
    bindp (client_token api t) (\<lambda>tok.
    case getuserinfo api tok code of
      Inl e \<Rightarrow> fail e
    | Inr userid \<Rightarrow>
        if userid = [] then fail ''wecom getuserinfo returned empty userid (user may not be a corp member)''
        else ret userid)"

definition isWecomTokenInvalidError :: "string \<Rightarrow> bool" where
  "isWecomTokenInvalidError message \<longleftrightarrow>
     Contains message ''errcode=40014'' \<or> Contains message ''errcode=42001''"

definition GetUserInfo :: "wecom_api \<Rightarrow> int \<Rightarrow> string \<Rightarrow> (wecom_client, string, string) prog" where
  "GetUserInfo api t code =
    bindp (attempt (getUserInfo api t code)) (\<lambda>r.
    case r of
      Inl e \<Rightarrow>
        if isWecomTokenInvalidError e
        then bindp invalidateToken (\<lambda>_. getUserInfo api t code)
        else fail e
    | Inr userid \<Rightarrow> ret userid)"

section \<open>One-time states\<close>

definition enabledAuthProvider :: "string \<Rightarrow> (db, auth_error, auth_provider) prog" where
  "enabledAuthProvider pid =
    bindp (attempt (GetAuthProvider pid)) (\<lambda>r.
    case r of
      Inl _ \<Rightarrow> fail ErrAuthProviderDisabled
    | Inr p \<Rightarrow> if ap_enabled p then ret p else fail ErrAuthProviderDisabled)"

definition enabledWecomProvider :: "(db, auth_error, WecomProviderConfig) prog" where
  "enabledWecomProvider =
    bindp (enabledAuthProvider ''wecom'') (\<lambda>p.
    case decodeWecomProviderConfig (ap_config p) of
      None \<Rightarrow> fail WecomConfigError
    | Some cfg \<Rightarrow> ret cfg)"

definition wecomStateTTL :: "(db, auth_error, int) prog" where
  "wecomStateTTL =
    bindp (attempt GetSystemBaseConfig) (\<lambda>r.
    case r of
      Inl _ \<Rightarrow> ret (5 * 60)
    | Inr config \<Rightarrow>
        if WecomStateTTLMinutes config < 1 \<or> WecomStateTTLMinutes config > 60 then ret (5 * 60)
        else ret (WecomStateTTLMinutes config * 60))"

text \<open>\<open>rnd\<close> is what \<open>generateToken(16)\<close> reads from the random source.\<close>

definition newWecomState ::
  "string option \<Rightarrow> string \<Rightarrow> string \<Rightarrow> string \<Rightarrow> string \<Rightarrow> (db, auth_error, string) prog" where
  "newWecomState rnd purpose userID redirect remoteIP =
    (case map_option EncodeToString rnd of
      None \<Rightarrow> fail RandomError
    | Some state \<Rightarrow>
       bindp now (\<lambda>t.
       bindp wecomStateTTL (\<lambda>ttl.
       bindp (store (CreateAuthState \<lparr>as_state = state, as_provider = ''wecom'', as_purpose = purpose,
         as_user_id = userID, as_redirect = redirect, as_remote_ip = remoteIP,
         as_expires_at = t + ttl\<rparr>)) (\<lambda>_.
       ret state))))"

definition takeAuthState :: "string \<Rightarrow> string \<Rightarrow> (db, auth_error, auth_state) prog" where
  "takeAuthState state provider =
    (if TrimSpace state = [] then fail ErrInvalidState
     else
      bindp (attempt (TakeAuthState state)) (\<lambda>r.
      bindp now (\<lambda>t.
      case r of
        Inl _ \<Rightarrow> fail ErrInvalidState
      | Inr rec \<Rightarrow>
          if as_provider rec \<noteq> provider \<or> \<not> as_expires_at rec > t then fail ErrInvalidState
          else ret rec)))"

section \<open>The flow\<close>

datatype wecom_result =
    WecomBound string string string
  | WecomLogin session string

definition loginByWecomAccount ::
  "auth_service \<Rightarrow> string option \<Rightarrow> string \<Rightarrow> (db, auth_error, session) prog" where
  "loginByWecomAccount svc rnd userid0 =
    (let userid = TrimSpace userid0 in
     if userid = [] then fail ErrWecomNotBound
     else
      bindp (attempt (FindUserByWecomAccount userid)) (\<lambda>r.
      case r of
        Inl _ \<Rightarrow> fail (WecomLoginError userid [] [] ErrWecomNotBound)
      | Inr stored \<Rightarrow>
          if Disabled stored
          then fail (WecomLoginError userid (ID stored) (Username stored) ErrUserNotProvisioned)
          else issueSession svc rnd stored))"

definition completeWecomFlow ::
  "auth_service \<Rightarrow> string option \<Rightarrow> auth_state \<Rightarrow> string \<Rightarrow> (db, auth_error, wecom_result) prog" where
  "completeWecomFlow svc rnd rec userid =
    (if as_purpose rec = ''bind'' then
      bindp (attempt (BindWecomAccount (as_user_id rec) userid)) (\<lambda>r.
      case r of
        Inl e \<Rightarrow> fail (WecomLoginError userid (as_user_id rec) [] (StoreError e))
      | Inr _ \<Rightarrow>
          bindp (attempt (FindUserByID (as_user_id rec))) (\<lambda>q.
          ret (WecomBound userid (case q of Inl _ \<Rightarrow> [] | Inr bound \<Rightarrow> Username bound) (as_user_id rec))))
     else
      bindp (attempt (loginByWecomAccount svc rnd userid)) (\<lambda>r.
      case r of
        Inl e \<Rightarrow> (case e of
            WecomLoginError _ _ _ _ \<Rightarrow> fail e
          | _ \<Rightarrow> fail (WecomLoginError userid [] [] e))
      | Inr s \<Rightarrow> ret (WecomLogin s (as_redirect rec))))"

text \<open>\<open>user_info\<close> and \<open>verify_ticket\<close> are the identities the remote services return.\<close>

definition WeComCallback ::
  "auth_service \<Rightarrow> string option \<Rightarrow> (WecomProviderConfig \<Rightarrow> string \<Rightarrow> string option) \<Rightarrow>
   string \<Rightarrow> string \<Rightarrow> (db, auth_error, wecom_result) prog" where
  "WeComCallback svc rnd user_info code state =
    bindp (takeAuthState state ''wecom'') (\<lambda>rec.
    bindp enabledWecomProvider (\<lambda>cfg.
    case user_info cfg code of
      None \<Rightarrow> fail WecomRemoteError
    | Some userid \<Rightarrow> completeWecomFlow svc rnd rec userid))"

text \<open>\<open>bind_of\<close> is the \<open>bind\<close> member of the query of a redirect, \<open>wecomBindTicketFromRedirect\<close>.\<close>

definition WeComSSOCallback ::
  "auth_service \<Rightarrow> string option \<Rightarrow> (WecomProviderConfig \<Rightarrow> string \<Rightarrow> string option) \<Rightarrow>
   (string \<Rightarrow> string) \<Rightarrow> string \<Rightarrow> string \<Rightarrow> (db, auth_error, wecom_result) prog" where
  "WeComSSOCallback svc rnd verify_ticket bind_of ticket redirect =
    bindp enabledWecomProvider (\<lambda>cfg.
    if TrimSpace ticket = [] then fail ErrInvalidState
    else (case verify_ticket cfg ticket of
      None \<Rightarrow> fail WecomRemoteError
    | Some userid \<Rightarrow>
       let bindTicket = TrimSpace (bind_of redirect) in
       if bindTicket \<noteq> [] then
         bindp (takeAuthState bindTicket ''wecom'') (\<lambda>rec. completeWecomFlow svc rnd rec userid)
       else completeWecomFlow svc rnd \<lparr>as_state = [], as_provider = ''wecom'', as_purpose = ''login'',
         as_user_id = [], as_redirect = redirect, as_remote_ip = [], as_expires_at = 0\<rparr> userid))"

text \<open>The address, and the embedded form: mode, frame address, state.\<close>

definition WeComLoginPayload ::
  "string option \<Rightarrow> string \<Rightarrow> string \<Rightarrow> string \<Rightarrow>
   (db, auth_error, string \<times> string \<times> string \<times> string) prog" where
  "WeComLoginPayload rnd redirect remoteIP requestBase =
    bindp enabledWecomProvider (\<lambda>cfg.
    if AuthMode cfg = ''sso'' then
      ret (WecomSSOLoginURL cfg redirect, ''sso'', WecomSSOLoginURL cfg ''/wecom-qr-callback'', [])
    else
      bindp (newWecomState rnd ''login'' [] redirect remoteIP) (\<lambda>state.
      ret (AuthorizeURL cfg state requestBase, ''direct'', EmbedAuthorizeURL cfg state requestBase, state)))"

definition WeComBindURL ::
  "string option \<Rightarrow> string \<Rightarrow> string \<Rightarrow> string \<Rightarrow> (db, auth_error, string) prog" where
  "WeComBindURL rnd userID remoteIP requestBase =
    bindp enabledWecomProvider (\<lambda>cfg.
    if AuthMode cfg = ''sso'' then
      bindp (newWecomState rnd ''bind'' userID [] []) (\<lambda>bindTicket.
      ret (WecomSSOLoginURL cfg (''/auth/callback'' @ ''?bind='' @ QueryEscape bindTicket)))
    else
      bindp (newWecomState rnd ''bind'' userID [] remoteIP) (\<lambda>state.
      ret (AuthorizeURL cfg state requestBase)))"

end
