(* ===== verification/Auth_Router.thy ===== *)
theory Auth_Router
  imports Auth_Wecom
begin

text \<open>
  The login, logout, password and WeCom handlers of \<open>backend/api/router/router.go\<close> and \<open>auth_wecom.go\<close>,
  and the route table of the access management API with its middleware.
\<close>

section \<open>Login\<close>

record login_request =
  lq_username :: string
  lq_password :: string
  lq_provider :: string

definition handleLogin ::
  "auth_service \<Rightarrow> ldap_library \<Rightarrow> string option \<Rightarrow> string \<Rightarrow> login_request option \<Rightarrow> response db_prog"
where
  "handleLogin svc lib rnd ip body =
    (case body of
      None \<Rightarrow> ret (writeError 400 ''invalid_request'')
    | Some b \<Rightarrow>
       let username = TrimSpace (lq_username b) in
       if username = [] \<or> lq_password b = [] then ret (writeError 400 ''missing_credentials'')
       else
       let provider = TrimSpace (lq_provider b);
           provider = (if provider = [] then ''local'' else provider);
           go_on =
             bindp (attempt (LoginWithProvider svc lib rnd provider username (lq_password b))) (\<lambda>r.
             case r of
               Inl e \<Rightarrow>
                 if e = ErrUserNotProvisioned then ret (writeError 401 ''user_not_provisioned'')
                 else if e = ErrInvalidCredentials then
                   bindp (ignore (RecordLoginFailure username)) (\<lambda>_.
                   ret (writeError 401 ''invalid_credentials''))
                 else ret (writeError 500 ''login_failed'')
             | Inr sess \<Rightarrow>
                 bindp (ignore (ClearFailures username)) (\<lambda>_.
                 bindp (ignore (WriteAudit (ID (sess_user sess)) ''auth.login'' ''user''
                   (ID (sess_user sess)) ip [''username'' \<mapsto> JStr (Username (sess_user sess)),
                     ''provider'' \<mapsto> JStr provider])) (\<lambda>_.
                 ret (200, BSession sess)))) in
       bindp (attempt (EnsureLoginAllowed username)) (\<lambda>r.
       case r of
         Inl (LoginLockedError minutes) \<Rightarrow>
           bindp (ignore (WriteAudit [] ''auth.login.locked'' ''user'' username ip
             [''username'' \<mapsto> JStr username, ''lockMinutes'' \<mapsto> JInt minutes])) (\<lambda>_.
           ret (429, BErrorMinutes ''login_locked'' minutes))
       | _ \<Rightarrow> go_on))"

definition handleMe :: "session \<Rightarrow> response db_prog" where
  "handleMe sess =
    bindp (attempt (UserHasWecomBinding (ID (sess_user sess)))) (\<lambda>r.
    ret (200, BMe (sess_user sess) (sess_expires_at sess) (case r of Inl _ \<Rightarrow> False | Inr b \<Rightarrow> b)))"

definition handleLogout :: "auth_service \<Rightarrow> string \<Rightarrow> string \<Rightarrow> session \<Rightarrow> response db_prog" where
  "handleLogout svc ip authorization sess =
    bindp (ignore (Logout svc (bearerToken authorization))) (\<lambda>_.
    bindp (ignore (WriteAudit (ID (sess_user sess)) ''auth.logout'' ''user'' (ID (sess_user sess)) ip
      [''username'' \<mapsto> JStr (Username (sess_user sess))])) (\<lambda>_.
    ret (200, BStatusOk)))"

record change_password_request =
  cp_OldPassword :: string
  cp_NewPassword :: string
  cp_ConfirmPassword :: string

definition handleChangePassword ::
  "(string \<Rightarrow> string option) \<Rightarrow> (string \<Rightarrow> string \<Rightarrow> bool) \<Rightarrow> string \<Rightarrow> session \<Rightarrow>
   change_password_request option \<Rightarrow> response db_prog" where
  "handleChangePassword HashPassword VerifyPassword ip sess body =
    (case body of
      None \<Rightarrow> ret (writeError 400 ''invalid_request'')
    | Some b \<Rightarrow>
       if length (cp_OldPassword b) < 6 \<or> length (cp_NewPassword b) < 6 \<or>
          length (cp_ConfirmPassword b) < 6 then ret (writeError 400 ''invalid_password'')
       else if cp_NewPassword b \<noteq> cp_ConfirmPassword b then ret (writeError 400 ''password_mismatch'')
       else if cp_NewPassword b = cp_OldPassword b then ret (writeError 400 ''same_password'')
       else
        bindp (attempt (FindUserByUsername (Username (sess_user sess)))) (\<lambda>r.
        case r of
          Inl e \<Rightarrow> if e = ErrNotFound then ret (writeError 404 ''user_not_found'')
            else ret (writeError 500 ''password_change_failed'')
        | Inr (_, passwordHash) \<Rightarrow>
            if \<not> VerifyPassword passwordHash (cp_OldPassword b)
            then ret (writeError 401 ''invalid_old_password'')
            else (case HashPassword (cp_NewPassword b) of
              None \<Rightarrow> ret (writeError 500 ''password_change_failed'')
            | Some newHash \<Rightarrow>
                bindp (attempt (UpdateUserPassword (ID (sess_user sess)) newHash)) (\<lambda>q.
                case q of
                  Inl _ \<Rightarrow> ret (writeError 500 ''password_change_failed'')
                | Inr _ \<Rightarrow>
                    bindp (ignore (WriteAudit (ID (sess_user sess)) ''auth.password.change'' ''user''
                      (ID (sess_user sess)) ip [''username'' \<mapsto> JStr (Username (sess_user sess))])) (\<lambda>_.
                    ret (200, BStatusOk))))))"

section \<open>WeCom\<close>

definition sanitizeLocalPath :: "string \<Rightarrow> string" where
  "sanitizeLocalPath value0 =
    (let value = TrimSpace value0 in
     if value = [] \<or> \<not> HasPrefix value ''/'' then ''/''
     else if HasPrefix value ''//'' \<or> HasPrefix value [CHR ''/'', CHR 0x5C] then ''/''
     else value)"

fun cause :: "auth_error \<Rightarrow> auth_error" where
  "cause (WecomLoginError _ _ _ e) = cause e"
| "cause e = e"

definition wecomFailureReason :: "auth_error \<Rightarrow> string" where
  "wecomFailureReason e =
    (if cause e = ErrWecomNotBound then ''user_not_bound''
     else if cause e = StoreError ErrWecomAlreadyBound then ''bind_conflict''
     else if cause e = ErrInvalidState then ''state_invalid''
     else if cause e = ErrUserNotProvisioned then ''user_disabled''
     else if cause e = ErrAuthProviderDisabled then ''provider_disabled''
     else ''wecom_api_failed'')"

definition wecomFailureUser :: "auth_error \<Rightarrow> string" where
  "wecomFailureUser e = (case e of WecomLoginError w _ _ _ \<Rightarrow> w | _ \<Rightarrow> [])"

definition wecomFailureAuditUserID :: "auth_error \<Rightarrow> string" where
  "wecomFailureAuditUserID e = (case e of WecomLoginError _ u _ _ \<Rightarrow> u | _ \<Rightarrow> [])"

definition auditWecomResourceType :: "string \<Rightarrow> string" where
  "auditWecomResourceType uid = (if uid \<noteq> [] then ''user'' else ''auth_provider'')"

definition auditWecomResourceID :: "string \<Rightarrow> string" where
  "auditWecomResourceID uid = (if uid \<noteq> [] then uid else ''wecom'')"

definition wecomFailureMetadata :: "auth_error \<Rightarrow> string \<rightharpoonup> json" where
  "wecomFailureMetadata e =
    (let m = [''reason'' \<mapsto> JStr (wecomFailureReason e), ''userid'' \<mapsto> JStr (wecomFailureUser e)] in
     case e of WecomLoginError _ _ n _ \<Rightarrow> if n \<noteq> [] then m(''username'' \<mapsto> JStr n) else m | _ \<Rightarrow> m)"

definition recordWecomLoginFailureAudit :: "string \<Rightarrow> auth_error \<Rightarrow> unit db_prog" where
  "recordWecomLoginFailureAudit ip e =
    (let uid = wecomFailureAuditUserID e in
     ignore (WriteAudit uid ''auth.wecom.failed'' (auditWecomResourceType uid)
       (auditWecomResourceID uid) ip (wecomFailureMetadata e)))"

definition writeWecomLoginSession :: "string \<Rightarrow> wecom_result \<Rightarrow> response db_prog" where
  "writeWecomLoginSession ip result =
    (case result of
      WecomBound _ _ _ \<Rightarrow> ret (writeError 400 ''wecom_callback_failed'')
    | WecomLogin s _ \<Rightarrow>
        let s = s\<lparr>sess_wecom_bound := True\<rparr> in
        bindp (ignore (WriteAudit (ID (sess_user s)) ''auth.login'' ''user'' (ID (sess_user s)) ip
          [''username'' \<mapsto> JStr (Username (sess_user s)), ''provider'' \<mapsto> JStr ''wecom''])) (\<lambda>_.
        ret (200, BSession s)))"

text \<open>The request body: the code and the state.\<close>

definition handleWecomLoginByCode ::
  "auth_service \<Rightarrow> string option \<Rightarrow> (WecomProviderConfig \<Rightarrow> string \<Rightarrow> string option) \<Rightarrow> string \<Rightarrow>
   (string \<times> string) option \<Rightarrow> response db_prog" where
  "handleWecomLoginByCode svc rnd user_info ip body =
    (case body of
      None \<Rightarrow> ret (writeError 400 ''wecom_callback_failed'')
    | Some (code, state) \<Rightarrow>
       if TrimSpace code = [] \<or> TrimSpace state = [] then ret (writeError 400 ''wecom_callback_failed'')
       else
        bindp (attempt (WeComCallback svc rnd user_info (TrimSpace code) (TrimSpace state))) (\<lambda>r.
        case r of
          Inl e \<Rightarrow> bindp (recordWecomLoginFailureAudit ip e) (\<lambda>_.
            ret (writeError 400 ''wecom_callback_failed''))
        | Inr result \<Rightarrow> writeWecomLoginSession ip result))"

definition handleWecomSSOLogin ::
  "auth_service \<Rightarrow> string option \<Rightarrow> (WecomProviderConfig \<Rightarrow> string \<Rightarrow> string option) \<Rightarrow>
   (string \<Rightarrow> string) \<Rightarrow> string \<Rightarrow> string option \<Rightarrow> response db_prog" where
  "handleWecomSSOLogin svc rnd verify_ticket bind_of ip body =
    (case body of
      None \<Rightarrow> ret (writeError 400 ''wecom_sso_failed'')
    | Some ticket \<Rightarrow>
       if TrimSpace ticket = [] then ret (writeError 400 ''wecom_sso_failed'')
       else
        bindp (attempt (WeComSSOCallback svc rnd verify_ticket bind_of (TrimSpace ticket) [])) (\<lambda>r.
        case r of
          Inl e \<Rightarrow> bindp (recordWecomLoginFailureAudit ip e) (\<lambda>_.
            ret (writeError 400 ''wecom_sso_failed''))
        | Inr result \<Rightarrow> writeWecomLoginSession ip result))"

definition handleWecomUnbind :: "string \<Rightarrow> session \<Rightarrow> response db_prog" where
  "handleWecomUnbind ip sess =
    bindp (attempt (UnbindWecomAccount (ID (sess_user sess)))) (\<lambda>r.
    case r of
      Inl _ \<Rightarrow> ret (writeError 500 ''wecom_unbind_failed'')
    | Inr userid \<Rightarrow>
        bindp (ignore (WriteAudit (ID (sess_user sess)) ''auth.wecom.unbind'' ''auth_provider'' ''wecom'' ip
          [''username'' \<mapsto> JStr (Username (sess_user sess)), ''userid'' \<mapsto> JStr userid])) (\<lambda>_.
        ret (200, BUnbound (if userid = [] then ''-'' else userid))))"

section \<open>The routes of the access management API\<close>

text \<open>
  The rows 125, 126 and 133 to 146 of the route table (\<open>net/http\<close> patterns: a pattern that ends in a
  slash matches the paths under it), the permission each names and the handler behind it.
\<close>

record api_request =
  rq_method :: string
  rq_path :: string
  rq_authorization :: string
  rq_query_token :: string
  rq_ip :: string
  rq_user_body :: "managed_user_request option"
  rq_disabled_body :: "bool option"
  rq_role_body :: "role_request option"
  rq_group_body :: "user_group_request option"
  rq_config_body :: "base_payload option"

definition settings_route ::
  "(string \<Rightarrow> string option) \<Rightarrow> api_request \<Rightarrow> (string \<times> (session \<Rightarrow> response db_prog)) option" where
  "settings_route HashPassword rq =
    (let m = rq_method rq; p = rq_path rq; ip = rq_ip rq; uid = (\<lambda>s. ID (sess_user s)) in
     if p = ''/api/settings/base-config'' \<and> m = ''GET''
       then Some (''settings.base.read'', \<lambda>_. handleGetSystemBaseConfig)
     else if p = ''/api/settings/base-config'' \<and> m = ''PUT''
       then Some (''settings.base.manage'', \<lambda>s. handleUpdateSystemBaseConfig (uid s) ip (rq_config_body rq))
     else if p = ''/api/settings/users'' \<and> m = ''GET''
       then Some (''settings.users.read'', \<lambda>_. handleListManagedUsers)
     else if p = ''/api/settings/users'' \<and> m = ''POST''
       then Some (''settings.users.manage'', \<lambda>s. handleCreateManagedUser HashPassword (uid s) ip (rq_user_body rq))
     else if HasPrefix p ''/api/settings/users/'' \<and> m \<in> set [''PUT'', ''DELETE'', ''POST'']
       then Some (''settings.users.manage'', \<lambda>s. handleManagedUserRoute HashPassword (uid s) ip m p
         (rq_user_body rq) (rq_disabled_body rq))
     else if p = ''/api/settings/user-groups'' \<and> m = ''GET''
       then Some (''settings.users.read'', \<lambda>_. handleListUserGroups)
     else if p = ''/api/settings/user-groups'' \<and> m = ''POST''
       then Some (''settings.users.manage'', \<lambda>s. handleCreateUserGroup (uid s) ip (rq_group_body rq))
     else if HasPrefix p ''/api/settings/user-groups/'' \<and> m \<in> set [''PUT'', ''DELETE'']
       then Some (''settings.users.manage'', \<lambda>s. handleUserGroupRoute (uid s) ip m p (rq_group_body rq))
     else if p = ''/api/settings/roles'' \<and> m = ''GET''
       then Some (''settings.users.read'', \<lambda>_. handleListRoles)
     else if p = ''/api/settings/roles'' \<and> m = ''POST''
       then Some (''settings.users.manage'', \<lambda>s. handleCreateRole (uid s) ip (rq_role_body rq))
     else if HasPrefix p ''/api/settings/roles/'' \<and> m \<in> set [''PUT'', ''DELETE'']
       then Some (''settings.users.manage'', \<lambda>s. handleRoleRoute (uid s) ip m p (rq_role_body rq))
     else if p = ''/api/settings/permissions'' \<and> m = ''GET''
       then Some (''settings.users.read'', \<lambda>_. ret handleListPermissions)
     else None)"

definition serve_settings ::
  "auth_service \<Rightarrow> (string \<Rightarrow> string option) \<Rightarrow> api_request \<Rightarrow> response db_prog" where
  "serve_settings svc HashPassword rq =
    (case settings_route HashPassword rq of
      None \<Rightarrow> ret (writeError 404 ''not_found'')
    | Some (permission, handler) \<Rightarrow>
        requirePermission (Validate svc) permission (rq_authorization rq) (rq_query_token rq) handler)"

end
