(* ===== verification/Server_Steps.thy ===== *)
theory Server_Steps
  imports Access_Steps Auth_Router
begin

text \<open>
  The server as a state machine: a step is one request through its middleware (the settings API, the
  login, logout, password and WeCom endpoints), or a move of the environment. The invariants of
  \<open>Access_Safety\<close> hold in every reachable state, whatever statements fail.
\<close>

section \<open>What the authentication keeps\<close>

lemma access_inv_frame [simp]:
  "access_inv A B (d\<lparr>faults := fs\<rparr>) = access_inv A B d"
  "access_inv A B (d\<lparr>clock := t\<rparr>) = access_inv A B d"
  "access_inv A B (d\<lparr>uuids := us\<rparr>) = access_inv A B d"
  "access_inv A B (d\<lparr>settings := st\<rparr>) = access_inv A B d"
  "access_inv A B (d\<lparr>login_failures := lf\<rparr>) = access_inv A B d"
  "access_inv A B (d\<lparr>auth_states := ss\<rparr>) = access_inv A B d"
  "access_inv A B (d\<lparr>wecom_bindings := wb\<rparr>) = access_inv A B d"
  "access_inv A B (d\<lparr>reset_tokens := rt\<rparr>) = access_inv A B d"
  by (simp_all add: access_inv_def access_wf_def admin_ok_def)

lemma fault_blind_access_inv [simp]: "fault_blind (access_inv A B)"
  by (simp add: fault_blind_def)

lemmas inv_stmt = keeps_stmt [OF fault_blind_access_inv]

lemma inv_query [keeps_intros]: "keeps (access_inv A B) (query f)"
  by (rule keeps_query) simp

lemma inv_CreateSession [keeps_intros]: "keeps (access_inv A B) (CreateSession s)"
  unfolding CreateSession_def
  by (rule inv_stmt) (auto simp: access_inv_def access_wf_def admin_ok_def)

lemma access_inv_filter_sessions:
  "access_inv A B d \<Longrightarrow> access_inv A B (d\<lparr>sessions := filter p (sessions d)\<rparr>)"
  by (auto simp: access_inv_def access_wf_def admin_ok_def)

lemma inv_delete_sessions [keeps_intros]:
  "keeps (access_inv A B) (DeleteSession j)"
  "keeps (access_inv A B) DeleteExpiredSessions"
  "keeps (access_inv A B) (DeleteUserSessions u)"
  unfolding DeleteSession_def DeleteExpiredSessions_def DeleteUserSessions_def
  by (intro keeps_exec fault_blind_access_inv access_inv_filter_sessions; assumption)+

lemma inv_attach [keeps_intros]: "keeps (access_inv A B) (attachAccessToUsers us)"
  by (rule keeps_access_inv) (intro keeps_admin_frame keeps_intros)+

lemma inv_find_users [keeps_intros]:
  "keeps (access_inv A B) (FindUserByUsername n)"
  "keeps (access_inv A B) (FindSession j)"
  unfolding FindUserByUsername_def FindSession_def by (intro keeps_intros)+

lemma inv_update_user [keeps_intros]:
  assumes "\<And>now r. ur_id (f now r) = ur_id r" "\<And>now r. ur_username (f now r) = ur_username r"
    "\<And>now r. ur_disabled (f now r) = ur_disabled r"
  shows "keeps (access_inv A B) (update_user u f)"
  by (intro keeps_access_inv keeps_intros admin_update_user) (simp_all add: assms)

lemma inv_user_columns [keeps_intros]:
  "keeps (access_inv A B) (RecordUserLogin u)"
  "keeps (access_inv A B) (UpdateUserPassword u h)"
  unfolding RecordUserLogin_def UpdateUserPassword_def by (intro keeps_intros; simp)+

lemma inv_login_failures [keeps_intros]:
  "keeps (access_inv A B) (CountLoginFailures n)"
  "keeps (access_inv A B) (CreateLoginFailure n t)"
  "keeps (access_inv A B) (ClearLoginFailures n)"
  unfolding CountLoginFailures_def CreateLoginFailure_def ClearLoginFailures_def
  by (intro keeps_intros keeps_exec keeps_exec_count fault_blind_access_inv; simp)+

lemma inv_states [keeps_intros]:
  "keeps (access_inv A B) (CreateAuthState s)"
  "keeps (access_inv A B) (TakeAuthState st)"
  "keeps (access_inv A B) (GetAuthProvider p)"
  "keeps (access_inv A B) (FindUserByWecomAccount w)"
  "keeps (access_inv A B) (BindWecomAccount u w)"
  "keeps (access_inv A B) (UnbindWecomAccount u)"
  "keeps (access_inv A B) (UserHasWecomBinding u)"
  unfolding CreateAuthState_def TakeAuthState_def GetAuthProvider_def FindUserByWecomAccount_def
    BindWecomAccount_def UnbindWecomAccount_def UserHasWecomBinding_def
  by (intro keeps_intros keeps_exec inv_stmt fault_blind_access_inv; auto split: option.splits)+

lemma inv_settings [keeps_intros]:
  "keeps (access_inv A B) GetSystemBaseConfig"
  "keeps (access_inv A B) (UpsertSystemBaseConfig p)"
  unfolding GetSystemBaseConfig_def UpsertSystemBaseConfig_def
  by (intro keeps_intros keeps_exec fault_blind_access_inv; simp)+

lemma inv_issueSession [keeps_intros]: "keeps (access_inv A B) (issueSession svc rnd u)"
  unfolding issueSession_def by (intro keeps_intros)

lemma inv_logins [keeps_intros]:
  "keeps (access_inv A B) (Login svc rnd n pw)"
  "keeps (access_inv A B) (LoginWithProvider svc lib rnd p n pw)"
  "keeps (access_inv A B) (Validate svc tk)"
  "keeps (access_inv A B) (Logout svc tk)"
  "keeps (access_inv A B) (EnsureLoginAllowed n)"
  "keeps (access_inv A B) (RecordLoginFailure n)"
  "keeps (access_inv A B) (ClearFailures n)"
  unfolding LoginWithProvider_def Login_def Validate_def Logout_def EnsureLoginAllowed_def
    RecordLoginFailure_def ClearFailures_def
  by (intro keeps_intros)+

lemma keeps_case_login_error [keeps_intros]:
  "(\<And>u b n c. keeps I (f u b n c)) \<Longrightarrow> keeps I g \<Longrightarrow>
   keeps I (case e of WecomLoginError u b n c \<Rightarrow> f u b n c | _ \<Rightarrow> g)"
  by (cases e) auto

lemma keeps_case_locked [keeps_intros]:
  "(\<And>m. keeps I (f m)) \<Longrightarrow> keeps I g \<Longrightarrow>
   keeps I (case r of Inl (LoginLockedError m) \<Rightarrow> f m | _ \<Rightarrow> g)"
  by (auto split: sum.split auth_error.split)

lemma keeps_case_wecom_result [keeps_intros]:
  "(\<And>u b n. keeps I (f u b n)) \<Longrightarrow> (\<And>s re. keeps I (g s re)) \<Longrightarrow>
   keeps I (case r of WecomBound u b n \<Rightarrow> f u b n | WecomLogin s re \<Rightarrow> g s re)"
  by (cases r) auto

lemma inv_wecom [keeps_intros]:
  "keeps (access_inv A B) (takeAuthState st p)"
  "keeps (access_inv A B) enabledWecomProvider"
  "keeps (access_inv A B) (newWecomState rnd pu u re ip)"
  "keeps (access_inv A B) (loginByWecomAccount svc rnd w)"
  "keeps (access_inv A B) (completeWecomFlow svc rnd rec w)"
  unfolding takeAuthState_def enabledWecomProvider_def enabledAuthProvider_def newWecomState_def
    wecomStateTTL_def loginByWecomAccount_def completeWecomFlow_def
  by (intro keeps_intros)+

lemma inv_wecom_flows [keeps_intros]:
  "keeps (access_inv A B) (WeComCallback svc rnd ui code st)"
  "keeps (access_inv A B) (WeComSSOCallback svc rnd vt bo ticket re)"
  "keeps (access_inv A B) (WeComLoginPayload rnd re ip base)"
  "keeps (access_inv A B) (WeComBindURL rnd u ip base)"
  unfolding WeComCallback_def WeComSSOCallback_def WeComLoginPayload_def WeComBindURL_def
  by (intro keeps_intros)+

section \<open>What the handlers keep\<close>

lemma inv_auth_handlers [keeps_intros]:
  "keeps (access_inv A B) (handleLogin svc lib rnd ip lb)"
  "keeps (access_inv A B) (handleLogout svc ip au sess)"
  "keeps (access_inv A B) (handleMe sess)"
  "keeps (access_inv A B) (handleChangePassword H V ip sess cb)"
  "keeps (access_inv A B) (handleWecomUnbind ip sess)"
  unfolding handleLogin_def handleLogout_def handleMe_def handleChangePassword_def handleWecomUnbind_def
    Let_def
  by (intro keeps_intros)+

lemma inv_wecom_handlers [keeps_intros]:
  "keeps (access_inv A B) (handleWecomLoginByCode svc rnd ui ip wb)"
  "keeps (access_inv A B) (handleWecomSSOLogin svc rnd vt bo ip sb)"
  unfolding handleWecomLoginByCode_def handleWecomSSOLogin_def writeWecomLoginSession_def
    recordWecomLoginFailureAudit_def Let_def
  by (intro keeps_intros)+

lemma inv_settings_handlers [keeps_intros]:
  "keeps (access_inv A B) handleGetSystemBaseConfig"
  "keeps (access_inv A B) (handleUpdateSystemBaseConfig u ip cb)"
  "keeps (access_inv A B) handleListManagedUsers"
  "keeps (access_inv A B) (handleCreateManagedUser H u ip ub)"
  "keeps (access_inv A B) (handleManagedUserRoute H u ip m p ub db)"
  "keeps (access_inv A B) handleListUserGroups"
  "keeps (access_inv A B) (handleCreateUserGroup u ip gb)"
  "keeps (access_inv A B) (handleUserGroupRoute u ip m p gb)"
  "keeps (access_inv A B) handleListRoles"
  "keeps (access_inv A B) (handleCreateRole u ip rb)"
  "keeps (access_inv A B) (handleRoleRoute u ip m p rb)"
  unfolding handleGetSystemBaseConfig_def handleUpdateSystemBaseConfig_def handleListManagedUsers_def
    handleCreateManagedUser_def handleManagedUserRoute_def handleListUserGroups_def
    handleCreateUserGroup_def handleUserGroupRoute_def handleListRoles_def handleCreateRole_def
    handleRoleRoute_def
  by (intro keeps_intros)+

lemma inv_requireAuth [keeps_intros]:
  "(\<And>s. keeps (access_inv A B) (h s)) \<Longrightarrow> keeps (access_inv A B) (requireAuth (Validate svc) au q h)"
  unfolding requireAuth_def by (intro keeps_intros)

lemma if_SomeE:
  "(if b then Some x else y) = Some z \<Longrightarrow> (x = z \<Longrightarrow> P) \<Longrightarrow> (y = Some z \<Longrightarrow> P) \<Longrightarrow> P"
  by (cases b) auto

lemma keeps_of_pair: "(a, f) = (b, g) \<Longrightarrow> keeps I (f s) \<Longrightarrow> keeps I (g s)"
  by simp

lemma inv_serve_settings: "keeps (access_inv A B) (serve_settings svc H rq)"
  unfolding serve_settings_def
proof (intro keeps_intros)
  fix x permission handler
  assume "settings_route H rq = Some x" "x = (permission, handler)"
  then have route: "settings_route H rq = Some (permission, handler)" by simp
  have "keeps (access_inv A B) (handler s)" for s
    using route unfolding settings_route_def Let_def
    by (elim if_SomeE) (erule keeps_of_pair, intro keeps_intros | simp)+
  then show "keeps (access_inv A B)
      (requirePermission (Validate svc) permission (rq_authorization rq) (rq_query_token rq) handler)"
    unfolding requirePermission_def by (intro keeps_intros)
qed

section \<open>Steps\<close>

text \<open>
  \<open>server_step svc H V d d'\<close>: from the database \<open>d\<close> the server reaches \<open>d'\<close> by serving one request, or
  the environment moves: time passes, statements are going to fail, identifiers are supplied. \<open>svc\<close>
  and the two password functions are fixed for the run; all else a request brings is arbitrary.
\<close>

inductive server_step ::
  "auth_service \<Rightarrow> (string \<Rightarrow> string option) \<Rightarrow> (string \<Rightarrow> string \<Rightarrow> bool) \<Rightarrow> db \<Rightarrow> db \<Rightarrow> bool"
  for svc H V where
  settings_api: "server_step svc H V d (snd (serve_settings svc H rq d))"
| login: "server_step svc H V d (snd (handleLogin svc lib rnd ip lb d))"
| logout: "server_step svc H V d (snd (requireAuth (Validate svc) au q (handleLogout svc ip au) d))"
| change_password: "server_step svc H V d
    (snd (requireAuth (Validate svc) au q (\<lambda>s. handleChangePassword H V ip s cb) d))"
| wecom_code: "server_step svc H V d (snd (handleWecomLoginByCode svc rnd ui ip wb d))"
| wecom_sso: "server_step svc H V d (snd (handleWecomSSOLogin svc rnd vt bo ip sb d))"
| wecom_unbind: "server_step svc H V d
    (snd (requireAuth (Validate svc) au q (handleWecomUnbind ip) d))"
| environment: "clock d \<le> t \<Longrightarrow> server_step svc H V d (d\<lparr>clock := t, faults := fs, uuids := us\<rparr>)"

inductive_cases server_stepE: "server_step svc H V d d'"

inductive reachable ::
  "auth_service \<Rightarrow> (string \<Rightarrow> string option) \<Rightarrow> (string \<Rightarrow> string \<Rightarrow> bool) \<Rightarrow> db \<Rightarrow> db \<Rightarrow> bool"
  for svc H V d0 where
  start: "reachable svc H V d0 d0"
| step: "reachable svc H V d0 d \<Longrightarrow> server_step svc H V d d' \<Longrightarrow> reachable svc H V d0 d'"

lemma access_inv_step:
  assumes "server_step svc H V d d'" "access_inv A B d"
  shows "access_inv A B d'"
  using assms
proof cases
  case (environment t fs us)
  with assms(2) show ?thesis by simp
qed (use assms(2) in \<open>auto intro!: keepsD [where I = "access_inv A B"] inv_serve_settings keeps_intros\<close>)

end
