(* ===== verification/Access_Properties.thy ===== *)
theory Access_Properties
  imports Server_Steps
begin

text \<open>
  The properties of access management: the invariants of every reachable state, who may change the
  access tables, what a user's permissions are, and what a failed change leaves behind.
\<close>

section \<open>Reachable states\<close>


definition admin_row :: user_row where
  "admin_row = \<lparr>ur_id = ''u1'', ur_username = ''admin'', ur_email = [], ur_password_hash = ''h'',
     ur_display_name = ''admin'', ur_role = ''admin'', ur_source = ''local'', ur_disabled = False,
     ur_last_login_at = None, ur_created_at = 0, ur_updated_at = 0\<rparr>"

definition builtin_role :: "string \<Rightarrow> string \<Rightarrow> string list \<Rightarrow> role" where
  "builtin_role rid key ps = \<lparr>role_id = rid, role_key = key, role_name = key, role_description = [],
     role_permissions = ps, role_builtin = True, role_created_at = 0, role_updated_at = 0\<rparr>"

definition empty_db :: db where
  "empty_db = \<lparr>faults = [], clock = 1000, uuids = [''n1'', ''n2'', ''n3''], users = [admin_row],
     roles = [builtin_role ''r1'' ''admin'' BuiltinPermissions, builtin_role ''r3'' ''viewer'' [''vms.read'']],
     user_roles = [(''u1'', ''r1'')], user_groups = [], group_members = [], group_roles = [],
     sessions = [], login_failures = [], auth_states = [], wecom_bindings = [], agents = [],
     tasks = [], alerts = [], channels = [], deliveries = [], audit_log = [], settings = None,
     auth_providers = [], reset_tokens = [], template_marks = [], annotations = [],
     host_samples = [], vm_samples = [], host_rollups = [], vm_rollups = []\<rparr>"


lemma empty_db_ok: "access_wf empty_db" "admin_ok ''u1'' empty_db"
  by (simp_all add: access_wf_def admin_ok_def empty_db_def admin_row_def builtin_role_def)


section \<open>Who may change the access tables\<close>

definition access_tables ::
  "db \<Rightarrow> user_row list \<times> role list \<times> group_row list \<times> (string \<times> string) list \<times> (string \<times> string) list"
where
  "access_tables d = (users d, roles d, user_groups d, group_members d, group_roles d)"

lemma fault_blind_tables [simp]: "fault_blind (\<lambda>d. access_tables d = X)"
  by (simp add: fault_blind_def access_tables_def)

lemmas tables_stmt = keeps_stmt [OF fault_blind_tables]

lemma tables_query [keeps_intros]: "keeps (\<lambda>d. access_tables d = X) (query f)"
  by (rule keeps_query) simp

lemma tables_exec [keeps_intros]:
  "(\<And>d. access_tables (f d) = access_tables d) \<Longrightarrow> keeps (\<lambda>d. access_tables d = X) (exec f)"
  by (rule keeps_exec) simp_all

lemma tables_attach [keeps_intros]: "keeps (\<lambda>d. access_tables d = X) (attachAccessToUsers us)"
  unfolding attachAccessToUsers_def listUserEffectiveRoles_def fallbackRole_def replaceUserRoles_def
    insert_user_role_def
  by (intro keeps_intros tables_stmt) (auto simp: access_tables_def split: option.splits)

lemma tables_reads [keeps_intros]:
  "keeps (\<lambda>d. access_tables d = X) (FindSession j)"
  "keeps (\<lambda>d. access_tables d = X) ListManagedUsers"
  "keeps (\<lambda>d. access_tables d = X) ListRoles"
  "keeps (\<lambda>d. access_tables d = X) ListUserGroups"
  unfolding FindSession_def ListManagedUsers_def ListRoles_def ListUserGroups_def
    listGroupMembers_def listGroupRoles_def
  by (intro keeps_intros)+


lemma tables_settings [keeps_intros]:
  "keeps (\<lambda>d. access_tables d = X) GetSystemBaseConfig"
  "keeps (\<lambda>d. access_tables d = X) (UpsertSystemBaseConfig p)"
  "keeps (\<lambda>d. access_tables d = X) (WriteAudit a b c e f g)"
  unfolding GetSystemBaseConfig_def UpsertSystemBaseConfig_def WriteAudit_def
  by (intro keeps_intros tables_stmt; auto simp: access_tables_def)+

lemma tables_read_handlers [keeps_intros]:
  "keeps (\<lambda>d. access_tables d = X) handleGetSystemBaseConfig"
  "keeps (\<lambda>d. access_tables d = X) (handleUpdateSystemBaseConfig u ip cb)"
  "keeps (\<lambda>d. access_tables d = X) handleListManagedUsers"
  "keeps (\<lambda>d. access_tables d = X) handleListRoles"
  "keeps (\<lambda>d. access_tables d = X) handleListUserGroups"
  unfolding handleGetSystemBaseConfig_def handleUpdateSystemBaseConfig_def handleListManagedUsers_def
    handleListRoles_def handleListUserGroups_def
  by (intro keeps_intros)+






section \<open>Assigning roles\<close>

definition add_role :: "string \<Rightarrow> string \<Rightarrow> unit db_prog" where
  "add_role userID roleKey = bindp (insert_user_role userID roleKey) (\<lambda>n.
     if n = 0 then fail ErrNotFound else ret ())"

lemma replaceUserRoles_alt: "replaceUserRoles userID roleKeys =
   bindp (exec (\<lambda>d. d\<lparr>user_roles := filter (\<lambda>(u, _). u \<noteq> userID) (user_roles d)\<rparr>))
     (\<lambda>_. for_each (add_role userID) roleKeys)"
  unfolding replaceUserRoles_def add_role_def by simp

lemma add_role_run:
  assumes "faults d = []" "u \<in> ur_id ` set (users d)" "row_of role_key k (roles d) = Some r"
    "(u, role_id r) \<notin> set (user_roles d)"
  shows "add_role u k d = (Inr (), d\<lparr>user_roles := user_roles d @ [(u, role_id r)]\<rparr>)"
  using assms by (simp add: add_role_def insert_user_role_def run_simps)

lemma add_role_missing:
  assumes "faults d = []" "row_of role_key k (roles d) = None"
  shows "add_role u k d = (Inl ErrNotFound, d)"
  using assms by (simp add: add_role_def insert_user_role_def run_simps)

lemma add_role_cases:
  assumes "faults d = []" "u \<in> ur_id ` set (users d)"
  shows "add_role u k d = (Inl ErrNotFound, d) \<or>
    (\<exists>p. add_role u k d = (Inr (), d\<lparr>user_roles := user_roles d @ [p]\<rparr>))"
proof (cases "row_of role_key k (roles d)")
  case None
  with assms show ?thesis by (simp add: add_role_missing)
next
  case (Some r)
  with assms show ?thesis
    by (cases "(u, role_id r) \<in> set (user_roles d)")
      (auto simp: add_role_run add_role_def insert_user_role_def run_simps)
qed

lemma add_roles_missing:
  assumes "faults d = []" "u \<in> ur_id ` set (users d)"
    "\<exists>k \<in> set ks. row_of role_key k (roles d) = None"
  shows "\<exists>d'. for_each (add_role u) ks d = (Inl ErrNotFound, d') \<and> users d' = users d \<and> faults d' = []"
  using assms
proof (induction ks arbitrary: d)
  case (Cons k ks)
  from add_role_cases [OF Cons.prems(1,2), of k] show ?case
  proof
    assume "add_role u k d = (Inl ErrNotFound, d)"
    with Cons.prems(1) show ?thesis by (simp add: bindp_def)
  next
    assume "\<exists>p. add_role u k d = (Inr (), d\<lparr>user_roles := user_roles d @ [p]\<rparr>)"
    then obtain p where p: "add_role u k d = (Inr (), d\<lparr>user_roles := user_roles d @ [p]\<rparr>)" by blast
    have "row_of role_key k (roles d) \<noteq> None"
    proof
      assume "row_of role_key k (roles d) = None"
      with add_role_missing [OF Cons.prems(1)] p show False by simp
    qed
    with Cons.prems have "\<exists>k \<in> set ks. row_of role_key k (roles d) = None" by auto
    with Cons.IH [of "d\<lparr>user_roles := user_roles d @ [p]\<rparr>"] Cons.prems(1,2) p show ?thesis
      by (auto simp: bindp_def)
  qed
qed simp

lemma add_roles_run:
  assumes "faults d = []" "u \<in> ur_id ` set (users d)" "distinct (map role_id (roles d))"
    "distinct ks" "\<forall>k \<in> set ks. \<exists>r. row_of role_key k (roles d) = Some r \<and> (u, role_id r) \<notin> set (user_roles d)"
  shows "for_each (add_role u) ks d = (Inr (), d\<lparr>user_roles := user_roles d @
    map (\<lambda>k. (u, role_id (the (row_of role_key k (roles d))))) ks\<rparr>)"
  using assms
proof (induction ks arbitrary: d)
  case (Cons k ks)
  from Cons.prems(5) obtain r where r: "row_of role_key k (roles d) = Some r"
    and new: "(u, role_id r) \<notin> set (user_roles d)" by auto
  let ?d = "d\<lparr>user_roles := user_roles d @ [(u, role_id r)]\<rparr>"
  have "\<exists>q. row_of role_key j (roles d) = Some q \<and> (u, role_id q) \<notin> set (user_roles ?d)"
    if j: "j \<in> set ks" for j
  proof -
    from j Cons.prems(5) obtain q where q: "row_of role_key j (roles d) = Some q"
      "(u, role_id q) \<notin> set (user_roles d)" by auto
    have "role_id q \<noteq> role_id r"
    proof
      assume eq: "role_id q = role_id r"
      from q(1) r have "q \<in> set (roles d)" "r \<in> set (roles d)" "role_key q = j" "role_key r = k"
        by (auto dest: row_of_SomeD)
      with Cons.prems(3) eq have "q = r" by (metis distinct_map inj_onD)
      with \<open>role_key q = j\<close> \<open>role_key r = k\<close> j Cons.prems(4) show False by auto
    qed
    with q show ?thesis by auto
  qed
  with Cons.IH [of ?d] Cons.prems(1,2,3,4) have
    "for_each (add_role u) ks ?d = (Inr (), ?d\<lparr>user_roles := user_roles ?d @
      map (\<lambda>k. (u, role_id (the (row_of role_key k (roles ?d))))) ks\<rparr>)" by simp
  with add_role_run [OF Cons.prems(1,2) r new] r show ?case by (simp add: bindp_def)
qed (simp add: ret_def)

section \<open>What a user holds\<close>

lemma set_effective_roles: "set (effective_roles d u) = {r \<in> set (roles d).
    (u, role_id r) \<in> set (user_roles d) \<or>
    (\<exists>g \<in> set (user_groups d). \<not> gr_disabled g \<and> (gr_id g, role_id r) \<in> set (group_roles d) \<and>
       (gr_id g, u) \<in> set (group_members d))}"
  by (auto simp: effective_roles_def order_roles_def)

lemma FindUserByID_run:
  assumes "faults d = []" "row_of ur_id u (users d) = Some r" "effective_roles d u \<noteq> []"
  shows "FindUserByID u d = (Inr ((user_of_row r)\<lparr>Roles := effective_roles d u,
    Permissions := uniquePermissions (effective_roles d u)\<rparr>), d)"
  using assms row_of_SomeD [OF assms(2)]
  by (simp add: FindUserByID_def attachAccessToUsers_def listUserEffectiveRoles_def run_simps user_of_row_def)

definition role_granted :: "db \<Rightarrow> string \<Rightarrow> role \<Rightarrow> bool" where
  "role_granted d u q \<longleftrightarrow> q \<in> set (roles d) \<and>
     ((u, role_id q) \<in> set (user_roles d) \<or>
      (\<exists>g \<in> set (user_groups d). \<not> gr_disabled g \<and> (gr_id g, role_id q) \<in> set (group_roles d) \<and>
         (gr_id g, u) \<in> set (group_members d)))"

lemma effective_granted: "q \<in> set (effective_roles d u) \<longleftrightarrow> role_granted d u q"
  by (auto simp: set_effective_roles role_granted_def)

lemma row_of_found: "row_of f k xs = Some x \<Longrightarrow> row_of f (f x) xs = Some x"
  using row_of_SomeD by fastforce

lemma FindUserByID_fallback:
  assumes "faults d = []" "row_of ur_id u (users d) = Some r" "effective_roles d u = []"
  shows "FindUserByID u d = (case row_of role_key (if ur_role r = [] then ''viewer'' else ur_role r) (roles d) of
      None \<Rightarrow> (Inr ((user_of_row r)\<lparr>Roles := [], Permissions := []\<rparr>), d)
    | Some q \<Rightarrow> (Inr ((user_of_row r)\<lparr>Roles := [q], Permissions := uniquePermissions [q]\<rparr>),
        d\<lparr>user_roles := filter (\<lambda>(v, _). v \<noteq> u) (user_roles d) @ [(u, role_id q)]\<rparr>))"
proof -
  have u: "ID (user_of_row r) = u" "u \<in> ur_id ` set (users d)"
    using row_of_SomeD [OF assms(2)] by (auto simp: user_of_row_def)
  show ?thesis
  proof (cases "row_of role_key (if ur_role r = [] then ''viewer'' else ur_role r) (roles d)")
    case None
    with assms u(1) show ?thesis
      by (simp add: FindUserByID_def attachAccessToUsers_def listUserEffectiveRoles_def fallbackRole_def run_simps
          uniquePermissions_def del: if_split cong: if_cong)
  next
    case (Some q)
    have key: "row_of role_key (role_key q) (roles d) = Some q" by (rule row_of_found [OF Some])
    have "replaceUserRoles u [role_key q] d =
        (Inr (), d\<lparr>user_roles := filter (\<lambda>(v, _). v \<noteq> u) (user_roles d) @ [(u, role_id q)]\<rparr>)"
      using assms(1) u(2) key
      by (simp add: replaceUserRoles_alt add_role_def insert_user_role_def run_simps)
    with assms u(1) Some show ?thesis
      by (simp add: FindUserByID_def attachAccessToUsers_def listUserEffectiveRoles_def fallbackRole_def run_simps
          ignore_def del: if_split cong: if_cong)
  qed
qed

lemma set_uniquePermissions:
  "p \<in> set (uniquePermissions rs) \<longleftrightarrow> p \<noteq> [] \<and> (\<exists>q \<in> set rs. p \<in> TrimSpace ` set (role_permissions q))"
  by (auto simp: uniquePermissions_def)

text \<open>C11: the permissions of a user are, sorted and without repetition, the trimmed permissions of the roles that
  are assigned to the user or to an enabled group the user is in; a disabled group gives none. A user without any
  such role holds the permissions of one role, that of the column \<open>role\<close> of the user (\<open>viewer\<close> when it is empty),
  if there is such a role, and this role has then been assigned to the user, the one change the lookup makes.\<close>

theorem effective_permissions:
  assumes "faults d = []" "row_of ur_id u (users d) = Some r"
  shows "\<exists>x d'. FindUserByID u d = (Inr x, d') \<and> ID x = u \<and> sorted (Permissions x) \<and> distinct (Permissions x) \<and>
    (let fallback = row_of role_key (if ur_role r = [] then ''viewer'' else ur_role r) (roles d) in
     if \<exists>q. role_granted d u q
     then d' = d \<and> (\<forall>p. p \<in> set (Permissions x) \<longleftrightarrow>
       p \<noteq> [] \<and> (\<exists>q. role_granted d u q \<and> p \<in> TrimSpace ` set (role_permissions q)))
     else (\<forall>p. p \<in> set (Permissions x) \<longleftrightarrow>
         p \<noteq> [] \<and> (\<exists>q. fallback = Some q \<and> p \<in> TrimSpace ` set (role_permissions q))) \<and>
       d' = (case fallback of None \<Rightarrow> d
         | Some q \<Rightarrow> d\<lparr>user_roles := filter (\<lambda>(v, _). v \<noteq> u) (user_roles d) @ [(u, role_id q)]\<rparr>))"
proof (cases "effective_roles d u = []")
  case False
  then have "\<exists>q. role_granted d u q" using effective_granted by (metis list.set_intros(1) neq_Nil_conv)
  with False FindUserByID_run [OF assms] row_of_SomeD [OF assms(2)] show ?thesis
    by (simp add: set_uniquePermissions effective_granted user_of_row_def Bex_def)
      (simp add: uniquePermissions_def)
next
  case True
  then have "\<not> (\<exists>q. role_granted d u q)" using effective_granted [of _ d u] by simp
  with True FindUserByID_fallback [OF assms] row_of_SomeD [OF assms(2)] show ?thesis
    by (cases "row_of role_key (if ur_role r = [] then ''viewer'' else ur_role r) (roles d)")
      (simp_all add: set_uniquePermissions user_of_row_def, simp add: uniquePermissions_def)
qed

text \<open>A user who holds a role directly and one through a group, and is in a disabled group too.\<close>

definition group_db :: db where
  "group_db = empty_db\<lparr>user_roles := [(''u1'', ''r3'')],
     user_groups := [\<lparr>gr_id = ''g1'', gr_name = ''ops'', gr_description = [], gr_disabled = True\<rparr>],
     group_members := [(''g1'', ''u1'')], group_roles := [(''g1'', ''r1'')]\<rparr>"

lemma group_db_roles: "effective_roles group_db ''u1'' = [builtin_role ''r3'' ''viewer'' [''vms.read'']]"
  by (simp add: effective_roles_def group_db_def empty_db_def builtin_role_def order_roles_def)

lemma effective_permissions_witness:
  "(\<exists>x. FindUserByID ''u1'' group_db = (Inr x, group_db) \<and> ''dashboard.read'' \<notin> set (Permissions x)) \<and>
   (\<exists>x d'. FindUserByID ''u1'' (empty_db\<lparr>user_roles := []\<rparr>) = (Inr x, d') \<and> ''vms.read'' \<in> set (Permissions x) \<and>
      user_roles d' = [(''u1'', ''r1'')])"
proof
  have trim: "TrimSpace ''vms.read'' = ''vms.read''" "''vms.read'' \<in> TrimSpace ` set BuiltinPermissions" by code_simp+
  have g: "faults group_db = []" "row_of ur_id ''u1'' (users group_db) = Some admin_row"
    "role_granted group_db ''u1'' q \<longleftrightarrow> q = builtin_role ''r3'' ''viewer'' [''vms.read'']" for q
    by (simp_all add: group_db_roles effective_granted [symmetric]) (simp_all add: group_db_def empty_db_def row_of_def admin_row_def)
  have some: "\<exists>q. role_granted group_db ''u1'' q" by (simp add: g(3))
  obtain x where x: "FindUserByID ''u1'' group_db = (Inr x, group_db)"
    "\<forall>p. p \<in> set (Permissions x) \<longleftrightarrow> p \<noteq> [] \<and> (\<exists>q. role_granted group_db ''u1'' q \<and> p \<in> TrimSpace ` set (role_permissions q))"
    using effective_permissions [OF g(1,2)] some by (auto simp: Let_def simp del: g(3))
  have "''dashboard.read'' \<notin> set (Permissions x)"
    unfolding x(2) [rule_format] g(3) by (simp add: builtin_role_def trim(1))
  with x(1) show "\<exists>x. FindUserByID ''u1'' group_db = (Inr x, group_db) \<and> ''dashboard.read'' \<notin> set (Permissions x)" by blast
  let ?d = "empty_db\<lparr>user_roles := []\<rparr>"
  have h: "faults ?d = []" "row_of ur_id ''u1'' (users ?d) = Some admin_row" "\<not> role_granted ?d ''u1'' q"
    "row_of role_key ''admin'' (roles ?d) = Some (builtin_role ''r1'' ''admin'' BuiltinPermissions)" for q
    by (simp_all add: role_granted_def) (simp_all add: empty_db_def row_of_def admin_row_def builtin_role_def)
  have key: "(if ur_role admin_row = [] then ''viewer'' else ur_role admin_row) = ''admin''" by (simp add: admin_row_def)
  obtain x d' where x: "FindUserByID ''u1'' ?d = (Inr x, d')"
    "\<forall>p. p \<in> set (Permissions x) \<longleftrightarrow> p \<noteq> [] \<and> p \<in> TrimSpace ` set BuiltinPermissions"
    "d' = ?d\<lparr>user_roles := [(''u1'', ''r1'')]\<rparr>"
    using effective_permissions [OF h(1,2)] unfolding key h(4) Let_def
    by (auto simp: h(3) builtin_role_def simp del: if_split)
  from x(2,3) trim(2) have "''vms.read'' \<in> set (Permissions x)" "user_roles d' = [(''u1'', ''r1'')]" by simp_all
  with x(1) show "\<exists>x d'. FindUserByID ''u1'' ?d = (Inr x, d') \<and> ''vms.read'' \<in> set (Permissions x) \<and> user_roles d' = [(''u1'', ''r1'')]"
    by blast
qed

section \<open>Creating and changing users\<close>

lemma insert_user_run:
  assumes "faults d = []" "uuids d = uid # us" "ui_Username i \<notin> ur_username ` set (users d)"
    "uid \<notin> ur_id ` set (users d)"
  shows "insert_user i h r s d = (Inr uid, d\<lparr>uuids := us, users := users d @
    [\<lparr>ur_id = uid, ur_username = ui_Username i, ur_email = ui_Email i, ur_password_hash = h,
      ur_display_name = ui_DisplayName i, ur_role = r, ur_source = s, ur_disabled = ui_Disabled i,
      ur_last_login_at = None, ur_created_at = clock d, ur_updated_at = clock d\<rparr>]\<rparr>)"
  using assms by (simp add: insert_user_def gen_uuid_def run_simps)

lemma insert_user_taken:
  assumes "faults d = []" "ui_Username i \<in> ur_username ` set (users d)"
  shows "fst (insert_user i h r s d) = Inl UniqueViolation"
  using assms by (auto simp: insert_user_def gen_uuid_def run_simps Let_def split: list.splits prod.splits)

text \<open>Creating a user with an unknown role fails, and the failure leaves the user behind: the account
  exists, with its password, and every later attempt to create the username, with whatever roles, is
  refused as a duplicate.\<close>

lemma create_user_unknown_role:
  assumes "faults d = []" "uuids d = uid # us" "ui_Username i \<notin> ur_username ` set (users d)"
    "uid \<notin> ur_id ` set (users d)" "k \<in> set (normalizeRoleKeys (ui_RoleKeys i))"
    "row_of role_key k (roles d) = None"
  shows "\<exists>d'. CreateManagedUser i h d = (Inl ErrNotFound, d') \<and>
    (\<exists>r \<in> set (users d'). ur_id r = uid \<and> ur_username r = ui_Username i \<and> ur_password_hash r = h) \<and>
    (\<forall>j g. ui_Username j = ui_Username i \<longrightarrow> fst (CreateManagedUser j g d') = Inl UniqueViolation)"
proof -
  let ?ks = "normalizeRoleKeys (ui_RoleKeys i)"
  obtain d1 where ins: "insert_user i h (hd ?ks) (normalizeUserSource (ui_Source i)) d = (Inr uid, d1)"
    and d1: "faults d1 = []" "roles d1 = roles d"
      "\<exists>r \<in> set (users d1). ur_id r = uid \<and> ur_username r = ui_Username i \<and> ur_password_hash r = h"
    using insert_user_run [OF assms(1-4)] assms(1) by auto
  let ?d2 = "d1\<lparr>user_roles := filter (\<lambda>(v, _). v \<noteq> uid) (user_roles d1)\<rparr>"
  have "\<exists>k \<in> set ?ks. row_of role_key k (roles ?d2) = None" using assms(5,6) d1(2) by auto
  with add_roles_missing [of ?d2 uid ?ks] d1 obtain d3 where
    d3: "for_each (add_role uid) ?ks ?d2 = (Inl ErrNotFound, d3)" "users d3 = users d1" "faults d3 = []"
    by force
  have "CreateManagedUser i h d = (Inl ErrNotFound, d3)"
    using ins d3(1) d1(1) by (simp add: CreateManagedUser_def Let_def replaceUserRoles_alt run_simps)
  moreover have "fst (CreateManagedUser j g d3) = Inl UniqueViolation" if "ui_Username j = ui_Username i" for j g
  proof -
    have "ui_Username j \<in> ur_username ` set (users d3)" using that d1(3) d3(2) by force
    from insert_user_taken [OF d3(3) this] show ?thesis
      by (auto simp: CreateManagedUser_def Let_def bindp_def split: prod.splits sum.splits dest!: arg_cong [where f = fst])
  qed
  ultimately show ?thesis using d1(3) d3(2) by auto
qed

definition bob :: "string list \<Rightarrow> user_input" where
  "bob keys = \<lparr>ui_Username = ''bob'', ui_Email = [], ui_DisplayName = ''Bob'', ui_Source = [],
     ui_RoleKeys = keys, ui_Disabled = False\<rparr>"

lemma bob_roles: "normalizeRoleKeys [''operator''] = [''operator'']" "normalizeRoleKeys [''viewer''] = [''viewer'']"
  by code_simp+

text \<open>creating a user whose username is free with roles that exist stores the account with exactly
  those roles and returns it with their permissions; no other row of any access table changes.\<close>

theorem create_user_ok:
  assumes wf: "access_wf d" and d: "faults d = []" "uuids d = uid # us"
    "ui_Username i \<notin> ur_username ` set (users d)" "uid \<notin> ur_id ` set (users d)"
    and known: "\<forall>k \<in> set (normalizeRoleKeys (ui_RoleKeys i)). row_of role_key k (roles d) \<noteq> None"
  shows "\<exists>x d'. CreateManagedUser i h d = (Inr x, d') \<and> ID x = uid \<and> Username x = ui_Username i \<and>
    role_key ` set (Roles x) = set (normalizeRoleKeys (ui_RoleKeys i)) \<and>
    Permissions x = uniquePermissions (Roles x) \<and>
    (\<exists>r. users d' = users d @ [r] \<and> ur_id r = uid \<and> ur_username r = ui_Username i \<and> ur_password_hash r = h) \<and>
    (\<exists>rs. user_roles d' = user_roles d @ rs \<and> fst ` set rs = {uid}) \<and>
    roles d' = roles d \<and> user_groups d' = user_groups d \<and> group_members d' = group_members d \<and>
    group_roles d' = group_roles d \<and> sessions d' = sessions d"
proof -
  let ?ks = "normalizeRoleKeys (ui_RoleKeys i)"
  let ?row = "\<lparr>ur_id = uid, ur_username = ui_Username i, ur_email = ui_Email i, ur_password_hash = h,
      ur_display_name = ui_DisplayName i, ur_role = hd ?ks,
      ur_source = normalizeUserSource (ui_Source i), ur_disabled = ui_Disabled i,
      ur_last_login_at = None, ur_created_at = clock d, ur_updated_at = clock d\<rparr>"
  let ?rs = "map (\<lambda>k. (uid, role_id (the (row_of role_key k (roles d))))) ?ks"
  let ?d1 = "d\<lparr>uuids := us, users := users d @ [?row]\<rparr>"
  let ?d2 = "?d1\<lparr>user_roles := user_roles d @ ?rs\<rparr>"
  have ins: "insert_user i h (hd ?ks) (normalizeUserSource (ui_Source i)) d = (Inr uid, ?d1)"
    using insert_user_run [OF d] .
  have fresh: "(uid, x) \<notin> set (user_roles d)" "(g, uid) \<notin> set (group_members d)" for x g
    using wf d(4) by (auto simp: access_wf_def)
  have "filter (\<lambda>(v, _). v \<noteq> uid) (user_roles d) = user_roles d"
    using fresh(1) by (auto simp: filter_id_conv)
  then have strip: "?d1\<lparr>user_roles := filter (\<lambda>(v, _). v \<noteq> uid) (user_roles ?d1)\<rparr> = ?d1" by simp
  have "for_each (add_role uid) ?ks ?d1 = (Inr (), ?d2)"
    using add_roles_run [of ?d1 uid ?ks] wf d(1) role_keys.norm_distinct [of "ui_RoleKeys i"] known fresh(1)
    by (auto simp: access_wf_def)
  then have rep: "replaceUserRoles uid ?ks ?d1 = (Inr (), ?d2)"
    using strip d(1) by (simp add: replaceUserRoles_alt run_simps)
  have row: "row_of ur_id uid (users ?d2) = Some ?row"
    using d(4) row_of_None_iff [of ur_id uid "users d"] by (simp add: row_of_append) (simp add: row_of_def)
  have dist: "distinct (map role_id (roles d))" using wf by (simp add: access_wf_def)
  have eff: "role_key ` set (effective_roles ?d2 uid) = set ?ks"
  proof (intro equalityI subsetI)
    fix k assume "k \<in> role_key ` set (effective_roles ?d2 uid)"
    then obtain q where q: "q \<in> set (roles d)" "role_key q = k" "(uid, role_id q) \<in> set ?rs"
      using fresh by (auto simp: set_effective_roles)
    then obtain j where j: "j \<in> set ?ks" "role_id q = role_id (the (row_of role_key j (roles d)))" by auto
    with known obtain p where "row_of role_key j (roles d) = Some p" by auto
    with j q dist have "q = p" "role_key p = j" by (auto dest: row_of_SomeD simp: distinct_map inj_on_def)
    with q(2) j(1) show "k \<in> set ?ks" by simp
  next
    fix k assume k: "k \<in> set ?ks"
    with known obtain p where p: "row_of role_key k (roles d) = Some p" by auto
    with k have "(uid, role_id p) \<in> set ?rs" by force
    with p show "k \<in> role_key ` set (effective_roles ?d2 uid)"
      by (auto simp: set_effective_roles dest!: row_of_SomeD intro!: image_eqI [of _ _ p])
  qed
  then have "effective_roles ?d2 uid \<noteq> []" by force
  with FindUserByID_run [of ?d2 uid ?row] row d(1) ins rep
  have run: "CreateManagedUser i h d = (Inr ((user_of_row ?row)\<lparr>Roles := effective_roles ?d2 uid,
      Permissions := uniquePermissions (effective_roles ?d2 uid)\<rparr>), ?d2)"
    by (simp add: CreateManagedUser_def Let_def run_simps)
  have "fst ` set ?rs = {uid}" by (cases ?ks) auto
  then have "\<exists>rs. user_roles ?d2 = user_roles d @ rs \<and> fst ` set rs = {uid}"
    by (intro exI [of _ ?rs]) simp
  with run eff show ?thesis by (auto simp: user_of_row_def)
qed

lemma create_user_ok_witness:
  "\<exists>x d'. CreateManagedUser (bob [''viewer'']) ''p'' empty_db = (Inr x, d') \<and> ID x = ''n1'' \<and>
    role_key ` set (Roles x) = {''viewer''}"
proof -
  have "faults empty_db = []" "uuids empty_db = ''n1'' # [''n2'', ''n3'']"
    "ui_Username (bob [''viewer'']) \<notin> ur_username ` set (users empty_db)"
    "''n1'' \<notin> ur_id ` set (users empty_db)"
    "\<forall>k \<in> set (normalizeRoleKeys (ui_RoleKeys (bob [''viewer'']))). row_of role_key k (roles empty_db) \<noteq> None"
    by (simp_all add: bob_def bob_roles)
      (simp_all add: empty_db_def admin_row_def builtin_role_def row_of_def)
  from create_user_ok [OF empty_db_ok(1) this, of "''p''"] show ?thesis
    by (auto simp: bob_def bob_roles)
qed

lemma update_user_run:
  assumes "faults d = []" "row_of ur_id u (users d) = Some r"
    "\<And>q. q \<in> set (users d) \<Longrightarrow> ur_id q \<noteq> u \<Longrightarrow> ur_username q \<noteq> ur_username (f (clock d) r)"
  shows "update_user u f d =
    (Inr 1, d\<lparr>users := upd_where (\<lambda>q. ur_id q = u) (f (clock d)) (users d)\<rparr>)"
  using assms by (auto simp: update_user_def run_simps)

text \<open>Changing a user with an unknown role is answered as if the user did not exist, although every
  other part of the change has been made: the name, the role column and the disabled flag are the new
  ones, and the roles the user had are gone, whichever of the new ones are there.\<close>

lemma update_user_unknown_role:
  assumes "access_wf d" "faults d = []" "row_of ur_id u (users d) = Some r"
    "\<forall>q \<in> set (users d). ur_id q \<noteq> u \<longrightarrow> ur_username q \<noteq> ui_Username i"
    "k \<in> set (normalizeRoleKeys (ui_RoleKeys i))" "row_of role_key k (roles d) = None"
  shows "\<exists>d' r'. UpdateManagedUser u i h d = (Inl ErrNotFound, d') \<and> row_of ur_id u (users d') = Some r' \<and>
    ur_username r' = ui_Username i \<and> ur_role r' = hd (normalizeRoleKeys (ui_RoleKeys i)) \<and>
    ur_disabled r' = ui_Disabled i \<and> (h \<noteq> [] \<longrightarrow> ur_password_hash r' = h)"
proof -
  let ?ks = "normalizeRoleKeys (ui_RoleKeys i)"
  let ?f = "\<lambda>now r. r\<lparr>ur_username := ui_Username i, ur_email := ui_Email i,
     ur_display_name := ui_DisplayName i, ur_role := hd ?ks,
     ur_source := normalizeUserSource (ui_Source i), ur_disabled := ui_Disabled i, ur_updated_at := now\<rparr>"
  let ?g = "if h = [] then ?f else (\<lambda>now r. (?f now r)\<lparr>ur_password_hash := h\<rparr>)"
  let ?d1 = "d\<lparr>users := upd_where (\<lambda>q. ur_id q = u) (?g (clock d)) (users d)\<rparr>"
  have upd: "update_user u ?g d = (Inr 1, ?d1)"
    using assms(2-4) by (intro update_user_run) auto
  have row: "row_of ur_id u (users ?d1) = Some (?g (clock d) r)"
    using assms(3) row_of_SomeD [OF assms(3)] by (simp add: row_of_upd_where)
  let ?d2 = "?d1\<lparr>user_roles := filter (\<lambda>(v, _). v \<noteq> u) (user_roles ?d1)\<rparr>"
  have "u \<in> ur_id ` set (users ?d2)"
    using row_of_SomeD [OF row] by auto
  moreover have "faults ?d2 = []" "\<exists>k \<in> set ?ks. row_of role_key k (roles ?d2) = None"
    using assms(2,5,6) by auto
  ultimately obtain d3 where
    d3: "for_each (add_role u) ?ks ?d2 = (Inl ErrNotFound, d3)" "users d3 = users ?d2"
    using add_roles_missing [of ?d2 u ?ks] by blast
  have run: "UpdateManagedUser u i h d = (Inl ErrNotFound, d3)"
    using upd d3(1) assms(2)
    by (cases "h = []") (simp_all add: UpdateManagedUser_def Let_def replaceUserRoles_alt run_simps)
  from row d3(2) have "row_of ur_id u (users d3) = Some (?g (clock d) r)" by simp
  with run show ?thesis by auto
qed

lemma update_user_unknown_role_witness:
  "\<exists>d' r'. UpdateManagedUser ''u1'' (bob [''operator'']) [] empty_db = (Inl ErrNotFound, d') \<and>
     row_of ur_id ''u1'' (users d') = Some r' \<and> ur_username r' = ''bob''"
proof -
  have "faults empty_db = []" "row_of ur_id ''u1'' (users empty_db) = Some admin_row"
    "\<forall>q \<in> set (users empty_db). ur_id q \<noteq> ''u1'' \<longrightarrow> ur_username q \<noteq> ui_Username (bob [''operator''])"
    "''operator'' \<in> set (normalizeRoleKeys (ui_RoleKeys (bob [''operator''])))"
    "row_of role_key ''operator'' (roles empty_db) = None"
    by (simp_all add: bob_def bob_roles)
      (simp_all add: empty_db_def admin_row_def builtin_role_def row_of_def)
  from update_user_unknown_role [OF empty_db_ok(1) this, of "[]"] show ?thesis by (auto simp: bob_def)
qed

section \<open>Permissions\<close>

lemma set_collect: "set (collect_permissions seen ps) = set seen \<union>
    {q. \<exists>p \<in> set ps. TrimSpace p \<noteq> [] \<and> (q = TrimSpace p \<or> map_of ImpliedReadPermissions (TrimSpace p) = Some q)}"
  by (induction ps arbitrary: seen) (auto simp: Let_def split: option.splits)

lemma implied_clean:
  "list_all (\<lambda>(_, q). q \<noteq> [] \<and> TrimSpace q = q \<and> map_of ImpliedReadPermissions q = None) ImpliedReadPermissions"
  by code_simp

lemma implied_read:
  "map_of ImpliedReadPermissions p = Some q \<Longrightarrow>
   q \<noteq> [] \<and> TrimSpace q = q \<and> map_of ImpliedReadPermissions q = None"
  using implied_clean by (auto simp: list_all_iff dest!: map_of_SomeD)

text \<open>C0: \<open>normalizePermissions\<close> gives, sorted and without repetition, the trimmed permissions and the read
  permission each of them implies, and nothing else; the result is closed, so normalising a role again
  changes nothing.\<close>

theorem normalizePermissions_closure:
  "set (normalizePermissions ps) = {q. \<exists>p \<in> set ps. TrimSpace p \<noteq> [] \<and>
     (q = TrimSpace p \<or> map_of ImpliedReadPermissions (TrimSpace p) = Some q)} \<and>
   sorted (normalizePermissions ps) \<and> distinct (normalizePermissions ps) \<and>
   normalizePermissions (normalizePermissions ps) = normalizePermissions ps"
proof -
  have set: "set (normalizePermissions qs) = {q. \<exists>p \<in> set qs. TrimSpace p \<noteq> [] \<and>
     (q = TrimSpace p \<or> map_of ImpliedReadPermissions (TrimSpace p) = Some q)}" for qs
    by (simp add: normalizePermissions_def set_collect)
  have sd: "sorted (normalizePermissions qs)" "distinct (normalizePermissions qs)" for qs
    by (simp_all add: normalizePermissions_def)
  have "set (normalizePermissions (normalizePermissions ps)) = set (normalizePermissions ps)"
    unfolding set [of "normalizePermissions ps"] set [of ps]
    by (auto dest: implied_read) (metis implied_read)+
  then have "normalizePermissions (normalizePermissions ps) = normalizePermissions ps"
    by (intro sorted_distinct_set_unique sd)
  with set sd show ?thesis by simp
qed

text \<open>every permission the router asks for on a virtual machine route is one that a role can grant,
  and a method the routes do not serve asks for none.\<close>

theorem vmRoutePermission_grantable:
  "if meth \<in> {''GET'', ''POST'', ''PUT'', ''DELETE''} then vmRoutePermission meth action \<in> set BuiltinPermissions
   else vmRoutePermission meth action = []"
proof -
  have "list_all (\<lambda>p. p \<in> set BuiltinPermissions) [''vms.console'', ''vms.read'', ''vms.create'', ''vms.clone'', ''vms.update'',
      ''vms.migrate'', ''vms.delete'', ''vms.force'', ''vms.power'']" by code_simp
  then show ?thesis by (simp add: vmRoutePermission_def)
qed

end
