(* ===== verification/Auth_Properties.thy ===== *)
theory Auth_Properties
  imports Access_Properties
begin

text \<open>
  The properties of the authentication: what a validated token proves, that an issued session is valid
  until it is revoked, the login throttle, one-time states, LDAP and the WeCom bindings.
\<close>

lemma row_of_key: "row_of key k rs = Some r \<Longrightarrow> k \<in> key ` set rs"
  by (metis row_of_None_iff option.distinct(1))

section \<open>Runs that change no session\<close>

definition auth_view :: "db \<Rightarrow> int \<times> user_row list \<times> user_session list" where
  "auth_view d = (clock d, users d, sessions d)"

lemma fault_blind_view [simp]: "fault_blind (\<lambda>d. auth_view d = X)"
  by (simp add: fault_blind_def auth_view_def)

lemma view_query [keeps_intros]: "keeps (\<lambda>d. auth_view d = X) (query f)"
  by (rule keeps_query) simp

lemma view_exec: "(\<And>d. auth_view (f d) = auth_view d) \<Longrightarrow> keeps (\<lambda>d. auth_view d = X) (exec f)"
  by (rule keeps_exec) simp_all

lemma view_attach [keeps_intros]: "keeps (\<lambda>d. auth_view d = X) (attachAccessToUsers us)"
  unfolding attachAccessToUsers_def listUserEffectiveRoles_def fallbackRole_def replaceUserRoles_def
    insert_user_role_def
  by (intro keeps_intros view_exec keeps_stmt [OF fault_blind_view])
    (auto simp: auth_view_def split: option.splits)

lemma view_reads [keeps_intros]:
  "keeps (\<lambda>d. auth_view d = X) (FindSession j)"
  "keeps (\<lambda>d. auth_view d = X) (FindUserByUsername n)"
  unfolding FindSession_def FindUserByUsername_def by (intro keeps_intros)+

lemma view_result:
  assumes "m d = (r, d')" "keeps (\<lambda>s. auth_view s = auth_view d) m"
  shows "auth_view d' = auth_view d"
  using keepsD [OF assms(2), of d] assms(1) by simp

section \<open>A validated token\<close>

lemma FindSession_Inr:
  assumes "FindSession j d = (Inr s, d')"
  shows "\<exists>r u. row_of jti j (sessions d) = Some r \<and> row_of ur_id (us_user_id r) (users d) = Some u \<and>
    sess_expires_at s = us_expires_at r \<and> ID (sess_user s) = ur_id u \<and> Username (sess_user s) = ur_username u \<and>
    Role (sess_user s) = ur_role u \<and> Disabled (sess_user s) = ur_disabled u"
proof -
  from assms obtain found d1 where
    q: "query (\<lambda>d. case row_of jti j (sessions d) of None \<Rightarrow> None
      | Some s \<Rightarrow> (case row_of ur_id (us_user_id s) (users d) of None \<Rightarrow> None
          | Some r \<Rightarrow> Some (us_expires_at s, (user_of_row r)\<lparr>Email := []\<rparr>))) d = (Inr found, d1)"
    and c: "(case found of None \<Rightarrow> fail ErrNotFound
      | Some (expiresAt, u) \<Rightarrow> bindp (attachAccessToUsers [u]) (\<lambda>us.
          ret \<lparr>sess_token = [], sess_expires_at = expiresAt, sess_user = hd us,
            sess_wecom_bound = False\<rparr>)) d1 = (Inr s, d')"
    unfolding FindSession_def by (elim bindp_InrE)
  from c obtain e u where f: "found = Some (e, u)" by (auto simp: fail_def split: option.splits)
  with c obtain us d2 where "attachAccessToUsers [u] d1 = (Inr us, d2)"
    and s: "s = \<lparr>sess_token = [], sess_expires_at = e, sess_user = hd us, sess_wecom_bound = False\<rparr>"
    by (auto simp: ret_def elim!: bindp_InrE)
  then obtain rs where us: "us = [u\<lparr>Roles := rs, Permissions := uniquePermissions rs\<rparr>]"
    by (auto elim: attach_one)
  from q f obtain r ur where "row_of jti j (sessions d) = Some r" "row_of ur_id (us_user_id r) (users d) = Some ur"
    "e = us_expires_at r" "u = (user_of_row ur)\<lparr>Email := []\<rparr>"
    by (auto dest!: query_InrD split: option.splits)
  with s us show ?thesis by (auto simp: user_of_row_def)
qed

lemma Validate_facts:
  assumes "Validate svc token d = (Inr s, d')"
  shows "\<exists>c r u. parse_claims (svc_crypto svc) (svc_secret svc) (clock d) (TrimSpace token) = Some c \<and>
    cl_jti c \<noteq> [] \<and> row_of jti (cl_jti c) (sessions d) = Some r \<and> clock d < us_expires_at r \<and>
    row_of ur_id (us_user_id r) (users d) = Some u \<and> \<not> ur_disabled u \<and>
    ID (sess_user s) = ur_id u \<and> Username (sess_user s) = ur_username u"
proof -
  let ?j = "sessionJTI svc (clock d) token"
  obtain r d1 where f: "FindSession ?j d = (r, d1)" by fastforce
  have view: "auth_view d1 = auth_view d" 
    by (rule view_result [where m = "FindSession ?j"]) (rule f, intro keeps_intros)
  from assms f have j: "?j \<noteq> []" and acc: "(case r of Inl _ \<Rightarrow> fail ErrInvalidSession
      | Inr s \<Rightarrow> if \<not> sess_expires_at s > clock d1 \<or> Disabled (sess_user s) then fail ErrInvalidSession
          else ret s) d1 = (Inr s, d')"
    by (auto simp: Validate_def Let_def bindp_def now_def attempt_def fail_def split: if_splits)
  then have r: "r = Inr s" and live: "clock d1 < sess_expires_at s" "\<not> Disabled (sess_user s)"
    by (auto simp: prog_defs split: sum.splits if_splits)
  from j obtain c where "parse_claims (svc_crypto svc) (svc_secret svc) (clock d) (TrimSpace token) = Some c"
    "cl_jti c = ?j" by (auto simp: sessionJTI_def split: option.splits)
  moreover have "clock d1 = clock d" using view by (simp add: auth_view_def)
  ultimately show ?thesis using FindSession_Inr [OF f [unfolded r]] j live by auto
qed

text \<open>C4: a token is accepted only when its signature and expiry are, its identifier is that of a stored
  session that has not expired, and the user of that session still exists and is enabled; the session
  returned is that user's. So disabling or deleting a user, or removing the session, ends the token.\<close>

theorem Validate_sound:
  assumes "Validate svc token d = (Inr s, d')"
  shows "\<exists>c r u. parse_claims (svc_crypto svc) (svc_secret svc) (clock d) (TrimSpace token) = Some c \<and>
    cl_jti c \<noteq> [] \<and> row_of jti (cl_jti c) (sessions d) = Some r \<and> clock d < us_expires_at r \<and>
    row_of ur_id (us_user_id r) (users d) = Some u \<and> \<not> ur_disabled u \<and>
    ID (sess_user s) = ur_id u \<and> Username (sess_user s) = ur_username u"
  by (rule Validate_facts [OF assms])

section \<open>Issuing a session\<close>

lemma fallbackRole_total:
  assumes "faults d = []" "u \<in> ur_id ` set (users d)"
  shows "\<exists>rs d'. fallbackRole u d = (Inr rs, d')"
proof -
  from assms(2) obtain r where "row_of ur_id u (users d) = Some r"
    by (cases "row_of ur_id u (users d)") (auto simp: row_of_None_iff)
  with assms(1) show ?thesis
    by (auto simp: fallbackRole_def run_simps split: option.split)
qed

lemma attach_total:
  assumes "faults d = []" "ID u \<in> ur_id ` set (users d)"
  shows "\<exists>rs d'. attachAccessToUsers [u] d = (Inr [u\<lparr>Roles := rs, Permissions := uniquePermissions rs\<rparr>], d')"
  using assms fallbackRole_total [OF assms]
  by (auto simp: attachAccessToUsers_def listUserEffectiveRoles_def run_simps)

lemma FindSession_total:
  assumes "faults d = []" "row_of jti j (sessions d) = Some r" "row_of ur_id (us_user_id r) (users d) = Some u"
  shows "\<exists>s d'. FindSession j d = (Inr s, d')"
proof -
  have "ID ((user_of_row u)\<lparr>Email := []\<rparr>) \<in> ur_id ` set (users d)"
    using row_of_SomeD [OF assms(3)] row_of_key [OF assms(3)] by (simp add: user_of_row_def)
  from attach_total [OF assms(1) this] assms show ?thesis
    by (auto simp: FindSession_def run_simps)
qed

lemma Validate_total:
  assumes "faults d = []" "parse_claims (svc_crypto svc) (svc_secret svc) (clock d) (TrimSpace token) = Some c"
    "cl_jti c \<noteq> []" "row_of jti (cl_jti c) (sessions d) = Some r" "clock d < us_expires_at r"
    "row_of ur_id (us_user_id r) (users d) = Some u" "\<not> ur_disabled u"
  shows "\<exists>s d'. Validate svc token d = (Inr s, d') \<and> ID (sess_user s) = us_user_id r"
proof -
  from FindSession_total [OF assms(1,4,6)] obtain s d1 where f: "FindSession (cl_jti c) d = (Inr s, d1)" by blast
  from FindSession_Inr [OF f] assms(4,6) row_of_SomeD [OF assms(6)]
  have s: "sess_expires_at s = us_expires_at r" "\<not> Disabled (sess_user s)" "ID (sess_user s) = us_user_id r"
    using assms(7) by auto
  have "auth_view d1 = auth_view d"
    by (rule view_result [where m = "FindSession (cl_jti c)"]) (rule f, intro keeps_intros)
  then have "clock d1 = clock d" by (simp add: auth_view_def)
  with f s assms(2,3,5) show ?thesis
    by (simp add: Validate_def sessionJTI_def Let_def bindp_def now_def attempt_def ret_def)
qed

lemma RecordUserLogin_run:
  assumes "access_wf d" "faults d = []" "row_of ur_id u (users d) = Some r"
  shows "RecordUserLogin u d = (Inr (), d\<lparr>users := upd_where (\<lambda>q. ur_id q = u)
    (\<lambda>r. r\<lparr>ur_last_login_at := Some (clock d), ur_updated_at := clock d\<rparr>) (users d)\<rparr>)"
proof -
  have "ur_username q \<noteq> ur_username r" if "q \<in> set (users d)" "ur_id q \<noteq> u" for q
    using assms(1) that row_of_SomeD [OF assms(3)] by (auto simp: access_wf_def distinct_map inj_on_def)
  with update_user_run [OF assms(2,3),
      of "\<lambda>now r. r\<lparr>ur_last_login_at := Some now, ur_updated_at := now\<rparr>"]
  show ?thesis by (simp add: RecordUserLogin_def run_simps)
qed

definition new_session :: "auth_service \<Rightarrow> string \<Rightarrow> user \<Rightarrow> int \<Rightarrow> user_session" where
  "new_session svc j u t = \<lparr>jti = j, us_user_id = ID u, us_username = Username u, us_source = Source u,
     us_created_at = t, us_expires_at = t + svc_session_ttl svc\<rparr>"

definition new_claims :: "auth_service \<Rightarrow> string \<Rightarrow> user \<Rightarrow> int \<Rightarrow> claims" where
  "new_claims svc j u t = \<lparr>cl_user_id = ID u, cl_username = Username u, cl_source = Source u, cl_jti = j,
     cl_subject = Username u, cl_issued_at = t, cl_expires_at = t + svc_session_ttl svc\<rparr>"

lemma issueSession_run:
  assumes wf: "access_wf d" and "faults d = []" "row_of ur_id (ID u) (users d) = Some r"
    "EncodeHex rnd \<notin> jti ` set (sessions d)"
    "sign_claims (svc_crypto svc) (svc_secret svc) (new_claims svc (EncodeHex rnd) u (clock d)) = Some tok"
  shows "\<exists>b. issueSession svc (Some rnd) u d =
    (Inr \<lparr>sess_token = tok, sess_expires_at = clock d + svc_session_ttl svc, sess_user = u,
       sess_wecom_bound = b\<rparr>,
     d\<lparr>sessions := filter (\<lambda>s. \<not> us_expires_at s \<le> clock d) (sessions d @ [new_session svc (EncodeHex rnd) u (clock d)]),
       users := upd_where (\<lambda>q. ur_id q = ID u)
         (\<lambda>r. r\<lparr>ur_last_login_at := Some (clock d), ur_updated_at := clock d\<rparr>) (users d)\<rparr>)"
proof -
  let ?n = "new_session svc (EncodeHex rnd) u (clock d)"
  let ?d1 = "d\<lparr>sessions := sessions d @ [?n]\<rparr>"
  let ?d2 = "d\<lparr>sessions := filter (\<lambda>s. \<not> us_expires_at s \<le> clock d) (sessions d @ [?n])\<rparr>"
  have id: "ID u \<in> ur_id ` set (users d)" using assms(3) by (rule row_of_key)
  have c: "CreateSession ?n d = (Inr (), ?d1)"
    using assms(2,4) id by (simp add: CreateSession_def run_simps new_session_def)
  have wf2: "access_wf ?d2"
    using wf id by (auto simp: access_wf_def new_session_def)
  have x: "DeleteExpiredSessions ?d1 = (Inr (), ?d2)"
    using assms(2) by (simp add: DeleteExpiredSessions_def run_simps)
  have l: "RecordUserLogin (ID u) ?d2 = (Inr (), ?d2\<lparr>users := upd_where (\<lambda>q. ur_id q = ID u)
      (\<lambda>r. r\<lparr>ur_last_login_at := Some (clock d), ur_updated_at := clock d\<rparr>) (users d)\<rparr>)"
    using RecordUserLogin_run [OF wf2] assms(2,3) by simp
  show ?thesis
    using assms(2,5) c x l
    by (simp add: issueSession_def randomSessionID_def Let_def bindp_def now_def store_def attempt_def
        ignore_def ret_def new_session_def new_claims_def UserHasWecomBinding_def query_no_fault)
qed

text \<open>
  What is relied on of the JWT library: signing succeeds, and a token it signed is accepted until it
  expires, with the identifier it was signed with, and refused from then on.
\<close>

definition jwt_laws :: "auth_service \<Rightarrow> bool" where
  "jwt_laws svc \<longleftrightarrow> (\<forall>c. \<exists>tok. sign_claims (svc_crypto svc) (svc_secret svc) c = Some tok \<and>
     (\<forall>t. map_option cl_jti (parse_claims (svc_crypto svc) (svc_secret svc) t (TrimSpace tok)) =
        (if t < cl_expires_at c then Some (cl_jti c) else None)))"

lemma session_survives:
  assumes "EncodeHex rnd \<notin> jti ` set (sessions d)" "0 < svc_session_ttl svc"
  shows "row_of jti (EncodeHex rnd) (filter (\<lambda>s. \<not> us_expires_at s \<le> clock d)
     (sessions d @ [new_session svc (EncodeHex rnd) u (clock d)])) =
   Some (new_session svc (EncodeHex rnd) u (clock d))"
proof -
  have "row_of jti (EncodeHex rnd) (filter (\<lambda>s. \<not> us_expires_at s \<le> clock d) (sessions d)) = None"
    using assms(1) by (auto simp: row_of_None_iff)
  with assms(2) show ?thesis by (simp add: row_of_append row_of_single new_session_def)
qed

text \<open>C5: a session that has been issued is accepted from then on, for the user it was issued to, until its
  lifetime has passed, and refused ever after.\<close>

theorem issued_session_lifetime:
  assumes "access_wf d" "faults d = []" "row_of ur_id (ID u) (users d) = Some r" "\<not> ur_disabled r"
    "EncodeHex rnd \<notin> jti ` set (sessions d)" "rnd \<noteq> []" "0 < svc_session_ttl svc" "jwt_laws svc"
  shows "\<exists>s d'. issueSession svc (Some rnd) u d = (Inr s, d') \<and>
    (\<forall>t. clock d \<le> t \<longrightarrow>
      (if t < clock d + svc_session_ttl svc
       then \<exists>s2 d2. Validate svc (sess_token s) (d'\<lparr>clock := t\<rparr>) = (Inr s2, d2) \<and> ID (sess_user s2) = ID u
       else fst (Validate svc (sess_token s) (d'\<lparr>clock := t\<rparr>)) = Inl ErrInvalidSession))"
proof -
  let ?j = "EncodeHex rnd" and ?until = "clock d + svc_session_ttl svc"
  let ?c = "new_claims svc ?j u (clock d)"
  from assms(8) obtain tok where
    sign: "sign_claims (svc_crypto svc) (svc_secret svc) ?c = Some tok" and
    parse: "\<And>t. map_option cl_jti (parse_claims (svc_crypto svc) (svc_secret svc) t (TrimSpace tok)) =
      (if t < ?until then Some ?j else None)"
    unfolding jwt_laws_def by (metis new_claims_def claims.select_convs(4,7))
  let ?s = "filter (\<lambda>s. \<not> us_expires_at s \<le> clock d) (sessions d @ [new_session svc ?j u (clock d)])"
  let ?us = "upd_where (\<lambda>q. ur_id q = ID u)
         (\<lambda>r. r\<lparr>ur_last_login_at := Some (clock d), ur_updated_at := clock d\<rparr>) (users d)"
  let ?d = "d\<lparr>sessions := ?s, users := ?us\<rparr>"
  obtain b where run: "issueSession svc (Some rnd) u d =
      (Inr \<lparr>sess_token = tok, sess_expires_at = ?until, sess_user = u, sess_wecom_bound = b\<rparr>, ?d)"
    using issueSession_run [OF assms(1,2,3,5) sign] by blast
  have look: "row_of jti ?j (sessions ?d) = Some (new_session svc ?j u (clock d))"
    using session_survives [OF assms(5,7)] by simp
  have usr: "\<exists>q. row_of ur_id (ID u) (users ?d) = Some q \<and> \<not> ur_disabled q"
    using assms(3,4) by (auto simp: row_of_upd_where)
  have "?j \<noteq> []" using assms(6) by (cases rnd) (simp_all add: EncodeHex_def)
  then have "\<exists>s2 d2. Validate svc tok (?d\<lparr>clock := t\<rparr>) = (Inr s2, d2) \<and> ID (sess_user s2) = ID u"
    if t: "t < ?until" for t
  proof -
    from t parse [of t] obtain c where
      "parse_claims (svc_crypto svc) (svc_secret svc) t (TrimSpace tok) = Some c" "cl_jti c = ?j" by auto
    with \<open>?j \<noteq> []\<close> usr look t assms(2)
      Validate_total [of "?d\<lparr>clock := t\<rparr>" svc tok c "new_session svc ?j u (clock d)"]
    show ?thesis by (auto simp: new_session_def)
  qed
  moreover have "fst (Validate svc tok (?d\<lparr>clock := t\<rparr>)) = Inl ErrInvalidSession" if "\<not> t < ?until" for t
    using that parse [of t] by (simp add: Validate_def sessionJTI_def Let_def bindp_def now_def fail_def)
  ultimately show ?thesis using run by (intro exI conjI) auto
qed

text \<open>A token library that satisfies the laws: the token spells out the identifier and the expiry.\<close>

definition plain_sign :: "string \<Rightarrow> claims \<Rightarrow> string option" where
  "plain_sign s c = Some (EncodeToString (cl_jti c) @ CHR ''.'' #
     (if cl_expires_at c < 0 then CHR ''-'' else CHR ''+'') # replicate (nat \<bar>cl_expires_at c\<bar>) CHR ''1'')"

definition plain_parse :: "string \<Rightarrow> int \<Rightarrow> string \<Rightarrow> claims option" where
  "plain_parse s t k = (case DecodeString (takeWhile (\<lambda>c. c \<noteq> CHR ''.'') k) of
     None \<Rightarrow> None
   | Some j \<Rightarrow> let r = tl (dropWhile (\<lambda>c. c \<noteq> CHR ''.'') k);
         e = (if hd r = CHR ''-'' then - int (length (tl r)) else int (length (tl r))) in
       if t < e then Some \<lparr>cl_user_id = [], cl_username = [], cl_source = [], cl_jti = j,
         cl_subject = [], cl_issued_at = 0, cl_expires_at = e\<rparr> else None)"

definition test_service :: auth_service where
  "test_service = \<lparr>svc_secret = ''s'', svc_session_ttl = 3600,
     svc_crypto = \<lparr>verify_password = (\<lambda>h p. h = p), sign_claims = plain_sign, parse_claims = plain_parse\<rparr>\<rparr>"

lemma takeWhile_stop: "x \<notin> set a \<Longrightarrow> takeWhile (\<lambda>c. c \<noteq> x) (a @ x # b) = a"
  by (induction a) auto

lemma dropWhile_stop: "x \<notin> set a \<Longrightarrow> dropWhile (\<lambda>c. c \<noteq> x) (a @ x # b) = x # b"
  by (induction a) auto

lemma test_token: "map_option cl_jti (parse_claims (svc_crypto test_service) (svc_secret test_service) t
    (TrimSpace (the (plain_sign [] c)))) = (if t < cl_expires_at c then Some (cl_jti c) else None)"
proof -
  let ?tok = "the (plain_sign [] c)"
  have "list_all printable ?tok"
    using b64_printable [of "cl_jti c"]
    by (auto simp: plain_sign_def list_all_iff) (simp_all add: printable_def byte_def)
  then have "TrimSpace ?tok = ?tok" by (rule TrimSpace_printable)
  then show ?thesis
    using b64_no_dot [of "cl_jti c"]
    by (simp add: test_service_def plain_sign_def plain_parse_def takeWhile_stop dropWhile_stop Let_def)
qed

lemma test_service_laws: "jwt_laws test_service"
  unfolding jwt_laws_def
proof (intro allI exI conjI)
  fix c and t :: int
  show "sign_claims (svc_crypto test_service) (svc_secret test_service) c = Some (the (plain_sign [] c))"
    by (simp add: test_service_def plain_sign_def)
qed (rule test_token)

lemma issued_session_lifetime_witness:
  "\<exists>s d'. issueSession test_service (Some ''k'') (user_of_row admin_row) empty_db = (Inr s, d') \<and>
     (\<exists>s2 d2. Validate test_service (sess_token s) (d'\<lparr>clock := 2000\<rparr>) = (Inr s2, d2)) \<and>
     fst (Validate test_service (sess_token s) (d'\<lparr>clock := 5000\<rparr>)) = Inl ErrInvalidSession"
proof -
  have "faults empty_db = []" "row_of ur_id (ID (user_of_row admin_row)) (users empty_db) = Some admin_row"
    "\<not> ur_disabled admin_row" "EncodeHex ''k'' \<notin> jti ` set (sessions empty_db)" "''k'' \<noteq> []"
    "0 < svc_session_ttl test_service"
    by (simp_all add: empty_db_def admin_row_def row_of_def user_of_row_def test_service_def)
  from issued_session_lifetime [OF empty_db_ok(1) this test_service_laws] obtain s d' where
    run: "issueSession test_service (Some ''k'') (user_of_row admin_row) empty_db = (Inr s, d')" and
    valid: "\<And>t. 1000 \<le> t \<Longrightarrow> if t < 4600
      then \<exists>s2 d2. Validate test_service (sess_token s) (d'\<lparr>clock := t\<rparr>) = (Inr s2, d2) \<and>
        ID (sess_user s2) = ID (user_of_row admin_row)
      else fst (Validate test_service (sess_token s) (d'\<lparr>clock := t\<rparr>)) = Inl ErrInvalidSession"
    by (auto simp: empty_db_def test_service_def)
  from run valid [of 2000] valid [of 5000] show ?thesis by auto
qed

definition admin_session :: user_session where
  "admin_session = \<lparr>jti = ''k'', us_user_id = ''u1'', us_username = ''admin'', us_source = ''local'',
     us_created_at = 1000, us_expires_at = 4600\<rparr>"

definition session_db :: db where
  "session_db = empty_db\<lparr>sessions := [admin_session]\<rparr>"

definition admin_token :: string where
  "admin_token = the (plain_sign [] (new_claims test_service ''k'' (user_of_row admin_row) 1000))"

lemma admin_token_jti: "\<exists>c. parse_claims (svc_crypto test_service) (svc_secret test_service) 1000
    (TrimSpace admin_token) = Some c \<and> cl_jti c = ''k''"
proof -
  have "map_option cl_jti (parse_claims (svc_crypto test_service) (svc_secret test_service) 1000
      (TrimSpace admin_token)) = Some ''k''"
    unfolding admin_token_def test_token by (simp add: new_claims_def test_service_def)
  then show ?thesis by auto
qed

lemma admin_token_valid: "\<exists>s d'. Validate test_service admin_token session_db = (Inr s, d')"
proof -
  from admin_token_jti obtain c where c: "cl_jti c = ''k''"
    "parse_claims (svc_crypto test_service) (svc_secret test_service) (clock session_db) (TrimSpace admin_token) = Some c"
    by (auto simp: session_db_def empty_db_def)
  moreover have "faults session_db = []" "row_of jti ''k'' (sessions session_db) = Some admin_session"
    "clock session_db < us_expires_at admin_session"
    "row_of ur_id (us_user_id admin_session) (users session_db) = Some admin_row" "\<not> ur_disabled admin_row"
    by (simp_all add: session_db_def empty_db_def admin_session_def admin_row_def row_of_def)
  ultimately show ?thesis using Validate_total [of session_db test_service admin_token c admin_session admin_row]
    by auto
qed

lemma Validate_sound_witness:
  "\<exists>s d'. Validate test_service admin_token session_db = (Inr s, d') \<and> Username (sess_user s) = ''admin''"
proof -
  from admin_token_valid obtain s d' where v: "Validate test_service admin_token session_db = (Inr s, d')" by blast
  from Validate_sound [OF v] have "Username (sess_user s) = ''admin''"
    by (auto simp: session_db_def empty_db_def admin_row_def dest!: row_of_SomeD)
  with v show ?thesis by blast
qed

section \<open>Logging out\<close>

text \<open>C6: once a logout has succeeded its token is refused in every later state, however sessions are stored
  and deleted in between and whatever the clock says, unless a session is stored under the same
  identifier again; the other sessions stay.\<close>

theorem logout_revokes:
  assumes "Logout svc token d = (Inr (), d')"
    and "\<And>t. sessionJTI svc t token \<in> {[], sessionJTI svc (clock d) token}"
    and "sessions d2 = fold session_table.apply_op ops (sessions d')"
    and "\<And>r. Put r \<in> set ops \<Longrightarrow> jti r \<noteq> sessionJTI svc (clock d) token"
  shows "fst (Validate svc token d2) = Inl ErrInvalidSession \<and>
    (\<forall>k. k \<noteq> sessionJTI svc (clock d) token \<longrightarrow> row_of jti k (sessions d') = row_of jti k (sessions d))"
proof -
  let ?j = "sessionJTI svc (clock d) token"
  have gone: "?j \<noteq> [] \<Longrightarrow> sessions d' = filter (\<lambda>s. jti s \<noteq> ?j) (sessions d)" "?j = [] \<Longrightarrow> d' = d"
    using assms(1)
    by (auto simp: Logout_def Let_def bindp_def now_def store_def attempt_def fail_def ret_def DeleteSession_def
        exec_def stmt_def split: if_splits prod.splits sum.splits list.splits)
  have "fst (Validate svc token d2) = Inl ErrInvalidSession"
  proof (cases "sessionJTI svc (clock d2) token = []")
    case True
    then show ?thesis by (simp add: Validate_def bindp_def now_def fail_def)
  next
    case False
    with assms(2) [of "clock d2"] have j: "sessionJTI svc (clock d2) token = ?j" "?j \<noteq> []" by auto
    from session_table.used_once [of ops ?j "sessions d"] assms(3,4) gone(1) j(2)
    have none: "row_of jti ?j (sessions d2) = None" by auto
    obtain r d3 where f: "FindSession ?j d2 = (r, d3)" by fastforce
    have "\<exists>e. r = Inl e"
    proof (cases r)
      case (Inr s)
      with FindSession_Inr f none show ?thesis by fastforce
    qed simp
    with f j show ?thesis
      by (auto simp: Validate_def Let_def bindp_def now_def attempt_def fail_def)
  qed
  moreover have "row_of jti k (sessions d') = row_of jti k (sessions d)" if "k \<noteq> ?j" for k
    using gone that by (cases "?j = []") (simp_all add: session_table.look_del)
  ultimately show ?thesis by blast
qed

lemma admin_jti_any: "sessionJTI test_service t admin_token \<in> {[], ''k''}"
proof -
  have "map_option cl_jti (parse_claims (svc_crypto test_service) (svc_secret test_service) t
      (TrimSpace admin_token)) \<in> {None, Some ''k''}"
    unfolding admin_token_def test_token by (simp add: new_claims_def)
  then show ?thesis by (auto simp: sessionJTI_def split: option.splits)
qed

lemma admin_jti: "sessionJTI test_service 1000 admin_token = ''k''"
  using admin_token_jti by (auto simp: sessionJTI_def)

lemma logout_revokes_witness:
  "\<exists>d'. Logout test_service admin_token session_db = (Inr (), d') \<and>
     fst (Validate test_service admin_token (d'\<lparr>clock := 3000\<rparr>)) = Inl ErrInvalidSession"
proof -
  have j: "sessionJTI test_service (clock session_db) admin_token = ''k''"
    using admin_jti by (simp add: session_db_def empty_db_def)
  then have l: "Logout test_service admin_token session_db = (Inr (), session_db\<lparr>sessions := []\<rparr>)"
    by (simp add: Logout_def bindp_def now_def store_def attempt_def ret_def DeleteSession_def exec_def stmt_def)
      (simp add: session_db_def empty_db_def admin_session_def ret_def)
  have "sessionJTI test_service t admin_token \<in> {[], sessionJTI test_service (clock session_db) admin_token}" for t
    using admin_jti_any j by simp
  from logout_revokes [OF l this, of "session_db\<lparr>sessions := [], clock := 3000\<rparr>" "[]"] l
  show ?thesis by auto
qed

section \<open>The login throttle\<close>

lemma decode_throttle: "0 < LoginMaxFailures (decodeSystemBaseConfig p)" "0 < LoginLockoutMinutes (decodeSystemBaseConfig p)"
  by (simp_all add: decodeSystemBaseConfig_def fallbackInt_def)

definition last_failure :: "int list \<Rightarrow> int" where
  "last_failure ts = (case ts of [] \<Rightarrow> 0 | t # r \<Rightarrow> fold max r t)"

definition throttled :: "string \<Rightarrow> bool" where
  "throttled username \<longleftrightarrow> login_name username \<noteq> [] \<and> \<not> EqualFold (TrimSpace username) ''admin''"

lemma EnsureLoginAllowed_run:
  assumes "faults d = []" "settings d = Some p" "throttled username"
  shows "EnsureLoginAllowed username d =
    (let base = decodeSystemBaseConfig p; ts = failures_of (login_name username) (login_failures d);
         remaining = last_failure ts + LoginLockoutMinutes base * 60 - clock d in
     if int (length ts) < LoginMaxFailures base \<or> last_failure ts \<le> 0 then (Inr (), d)
     else if remaining > 0 then (Inl (LoginLockedError ((remaining + 59) sdiv 60)), d)
     else (Inr (), d\<lparr>login_failures := filter (\<lambda>(u, _). u \<noteq> login_name username) (login_failures d)\<rparr>))"
  using assms decode_throttle [of p]
  by (simp add: EnsureLoginAllowed_def throttled_def GetSystemBaseConfig_def CountLoginFailures_def
      ClearLoginFailures_def store_def now_def last_failure_def run_simps Let_def)

lemma rounded_up_minutes:
  assumes "0 < (x :: int)"
  shows "60 * ((x + 59) sdiv 60 - 1) < x" "x \<le> 60 * ((x + 59) sdiv 60)"
proof -
  have "(x + 59) sdiv 60 = (x + 59) div 60" using assms by (simp add: sdiv_nonneg)
  then show "60 * ((x + 59) sdiv 60 - 1) < x" "x \<le> 60 * ((x + 59) sdiv 60)" by presburger+
qed

text \<open>an account is locked exactly while it has at least the configured number of failures and the
  lockout time since the last of them has not passed; the answer then tells the remaining minutes,
  rounded up. When the time has passed the login is allowed and the account's failures, and only
  those, are forgotten; below the limit nothing changes.\<close>

theorem throttle_decision:
  assumes "faults d = []" "settings d = Some p" "throttled username"
  shows "let base = decodeSystemBaseConfig p; name = login_name username;
      ts = failures_of name (login_failures d); until = last_failure ts + LoginLockoutMinutes base * 60;
      (r, d') = EnsureLoginAllowed username d in
    if int (length ts) < LoginMaxFailures base \<or> last_failure ts \<le> 0 then r = Inr () \<and> d' = d
    else if clock d < until
    then d' = d \<and> (\<exists>m. r = Inl (LoginLockedError m) \<and> 60 * (m - 1) < until - clock d \<and> until - clock d \<le> 60 * m)
    else r = Inr () \<and> failures_of name (login_failures d') = [] \<and>
      (\<forall>other. other \<noteq> name \<longrightarrow> failures_of other (login_failures d') = failures_of other (login_failures d))"
proof -
  have clear: "failures_of n (filter (\<lambda>(u, _). u \<noteq> m) rows) = (if n = m then [] else failures_of n rows)"
    for n m :: string and rows :: "(string \<times> int) list"
    by (induction rows) (auto simp: failures_of_def)
  let ?rest = "last_failure (failures_of (login_name username) (login_failures d)) +
    LoginLockoutMinutes (decodeSystemBaseConfig p) * 60 - clock d"
  have "0 < ?rest \<Longrightarrow> \<exists>m. (?rest + 59) sdiv 60 = m \<and> 60 * (m - 1) < ?rest \<and> ?rest \<le> 60 * m"
    using rounded_up_minutes [of ?rest] by blast
  then show ?thesis
    using EnsureLoginAllowed_run [OF assms] by (auto simp: Let_def clear)
qed






text \<open>A check of credentials leaves the record of the failures and the configuration alone.\<close>

definition throttle_view :: "int \<Rightarrow> base_payload option \<Rightarrow> (string \<times> int) list \<Rightarrow> db \<Rightarrow> bool" where
  "throttle_view t p rows d \<longleftrightarrow> faults d = [] \<and> clock d = t \<and> settings d = p \<and> login_failures d = rows"

lemma view_stmt: "(\<And>d. throttle_view t p rows d \<Longrightarrow> throttle_view t p rows (snd (f d))) \<Longrightarrow> keeps (throttle_view t p rows) (stmt f)"
  by (auto simp: keeps_def throttle_view_def stmt_no_fault)

lemma view_statements [keeps_intros]:
  "keeps (throttle_view t p rows) (query g)"
  "(\<And>d. throttle_view t p rows d \<Longrightarrow> throttle_view t p rows (f d)) \<Longrightarrow> keeps (throttle_view t p rows) (exec f)"
  "keeps (throttle_view t p rows) now"
  unfolding query_def exec_def by (rule view_stmt, simp)+ (simp add: keeps_def now_def)

lemma view_lookup [keeps_intros]: "keeps (throttle_view t p rows) (FindUserByUsername name)"
  unfolding FindUserByUsername_def attachAccessToUsers_def listUserEffectiveRoles_def fallbackRole_def
    replaceUserRoles_def insert_user_role_def
  by (intro keeps_intros view_stmt) (auto simp: throttle_view_def split: option.splits)

lemma view_session [keeps_intros]: "keeps (throttle_view t p rows) (issueSession svc rnd u)"
  unfolding issueSession_def CreateSession_def DeleteExpiredSessions_def RecordUserLogin_def update_user_def
    UserHasWecomBinding_def
  by (intro keeps_intros view_stmt) (auto simp: throttle_view_def split: option.splits)

lemma view_provider [keeps_intros]: "keeps (throttle_view t p rows) (GetAuthProvider i)"
  unfolding GetAuthProvider_def by (intro keeps_intros)






definition settings_db :: db where
  "settings_db = empty_db\<lparr>settings := Some default_payload,
     login_failures := [(''bob'', 900), (''bob'', 910), (''eve'', 905), (''bob'', 920), (''bob'', 930), (''bob'', 940)]\<rparr>"

lemma bob_throttled: "login_name '' Bob '' = ''bob''" "throttled '' Bob ''"
  by code_simp+

lemma throttle_decision_witness:
  "\<exists>m. fst (EnsureLoginAllowed '' Bob '' settings_db) = Inl (LoginLockedError m)"
proof -
  have "faults settings_db = []" "settings settings_db = Some default_payload"
    by (simp_all add: settings_db_def empty_db_def)
  from throttle_decision [OF this bob_throttled(2)] show ?thesis
    by (auto simp: Let_def bob_throttled settings_db_def empty_db_def failures_of_def last_failure_def
        decodeSystemBaseConfig_def default_payload_def fallbackInt_def split: prod.splits)
qed


definition test_directory :: ldap_library where
  "test_directory = \<lparr>dialLDAP = (\<lambda>_. Some \<lparr>ldap_bind = (\<lambda>dn pw. dn = ''cn=bob'' \<and> pw = ''pw''),
     ldap_search = (\<lambda>b f. Some [\<lparr>le_dn = ''cn=bob'', le_attr = (\<lambda>_. ''bob'')\<rparr>])\<rparr>), EscapeFilter = (\<lambda>s. s)\<rparr>"







section \<open>One-time states\<close>

text \<open>C8: a state can be taken at most once: whatever the first attempt answers, expired and foreign states
  included, and whatever other states are stored and deleted in between, a second attempt with the same
  state is refused; and what is accepted is a stored state of this provider that has not expired.\<close>

theorem state_taken_once:
  assumes "faults d = []" "takeAuthState state provider d = (r, d1)"
    "auth_states d2 = fold state_table.apply_op ops (auth_states d1)"
    "\<And>s. Put s \<in> set ops \<Longrightarrow> as_state s \<noteq> state"
  shows "fst (takeAuthState state provider d2) = Inl ErrInvalidState \<and>
    (\<forall>s. r = Inr s \<longrightarrow> row_of as_state state (auth_states d) = Some s \<and> as_provider s = provider \<and>
       clock d < as_expires_at s)"
proof (cases "TrimSpace state = []")
  case True
  with assms(2) show ?thesis by (auto simp: takeAuthState_def fail_def)
next
  case False
  have gone: "row_of as_state state (auth_states d1) = None"
    and ok: "\<And>s. r = Inr s \<Longrightarrow> row_of as_state state (auth_states d) = Some s \<and> as_provider s = provider \<and>
      clock d < as_expires_at s"
    using assms(1,2) False
    by (auto simp: takeAuthState_def TakeAuthState_def now_def run_simps row_of_filter_key
        split: option.splits if_splits)
  from state_table.gone_stays_gone [OF gone assms(4)] assms(3)
  have none: "row_of as_state state (auth_states d2) = None" by simp
  have "\<exists>e. fst (TakeAuthState state d2) = Inl e"
    using none by (auto simp: TakeAuthState_def stmt_def split: list.splits)
  then have "fst (takeAuthState state provider d2) = Inl ErrInvalidState"
    using False by (auto simp: takeAuthState_def bindp_def attempt_def now_def fail_def split: prod.splits)
  with ok show ?thesis by blast
qed

definition pending_state :: auth_state where
  "pending_state = \<lparr>as_state = ''st'', as_provider = ''wecom'', as_purpose = ''login'', as_user_id = [],
     as_redirect = ''/'', as_remote_ip = [], as_expires_at = 1300\<rparr>"

lemma state_taken_once_witness:
  "\<exists>d1. takeAuthState ''st'' ''wecom'' (empty_db\<lparr>auth_states := [pending_state]\<rparr>) = (Inr pending_state, d1) \<and>
     fst (takeAuthState ''st'' ''wecom'' d1) = Inl ErrInvalidState"
proof -
  let ?d = "empty_db\<lparr>auth_states := [pending_state]\<rparr>"
  have "TrimSpace ''st'' = ''st''" by code_simp
  then have t: "takeAuthState ''st'' ''wecom'' ?d = (Inr pending_state, ?d\<lparr>auth_states := []\<rparr>)"
    by (simp add: takeAuthState_def TakeAuthState_def now_def run_simps empty_db_def pending_state_def row_of_def)
  have "faults ?d = []" by (simp add: empty_db_def)
  from state_taken_once [OF this t, of "?d\<lparr>auth_states := []\<rparr>" "[]"] t show ?thesis by auto
qed

section \<open>LDAP\<close>

text \<open>C14: LDAP accepts a login only when the directory has exactly one entry for the escaped name under the
  configured filter and accepts a bind as that entry with the password given, which is not empty; the
  platform user that is looked up is the one the entry names.\<close>

theorem ldap_login_sound:
  assumes "authenticateLDAP lib cfg username password = Some (resolved, display)"
  shows "\<exists>conn entry. dialLDAP lib cfg = Some conn \<and> password \<noteq> [] \<and>
    ldap_search conn (ldap_BaseDN cfg) (ldapLoginUserFilter lib cfg (TrimSpace username)) = Some [entry] \<and>
    ldap_bind conn (le_dn entry) password \<and> TrimSpace resolved \<noteq> [] \<and>
    (resolved = le_attr entry (ldap_UsernameAttribute cfg) \<or> resolved = TrimSpace username)"
  using assms
  by (auto simp: authenticateLDAP_def Let_def split: if_splits option.splits list.splits)

definition test_ldap :: LDAPConfig where
  "test_ldap = \<lparr>ldap_Host = ''h'', ldap_Port = 389, ldap_BaseDN = ''dc=x'', ldap_UserFilter = ''(uid={username})'',
     ldap_BindDN = [], ldap_BindPassword = [], ldap_UseTLS = False, ldap_StartTLS = False,
     ldap_InsecureSkipVerify = False, ldap_UsernameAttribute = ''uid'', ldap_DisplayNameAttribute = ''cn'',
     ldap_EmailAttribute = ''mail'', ldap_TimeoutSeconds = 8, ldap_GroupFilter = []\<rparr>"

lemma ldap_login_sound_witness:
  "\<exists>conn entry. dialLDAP test_directory test_ldap = Some conn \<and>
     ldap_search conn ''dc=x'' ''(uid=bob)'' = Some [entry] \<and> ldap_bind conn (le_dn entry) ''pw''"
proof -
  have t: "TrimSpace ''bob'' = ''bob''" "TrimSpace [] = []"
    "ReplaceAll ''(uid={username})'' ''{username}'' ''bob'' = ''(uid=bob)''" by code_simp+
  then have "authenticateLDAP test_directory test_ldap ''bob'' ''pw'' = Some (''bob'', ''bob'')"
    by (simp add: authenticateLDAP_def test_directory_def test_ldap_def Let_def)
  from ldap_login_sound [OF this] t show ?thesis
    by (auto simp: ldapLoginUserFilter_def ldapNormalizedGroupFilter_def test_ldap_def test_directory_def Let_def)
qed

end
