(* ===== verification/Settings_Properties.thy ===== *)
theory Settings_Properties
  imports Auth_Properties
begin

text \<open>The properties of the base configuration.\<close>

text \<open>C0: what \<open>sanitizeSystemBaseConfig\<close> accepts is in every range its messages state (the lifetime of a WeCom
  state has no upper bound there), and is a fixed point: saving it again accepts it unchanged, and a request that is
  in range with trimmed texts is accepted unchanged. Once saved, all of its 21 fields are what the configuration
  reads back, so the defaults that guard the reader never replace a saved value. A saved lifetime of a WeCom state
  past 60 minutes is not used, though: such a state lives five minutes.\<close>

theorem saved_configuration:
  assumes "sanitizeSystemBaseConfig b = Inr p" "faults d = []"
  shows "payload_in_range p \<and> payload_texts p \<and> sanitizeSystemBaseConfig p = Inr p \<and>
    (payload_in_range b \<and> payload_texts b \<longrightarrow> p = b) \<and>
    (\<exists>c d'. UpsertSystemBaseConfig p d = (Inr c, d') \<and> GetSystemBaseConfig d' = (Inr c, d') \<and>
       SiteName c = siteName p \<and>
       LoginName c = loginName p \<and>
       AppName c = appName p \<and>
       AppSubtitle c = appSubtitle p \<and>
       IconData c = iconData p \<and>
       PasswordResetCodeTTLMinutes c = passwordResetCodeTtlMinutes p \<and>
       PasswordResetCaptchaTTLMinutes c = passwordResetCaptchaTtlMinutes p \<and>
       PasswordResetSendCooldownMinutes c = passwordResetSendCooldownMinutes p \<and>
       PasswordResetRateLimitMinutes c = passwordResetRateLimitMinutes p \<and>
       ResourceWarningThreshold c = resourceWarningThreshold p \<and>
       ResourceCriticalThreshold c = resourceCriticalThreshold p \<and>
       ResourceAlertConsecutiveCount c = resourceAlertConsecutiveCount p \<and>
       AgentOfflineFailureCount c = agentOfflineFailureCount p \<and>
       AlertNotificationTimeoutSeconds c = alertNotificationTimeoutSeconds p \<and>
       Some (AlertNotificationMaxRetryCount c) = alertNotificationMaxRetryCount p \<and>
       AlertNotificationRetryBaseSeconds c = alertNotificationRetryBaseSeconds p \<and>
       AlertNotificationRetryMaxMinutes c = alertNotificationRetryMaxMinutes p \<and>
       AlertNotificationBatchSize c = alertNotificationBatchSize p \<and>
       WecomStateTTLMinutes c = wecomStateTtlMinutes p \<and>
       LoginMaxFailures c = loginMaxFailures p \<and>
       LoginLockoutMinutes c = loginLockoutMinutes p \<and>
       wecomStateTTL d' = (Inr (60 * (if wecomStateTtlMinutes p \<le> 60 then wecomStateTtlMinutes p else 5)), d'))"
proof -
  note range = sanitize_in_range [OF assms(1)] and texts = sanitize_texts [OF assms(1)]
  let ?c = "decodeSystemBaseConfig p" and ?d = "d\<lparr>settings := Some p\<rparr>"
  have "UpsertSystemBaseConfig p d = (Inr ?c, ?d)" "GetSystemBaseConfig ?d = (Inr ?c, ?d)"
    using assms(2) by (simp_all add: UpsertSystemBaseConfig_def GetSystemBaseConfig_def run_simps)
  moreover have "1 \<le> wecomStateTtlMinutes p" "\<exists>n. alertNotificationMaxRetryCount p = Some n"
    using range by (auto simp: payload_in_range_def)
  moreover from this have "wecomStateTTL ?d = (Inr (60 * (if wecomStateTtlMinutes p \<le> 60 then wecomStateTtlMinutes p else 5)), ?d)"
    using calculation(2) decode_saved [OF range texts]
    by (simp add: wecomStateTTL_def bindp_def attempt_def ret_def)
  moreover have "payload_in_range b \<and> payload_texts b \<longrightarrow> p = b"
    using sanitize_accepts [of b] assms(1) by auto
  ultimately show ?thesis
    using range texts sanitize_accepts [OF range texts] decode_saved [OF range texts]
    by (intro conjI exI [of _ ?c] exI [of _ ?d]) auto
qed

definition plain_request :: base_payload where
  "plain_request = default_payload\<lparr>siteName := '' My site '', loginMaxFailures := 4\<rparr>"

lemma plain_request_accepted: "\<exists>p. sanitizeSystemBaseConfig plain_request = Inr p"
proof -
  have t: "TrimSpace '' My site '' = ''My site''" "TrimSpace ''KVM Manager'' = ''KVM Manager''"
    "TrimSpace ''VIRTUALIZATION OPS'' = ''VIRTUALIZATION OPS''" "TrimSpace ''/favicon.svg'' = ''/favicon.svg''"
    by code_simp+
  have f: "floor (3 / 2 :: rat) = 1" by (simp add: floor_eq_iff)
  show ?thesis
    by (simp add: sanitizeSystemBaseConfig_def plain_request_def f default_payload_def t Let_def
        positiveOrDefault_def positiveFloatOrDefault_def nonNegativePointerOrDefault_def
        isHalfMinuteStep_def rune_count_def)
qed

lemma saved_configuration_witness:
  "\<exists>p. sanitizeSystemBaseConfig plain_request = Inr p \<and> sanitizeSystemBaseConfig p = Inr p \<and> payload_in_range p"
proof -
  from plain_request_accepted obtain p where p: "sanitizeSystemBaseConfig plain_request = Inr p" by blast
  have "faults empty_db = []" by (simp add: empty_db_def)
  from saved_configuration [OF p this] p show ?thesis by blast
qed

text \<open>Before anything has been saved, reading the configuration stores the defaults and returns the
  same values the public endpoint falls back to when the database fails.\<close>

lemma default_configuration:
  assumes "faults d = []" "settings d = None"
  shows "fst (GetSystemBaseConfig d) = Inr defaultSystemBaseConfig \<and>
    fst (handlePublicSystemBaseConfig (d\<lparr>faults := [True]\<rparr>)) = fst (handlePublicSystemBaseConfig d)"
proof -
  have "decodeSystemBaseConfig default_payload = defaultSystemBaseConfig"
    by (simp add: decodeSystemBaseConfig_def default_payload_def defaultSystemBaseConfig_def
        fallbackText_def fallbackInt_def fallbackFloat_def fallbackIntPointer_def)
  then show ?thesis using assms
    by (simp add: handlePublicSystemBaseConfig_def GetSystemBaseConfig_def UpsertSystemBaseConfig_def
        bindp_def attempt_def ret_def query_def exec_def stmt_def)
qed

lemma default_configuration_witness:
  "fst (GetSystemBaseConfig empty_db) = Inr defaultSystemBaseConfig"
proof -
  have "faults empty_db = []" "settings empty_db = None" by (simp_all add: empty_db_def)
  from default_configuration [OF this] show ?thesis by blast
qed

end
