(* ===== verification/Reset.thy ===== *)
theory Reset
  imports Auth_Router
begin

text \<open>
  Password recovery, \<open>backend/api/router/password_reset.go\<close>: the signed captcha and verification tokens,
  the rate limits of the code that is sent, the confirmation. \<open>hmac\<close> is HMAC-SHA256, \<open>hash_code\<close> the
  hash the codes are stored under, \<open>send\<close> whether the notification goes out; they are arguments.
\<close>

section \<open>Settings\<close>

record reset_settings =
  rs_CodeTTL :: int
  rs_CaptchaTTL :: int
  rs_SendCooldown :: int
  rs_RateLimitMax :: int
  rs_RateLimitSpan :: int

definition intMinutesAsDuration :: "int \<Rightarrow> int \<Rightarrow> int" where
  "intMinutesAsDuration minutes fallback = (if minutes \<le> 0 then fallback else minutes * 60)"

text \<open>The minutes are a multiple of one half when they have been saved through the API.\<close>

definition minutesAsDuration :: "rat \<Rightarrow> int \<Rightarrow> int" where
  "minutesAsDuration minutes fallback = (if minutes \<le> 0 then fallback else floor (minutes * 60))"

definition durationMinutes :: "int \<Rightarrow> int" where
  "durationMinutes v = (let minutes = v sdiv 60 in if minutes < 1 then 1 else minutes)"

definition passwordResetRuntimeSettings :: "(db, 'e, reset_settings) prog" where
  "passwordResetRuntimeSettings =
    bindp (attempt GetSystemBaseConfig) (\<lambda>r.
    case r of
      Inl _ \<Rightarrow> ret \<lparr>rs_CodeTTL = 600, rs_CaptchaTTL = 60, rs_SendCooldown = 30, rs_RateLimitMax = 5,
        rs_RateLimitSpan = 300\<rparr>
    | Inr config \<Rightarrow> ret
        \<lparr>rs_CodeTTL = intMinutesAsDuration (PasswordResetCodeTTLMinutes config) 600,
         rs_CaptchaTTL = intMinutesAsDuration (PasswordResetCaptchaTTLMinutes config) 60,
         rs_SendCooldown = minutesAsDuration (PasswordResetSendCooldownMinutes config) 30,
         rs_RateLimitMax = 5,
         rs_RateLimitSpan = intMinutesAsDuration (PasswordResetRateLimitMinutes config) 300\<rparr>)"

section \<open>Signed tokens\<close>

definition signCaptcha :: "(string \<Rightarrow> string \<Rightarrow> string) \<Rightarrow> string \<Rightarrow> int \<Rightarrow> int \<Rightarrow> string" where
  "signCaptcha hmac secret answer expiresAt =
    (let payload = Itoa answer @ '':'' @ Itoa expiresAt in
     EncodeToString (payload @ '':'' @ EncodeToString (hmac secret payload)))"

definition verifyCaptcha :: "(string \<Rightarrow> string \<Rightarrow> string) \<Rightarrow> string \<Rightarrow> int \<Rightarrow> string \<Rightarrow> string \<Rightarrow> bool" where
  "verifyCaptcha hmac secret t token answerText =
    (case DecodeString (TrimSpace token) of
      None \<Rightarrow> False
    | Some raw \<Rightarrow>
       (case Split CHR '':'' raw of
         [a, b, c] \<Rightarrow>
           (case ParseInt b of (expiresUnix, ok) \<Rightarrow>
             if \<not> ok \<or> t > expiresUnix then False
             else if c \<noteq> EncodeToString (hmac secret (a @ '':'' @ b)) then False
             else TrimSpace answerText = a)
       | _ \<Rightarrow> False))"

definition signResetVerification :: "(string \<Rightarrow> string \<Rightarrow> string) \<Rightarrow> string \<Rightarrow> string \<Rightarrow> int \<Rightarrow> string" where
  "signResetVerification hmac secret username expiresAt =
    (let normalized = TrimSpace username; payload = normalized @ '':'' @ Itoa expiresAt in
     EncodeToString (payload @ '':'' @ EncodeToString (hmac secret payload)))"

definition verifyResetVerification ::
  "(string \<Rightarrow> string \<Rightarrow> string) \<Rightarrow> string \<Rightarrow> int \<Rightarrow> string \<Rightarrow> string \<Rightarrow> bool" where
  "verifyResetVerification hmac secret t token username =
    (case DecodeString (TrimSpace token) of
      None \<Rightarrow> False
    | Some raw \<Rightarrow>
       (case Split CHR '':'' raw of
         [a, b, c] \<Rightarrow>
           (case ParseInt b of (expiresUnix, ok) \<Rightarrow>
             if \<not> ok \<or> t > expiresUnix then False
             else if a \<noteq> TrimSpace username then False
             else c = EncodeToString (hmac secret (a @ '':'' @ b)))
       | _ \<Rightarrow> False))"

text \<open>\<open>randomCaptchaChallenge\<close>: operator 0 to 2 and operands 2 to 9 come from the random source.\<close>

definition randomCaptchaChallenge :: "(nat \<times> int \<times> int) option \<Rightarrow> (string \<times> int) option" where
  "randomCaptchaChallenge rnd =
    (case rnd of
      None \<Rightarrow> None
    | Some (operatorIndex, left, right) \<Rightarrow>
       if operatorIndex = 0 then Some (Itoa left @ '' + '' @ Itoa right, left + right)
       else if operatorIndex = 1 then
         (let (l, r) = (if left < right then (right, left) else (left, right)) in
          Some (Itoa l @ '' - '' @ Itoa r, l - r))
       else Some (Itoa left @ [CHR '' '', CHR 0xC3, CHR 0x97, CHR '' ''] @ Itoa right, left * right))"

definition handlePasswordResetCaptcha ::
  "(string \<Rightarrow> string \<Rightarrow> string) \<Rightarrow> string \<Rightarrow> (nat \<times> int \<times> int) option \<Rightarrow> response db_prog" where
  "handlePasswordResetCaptcha hmac secret rnd =
    bindp passwordResetRuntimeSettings (\<lambda>st.
    case randomCaptchaChallenge rnd of
      None \<Rightarrow> ret (writeError 500 ''captcha_failed'')
    | Some (question, answer) \<Rightarrow>
        bindp now (\<lambda>t.
        let expiresAt = t + rs_CaptchaTTL st in
        ret (200, BCaptcha (signCaptcha hmac secret answer expiresAt) question expiresAt)))"

section \<open>Handlers\<close>

definition isPasswordResetChannel :: "string \<Rightarrow> bool" where
  "isPasswordResetChannel cid \<longleftrightarrow> cid = ''email''"

definition passwordResetChannels :: "string list db_prog" where
  "passwordResetChannels =
    bindp ListNotificationChannels (\<lambda>items.
    ret (map ch_id (filter (\<lambda>c. ch_password_reset_enabled c \<and> isPasswordResetChannel (ch_id c)) items)))"

text \<open>The body: username, captcha token, captcha answer.\<close>

definition handlePasswordResetVerify ::
  "(string \<Rightarrow> string \<Rightarrow> string) \<Rightarrow> string \<Rightarrow> (string \<times> string \<times> string) option \<Rightarrow> response db_prog" where
  "handlePasswordResetVerify hmac secret body =
    (case body of
      None \<Rightarrow> ret (writeError 400 ''invalid_request'')
    | Some (name, captchaToken, captchaAnswer) \<Rightarrow>
       let username = TrimSpace name in
       if username = [] then ret (writeError 400 ''missing_username'')
       else
        bindp now (\<lambda>t.
        if \<not> verifyCaptcha hmac secret t captchaToken captchaAnswer
        then ret (writeError 400 ''invalid_captcha'')
        else
         bindp (attempt (FindUserByUsername username)) (\<lambda>r.
         case r of
           Inl _ \<Rightarrow> ret (writeError 400 ''password_reset_unavailable'')
         | Inr (u, _) \<Rightarrow>
             if Disabled u \<or> Source u \<noteq> ''local'' then ret (writeError 400 ''password_reset_unavailable'')
             else
              bindp (attempt passwordResetChannels) (\<lambda>q.
              case q of
                Inl _ \<Rightarrow> ret (writeError 500 ''list_reset_channels_failed'')
              | Inr chans \<Rightarrow>
                  if chans = [] then ret (writeError 503 ''no_password_reset_channel'')
                  else bindp now (\<lambda>t2.
                    ret (200, BChannels chans (signResetVerification hmac secret username (t2 + 600))))))))"

text \<open>The second half of \<open>handlePasswordResetSendCode\<close>: the rate limits, the code, the notification.\<close>

definition send_reset_code ::
  "(string \<Rightarrow> string) \<Rightarrow> string option \<Rightarrow> bool \<Rightarrow> string \<Rightarrow> reset_settings \<Rightarrow> user \<Rightarrow> channel \<Rightarrow> response db_prog"
where
  "send_reset_code hash_code rndDigits send ip st u channel =
    (let contact = (if ch_id channel = ''email'' then Email u else []) in
     bindp now (\<lambda>t.
     bindp (attempt (LatestRecentPasswordResetTokenCreatedAt (ID u) (t - rs_SendCooldown st))) (\<lambda>r.
     case r of
       Inl _ \<Rightarrow> ret (writeError 500 ''password_reset_failed'')
     | Inr (Some lastSentAt) \<Rightarrow>
         let remaining = lastSentAt + rs_SendCooldown st - t in
         ret (429, BErrorMinutes ''password_reset_cooldown'' (if remaining < 1 then 1 else remaining))
     | Inr None \<Rightarrow>
         bindp (attempt (CountRecentPasswordResetTokens (ID u) (t - rs_RateLimitSpan st))) (\<lambda>q.
         case q of
           Inl _ \<Rightarrow> ret (writeError 500 ''password_reset_failed'')
         | Inr recent \<Rightarrow>
            if int recent \<ge> rs_RateLimitMax st
            then ret (429, BErrorMinutes ''password_reset_limited'' (durationMinutes (rs_RateLimitSpan st)))
            else (case rndDigits of
              None \<Rightarrow> ret (writeError 500 ''password_reset_failed'')
            | Some code \<Rightarrow>
               bindp now (\<lambda>t2.
               let expiresAt = t2 + rs_CodeTTL st in
               bindp (attempt (CreatePasswordResetToken hash_code (ID u) (ch_id channel) contact code ip expiresAt)) (\<lambda>c.
               case c of
                 Inl _ \<Rightarrow> ret (writeError 500 ''password_reset_failed'')
               | Inr _ \<Rightarrow>
                  bindp (ignore DeleteStalePasswordResetTokens) (\<lambda>_.
                  if \<not> send then ret (writeError 503 ''password_reset_send_failed'')
                  else
                   bindp (ignore (WriteAudit (ID u) ''auth.password.reset.request'' ''user'' (ID u) ip
                     [''username'' \<mapsto> JStr (Username u), ''channel'' \<mapsto> JStr (ch_id channel)])) (\<lambda>_.
                   ret (200, BCodeSent (rs_SendCooldown st) expiresAt))))))))))"

record send_code_request =
  sc_Username :: string
  sc_VerificationToken :: string
  sc_Channel :: string
  sc_VerifyEmail :: string

definition handlePasswordResetSendCode ::
  "(string \<Rightarrow> string \<Rightarrow> string) \<Rightarrow> string \<Rightarrow> (string \<Rightarrow> string) \<Rightarrow> string option \<Rightarrow> bool \<Rightarrow> string \<Rightarrow>
   send_code_request option \<Rightarrow> response db_prog" where
  "handlePasswordResetSendCode hmac secret hash_code rndDigits send ip body =
    bindp passwordResetRuntimeSettings (\<lambda>st.
    case body of
      None \<Rightarrow> ret (writeError 400 ''invalid_request'')
    | Some b \<Rightarrow>
       let username = TrimSpace (sc_Username b); channelID = TrimSpace (sc_Channel b);
           verifyEmail = TrimSpace (sc_VerifyEmail b) in
       if username = [] \<or> channelID = [] then ret (writeError 400 ''invalid_request'')
       else if \<not> emailAddressPattern verifyEmail then ret (writeError 400 ''invalid_verify_email'')
       else
        bindp now (\<lambda>t.
        if \<not> verifyResetVerification hmac secret t (sc_VerificationToken b) username
        then ret (writeError 400 ''invalid_verification'')
        else
         bindp (attempt (FindUserByUsername username)) (\<lambda>r.
         case r of
           Inl _ \<Rightarrow> ret (writeError 400 ''password_reset_unavailable'')
         | Inr (u, _) \<Rightarrow>
            if Disabled u \<or> Source u \<noteq> ''local'' then ret (writeError 400 ''password_reset_unavailable'')
            else if \<not> EqualFold (TrimSpace (Email u)) verifyEmail
            then ret (writeError 400 ''verify_email_mismatch'')
            else
             bindp (attempt (GetNotificationChannel channelID)) (\<lambda>q.
             case q of
               Inl _ \<Rightarrow> ret (writeError 400 ''invalid_channel'')
             | Inr channel \<Rightarrow>
                if \<not> ch_password_reset_enabled channel \<or> \<not> isPasswordResetChannel (ch_id channel)
                then ret (writeError 400 ''invalid_channel'')
                else send_reset_code hash_code rndDigits send ip st u channel))))"

record reset_confirm_request =
  rc_Username :: string
  rc_Code :: string
  rc_NewPassword :: string
  rc_ConfirmPassword :: string

definition handlePasswordResetConfirm ::
  "(string \<Rightarrow> string) \<Rightarrow> (string \<Rightarrow> string option) \<Rightarrow> string \<Rightarrow> reset_confirm_request option \<Rightarrow> response db_prog"
where
  "handlePasswordResetConfirm hash_code HashPassword ip body =
    (case body of
      None \<Rightarrow> ret (writeError 400 ''invalid_request'')
    | Some b \<Rightarrow>
       let username = TrimSpace (rc_Username b); code = TrimSpace (rc_Code b) in
       if username = [] \<or> code = [] then ret (writeError 400 ''invalid_request'')
       else if length (rc_NewPassword b) < 6 \<or> length (rc_ConfirmPassword b) < 6
       then ret (writeError 400 ''invalid_password'')
       else if rc_NewPassword b \<noteq> rc_ConfirmPassword b then ret (writeError 400 ''password_mismatch'')
       else
        bindp (attempt (FindUsablePasswordResetToken hash_code username code)) (\<lambda>r.
        case r of
          Inl e \<Rightarrow> if e = ErrNotFound then ret (writeError 400 ''invalid_reset_code'')
            else ret (writeError 500 ''password_reset_failed'')
        | Inr (token, u) \<Rightarrow>
            if Disabled u \<or> Source u \<noteq> ''local'' then ret (writeError 400 ''password_reset_unavailable'')
            else (case HashPassword (rc_NewPassword b) of
              None \<Rightarrow> ret (writeError 500 ''password_reset_failed'')
            | Some h \<Rightarrow>
               bindp (attempt (UpdateUserPassword (ID u) h)) (\<lambda>q.
               case q of
                 Inl _ \<Rightarrow> ret (writeError 500 ''password_reset_failed'')
               | Inr _ \<Rightarrow>
                  bindp (ignore (MarkPasswordResetTokenUsed (rt_id token))) (\<lambda>_.
                  bindp (ignore (DeleteUserSessions (ID u))) (\<lambda>_.
                  bindp (attempt (ClearLoginFailures (ToLower (TrimSpace (Username u))))) (\<lambda>cleared.
                  bindp (ignore (WriteAudit (ID u) ''auth.password.reset.confirm'' ''user'' (ID u) ip
                    [''username'' \<mapsto> JStr (Username u), ''channel'' \<mapsto> JStr (rt_channel_id token),
                     ''login_lock_cleared'' \<mapsto> JBool (case cleared of Inl _ \<Rightarrow> False | Inr n \<Rightarrow> n > 0)])) (\<lambda>_.
                  ret (200, BStatusOk)))))))))"

end
