(* ===== verification/Reset_Properties.thy ===== *)
theory Reset_Properties
  imports Reset Auth_Properties
begin

text \<open>
  The properties of password recovery: what the signed tokens accept, the limits on the codes that are
  sent, and that a confirmed reset uses up its code and ends the user's sessions.
\<close>

section \<open>Signed tokens\<close>

lemma decode_signed: "DecodeString (TrimSpace (EncodeToString s)) = Some s"
  by (simp add: TrimSpace_printable b64_printable)

lemma Itoa_printable: "list_all printable (Itoa z)"
proof -
  have "printable c" if "is_digit c" for c
  proof -
    have "(of_char c :: int) = int (byte c)" by (simp add: byte_def of_nat_of_char)
    with that show ?thesis by (auto simp: is_digit_def printable_def)
  qed
  then have "list_all printable (dec_nat n)" for n
    using dec_nat_digits [of n] by (auto simp: list_all_iff)
  moreover have "printable CHR ''-''" by (simp add: printable_def byte_def)
  ultimately show ?thesis by (simp add: Itoa_def)
qed

lemma split_signed:
  assumes "CHR '':'' \<notin> set a"
  shows "Split CHR '':'' ((a @ '':'' @ Itoa e) @ '':'' @ EncodeToString m) = [a, Itoa e, EncodeToString m]"
  using assms by (simp add: Split_append Split_no_sep digits_no_colon b64_no_colon)

text \<open>a captcha token that has been signed is accepted exactly until it expires and exactly with the
  decimal answer, white space around it ignored.\<close>

theorem captcha_roundtrip:
  assumes "in_i64 expiresAt"
  shows "verifyCaptcha hmac secret t (signCaptcha hmac secret answer expiresAt) text \<longleftrightarrow>
    t \<le> expiresAt \<and> TrimSpace text = Itoa answer"
  using split_signed [OF digits_no_colon, of answer expiresAt] ParseInt_Itoa [OF assms]
  by (auto simp: verifyCaptcha_def signCaptcha_def decode_signed Let_def)

lemma captcha_roundtrip_witness:
  "verifyCaptcha (\<lambda>k m. k @ m) ''key'' 1000 (signCaptcha (\<lambda>k m. k @ m) ''key'' 12 1060) '' 12 ''"
proof -
  have "TrimSpace '' 12 '' = Itoa 12" by code_simp
  then show ?thesis using captcha_roundtrip [of 1060 "\<lambda>k m. k @ m" "''key''" 1000 12 "'' 12 ''"]
    by (simp add: in_i64_def)
qed

lemma verification_roundtrip:
  assumes "in_i64 expiresAt" "CHR '':'' \<notin> set (TrimSpace username)"
  shows "verifyResetVerification hmac secret t (signResetVerification hmac secret username expiresAt) other \<longleftrightarrow>
    t \<le> expiresAt \<and> TrimSpace other = TrimSpace username"
  using split_signed [OF assms(2), of expiresAt] ParseInt_Itoa [OF assms(1)]
  by (auto simp: verifyResetVerification_def signResetVerification_def decode_signed Let_def)

lemma length_Split: "length (Split d s) = Suc (length (filter (\<lambda>c. c = d) s))"
  by (induction s) (auto split: list.splits)

text \<open>C13: the token that proves the first step of a password reset is accepted until it expires and only
  for the user it was signed for, unless the username contains a colon: then no token the server signs
  for it is ever accepted, so such a user can not reset a password.\<close>

theorem reset_verification:
  assumes "in_i64 expiresAt"
  shows "verifyResetVerification hmac secret t (signResetVerification hmac secret username expiresAt) other \<longleftrightarrow>
    CHR '':'' \<notin> set (TrimSpace username) \<and> t \<le> expiresAt \<and> TrimSpace other = TrimSpace username"
proof (cases "CHR '':'' \<in> set (TrimSpace username)")
  case True
  then have "filter (\<lambda>c. c = CHR '':'') (TrimSpace username) \<noteq> []"
    by (auto simp: filter_empty_conv)
  then have "length (Split CHR '':'' ((TrimSpace username @ '':'' @ Itoa expiresAt) @ '':'' @
      EncodeToString (hmac secret (TrimSpace username @ '':'' @ Itoa expiresAt)))) > 3"
    by (simp add: length_Split)
  then show ?thesis using True
    by (auto simp: verifyResetVerification_def signResetVerification_def decode_signed Let_def
        split: list.splits)
next
  case False
  with verification_roundtrip [OF assms False] show ?thesis by blast
qed

lemma reset_verification_witness:
  "\<not> verifyResetVerification (\<lambda>k m. k @ m) ''key'' 1000
     (signResetVerification (\<lambda>k m. k @ m) ''key'' ''corp:bob'' 1600) ''corp:bob''"
proof -
  have "TrimSpace ''corp:bob'' = ''corp:bob''" by code_simp
  then show ?thesis
    using reset_verification [of 1600 "\<lambda>k m. k @ m" "''key''" 1000 "''corp:bob''" "''corp:bob''"]
    by (simp add: in_i64_def)
qed

text \<open>captcha tokens and verification tokens are signed over the same format with the same key, so the
  captcha the server hands to anyone is, until it expires, a verification token for the user named like
  its answer: that user's captcha step can be skipped.\<close>

theorem captcha_is_verification:
  assumes "in_i64 expiresAt"
  shows "verifyResetVerification hmac secret t (signCaptcha hmac secret answer expiresAt) (Itoa answer) \<longleftrightarrow>
    t \<le> expiresAt"
proof -
  have "signCaptcha hmac secret answer expiresAt = signResetVerification hmac secret (Itoa answer) expiresAt"
    by (simp add: signCaptcha_def signResetVerification_def TrimSpace_printable Itoa_printable Let_def)
  with verification_roundtrip [OF assms, of "Itoa answer"] digits_no_colon show ?thesis
    by (simp add: TrimSpace_printable Itoa_printable)
qed

lemma captcha_is_verification_witness:
  "verifyResetVerification (\<lambda>k m. k @ m) ''key'' 1000 (signCaptcha (\<lambda>k m. k @ m) ''key'' 12 1060) (Itoa 12)"
  using captcha_is_verification [of 1060 "\<lambda>k m. k @ m" "''key''" 1000 12] by (simp add: in_i64_def)

section \<open>How many codes are sent\<close>

lemma query_InlD: "query f d = (Inl e, d') \<Longrightarrow> \<exists>fs. d' = d\<lparr>faults := fs\<rparr>"
  by (cases d) (auto simp: query_def stmt_def split: list.splits if_splits)

lemma stmt_cases: "(\<exists>fs. stmt f d = f (d\<lparr>faults := fs\<rparr>)) \<or> (\<exists>fs. stmt f d = (Inl DbFailure, d\<lparr>faults := fs\<rparr>))"
  by (cases d) (auto simp: stmt_def split: list.splits)

lemma create_token_result:
  assumes "CreatePasswordResetToken hash_code u cid contact code ip e d = (r, d')"
  shows "case r of Inl _ \<Rightarrow> reset_tokens d' = reset_tokens d
    | Inr t \<Rightarrow> reset_tokens d' = reset_tokens d @ [t] \<and> rt_user_id t = u \<and> rt_created_at t = clock d \<and>
        rt_expires_at t = e \<and> rt_code_hash t = hash_code code \<and> rt_used_at t = None"
proof -
  let ?f = "\<lambda>d. let (tid, d1) = gen_uuid d;
        t = \<lparr>rt_id = tid, rt_user_id = u, rt_channel_id = cid, rt_contact = contact,
          rt_code_hash = hash_code code, rt_request_ip = ip, rt_expires_at = e,
          rt_used_at = None, rt_created_at = clock d1\<rparr> in
      if u \<notin> ur_id ` set (users d1) \<or> cid \<notin> ch_id ` set (channels d1)
      then (Inl ForeignKeyViolation, d1)
      else if tid \<in> rt_id ` set (reset_tokens d1) then (Inl UniqueViolation, d1)
      else (Inr t, d1\<lparr>reset_tokens := reset_tokens d1 @ [t]\<rparr>)"
  from stmt_cases [of ?f d] show ?thesis
  proof (elim disjE exE)
    fix fs assume "stmt ?f d = ?f (d\<lparr>faults := fs\<rparr>)"
    with assms have r: "?f (d\<lparr>faults := fs\<rparr>) = (r, d')" by (simp add: CreatePasswordResetToken_def)
    obtain tid d1 where g: "gen_uuid (d\<lparr>faults := fs\<rparr>) = (tid, d1)" by fastforce
    then have "reset_tokens d1 = reset_tokens d" "clock d1 = clock d" by (auto dest!: gen_uuid_tables)
    with r g show ?thesis by (auto simp: Let_def split: if_split_asm)
  next
    fix fs assume "stmt ?f d = (Inl DbFailure, d\<lparr>faults := fs\<rparr>)"
    with assms show ?thesis by (auto simp: CreatePasswordResetToken_def)
  qed
qed

lemma latest_token_None: "latest_token ts = None \<longleftrightarrow> ts = []"
proof -
  have "sort_key (\<lambda>t. - rt_created_at t) ts = [] \<longleftrightarrow> ts = []"
    by (metis length_0_conv length_sort)
  then show ?thesis by (auto simp: latest_token_def split: list.splits)
qed

lemma bindp_attempt_run: "m d = (r, d1) \<Longrightarrow> bindp (attempt m) f d = f r d1"
  by (simp add: bindp_def attempt_def)

lemma bindp_now: "bindp now f d = f (clock d) d"
  by (simp add: bindp_def now_def)

lemma bindp_ignore: "bindp (ignore m) f d = f () (snd (m d))"
  by (simp add: bindp_def ignore_def)

lemma keeps_tokens_audit: "reset_tokens (snd (WriteAudit a b c e i m d)) = reset_tokens d"
  by (cases d) (auto simp: WriteAudit_def stmt_def split: list.splits)

lemma stale_subset: "set (filter P (reset_tokens (snd (DeleteStalePasswordResetTokens d)))) \<subseteq> set (filter P (reset_tokens d)) \<and>
    length (filter P (reset_tokens (snd (DeleteStalePasswordResetTokens d)))) \<le> length (filter P (reset_tokens d))"
proof -
  have "length (filter P (filter Q ts)) \<le> length (filter P ts)" for Q and ts :: "reset_token list"
    by (induction ts) auto
  then show ?thesis
    by (cases d) (auto simp: DeleteStalePasswordResetTokens_def exec_def stmt_def split: list.splits)
qed

text \<open>C10: whatever statements fail, a new code is stored for a user only when the last one was sent before
  the cooldown began; it is stored with the time it was sent and the configured lifetime, and the codes
  of the rate limit window, the new one included, never exceed the limit.\<close>

theorem reset_code_limits:
  assumes "send_reset_code hash_code rnd send ip st u ch d = (r, d')"
    "tok \<in> set (reset_tokens d')" "tok \<notin> set (reset_tokens d)"
  shows "rt_user_id tok = ID u \<and> rt_created_at tok = clock d \<and> rt_expires_at tok = clock d + rs_CodeTTL st \<and>
    (\<forall>q \<in> set (reset_tokens d). rt_user_id q = ID u \<longrightarrow> rt_created_at q < clock d - rs_SendCooldown st) \<and>
    int (length (filter (\<lambda>q. rt_created_at q \<ge> clock d - rs_RateLimitSpan st \<and> rt_user_id q = ID u)
      (reset_tokens d'))) \<le> rs_RateLimitMax st"
proof -
  let ?contact = "if ch_id ch = ''email'' then Email u else []"
  let ?old = "\<lambda>q. rt_created_at q \<ge> clock d - rs_SendCooldown st \<and> rt_user_id q = ID u"
  let ?win = "\<lambda>q. rt_created_at q \<ge> clock d - rs_RateLimitSpan st \<and> rt_user_id q = ID u"
  obtain lr d1 where l: "LatestRecentPasswordResetTokenCreatedAt (ID u) (clock d - rs_SendCooldown st) d = (lr, d1)"
    by fastforce
  have la: "bindp (attempt (LatestRecentPasswordResetTokenCreatedAt (ID u) (clock d - rs_SendCooldown st))) f d = f lr d1"
    for f :: "_ \<Rightarrow> response db_prog" by (rule bindp_attempt_run) (rule l)
  from l have d1: "reset_tokens d1 = reset_tokens d" "clock d1 = clock d"
    by (cases lr; auto simp: LatestRecentPasswordResetTokenCreatedAt_def dest!: query_InrD query_InlD)+
  have "lr = Inr None"
    using assms d1
    by (auto simp: send_reset_code_def Let_def bindp_now la ret_def
        split: sum.splits option.splits)
  with l d1 have cool: "filter ?old (reset_tokens d) = []"
    by (auto simp: LatestRecentPasswordResetTokenCreatedAt_def latest_token_None dest!: query_InrD)
  obtain cr d2 where c: "CountRecentPasswordResetTokens (ID u) (clock d - rs_RateLimitSpan st) d1 = (cr, d2)"
    by fastforce
  have ca: "bindp (attempt (CountRecentPasswordResetTokens (ID u) (clock d - rs_RateLimitSpan st))) f d1 = f cr d2"
    for f :: "_ \<Rightarrow> response db_prog" by (rule bindp_attempt_run) (rule c)
  from c have d2: "reset_tokens d2 = reset_tokens d" "clock d2 = clock d"
    using d1 by (cases cr; auto simp: CountRecentPasswordResetTokens_def dest!: query_InrD query_InlD)+
  have "\<exists>n code. cr = Inr n \<and> int n < rs_RateLimitMax st \<and> rnd = Some code"
    using assms d1 d2 \<open>lr = Inr None\<close>
    by (auto simp: send_reset_code_def Let_def bindp_now la ca ret_def
        split: sum.splits option.splits if_splits)
  then obtain n code where n: "cr = Inr n" "int n < rs_RateLimitMax st" "rnd = Some code" by blast
  with c d1 have count: "n = length (filter ?win (reset_tokens d))"
    by (auto simp: CountRecentPasswordResetTokens_def dest!: query_InrD)
  obtain tr d3 where t: "CreatePasswordResetToken hash_code (ID u) (ch_id ch) ?contact code ip
      (clock d2 + rs_CodeTTL st) d2 = (tr, d3)" by fastforce
  have ta: "bindp (attempt (CreatePasswordResetToken hash_code (ID u) (ch_id ch) ?contact code ip
      (clock d2 + rs_CodeTTL st))) f d2 = f tr d3" for f :: "_ \<Rightarrow> response db_prog"
    by (rule bindp_attempt_run) (rule t)
  note tok = create_token_result [OF t]
  have rest: "reset_tokens d' = reset_tokens d3 \<or>
      reset_tokens d' = reset_tokens (snd (DeleteStalePasswordResetTokens d3))"
    using assms(1) n \<open>lr = Inr None\<close>
    by (auto simp: send_reset_code_def Let_def bindp_now la ca ta bindp_ignore ret_def keeps_tokens_audit split: sum.splits if_splits)
  then have sub: "set (reset_tokens d') \<subseteq> set (reset_tokens d3)"
    "length (filter ?win (reset_tokens d')) \<le> length (filter ?win (reset_tokens d3))"
    using stale_subset [of "\<lambda>_. True" d3] stale_subset [of ?win d3] by auto
  show ?thesis
  proof (cases tr)
    case (Inl e)
    with tok sub assms d2 show ?thesis by auto
  next
    case (Inr nt)
    with tok d2 have nt: "reset_tokens d3 = reset_tokens d @ [nt]" "rt_user_id nt = ID u" "rt_created_at nt = clock d"
      "rt_expires_at nt = clock d + rs_CodeTTL st" by auto
    with sub(1) assms(2,3) have "tok = nt" by auto
    moreover have "\<forall>q \<in> set (reset_tokens d). rt_user_id q = ID u \<longrightarrow> rt_created_at q < clock d - rs_SendCooldown st"
      using cool by (auto simp: filter_empty_conv)
    moreover have "length (filter ?win (reset_tokens d3)) \<le> Suc n"
      using nt(1) count by simp
    ultimately show ?thesis using nt sub(2) n(2) by auto
  qed
qed

definition email_channel :: channel where
  "email_channel = \<lparr>ch_id = ''email'', ch_enabled = True, ch_password_reset_enabled = True, ch_config = []\<rparr>"

definition reset_limits :: reset_settings where
  "reset_limits = \<lparr>rs_CodeTTL = 600, rs_CaptchaTTL = 60, rs_SendCooldown = 30, rs_RateLimitMax = 5, rs_RateLimitSpan = 300\<rparr>"

definition sent_token :: reset_token where
  "sent_token = \<lparr>rt_id = ''n1'', rt_user_id = ''u1'', rt_channel_id = ''email'', rt_contact = [],
     rt_code_hash = ''123456'', rt_request_ip = [], rt_expires_at = 1600, rt_used_at = None, rt_created_at = 1000\<rparr>"

lemma send_reset_code_example:
  "reset_tokens (snd (send_reset_code (\<lambda>c. c) (Some ''123456'') False [] reset_limits (user_of_row admin_row)
     email_channel (empty_db\<lparr>channels := [email_channel]\<rparr>))) = [sent_token]"
  by (simp add: send_reset_code_def Let_def now_def LatestRecentPasswordResetTokenCreatedAt_def
      CountRecentPasswordResetTokens_def CreatePasswordResetToken_def DeleteStalePasswordResetTokens_def
      latest_token_def gen_uuid_def run_simps empty_db_def email_channel_def reset_limits_def admin_row_def
      user_of_row_def sent_token_def)

lemma reset_code_limits_witness:
  "rt_expires_at sent_token = clock empty_db + rs_CodeTTL reset_limits"
proof -
  let ?d = "empty_db\<lparr>channels := [email_channel]\<rparr>"
  obtain r d' where s: "send_reset_code (\<lambda>c. c) (Some ''123456'') False [] reset_limits (user_of_row admin_row)
     email_channel ?d = (r, d')" by fastforce
  with send_reset_code_example have "sent_token \<in> set (reset_tokens d')" by simp
  moreover have "sent_token \<notin> set (reset_tokens ?d)" by (simp add: empty_db_def)
  ultimately show ?thesis using reset_code_limits [OF s] by simp
qed

section \<open>Confirming a reset\<close>

definition usable_tokens :: "(string \<Rightarrow> string) \<Rightarrow> string \<Rightarrow> string \<Rightarrow> db \<Rightarrow> reset_token list" where
  "usable_tokens hash_code uid code d = filter (\<lambda>t. rt_user_id t = uid \<and> rt_code_hash t = hash_code code \<and>
     rt_used_at t = None \<and> rt_expires_at t > clock d) (reset_tokens d)"

lemma latest_token_in: "latest_token ts = Some t \<Longrightarrow> t \<in> set ts"
  by (metis latest_token_def list.case_eq_if list.set_sel(1) option.distinct(1) option.sel set_sort)

lemma FindUsable_run:
  assumes "faults d = []" "row_of ur_username name (users d) = Some r" "effective_roles d (ur_id r) \<noteq> []"
    "latest_token (usable_tokens hash_code (ur_id r) code d) = Some tok"
  shows "\<exists>u. FindUsablePasswordResetToken hash_code name code d = (Inr (tok, u), d) \<and> ID u = ur_id r \<and>
    Username u = name \<and> Disabled u = ur_disabled r \<and> Source u = Source (user_of_row r)"
  using assms row_of_SomeD [OF assms(2)]
  by (simp add: FindUsablePasswordResetToken_def usable_tokens_def attachAccessToUsers_def
      listUserEffectiveRoles_def run_simps user_of_row_def)

lemma FindUsable_none:
  assumes "faults d = []" "row_of ur_username name (users d) = Some r" "usable_tokens hash_code (ur_id r) code d = []"
  shows "FindUsablePasswordResetToken hash_code name code d = (Inl ErrNotFound, d)"
  using assms by (simp add: FindUsablePasswordResetToken_def usable_tokens_def run_simps latest_token_def)

definition valid_confirm :: "reset_confirm_request \<Rightarrow> bool" where
  "valid_confirm b \<longleftrightarrow> TrimSpace (rc_Username b) \<noteq> [] \<and> TrimSpace (rc_Code b) \<noteq> [] \<and>
     6 \<le> length (rc_NewPassword b) \<and> rc_NewPassword b = rc_ConfirmPassword b"

lemma confirm_run:
  assumes wf: "access_wf d" and d: "faults d = []" "row_of ur_username (TrimSpace (rc_Username b)) (users d) = Some r"
    "effective_roles d (ur_id r) \<noteq> []" "\<not> ur_disabled r" "ur_source r = ''local''"
    and b: "valid_confirm b" "HashPassword (rc_NewPassword b) = Some h"
    and tok: "latest_token (usable_tokens hash_code (ur_id r) (TrimSpace (rc_Code b)) d) = Some tok"
  shows "\<exists>d'. handlePasswordResetConfirm hash_code HashPassword ip (Some b) d = (Inr (200, BStatusOk), d') \<and>
    faults d' = [] \<and> clock d' = clock d \<and>
    users d' = upd_where (\<lambda>q. ur_id q = ur_id r) (\<lambda>r. r\<lparr>ur_password_hash := h, ur_updated_at := clock d\<rparr>) (users d) \<and>
    reset_tokens d' = upd_where (\<lambda>t. rt_id t = rt_id tok \<and> rt_used_at t = None) (\<lambda>t. t\<lparr>rt_used_at := Some (clock d)\<rparr>)
      (reset_tokens d) \<and>
    sessions d' = filter (\<lambda>s. us_user_id s \<noteq> ur_id r) (sessions d) \<and>
    login_failures d' = filter (\<lambda>(u, _). u \<noteq> login_name (TrimSpace (rc_Username b))) (login_failures d)"
proof -
  let ?name = "TrimSpace (rc_Username b)"
  from FindUsable_run [OF d(1,2,3) tok] d(5) obtain u where
    f: "FindUsablePasswordResetToken hash_code ?name (TrimSpace (rc_Code b)) d = (Inr (tok, u), d)"
    and u: "ID u = ur_id r" "Username u = ?name" "Disabled u = ur_disabled r" "Source u = ''local''"
    by (auto simp: user_of_row_def)
  let ?us = "upd_where (\<lambda>q. ur_id q = ur_id r) (\<lambda>r. r\<lparr>ur_password_hash := h, ur_updated_at := clock d\<rparr>) (users d)"
  have in_r: "r \<in> set (users d)" using row_of_SomeD [OF d(2)] by simp
  have row: "row_of ur_id (ur_id r) (users d) = Some r"
    using row_of_distinct [where key = ur_id, OF _ in_r] wf by (simp add: access_wf_def)
  have "ur_username q \<noteq> ur_username r" if "q \<in> set (users d)" "ur_id q \<noteq> ur_id r" for q
    using wf that in_r by (auto simp: access_wf_def distinct_map inj_on_def)
  then have p: "UpdateUserPassword (ur_id r) h d = (Inr (), d\<lparr>users := ?us\<rparr>)"
    using update_user_run [OF d(1) row, of "\<lambda>now r. r\<lparr>ur_password_hash := h, ur_updated_at := now\<rparr>"]
    by (simp add: UpdateUserPassword_def run_simps)
  from b(1) have v: "TrimSpace (rc_Username b) \<noteq> []" "TrimSpace (rc_Code b) \<noteq> []"
    "\<not> length (rc_NewPassword b) < 6" "\<not> length (rc_ConfirmPassword b) < 6"
    "rc_NewPassword b = rc_ConfirmPassword b" by (auto simp: valid_confirm_def)
  show ?thesis
    using f u p b(2) v d(1,4)
    by (simp add: handlePasswordResetConfirm_def Let_def
        bindp_def attempt_def ignore_def ret_def MarkPasswordResetTokenUsed_def DeleteUserSessions_def
        ClearLoginFailures_def exec_count_no_fault exec_no_fault WriteAudit_def stmt_no_fault login_name_def
        fail_def)
qed

lemma confirm_used:
  assumes "faults d = []" "row_of ur_username (TrimSpace (rc_Username b)) (users d) = Some r" "valid_confirm b"
    "usable_tokens hash_code (ur_id r) (TrimSpace (rc_Code b)) d = []"
  shows "handlePasswordResetConfirm hash_code HashPassword ip (Some b) d =
    (Inr (writeError 400 ''invalid_reset_code''), d)"
  using FindUsable_none [OF assms(1,2,4)] assms(3)
  by (auto simp: handlePasswordResetConfirm_def valid_confirm_def Let_def bindp_def attempt_def ret_def)

lemma usable_after_mark:
  assumes "usable_tokens hash_code uid code d = [tok]" "clock d \<le> t"
    "reset_tokens d' = upd_where (\<lambda>q. rt_id q = rt_id tok \<and> rt_used_at q = None) (\<lambda>q. q\<lparr>rt_used_at := Some (clock d)\<rparr>)
      (reset_tokens d)" "clock d' = t"
  shows "usable_tokens hash_code uid code d' = []"
proof -
  let ?u = "\<lambda>q. rt_user_id q = uid \<and> rt_code_hash q = hash_code code \<and> rt_used_at q = None \<and> rt_expires_at q > clock d"
  have "\<not> (rt_user_id q' = uid \<and> rt_code_hash q' = hash_code code \<and> rt_used_at q' = None \<and> rt_expires_at q' > t)"
    if in': "q' \<in> set (reset_tokens d')" for q'
  proof
    from in' obtain q where q: "q \<in> set (reset_tokens d)"
      and q': "q' = (if rt_id q = rt_id tok \<and> rt_used_at q = None then q\<lparr>rt_used_at := Some (clock d)\<rparr> else q)"
      unfolding assms(3) by (auto simp: set_upd_where)
    assume a: "rt_user_id q' = uid \<and> rt_code_hash q' = hash_code code \<and> rt_used_at q' = None \<and> rt_expires_at q' > t"
    with q' have "q' = q" by (auto split: if_splits)
    with a assms(2) have "?u q" by auto
    with q have "q \<in> set (usable_tokens hash_code uid code d)" by (simp add: usable_tokens_def)
    with assms(1) have "q \<in> set [tok]" by simp
    with q' \<open>q' = q\<close> a show False by (auto split: if_splits dest: arg_cong [where f = rt_used_at])
  qed
  then show ?thesis unfolding usable_tokens_def assms(4) by (simp only: filter_empty_conv) blast
qed

text \<open>C9: a confirmed reset stores the new password, ends every session of the user, clears the account's
  failed logins, and uses the code up: at any later time the same code is refused.\<close>

theorem reset_confirmed:
  assumes "access_wf d" "faults d = []" "row_of ur_username (TrimSpace (rc_Username b)) (users d) = Some r"
    "effective_roles d (ur_id r) \<noteq> []" "\<not> ur_disabled r" "ur_source r = ''local''"
    "valid_confirm b" "HashPassword (rc_NewPassword b) = Some h"
    "usable_tokens hash_code (ur_id r) (TrimSpace (rc_Code b)) d = [tok]"
  shows "\<exists>d'. handlePasswordResetConfirm hash_code HashPassword ip (Some b) d = (Inr (200, BStatusOk), d') \<and>
    (\<exists>r'. row_of ur_id (ur_id r) (users d') = Some r' \<and> ur_password_hash r' = h) \<and>
    (\<forall>s \<in> set (sessions d'). us_user_id s \<noteq> ur_id r) \<and>
    failures_of (login_name (TrimSpace (rc_Username b))) (login_failures d') = [] \<and>
    (\<forall>t \<ge> clock d. fst (handlePasswordResetConfirm hash_code HashPassword ip (Some b) (d'\<lparr>clock := t\<rparr>)) =
       Inr (writeError 400 ''invalid_reset_code''))"
proof -
  let ?n = "TrimSpace (rc_Username b)"
  have in_r: "r \<in> set (users d)" "ur_username r = ?n" using row_of_SomeD [OF assms(3)] by auto
  have latest: "latest_token (usable_tokens hash_code (ur_id r) (TrimSpace (rc_Code b)) d) = Some tok"
    by (simp add: assms(9) latest_token_def)
  from confirm_run [where hash_code = hash_code and HashPassword = HashPassword and ip = ip, OF assms(1-8) latest] obtain d' where
    run: "handlePasswordResetConfirm hash_code HashPassword ip (Some b) d = (Inr (200, BStatusOk), d')"
    and fc: "faults d' = []" "clock d' = clock d"
    and us: "users d' = upd_where (\<lambda>q. ur_id q = ur_id r) (\<lambda>r. r\<lparr>ur_password_hash := h, ur_updated_at := clock d\<rparr>) (users d)"
    and tk: "reset_tokens d' = upd_where (\<lambda>t. rt_id t = rt_id tok \<and> rt_used_at t = None)
      (\<lambda>t. t\<lparr>rt_used_at := Some (clock d)\<rparr>) (reset_tokens d)"
    and ss: "sessions d' = filter (\<lambda>s. us_user_id s \<noteq> ur_id r) (sessions d)"
    and lf: "login_failures d' = filter (\<lambda>(u, _). u \<noteq> login_name ?n) (login_failures d)"
    by blast
  have "row_of ur_id (ur_id r) (users d) = Some r"
    using row_of_distinct [where key = ur_id, OF _ in_r(1)] assms(1) by (simp add: access_wf_def)
  then have "row_of ur_id (ur_id r) (users d') = Some (r\<lparr>ur_password_hash := h, ur_updated_at := clock d\<rparr>)"
    by (simp add: us row_of_upd_where)
  moreover have "failures_of n (filter (\<lambda>(u, _). u \<noteq> n) rows) = []" for n :: string and rows :: "(string \<times> int) list"
    by (induction rows) (auto simp: failures_of_def)
  moreover have "fst (handlePasswordResetConfirm hash_code HashPassword ip (Some b) (d'\<lparr>clock := t\<rparr>)) =
      Inr (writeError 400 ''invalid_reset_code'')" if t: "clock d \<le> t" for t
  proof -
    have "\<exists>r2. row_of ur_username ?n (users d') = Some r2 \<and> ur_id r2 = ur_id r"
      using assms(3) by (simp add: us row_of_upd_where)
    then obtain r2 where "row_of ur_username ?n (users (d'\<lparr>clock := t\<rparr>)) = Some r2" "ur_id r2 = ur_id r" by auto
    moreover have "usable_tokens hash_code (ur_id r) (TrimSpace (rc_Code b)) (d'\<lparr>clock := t\<rparr>) = []"
      using usable_after_mark [OF assms(9) t, of "d'\<lparr>clock := t\<rparr>"] tk by simp
    ultimately show ?thesis using confirm_used [of "d'\<lparr>clock := t\<rparr>" b r2] fc(1) assms(7) by simp
  qed
  ultimately show ?thesis using run ss lf by auto
qed

text \<open>the code is marked as used only after the password has been changed, and a failure to mark it is
  ignored: the reset is answered as done and the same code is still good.\<close>

theorem reset_code_survives_fault:
  assumes "access_wf d" "faults d = []" "row_of ur_username (TrimSpace (rc_Username b)) (users d) = Some r"
    "effective_roles d (ur_id r) \<noteq> []" "\<not> ur_disabled r" "ur_source r = ''local''"
    "valid_confirm b" "HashPassword (rc_NewPassword b) = Some h"
    "latest_token (usable_tokens hash_code (ur_id r) (TrimSpace (rc_Code b)) d) = Some tok"
  shows "\<exists>d'. handlePasswordResetConfirm hash_code HashPassword ip (Some b)
      (d\<lparr>faults := [False, False, False, True]\<rparr>) = (Inr (200, BStatusOk), d') \<and>
    usable_tokens hash_code (ur_id r) (TrimSpace (rc_Code b)) d' =
      usable_tokens hash_code (ur_id r) (TrimSpace (rc_Code b)) d"
proof -
  let ?n = "TrimSpace (rc_Username b)"
  have in_r: "r \<in> set (users d)" "ur_username r = ?n" using row_of_SomeD [OF assms(3)] by auto
  have row: "row_of ur_id (ur_id r) (users d) = Some r"
    using row_of_distinct [where key = ur_id, OF _ in_r(1)] assms(1) by (simp add: access_wf_def)
  have uniq: "\<not> (\<exists>q \<in> set (users d). ur_id q \<noteq> ur_id r \<and> ur_username q = ur_username r)"
    using assms(1) in_r(1) by (auto simp: access_wf_def distinct_map inj_on_def)
  have eff: "effective_roles (d\<lparr>faults := fs\<rparr>) = effective_roles d" for fs
    by (simp add: effective_roles_def fun_eq_iff)
  let ?us = "upd_where (\<lambda>q. ur_id q = ur_id r) (\<lambda>r. r\<lparr>ur_password_hash := h, ur_updated_at := clock d\<rparr>) (users d)"
  have f: "\<exists>u. FindUsablePasswordResetToken hash_code ?n (TrimSpace (rc_Code b)) (d\<lparr>faults := [False, False, False, True]\<rparr>) =
      (Inr (tok, u), d\<lparr>faults := [False, True]\<rparr>) \<and> ID u = ur_id r \<and> Disabled u = ur_disabled r \<and> Source u = ''local''"
    using assms(3,4,6,9) eff
    by (simp add: FindUsablePasswordResetToken_def usable_tokens_def attachAccessToUsers_def
        listUserEffectiveRoles_def query_def stmt_def bindp_def ret_def user_of_row_def)
  have p: "UpdateUserPassword (ur_id r) h (d\<lparr>faults := [False, True]\<rparr>) = (Inr (), d\<lparr>faults := [True], users := ?us\<rparr>)"
    using row uniq by (simp add: UpdateUserPassword_def update_user_def stmt_def bindp_def ret_def)
  have m: "MarkPasswordResetTokenUsed (rt_id tok) (d\<lparr>faults := [True], users := ?us\<rparr>) =
      (Inl DbFailure, d\<lparr>faults := [], users := ?us\<rparr>)"
    by (simp add: MarkPasswordResetTokenUsed_def exec_count_def stmt_def bindp_def)
  from f p m assms(5,7,8) show ?thesis
    by (auto simp: handlePasswordResetConfirm_def valid_confirm_def Let_def
        bindp_def attempt_def ignore_def ret_def DeleteUserSessions_def
        ClearLoginFailures_def exec_count_no_fault exec_no_fault WriteAudit_def stmt_no_fault usable_tokens_def)
qed

definition reset_db :: db where
  "reset_db = empty_db\<lparr>reset_tokens := [sent_token], sessions := [admin_session]\<rparr>"

definition reset_body :: reset_confirm_request where
  "reset_body = \<lparr>rc_Username = ''admin'', rc_Code = '' 123456'', rc_NewPassword = ''secret'', rc_ConfirmPassword = ''secret''\<rparr>"

lemma reset_db_facts:
  "access_wf reset_db" "faults reset_db = []"
  "row_of ur_username (TrimSpace (rc_Username reset_body)) (users reset_db) = Some admin_row"
  "effective_roles reset_db (ur_id admin_row) \<noteq> []" "\<not> ur_disabled admin_row" "ur_source admin_row = ''local''"
  "valid_confirm reset_body"
  "usable_tokens (\<lambda>c. c) (ur_id admin_row) (TrimSpace (rc_Code reset_body)) reset_db = [sent_token]"
proof -
  have t: "TrimSpace ''admin'' = ''admin''" "TrimSpace '' 123456'' = ''123456''" by code_simp+
  show "access_wf reset_db"
    using empty_db_ok(1) by (simp add: access_wf_def reset_db_def) (simp add: empty_db_def admin_session_def admin_row_def)
  have "builtin_role ''r1'' ''admin'' BuiltinPermissions \<in> set (effective_roles reset_db (ur_id admin_row))"
    unfolding set_effective_roles by (simp add: reset_db_def empty_db_def builtin_role_def admin_row_def)
  then show "effective_roles reset_db (ur_id admin_row) \<noteq> []" by auto
  show "faults reset_db = []" "\<not> ur_disabled admin_row" "ur_source admin_row = ''local''"
    "row_of ur_username (TrimSpace (rc_Username reset_body)) (users reset_db) = Some admin_row"
    "valid_confirm reset_body"
    "usable_tokens (\<lambda>c. c) (ur_id admin_row) (TrimSpace (rc_Code reset_body)) reset_db = [sent_token]"
    by (simp_all add: t reset_db_def empty_db_def admin_row_def reset_body_def row_of_def valid_confirm_def
        usable_tokens_def sent_token_def)
qed

lemma reset_confirmed_witness:
  "\<exists>d'. handlePasswordResetConfirm (\<lambda>c. c) Some [] (Some reset_body) reset_db = (Inr (200, BStatusOk), d') \<and>
     (\<forall>s \<in> set (sessions d'). us_user_id s \<noteq> ''u1'')"
proof -
  have "Some (rc_NewPassword reset_body) = Some ''secret''" by (simp add: reset_body_def)
  from reset_confirmed [where hash_code = "\<lambda>c. c" and HashPassword = Some, OF reset_db_facts(1-7) this reset_db_facts(8), of "[]"]
  show ?thesis by (auto simp: admin_row_def)
qed

lemma reset_code_survives_fault_witness:
  "\<exists>d'. handlePasswordResetConfirm (\<lambda>c. c) Some [] (Some reset_body) (reset_db\<lparr>faults := [False, False, False, True]\<rparr>) =
      (Inr (200, BStatusOk), d') \<and>
    usable_tokens (\<lambda>c. c) (ur_id admin_row) (TrimSpace (rc_Code reset_body)) d' = [sent_token]"
proof -
  have n: "Some (rc_NewPassword reset_body) = Some ''secret''" by (simp add: reset_body_def)
  have "latest_token (usable_tokens (\<lambda>c. c) (ur_id admin_row) (TrimSpace (rc_Code reset_body)) reset_db) = Some sent_token"
    unfolding reset_db_facts(8) by (simp add: latest_token_def)
  from reset_code_survives_fault [where hash_code = "\<lambda>c. c" and HashPassword = Some, OF reset_db_facts(1-7) n this, of "[]"]
  show ?thesis unfolding reset_db_facts(8) by blast
qed

end
