(* ===== verification/Alert_Store.thy ===== *)
theory Alert_Store
  imports Auth_Store
begin

text \<open>
  Alerts and the deliveries of their notifications: the alert part of
  \<open>backend/internal/repository/repository.go\<close>, \<open>alerts_resolution.go\<close>, \<open>alert_notifications.go\<close>,
  \<open>alert_notification_deliveries.go\<close>, the alert part of \<open>notifications.go\<close>, and \<open>retention.go\<close>. The
  partial unique index \<open>idx_alerts_active_source\<close> is the key \<open>alert_key\<close> among the active alerts.
\<close>

section \<open>Alerts\<close>

definition alert_active :: "alert \<Rightarrow> bool" where
  "alert_active a \<longleftrightarrow> alert_status a = ''active''"

definition alert_key :: "alert \<Rightarrow> string \<times> string \<times> string" where
  "alert_key a = (alert_source_type a, alert_source_id a, alert_title a)"

definition active_on :: "string \<Rightarrow> string \<Rightarrow> string \<Rightarrow> alert \<Rightarrow> bool" where
  "active_on sourceType sourceID title a \<longleftrightarrow> alert_key a = (sourceType, sourceID, title) \<and> alert_active a"

text \<open>\<open>INSERT ... ON CONFLICT ... WHERE status = 'active' DO UPDATE\<close>.\<close>

definition UpsertActiveAlert ::
  "string \<Rightarrow> string \<Rightarrow> string \<Rightarrow> string \<Rightarrow> string \<Rightarrow> (string \<rightharpoonup> json) \<Rightarrow> unit db_prog" where
  "UpsertActiveAlert level sourceType sourceID title message metadata = stmt (\<lambda>d.
     let (aid, d1) = gen_uuid d in
     if list_ex (active_on sourceType sourceID title) (alerts d1)
     then (Inr (), d1\<lparr>alerts := upd_where (active_on sourceType sourceID title)
       (\<lambda>a. a\<lparr>alert_level := level, alert_message := message, alert_metadata := metadata,
         alert_last_seen_at := clock d1, alert_updated_at := clock d1\<rparr>) (alerts d1)\<rparr>)
     else if aid \<in> alert_id ` set (alerts d1) then (Inl UniqueViolation, d1)
     else (Inr (), d1\<lparr>alerts := alerts d1 @
       [\<lparr>alert_id = aid, alert_level = level, alert_status = ''active'', alert_source_type = sourceType,
         alert_source_id = sourceID, alert_title = title, alert_message = message,
         alert_metadata = metadata, alert_first_seen_at = clock d1, alert_last_seen_at = clock d1,
         alert_resolved_at = None, alert_notification_sent_at = None, alert_read_at = None,
         alert_dismissed_at = None, alert_created_at = clock d1, alert_updated_at = clock d1\<rparr>]\<rparr>))"

text \<open>\<open>UPDATE alerts SET status='resolved', resolved_at=now(), updated_at=now()\<close>.\<close>

definition resolved :: "int \<Rightarrow> alert \<Rightarrow> alert" where
  "resolved t a = a\<lparr>alert_status := ''resolved'', alert_resolved_at := Some t, alert_updated_at := t\<rparr>"

definition resolve_where :: "(alert \<Rightarrow> bool) \<Rightarrow> db \<Rightarrow> db" where
  "resolve_where p d = d\<lparr>alerts := upd_where p (resolved (clock d)) (alerts d)\<rparr>"

definition ResolveActiveAlert :: "string \<Rightarrow> string \<Rightarrow> string \<Rightarrow> unit db_prog" where
  "ResolveActiveAlert sourceType sourceID title = exec (resolve_where (active_on sourceType sourceID title))"

definition active_from :: "string \<Rightarrow> string \<Rightarrow> alert \<Rightarrow> bool" where
  "active_from sourceType sourceID a \<longleftrightarrow>
     alert_source_type a = sourceType \<and> alert_source_id a = sourceID \<and> alert_active a"

definition ResolveActiveAlertsBySource :: "string \<Rightarrow> string \<Rightarrow> unit db_prog" where
  "ResolveActiveAlertsBySource sourceType sourceID = exec (resolve_where (active_from sourceType sourceID))"

definition ResolveAlert :: "string \<Rightarrow> unit db_prog" where
  "ResolveAlert aid =
    bindp (exec_count (\<lambda>d. length (filter (\<lambda>a. alert_id a = aid \<and> alert_active a) (alerts d)))
      (resolve_where (\<lambda>a. alert_id a = aid \<and> alert_active a))) (\<lambda>n.
    if n = 0 then fail ErrNotFound else ret ())"

text \<open>\<open>UPDATE ... RETURNING\<close>: the rows as the update leaves them.\<close>

definition resolve_returning :: "(alert \<Rightarrow> bool) \<Rightarrow> alert list db_prog" where
  "resolve_returning p = stmt (\<lambda>d.
     (Inr (map (resolved (clock d)) (filter p (alerts d))), resolve_where p d))"

definition ResolveActiveAlertReturning :: "string \<Rightarrow> string \<Rightarrow> string \<Rightarrow> alert list db_prog" where
  "ResolveActiveAlertReturning sourceType sourceID title =
     resolve_returning (active_on sourceType sourceID title)"

definition ResolveActiveAlertsBySourceReturning :: "string \<Rightarrow> string \<Rightarrow> alert list db_prog" where
  "ResolveActiveAlertsBySourceReturning sourceType sourceID =
     resolve_returning (active_from sourceType sourceID)"

definition ResolveAlertReturning :: "string \<Rightarrow> alert db_prog" where
  "ResolveAlertReturning aid =
    bindp (resolve_returning (\<lambda>a. alert_id a = aid \<and> alert_active a)) (\<lambda>items.
    case items of [] \<Rightarrow> fail ErrNotFound | a # _ \<Rightarrow> ret a)"

section \<open>The notification panel\<close>

text \<open>\<open>ORDER BY last_seen_at DESC LIMIT n\<close>.\<close>

definition latest_first :: "alert list \<Rightarrow> alert list" where
  "latest_first as = sort_key (\<lambda>a. - alert_last_seen_at a) as"

definition ListAlertNotifications :: "string \<Rightarrow> int \<Rightarrow> (alert list \<times> nat) db_prog" where
  "ListAlertNotifications status limit0 =
    (let limit = (if limit0 \<le> 0 \<or> limit0 > 100 then 20 else limit0);
         flt = (if status = ''all'' then [] else ''active'');
         shown = (\<lambda>a. alert_dismissed_at a = None \<and> (flt = [] \<or> alert_status a = flt)) in
     bindp (query (\<lambda>d. length (filter shown (alerts d)))) (\<lambda>total.
     bindp (query (\<lambda>d. take (nat limit) (latest_first (filter shown (alerts d))))) (\<lambda>items.
     ret (items, total))))"

definition CountUnreadAlertNotifications :: "nat db_prog" where
  "CountUnreadAlertNotifications = query (\<lambda>d. length (filter (\<lambda>a. alert_active a \<and> alert_read_at a = None \<and>
     alert_dismissed_at a = None) (alerts d)))"

text \<open>\<open>COALESCE(x, now())\<close>.\<close>

definition coalesce_now :: "int option \<Rightarrow> int \<Rightarrow> int option" where
  "coalesce_now x t = (case x of None \<Rightarrow> Some t | Some y \<Rightarrow> Some y)"

definition mark_read :: "int \<Rightarrow> alert \<Rightarrow> alert" where
  "mark_read t a = a\<lparr>alert_read_at := coalesce_now (alert_read_at a) t, alert_updated_at := t\<rparr>"

definition MarkAlertNotificationRead :: "string \<Rightarrow> unit db_prog" where
  "MarkAlertNotificationRead aid =
    bindp (exec_count
      (\<lambda>d. length (filter (\<lambda>a. alert_id a = aid \<and> alert_dismissed_at a = None) (alerts d)))
      (\<lambda>d. d\<lparr>alerts := upd_where (\<lambda>a. alert_id a = aid \<and> alert_dismissed_at a = None)
        (mark_read (clock d)) (alerts d)\<rparr>)) (\<lambda>n.
    if n = 0 then fail ErrNotFound else ret ())"

definition MarkAllAlertNotificationsRead :: "unit db_prog" where
  "MarkAllAlertNotificationsRead = exec (\<lambda>d. d\<lparr>alerts :=
     upd_where (\<lambda>a. alert_active a \<and> alert_dismissed_at a = None) (mark_read (clock d)) (alerts d)\<rparr>)"

definition DismissAlertNotifications :: "unit db_prog" where
  "DismissAlertNotifications = exec (\<lambda>d. d\<lparr>alerts := upd_where (\<lambda>a. alert_dismissed_at a = None)
     (\<lambda>a. a\<lparr>alert_dismissed_at := coalesce_now (alert_dismissed_at a) (clock d),
        alert_read_at := coalesce_now (alert_read_at a) (clock d), alert_updated_at := clock d\<rparr>)
     (alerts d)\<rparr>)"

section \<open>Deliveries\<close>

definition MarkAlertNotificationSent :: "string \<Rightarrow> unit db_prog" where
  "MarkAlertNotificationSent aid = exec (\<lambda>d. d\<lparr>alerts := upd_where (\<lambda>a. alert_id a = aid)
     (\<lambda>a. a\<lparr>alert_notification_sent_at := Some (clock d), alert_updated_at := clock d\<rparr>) (alerts d)\<rparr>)"

definition batch_limit :: "int \<Rightarrow> nat" where
  "batch_limit limit = (if limit \<le> 0 \<or> limit > 100 then 50 else nat limit)"

definition ListPendingAlertNotifications :: "int \<Rightarrow> alert list db_prog" where
  "ListPendingAlertNotifications limit = query (\<lambda>d. take (batch_limit limit) (latest_first
     (filter (\<lambda>a. alert_active a \<and> alert_notification_sent_at a = None) (alerts d))))"

definition dl_key :: "delivery \<Rightarrow> string \<times> string \<times> string" where
  "dl_key q = (dl_alert_id q, dl_event_type q, dl_channel_id q)"

text \<open>The insertion of one delivery: a failed one is set pending again, any other is left alone.\<close>

definition insert_delivery :: "string \<Rightarrow> string \<Rightarrow> string \<Rightarrow> unit db_prog" where
  "insert_delivery aid eventType channelID = stmt (\<lambda>d.
     let (i, d1) = gen_uuid d; key = (aid, eventType, channelID) in
     if eventType \<noteq> ''problem'' \<and> eventType \<noteq> ''recovery'' then (Inl DbFailure, d1)
     else if list_ex (\<lambda>q. dl_key q = key) (deliveries d1)
     then (Inr (), d1\<lparr>deliveries := upd_where (\<lambda>q. dl_key q = key \<and> dl_status q = ''failed'')
       (\<lambda>q. q\<lparr>dl_status := ''pending'', dl_error := [], dl_next_retry_at := clock d1,
         dl_updated_at := clock d1\<rparr>) (deliveries d1)\<rparr>)
     else if i \<in> dl_id ` set (deliveries d1) then (Inl UniqueViolation, d1)
     else if aid \<notin> alert_id ` set (alerts d1) \<or> channelID \<notin> ch_id ` set (channels d1)
     then (Inl ForeignKeyViolation, d1)
     else (Inr (), d1\<lparr>deliveries := deliveries d1 @
       [\<lparr>dl_id = i, dl_alert_id = aid, dl_event_type = eventType, dl_channel_id = channelID,
         dl_status = ''pending'', dl_error = [], dl_retry_count = 0, dl_next_retry_at = clock d1,
         dl_last_attempt_at = None, dl_sent_at = None, dl_created_at = clock d1,
         dl_updated_at = clock d1\<rparr>]\<rparr>))"

text \<open>The loop over the channels, with \<open>enabledChannels\<close>.\<close>

fun ensure_deliveries :: "string \<Rightarrow> string \<Rightarrow> channel list \<Rightarrow> nat \<Rightarrow> nat db_prog" where
  "ensure_deliveries aid eventType [] n = ret n"
| "ensure_deliveries aid eventType (c # cs) n =
    (if \<not> ch_enabled c then ensure_deliveries aid eventType cs n
     else if eventType = ''recovery'' \<and> \<not> ch_send_recovery c then ensure_deliveries aid eventType cs n
     else bindp (insert_delivery aid eventType (ch_id c)) (\<lambda>_.
       ensure_deliveries aid eventType cs (Suc n)))"

definition EnsureAlertNotificationDeliveries :: "alert \<Rightarrow> string \<Rightarrow> unit db_prog" where
  "EnsureAlertNotificationDeliveries a eventType =
    bindp ListNotificationChannels (\<lambda>cs.
    bindp (ensure_deliveries (alert_id a) eventType cs 0) (\<lambda>n.
    if n = 0 \<and> eventType = ''problem'' then MarkAlertNotificationSent (alert_id a) else ret ()))"

text \<open>The join of the deliveries with their alerts.\<close>

definition with_alert :: "db \<Rightarrow> delivery list \<Rightarrow> (delivery \<times> alert) list" where
  "with_alert d qs = concat (map (\<lambda>q. case row_of alert_id (dl_alert_id q) (alerts d) of
     None \<Rightarrow> [] | Some a \<Rightarrow> [(q, a)]) qs)"

definition due :: "int \<Rightarrow> delivery \<Rightarrow> bool" where
  "due t q \<longleftrightarrow> dl_status q = ''pending'' \<and> dl_next_retry_at q \<le> t"

definition ListPendingAlertNotificationDeliveries :: "int \<Rightarrow> (delivery \<times> alert) list db_prog" where
  "ListPendingAlertNotificationDeliveries limit = query (\<lambda>d. take (batch_limit limit)
     (sort_key (\<lambda>(q, a). (dl_next_retry_at q, dl_created_at q))
       (with_alert d (filter (due (clock d)) (deliveries d)))))"

definition ListAlertNotificationDeliveries :: "string \<Rightarrow> (delivery \<times> alert) list db_prog" where
  "ListAlertNotificationDeliveries aid = query (\<lambda>d.
     sort_key (\<lambda>(q, a). (dl_created_at q, dl_channel_id q))
       (with_alert d (filter (\<lambda>q. dl_alert_id q = aid) (deliveries d))))"

definition MarkAlertNotificationDeliverySent :: "string \<Rightarrow> unit db_prog" where
  "MarkAlertNotificationDeliverySent i = exec (\<lambda>d. d\<lparr>deliveries := upd_where (\<lambda>q. dl_id q = i)
     (\<lambda>q. q\<lparr>dl_status := ''sent'', dl_error := [], dl_last_attempt_at := Some (clock d),
        dl_sent_at := Some (clock d), dl_updated_at := clock d\<rparr>) (deliveries d)\<rparr>)"

section \<open>Retries\<close>

record AlertNotificationRetryConfig =
  MaxRetryCount :: int
  BaseDelaySeconds :: int
  MaxDelayMinutes :: int

definition normalizeAlertNotificationRetryConfig ::
  "AlertNotificationRetryConfig \<Rightarrow> AlertNotificationRetryConfig" where
  "normalizeAlertNotificationRetryConfig config =
    (let c1 = (if MaxRetryCount config < 0 \<or> MaxRetryCount config > 10
           then config\<lparr>MaxRetryCount := 6\<rparr> else config);
         c2 = (if BaseDelaySeconds c1 < 10 \<or> BaseDelaySeconds c1 > 300
           then c1\<lparr>BaseDelaySeconds := 30\<rparr> else c1);
         c3 = (if MaxDelayMinutes c2 < 1 \<or> MaxDelayMinutes c2 > 120
           then c2\<lparr>MaxDelayMinutes := 15\<rparr> else c2) in
     if MaxDelayMinutes c3 * 60 < BaseDelaySeconds c3 then c3\<lparr>MaxDelayMinutes := 15\<rparr> else c3)"

text \<open>The delay of the SQL text, for the counter before the update, in seconds.\<close>

definition sql_retry_delay :: "AlertNotificationRetryConfig \<Rightarrow> int \<Rightarrow> int" where
  "sql_retry_delay config n =
    min (MaxDelayMinutes config * 60) (push_bit (nat (min (n + 1) 8)) 1 * BaseDelaySeconds config)"

definition delivery_failed :: "AlertNotificationRetryConfig \<Rightarrow> string \<Rightarrow> int \<Rightarrow> delivery \<Rightarrow> delivery" where
  "delivery_failed config message t q = q\<lparr>
     dl_status := (if dl_retry_count q + 1 \<ge> MaxRetryCount config then ''failed'' else ''pending''),
     dl_error := message, dl_retry_count := dl_retry_count q + 1, dl_last_attempt_at := Some t,
     dl_next_retry_at := t + sql_retry_delay config (dl_retry_count q), dl_updated_at := t\<rparr>"

definition MarkAlertNotificationDeliveryFailedWithConfig ::
  "string \<Rightarrow> string \<Rightarrow> AlertNotificationRetryConfig \<Rightarrow> unit db_prog" where
  "MarkAlertNotificationDeliveryFailedWithConfig i message config0 =
    (let config = normalizeAlertNotificationRetryConfig config0 in
     exec (\<lambda>d. d\<lparr>deliveries := upd_where (\<lambda>q. dl_id q = i)
       (delivery_failed config message (clock d)) (deliveries d)\<rparr>))"

definition MarkAlertNotificationDeliveryFailed :: "string \<Rightarrow> string \<Rightarrow> unit db_prog" where
  "MarkAlertNotificationDeliveryFailed i message = MarkAlertNotificationDeliveryFailedWithConfig i message
     \<lparr>MaxRetryCount = 6, BaseDelaySeconds = 30, MaxDelayMinutes = 15\<rparr>"

text \<open>The delay as the Go function computes it, in nanoseconds as \<open>time.Duration\<close>, wrapped to 64 bits.\<close>

definition nanoseconds :: int where
  "nanoseconds = 10 ^ 9"

definition AlertNotificationRetryDelayWithConfig :: "int \<Rightarrow> AlertNotificationRetryConfig \<Rightarrow> int" where
  "AlertNotificationRetryDelayWithConfig retryCount0 config0 =
    (let config = normalizeAlertNotificationRetryConfig config0;
         r1 = (if retryCount0 < 0 then 0 else retryCount0);
         retryCount = (if r1 > 8 then 8 else r1);
         delay = i64 (i64 (push_bit (nat retryCount) 1 * BaseDelaySeconds config) * nanoseconds);
         maxDelay = i64 (MaxDelayMinutes config * (60 * nanoseconds)) in
     if delay > maxDelay then maxDelay else delay)"

section \<open>Retention\<close>

text \<open>A transaction: \<open>Begin\<close> and \<open>Commit\<close> can fail like a statement; an error rolls the tables back.\<close>

definition transaction :: "'a db_prog \<Rightarrow> 'a db_prog" where
  "transaction m d =
    (case bindp (exec id) (\<lambda>_. bindp m (\<lambda>x. bindp (exec id) (\<lambda>_. ret x))) d of
       (Inl e, d') \<Rightarrow> (Inl e, d\<lparr>faults := faults d'\<rparr>)
     | (Inr x, d') \<Rightarrow> (Inr x, d'))"

definition DeleteLogRecordsBefore :: "int \<Rightarrow> unit db_prog" where
  "DeleteLogRecordsBefore before = transaction (
    bindp (exec (\<lambda>d. d\<lparr>tasks := filter (\<lambda>t. \<not> task_created_at t < before) (tasks d)\<rparr>)) (\<lambda>_.
    bindp (exec (\<lambda>d. d\<lparr>audit_log := filter (\<lambda>a. \<not> au_created_at a < before) (audit_log d)\<rparr>)) (\<lambda>_.
    exec (\<lambda>d. let keep = filter (\<lambda>a. \<not> alert_created_at a < before) (alerts d) in
      d\<lparr>alerts := keep, deliveries := filter (\<lambda>q. dl_alert_id q \<in> alert_id ` set keep) (deliveries d)\<rparr>))))"

section \<open>The invariant of the alert tables\<close>

definition alert_wf :: "db \<Rightarrow> bool" where
  "alert_wf d \<longleftrightarrow>
     distinct (map alert_id (alerts d)) \<and>
     distinct (map alert_key (filter alert_active (alerts d))) \<and>
     (\<forall>a \<in> set (alerts d). (alert_status a = ''active'' \<or> alert_status a = ''resolved'') \<and>
        (alert_active a \<longleftrightarrow> alert_resolved_at a = None) \<and>
        alert_first_seen_at a \<le> alert_last_seen_at a \<and> alert_last_seen_at a \<le> clock d) \<and>
     distinct (map dl_id (deliveries d)) \<and> distinct (map dl_key (deliveries d)) \<and>
     (\<forall>q \<in> set (deliveries d). dl_status q \<in> {''pending'', ''sent'', ''failed''} \<and>
        0 \<le> dl_retry_count q \<and>
        dl_alert_id q \<in> alert_id ` set (alerts d) \<and> dl_channel_id q \<in> ch_id ` set (channels d))"

end
