(* ===== verification/Agent_Store.thy ===== *)
theory Agent_Store
  imports Auth_Store Encoding
begin

text \<open>
  The agents, the template marks and the snapshot annotations: the agent part of
  \<open>backend/internal/repository/repository.go\<close>, \<open>vm_templates.go\<close>, \<open>snapshots.go\<close>, and the encryption
  of the stored agent tokens (\<open>backend/pkg/tokencrypto\<close>). SHA-256 (\<open>hashToken\<close>) and AES-GCM are
  arguments.
\<close>

section \<open>Agents\<close>

definition CreateAgent :: "(string \<Rightarrow> string) \<Rightarrow> string \<Rightarrow> string \<Rightarrow> string \<Rightarrow> string \<Rightarrow> bool \<Rightarrow> agent db_prog" where
  "CreateAgent hashToken name endpoint token tokenCiphertext tlsInsecure = stmt (\<lambda>d.
     let (i, d1) = gen_uuid d;
         a = \<lparr>agent_id = i, agent_name = name, agent_endpoint = endpoint, agent_tls_insecure = tlsInsecure,
           agent_status = ''unknown'', agent_version = [], agent_capabilities = [],
           agent_last_heartbeat_at = None, agent_last_error = [], agent_token_hash = hashToken token,
           agent_token_ciphertext = tokenCiphertext, agent_failure_count = 0,
           agent_last_sync_started_at = None, agent_last_sync_finished_at = None,
           agent_created_at = clock d1, agent_updated_at = clock d1\<rparr> in
     if name \<in> agent_name ` set (agents d1) \<or> i \<in> agent_id ` set (agents d1) then (Inl UniqueViolation, d1)
     else (Inr a, d1\<lparr>agents := agents d1 @ [a]\<rparr>))"

definition ListAgents :: "agent list db_prog" where
  "ListAgents = query (\<lambda>d. sort_key agent_name (agents d))"

definition found_agent :: "agent option \<Rightarrow> agent db_prog" where
  "found_agent r = (case r of None \<Rightarrow> fail ErrNotFound | Some a \<Rightarrow> ret a)"

definition GetAgentByName :: "string \<Rightarrow> agent db_prog" where
  "GetAgentByName name = bindp (query (\<lambda>d. row_of agent_name name (agents d))) found_agent"

text \<open>The endpoint is not unique; the first row is the one returned.\<close>

definition GetAgentByEndpoint :: "string \<Rightarrow> agent db_prog" where
  "GetAgentByEndpoint endpoint = bindp (query (\<lambda>d. row_of agent_endpoint endpoint (agents d))) found_agent"

definition GetAgent :: "string \<Rightarrow> agent db_prog" where
  "GetAgent aid = bindp (query (\<lambda>d. row_of agent_id aid (agents d))) found_agent"

definition GetAgentTokenHash :: "string \<Rightarrow> string db_prog" where
  "GetAgentTokenHash aid = bindp (query (\<lambda>d. row_of agent_id aid (agents d))) (\<lambda>r.
     case r of None \<Rightarrow> fail ErrNotFound | Some a \<Rightarrow> ret (agent_token_hash a))"

definition VerifyAgentToken :: "(string \<Rightarrow> string) \<Rightarrow> string \<Rightarrow> string \<Rightarrow> unit db_prog" where
  "VerifyAgentToken hashToken aid token =
    bindp (GetAgentTokenHash aid) (\<lambda>h. if hashToken token \<noteq> h then fail ErrNotFound else ret ())"

text \<open>What \<open>ON DELETE CASCADE\<close> removes with an agent.\<close>

definition delete_agent_rows :: "string \<Rightarrow> db \<Rightarrow> db" where
  "delete_agent_rows aid d = d\<lparr>
     agents := filter (\<lambda>a. agent_id a \<noteq> aid) (agents d),
     template_marks := filter (\<lambda>m. tm_agent_id m \<noteq> aid) (template_marks d),
     annotations := filter (\<lambda>s. sa_agent_id s \<noteq> aid) (annotations d),
     host_samples := filter (\<lambda>s. hs_AgentID s \<noteq> aid) (host_samples d),
     vm_samples := filter (\<lambda>s. vs_AgentID s \<noteq> aid) (vm_samples d),
     host_rollups := filter (\<lambda>r. hr_agent_id r \<noteq> aid) (host_rollups d),
     vm_rollups := filter (\<lambda>r. vr_agent_id r \<noteq> aid) (vm_rollups d)\<rparr>"

definition DeleteAgent :: "string \<Rightarrow> unit db_prog" where
  "DeleteAgent aid =
    bindp (exec_count (\<lambda>d. length (filter (\<lambda>a. agent_id a = aid) (agents d))) (delete_agent_rows aid)) (\<lambda>n.
    if n = 0 then fail ErrNotFound else ret ())"

definition update_agent :: "string \<Rightarrow> (int \<Rightarrow> agent \<Rightarrow> agent) \<Rightarrow> unit db_prog" where
  "update_agent aid f =
    exec (\<lambda>d. d\<lparr>agents := upd_where (\<lambda>a. agent_id a = aid) (f (clock d)) (agents d)\<rparr>)"

definition UpdateAgentHealth ::
  "string \<Rightarrow> string \<Rightarrow> string \<Rightarrow> string list \<Rightarrow> string \<Rightarrow> unit db_prog" where
  "UpdateAgentHealth aid status version capabilities lastError = update_agent aid (\<lambda>t a.
     a\<lparr>agent_status := status, agent_version := version, agent_capabilities := capabilities,
       agent_last_error := lastError,
       agent_last_heartbeat_at := (if status = ''online'' then Some t else agent_last_heartbeat_at a),
       agent_updated_at := t\<rparr>)"

definition UpdateAgentTokenCiphertext :: "string \<Rightarrow> string \<Rightarrow> unit db_prog" where
  "UpdateAgentTokenCiphertext aid c =
     update_agent aid (\<lambda>t a. a\<lparr>agent_token_ciphertext := c, agent_updated_at := t\<rparr>)"

definition MarkAgentSyncStarted :: "string \<Rightarrow> unit db_prog" where
  "MarkAgentSyncStarted aid =
     update_agent aid (\<lambda>t a. a\<lparr>agent_last_sync_started_at := Some t, agent_updated_at := t\<rparr>)"

definition UpdateAgentSyncSuccess :: "string \<Rightarrow> string \<Rightarrow> string list \<Rightarrow> unit db_prog" where
  "UpdateAgentSyncSuccess aid version capabilities = update_agent aid (\<lambda>t a.
     a\<lparr>agent_status := ''online'', agent_version := version, agent_capabilities := capabilities,
       agent_last_error := [], agent_failure_count := 0, agent_last_heartbeat_at := Some t,
       agent_last_sync_finished_at := Some t, agent_updated_at := t\<rparr>)"

definition UpdateAgentSyncFailure :: "string \<Rightarrow> string \<Rightarrow> int \<Rightarrow> unit db_prog" where
  "UpdateAgentSyncFailure aid lastError limit0 =
    (let limit = (if limit0 \<le> 0 then 3 else limit0) in
     update_agent aid (\<lambda>t a. a\<lparr>agent_failure_count := agent_failure_count a + 1,
       agent_status := (if agent_failure_count a + 1 \<ge> limit then ''offline'' else agent_status a),
       agent_last_error := lastError, agent_last_sync_finished_at := Some t, agent_updated_at := t\<rparr>))"

section \<open>The encryption of agent tokens\<close>

text \<open>
  \<open>gcm_seal key nonce plain\<close> is the ciphertext of AES-256-GCM, \<open>gcm_open\<close> gives the plain text of an
  authentic one. \<open>rnd\<close> is the nonce the random source gives, or nothing when it fails.
\<close>

record aead =
  sha256 :: "string \<Rightarrow> string"
  gcm_seal :: "string \<Rightarrow> string \<Rightarrow> string \<Rightarrow> string"
  gcm_open :: "string \<Rightarrow> string \<Rightarrow> string \<Rightarrow> string option"
  gcm_nonce_size :: nat

definition Seal :: "aead \<Rightarrow> string option \<Rightarrow> string \<Rightarrow> string \<Rightarrow> string option" where
  "Seal g rnd secret token =
    (if TrimSpace token = [] then Some []
     else case rnd of
       None \<Rightarrow> None
     | Some nonce \<Rightarrow>
         Some (''v1:'' @ EncodeToString (nonce @ gcm_seal g (sha256 g secret) nonce token)))"

datatype open_error = UnsupportedFormat | DecodeError | TooShort | OpenError

definition Open :: "aead \<Rightarrow> string \<Rightarrow> string \<Rightarrow> open_error + string" where
  "Open g secret ciphertext0 =
    (let ciphertext = TrimSpace ciphertext0 in
     if ciphertext = [] then Inr []
     else if \<not> HasPrefix ciphertext ''v1:'' then Inl UnsupportedFormat
     else case DecodeString (TrimPrefix ciphertext ''v1:'') of
       None \<Rightarrow> Inl DecodeError
     | Some payload \<Rightarrow>
         if length payload < gcm_nonce_size g then Inl TooShort
         else case gcm_open g (sha256 g secret) (take (gcm_nonce_size g) payload)
                (drop (gcm_nonce_size g) payload) of
           None \<Rightarrow> Inl OpenError
         | Some plain \<Rightarrow> Inr plain)"

section \<open>Template marks\<close>

definition UpsertVMTemplateMark ::
  "string \<Rightarrow> string \<Rightarrow> string \<Rightarrow> string \<Rightarrow> string \<Rightarrow> VMTemplateMark db_prog" where
  "UpsertVMTemplateMark aid vmUUID name description createdBy = stmt (\<lambda>d.
     let (i, d1) = gen_uuid d;
         u = TrimSpace vmUUID; n = TrimSpace name; ds = TrimSpace description;
         same = (\<lambda>m. tm_agent_id m = aid \<and> tm_vm_uuid m = u) in
     case find same (template_marks d1) of
       Some m \<Rightarrow>
         let m' = m\<lparr>tm_name := n, tm_description := ds, tm_updated_at := clock d1\<rparr> in
         (Inr m', d1\<lparr>template_marks := upd_where same (\<lambda>_. m') (template_marks d1)\<rparr>)
     | None \<Rightarrow>
         if i \<in> tm_id ` set (template_marks d1) then (Inl UniqueViolation, d1)
         else if aid \<notin> agent_id ` set (agents d1) \<or>
                 (createdBy \<noteq> [] \<and> createdBy \<notin> ur_id ` set (users d1)) then (Inl ForeignKeyViolation, d1)
         else let m = \<lparr>tm_id = i, tm_agent_id = aid, tm_vm_uuid = u, tm_name = n, tm_description = ds,
                tm_created_by = createdBy, tm_created_at = clock d1, tm_updated_at = clock d1\<rparr> in
           (Inr m, d1\<lparr>template_marks := template_marks d1 @ [m]\<rparr>))"

definition DeleteVMTemplateMark :: "string \<Rightarrow> string \<Rightarrow> unit db_prog" where
  "DeleteVMTemplateMark aid vmUUID =
    (let same = (\<lambda>m. tm_agent_id m = aid \<and> tm_vm_uuid m = TrimSpace vmUUID) in
     bindp (exec_count (\<lambda>d. length (filter same (template_marks d)))
       (\<lambda>d. d\<lparr>template_marks := filter (\<lambda>m. \<not> same m) (template_marks d)\<rparr>)) (\<lambda>n.
     if n = 0 then fail ErrNotFound else ret ()))"

definition ListVMTemplateMarks :: "VMTemplateMark list db_prog" where
  "ListVMTemplateMarks = query (\<lambda>d. sort_key (\<lambda>m. - tm_updated_at m) (template_marks d))"

definition ListVMTemplateMarksByAgent :: "string \<Rightarrow> VMTemplateMark list db_prog" where
  "ListVMTemplateMarksByAgent aid = query (\<lambda>d.
     sort_key (\<lambda>m. - tm_updated_at m) (filter (\<lambda>m. tm_agent_id m = aid) (template_marks d)))"

definition GetVMTemplateMark :: "string \<Rightarrow> string \<Rightarrow> VMTemplateMark db_prog" where
  "GetVMTemplateMark aid vmUUID =
    bindp (query (\<lambda>d. find (\<lambda>m. tm_agent_id m = aid \<and> tm_vm_uuid m = TrimSpace vmUUID)
      (template_marks d))) (\<lambda>r.
    case r of None \<Rightarrow> fail ErrNotFound | Some m \<Rightarrow> ret m)"

section \<open>Snapshot annotations\<close>

record SnapshotAnnotationInput =
  sai_DisplayName :: string
  sai_Description :: string
  sai_Tags :: "string list"

text \<open>The key is joined by NUL bytes.\<close>

definition snapshotAnnotationKey :: "string \<Rightarrow> string \<Rightarrow> string \<Rightarrow> string" where
  "snapshotAnnotationKey aid vmName snapshotName = aid @ [CHR 0x00] @ vmName @ [CHR 0x00] @ snapshotName"

definition row_annotation_key :: "snapshot_annotation \<Rightarrow> string" where
  "row_annotation_key r = snapshotAnnotationKey (sa_agent_id r) (sa_vm_name r) (sa_snapshot_name r)"

text \<open>The map keeps the last row of a key.\<close>

definition annotate :: "snapshot_annotation list \<Rightarrow> Snapshot \<Rightarrow> Snapshot" where
  "annotate rows s =
    (case row_of row_annotation_key (snapshotAnnotationKey (sn_HostID s) (sn_VMName s) (sn_Name s)) (rev rows) of
       None \<Rightarrow> s
     | Some r \<Rightarrow> s\<lparr>sn_DisplayName := sa_display_name r, sn_Description := sa_description r,
         sn_Tags := sa_tags r\<rparr>)"

definition ApplySnapshotAnnotations :: "Snapshot list \<Rightarrow> Snapshot list db_prog" where
  "ApplySnapshotAnnotations ss =
    (if ss = [] then ret ss
     else bindp (query annotations) (\<lambda>rows. ret (map (annotate rows) ss)))"

definition normalizeTags :: "string list \<Rightarrow> string list" where
  "normalizeTags tags = norm_loop [] tags"

definition UpsertSnapshotAnnotation :: "Snapshot \<Rightarrow> SnapshotAnnotationInput \<Rightarrow> string \<Rightarrow> Snapshot db_prog" where
  "UpsertSnapshotAnnotation s input userID = stmt (\<lambda>d.
     let dn = TrimSpace (sai_DisplayName input); ds = TrimSpace (sai_Description input);
         tags = normalizeTags (sai_Tags input);
         same = (\<lambda>r. sa_agent_id r = sn_HostID s \<and> sa_vm_name r = sn_VMName s \<and> sa_snapshot_name r = sn_Name s);
         s' = s\<lparr>sn_DisplayName := dn, sn_Description := ds, sn_Tags := tags\<rparr> in
     if userID \<notin> ur_id ` set (users d) then (Inl ForeignKeyViolation, d)
     else if list_ex same (annotations d) then
       (Inr s', d\<lparr>annotations := upd_where same
          (\<lambda>r. r\<lparr>sa_display_name := dn, sa_description := ds, sa_tags := tags\<rparr>) (annotations d)\<rparr>)
     else if sn_HostID s \<notin> agent_id ` set (agents d) then (Inl ForeignKeyViolation, d)
     else (Inr s', d\<lparr>annotations := annotations d @
       [\<lparr>sa_agent_id = sn_HostID s, sa_vm_name = sn_VMName s, sa_snapshot_name = sn_Name s,
         sa_display_name = dn, sa_description = ds, sa_tags = tags\<rparr>]\<rparr>))"

definition GetSnapshotAnnotation :: "string \<Rightarrow> string \<Rightarrow> string \<Rightarrow> SnapshotAnnotationInput db_prog" where
  "GetSnapshotAnnotation aid vmName snapshotName =
    bindp (query (\<lambda>d. find (\<lambda>r. sa_agent_id r = aid \<and> sa_vm_name r = vmName \<and> sa_snapshot_name r = snapshotName)
      (annotations d))) (\<lambda>found.
    case found of
      None \<Rightarrow> fail ErrNotFound
    | Some r \<Rightarrow> ret \<lparr>sai_DisplayName = sa_display_name r, sai_Description = sa_description r,
        sai_Tags = sa_tags r\<rparr>)"

end
