(* ===== verification/Alert_Service.thy ===== *)
theory Alert_Service
  imports Alert_Store Agent_Store
begin

text \<open>
  The alerts of the realtime service (\<open>backend/internal/service/realtime\<close>: the alert part of
  \<open>service.go\<close>, \<open>alert_notifications.go\<close>, \<open>alert_metadata.go\<close>) and their notification
  (\<open>NotifyDelivery\<close> of \<open>backend/internal/service/notification/service.go\<close>). The transport of a message
  over HTTP or SMTP is the argument \<open>send\<close>, which may answer differently for every attempt.
\<close>

section \<open>The service\<close>

text \<open>
  The state of the service: the database, the counters \<open>alertCounts\<close> behind \<open>alertMu\<close>, the state
  \<open>rt_redis\<close> of the Redis server, and the channel \<open>refreshQueue\<close> with the identifiers of the queued refresh
  tasks; the alerts touch neither of the last two.
\<close>

record 'r rt =
  rt_db :: db
  alertCounts :: "string \<rightharpoonup> int"
  rt_redis :: 'r
  refreshQueue :: "string list"

type_synonym ('r, 'a) rt_prog = "('r rt, store_error, 'a) prog"

definition on_db :: "'a db_prog \<Rightarrow> ('r, 'a) rt_prog" where
  "on_db m s = (let (r, d) = m (rt_db s) in (r, s\<lparr>rt_db := d\<rparr>))"

lemma on_db_run [run_simps]: "on_db m s = (fst (m (rt_db s)), s\<lparr>rt_db := snd (m (rt_db s))\<rparr>)"
  by (simp add: on_db_def split: prod.splits)

text \<open>Texts outside ASCII are given by the hexadecimal form of their bytes in UTF-8.\<close>

definition hex_value :: "char \<Rightarrow> nat" where
  "hex_value c = (let n = byte c in if n < 58 then n - 48 else n - 87)"

fun zh :: "string \<Rightarrow> string" where
  "zh (a # b # s) = char_of (hex_value a * 16 + hex_value b) # zh s"
| "zh s = []"

declare zh.simps [simp del]

section \<open>Metadata\<close>

definition templateFallback :: "string \<Rightarrow> string" where
  "templateFallback value = (if TrimSpace value = [] then ''-'' else value)"

definition vmAlertMetadata :: "agent \<Rightarrow> VirtualMachine \<Rightarrow> (string \<rightharpoonup> json) \<Rightarrow> (string \<rightharpoonup> json)" where
  "vmAlertMetadata item vm extra =
    [''agent'' \<mapsto> JStr (agent_name item), ''vm'' \<mapsto> JStr (vm_Name vm),
     ''vmIp'' \<mapsto> JStr (templateFallback (vm_PrimaryIP vm)),
     ''vmDescription'' \<mapsto> JStr (templateFallback (vm_Description vm))] ++ extra"

section \<open>The settings of the alerts\<close>

definition clampConfigInt :: "int \<Rightarrow> int \<Rightarrow> int \<Rightarrow> int \<Rightarrow> int" where
  "clampConfigInt value lo hi fb = (if value < lo \<or> value > hi then fb else value)"

record alertRuntimeConfig =
  ResourceLimit :: int
  ConsecutiveLimit :: int
  OfflineFailureLimit :: int
  NotificationBatchSize :: int

definition alert_config_of :: "base_config \<Rightarrow> alertRuntimeConfig" where
  "alert_config_of base =
    \<lparr>ResourceLimit = clampConfigInt (ResourceCriticalThreshold base) 1 100 85,
     ConsecutiveLimit = clampConfigInt (ResourceAlertConsecutiveCount base) 1 20 3,
     OfflineFailureLimit = clampConfigInt (AgentOfflineFailureCount base) 1 20 3,
     NotificationBatchSize = clampConfigInt (AlertNotificationBatchSize base) 10 100 50\<rparr>"

definition loadAlertRuntimeConfig :: "('r, alertRuntimeConfig) rt_prog" where
  "loadAlertRuntimeConfig =
    bindp (attempt (on_db GetSystemBaseConfig)) (\<lambda>r.
    case r of
      Inl _ \<Rightarrow> ret \<lparr>ResourceLimit = 85, ConsecutiveLimit = 3, OfflineFailureLimit = 3, NotificationBatchSize = 50\<rparr>
    | Inr base \<Rightarrow> ret (alert_config_of base))"

section \<open>Queues of notifications\<close>

definition queueProblemNotification :: "alert \<Rightarrow> ('r, unit) rt_prog" where
  "queueProblemNotification a = ignore (on_db (EnsureAlertNotificationDeliveries a ''problem''))"

definition queueRecoveryNotifications :: "alert list \<Rightarrow> ('r, unit) rt_prog" where
  "queueRecoveryNotifications as =
    for_each (\<lambda>a. ignore (on_db (EnsureAlertNotificationDeliveries a ''recovery''))) as"

definition resolveActiveAlert :: "string \<Rightarrow> string \<Rightarrow> string \<Rightarrow> ('r, unit) rt_prog" where
  "resolveActiveAlert sourceType sourceID title =
    bindp (attempt (on_db (ResolveActiveAlertReturning sourceType sourceID title))) (\<lambda>r.
    case r of Inl _ \<Rightarrow> ret () | Inr as \<Rightarrow> queueRecoveryNotifications as)"

definition resolveActiveAlertsBySource :: "string \<Rightarrow> string \<Rightarrow> ('r, unit) rt_prog" where
  "resolveActiveAlertsBySource sourceType sourceID =
    bindp (attempt (on_db (ResolveActiveAlertsBySourceReturning sourceType sourceID))) (\<lambda>r.
    case r of Inl _ \<Rightarrow> ret () | Inr as \<Rightarrow> queueRecoveryNotifications as)"

section \<open>Delivery\<close>

text \<open>What the transport answers to an attempt: \<open>None\<close>, or the message of its error.\<close>

type_synonym transport = "int \<Rightarrow> channel \<Rightarrow> delivery \<Rightarrow> alert \<Rightarrow> string option"

definition retry_config_of :: "base_config \<Rightarrow> AlertNotificationRetryConfig" where
  "retry_config_of base =
    \<lparr>MaxRetryCount = clampConfigInt (AlertNotificationMaxRetryCount base) 0 10 6,
     BaseDelaySeconds = clampConfigInt (AlertNotificationRetryBaseSeconds base) 10 300 30,
     MaxDelayMinutes = clampConfigInt (AlertNotificationRetryMaxMinutes base) 1 120 15\<rparr>"

definition alertNotificationRuntimeConfig :: "AlertNotificationRetryConfig db_prog" where
  "alertNotificationRuntimeConfig =
    bindp (attempt GetSystemBaseConfig) (\<lambda>r.
    case r of
      Inl _ \<Rightarrow> ret \<lparr>MaxRetryCount = 6, BaseDelaySeconds = 30, MaxDelayMinutes = 15\<rparr>
    | Inr base \<Rightarrow> ret (retry_config_of base))"

definition notificationChannel :: "string \<Rightarrow> channel option db_prog" where
  "notificationChannel cid = bindp ListNotificationChannels (\<lambda>cs. ret (find (\<lambda>c. ch_id c = cid) cs))"

definition NotifyDelivery :: "transport \<Rightarrow> delivery \<times> alert \<Rightarrow> unit db_prog" where
  "NotifyDelivery send item =
    (let (q, a) = item;
         sent = bindp (ignore (MarkAlertNotificationDeliverySent (dl_id q))) (\<lambda>_.
           if dl_event_type q = ''problem'' then ignore (MarkAlertNotificationSent (alert_id a)) else ret ()) in
     bindp alertNotificationRuntimeConfig (\<lambda>config.
     bindp (attempt (notificationChannel (dl_channel_id q))) (\<lambda>r.
     case r of
       Inl _ \<Rightarrow> ret ()
     | Inr None \<Rightarrow> sent
     | Inr (Some c) \<Rightarrow>
         if \<not> ch_enabled c \<or> (dl_event_type q = ''recovery'' \<and> \<not> ch_send_recovery c) then sent
         else bindp now (\<lambda>t.
           case send t c q a of
             Some message \<Rightarrow>
               ignore (MarkAlertNotificationDeliveryFailedWithConfig (dl_id q) message config)
           | None \<Rightarrow> sent))))"

text \<open>\<open>notifier\<close> is \<open>s.notifier\<close>, which the server sets; the field may be nil.\<close>

definition notifyPendingAlerts :: "transport option \<Rightarrow> ('r, unit) rt_prog" where
  "notifyPendingAlerts notifier =
    (case notifier of
       None \<Rightarrow> ret ()
     | Some send \<Rightarrow>
        bindp loadAlertRuntimeConfig (\<lambda>config.
        bindp (attempt (on_db (ListPendingAlertNotifications (NotificationBatchSize config)))) (\<lambda>r.
        case r of
          Inl _ \<Rightarrow> ret ()
        | Inr as \<Rightarrow>
           bindp (for_each queueProblemNotification as) (\<lambda>_.
           bindp (attempt (on_db (ListPendingAlertNotificationDeliveries (NotificationBatchSize config)))) (\<lambda>r2.
           case r2 of
             Inl _ \<Rightarrow> ret ()
           | Inr qs \<Rightarrow> for_each (\<lambda>q. ignore (on_db (NotifyDelivery send q))) qs)))))"

definition QueueResolvedAlertNotifications :: "transport option \<Rightarrow> alert list \<Rightarrow> ('r, unit) rt_prog" where
  "QueueResolvedAlertNotifications notifier as =
    bindp (queueRecoveryNotifications as) (\<lambda>_. notifyPendingAlerts notifier)"

section \<open>Thresholds\<close>

definition counter_key :: "string \<Rightarrow> string \<Rightarrow> string \<Rightarrow> string" where
  "counter_key sourceType sourceID title = sourceType @ ''|'' @ sourceID @ ''|'' @ title"

definition recordThresholdAlertSample ::
  "string \<Rightarrow> string \<Rightarrow> string \<Rightarrow> bool \<Rightarrow> ('r, int) rt_prog" where
  "recordThresholdAlertSample sourceType sourceID title exceeded s =
    (let key = counter_key sourceType sourceID title in
     if \<not> exceeded then (Inr 0, s\<lparr>alertCounts := (alertCounts s)(key := None)\<rparr>)
     else let n = (case alertCounts s key of None \<Rightarrow> 0 | Some n \<Rightarrow> n) + 1 in
       (Inr n, s\<lparr>alertCounts := (alertCounts s)(key \<mapsto> n)\<rparr>))"

definition host_title :: "string \<Rightarrow> string" where
  "host_title metric = zh ''e5aebfe4b8bbe69cba'' @ metric @ zh ''e4bdbfe794a8e78e87e8bf87e9ab98''"

definition evaluateHostThresholdAlert ::
  "agent \<Rightarrow> string \<Rightarrow> int \<Rightarrow> int \<Rightarrow> int \<Rightarrow> string \<Rightarrow> ('r, unit) rt_prog" where
  "evaluateHostThresholdAlert item metric value limit consecutiveLimit key =
    (let title = host_title metric; sourceID = agent_id item @ '':'' @ key in
     if value \<ge> limit then
       bindp (recordThresholdAlertSample ''host'' sourceID title True) (\<lambda>count.
       if count \<ge> consecutiveLimit then
         ignore (on_db (UpsertActiveAlert ''warning'' ''host'' sourceID title
           (zh ''e5aebfe4b8bbe69cba'' @ '' '' @ agent_name item @ '' '' @ metric @ zh ''20e4bdbfe794a8e78e87e8bebee588b020'' @ Itoa value @ ''%'')
           [''agent'' \<mapsto> JStr (agent_name item), ''metric'' \<mapsto> JStr key, ''value'' \<mapsto> JInt value,
            ''limit'' \<mapsto> JInt limit, ''consecutive'' \<mapsto> JInt count]))
       else ret ())
     else
       bindp (recordThresholdAlertSample ''host'' sourceID title False) (\<lambda>_.
       resolveActiveAlert ''host'' sourceID title))"

definition vm_state_title :: string where
  "vm_state_title = zh ''e8999ae68b9fe69cbae78ab6e68081e5bc82e5b8b8''"

definition evaluateVMStateAlert :: "agent \<Rightarrow> VirtualMachine \<Rightarrow> ('r, unit) rt_prog" where
  "evaluateVMStateAlert item vm =
    (if vm_Status vm = ''error'' \<or> vm_Status vm = ''unknown'' then
       ignore (on_db (UpsertActiveAlert ''critical'' ''virtual_machine'' (vm_ID vm @ '':state'') vm_state_title
         (zh ''e8999ae68b9fe69cba'' @ '' '' @ vm_Name vm @ zh ''20e5bd93e5898de78ab6e68081e4b8ba20'' @ vm_Status vm)
         (vmAlertMetadata item vm [''status'' \<mapsto> JStr (vm_Status vm)])))
     else resolveActiveAlert ''virtual_machine'' (vm_ID vm @ '':state'') vm_state_title)"

definition vm_title :: "string \<Rightarrow> string" where
  "vm_title metric = zh ''e8999ae68b9fe69cba'' @ metric @ zh ''e4bdbfe794a8e78e87e8bf87e9ab98''"

definition evaluateVMThresholdAlert ::
  "agent \<Rightarrow> VirtualMachine \<Rightarrow> string \<Rightarrow> int \<Rightarrow> bool \<Rightarrow> int \<Rightarrow> int \<Rightarrow> string \<Rightarrow> ('r, unit) rt_prog" where
  "evaluateVMThresholdAlert item vm metric value available limit consecutiveLimit key =
    (let title = vm_title metric; sourceID = vm_ID vm @ '':'' @ key in
     if available \<and> value \<ge> limit then
       bindp (recordThresholdAlertSample ''virtual_machine'' sourceID title True) (\<lambda>count.
       if count \<ge> consecutiveLimit then
         ignore (on_db (UpsertActiveAlert ''warning'' ''virtual_machine'' sourceID title
           (zh ''e8999ae68b9fe69cba'' @ '' '' @ vm_Name vm @ '' '' @ metric @ zh ''20e4bdbfe794a8e78e87e8bebee588b020'' @ Itoa value @ ''%'')
           (vmAlertMetadata item vm [''metric'' \<mapsto> JStr key, ''value'' \<mapsto> JInt value,
             ''limit'' \<mapsto> JInt limit, ''consecutive'' \<mapsto> JInt count])))
       else ret ())
     else
       bindp (recordThresholdAlertSample ''virtual_machine'' sourceID title False) (\<lambda>_.
       resolveActiveAlert ''virtual_machine'' sourceID title))"

text \<open>\<open>for _, vm := range vms\<close>: the machines in the order the map is walked, which is an argument.\<close>

definition evaluateRuntimeAlerts :: "agent \<Rightarrow> Host \<Rightarrow> VirtualMachine list \<Rightarrow> ('r, unit) rt_prog" where
  "evaluateRuntimeAlerts item host vms =
    bindp loadAlertRuntimeConfig (\<lambda>config.
    let rl = ResourceLimit config; cl = ConsecutiveLimit config in
    bindp (evaluateHostThresholdAlert item ''CPU'' (h_CPUUsage host) rl cl ''cpu'') (\<lambda>_.
    bindp (evaluateHostThresholdAlert item (zh ''e58685e5ad98'') (h_MemoryUsage host) rl cl ''memory'') (\<lambda>_.
    bindp (evaluateHostThresholdAlert item (zh ''e5ad98e582a8'') (h_StorageUsage host) rl cl ''storage'') (\<lambda>_.
    for_each (\<lambda>vm.
      bindp (evaluateVMStateAlert item vm) (\<lambda>_.
      bindp (evaluateVMThresholdAlert item vm ''CPU'' (vm_CPUUsage vm) (vm_CPUUsageAvailable vm) rl cl ''cpu'') (\<lambda>_.
      bindp (evaluateVMThresholdAlert item vm (zh ''e58685e5ad98'') (vm_MemoryUsage vm) (vm_MemoryUsageAvailable vm)
        rl cl ''memory'') (\<lambda>_.
      evaluateVMThresholdAlert item vm (zh ''e7a381e79b98'') (vm_DiskUsage vm) (vm_DiskUsageAvailable vm)
        rl cl ''disk'')))) vms))))"

section \<open>Agents that fail to answer\<close>

definition offline_title :: "agent \<Rightarrow> string" where
  "offline_title item = ''Agent '' @ agent_name item @ zh ''20e7a6bbe7babf''"

definition offline_message :: string where
  "offline_message = zh ''e8bf9ee7bbade5908ce6ada5e5a4b1e8b4a5efbc8c4167656e7420e5b7b2e6a087e8aeb0e4b8bae7a6bbe7babf''"

definition recordAgentSyncFailure :: "transport option \<Rightarrow> agent \<Rightarrow> string \<Rightarrow> ('r, unit) rt_prog" where
  "recordAgentSyncFailure notifier item message =
    bindp loadAlertRuntimeConfig (\<lambda>config.
    bindp (ignore (on_db (UpdateAgentSyncFailure (agent_id item) message (OfflineFailureLimit config)))) (\<lambda>_.
    if agent_failure_count item + 1 < OfflineFailureLimit config then ret ()
    else
      bindp (ignore (on_db (UpsertActiveAlert ''critical'' ''agent'' (agent_id item) (offline_title item)
        offline_message
        [''agent'' \<mapsto> JStr (agent_name item), ''endpoint'' \<mapsto> JStr (agent_endpoint item),
         ''lastError'' \<mapsto> JStr message, ''failureCount'' \<mapsto> JInt (agent_failure_count item + 1)]))) (\<lambda>_.
      notifyPendingAlerts notifier)))"

end
