(* ===== verification/Route_Helpers.thy ===== *)
theory Route_Helpers
  imports Access_Router
begin

text \<open>
  The parsing of paths and query parameters: \<open>backend/api/router/route_helpers.go\<close>, and the two path
  parsers of \<open>alerts.go\<close> and \<open>notifications_panel.go\<close>. The body decoder is input and output.
\<close>

definition path_parts :: "string \<Rightarrow> string \<Rightarrow> string list" where
  "path_parts path prefix = Split CHR ''/'' (TrimCut (TrimPrefix path prefix) ''/'')"

definition parseVMPath :: "string \<Rightarrow> (string \<times> string) option" where
  "parseVMPath path =
    (let trimmed = TrimCut (TrimPrefix path ''/api/vms/'') ''/'' in
     if trimmed = [] then None
     else case Split CHR ''/'' trimmed of
       [a] \<Rightarrow> Some (a, [])
     | [a, b] \<Rightarrow> Some (a, b)
     | _ \<Rightarrow> None)"

text \<open>Two segments, both with text.\<close>

definition two_parts :: "string list \<Rightarrow> (string \<times> string) option" where
  "two_parts parts = (case parts of [a, b] \<Rightarrow> if a = [] \<or> b = [] then None else Some (a, b) | _ \<Rightarrow> None)"

definition parseSnapshotPath :: "string \<Rightarrow> (string \<times> string) option" where
  "parseSnapshotPath path =
    (if TrimCut (TrimPrefix path ''/api/snapshots/'') ''/'' = [] then None
     else two_parts (path_parts path ''/api/snapshots/''))"

definition parseAlertPath :: "string \<Rightarrow> (string \<times> string) option" where
  "parseAlertPath path = two_parts (path_parts path ''/api/alerts/'')"

definition parseNotificationActionPath :: "string \<Rightarrow> (string \<times> string) option" where
  "parseNotificationActionPath path = two_parts (path_parts path ''/api/notifications/'')"

definition parseAgentPath :: "string \<Rightarrow> (string \<times> string) option" where
  "parseAgentPath path =
    (let trimmed = TrimCut (TrimPrefix path ''/api/agents/'') ''/'' in
     if trimmed = [] then None
     else case Split CHR ''/'' trimmed of
       [a] \<Rightarrow> if a \<noteq> [] then Some (a, []) else None
     | [a, b] \<Rightarrow> if a \<noteq> [] \<and> b \<noteq> [] then Some (a, b) else None
     | _ \<Rightarrow> None)"

definition mapVMAction :: "string \<Rightarrow> string option" where
  "mapVMAction action =
    (if action = ''start'' \<or> action = ''reboot'' then Some action
     else if action = ''force-reboot'' then Some ''reset''
     else if action = ''pause'' then Some ''suspend''
     else if action = ''resume'' then Some ''resume''
     else if action = ''stop'' then Some ''shutdown''
     else if action = ''force-stop'' then Some ''destroy''
     else if action = ''shutdown'' then Some ''shutdown''
     else if action = ''force-shutdown'' then Some ''destroy''
     else if action = ''delete'' then Some ''delete''
     else if action = ''force-delete'' then Some ''force-delete''
     else None)"

text \<open>\<open>raw\<close> is the query parameter, empty when it is missing.\<close>

definition parseLimit :: "string \<Rightarrow> int \<Rightarrow> int" where
  "parseLimit raw0 fb =
    (let raw = TrimSpace raw0 in
     if raw = [] then fb
     else if EqualFold raw ''all'' then 0
     else let (limit, ok) = ParseInt raw in
       if \<not> ok \<or> limit \<le> 0 then fb else if limit > 200 then 200 else limit)"

definition parseOffset :: "string \<Rightarrow> string \<Rightarrow> int \<Rightarrow> int" where
  "parseOffset rawOffset0 rawPage limit =
    (if limit \<le> 0 then 0
     else let rawOffset = TrimSpace rawOffset0;
              (offset, ok) = ParseInt rawOffset in
       if rawOffset \<noteq> [] \<and> ok \<and> offset > 0 then offset
       else let (page, ok2) = ParseInt rawPage in
         if \<not> ok2 \<or> page \<le> 1 then 0 else i64 ((page - 1) * limit))"

end
