(* ===== verification/Alert_Router.thy ===== *)
theory Alert_Router
  imports Alert_Service Route_Helpers
begin

text \<open>
  The endpoints of the alerts and of the notification panel: \<open>backend/api/router/alerts.go\<close> and
  \<open>notifications_panel.go\<close>. \<open>u\<close> is the user of the session that \<open>requireAuth\<close> has put in the context.
\<close>

definition guarded :: "user \<Rightarrow> string \<Rightarrow> ('s, 'e, response) prog \<Rightarrow> ('s, 'e, response) prog" where
  "guarded u permission handler =
    (case ensurePermission u permission of Some resp \<Rightarrow> ret resp | None \<Rightarrow> handler)"

definition handleAlertDeliveries :: "user \<Rightarrow> string \<Rightarrow> ('r, response) rt_prog" where
  "handleAlertDeliveries u aid = guarded u ''operations.read'' (
    bindp (attempt (on_db (ListAlertNotificationDeliveries aid))) (\<lambda>r.
    case r of
      Inl _ \<Rightarrow> ret (writeError 500 ''list_alert_deliveries_failed'')
    | Inr items \<Rightarrow> ret (200, BDeliveries items)))"

definition handleAlertRoute ::
  "transport option \<Rightarrow> user \<Rightarrow> string \<Rightarrow> string \<Rightarrow> string \<Rightarrow> ('r, response) rt_prog" where
  "handleAlertRoute notifier u ip meth path =
    (case parseAlertPath path of
      None \<Rightarrow> ret (writeError 404 ''not_found'')
    | Some (aid, action) \<Rightarrow>
        if meth = ''GET'' \<and> action = ''deliveries'' then handleAlertDeliveries u aid
        else if meth \<noteq> ''POST'' \<or> action \<noteq> ''resolve'' then ret (writeError 405 ''method_not_allowed'')
        else guarded u ''alerts.manage'' (
          bindp (attempt (on_db (ResolveAlertReturning aid))) (\<lambda>r.
          case r of
            Inl e \<Rightarrow> if e = ErrNotFound then ret (writeError 404 ''alert_not_found'')
              else ret (writeError 500 ''resolve_alert_failed'')
          | Inr a \<Rightarrow>
              bindp (QueueResolvedAlertNotifications notifier [a]) (\<lambda>_.
              bindp (ignore (on_db (WriteAudit (ID u) ''alert.resolve'' ''alert'' aid ip Map.empty))) (\<lambda>_.
              ret (200, BStatusOk))))))"

definition handleListNotifications :: "string \<Rightarrow> string \<Rightarrow> ('r, response) rt_prog" where
  "handleListNotifications rawLimit rawStatus =
    (let limit = parseLimit rawLimit 20;
         status = (if TrimSpace rawStatus = [] then ''active'' else TrimSpace rawStatus) in
     bindp (attempt (on_db (ListAlertNotifications status limit))) (\<lambda>r.
     case r of
       Inl _ \<Rightarrow> ret (writeError 500 ''list_notifications_failed'')
     | Inr (items, count) \<Rightarrow> ret (200, BAlerts items count)))"

definition handleUnreadNotificationCount :: "('r, response) rt_prog" where
  "handleUnreadNotificationCount =
    bindp (attempt (on_db CountUnreadAlertNotifications)) (\<lambda>r.
    case r of
      Inl _ \<Rightarrow> ret (writeError 500 ''count_notifications_failed'')
    | Inr count \<Rightarrow> ret (200, BCount count))"

definition handleNotificationAction ::
  "user \<Rightarrow> string \<Rightarrow> string \<Rightarrow> string \<Rightarrow> ('r, response) rt_prog" where
  "handleNotificationAction u ip meth path = guarded u ''alerts.manage'' (
    case parseNotificationActionPath path of
      None \<Rightarrow> ret (writeError 404 ''not_found'')
    | Some (aid, action) \<Rightarrow>
        if meth \<noteq> ''POST'' then ret (writeError 405 ''method_not_allowed'')
        else if action = ''read'' then
          bindp (attempt (on_db (MarkAlertNotificationRead aid))) (\<lambda>r.
          case r of
            Inl e \<Rightarrow> if e = ErrNotFound then ret (writeError 404 ''notification_not_found'')
              else ret (writeError 500 ''read_notification_failed'')
          | Inr _ \<Rightarrow>
              bindp (ignore (on_db (WriteAudit (ID u) ''notification.read'' ''alert'' aid ip Map.empty))) (\<lambda>_.
              ret (200, BStatusOk)))
        else ret (writeError 404 ''unknown_action''))"

definition handleMarkAllNotificationsRead :: "user \<Rightarrow> string \<Rightarrow> ('r, response) rt_prog" where
  "handleMarkAllNotificationsRead u ip = guarded u ''alerts.manage'' (
    bindp (attempt (on_db MarkAllAlertNotificationsRead)) (\<lambda>r.
    case r of
      Inl _ \<Rightarrow> ret (writeError 500 ''read_notifications_failed'')
    | Inr _ \<Rightarrow>
        bindp (ignore (on_db (WriteAudit (ID u) ''notification.read_all'' ''notification'' [] ip Map.empty))) (\<lambda>_.
        ret (200, BStatusOk))))"

definition handleClearNotifications :: "user \<Rightarrow> string \<Rightarrow> ('r, response) rt_prog" where
  "handleClearNotifications u ip = guarded u ''alerts.manage'' (
    bindp (attempt (on_db DismissAlertNotifications)) (\<lambda>r.
    case r of
      Inl _ \<Rightarrow> ret (writeError 500 ''clear_notifications_failed'')
    | Inr _ \<Rightarrow>
        bindp (ignore (on_db (WriteAudit (ID u) ''notification.clear'' ''notification'' [] ip Map.empty))) (\<lambda>_.
        ret (200, BStatusOk))))"

end
