(* ===== verification/Alert_Invariant.thy ===== *)
theory Alert_Invariant
  imports Alert_Router
begin

text \<open>
  The invariant of the alert tables (\<open>alert_wf\<close>): every operation of the repository keeps it, so every
  function of the service and every handler does. \<open>alert_step\<close> is one step of the program on these
  tables, and the environment's.
\<close>

section \<open>Changing rows\<close>

lemma distinct_filter_map:
  assumes "distinct (map k (filter p xs))" "\<And>x. x \<in> set xs \<Longrightarrow> k (g x) = k x \<and> (p (g x) \<longrightarrow> p x)"
  shows "distinct (map k (filter p (map g xs)))"
  using assms
proof (induction xs)
  case (Cons a xs)
  have IH: "distinct (map k (filter p (map g xs)))"
    using Cons.prems by (intro Cons.IH) (auto split: if_splits)
  show ?case
  proof (cases "p (g a)")
    case True
    with Cons.prems(2) [of a] have a: "p a" "k (g a) = k a" by auto
    have "k ` set (filter p (map g xs)) \<subseteq> k ` set (filter p xs)"
    proof
      fix y assume "y \<in> k ` set (filter p (map g xs))"
      then obtain x where "x \<in> set xs" "p (g x)" "y = k (g x)" by auto
      with Cons.prems(2) [of x] show "y \<in> k ` set (filter p xs)" by auto
    qed
    moreover have "k a \<notin> k ` set (filter p xs)" using Cons.prems(1) a(1) by simp
    ultimately show ?thesis using IH True a(2) by auto
  qed (use IH in simp)
qed simp

text \<open>What an update of an alert may change.\<close>

definition alert_row_ok :: "int \<Rightarrow> alert \<Rightarrow> bool" where
  "alert_row_ok t a \<longleftrightarrow> (alert_status a = ''active'' \<or> alert_status a = ''resolved'') \<and>
     (alert_active a \<longleftrightarrow> alert_resolved_at a = None) \<and>
     alert_first_seen_at a \<le> alert_last_seen_at a \<and> alert_last_seen_at a \<le> t"

definition delivery_row_ok :: "db \<Rightarrow> delivery \<Rightarrow> bool" where
  "delivery_row_ok d q \<longleftrightarrow> dl_status q \<in> {''pending'', ''sent'', ''failed''} \<and> 0 \<le> dl_retry_count q \<and>
     dl_alert_id q \<in> alert_id ` set (alerts d) \<and> dl_channel_id q \<in> ch_id ` set (channels d)"

lemma delivery_row_ok_uuids [simp]: "delivery_row_ok (d\<lparr>uuids := us\<rparr>) q = delivery_row_ok d q"
  by (simp add: delivery_row_ok_def)

lemma alert_wf_alt: "alert_wf d \<longleftrightarrow>
   distinct (map alert_id (alerts d)) \<and> distinct (map alert_key (filter alert_active (alerts d))) \<and>
   (\<forall>a \<in> set (alerts d). alert_row_ok (clock d) a) \<and>
   distinct (map dl_id (deliveries d)) \<and> distinct (map dl_key (deliveries d)) \<and>
   (\<forall>q \<in> set (deliveries d). delivery_row_ok d q)"
  by (auto simp: alert_wf_def alert_row_ok_def delivery_row_ok_def)

lemma alert_wf_upd_alerts:
  assumes wf: "alert_wf d"
    and f: "\<And>a. a \<in> set (alerts d) \<Longrightarrow> p a \<Longrightarrow> alert_id (f a) = alert_id a \<and> alert_key (f a) = alert_key a \<and>
      (alert_active (f a) \<longrightarrow> alert_active a) \<and> alert_row_ok (clock d) (f a)"
  shows "alert_wf (d\<lparr>alerts := upd_where p f (alerts d)\<rparr>)"
proof -
  have ids: "map alert_id (upd_where p f (alerts d)) = map alert_id (alerts d)"
    using f by (simp add: upd_where_def)
  then have "alert_id ` set (upd_where p f (alerts d)) = alert_id ` set (alerts d)"
    by (metis list.set_map)
  moreover have "distinct (map alert_key (filter alert_active (upd_where p f (alerts d))))"
    unfolding upd_where_def using wf f by (intro distinct_filter_map) (auto simp: alert_wf_def)
  moreover have "alert_row_ok (clock d) a" if "a \<in> set (upd_where p f (alerts d))" for a
    using that wf f by (auto simp: set_upd_where alert_wf_alt split: if_splits)
  ultimately show ?thesis using wf ids by (simp add: alert_wf_alt delivery_row_ok_def)
qed

lemma alert_wf_upd_deliveries:
  assumes wf: "alert_wf d"
    and f: "\<And>q. q \<in> set (deliveries d) \<Longrightarrow> p q \<Longrightarrow> dl_id (f q) = dl_id q \<and> dl_key (f q) = dl_key q \<and>
      dl_status (f q) \<in> {''pending'', ''sent'', ''failed''} \<and> 0 \<le> dl_retry_count (f q)"
  shows "alert_wf (d\<lparr>deliveries := upd_where p f (deliveries d)\<rparr>)"
proof -
  have "map dl_id (upd_where p f (deliveries d)) = map dl_id (deliveries d)"
    "map dl_key (upd_where p f (deliveries d)) = map dl_key (deliveries d)"
    using f by (simp_all add: upd_where_def)
  moreover have "delivery_row_ok d q" if q: "q \<in> set (upd_where p f (deliveries d))" for q
  proof -
    from q obtain r where r: "r \<in> set (deliveries d)" "q = (if p r then f r else r)"
      by (auto simp: set_upd_where)
    with wf have "delivery_row_ok d r" by (simp add: alert_wf_alt)
    then show ?thesis using f [of r] r by (cases "p r") (auto simp: delivery_row_ok_def dl_key_def)
  qed
  ultimately show ?thesis using wf by (simp add: alert_wf_alt delivery_row_ok_def)
qed

section \<open>The operations of the repository\<close>

lemma fault_blind_alert_wf [simp]: "fault_blind alert_wf"
  by (simp add: fault_blind_def alert_wf_def)

lemma alert_wf_uuids [simp]: "alert_wf (d\<lparr>uuids := us\<rparr>) = alert_wf d"
  by (simp add: alert_wf_def)

lemma alert_wf_other [simp]:
  "alert_wf (d\<lparr>audit_log := x\<rparr>) = alert_wf d" "alert_wf (d\<lparr>agents := y\<rparr>) = alert_wf d"
  "alert_wf (d\<lparr>settings := z\<rparr>) = alert_wf d" "alert_wf (d\<lparr>tasks := w\<rparr>) = alert_wf d"
  by (simp_all add: alert_wf_def)

lemmas keeps_alert_stmt = keeps_stmt [OF fault_blind_alert_wf]

lemma keeps_alert_query [keeps_intros]: "keeps alert_wf (query f)"
  by (rule keeps_query) simp

lemma keeps_alert_exec:
  "(\<And>d. alert_wf d \<Longrightarrow> alert_wf (f d)) \<Longrightarrow> keeps alert_wf (exec f)"
  by (rule keeps_exec) simp_all

lemma keeps_alert_exec_count:
  "(\<And>d. alert_wf d \<Longrightarrow> alert_wf (f d)) \<Longrightarrow> keeps alert_wf (exec_count n f)"
  by (rule keeps_exec_count) simp_all

lemma keeps_Upsert [keeps_intros]: "keeps alert_wf (UpsertActiveAlert l st sid ti m md)"
  unfolding UpsertActiveAlert_def
proof (rule keeps_alert_stmt)
  fix d assume wf: "alert_wf d"
  obtain i d1 where g: "gen_uuid d = (i, d1)" by fastforce
  then obtain us where d1: "d1 = d\<lparr>uuids := us\<rparr>" by (blast dest: gen_uuid_tables)
  let ?f = "\<lambda>a. a\<lparr>alert_level := l, alert_message := m, alert_metadata := md,
    alert_last_seen_at := clock d1, alert_updated_at := clock d1\<rparr>"
  have upd: "alert_wf (d1\<lparr>alerts := upd_where (active_on st sid ti) ?f (alerts d1)\<rparr>)"
    using wf unfolding d1
    by (intro alert_wf_upd_alerts) (auto simp: alert_key_def alert_active_def alert_row_ok_def alert_wf_alt)
  show "alert_wf (snd (let (aid, d1) = gen_uuid d in
     if list_ex (active_on st sid ti) (alerts d1)
     then (Inr (), d1\<lparr>alerts := upd_where (active_on st sid ti)
       (\<lambda>a. a\<lparr>alert_level := l, alert_message := m, alert_metadata := md,
         alert_last_seen_at := clock d1, alert_updated_at := clock d1\<rparr>) (alerts d1)\<rparr>)
     else if aid \<in> alert_id ` set (alerts d1) then (Inl UniqueViolation, d1)
     else (Inr (), d1\<lparr>alerts := alerts d1 @
       [\<lparr>alert_id = aid, alert_level = l, alert_status = ''active'', alert_source_type = st,
         alert_source_id = sid, alert_title = ti, alert_message = m,
         alert_metadata = md, alert_first_seen_at = clock d1, alert_last_seen_at = clock d1,
         alert_resolved_at = None, alert_notification_sent_at = None, alert_read_at = None,
         alert_dismissed_at = None, alert_created_at = clock d1, alert_updated_at = clock d1\<rparr>]\<rparr>)))"
    using wf upd by (auto simp: g d1 alert_wf_def alert_key_def alert_active_def active_on_def list_ex_iff)
qed

lemma alert_wf_resolve: "(\<And>a. p a \<Longrightarrow> alert_active a) \<Longrightarrow> alert_wf d \<Longrightarrow> alert_wf (resolve_where p d)"
  unfolding resolve_where_def
  by (rule alert_wf_upd_alerts)
    (auto simp: resolved_def alert_key_def alert_active_def alert_row_ok_def alert_wf_alt)

lemma keeps_resolve_returning [keeps_intros]:
  assumes "\<And>a. p a \<Longrightarrow> alert_active a"
  shows "keeps alert_wf (resolve_returning p)"
  unfolding resolve_returning_def by (rule keeps_alert_stmt) (use assms in \<open>simp add: alert_wf_resolve\<close>)

lemma keeps_resolutions [keeps_intros]:
  "keeps alert_wf (ResolveActiveAlert st sid ti)" "keeps alert_wf (ResolveActiveAlertsBySource st sid)"
  "keeps alert_wf (ResolveAlert i)" "keeps alert_wf (ResolveActiveAlertReturning st sid ti)"
  "keeps alert_wf (ResolveActiveAlertsBySourceReturning st sid)" "keeps alert_wf (ResolveAlertReturning i)"
  unfolding ResolveActiveAlert_def ResolveActiveAlertsBySource_def ResolveAlert_def
    ResolveActiveAlertReturning_def ResolveActiveAlertsBySourceReturning_def ResolveAlertReturning_def
  by (intro keeps_intros keeps_alert_exec keeps_alert_exec_count alert_wf_resolve;
      simp add: active_on_def active_from_def)+

lemma alert_wf_touch:
  assumes "\<And>a. alert_id (f a) = alert_id a \<and> alert_key (f a) = alert_key a \<and>
    alert_status (f a) = alert_status a \<and> alert_resolved_at (f a) = alert_resolved_at a \<and>
    alert_first_seen_at (f a) = alert_first_seen_at a \<and> alert_last_seen_at (f a) = alert_last_seen_at a"
    and "alert_wf d"
  shows "alert_wf (d\<lparr>alerts := upd_where p f (alerts d)\<rparr>)"
  using assms
  by (intro alert_wf_upd_alerts) (auto simp: alert_active_def alert_row_ok_def alert_wf_alt)

lemma keeps_panel [keeps_intros]:
  "keeps alert_wf (MarkAlertNotificationRead i)" "keeps alert_wf MarkAllAlertNotificationsRead"
  "keeps alert_wf DismissAlertNotifications" "keeps alert_wf (MarkAlertNotificationSent i)"
  unfolding MarkAlertNotificationRead_def MarkAllAlertNotificationsRead_def DismissAlertNotifications_def
    MarkAlertNotificationSent_def
  by (intro keeps_intros keeps_alert_exec keeps_alert_exec_count alert_wf_touch;
      simp add: mark_read_def alert_key_def)+

lemma keeps_alert_reads [keeps_intros]:
  "keeps alert_wf (ListAlertNotifications s l)" "keeps alert_wf CountUnreadAlertNotifications"
  "keeps alert_wf (ListPendingAlertNotifications l)" "keeps alert_wf (ListPendingAlertNotificationDeliveries l)"
  "keeps alert_wf (ListAlertNotificationDeliveries i)" "keeps alert_wf ListNotificationChannels"
  unfolding ListAlertNotifications_def CountUnreadAlertNotifications_def ListPendingAlertNotifications_def
    ListPendingAlertNotificationDeliveries_def ListAlertNotificationDeliveries_def
    ListNotificationChannels_def Let_def
  by (intro keeps_intros)+

lemma keeps_insert_delivery [keeps_intros]: "keeps alert_wf (insert_delivery i e c)"
  unfolding insert_delivery_def
proof (rule keeps_alert_stmt)
  fix d assume wf: "alert_wf d"
  obtain j d1 where g: "gen_uuid d = (j, d1)" by fastforce
  then obtain us where d1: "d1 = d\<lparr>uuids := us\<rparr>" by (blast dest: gen_uuid_tables)
  have upd: "alert_wf (d1\<lparr>deliveries := upd_where (\<lambda>q. dl_key q = (i, e, c) \<and> dl_status q = ''failed'')
      (\<lambda>q. q\<lparr>dl_status := ''pending'', dl_error := [], dl_next_retry_at := clock d1,
         dl_updated_at := clock d1\<rparr>) (deliveries d1)\<rparr>)"
    using wf unfolding d1
    by (intro alert_wf_upd_deliveries) (auto simp: dl_key_def alert_wf_def)
  show "alert_wf (snd (let (j, d1) = gen_uuid d; key = (i, e, c) in
     if e \<noteq> ''problem'' \<and> e \<noteq> ''recovery'' then (Inl DbFailure, d1)
     else if list_ex (\<lambda>q. dl_key q = key) (deliveries d1)
     then (Inr (), d1\<lparr>deliveries := upd_where (\<lambda>q. dl_key q = key \<and> dl_status q = ''failed'')
       (\<lambda>q. q\<lparr>dl_status := ''pending'', dl_error := [], dl_next_retry_at := clock d1,
         dl_updated_at := clock d1\<rparr>) (deliveries d1)\<rparr>)
     else if j \<in> dl_id ` set (deliveries d1) then (Inl UniqueViolation, d1)
     else if i \<notin> alert_id ` set (alerts d1) \<or> c \<notin> ch_id ` set (channels d1)
     then (Inl ForeignKeyViolation, d1)
     else (Inr (), d1\<lparr>deliveries := deliveries d1 @
       [\<lparr>dl_id = j, dl_alert_id = i, dl_event_type = e, dl_channel_id = c,
         dl_status = ''pending'', dl_error = [], dl_retry_count = 0, dl_next_retry_at = clock d1,
         dl_last_attempt_at = None, dl_sent_at = None, dl_created_at = clock d1,
         dl_updated_at = clock d1\<rparr>]\<rparr>)))"
    using wf upd by (auto simp: g d1 alert_wf_def dl_key_def list_ex_iff Let_def)
qed

lemma keeps_ensure_deliveries [keeps_intros]: "keeps alert_wf (ensure_deliveries i e cs n)"
  by (induction cs arbitrary: n) (auto intro!: keeps_intros)

lemma keeps_Ensure [keeps_intros]: "keeps alert_wf (EnsureAlertNotificationDeliveries a e)"
  unfolding EnsureAlertNotificationDeliveries_def by (intro keeps_intros)

lemma keeps_delivery_marks [keeps_intros]:
  "keeps alert_wf (MarkAlertNotificationDeliverySent i)"
  "keeps alert_wf (MarkAlertNotificationDeliveryFailedWithConfig i m c)"
  unfolding MarkAlertNotificationDeliverySent_def MarkAlertNotificationDeliveryFailedWithConfig_def Let_def
  by (intro keeps_alert_exec alert_wf_upd_deliveries;
      force simp: dl_key_def delivery_failed_def alert_wf_def)+

lemma keeps_alert_settings [keeps_intros]: "keeps alert_wf GetSystemBaseConfig"
  unfolding GetSystemBaseConfig_def UpsertSystemBaseConfig_def
  by (intro keeps_intros keeps_alert_exec) simp

lemma keeps_alert_audit [keeps_intros]: "keeps alert_wf (WriteAudit u a rt ri ip m)"
  unfolding WriteAudit_def by (rule keeps_alert_stmt) auto

lemma keeps_alert_agents [keeps_intros]:
  "keeps alert_wf (UpdateAgentSyncFailure i m l)" "keeps alert_wf (UpdateAgentSyncSuccess i v cs)"
  unfolding UpdateAgentSyncFailure_def UpdateAgentSyncSuccess_def update_agent_def Let_def
  by (intro keeps_alert_exec; simp)+

lemma keeps_transaction:
  assumes "fault_blind I" "keeps I m"
  shows "keeps I (transaction m)"
proof (rule keepsI)
  fix d assume I: "I d"
  let ?m = "bindp (exec id) (\<lambda>_. bindp m (\<lambda>x. bindp (exec id) (\<lambda>_. ret x)))"
  have "keeps I ?m" using assms by (intro keeps_intros) simp_all
  from keepsD [OF this I] I assms(1) show "I (snd (transaction m d))"
    by (auto simp: transaction_def fault_blind_def split: prod.splits sum.splits)
qed

lemma keeps_retention [keeps_intros]: "keeps alert_wf (DeleteLogRecordsBefore t)"
  unfolding DeleteLogRecordsBefore_def
proof (intro keeps_transaction keeps_intros keeps_alert_exec)
  fix d assume wf: "alert_wf d"
  let ?keep = "filter (\<lambda>a. \<not> alert_created_at a < t) (alerts d)"
  have "filter alert_active ?keep = filter (\<lambda>a. \<not> alert_created_at a < t) (filter alert_active (alerts d))"
    by (simp add: conj_commute)
  then have "distinct (map alert_key (filter alert_active ?keep))"
    using wf by (simp add: alert_wf_def distinct_map_filter del: filter_filter)
  then show "alert_wf (let keep = ?keep in d\<lparr>alerts := keep,
      deliveries := filter (\<lambda>q. dl_alert_id q \<in> alert_id ` set keep) (deliveries d)\<rparr>)"
    using wf by (auto simp: alert_wf_def Let_def distinct_map_filter)
qed simp_all

section \<open>The service and the handlers\<close>

abbreviation rt_wf :: "'r rt \<Rightarrow> bool" where
  "rt_wf s \<equiv> alert_wf (rt_db s)"

lemma keeps_on_db: "keeps I m \<Longrightarrow> keeps (\<lambda>s. I (rt_db s)) (on_db m)"
  by (auto simp: keeps_def on_db_def split: prod.splits)

lemma keeps_rt_db [keeps_intros]: "keeps alert_wf m \<Longrightarrow> keeps rt_wf (on_db m)"
  by (rule keeps_on_db)

lemma keeps_NotifyDelivery [keeps_intros]: "keeps alert_wf (NotifyDelivery send q)"
  unfolding NotifyDelivery_def alertNotificationRuntimeConfig_def notificationChannel_def Let_def
  by (intro keeps_intros)

lemma keeps_alert_config [keeps_intros]: "keeps rt_wf loadAlertRuntimeConfig"
  unfolding loadAlertRuntimeConfig_def by (intro keeps_intros)

lemma keeps_queues [keeps_intros]:
  "keeps rt_wf (queueProblemNotification a)" "keeps rt_wf (queueRecoveryNotifications as)"
  unfolding queueProblemNotification_def queueRecoveryNotifications_def by (intro keeps_intros)+

lemma keeps_notify [keeps_intros]:
  "keeps rt_wf (notifyPendingAlerts n)" "keeps rt_wf (resolveActiveAlert st sid ti)"
  "keeps rt_wf (resolveActiveAlertsBySource st sid)"
  unfolding notifyPendingAlerts_def resolveActiveAlert_def resolveActiveAlertsBySource_def
  by (intro keeps_intros)+

lemma keeps_QueueResolved [keeps_intros]: "keeps rt_wf (QueueResolvedAlertNotifications n as)"
  unfolding QueueResolvedAlertNotifications_def by (intro keeps_intros)

lemma keeps_sample: "(\<And>s c. I (s\<lparr>alertCounts := c\<rparr>) = I s) \<Longrightarrow> keeps I (recordThresholdAlertSample st sid ti b)"
  by (auto simp: keeps_def recordThresholdAlertSample_def Let_def)

lemma keeps_rt_sample [keeps_intros]: "keeps rt_wf (recordThresholdAlertSample st sid ti b)"
  by (rule keeps_sample) simp

lemma keeps_evaluate [keeps_intros]: "keeps rt_wf (evaluateRuntimeAlerts item h vms)"
  unfolding evaluateRuntimeAlerts_def evaluateHostThresholdAlert_def evaluateVMStateAlert_def
    evaluateVMThresholdAlert_def Let_def
  by (intro keeps_intros)

lemma keeps_sync_failure [keeps_intros]: "keeps rt_wf (recordAgentSyncFailure n item m)"
  unfolding recordAgentSyncFailure_def by (intro keeps_intros)

lemma keeps_guarded [keeps_intros]: "keeps I h \<Longrightarrow> keeps I (guarded u p h)"
  unfolding guarded_def by (intro keeps_intros)

lemma keeps_alert_handlers [keeps_intros]:
  "keeps rt_wf (handleAlertRoute n u ip m p)" "keeps rt_wf (handleListNotifications l st)"
  "keeps rt_wf handleUnreadNotificationCount" "keeps rt_wf (handleNotificationAction u ip m p)"
  "keeps rt_wf (handleMarkAllNotificationsRead u ip)" "keeps rt_wf (handleClearNotifications u ip)"
  unfolding handleAlertRoute_def handleAlertDeliveries_def handleListNotifications_def
    handleUnreadNotificationCount_def handleNotificationAction_def handleMarkAllNotificationsRead_def
    handleClearNotifications_def Let_def
  by (intro keeps_intros)+

section \<open>Steps\<close>

inductive alert_step :: "transport option \<Rightarrow> 'r rt \<Rightarrow> 'r rt \<Rightarrow> bool" for n where
  evaluate: "alert_step n s (snd (evaluateRuntimeAlerts item h vms s))"
| sync_failed: "alert_step n s (snd (recordAgentSyncFailure n item m s))"
| agent_answers: "alert_step n s (snd (resolveActiveAlertsBySource st sid s))"
| notify: "alert_step n s (snd (notifyPendingAlerts n s))"
| alert_api: "alert_step n s (snd (handleAlertRoute n u ip m p s))"
| panel_action: "alert_step n s (snd (handleNotificationAction u ip m p s))"
| panel_read_all: "alert_step n s (snd (handleMarkAllNotificationsRead u ip s))"
| panel_clear: "alert_step n s (snd (handleClearNotifications u ip s))"
| retention: "alert_step n s (snd (on_db (DeleteLogRecordsBefore t) s))"
| environment: "clock (rt_db s) \<le> t \<Longrightarrow>
    alert_step n s (s\<lparr>rt_db := (rt_db s)\<lparr>clock := t, faults := fs, uuids := us\<rparr>\<rparr>)"

inductive_cases alert_stepE: "alert_step n s s'"

lemma alert_wf_later: "alert_wf d \<Longrightarrow> clock d \<le> t \<Longrightarrow> alert_wf (d\<lparr>clock := t, faults := fs\<rparr>)"
  by (force simp: alert_wf_def)

lemma alert_step_wf: "alert_step n s s' \<Longrightarrow> rt_wf s \<Longrightarrow> rt_wf s'"
  by (erule alert_stepE) (auto intro!: alert_wf_later keepsD [where I = rt_wf] keeps_intros)

end
