(* ===== verification/Alert_Properties.thy ===== *)
theory Alert_Properties
  imports Alert_Invariant Access_Properties
begin

text \<open>
  The properties of the alerts: the invariant of every reachable state, when an alert is active, how the
  deliveries of its notifications are retried, and when an agent is reported offline.
\<close>

section \<open>The invariant\<close>

text \<open>C23: whatever samples, failures, requests and clean-ups the program sees, in whatever order, and
  whatever statements fail, there is never more than one active alert for a source and a title, an alert
  is resolved exactly when it has a time of resolution, and every delivery belongs to an alert and a
  channel, one for each event, and is pending, sent or failed.\<close>

theorem alert_tables_invariant:
  assumes "(alert_step n)\<^sup>*\<^sup>* s0 s" "alert_wf (rt_db s0)"
  shows "alert_wf (rt_db s)"
  using assms by (induction) (auto intro: alert_step_wf)

definition plain_rt :: "db \<Rightarrow> unit rt" where
  "plain_rt d = \<lparr>rt_db = d, alertCounts = Map.empty, rt_redis = (), refreshQueue = []\<rparr>"

lemma alert_wf_empty: "alert_wf empty_db"
  by (simp add: alert_wf_def empty_db_def)

definition test_agent :: agent where
  "test_agent = \<lparr>agent_id = ''a1'', agent_name = ''node'', agent_endpoint = ''https://n'', agent_tls_insecure = False,
     agent_status = ''online'', agent_version = [], agent_capabilities = [], agent_last_heartbeat_at = None,
     agent_last_error = [], agent_token_hash = [], agent_token_ciphertext = [], agent_failure_count = 0,
     agent_last_sync_started_at = None, agent_last_sync_finished_at = None, agent_created_at = 0,
     agent_updated_at = 0\<rparr>"

lemma alert_tables_invariant_witness:
  "alert_wf (rt_db (snd (recordAgentSyncFailure None (test_agent\<lparr>agent_failure_count := 2\<rparr>) ''e'' (plain_rt empty_db))))"
proof -
  let ?s = "snd (recordAgentSyncFailure None (test_agent\<lparr>agent_failure_count := 2\<rparr>) ''e'' (plain_rt empty_db))"
  have "(alert_step None)\<^sup>*\<^sup>* (plain_rt empty_db) ?s"
    by (rule r_into_rtranclp) (rule alert_step.sync_failed)
  from alert_tables_invariant [OF this] show ?thesis by (simp add: plain_rt_def alert_wf_empty)
qed

section \<open>Recovery leaves the alerts alone\<close>

lemma fault_blind_alerts [simp]: "fault_blind (\<lambda>d. alerts d = A)"
  by (simp add: fault_blind_def)

lemma alerts_insert_delivery: "keeps (\<lambda>d. alerts d = A) (insert_delivery i e c)"
  unfolding insert_delivery_def
  by (rule keeps_stmt) (auto simp: Let_def split: prod.splits dest!: gen_uuid_tables)

lemma alerts_recovery: "keeps (\<lambda>d. alerts d = A) (EnsureAlertNotificationDeliveries a ''recovery'')"
proof -
  have "keeps (\<lambda>d. alerts d = A) (ensure_deliveries i ''recovery'' cs n)" for i cs n
    by (induction cs arbitrary: n) (auto intro!: keeps_intros alerts_insert_delivery)
  then show ?thesis
    unfolding EnsureAlertNotificationDeliveries_def ListNotificationChannels_def
    by (intro keeps_intros) simp_all
qed

lemma rt_recovery: "keeps (\<lambda>s. alerts (rt_db s) = A \<and> alertCounts s = C) (queueRecoveryNotifications as)"
  unfolding queueRecoveryNotifications_def
proof (intro keeps_intros)
  fix a
  show "keeps (\<lambda>s. alerts (rt_db s) = A \<and> alertCounts s = C)
      (on_db (EnsureAlertNotificationDeliveries a ''recovery''))"
    using keepsD [OF alerts_recovery] by (auto simp: keeps_def on_db_run)
qed

lemma resolveActiveAlert_alerts:
  assumes "faults (rt_db s) = []"
  shows "alerts (rt_db (snd (resolveActiveAlert st sid ti s))) =
      upd_where (active_on st sid ti) (resolved (clock (rt_db s))) (alerts (rt_db s)) \<and>
    alertCounts (snd (resolveActiveAlert st sid ti s)) = alertCounts s"
proof -
  let ?as = "map (resolved (clock (rt_db s))) (filter (active_on st sid ti) (alerts (rt_db s)))"
  let ?s = "s\<lparr>rt_db := resolve_where (active_on st sid ti) (rt_db s)\<rparr>"
  have "resolveActiveAlert st sid ti s = queueRecoveryNotifications ?as ?s"
    using assms by (simp add: resolveActiveAlert_def ResolveActiveAlertReturning_def
      resolve_returning_def run_simps)
  then show ?thesis
    using keepsD [OF rt_recovery [of "alerts (rt_db ?s)" "alertCounts ?s" ?as], of ?s]
    by (simp add: resolve_where_def)
qed

section \<open>When an alert is active\<close>

definition has_active :: "string \<Rightarrow> string \<Rightarrow> string \<Rightarrow> db \<Rightarrow> bool" where
  "has_active st sid ti d \<longleftrightarrow> list_ex (active_on st sid ti) (alerts d)"

lemma none_active_after: "\<not> list_ex (active_on st sid ti) (upd_where (active_on st sid ti) (resolved t) as)"
  by (auto simp: list_ex_iff set_upd_where active_on_def alert_active_def resolved_def)

lemma active_after_update:
  "(\<And>a. alert_key (f a) = alert_key a \<and> alert_status (f a) = alert_status a) \<Longrightarrow>
   list_ex (active_on st sid ti) (upd_where p f as) = list_ex (active_on st sid ti) as"
  by (induction as) (auto simp: upd_where_def active_on_def alert_active_def)

lemma Upsert_active:
  assumes "faults d = []" "uuids d = u # us" "u \<notin> alert_id ` set (alerts d)"
  shows "has_active st sid ti (snd (UpsertActiveAlert l st sid ti m md d)) \<and>
    alert_id ` set (alerts (snd (UpsertActiveAlert l st sid ti m md d))) \<subseteq> insert u (alert_id ` set (alerts d))"
proof (cases "list_ex (active_on st sid ti) (alerts d)")
  case True
  let ?f = "\<lambda>a. a\<lparr>alert_level := l, alert_message := m, alert_metadata := md,
    alert_last_seen_at := clock d, alert_updated_at := clock d\<rparr>"
  from True have "alerts (snd (UpsertActiveAlert l st sid ti m md d)) =
      upd_where (active_on st sid ti) ?f (alerts d)"
    using assms by (simp add: UpsertActiveAlert_def stmt_no_fault gen_uuid_def)
  with True show ?thesis
    by (auto simp: has_active_def active_after_update alert_key_def upd_where_image [where key = alert_id])
next
  case False
  then show ?thesis
    using assms by (auto simp: UpsertActiveAlert_def stmt_no_fault gen_uuid_def has_active_def
      active_on_def alert_active_def alert_key_def)
qed

definition sample_one ::
  "agent \<Rightarrow> string \<Rightarrow> int \<Rightarrow> int \<Rightarrow> string \<Rightarrow> int \<times> string list \<Rightarrow> 'r rt \<Rightarrow> 'r rt" where
  "sample_one item metric limit cl key x s =
    snd (evaluateHostThresholdAlert item metric (fst x) limit cl key
      (s\<lparr>rt_db := (rt_db s)\<lparr>uuids := snd x, faults := []\<rparr>\<rparr>))"

definition streak :: "int \<Rightarrow> int list \<Rightarrow> nat" where
  "streak limit vs = length (takeWhile (\<lambda>v. v \<ge> limit) (rev vs))"

lemma streak_snoc: "streak limit (vs @ [v]) = (if v \<ge> limit then Suc (streak limit vs) else 0)"
  by (simp add: streak_def)

text \<open>The abstract state of one alert: the number of samples in a row that reached the limit.\<close>

definition counts_streak :: "agent \<Rightarrow> string \<Rightarrow> int \<Rightarrow> string \<Rightarrow> nat \<Rightarrow> 'r rt \<Rightarrow> bool" where
  "counts_streak item metric cl key k s \<longleftrightarrow>
     alertCounts s (counter_key ''host'' (agent_id item @ '':'' @ key) (host_title metric)) =
       (if k = 0 then None else Some (int k)) \<and>
     (has_active ''host'' (agent_id item @ '':'' @ key) (host_title metric) (rt_db s) \<longleftrightarrow> cl \<le> int k)"

lemma sample_simulates:
  assumes R: "counts_streak item metric cl key k s" and cl: "1 \<le> cl"
    and fresh: "snd x = u # us" "u \<notin> alert_id ` set (alerts (rt_db s))"
  shows "counts_streak item metric cl key (if fst x \<ge> limit then Suc k else 0)
      (sample_one item metric limit cl key x s) \<and>
    alert_id ` set (alerts (rt_db (sample_one item metric limit cl key x s)))
      \<subseteq> insert u (alert_id ` set (alerts (rt_db s)))"
proof (cases "fst x \<ge> limit")
  case False
  let ?s = "s\<lparr>rt_db := (rt_db s)\<lparr>uuids := snd x, faults := []\<rparr>\<rparr>"
  let ?sid = "agent_id item @ '':'' @ key" and ?ti = "host_title metric"
  let ?s2 = "?s\<lparr>alertCounts := (alertCounts s)(counter_key ''host'' ?sid ?ti := None)\<rparr>"
  have "sample_one item metric limit cl key x s = snd (resolveActiveAlert ''host'' ?sid ?ti ?s2)"
    using False by (simp add: sample_one_def evaluateHostThresholdAlert_def bindp_def
      recordThresholdAlertSample_def Let_def)
  with resolveActiveAlert_alerts [of ?s2 "''host''" ?sid ?ti] cl False
  show ?thesis
    by (auto simp: counts_streak_def has_active_def none_active_after set_upd_where resolved_def)
next
  case True
  let ?s = "s\<lparr>rt_db := (rt_db s)\<lparr>uuids := snd x, faults := []\<rparr>\<rparr>"
  let ?sid = "agent_id item @ '':'' @ key" and ?ti = "host_title metric"
  let ?n = "int (Suc k)"
  let ?s2 = "?s\<lparr>alertCounts := (alertCounts s)(counter_key ''host'' ?sid ?ti \<mapsto> ?n)\<rparr>"
  have sample: "recordThresholdAlertSample ''host'' ?sid ?ti True ?s = (Inr ?n, ?s2)"
    using R by (auto simp: recordThresholdAlertSample_def counts_streak_def Let_def add.commute)
  show ?thesis
  proof (cases "cl \<le> ?n")
    case False
    then have "sample_one item metric limit cl key x s = ?s2"
      using True sample by (simp add: sample_one_def evaluateHostThresholdAlert_def bindp_def ret_def Let_def)
    with R True False show ?thesis by (auto simp: counts_streak_def has_active_def)
  next
    case reached: True
    then obtain l m md where "sample_one item metric limit cl key x s =
        ?s2\<lparr>rt_db := snd (UpsertActiveAlert l ''host'' ?sid ?ti m md (rt_db ?s2))\<rparr>"
      using True sample
      by (simp add: sample_one_def evaluateHostThresholdAlert_def bindp_def ignore_def on_db_run Let_def)
    moreover have "has_active ''host'' ?sid ?ti (snd (UpsertActiveAlert l ''host'' ?sid ?ti m md (rt_db ?s2)))"
      and "alert_id ` set (alerts (snd (UpsertActiveAlert l ''host'' ?sid ?ti m md (rt_db ?s2))))
        \<subseteq> insert u (alert_id ` set (alerts (rt_db s)))"
      using Upsert_active [of "rt_db ?s2" u us "''host''" ?sid ?ti l m md] fresh by simp_all
    ultimately show ?thesis using reached True by (simp add: counts_streak_def)
  qed
qed

text \<open>C24: the alert of a host's metric refines a counter: after any sequence of samples it is active exactly
  when the last \<open>consecutiveLimit\<close> samples, and all after, have reached the limit; one lower sample
  resolves it and starts the count again.\<close>

theorem host_alert_streak:
  assumes "counts_streak item metric cl key 0 s" "1 \<le> cl"
    "\<forall>x \<in> set xs. snd x \<noteq> []" "distinct (map (hd \<circ> snd) xs)"
    "\<forall>x \<in> set xs. hd (snd x) \<notin> alert_id ` set (alerts (rt_db s))"
  shows "counts_streak item metric cl key (streak limit (map fst xs))
    (fold (sample_one item metric limit cl key) xs s)"
proof -
  have "counts_streak item metric cl key (streak limit (map fst xs))
      (fold (sample_one item metric limit cl key) xs s) \<and>
    alert_id ` set (alerts (rt_db (fold (sample_one item metric limit cl key) xs s)))
      \<subseteq> alert_id ` set (alerts (rt_db s)) \<union> (hd \<circ> snd) ` set xs"
    using assms(3-5)
  proof (induction xs rule: rev_induct)
    case Nil
    from assms(1) show ?case by (simp add: streak_def)
  next
    case (snoc x xs)
    let ?t = "fold (sample_one item metric limit cl key) xs s"
    have IH: "counts_streak item metric cl key (streak limit (map fst xs)) ?t"
      "alert_id ` set (alerts (rt_db ?t)) \<subseteq> alert_id ` set (alerts (rt_db s)) \<union> (hd \<circ> snd) ` set xs"
      using snoc by simp_all
    from snoc.prems(1) obtain u us where x: "snd x = u # us" by (cases "snd x") auto
    have "u \<notin> alert_id ` set (alerts (rt_db ?t))"
      using IH(2) snoc.prems(2,3) x by auto
    from sample_simulates [OF IH(1) assms(2) x this, of limit]
    have S: "counts_streak item metric cl key (if fst x \<ge> limit then Suc (streak limit (map fst xs)) else 0)
        (sample_one item metric limit cl key x ?t)"
      and ids: "alert_id ` set (alerts (rt_db (sample_one item metric limit cl key x ?t)))
        \<subseteq> insert u (alert_id ` set (alerts (rt_db ?t)))" by simp_all
    have "insert u (alert_id ` set (alerts (rt_db ?t)))
        \<subseteq> alert_id ` set (alerts (rt_db s)) \<union> (hd \<circ> snd) ` set (xs @ [x])"
      using IH(2) x by auto
    with ids have "alert_id ` set (alerts (rt_db (sample_one item metric limit cl key x ?t)))
        \<subseteq> alert_id ` set (alerts (rt_db s)) \<union> (hd \<circ> snd) ` set (xs @ [x])" by (rule order_trans)
    with S show ?case by (simp add: streak_snoc)
  qed
  then show ?thesis ..
qed

lemma host_alert_streak_witness:
  "counts_streak test_agent ''CPU'' 3 ''cpu'' 3
    (fold (sample_one test_agent ''CPU'' 85 3 ''cpu'')
      [(90, [''x1'']), (20, [''x2'']), (85, [''x3'']), (99, [''x4'']), (100, [''x5''])] (plain_rt empty_db))"
proof -
  let ?xs = "[(90 :: int, [''x1'']), (20, [''x2'']), (85, [''x3'']), (99, [''x4'']), (100, [''x5''])]"
  have alerts_none: "alerts (rt_db (plain_rt empty_db)) = []" by (simp add: plain_rt_def empty_db_def)
  have "counts_streak test_agent ''CPU'' 3 ''cpu'' 0 (plain_rt empty_db)"
    by (simp add: counts_streak_def plain_rt_def has_active_def empty_db_def)
  moreover have "streak 85 (map fst ?xs) = 3" by (simp add: streak_def)
  ultimately show ?thesis
    using host_alert_streak [of test_agent "''CPU''" 3 "''cpu''" "plain_rt empty_db" ?xs 85]
    by (simp add: alerts_none del: fold_simps)
qed

section \<open>Retries\<close>

lemma normalized_retry:
  "0 \<le> MaxRetryCount (normalizeAlertNotificationRetryConfig c) \<and> MaxRetryCount (normalizeAlertNotificationRetryConfig c) \<le> 10 \<and>
   10 \<le> BaseDelaySeconds (normalizeAlertNotificationRetryConfig c) \<and>
   BaseDelaySeconds (normalizeAlertNotificationRetryConfig c) \<le> 300 \<and>
   1 \<le> MaxDelayMinutes (normalizeAlertNotificationRetryConfig c) \<and>
   MaxDelayMinutes (normalizeAlertNotificationRetryConfig c) \<le> 120"
  by (simp add: normalizeAlertNotificationRetryConfig_def Let_def)

text \<open>C27: the delay the SQL text computes for the next attempt is the delay of the Go function for the
  counter after the failure, in seconds instead of nanoseconds and without overflow; it is positive, it
  never exceeds the configured maximum, and it does not shrink from one failure to the next.\<close>

theorem retry_delay_agrees:
  assumes "0 \<le> n"
  shows "sql_retry_delay (normalizeAlertNotificationRetryConfig c) n * nanoseconds =
      AlertNotificationRetryDelayWithConfig (n + 1) c \<and>
    0 < sql_retry_delay (normalizeAlertNotificationRetryConfig c) n \<and>
    sql_retry_delay (normalizeAlertNotificationRetryConfig c) n
      \<le> MaxDelayMinutes (normalizeAlertNotificationRetryConfig c) * 60 \<and>
    sql_retry_delay (normalizeAlertNotificationRetryConfig c) n
      \<le> sql_retry_delay (normalizeAlertNotificationRetryConfig c) (n + 1)"
proof -
  let ?c = "normalizeAlertNotificationRetryConfig c"
  let ?k = "nat (min (n + 1) 8)" and ?b = "BaseDelaySeconds ?c" and ?m = "MaxDelayMinutes ?c"
  have c: "10 \<le> ?b" "?b \<le> 300" "1 \<le> ?m" "?m \<le> 120" using normalized_retry [of c] by simp_all
  have "(2 :: int) ^ ?k \<le> 2 ^ 8" by (rule power_increasing) simp_all
  then have p: "1 \<le> (2 :: int) ^ ?k" "(2 :: int) ^ ?k \<le> 256" by simp_all
  then have pb: "0 < 2 ^ ?k * ?b" "2 ^ ?k * ?b \<le> 256 * 300"
    using c mult_mono [of "2 ^ ?k" 256 ?b 300] by (simp_all add: zero_less_mult_iff)
  have "(if (if n + 1 < 0 then 0 else n + 1) > 8 then 8 else if n + 1 < 0 then 0 else n + 1) = min (n + 1) 8"
    using assms by simp
  moreover have "i64 (i64 x * nanoseconds) = x * nanoseconds" if "0 < x" "x \<le> 76800" for x
    using that by (simp add: i64_id in_i64_def nanoseconds_def)
  then have "i64 (i64 (2 ^ ?k * ?b) * nanoseconds) = 2 ^ ?k * ?b * nanoseconds" using pb by simp
  moreover have "i64 (?m * (60 * nanoseconds)) = ?m * (60 * nanoseconds)"
    using c by (simp add: i64_id in_i64_def nanoseconds_def)
  ultimately have go: "AlertNotificationRetryDelayWithConfig (n + 1) c =
      (if 2 ^ ?k * ?b * nanoseconds > ?m * (60 * nanoseconds) then ?m * (60 * nanoseconds)
       else 2 ^ ?k * ?b * nanoseconds)"
    by (simp add: AlertNotificationRetryDelayWithConfig_def push_bit_eq_mult Let_def)
  have clip: "(if x * nanoseconds > y * (60 * nanoseconds) then y * (60 * nanoseconds) else x * nanoseconds) =
      min (y * 60) x * nanoseconds" for x y
    by (auto simp: nanoseconds_def min_def)
  have grows: "(2 :: int) ^ ?k * ?b \<le> 2 ^ nat (min (n + 1 + 1) 8) * ?b"
    using c by (intro mult_right_mono power_increasing) simp_all
  have sql: "sql_retry_delay ?c n = min (?m * 60) (2 ^ ?k * ?b)"
    "sql_retry_delay ?c (n + 1) = min (?m * 60) (2 ^ nat (min (n + 1 + 1) 8) * ?b)"
    by (simp_all only: sql_retry_delay_def push_bit_eq_mult mult_1)
  have "sql_retry_delay ?c n * nanoseconds = AlertNotificationRetryDelayWithConfig (n + 1) c"
    unfolding sql(1) go clip ..
  moreover have "sql_retry_delay ?c n \<le> sql_retry_delay ?c (n + 1)"
    unfolding sql by (rule min.mono [OF order_refl grows])
  moreover have "0 < sql_retry_delay ?c n" "sql_retry_delay ?c n \<le> ?m * 60"
    unfolding sql(1) using pb(1) c by simp_all
  ultimately show ?thesis by simp
qed

definition default_retry :: AlertNotificationRetryConfig where
  "default_retry = \<lparr>MaxRetryCount = 6, BaseDelaySeconds = 30, MaxDelayMinutes = 15\<rparr>"

lemma retry_delay_agrees_witness: "AlertNotificationRetryDelayWithConfig 3 default_retry = 240 * nanoseconds"
proof -
  have "sql_retry_delay (normalizeAlertNotificationRetryConfig default_retry) 2 = 240"
    by (simp add: sql_retry_delay_def normalizeAlertNotificationRetryConfig_def default_retry_def push_bit_eq_mult)
  with retry_delay_agrees [of 2 default_retry] show ?thesis by simp
qed

lemma find_sorted:
  assumes "distinct (map ch_id cs)" "c \<in> set cs"
  shows "find (\<lambda>x. ch_id x = ch_id c) (sort_key f cs) = Some c"
proof -
  have "distinct (map ch_id (sort_key f cs))"
    using assms(1) by (simp add: distinct_map)
  from row_of_distinct [OF this, of c] assms(2) show ?thesis by (simp add: row_of_def)
qed

lemma GetSystemBaseConfig_run:
  "faults d = [] \<Longrightarrow> settings d = Some p \<Longrightarrow> GetSystemBaseConfig d = (Inr (decodeSystemBaseConfig p), d)"
  by (simp add: GetSystemBaseConfig_def run_simps)

lemma NotifyDelivery_failed:
  assumes "faults d = []" "settings d = Some p" "distinct (map ch_id (channels d))" "c \<in> set (channels d)"
    "ch_id c = dl_channel_id q" "ch_enabled c" "dl_event_type q = ''recovery'' \<longrightarrow> ch_send_recovery c"
    "send (clock d) c q a = Some m"
  shows "NotifyDelivery send (q, a) d = (Inr (), d\<lparr>deliveries := upd_where (\<lambda>r. dl_id r = dl_id q)
    (delivery_failed (normalizeAlertNotificationRetryConfig (retry_config_of (decodeSystemBaseConfig p))) m
      (clock d)) (deliveries d)\<rparr>)"
proof -
  have "find (\<lambda>x. ch_id x = dl_channel_id q) (sort_key (\<lambda>c. (channel_rank (ch_id c), ch_id c)) (channels d)) = Some c"
    using find_sorted [OF assms(3,4)] assms(5) by simp
  then have "notificationChannel (dl_channel_id q) d = (Inr (Some c), d)"
    using assms(1) by (simp add: notificationChannel_def ListNotificationChannels_def run_simps)
  moreover have "alertNotificationRuntimeConfig d = (Inr (retry_config_of (decodeSystemBaseConfig p)), d)"
    using GetSystemBaseConfig_run [OF assms(1,2)] by (simp add: alertNotificationRuntimeConfig_def run_simps)
  moreover have "\<not> (\<not> ch_enabled c \<or> dl_event_type q = ''recovery'' \<and> \<not> ch_send_recovery c)" using assms(6,7) by simp
  ultimately show ?thesis
    using assms(1,8)
    by (simp add: NotifyDelivery_def MarkAlertNotificationDeliveryFailedWithConfig_def now_def run_simps Let_def del: de_Morgan_conj)
qed

text \<open>an attempt that fails counts up the delivery's row and no other, gives it up exactly when the
  configured number of attempts has been made, and makes it due again no earlier than after the delay.\<close>

theorem failed_attempt:
  assumes "faults d = []" "settings d = Some p" "alert_wf d" "distinct (map ch_id (channels d))"
    "q \<in> set (deliveries d)" "c \<in> set (channels d)"
    "ch_id c = dl_channel_id q" "ch_enabled c" "dl_event_type q = ''recovery'' \<longrightarrow> ch_send_recovery c"
    "send (clock d) c q a = Some m"
    "cfg = normalizeAlertNotificationRetryConfig (retry_config_of (decodeSystemBaseConfig p))"
  shows "\<exists>q'. row_of dl_id (dl_id q) (deliveries (snd (NotifyDelivery send (q, a) d))) = Some q' \<and>
      dl_retry_count q' = dl_retry_count q + 1 \<and>
      (dl_status q' = ''failed'' \<longleftrightarrow> MaxRetryCount cfg \<le> dl_retry_count q + 1) \<and>
      (dl_status q' = ''pending'' \<longleftrightarrow> dl_retry_count q + 1 < MaxRetryCount cfg) \<and>
      (\<forall>t < clock d + sql_retry_delay cfg (dl_retry_count q). \<not> due t q') \<and>
    (\<forall>i. i \<noteq> dl_id q \<longrightarrow>
      row_of dl_id i (deliveries (snd (NotifyDelivery send (q, a) d))) = row_of dl_id i (deliveries d))"
proof -
  have row: "row_of dl_id (dl_id q) (deliveries d) = Some q"
    using assms(3,5) by (intro row_of_distinct) (auto simp: alert_wf_def)
  have "row_of dl_id i (upd_where (\<lambda>r. dl_id r = dl_id q) (delivery_failed cfg m (clock d)) (deliveries d)) =
      map_option (\<lambda>r. if dl_id r = dl_id q then delivery_failed cfg m (clock d) r else r) (row_of dl_id i (deliveries d))"
    for i by (rule row_of_upd_where) (simp add: delivery_failed_def)
  moreover have "map_option (\<lambda>r. if dl_id r = dl_id q then delivery_failed cfg m (clock d) r else r)
      (row_of dl_id i (deliveries d)) = row_of dl_id i (deliveries d)" if "i \<noteq> dl_id q" for i
    using that by (cases "row_of dl_id i (deliveries d)") (auto dest: row_of_SomeD)
  ultimately show ?thesis
    using NotifyDelivery_failed [where send = send and a = a and m = m, OF assms(1,2,4,6-10)] row assms(11)
    by (simp add: delivery_failed_def due_def)
qed

text \<open>What a pass makes of a delivery whose transport fails while nothing takes it up again (\<open>one_pass\<close> below shows it
  of the service), and passes that are \<open>gap\<close> seconds apart.\<close>

definition failing_pass :: "AlertNotificationRetryConfig \<Rightarrow> string \<Rightarrow> int \<Rightarrow> delivery \<Rightarrow> delivery" where
  "failing_pass cfg m t q = (if due t q then delivery_failed cfg m t q else q)"

fun spaced :: "int \<Rightarrow> int \<Rightarrow> int list \<Rightarrow> bool" where
  "spaced gap earliest [] = True"
| "spaced gap earliest (t # ts) = (earliest \<le> t \<and> spaced gap (t + gap) ts)"

lemma given_up_stays: "dl_status q \<noteq> ''pending'' \<Longrightarrow> fold (failing_pass cfg m) ts q = q"
  by (induction ts) (simp_all add: failing_pass_def due_def)

lemma attempts_bounded:
  "dl_status q = ''pending'' \<Longrightarrow>
   dl_retry_count (fold (failing_pass cfg m) ts q) \<le> max (dl_retry_count q + 1) (MaxRetryCount cfg)"
proof (induction ts arbitrary: q)
  case (Cons t ts)
  let ?q = "delivery_failed cfg m t q"
  have c: "dl_retry_count ?q = dl_retry_count q + 1" by (simp add: delivery_failed_def)
  consider "\<not> due t q" | "due t q" "dl_status ?q \<noteq> ''pending''" | "due t q" "dl_status ?q = ''pending''" by blast
  then show ?case
  proof cases
    case 1
    then have "failing_pass cfg m t q = q" by (simp add: failing_pass_def)
    with Cons show ?thesis by simp
  next
    case 2
    then have "failing_pass cfg m t q = ?q" by (simp add: failing_pass_def)
    with given_up_stays [OF 2(2)] c show ?thesis by simp
  next
    case 3
    then have q: "failing_pass cfg m t q = ?q" by (simp add: failing_pass_def)
    have "dl_retry_count q + 1 < MaxRetryCount cfg" using 3(2) by (simp add: delivery_failed_def split: if_splits)
    with Cons.IH [OF 3(2)] q c show ?thesis by simp
  qed
qed simp

lemma attempts_end:
  assumes "dl_status q = ''pending''" "spaced gap (dl_next_retry_at q) ts" "MaxDelayMinutes cfg * 60 \<le> gap"
    "ts \<noteq> []" "MaxRetryCount cfg - dl_retry_count q \<le> int (length ts)"
  shows "dl_status (fold (failing_pass cfg m) ts q) = ''failed''"
  using assms
proof (induction ts arbitrary: q)
  case (Cons t ts)
  let ?q = "delivery_failed cfg m t q"
  have q: "failing_pass cfg m t q = ?q" using Cons.prems by (simp add: failing_pass_def due_def)
  show ?case
  proof (cases "MaxRetryCount cfg \<le> dl_retry_count q + 1")
    case True
    then have f: "dl_status ?q = ''failed''" by (simp add: delivery_failed_def)
    then have "fold (failing_pass cfg m) ts ?q = ?q" by (intro given_up_stays) simp
    with f q show ?thesis by simp
  next
    case False
    then have p: "dl_status ?q = ''pending''" "dl_retry_count ?q = dl_retry_count q + 1" by (simp_all add: delivery_failed_def)
    have "sql_retry_delay cfg (dl_retry_count q) \<le> gap" using Cons.prems(3) by (simp add: sql_retry_delay_def)
    then have "dl_next_retry_at ?q \<le> t + gap" by (simp add: delivery_failed_def)
    then have "spaced gap (dl_next_retry_at ?q) ts" using Cons.prems(2) by (cases ts) auto
    moreover have "ts \<noteq> []" "MaxRetryCount cfg - dl_retry_count ?q \<le> int (length ts)" using Cons.prems(5) False p(2) by auto
    ultimately have "dl_status (fold (failing_pass cfg m) ts ?q) = ''failed''" using Cons.IH [of ?q] p(1) Cons.prems(3) by blast
    with q show ?thesis by simp
  qed
qed simp

text \<open>The passes of the service at the instants \<open>ts\<close>.\<close>

definition passes :: "transport \<Rightarrow> int list \<Rightarrow> 'r rt \<Rightarrow> 'r rt" where
  "passes send ts s = fold (\<lambda>t s. snd (notifyPendingAlerts (Some send) (s\<lparr>rt_db := (rt_db s)\<lparr>clock := t\<rparr>\<rparr>))) ts s"

text \<open>No alert waits for its first notification, so a pass takes no delivery up again that was given up.\<close>

definition none_waits :: "db \<Rightarrow> bool" where
  "none_waits d \<longleftrightarrow> (\<forall>a \<in> set (alerts d). alert_active a \<longrightarrow> alert_notification_sent_at a \<noteq> None)"

text \<open>One delivery is left, of the alert \<open>a\<close> over the channel \<open>c\<close>, which fails with \<open>m\<close>.\<close>

definition one_delivery :: "transport \<Rightarrow> string \<Rightarrow> db \<Rightarrow> delivery \<Rightarrow> bool" where
  "one_delivery send m d q \<longleftrightarrow> deliveries d = [q] \<and> (\<exists>a c. row_of alert_id (dl_alert_id q) (alerts d) = Some a \<and>
     c \<in> set (channels d) \<and> ch_id c = dl_channel_id q \<and> ch_enabled c \<and> (dl_event_type q = ''recovery'' \<longrightarrow> ch_send_recovery c) \<and>
     (\<forall>t q'. send t c q' a = Some m))"

lemma one_pass:
  assumes "faults (rt_db s) = []" "settings (rt_db s) = Some p" "distinct (map ch_id (channels (rt_db s)))"
    "none_waits (rt_db s)" "one_delivery send m (rt_db s) q"
    "cfg = normalizeAlertNotificationRetryConfig (retry_config_of (decodeSystemBaseConfig p))"
  shows "passes send [t] s = s\<lparr>rt_db := (rt_db s)\<lparr>clock := t, deliveries := [failing_pass cfg m t q]\<rparr>\<rparr>"
proof -
  let ?d = "(rt_db s)\<lparr>clock := t\<rparr>" and ?n = "NotificationBatchSize (alert_config_of (decodeSystemBaseConfig p))"
  obtain a c where q: "deliveries (rt_db s) = [q]" "row_of alert_id (dl_alert_id q) (alerts (rt_db s)) = Some a"
      "c \<in> set (channels (rt_db s))" "ch_id c = dl_channel_id q" "ch_enabled c" "dl_event_type q = ''recovery'' \<longrightarrow> ch_send_recovery c"
      "\<forall>t q'. send t c q' a = Some m"
    using assms(5) unfolding one_delivery_def by blast
  have batch: "1 \<le> batch_limit ?n"
    by (auto simp: batch_limit_def alert_config_of_def clampConfigInt_def Suc_le_eq)
  have cfg: "loadAlertRuntimeConfig (s\<lparr>rt_db := ?d\<rparr>) = (Inr (alert_config_of (decodeSystemBaseConfig p)), s\<lparr>rt_db := ?d\<rparr>)"
    using GetSystemBaseConfig_run [of ?d p] assms(1,2) by (simp add: loadAlertRuntimeConfig_def run_simps)
  have "filter (\<lambda>a. alert_active a \<and> alert_notification_sent_at a = None) (alerts (rt_db s)) = []"
    using assms(4) by (auto simp: none_waits_def filter_empty_conv)
  then have l1: "ListPendingAlertNotifications ?n ?d = (Inr [], ?d)"
    using assms(1) by (simp add: ListPendingAlertNotifications_def latest_first_def run_simps)
  have l2: "ListPendingAlertNotificationDeliveries ?n ?d = (Inr (if due t q then [(q, a)] else []), ?d)"
    using assms(1) batch q(1,2) by (simp add: ListPendingAlertNotificationDeliveries_def run_simps with_alert_def take_Cons')
  have n: "NotifyDelivery send (q, a) ?d = (Inr (), ?d\<lparr>deliveries := [delivery_failed cfg m t q]\<rparr>)"
    using NotifyDelivery_failed [of ?d p c q send a m] assms q by (simp add: upd_where_def)
  show ?thesis
    unfolding passes_def using cfg l1 l2 n q(1)
    by (simp add: notifyPendingAlerts_def bindp_def attempt_def ignore_def ret_def on_db_run failing_pass_def)
qed

lemma many_passes:
  assumes "faults (rt_db s) = []" "settings (rt_db s) = Some p" "distinct (map ch_id (channels (rt_db s)))"
    "none_waits (rt_db s)" "one_delivery send m (rt_db s) q"
    "cfg = normalizeAlertNotificationRetryConfig (retry_config_of (decodeSystemBaseConfig p))"
  shows "deliveries (rt_db (passes send ts s)) = [fold (failing_pass cfg m) ts q]"
  using assms
proof (induction ts arbitrary: s q)
  case Nil
  then show ?case by (simp add: passes_def one_delivery_def)
next
  case (Cons t ts)
  let ?s = "s\<lparr>rt_db := (rt_db s)\<lparr>clock := t, deliveries := [failing_pass cfg m t q]\<rparr>\<rparr>"
  have "passes send (t # ts) s = passes send ts (passes send [t] s)" by (simp add: passes_def)
  then have "passes send (t # ts) s = passes send ts ?s" unfolding one_pass [OF Cons.prems] .
  moreover have "one_delivery send m (rt_db ?s) (failing_pass cfg m t q)"
    using Cons.prems(5) by (simp add: one_delivery_def failing_pass_def delivery_failed_def)
  ultimately show ?case
    using Cons.IH [of ?s "failing_pass cfg m t q"] Cons.prems(1-4,6) by (simp add: none_waits_def)
qed

text \<open>C36: the retries of a delivery end when no alert waits for its first notification, as after another
  channel has delivered it or the alert was resolved: however often the passes of the service come, a pending delivery whose transport keeps
  failing, the only one there, is attempted at most the configured number of times, which is never more than
  ten, counting its earlier attempts (but once at least); and when the passes are as far apart as the longest
  delay, that many of them are enough to give it up, and no later pass attempts it again. (A delivery of an
  alert that is still active and was never notified is taken up again by every pass.)\<close>

theorem retries_end:
  assumes "faults (rt_db s) = []" "settings (rt_db s) = Some p" "distinct (map ch_id (channels (rt_db s)))"
    "none_waits (rt_db s)" "one_delivery send m (rt_db s) q" "dl_status q = ''pending''"
    "cfg = normalizeAlertNotificationRetryConfig (retry_config_of (decodeSystemBaseConfig p))"
  shows "\<exists>q'. deliveries (rt_db (passes send ts s)) = [q'] \<and> dl_retry_count q' \<le> max (dl_retry_count q + 1) (MaxRetryCount cfg) \<and>
    MaxRetryCount cfg \<le> 10 \<and>
    (spaced (MaxDelayMinutes cfg * 60) (dl_next_retry_at q) ts \<and> ts \<noteq> [] \<and> MaxRetryCount cfg - dl_retry_count q \<le> int (length ts) \<longrightarrow>
       dl_status q' = ''failed'' \<and> (\<forall>later. deliveries (rt_db (passes send (ts @ later) s)) = [q']))"
proof -
  let ?q = "\<lambda>ts. fold (failing_pass cfg m) ts q"
  note run = many_passes [OF assms(1-5,7)]
  have bound: "dl_retry_count (?q ts) \<le> max (dl_retry_count q + 1) (MaxRetryCount cfg)" "MaxRetryCount cfg \<le> 10"
    using attempts_bounded [OF assms(6)] normalized_retry unfolding assms(7) by blast+
  have "dl_status (?q ts) = ''failed'' \<and> ?q (ts @ later) = ?q ts"
    if "spaced (MaxDelayMinutes cfg * 60) (dl_next_retry_at q) ts" "ts \<noteq> []" "MaxRetryCount cfg - dl_retry_count q \<le> int (length ts)" for later
  proof -
    have f: "dl_status (?q ts) = ''failed''" using attempts_end [OF assms(6) that(1) order_refl that(2,3)] .
    then show ?thesis using given_up_stays [of "?q ts"] by simp
  qed
  with bound show ?thesis unfolding run by blast
qed

definition test_channel :: channel where
  "test_channel = \<lparr>ch_id = ''webhook'', ch_enabled = True, ch_password_reset_enabled = False, ch_config = []\<rparr>"

definition test_alert :: alert where
  "test_alert = \<lparr>alert_id = ''e1'', alert_level = ''critical'', alert_status = ''active'', alert_source_type = ''agent'',
     alert_source_id = ''a1'', alert_title = ''t'', alert_message = ''m'', alert_metadata = Map.empty,
     alert_first_seen_at = 0, alert_last_seen_at = 0, alert_resolved_at = None, alert_notification_sent_at = None,
     alert_read_at = None, alert_dismissed_at = None, alert_created_at = 0, alert_updated_at = 0\<rparr>"

definition test_delivery :: delivery where
  "test_delivery = \<lparr>dl_id = ''q1'', dl_alert_id = ''e1'', dl_event_type = ''problem'', dl_channel_id = ''webhook'',
     dl_status = ''pending'', dl_error = [], dl_retry_count = 5, dl_next_retry_at = 0, dl_last_attempt_at = None,
     dl_sent_at = None, dl_created_at = 0, dl_updated_at = 0\<rparr>"

definition alert_db :: "delivery \<Rightarrow> db" where
  "alert_db q = empty_db\<lparr>channels := [test_channel], alerts := [test_alert], deliveries := [q],
     settings := Some default_payload\<rparr>"

lemma alert_db_fields:
  "faults (alert_db q) = []" "settings (alert_db q) = Some default_payload" "channels (alert_db q) = [test_channel]"
  "alerts (alert_db q) = [test_alert]" "deliveries (alert_db q) = [q]" "clock (alert_db q) = 1000"
  by (simp_all add: alert_db_def empty_db_def)

lemma default_retry_settings:
  "normalizeAlertNotificationRetryConfig (retry_config_of (decodeSystemBaseConfig default_payload)) = default_retry"
  by (simp add: normalizeAlertNotificationRetryConfig_def retry_config_of_def decodeSystemBaseConfig_def
      default_payload_def fallbackInt_def fallbackIntPointer_def clampConfigInt_def default_retry_def)

text \<open>The alert of the witness was delivered over another channel.\<close>

definition notified_db :: db where
  "notified_db = (alert_db (test_delivery\<lparr>dl_retry_count := 0\<rparr>))\<lparr>alerts := [test_alert\<lparr>alert_notification_sent_at := Some 0\<rparr>]\<rparr>"

theorem retries_end_witness:
  "\<exists>q'. deliveries (rt_db (passes (\<lambda>_ _ _ _. Some ''down'') [0, 900, 1800, 2700, 3600, 4500] (plain_rt notified_db))) = [q'] \<and>
     dl_status q' = ''failed''"
proof -
  have "one_delivery (\<lambda>_ _ _ _. Some ''down'') ''down'' (rt_db (plain_rt notified_db)) (test_delivery\<lparr>dl_retry_count := 0\<rparr>)"
    by (simp add: one_delivery_def plain_rt_def notified_db_def alert_db_fields test_delivery_def test_alert_def test_channel_def row_of_def)
  then show ?thesis
    using retries_end [of "plain_rt notified_db" default_payload _ "''down''" _ default_retry "[0, 900, 1800, 2700, 3600, 4500]"]
    by (fastforce simp: plain_rt_def notified_db_def alert_db_fields default_retry_settings default_retry_def test_delivery_def
      none_waits_def test_alert_def test_channel_def)
qed

lemma failed_attempt_witness:
  "\<exists>q'. row_of dl_id ''q1'' (deliveries (snd (NotifyDelivery (\<lambda>_ _ _ _. Some ''down'')
     (test_delivery, test_alert) (alert_db test_delivery)))) = Some q' \<and> dl_status q' = ''failed''"
proof -
  have "alert_wf (alert_db test_delivery)"
    by (simp add: alert_wf_def alert_db_fields test_delivery_def test_alert_def test_channel_def alert_active_def)
  then show ?thesis
    using failed_attempt [of "alert_db test_delivery" default_payload test_delivery test_channel
        "\<lambda>_ _ _ _. Some ''down''" test_alert "''down''" default_retry]
    by (auto simp: alert_db_fields test_delivery_def test_channel_def default_retry_settings default_retry_def)
qed

text \<open>a delivery that was given up is taken up again: while its alert is active and unsent, the next
  pass sets it pending and due, keeps its count, and attempts it in the same pass, however far its next
  attempt was put off. The limit of attempts and the delay between them do not hold.\<close>

theorem failed_delivery_retried:
  assumes "faults (rt_db s) = []" "settings (rt_db s) = Some p" "channels (rt_db s) = [c]" "ch_enabled c"
    "alerts (rt_db s) = [a]" "alert_active a" "alert_notification_sent_at a = None"
    "deliveries (rt_db s) = [q]" "dl_key q = (alert_id a, ''problem'', ch_id c)" "dl_status q = ''failed''"
    "send = (\<lambda>_ _ _ _. Some m)"
  shows "\<exists>q'. deliveries (rt_db (snd (notifyPendingAlerts (Some send) s))) = [q'] \<and>
    dl_retry_count q' = dl_retry_count q + 1 \<and> dl_last_attempt_at q' = Some (clock (rt_db s))"
proof -
  let ?d = "rt_db s" and ?cfg = "normalizeAlertNotificationRetryConfig (retry_config_of (decodeSystemBaseConfig p))"
  let ?n = "NotificationBatchSize (alert_config_of (decodeSystemBaseConfig p))"
  let ?q = "q\<lparr>dl_status := ''pending'', dl_error := [], dl_next_retry_at := clock ?d, dl_updated_at := clock ?d\<rparr>"
  let ?d1 = "(snd (gen_uuid ?d))\<lparr>deliveries := [?q]\<rparr>"
  obtain i us where g: "gen_uuid ?d = (i, ?d\<lparr>uuids := us\<rparr>)"
    by (metis gen_uuid_tables prod.collapse)
  have batch: "1 \<le> batch_limit ?n"
    by (auto simp: batch_limit_def alert_config_of_def clampConfigInt_def Suc_le_eq)
  have cfg: "loadAlertRuntimeConfig s = (Inr (alert_config_of (decodeSystemBaseConfig p)), s)"
    using GetSystemBaseConfig_run [OF assms(1,2)] by (simp add: loadAlertRuntimeConfig_def run_simps)
  have l1: "ListPendingAlertNotifications ?n ?d = (Inr [a], ?d)"
    using assms batch by (simp add: ListPendingAlertNotifications_def latest_first_def run_simps take_Cons')
  have e: "snd (EnsureAlertNotificationDeliveries a ''problem'' ?d) = ?d1"
    using assms g by (simp add: EnsureAlertNotificationDeliveries_def ListNotificationChannels_def run_simps
        insert_delivery_def upd_where_def Let_def)
  have l2: "ListPendingAlertNotificationDeliveries ?n ?d1 = (Inr [(?q, a)], ?d1)"
    using assms batch g by (simp add: ListPendingAlertNotificationDeliveries_def run_simps with_alert_def
        due_def dl_key_def row_of_def take_Cons')
  have n: "NotifyDelivery send (?q, a) ?d1 = (Inr (), ?d1\<lparr>deliveries := [delivery_failed ?cfg m (clock ?d) ?q]\<rparr>)"
    using NotifyDelivery_failed [of ?d1 p c ?q send a m] assms g by (simp add: dl_key_def upd_where_def)
  have "snd (notifyPendingAlerts (Some send) s) = s\<lparr>rt_db := ?d1\<lparr>deliveries := [delivery_failed ?cfg m (clock ?d) ?q]\<rparr>\<rparr>"
    using cfg l1 e l2 n
    by (simp add: notifyPendingAlerts_def bindp_def attempt_def ignore_def ret_def on_db_run queueProblemNotification_def)
  then show ?thesis by (simp add: delivery_failed_def)
qed

lemma failed_delivery_retried_witness:
  "\<exists>q'. deliveries (rt_db (snd (notifyPendingAlerts (Some (\<lambda>_ _ _ _. Some ''down''))
     (plain_rt (alert_db (test_delivery\<lparr>dl_status := ''failed'', dl_retry_count := 6, dl_next_retry_at := 9999\<rparr>)))))) = [q'] \<and>
   dl_retry_count q' = 7"
  using failed_delivery_retried [of "plain_rt (alert_db (test_delivery\<lparr>dl_status := ''failed'', dl_retry_count := 6,
      dl_next_retry_at := 9999\<rparr>))" default_payload test_channel test_alert
      "test_delivery\<lparr>dl_status := ''failed'', dl_retry_count := 6, dl_next_retry_at := 9999\<rparr>" "\<lambda>_ _ _ _. Some ''down''" "''down''"]
  by (auto simp: plain_rt_def alert_db_fields test_channel_def test_alert_def test_delivery_def alert_active_def dl_key_def)

section \<open>Agents reported offline\<close>

definition offline_view :: "agent \<Rightarrow> agent list \<Rightarrow> bool \<Rightarrow> db \<Rightarrow> bool" where
  "offline_view item as b d \<longleftrightarrow> agents d = as \<and> has_active ''agent'' (agent_id item) (offline_title item) d = b"

lemma fault_blind_offline [simp]: "fault_blind (offline_view item as b)"
  by (simp add: fault_blind_def offline_view_def has_active_def)

lemma offline_uuids [simp]: "offline_view item as b (d\<lparr>uuids := us\<rparr>) = offline_view item as b d"
  by (simp add: offline_view_def has_active_def)

lemma offline_notify: "keeps (\<lambda>s. offline_view item as b (rt_db s)) (notifyPendingAlerts n)"
proof -
  have q: "keeps (offline_view item as b) (query f)" for f by (rule keeps_query) simp
  have ex: "(\<And>d. offline_view item as b d \<Longrightarrow> offline_view item as b (f d)) \<Longrightarrow> keeps (offline_view item as b) (exec f)" for f
    by (rule keeps_exec) simp_all
  have ins: "keeps (offline_view item as b) (insert_delivery i e c)" for i e c
    unfolding insert_delivery_def
    by (rule keeps_stmt) (auto simp: Let_def offline_view_def has_active_def split: prod.splits dest!: gen_uuid_tables)
  have mark: "keeps (offline_view item as b) (MarkAlertNotificationSent i)" for i
    unfolding MarkAlertNotificationSent_def
    by (rule ex) (simp add: offline_view_def has_active_def active_after_update alert_key_def)
  have ens: "keeps (offline_view item as b) (ensure_deliveries i e cs k)" for i e cs k
    by (induction cs arbitrary: k) (auto intro!: keeps_intros ins)
  have set: "keeps (offline_view item as b) GetSystemBaseConfig"
    unfolding GetSystemBaseConfig_def UpsertSystemBaseConfig_def
    by (intro keeps_intros q ex) (simp add: offline_view_def has_active_def)
  have del: "keeps (offline_view item as b) (MarkAlertNotificationDeliverySent i)"
    "keeps (offline_view item as b) (MarkAlertNotificationDeliveryFailedWithConfig i m c)" for i m c
    unfolding MarkAlertNotificationDeliverySent_def MarkAlertNotificationDeliveryFailedWithConfig_def Let_def
    by (rule ex, simp add: offline_view_def has_active_def)+
  have nd: "keeps (offline_view item as b) (NotifyDelivery send x)" for send x
    unfolding NotifyDelivery_def alertNotificationRuntimeConfig_def notificationChannel_def
      ListNotificationChannels_def Let_def
    by (intro keeps_intros q mark del set)
  show ?thesis
    unfolding notifyPendingAlerts_def loadAlertRuntimeConfig_def queueProblemNotification_def
      EnsureAlertNotificationDeliveries_def ListNotificationChannels_def ListPendingAlertNotifications_def
      ListPendingAlertNotificationDeliveries_def
    by (intro keeps_intros keeps_on_db q ens mark set nd)
qed

text \<open>One failed synchronisation, with the agent as it was read before.\<close>

lemma sync_failure_effect:
  assumes "faults (rt_db s) = []" "settings (rt_db s) = Some p" "uuids (rt_db s) = u # us"
    "u \<notin> alert_id ` set (alerts (rt_db s))" "row_of agent_id (agent_id item) (agents (rt_db s)) = Some row"
    "limit = OfflineFailureLimit (alert_config_of (decodeSystemBaseConfig p))"
    "s' = snd (recordAgentSyncFailure n item m s)"
  shows "\<exists>row'. row_of agent_id (agent_id item) (agents (rt_db s')) = Some row' \<and>
      agent_failure_count row' = agent_failure_count row + 1 \<and>
      agent_status row' = (if limit \<le> agent_failure_count row + 1 then ''offline'' else agent_status row)"
    and "has_active ''agent'' (agent_id item) (offline_title item) (rt_db s') \<longleftrightarrow>
      has_active ''agent'' (agent_id item) (offline_title item) (rt_db s) \<or> limit \<le> agent_failure_count item + 1"
    and "agent_failure_count item + 1 < limit \<longrightarrow> faults (rt_db s') = [] \<and> settings (rt_db s') = Some p \<and>
      uuids (rt_db s') = u # us \<and> alerts (rt_db s') = alerts (rt_db s)"
proof -
  let ?upd = "\<lambda>a. a\<lparr>agent_failure_count := agent_failure_count a + 1,
       agent_status := (if agent_failure_count a + 1 \<ge> limit then ''offline'' else agent_status a),
       agent_last_error := m, agent_last_sync_finished_at := Some (clock (rt_db s)), agent_updated_at := clock (rt_db s)\<rparr>"
  let ?as = "upd_where (\<lambda>a. agent_id a = agent_id item) ?upd (agents (rt_db s))"
  let ?s1 = "s\<lparr>rt_db := (rt_db s)\<lparr>agents := ?as\<rparr>\<rparr>"
  have cfg: "loadAlertRuntimeConfig s = (Inr (alert_config_of (decodeSystemBaseConfig p)), s)"
    using GetSystemBaseConfig_run [OF assms(1,2)] by (simp add: loadAlertRuntimeConfig_def run_simps)
  have limit: "1 \<le> limit" using assms(6) by (simp add: alert_config_of_def clampConfigInt_def)
  have upd: "on_db (UpdateAgentSyncFailure (agent_id item) m limit) s = (Inr (), ?s1)"
    using limit assms(1) by (simp add: UpdateAgentSyncFailure_def update_agent_def run_simps Let_def)
  have row: "row_of agent_id (agent_id item) ?as = Some (?upd row)"
    using assms(5) by (subst row_of_upd_where) (auto dest: row_of_SomeD)
  have early: "s' = ?s1" if "agent_failure_count item + 1 < limit"
    using that assms(6,7) cfg upd by (simp add: recordAgentSyncFailure_def bindp_def ignore_def ret_def)
  have late: "offline_view item ?as True (rt_db s')" if reached: "\<not> agent_failure_count item + 1 < limit"
  proof -
    let ?U = "\<lambda>md. UpsertActiveAlert ''critical'' ''agent'' (agent_id item) (offline_title item) offline_message md (rt_db ?s1)"
    obtain md where e: "s' = snd (notifyPendingAlerts n (?s1\<lparr>rt_db := snd (?U md)\<rparr>))"
      using reached assms(6,7) cfg upd
      by (simp add: recordAgentSyncFailure_def bindp_def ignore_def on_db_run [of "UpsertActiveAlert _ _ _ _ _ _"])
    have "offline_view item ?as True (rt_db (?s1\<lparr>rt_db := snd (?U md)\<rparr>))"
      using Upsert_active [of "rt_db ?s1" u us "''agent''" "agent_id item" "offline_title item" "''critical''"
          offline_message md] assms(1,3,4)
      by (auto simp: offline_view_def UpsertActiveAlert_def stmt_no_fault gen_uuid_def)
    then have "(\<lambda>t. offline_view item ?as True (rt_db t)) (snd (notifyPendingAlerts n (?s1\<lparr>rt_db := snd (?U md)\<rparr>)))"
      by (rule keepsD [where I = "\<lambda>t. offline_view item ?as True (rt_db t)", OF offline_notify])
    with e show ?thesis by simp
  qed
  show "\<exists>row'. row_of agent_id (agent_id item) (agents (rt_db s')) = Some row' \<and>
      agent_failure_count row' = agent_failure_count row + 1 \<and>
      agent_status row' = (if limit \<le> agent_failure_count row + 1 then ''offline'' else agent_status row)"
    using row early late by (cases "agent_failure_count item + 1 < limit") (auto simp: offline_view_def)
  show "has_active ''agent'' (agent_id item) (offline_title item) (rt_db s') \<longleftrightarrow>
      has_active ''agent'' (agent_id item) (offline_title item) (rt_db s) \<or> limit \<le> agent_failure_count item + 1"
    using early late by (cases "agent_failure_count item + 1 < limit") (auto simp: offline_view_def has_active_def)
  show "agent_failure_count item + 1 < limit \<longrightarrow> faults (rt_db s') = [] \<and> settings (rt_db s') = Some p \<and>
      uuids (rt_db s') = u # us \<and> alerts (rt_db s') = alerts (rt_db s)"
    using early assms(1-3) by auto
qed

text \<open>a failed synchronisation of an agent that was read just before counts its failures up, marks it
  offline from the configured number on, and raises the alert of an offline agent exactly then.\<close>

theorem agent_offline:
  assumes "faults (rt_db s) = []" "settings (rt_db s) = Some p" "uuids (rt_db s) = u # us"
    "u \<notin> alert_id ` set (alerts (rt_db s))" "row_of agent_id (agent_id item) (agents (rt_db s)) = Some item"
    "limit = OfflineFailureLimit (alert_config_of (decodeSystemBaseConfig p))"
  shows "\<exists>row'. row_of agent_id (agent_id item) (agents (rt_db (snd (recordAgentSyncFailure n item m s)))) = Some row' \<and>
      agent_failure_count row' = agent_failure_count item + 1 \<and>
      agent_status row' = (if limit \<le> agent_failure_count row' then ''offline'' else agent_status item) \<and>
      (has_active ''agent'' (agent_id item) (offline_title item) (rt_db (snd (recordAgentSyncFailure n item m s))) \<longleftrightarrow>
        has_active ''agent'' (agent_id item) (offline_title item) (rt_db s) \<or> limit \<le> agent_failure_count row')"
  using sync_failure_effect(1,2) [OF assms refl, of n m] by auto

definition agent_db :: "int \<Rightarrow> db" where
  "agent_db k = empty_db\<lparr>settings := Some default_payload, agents := [test_agent\<lparr>agent_failure_count := k\<rparr>]\<rparr>"

lemma agent_db_fields:
  "faults (agent_db k) = []" "settings (agent_db k) = Some default_payload" "uuids (agent_db k) = [''n1'', ''n2'', ''n3'']"
  "alerts (agent_db k) = []" "agents (agent_db k) = [test_agent\<lparr>agent_failure_count := k\<rparr>]"
  by (simp_all add: agent_db_def empty_db_def)

lemma default_offline_limit: "OfflineFailureLimit (alert_config_of (decodeSystemBaseConfig default_payload)) = 3"
  by (simp add: alert_config_of_def decodeSystemBaseConfig_def default_payload_def fallbackInt_def clampConfigInt_def)

lemma agent_offline_witness:
  "\<exists>row'. row_of agent_id ''a1'' (agents (rt_db (snd (recordAgentSyncFailure None
     (test_agent\<lparr>agent_failure_count := 2\<rparr>) ''e'' (plain_rt (agent_db 2)))))) = Some row' \<and> agent_status row' = ''offline''"
  using agent_offline [of "plain_rt (agent_db 2)" default_payload "''n1''" "[''n2'', ''n3'']"
      "test_agent\<lparr>agent_failure_count := 2\<rparr>" 3 None "''e''"]
  by (auto simp: plain_rt_def agent_db_fields row_of_def test_agent_def default_offline_limit)

text \<open>the alert looks at the count that was read when the synchronisation began, the database at its
  own: when two synchronisations of an agent overlap and both fail one failure short of the limit, the
  agent is offline and no alert was raised.\<close>

theorem offline_alert_missed:
  assumes "faults (rt_db s) = []" "settings (rt_db s) = Some p" "uuids (rt_db s) = u # us"
    "u \<notin> alert_id ` set (alerts (rt_db s))" "row_of agent_id (agent_id item) (agents (rt_db s)) = Some item"
    "agent_failure_count item + 2 = OfflineFailureLimit (alert_config_of (decodeSystemBaseConfig p))"
    "\<not> has_active ''agent'' (agent_id item) (offline_title item) (rt_db s)"
    "s2 = snd (recordAgentSyncFailure n item m2 (snd (recordAgentSyncFailure n item m s)))"
  shows "\<exists>row. row_of agent_id (agent_id item) (agents (rt_db s2)) = Some row \<and> agent_status row = ''offline'' \<and>
    \<not> has_active ''agent'' (agent_id item) (offline_title item) (rt_db s2)"
proof -
  let ?s1 = "snd (recordAgentSyncFailure n item m s)"
  note first = sync_failure_effect [OF assms(1-5) refl refl, of n m]
  obtain row1 where row1: "row_of agent_id (agent_id item) (agents (rt_db ?s1)) = Some row1"
    "agent_failure_count row1 = agent_failure_count item + 1" using first(1) by blast
  have s1: "faults (rt_db ?s1) = []" "settings (rt_db ?s1) = Some p" "uuids (rt_db ?s1) = u # us"
    "u \<notin> alert_id ` set (alerts (rt_db ?s1))" using first(3) assms(4,6) by auto
  from sync_failure_effect [OF s1 row1(1) refl assms(8)] first(2) row1(2) assms(6,7) show ?thesis by auto
qed

lemma offline_alert_missed_witness:
  "\<exists>row. row_of agent_id ''a1'' (agents (rt_db (snd (recordAgentSyncFailure None (test_agent\<lparr>agent_failure_count := 1\<rparr>) ''e''
     (snd (recordAgentSyncFailure None (test_agent\<lparr>agent_failure_count := 1\<rparr>) ''e'' (plain_rt (agent_db 1)))))))) =
   Some row \<and> agent_status row = ''offline''"
  using offline_alert_missed [of "plain_rt (agent_db 1)" default_payload "''n1''" "[''n2'', ''n3'']"
      "test_agent\<lparr>agent_failure_count := 1\<rparr>" _ None "''e''" "''e''", OF _ _ _ _ _ _ _ refl]
  by (auto simp: plain_rt_def agent_db_fields row_of_def test_agent_def default_offline_limit has_active_def)

end
