(* ===== verification/Runtime_Store.thy ===== *)
theory Runtime_Store
  imports Domain "HOL-Library.List_Lexorder" "HOL-Library.Char_ord" "HOL-Library.Product_Lexorder"
begin

text \<open>
  The state of hosts, virtual machines and snapshots in Redis:
  \<open>backend/internal/service/realtime/redis_runtime_store.go\<close>. The Redis client and the JSON text of a
  value are arguments; a pipeline is the list of the commands it collects, which \<open>Exec\<close> runs as one
  transaction. Go walks a map in no fixed order: a map is given as the list of its entries.
\<close>

section \<open>The client\<close>

datatype 'v redis_command =
    SAdd string string
  | SRem string string
  | SetKey string 'v "int option"
  | Del "string list"

datatype runtime_error = RedisFailure | JsonError | ErrAgentRuntimeDeleted

type_synonym ('r, 'a) redis_prog = "('r, runtime_error, 'a) prog"

text \<open>A missing key is \<open>redis.Nil\<close>: \<open>Some None\<close> has no counterpart, \<open>c_get\<close> gives \<open>None\<close>.\<close>

record ('r, 'v) redis_client =
  c_smembers :: "string \<Rightarrow> ('r, string list) redis_prog"
  c_get :: "string \<Rightarrow> ('r, 'v option) redis_prog"
  c_exists :: "string \<Rightarrow> ('r, nat) redis_prog"
  c_exec :: "'v redis_command list \<Rightarrow> ('r, unit) redis_prog"
  enc_host :: "Host \<Rightarrow> 'v"
  dec_host :: "'v \<Rightarrow> Host option"
  enc_vm :: "VirtualMachine \<Rightarrow> 'v"
  dec_vm :: "'v \<Rightarrow> VirtualMachine option"
  enc_snapshot :: "Snapshot \<Rightarrow> 'v"
  dec_snapshot :: "'v \<Rightarrow> Snapshot option"
  enc_text :: "string \<Rightarrow> 'v"

section \<open>Keys\<close>

definition redisHostsKey :: string where "redisHostsKey = ''kvm:runtime:hosts''"
definition redisVMsKey :: string where "redisVMsKey = ''kvm:runtime:vms''"
definition redisSnapshotsKey :: string where "redisSnapshotsKey = ''kvm:runtime:snapshots''"

definition redisHostKey :: "string \<Rightarrow> string" where
  "redisHostKey agentID = ''kvm:runtime:host:'' @ agentID"

definition redisAgentVMsKey :: "string \<Rightarrow> string" where
  "redisAgentVMsKey agentID = ''kvm:runtime:vms:agent:'' @ agentID"

definition redisAgentDeleteMarkerKey :: "string \<Rightarrow> string" where
  "redisAgentDeleteMarkerKey agentID = ''kvm:runtime:agent-deleted:'' @ agentID"

definition redisVMKey :: "string \<Rightarrow> string" where
  "redisVMKey vmID = ''kvm:runtime:vm:'' @ vmID"

definition redisVMSnapshotsKey :: "string \<Rightarrow> string" where
  "redisVMSnapshotsKey vmID = ''kvm:runtime:snapshots:vm:'' @ vmID"

definition redisSnapshotKey :: "string \<Rightarrow> string" where
  "redisSnapshotKey snapshotID = ''kvm:runtime:snapshot:'' @ snapshotID"

section \<open>Reads\<close>

definition isAgentDeleted :: "('r, 'v) redis_client \<Rightarrow> string \<Rightarrow> ('r, bool) redis_prog" where
  "isAgentDeleted c agentID =
    bindp (c_exists c (redisAgentDeleteMarkerKey agentID)) (\<lambda>value. ret (value > 0))"

text \<open>A value under a key, decoded: missing, or an error when it cannot be decoded.\<close>

definition get_decoded :: "('r, 'v) redis_client \<Rightarrow> ('v \<Rightarrow> 'a option) \<Rightarrow> string \<Rightarrow> ('r, 'a option) redis_prog" where
  "get_decoded c dec key =
    bindp (c_get c key) (\<lambda>value.
    case value of
      None \<Rightarrow> ret None
    | Some v \<Rightarrow> (case dec v of None \<Rightarrow> fail JsonError | Some x \<Rightarrow> ret (Some x)))"

definition GetHost :: "('r, 'v) redis_client \<Rightarrow> string \<Rightarrow> ('r, Host option) redis_prog" where
  "GetHost c agentID = get_decoded c (dec_host c) (redisHostKey agentID)"

definition GetVM :: "('r, 'v) redis_client \<Rightarrow> string \<Rightarrow> ('r, VirtualMachine option) redis_prog" where
  "GetVM c vmID = get_decoded c (dec_vm c) (redisVMKey vmID)"

definition GetSnapshot :: "('r, 'v) redis_client \<Rightarrow> string \<Rightarrow> ('r, Snapshot option) redis_prog" where
  "GetSnapshot c snapshotID = get_decoded c (dec_snapshot c) (redisSnapshotKey snapshotID)"

definition hostStatusRank :: "string \<Rightarrow> nat" where
  "hostStatusRank status = (let s = ToLower (TrimSpace status) in
     if s = ''online'' then 0 else if s = ''degraded'' then 1 else if s = ''maintenance'' then 2
     else if s = ''offline'' then 3 else if s = ''unknown'' then 4 else 5)"

definition vmStatusRank :: "string \<Rightarrow> nat" where
  "vmStatusRank status = (let s = ToLower (TrimSpace status) in
     if s = ''running'' then 0 else if s = ''paused'' then 1 else if s = ''stopped'' then 2
     else if s = ''error'' then 3 else if s = ''unknown'' then 4 else 5)"

text \<open>\<open>sort.Slice\<close> keeps no order among equal elements; the model keeps the given one.\<close>

definition sortHosts :: "Host list \<Rightarrow> Host list" where
  "sortHosts hs = sort_key (\<lambda>h. (hostStatusRank (h_Status h), ToLower (h_Name h))) hs"

definition sortVMs :: "VirtualMachine list \<Rightarrow> VirtualMachine list" where
  "sortVMs vms = sort_key (\<lambda>v. (vmStatusRank (vm_Status v), ToLower (vm_Name v))) vms"

definition sortSnapshots :: "Snapshot list \<Rightarrow> Snapshot list" where
  "sortSnapshots ss = sort_key (\<lambda>s. - sn_CreatedAt s) ss"

text \<open>The loop over the members of an index: members without a value are skipped.\<close>

definition list_indexed ::
  "('r, 'v) redis_client \<Rightarrow> string \<Rightarrow> (string \<Rightarrow> ('r, 'a option) redis_prog) \<Rightarrow> ('r, 'a list) redis_prog" where
  "list_indexed c index get =
    bindp (c_smembers c index) (\<lambda>ids.
    bindp (map_prog get ids) (\<lambda>found. ret (concat (map (\<lambda>x. case x of None \<Rightarrow> [] | Some y \<Rightarrow> [y]) found))))"

definition ListHosts :: "('r, 'v) redis_client \<Rightarrow> ('r, Host list) redis_prog" where
  "ListHosts c = bindp (list_indexed c redisHostsKey (GetHost c)) (\<lambda>hs. ret (sortHosts hs))"

definition vmMatchesQuery :: "VirtualMachine \<Rightarrow> string \<Rightarrow> bool" where
  "vmMatchesQuery vm q \<longleftrightarrow> Contains (ToLower (vm_Name vm)) q \<or> Contains (ToLower (vm_PrimaryIP vm)) q \<or>
     Contains (ToLower (vm_OSType vm)) q \<or> Contains (ToLower (vm_HostName vm)) q"

definition ListVMs :: "('r, 'v) redis_client \<Rightarrow> string \<Rightarrow> string \<Rightarrow> string \<Rightarrow> ('r, VirtualMachine list) redis_prog" where
  "ListVMs c status0 q0 hostID0 =
    (let status = (if status0 = ''all'' then [] else status0);
         q = ToLower (TrimSpace q0); hostID = TrimSpace hostID0 in
     bindp (list_indexed c redisVMsKey (GetVM c)) (\<lambda>vms.
     ret (sortVMs (filter (\<lambda>vm. (status = [] \<or> vm_Status vm = status) \<and> (hostID = [] \<or> vm_HostID vm = hostID) \<and>
       (q = [] \<or> vmMatchesQuery vm q)) vms))))"

definition ListSnapshots :: "('r, 'v) redis_client \<Rightarrow> ('r, Snapshot list) redis_prog" where
  "ListSnapshots c = bindp (list_indexed c redisSnapshotsKey (GetSnapshot c)) (\<lambda>ss. ret (sortSnapshots ss))"

section \<open>Writes\<close>

text \<open>The commands that remove the snapshots of a machine, with the key that lists them.\<close>

definition drop_snapshots :: "('r, 'v) redis_client \<Rightarrow> string \<Rightarrow> ('r, 'v redis_command list) redis_prog" where
  "drop_snapshots c vmID =
    bindp (c_smembers c (redisVMSnapshotsKey vmID)) (\<lambda>ids.
    ret (concat (map (\<lambda>i. [Del [redisSnapshotKey i], SRem redisSnapshotsKey i]) ids)))"

definition RemoveAgent :: "('r, 'v) redis_client \<Rightarrow> string \<Rightarrow> ('r, unit) redis_prog" where
  "RemoveAgent c agentID =
    bindp (c_smembers c (redisAgentVMsKey agentID)) (\<lambda>oldVMIDs.
    bindp (map_prog (\<lambda>vmID. bindp (drop_snapshots c vmID) (\<lambda>cs.
        ret (cs @ [Del [redisVMSnapshotsKey vmID, redisVMKey vmID], SRem redisVMsKey vmID]))) oldVMIDs) (\<lambda>css.
    c_exec c ([SetKey (redisAgentDeleteMarkerKey agentID) (enc_text c ''1'') (Some 600),
       Del [redisHostKey agentID, redisAgentVMsKey agentID], SRem redisHostsKey agentID] @ concat css)))"

definition rejectDeletedAgentRuntimeWrite ::
  "('r, 'v) redis_client \<Rightarrow> string \<Rightarrow> runtime_error + unit \<Rightarrow> ('r, unit) redis_prog" where
  "rejectDeletedAgentRuntimeWrite c agentID written =
    (case written of
      Inl e \<Rightarrow> fail e
    | Inr _ \<Rightarrow>
        bindp (isAgentDeleted c agentID) (\<lambda>deleted.
        if \<not> deleted then ret ()
        else bindp (RemoveAgent c agentID) (\<lambda>_. fail ErrAgentRuntimeDeleted)))"

definition add_snapshots :: "('r, 'v) redis_client \<Rightarrow> (string \<times> Snapshot) list \<Rightarrow> 'v redis_command list" where
  "add_snapshots c snapshots = concat (map (\<lambda>(i, s). [SAdd redisSnapshotsKey i,
     SAdd (redisVMSnapshotsKey (sn_VMID s)) i, SetKey (redisSnapshotKey i) (enc_snapshot c s) None]) snapshots)"

text \<open>The loop of \<open>SaveAgentRuntime\<close> over the old machines.\<close>

definition clear_old_vms :: "('r, 'v) redis_client \<Rightarrow> bool \<Rightarrow> string list \<Rightarrow> ('r, 'v redis_command list list) redis_prog" where
  "clear_old_vms c replaceSnapshots oldVMIDs = map_prog (\<lambda>vmID.
     bindp (if replaceSnapshots
        then bindp (drop_snapshots c vmID) (\<lambda>cs. ret (cs @ [Del [redisVMSnapshotsKey vmID]]))
        else ret []) (\<lambda>cs.
     ret (cs @ [Del [redisVMKey vmID], SRem redisVMsKey vmID]))) oldVMIDs"

text \<open>The pipeline of \<open>SaveAgentRuntime\<close>, with the commands \<open>css\<close> that the loop over the old machines collects.\<close>

definition save_commands ::
  "('r, 'v) redis_client \<Rightarrow> string \<Rightarrow> Host \<Rightarrow> 'v redis_command list list \<Rightarrow> (string \<times> VirtualMachine) list \<Rightarrow>
   (string \<times> Snapshot) list \<Rightarrow> bool \<Rightarrow> 'v redis_command list" where
  "save_commands c agentID host css vms snapshots replaceSnapshots =
    [SAdd redisHostsKey agentID, SetKey (redisHostKey agentID) (enc_host c host) None]
    @ concat css @ [Del [redisAgentVMsKey agentID]]
    @ concat (map (\<lambda>(i, vm). [SAdd redisVMsKey i, SAdd (redisAgentVMsKey agentID) i,
         SetKey (redisVMKey i) (enc_vm c vm) None]) vms)
    @ (if replaceSnapshots then add_snapshots c snapshots else [])"

definition SaveAgentRuntime ::
  "('r, 'v) redis_client \<Rightarrow> string \<Rightarrow> Host \<Rightarrow> (string \<times> VirtualMachine) list \<Rightarrow> (string \<times> Snapshot) list \<Rightarrow> bool \<Rightarrow>
   ('r, unit) redis_prog" where
  "SaveAgentRuntime c agentID host vms snapshots replaceSnapshots =
    bindp (isAgentDeleted c agentID) (\<lambda>deleted.
    if deleted then fail ErrAgentRuntimeDeleted
    else
      bindp (c_smembers c (redisAgentVMsKey agentID)) (\<lambda>oldVMIDs.
      bindp (clear_old_vms c replaceSnapshots oldVMIDs) (\<lambda>css.
      bindp (attempt (c_exec c (save_commands c agentID host css vms snapshots replaceSnapshots))) (\<lambda>written.
      rejectDeletedAgentRuntimeWrite c agentID written))))"

definition UpdateVMRuntime ::
  "('r, 'v) redis_client \<Rightarrow> string \<Rightarrow> Host \<Rightarrow> VirtualMachine \<Rightarrow> ('r, unit) redis_prog" where
  "UpdateVMRuntime c agentID host vm =
    bindp (isAgentDeleted c agentID) (\<lambda>deleted.
    if deleted then fail ErrAgentRuntimeDeleted
    else
      bindp (c_smembers c (redisAgentVMsKey agentID)) (\<lambda>oldVMIDs.
      bindp (map_prog (\<lambda>vmID.
          if vmID = vm_ID vm then ret []
          else bindp (GetVM c vmID) (\<lambda>found.
            case found of
              None \<Rightarrow> ret []
            | Some current \<Rightarrow>
                ret (if vm_Name current = vm_Name vm
                  then [Del [redisVMKey vmID], SRem redisVMsKey vmID, SRem (redisAgentVMsKey agentID) vmID]
                  else []))) oldVMIDs) (\<lambda>css.
      bindp (attempt (c_exec c (concat css @
        [SAdd redisHostsKey agentID, SetKey (redisHostKey agentID) (enc_host c host) None,
         SAdd redisVMsKey (vm_ID vm), SAdd (redisAgentVMsKey agentID) (vm_ID vm),
         SetKey (redisVMKey (vm_ID vm)) (enc_vm c vm) None]))) (\<lambda>written.
      rejectDeletedAgentRuntimeWrite c agentID written))))"

definition RemoveVMRuntime :: "('r, 'v) redis_client \<Rightarrow> string \<Rightarrow> string \<Rightarrow> ('r, unit) redis_prog" where
  "RemoveVMRuntime c agentID vmID =
    bindp (drop_snapshots c vmID) (\<lambda>cs.
    bindp (if agentID = [] then ret []
       else bindp (GetHost c agentID) (\<lambda>found.
         ret (SRem (redisAgentVMsKey agentID) vmID #
           (case found of
              None \<Rightarrow> []
            | Some host \<Rightarrow>
                if h_VMCount host > 0
                then [SetKey (redisHostKey agentID) (enc_host c (host\<lparr>h_VMCount := h_VMCount host - 1\<rparr>)) None]
                else [])))) (\<lambda>hs.
    bindp (attempt (c_exec c (cs @ [Del [redisVMSnapshotsKey vmID, redisVMKey vmID], SRem redisVMsKey vmID] @ hs))) (\<lambda>written.
    rejectDeletedAgentRuntimeWrite c agentID written)))"

definition ReplaceAgentSnapshots ::
  "('r, 'v) redis_client \<Rightarrow> string \<Rightarrow> (string \<times> Snapshot) list \<Rightarrow> ('r, unit) redis_prog" where
  "ReplaceAgentSnapshots c agentID snapshots =
    bindp (isAgentDeleted c agentID) (\<lambda>deleted.
    if deleted then fail ErrAgentRuntimeDeleted
    else
      bindp (c_smembers c (redisAgentVMsKey agentID)) (\<lambda>vmIDs.
      bindp (map_prog (\<lambda>vmID. bindp (drop_snapshots c vmID) (\<lambda>cs.
         ret (cs @ [Del [redisVMSnapshotsKey vmID]]))) vmIDs) (\<lambda>css.
      c_exec c (concat css @ add_snapshots c snapshots))))"

section \<open>What the server promises\<close>

text \<open>
  The content of a server is a map from keys to entries; a set without members does not exist.
  \<open>redis_laws c view\<close>: the commands answer from the content and act on it as the documentation of Redis
  says, as long as nothing fails, and the encoding of a value can be decoded.
\<close>

datatype 'v entry = Text 'v | Members "string set"

type_synonym 'v keyspace = "string \<Rightarrow> 'v entry option"

definition members :: "'v keyspace \<Rightarrow> string \<Rightarrow> string set" where
  "members v key = (case v key of Some (Members m) \<Rightarrow> m | _ \<Rightarrow> {})"

definition text_at :: "'v keyspace \<Rightarrow> string \<Rightarrow> 'v option" where
  "text_at v key = (case v key of Some (Text x) \<Rightarrow> Some x | _ \<Rightarrow> None)"

fun run_command :: "'v redis_command \<Rightarrow> 'v keyspace \<Rightarrow> 'v keyspace" where
  "run_command (SAdd key m) v = v(key \<mapsto> Members (insert m (members v key)))"
| "run_command (SRem key m) v =
    (case v key of Some (Members ms) \<Rightarrow> v(key := if ms - {m} = {} then None else Some (Members (ms - {m}))) | _ \<Rightarrow> v)"
| "run_command (SetKey key x ttl) v = v(key \<mapsto> Text x)"
| "run_command (Del keys) v = (\<lambda>k. if k \<in> set keys then None else v k)"

definition redis_laws :: "('r, 'v) redis_client \<Rightarrow> ('r \<Rightarrow> 'v keyspace) \<Rightarrow> bool" where
  "redis_laws c view \<longleftrightarrow>
     (\<forall>key r. \<exists>ms. c_smembers c key r = (Inr ms, r) \<and> distinct ms \<and> set ms = members (view r) key) \<and>
     (\<forall>key r. c_get c key r = (Inr (text_at (view r) key), r)) \<and>
     (\<forall>key r. c_exists c key r = (Inr (if view r key = None then 0 else 1), r)) \<and>
     (\<forall>cs r. \<exists>r'. c_exec c cs r = (Inr (), r') \<and> view r' = fold run_command cs (view r)) \<and>
     (\<forall>h. dec_host c (enc_host c h) = Some h) \<and> (\<forall>v. dec_vm c (enc_vm c v) = Some v) \<and>
     (\<forall>s. dec_snapshot c (enc_snapshot c s) = Some s)"

end
