(* ===== verification/Runtime_Refinement.thy ===== *)
theory Runtime_Refinement
  imports Runtime_Store
begin

text \<open>
  The fleet that the runtime store keeps: for each agent its host and its virtual machines, and the agents
  marked as deleted. \<open>fleet_of\<close> reads it off the keys, \<open>runtime_wf\<close> says how the keys hang together, and
  each write of the store is shown to be the write of the fleet.
\<close>

section \<open>Keys\<close>

lemmas key_defs = redisHostsKey_def redisVMsKey_def redisSnapshotsKey_def redisHostKey_def redisAgentVMsKey_def
  redisAgentDeleteMarkerKey_def redisVMKey_def redisVMSnapshotsKey_def redisSnapshotKey_def

lemma key_inj [simp]:
  "redisHostKey a = redisHostKey b \<longleftrightarrow> a = b" "redisAgentVMsKey a = redisAgentVMsKey b \<longleftrightarrow> a = b"
  "redisAgentDeleteMarkerKey a = redisAgentDeleteMarkerKey b \<longleftrightarrow> a = b" "redisVMKey a = redisVMKey b \<longleftrightarrow> a = b"
  "redisVMSnapshotsKey a = redisVMSnapshotsKey b \<longleftrightarrow> a = b" "redisSnapshotKey a = redisSnapshotKey b \<longleftrightarrow> a = b"
  by (simp_all add: key_defs)

lemma key_neq [simp]:
  "redisHostsKey \<noteq> redisVMsKey" "redisHostsKey \<noteq> redisSnapshotsKey" "redisHostsKey \<noteq> redisHostKey b"
  "redisHostsKey \<noteq> redisAgentVMsKey b" "redisHostsKey \<noteq> redisAgentDeleteMarkerKey b" "redisHostsKey \<noteq> redisVMKey b"
  "redisHostsKey \<noteq> redisVMSnapshotsKey b" "redisHostsKey \<noteq> redisSnapshotKey b" "redisVMsKey \<noteq> redisHostsKey"
  "redisVMsKey \<noteq> redisSnapshotsKey" "redisVMsKey \<noteq> redisHostKey b" "redisVMsKey \<noteq> redisAgentVMsKey b"
  "redisVMsKey \<noteq> redisAgentDeleteMarkerKey b" "redisVMsKey \<noteq> redisVMKey b" "redisVMsKey \<noteq> redisVMSnapshotsKey b"
  "redisVMsKey \<noteq> redisSnapshotKey b" "redisSnapshotsKey \<noteq> redisHostsKey" "redisSnapshotsKey \<noteq> redisVMsKey"
  "redisSnapshotsKey \<noteq> redisHostKey b" "redisSnapshotsKey \<noteq> redisAgentVMsKey b" "redisSnapshotsKey \<noteq> redisAgentDeleteMarkerKey b"
  "redisSnapshotsKey \<noteq> redisVMKey b" "redisSnapshotsKey \<noteq> redisVMSnapshotsKey b" "redisSnapshotsKey \<noteq> redisSnapshotKey b"
  "redisHostKey a \<noteq> redisHostsKey" "redisHostKey a \<noteq> redisVMsKey" "redisHostKey a \<noteq> redisSnapshotsKey"
  "redisHostKey a \<noteq> redisAgentVMsKey b" "redisHostKey a \<noteq> redisAgentDeleteMarkerKey b" "redisHostKey a \<noteq> redisVMKey b"
  "redisHostKey a \<noteq> redisVMSnapshotsKey b" "redisHostKey a \<noteq> redisSnapshotKey b" "redisAgentVMsKey a \<noteq> redisHostsKey"
  "redisAgentVMsKey a \<noteq> redisVMsKey" "redisAgentVMsKey a \<noteq> redisSnapshotsKey" "redisAgentVMsKey a \<noteq> redisHostKey b"
  "redisAgentVMsKey a \<noteq> redisAgentDeleteMarkerKey b" "redisAgentVMsKey a \<noteq> redisVMKey b" "redisAgentVMsKey a \<noteq> redisVMSnapshotsKey b"
  "redisAgentVMsKey a \<noteq> redisSnapshotKey b" "redisAgentDeleteMarkerKey a \<noteq> redisHostsKey" "redisAgentDeleteMarkerKey a \<noteq> redisVMsKey"
  "redisAgentDeleteMarkerKey a \<noteq> redisSnapshotsKey" "redisAgentDeleteMarkerKey a \<noteq> redisHostKey b" "redisAgentDeleteMarkerKey a \<noteq> redisAgentVMsKey b"
  "redisAgentDeleteMarkerKey a \<noteq> redisVMKey b" "redisAgentDeleteMarkerKey a \<noteq> redisVMSnapshotsKey b" "redisAgentDeleteMarkerKey a \<noteq> redisSnapshotKey b"
  "redisVMKey a \<noteq> redisHostsKey" "redisVMKey a \<noteq> redisVMsKey" "redisVMKey a \<noteq> redisSnapshotsKey"
  "redisVMKey a \<noteq> redisHostKey b" "redisVMKey a \<noteq> redisAgentVMsKey b" "redisVMKey a \<noteq> redisAgentDeleteMarkerKey b"
  "redisVMKey a \<noteq> redisVMSnapshotsKey b" "redisVMKey a \<noteq> redisSnapshotKey b" "redisVMSnapshotsKey a \<noteq> redisHostsKey"
  "redisVMSnapshotsKey a \<noteq> redisVMsKey" "redisVMSnapshotsKey a \<noteq> redisSnapshotsKey" "redisVMSnapshotsKey a \<noteq> redisHostKey b"
  "redisVMSnapshotsKey a \<noteq> redisAgentVMsKey b" "redisVMSnapshotsKey a \<noteq> redisAgentDeleteMarkerKey b" "redisVMSnapshotsKey a \<noteq> redisVMKey b"
  "redisVMSnapshotsKey a \<noteq> redisSnapshotKey b" "redisSnapshotKey a \<noteq> redisHostsKey" "redisSnapshotKey a \<noteq> redisVMsKey"
  "redisSnapshotKey a \<noteq> redisSnapshotsKey" "redisSnapshotKey a \<noteq> redisHostKey b" "redisSnapshotKey a \<noteq> redisAgentVMsKey b"
  "redisSnapshotKey a \<noteq> redisAgentDeleteMarkerKey b" "redisSnapshotKey a \<noteq> redisVMKey b" "redisSnapshotKey a \<noteq> redisVMSnapshotsKey b"
  by (simp_all add: key_defs)

section \<open>Pipelines\<close>

text \<open>What a run of commands leaves under a key depends on the commands that write the key.\<close>

fun writes :: "'v redis_command \<Rightarrow> string set" where
  "writes (SAdd key m) = {key}"
| "writes (SRem key m) = {key}"
| "writes (SetKey key x ttl) = {key}"
| "writes (Del keys) = set keys"

lemma run_untouched: "k \<notin> writes c \<Longrightarrow> run_command c v k = v k"
  by (cases c) (auto split: option.splits entry.splits)

lemma fold_untouched: "(\<And>c. c \<in> set cs \<Longrightarrow> k \<notin> writes c) \<Longrightarrow> fold run_command cs v k = v k"
  by (induction cs arbitrary: v) (auto simp: run_untouched)

lemma members_cong: "v k = w k \<Longrightarrow> members v k = members w k"
  by (simp add: members_def)

lemma members_untouched: "(\<And>c. c \<in> set cs \<Longrightarrow> k \<notin> writes c) \<Longrightarrow> members (fold run_command cs v) k = members v k"
  by (simp add: members_def fold_untouched)

lemma text_untouched: "(\<And>c. c \<in> set cs \<Longrightarrow> k \<notin> writes c) \<Longrightarrow> text_at (fold run_command cs v) k = text_at v k"
  by (simp add: text_at_def fold_untouched)

lemma members_upd [simp]: "members (v(k := Some (Members ms))) k = ms" "members (v(k := None)) k = {}"
  "k \<noteq> l \<Longrightarrow> members (v(k := e)) l = members v l"
  by (simp_all add: members_def)

lemma members_srem: "members (run_command (SRem k m) v) k = members v k - {m}"
  by (auto simp: members_def split: option.splits entry.splits)

lemma srem_other: "l \<noteq> k \<Longrightarrow> run_command (SRem k m) v l = v l"
  by (rule run_untouched) simp

lemma srem_simps: "members (run_command (SRem k m) v) l = (if l = k then members v k - {m} else members v l)"
  "l \<noteq> k \<Longrightarrow> text_at (run_command (SRem k m) v) l = text_at v l"
  by (cases "l = k", simp add: members_srem del: run_command.simps,
    simp add: members_def srem_other del: run_command.simps, simp add: text_at_def srem_other del: run_command.simps)

lemma fold_srem:
  assumes "\<And>c. c \<in> set cs \<Longrightarrow> k \<in> writes c \<Longrightarrow> \<exists>m. c = SRem k m"
  shows "members (fold run_command cs v) k = members v k - {m. SRem k m \<in> set cs}"
  using assms
proof (induction cs arbitrary: v)
  case (Cons c cs)
  show ?case
  proof (cases "k \<in> writes c")
    case True
    then obtain m where c: "c = SRem k m" using Cons.prems [of c] by auto
    have "members (fold run_command cs (run_command c v)) k = members (run_command c v) k - {m. SRem k m \<in> set cs}"
      using Cons.prems by (intro Cons.IH) auto
    then show ?thesis using c members_srem [of k m v] by auto
  next
    case False
    have "members (fold run_command cs (run_command c v)) k = members (run_command c v) k - {m. SRem k m \<in> set cs}"
      using Cons.prems by (intro Cons.IH) auto
    moreover have "members (run_command c v) k = members v k"
      using run_untouched [OF False] by (rule members_cong)
    moreover have "SRem k m \<noteq> c" for m using False by auto
    ultimately show ?thesis by auto
  qed
qed simp

lemma fold_sadd:
  assumes "\<And>c. c \<in> set cs \<Longrightarrow> k \<in> writes c \<Longrightarrow> \<exists>m. c = SAdd k m"
  shows "members (fold run_command cs v) k = members v k \<union> {m. SAdd k m \<in> set cs}"
  using assms
proof (induction cs arbitrary: v)
  case (Cons c cs)
  show ?case
  proof (cases "k \<in> writes c")
    case True
    then obtain m where c: "c = SAdd k m" using Cons.prems [of c] by auto
    have "members (fold run_command cs (run_command c v)) k = members (run_command c v) k \<union> {m. SAdd k m \<in> set cs}"
      using Cons.prems by (intro Cons.IH) auto
    then show ?thesis using c by auto
  next
    case False
    have "members (fold run_command cs (run_command c v)) k = members (run_command c v) k \<union> {m. SAdd k m \<in> set cs}"
      using Cons.prems by (intro Cons.IH) auto
    moreover have "members (run_command c v) k = members v k"
      using run_untouched [OF False] by (rule members_cong)
    moreover have "SAdd k m \<noteq> c" for m using False by auto
    ultimately show ?thesis by auto
  qed
qed simp

lemma fold_del:
  assumes "\<And>c. c \<in> set cs \<Longrightarrow> k \<in> writes c \<Longrightarrow> \<exists>ks. c = Del ks"
  shows "fold run_command cs v k = (if \<exists>c \<in> set cs. k \<in> writes c then None else v k)"
  using assms
proof (induction cs arbitrary: v)
  case (Cons c cs)
  have IH: "fold run_command cs (run_command c v) k = (if \<exists>c \<in> set cs. k \<in> writes c then None else run_command c v k)"
    using Cons.prems by (intro Cons.IH) auto
  show ?case
  proof (cases "k \<in> writes c")
    case True
    with Cons.prems [of c] have "run_command c v k = None" by auto
    with IH True show ?thesis by auto
  next
    case False
    with IH show ?thesis by (auto simp: run_untouched)
  qed
qed simp

lemma fold_set:
  assumes "\<And>c. c \<in> set cs \<Longrightarrow> k \<in> writes c \<Longrightarrow> \<exists>t. c = SetKey k x t"
  shows "fold run_command cs v k = (if \<exists>c \<in> set cs. k \<in> writes c then Some (Text x) else v k)"
  using assms
proof (induction cs arbitrary: v)
  case (Cons c cs)
  have IH: "fold run_command cs (run_command c v) k = (if \<exists>c \<in> set cs. k \<in> writes c then Some (Text x) else run_command c v k)"
    using Cons.prems by (intro Cons.IH) auto
  show ?case
  proof (cases "k \<in> writes c")
    case True
    with Cons.prems [of c] have "run_command c v k = Some (Text x)" by auto
    with IH True show ?thesis by auto
  next
    case False
    with IH show ?thesis by (auto simp: run_untouched)
  qed
qed simp

section \<open>What the fleet reads of the keys\<close>

record 'v shelf =
  s_hosts :: "string set"
  s_host :: "string \<rightharpoonup> 'v"
  s_marked :: "string set"
  s_owned :: "string \<Rightarrow> string set"
  s_vms :: "string set"
  s_vm :: "string \<rightharpoonup> 'v"

definition shelf_of :: "'v keyspace \<Rightarrow> 'v shelf" where
  "shelf_of v = \<lparr>s_hosts = members v redisHostsKey, s_host = (\<lambda>a. text_at v (redisHostKey a)),
     s_marked = {a. v (redisAgentDeleteMarkerKey a) \<noteq> None}, s_owned = (\<lambda>a. members v (redisAgentVMsKey a)),
     s_vms = members v redisVMsKey, s_vm = (\<lambda>i. text_at v (redisVMKey i))\<rparr>"

lemma shelf_eqI:
  assumes "members v redisHostsKey = s_hosts s" "\<And>a. text_at v (redisHostKey a) = s_host s a"
    "\<And>a. v (redisAgentDeleteMarkerKey a) \<noteq> None \<longleftrightarrow> a \<in> s_marked s"
    "\<And>a. members v (redisAgentVMsKey a) = s_owned s a" "members v redisVMsKey = s_vms s"
    "\<And>i. text_at v (redisVMKey i) = s_vm s i"
  shows "shelf_of v = s"
  using assms by (intro shelf.equality) (auto simp: shelf_of_def)

lemma shelf_sel:
  "s_hosts (shelf_of v) = members v redisHostsKey" "s_host (shelf_of v) = (\<lambda>a. text_at v (redisHostKey a))"
  "s_marked (shelf_of v) = {a. v (redisAgentDeleteMarkerKey a) \<noteq> None}"
  "s_owned (shelf_of v) = (\<lambda>a. members v (redisAgentVMsKey a))" "s_vms (shelf_of v) = members v redisVMsKey"
  "s_vm (shelf_of v) = (\<lambda>i. text_at v (redisVMKey i))"
  by (simp_all add: shelf_of_def)

text \<open>The commands that clear the machines \<open>olds\<close> of an agent, snapshots included or not.\<close>

definition clears :: "string \<Rightarrow> string set \<Rightarrow> 'v redis_command list \<Rightarrow> bool" where
  "clears a olds cs \<longleftrightarrow>
     (\<forall>c \<in> set cs. (\<exists>i. c = SRem redisSnapshotsKey i) \<or> (\<exists>i \<in> olds. c = SRem redisVMsKey i) \<or>
        (\<exists>i \<in> olds. c = SRem (redisAgentVMsKey a) i) \<or>
        (\<exists>ks. c = Del ks \<and> set ks \<subseteq> redisVMKey ` olds \<union> range redisVMSnapshotsKey \<union> range redisSnapshotKey)) \<and>
     (\<forall>i \<in> olds. SRem redisVMsKey i \<in> set cs \<and> (\<exists>ks. Del ks \<in> set cs \<and> redisVMKey i \<in> set ks))"

lemma clears_writes:
  assumes "clears a olds cs" "c \<in> set cs"
  shows "redisHostsKey \<notin> writes c" "redisHostKey b \<notin> writes c" "redisAgentDeleteMarkerKey b \<notin> writes c"
    "b \<noteq> a \<Longrightarrow> redisAgentVMsKey b \<notin> writes c" "redisVMKey i \<in> writes c \<Longrightarrow> i \<in> olds \<and> (\<exists>ks. c = Del ks)"
    "redisVMsKey \<in> writes c \<Longrightarrow> \<exists>i \<in> olds. c = SRem redisVMsKey i"
    "redisAgentVMsKey a \<in> writes c \<Longrightarrow> \<exists>i \<in> olds. c = SRem (redisAgentVMsKey a) i"
proof -
  consider i where "c = SRem redisSnapshotsKey i" | i where "i \<in> olds" "c = SRem redisVMsKey i"
    | i where "i \<in> olds" "c = SRem (redisAgentVMsKey a) i"
    | ks where "c = Del ks" "set ks \<subseteq> redisVMKey ` olds \<union> range redisVMSnapshotsKey \<union> range redisSnapshotKey"
    using assms unfolding clears_def by blast
  note cs = this
  show "redisHostsKey \<notin> writes c" by (cases rule: cs) auto
  show "redisHostKey b \<notin> writes c" by (cases rule: cs) auto
  show "redisAgentDeleteMarkerKey b \<notin> writes c" by (cases rule: cs) auto
  show "b \<noteq> a \<Longrightarrow> redisAgentVMsKey b \<notin> writes c" by (cases rule: cs) auto
  show "redisVMKey i \<in> writes c \<Longrightarrow> i \<in> olds \<and> (\<exists>ks. c = Del ks)" by (cases rule: cs) auto
  show "redisVMsKey \<in> writes c \<Longrightarrow> \<exists>i \<in> olds. c = SRem redisVMsKey i" by (cases rule: cs) auto
  show "redisAgentVMsKey a \<in> writes c \<Longrightarrow> \<exists>i \<in> olds. c = SRem (redisAgentVMsKey a) i" by (cases rule: cs) auto
qed

lemma clears_shelf:
  assumes "clears a olds cs"
  shows "shelf_of (fold run_command cs v) = (shelf_of v)\<lparr>
     s_owned := (s_owned (shelf_of v))(a := s_owned (shelf_of v) a - {i. SRem (redisAgentVMsKey a) i \<in> set cs}),
     s_vms := s_vms (shelf_of v) - olds, s_vm := s_vm (shelf_of v) |` (- olds)\<rparr>"
proof -
  note w = clears_writes [OF assms]
  let ?w = "fold run_command cs v"
  have h: "members ?w redisHostsKey = members v redisHostsKey" by (rule members_untouched) (rule w)
  have hk: "text_at ?w (redisHostKey b) = text_at v (redisHostKey b)" for b by (rule text_untouched) (rule w)
  have m: "?w (redisAgentDeleteMarkerKey b) = v (redisAgentDeleteMarkerKey b)" for b by (rule fold_untouched) (rule w)
  have ob: "members ?w (redisAgentVMsKey b) = members v (redisAgentVMsKey b)" if "b \<noteq> a" for b
    by (rule members_untouched) (rule w(4) [OF _ that])
  have oa: "members (fold run_command cs v) (redisAgentVMsKey a) =
     members v (redisAgentVMsKey a) - {i. SRem (redisAgentVMsKey a) i \<in> set cs}"
    by (rule fold_srem) (use w(7) in blast)
  have vms: "members (fold run_command cs v) redisVMsKey = members v redisVMsKey - {i. SRem redisVMsKey i \<in> set cs}"
    by (rule fold_srem) (use w(6) in blast)
  have olds: "{i. SRem redisVMsKey i \<in> set cs} = olds"
    using assms unfolding clears_def by auto
  have del: "?w (redisVMKey i) = (if \<exists>c \<in> set cs. redisVMKey i \<in> writes c then None else v (redisVMKey i))" for i
    by (rule fold_del) (use w(5) in blast)
  have iff: "(\<exists>c \<in> set cs. redisVMKey i \<in> writes c) \<longleftrightarrow> i \<in> olds" for i
  proof
    show "\<exists>c \<in> set cs. redisVMKey i \<in> writes c \<Longrightarrow> i \<in> olds" using w(5) by blast
    assume "i \<in> olds"
    then obtain ks where "Del ks \<in> set cs" "redisVMKey i \<in> set ks" using assms unfolding clears_def by blast
    then show "\<exists>c \<in> set cs. redisVMKey i \<in> writes c" by (intro bexI [of _ "Del ks"]) auto
  qed
  have vk: "text_at ?w (redisVMKey i) = (if i \<in> olds then None else text_at v (redisVMKey i))" for i
    by (simp add: text_at_def del iff)
  show ?thesis
    by (rule shelf_eqI) (simp_all add: shelf_sel h hk m ob oa vms olds vk restrict_map_def)
qed

definition put_vms :: "('r, 'v) redis_client \<Rightarrow> string \<Rightarrow> (string \<times> VirtualMachine) list \<Rightarrow> 'v redis_command list" where
  "put_vms c a vms = concat (map (\<lambda>(i, vm). [SAdd redisVMsKey i, SAdd (redisAgentVMsKey a) i,
     SetKey (redisVMKey i) (enc_vm c vm) None]) vms)"

lemma put_vms_shelf:
  assumes "distinct (map fst vms)"
  shows "shelf_of (fold run_command (put_vms c a vms) v) = (shelf_of v)\<lparr>
     s_owned := (s_owned (shelf_of v))(a := s_owned (shelf_of v) a \<union> fst ` set vms),
     s_vms := s_vms (shelf_of v) \<union> fst ` set vms,
     s_vm := s_vm (shelf_of v) ++ (\<lambda>i. map_option (enc_vm c) (map_of vms i))\<rparr>"
proof -
  let ?w = "fold run_command (put_vms c a vms) v"
  have un: "?w k = v k" if "k \<noteq> redisVMsKey" "k \<noteq> redisAgentVMsKey a" "k \<notin> range redisVMKey" for k
    by (rule fold_untouched) (use that in \<open>auto simp: put_vms_def\<close>)
  have oa: "members ?w (redisAgentVMsKey a) = members v (redisAgentVMsKey a) \<union> {i. SAdd (redisAgentVMsKey a) i \<in> set (put_vms c a vms)}"
    by (rule fold_sadd) (auto simp: put_vms_def)
  have vm: "members ?w redisVMsKey = members v redisVMsKey \<union> {i. SAdd redisVMsKey i \<in> set (put_vms c a vms)}"
    by (rule fold_sadd) (auto simp: put_vms_def)
  have ids: "{i. SAdd (redisAgentVMsKey a) i \<in> set (put_vms c a vms)} = fst ` set vms"
    "{i. SAdd redisVMsKey i \<in> set (put_vms c a vms)} = fst ` set vms"
    by (force simp: put_vms_def)+
  have vk: "text_at ?w (redisVMKey i) = (case map_of vms i of Some x \<Rightarrow> Some (enc_vm c x) | None \<Rightarrow> text_at v (redisVMKey i))" for i
  proof (cases "map_of vms i")
    case None
    then have "i \<notin> fst ` set vms" by (simp add: map_of_eq_None_iff)
    then have "?w (redisVMKey i) = v (redisVMKey i)"
      by (intro fold_untouched) (auto simp: put_vms_def image_iff)
    with None show ?thesis by (simp add: text_at_def)
  next
    case (Some x)
    have x: "y = x" if "(i, y) \<in> set vms" for y using Some that assms by (simp add: map_of_eq_Some_iff)
    have "?w (redisVMKey i) = (if \<exists>c' \<in> set (put_vms c a vms). redisVMKey i \<in> writes c' then Some (Text (enc_vm c x)) else v (redisVMKey i))"
      by (rule fold_set) (auto simp: put_vms_def dest: x)
    moreover have "\<exists>c' \<in> set (put_vms c a vms). redisVMKey i \<in> writes c'"
      using map_of_SomeD [OF Some] by (intro bexI [of _ "SetKey (redisVMKey i) (enc_vm c x) None"]) (auto simp: put_vms_def)
    ultimately show ?thesis using Some by (simp add: text_at_def)
  qed
  have h: "members ?w redisHostsKey = members v redisHostsKey" by (simp add: members_def un image_iff)
  have hk: "text_at ?w (redisHostKey b) = text_at v (redisHostKey b)" for b by (simp add: text_at_def un image_iff)
  have m: "?w (redisAgentDeleteMarkerKey b) = v (redisAgentDeleteMarkerKey b)" for b by (simp add: un image_iff)
  have ob: "members ?w (redisAgentVMsKey b) = members v (redisAgentVMsKey b)" if "b \<noteq> a" for b
    using that by (simp add: members_def un image_iff)
  show ?thesis
    by (rule shelf_eqI) (simp_all add: shelf_sel h hk m ob oa vm ids vk map_add_def fun_eq_iff split: option.split)
qed

text \<open>Commands on the snapshots leave the fleet alone.\<close>

definition on_snapshots :: "'v redis_command list \<Rightarrow> bool" where
  "on_snapshots cs \<longleftrightarrow> (\<forall>c \<in> set cs. writes c \<subseteq> {redisSnapshotsKey} \<union> range redisVMSnapshotsKey \<union> range redisSnapshotKey)"

lemma on_snapshots_shelf:
  assumes "on_snapshots cs"
  shows "shelf_of (fold run_command cs v) = shelf_of v"
proof -
  have "fold run_command cs v k = v k"
    if "k \<notin> {redisSnapshotsKey} \<union> range redisVMSnapshotsKey \<union> range redisSnapshotKey" for k
    by (intro fold_untouched) (use that assms in \<open>auto simp: on_snapshots_def\<close>)
  note un = this
  let ?w = "fold run_command cs v"
  have h: "members ?w redisHostsKey = members v redisHostsKey" "members ?w redisVMsKey = members v redisVMsKey"
    by (simp_all add: members_def un image_iff)
  have k: "text_at ?w (redisHostKey b) = text_at v (redisHostKey b)" "text_at ?w (redisVMKey b) = text_at v (redisVMKey b)" for b
    by (simp_all add: text_at_def un image_iff)
  have m: "?w (redisAgentDeleteMarkerKey b) = v (redisAgentDeleteMarkerKey b)" for b by (simp add: un image_iff)
  have o: "members ?w (redisAgentVMsKey b) = members v (redisAgentVMsKey b)" for b by (simp add: members_def un image_iff)
  show ?thesis by (rule shelf_eqI) (simp_all add: shelf_sel h k m o)
qed

lemma on_snapshots_add: "on_snapshots (add_snapshots c ss)"
  by (auto simp: on_snapshots_def add_snapshots_def)

section \<open>Single commands\<close>

lemma shelf_add_host [simp]:
  "shelf_of (run_command (SAdd redisHostsKey a) v) = (shelf_of v)\<lparr>s_hosts := insert a (s_hosts (shelf_of v))\<rparr>"
  by (rule shelf_eqI) (simp_all add: shelf_sel text_at_def)

lemma shelf_set_host [simp]:
  "shelf_of (run_command (SetKey (redisHostKey a) x t) v) = (shelf_of v)\<lparr>s_host := (s_host (shelf_of v))(a \<mapsto> x)\<rparr>"
  by (rule shelf_eqI) (simp_all add: shelf_sel text_at_def)

lemma shelf_rem_host [simp]:
  "shelf_of (run_command (SRem redisHostsKey a) v) = (shelf_of v)\<lparr>s_hosts := s_hosts (shelf_of v) - {a}\<rparr>"
  by (rule shelf_eqI) (simp_all add: shelf_sel srem_simps srem_other del: run_command.simps)

lemma shelf_rem_owned [simp]:
  "shelf_of (run_command (SRem (redisAgentVMsKey a) i) v) =
    (shelf_of v)\<lparr>s_owned := (s_owned (shelf_of v))(a := s_owned (shelf_of v) a - {i})\<rparr>"
  by (rule shelf_eqI) (simp_all add: shelf_sel srem_simps srem_other del: run_command.simps)

lemma shelf_del_owned [simp]:
  "shelf_of (run_command (Del [redisAgentVMsKey a]) v) = (shelf_of v)\<lparr>s_owned := (s_owned (shelf_of v))(a := {})\<rparr>"
  by (rule shelf_eqI) (simp_all add: shelf_sel text_at_def members_def)

lemma shelf_del_agent [simp]:
  "shelf_of (run_command (Del [redisHostKey a, redisAgentVMsKey a]) v) =
    (shelf_of v)\<lparr>s_host := (s_host (shelf_of v))(a := None), s_owned := (s_owned (shelf_of v))(a := {})\<rparr>"
  by (rule shelf_eqI) (simp_all add: shelf_sel text_at_def members_def)

lemma shelf_mark [simp]:
  "shelf_of (run_command (SetKey (redisAgentDeleteMarkerKey a) x t) v) =
    (shelf_of v)\<lparr>s_marked := insert a (s_marked (shelf_of v))\<rparr>"
  by (rule shelf_eqI) (auto simp: shelf_sel text_at_def members_def)

section \<open>Whole pipelines\<close>

lemma save_shelf:
  assumes "clears a olds (concat css)" "distinct (map fst vms)"
  shows "shelf_of (fold run_command (save_commands c a host css vms snaps b) v) = (shelf_of v)\<lparr>
     s_hosts := insert a (s_hosts (shelf_of v)), s_host := (s_host (shelf_of v))(a \<mapsto> enc_host c host),
     s_owned := (s_owned (shelf_of v))(a := fst ` set vms),
     s_vms := (s_vms (shelf_of v) - olds) \<union> fst ` set vms,
     s_vm := (s_vm (shelf_of v) |` (- olds)) ++ (\<lambda>i. map_option (enc_vm c) (map_of vms i))\<rparr>"
proof -
  have "shelf_of (fold run_command (if b then add_snapshots c snaps else []) w) = shelf_of w" for w
    by (simp add: on_snapshots_shelf on_snapshots_add)
  moreover have "fold run_command (save_commands c a host css vms snaps b) v =
     fold run_command (if b then add_snapshots c snaps else []) (fold run_command (put_vms c a vms)
       (run_command (Del [redisAgentVMsKey a]) (fold run_command (concat css)
         (run_command (SetKey (redisHostKey a) (enc_host c host) None) (run_command (SAdd redisHostsKey a) v)))))"
    by (simp add: save_commands_def put_vms_def del: run_command.simps)
  ultimately show ?thesis
    by (simp add: put_vms_shelf [OF assms(2)] clears_shelf [OF assms(1)] del: run_command.simps)
qed

lemma remove_shelf:
  assumes "clears a olds (concat css)"
  shows "shelf_of (fold run_command ([SetKey (redisAgentDeleteMarkerKey a) x t,
       Del [redisHostKey a, redisAgentVMsKey a], SRem redisHostsKey a] @ concat css) v) = (shelf_of v)\<lparr>
     s_hosts := s_hosts (shelf_of v) - {a}, s_host := (s_host (shelf_of v))(a := None),
     s_marked := insert a (s_marked (shelf_of v)), s_owned := (s_owned (shelf_of v))(a := {}),
     s_vms := s_vms (shelf_of v) - olds, s_vm := s_vm (shelf_of v) |` (- olds)\<rparr>"
  by (simp add: clears_shelf [OF assms] del: run_command.simps)

lemma update_shelf:
  assumes "clears a olds cs" "{i. SRem (redisAgentVMsKey a) i \<in> set cs} = olds"
  shows "shelf_of (fold run_command (cs @ [SAdd redisHostsKey a, SetKey (redisHostKey a) h None, SAdd redisVMsKey i,
       SAdd (redisAgentVMsKey a) i, SetKey (redisVMKey i) x None]) v) = (shelf_of v)\<lparr>
     s_hosts := insert a (s_hosts (shelf_of v)), s_host := (s_host (shelf_of v))(a \<mapsto> h),
     s_owned := (s_owned (shelf_of v))(a := insert i (s_owned (shelf_of v) a - olds)),
     s_vms := insert i (s_vms (shelf_of v) - olds),
     s_vm := (s_vm (shelf_of v) |` (- olds))(i \<mapsto> x)\<rparr>"
proof -
  have put: "shelf_of (run_command (SAdd redisVMsKey i) w) = (shelf_of w)\<lparr>s_vms := insert i (s_vms (shelf_of w))\<rparr>"
    "shelf_of (run_command (SAdd (redisAgentVMsKey a) i) w) =
       (shelf_of w)\<lparr>s_owned := (s_owned (shelf_of w))(a := insert i (s_owned (shelf_of w) a))\<rparr>"
    "shelf_of (run_command (SetKey (redisVMKey i) x None) w) = (shelf_of w)\<lparr>s_vm := (s_vm (shelf_of w))(i \<mapsto> x)\<rparr>"
    for w by (rule shelf_eqI; simp add: shelf_sel text_at_def)+
  show ?thesis by (simp add: put clears_shelf [OF assms(1)] assms(2) del: run_command.simps)
qed

section \<open>The fleet\<close>

record fleet =
  fl_host :: "string \<rightharpoonup> Host"
  fl_vms :: "string \<Rightarrow> (string \<rightharpoonup> VirtualMachine)"
  fl_deleted :: "string set"

text \<open>The agents of \<open>A\<close> may have data although they are marked: a write has just passed the mark.\<close>

definition shelf_wf :: "('r, 'v) redis_client \<Rightarrow> string set \<Rightarrow> 'v shelf \<Rightarrow> bool" where
  "shelf_wf c A s \<longleftrightarrow>
     (\<forall>a \<in> s_hosts s. \<exists>x h. s_host s a = Some x \<and> dec_host c x = Some h) \<and>
     dom (s_host s) \<subseteq> s_hosts s \<and>
     s_vms s = (\<Union>a. s_owned s a) \<and>
     (\<forall>i \<in> s_vms s. \<exists>x m. s_vm s i = Some x \<and> dec_vm c x = Some m) \<and>
     (\<forall>a b. a \<noteq> b \<longrightarrow> s_owned s a \<inter> s_owned s b = {}) \<and>
     (\<forall>a \<in> s_marked s - A. a \<notin> s_hosts s \<and> s_owned s a = {})"

definition fleet_of :: "('r, 'v) redis_client \<Rightarrow> 'v shelf \<Rightarrow> fleet" where
  "fleet_of c s = \<lparr>fl_host = (\<lambda>a. Option.bind (s_host s a) (dec_host c)),
     fl_vms = (\<lambda>a i. if i \<in> s_owned s a then Option.bind (s_vm s i) (dec_vm c) else None),
     fl_deleted = s_marked s\<rparr>"

datatype runtime_write =
    Save string Host "(string \<times> VirtualMachine) list" "(string \<times> Snapshot) list" bool
  | UpdateVM string Host VirtualMachine
  | RemoveVM string string
  | ReplaceSnapshots string "(string \<times> Snapshot) list"
  | Remove string

definition run_write :: "('r, 'v) redis_client \<Rightarrow> runtime_write \<Rightarrow> ('r, unit) redis_prog" where
  "run_write c w = (case w of
     Save a h vms ss b \<Rightarrow> SaveAgentRuntime c a h vms ss b
   | UpdateVM a h vm \<Rightarrow> UpdateVMRuntime c a h vm
   | RemoveVM a i \<Rightarrow> RemoveVMRuntime c a i
   | ReplaceSnapshots a ss \<Rightarrow> ReplaceAgentSnapshots c a ss
   | Remove a \<Rightarrow> RemoveAgent c a)"

text \<open>What each write means for the fleet. The writes of a deleted agent are refused, apart from its removal.\<close>

definition target :: "runtime_write \<Rightarrow> string" where
  "target w = (case w of Save a _ _ _ _ \<Rightarrow> a | UpdateVM a _ _ \<Rightarrow> a | RemoveVM a _ \<Rightarrow> a | ReplaceSnapshots a _ \<Rightarrow> a | Remove a \<Rightarrow> a)"

definition is_removal :: "runtime_write \<Rightarrow> bool" where
  "is_removal w = (case w of Remove _ \<Rightarrow> True | _ \<Rightarrow> False)"

definition fleet_effect :: "runtime_write \<Rightarrow> fleet \<Rightarrow> fleet" where
  "fleet_effect w fl = (case w of
     Save a h vms ss b \<Rightarrow> fl\<lparr>fl_host := (fl_host fl)(a \<mapsto> h), fl_vms := (fl_vms fl)(a := map_of vms)\<rparr>
   | UpdateVM a h vm \<Rightarrow> fl\<lparr>fl_host := (fl_host fl)(a \<mapsto> h), fl_vms := (fl_vms fl)(a :=
       (\<lambda>i. case fl_vms fl a i of Some m \<Rightarrow> if vm_Name m = vm_Name vm then None else Some m | None \<Rightarrow> None)(vm_ID vm \<mapsto> vm))\<rparr>
   | RemoveVM a i \<Rightarrow> fl\<lparr>fl_vms := (fl_vms fl)(a := (fl_vms fl a)(i := None)), fl_host := (fl_host fl)(a :=
       map_option (\<lambda>h. if h_VMCount h > 0 then h\<lparr>h_VMCount := h_VMCount h - 1\<rparr> else h) (fl_host fl a))\<rparr>
   | ReplaceSnapshots a ss \<Rightarrow> fl
   | Remove a \<Rightarrow> fl\<lparr>fl_host := (fl_host fl)(a := None), fl_vms := (fl_vms fl)(a := Map.empty),
       fl_deleted := insert a (fl_deleted fl)\<rparr>)"

definition fleet_write :: "runtime_write \<Rightarrow> fleet \<Rightarrow> (runtime_error + unit) \<times> fleet" where
  "fleet_write w fl =
     (if target w \<in> fl_deleted fl \<and> \<not> is_removal w then (Inl ErrAgentRuntimeDeleted, fl) else (Inr (), fleet_effect w fl))"

text \<open>The identifier of a machine is not one of another agent, and the entries of a map have distinct keys.\<close>

definition write_ok :: "runtime_write \<Rightarrow> fleet \<Rightarrow> bool" where
  "write_ok w fl = (case w of
     Save a h vms ss b \<Rightarrow> distinct (map fst vms) \<and> (\<forall>b i. b \<noteq> a \<longrightarrow> i \<in> fst ` set vms \<longrightarrow> fl_vms fl b i = None)
   | UpdateVM a h vm \<Rightarrow> \<forall>b. b \<noteq> a \<longrightarrow> fl_vms fl b (vm_ID vm) = None
   | RemoveVM a i \<Rightarrow> a \<noteq> [] \<and> (\<forall>b. b \<noteq> a \<longrightarrow> fl_vms fl b i = None)
   | _ \<Rightarrow> True)"

section \<open>The effect of each pipeline is the effect on the fleet\<close>

definition codec :: "('r, 'v) redis_client \<Rightarrow> bool" where
  "codec c \<longleftrightarrow> (\<forall>h. dec_host c (enc_host c h) = Some h) \<and> (\<forall>v. dec_vm c (enc_vm c v) = Some v)"

lemma fleet_sel [simp]:
  "fl_host (fleet_of c s) a = Option.bind (s_host s a) (dec_host c)"
  "fl_vms (fleet_of c s) a i = (if i \<in> s_owned s a then Option.bind (s_vm s i) (dec_vm c) else None)"
  "fl_deleted (fleet_of c s) = s_marked s"
  by (simp_all add: fleet_of_def)

lemma fleet_eqI:
  assumes "\<And>a. Option.bind (s_host s a) (dec_host c) = fl_host fl a"
    "\<And>a i. (if i \<in> s_owned s a then Option.bind (s_vm s i) (dec_vm c) else None) = fl_vms fl a i"
    "s_marked s = fl_deleted fl"
  shows "fleet_of c s = fl"
  using assms by (intro fleet.equality) (auto simp: fleet_of_def fun_eq_iff)

lemma owned_known:
  assumes "shelf_wf c A s" "i \<in> s_owned s b"
  shows "\<exists>x m. s_vm s i = Some x \<and> dec_vm c x = Some m"
  using assms unfolding shelf_wf_def by blast

lemma not_owned:
  assumes "shelf_wf c A s" "fl_vms (fleet_of c s) b i = None"
  shows "i \<notin> s_owned s b"
  using owned_known [OF assms(1)] assms(2) by fastforce

definition save_on :: "('r, 'v) redis_client \<Rightarrow> string \<Rightarrow> Host \<Rightarrow> (string \<times> VirtualMachine) list \<Rightarrow> string set \<Rightarrow> 'v shelf \<Rightarrow> 'v shelf" where
  "save_on c a host vms olds s = s\<lparr>
     s_hosts := insert a (s_hosts s), s_host := (s_host s)(a \<mapsto> enc_host c host),
     s_owned := (s_owned s)(a := fst ` set vms),
     s_vms := (s_vms s - olds) \<union> fst ` set vms,
     s_vm := (s_vm s |` (- olds)) ++ (\<lambda>i. map_option (enc_vm c) (map_of vms i))\<rparr>"

lemma save_sim:
  assumes wf: "shelf_wf c A s" and c: "codec c" and m: "a \<in> s_marked s \<Longrightarrow> a \<in> A" and d: "distinct (map fst vms)"
    and others: "\<And>b i. b \<noteq> a \<Longrightarrow> i \<in> fst ` set vms \<Longrightarrow> i \<notin> s_owned s b"
    and olds: "s_owned s a \<subseteq> olds" "\<And>b. b \<noteq> a \<Longrightarrow> olds \<inter> s_owned s b = {}"
  shows "shelf_wf c A (save_on c a host vms olds s)"
    and "fleet_of c (save_on c a host vms olds s) = fleet_effect (Save a host vms ss b) (fleet_of c s)"
proof -
  have dom: "i \<in> fst ` set vms \<longleftrightarrow> (\<exists>vm. map_of vms i = Some vm)" for i
    by (metis domIff dom_map_of_conv_image_fst not_Some_eq)
  have vm: "s_vm (save_on c a host vms olds s) i =
      (case map_of vms i of Some vm \<Rightarrow> Some (enc_vm c vm) | None \<Rightarrow> if i \<in> olds then None else s_vm s i)" for i
    by (simp add: save_on_def map_add_def restrict_map_def split: option.split)
  have ow: "s_owned (save_on c a host vms olds s) b = (if b = a then fst ` set vms else s_owned s b)" for b
    by (simp add: save_on_def)
  have new: "s_vm (save_on c a host vms olds s) i = s_vm s i" if "b \<noteq> a" "i \<in> s_owned s b" for b i
  proof -
    have "i \<notin> olds" using olds(2) [OF that(1)] that(2) by blast
    moreover have "map_of vms i = None" using others [OF that(1), of i] that(2) dom [of i] by (cases "map_of vms i") auto
    ultimately show ?thesis by (simp add: vm)
  qed
  have known: "\<exists>x m. s_vm (save_on c a host vms olds s) i = Some x \<and> dec_vm c x = Some m"
    if "i \<in> s_owned (save_on c a host vms olds s) b" for i b
  proof (cases "b = a")
    case True
    with that dom [of i] c show ?thesis by (auto simp: ow vm codec_def)
  next
    case False
    with that new [of b i] owned_known [OF wf, of i b] show ?thesis by (simp add: ow)
  qed
  have un: "s_vms (save_on c a host vms olds s) = (\<Union>b. s_owned (save_on c a host vms olds s) b)"
  proof -
    have "s_vms s = (\<Union>b. s_owned s b)" using wf by (simp add: shelf_wf_def)
    moreover have "s_owned s b - olds = (if b = a then {} else s_owned s b)" for b
      using olds(1) olds(2) [of b] by (cases "b = a") auto
    ultimately have "s_vms s - olds = (\<Union>b \<in> - {a}. s_owned s b)" by (simp add: UN_extend_simps(6)) (auto split: if_splits)
    moreover have "(\<Union>b. s_owned (save_on c a host vms olds s) b) = fst ` set vms \<union> (\<Union>b \<in> - {a}. s_owned s b)"
      unfolding ow by auto
    ultimately show ?thesis by (simp add: save_on_def Un_commute)
  qed
  show "shelf_wf c A (save_on c a host vms olds s)"
    unfolding shelf_wf_def
  proof (intro conjI)
    show "\<forall>b \<in> s_hosts (save_on c a host vms olds s). \<exists>x h. s_host (save_on c a host vms olds s) b = Some x \<and> dec_host c x = Some h"
      using wf c by (auto simp: save_on_def shelf_wf_def codec_def)
    show "dom (s_host (save_on c a host vms olds s)) \<subseteq> s_hosts (save_on c a host vms olds s)"
      using wf by (auto simp: save_on_def shelf_wf_def)
    show "\<forall>i \<in> s_vms (save_on c a host vms olds s). \<exists>x m. s_vm (save_on c a host vms olds s) i = Some x \<and> dec_vm c x = Some m"
      using known un by blast
    show "\<forall>b b'. b \<noteq> b' \<longrightarrow> s_owned (save_on c a host vms olds s) b \<inter> s_owned (save_on c a host vms olds s) b' = {}"
    proof (intro allI impI)
      fix b b' :: string assume "b \<noteq> b'"
      moreover have "s_owned s b \<inter> s_owned s b' = {}" using wf \<open>b \<noteq> b'\<close> by (simp add: shelf_wf_def)
      ultimately show "s_owned (save_on c a host vms olds s) b \<inter> s_owned (save_on c a host vms olds s) b' = {}"
        unfolding ow using others [of b] others [of b'] by (cases "b = a"; cases "b' = a"; fastforce)
    qed
    show "\<forall>b \<in> s_marked (save_on c a host vms olds s) - A. b \<notin> s_hosts (save_on c a host vms olds s) \<and> s_owned (save_on c a host vms olds s) b = {}"
      using wf m by (auto simp: save_on_def shelf_wf_def)
  qed (rule un)
  show "fleet_of c (save_on c a host vms olds s) = fleet_effect (Save a host vms ss b) (fleet_of c s)"
  proof (rule fleet_eqI)
    show "Option.bind (s_host (save_on c a host vms olds s) b') (dec_host c) = fl_host (fleet_effect (Save a host vms ss b) (fleet_of c s)) b'" for b'
      using c by (simp add: save_on_def fleet_effect_def codec_def)
    show "s_marked (save_on c a host vms olds s) = fl_deleted (fleet_effect (Save a host vms ss b) (fleet_of c s))"
      by (simp add: save_on_def fleet_effect_def)
    fix b' i
    show "(if i \<in> s_owned (save_on c a host vms olds s) b' then Option.bind (s_vm (save_on c a host vms olds s) i) (dec_vm c) else None) =
        fl_vms (fleet_effect (Save a host vms ss b) (fleet_of c s)) b' i"
    proof (cases "b' = a")
      case True
      with dom [of i] c show ?thesis by (cases "map_of vms i") (auto simp: ow vm fleet_effect_def codec_def)
    next
      case False
      with new [of b' i] show ?thesis by (simp add: ow fleet_effect_def)
    qed
  qed
qed

definition remove_on :: "string \<Rightarrow> string set \<Rightarrow> 'v shelf \<Rightarrow> 'v shelf" where
  "remove_on a olds s = s\<lparr>s_hosts := s_hosts s - {a}, s_host := (s_host s)(a := None),
     s_marked := insert a (s_marked s), s_owned := (s_owned s)(a := {}),
     s_vms := s_vms s - olds, s_vm := s_vm s |` (- olds)\<rparr>"

lemma vms_without:
  assumes "shelf_wf c A s" "s_owned s a \<subseteq> olds" "\<And>b. b \<noteq> a \<Longrightarrow> olds \<inter> s_owned s b = {}"
  shows "s_vms s - olds = (\<Union>b \<in> - {a}. s_owned s b)"
proof -
  have "s_vms s = (\<Union>b. s_owned s b)" using assms(1) by (simp add: shelf_wf_def)
  moreover have "s_owned s b - olds = (if b = a then {} else s_owned s b)" for b
    using assms(2) assms(3) [of b] by (cases "b = a") auto
  ultimately show ?thesis by (simp add: UN_extend_simps(6)) (auto split: if_splits)
qed

lemma remove_sim:
  assumes wf: "shelf_wf c {a} s"
    and olds: "s_owned s a \<subseteq> olds" "\<And>b. b \<noteq> a \<Longrightarrow> olds \<inter> s_owned s b = {}"
  shows "shelf_wf c {} (remove_on a olds s)"
    and "fleet_of c (remove_on a olds s) = fleet_effect (Remove a) (fleet_of c s)"
proof -
  have kept: "s_vm (remove_on a olds s) i = s_vm s i" if "b \<noteq> a" "i \<in> s_owned s b" for b i
  proof -
    have "i \<notin> olds" using olds(2) [OF that(1)] that(2) by blast
    then show ?thesis by (simp add: remove_on_def)
  qed
  have ow: "s_owned (remove_on a olds s) b = (if b = a then {} else s_owned s b)" for b by (simp add: remove_on_def)
  have un: "s_vms (remove_on a olds s) = (\<Union>b. s_owned (remove_on a olds s) b)"
    unfolding ow using vms_without [OF wf olds] by (simp add: remove_on_def) auto
  have known: "\<exists>x m. s_vm (remove_on a olds s) i = Some x \<and> dec_vm c x = Some m"
    if "i \<in> s_owned (remove_on a olds s) b" for i b
    using that kept [of b i] owned_known [OF wf, of i b] by (auto simp: ow split: if_splits)
  show "shelf_wf c {} (remove_on a olds s)"
    unfolding shelf_wf_def
  proof (intro conjI)
    show "\<forall>b \<in> s_hosts (remove_on a olds s). \<exists>x h. s_host (remove_on a olds s) b = Some x \<and> dec_host c x = Some h"
      using wf by (auto simp: remove_on_def shelf_wf_def)
    show "dom (s_host (remove_on a olds s)) \<subseteq> s_hosts (remove_on a olds s)"
      using wf by (auto simp: remove_on_def shelf_wf_def)
    show "\<forall>i \<in> s_vms (remove_on a olds s). \<exists>x m. s_vm (remove_on a olds s) i = Some x \<and> dec_vm c x = Some m"
      using known un by blast
    show "\<forall>b b'. b \<noteq> b' \<longrightarrow> s_owned (remove_on a olds s) b \<inter> s_owned (remove_on a olds s) b' = {}"
      using wf by (simp add: ow shelf_wf_def)
    show "\<forall>b \<in> s_marked (remove_on a olds s) - {}. b \<notin> s_hosts (remove_on a olds s) \<and> s_owned (remove_on a olds s) b = {}"
      using wf by (auto simp: remove_on_def shelf_wf_def)
  qed (rule un)
  show "fleet_of c (remove_on a olds s) = fleet_effect (Remove a) (fleet_of c s)"
  proof (rule fleet_eqI)
    show "Option.bind (s_host (remove_on a olds s) b) (dec_host c) = fl_host (fleet_effect (Remove a) (fleet_of c s)) b" for b
      by (simp add: remove_on_def fleet_effect_def)
    show "s_marked (remove_on a olds s) = fl_deleted (fleet_effect (Remove a) (fleet_of c s))"
      by (simp add: remove_on_def fleet_effect_def)
    show "(if i \<in> s_owned (remove_on a olds s) b then Option.bind (s_vm (remove_on a olds s) i) (dec_vm c) else None) =
        fl_vms (fleet_effect (Remove a) (fleet_of c s)) b i" for b i
      using kept [of b i] by (simp add: ow fleet_effect_def)
  qed
qed

text \<open>A new or changed machine \<open>i\<close> in place of the machines \<open>olds\<close> of the agent, and one machine less.\<close>

definition update_on :: "('r, 'v) redis_client \<Rightarrow> string \<Rightarrow> Host \<Rightarrow> VirtualMachine \<Rightarrow> string set \<Rightarrow> 'v shelf \<Rightarrow> 'v shelf" where
  "update_on c a host vm olds s = s\<lparr>s_hosts := insert a (s_hosts s), s_host := (s_host s)(a \<mapsto> enc_host c host),
     s_owned := (s_owned s)(a := insert (vm_ID vm) (s_owned s a - olds)),
     s_vms := insert (vm_ID vm) (s_vms s - olds),
     s_vm := (s_vm s |` (- olds))(vm_ID vm \<mapsto> enc_vm c vm)\<rparr>"

definition same_name :: "('r, 'v) redis_client \<Rightarrow> string \<Rightarrow> VirtualMachine \<Rightarrow> 'v shelf \<Rightarrow> string set" where
  "same_name c a vm s = {i \<in> s_owned s a. i \<noteq> vm_ID vm \<and>
     (\<exists>m. Option.bind (s_vm s i) (dec_vm c) = Some m \<and> vm_Name m = vm_Name vm)}"

lemma update_sim:
  assumes wf: "shelf_wf c {} s" and c: "codec c" and m: "a \<notin> s_marked s"
    and others: "\<And>b. b \<noteq> a \<Longrightarrow> vm_ID vm \<notin> s_owned s b" and olds: "olds = same_name c a vm s"
  shows "shelf_wf c {} (update_on c a host vm olds s)"
    and "fleet_of c (update_on c a host vm olds s) = fleet_effect (UpdateVM a host vm) (fleet_of c s)"
proof -
  let ?s = "update_on c a host vm olds s"
  have dis: "i \<notin> s_owned s b" if "i \<in> s_owned s a" "b \<noteq> a" for i b
    using wf that unfolding shelf_wf_def by blast
  have sub: "olds \<subseteq> s_owned s a" "vm_ID vm \<notin> olds" by (auto simp: olds same_name_def)
  have ow: "s_owned ?s b = (if b = a then insert (vm_ID vm) (s_owned s a - olds) else s_owned s b)" for b
    by (simp add: update_on_def)
  have kept: "s_vm ?s i = s_vm s i" if "i \<notin> olds" "i \<noteq> vm_ID vm" for i
    using that by (simp add: update_on_def)
  have vm: "s_vm ?s (vm_ID vm) = Some (enc_vm c vm)" by (simp add: update_on_def)
  have new: "s_vm ?s i = s_vm s i" if "b \<noteq> a" "i \<in> s_owned s b" for b i
    using that dis sub others [of b] by (intro kept) auto
  have un: "s_vms ?s = (\<Union>b. s_owned ?s b)"
  proof -
    have all: "s_vms s = (\<Union>b. s_owned s b)" using wf by (simp add: shelf_wf_def)
    have "s_vms s - olds = (s_owned s a - olds) \<union> (\<Union>b \<in> - {a}. s_owned s b)"
      unfolding all using sub dis by blast
    then show ?thesis unfolding ow by (auto simp: update_on_def)
  qed
  have known: "\<exists>x m. s_vm ?s i = Some x \<and> dec_vm c x = Some m" if i: "i \<in> s_owned ?s b" for i b
  proof (cases "i = vm_ID vm")
    case True with vm c show ?thesis by (simp add: codec_def)
  next
    case False
    then have o: "i \<in> s_owned s b" using i by (auto simp: ow split: if_splits)
    moreover have "i \<notin> olds" using i False sub dis [of i b] by (auto simp: ow split: if_splits)
    ultimately show ?thesis using owned_known [OF wf o] kept [OF _ False] by simp
  qed
  show "shelf_wf c {} ?s"
    unfolding shelf_wf_def
  proof (intro conjI)
    show "\<forall>b \<in> s_hosts ?s. \<exists>x h. s_host ?s b = Some x \<and> dec_host c x = Some h"
      using wf c by (auto simp: update_on_def shelf_wf_def codec_def)
    show "dom (s_host ?s) \<subseteq> s_hosts ?s" using wf by (auto simp: update_on_def shelf_wf_def)
    show "\<forall>i \<in> s_vms ?s. \<exists>x m. s_vm ?s i = Some x \<and> dec_vm c x = Some m" using known un by blast
    show "\<forall>b b'. b \<noteq> b' \<longrightarrow> s_owned ?s b \<inter> s_owned ?s b' = {}"
    proof (intro allI impI)
      fix b b' :: string assume "b \<noteq> b'"
      moreover have "s_owned s b \<inter> s_owned s b' = {}" using wf \<open>b \<noteq> b'\<close> by (simp add: shelf_wf_def)
      ultimately show "s_owned ?s b \<inter> s_owned ?s b' = {}"
        unfolding ow using others [of b] others [of b'] by (cases "b = a"; cases "b' = a"; fastforce)
    qed
    show "\<forall>b \<in> s_marked ?s - {}. b \<notin> s_hosts ?s \<and> s_owned ?s b = {}"
      using wf m by (auto simp: update_on_def shelf_wf_def)
  qed (rule un)
  show "fleet_of c ?s = fleet_effect (UpdateVM a host vm) (fleet_of c s)"
  proof (rule fleet_eqI)
    show "Option.bind (s_host ?s b) (dec_host c) = fl_host (fleet_effect (UpdateVM a host vm) (fleet_of c s)) b" for b
      using c by (simp add: update_on_def fleet_effect_def codec_def)
    show "s_marked ?s = fl_deleted (fleet_effect (UpdateVM a host vm) (fleet_of c s))"
      by (simp add: update_on_def fleet_effect_def)
    fix b i
    consider "b \<noteq> a" | "b = a" "i = vm_ID vm" | "b = a" "i \<noteq> vm_ID vm" "i \<in> olds" | "b = a" "i \<noteq> vm_ID vm" "i \<notin> olds"
      by blast
    then show "(if i \<in> s_owned ?s b then Option.bind (s_vm ?s i) (dec_vm c) else None) =
        fl_vms (fleet_effect (UpdateVM a host vm) (fleet_of c s)) b i"
    proof cases
      case 1 with new [of b i] show ?thesis by (simp add: ow fleet_effect_def)
    next
      case 2 with vm c show ?thesis by (simp add: ow fleet_effect_def codec_def)
    next
      case 3
      then have "i \<notin> s_owned ?s b" by (simp add: ow)
      moreover have "fl_vms (fleet_effect (UpdateVM a host vm) (fleet_of c s)) b i = None"
        using 3 by (auto simp: fleet_effect_def olds same_name_def)
      ultimately show ?thesis by simp
    next
      case 4
      then have o: "i \<in> s_owned ?s b \<longleftrightarrow> i \<in> s_owned s a" "s_vm ?s i = s_vm s i" using kept [of i] by (simp_all add: ow)
      have "fl_vms (fleet_effect (UpdateVM a host vm) (fleet_of c s)) b i =
          (if i \<in> s_owned s a then Option.bind (s_vm s i) (dec_vm c) else None)"
        using 4 by (auto simp: fleet_effect_def olds same_name_def split: option.split)
      with o show ?thesis by simp
    qed
  qed
qed

definition lower_count :: "Host \<Rightarrow> Host" where
  "lower_count h = (if h_VMCount h > 0 then h\<lparr>h_VMCount := h_VMCount h - 1\<rparr> else h)"

definition drop_on :: "string \<Rightarrow> string \<Rightarrow> (string \<rightharpoonup> 'v) \<Rightarrow> 'v shelf \<Rightarrow> 'v shelf" where
  "drop_on a i hs s = s\<lparr>s_host := hs, s_owned := (s_owned s)(a := s_owned s a - {i}),
     s_vms := s_vms s - {i}, s_vm := s_vm s |` (- {i})\<rparr>"

lemma drop_sim:
  assumes wf: "shelf_wf c {} s" and others: "\<And>b. b \<noteq> a \<Longrightarrow> i \<notin> s_owned s b"
    and hs: "dom hs = dom (s_host s)" "\<And>b. b \<noteq> a \<Longrightarrow> hs b = s_host s b"
      "Option.bind (hs a) (dec_host c) = map_option lower_count (Option.bind (s_host s a) (dec_host c))"
  shows "shelf_wf c {} (drop_on a i hs s)"
    and "fleet_of c (drop_on a i hs s) = fleet_effect (RemoveVM a i) (fleet_of c s)"
proof -
  let ?s = "drop_on a i hs s"
  have ow: "s_owned ?s b = s_owned s b - {i}" for b using others [of b] by (auto simp: drop_on_def)
  have vm: "s_vm ?s j = (if j = i then None else s_vm s j)" for j by (simp add: drop_on_def restrict_map_def)
  have un: "s_vms ?s = (\<Union>b. s_owned ?s b)"
    unfolding ow using wf by (auto simp: drop_on_def shelf_wf_def)
  have known: "\<exists>x m. s_vm ?s j = Some x \<and> dec_vm c x = Some m" if "j \<in> s_owned ?s b" for j b
    using that owned_known [OF wf, of j b] by (auto simp: ow vm)
  have host: "\<exists>x h. hs b = Some x \<and> dec_host c x = Some h" if "b \<in> s_hosts s" for b
  proof -
    have "\<forall>b \<in> s_hosts s. \<exists>x h. s_host s b = Some x \<and> dec_host c x = Some h" using wf by (simp add: shelf_wf_def)
    with that obtain x h where x: "s_host s b = Some x" "dec_host c x = Some h" by blast
    show ?thesis
    proof (cases "b = a")
      case True with x hs(3) show ?thesis by (cases "hs a") auto
    next
      case False with x hs(2) show ?thesis by simp
    qed
  qed
  show "shelf_wf c {} ?s"
    unfolding shelf_wf_def
  proof (intro conjI)
    show "\<forall>b \<in> s_hosts ?s. \<exists>x h. s_host ?s b = Some x \<and> dec_host c x = Some h"
      using host by (simp add: drop_on_def)
    show "dom (s_host ?s) \<subseteq> s_hosts ?s" using wf hs(1) by (simp add: drop_on_def shelf_wf_def)
    show "\<forall>j \<in> s_vms ?s. \<exists>x m. s_vm ?s j = Some x \<and> dec_vm c x = Some m" using known un by blast
    show "\<forall>b b'. b \<noteq> b' \<longrightarrow> s_owned ?s b \<inter> s_owned ?s b' = {}"
      unfolding ow using wf unfolding shelf_wf_def by blast
    show "\<forall>b \<in> s_marked ?s - {}. b \<notin> s_hosts ?s \<and> s_owned ?s b = {}"
      unfolding ow using wf by (auto simp: drop_on_def shelf_wf_def)
  qed (rule un)
  show "fleet_of c ?s = fleet_effect (RemoveVM a i) (fleet_of c s)"
  proof (rule fleet_eqI)
    show "Option.bind (s_host ?s b) (dec_host c) = fl_host (fleet_effect (RemoveVM a i) (fleet_of c s)) b" for b
      using hs(2) [of b] hs(3) by (simp add: drop_on_def fleet_effect_def lower_count_def [abs_def])
    show "s_marked ?s = fl_deleted (fleet_effect (RemoveVM a i) (fleet_of c s))"
      by (simp add: drop_on_def fleet_effect_def)
    show "(if j \<in> s_owned ?s b then Option.bind (s_vm ?s j) (dec_vm c) else None) =
        fl_vms (fleet_effect (RemoveVM a i) (fleet_of c s)) b j" for b j
      using others [of b] by (auto simp: ow vm fleet_effect_def)
  qed
qed

section \<open>Reads\<close>

definition smem :: "('r, 'v) redis_client \<Rightarrow> 'r \<Rightarrow> string \<Rightarrow> string list" where
  "smem c r key = (case fst (c_smembers c key r) of Inr ms \<Rightarrow> ms | Inl _ \<Rightarrow> [])"

lemma redis_reads:
  assumes "redis_laws c view"
  shows "c_smembers c key r = (Inr (smem c r key), r)" "set (smem c r key) = members (view r) key"
    "c_get c key r = (Inr (text_at (view r) key), r)"
    "c_exists c key r = (Inr (if view r key = None then 0 else 1), r)"
    "codec c" "\<exists>r'. c_exec c cs r = (Inr (), r') \<and> view r' = fold run_command cs (view r)"
proof -
  note laws = assms [unfolded redis_laws_def]
  from laws have "\<exists>ms. c_smembers c key r = (Inr ms, r) \<and> distinct ms \<and> set ms = members (view r) key"
    by (elim conjE allE)
  then obtain ms where "c_smembers c key r = (Inr ms, r)" "set ms = members (view r) key" by blast
  then show "c_smembers c key r = (Inr (smem c r key), r)" "set (smem c r key) = members (view r) key"
    by (simp_all add: smem_def)
  from laws show "c_get c key r = (Inr (text_at (view r) key), r)" by (elim conjE allE)
  from laws show "c_exists c key r = (Inr (if view r key = None then 0 else 1), r)" by (elim conjE allE)
  from laws show "codec c" unfolding codec_def by (elim conjE) (intro conjI; assumption)
  from laws show "\<exists>r'. c_exec c cs r = (Inr (), r') \<and> view r' = fold run_command cs (view r)" by (elim conjE allE)
qed

lemma map_prog_reads: "(\<And>x. x \<in> set xs \<Longrightarrow> f x r = (Inr (g x), r)) \<Longrightarrow> map_prog f xs r = (Inr (map g xs), r)"
  by (induction xs) (simp_all add: run_simps)

definition snapshot_drops :: "('r, 'v) redis_client \<Rightarrow> 'r \<Rightarrow> string \<Rightarrow> 'v redis_command list" where
  "snapshot_drops c r vmID = concat (map (\<lambda>i. [Del [redisSnapshotKey i], SRem redisSnapshotsKey i]) (smem c r (redisVMSnapshotsKey vmID)))"

lemma drop_snapshots_run: "redis_laws c view \<Longrightarrow> drop_snapshots c vmID r = (Inr (snapshot_drops c r vmID), r)"
  by (simp add: drop_snapshots_def snapshot_drops_def bindp_def ret_def redis_reads(1))

lemma set_snapshot_drops: "x \<in> set (snapshot_drops c r vmID) \<Longrightarrow> (\<exists>i. x = Del [redisSnapshotKey i]) \<or> (\<exists>i. x = SRem redisSnapshotsKey i)"
  by (auto simp: snapshot_drops_def)

lemma isAgentDeleted_run:
  "redis_laws c view \<Longrightarrow> isAgentDeleted c a r = (Inr (a \<in> s_marked (shelf_of (view r))), r)"
  by (simp add: isAgentDeleted_def bindp_def ret_def redis_reads(4) shelf_sel)

definition save_chunk :: "('r, 'v) redis_client \<Rightarrow> 'r \<Rightarrow> bool \<Rightarrow> string \<Rightarrow> 'v redis_command list" where
  "save_chunk c r b vmID = (if b then snapshot_drops c r vmID @ [Del [redisVMSnapshotsKey vmID]] else [])
     @ [Del [redisVMKey vmID], SRem redisVMsKey vmID]"

definition remove_chunk :: "('r, 'v) redis_client \<Rightarrow> 'r \<Rightarrow> string \<Rightarrow> 'v redis_command list" where
  "remove_chunk c r vmID = snapshot_drops c r vmID @ [Del [redisVMSnapshotsKey vmID, redisVMKey vmID], SRem redisVMsKey vmID]"

lemma clears_save: "clears a (set olds) (concat (map (save_chunk c r b) olds))"
  by (auto simp: clears_def save_chunk_def dest!: set_snapshot_drops split: if_splits)

lemma clears_remove: "clears a (set olds) (concat (map (remove_chunk c r) olds))"
  by (auto simp: clears_def remove_chunk_def dest!: set_snapshot_drops)

section \<open>The writes of the store\<close>

lemma RemoveAgent_state:
  assumes laws: "redis_laws c view"
  obtains r' where "RemoveAgent c a r = (Inr (), r')"
    "view r' = fold run_command ([SetKey (redisAgentDeleteMarkerKey a) (enc_text c ''1'') (Some 600),
       Del [redisHostKey a, redisAgentVMsKey a], SRem redisHostsKey a] @
       concat (map (remove_chunk c r) (smem c r (redisAgentVMsKey a)))) (view r)"
proof -
  let ?olds = "smem c r (redisAgentVMsKey a)"
  have run: "map_prog (\<lambda>vmID. bindp (drop_snapshots c vmID) (\<lambda>cs.
        ret (cs @ [Del [redisVMSnapshotsKey vmID, redisVMKey vmID], SRem redisVMsKey vmID]))) ?olds r =
     (Inr (map (remove_chunk c r) ?olds), r)"
    by (rule map_prog_reads) (simp add: bindp_def ret_def drop_snapshots_run [OF laws] remove_chunk_def)
  let ?cs = "[SetKey (redisAgentDeleteMarkerKey a) (enc_text c ''1'') (Some 600),
       Del [redisHostKey a, redisAgentVMsKey a], SRem redisHostsKey a] @ concat (map (remove_chunk c r) ?olds)"
  obtain r' where r': "c_exec c ?cs r = (Inr (), r')" "view r' = fold run_command ?cs (view r)"
    using redis_reads(6) [OF laws] by blast
  show thesis
    by (rule that [OF _ r'(2)]) (use r'(1) in \<open>simp add: RemoveAgent_def bindp_def redis_reads(1) [OF laws] run\<close>)
qed

lemma RemoveAgent_run:
  assumes laws: "redis_laws c view" and wf: "shelf_wf c {a} (shelf_of (view r))"
  obtains r' where "RemoveAgent c a r = (Inr (), r')" "shelf_wf c {} (shelf_of (view r'))"
    "fleet_of c (shelf_of (view r')) = fleet_effect (Remove a) (fleet_of c (shelf_of (view r)))"
proof -
  let ?olds = "smem c r (redisAgentVMsKey a)"
  obtain r' where r': "RemoveAgent c a r = (Inr (), r')"
    "view r' = fold run_command ([SetKey (redisAgentDeleteMarkerKey a) (enc_text c ''1'') (Some 600),
       Del [redisHostKey a, redisAgentVMsKey a], SRem redisHostsKey a] @ concat (map (remove_chunk c r) ?olds)) (view r)"
    by (rule RemoveAgent_state [OF laws])
  have sh: "shelf_of (view r') = remove_on a (set ?olds) (shelf_of (view r))"
    unfolding r'(2) remove_on_def by (rule remove_shelf) (rule clears_remove)
  have olds: "set ?olds = s_owned (shelf_of (view r)) a" by (simp add: redis_reads(2) [OF laws] shelf_sel)
  have "\<And>b. b \<noteq> a \<Longrightarrow> set ?olds \<inter> s_owned (shelf_of (view r)) b = {}"
    using wf unfolding olds shelf_wf_def by blast
  note sim = remove_sim [OF wf equalityD2 [OF olds] this]
  show thesis
    by (rule that [OF r'(1)]; unfold sh; rule sim; assumption)
qed

lemma reject_unmarked:
  assumes "redis_laws c view" "a \<notin> s_marked (shelf_of (view r))"
  shows "rejectDeletedAgentRuntimeWrite c a (Inr ()) r = (Inr (), r)"
  using assms by (simp add: rejectDeletedAgentRuntimeWrite_def bindp_def ret_def isAgentDeleted_run)

lemma reject_marked:
  assumes "redis_laws c view" "a \<in> s_marked (shelf_of (view r))" "shelf_wf c {a} (shelf_of (view r))"
  obtains r' where "rejectDeletedAgentRuntimeWrite c a (Inr ()) r = (Inl ErrAgentRuntimeDeleted, r')"
    "shelf_wf c {} (shelf_of (view r'))"
    "fleet_of c (shelf_of (view r')) = fleet_effect (Remove a) (fleet_of c (shelf_of (view r)))"
proof -
  obtain r' where r': "RemoveAgent c a r = (Inr (), r')" "shelf_wf c {} (shelf_of (view r'))"
    "fleet_of c (shelf_of (view r')) = fleet_effect (Remove a) (fleet_of c (shelf_of (view r)))"
    using RemoveAgent_run [OF assms(1,3)] by metis
  with assms show thesis
    by (intro that [of r']) (simp_all add: rejectDeletedAgentRuntimeWrite_def bindp_def fail_def isAgentDeleted_run)
qed

lemma clear_old_vms_run:
  "redis_laws c view \<Longrightarrow> clear_old_vms c b olds r = (Inr (map (save_chunk c r b) olds), r)"
  unfolding clear_old_vms_def
  by (rule map_prog_reads) (simp add: bindp_def ret_def drop_snapshots_run save_chunk_def)

lemma SaveAgentRuntime_run:
  assumes laws: "redis_laws c view" and m: "a \<notin> s_marked (shelf_of (view r))"
  obtains r' where "SaveAgentRuntime c a host vms ss b r = rejectDeletedAgentRuntimeWrite c a (Inr ()) r'"
    "view r' = fold run_command (save_commands c a host (map (save_chunk c r b) (smem c r (redisAgentVMsKey a))) vms ss b) (view r)"
proof -
  let ?olds = "smem c r (redisAgentVMsKey a)"
  obtain r' where r': "c_exec c (save_commands c a host (map (save_chunk c r b) ?olds) vms ss b) r = (Inr (), r')"
    "view r' = fold run_command (save_commands c a host (map (save_chunk c r b) ?olds) vms ss b) (view r)"
    using redis_reads(6) [OF laws] by blast
  show thesis
    by (rule that [OF _ r'(2)])
      (simp add: SaveAgentRuntime_def bindp_def attempt_def isAgentDeleted_run [OF laws] m redis_reads(1) [OF laws] clear_old_vms_run [OF laws] r'(1))
qed

lemma save_write:
  assumes laws: "redis_laws c view" and wf: "shelf_wf c {} (shelf_of (view r))"
    and ok: "write_ok (Save a host vms ss b) (fleet_of c (shelf_of (view r)))"
  shows "\<exists>r'. SaveAgentRuntime c a host vms ss b r = (fst (fleet_write (Save a host vms ss b) (fleet_of c (shelf_of (view r)))), r')
     \<and> shelf_wf c {} (shelf_of (view r'))
     \<and> fleet_of c (shelf_of (view r')) = snd (fleet_write (Save a host vms ss b) (fleet_of c (shelf_of (view r))))"
proof (cases "a \<in> s_marked (shelf_of (view r))")
  case True
  with wf show ?thesis
    by (simp add: SaveAgentRuntime_def bindp_def fail_def isAgentDeleted_run [OF laws] fleet_write_def target_def is_removal_def)
next
  case False
  let ?s = "shelf_of (view r)" and ?olds = "smem c r (redisAgentVMsKey a)"
  obtain r' where r': "SaveAgentRuntime c a host vms ss b r = rejectDeletedAgentRuntimeWrite c a (Inr ()) r'"
    "view r' = fold run_command (save_commands c a host (map (save_chunk c r b) ?olds) vms ss b) (view r)"
    by (rule SaveAgentRuntime_run [OF laws False])
  have d: "distinct (map fst vms)" and others: "\<And>b i. b \<noteq> a \<Longrightarrow> i \<in> fst ` set vms \<Longrightarrow> i \<notin> s_owned ?s b"
    using ok not_owned [OF wf] by (auto simp: write_ok_def simp del: fleet_sel)
  have sh: "shelf_of (view r') = save_on c a host vms (set ?olds) ?s"
    unfolding r'(2) save_on_def by (rule save_shelf [OF clears_save d])
  have olds: "set ?olds = s_owned ?s a" by (simp add: redis_reads(2) [OF laws] shelf_sel)
  have "\<And>b. b \<noteq> a \<Longrightarrow> set ?olds \<inter> s_owned ?s b = {}"
    using wf unfolding olds shelf_wf_def by blast
  note sim = save_sim [OF wf redis_reads(5) [OF laws] _ d others equalityD2 [OF olds] this]
  have "a \<notin> s_marked (shelf_of (view r'))" using False by (simp add: sh save_on_def)
  then have "SaveAgentRuntime c a host vms ss b r = (Inr (), r')"
    unfolding r'(1) by (rule reject_unmarked [OF laws])
  then show ?thesis using False sim
    by (simp add: fleet_write_def target_def sh)
qed

text \<open>A write that has passed the mark while the agent was being removed is undone by the check after it.\<close>

lemma raced_write:
  assumes laws: "redis_laws c view" and wf: "shelf_wf c {} (shelf_of (view r))"
    and m: "a \<in> s_marked (shelf_of (view r))" and d: "distinct (map fst vms)" and cl: "clears a olds (concat css)"
    and others: "\<And>b. b \<noteq> a \<Longrightarrow> (olds \<union> fst ` set vms) \<inter> s_owned (shelf_of (view r)) b = {}"
  obtains r1 r2 where "c_exec c (save_commands c a host css vms ss b) r = (Inr (), r1)"
    "rejectDeletedAgentRuntimeWrite c a (Inr ()) r1 = (Inl ErrAgentRuntimeDeleted, r2)"
    "shelf_wf c {} (shelf_of (view r2))" "fleet_of c (shelf_of (view r2)) = fleet_of c (shelf_of (view r))"
proof -
  let ?s = "shelf_of (view r)"
  obtain r1 where r1: "c_exec c (save_commands c a host css vms ss b) r = (Inr (), r1)"
    "view r1 = fold run_command (save_commands c a host css vms ss b) (view r)"
    using redis_reads(6) [OF laws] by blast
  have wfa: "shelf_wf c {a} ?s" using wf by (simp add: shelf_wf_def)
  have none: "s_owned ?s a = {}" "s_host ?s a = None" using wf m unfolding shelf_wf_def by blast+
  have sh: "shelf_of (view r1) = save_on c a host vms olds ?s"
    unfolding r1(2) save_on_def by (rule save_shelf [OF cl d])
  have "shelf_wf c {a} (save_on c a host vms olds ?s)"
    "fleet_of c (save_on c a host vms olds ?s) = fleet_effect (Save a host vms ss b) (fleet_of c ?s)"
    by (rule save_sim [OF wfa redis_reads(5) [OF laws] _ d]; use others none(1) in blast)+
  moreover have "a \<in> s_marked (shelf_of (view r1))" using m by (simp add: sh save_on_def)
  ultimately obtain r2 where r2: "rejectDeletedAgentRuntimeWrite c a (Inr ()) r1 = (Inl ErrAgentRuntimeDeleted, r2)"
    "shelf_wf c {} (shelf_of (view r2))"
    "fleet_of c (shelf_of (view r2)) = fleet_effect (Remove a) (fleet_effect (Save a host vms ss b) (fleet_of c ?s))"
    using reject_marked [OF laws, of a r1] unfolding sh by metis
  have "fleet_effect (Remove a) (fleet_effect (Save a host vms ss b) (fleet_of c ?s)) = fleet_of c ?s"
    using m none by (intro fleet.equality) (auto simp: fleet_effect_def fleet_of_def fun_eq_iff)
  with r1 r2 that show thesis by metis
qed

lemma remove_write:
  assumes "redis_laws c view" "shelf_wf c {} (shelf_of (view r))"
  shows "\<exists>r'. RemoveAgent c a r = (Inr (), r') \<and> shelf_wf c {} (shelf_of (view r'))
     \<and> fleet_of c (shelf_of (view r')) = fleet_effect (Remove a) (fleet_of c (shelf_of (view r)))"
proof -
  have "shelf_wf c {a} (shelf_of (view r))" using assms(2) by (simp add: shelf_wf_def)
  then show ?thesis using RemoveAgent_run [OF assms(1)] by metis
qed

lemma snapshots_write:
  assumes laws: "redis_laws c view" and wf: "shelf_wf c {} (shelf_of (view r))"
  shows "\<exists>r'. ReplaceAgentSnapshots c a ss r = (fst (fleet_write (ReplaceSnapshots a ss) (fleet_of c (shelf_of (view r)))), r')
     \<and> shelf_of (view r') = shelf_of (view r)"
proof (cases "a \<in> s_marked (shelf_of (view r))")
  case True
  then show ?thesis
    by (simp add: ReplaceAgentSnapshots_def bindp_def fail_def isAgentDeleted_run [OF laws] fleet_write_def target_def is_removal_def)
next
  case False
  let ?olds = "smem c r (redisAgentVMsKey a)"
  let ?cs = "concat (map (\<lambda>vmID. snapshot_drops c r vmID @ [Del [redisVMSnapshotsKey vmID]]) ?olds) @ add_snapshots c ss"
  have run: "map_prog (\<lambda>vmID. bindp (drop_snapshots c vmID) (\<lambda>cs. ret (cs @ [Del [redisVMSnapshotsKey vmID]]))) ?olds r =
     (Inr (map (\<lambda>vmID. snapshot_drops c r vmID @ [Del [redisVMSnapshotsKey vmID]]) ?olds), r)"
    by (rule map_prog_reads) (simp add: bindp_def ret_def drop_snapshots_run [OF laws])
  obtain r' where r': "c_exec c ?cs r = (Inr (), r')" "view r' = fold run_command ?cs (view r)"
    using redis_reads(6) [OF laws] by blast
  have "on_snapshots ?cs"
    using on_snapshots_add [of c ss] unfolding on_snapshots_def by (auto dest!: set_snapshot_drops)
  then have "shelf_of (view r') = shelf_of (view r)" unfolding r'(2) by (rule on_snapshots_shelf)
  with False r'(1) run show ?thesis
    by (intro exI [of _ r']) (simp add: ReplaceAgentSnapshots_def bindp_def isAgentDeleted_run [OF laws] fleet_write_def
      target_def redis_reads(1) [OF laws])
qed

definition rename_chunk :: "('r, 'v) redis_client \<Rightarrow> string \<Rightarrow> VirtualMachine \<Rightarrow> 'v shelf \<Rightarrow> string \<Rightarrow> 'v redis_command list" where
  "rename_chunk c a vm s vmID = (if vmID \<in> same_name c a vm s
     then [Del [redisVMKey vmID], SRem redisVMsKey vmID, SRem (redisAgentVMsKey a) vmID] else [])"

lemma GetVM_run:
  assumes "redis_laws c view" "shelf_wf c A (shelf_of (view r))" "i \<in> s_owned (shelf_of (view r)) a"
  shows "\<exists>m. GetVM c i r = (Inr (Some m), r) \<and> Option.bind (s_vm (shelf_of (view r)) i) (dec_vm c) = Some m"
proof -
  obtain x m where "s_vm (shelf_of (view r)) i = Some x" "dec_vm c x = Some m" using owned_known [OF assms(2,3)] by blast
  then show ?thesis
    by (intro exI [of _ m]) (simp add: GetVM_def get_decoded_def bindp_def ret_def redis_reads(3) [OF assms(1)] shelf_sel)
qed

lemma update_write:
  assumes laws: "redis_laws c view" and wf: "shelf_wf c {} (shelf_of (view r))"
    and ok: "write_ok (UpdateVM a host vm) (fleet_of c (shelf_of (view r)))"
  shows "\<exists>r'. UpdateVMRuntime c a host vm r = (fst (fleet_write (UpdateVM a host vm) (fleet_of c (shelf_of (view r)))), r')
     \<and> shelf_wf c {} (shelf_of (view r'))
     \<and> fleet_of c (shelf_of (view r')) = snd (fleet_write (UpdateVM a host vm) (fleet_of c (shelf_of (view r))))"
proof (cases "a \<in> s_marked (shelf_of (view r))")
  case True
  with wf show ?thesis
    by (simp add: UpdateVMRuntime_def bindp_def fail_def isAgentDeleted_run [OF laws] fleet_write_def target_def is_removal_def)
next
  case False
  let ?s = "shelf_of (view r)" and ?ids = "smem c r (redisAgentVMsKey a)"
  let ?css = "map (rename_chunk c a vm ?s) ?ids"
  let ?olds = "same_name c a vm ?s"
  have ids: "set ?ids = s_owned ?s a" by (simp add: redis_reads(2) [OF laws] shelf_sel)
  have run: "map_prog (\<lambda>vmID. if vmID = vm_ID vm then ret []
          else bindp (GetVM c vmID) (\<lambda>found. case found of None \<Rightarrow> ret []
            | Some current \<Rightarrow> ret (if vm_Name current = vm_Name vm
                then [Del [redisVMKey vmID], SRem redisVMsKey vmID, SRem (redisAgentVMsKey a) vmID] else []))) ?ids r
      = (Inr ?css, r)"
  proof (rule map_prog_reads)
    fix i assume "i \<in> set ?ids"
    then have o: "i \<in> s_owned ?s a" by (simp add: ids)
    obtain m where m: "GetVM c i r = (Inr (Some m), r)" "Option.bind (s_vm ?s i) (dec_vm c) = Some m"
      using GetVM_run [OF laws wf o] by blast
    then have "i \<in> ?olds \<longleftrightarrow> i \<noteq> vm_ID vm \<and> vm_Name m = vm_Name vm" using o by (simp add: same_name_def)
    with m show "(if i = vm_ID vm then ret []
          else bindp (GetVM c i) (\<lambda>found. case found of None \<Rightarrow> ret []
            | Some current \<Rightarrow> ret (if vm_Name current = vm_Name vm
                then [Del [redisVMKey i], SRem redisVMsKey i, SRem (redisAgentVMsKey a) i] else []))) r
      = (Inr (rename_chunk c a vm ?s i), r)"
      by (simp add: rename_chunk_def bindp_def ret_def)
  qed
  let ?cs = "concat ?css @ [SAdd redisHostsKey a, SetKey (redisHostKey a) (enc_host c host) None,
         SAdd redisVMsKey (vm_ID vm), SAdd (redisAgentVMsKey a) (vm_ID vm), SetKey (redisVMKey (vm_ID vm)) (enc_vm c vm) None]"
  obtain r' where r': "c_exec c ?cs r = (Inr (), r')" "view r' = fold run_command ?cs (view r)"
    using redis_reads(6) [OF laws] by blast
  have sub: "?olds \<subseteq> set ?ids" unfolding ids by (auto simp: same_name_def)
  have cl: "clears a ?olds (concat ?css)"
  proof -
    have "Del [redisVMKey i] \<in> set (concat ?css) \<and> SRem redisVMsKey i \<in> set (concat ?css)" if "i \<in> ?olds" for i
      using that sub by (auto simp: rename_chunk_def split: if_splits)
    moreover have "redisVMKey i \<in> set [redisVMKey i]" for i by simp
    ultimately have "\<forall>i \<in> ?olds. SRem redisVMsKey i \<in> set (concat ?css) \<and> (\<exists>ks. Del ks \<in> set (concat ?css) \<and> redisVMKey i \<in> set ks)"
      by blast
    then show ?thesis unfolding clears_def rename_chunk_def by (auto split: if_splits)
  qed
  have rem: "{i. SRem (redisAgentVMsKey a) i \<in> set (concat ?css)} = ?olds"
    using sub by (auto simp: rename_chunk_def split: if_splits)
  have sh: "shelf_of (view r') = update_on c a host vm ?olds ?s"
    unfolding r'(2) update_on_def by (rule update_shelf [OF cl rem])
  have others: "\<And>b. b \<noteq> a \<Longrightarrow> vm_ID vm \<notin> s_owned ?s b"
    using ok not_owned [OF wf] by (auto simp: write_ok_def simp del: fleet_sel)
  have sim: "shelf_wf c {} (update_on c a host vm ?olds ?s)"
    "fleet_of c (update_on c a host vm ?olds ?s) = fleet_effect (UpdateVM a host vm) (fleet_of c ?s)"
    by (rule update_sim [OF wf redis_reads(5) [OF laws] False others refl]; assumption)+
  have "a \<notin> s_marked (shelf_of (view r'))" using False by (simp add: sh update_on_def)
  then have "UpdateVMRuntime c a host vm r = (Inr (), r')"
    using r'(1) run reject_unmarked [OF laws] False
    by (simp add: UpdateVMRuntime_def bindp_def attempt_def isAgentDeleted_run [OF laws] redis_reads(1) [OF laws])
  then show ?thesis using False sim by (simp add: fleet_write_def target_def sh)
qed

lemma GetHost_run:
  assumes "redis_laws c view" "shelf_wf c A (shelf_of (view r))"
  shows "GetHost c a r = (Inr (Option.bind (s_host (shelf_of (view r)) a) (dec_host c)), r)"
proof (cases "s_host (shelf_of (view r)) a")
  case None
  then show ?thesis
    by (simp add: GetHost_def get_decoded_def bindp_def ret_def redis_reads(3) [OF assms(1)] shelf_sel)
next
  case (Some x)
  have "dom (s_host (shelf_of (view r))) \<subseteq> s_hosts (shelf_of (view r))"
    "\<forall>b \<in> s_hosts (shelf_of (view r)). \<exists>x h. s_host (shelf_of (view r)) b = Some x \<and> dec_host c x = Some h"
    using assms(2) unfolding shelf_wf_def by blast+
  with Some obtain h where "dec_host c x = Some h" by force
  with Some show ?thesis
    by (simp add: GetHost_def get_decoded_def bindp_def ret_def redis_reads(3) [OF assms(1)] shelf_sel)
qed

text \<open>The commands of the host in the removal of a machine.\<close>

definition host_commands :: "('r, 'v) redis_client \<Rightarrow> string \<Rightarrow> string \<Rightarrow> Host option \<Rightarrow> 'v redis_command list" where
  "host_commands c a i found = SRem (redisAgentVMsKey a) i #
     (case found of None \<Rightarrow> [] | Some host \<Rightarrow>
        if h_VMCount host > 0 then [SetKey (redisHostKey a) (enc_host c (host\<lparr>h_VMCount := h_VMCount host - 1\<rparr>)) None] else [])"

lemma drop_shelf:
  assumes cl: "clears a {i} cs" "{j. SRem (redisAgentVMsKey a) j \<in> set cs} = {}"
    and found: "found = Option.bind (s_host (shelf_of v) a) (dec_host c)" and c: "codec c"
  obtains hs where "shelf_of (fold run_command (cs @ host_commands c a i found) v) = drop_on a i hs (shelf_of v)"
    "dom hs = dom (s_host (shelf_of v))" "\<And>b. b \<noteq> a \<Longrightarrow> hs b = s_host (shelf_of v) b"
    "Option.bind (hs a) (dec_host c) = map_option lower_count (Option.bind (s_host (shelf_of v) a) (dec_host c))"
proof (cases "\<exists>host. found = Some host \<and> h_VMCount host > 0")
  case True
  then obtain host where h: "found = Some host" "h_VMCount host > 0" by blast
  let ?hs = "(s_host (shelf_of v))(a \<mapsto> enc_host c (host\<lparr>h_VMCount := h_VMCount host - 1\<rparr>))"
  have "shelf_of (fold run_command (cs @ host_commands c a i found) v) = drop_on a i ?hs (shelf_of v)"
    using h cl(2) by (simp add: host_commands_def clears_shelf [OF cl(1)] drop_on_def del: run_command.simps)
  moreover have "s_host (shelf_of v) a \<noteq> None" using h found by (cases "s_host (shelf_of v) a") auto
  ultimately show thesis using h found c
    by (intro that [of ?hs]) (auto simp: codec_def lower_count_def)
next
  case False
  have "shelf_of (fold run_command (cs @ host_commands c a i found) v) = drop_on a i (s_host (shelf_of v)) (shelf_of v)"
    using False cl(2)
    by (cases found) (simp_all add: host_commands_def clears_shelf [OF cl(1)] drop_on_def del: run_command.simps)
  moreover have "map_option lower_count found = found"
    using False by (cases found) (auto simp: lower_count_def)
  ultimately show thesis using found by (intro that [of "s_host (shelf_of v)"]) auto
qed

lemma remove_vm_write:
  assumes laws: "redis_laws c view" and wf: "shelf_wf c {} (shelf_of (view r))"
    and ok: "write_ok (RemoveVM a i) (fleet_of c (shelf_of (view r)))"
  shows "\<exists>r'. RemoveVMRuntime c a i r = (fst (fleet_write (RemoveVM a i) (fleet_of c (shelf_of (view r)))), r')
     \<and> shelf_wf c {} (shelf_of (view r'))
     \<and> fleet_of c (shelf_of (view r')) = snd (fleet_write (RemoveVM a i) (fleet_of c (shelf_of (view r))))"
proof -
  let ?s = "shelf_of (view r)" and ?cs = "snapshot_drops c r i @ [Del [redisVMSnapshotsKey i, redisVMKey i], SRem redisVMsKey i]"
  let ?found = "Option.bind (s_host ?s a) (dec_host c)"
  have a: "a \<noteq> []" and others: "\<And>b. b \<noteq> a \<Longrightarrow> i \<notin> s_owned ?s b"
    using ok not_owned [OF wf] by (auto simp: write_ok_def simp del: fleet_sel)
  obtain r1 where r1: "c_exec c (?cs @ host_commands c a i ?found) r = (Inr (), r1)"
    "view r1 = fold run_command (?cs @ host_commands c a i ?found) (view r)"
    using redis_reads(6) [OF laws] by blast
  have cl: "clears a {i} ?cs" "{j. SRem (redisAgentVMsKey a) j \<in> set ?cs} = {}"
    by (auto simp: clears_def dest!: set_snapshot_drops)
  obtain hs where sh: "shelf_of (view r1) = drop_on a i hs ?s" and hs: "dom hs = dom (s_host ?s)" "\<And>b. b \<noteq> a \<Longrightarrow> hs b = s_host ?s b"
    "Option.bind (hs a) (dec_host c) = map_option lower_count ?found"
    using drop_shelf [OF cl refl redis_reads(5) [OF laws], of "view r"] unfolding r1(2) by metis
  have sim: "shelf_wf c {} (drop_on a i hs ?s)" "fleet_of c (drop_on a i hs ?s) = fleet_effect (RemoveVM a i) (fleet_of c ?s)"
    by (rule drop_sim [OF wf]; use others hs in blast)+
  have run: "RemoveVMRuntime c a i r = rejectDeletedAgentRuntimeWrite c a (Inr ()) r1"
    using r1(1) a by (simp add: RemoveVMRuntime_def bindp_def ret_def attempt_def drop_snapshots_run [OF laws]
      GetHost_run [OF laws wf] host_commands_def)
  show ?thesis
  proof (cases "a \<in> s_marked ?s")
    case False
    then have "a \<notin> s_marked (shelf_of (view r1))" by (simp add: sh drop_on_def)
    then have "RemoveVMRuntime c a i r = (Inr (), r1)" unfolding run by (rule reject_unmarked [OF laws])
    then show ?thesis using False sim by (simp add: fleet_write_def target_def sh)
  next
    case True
    then have m: "a \<in> s_marked (shelf_of (view r1))" by (simp add: sh drop_on_def)
    have "shelf_wf c {a} (shelf_of (view r1))" using sim(1) unfolding sh shelf_wf_def by blast
    then obtain r2 where r2: "rejectDeletedAgentRuntimeWrite c a (Inr ()) r1 = (Inl ErrAgentRuntimeDeleted, r2)"
      "shelf_wf c {} (shelf_of (view r2))"
      "fleet_of c (shelf_of (view r2)) = fleet_effect (Remove a) (fleet_effect (RemoveVM a i) (fleet_of c ?s))"
      using reject_marked [OF laws m] sim(2) unfolding sh by metis
    have "s_owned ?s a = {}" "s_host ?s a = None" using wf True unfolding shelf_wf_def by blast+
    then have "fleet_effect (Remove a) (fleet_effect (RemoveVM a i) (fleet_of c ?s)) = fleet_of c ?s"
      using True by (intro fleet.equality) (auto simp: fleet_effect_def fleet_of_def fun_eq_iff)
    with r2 True show ?thesis unfolding run by (simp add: fleet_write_def target_def is_removal_def)
  qed
qed

section \<open>What is listed\<close>

lemma ListVMs_run:
  assumes laws: "redis_laws c view" and wf: "shelf_wf c {} (shelf_of (view r))"
  shows "\<exists>vms. ListVMs c ''all'' [] [] r = (Inr vms, r) \<and>
     set vms = {m. \<exists>a i. fl_vms (fleet_of c (shelf_of (view r))) a i = Some m}"
proof -
  let ?s = "shelf_of (view r)" and ?ids = "smem c r redisVMsKey"
  have ids: "set ?ids = (\<Union>a. s_owned ?s a)"
    using wf by (simp add: shelf_wf_def redis_reads(2) [OF laws] shelf_sel)
  let ?vm = "\<lambda>i. Option.bind (s_vm ?s i) (dec_vm c)"
  have run: "map_prog (GetVM c) ?ids r = (Inr (map ?vm ?ids), r)"
  proof (rule map_prog_reads)
    fix i assume "i \<in> set ?ids"
    then obtain a where "i \<in> s_owned ?s a" unfolding ids by blast
    then show "GetVM c i r = (Inr (?vm i), r)" using GetVM_run [OF laws wf] by metis
  qed
  let ?vms = "concat (map (\<lambda>x. case x of None \<Rightarrow> [] | Some y \<Rightarrow> [y]) (map ?vm ?ids))"
  have "ListVMs c ''all'' [] [] r = (Inr (sortVMs ?vms), r)"
    by (simp add: ListVMs_def list_indexed_def bindp_def ret_def redis_reads(1) [OF laws] run TrimSpace_def ToLower_def Let_def)
  moreover have "set (sortVMs ?vms) = {m. \<exists>a i. fl_vms (fleet_of c ?s) a i = Some m}"
  proof (intro equalityI subsetI)
    fix m assume "m \<in> set (sortVMs ?vms)"
    then obtain i where "i \<in> set ?ids" "?vm i = Some m" by (auto simp: sortVMs_def split: option.splits)
    moreover from this obtain a where "i \<in> s_owned ?s a" unfolding ids by blast
    ultimately have "fl_vms (fleet_of c ?s) a i = Some m" by simp
    then show "m \<in> {m. \<exists>a i. fl_vms (fleet_of c ?s) a i = Some m}" by blast
  next
    fix m assume "m \<in> {m. \<exists>a i. fl_vms (fleet_of c ?s) a i = Some m}"
    then obtain a i where "i \<in> s_owned ?s a" "?vm i = Some m" by (auto split: if_splits)
    moreover from this have "i \<in> set ?ids" unfolding ids by blast
    ultimately show "m \<in> set (sortVMs ?vms)" by (force simp: sortVMs_def)
  qed
  ultimately show ?thesis by blast
qed

end
