(* ===== verification/Runtime_Properties.thy ===== *)
theory Runtime_Properties
  imports Runtime_Refinement
begin

text \<open>
  What the runtime store promises, with a client that keeps the keys in memory for the concrete instances.
\<close>

section \<open>A client in memory\<close>

datatype blob = HostBlob Host | VMBlob VirtualMachine | SnapshotBlob Snapshot | TextBlob string

datatype slot = OneSlot blob | ListSlot "string list"

type_synonym memory = "string \<Rightarrow> slot option"

definition view_memory :: "memory \<Rightarrow> blob keyspace" where
  "view_memory m k = (case m k of None \<Rightarrow> None | Some (OneSlot b) \<Rightarrow> Some (Text b) | Some (ListSlot l) \<Rightarrow> Some (Members (set l)))"

definition listed :: "memory \<Rightarrow> string \<Rightarrow> string list" where
  "listed m k = (case m k of Some (ListSlot l) \<Rightarrow> remdups l | _ \<Rightarrow> [])"

fun memory_command :: "blob redis_command \<Rightarrow> memory \<Rightarrow> memory" where
  "memory_command (SAdd key x) m = m(key \<mapsto> ListSlot (x # listed m key))"
| "memory_command (SRem key x) m = (case m key of
     Some (ListSlot l) \<Rightarrow> m(key := if filter (\<lambda>y. y \<noteq> x) l = [] then None else Some (ListSlot (filter (\<lambda>y. y \<noteq> x) l))) | _ \<Rightarrow> m)"
| "memory_command (SetKey key b ttl) m = m(key \<mapsto> OneSlot b)"
| "memory_command (Del keys) m = (\<lambda>k. if k \<in> set keys then None else m k)"

definition memory_client :: "(memory, blob) redis_client" where
  "memory_client = \<lparr>c_smembers = (\<lambda>k m. (Inr (listed m k), m)),
     c_get = (\<lambda>k m. (Inr (case m k of Some (OneSlot b) \<Rightarrow> Some b | _ \<Rightarrow> None), m)),
     c_exists = (\<lambda>k m. (Inr (if m k = None then 0 else 1), m)),
     c_exec = (\<lambda>cs m. (Inr (), fold memory_command cs m)),
     enc_host = HostBlob, dec_host = (\<lambda>b. case b of HostBlob h \<Rightarrow> Some h | _ \<Rightarrow> None),
     enc_vm = VMBlob, dec_vm = (\<lambda>b. case b of VMBlob v \<Rightarrow> Some v | _ \<Rightarrow> None),
     enc_snapshot = SnapshotBlob, dec_snapshot = (\<lambda>b. case b of SnapshotBlob s \<Rightarrow> Some s | _ \<Rightarrow> None),
     enc_text = TextBlob\<rparr>"

lemma set_listed: "set (listed m k) = members (view_memory m) k"
  by (auto simp: listed_def members_def view_memory_def split: option.splits slot.splits)

lemma view_command: "view_memory (memory_command cmd m) = run_command cmd (view_memory m)"
proof (cases cmd)
  case (SRem k x)
  have "(filter (\<lambda>y. y \<noteq> x) l = []) = (set l - {x} = {})" for l :: "string list"
    by (auto simp: filter_empty_conv)
  then show ?thesis
    by (auto simp: SRem fun_eq_iff view_memory_def split: option.splits slot.splits)
qed (auto simp: fun_eq_iff view_memory_def set_listed [symmetric] listed_def members_def split: option.splits slot.splits)

lemma view_fold: "view_memory (fold memory_command cs m) = fold run_command cs (view_memory m)"
  by (induction cs arbitrary: m) (simp_all add: view_command)

lemma memory_laws: "redis_laws memory_client view_memory"
  unfolding redis_laws_def
  by (auto simp: memory_client_def view_fold members_def listed_def text_at_def view_memory_def split: option.splits slot.splits)

section \<open>Refinement of the fleet\<close>

definition fleet_at :: "('r, 'v) redis_client \<Rightarrow> ('r \<Rightarrow> 'v keyspace) \<Rightarrow> 'r \<Rightarrow> fleet" where
  "fleet_at c view r = fleet_of c (shelf_of (view r))"

definition runtime_wf :: "('r, 'v) redis_client \<Rightarrow> ('r \<Rightarrow> 'v keyspace) \<Rightarrow> 'r \<Rightarrow> bool" where
  "runtime_wf c view r \<longleftrightarrow> shelf_wf c {} (shelf_of (view r))"

text \<open>C25: each write of the runtime store is the write of the fleet: it answers what the fleet answers, leaves
  the keys of the fleet it computes, in which every index agrees with its values, and the machines that are
  listed afterwards are those of the fleet. A removed agent is refused until its mark expires.\<close>

theorem store_refines_fleet:
  assumes "redis_laws c view" "runtime_wf c view r" "write_ok w (fleet_at c view r)"
  shows "\<exists>r'. run_write c w r = (fst (fleet_write w (fleet_at c view r)), r') \<and> runtime_wf c view r' \<and>
     fleet_at c view r' = snd (fleet_write w (fleet_at c view r)) \<and>
     (\<exists>vms. ListVMs c ''all'' [] [] r' = (Inr vms, r') \<and>
        set vms = {m. \<exists>a i. fl_vms (fleet_at c view r') a i = Some m})"
proof -
  note laws = assms(1) and wf = assms(2) [unfolded runtime_wf_def] and ok = assms(3) [unfolded fleet_at_def]
  have "\<exists>r'. run_write c w r = (fst (fleet_write w (fleet_at c view r)), r') \<and> shelf_wf c {} (shelf_of (view r')) \<and>
     fleet_of c (shelf_of (view r')) = snd (fleet_write w (fleet_at c view r))"
  proof (cases w)
    case Save with save_write [OF laws wf] ok show ?thesis by (simp add: run_write_def fleet_at_def)
  next
    case UpdateVM with update_write [OF laws wf] ok show ?thesis by (simp add: run_write_def fleet_at_def)
  next
    case RemoveVM with remove_vm_write [OF laws wf] ok show ?thesis by (simp add: run_write_def fleet_at_def)
  next
    case (ReplaceSnapshots a ss)
    have "snd (fleet_write w (fleet_at c view r)) = fleet_at c view r"
      by (simp add: ReplaceSnapshots fleet_write_def fleet_effect_def)
    with snapshots_write [OF laws wf, of a ss] wf show ?thesis
      by (auto simp: ReplaceSnapshots run_write_def fleet_at_def)
  next
    case (Remove a)
    with remove_write [OF laws wf, of a] show ?thesis
      by (simp add: run_write_def fleet_at_def fleet_write_def is_removal_def)
  qed
  then show ?thesis using ListVMs_run [OF laws] unfolding runtime_wf_def fleet_at_def by blast
qed

definition sample_host :: Host where
  "sample_host =
    \<lparr>h_ID = ''a'', h_Name = ''alpha'', h_Address = [], h_Hostname = [], h_Cluster = [],
    h_Status = ''online'', h_CPUCores = 8, h_CPUUsage = 0, h_MemoryBytes = 0, h_MemoryUsage = 0,
    h_StorageBytes = 0, h_StorageUsage = 0, h_DiskReadBytesPerSec = 0, h_DiskWriteBytesPerSec = 0,
    h_NetworkRxBytesPerSec = 0, h_NetworkTxBytesPerSec = 0, h_VMCount = 1, h_KVMVersion = [],
    h_KVMFullVersion = [], h_CreatedAt = 0, h_UpdatedAt = 0\<rparr>"

definition sample_vm :: VirtualMachine where
  "sample_vm =
    \<lparr>vm_ID = ''a-1'', vm_HostID = ''a'', vm_HostName = [], vm_Name = ''web'', vm_UUID = [],
    vm_Description = [], vm_OSType = [], vm_Status = ''running'', vm_CPUCores = 0, vm_MemoryBytes = 0,
    vm_DiskBytes = 0, vm_DiskUsedBytes = 0, vm_Disks = [], vm_PrimaryIP = [], vm_CPUUsage = 0,
    vm_CPUUsageAvailable = False, vm_MemoryUsage = 0, vm_MemoryUsageAvailable = False, vm_DiskUsage = 0,
    vm_DiskUsageAvailable = False, vm_DiskReadBytesPerSec = 0, vm_DiskWriteBytesPerSec = 0,
    vm_NetworkRxBytesPerSec = 0, vm_NetworkTxBytesPerSec = 0, vm_UptimeSeconds = 0, vm_IsTemplate = False,
    vm_TemplateID = [], vm_TemplateName = [], vm_TemplateDescription = [], vm_CreatedAt = 0,
    vm_UpdatedAt = 0\<rparr>"

definition sample_snapshot :: Snapshot where
  "sample_snapshot =
    \<lparr>sn_ID = ''s-1'', sn_HostID = [], sn_HostName = [], sn_VMID = ''a-1'', sn_VMName = [],
    sn_Name = ''before'', sn_DisplayName = [], sn_Description = [], sn_Tags = [], sn_SizeBytes = 0,
    sn_Type = [], sn_Status = [], sn_CreatedAt = 0, sn_UpdatedAt = 0\<rparr>"

lemma empty_store: "runtime_wf memory_client view_memory Map.empty"
  "fleet_at memory_client view_memory Map.empty = \<lparr>fl_host = Map.empty, fl_vms = (\<lambda>_. Map.empty), fl_deleted = {}\<rparr>"
  by (simp_all add: runtime_wf_def shelf_wf_def fleet_at_def fleet_of_def shelf_sel members_def text_at_def view_memory_def fun_eq_iff)

theorem store_refines_fleet_witness:
  "\<exists>m vms. SaveAgentRuntime memory_client ''a'' sample_host [(''a-1'', sample_vm)] [] True Map.empty = (Inr (), m) \<and>
     ListVMs memory_client ''all'' [] [] m = (Inr vms, m) \<and> set vms = {sample_vm}"
proof -
  let ?w = "Save ''a'' sample_host [(''a-1'', sample_vm)] [] True" and ?f = "fleet_at memory_client view_memory Map.empty"
  have "write_ok ?w ?f" by (simp add: write_ok_def empty_store)
  from store_refines_fleet [OF memory_laws empty_store(1) this] obtain m vms where
    m: "run_write memory_client ?w Map.empty = (fst (fleet_write ?w ?f), m)" "fleet_at memory_client view_memory m = snd (fleet_write ?w ?f)"
      "ListVMs memory_client ''all'' [] [] m = (Inr vms, m)"
      "set vms = {v. \<exists>a i. fl_vms (fleet_at memory_client view_memory m) a i = Some v}" by blast
  have f: "fleet_write ?w ?f = (Inr (), fleet_effect ?w ?f)" by (simp add: fleet_write_def empty_store)
  have "set vms = {sample_vm}" unfolding m(2,4) f by (auto simp: fleet_effect_def empty_store split: if_splits)
  with m(1,3) f show ?thesis by (simp add: run_write_def)
qed

section \<open>A write that races with the removal of its agent\<close>

text \<open>
  The commands of one connection are interleaved with those of others: \<open>interrupted c a m\<close> is the client of a connection
  on which the program \<open>m\<close> of the others runs just before a pipeline that saves the agent \<open>a\<close>, thus after the reads and
  the check that come before it.
\<close>

definition saves_agent :: "string \<Rightarrow> 'v redis_command list \<Rightarrow> bool" where
  "saves_agent a cs \<longleftrightarrow> list_ex (\<lambda>cmd. case cmd of SAdd key m \<Rightarrow> key = redisHostsKey \<and> m = a | _ \<Rightarrow> False) cs"

definition interrupted :: "('r, 'v) redis_client \<Rightarrow> string \<Rightarrow> ('r, unit) redis_prog \<Rightarrow> ('r, 'v) redis_client" where
  "interrupted c a m = c\<lparr>c_exec := (\<lambda>cs. if saves_agent a cs then bindp m (\<lambda>_. c_exec c cs) else c_exec c cs)\<rparr>"

lemma save_saves: "saves_agent a (save_commands c a host css vms ss b)"
  by (simp add: saves_agent_def save_commands_def)

lemma interrupted_reads [simp]:
  "c_smembers (interrupted c a m) = c_smembers c" "c_exists (interrupted c a m) = c_exists c"
  "enc_host (interrupted c a m) = enc_host c" "enc_vm (interrupted c a m) = enc_vm c"
  "enc_snapshot (interrupted c a m) = enc_snapshot c" "enc_text (interrupted c a m) = enc_text c"
  by (simp_all add: interrupted_def)

lemma interrupted_same:
  "isAgentDeleted (interrupted c a m) = isAgentDeleted c" "save_commands (interrupted c a m) = save_commands c"
  "drop_snapshots (interrupted c a m) = drop_snapshots c"
  by (simp_all add: fun_eq_iff isAgentDeleted_def drop_snapshots_def save_commands_def add_snapshots_def)

lemma interrupted_clear: "clear_old_vms (interrupted c a m) = clear_old_vms c"
  unfolding clear_old_vms_def interrupted_same ..

lemma interrupted_removal:
  assumes "redis_laws c view"
  shows "RemoveAgent (interrupted c a m) b r = RemoveAgent c b r"
proof -
  obtain olds where olds: "c_smembers c (redisAgentVMsKey b) r = (Inr olds, r)"
    using assms unfolding redis_laws_def by blast
  let ?loop = "map_prog (\<lambda>vmID. bindp (drop_snapshots c vmID) (\<lambda>cs.
        ret (cs @ [Del [redisVMSnapshotsKey vmID, redisVMKey vmID], SRem redisVMsKey vmID]))) olds"
  have loop: "?loop r = (Inr (map (remove_chunk c r) olds), r)"
    by (rule map_prog_reads) (simp add: bindp_def ret_def drop_snapshots_run [OF assms] remove_chunk_def)
  have "\<not> saves_agent a ([SetKey (redisAgentDeleteMarkerKey b) (enc_text c ''1'') (Some 600),
       Del [redisHostKey b, redisAgentVMsKey b], SRem redisHostsKey b] @ concat (map (remove_chunk c r) olds))"
    by (auto simp: saves_agent_def list_ex_iff remove_chunk_def dest!: set_snapshot_drops)
  then show ?thesis
    using olds loop by (simp add: RemoveAgent_def interrupted_same bindp_def) (simp add: interrupted_def)
qed

text \<open>C26: whatever other connections do between the reads of a save and its pipeline, the removal of the agent included:
  when the agent is removed by then, the save is answered with an error and is undone: the fleet is as the others have left
  it, and nothing of the removed agent comes back.\<close>

theorem raced_save_undone:
  assumes "redis_laws c view" "runtime_wf c view r" "a \<notin> fl_deleted (fleet_at c view r)" "distinct (map fst vms)"
    and "m r = (Inr (), r1)" "runtime_wf c view r1" "a \<in> fl_deleted (fleet_at c view r1)"
    and "\<forall>b i. b \<noteq> a \<longrightarrow> fl_vms (fleet_at c view r) a i \<noteq> None \<or> i \<in> fst ` set vms \<longrightarrow> fl_vms (fleet_at c view r1) b i = None"
  shows "\<exists>r2. SaveAgentRuntime (interrupted c a m) a host vms ss b r = (Inl ErrAgentRuntimeDeleted, r2) \<and>
     runtime_wf c view r2 \<and> fleet_at c view r2 = fleet_at c view r1"
proof -
  note wf = assms(2) [unfolded runtime_wf_def] and wf1 = assms(6) [unfolded runtime_wf_def]
  obtain olds where olds: "c_smembers c (redisAgentVMsKey a) r = (Inr olds, r)" "set olds = members (view r) (redisAgentVMsKey a)"
    using assms(1) unfolding redis_laws_def by blast
  let ?css = "map (save_chunk c r b) olds"
  have live: "isAgentDeleted c a r = (Inr False, r)"
    using assms(3) by (simp add: isAgentDeleted_run [OF assms(1)] fleet_at_def fleet_of_def)
  have "(set olds \<union> fst ` set vms) \<inter> s_owned (shelf_of (view r1)) b' = {}" if "b' \<noteq> a" for b'
  proof -
    have "i \<notin> s_owned (shelf_of (view r1)) b'" if i: "i \<in> set olds \<union> fst ` set vms" for i
    proof (rule not_owned [OF wf1])
      have "fl_vms (fleet_at c view r) a i \<noteq> None" if "i \<in> set olds"
      proof
        assume "fl_vms (fleet_at c view r) a i = None"
        then have "i \<notin> s_owned (shelf_of (view r)) a" unfolding fleet_at_def by (rule not_owned [OF wf])
        with that olds(2) show False by (simp add: shelf_sel)
      qed
      then have known: "fl_vms (fleet_at c view r) a i \<noteq> None \<or> i \<in> fst ` set vms"
        using i by (cases "i \<in> set olds") simp_all
      from mp [OF mp [OF spec [OF spec [OF assms(8)]] \<open>b' \<noteq> a\<close>] known] show "fl_vms (fleet_of c (shelf_of (view r1))) b' i = None" by (simp only: fleet_at_def)
    qed
    then show ?thesis by blast
  qed
  moreover have "a \<in> s_marked (shelf_of (view r1))" using assms(7) by (simp add: fleet_at_def fleet_of_def)
  ultimately obtain r2 r3 where written: "c_exec c (save_commands c a host ?css vms ss b) r1 = (Inr (), r2)"
    and undone: "rejectDeletedAgentRuntimeWrite c a (Inr ()) r2 = (Inl ErrAgentRuntimeDeleted, r3)"
    and after: "runtime_wf c view r3" "fleet_at c view r3 = fleet_at c view r1"
    using raced_write [where a = a and css = ?css and host = host and ss = ss and b = b, OF assms(1) wf1 _ assms(4) clears_save]
    unfolding runtime_wf_def fleet_at_def by metis
  have "c_exec (interrupted c a m) (save_commands c a host ?css vms ss b) r = (Inr (), r2)"
    using written assms(5) by (simp add: interrupted_def bindp_def save_saves)
  moreover have "rejectDeletedAgentRuntimeWrite (interrupted c a m) a (Inr ()) r2 = rejectDeletedAgentRuntimeWrite c a (Inr ()) r2"
    by (simp add: rejectDeletedAgentRuntimeWrite_def interrupted_same bindp_def isAgentDeleted_run [OF assms(1)]
        interrupted_removal [OF assms(1)] split: if_splits)
  ultimately have "SaveAgentRuntime (interrupted c a m) a host vms ss b r = (Inl ErrAgentRuntimeDeleted, r3)"
    using live olds(1) clear_old_vms_run [OF assms(1)] undone
    by (simp add: SaveAgentRuntime_def interrupted_same interrupted_clear bindp_def attempt_def)
  with after show ?thesis by blast
qed

theorem raced_save_undone_witness:
  "\<exists>r2. SaveAgentRuntime (interrupted memory_client ''a'' (RemoveAgent memory_client ''a'')) ''a'' sample_host
       [(''a-2'', sample_vm)] [] False Map.empty = (Inl ErrAgentRuntimeDeleted, r2) \<and>
     fleet_at memory_client view_memory r2 = \<lparr>fl_host = Map.empty, fl_vms = (\<lambda>_. Map.empty), fl_deleted = {''a''}\<rparr>"
proof -
  obtain r1 where r1: "RemoveAgent memory_client ''a'' Map.empty = (Inr (), r1)" "runtime_wf memory_client view_memory r1"
    "fleet_at memory_client view_memory r1 = fleet_effect (Remove ''a'') (fleet_at memory_client view_memory Map.empty)"
    using remove_write [OF memory_laws empty_store(1) [unfolded runtime_wf_def]]
    unfolding runtime_wf_def fleet_at_def by blast
  have f: "fleet_at memory_client view_memory r1 = \<lparr>fl_host = Map.empty, fl_vms = (\<lambda>_. Map.empty), fl_deleted = {''a''}\<rparr>"
    unfolding r1(3) empty_store(2) by (simp add: fleet_effect_def fun_eq_iff)
  have "\<exists>r2. SaveAgentRuntime (interrupted memory_client ''a'' (RemoveAgent memory_client ''a'')) ''a'' sample_host
      [(''a-2'', sample_vm)] [] False Map.empty = (Inl ErrAgentRuntimeDeleted, r2) \<and>
    runtime_wf memory_client view_memory r2 \<and> fleet_at memory_client view_memory r2 = fleet_at memory_client view_memory r1"
    by (rule raced_save_undone [where m = "RemoveAgent memory_client ''a''" and ?r1.0 = r1, OF memory_laws empty_store(1) _ _ r1(1) r1(2)])
      (simp_all add: empty_store(2) f)
  then show ?thesis unfolding f by blast
qed

section \<open>Snapshots of a machine that a fast synchronisation drops\<close>

lemma save_fast_keeps:
  assumes "k = redisSnapshotsKey \<or> k \<in> range redisSnapshotKey \<or> k \<in> range redisVMSnapshotsKey"
  shows "fold run_command (save_commands c a host (map (save_chunk c r False) olds) vms ss False) v k = v k"
  by (rule fold_untouched) (use assms in \<open>auto simp: save_commands_def save_chunk_def\<close>)

lemma remove_other_snapshots:
  assumes "\<And>j. j \<in> set olds \<Longrightarrow> k \<notin> set (smem c r (redisVMSnapshotsKey j))"
  shows "text_at (fold run_command ([SetKey (redisAgentDeleteMarkerKey a) x t, Del [redisHostKey a, redisAgentVMsKey a],
       SRem redisHostsKey a] @ concat (map (remove_chunk c r) olds)) v) (redisSnapshotKey k) = text_at v (redisSnapshotKey k)"
    "k \<in> members v redisSnapshotsKey \<Longrightarrow> k \<in> members (fold run_command ([SetKey (redisAgentDeleteMarkerKey a) x t,
       Del [redisHostKey a, redisAgentVMsKey a], SRem redisHostsKey a] @ concat (map (remove_chunk c r) olds)) v) redisSnapshotsKey"
proof -
  let ?cs = "[SetKey (redisAgentDeleteMarkerKey a) x t, Del [redisHostKey a, redisAgentVMsKey a], SRem redisHostsKey a]
     @ concat (map (remove_chunk c r) olds)"
  show "text_at (fold run_command ?cs v) (redisSnapshotKey k) = text_at v (redisSnapshotKey k)"
    by (rule text_untouched) (use assms in \<open>auto simp: remove_chunk_def snapshot_drops_def\<close>)
  have "members (fold run_command ?cs v) redisSnapshotsKey = members v redisSnapshotsKey - {i. SRem redisSnapshotsKey i \<in> set ?cs}"
    by (rule fold_srem) (auto simp: remove_chunk_def snapshot_drops_def)
  moreover have "SRem redisSnapshotsKey k \<notin> set ?cs" using assms by (auto simp: remove_chunk_def snapshot_drops_def)
  ultimately show "k \<in> members v redisSnapshotsKey \<Longrightarrow> k \<in> members (fold run_command ?cs v) redisSnapshotsKey" by simp
qed

text \<open>a synchronisation without snapshots that no longer reports a machine drops the machine and leaves its
  snapshots listed; the removal of the agent goes over the machines it still knows and leaves them listed
  too, for good.\<close>

theorem fast_sync_orphans_snapshots:
  assumes "redis_laws c view" "runtime_wf c view r" "a \<notin> fl_deleted (fleet_at c view r)"
    and "distinct (map fst vms)" "i \<notin> fst ` set vms"
    and "\<forall>b j. b \<noteq> a \<longrightarrow> j \<in> fst ` set vms \<longrightarrow> fl_vms (fleet_at c view r) b j = None"
    and "k \<in> members (view r) redisSnapshotsKey" "GetSnapshot c k r = (Inr (Some s), r)"
    and "\<forall>j. k \<in> members (view r) (redisVMSnapshotsKey j) \<longrightarrow> j = i"
  shows "\<exists>r1 r2. SaveAgentRuntime c a host vms ss False r = (Inr (), r1) \<and> RemoveAgent c a r1 = (Inr (), r2) \<and>
     k \<in> members (view r2) redisSnapshotsKey \<and> GetSnapshot c k r2 = (Inr (Some s), r2)"
proof -
  note laws = assms(1) and wf = assms(2) [unfolded runtime_wf_def]
  have m: "a \<notin> s_marked (shelf_of (view r))" using assms(3) by (simp add: fleet_at_def)
  let ?w = "Save a host vms ss False" and ?f = "fleet_of c (shelf_of (view r))"
  have "write_ok ?w ?f" using assms(4,6) by (auto simp: write_ok_def fleet_at_def)
  from save_write [OF laws wf this] obtain r1 where r1: "SaveAgentRuntime c a host vms ss False r = (Inr (), r1)"
    "shelf_wf c {} (shelf_of (view r1))" "fleet_of c (shelf_of (view r1)) = fleet_effect ?w ?f"
    using m by (auto simp: fleet_write_def target_def)
  obtain r' where r': "SaveAgentRuntime c a host vms ss False r = rejectDeletedAgentRuntimeWrite c a (Inr ()) r'"
    "view r' = fold run_command (save_commands c a host (map (save_chunk c r False) (smem c r (redisAgentVMsKey a))) vms ss False) (view r)"
    by (rule SaveAgentRuntime_run [OF laws m])
  have same: "r' = r1"
  proof (cases "a \<in> s_marked (shelf_of (view r'))")
    case False
    with r1(1) r'(1) reject_unmarked [OF laws False] show ?thesis by simp
  next
    case True
    have "view r' (redisAgentDeleteMarkerKey a) = view r (redisAgentDeleteMarkerKey a)"
      unfolding r'(2) by (rule fold_untouched) (auto simp: save_commands_def save_chunk_def)
    with True m show ?thesis by (simp add: shelf_sel)
  qed
  note keep = save_fast_keeps [of _ c a host r "smem c r (redisAgentVMsKey a)" vms ss "view r", folded r'(2), unfolded same]
  obtain r2 where r2: "RemoveAgent c a r1 = (Inr (), r2)"
    "view r2 = fold run_command ([SetKey (redisAgentDeleteMarkerKey a) (enc_text c ''1'') (Some 600),
       Del [redisHostKey a, redisAgentVMsKey a], SRem redisHostsKey a] @
       concat (map (remove_chunk c r1) (smem c r1 (redisAgentVMsKey a)))) (view r1)"
    by (rule RemoveAgent_state [OF laws])
  have own: "set (smem c r1 (redisAgentVMsKey a)) \<subseteq> fst ` set vms"
  proof
    fix j assume "j \<in> set (smem c r1 (redisAgentVMsKey a))"
    then have "j \<in> s_owned (shelf_of (view r1)) a" by (simp add: redis_reads(2) [OF laws] shelf_sel)
    then have "fl_vms (fleet_of c (shelf_of (view r1))) a j \<noteq> None" using not_owned [OF r1(2)] by blast
    then show "j \<in> fst ` set vms" unfolding r1(3) by (simp add: fleet_effect_def map_of_eq_None_iff)
  qed
  have out: "k \<notin> set (smem c r1 (redisVMSnapshotsKey j))" if "j \<in> set (smem c r1 (redisAgentVMsKey a))" for j
  proof -
    have "members (view r1) (redisVMSnapshotsKey j) = members (view r) (redisVMSnapshotsKey j)"
      by (simp add: members_def keep)
    with that own assms(5,9) show ?thesis by (auto simp: redis_reads(2) [OF laws])
  qed
  have "k \<in> members (view r1) redisSnapshotsKey" using assms(7) by (simp add: members_def keep)
  moreover have "text_at (view r1) (redisSnapshotKey k) = text_at (view r) (redisSnapshotKey k)"
    by (simp add: text_at_def keep)
  ultimately have "k \<in> members (view r2) redisSnapshotsKey"
    "text_at (view r2) (redisSnapshotKey k) = text_at (view r) (redisSnapshotKey k)"
    unfolding r2(2) using remove_other_snapshots [OF out] by simp_all
  moreover from this(2) assms(8) have "GetSnapshot c k r2 = (Inr (Some s), r2)"
    by (auto simp: GetSnapshot_def get_decoded_def bindp_def ret_def fail_def redis_reads(3) [OF laws] split: option.splits)
  ultimately show ?thesis using r1(1) r2(1) by blast
qed

definition snapshot_store :: memory where
  "snapshot_store = [redisHostsKey \<mapsto> ListSlot [''a''], redisHostKey ''a'' \<mapsto> OneSlot (HostBlob sample_host),
     redisVMsKey \<mapsto> ListSlot [''a-1''], redisAgentVMsKey ''a'' \<mapsto> ListSlot [''a-1''], redisVMKey ''a-1'' \<mapsto> OneSlot (VMBlob sample_vm),
     redisSnapshotsKey \<mapsto> ListSlot [''s-1''], redisVMSnapshotsKey ''a-1'' \<mapsto> ListSlot [''s-1''],
     redisSnapshotKey ''s-1'' \<mapsto> OneSlot (SnapshotBlob sample_snapshot)]"

lemma snapshot_store_ok: "runtime_wf memory_client view_memory snapshot_store"
  "fl_deleted (fleet_at memory_client view_memory snapshot_store) = {}"
  by (auto simp: runtime_wf_def shelf_wf_def fleet_at_def shelf_sel members_def text_at_def view_memory_def
    snapshot_store_def memory_client_def split: if_splits)

theorem fast_sync_orphans_snapshots_witness:
  "\<exists>r1 r2. SaveAgentRuntime memory_client ''a'' sample_host [] [] False snapshot_store = (Inr (), r1) \<and>
     RemoveAgent memory_client ''a'' r1 = (Inr (), r2) \<and> ''s-1'' \<in> members (view_memory r2) redisSnapshotsKey \<and>
     GetSnapshot memory_client ''s-1'' r2 = (Inr (Some sample_snapshot), r2)"
  by (rule fast_sync_orphans_snapshots [where i = "''a-1''", OF memory_laws snapshot_store_ok(1)])
    (auto simp: snapshot_store_ok(2), auto simp: snapshot_store_def members_def view_memory_def memory_client_def
      GetSnapshot_def get_decoded_def bindp_def ret_def split: if_splits)

end
