(* ===== verification/Task_Store.thy ===== *)
theory Task_Store
  imports Auth_Store
begin

text \<open>
  The tasks of \<open>backend/internal/repository/repository.go\<close>. The search of \<open>ListTasks\<close> in the text of a
  row (\<open>ILIKE\<close> over a concatenation, JSON operators) is an argument.
\<close>

definition task_active :: "task \<Rightarrow> bool" where
  "task_active t \<longleftrightarrow> task_status t = ''queued'' \<or> task_status t = ''running''"

text \<open>\<open>NULLIF(x, '')\<close> is read back as the empty text.\<close>

definition CreateTask ::
  "string \<Rightarrow> string \<Rightarrow> string \<Rightarrow> string \<Rightarrow> task_payload \<Rightarrow> string \<Rightarrow> string \<Rightarrow> task db_prog" where
  "CreateTask taskType status targetType targetID payload createdBy errorMessage = stmt (\<lambda>d.
     let (i, d1) = gen_uuid d;
         t = \<lparr>task_id = i, task_type = taskType, task_status = status, task_target_type = targetType,
           task_target_id = targetID, task_payload_of = payload, task_error_message = errorMessage,
           task_created_by = createdBy, task_created_at = clock d1, task_updated_at = clock d1,
           task_finished_at = (if status = ''completed'' \<or> status = ''failed'' then Some (clock d1) else None)\<rparr> in
     if i \<in> task_id ` set (tasks d1) then (Inl UniqueViolation, d1)
     else if createdBy \<noteq> [] \<and> createdBy \<notin> ur_id ` set (users d1) then (Inl ForeignKeyViolation, d1)
     else (Inr t, d1\<lparr>tasks := tasks d1 @ [t]\<rparr>))"

text \<open>\<open>ORDER BY created_at DESC LIMIT NULLIF(n, 0) OFFSET m\<close>.\<close>

definition page :: "int \<Rightarrow> int \<Rightarrow> 'a list \<Rightarrow> 'a list" where
  "page limit offset xs = (let ys = drop (nat offset) xs in if limit = 0 then ys else take (nat limit) ys)"

definition ListTasks :: "(task \<Rightarrow> bool) \<Rightarrow> string \<Rightarrow> int \<Rightarrow> int \<Rightarrow> (task list \<times> nat) db_prog" where
  "ListTasks search status limit0 offset0 =
    (let limit = (if limit0 < 0 \<or> limit0 > 200 then 50 else limit0);
         offset = (if offset0 < 0 then 0 else offset0);
         shown = (\<lambda>t. (status = [] \<or> task_status t = status) \<and> search t) in
     bindp (query (\<lambda>d. length (filter shown (tasks d)))) (\<lambda>count.
     bindp (query (\<lambda>d. page limit offset (sort_key (\<lambda>t. - task_created_at t) (filter shown (tasks d))))) (\<lambda>items.
     ret (items, count))))"

definition found_task :: "task option \<Rightarrow> task db_prog" where
  "found_task r = (case r of None \<Rightarrow> fail ErrNotFound | Some t \<Rightarrow> ret t)"

definition GetTask :: "string \<Rightarrow> task db_prog" where
  "GetTask i = bindp (query (\<lambda>d. row_of task_id i (tasks d))) found_task"

definition FindActiveTaskByType :: "string \<Rightarrow> task db_prog" where
  "FindActiveTaskByType taskType = bindp (query (\<lambda>d.
     case sort_key (\<lambda>t. - task_created_at t) (filter (\<lambda>t. task_type t = taskType \<and> task_active t) (tasks d)) of
       [] \<Rightarrow> None | t # _ \<Rightarrow> Some t)) found_task"

text \<open>An update of the task \<open>i\<close>, with the number of rows it touched.\<close>

definition update_task :: "(task \<Rightarrow> bool) \<Rightarrow> (int \<Rightarrow> task \<Rightarrow> task) \<Rightarrow> nat db_prog" where
  "update_task p f = exec_count (\<lambda>d. length (filter p (tasks d))) (\<lambda>d. d\<lparr>tasks := upd_where p (f (clock d)) (tasks d)\<rparr>)"

definition ClaimTask :: "string \<Rightarrow> bool db_prog" where
  "ClaimTask i = bindp (update_task (\<lambda>t. task_id t = i \<and> task_status t = ''queued'')
      (\<lambda>now t. t\<lparr>task_status := ''running'', task_updated_at := now\<rparr>)) (\<lambda>n. ret (n > 0))"

definition UpdateTaskProgress :: "string \<Rightarrow> task_payload \<Rightarrow> string \<Rightarrow> unit db_prog" where
  "UpdateTaskProgress i payload errorMessage = bindp (update_task (\<lambda>t. task_id t = i)
      (\<lambda>now t. t\<lparr>task_payload_of := payload, task_error_message := errorMessage, task_updated_at := now\<rparr>)) (\<lambda>n.
    if n = 0 then fail ErrNotFound else ret ())"

definition FinishTask :: "string \<Rightarrow> string \<Rightarrow> task_payload \<Rightarrow> string \<Rightarrow> unit db_prog" where
  "FinishTask i status payload errorMessage = bindp (update_task (\<lambda>t. task_id t = i)
      (\<lambda>now t. t\<lparr>task_status := status, task_payload_of := payload, task_error_message := errorMessage,
         task_finished_at := Some now, task_updated_at := now\<rparr>)) (\<lambda>n.
    if n = 0 then fail ErrNotFound else ret ())"

definition ListQueuedTasksByType :: "string \<Rightarrow> task list db_prog" where
  "ListQueuedTasksByType taskType = query (\<lambda>d. sort_key task_created_at
     (filter (\<lambda>t. task_type t = taskType \<and> task_status t = ''queued'') (tasks d)))"

definition FailRunningTasksByType :: "string \<Rightarrow> string \<Rightarrow> unit db_prog" where
  "FailRunningTasksByType taskType message = exec (\<lambda>d. d\<lparr>tasks := upd_where
     (\<lambda>t. task_type t = taskType \<and> task_status t = ''running'')
     (\<lambda>t. t\<lparr>task_status := ''failed'', task_error_message := message, task_finished_at := Some (clock d),
        task_updated_at := clock d\<rparr>) (tasks d)\<rparr>)"

end
