(* ===== verification/Agent_Errors.thy ===== *)
theory Agent_Errors
  imports Alert_Service
begin

text \<open>
  The messages for the errors of an agent: \<open>UserFacingErrorMessage\<close> and what it uses in
  \<open>backend/pkg/agent/client.go\<close>. An error is its text and what \<open>errors.As\<close> and \<open>errors.Is\<close> find in it.
\<close>

datatype error_kind =
    HTTPStatusError int string string
  | CanceledError
  | DeadlineError
  | TimeoutError
  | UnknownAuthorityError
  | PlainError

record agent_error =
  ae_kind :: error_kind
  ae_text :: string

text \<open>The error of an answer with a status other than success.\<close>

definition http_error :: "int \<Rightarrow> string \<Rightarrow> string \<Rightarrow> agent_error" where
  "http_error code status message =
     \<lparr>ae_kind = HTTPStatusError code status message, ae_text = ''agent returned '' @ status\<rparr>"

section \<open>Texts cut out of a message\<close>

text \<open>\<open>strings.LastIndex\<close>.\<close>

fun LastIndex :: "string \<Rightarrow> string \<Rightarrow> nat option" where
  "LastIndex [] sub = (if sub = [] then Some 0 else None)"
| "LastIndex (c # s) sub = (case LastIndex s sub of
     Some i \<Rightarrow> Some (Suc i)
   | None \<Rightarrow> if HasPrefix (c # s) sub then Some 0 else None)"

text \<open>The text after a marker found at \<open>start\<close>, up to where \<open>stop\<close> finds its end.\<close>

definition text_between :: "nat option \<Rightarrow> nat \<Rightarrow> string \<Rightarrow> (string \<Rightarrow> nat option) \<Rightarrow> string" where
  "text_between start marker_length detail stop = (case start of
     None \<Rightarrow> []
   | Some i \<Rightarrow> let rest = drop (i + marker_length) detail in
       (case stop rest of None \<Rightarrow> [] | Some j \<Rightarrow> take j rest))"

definition missingQemuImgPath :: "string \<Rightarrow> string" where
  "missingQemuImgPath detail = (let marker = ''Could not open '' @ [CHR 0x27] in
     text_between (LastIndex detail marker) (length marker) detail (\<lambda>rest. Index rest [CHR 0x27]))"

definition missingLibvirtStoragePath :: "string \<Rightarrow> string" where
  "missingLibvirtStoragePath detail = (let marker = ''Cannot access storage file '' @ [CHR 0x27] in
     text_between (LastIndex (ToLower detail) (ToLower marker)) (length marker) detail (\<lambda>rest. Index rest [CHR 0x27]))"

definition migrationTargetDiskPath :: "string \<Rightarrow> string" where
  "migrationTargetDiskPath detail = (let marker = ''target storage pool path for disk '' in
     TrimSpace (text_between (Index (ToLower detail) marker) (length marker) detail
       (\<lambda>rest. Index (ToLower rest) '' is unavailable'')))"

definition snapshotRevertMissingDiskMessage :: "string \<Rightarrow> string" where
  "snapshotRevertMissingDiskMessage detail = (let path = missingQemuImgPath detail in
     if path = [] then zh ''e5bfabe785a7e681a2e5a48de5a4b1e8b4a5efbc9ae7bcbae5b091e7a381e79b98e69687e4bbb6efbc8ce8afb7e689bee59b9ee69687e4bbb6e68896e588a0e999a4e5a4b1e69588e5bfabe785a7''
     else zh ''e5bfabe785a7e681a2e5a48de5a4b1e8b4a5efbc9ae7bcbae5b091e7a381e79b98e69687e4bbb620'' @ path @ zh ''efbc8ce8afb7e689bee59b9ee69687e4bbb6e68896e588a0e999a4e5a4b1e69588e5bfabe785a7'')"

definition migrationStorageAccessMessage :: "string \<Rightarrow> string" where
  "migrationStorageAccessMessage detail = (let path = missingLibvirtStoragePath detail in
     if path = [] then zh ''e79baee6a087e5aebfe4b8bbe69cbae697a0e6b395e8aebfe997aee6ba90e7a381e79b98e8b7afe5be84efbc8ce8afb7e7a1aee8aea4e79baee6a087e5aebfe4b8bbe69cbae5ad98e59ca8e8afa5e8b7afe5be84e68980e59ca8e79baee5bd95e68896e5ad98e582a8e6b1a0e5908ee9878de8af95''
     else zh ''e79baee6a087e5aebfe4b8bbe69cbae697a0e6b395e8aebfe997aee6ba90e7a381e79b98e8b7afe5be8420'' @ path @ zh ''efbc8ce8afb7e7a1aee8aea4e79baee6a087e5aebfe4b8bbe69cbae5ad98e59ca8e8afa5e8b7afe5be84e68980e59ca8e79baee5bd95e68896e5ad98e582a8e6b1a0e5908ee9878de8af95'')"

text \<open>Both ends of the loop over the fields answer the same text.\<close>

definition targetStoragePoolUnavailableMessage :: "string \<Rightarrow> string" where
  "targetStoragePoolUnavailableMessage detail = (let path = migrationTargetDiskPath detail in
     if path = [] then zh ''e79baee6a087e5aebfe4b8bbe69cbae5ad98e582a8e6b1a0e4b88de6bba1e8b6b3e6ba90e7a381e79b98e8b7afe5be84e8a681e6b182efbc8ce697a0e6b395e689a7e8a18ce8bf81e7a7bbe5a48de588b6e7a381e79b98''
     else zh ''e79baee6a087e5aebfe4b8bbe69cbae6b2a1e69c89e6ba90e7a381e79b98e8b7afe5be8420'' @ path @ zh ''20e68980e59ca8e79a84e5ad98e582a8e6b1a0efbc8ce697a0e6b395e689a7e8a18ce8bf81e7a7bbe5a48de588b6e7a381e79b98'')"

text \<open>
  The pattern \<open>(?i)cannot delete inactive domain with ([0-9]+) snapshots?\<close>: the digits of the first place
  where it matches.
\<close>

definition digits_at :: "string \<Rightarrow> string option" where
  "digits_at rest = (let ds = takeWhile is_digit rest in
     if ds \<noteq> [] \<and> HasPrefix (ToLower (drop (length ds) rest)) '' snapshot'' then Some ds else None)"

fun inactive_snapshot_count :: "string \<Rightarrow> string option" where
  "inactive_snapshot_count [] = None"
| "inactive_snapshot_count (c # s) =
    (let marker = ''cannot delete inactive domain with '' in
     if HasPrefix (ToLower (c # s)) marker \<and> digits_at (drop (length marker) (c # s)) \<noteq> None
     then digits_at (drop (length marker) (c # s))
     else inactive_snapshot_count s)"

definition vmDeleteHasSnapshotsMessage :: "string \<Rightarrow> string" where
  "vmDeleteHasSnapshotsMessage detail = (case inactive_snapshot_count detail of
     Some n \<Rightarrow> zh ''e588a0e999a4e8999ae68b9fe69cbae5a4b1e8b4a5efbc9ae4bb8de5ad98e59ca820'' @ n @ zh ''20e4b8aae5bfabe785a7efbc8ce8afb7e58588e588a0e999a4e5bfabe785a7e5908ee9878de8af95''
   | None \<Rightarrow> zh ''e588a0e999a4e8999ae68b9fe69cbae5a4b1e8b4a5efbc9ae4bb8de5ad98e59ca8e5bfabe785a7efbc8ce8afb7e58588e588a0e999a4e5bfabe785a7e5908ee9878de8af95'')"

section \<open>What kind of failure a message reports\<close>

definition isMigrationStorageAccessError :: "string \<Rightarrow> bool" where
  "isMigrationStorageAccessError low \<longleftrightarrow> Contains low '' migrate '' \<or> Contains low ''qemu+ssh://''"

definition isGuestMemoryAllocationError :: "string \<Rightarrow> bool" where
  "isGuestMemoryAllocationError low \<longleftrightarrow> Contains low ''cannot allocate memory'' \<and>
     (Contains low ''cannot set up guest memory'' \<or> Contains low ''pc.ram'' \<or>
      Contains low ''qemu unexpectedly closed the monitor'')"

definition isDomainAlreadyRunningError :: "string \<Rightarrow> bool" where
  "isDomainAlreadyRunningError low \<longleftrightarrow> Contains low ''domain is already running'' \<or> Contains low ''domain is already active'' \<or>
     Contains low ''domain already active'' \<or> Contains low ''domain already exists as active''"

definition isDomainNotRunningError :: "string \<Rightarrow> bool" where
  "isDomainNotRunningError low \<longleftrightarrow> Contains low ''domain is not running'' \<or> Contains low ''domain is not active'' \<or>
     Contains low ''domain not active''"

definition isVirshAction :: "string \<Rightarrow> string \<Rightarrow> bool" where
  "isVirshAction low action \<longleftrightarrow> Contains low ('' '' @ action @ '' '') \<or> Contains low ('' '' @ action @ '':'') \<or>
     Contains low (''failed to '' @ action @ '' domain'')"

definition not_running_message :: "string \<Rightarrow> string" where
  "not_running_message low =
    (if isVirshAction low ''shutdown'' \<or> isVirshAction low ''destroy'' then zh ''e8999ae68b9fe69cbae5bd93e5898de5b7b2e585b3e69cba''
     else if isVirshAction low ''suspend'' then zh ''e8999ae68b9fe69cbae5bd93e5898de69caae8bf90e8a18cefbc8ce697a0e6b395e69a82e5819c''
     else if isVirshAction low ''reboot'' \<or> isVirshAction low ''reset'' then zh ''e8999ae68b9fe69cbae5bd93e5898de69caae8bf90e8a18cefbc8ce697a0e6b395e9878de590af''
     else zh ''e8999ae68b9fe69cbae5bd93e5898de69caae8bf90e8a18cefbc8ce697a0e6b395e689a7e8a18ce8afa5e6938de4bd9c'')"

definition normalizeAgentUserFacingMessage :: "string \<Rightarrow> string" where
  "normalizeAgentUserFacingMessage message =
    (let detail = Join (GoStrings.Fields (TrimSpace message)) '' ''; low = ToLower detail in
     if Contains low ''snapshot-revert'' \<and> Contains low ''no such file or directory''
     then snapshotRevertMissingDiskMessage detail
     else if isGuestMemoryAllocationError low
     then zh ''e79baee6a087e5aebfe4b8bbe69cbae58fafe794a8e58685e5ad98e4b88de8b6b3efbc8ce697a0e6b395e4b8bae8bf81e7a7bbe8999ae68b9fe69cbae58886e9858de58685e5ad98efbc8ce8afb7e9878ae694bee79baee6a087e5aebfe4b8bbe69cbae58685e5ad98e68896e9998de4bd8ee8999ae68b9fe69cbae58685e5ad98e5908ee9878de8af95''
     else if Contains low ''cannot access storage file'' \<and> Contains low ''no such file or directory'' \<and> isMigrationStorageAccessError low
     then migrationStorageAccessMessage detail
     else if Contains low ''disk image has internal snapshots and cannot be resized'' \<or> Contains low ''image has snapshots'' \<or>
          Contains low ''does not support resize''
     then zh ''e7a381e79b98e9959ce5838fe58c85e590abe58685e983a8e5bfabe785a7efbc8ce697a0e6b395e79bb4e68ea5e689a9e5aeb9e38082e8afb7e58588e588a0e999a4e8afa5e8999ae68b9fe69cbae79a84e58685e983a8e5bfabe785a7efbc8ce68896e9878de696b0e5889be5bbbae697a0e58685e983a8e5bfabe785a7e79a84e7a381e79b98e5908ee5868de689a9e5aeb9''
     else if Contains low ''domain is already paused''
     then zh ''e8999ae68b9fe69cbae5bd93e5898de5b7b2e69a82e5819c''
     else if isDomainAlreadyRunningError low
     then zh ''e8999ae68b9fe69cbae5bd93e5898de5b7b2e8bf90e8a18c''
     else if isDomainNotRunningError low
     then not_running_message low
     else if Contains low ''domain is not paused''
     then zh ''e8999ae68b9fe69cbae5bd93e5898de69caae69a82e5819cefbc8ce697a0e6b395e681a2e5a48d''
     else if Contains low ''domain is paused''
     then zh ''e8999ae68b9fe69cbae5bd93e5898de5b7b2e69a82e5819cefbc8ce8afb7e58588e681a2e5a48de5908ee5868de689a7e8a18ce8afa5e6938de4bd9c''
     else if Contains low ''cannot delete inactive domain with'' \<and> Contains low ''snapshot''
     then vmDeleteHasSnapshotsMessage detail
     else if Contains low ''must be stopped before delete''
     then zh ''e8afb7e58588e585b3e997ade8999ae68b9fe69cbae5908ee5868de588a0e999a4''
     else if Contains low ''target storage pool'' \<and> Contains low ''is unavailable''
     then targetStoragePoolUnavailableMessage detail
     else if Contains low ''target storage pools are unavailable''
     then zh ''e79baee6a087e5aebfe4b8bbe69cbae5ad98e582a8e6b1a0e4b88de58fafe794a8efbc8ce8afb7e7a1aee8aea4e79baee6a087e5aebfe4b8bbe69cbae5ad98e59ca8e58fafe794a8e5ad98e582a8e6b1a0''
     else if Contains low ''target disk already exists''
     then zh ''e79baee6a087e5aebfe4b8bbe69cbae5b7b2e5ad98e59ca8e5908ce5908de7a381e79b98e69687e4bbb6efbc8ce8afb7e58588e588a0e999a4e79baee6a087e7a381e79b98e68896e69bb4e68da2e6ba90e8999ae68b9fe69cbae7a381e79b98e5908de7a7b0e5908ee5868de8bf81e7a7bb''
     else if Contains low ''migration disk storage pool is unavailable''
     then zh ''e6ba90e8999ae68b9fe69cbae7a381e79b98e697a0e6b395e8af86e588abe68980e5b19ee5ad98e582a8e6b1a0efbc8ce697a0e6b395e689a7e8a18ce586b7e8bf81e7a7bbe5a48de588b6e7a381e79b98''
     else if Contains low ''migration disk path is unavailable''
     then zh ''e6ba90e8999ae68b9fe69cbae7a381e79b98e8b7afe5be84e4b88de58fafe794a8efbc8ce697a0e6b395e689a7e8a18ce586b7e8bf81e7a7bbe5a48de588b6e7a381e79b98''
     else if Contains low ''hostname on destination resolved to localhost'' \<and> Contains low ''migration requires an fqdn''
     then zh ''e79baee6a087e5aebfe4b8bbe69cbae4b8bbe69cbae5908de8a7a3e69e90e4b8ba206c6f63616c686f7374efbc8ce783ade8bf81e7a7bbe99c80e8a681e79baee6a087e4b8bbe69cbae5908de8a7a3e69e90e588b0e79c9fe5ae9ee7bd91e7bb9ce59cb0e59d80efbc8ce8afb7e6a380e69fa5e79baee6a087e5aebfe4b8bbe69cba20686f73746e616d6520e5928c202f6574632f686f737473''
     else if Contains low ''vm xml name mismatch''
     then zh ''584d4c20e4b8ade79a84e8999ae68b9fe69cbae5908de7a7b0e5bf85e9a1bbe4b88ee5bd93e5898de8999ae68b9fe69cbae5908de7a7b0e4b880e887b4efbc8ce5a682e99c80e694b9e5908de8afb7e59ca8e59fbae69cace4bfa1e681afe4b8ade4bfaee694b9''
     else if Contains low ''maximum cpu exceeds host cpu''
     then zh ''e69c80e5a4a72043505520e4b88de883bde8b685e8bf87e5aebfe4b8bbe69cbae980bbe8be9120435055''
     else if Contains low ''maximum memory exceeds host memory''
     then zh ''e69c80e5a4a7e58685e5ad98e4b88de883bde8b685e8bf87e5aebfe4b8bbe69cbae680bbe58685e5ad98''
     else detail)"

section \<open>The message of an error\<close>

definition timeout_message :: string where
  "timeout_message = zh ''4167656e7420e8bf9ee68ea5e8b685e697b6efbc8ce8afb7e7a1aee8aea4e59cb0e59d80e38081e7abafe58fa3e5928ce7bd91e7bb9ce58fafe8bebe''"

definition connection_message :: "string \<Rightarrow> string" where
  "connection_message text = (let low = ToLower text in
     if Contains low ''connection refused'' then zh ''4167656e7420e8bf9ee68ea5e8a2abe68b92e7bb9defbc8ce8afb7e7a1aee8aea4204167656e7420e69c8de58aa1e5b7b2e590afe58aa8efbc8ce4b894e7abafe58fa3e5bc80e694be''
     else if Contains low ''no such host'' then zh ''4167656e7420e59cb0e59d80e697a0e6b395e8a7a3e69e90efbc8ce8afb7e6a380e69fa5e59f9fe5908de68896e4b8bbe69cbae5908de698afe590a6e6ada3e7a1ae''
     else if Contains low ''server gave http response to https client'' then zh ''4167656e7420e58d8fe8aeaee4b88de58cb9e9858defbc8ce5bd93e5898de4bdbfe794a820485454505320e8aebfe997aee4ba86204854545020e69c8de58aa1''
     else zh ''4167656e7420e8bf9ee68ea5e5a4b1e8b4a5'')"

definition UserFacingErrorMessage :: "agent_error \<Rightarrow> string" where
  "UserFacingErrorMessage err =
    (if HasPrefix (ae_text err) ''Agent '' then ae_text err
     else case ae_kind err of
       HTTPStatusError code status message \<Rightarrow>
         if code = 401 then zh ''4167656e7420e8aea4e8af81e5a4b1e8b4a5efbc8ce4bba4e7898ce4b88de6ada3e7a1aee68896e5b7b2e5a4b1e69588''
         else if code = 403 then zh ''4167656e7420e68b92e7bb9de8aebfe997aeefbc8ce5bd93e5898de4bba4e7898ce6b2a1e69c89e69d83e99990''
         else if code = 404 then zh ''4167656e7420e68ea5e58fa3e4b88de5ad98e59ca8efbc8ce8afb7e7a1aee8aea4204167656e7420e59cb0e59d80e698afe590a6e5a1abe58699e588b0e69c8de58aa1e6a0b9e8b7afe5be84''
         else if TrimSpace message \<noteq> [] then normalizeAgentUserFacingMessage message
         else zh ''4167656e7420e8bf94e59b9ee5bc82e5b8b8e78ab6e68081efbc9a'' @ status
     | CanceledError \<Rightarrow> zh ''4167656e7420e8afb7e6b182e5b7b2e58f96e6b688''
     | DeadlineError \<Rightarrow> timeout_message
     | TimeoutError \<Rightarrow> timeout_message
     | UnknownAuthorityError \<Rightarrow> zh ''4167656e7420544c5320e8af81e4b9a6e4b88de58f97e4bfa1e4bbbbefbc8ce5a682e4bdbfe794a8e887aae7adbee5908de8af81e4b9a6efbc8ce58fafe4b8b4e697b6e590afe794a8e8b7b3e8bf8720544c5320e6a0a1e9aa8c''
     | PlainError \<Rightarrow> connection_message (ae_text err))"

end
