(* ===== verification/Refresh.thy ===== *)
theory Refresh
  imports Task_Store Alert_Router Runtime_Store Agent_Errors
begin

text \<open>
  The refresh tasks: \<open>backend/internal/service/realtime/refresh_worker.go\<close>, \<open>scheduler.go\<close>, and
  \<open>handleRefresh\<close> of \<open>api/router/events.go\<close>. The synchronisation of the agents is the argument \<open>sync\<close>; the
  events for the browsers are left out.
\<close>

section \<open>Errors\<close>

datatype service_error =
    RepoError store_error
  | RuntimeError runtime_error
  | AgentError agent_error
  | Canceled
  | DeadlineExceeded
  | MessageError string

type_synonym ('r, 'a) service_prog = "('r rt, service_error, 'a) prog"

text \<open>A call of the repository, and one of the programs of the alerts, whose errors are those of the repository.\<close>

definition lift_error :: "('e \<Rightarrow> 'f) \<Rightarrow> ('s, 'e, 'a) prog \<Rightarrow> ('s, 'f, 'a) prog" where
  "lift_error f m s = (case m s of (Inl e, s') \<Rightarrow> (Inl (f e), s') | (Inr x, s') \<Rightarrow> (Inr x, s'))"

definition on_store :: "'a db_prog \<Rightarrow> ('r, 'a) service_prog" where
  "on_store m = lift_error RepoError (on_db m)"

text \<open>\<open>time.Now()\<close>.\<close>

definition time_now :: "('r, int) service_prog" where
  "time_now s = (Inr (clock (rt_db s)), s)"

datatype SyncMode = SyncFast | SyncFull | SyncVMs

record syncAgentResult =
  sr_ID :: string
  sr_Name :: string
  sr_Error :: string

definition RefreshAllTaskType :: string where "RefreshAllTaskType = ''runtime.refresh.all''"
definition RefreshFastTaskType :: string where "RefreshFastTaskType = ''runtime.refresh.fast''"

definition empty_progress :: refresh_progress where
  "empty_progress = \<lparr>TotalAgents = 0, SyncedAgents = 0, FailedAgents = 0, CurrentAgent = [], Message = [],
     StartedAt = None, FinishedAt = None, AgentResults = []\<rparr>"

definition NewQueuedRefreshProgress :: refresh_progress where
  "NewQueuedRefreshProgress = empty_progress\<lparr>Message := zh ''e588b7e696b0e4bbbbe58aa1e5b7b2e68e92e9989f''\<rparr>"

section \<open>The queue\<close>

definition queue_capacity :: nat where "queue_capacity = 32"

text \<open>
  The \<open>select\<close> of \<open>EnqueueRefreshTask\<close>: \<open>stop\<close> is the error of a cancelled context whose branch the \<open>select\<close>
  takes; without it the identifier is sent when the channel has room, and the default branch is left.
\<close>

definition EnqueueRefreshTask :: "service_error option \<Rightarrow> task \<Rightarrow> ('r, unit) service_prog" where
  "EnqueueRefreshTask stop t s = (case stop of
     Some e \<Rightarrow> (Inl e, s)
   | None \<Rightarrow>
       if length (refreshQueue s) < queue_capacity then (Inr (), s\<lparr>refreshQueue := refreshQueue s @ [task_id t]\<rparr>)
       else (Inl (MessageError (zh ''e588b7e696b0e9989fe58897e5b7b2e6bba1'')), s))"

definition requeueRefreshTasks :: "service_error option \<Rightarrow> string \<Rightarrow> ('r, unit) service_prog" where
  "requeueRefreshTasks stop taskType =
    bindp (attempt (on_store (ListQueuedTasksByType taskType))) (\<lambda>r.
    case r of
      Inl _ \<Rightarrow> ret ()
    | Inr ts \<Rightarrow> for_each (\<lambda>t. ignore (EnqueueRefreshTask stop t)) ts)"

text \<open>The start of the worker: what a restart left running has failed, what is queued is queued again.\<close>

definition StartRefreshWorker :: "service_error option \<Rightarrow> ('r, unit) service_prog" where
  "StartRefreshWorker stop =
    bindp (for_each (\<lambda>taskType. ignore (on_store (FailRunningTasksByType taskType
      (zh ''e5908ee7abafe9878de590afefbc8ce588b7e696b0e4bbbbe58aa1e69caae5ae8ce68890'')) :: ('r, unit) service_prog))
      [RefreshAllTaskType, RefreshFastTaskType]) (\<lambda>_.
    bindp (requeueRefreshTasks stop RefreshAllTaskType) (\<lambda>_.
    requeueRefreshTasks stop RefreshFastTaskType))"

section \<open>One refresh task\<close>

definition refreshTaskErrorMessage :: "(service_error \<Rightarrow> string) \<Rightarrow> service_error option \<Rightarrow> string" where
  "refreshTaskErrorMessage text err = (case err of
     None \<Rightarrow> []
   | Some Canceled \<Rightarrow> zh ''e588b7e696b0e4bbbbe58aa1e5b7b2e58f96e6b688''
   | Some DeadlineExceeded \<Rightarrow> zh ''e588b7e696b0e4bbbbe58aa1e8b685e697b6''
   | Some (MessageError m) \<Rightarrow> m
   | Some e \<Rightarrow> text e)"

definition refreshProgressMessage :: "refresh_progress \<Rightarrow> string" where
  "refreshProgressMessage p =
    (if TotalAgents p = 0 then zh ''e69a82e697a0e58fafe5908ce6ada5e79a84204167656e74''
     else zh ''e588b7e696b0e5b7b2e5ae8ce6889020'' @ Itoa (SyncedAgents p) @ ''/'' @ Itoa (TotalAgents p)
       @ zh ''efbc8ce5bc82e5b8b820'' @ Itoa (FailedAgents p))"

definition joinRefreshErrors :: "refresh_agent_result list \<Rightarrow> string" where
  "joinRefreshErrors results = Join (map (\<lambda>r. rr_name r @ '': '' @ rr_error r)
     (filter (\<lambda>r. rr_error r \<noteq> []) results)) ''; ''"

definition save_progress :: "string \<Rightarrow> refresh_progress \<Rightarrow> ('r, unit) service_prog" where
  "save_progress taskID p = ignore (on_store (UpdateTaskProgress taskID (Progress p) []))"

text \<open>What the result of one agent adds to the progress.\<close>

definition count_result :: "syncAgentResult \<Rightarrow> refresh_progress \<Rightarrow> refresh_progress" where
  "count_result r p =
    (let q = (if sr_Error r \<noteq> []
       then p\<lparr>FailedAgents := FailedAgents p + 1, AgentResults := AgentResults p @
          [\<lparr>rr_id = sr_ID r, rr_name = sr_Name r, rr_status = ''failed'', rr_error = sr_Error r\<rparr>]\<rparr>
       else p\<lparr>SyncedAgents := SyncedAgents p + 1, AgentResults := AgentResults p @
          [\<lparr>rr_id = sr_ID r, rr_name = sr_Name r, rr_status = ''completed'', rr_error = []\<rparr>]\<rparr>) in
     q\<lparr>Message := refreshProgressMessage q\<rparr>)"

text \<open>
  The loop over the results. \<open>cancelled n\<close> is the error of the parent context, when it is stop at the check
  before the \<open>n\<close>-th result from the end. \<open>None\<close>: the task was stopped.
\<close>

fun count_results ::
  "(service_error \<Rightarrow> string) \<Rightarrow> (nat \<Rightarrow> service_error option) \<Rightarrow> string \<Rightarrow> syncAgentResult list \<Rightarrow> refresh_progress \<Rightarrow>
   ('r, refresh_progress option) service_prog" where
  "count_results text cancelled taskID [] p = ret (Some p)"
| "count_results text cancelled taskID (r # rs) p =
    (case cancelled (length rs) of
       Some e \<Rightarrow>
         bindp time_now (\<lambda>t.
         bindp (ignore (on_store (FinishTask taskID ''failed''
           (Progress (p\<lparr>Message := zh ''e588b7e696b0e4bbbbe58aa1e5b7b2e5819ce6ada2'', FinishedAt := Some t\<rparr>))
           (refreshTaskErrorMessage text (Some e))))) (\<lambda>_. ret None))
     | None \<Rightarrow>
         let p1 = p\<lparr>CurrentAgent := sr_Name r, Message := zh ''e5b7b2e5908ce6ada5204167656e7420'' @ sr_Name r\<rparr> in
         bindp (save_progress taskID p1) (\<lambda>_.
         bindp (save_progress taskID (count_result r p1)) (\<lambda>_.
         count_results text cancelled taskID rs (count_result r p1))))"

definition final_status :: "refresh_progress \<Rightarrow> string \<times> string" where
  "final_status p =
    (if TotalAgents p > 0 \<and> SyncedAgents p = 0 \<and> FailedAgents p > 0
     then (''failed'', joinRefreshErrors (AgentResults p)) else (''completed'', []))"

definition runRefreshTask ::
  "(service_error \<Rightarrow> string) \<Rightarrow> (nat \<Rightarrow> service_error option) \<Rightarrow>
   (agent list \<Rightarrow> SyncMode \<Rightarrow> ('r, syncAgentResult list) service_prog) \<Rightarrow> string \<Rightarrow> ('r, unit) service_prog" where
  "runRefreshTask text cancelled sync taskID =
    bindp (attempt (on_store (ClaimTask taskID))) (\<lambda>claimed.
    if claimed \<noteq> Inr True then ret ()
    else
      bindp (attempt (on_store (GetTask taskID))) (\<lambda>found.
      case found of
        Inl _ \<Rightarrow> ret ()
      | Inr t \<Rightarrow>
          let mode = (if task_type t = RefreshFastTaskType then SyncFast else SyncFull) in
          bindp (attempt (on_store ListAgents)) (\<lambda>listed.
          bindp time_now (\<lambda>started.
          let p0 = empty_progress\<lparr>StartedAt := Some started\<rparr> in
          case listed of
            Inl e \<Rightarrow> ignore (on_store (FinishTask taskID ''failed''
              (Progress (p0\<lparr>Message := zh ''e8afbbe58f96204167656e7420e58897e8a1a8e5a4b1e8b4a5''\<rparr>))
              (refreshTaskErrorMessage text (Some e))))
          | Inr items \<Rightarrow>
              let p1 = p0\<lparr>TotalAgents := int (length items), Message := zh ''e588b7e696b0e4bbbbe58aa1e8bf90e8a18ce4b8ad''\<rparr> in
              bindp (save_progress taskID p1) (\<lambda>_.
              bindp (sync items mode) (\<lambda>results.
              bindp (count_results text cancelled taskID results p1) (\<lambda>counted.
              case counted of
                None \<Rightarrow> ret ()
              | Some p2 \<Rightarrow>
                  bindp time_now (\<lambda>finished.
                  let p3 = p2\<lparr>CurrentAgent := [], FinishedAt := Some finished, Message := refreshProgressMessage p2\<rparr> in
                  ignore (on_store (FinishTask taskID (fst (final_status p3)) (Progress p3) (snd (final_status p3))))))))))))"

text \<open>One turn of \<open>runRefreshWorker\<close>: the next identifier of the channel.\<close>

definition refresh_turn ::
  "(service_error \<Rightarrow> string) \<Rightarrow> (nat \<Rightarrow> service_error option) \<Rightarrow>
   (agent list \<Rightarrow> SyncMode \<Rightarrow> ('r, syncAgentResult list) service_prog) \<Rightarrow> ('r, unit) service_prog" where
  "refresh_turn text cancelled sync s = (case refreshQueue s of
     [] \<Rightarrow> (Inr (), s)
   | i # is \<Rightarrow> runRefreshTask text cancelled sync i (s\<lparr>refreshQueue := is\<rparr>))"

section \<open>The scheduler\<close>

definition hasRegisteredAgents :: "('r, bool) service_prog" where
  "hasRegisteredAgents = bindp (on_store ListAgents) (\<lambda>items. ret (items \<noteq> []))"

text \<open>\<open>enqueueScheduledRefresh\<close> and \<open>enqueueScheduledDeepRefresh\<close> differ in the type of the task.\<close>

definition enqueue_scheduled :: "(service_error \<Rightarrow> string) \<Rightarrow> service_error option \<Rightarrow> string \<Rightarrow> ('r, unit) service_prog" where
  "enqueue_scheduled text stop taskType =
    bindp (attempt (on_store (FindActiveTaskByType RefreshAllTaskType))) (\<lambda>full.
    case full of
      Inr _ \<Rightarrow> ret ()
    | Inl e \<Rightarrow>
        if e \<noteq> RepoError ErrNotFound then fail e
        else
          bindp (attempt (on_store (FindActiveTaskByType RefreshFastTaskType))) (\<lambda>fast.
          case fast of
            Inr _ \<Rightarrow> ret ()
          | Inl e \<Rightarrow>
              if e \<noteq> RepoError ErrNotFound then fail e
              else
                bindp hasRegisteredAgents (\<lambda>hasAgents.
                if \<not> hasAgents then ret ()
                else
                  bindp (on_store (CreateTask taskType ''queued'' ''runtime'' [] (Progress NewQueuedRefreshProgress) [] [])) (\<lambda>t.
                  bindp (attempt (EnqueueRefreshTask stop t)) (\<lambda>queued.
                  case queued of
                    Inr _ \<Rightarrow> ret ()
                  | Inl e \<Rightarrow>
                      bindp (ignore (on_store (FinishTask (task_id t) ''failed'' (Progress NewQueuedRefreshProgress)
                        (refreshTaskErrorMessage text (Some e))))) (\<lambda>_. fail e))))))"

definition enqueueScheduledRefresh :: "(service_error \<Rightarrow> string) \<Rightarrow> service_error option \<Rightarrow> ('r, unit) service_prog" where
  "enqueueScheduledRefresh text stop = enqueue_scheduled text stop RefreshFastTaskType"

definition enqueueScheduledDeepRefresh :: "(service_error \<Rightarrow> string) \<Rightarrow> service_error option \<Rightarrow> ('r, unit) service_prog" where
  "enqueueScheduledDeepRefresh text stop = enqueue_scheduled text stop RefreshAllTaskType"

section \<open>The endpoint\<close>

definition handleRefresh :: "service_error option \<Rightarrow> user \<Rightarrow> string \<Rightarrow> ('r, response) service_prog" where
  "handleRefresh stop u ip = guarded u ''agents.manage'' (
    bindp (attempt (on_store (FindActiveTaskByType RefreshAllTaskType))) (\<lambda>active.
    case active of
      Inr t \<Rightarrow> ret (202, BTask t)
    | Inl e \<Rightarrow>
        if e \<noteq> RepoError ErrNotFound then ret (writeError 500 ''find_refresh_task_failed'')
        else
          bindp (attempt (on_store (CreateTask RefreshAllTaskType ''queued'' ''runtime'' []
            (Progress NewQueuedRefreshProgress) (ID u) []))) (\<lambda>created.
          case created of
            Inl _ \<Rightarrow> ret (writeError 500 ''create_refresh_task_failed'')
          | Inr t \<Rightarrow>
              bindp (attempt (EnqueueRefreshTask stop t)) (\<lambda>queued.
              case queued of
                Inl _ \<Rightarrow>
                  bindp (ignore (on_store (FinishTask (task_id t) ''failed'' (Progress NewQueuedRefreshProgress)
                    (zh ''e588b7e696b0e9989fe58897e7b981e5bf99efbc8ce8afb7e7a88de5908ee9878de8af95'')))) (\<lambda>_.
                  ret (writeError 503 ''enqueue_refresh_task_failed''))
              | Inr _ \<Rightarrow>
                  bindp (ignore (on_store (WriteAudit (ID u) ''runtime.refresh'' ''runtime'' (task_id t) ip
                    [''task'' \<mapsto> JStr (task_id t)]))) (\<lambda>_.
                  ret (202, BQueued t))))))"

end
