(* ===== verification/Refresh_Properties.thy ===== *)
theory Refresh_Properties
  imports Refresh Alert_Properties "HOL-Library.Multiset"
begin

text \<open>
  What the refresh tasks promise: a task that runs ends with counts that add up, is claimed once, and the
  scheduler never adds one beside another; and how a task is lost between its claim and its first read.
\<close>

section \<open>Statements on tasks\<close>

definition put_tasks :: "task list \<Rightarrow> 'r rt \<Rightarrow> 'r rt" where
  "put_tasks ts s = s\<lparr>rt_db := (rt_db s)\<lparr>tasks := ts\<rparr>\<rparr>"

lemma put_tasks_simps [simp]:
  "tasks (rt_db (put_tasks ts s)) = ts" "faults (rt_db (put_tasks ts s)) = faults (rt_db s)"
  "clock (rt_db (put_tasks ts s)) = clock (rt_db s)" "agents (rt_db (put_tasks ts s)) = agents (rt_db s)"
  "refreshQueue (put_tasks ts s) = refreshQueue s" "put_tasks ts (put_tasks us s) = put_tasks ts s"
  "put_tasks (tasks (rt_db s)) s = s"
  by (simp_all add: put_tasks_def)

definition quiet :: "'r rt \<Rightarrow> bool" where
  "quiet s \<longleftrightarrow> faults (rt_db s) = []"

lemma quiet_put [simp]: "quiet (put_tasks ts s) = quiet s"
  by (simp add: quiet_def)

definition has_task :: "string \<Rightarrow> 'r rt \<Rightarrow> bool" where
  "has_task i s \<longleftrightarrow> i \<in> task_id ` set (tasks (rt_db s))"

lemma count_pos: "(0 < length (filter p xs)) = list_ex p xs"
  by (induction xs) auto

lemma count_zero: "(length (filter p xs) = 0) = (\<not> list_ex p xs)"
  by (induction xs) auto

lemma has_task_ex: "has_task i s \<longleftrightarrow> list_ex (\<lambda>t. task_id t = i) (tasks (rt_db s))"
  by (auto simp: has_task_def list_ex_iff)

lemma ClaimTask_run: "quiet s \<Longrightarrow> on_store (ClaimTask i) s =
  (Inr (list_ex (\<lambda>t. task_id t = i \<and> task_status t = ''queued'') (tasks (rt_db s))),
   put_tasks (upd_where (\<lambda>t. task_id t = i \<and> task_status t = ''queued'')
     (\<lambda>t. t\<lparr>task_status := ''running'', task_updated_at := clock (rt_db s)\<rparr>) (tasks (rt_db s))) s)"
  by (simp add: quiet_def on_store_def lift_error_def on_db_run ClaimTask_def update_task_def bindp_def ret_def
    exec_count_no_fault put_tasks_def list_ex_iff filter_empty_conv)

definition finish :: "string \<Rightarrow> refresh_progress \<Rightarrow> string \<Rightarrow> int \<Rightarrow> task \<Rightarrow> task" where
  "finish status p message tm t = t\<lparr>task_status := status, task_payload_of := Progress p, task_error_message := message,
     task_finished_at := Some tm, task_updated_at := tm\<rparr>"

lemma FinishTask_run: "quiet s \<Longrightarrow> has_task i s \<Longrightarrow> on_store (FinishTask i status (Progress p) message) s =
  (Inr (), put_tasks (upd_where (\<lambda>t. task_id t = i) (finish status p message (clock (rt_db s))) (tasks (rt_db s))) s)"
  by (auto simp: quiet_def on_store_def lift_error_def on_db_run FinishTask_def update_task_def bindp_def ret_def fail_def
    exec_count_no_fault put_tasks_def finish_def [abs_def] filter_empty_conv has_task_def)

lemma save_progress_run: "quiet s \<Longrightarrow> save_progress i p s = (Inr (), put_tasks (upd_where (\<lambda>t. task_id t = i)
   (\<lambda>t. t\<lparr>task_payload_of := Progress p, task_error_message := [], task_updated_at := clock (rt_db s)\<rparr>) (tasks (rt_db s))) s)"
  by (simp add: save_progress_def ignore_def quiet_def on_store_def lift_error_def on_db_run UpdateTaskProgress_def
    update_task_def bindp_def ret_def fail_def exec_count_no_fault put_tasks_def)

lemma GetTask_run: "quiet s \<Longrightarrow> on_store (GetTask i) s =
  (case row_of task_id i (tasks (rt_db s)) of None \<Rightarrow> Inl (RepoError ErrNotFound) | Some t \<Rightarrow> Inr t, s)"
  by (simp add: quiet_def on_store_def lift_error_def on_db_run GetTask_def found_task_def bindp_def ret_def fail_def
    query_no_fault split: option.split)

lemma ListAgents_run: "quiet s \<Longrightarrow> on_store ListAgents s = (Inr (sort_key agent_name (agents (rt_db s))), s)"
  by (simp add: quiet_def on_store_def lift_error_def on_db_run ListAgents_def query_no_fault)

text \<open>\<open>touched i s s'\<close>: nothing but the task \<open>i\<close> has changed.\<close>

definition touched :: "string \<Rightarrow> 'r rt \<Rightarrow> 'r rt \<Rightarrow> bool" where
  "touched i s s' \<longleftrightarrow> (\<exists>f. (\<forall>t. task_id (f t) = task_id t) \<and> s' = put_tasks (upd_where (\<lambda>t. task_id t = i) f (tasks (rt_db s))) s)"

lemma touched_refl: "touched i s s"
proof -
  have "upd_where (\<lambda>t. task_id t = i) id ts = ts" for ts :: "task list" by (simp add: upd_where_def map_idI)
  then show ?thesis unfolding touched_def by (intro exI [of _ id]) simp
qed

lemma touched_trans: "touched i s s' \<Longrightarrow> touched i s' s'' \<Longrightarrow> touched i s s''"
  unfolding touched_def
proof (elim exE conjE)
  fix f g
  assume "\<forall>t. task_id (f t) = task_id t" "s' = put_tasks (upd_where (\<lambda>t. task_id t = i) f (tasks (rt_db s))) s"
    "\<forall>t. task_id (g t) = task_id t" "s'' = put_tasks (upd_where (\<lambda>t. task_id t = i) g (tasks (rt_db s'))) s'"
  then show "\<exists>f. (\<forall>t. task_id (f t) = task_id t) \<and> s'' = put_tasks (upd_where (\<lambda>t. task_id t = i) f (tasks (rt_db s))) s"
    by (intro exI [of _ "g \<circ> f"]) (auto simp: upd_where_def intro!: arg_cong [where f = "\<lambda>ts. put_tasks ts s"])
qed

lemma touched_put: "(\<And>t. task_id (f t) = task_id t) \<Longrightarrow> touched i s (put_tasks (upd_where (\<lambda>t. task_id t = i) f (tasks (rt_db s))) s)"
  by (auto simp: touched_def)

lemma filter_upd_other:
  "(\<And>t. task_id (f t) = task_id t) \<Longrightarrow> filter (\<lambda>t. task_id t \<noteq> i) (upd_where (\<lambda>t. task_id t = i) f ts) = filter (\<lambda>t. task_id t \<noteq> i) ts"
  by (induction ts) (simp_all add: upd_where_def)

lemma touched_keeps:
  assumes "touched i s s'"
  shows "quiet s' = quiet s" "has_task j s' = has_task j s" "clock (rt_db s') = clock (rt_db s)"
    "filter (\<lambda>t. task_id t \<noteq> i) (tasks (rt_db s')) = filter (\<lambda>t. task_id t \<noteq> i) (tasks (rt_db s))"
proof -
  obtain f where f: "\<And>t. task_id (f t) = task_id t" "s' = put_tasks (upd_where (\<lambda>t. task_id t = i) f (tasks (rt_db s))) s"
    using assms by (auto simp: touched_def)
  show "quiet s' = quiet s" "clock (rt_db s') = clock (rt_db s)" by (simp_all add: f(2))
  have "map task_id (tasks (rt_db s')) = map task_id (tasks (rt_db s))" by (simp add: f)
  then show "has_task j s' = has_task j s" unfolding has_task_def by (metis set_map)
  show "filter (\<lambda>t. task_id t \<noteq> i) (tasks (rt_db s')) = filter (\<lambda>t. task_id t \<noteq> i) (tasks (rt_db s))"
    by (simp add: f(2) filter_upd_other [OF f(1)])
qed

lemma save_progress_touched: "quiet s \<Longrightarrow> \<exists>s'. save_progress i p s = (Inr (), s') \<and> touched i s s'"
  by (rule exI, rule conjI, erule save_progress_run, rule touched_put) simp

section \<open>A task that runs\<close>

definition count_step :: "syncAgentResult \<Rightarrow> refresh_progress \<Rightarrow> refresh_progress" where
  "count_step r p = count_result r (p\<lparr>CurrentAgent := sr_Name r, Message := zh ''e5b7b2e5908ce6ada5204167656e7420'' @ sr_Name r\<rparr>)"

lemma count_results_run:
  assumes "quiet s"
  shows "\<exists>s'. count_results text (\<lambda>_. None) i rs p s = (Inr (Some (fold count_step rs p)), s') \<and> touched i s s'"
  using assms
proof (induction rs arbitrary: p s)
  case Nil
  then show ?case by (auto simp: ret_def touched_refl)
next
  case (Cons r rs)
  let ?p1 = "p\<lparr>CurrentAgent := sr_Name r, Message := zh ''e5b7b2e5908ce6ada5204167656e7420'' @ sr_Name r\<rparr>"
  obtain s1 where s1: "save_progress i ?p1 s = (Inr (), s1)" "touched i s s1"
    using save_progress_touched [OF Cons.prems] by blast
  then have q1: "quiet s1" using Cons.prems touched_keeps(1) by blast
  obtain s2 where s2: "save_progress i (count_step r p) s1 = (Inr (), s2)" "touched i s1 s2"
    using save_progress_touched [OF q1] by blast
  then have "quiet s2" using q1 touched_keeps(1) by blast
  from Cons.IH [OF this, of "count_step r p"] obtain s3 where
    "count_results text (\<lambda>_. None) i rs (count_step r p) s2 = (Inr (Some (fold count_step rs (count_step r p))), s3)" "touched i s2 s3"
    by blast
  moreover have "count_results text (\<lambda>_. None) i (r # rs) p s = count_results text (\<lambda>_. None) i rs (count_step r p) s2"
    by (simp add: bindp_def Let_def s1(1) s2(1) [unfolded count_step_def] count_step_def)
  ultimately have "count_results text (\<lambda>_. None) i (r # rs) p s = (Inr (Some (fold count_step (r # rs) p)), s3)" by simp
  moreover have "touched i s s3" using s1(2) s2(2) \<open>touched i s2 s3\<close> touched_trans by blast
  ultimately show ?case by blast
qed

lemma fold_count:
  "TotalAgents (fold count_step rs p) = TotalAgents p"
  "SyncedAgents (fold count_step rs p) = SyncedAgents p + int (length (filter (\<lambda>r. sr_Error r = []) rs))"
  "FailedAgents (fold count_step rs p) = FailedAgents p + int (length (filter (\<lambda>r. sr_Error r \<noteq> []) rs))"
  "map rr_id (AgentResults (fold count_step rs p)) = map rr_id (AgentResults p) @ map sr_ID rs"
  "map rr_error (AgentResults (fold count_step rs p)) = map rr_error (AgentResults p) @ map sr_Error rs"
  by (induction rs arbitrary: p) (simp_all add: count_step_def count_result_def Let_def)

definition row_of_result :: "syncAgentResult \<Rightarrow> refresh_agent_result" where
  "row_of_result r = \<lparr>rr_id = sr_ID r, rr_name = sr_Name r, rr_status = (if sr_Error r = [] then ''completed'' else ''failed''),
     rr_error = sr_Error r\<rparr>"

lemma fold_rows: "AgentResults (fold count_step rs p) = AgentResults p @ map row_of_result rs"
  by (induction rs arbitrary: p) (simp_all add: count_step_def count_result_def Let_def row_of_result_def)

text \<open>A queued refresh task that is taken from the queue ends: when no statement fails and the synchronisation
  answers for every agent, the task is completed, or failed exactly when there are agents and none could be
  synchronised; the payload counts and lists the results as they came, and no other task has changed. Before
  the synchronisation nothing but the tasks has changed.\<close>

lemma refresh_task_ends:
  assumes quiet: "faults (rt_db s) = []" and queued: "row_of task_id i (tasks (rt_db s)) = Some t" "task_status t = ''queued''"
    and ids: "distinct (map task_id (tasks (rt_db s)))"
    and sync: "\<forall>items mode s. faults (rt_db s) = [] \<longrightarrow> (\<exists>rs s'. sync items mode s = (Inr rs, s') \<and> mset (map sr_ID rs) = mset (map agent_id items) \<and>
       faults (rt_db s') = [] \<and> tasks (rt_db s') = tasks (rt_db s))"
  shows "\<exists>ts rs s3 s' t' p. runRefreshTask text (\<lambda>_. None) sync i s = (Inr (), s') \<and>
     sync (sort_key agent_name (agents (rt_db s))) (if task_type t = RefreshFastTaskType then SyncFast else SyncFull) (put_tasks ts s) =
       (Inr rs, s3) \<and>
     row_of task_id i (tasks (rt_db s')) = Some t' \<and> task_payload_of t' = Progress p \<and> task_finished_at t' \<noteq> None \<and>
     TotalAgents p = int (length (agents (rt_db s))) \<and> AgentResults p = map row_of_result rs \<and>
     SyncedAgents p = int (length (filter (\<lambda>r. sr_Error r = []) rs)) \<and>
     FailedAgents p = int (length (filter (\<lambda>r. sr_Error r \<noteq> []) rs)) \<and>
     (task_status t', task_error_message t') = (if rs \<noteq> [] \<and> (\<forall>r\<in>set rs. sr_Error r \<noteq> [])
       then (''failed'', joinRefreshErrors (map row_of_result rs)) else (''completed'', [])) \<and>
     filter (\<lambda>t. task_id t \<noteq> i) (tasks (rt_db s')) = filter (\<lambda>t. task_id t \<noteq> i) (tasks (rt_db s))"
proof -
  let ?claim = "\<lambda>t. t\<lparr>task_status := ''running'', task_updated_at := clock (rt_db s)\<rparr>"
  let ?s1 = "put_tasks (upd_where (\<lambda>t. task_id t = i \<and> task_status t = ''queued'') ?claim (tasks (rt_db s))) s"
  have q: "quiet s" using quiet by (simp add: quiet_def)
  have t: "t \<in> set (tasks (rt_db s))" "task_id t = i" using row_of_SomeD [OF queued(1)] by simp_all
  have claimed: "on_store (ClaimTask i) s = (Inr True, ?s1)"
    using t queued(2) by (auto simp: ClaimTask_run [OF q] list_ex_iff)
  have same: "upd_where (\<lambda>t. task_id t = i \<and> task_status t = ''queued'') ?claim (tasks (rt_db s)) =
      upd_where (\<lambda>t. task_id t = i) ?claim (tasks (rt_db s))"
    unfolding upd_where_def
  proof (rule map_cong [OF refl])
    fix u assume u: "u \<in> set (tasks (rt_db s))"
    have "u = t" if "task_id u = i"
      using row_of_distinct [OF ids u] queued(1) that by simp
    with queued(2) show "(if task_id u = i \<and> task_status u = ''queued'' then ?claim u else u) = (if task_id u = i then ?claim u else u)" by auto
  qed
  have s1: "touched i s ?s1" "quiet ?s1" unfolding same by (rule touched_put) (simp_all add: q)
  have found: "on_store (GetTask i) ?s1 = (Inr (?claim t), ?s1)"
    unfolding same by (simp add: GetTask_run q row_of_upd_where queued(1) t(2))
  let ?items = "sort_key agent_name (agents (rt_db s))" and ?mode = "if task_type (?claim t) = RefreshFastTaskType then SyncFast else SyncFull"
  have listed: "on_store ListAgents ?s1 = (Inr ?items, ?s1)" by (simp add: ListAgents_run q)
  let ?p1 = "empty_progress\<lparr>StartedAt := Some (clock (rt_db s)), TotalAgents := int (length ?items), Message := zh ''e588b7e696b0e4bbbbe58aa1e8bf90e8a18ce4b8ad''\<rparr>"
  obtain s2 where s2: "save_progress i ?p1 ?s1 = (Inr (), s2)" "touched i ?s1 s2"
    using save_progress_touched [OF s1(2)] by blast
  have "faults (rt_db s2) = []" using s1(2) touched_keeps(1) [OF s2(2)] unfolding quiet_def by blast
  with sync obtain rs s3 where s3: "sync ?items ?mode s2 = (Inr rs, s3)" "mset (map sr_ID rs) = mset (map agent_id ?items)"
    "faults (rt_db s3) = []" "tasks (rt_db s3) = tasks (rt_db s2)" by blast
  then have q3: "quiet s3" by (simp add: quiet_def)
  obtain s4 where s4: "count_results text (\<lambda>_. None) i rs ?p1 s3 = (Inr (Some (fold count_step rs ?p1)), s4)" "touched i s3 s4"
    using count_results_run [OF q3] by blast
  have q4: "quiet s4" using s4(2) q3 touched_keeps(1) by blast
  let ?p3 = "(fold count_step rs ?p1)\<lparr>CurrentAgent := [], FinishedAt := Some (clock (rt_db s4)), Message := refreshProgressMessage (fold count_step rs ?p1)\<rparr>"
  have "has_task i s" using t by (auto simp: has_task_def)
  then have h2: "has_task i s2" using s1(1) s2(2) touched_keeps(2) by blast
  then have "has_task i s3" by (simp add: has_task_def s3(4))
  then have h4: "has_task i s4" using s4(2) touched_keeps(2) by blast
  let ?f = "finish (fst (final_status ?p3)) ?p3 (snd (final_status ?p3)) (clock (rt_db s4))"
  let ?s5 = "put_tasks (upd_where (\<lambda>t. task_id t = i) ?f (tasks (rt_db s4))) s4"
  have run: "runRefreshTask text (\<lambda>_. None) sync i s = (Inr (), ?s5)"
    using claimed found listed s2(1) s3(1) s4(1)
    by (simp add: runRefreshTask_def bindp_def attempt_def ignore_def Let_def time_now_def FinishTask_run [OF q4 h4])
  have other: "filter (\<lambda>t. task_id t \<noteq> i) (tasks (rt_db ?s5)) = filter (\<lambda>t. task_id t \<noteq> i) (tasks (rt_db s))"
    using touched_keeps(4) [OF s1(1)] touched_keeps(4) [OF s2(2)] touched_keeps(4) [OF s4(2)] s3(4)
    by (simp add: filter_upd_other finish_def)
  obtain u where u: "row_of task_id i (tasks (rt_db s4)) = Some u"
    using h4 row_of_None_iff [of task_id i] by (auto simp: has_task_def)
  have row: "row_of task_id i (tasks (rt_db ?s5)) = Some (?f u)"
    using row_of_SomeD [OF u] by (simp add: row_of_upd_where finish_def u)
  have len: "length rs = length (agents (rt_db s))" using arg_cong [OF s3(2), of size] by simp
  have part: "length (filter (\<lambda>r. sr_Error r = []) rs) + length (filter (\<lambda>r. sr_Error r \<noteq> []) rs) = length rs"
    by (rule sum_length_filter_compl)
  have counts: "TotalAgents ?p3 = int (length (agents (rt_db s)))" "AgentResults ?p3 = map row_of_result rs"
    "SyncedAgents ?p3 = int (length (filter (\<lambda>r. sr_Error r = []) rs))" "FailedAgents ?p3 = int (length (filter (\<lambda>r. sr_Error r \<noteq> []) rs))"
    by (simp_all add: fold_count fold_rows empty_progress_def)
  have "final_status ?p3 = (if rs \<noteq> [] \<and> (\<forall>r\<in>set rs. sr_Error r \<noteq> [])
       then (''failed'', joinRefreshErrors (map row_of_result rs)) else (''completed'', []))"
    unfolding final_status_def counts using len part by (auto simp: filter_empty_conv)
  moreover obtain ts where "s2 = put_tasks ts s" using s1(1) s2(2) unfolding touched_def by auto
  ultimately show ?thesis
    using run row other counts s3(1)
    by (intro exI [of _ ts] exI [of _ rs] exI [of _ s3] exI [of _ ?s5] exI [of _ "?f u"] exI [of _ ?p3])
      (simp add: finish_def)
qed

definition sample_task :: task where
  "sample_task = \<lparr>task_id = ''t1'', task_type = RefreshFastTaskType, task_status = ''queued'', task_target_type = ''runtime'',
     task_target_id = [], task_payload_of = Progress NewQueuedRefreshProgress, task_error_message = [], task_created_by = [],
     task_created_at = 0, task_updated_at = 0, task_finished_at = None\<rparr>"

definition refresh_db :: db where
  "refresh_db = empty_db\<lparr>agents := [test_agent], tasks := [sample_task]\<rparr>"

definition all_fail :: "agent list \<Rightarrow> SyncMode \<Rightarrow> (unit, syncAgentResult list) service_prog" where
  "all_fail items mode = ret (map (\<lambda>a. \<lparr>sr_ID = agent_id a, sr_Name = agent_name a, sr_Error = ''timeout''\<rparr>) items)"

section \<open>At most one active task of each type\<close>

definition active_of :: "string \<Rightarrow> task list \<Rightarrow> task list" where
  "active_of ty ts = filter (\<lambda>t. task_type t = ty \<and> task_active t) ts"

definition exclusive :: "'r rt \<Rightarrow> bool" where
  "exclusive s \<longleftrightarrow> length (active_of RefreshAllTaskType (tasks (rt_db s))) \<le> 1 \<and>
     length (active_of RefreshFastTaskType (tasks (rt_db s))) \<le> 1"

text \<open>What can happen: the scheduler, the endpoint, the worker and its start, and everything that leaves the tasks
  alone. \<open>sync\<close> may do anything else.\<close>

inductive refresh_step ::
  "(agent list \<Rightarrow> SyncMode \<Rightarrow> ('r, syncAgentResult list) service_prog) \<Rightarrow> 'r rt \<Rightarrow> 'r rt \<Rightarrow> bool" for sync where
  scheduled: "refresh_step sync s (snd (enqueueScheduledRefresh text stop s))"
| deep: "refresh_step sync s (snd (enqueueScheduledDeepRefresh text stop s))"
| endpoint: "refresh_step sync s (snd (handleRefresh stop u ip s))"
| turn: "refresh_step sync s (snd (refresh_turn text cancelled sync s))"
| start: "refresh_step sync s (snd (StartRefreshWorker stop s))"
| other: "tasks (rt_db s') = tasks (rt_db s) \<Longrightarrow> refresh_step sync s s'"

definition keeps_tasks :: "(agent list \<Rightarrow> SyncMode \<Rightarrow> ('r, syncAgentResult list) service_prog) \<Rightarrow> bool" where
  "keeps_tasks sync \<longleftrightarrow> (\<forall>items mode s. tasks (rt_db (snd (sync items mode s))) = tasks (rt_db s))"

text \<open>An update of the rows that makes no task active and none queued.\<close>

definition calms :: "(task \<Rightarrow> bool) \<Rightarrow> (task \<Rightarrow> task) \<Rightarrow> bool" where
  "calms p f \<longleftrightarrow> (\<forall>t. task_id (f t) = task_id t \<and> task_type (f t) = task_type t \<and>
     (p t \<longrightarrow> (task_active (f t) \<longrightarrow> task_active t) \<and> (task_status (f t) = ''queued'' \<longrightarrow> task_status t = ''queued'')))"

definition settled :: "string \<Rightarrow> task list \<Rightarrow> bool" where
  "settled i ts \<longleftrightarrow> i \<in> task_id ` set ts \<and> (\<forall>t \<in> set ts. task_id t = i \<longrightarrow> task_status t \<noteq> ''queued'')"

lemma calms_active: "calms p f \<Longrightarrow> length (active_of ty (upd_where p f ts)) \<le> length (active_of ty ts)"
  by (induction ts) (auto simp: active_of_def upd_where_def calms_def)

lemma calms_settled: "calms p f \<Longrightarrow> settled i ts \<Longrightarrow> settled i (upd_where p f ts)"
proof -
  assume p: "calms p f" and i: "settled i ts"
  then have "map task_id (upd_where p f ts) = map task_id ts" by (simp add: calms_def)
  then have "task_id ` set (upd_where p f ts) = task_id ` set ts" by (metis set_map)
  with p i show "settled i (upd_where p f ts)" by (auto simp: settled_def set_upd_where calms_def)
qed

lemma fault_blind_tasks: "fault_blind (\<lambda>d. P (tasks d))"
  by (simp add: fault_blind_def)

text \<open>A property of the tasks that calm updates keep.\<close>

definition calm_inv :: "(task list \<Rightarrow> bool) \<Rightarrow> bool" where
  "calm_inv P \<longleftrightarrow> (\<forall>p f ts. calms p f \<longrightarrow> P ts \<longrightarrow> P (upd_where p f ts))"

lemma keeps_on_store: "keeps I m \<Longrightarrow> keeps (\<lambda>s. I (rt_db s)) (on_store m)"
  by (auto simp: keeps_def on_store_def lift_error_def on_db_run split: prod.splits sum.splits)

lemma keeps_update_task:
  assumes "calm_inv P" "\<And>tm. calms p (f tm)"
  shows "keeps (\<lambda>d. P (tasks d)) (update_task p f)"
  unfolding update_task_def
  by (intro keeps_exec_count fault_blind_tasks) (use assms in \<open>auto simp: calm_inv_def\<close>)

lemma calm_updates:
  "calms (\<lambda>t. task_id t = i \<and> task_status t = ''queued'') (\<lambda>t. t\<lparr>task_status := ''running'', task_updated_at := tm\<rparr>)"
  "calms (\<lambda>t. task_id t = i) (\<lambda>t. t\<lparr>task_payload_of := q, task_error_message := m, task_updated_at := tm\<rparr>)"
  "st \<noteq> ''queued'' \<Longrightarrow> st \<noteq> ''running'' \<Longrightarrow> calms p (\<lambda>t. t\<lparr>task_status := st, task_payload_of := q, task_error_message := m,
     task_finished_at := Some tm, task_updated_at := tm\<rparr>)"
  "calms p (\<lambda>t. t\<lparr>task_status := ''failed'', task_error_message := m, task_finished_at := Some tm, task_updated_at := tm\<rparr>)"
  by (auto simp: calms_def task_active_def)

lemma keeps_task_updates:
  assumes "calm_inv P"
  shows "keeps (\<lambda>d. P (tasks d)) (ClaimTask i)" "keeps (\<lambda>d. P (tasks d)) (UpdateTaskProgress i q m)"
    "st \<noteq> ''queued'' \<Longrightarrow> st \<noteq> ''running'' \<Longrightarrow> keeps (\<lambda>d. P (tasks d)) (FinishTask i st q m)"
    "keeps (\<lambda>d. P (tasks d)) (FailRunningTasksByType ty m)"
  unfolding ClaimTask_def UpdateTaskProgress_def FinishTask_def FailRunningTasksByType_def
  by (auto intro!: keeps_intros keeps_update_task fault_blind_tasks assms calm_updates
    simp: assms [unfolded calm_inv_def, rule_format, OF calm_updates(4)])

lemma keeps_task_reads:
  "keeps (\<lambda>d. P (tasks d)) (GetTask i)" "keeps (\<lambda>d. P (tasks d)) ListAgents"
  "keeps (\<lambda>d. P (tasks d)) (FindActiveTaskByType ty)" "keeps (\<lambda>d. P (tasks d)) (ListQueuedTasksByType ty)"
  "keeps (\<lambda>d. P (tasks d)) (WriteAudit u a b c ip m)"
  unfolding GetTask_def ListAgents_def FindActiveTaskByType_def ListQueuedTasksByType_def WriteAudit_def found_task_def
  by (auto intro!: keeps_intros keeps_stmt fault_blind_tasks split: option.split)

lemmas keeps_calm = keeps_task_updates [THEN keeps_on_store]
lemmas keeps_read = keeps_task_reads [THEN keeps_on_store]

lemma keeps_enqueue: "keeps (\<lambda>s. P (tasks (rt_db s))) (EnqueueRefreshTask stop t)"
  by (auto simp: keeps_def EnqueueRefreshTask_def split: option.split)

lemma keeps_time_now: "keeps I time_now"
  by (simp add: keeps_def time_now_def)

lemma keeps_count_results:
  assumes "calm_inv P"
  shows "keeps (\<lambda>s. P (tasks (rt_db s))) (count_results text cancelled i rs p)"
proof (induction rs arbitrary: p)
  case (Cons r rs)
  show ?case
    by (auto simp: save_progress_def Let_def intro!: keeps_intros keeps_time_now keeps_calm [OF assms] Cons split: option.split)
qed (auto intro: keeps_intros)

lemma keeps_runRefreshTask:
  assumes "calm_inv P" "keeps_tasks sync"
  shows "keeps (\<lambda>s. P (tasks (rt_db s))) (runRefreshTask text cancelled sync i)"
proof -
  have sync: "keeps (\<lambda>s. P (tasks (rt_db s))) (sync items mode)" for items mode
    using assms(2) by (simp add: keeps_tasks_def keeps_def)
  have st: "fst (final_status p) \<noteq> ''queued''" "fst (final_status p) \<noteq> ''running''" for p by (auto simp: final_status_def)
  show ?thesis
    unfolding runRefreshTask_def save_progress_def Let_def
    by (intro keeps_intros keeps_time_now sync keeps_count_results [OF assms(1)] keeps_calm [OF assms(1)] keeps_read
      st) simp_all
qed

lemma keeps_start:
  assumes "calm_inv P"
  shows "keeps (\<lambda>s. P (tasks (rt_db s))) (StartRefreshWorker stop)"
  unfolding StartRefreshWorker_def requeueRefreshTasks_def
  by (intro keeps_intros keeps_calm [OF assms] keeps_read keeps_enqueue)

text \<open>Whoever creates a task has seen that none of its type is active.\<close>

lemma FindActive_spec:
  assumes "on_store (FindActiveTaskByType ty) s = (r, s')"
  shows "tasks (rt_db s') = tasks (rt_db s)" "r = Inl (RepoError ErrNotFound) \<Longrightarrow> active_of ty (tasks (rt_db s)) = []"
proof -
  have "keeps (\<lambda>s'. tasks (rt_db s') = tasks (rt_db s)) (on_store (FindActiveTaskByType ty))"
    using keeps_read(3) [where P = "\<lambda>ts. ts = tasks (rt_db s)"] .
  with assms show "tasks (rt_db s') = tasks (rt_db s)" by (auto dest: keepsD)
  show "active_of ty (tasks (rt_db s)) = []" if "r = Inl (RepoError ErrNotFound)"
  proof (rule ccontr)
    assume "active_of ty (tasks (rt_db s)) \<noteq> []"
    then have "sort_key (\<lambda>t. - task_created_at t) (active_of ty (tasks (rt_db s))) \<noteq> []" by (metis length_0_conv length_sort)
    then obtain x xs where "sort_key (\<lambda>t. - task_created_at t) (filter (\<lambda>t. task_type t = ty \<and> task_active t) (tasks (rt_db s))) = x # xs"
      by (metis active_of_def neq_Nil_conv)
    with assms that show False
      by (auto simp: on_store_def lift_error_def on_db_run FindActiveTaskByType_def found_task_def bindp_def ret_def fail_def
        query_def stmt_def split: list.splits if_splits)
  qed
qed

lemma CreateTask_spec:
  "tasks (rt_db (snd (on_store (CreateTask ty st tt ti q u m) s))) = tasks (rt_db s) \<or>
   (\<exists>t. tasks (rt_db (snd (on_store (CreateTask ty st tt ti q u m) s))) = tasks (rt_db s) @ [t] \<and> task_type t = ty \<and>
      task_id t \<notin> task_id ` set (tasks (rt_db s)))"
  by (auto simp: on_store_def lift_error_def on_db_run CreateTask_def stmt_def gen_uuid_def Let_def split: list.splits)

lemma bindp_post: "I (snd (m s)) \<Longrightarrow> (\<And>x. keeps I (f x)) \<Longrightarrow> I (snd (bindp m f s))"
  by (auto simp: bindp_def keeps_def split: prod.splits sum.splits)

lemma bindp_attempt_snd: "m s = (r, s') \<Longrightarrow> bindp (attempt m) f s = f r s'"
  by (simp add: bindp_def attempt_def)

definition task_inv :: "string \<Rightarrow> task list \<Rightarrow> bool" where
  "task_inv ty ts \<longleftrightarrow> length (active_of ty ts) \<le> 1"

lemma calm_invs: "calm_inv (task_inv ty)" "calm_inv (settled i)"
proof -
  show "calm_inv (task_inv ty)"
    unfolding calm_inv_def task_inv_def by (intro allI impI order_trans [OF calms_active])
  show "calm_inv (settled i)" unfolding calm_inv_def by (intro allI impI calms_settled)
qed

text \<open>The two invariants through the creation of a task of a type without an active one.\<close>

definition created_ok :: "string \<Rightarrow> (task list \<Rightarrow> bool) \<Rightarrow> bool" where
  "created_ok ty P \<longleftrightarrow> (\<forall>ts t. P ts \<longrightarrow> active_of ty ts = [] \<longrightarrow> task_type t = ty \<longrightarrow> task_id t \<notin> task_id ` set ts \<longrightarrow> P (ts @ [t]))"

lemma created_oks: "created_ok ty (task_inv ty')" "created_ok ty (settled i)"
  by (auto simp: created_ok_def task_inv_def active_of_def settled_def)

lemma create_post:
  assumes "created_ok ty P" "P (tasks (rt_db s))" "active_of ty (tasks (rt_db s)) = []"
  shows "P (tasks (rt_db (snd (on_store (CreateTask ty st tt ti q u m) s))))"
  using CreateTask_spec [of ty st tt ti q u m s] assms by (auto simp: created_ok_def)

lemma enqueue_scheduled_keeps:
  assumes P: "calm_inv P" "created_ok ty P" and ty: "ty = RefreshAllTaskType \<or> ty = RefreshFastTaskType"
  shows "keeps (\<lambda>s. P (tasks (rt_db s))) (enqueue_scheduled text stop ty)"
proof (rule keepsI)
  fix s :: "'r rt" assume s: "P (tasks (rt_db s))"
  let ?I = "\<lambda>s. P (tasks (rt_db s))"
  obtain r1 s1 where 1: "on_store (FindActiveTaskByType RefreshAllTaskType) s = (r1, s1)" by fastforce
  obtain r2 s2 where 2: "on_store (FindActiveTaskByType RefreshFastTaskType) s1 = (r2, s2)" by fastforce
  note f1 = FindActive_spec [OF 1] and f2 = FindActive_spec [OF 2]
  have i1: "?I s1" and i2: "?I s2" using s f1(1) f2(1) by simp_all
  show "?I (snd (enqueue_scheduled text stop ty s))"
  proof (cases "r1 = Inl (RepoError ErrNotFound) \<and> r2 = Inl (RepoError ErrNotFound)")
    case False
    then show ?thesis using i1 i2
      unfolding enqueue_scheduled_def bindp_attempt_snd [where m = "on_store (FindActiveTaskByType RefreshAllTaskType)", OF 1]
      by (auto simp: bindp_attempt_snd [where m = "on_store (FindActiveTaskByType RefreshFastTaskType)", OF 2] ret_def fail_def split: sum.splits)
  next
    case True
    then have none: "active_of ty (tasks (rt_db s2)) = []" using f1 f2 ty by auto
    have tail: "keeps ?I (bindp (attempt (EnqueueRefreshTask stop t)) (\<lambda>queued.
        case queued of Inr _ \<Rightarrow> ret () | Inl e \<Rightarrow>
          bindp (ignore (on_store (FinishTask (task_id t) ''failed'' (Progress NewQueuedRefreshProgress)
            (refreshTaskErrorMessage text (Some e))))) (\<lambda>_. fail e)))" for t
      by (intro keeps_intros keeps_enqueue keeps_calm [OF P(1)]) simp_all
    obtain r3 s3 where 3: "(hasRegisteredAgents :: ('r, bool) service_prog) s2 = (r3, s3)" by fastforce
    have "keeps (\<lambda>s. tasks (rt_db s) = tasks (rt_db s2)) hasRegisteredAgents"
      unfolding hasRegisteredAgents_def by (intro keeps_intros keeps_read(2) [where P = "\<lambda>ts. ts = tasks (rt_db s2)"])
    with 3 have t3: "tasks (rt_db s3) = tasks (rt_db s2)" by (auto dest: keepsD)
    have body: "?I (snd ((if \<not> hasAgents then ret () else bindp (on_store (CreateTask ty ''queued'' ''runtime'' []
        (Progress NewQueuedRefreshProgress) [] [])) (\<lambda>t. bindp (attempt (EnqueueRefreshTask stop t)) (\<lambda>queued.
        case queued of Inr _ \<Rightarrow> ret () | Inl e \<Rightarrow>
          bindp (ignore (on_store (FinishTask (task_id t) ''failed'' (Progress NewQueuedRefreshProgress)
            (refreshTaskErrorMessage text (Some e))))) (\<lambda>_. fail e)))) s3))" for hasAgents
      using i2 t3 none by (auto simp: ret_def intro!: bindp_post [where I = "?I"] tail create_post [OF P(2)])
    with True 3 i2 t3 show ?thesis
      unfolding enqueue_scheduled_def bindp_attempt_snd [where m = "on_store (FindActiveTaskByType RefreshAllTaskType)", OF 1]
      by (auto simp: bindp_attempt_snd [where m = "on_store (FindActiveTaskByType RefreshFastTaskType)", OF 2] bindp_def [of hasRegisteredAgents] split: sum.splits)
  qed
qed

lemma handleRefresh_keeps:
  assumes P: "calm_inv P" "created_ok RefreshAllTaskType P"
  shows "keeps (\<lambda>s. P (tasks (rt_db s))) (handleRefresh stop u ip :: ('r, response) service_prog)"
  unfolding handleRefresh_def guarded_def
proof (rule keeps_case_option, goal_cases)
  case 1
  show ?case
  proof (rule keepsI)
    fix s :: "'r rt" assume s: "P (tasks (rt_db s))"
    let ?I = "\<lambda>s. P (tasks (rt_db s))"
    let ?tail = "\<lambda>created. case created of
              Inl _ \<Rightarrow> ret (writeError 500 ''create_refresh_task_failed'')
            | Inr t \<Rightarrow>
                bindp (attempt (EnqueueRefreshTask stop t)) (\<lambda>queued.
                case queued of
                  Inl _ \<Rightarrow>
                    bindp (ignore (on_store (FinishTask (task_id t) ''failed'' (Progress NewQueuedRefreshProgress)
                      (zh ''e588b7e696b0e9989fe58897e7b981e5bf99efbc8ce8afb7e7a88de5908ee9878de8af95'')))) (\<lambda>_.
                    ret (writeError 503 ''enqueue_refresh_task_failed''))
                | Inr _ \<Rightarrow>
                    bindp (ignore (on_store (WriteAudit (ID u) ''runtime.refresh'' ''runtime'' (task_id t) ip
                      [''task'' \<mapsto> JStr (task_id t)]))) (\<lambda>_.
                    ret (202, BQueued t)))"
    obtain r1 s1 where 1: "on_store (FindActiveTaskByType RefreshAllTaskType) s = (r1, s1)" by fastforce
    note f1 = FindActive_spec [OF 1]
    have tail: "keeps ?I (?tail created :: ('r, response) service_prog)" for created :: "service_error + task"
      by (intro keeps_intros keeps_enqueue keeps_calm [OF P(1)] keeps_read) simp_all
    show "?I (snd ((bindp (attempt (on_store (FindActiveTaskByType RefreshAllTaskType))) (\<lambda>active.
      case active of
        Inr t \<Rightarrow> ret (202, BTask t)
      | Inl e \<Rightarrow>
          if e \<noteq> RepoError ErrNotFound then ret (writeError 500 ''find_refresh_task_failed'')
          else
            bindp (attempt (on_store (CreateTask RefreshAllTaskType ''queued'' ''runtime'' []
              (Progress NewQueuedRefreshProgress) (ID u) []))) ?tail) :: ('r, response) service_prog) s))"
    proof (cases "r1 = Inl (RepoError ErrNotFound)")
      case False
      with f1 s show ?thesis unfolding bindp_attempt_snd [where m = "on_store (FindActiveTaskByType RefreshAllTaskType)", OF 1] by (auto simp: ret_def split: sum.splits)
    next
      case True
      have "?I (snd ((bindp (attempt (on_store (CreateTask RefreshAllTaskType ''queued'' ''runtime'' []
              (Progress NewQueuedRefreshProgress) (ID u) []))) ?tail :: ('r, response) service_prog) s1))"
      proof (rule bindp_post [where I = "?I"])
        have "?I (snd (on_store (CreateTask RefreshAllTaskType ''queued'' ''runtime'' []
              (Progress NewQueuedRefreshProgress) (ID u) []) s1))"
          by (rule create_post [OF P(2)]) (use f1 True s in simp_all)
        then show "?I (snd ((attempt (on_store (CreateTask RefreshAllTaskType ''queued'' ''runtime'' []
              (Progress NewQueuedRefreshProgress) (ID u) [])) :: ('r, service_error + task) service_prog) s1))"
          by (auto simp: attempt_def split: prod.splits)
      qed (rule tail)
      with True show ?thesis unfolding bindp_attempt_snd [where m = "on_store (FindActiveTaskByType RefreshAllTaskType)", OF 1] by simp
    qed
  qed
qed (rule keeps_ret)

lemma refresh_step_keeps:
  assumes "refresh_step sync s s'" "keeps_tasks sync" "calm_inv P" "created_ok RefreshAllTaskType P" "created_ok RefreshFastTaskType P"
    "P (tasks (rt_db s))"
  shows "P (tasks (rt_db s'))"
  using assms(1)
proof cases
  case (scheduled f e)
  then show ?thesis
    using keepsD [OF enqueue_scheduled_keeps [OF assms(3,5)], of s f e] assms(6) by (simp add: enqueueScheduledRefresh_def)
next
  case (deep f e)
  then show ?thesis
    using keepsD [OF enqueue_scheduled_keeps [OF assms(3,4)], of s f e] assms(6) by (simp add: enqueueScheduledDeepRefresh_def)
next
  case (endpoint e u ip)
  then show ?thesis using keepsD [OF handleRefresh_keeps [OF assms(3,4)]] assms(6) by simp
next
  case (turn f cancelled)
  then show ?thesis
    using keepsD [OF keeps_runRefreshTask [OF assms(3,2)]] assms(6) by (auto simp: refresh_turn_def split: list.split)
next
  case (start e)
  then show ?thesis using keepsD [OF keeps_start [OF assms(3)]] assms(6) by simp
qed (use assms in simp)

lemma refresh_steps_keep:
  assumes "(refresh_step sync)\<^sup>*\<^sup>* s s'" "keeps_tasks sync" "calm_inv P" "created_ok RefreshAllTaskType P" "created_ok RefreshFastTaskType P"
    "P (tasks (rt_db s))"
  shows "P (tasks (rt_db s'))"
  using assms(1) by (induction rule: rtranclp_induct) (auto intro: assms refresh_step_keeps)

text \<open>C28: of each of the two types of refresh tasks at most one is active, in every state that the scheduler, the
  endpoint, the worker and its restarts reach, whatever statements fail in between.\<close>

theorem refresh_tasks_exclusive:
  assumes "(refresh_step sync)\<^sup>*\<^sup>* s s'" "keeps_tasks sync" "exclusive s"
  shows "exclusive s'"
  using refresh_steps_keep [OF assms(1,2) calm_invs(1) created_oks(1) created_oks(1)] assms(3)
  by (simp add: exclusive_def task_inv_def)

text \<open>a refresh task runs at most once: when it has been claimed, or has ended, no later claim of it succeeds,
  so that a second entry in the queue, or the requeueing after a restart, does not run it again.\<close>

theorem refresh_task_claimed_once:
  assumes "(refresh_step sync)\<^sup>*\<^sup>* s s'" "keeps_tasks sync" "settled i (tasks (rt_db s))"
  shows "fst (on_store (ClaimTask i) s') \<noteq> Inr True \<and>
    tasks (rt_db (snd (runRefreshTask text cancelled sync i s'))) = tasks (rt_db s')"
proof
  have i: "settled i (tasks (rt_db s'))"
    by (rule refresh_steps_keep [OF assms(1,2) calm_invs(2) created_oks(2) created_oks(2) assms(3)])
  then have none: "\<forall>t \<in> set (tasks (rt_db s')). \<not> (task_id t = i \<and> task_status t = ''queued'')" by (auto simp: settled_def)
  then have same: "upd_where (\<lambda>t. task_id t = i \<and> task_status t = ''queued'') f (tasks (rt_db s')) = tasks (rt_db s')" for f
    using none by (auto simp: upd_where_def intro!: map_idI)
  have zero: "filter (\<lambda>t. task_id t = i \<and> task_status t = ''queued'') (tasks (rt_db s')) = []"
    using none by (simp add: filter_empty_conv)
  obtain r s1 where 1: "on_store (ClaimTask i) s' = (r, s1)" by fastforce
  then have r: "r \<noteq> Inr True" "tasks (rt_db s1) = tasks (rt_db s')"
    by (auto simp: on_store_def lift_error_def on_db_run ClaimTask_def update_task_def exec_count_def stmt_def bindp_def ret_def
      same zero split: list.splits if_splits)
  show "fst (on_store (ClaimTask i) s') \<noteq> Inr True" using 1 r by simp
  show "tasks (rt_db (snd (runRefreshTask text cancelled sync i s'))) = tasks (rt_db s')"
    using r by (simp add: runRefreshTask_def bindp_attempt_snd [where m = "on_store (ClaimTask i)", OF 1] ret_def)
qed

section \<open>A task that is lost\<close>

lemma scheduler_waits:
  assumes "quiet s" "active_of RefreshAllTaskType (tasks (rt_db s)) \<noteq> [] \<or> active_of RefreshFastTaskType (tasks (rt_db s)) \<noteq> []"
  shows "enqueue_scheduled text stop ty s = (Inr (), s)"
proof -
  have "on_store (FindActiveTaskByType ty') s = (case sort_key (\<lambda>t. - task_created_at t) (active_of ty' (tasks (rt_db s))) of
      [] \<Rightarrow> Inl (RepoError ErrNotFound) | t # _ \<Rightarrow> Inr t, s)" for ty'
    using assms(1) by (simp add: quiet_def on_store_def lift_error_def on_db_run FindActiveTaskByType_def found_task_def active_of_def
      bindp_def ret_def fail_def query_no_fault split: list.split)
  moreover have "sort_key (\<lambda>t. - task_created_at t) xs = [] \<longleftrightarrow> xs = []" for xs by (metis length_0_conv length_sort)
  ultimately show ?thesis
    using assms(2) by (auto simp: enqueue_scheduled_def bindp_def attempt_def ret_def split: list.split)
qed

text \<open>C35: when the read of a task fails after it has been claimed, the worker leaves it running: nothing finishes
  it, and while it stays the scheduler finds it active and starts no refresh any more.\<close>

theorem lost_refresh_task:
  fixes s :: "'r rt"
  assumes "faults (rt_db s) = [False, True]" "row_of task_id i (tasks (rt_db s)) = Some t" "task_status t = ''queued''"
    and "task_type t = RefreshAllTaskType \<or> task_type t = RefreshFastTaskType"
  shows "\<exists>s' t'. runRefreshTask text cancelled sync i s = (Inr (), s') \<and> row_of task_id i (tasks (rt_db s')) = Some t' \<and>
     task_status t' = ''running'' \<and>
     (\<forall>s'' :: 'r rt. faults (rt_db s'') = [] \<longrightarrow> tasks (rt_db s'') = tasks (rt_db s') \<longrightarrow>
        enqueueScheduledRefresh text stop s'' = (Inr (), s'') \<and> enqueueScheduledDeepRefresh text stop s'' = (Inr (), s''))"
proof -
  let ?t = "t\<lparr>task_status := ''running'', task_updated_at := clock (rt_db s)\<rparr>"
  let ?ts = "upd_where (\<lambda>t. task_id t = i \<and> task_status t = ''queued'')
     (\<lambda>t. t\<lparr>task_status := ''running'', task_updated_at := clock (rt_db s)\<rparr>) (tasks (rt_db s))"
  let ?s = "s\<lparr>rt_db := (rt_db s)\<lparr>tasks := ?ts, faults := []\<rparr>\<rparr>"
  have t: "t \<in> set (tasks (rt_db s))" "task_id t = i" using row_of_SomeD [OF assms(2)] by simp_all
  have "filter (\<lambda>t. task_id t = i \<and> task_status t = ''queued'') (tasks (rt_db s)) \<noteq> []"
    using t assms(3) by (auto simp: filter_empty_conv)
  then have run: "runRefreshTask text cancelled sync i s = (Inr (), ?s)"
    using assms(1) by (simp add: runRefreshTask_def bindp_def attempt_def ret_def on_store_def lift_error_def on_db_run ClaimTask_def
      update_task_def exec_count_def stmt_def GetTask_def query_def)
  have row: "row_of task_id i ?ts = Some ?t" using t assms(2,3) by (simp add: row_of_upd_where)
  have "?t \<in> set ?ts" using row_of_SomeD [OF row] by simp
  then have "\<exists>x \<in> set ?ts. task_type x = task_type t \<and> task_active x" by (intro bexI [of _ ?t]) (simp_all add: task_active_def)
  then have "active_of (task_type t) ?ts \<noteq> []" by (simp add: active_of_def filter_empty_conv)
  then have "active_of RefreshAllTaskType ?ts \<noteq> [] \<or> active_of RefreshFastTaskType ?ts \<noteq> []" using assms(4) by auto
  then have "enqueueScheduledRefresh text stop s'' = (Inr (), s'') \<and> enqueueScheduledDeepRefresh text stop s'' = (Inr (), s'')"
    if "faults (rt_db s'') = []" "tasks (rt_db s'') = ?ts" for s'' :: "'r rt"
    using that by (simp add: enqueueScheduledRefresh_def enqueueScheduledDeepRefresh_def scheduler_waits quiet_def)
  with run row show ?thesis by (intro exI [of _ ?s] exI [of _ ?t]) simp
qed

section \<open>Witnesses\<close>

definition operator :: user where
  "operator = \<lparr>ID = ''u1'', Username = ''op'', Email = [], DisplayName = [], Role = ''op'', Source = ''local'', Roles = [],
     Permissions = [''agents.manage''], Disabled = False, LastLoginAt = None, CreatedAt = 0, UpdatedAt = 0\<rparr>"

lemma keeps_tasks_all_fail: "keeps_tasks all_fail"
  by (simp add: keeps_tasks_def all_fail_def ret_def)

theorem refresh_tasks_exclusive_witness:
  "exclusive (snd (handleRefresh None operator ''ip''
     (snd (enqueueScheduledRefresh (\<lambda>_. []) None (plain_rt (refresh_db\<lparr>tasks := []\<rparr>))))))"
proof (rule refresh_tasks_exclusive [OF _ keeps_tasks_all_fail])
  let ?s = "plain_rt (refresh_db\<lparr>tasks := []\<rparr>)"
  show "(refresh_step all_fail)\<^sup>*\<^sup>* ?s (snd (handleRefresh None operator ''ip''
     (snd (enqueueScheduledRefresh (\<lambda>_. []) None ?s))))"
    by (meson refresh_step.scheduled refresh_step.endpoint r_into_rtranclp rtranclp.rtrancl_into_rtrancl)
  show "exclusive ?s" by (simp add: exclusive_def active_of_def plain_rt_def)
qed

theorem refresh_task_claimed_once_witness:
  "fst (on_store (ClaimTask ''t1'') (snd (refresh_turn (\<lambda>_. []) (\<lambda>_. None) all_fail
     (plain_rt (refresh_db\<lparr>tasks := [sample_task\<lparr>task_status := ''running''\<rparr>]\<rparr>))))) \<noteq> Inr True"
proof (rule conjunct1 [OF refresh_task_claimed_once [OF _ keeps_tasks_all_fail]])
  let ?s = "plain_rt (refresh_db\<lparr>tasks := [sample_task\<lparr>task_status := ''running''\<rparr>]\<rparr>)"
  show "(refresh_step all_fail)\<^sup>*\<^sup>* ?s (snd (refresh_turn (\<lambda>_. []) (\<lambda>_. None) all_fail ?s))"
    by (rule r_into_rtranclp) (rule refresh_step.turn)
  show "settled ''t1'' (tasks (rt_db ?s))" by (simp add: settled_def plain_rt_def sample_task_def)
qed

theorem lost_refresh_task_witness:
  "\<exists>s' t'. runRefreshTask (\<lambda>_. []) (\<lambda>_. None) all_fail ''t1'' (plain_rt (refresh_db\<lparr>faults := [False, True]\<rparr>)) = (Inr (), s') \<and>
     row_of task_id ''t1'' (tasks (rt_db s')) = Some t' \<and> task_status t' = ''running''"
proof -
  have "row_of task_id ''t1'' (tasks (rt_db (plain_rt (refresh_db\<lparr>faults := [False, True]\<rparr>)))) = Some sample_task"
    "faults (rt_db (plain_rt (refresh_db\<lparr>faults := [False, True]\<rparr>))) = [False, True]"
    "task_status sample_task = ''queued''" "task_type sample_task = RefreshAllTaskType \<or> task_type sample_task = RefreshFastTaskType"
    by (simp_all add: plain_rt_def refresh_db_def row_of_def sample_task_def)
  from lost_refresh_task [OF this(2,1,3,4)] show ?thesis by blast
qed

end
