(* ===== verification/Metric_Store.thy ===== *)
theory Metric_Store
  imports Alert_Router "HOL-Library.List_Lexorder" "HOL-Library.Char_ord"
begin

text \<open>
  The samples of hosts and machines and their averages: \<open>backend/internal/repository/metrics.go\<close>, the
  jobs of \<open>service/realtime/rollup.go\<close> and \<open>retention.go\<close>, and \<open>backend/api/router/metrics.go\<close>. Instants
  and durations are whole seconds. \<open>avg\<close> of integers is exact in PostgreSQL up to its last digit, and
  \<open>round\<close> of a numeric value goes away from zero at the half.
\<close>

section \<open>Buckets and averages\<close>

text \<open>\<open>to_timestamp(floor(extract(epoch FROM t) / s) * s)\<close>.\<close>

definition bucket_of :: "int \<Rightarrow> int \<Rightarrow> int" where
  "bucket_of seconds t = (t div seconds) * seconds"

definition pg_round :: "rat \<Rightarrow> int" where
  "pg_round x = (if x \<ge> 0 then \<lfloor>x + 1 / 2\<rfloor> else - \<lfloor>1 / 2 - x\<rfloor>)"

definition avg :: "('a \<Rightarrow> int) \<Rightarrow> 'a list \<Rightarrow> int" where
  "avg f xs = pg_round (of_int (sum_list (map f xs)) / of_nat (length xs))"

text \<open>The keys of \<open>GROUP BY\<close>, in ascending order.\<close>

definition group_keys :: "('a \<Rightarrow> 'k :: linorder) \<Rightarrow> 'a list \<Rightarrow> 'k list" where
  "group_keys key xs = sort (remdups (map key xs))"

section \<open>Samples\<close>

definition InsertMetricSamples :: "HostMetricSample \<Rightarrow> VMMetricSample list \<Rightarrow> unit db_prog" where
  "InsertMetricSamples host vms = transaction (
     bindp (stmt (\<lambda>d. if hs_AgentID host \<notin> agent_id ` set (agents d) then (Inl ForeignKeyViolation, d)
       else (Inr (), d\<lparr>host_samples := host_samples d @ [host]\<rparr>))) (\<lambda>_.
     for_each (\<lambda>vm. stmt (\<lambda>d. if vs_AgentID vm \<notin> agent_id ` set (agents d) then (Inl ForeignKeyViolation, d)
       else (Inr (), d\<lparr>vm_samples := vm_samples d @ [vm]\<rparr>))) vms))"

definition host_point :: "int \<Rightarrow> HostMetricSample list \<Rightarrow> MetricPoint" where
  "host_point b xs = \<lparr>mp_Time = b, mp_CPU = avg hs_CPUUsage xs, mp_Memory = avg hs_MemoryUsage xs,
     mp_Storage = avg hs_StorageUsage xs, mp_Disk = 0, mp_DiskRead = avg hs_DiskReadBytesPerSec xs,
     mp_DiskWrite = avg hs_DiskWriteBytesPerSec xs, mp_NetworkRx = avg hs_NetworkRxBytesPerSec xs,
     mp_NetworkTx = avg hs_NetworkTxBytesPerSec xs, mp_VMCount = avg hs_VMCount xs\<rparr>"

definition vm_point :: "int \<Rightarrow> VMMetricSample list \<Rightarrow> MetricPoint" where
  "vm_point b xs = \<lparr>mp_Time = b, mp_CPU = avg vs_CPUUsage xs, mp_Memory = avg vs_MemoryUsage xs,
     mp_Storage = 0, mp_Disk = avg vs_DiskUsage xs, mp_DiskRead = avg vs_DiskReadBytesPerSec xs,
     mp_DiskWrite = avg vs_DiskWriteBytesPerSec xs, mp_NetworkRx = avg vs_NetworkRxBytesPerSec xs,
     mp_NetworkTx = avg vs_NetworkTxBytesPerSec xs, mp_VMCount = 0\<rparr>"

text \<open>Instants are whole seconds, while \<open>collected_at\<close> has a fraction: of two samples within one second the model
  does not know the order, and a window that ends at a second contains all of it.\<close>

definition host_series :: "string \<Rightarrow> int \<Rightarrow> int \<Rightarrow> int \<Rightarrow> HostMetricSample list \<Rightarrow> MetricPoint list" where
  "host_series aid since until bucket samples =
    (let xs = filter (\<lambda>s. (aid = [] \<or> hs_AgentID s = aid) \<and> since \<le> hs_CollectedAt s \<and> hs_CollectedAt s \<le> until) samples;
         key = (\<lambda>s. bucket_of bucket (hs_CollectedAt s)) in
     map (\<lambda>b. host_point b (filter (\<lambda>s. key s = b) xs)) (group_keys key xs))"

definition vm_series :: "string \<Rightarrow> int \<Rightarrow> int \<Rightarrow> int \<Rightarrow> VMMetricSample list \<Rightarrow> MetricPoint list" where
  "vm_series i since until bucket samples =
    (let xs = filter (\<lambda>s. vs_VMID s = i \<and> since \<le> vs_CollectedAt s \<and> vs_CollectedAt s \<le> until) samples;
         key = (\<lambda>s. bucket_of bucket (vs_CollectedAt s)) in
     map (\<lambda>b. vm_point b (filter (\<lambda>s. key s = b) xs)) (group_keys key xs))"

section \<open>Averages that are kept\<close>

text \<open>\<open>Duration.String\<close> of a duration of whole seconds, and the label of a bucket.\<close>

definition duration_text :: "int \<Rightarrow> string" where
  "duration_text d =
    (if d < 60 then Itoa d @ ''s''
     else if d < 3600 then Itoa (d div 60) @ ''m'' @ Itoa (d mod 60) @ ''s''
     else Itoa (d div 3600) @ ''h'' @ Itoa (d mod 3600 div 60) @ ''m'' @ Itoa (d mod 60) @ ''s'')"

definition bucketLabel :: "int \<Rightarrow> string" where
  "bucketLabel bucket =
    (if bucket = 5 * 60 then ''5m'' else if bucket = 30 * 60 then ''30m'' else if bucket = 3600 then ''1h''
     else if bucket = 24 * 3600 then ''24h'' else duration_text bucket)"

definition rollup_point :: "int \<Rightarrow> host_rollup list \<Rightarrow> MetricPoint" where
  "rollup_point b rs = \<lparr>mp_Time = b, mp_CPU = avg hr_cpu_usage rs, mp_Memory = avg hr_memory_usage rs,
     mp_Storage = avg hr_storage_usage rs, mp_Disk = 0, mp_DiskRead = avg hr_disk_read rs,
     mp_DiskWrite = avg hr_disk_write rs, mp_NetworkRx = avg hr_network_rx rs, mp_NetworkTx = avg hr_network_tx rs,
     mp_VMCount = avg hr_vm_count rs\<rparr>"

definition listHostMetricRollupSeries :: "string \<Rightarrow> int \<Rightarrow> int \<Rightarrow> int \<Rightarrow> MetricPoint list db_prog" where
  "listHostMetricRollupSeries aid since until bucket = query (\<lambda>d.
     let rs = filter (\<lambda>r. hr_bucket_size r = bucketLabel bucket \<and> (aid = [] \<or> hr_agent_id r = aid) \<and>
           since \<le> hr_bucket_at r \<and> hr_bucket_at r \<le> until) (host_rollups d) in
     map (\<lambda>b. rollup_point b (filter (\<lambda>r. hr_bucket_at r = b) rs)) (group_keys hr_bucket_at rs))"

definition listVMMetricRollupSeries :: "string \<Rightarrow> int \<Rightarrow> int \<Rightarrow> int \<Rightarrow> MetricPoint list db_prog" where
  "listVMMetricRollupSeries i since until bucket = query (\<lambda>d.
     let rs = filter (\<lambda>r. vr_bucket_size r = bucketLabel bucket \<and> vr_vm_id r = i \<and>
           since \<le> vr_bucket_at r \<and> vr_bucket_at r \<le> until) (vm_rollups d) in
     map (\<lambda>r. \<lparr>mp_Time = vr_bucket_at r, mp_CPU = vr_cpu_usage r, mp_Memory = vr_memory_usage r, mp_Storage = 0,
         mp_Disk = vr_disk_usage r, mp_DiskRead = vr_disk_read r, mp_DiskWrite = vr_disk_write r,
         mp_NetworkRx = vr_network_rx r, mp_NetworkTx = vr_network_tx r, mp_VMCount = 0\<rparr>) (sort_key vr_bucket_at rs))"

text \<open>The kept averages are read for buckets of five minutes and more; without any, the samples.\<close>

definition rollup_or_raw :: "int \<Rightarrow> MetricPoint list db_prog \<Rightarrow> MetricPoint list db_prog \<Rightarrow> MetricPoint list db_prog" where
  "rollup_or_raw bucket kept raw =
    (if bucket \<ge> 5 * 60 then
       bindp (attempt kept) (\<lambda>r.
       case r of Inr items \<Rightarrow> if items \<noteq> [] then ret items else raw | Inl _ \<Rightarrow> raw)
     else raw)"

definition ListHostMetricSeries :: "string \<Rightarrow> int \<Rightarrow> int \<Rightarrow> int \<Rightarrow> MetricPoint list db_prog" where
  "ListHostMetricSeries aid since until bucket = rollup_or_raw bucket (listHostMetricRollupSeries aid since until bucket)
     (query (\<lambda>d. host_series aid since until bucket (host_samples d)))"

definition ListVMMetricSeries :: "string \<Rightarrow> int \<Rightarrow> int \<Rightarrow> int \<Rightarrow> MetricPoint list db_prog" where
  "ListVMMetricSeries i since until bucket = rollup_or_raw bucket (listVMMetricRollupSeries i since until bucket)
     (query (\<lambda>d. vm_series i since until bucket (vm_samples d)))"

section \<open>Their computation\<close>

definition host_rollup_row :: "string \<Rightarrow> int \<times> string \<Rightarrow> HostMetricSample list \<Rightarrow> host_rollup" where
  "host_rollup_row label k xs = \<lparr>hr_bucket_size = label, hr_bucket_at = fst k, hr_agent_id = snd k,
     hr_host_name = Max (set (map hs_HostName xs)), hr_cpu_usage = avg hs_CPUUsage xs, hr_memory_usage = avg hs_MemoryUsage xs,
     hr_storage_usage = avg hs_StorageUsage xs, hr_disk_read = avg hs_DiskReadBytesPerSec xs,
     hr_disk_write = avg hs_DiskWriteBytesPerSec xs, hr_network_rx = avg hs_NetworkRxBytesPerSec xs,
     hr_network_tx = avg hs_NetworkTxBytesPerSec xs, hr_vm_count = avg hs_VMCount xs\<rparr>"

definition vm_rollup_row :: "string \<Rightarrow> int \<times> string \<times> string \<Rightarrow> VMMetricSample list \<Rightarrow> vm_rollup" where
  "vm_rollup_row label k xs = \<lparr>vr_bucket_size = label, vr_bucket_at = fst k, vr_agent_id = fst (snd k), vr_vm_id = snd (snd k),
     vr_vm_name = Max (set (map vs_VMName xs)), vr_status = Max (set (map vs_Status xs)), vr_cpu_usage = avg vs_CPUUsage xs,
     vr_memory_usage = avg vs_MemoryUsage xs, vr_disk_usage = avg vs_DiskUsage xs, vr_disk_read = avg vs_DiskReadBytesPerSec xs,
     vr_disk_write = avg vs_DiskWriteBytesPerSec xs, vr_network_rx = avg vs_NetworkRxBytesPerSec xs,
     vr_network_tx = avg vs_NetworkTxBytesPerSec xs\<rparr>"

definition host_key :: "int \<Rightarrow> HostMetricSample \<Rightarrow> int \<times> string" where
  "host_key seconds s = (bucket_of seconds (hs_CollectedAt s), hs_AgentID s)"

definition vm_key :: "int \<Rightarrow> VMMetricSample \<Rightarrow> int \<times> string \<times> string" where
  "vm_key seconds s = (bucket_of seconds (vs_CollectedAt s), vs_AgentID s, vs_VMID s)"

definition host_rollup_rows :: "string \<Rightarrow> int \<Rightarrow> int \<Rightarrow> HostMetricSample list \<Rightarrow> host_rollup list" where
  "host_rollup_rows label seconds since samples =
    (let xs = filter (\<lambda>s. since \<le> hs_CollectedAt s) samples in
     map (\<lambda>k. host_rollup_row label k (filter (\<lambda>s. host_key seconds s = k) xs)) (remdups (map (host_key seconds) xs)))"

definition vm_rollup_rows :: "string \<Rightarrow> int \<Rightarrow> int \<Rightarrow> VMMetricSample list \<Rightarrow> vm_rollup list" where
  "vm_rollup_rows label seconds since samples =
    (let xs = filter (\<lambda>s. since \<le> vs_CollectedAt s) samples in
     map (\<lambda>k. vm_rollup_row label k (filter (\<lambda>s. vm_key seconds s = k) xs)) (remdups (map (vm_key seconds) xs)))"

text \<open>\<open>ON CONFLICT ... DO UPDATE\<close>: the row with the key takes the values of the new one; the agent of a
  machine's row is not among the values it takes.\<close>

definition put_row :: "('r \<Rightarrow> 'k) \<Rightarrow> ('r \<Rightarrow> 'r \<Rightarrow> 'r) \<Rightarrow> 'r \<Rightarrow> 'r list \<Rightarrow> 'r list" where
  "put_row key upd r rows =
    (if key r \<in> key ` set rows then map (\<lambda>q. if key q = key r then upd r q else q) rows else rows @ [r])"

definition host_rollup_key :: "host_rollup \<Rightarrow> string \<times> int \<times> string" where
  "host_rollup_key r = (hr_bucket_size r, hr_bucket_at r, hr_agent_id r)"

definition vm_rollup_key :: "vm_rollup \<Rightarrow> string \<times> int \<times> string" where
  "vm_rollup_key r = (vr_bucket_size r, vr_bucket_at r, vr_vm_id r)"

text \<open>A statement that would change a row twice is refused: two agents with a machine of the same identifier.\<close>

definition UpsertMetricRollups :: "string \<Rightarrow> int \<Rightarrow> int \<Rightarrow> unit db_prog" where
  "UpsertMetricRollups bucketSize bucket since =
    bindp (exec (\<lambda>d. d\<lparr>host_rollups := fold (put_row host_rollup_key (\<lambda>r q. r))
      (host_rollup_rows bucketSize bucket since (host_samples d)) (host_rollups d)\<rparr>)) (\<lambda>_.
    stmt (\<lambda>d. let new = vm_rollup_rows bucketSize bucket since (vm_samples d) in
      if \<not> distinct (map vm_rollup_key new) then (Inl DbFailure, d)
      else (Inr (), d\<lparr>vm_rollups := fold (put_row vm_rollup_key (\<lambda>r q. r\<lparr>vr_agent_id := vr_agent_id q\<rparr>))
        new (vm_rollups d)\<rparr>)))"

definition DeleteMetricSamplesBefore :: "int \<Rightarrow> unit db_prog" where
  "DeleteMetricSamplesBefore before =
    bindp (exec (\<lambda>d. d\<lparr>vm_samples := filter (\<lambda>s. \<not> vs_CollectedAt s < before) (vm_samples d)\<rparr>)) (\<lambda>_.
    exec (\<lambda>d. d\<lparr>host_samples := filter (\<lambda>s. \<not> hs_CollectedAt s < before) (host_samples d)\<rparr>))"

section \<open>The jobs\<close>

definition rollup_jobs :: "int \<Rightarrow> (string \<times> int \<times> int) list" where
  "rollup_jobs t = [(''5m'', 5 * 60, t - 48 * 3600), (''30m'', 30 * 60, t - 14 * 24 * 3600),
     (''1h'', 3600, t - 60 * 24 * 3600), (''24h'', 24 * 3600, t - 180 * 24 * 3600)]"

definition updateMetricRollups :: "(db, 'e, unit) prog" where
  "updateMetricRollups = bindp now (\<lambda>t.
     for_each (\<lambda>(label, bucket, since). ignore (UpsertMetricRollups label bucket since)) (rollup_jobs t))"

definition cleanupOldMetrics :: "int \<Rightarrow> (db, 'e, unit) prog" where
  "cleanupOldMetrics retentionDays = bindp now (\<lambda>t. ignore (DeleteMetricSamplesBefore (t - retentionDays * 24 * 3600)))"

definition cleanupOldLogs :: "int \<Rightarrow> (db, 'e, unit) prog" where
  "cleanupOldLogs retentionDays = bindp now (\<lambda>t. ignore (DeleteLogRecordsBefore (t - retentionDays * 24 * 3600)))"

section \<open>The endpoints\<close>

text \<open>\<open>parse layout text\<close> is \<open>time.Parse\<close>; \<open>param\<close> gives the parameters of the query, empty when missing.\<close>

definition parseMetricTime :: "(string \<Rightarrow> string \<Rightarrow> int option) \<Rightarrow> string \<Rightarrow> int option" where
  "parseMetricTime parse value = (let trimmed = TrimSpace value in
     if trimmed = [] then None
     else case parse ''2006-01-02T15:04:05Z07:00'' trimmed of
       Some t \<Rightarrow> Some t
     | None \<Rightarrow> parse ''2006-01-02T15:04'' trimmed)"

definition metricBucket :: "int \<Rightarrow> int" where
  "metricBucket window =
    (if window \<le> 24 * 3600 then 60 else if window \<le> 7 * 24 * 3600 then 30 * 60
     else if window \<le> 30 * 24 * 3600 then 3600 else 24 * 3600)"

definition metricRange ::
  "(string \<Rightarrow> string \<Rightarrow> int option) \<Rightarrow> int \<Rightarrow> (string \<Rightarrow> string) \<Rightarrow> (string \<times> int \<times> int \<times> int) option" where
  "metricRange parse t param =
    (let asked = TrimSpace (param ''range'') in
     if EqualFold asked ''custom'' then
       (case (parseMetricTime parse (param ''start''), parseMetricTime parse (param ''end'')) of
          (Some start, Some stop) \<Rightarrow>
            if start < stop then Some (''custom'', start, stop, metricBucket (stop - start)) else None
        | _ \<Rightarrow> None)
     else if ToLower asked = ''24h'' then Some (''24h'', t - 24 * 3600, t, 30 * 60)
     else if ToLower asked = ''7d'' then Some (''7d'', t - 7 * 24 * 3600, t, 3600)
     else if ToLower asked = ''30d'' then Some (''30d'', t - 30 * 24 * 3600, t, 24 * 3600)
     else Some (''1h'', t - 3600, t, 60))"

definition normalizeHostMetricAgentID :: "string \<Rightarrow> string" where
  "normalizeHostMetricAgentID aid = (if EqualFold aid ''all'' then [] else aid)"

definition metric_answer ::
  "(string \<times> int \<times> int \<times> int) option \<Rightarrow> (int \<Rightarrow> int \<Rightarrow> int \<Rightarrow> MetricPoint list db_prog) \<Rightarrow> (db, 'e, response) prog" where
  "metric_answer window series = (case window of
     None \<Rightarrow> ret (writeError 400 ''invalid_metric_range'')
   | Some (label, since, until, bucket) \<Rightarrow>
       bindp (attempt (series since until bucket)) (\<lambda>r.
       case r of
         Inl _ \<Rightarrow> ret (writeError 500 ''list_metrics_failed'')
       | Inr items \<Rightarrow> ret (200, BMetrics label bucket items)))"

definition handleHostMetrics ::
  "(string \<Rightarrow> string \<Rightarrow> int option) \<Rightarrow> user \<Rightarrow> string \<Rightarrow> (string \<Rightarrow> string) \<Rightarrow> (db, 'e, response) prog" where
  "handleHostMetrics parse u path param = guarded u ''hosts.read'' (
     let aid = normalizeHostMetricAgentID (TrimCut (TrimPrefix path ''/api/metrics/hosts/'') ''/'') in
     if Contains aid ''/'' then ret (writeError 404 ''not_found'')
     else bindp now (\<lambda>t. metric_answer (metricRange parse t param) (ListHostMetricSeries aid)))"

definition handleVMMetrics ::
  "(string \<Rightarrow> string \<Rightarrow> int option) \<Rightarrow> user \<Rightarrow> string \<Rightarrow> (string \<Rightarrow> string) \<Rightarrow> (db, 'e, response) prog" where
  "handleVMMetrics parse u path param = guarded u ''vms.read'' (
     let i = TrimCut (TrimPrefix path ''/api/metrics/vms/'') ''/'' in
     if i = [] then ret (writeError 404 ''not_found'')
     else bindp now (\<lambda>t. metric_answer (metricRange parse t param) (ListVMMetricSeries i)))"

end
