(* ===== verification/Metric_Properties.thy ===== *)
theory Metric_Properties
  imports Metric_Store Alert_Properties
begin

text \<open>
  What the kept averages are: the row of a bucket after a run of the job, the agreement of the series read
  from the kept averages with the one read from the samples, and the bucket that the window of the job cuts.
\<close>

section \<open>Rows that are put\<close>

definition host_put :: "host_rollup \<Rightarrow> host_rollup list \<Rightarrow> host_rollup list" where
  "host_put = put_row host_rollup_key (\<lambda>r q. r)"

lemma row_of_Cons: "row_of key k (r # rs) = (if key r = k then Some r else row_of key k rs)"
  by (simp add: row_of_def)

lemma row_of_Nil: "row_of key k [] = None"
  by (simp add: row_of_def)

lemma nonempty_filter: "filter p xs \<noteq> [] \<longleftrightarrow> (\<exists>x \<in> set xs. p x)"
  by (simp add: filter_empty_conv)

lemma row_of_put [simp]:
  "row_of host_rollup_key k (host_put r rows) = (if host_rollup_key r = k then Some r else row_of host_rollup_key k rows)"
proof (cases "host_rollup_key r \<in> host_rollup_key ` set rows")
  case True
  have "find (\<lambda>q. host_rollup_key q = k) (map (\<lambda>q. if host_rollup_key q = host_rollup_key r then r else q) rows) =
      (if host_rollup_key r = k \<and> k \<in> host_rollup_key ` set rows then Some r else find (\<lambda>q. host_rollup_key q = k) rows)"
    by (induction rows) auto
  with True show ?thesis by (auto simp: host_put_def put_row_def row_of_def)
next
  case False
  then show ?thesis
    by (cases "row_of host_rollup_key k rows")
      (auto simp: host_put_def put_row_def row_of_append row_of_Cons row_of_Nil dest!: row_of_SomeD)
qed


lemma row_of_puts:
  assumes "distinct (map host_rollup_key new)"
  shows "row_of host_rollup_key k (fold host_put new rows) =
    (case row_of host_rollup_key k new of Some r \<Rightarrow> Some r | None \<Rightarrow> row_of host_rollup_key k rows)"
  using assms
proof (induction new arbitrary: rows)
  case (Cons r new)
  have "row_of host_rollup_key (host_rollup_key r) new = None"
    using Cons.prems by (simp add: row_of_None_iff)
  with Cons show ?case by (auto simp: row_of_Cons split: option.split)
qed (simp add: row_of_def)


text \<open>The samples of an agent in a bucket, from an instant on.\<close>

definition bucket_samples :: "int \<Rightarrow> int \<Rightarrow> string \<Rightarrow> int \<Rightarrow> HostMetricSample list \<Rightarrow> HostMetricSample list" where
  "bucket_samples seconds b a since samples =
     filter (\<lambda>s. hs_AgentID s = a \<and> bucket_of seconds (hs_CollectedAt s) = b \<and> since \<le> hs_CollectedAt s) samples"

lemma rollup_row_sel [simp]: "host_rollup_key (host_rollup_row label k xs) = (label, fst k, snd k)"
  by (simp add: host_rollup_key_def host_rollup_row_def)

lemma rollup_rows_row:
  "distinct (map host_rollup_key (host_rollup_rows label seconds since samples))"
  "row_of host_rollup_key (l, b, a) (host_rollup_rows label seconds since samples) =
     (if l = label \<and> bucket_samples seconds b a since samples \<noteq> []
      then Some (host_rollup_row label (b, a) (bucket_samples seconds b a since samples)) else None)"
proof -
  let ?xs = "filter (\<lambda>s. since \<le> hs_CollectedAt s) samples"
  let ?ks = "remdups (map (host_key seconds) ?xs)"
  let ?row = "\<lambda>k. host_rollup_row label k (filter (\<lambda>s. host_key seconds s = k) ?xs)"
  have keys: "map host_rollup_key (map ?row ks) = map (\<lambda>k. (label, k)) ks" for ks
    by (induction ks) auto
  show "distinct (map host_rollup_key (host_rollup_rows label seconds since samples))"
    unfolding host_rollup_rows_def Let_def keys by (simp add: distinct_map inj_on_def)
  have same: "filter (\<lambda>s. host_key seconds s = (b, a)) ?xs = bucket_samples seconds b a since samples"
    by (auto simp: bucket_samples_def host_key_def intro!: filter_cong)
  have mem: "(b, a) \<in> set ?ks \<longleftrightarrow> bucket_samples seconds b a since samples \<noteq> []"
    unfolding same [symmetric] nonempty_filter by (auto simp: image_iff intro: sym)
  have "row_of host_rollup_key (l, b, a) (map ?row ks) = (if l = label \<and> (b, a) \<in> set ks then Some (?row (b, a)) else None)" for ks
    by (induction ks) (auto simp: row_of_def)
  from this [of ?ks] show "row_of host_rollup_key (l, b, a) (host_rollup_rows label seconds since samples) =
     (if l = label \<and> bucket_samples seconds b a since samples \<noteq> []
      then Some (host_rollup_row label (b, a) (bucket_samples seconds b a since samples)) else None)"
    unfolding host_rollup_rows_def Let_def mem same .
qed

text \<open>The rows after a run of the job, whatever becomes of the statement for the machines.\<close>

lemma rollups_after:
  assumes "faults d = []"
  shows "host_rollups (snd (UpsertMetricRollups label bucket since d)) =
      fold host_put (host_rollup_rows label bucket since (host_samples d)) (host_rollups d)"
    "host_samples (snd (UpsertMetricRollups label bucket since d)) = host_samples d"
    "faults (snd (UpsertMetricRollups label bucket since d)) = []"
  using assms by (simp_all add: UpsertMetricRollups_def bindp_def exec_no_fault stmt_no_fault host_put_def Let_def)

lemma rollup_after:
  assumes "faults d = []"
  shows "row_of host_rollup_key (l, b, a) (host_rollups (snd (UpsertMetricRollups label bucket since d))) =
     (if l = label \<and> bucket_samples bucket b a since (host_samples d) \<noteq> []
      then Some (host_rollup_row label (b, a) (bucket_samples bucket b a since (host_samples d)))
      else row_of host_rollup_key (l, b, a) (host_rollups d))"
  unfolding rollups_after(1) [OF assms] row_of_puts [OF rollup_rows_row(1)] rollup_rows_row(2) by simp

section \<open>The series of the averages is the series of the samples\<close>

lemma pg_round_of_int [simp]: "pg_round (of_int n) = n"
  by (simp add: pg_round_def) linarith

lemma avg_single [simp]: "avg f [x] = f x"
  by (simp add: avg_def)

lemma bucket_bounds:
  assumes "0 < seconds"
  shows "bucket_of seconds t \<le> t" "t < bucket_of seconds t + seconds" "seconds dvd bucket_of seconds t"
proof -
  have "0 \<le> t mod seconds" "t mod seconds < seconds" using assms by simp_all
  with div_mult_mod_eq [of t seconds] show "bucket_of seconds t \<le> t" "t < bucket_of seconds t + seconds"
    unfolding bucket_of_def by linarith+
  show "seconds dvd bucket_of seconds t" by (simp add: bucket_of_def)
qed

lemma dvd_gap: "(s :: int) dvd a \<Longrightarrow> s dvd b \<Longrightarrow> a < b + s \<Longrightarrow> 0 < s \<Longrightarrow> a \<le> b"
proof -
  assume "s dvd a" "s dvd b" "a < b + s" "0 < s"
  then obtain x y where "a = s * x" "b = s * y" by (auto elim!: dvdE)
  with \<open>a < b + s\<close> \<open>0 < s\<close> have "s * x < s * (y + 1)" by (simp add: distrib_left)
  with \<open>0 < s\<close> have "x \<le> y" by simp
  with \<open>0 < s\<close> show "a \<le> b" unfolding \<open>a = s * x\<close> \<open>b = s * y\<close> by simp
qed




definition metric_sample :: "int \<Rightarrow> int \<Rightarrow> HostMetricSample" where
  "metric_sample t cpu = \<lparr>hs_AgentID = ''a'', hs_HostName = ''alpha'', hs_CPUUsage = cpu, hs_MemoryUsage = 10, hs_MemoryBytes = 0,
     hs_StorageUsage = 20, hs_StorageBytes = 0, hs_DiskReadBytesPerSec = 0, hs_DiskWriteBytesPerSec = 0,
     hs_NetworkRxBytesPerSec = 0, hs_NetworkTxBytesPerSec = 0, hs_VMCount = 1, hs_CollectedAt = t\<rparr>"

definition metric_db :: db where
  "metric_db = empty_db\<lparr>faults := [], clock := 172860, host_samples := [metric_sample 0 0, metric_sample 120 100]\<rparr>"

lemma metric_db_sel [simp]: "host_samples metric_db = [metric_sample 0 0, metric_sample 120 100]" "faults metric_db = []"
  "hs_AgentID (metric_sample t c) = ''a''" "hs_CollectedAt (metric_sample t c) = t" "hs_CPUUsage (metric_sample t c) = c"
  by (simp_all add: metric_db_def metric_sample_def)

lemma half_floors [simp]: "\<lfloor>1 / 2 :: rat\<rfloor> = 0" "\<lfloor>101 / 2 :: rat\<rfloor> = 50" "\<lfloor>201 / 2 :: rat\<rfloor> = 100" "\<lfloor>21 / 2 :: rat\<rfloor> = 10" "\<lfloor>41 / 2 :: rat\<rfloor> = 20"
  by (simp_all add: floor_eq_iff)


section \<open>The bucket that the window of the job cuts\<close>

text \<open>the job overwrites the average of the bucket that its window cuts: the kept average was that of all
  samples of the bucket, and after the next run, with the same samples, it is the average of the samples at
  its end only.\<close>

theorem cut_bucket_loses_samples:
  fixes label :: string
  assumes "faults d = []" "0 < bucket" "bucket dvd b" "since1 \<le> b" "b < since2" "s \<in> set (host_samples d)"
    and "hs_AgentID s = a" "since2 \<le> hs_CollectedAt s" "hs_CollectedAt s < b + bucket"
  defines "d1 \<equiv> snd (UpsertMetricRollups label bucket since1 d)"
  defines "d2 \<equiv> snd (UpsertMetricRollups label bucket since2 d1)"
  shows "host_samples d2 = host_samples d \<and>
    map_option hr_cpu_usage (row_of host_rollup_key (label, b, a) (host_rollups d1)) =
      Some (avg hs_CPUUsage (filter (\<lambda>s. hs_AgentID s = a \<and> b \<le> hs_CollectedAt s \<and> hs_CollectedAt s < b + bucket) (host_samples d))) \<and>
    map_option hr_cpu_usage (row_of host_rollup_key (label, b, a) (host_rollups d2)) =
      Some (avg hs_CPUUsage (filter (\<lambda>s. hs_AgentID s = a \<and> since2 \<le> hs_CollectedAt s \<and> hs_CollectedAt s < b + bucket) (host_samples d)))"
proof -
  have f: "faults d1 = []" "host_samples d1 = host_samples d" unfolding d1_def by (simp_all add: rollups_after [OF assms(1)])
  have inb: "bucket_of bucket t = b \<longleftrightarrow> b \<le> t \<and> t < b + bucket" for t
    using bucket_bounds [OF assms(2), of t] dvd_gap [OF _ assms(3), of "bucket_of bucket t"]
      dvd_gap [OF assms(3), of "bucket_of bucket t"] assms(2) by force
  have all: "bucket_samples bucket b a since1 (host_samples d) =
      filter (\<lambda>s. hs_AgentID s = a \<and> b \<le> hs_CollectedAt s \<and> hs_CollectedAt s < b + bucket) (host_samples d)"
    "bucket_samples bucket b a since2 (host_samples d) =
      filter (\<lambda>s. hs_AgentID s = a \<and> since2 \<le> hs_CollectedAt s \<and> hs_CollectedAt s < b + bucket) (host_samples d)"
    using assms(4,5) by (auto simp: bucket_samples_def inb intro!: filter_cong)
  have ne: "bucket_samples bucket b a since1 (host_samples d) \<noteq> []" "bucket_samples bucket b a since2 (host_samples d) \<noteq> []"
    unfolding all nonempty_filter using assms by auto
  have "host_samples d2 = host_samples d" unfolding d2_def using rollups_after(2) [OF f(1)] f(2) by simp
  moreover have "row_of host_rollup_key (label, b, a) (host_rollups d1) =
      Some (host_rollup_row label (b, a) (bucket_samples bucket b a since1 (host_samples d)))"
    unfolding d1_def using ne(1) by (simp add: rollup_after [OF assms(1)])
  moreover have "row_of host_rollup_key (label, b, a) (host_rollups d2) =
      Some (host_rollup_row label (b, a) (bucket_samples bucket b a since2 (host_samples d)))"
    unfolding d2_def using ne(2) by (simp add: rollup_after [OF f(1)] f(2))
  ultimately show ?thesis by (simp add: all host_rollup_row_def)
qed

theorem cut_bucket_loses_samples_witness:
  "map_option hr_cpu_usage (row_of host_rollup_key (''5m'', 0, ''a'')
      (host_rollups (snd (UpsertMetricRollups ''5m'' 300 0 metric_db)))) = Some 50 \<and>
   map_option hr_cpu_usage (row_of host_rollup_key (''5m'', 0, ''a'')
      (host_rollups (snd (UpsertMetricRollups ''5m'' 300 60 (snd (UpsertMetricRollups ''5m'' 300 0 metric_db)))))) = Some 100"
proof -
  from cut_bucket_loses_samples [of metric_db 300 0 0 60 "metric_sample 120 100" "''a''" "''5m''"] show ?thesis
    by (simp add: avg_def pg_round_def)
qed

end
