(* ===== verification/Sync_Helpers.thy ===== *)
theory Sync_Helpers
  imports Agent_Errors Runtime_Store
begin

text \<open>
  From what an agent reports to the state that is kept: the builders and normalisations of
  \<open>backend/internal/service/realtime/service.go\<close>, and \<open>merge.go\<close>. The answers of an agent are those of
  \<open>backend/pkg/agent\<close>.
\<close>

section \<open>What an agent reports\<close>

record HostInfo =
  hi_Hostname :: string
  hi_HostAddress :: string
  hi_Status :: string
  hi_KVMVersion :: string
  hi_KVMFullVersion :: string
  hi_CPUModel :: string
  hi_CPUCores :: int
  hi_CPUUsage :: int
  hi_MemoryBytes :: int
  hi_MemoryUsage :: int
  hi_StorageBytes :: int
  hi_StorageUsage :: int
  hi_DiskReadBytesPerSec :: int
  hi_DiskWriteBytesPerSec :: int
  hi_NetworkRxBytesPerSec :: int
  hi_NetworkTxBytesPerSec :: int
  hi_Capabilities :: "string list"

record AgentVM =
  av_Name :: string
  av_UUID :: string
  av_Description :: string
  av_OSType :: string
  av_Status :: string
  av_CPUCores :: int
  av_MemoryBytes :: int
  av_DiskBytes :: int
  av_DiskUsedBytes :: int
  av_Disks :: "VMDisk list"
  av_PrimaryIP :: string
  av_CPUUsage :: int
  av_CPUUsageAvailable :: bool
  av_MemoryUsage :: int
  av_MemoryUsageAvailable :: bool
  av_DiskUsage :: int
  av_DiskUsageAvailable :: bool
  av_DiskReadBytesPerSec :: int
  av_DiskWriteBytesPerSec :: int
  av_NetworkRxBytesPerSec :: int
  av_NetworkTxBytesPerSec :: int
  av_UptimeSeconds :: int

record AgentSnapshot =
  as_Name :: string
  as_Status :: string
  as_CreatedAt :: string

section \<open>Normalisations\<close>

fun firstNonEmpty :: "string list \<Rightarrow> string" where
  "firstNonEmpty [] = []"
| "firstNonEmpty (v # vs) = (if TrimSpace v \<noteq> [] then TrimSpace v else firstNonEmpty vs)"

definition normalizeHostStatus :: "string \<Rightarrow> string" where
  "normalizeHostStatus status = (let s = ToLower (TrimSpace status) in
     if s \<in> {''online'', ''degraded'', ''maintenance''} then s
     else if s = ''offline'' then ''offline'' else ''online'')"

definition normalizeVMStatus :: "string \<Rightarrow> string" where
  "normalizeVMStatus status = (let s = ToLower (TrimSpace status) in
     if s \<in> {''running'', ''stopped'', ''paused'', ''error''} then s
     else if s \<in> {''shut off'', ''shutoff'', ''off''} then ''stopped''
     else if TrimSpace status = [] then ''unknown'' else s)"

definition normalizeSnapshotStatus :: "string \<Rightarrow> string" where
  "normalizeSnapshotStatus status = (let s = ToLower (TrimSpace status) in
     if s \<in> {''ready'', ''creating'', ''failed''} then s
     else if s = ''current'' then ''ready'' else ''ready'')"

definition clampPercent :: "int \<Rightarrow> int" where
  "clampPercent value = (if value < 0 then 0 else if value > 100 then 100 else value)"

definition vmRuntimeID :: "string \<Rightarrow> string \<Rightarrow> string \<Rightarrow> string" where
  "vmRuntimeID agentID name uuid = (let key = TrimSpace uuid in
     agentID @ '':'' @ (if key = [] then name else key))"

definition snapshotRuntimeID :: "string \<Rightarrow> string \<Rightarrow> string" where
  "snapshotRuntimeID vmID name = vmID @ '':snapshot:'' @ name"

text \<open>The layouts are tried in order; \<open>parse layout text\<close> is \<open>time.Parse\<close>.\<close>

definition snapshot_layouts :: "string list" where
  "snapshot_layouts = [''2006-01-02 15:04:05 -0700'', ''2006-01-02 15:04:05 MST'', ''2006-01-02T15:04:05Z07:00'']"

fun first_parsed :: "(string \<Rightarrow> string \<Rightarrow> int option) \<Rightarrow> string \<Rightarrow> string list \<Rightarrow> int option" where
  "first_parsed parse value [] = None"
| "first_parsed parse value (l # ls) = (case parse l value of Some t \<Rightarrow> Some t | None \<Rightarrow> first_parsed parse value ls)"

definition parseAgentSnapshotTime :: "(string \<Rightarrow> string \<Rightarrow> int option) \<Rightarrow> string \<Rightarrow> int \<Rightarrow> int" where
  "parseAgentSnapshotTime parse value fb = (let trimmed = TrimSpace value in
     if trimmed = [] then fb
     else case first_parsed parse trimmed snapshot_layouts of None \<Rightarrow> fb | Some t \<Rightarrow> t)"

section \<open>Builders\<close>

definition convertVMDiskList :: "VMDisk list \<Rightarrow> VMDisk list" where
  "convertVMDiskList items = map (\<lambda>i. \<lparr>vd_Name = vd_Name i, vd_Path = vd_Path i, vd_Bytes = vd_Bytes i, vd_UsedBytes = vd_UsedBytes i\<rparr>) items"

definition buildRuntimeSnapshot ::
  "(string \<Rightarrow> string \<Rightarrow> int option) \<Rightarrow> agent \<Rightarrow> string \<Rightarrow> string \<Rightarrow> AgentSnapshot \<Rightarrow> int \<Rightarrow> Snapshot" where
  "buildRuntimeSnapshot parse item vmName vmID remote t =
    \<lparr>sn_ID = snapshotRuntimeID vmID (as_Name remote), sn_HostID = agent_id item, sn_HostName = agent_name item,
     sn_VMID = vmID, sn_VMName = vmName, sn_Name = as_Name remote, sn_DisplayName = [], sn_Description = [], sn_Tags = [],
     sn_SizeBytes = 0, sn_Type = ''snapshot'', sn_Status = normalizeSnapshotStatus (as_Status remote),
     sn_CreatedAt = parseAgentSnapshotTime parse (as_CreatedAt remote) t, sn_UpdatedAt = t\<rparr>"

definition build_vm :: "agent \<Rightarrow> HostInfo \<Rightarrow> int \<Rightarrow> AgentVM \<Rightarrow> VirtualMachine" where
  "build_vm item info t remote =
    \<lparr>vm_ID = vmRuntimeID (agent_id item) (av_Name remote) (av_UUID remote), vm_HostID = agent_id item,
     vm_HostName = firstNonEmpty [hi_HostAddress info, agent_endpoint item], vm_Name = av_Name remote,
     vm_UUID = av_UUID remote, vm_Description = av_Description remote, vm_OSType = av_OSType remote,
     vm_Status = normalizeVMStatus (av_Status remote), vm_CPUCores = av_CPUCores remote,
     vm_MemoryBytes = av_MemoryBytes remote, vm_DiskBytes = av_DiskBytes remote,
     vm_DiskUsedBytes = av_DiskUsedBytes remote, vm_Disks = convertVMDiskList (av_Disks remote),
     vm_PrimaryIP = av_PrimaryIP remote, vm_CPUUsage = clampPercent (av_CPUUsage remote),
     vm_CPUUsageAvailable = av_CPUUsageAvailable remote, vm_MemoryUsage = clampPercent (av_MemoryUsage remote),
     vm_MemoryUsageAvailable = av_MemoryUsageAvailable remote, vm_DiskUsage = clampPercent (av_DiskUsage remote),
     vm_DiskUsageAvailable = av_DiskUsageAvailable remote, vm_DiskReadBytesPerSec = av_DiskReadBytesPerSec remote,
     vm_DiskWriteBytesPerSec = av_DiskWriteBytesPerSec remote, vm_NetworkRxBytesPerSec = av_NetworkRxBytesPerSec remote,
     vm_NetworkTxBytesPerSec = av_NetworkTxBytesPerSec remote, vm_UptimeSeconds = av_UptimeSeconds remote,
     vm_IsTemplate = False, vm_TemplateID = [], vm_TemplateName = [], vm_TemplateDescription = [],
     vm_CreatedAt = agent_created_at item, vm_UpdatedAt = t\<rparr>"

text \<open>A Go map as the list of its entries: a value under a key that is there replaces the old one.\<close>

definition map_put :: "'k \<Rightarrow> 'v \<Rightarrow> ('k \<times> 'v) list \<Rightarrow> ('k \<times> 'v) list" where
  "map_put k v m = (if k \<in> fst ` set m then map (\<lambda>(k', v'). (k', if k' = k then v else v')) m else m @ [(k, v)])"

definition buildRuntimeVMs :: "agent \<Rightarrow> HostInfo \<Rightarrow> AgentVM list \<Rightarrow> int \<Rightarrow> (string \<times> VirtualMachine) list" where
  "buildRuntimeVMs item info remoteVMs t =
    fold (\<lambda>remote vms. map_put (vmRuntimeID (agent_id item) (av_Name remote) (av_UUID remote)) (build_vm item info t remote) vms)
      remoteVMs []"

definition build_host :: "agent \<Rightarrow> HostInfo \<Rightarrow> int \<Rightarrow> int \<Rightarrow> Host" where
  "build_host item info vmCount t =
    \<lparr>h_ID = agent_id item, h_Name = agent_name item, h_Address = firstNonEmpty [hi_HostAddress info, agent_endpoint item],
     h_Hostname = hi_Hostname info, h_Cluster = ''default'', h_Status = normalizeHostStatus (hi_Status info),
     h_CPUCores = hi_CPUCores info, h_CPUUsage = clampPercent (hi_CPUUsage info), h_MemoryBytes = hi_MemoryBytes info,
     h_MemoryUsage = clampPercent (hi_MemoryUsage info), h_StorageBytes = hi_StorageBytes info,
     h_StorageUsage = clampPercent (hi_StorageUsage info), h_DiskReadBytesPerSec = hi_DiskReadBytesPerSec info,
     h_DiskWriteBytesPerSec = hi_DiskWriteBytesPerSec info, h_NetworkRxBytesPerSec = hi_NetworkRxBytesPerSec info,
     h_NetworkTxBytesPerSec = hi_NetworkTxBytesPerSec info, h_VMCount = vmCount, h_KVMVersion = hi_KVMVersion info,
     h_KVMFullVersion = hi_KVMFullVersion info, h_CreatedAt = agent_created_at item, h_UpdatedAt = t\<rparr>"

section \<open>Keeping what a fast report leaves out\<close>

definition osTypeConfidence :: "string \<Rightarrow> nat" where
  "osTypeConfidence value = (let low = ToLower (TrimSpace value) in
     if low = [] then 0
     else if HasSuffix low '' virtualization'' \<or> low \<in> {''windows'', ''centos'', ''ubuntu'', ''debian'', ''rocky linux'',
       ''almalinux'', ''fedora''} then 1
     else 2)"

definition shouldPreservePreviousOSType :: "string \<Rightarrow> string \<Rightarrow> bool" where
  "shouldPreservePreviousOSType current0 previous0 =
    (let current = TrimSpace current0; previous = TrimSpace previous0 in
     if previous = [] then False
     else if current = [] then True
     else if EqualFold current previous then False
     else osTypeConfidence current < osTypeConfidence previous)"

definition usablePrimaryIP :: "string \<Rightarrow> bool" where
  "usablePrimaryIP value0 = (let value = TrimSpace value0 in
     value \<noteq> [] \<and> \<not> HasPrefix value ''127.'' \<and> \<not> HasPrefix value ''169.254.'')"

definition mergeFastRuntimeDetails :: "VirtualMachine \<Rightarrow> VirtualMachine \<Rightarrow> VirtualMachine" where
  "mergeFastRuntimeDetails current previous =
    (let c1 = (if shouldPreservePreviousOSType (vm_OSType current) (vm_OSType previous)
           then current\<lparr>vm_OSType := vm_OSType previous\<rparr> else current);
         c2 = (if TrimSpace (vm_Description c1) = [] then c1\<lparr>vm_Description := vm_Description previous\<rparr> else c1);
         c3 = (if \<not> usablePrimaryIP (vm_PrimaryIP c2) then c2\<lparr>vm_PrimaryIP := vm_PrimaryIP previous\<rparr> else c2);
         c4 = (if vm_DiskBytes c3 \<le> 0 then c3\<lparr>vm_DiskBytes := vm_DiskBytes previous, vm_DiskUsedBytes := vm_DiskUsedBytes previous,
             vm_Disks := vm_Disks previous, vm_DiskUsage := vm_DiskUsage previous,
             vm_DiskUsageAvailable := vm_DiskUsageAvailable previous\<rparr> else c3) in
     if \<not> vm_MemoryUsageAvailable c4 \<and> vm_MemoryUsageAvailable previous
     then c4\<lparr>vm_MemoryUsage := vm_MemoryUsage previous, vm_MemoryUsageAvailable := vm_MemoryUsageAvailable previous\<rparr>
     else c4)"

text \<open>The loops over the reported machines: a machine without a known predecessor, or whose predecessor
  cannot be read, stays as it is.\<close>

definition merge_with ::
  "('r, 'v) redis_client \<Rightarrow> (VirtualMachine \<Rightarrow> VirtualMachine \<Rightarrow> VirtualMachine) \<Rightarrow> (string \<times> VirtualMachine) list \<Rightarrow>
   ('r, (string \<times> VirtualMachine) list) redis_prog" where
  "merge_with c f vms = map_prog (\<lambda>(i, current).
     bindp (attempt (GetVM c i)) (\<lambda>r.
     case r of Inr (Some previous) \<Rightarrow> ret (i, f current previous) | _ \<Rightarrow> ret (i, current))) vms"

definition mergeFastRuntime ::
  "('r, 'v) redis_client \<Rightarrow> (string \<times> VirtualMachine) list \<Rightarrow> ('r, (string \<times> VirtualMachine) list) redis_prog" where
  "mergeFastRuntime c vms = merge_with c mergeFastRuntimeDetails vms"

definition mergeRuntimeDetails ::
  "('r, 'v) redis_client \<Rightarrow> (string \<times> VirtualMachine) list \<Rightarrow> ('r, (string \<times> VirtualMachine) list) redis_prog" where
  "mergeRuntimeDetails c vms = merge_with c (\<lambda>current previous.
     if shouldPreservePreviousOSType (vm_OSType current) (vm_OSType previous)
     then current\<lparr>vm_OSType := vm_OSType previous\<rparr> else current) vms"

end
