(* ===== verification/Metric_Stream.thy ===== *)
theory Metric_Stream
  imports Metric_Store Refresh
begin

text \<open>
  The stream of samples in Redis: \<open>backend/internal/service/realtime/metrics_stream.go\<close>. The client and the
  JSON text of an event are arguments; the walk over the map of machines is the list of its values.
\<close>

text \<open>A call of the Redis client from the service.\<close>

definition on_redis :: "('r, 'a) redis_prog \<Rightarrow> ('r, 'a) service_prog" where
  "on_redis m s = (case m (rt_redis s) of
     (Inl e, r) \<Rightarrow> (Inl (RuntimeError e), s\<lparr>rt_redis := r\<rparr>) | (Inr x, r) \<Rightarrow> (Inr x, s\<lparr>rt_redis := r\<rparr>))"

definition metricStreamKey :: string where "metricStreamKey = ''kvm:metrics:samples''"
definition metricStreamGroup :: string where "metricStreamGroup = ''kvm-manager-metric-writers''"

record MetricSampleEvent =
  me_Host :: HostMetricSample
  me_VMs :: "VMMetricSample list"

definition vm_sample :: "string \<Rightarrow> int \<Rightarrow> VirtualMachine \<Rightarrow> VMMetricSample" where
  "vm_sample agentID collectedAt vm = \<lparr>vs_AgentID = agentID, vs_VMID = vm_ID vm, vs_VMName = vm_Name vm,
     vs_Status = vm_Status vm, vs_CPUUsage = vm_CPUUsage vm, vs_CPUUsageAvailable = vm_CPUUsageAvailable vm,
     vs_MemoryUsage = vm_MemoryUsage vm, vs_MemoryUsageAvailable = vm_MemoryUsageAvailable vm,
     vs_DiskUsage = vm_DiskUsage vm, vs_DiskUsageAvailable = vm_DiskUsageAvailable vm,
     vs_DiskReadBytesPerSec = vm_DiskReadBytesPerSec vm, vs_DiskWriteBytesPerSec = vm_DiskWriteBytesPerSec vm,
     vs_NetworkRxBytesPerSec = vm_NetworkRxBytesPerSec vm, vs_NetworkTxBytesPerSec = vm_NetworkTxBytesPerSec vm,
     vs_UptimeSeconds = vm_UptimeSeconds vm, vs_CollectedAt = collectedAt\<rparr>"

definition buildMetricEvent :: "string \<Rightarrow> Host \<Rightarrow> VirtualMachine list \<Rightarrow> int \<Rightarrow> MetricSampleEvent" where
  "buildMetricEvent agentID host vms collectedAt =
    \<lparr>me_Host = \<lparr>hs_AgentID = agentID, hs_HostName = h_Name host, hs_CPUUsage = h_CPUUsage host,
       hs_MemoryUsage = h_MemoryUsage host, hs_MemoryBytes = h_MemoryBytes host, hs_StorageUsage = h_StorageUsage host,
       hs_StorageBytes = h_StorageBytes host, hs_DiskReadBytesPerSec = h_DiskReadBytesPerSec host,
       hs_DiskWriteBytesPerSec = h_DiskWriteBytesPerSec host, hs_NetworkRxBytesPerSec = h_NetworkRxBytesPerSec host,
       hs_NetworkTxBytesPerSec = h_NetworkTxBytesPerSec host, hs_VMCount = h_VMCount host, hs_CollectedAt = collectedAt\<rparr>,
     me_VMs = map (vm_sample agentID collectedAt) vms\<rparr>"

text \<open>
  The calls the code makes: the payload of a message is missing or a text, a missing answer is \<open>redis.Nil\<close>,
  and the error of \<open>XGroupCreateMkStream\<close> is given by its text.
\<close>

record message =
  msg_ID :: string
  msg_payload :: "string option"

record 'r stream_client =
  x_add :: "string \<Rightarrow> string \<Rightarrow> ('r, unit) redis_prog"
  x_trim :: "string \<Rightarrow> int \<Rightarrow> ('r, unit) redis_prog"
  x_group_create :: "string \<Rightarrow> string \<Rightarrow> ('r, string, unit) prog"
  x_read_group :: "string \<Rightarrow> string \<Rightarrow> ('r, message list option) redis_prog"
  x_auto_claim :: "string \<Rightarrow> string \<Rightarrow> ('r, message list option) redis_prog"
  x_ack :: "string \<Rightarrow> string \<Rightarrow> string \<Rightarrow> ('r, unit) redis_prog"
  marshal_event :: "MetricSampleEvent \<Rightarrow> string option"
  unmarshal_event :: "string \<Rightarrow> MetricSampleEvent option"

definition appendMetricEvent :: "'r stream_client \<Rightarrow> MetricSampleEvent \<Rightarrow> ('r, unit) redis_prog" where
  "appendMetricEvent c event = (case marshal_event c event of
     None \<Rightarrow> fail JsonError | Some payload \<Rightarrow> x_add c metricStreamKey payload)"

definition trimMetricStream :: "'r stream_client \<Rightarrow> int \<Rightarrow> ('r, unit) redis_prog" where
  "trimMetricStream c maxLen = (if maxLen \<le> 0 then ret () else x_trim c metricStreamKey maxLen)"

text \<open>The loop over the places where the needle may start; \<open>stringsContains\<close> is \<open>strings.Contains\<close>.\<close>

fun stringsContains :: "string \<Rightarrow> string \<Rightarrow> bool" where
  "stringsContains value needle =
    (if length needle > length value then False
     else if take (length needle) value = needle then True
     else case value of [] \<Rightarrow> False | _ # rest \<Rightarrow> stringsContains rest needle)"

declare stringsContains.simps [simp del]

definition ensureMetricStreamGroup :: "'r stream_client \<Rightarrow> ('r, string, unit) prog" where
  "ensureMetricStreamGroup c =
    bindp (attempt (x_group_create c metricStreamKey metricStreamGroup)) (\<lambda>r.
    case r of
      Inr _ \<Rightarrow> ret ()
    | Inl e \<Rightarrow> if stringsContains e ''BUSYGROUP'' then ret () else fail e)"

definition ack :: "'r stream_client \<Rightarrow> message \<Rightarrow> ('r, unit) service_prog" where
  "ack c m = on_redis (x_ack c metricStreamKey metricStreamGroup (msg_ID m))"

definition consumeMetricMessage :: "'r stream_client \<Rightarrow> message \<Rightarrow> ('r, unit) service_prog" where
  "consumeMetricMessage c m = (case msg_payload m of
     None \<Rightarrow> ack c m
   | Some raw \<Rightarrow>
       if raw = [] then ack c m
       else case unmarshal_event c raw of
         None \<Rightarrow> fail (RuntimeError JsonError)
       | Some event \<Rightarrow>
           bindp (on_store (InsertMetricSamples (me_Host event) (me_VMs event))) (\<lambda>_. ack c m))"

definition claimPendingMetricMessages :: "'r stream_client \<Rightarrow> ('r, unit) service_prog" where
  "claimPendingMetricMessages c =
    bindp (attempt (on_redis (x_auto_claim c metricStreamKey metricStreamGroup))) (\<lambda>r.
    case r of
      Inr (Some ms) \<Rightarrow> for_each (\<lambda>m. ignore (consumeMetricMessage c m)) ms
    | _ \<Rightarrow> ret ())"

text \<open>One turn of the loop of \<open>runMetricWriter\<close>: after an empty or failed read it starts over.\<close>

definition metric_writer_turn :: "'r stream_client \<Rightarrow> ('r, unit) service_prog" where
  "metric_writer_turn c =
    bindp (attempt (on_redis (x_read_group c metricStreamKey metricStreamGroup))) (\<lambda>r.
    case r of
      Inr (Some ms) \<Rightarrow>
        bindp (for_each (\<lambda>m. ignore (consumeMetricMessage c m)) ms) (\<lambda>_. claimPendingMetricMessages c)
    | _ \<Rightarrow> ret ())"

section \<open>The search for a text\<close>

lemma take_HasPrefix: "length p \<le> length s \<and> take (length p) s = p \<longleftrightarrow> HasPrefix s p"
  by (auto simp: HasPrefix_append_iff) (metis append_take_drop_id)

lemma stringsContains_Contains: "stringsContains s needle = Contains s needle"
proof (induction s)
  case Nil
  then show ?case by (cases needle) (simp_all add: stringsContains.simps [of "[]"] Contains_def)
next
  case (Cons c s)
  have "\<not> Contains (c # s) needle" if "length needle > length (c # s)"
    using that by (auto simp: Contains_iff dest!: arg_cong [where f = length])
  with Cons take_HasPrefix [of needle "c # s"] show ?case
    by (auto simp: stringsContains.simps [of "c # s"] Contains_Cons not_less)
qed

end
