(* ===== verification/Sync_Service.thy ===== *)
theory Sync_Service
  imports Sync_Helpers Metric_Stream
begin

text \<open>
  The realtime service: \<open>backend/internal/service/realtime/service.go\<close> and \<open>syncAgents\<close> of \<open>sync_mode.go\<close>.
  A call to an agent takes time, in which other requests run: it is a program on the state of the service.
  Its deadline is one of its errors. The events for the browsers are left out.
\<close>

section \<open>The service\<close>

record agent_config =
  cfg_Endpoint :: string
  cfg_Token :: string
  cfg_TLSInsecure :: bool

type_synonym ('r, 'a) agent_call = "agent_config \<Rightarrow> ('r rt, agent_error, 'a) prog"

record 'r agent_client =
  ag_HostInfo :: "('r, HostInfo) agent_call"
  ag_ListVMs :: "('r, AgentVM list) agent_call"
  ag_ListVMsFast :: "('r, AgentVM list) agent_call"
  ag_VM :: "string \<Rightarrow> ('r, AgentVM) agent_call"
  ag_ListSnapshots :: "string \<Rightarrow> ('r, AgentSnapshot list) agent_call"

text \<open>
  \<open>sv_open_text\<close> and \<open>sv_text\<close> are the texts of errors of libraries, \<open>sv_parse\<close> is \<open>time.Parse\<close>, and
  \<open>sv_stream\<close> and \<open>sv_notifier\<close> may be nil.
\<close>

record ('r, 'v) realtime_service =
  sv_secret :: string
  sv_aead :: aead
  sv_open_text :: "open_error \<Rightarrow> string"
  sv_text :: "service_error \<Rightarrow> string"
  sv_store :: "('r, 'v) redis_client"
  sv_stream :: "'r stream_client option"
  sv_stream_max :: int
  sv_notifier :: "transport option"
  sv_agents :: "'r agent_client"
  sv_parse :: "string \<Rightarrow> string \<Rightarrow> int option"

definition config_of :: "agent \<Rightarrow> string \<Rightarrow> agent_config" where
  "config_of item token = \<lparr>cfg_Endpoint = agent_endpoint item, cfg_Token = token, cfg_TLSInsecure = agent_tls_insecure item\<rparr>"

text \<open>A program of the alerts, whose errors the service never sees, and the error that \<open>UserFacingErrorMessage\<close> reads.\<close>

definition on_alerts :: "('r, unit) rt_prog \<Rightarrow> ('r, unit) service_prog" where
  "on_alerts m = ignore m"

definition as_agent_error :: "(service_error \<Rightarrow> string) \<Rightarrow> service_error \<Rightarrow> agent_error" where
  "as_agent_error text e = (case e of
     AgentError a \<Rightarrow> a
   | Canceled \<Rightarrow> \<lparr>ae_kind = CanceledError, ae_text = text e\<rparr>
   | DeadlineExceeded \<Rightarrow> \<lparr>ae_kind = DeadlineError, ae_text = text e\<rparr>
   | MessageError m \<Rightarrow> \<lparr>ae_kind = PlainError, ae_text = m\<rparr>
   | _ \<Rightarrow> \<lparr>ae_kind = PlainError, ae_text = text e\<rparr>)"

definition record_failure :: "('r, 'v) realtime_service \<Rightarrow> agent \<Rightarrow> string \<Rightarrow> ('r, unit) service_prog" where
  "record_failure v item message = on_alerts (recordAgentSyncFailure (sv_notifier v) item message)"

text \<open>A call of a synchronisation: its failure is recorded and returned.\<close>

definition call_agent ::
  "('r, 'v) realtime_service \<Rightarrow> agent \<Rightarrow> ('r rt, agent_error, 'a) prog \<Rightarrow> ('r, 'a) service_prog" where
  "call_agent v item m =
    bindp (attempt m) (\<lambda>r.
    case r of
      Inr x \<Rightarrow> ret x
    | Inl e \<Rightarrow> bindp (record_failure v item (UserFacingErrorMessage e)) (\<lambda>_. fail (AgentError e)))"

section \<open>Registered agents\<close>

definition ensureAgentStillRegistered :: "('r, 'v) realtime_service \<Rightarrow> string \<Rightarrow> ('r, bool) service_prog" where
  "ensureAgentStillRegistered v agentID =
    bindp (attempt (on_store (GetAgent agentID))) (\<lambda>r.
    case r of
      Inr _ \<Rightarrow> ret True
    | Inl e \<Rightarrow>
        if e = RepoError ErrNotFound then bindp (on_redis (RemoveAgent (sv_store v) agentID)) (\<lambda>_. ret False)
        else fail e)"

text \<open>A write of the runtime store that is refused because the agent was deleted answers \<open>ErrNotFound\<close>.\<close>

definition store_runtime :: "('r, unit) redis_prog \<Rightarrow> ('r, unit) service_prog" where
  "store_runtime m =
    bindp (attempt (on_redis m)) (\<lambda>r.
    case r of
      Inr _ \<Rightarrow> ret ()
    | Inl e \<Rightarrow> if e = RuntimeError ErrAgentRuntimeDeleted then fail (RepoError ErrNotFound) else fail e)"

section \<open>The end of a synchronisation\<close>

definition append_metrics ::
  "('r, 'v) realtime_service \<Rightarrow> string \<Rightarrow> Host \<Rightarrow> VirtualMachine list \<Rightarrow> int \<Rightarrow> ('r, unit) service_prog" where
  "append_metrics v agentID host vms t = (case sv_stream v of
     None \<Rightarrow> ret ()
   | Some c \<Rightarrow>
       bindp (ignore (on_redis (appendMetricEvent c (buildMetricEvent agentID host vms t)))) (\<lambda>_.
       ignore (on_redis (trimMetricStream c (sv_stream_max v)))))"

definition report_success ::
  "('r, 'v) realtime_service \<Rightarrow> agent \<Rightarrow> HostInfo \<Rightarrow> Host \<Rightarrow> VirtualMachine list \<Rightarrow> int \<Rightarrow> ('r, unit) service_prog" where
  "report_success v item info host vms t =
    bindp (append_metrics v (agent_id item) host vms t) (\<lambda>_.
    bindp (on_alerts (evaluateRuntimeAlerts item host vms)) (\<lambda>_.
    bindp (on_alerts (notifyPendingAlerts (sv_notifier v))) (\<lambda>_.
    bindp (ignore (on_store (UpdateAgentSyncSuccess (agent_id item) (hi_KVMVersion info) (hi_Capabilities info)))) (\<lambda>_.
    bindp (on_alerts (resolveActiveAlertsBySource ''agent'' (agent_id item))) (\<lambda>_.
    on_alerts (notifyPendingAlerts (sv_notifier v)))))))"

section \<open>Snapshots\<close>

text \<open>
  The loop over machines, given by their names and identifiers: the snapshots of a machine that cannot be
  listed are left out.
\<close>

fun collect_snapshots ::
  "('r, 'v) realtime_service \<Rightarrow> agent \<Rightarrow> string \<Rightarrow> int \<Rightarrow> (string \<times> string) list \<Rightarrow> (string \<times> Snapshot) list \<Rightarrow>
   ('r, (string \<times> Snapshot) list) service_prog" where
  "collect_snapshots v item token t [] acc = ret acc"
| "collect_snapshots v item token t ((name, i) # ms) acc =
    bindp (attempt (ag_ListSnapshots (sv_agents v) name (config_of item token))) (\<lambda>r.
    case r of
      Inl _ \<Rightarrow> collect_snapshots v item token t ms acc
    | Inr remotes \<Rightarrow> collect_snapshots v item token t ms
        (fold (\<lambda>q. map_put (snapshotRuntimeID i (as_Name q)) (buildRuntimeSnapshot (sv_parse v) item name i q t)) remotes acc))"

definition SyncSnapshotsWithToken :: "('r, 'v) realtime_service \<Rightarrow> string \<Rightarrow> string \<Rightarrow> ('r, unit) service_prog" where
  "SyncSnapshotsWithToken v agentID token =
    bindp (on_store (GetAgent agentID)) (\<lambda>item.
    bindp (on_redis (ListVMs (sv_store v) [] [] agentID)) (\<lambda>vms.
    bindp time_now (\<lambda>t.
    bindp (collect_snapshots v item token t (map (\<lambda>vm. (vm_Name vm, vm_ID vm)) vms) []) (\<lambda>snapshots.
    store_runtime (ReplaceAgentSnapshots (sv_store v) agentID snapshots)))))"

section \<open>The synchronisation of an agent\<close>

definition syncWithToken ::
  "('r, 'v) realtime_service \<Rightarrow> agent \<Rightarrow> string \<Rightarrow> SyncMode \<Rightarrow> ('r, unit) service_prog" where
  "syncWithToken v item token mode =
    (let cfg = config_of item token; c = sv_store v in
     bindp (ignore (on_store (MarkAgentSyncStarted (agent_id item)))) (\<lambda>_.
     bindp (call_agent v item (ag_HostInfo (sv_agents v) cfg)) (\<lambda>info.
     bindp (call_agent v item ((if mode = SyncFast then ag_ListVMsFast else ag_ListVMs) (sv_agents v) cfg)) (\<lambda>remoteVMs.
     bindp time_now (\<lambda>t.
     let host = build_host item info (int (length remoteVMs)) t;
         vms0 = buildRuntimeVMs item info remoteVMs t in
     bindp (if mode = SyncFull then on_redis (mergeRuntimeDetails c vms0) else ret vms0) (\<lambda>vms1.
     bindp (if mode = SyncFull
       then collect_snapshots v item token t
         (map (\<lambda>r. (av_Name r, vmRuntimeID (agent_id item) (av_Name r) (av_UUID r))) remoteVMs) []
       else ret []) (\<lambda>snapshots.
     bindp (if mode = SyncFast then on_redis (mergeFastRuntime c vms1) else ret vms1) (\<lambda>vms.
     bindp (ensureAgentStillRegistered v (agent_id item)) (\<lambda>registered.
     if \<not> registered then fail (RepoError ErrNotFound)
     else
       bindp (store_runtime (SaveAgentRuntime c (agent_id item) host vms snapshots (mode = SyncFull))) (\<lambda>_.
       report_success v item info host (map snd vms) t))))))))))"

definition SyncAgentWithMode :: "('r, 'v) realtime_service \<Rightarrow> agent \<Rightarrow> SyncMode \<Rightarrow> ('r, unit) service_prog" where
  "SyncAgentWithMode v item mode =
    (case Open (sv_aead v) (sv_secret v) (agent_token_ciphertext item) of
       Inr (ch # rest) \<Rightarrow> syncWithToken v item (ch # rest) mode
     | opened \<Rightarrow>
         let message = (case opened of
           Inl e \<Rightarrow> UserFacingErrorMessage \<lparr>ae_kind = PlainError, ae_text = sv_open_text v e\<rparr>
         | Inr _ \<Rightarrow> zh ''4167656e7420e4bba4e7898ce4b88de58fafe794a8e4ba8ee887aae58aa8e588b7e696b0efbc8ce8afb7e9878de696b0e4bf9de5ad98204167656e74'') in
         bindp (record_failure v item message) (\<lambda>_. fail (MessageError message)))"

definition SyncAgent :: "('r, 'v) realtime_service \<Rightarrow> agent \<Rightarrow> ('r, unit) service_prog" where
  "SyncAgent v item = SyncAgentWithMode v item SyncFull"

definition SyncAll :: "('r, 'v) realtime_service \<Rightarrow> ('r, unit) service_prog" where
  "SyncAll v = bindp (attempt (on_store ListAgents)) (\<lambda>r.
     case r of Inl _ \<Rightarrow> ret () | Inr items \<Rightarrow> for_each (\<lambda>item. ignore (SyncAgent v item)) items)"

definition SyncAgentWithTokenMode ::
  "('r, 'v) realtime_service \<Rightarrow> string \<Rightarrow> string \<Rightarrow> SyncMode \<Rightarrow> ('r, unit) service_prog" where
  "SyncAgentWithTokenMode v i token mode =
    bindp (on_store (GetAgent i)) (\<lambda>item. syncWithToken v item token mode)"

definition SyncAgentWithToken :: "('r, 'v) realtime_service \<Rightarrow> string \<Rightarrow> string \<Rightarrow> ('r, unit) service_prog" where
  "SyncAgentWithToken v i token = SyncAgentWithTokenMode v i token SyncFull"

definition SyncAgentWithTokenFast :: "('r, 'v) realtime_service \<Rightarrow> string \<Rightarrow> string \<Rightarrow> ('r, unit) service_prog" where
  "SyncAgentWithTokenFast v i token = SyncAgentWithTokenMode v i token SyncFast"

text \<open>What a worker makes of one agent: an agent that is gone counts without an error.\<close>

definition sync_one :: "('r, 'v) realtime_service \<Rightarrow> SyncMode \<Rightarrow> agent \<Rightarrow> ('r, syncAgentResult) service_prog" where
  "sync_one v mode item =
    bindp (attempt (SyncAgentWithMode v item mode)) (\<lambda>r.
    let result = \<lparr>sr_ID = agent_id item, sr_Name = agent_name item, sr_Error = []\<rparr> in
    case r of
      Inr _ \<Rightarrow> ret result
    | Inl e \<Rightarrow> if e = RepoError ErrNotFound then ret result
        else ret (result\<lparr>sr_Error := UserFacingErrorMessage (as_agent_error (sv_text v) e)\<rparr>))"

text \<open>
  The workers take the agents in the order of the list; \<open>finished\<close> gives the ones whose synchronisation was
  started before the context ended, in the order in which they finish. The synchronisations are taken one
  after the other.
\<close>

definition syncAgents ::
  "('r, 'v) realtime_service \<Rightarrow> (agent list \<Rightarrow> agent list) \<Rightarrow> agent list \<Rightarrow> SyncMode \<Rightarrow> ('r, syncAgentResult list) service_prog" where
  "syncAgents v finished items mode = map_prog (sync_one v mode) (finished items)"

section \<open>One machine\<close>

definition mark_vm :: "VMTemplateMark \<Rightarrow> VirtualMachine \<Rightarrow> VirtualMachine" where
  "mark_vm m vm = vm\<lparr>vm_IsTemplate := True, vm_TemplateID := tm_id m, vm_TemplateName := tm_name m,
     vm_TemplateDescription := tm_description m\<rparr>"

definition applyTemplateMarkToVM :: "VirtualMachine \<Rightarrow> ('r, VirtualMachine) service_prog" where
  "applyTemplateMarkToVM vm =
    (if TrimSpace (vm_UUID vm) = [] then ret vm
     else bindp (attempt (on_store (GetVMTemplateMark (vm_HostID vm) (vm_UUID vm)))) (\<lambda>r.
       case r of Inl _ \<Rightarrow> ret vm | Inr m \<Rightarrow> ret (mark_vm m vm)))"

definition UpdateVMStatus ::
  "('r, 'v) realtime_service \<Rightarrow> string \<Rightarrow> string \<Rightarrow> ('r, VirtualMachine option) service_prog" where
  "UpdateVMStatus v i status =
    bindp (attempt (on_redis (GetVM (sv_store v) i))) (\<lambda>r.
    case r of
      Inr (Some vm0) \<Rightarrow>
        bindp time_now (\<lambda>t.
        let vm = vm0\<lparr>vm_Status := status, vm_UpdatedAt := t\<rparr> in
        bindp (attempt (on_redis (ListHosts (sv_store v)))) (\<lambda>hs.
        case hs of
          Inl _ \<Rightarrow> ret None
        | Inr hosts \<Rightarrow>
           (case find (\<lambda>h. h_ID h = vm_HostID vm) hosts of
              None \<Rightarrow> ret None
            | Some host \<Rightarrow>
                bindp (attempt (on_redis (UpdateVMRuntime (sv_store v) (vm_HostID vm) host vm))) (\<lambda>w.
                case w of
                  Inl _ \<Rightarrow> ret None
                | Inr _ \<Rightarrow> bindp (applyTemplateMarkToVM vm) (\<lambda>vm'. ret (Some vm'))))))
    | _ \<Rightarrow> ret None)"

definition RemoveVM :: "('r, 'v) realtime_service \<Rightarrow> string \<Rightarrow> string \<Rightarrow> ('r, bool) service_prog" where
  "RemoveVM v i agentID = bindp (attempt (on_redis (RemoveVMRuntime (sv_store v) agentID i))) (\<lambda>r.
     case r of Inl _ \<Rightarrow> ret False | Inr _ \<Rightarrow> ret True)"

text \<open>The report has one machine, under the identifier that is looked up; the test for its absence never holds.\<close>

definition SyncVMWithToken ::
  "('r, 'v) realtime_service \<Rightarrow> string \<Rightarrow> string \<Rightarrow> string \<Rightarrow> string \<Rightarrow> ('r, VirtualMachine) service_prog" where
  "SyncVMWithToken v i token vmID vmName =
    bindp (on_store (GetAgent i)) (\<lambda>item.
    let cfg = config_of item token; c = sv_store v in
    bindp (ignore (on_store (MarkAgentSyncStarted (agent_id item)))) (\<lambda>_.
    bindp (call_agent v item (ag_HostInfo (sv_agents v) cfg)) (\<lambda>info.
    bindp (call_agent v item (ag_VM (sv_agents v) vmName cfg)) (\<lambda>remote.
    bindp (attempt (on_redis (ListHosts c))) (\<lambda>hs.
    let hostVMCount = (case hs of Inl _ \<Rightarrow> 1 | Inr hosts \<Rightarrow>
          (case find (\<lambda>h. h_ID h = agent_id item) hosts of None \<Rightarrow> 1 | Some h \<Rightarrow> h_VMCount h)) in
    bindp time_now (\<lambda>t.
    let host = build_host item info hostVMCount t; vm0 = build_vm item info t remote in
    bindp (applyTemplateMarkToVM (if TrimSpace vmID \<noteq> [] \<and> vm_ID vm0 \<noteq> vmID then vm0\<lparr>vm_ID := vmID\<rparr> else vm0)) (\<lambda>vm.
    bindp (ensureAgentStillRegistered v (agent_id item)) (\<lambda>registered.
    if \<not> registered then fail (RepoError ErrNotFound)
    else
      bindp (store_runtime (UpdateVMRuntime c (agent_id item) host vm)) (\<lambda>_.
      bindp (report_success v item info host [vm] t) (\<lambda>_. ret vm))))))))))"

section \<open>Lists\<close>

definition registeredAgentIDs :: "('r, string set option) service_prog" where
  "registeredAgentIDs = bindp (attempt (on_store ListAgents)) (\<lambda>r.
     case r of Inl _ \<Rightarrow> ret None | Inr items \<Rightarrow> ret (Some (agent_id ` set items)))"

definition removeOrphanAgentRuntime :: "('r, 'v) realtime_service \<Rightarrow> string \<Rightarrow> ('r, unit) service_prog" where
  "removeOrphanAgentRuntime v agentID =
    (if agentID = [] then ret () else ignore (on_redis (RemoveAgent (sv_store v) agentID)))"

definition filterRegisteredHosts :: "('r, 'v) realtime_service \<Rightarrow> Host list \<Rightarrow> ('r, Host list) service_prog" where
  "filterRegisteredHosts v hosts =
    bindp registeredAgentIDs (\<lambda>r.
    case r of
      None \<Rightarrow> ret hosts
    | Some ids \<Rightarrow>
        bindp (for_each (\<lambda>h. removeOrphanAgentRuntime v (h_ID h)) (filter (\<lambda>h. h_ID h \<notin> ids) hosts)) (\<lambda>_.
        ret (filter (\<lambda>h. h_ID h \<in> ids) hosts)))"

definition filterRegisteredVMs ::
  "('r, 'v) realtime_service \<Rightarrow> VirtualMachine list \<Rightarrow> ('r, VirtualMachine list) service_prog" where
  "filterRegisteredVMs v vms =
    bindp registeredAgentIDs (\<lambda>r.
    case r of
      None \<Rightarrow> ret vms
    | Some ids \<Rightarrow>
        bindp (for_each (removeOrphanAgentRuntime v)
          (first_occs [] (filter (\<lambda>i. i \<noteq> []) (map vm_HostID (filter (\<lambda>vm. vm_HostID vm \<notin> ids) vms))))) (\<lambda>_.
        ret (filter (\<lambda>vm. vm_HostID vm \<in> ids) vms)))"

text \<open>The marks as a map: the last one of a key.\<close>

definition apply_marks :: "VMTemplateMark list \<Rightarrow> VirtualMachine \<Rightarrow> VirtualMachine" where
  "apply_marks marks vm =
    (if TrimSpace (vm_UUID vm) = [] then vm
     else case row_of (\<lambda>m. tm_agent_id m @ '':'' @ tm_vm_uuid m) (vm_HostID vm @ '':'' @ vm_UUID vm) (rev marks) of
       None \<Rightarrow> vm
     | Some m \<Rightarrow> mark_vm m vm)"

definition applyTemplateMarks :: "(string \<times> VirtualMachine) list \<Rightarrow> ('r, (string \<times> VirtualMachine) list) service_prog" where
  "applyTemplateMarks vms =
    (if vms = [] then ret vms
     else bindp (attempt (on_store ListVMTemplateMarks)) (\<lambda>r.
       case r of
         Inl _ \<Rightarrow> ret vms
       | Inr marks \<Rightarrow> ret (map (\<lambda>(i, vm). (i, apply_marks marks vm)) vms)))"

definition applyTemplateMarksToList :: "VirtualMachine list \<Rightarrow> ('r, VirtualMachine list) service_prog" where
  "applyTemplateMarksToList items =
    (if items = [] then ret items
     else bindp (applyTemplateMarks (fold (\<lambda>vm. map_put (vm_ID vm) vm) items [])) (\<lambda>byID.
       ret (map (\<lambda>vm. case map_of byID (vm_ID vm) of None \<Rightarrow> vm | Some vm' \<Rightarrow> vm') items)))"

definition service_ListHosts :: "('r, 'v) realtime_service \<Rightarrow> ('r, Host list) service_prog" where
  "service_ListHosts v = bindp (attempt (on_redis (ListHosts (sv_store v)))) (\<lambda>r.
     case r of Inl _ \<Rightarrow> ret [] | Inr hosts \<Rightarrow> filterRegisteredHosts v hosts)"

definition service_ListVMs ::
  "('r, 'v) realtime_service \<Rightarrow> string \<Rightarrow> string \<Rightarrow> string \<Rightarrow> ('r, VirtualMachine list) service_prog" where
  "service_ListVMs v status q hostID = bindp (attempt (on_redis (ListVMs (sv_store v) status q hostID))) (\<lambda>r.
     case r of
       Inl _ \<Rightarrow> ret []
     | Inr items \<Rightarrow> bindp (filterRegisteredVMs v items) applyTemplateMarksToList)"

definition service_GetVM :: "('r, 'v) realtime_service \<Rightarrow> string \<Rightarrow> ('r, VirtualMachine option) service_prog" where
  "service_GetVM v i = bindp (attempt (on_redis (GetVM (sv_store v) i))) (\<lambda>r.
     case r of
       Inr (Some vm) \<Rightarrow> bindp (applyTemplateMarkToVM vm) (\<lambda>vm'. ret (Some vm'))
     | _ \<Rightarrow> ret None)"

definition ListVMTemplates ::
  "('r, 'v) realtime_service \<Rightarrow> string \<Rightarrow> string \<Rightarrow> string \<Rightarrow> ('r, VirtualMachine list) service_prog" where
  "ListVMTemplates v status q hostID =
    bindp (service_ListVMs v status q hostID) (\<lambda>items. ret (filter vm_IsTemplate items))"

definition service_ListSnapshots :: "('r, 'v) realtime_service \<Rightarrow> ('r, Snapshot list) service_prog" where
  "service_ListSnapshots v = bindp (attempt (on_redis (ListSnapshots (sv_store v)))) (\<lambda>r.
     case r of Inl _ \<Rightarrow> ret [] | Inr items \<Rightarrow> ret items)"

definition service_GetSnapshot :: "('r, 'v) realtime_service \<Rightarrow> string \<Rightarrow> ('r, Snapshot option) service_prog" where
  "service_GetSnapshot v i = bindp (attempt (on_redis (GetSnapshot (sv_store v) i))) (\<lambda>r.
     case r of Inl _ \<Rightarrow> ret None | Inr found \<Rightarrow> ret found)"

definition service_RemoveAgent :: "('r, 'v) realtime_service \<Rightarrow> string \<Rightarrow> ('r, unit) service_prog" where
  "service_RemoveAgent v agentID = ignore (on_redis (RemoveAgent (sv_store v) agentID))"

section \<open>The dashboard\<close>

record DashboardSummary =
  TotalHosts :: int
  OnlineHosts :: int
  TotalVMs :: int
  RunningVMs :: int
  StoppedVMs :: int
  PausedVMs :: int
  ErrorVMs :: int
  TotalVCPUs :: int
  UsedVCPUs :: int
  AverageCPU :: int
  AverageMemory :: int
  TotalMemory :: int
  UsedMemory :: int
  TotalDisk :: int
  UsedDisk :: int
  StatusCounts :: "string \<rightharpoonup> int"
  RecentEvents :: "audit_row list"
  RecentVMs :: "VirtualMachine list"
  ActiveAlerts :: "alert list"

definition empty_summary :: DashboardSummary where
  "empty_summary = \<lparr>TotalHosts = 0, OnlineHosts = 0, TotalVMs = 0, RunningVMs = 0, StoppedVMs = 0, PausedVMs = 0,
     ErrorVMs = 0, TotalVCPUs = 0, UsedVCPUs = 0, AverageCPU = 0, AverageMemory = 0, TotalMemory = 0, UsedMemory = 0,
     TotalDisk = 0, UsedDisk = 0, StatusCounts = Map.empty, RecentEvents = [], RecentVMs = [], ActiveAlerts = []\<rparr>"

definition count_at :: "(string \<rightharpoonup> int) \<Rightarrow> string \<Rightarrow> int" where
  "count_at m k = (case m k of None \<Rightarrow> 0 | Some n \<Rightarrow> n)"

definition add_host :: "Host \<Rightarrow> DashboardSummary \<Rightarrow> DashboardSummary" where
  "add_host h s = s\<lparr>OnlineHosts := OnlineHosts s + (if h_Status h = ''online'' then 1 else 0),
     TotalVCPUs := i64 (TotalVCPUs s + h_CPUCores h), TotalMemory := i64 (TotalMemory s + h_MemoryBytes h),
     UsedMemory := i64 (UsedMemory s + i64 (h_MemoryBytes h * h_MemoryUsage h) sdiv 100),
     TotalDisk := i64 (TotalDisk s + h_StorageBytes h),
     UsedDisk := i64 (UsedDisk s + i64 (h_StorageBytes h * h_StorageUsage h) sdiv 100),
     AverageCPU := i64 (AverageCPU s + h_CPUUsage h), AverageMemory := i64 (AverageMemory s + h_MemoryUsage h)\<rparr>"

definition add_vm :: "VirtualMachine \<Rightarrow> DashboardSummary \<Rightarrow> DashboardSummary" where
  "add_vm vm s = s\<lparr>StatusCounts := (StatusCounts s)(vm_Status vm \<mapsto> count_at (StatusCounts s) (vm_Status vm) + 1),
     TotalVMs := TotalVMs s + 1, UsedVCPUs := i64 (UsedVCPUs s + vm_CPUCores vm)\<rparr>"

definition applyDashboardVMStats :: "VirtualMachine list \<Rightarrow> DashboardSummary \<Rightarrow> DashboardSummary" where
  "applyDashboardVMStats vms s0 =
    (let shown = filter (\<lambda>vm. \<not> vm_IsTemplate vm) vms; s = fold add_vm shown s0; counts = StatusCounts s in
     s\<lparr>RecentVMs := take 6 shown, RunningVMs := count_at counts ''running'', StoppedVMs := count_at counts ''stopped'',
       PausedVMs := count_at counts ''paused'', ErrorVMs := count_at counts ''error''\<rparr>)"

definition dashboard_of :: "audit_row list \<Rightarrow> alert list \<Rightarrow> Host list \<Rightarrow> VirtualMachine list \<Rightarrow> DashboardSummary" where
  "dashboard_of events as hosts vms =
    (let s0 = empty_summary\<lparr>RecentEvents := events, ActiveAlerts := as, TotalHosts := int (length hosts)\<rparr>;
         s1 = fold add_host hosts s0;
         s2 = (if hosts = [] then s1 else s1\<lparr>AverageCPU := AverageCPU s1 sdiv int (length hosts),
           AverageMemory := AverageMemory s1 sdiv int (length hosts)\<rparr>) in
     applyDashboardVMStats vms s2)"

definition service_DashboardSummary ::
  "('r, 'v) realtime_service \<Rightarrow> audit_row list \<Rightarrow> alert list \<Rightarrow> ('r, DashboardSummary) service_prog" where
  "service_DashboardSummary v events as =
    bindp (service_ListHosts v) (\<lambda>hosts.
    bindp (service_ListVMs v [] [] []) (\<lambda>vms.
    ret (dashboard_of events as hosts vms)))"

end
