(* ===== verification/Sync_Frame.thy ===== *)
theory Sync_Frame
  imports Sync_Service Alert_Invariant
begin

text \<open>
  What the alerts leave alone: a property of the database that does not see the tables of the alerts and the row of the settings is kept
  by every program of the alert service, together with everything about the state of Redis and the queue.
\<close>

locale alert_frame =
  fixes P :: "db \<Rightarrow> bool"
  assumes next_fault: "P d \<Longrightarrow> P (d\<lparr>faults := tl (faults d)\<rparr>)"
    and alert_tables: "P d \<Longrightarrow> P (d\<lparr>alerts := a, deliveries := q, uuids := u\<rparr>)"
    and settings_row: "P d \<Longrightarrow> P (d\<lparr>settings := c\<rparr>)"
begin

lemma keeps_statement:
  assumes "\<And>d. P d \<Longrightarrow> P (snd (f d))"
  shows "keeps P (stmt f)"
proof (rule keepsI)
  fix d assume d: "P d"
  show "P (snd (stmt f d))"
  proof (cases "faults d")
    case Nil
    then show ?thesis using assms [OF d] by (simp add: stmt_def)
  next
    case (Cons b fs)
    then have "P (d\<lparr>faults := fs\<rparr>)" using next_fault [OF d] by simp
    then show ?thesis using assms [of "d\<lparr>faults := fs\<rparr>"] Cons by (simp add: stmt_def)
  qed
qed

lemma keeps_reads: "keeps P (query f)"
  unfolding query_def by (rule keeps_statement) simp

lemma keeps_writes: "(\<And>d. P d \<Longrightarrow> P (f d)) \<Longrightarrow> keeps P (exec f)"
  unfolding exec_def by (rule keeps_statement) simp

lemma tables [simp]:
  assumes "P d"
  shows "P (d\<lparr>alerts := a\<rparr>)" "P (d\<lparr>deliveries := q\<rparr>)" "P (d\<lparr>uuids := u\<rparr>)" "P (d\<lparr>alerts := a, uuids := u\<rparr>)"
    "P (d\<lparr>uuids := u, alerts := a\<rparr>)" "P (d\<lparr>uuids := u, deliveries := q\<rparr>)"
proof -
  have "d\<lparr>alerts := a\<rparr> = d\<lparr>alerts := a, deliveries := deliveries d, uuids := uuids d\<rparr>"
    "d\<lparr>deliveries := q\<rparr> = d\<lparr>alerts := alerts d, deliveries := q, uuids := uuids d\<rparr>"
    "d\<lparr>uuids := u\<rparr> = d\<lparr>alerts := alerts d, deliveries := deliveries d, uuids := u\<rparr>"
    "d\<lparr>alerts := a, uuids := u\<rparr> = d\<lparr>alerts := a, deliveries := deliveries d, uuids := u\<rparr>"
    "d\<lparr>uuids := u, alerts := a\<rparr> = d\<lparr>alerts := a, deliveries := deliveries d, uuids := u\<rparr>"
    "d\<lparr>uuids := u, deliveries := q\<rparr> = d\<lparr>alerts := alerts d, deliveries := q, uuids := u\<rparr>"
    by simp_all
  with alert_tables [OF assms] show "P (d\<lparr>alerts := a\<rparr>)" "P (d\<lparr>deliveries := q\<rparr>)" "P (d\<lparr>uuids := u\<rparr>)"
    "P (d\<lparr>alerts := a, uuids := u\<rparr>)" "P (d\<lparr>uuids := u, alerts := a\<rparr>)" "P (d\<lparr>uuids := u, deliveries := q\<rparr>)"
    by metis+
qed

lemma uuid_tables: "P d \<Longrightarrow> gen_uuid d = (i, d') \<Longrightarrow> P d'"
  by (auto simp: gen_uuid_def split: list.splits)

lemma keeps_alert_rows: "keeps P (UpsertActiveAlert l st si ti m md)" "keeps P (resolve_returning p)"
  unfolding UpsertActiveAlert_def resolve_returning_def resolve_where_def
  by (rule keeps_statement; auto simp: Let_def split: prod.splits dest: uuid_tables)+

lemma keeps_one_delivery: "keeps P (insert_delivery a e c)"
  unfolding insert_delivery_def
  by (rule keeps_statement) (auto simp: Let_def split: prod.splits dest: uuid_tables)

lemma keeps_deliveries: "keeps P (ensure_deliveries a e cs n)"
  by (induction cs arbitrary: n) (auto intro!: keeps_intros keeps_one_delivery)

lemma keeps_store_ops:
  "keeps P (MarkAlertNotificationSent i)" "keeps P (MarkAlertNotificationDeliverySent i)"
  "keeps P (MarkAlertNotificationDeliveryFailedWithConfig i m cfg)" "keeps P (ListPendingAlertNotifications n)"
  "keeps P (ListPendingAlertNotificationDeliveries n)" "keeps P (ResolveActiveAlertReturning st si ti)"
  "keeps P (ResolveActiveAlertsBySourceReturning st si)" "keeps P GetSystemBaseConfig" "keeps P ListNotificationChannels"
  unfolding MarkAlertNotificationSent_def MarkAlertNotificationDeliverySent_def
    MarkAlertNotificationDeliveryFailedWithConfig_def ListPendingAlertNotifications_def
    ListPendingAlertNotificationDeliveries_def ResolveActiveAlertReturning_def
    ResolveActiveAlertsBySourceReturning_def ListNotificationChannels_def Let_def
  by (auto simp: GetSystemBaseConfig_def UpsertSystemBaseConfig_def intro!: keeps_intros keeps_writes keeps_reads keeps_alert_rows
      settings_row)

lemma keeps_ensure: "keeps P (EnsureAlertNotificationDeliveries a e)"
  unfolding EnsureAlertNotificationDeliveries_def
  by (intro keeps_intros keeps_store_ops keeps_deliveries)

lemma keeps_notify_one: "keeps P (NotifyDelivery send q)"
  unfolding NotifyDelivery_def alertNotificationRuntimeConfig_def notificationChannel_def Let_def
  by (intro keeps_intros keeps_store_ops)

text \<open>The programs of the service.\<close>

abbreviation framed :: "('r \<Rightarrow> string list \<Rightarrow> bool) \<Rightarrow> 'r rt \<Rightarrow> bool" where
  "framed R s \<equiv> P (rt_db s) \<and> R (rt_redis s) (refreshQueue s)"

lemma keeps_framed: "keeps P m \<Longrightarrow> keeps (framed R) (on_db m)"
  by (auto simp: keeps_def on_db_def split: prod.splits)

lemma keeps_framed_sample: "keeps (framed R) (recordThresholdAlertSample st sid ti b)"
  by (rule keeps_sample) simp

lemmas keeps_framed_ops = keeps_framed [OF keeps_store_ops(1)] keeps_framed [OF keeps_store_ops(4)]
  keeps_framed [OF keeps_store_ops(5)] keeps_framed [OF keeps_store_ops(6)] keeps_framed [OF keeps_store_ops(7)]
  keeps_framed [OF keeps_store_ops(8)] keeps_framed [OF keeps_ensure] keeps_framed [OF keeps_notify_one]
  keeps_framed [OF keeps_alert_rows(1)] keeps_framed_sample

lemma keeps_framed_queues:
  "keeps (framed R) loadAlertRuntimeConfig" "keeps (framed R) (notifyPendingAlerts n)"
  "keeps (framed R) (resolveActiveAlert st sid ti)" "keeps (framed R) (resolveActiveAlertsBySource st sid)"
  unfolding loadAlertRuntimeConfig_def notifyPendingAlerts_def resolveActiveAlert_def resolveActiveAlertsBySource_def
    queueProblemNotification_def queueRecoveryNotifications_def
  by (intro keeps_intros keeps_framed_ops)+

lemma keeps_framed_evaluate: "keeps (framed R) (evaluateRuntimeAlerts item h vms)"
  unfolding evaluateRuntimeAlerts_def evaluateHostThresholdAlert_def evaluateVMStateAlert_def
    evaluateVMThresholdAlert_def Let_def
  by (intro keeps_intros keeps_framed_ops keeps_framed_queues)

end

text \<open>What a synchronisation does to the tables of the agents and the alerts, and to nothing else.\<close>

locale sync_frame = alert_frame +
  assumes agent_table: "P d \<Longrightarrow> P (d\<lparr>agents := a\<rparr>)"
begin

lemma keeps_agent_ops:
  "keeps P (MarkAgentSyncStarted i)" "keeps P (UpdateAgentSyncSuccess i vs cs)" "keeps P (UpdateAgentSyncFailure i m l)"
  unfolding MarkAgentSyncStarted_def UpdateAgentSyncSuccess_def UpdateAgentSyncFailure_def update_agent_def Let_def
  by (auto intro!: keeps_writes agent_table)

lemma keeps_framed_failure: "keeps (framed R) (recordAgentSyncFailure n item m)"
  unfolding recordAgentSyncFailure_def
  by (intro keeps_intros keeps_framed_ops keeps_framed_queues keeps_framed [OF keeps_agent_ops(3)])

end

interpretation quiet: alert_frame "\<lambda>d. faults d = [] \<and> tasks d = ts \<and> agents d = as \<and> template_marks d = ms \<and> clock d = t" for ts as ms t
  by unfold_locales simp_all

interpretation task_frame: sync_frame "\<lambda>d. faults d = [] \<and> tasks d = ts" for ts
  by unfold_locales simp_all

end
