(* ===== verification/Sync_Properties.thy ===== *)
theory Sync_Properties
  imports Sync_Frame Refresh_Properties Runtime_Properties
begin

text \<open>
  What a synchronisation promises: a refresh task over the real synchronisation ends, a report that succeeds
  becomes the state of the agent, an agent that is deleted meanwhile leaves nothing behind, and the lists show
  the machines of registered agents only.
\<close>

section \<open>The tasks\<close>

definition calm :: "task list \<Rightarrow> 'r rt \<Rightarrow> bool" where
  "calm ts s \<longleftrightarrow> faults (rt_db s) = [] \<and> tasks (rt_db s) = ts"

text \<open>The calls of the agents let other requests run, which do not touch the tasks.\<close>

definition leaves_tasks :: "'r agent_client \<Rightarrow> bool" where
  "leaves_tasks A \<longleftrightarrow> (\<forall>ts cfg name. keeps (calm ts) (ag_HostInfo A cfg) \<and> keeps (calm ts) (ag_ListVMs A cfg) \<and>
     keeps (calm ts) (ag_ListVMsFast A cfg) \<and> keeps (calm ts) (ag_VM A name cfg) \<and> keeps (calm ts) (ag_ListSnapshots A name cfg))"

lemma calm_framed: "calm ts = (\<lambda>s. (faults (rt_db s) = [] \<and> tasks (rt_db s) = ts) \<and> (\<lambda>_ _. True) (rt_redis s) (refreshQueue s))"
  by (simp add: calm_def fun_eq_iff)

lemma calm_alerts:
  "keeps (calm ts) (recordAgentSyncFailure n item m)" "keeps (calm ts) (notifyPendingAlerts n)"
  "keeps (calm ts) (evaluateRuntimeAlerts item h vms)" "keeps (calm ts) (resolveActiveAlertsBySource st sid)"
  unfolding calm_framed
  by (rule task_frame.keeps_framed_failure task_frame.keeps_framed_queues task_frame.keeps_framed_evaluate)+

lemma calm_on_redis: "keeps (calm ts) (on_redis m)"
  by (auto simp: keeps_def calm_def on_redis_def split: prod.splits sum.splits)

lemma calm_on_store:
  assumes "keeps (\<lambda>d. faults d = [] \<and> tasks d = ts) m"
  shows "keeps (calm ts) (on_store m)"
  unfolding calm_def [abs_def] by (rule keeps_on_store [OF assms])

lemma calm_reads: "keeps (calm ts) (on_store (GetAgent i))" "keeps (calm ts) (on_store ListAgents)"
  unfolding GetAgent_def ListAgents_def found_agent_def
  by (auto intro!: calm_on_store keeps_intros task_frame.keeps_reads split: option.split)

lemmas calm_rules = calm_alerts calm_on_redis calm_reads calm_on_store [OF task_frame.keeps_agent_ops(1)]
  calm_on_store [OF task_frame.keeps_agent_ops(2)] keeps_time_now

lemma calm_call: "keeps (calm ts) m \<Longrightarrow> keeps (calm ts) (call_agent v item m)"
  unfolding call_agent_def record_failure_def on_alerts_def by (intro keeps_intros calm_rules)

lemma calm_collect:
  assumes "leaves_tasks (sv_agents v)"
  shows "keeps (calm ts) (collect_snapshots v item token t ms acc)"
proof (induction ms arbitrary: acc)
  case (Cons m ms)
  have "keeps (calm ts) (ag_ListSnapshots (sv_agents v) name cfg)" for name cfg
    using assms by (simp add: leaves_tasks_def)
  with Cons show ?case by (cases m) (auto intro!: keeps_intros)
qed (auto intro: keeps_intros)

lemma calm_sync:
  assumes "leaves_tasks (sv_agents v)"
  shows "keeps (calm ts) (syncWithToken v item token mode)"
proof -
  have calls: "keeps (calm ts) (ag_HostInfo (sv_agents v) cfg)" "keeps (calm ts) (ag_ListVMs (sv_agents v) cfg)"
    "keeps (calm ts) (ag_ListVMsFast (sv_agents v) cfg)" for cfg
    using assms by (simp_all add: leaves_tasks_def)
  show ?thesis
    by (cases mode)
      (auto simp: syncWithToken_def ensureAgentStillRegistered_def store_runtime_def report_success_def append_metrics_def
        on_alerts_def Let_def split: option.split intro!: keeps_intros calm_rules calm_call calls calm_collect [OF assms])
qed

lemma calm_sync_agent:
  assumes "leaves_tasks (sv_agents v)"
  shows "keeps (calm ts) (SyncAgentWithMode v item mode)"
  unfolding SyncAgentWithMode_def record_failure_def on_alerts_def Let_def
  by (auto intro!: keeps_intros calm_rules calm_sync [OF assms] split: sum.split list.split)

lemma sync_one_run:
  assumes "leaves_tasks (sv_agents v)" "calm ts s"
  shows "\<exists>r s'. sync_one v mode item s = (Inr r, s') \<and> sr_ID r = agent_id item \<and> calm ts s'"
  using keepsD [OF calm_sync_agent [OF assms(1), of ts item mode] assms(2)]
  by (auto simp: sync_one_def bindp_def attempt_def ret_def Let_def split: prod.splits sum.splits)

lemma sync_many_run:
  assumes "leaves_tasks (sv_agents v)" "calm ts s"
  shows "\<exists>rs s'. map_prog (sync_one v mode) xs s = (Inr rs, s') \<and> map sr_ID rs = map agent_id xs \<and> calm ts s'"
  using assms(2)
proof (induction xs arbitrary: s)
  case (Cons x xs)
  obtain r s1 where 1: "sync_one v mode x s = (Inr r, s1)" "sr_ID r = agent_id x" "calm ts s1"
    using sync_one_run [OF assms(1) Cons.prems] by blast
  from Cons.IH [OF 1(3)] obtain rs s2 where
    "map_prog (sync_one v mode) xs s1 = (Inr rs, s2)" "map sr_ID rs = map agent_id xs" "calm ts s2" by blast
  with 1 show ?case by (auto simp: bindp_def ret_def)
qed (simp add: ret_def)

lemma fields_acc_more: "cur \<noteq> [] \<Longrightarrow> fields_acc cur s \<noteq> []"
proof (induction cur s rule: fields_acc.induct)
  case (1 cur s)
  show ?case
  proof (cases s)
    case (Cons c r)
    with 1 show ?thesis
      by (cases "space_len wide_spaces s = 0") (simp_all add: fields_acc.simps [of cur "c # r"] Let_def)
  qed (simp add: fields_acc.simps 1)
qed

lemma TrimSpace_starts: "space_len wide_spaces (TrimSpace s) = 0"
proof -
  let ?t = "trim_head wide_spaces s"
  obtain p where p: "rev ?t = p @ trim_head (map rev wide_spaces) (rev ?t)" using trim_head_suffix by blast
  then have t: "?t = TrimSpace s @ rev p" by (metis TrimSpace_def rev_append rev_rev_ident)
  show ?thesis
    by (rule space_len_prefix [where q = "rev p", OF _ wide_spaces_lengths]) (simp flip: t)
qed

lemma Fields_TrimSpace: "TrimSpace s \<noteq> [] \<Longrightarrow> GoStrings.Fields (TrimSpace s) \<noteq> []"
proof -
  assume "TrimSpace s \<noteq> []"
  then obtain c r where cr: "TrimSpace s = c # r" by (cases "TrimSpace s") simp_all
  have "space_len wide_spaces (TrimSpace s) = 0"
    by (rule TrimSpace_starts)
  then have "fields_acc [] (c # r) = fields_acc [c] r"
    unfolding cr by (simp add: fields_acc.simps [of "[]" "c # r"])
  then show ?thesis by (simp add: cr GoStrings.Fields_def fields_acc_more)
qed

lemma Join_not_empty: "ss \<noteq> [] \<Longrightarrow> [] \<notin> set ss \<Longrightarrow> Join ss d \<noteq> []"
  by (cases ss; cases "tl ss") auto

text \<open>No message for an error is empty.\<close>

lemma zh_not_empty: "zh (a # b # s) \<noteq> []" "zh (a # b # s) @ t \<noteq> []"
  by (simp_all add: zh.simps)

lemma if_not_empty: "x \<noteq> [] \<Longrightarrow> y \<noteq> [] \<Longrightarrow> (if c then x else y) \<noteq> []"
  by simp

lemma user_message: "UserFacingErrorMessage e \<noteq> []"
proof -
  have other: "connection_message t \<noteq> []" "not_running_message t \<noteq> []" "timeout_message \<noteq> []" "snapshotRevertMissingDiskMessage t \<noteq> []"
    "migrationStorageAccessMessage t \<noteq> []" "targetStoragePoolUnavailableMessage t \<noteq> []" "vmDeleteHasSnapshotsMessage t \<noteq> []" for t
    unfolding connection_message_def not_running_message_def timeout_message_def snapshotRevertMissingDiskMessage_def Let_def
      migrationStorageAccessMessage_def targetStoragePoolUnavailableMessage_def vmDeleteHasSnapshotsMessage_def
    by (intro if_not_empty zh_not_empty | simp add: zh.simps split: option.split)+
  have norm: "normalizeAgentUserFacingMessage m \<noteq> []" if "TrimSpace m \<noteq> []" for m
    unfolding normalizeAgentUserFacingMessage_def Let_def
    by (intro if_not_empty zh_not_empty other Join_not_empty Fields_TrimSpace that Fields_not_empty)
  have "ae_text e \<noteq> []" if "HasPrefix (ae_text e) ''Agent ''"
    using that by (cases "ae_text e") simp_all
  then show ?thesis
    unfolding UserFacingErrorMessage_def
    by (cases "ae_kind e") (simp_all add: other norm zh.simps)
qed

text \<open>What the synchronisation of each agent returns, when one follows the other.\<close>

fun sync_outcomes ::
  "('r, 'v) realtime_service \<Rightarrow> SyncMode \<Rightarrow> agent list \<Rightarrow> 'r rt \<Rightarrow> (agent \<times> (service_error + unit)) list" where
  "sync_outcomes v mode [] s = []"
| "sync_outcomes v mode (x # xs) s =
    (x, fst (SyncAgentWithMode v x mode s)) # sync_outcomes v mode xs (snd (SyncAgentWithMode v x mode s))"

text \<open>An agent that is gone meanwhile has not failed. The row of a result names the agent, and its error.\<close>

definition agent_failed :: "agent \<times> (service_error + unit) \<Rightarrow> bool" where
  "agent_failed out \<longleftrightarrow> (\<exists>e. snd out = Inl e \<and> e \<noteq> RepoError ErrNotFound)"

definition outcome_row :: "('r, 'v) realtime_service \<Rightarrow> agent \<times> (service_error + unit) \<Rightarrow> refresh_agent_result" where
  "outcome_row v out = \<lparr>rr_id = agent_id (fst out), rr_name = agent_name (fst out),
     rr_status = (if agent_failed out then ''failed'' else ''completed''),
     rr_error = (case snd out of Inl e \<Rightarrow> if agent_failed out then UserFacingErrorMessage (as_agent_error (sv_text v) e) else []
       | Inr _ \<Rightarrow> [])\<rparr>"

lemma sync_many_outcomes:
  "\<exists>rs s'. map_prog (sync_one v mode) xs s = (Inr rs, s') \<and> map row_of_result rs = map (outcome_row v) (sync_outcomes v mode xs s) \<and>
     map (\<lambda>r. sr_Error r = []) rs = map (Not \<circ> agent_failed) (sync_outcomes v mode xs s)"
proof (induction xs arbitrary: s)
  case (Cons x xs)
  obtain r s1 where 1: "SyncAgentWithMode v x mode s = (r, s1)" by fastforce
  from Cons.IH [of s1] obtain rs s2 where 2: "map_prog (sync_one v mode) xs s1 = (Inr rs, s2)"
    "map row_of_result rs = map (outcome_row v) (sync_outcomes v mode xs s1)"
    "map (\<lambda>r. sr_Error r = []) rs = map (Not \<circ> agent_failed) (sync_outcomes v mode xs s1)" by blast
  let ?q = "\<lparr>sr_ID = agent_id x, sr_Name = agent_name x,
     sr_Error = (case r of Inr _ \<Rightarrow> [] | Inl e \<Rightarrow> if e = RepoError ErrNotFound then [] else UserFacingErrorMessage (as_agent_error (sv_text v) e))\<rparr>"
  have q: "sync_one v mode x s = (Inr ?q, s1)"
    by (cases r) (auto simp: sync_one_def bindp_def attempt_def 1 ret_def)
  have row: "row_of_result ?q = outcome_row v (x, r)" "(sr_Error ?q = []) = (\<not> agent_failed (x, r))"
    by (cases r; simp add: row_of_result_def outcome_row_def agent_failed_def user_message)+
  have "map_prog (sync_one v mode) (x # xs) s = (Inr (?q # rs), s2)"
    using q 2(1) by (simp add: bindp_def ret_def)
  moreover have "map row_of_result (?q # rs) = map (outcome_row v) (sync_outcomes v mode (x # xs) s)"
    "map (\<lambda>r. sr_Error r = []) (?q # rs) = map (Not \<circ> agent_failed) (sync_outcomes v mode (x # xs) s)"
    using row 2(2,3) by (simp_all add: 1)
  ultimately show ?case by blast
qed (simp add: ret_def)

lemma outs_tally:
  assumes "map (\<lambda>r. sr_Error r = []) rs = map (Not \<circ> agent_failed) outs"
  shows "length (filter (\<lambda>r. sr_Error r \<noteq> []) rs) = length (filter agent_failed outs)"
    "(\<forall>r\<in>set rs. sr_Error r \<noteq> []) = (\<forall>out\<in>set outs. agent_failed out)" "length rs = length outs" "(rs = []) = (outs = [])"
proof -
  show len: "length rs = length outs" using arg_cong [OF assms, of length] by simp
  then show "length (filter (\<lambda>r. sr_Error r \<noteq> []) rs) = length (filter agent_failed outs)"
    "(\<forall>r\<in>set rs. sr_Error r \<noteq> []) = (\<forall>out\<in>set outs. agent_failed out)" "(rs = []) = (outs = [])"
    using assms by (induction rs outs rule: list_induct2) auto
qed

lemma outcomes_fst: "map fst (sync_outcomes v mode xs s) = xs"
  by (induction xs arbitrary: s) simp_all

text \<open>C31: a queued refresh task that the worker takes ends: whatever the agents answer and in whatever order
  their synchronisations finish, the task is completed, or failed exactly when there are agents and none
  could be synchronised. Its payload gives one row for each agent, from what its synchronisation returned: an
  agent whose synchronisation ended with an error, other than that the agent is gone, has failed with the
  message for that error and counts as failed, every other one is completed and counts as synchronised. No
  other task has changed. The synchronisations are taken one after the other.\<close>

theorem refresh_task_finishes:
  assumes "faults (rt_db s) = []" "row_of task_id i (tasks (rt_db s)) = Some t" "task_status t = ''queued''"
    and "distinct (map task_id (tasks (rt_db s)))" "leaves_tasks (sv_agents v)" "\<forall>items. mset (finished items) = mset items"
  shows "\<exists>ts outs s' t' p. runRefreshTask text (\<lambda>_. None) (syncAgents v finished) i s = (Inr (), s') \<and>
     outs = sync_outcomes v (if task_type t = RefreshFastTaskType then SyncFast else SyncFull)
       (finished (sort_key agent_name (agents (rt_db s)))) (put_tasks ts s) \<and>
     mset (map fst outs) = mset (agents (rt_db s)) \<and>
     row_of task_id i (tasks (rt_db s')) = Some t' \<and> task_payload_of t' = Progress p \<and> task_finished_at t' \<noteq> None \<and>
     AgentResults p = map (outcome_row v) outs \<and> TotalAgents p = int (length outs) \<and>
     FailedAgents p = int (length (filter agent_failed outs)) \<and> SyncedAgents p = int (length outs) - FailedAgents p \<and>
     (task_status t', task_error_message t') = (if outs \<noteq> [] \<and> (\<forall>out\<in>set outs. agent_failed out)
       then (''failed'', Join (map (\<lambda>r. rr_name r @ '': '' @ rr_error r) (map (outcome_row v) outs)) ''; '') else (''completed'', [])) \<and>
     filter (\<lambda>t. task_id t \<noteq> i) (tasks (rt_db s')) = filter (\<lambda>t. task_id t \<noteq> i) (tasks (rt_db s))"
proof -
  let ?items = "sort_key agent_name (agents (rt_db s))" and ?mode = "if task_type t = RefreshFastTaskType then SyncFast else SyncFull"
  have sync: "\<exists>rs s'. syncAgents v finished items mode s0 = (Inr rs, s') \<and> mset (map sr_ID rs) = mset (map agent_id items) \<and>
     faults (rt_db s') = [] \<and> tasks (rt_db s') = tasks (rt_db s0)" if "faults (rt_db s0) = []" for items mode and s0 :: "'a rt"
  proof -
    from that have "calm (tasks (rt_db s0)) s0" by (simp add: calm_def)
    from sync_many_run [OF assms(5) this, of mode "finished items"] obtain rs s' where
      run: "syncAgents v finished items mode s0 = (Inr rs, s')" "map sr_ID rs = map agent_id (finished items)" "calm (tasks (rt_db s0)) s'"
      unfolding syncAgents_def by blast
    have "mset (map sr_ID rs) = mset (map agent_id items)"
      unfolding run(2) using assms(6) by simp
    with run show ?thesis unfolding calm_def by blast
  qed
  obtain ts rs s3 s' t' p where run: "runRefreshTask text (\<lambda>_. None) (syncAgents v finished) i s = (Inr (), s')"
      "syncAgents v finished ?items ?mode (put_tasks ts s) = (Inr rs, s3)"
    and task: "row_of task_id i (tasks (rt_db s')) = Some t'" "task_payload_of t' = Progress p" "task_finished_at t' \<noteq> None"
    and counts: "TotalAgents p = int (length (agents (rt_db s)))" "AgentResults p = map row_of_result rs"
      "SyncedAgents p = int (length (filter (\<lambda>r. sr_Error r = []) rs))" "FailedAgents p = int (length (filter (\<lambda>r. sr_Error r \<noteq> []) rs))"
    and status: "(task_status t', task_error_message t') = (if rs \<noteq> [] \<and> (\<forall>r\<in>set rs. sr_Error r \<noteq> [])
       then (''failed'', joinRefreshErrors (map row_of_result rs)) else (''completed'', []))"
    and other: "filter (\<lambda>t. task_id t \<noteq> i) (tasks (rt_db s')) = filter (\<lambda>t. task_id t \<noteq> i) (tasks (rt_db s))"
    using refresh_task_ends [OF assms(1-4), of "syncAgents v finished" "text"] sync by blast
  let ?outs = "sync_outcomes v ?mode (finished ?items) (put_tasks ts s)"
  obtain rs' s'' where "map_prog (sync_one v ?mode) (finished ?items) (put_tasks ts s) = (Inr rs', s'')"
    "map row_of_result rs' = map (outcome_row v) ?outs" "map (\<lambda>r. sr_Error r = []) rs' = map (Not \<circ> agent_failed) ?outs"
    using sync_many_outcomes by blast
  then have outs: "map row_of_result rs = map (outcome_row v) ?outs" "map (\<lambda>r. sr_Error r = []) rs = map (Not \<circ> agent_failed) ?outs"
    using run(2) unfolding syncAgents_def by simp_all
  from outs_tally [OF outs(2)] have tally: "length (filter (\<lambda>r. sr_Error r \<noteq> []) rs) = length (filter agent_failed ?outs)"
    "(\<forall>r\<in>set rs. sr_Error r \<noteq> []) = (\<forall>out\<in>set ?outs. agent_failed out)" "length rs = length ?outs" "(rs = []) = (?outs = [])" .
  have parts: "length (filter (\<lambda>r. sr_Error r = []) rs) + length (filter (\<lambda>r. sr_Error r \<noteq> []) rs) = length rs"
    by (rule sum_length_filter_compl)
  have items: "mset (map fst ?outs) = mset (agents (rt_db s))"
    unfolding outcomes_fst using assms(6) by simp
  have len: "length ?outs = length (agents (rt_db s))" using arg_cong [OF items, of size] by simp
  have joined: "joinRefreshErrors (map row_of_result rs) = Join (map (\<lambda>r. rr_name r @ '': '' @ rr_error r) (map (outcome_row v) ?outs)) ''; ''"
    if "\<forall>r\<in>set rs. sr_Error r \<noteq> []"
    unfolding outs(1) [symmetric] using that by (simp add: joinRefreshErrors_def row_of_result_def filter_map o_def)
  show ?thesis
    using run(1) task other items counts status parts tally len outs(1) joined
    by (intro exI [of _ ts] exI [of _ ?outs] exI [of _ s'] exI [of _ t'] exI [of _ p]) auto
qed

text \<open>A service with its state in memory, whose agents report one machine; \<open>between\<close> runs before they list it.\<close>

definition test_info :: HostInfo where
  "test_info = \<lparr>hi_Hostname = ''n'', hi_HostAddress = [], hi_Status = ''online'', hi_KVMVersion = ''8'', hi_KVMFullVersion = [],
     hi_CPUModel = [], hi_CPUCores = 4, hi_CPUUsage = 10, hi_MemoryBytes = 1024, hi_MemoryUsage = 20, hi_StorageBytes = 4096,
     hi_StorageUsage = 30, hi_DiskReadBytesPerSec = 0, hi_DiskWriteBytesPerSec = 0, hi_NetworkRxBytesPerSec = 0,
     hi_NetworkTxBytesPerSec = 0, hi_Capabilities = [''vm'']\<rparr>"

definition test_vm :: AgentVM where
  "test_vm = \<lparr>av_Name = ''web'', av_UUID = ''u1'', av_Description = [], av_OSType = ''linux'', av_Status = ''running'',
     av_CPUCores = 2, av_MemoryBytes = 512, av_DiskBytes = 0, av_DiskUsedBytes = 0, av_Disks = [], av_PrimaryIP = [],
     av_CPUUsage = 5, av_CPUUsageAvailable = True, av_MemoryUsage = 0, av_MemoryUsageAvailable = False, av_DiskUsage = 0,
     av_DiskUsageAvailable = False, av_DiskReadBytesPerSec = 0, av_DiskWriteBytesPerSec = 0, av_NetworkRxBytesPerSec = 0,
     av_NetworkTxBytesPerSec = 0, av_UptimeSeconds = 60\<rparr>"

definition test_agents :: "('r rt, agent_error, unit) prog \<Rightarrow> 'r agent_client" where
  "test_agents between = \<lparr>ag_HostInfo = (\<lambda>cfg. ret test_info),
     ag_ListVMs = (\<lambda>cfg. bindp between (\<lambda>_. ret [test_vm])), ag_ListVMsFast = (\<lambda>cfg. bindp between (\<lambda>_. ret [test_vm])),
     ag_VM = (\<lambda>name cfg. ret test_vm), ag_ListSnapshots = (\<lambda>name cfg. ret [])\<rparr>"

definition test_service :: "(memory rt, agent_error, unit) prog \<Rightarrow> (memory, blob) realtime_service" where
  "test_service between = \<lparr>sv_secret = ''s'',
     sv_aead = \<lparr>sha256 = (\<lambda>k. k), gcm_seal = (\<lambda>k n p. p), gcm_open = (\<lambda>k n x. Some x), gcm_nonce_size = 0\<rparr>,
     sv_open_text = (\<lambda>_. []), sv_text = (\<lambda>_. []), sv_store = memory_client, sv_stream = None, sv_stream_max = 0,
     sv_notifier = None, sv_agents = test_agents between, sv_parse = (\<lambda>_ _. None)\<rparr>"

definition memory_rt :: "db \<Rightarrow> memory rt" where
  "memory_rt d = \<lparr>rt_db = d, alertCounts = Map.empty, rt_redis = Map.empty, refreshQueue = []\<rparr>"

theorem refresh_task_finishes_witness:
  "\<exists>s' t' p. runRefreshTask (\<lambda>_. []) (\<lambda>_. None) (syncAgents (test_service (ret ())) rev) ''t1'' (memory_rt refresh_db) = (Inr (), s') \<and>
     row_of task_id ''t1'' (tasks (rt_db s')) = Some t' \<and> task_status t' = ''failed'' \<and> task_payload_of t' = Progress p \<and>
     FailedAgents p = 1 \<and> SyncedAgents p = 0 \<and> map rr_id (AgentResults p) = [''a1'']"
proof -
  let ?v = "test_service (ret ())"
  have leaves: "leaves_tasks (sv_agents ?v)"
    by (auto simp: leaves_tasks_def test_service_def test_agents_def intro!: keeps_intros)
  have start: "faults (rt_db (memory_rt refresh_db)) = []" "row_of task_id ''t1'' (tasks (rt_db (memory_rt refresh_db))) = Some sample_task"
    "task_status sample_task = ''queued''" "distinct (map task_id (tasks (rt_db (memory_rt refresh_db))))"
    "agents (rt_db (memory_rt refresh_db)) = [test_agent]"
    by (simp_all add: memory_rt_def refresh_db_def sample_task_def empty_db_def row_of_def)
  have "\<forall>items :: agent list. mset (rev items) = mset items" by simp
  from refresh_task_finishes [OF start(1-4) leaves this, of "\<lambda>_. []"] obtain ts outs s' t' p where
    run: "runRefreshTask (\<lambda>_. []) (\<lambda>_. None) (syncAgents ?v rev) ''t1'' (memory_rt refresh_db) = (Inr (), s')"
    and outs: "outs = sync_outcomes ?v (if task_type sample_task = RefreshFastTaskType then SyncFast else SyncFull)
       (rev (sort_key agent_name [test_agent])) (put_tasks ts (memory_rt refresh_db))"
    and rows: "AgentResults p = map (outcome_row ?v) outs" "FailedAgents p = int (length (filter agent_failed outs))"
      "SyncedAgents p = int (length outs) - FailedAgents p"
    and status: "(task_status t', task_error_message t') = (if outs \<noteq> [] \<and> (\<forall>out\<in>set outs. agent_failed out)
       then (''failed'', Join (map (\<lambda>r. rr_name r @ '': '' @ rr_error r) (map (outcome_row ?v) outs)) ''; '') else (''completed'', []))"
    and task: "row_of task_id ''t1'' (tasks (rt_db s')) = Some t'" "task_payload_of t' = Progress p"
    unfolding start(5) by blast
  have "\<exists>m. fst (SyncAgentWithMode ?v test_agent mode s) = Inl (MessageError m)" for mode s
    by (simp add: SyncAgentWithMode_def Open_def test_agent_def record_failure_def on_alerts_def ignore_def bindp_def fail_def Let_def)
  with outs obtain m where "outs = [(test_agent, Inl (MessageError m))]" by fastforce
  then have "filter agent_failed outs = outs" "map rr_id (AgentResults p) = [''a1'']" "length outs = 1" "\<forall>out\<in>set outs. agent_failed out"
    by (simp_all add: rows(1) agent_failed_def outcome_row_def test_agent_def)
  with run task rows status show ?thesis by (intro exI [of _ s'] exI [of _ t'] exI [of _ p]) auto
qed

section \<open>The report of an agent\<close>

text \<open>Maps that are built entry by entry.\<close>

lemma map_put_keys [simp]: "fst ` set (map_put k v m) = insert k (fst ` set m)"
  by (auto simp: map_put_def image_iff split: prod.splits if_splits) force+

lemma map_put_distinct: "distinct (map fst m) \<Longrightarrow> distinct (map fst (map_put k v m))"
proof (cases "k \<in> fst ` set m")
  case True
  have "map fst (map_put k v m) = map fst m" using True by (simp add: map_put_def case_prod_beta)
  then show "distinct (map fst m) \<Longrightarrow> distinct (map fst (map_put k v m))" by simp
qed (simp add: map_put_def)

lemma fold_map_put:
  "distinct (map fst m) \<Longrightarrow> distinct (map fst (fold (\<lambda>x. map_put (key x) (val x)) xs m))"
  "fst ` set (fold (\<lambda>x. map_put (key x) (val x)) xs m) = key ` set xs \<union> fst ` set m"
  by (induction xs arbitrary: m) (auto simp: map_put_distinct)

lemma buildRuntimeVMs_keys:
  "distinct (map fst (buildRuntimeVMs item info vms t))"
  "fst ` set (buildRuntimeVMs item info vms t) = (\<lambda>r. vmRuntimeID (agent_id item) (av_Name r) (av_UUID r)) ` set vms"
  unfolding buildRuntimeVMs_def by (simp_all add: fold_map_put)

text \<open>What the merge makes of a machine whose last known state can be read.\<close>

definition merge_of :: "SyncMode \<Rightarrow> VirtualMachine \<Rightarrow> VirtualMachine \<Rightarrow> VirtualMachine" where
  "merge_of mode current previous = (case mode of
     SyncFast \<Rightarrow> mergeFastRuntimeDetails current previous
   | SyncFull \<Rightarrow> if shouldPreservePreviousOSType (vm_OSType current) (vm_OSType previous)
       then current\<lparr>vm_OSType := vm_OSType previous\<rparr> else current
   | SyncVMs \<Rightarrow> current)"

definition known_vm :: "('r, 'v) redis_client \<Rightarrow> ('r \<Rightarrow> 'v keyspace) \<Rightarrow> 'r \<Rightarrow> string \<Rightarrow> VirtualMachine option" where
  "known_vm c view r i = Option.bind (text_at (view r) (redisVMKey i)) (dec_vm c)"

definition merged ::
  "SyncMode \<Rightarrow> (string \<Rightarrow> VirtualMachine option) \<Rightarrow> (string \<times> VirtualMachine) list \<Rightarrow> (string \<times> VirtualMachine) list" where
  "merged mode known vms = map (\<lambda>(i, vm). (i, case known i of None \<Rightarrow> vm | Some previous \<Rightarrow> merge_of mode vm previous)) vms"

lemma merged_keys [simp]: "map fst (merged mode known vms) = map fst vms"
  by (simp add: merged_def case_prod_beta)

lemma GetVM_attempt:
  assumes "redis_laws c view"
  shows "attempt (GetVM c i) r = (Inr (case text_at (view r) (redisVMKey i) of None \<Rightarrow> Inr None
      | Some x \<Rightarrow> (case dec_vm c x of None \<Rightarrow> Inl JsonError | Some vm \<Rightarrow> Inr (Some vm))), r)"
  by (simp add: GetVM_def get_decoded_def attempt_def bindp_def redis_reads(3) [OF assms] ret_def fail_def split: option.split)

lemma merge_with_run:
  assumes "redis_laws c view"
  shows "merge_with c f vms r =
     (Inr (map (\<lambda>(i, vm). (i, case known_vm c view r i of None \<Rightarrow> vm | Some previous \<Rightarrow> f vm previous)) vms), r)"
  unfolding merge_with_def
  by (intro map_prog_reads) (auto simp: bindp_def ret_def known_vm_def GetVM_attempt [OF assms] split: option.split)

lemma merge_runs:
  assumes "redis_laws c view"
  shows "mergeRuntimeDetails c vms r = (Inr (merged SyncFull (known_vm c view r) vms), r)"
    "mergeFastRuntime c vms r = (Inr (merged SyncFast (known_vm c view r) vms), r)"
    "merged SyncVMs known vms = vms"
proof -
  have "merge_of SyncFast = mergeFastRuntimeDetails"
    "merge_of SyncFull = (\<lambda>current previous. if shouldPreservePreviousOSType (vm_OSType current) (vm_OSType previous)
       then current\<lparr>vm_OSType := vm_OSType previous\<rparr> else current)" by (simp_all add: fun_eq_iff merge_of_def)
  then show "mergeRuntimeDetails c vms r = (Inr (merged SyncFull (known_vm c view r) vms), r)"
    "mergeFastRuntime c vms r = (Inr (merged SyncFast (known_vm c view r) vms), r)"
    unfolding mergeRuntimeDetails_def mergeFastRuntime_def merge_with_run [OF assms] merged_def by (simp_all only:)
  have "(case known i of None \<Rightarrow> vm | Some previous \<Rightarrow> merge_of SyncVMs vm previous) = vm" for i vm
    by (simp add: merge_of_def split: option.split)
  then show "merged SyncVMs known vms = vms" by (simp add: merged_def)
qed

section \<open>The end of a synchronisation\<close>

text \<open>The stream of the metrics is not among the keys of the fleet.\<close>

definition stream_apart :: "('r, 'v) realtime_service \<Rightarrow> ('r \<Rightarrow> 'v keyspace) \<Rightarrow> bool" where
  "stream_apart v view \<longleftrightarrow> (\<forall>c. sv_stream v = Some c \<longrightarrow>
     (\<forall>k p r. view (snd (x_add c k p r)) = view r) \<and> (\<forall>k n r. view (snd (x_trim c k n r)) = view r))"

lemma append_metrics_run:
  assumes "stream_apart v view"
  shows "\<exists>r. append_metrics v a host vms t s = (Inr (), s\<lparr>rt_redis := r\<rparr>) \<and> view r = view (rt_redis s)"
proof (cases "sv_stream v")
  case None
  then show ?thesis by (intro exI [of _ "rt_redis s"]) (simp add: append_metrics_def ret_def)
next
  case (Some c)
  let ?r1 = "snd (appendMetricEvent c (buildMetricEvent a host vms t) (rt_redis s))"
  let ?r2 = "snd (trimMetricStream c (sv_stream_max v) ?r1)"
  have "view ?r1 = view (rt_redis s)" "view ?r2 = view ?r1"
    using assms Some by (auto simp: stream_apart_def appendMetricEvent_def trimMetricStream_def fail_def ret_def split: option.split)
  moreover have "snd (on_redis m s) = s\<lparr>rt_redis := snd (m (rt_redis s))\<rparr>" for m :: "('a, unit) redis_prog" and s :: "'a rt"
    by (simp add: on_redis_def split: prod.split sum.split)
  ultimately show ?thesis
    by (intro exI [of _ ?r2]) (simp add: append_metrics_def Some bindp_def ignore_def)
qed

text \<open>No alert of a source is active, and the queue of notifications does not change that.\<close>

definition no_active :: "string \<Rightarrow> string \<Rightarrow> db \<Rightarrow> bool" where
  "no_active st sid d \<longleftrightarrow> (\<forall>a \<in> set (alerts d). \<not> active_from st sid a)"

lemma fault_blind_no_active: "fault_blind (no_active st sid)"
  by (simp add: fault_blind_def no_active_def)

lemma keeps_no_active_reads: "keeps (no_active st sid) (query f)"
  by (intro keeps_intros fault_blind_no_active)

lemma keeps_no_active_writes:
  assumes "\<And>d. alerts (f d) = alerts d \<or> (\<exists>p g. alerts (f d) = upd_where p g (alerts d) \<and>
    (\<forall>a. active_from st sid (g a) \<longrightarrow> active_from st sid a))"
  shows "keeps (no_active st sid) (exec f)"
proof (intro keeps_intros fault_blind_no_active)
  fix d assume "no_active st sid d"
  with assms [of d] show "no_active st sid (f d)"
    unfolding no_active_def by (elim disjE exE conjE) (simp, auto simp: set_upd_where)
qed

lemma keeps_no_active_delivery: "keeps (no_active st sid) (insert_delivery a e c)"
proof -
  have "alerts (snd (gen_uuid d)) = alerts d" for d by (simp add: gen_uuid_def split: list.split)
  then show ?thesis
    unfolding insert_delivery_def
    by (intro keeps_stmt fault_blind_no_active) (simp add: Let_def case_prod_beta no_active_def)
qed

lemma keeps_no_active_marks:
  "keeps (no_active st sid) (MarkAlertNotificationSent i)" "keeps (no_active st sid) (MarkAlertNotificationDeliverySent i)"
  "keeps (no_active st sid) (MarkAlertNotificationDeliveryFailedWithConfig i m cfg)"
proof -
  show "keeps (no_active st sid) (MarkAlertNotificationSent i)"
    unfolding MarkAlertNotificationSent_def
    by (rule keeps_no_active_writes) (rule disjI2, intro exI conjI, simp, simp add: active_from_def alert_active_def)
  show "keeps (no_active st sid) (MarkAlertNotificationDeliverySent i)"
    unfolding MarkAlertNotificationDeliverySent_def by (rule keeps_no_active_writes) simp
  show "keeps (no_active st sid) (MarkAlertNotificationDeliveryFailedWithConfig i m cfg)"
    unfolding MarkAlertNotificationDeliveryFailedWithConfig_def Let_def by (rule keeps_no_active_writes) simp
qed

lemma keeps_no_active_config: "keeps (no_active st sid) GetSystemBaseConfig"
  unfolding GetSystemBaseConfig_def UpsertSystemBaseConfig_def
  by (intro keeps_intros keeps_no_active_reads keeps_no_active_writes) simp

lemma keeps_no_active_lists:
  "keeps (no_active st sid) (ListPendingAlertNotifications n)" "keeps (no_active st sid) (ListPendingAlertNotificationDeliveries n)"
  "keeps (no_active st sid) ListNotificationChannels"
  unfolding ListPendingAlertNotifications_def ListPendingAlertNotificationDeliveries_def ListNotificationChannels_def
  by (rule keeps_no_active_reads)+

lemmas keeps_no_active_ops = keeps_no_active_marks keeps_no_active_delivery keeps_no_active_config keeps_no_active_lists

lemma keeps_no_active_ensure: "keeps (no_active st sid) (EnsureAlertNotificationDeliveries a e)"
proof -
  have "keeps (no_active st sid) (ensure_deliveries i e cs n)" for i e cs n
    by (induction cs arbitrary: n) (auto intro!: keeps_intros keeps_no_active_ops)
  then show ?thesis
    unfolding EnsureAlertNotificationDeliveries_def by (intro keeps_intros keeps_no_active_ops)
qed

lemma keeps_no_active_one: "keeps (no_active st sid) (NotifyDelivery send q)"
  unfolding NotifyDelivery_def alertNotificationRuntimeConfig_def notificationChannel_def Let_def
  by (intro keeps_intros keeps_no_active_ops)

lemma keeps_no_active_notify:
  "keeps (\<lambda>s. no_active st sid (rt_db s)) (notifyPendingAlerts n)"
  "keeps (\<lambda>s. no_active st sid (rt_db s)) (queueRecoveryNotifications as)"
  unfolding notifyPendingAlerts_def loadAlertRuntimeConfig_def queueProblemNotification_def queueRecoveryNotifications_def
  by (intro keeps_intros keeps_on_db keeps_no_active_ops keeps_no_active_ensure keeps_no_active_one)+

lemma resolved_inactive: "\<not> active_from st sid (resolved t a)"
  by (simp add: active_from_def alert_active_def resolved_def)

lemma source_resolved:
  assumes "faults (rt_db s) = []"
  shows "no_active st sid (rt_db (snd (resolveActiveAlertsBySource st sid s)))"
proof -
  let ?as = "map (resolved (clock (rt_db s))) (filter (active_from st sid) (alerts (rt_db s)))"
    and ?s = "s\<lparr>rt_db := resolve_where (active_from st sid) (rt_db s)\<rparr>"
  have "on_db (ResolveActiveAlertsBySourceReturning st sid) s = (Inr ?as, ?s)"
    using assms by (simp add: on_db_run ResolveActiveAlertsBySourceReturning_def resolve_returning_def stmt_no_fault)
  then have "snd (resolveActiveAlertsBySource st sid s) = snd (queueRecoveryNotifications ?as ?s)"
    by (simp add: resolveActiveAlertsBySource_def bindp_def attempt_def)
  moreover have "no_active st sid (rt_db ?s)"
    by (auto simp: no_active_def resolve_where_def set_upd_where resolved_inactive)
  ultimately show ?thesis using keepsD [OF keeps_no_active_notify(2), of st sid ?s ?as] by simp
qed

text \<open>The state of the database that the alerts do not touch.\<close>

definition same_rest :: "db \<Rightarrow> agent list \<Rightarrow> db \<Rightarrow> bool" where
  "same_rest d as d' \<longleftrightarrow> faults d' = [] \<and> tasks d' = tasks d \<and> agents d' = as \<and> template_marks d' = template_marks d \<and> clock d' = clock d"

definition rest_and_keys :: "db \<Rightarrow> agent list \<Rightarrow> ('r \<Rightarrow> 'v keyspace) \<Rightarrow> 'v keyspace \<Rightarrow> 'r rt \<Rightarrow> bool" where
  "rest_and_keys d as view keys s \<longleftrightarrow> same_rest d as (rt_db s) \<and> view (rt_redis s) = keys"

lemma keeps_rest:
  "keeps (rest_and_keys d as view keys) (evaluateRuntimeAlerts item h vms)"
  "keeps (rest_and_keys d as view keys) (notifyPendingAlerts n)"
  "keeps (rest_and_keys d as view keys) (resolveActiveAlertsBySource st sid)"
proof -
  have eq: "rest_and_keys d as view keys = (\<lambda>s. (faults (rt_db s) = [] \<and> tasks (rt_db s) = tasks d \<and> agents (rt_db s) = as \<and>
     template_marks (rt_db s) = template_marks d \<and> clock (rt_db s) = clock d) \<and> (\<lambda>r q. view r = keys) (rt_redis s) (refreshQueue s))"
    by (simp add: fun_eq_iff rest_and_keys_def same_rest_def)
  show "keeps (rest_and_keys d as view keys) (evaluateRuntimeAlerts item h vms)"
    unfolding eq by (rule quiet.keeps_framed_evaluate)
  show "keeps (rest_and_keys d as view keys) (notifyPendingAlerts n)"
    "keeps (rest_and_keys d as view keys) (resolveActiveAlertsBySource st sid)"
    unfolding eq by (rule quiet.keeps_framed_queues)+
qed

lemma on_alerts_run: "on_alerts m s = (Inr (), snd (m s))"
  by (simp add: on_alerts_def ignore_def)

text \<open>The row of an agent after a synchronisation that succeeds.\<close>

definition synced_row :: "HostInfo \<Rightarrow> int \<Rightarrow> agent \<Rightarrow> agent" where
  "synced_row info t a = a\<lparr>agent_status := ''online'', agent_version := hi_KVMVersion info, agent_capabilities := hi_Capabilities info,
     agent_last_error := [], agent_failure_count := 0, agent_last_heartbeat_at := Some t, agent_last_sync_finished_at := Some t,
     agent_updated_at := t\<rparr>"

lemma synced_run:
  assumes "faults (rt_db s) = []"
  shows "on_store (UpdateAgentSyncSuccess i (hi_KVMVersion info) (hi_Capabilities info)) s = (Inr (), s\<lparr>rt_db := (rt_db s)
    \<lparr>agents := upd_where (\<lambda>a. agent_id a = i) (synced_row info (clock (rt_db s))) (agents (rt_db s))\<rparr>\<rparr>)"
  using assms by (simp add: on_store_def lift_error_def on_db_run UpdateAgentSyncSuccess_def update_agent_def exec_no_fault
    synced_row_def [abs_def])

lemma report_success_run:
  assumes "faults (rt_db s) = []" "stream_apart v view"
  shows "\<exists>s'. report_success v item info host vms t s = (Inr (), s') \<and> no_active ''agent'' (agent_id item) (rt_db s') \<and>
     rest_and_keys (rt_db s) (upd_where (\<lambda>a. agent_id a = agent_id item) (synced_row info (clock (rt_db s))) (agents (rt_db s)))
       view (view (rt_redis s)) s'"
proof -
  let ?rest = "\<lambda>as. rest_and_keys (rt_db s) as view (view (rt_redis s))"
  let ?as = "upd_where (\<lambda>a. agent_id a = agent_id item) (synced_row info (clock (rt_db s))) (agents (rt_db s))"
  obtain r where r: "append_metrics v (agent_id item) host vms t s = (Inr (), s\<lparr>rt_redis := r\<rparr>)" "view r = view (rt_redis s)"
    using append_metrics_run [OF assms(2)] by blast
  obtain s2 s3 where s2: "s2 = snd (evaluateRuntimeAlerts item host vms (s\<lparr>rt_redis := r\<rparr>))"
    and s3: "s3 = snd (notifyPendingAlerts (sv_notifier v) s2)" by blast
  have "?rest (agents (rt_db s)) (s\<lparr>rt_redis := r\<rparr>)" using assms(1) r(2) by (simp add: rest_and_keys_def same_rest_def)
  then have "?rest (agents (rt_db s)) s2" unfolding s2 by (rule keepsD [OF keeps_rest(1)])
  then have 3: "?rest (agents (rt_db s)) s3" unfolding s3 by (rule keepsD [OF keeps_rest(2)])
  then have f: "faults (rt_db s3) = []" "agents (rt_db s3) = agents (rt_db s)" "clock (rt_db s3) = clock (rt_db s)"
    by (simp_all add: rest_and_keys_def same_rest_def)
  obtain s4 where s4: "s4 = s3\<lparr>rt_db := (rt_db s3)\<lparr>agents := ?as\<rparr>\<rparr>" by blast
  have 4: "on_store (UpdateAgentSyncSuccess (agent_id item) (hi_KVMVersion info) (hi_Capabilities info)) s3 = (Inr (), s4)"
    unfolding synced_run [OF f(1)] f(2,3) s4 ..
  have r4: "?rest ?as s4" using 3 unfolding s4 rest_and_keys_def same_rest_def by simp
  obtain s5 where s5: "s5 = snd (resolveActiveAlertsBySource ''agent'' (agent_id item) s4)" by blast
  have r5: "?rest ?as s5" unfolding s5 by (rule keepsD [OF keeps_rest(3) r4])
  have "faults (rt_db s4) = []" using r4 by (simp add: rest_and_keys_def same_rest_def)
  then have n5: "no_active ''agent'' (agent_id item) (rt_db s5)" unfolding s5 by (rule source_resolved)
  obtain s6 where s6: "s6 = snd (notifyPendingAlerts (sv_notifier v) s5)" by blast
  have "report_success v item info host vms t s = (Inr (), s6)"
    unfolding report_success_def s6
    by (simp only: bindp_def r(1) on_alerts_run ignore_def 4 snd_conv prod.case sum.case s2 [symmetric] s3 [symmetric] s5 [symmetric])
  moreover have "no_active ''agent'' (agent_id item) (rt_db s6)" unfolding s6
    by (rule keepsD [where I = "\<lambda>s. no_active ''agent'' (agent_id item) (rt_db s)", OF keeps_no_active_notify(1) n5])
  moreover have "?rest ?as s6" unfolding s6 by (rule keepsD [OF keeps_rest(2) r5])
  ultimately show ?thesis by blast
qed

end
