(* ===== verification/Sync_Outcome.thy ===== *)
theory Sync_Outcome
  imports Sync_Properties
begin

text \<open>
  What a synchronisation leaves behind, from the answers of the agent and the state in which they arrive: the
  report of a registered agent becomes its state, the report of an agent that was deleted meanwhile is
  dropped together with what was left of the agent.
\<close>

section \<open>What is stored of a report\<close>

text \<open>The fields of the host that is stored, one by one, from the answer of the agent \<open>told\<close> and the number of
  machines it listed.\<close>

definition percent_of :: "int \<Rightarrow> int" where
  "percent_of told = max 0 (min 100 told)"

definition stores_host :: "agent \<Rightarrow> HostInfo \<Rightarrow> nat \<Rightarrow> int \<Rightarrow> Host \<Rightarrow> bool" where
  "stores_host item told n t h \<longleftrightarrow>
    h_ID h = agent_id item \<and> h_Name h = agent_name item \<and> h_Hostname h = hi_Hostname told \<and> h_Cluster h = ''default'' \<and>
    h_Address h = TrimSpace (if TrimSpace (hi_HostAddress told) = [] then agent_endpoint item else hi_HostAddress told) \<and>
    h_Status h = (if ToLower (TrimSpace (hi_Status told)) \<in> {''degraded'', ''maintenance'', ''offline''}
       then ToLower (TrimSpace (hi_Status told)) else ''online'') \<and>
    h_CPUCores h = hi_CPUCores told \<and> h_CPUUsage h = percent_of (hi_CPUUsage told) \<and>
    h_MemoryBytes h = hi_MemoryBytes told \<and> h_MemoryUsage h = percent_of (hi_MemoryUsage told) \<and>
    h_StorageBytes h = hi_StorageBytes told \<and> h_StorageUsage h = percent_of (hi_StorageUsage told) \<and>
    h_DiskReadBytesPerSec h = hi_DiskReadBytesPerSec told \<and> h_DiskWriteBytesPerSec h = hi_DiskWriteBytesPerSec told \<and>
    h_NetworkRxBytesPerSec h = hi_NetworkRxBytesPerSec told \<and> h_NetworkTxBytesPerSec h = hi_NetworkTxBytesPerSec told \<and>
    h_KVMVersion h = hi_KVMVersion told \<and> h_KVMFullVersion h = hi_KVMFullVersion told \<and>
    h_VMCount h = int n \<and> h_CreatedAt h = agent_created_at item \<and> h_UpdatedAt h = t"

text \<open>The system of a machine that was known before stays when the report names none, or only a family of
  systems while the known one was more precise.\<close>

definition family :: "string \<Rightarrow> bool" where
  "family os \<longleftrightarrow> HasSuffix (ToLower (TrimSpace os)) '' virtualization'' \<or>
    ToLower (TrimSpace os) \<in> {''windows'', ''centos'', ''ubuntu'', ''debian'', ''rocky linux'', ''almalinux'', ''fedora''}"

definition keeps_os :: "string \<Rightarrow> string \<Rightarrow> bool" where
  "keeps_os told before \<longleftrightarrow> TrimSpace before \<noteq> [] \<and> (TrimSpace told = [] \<or> family told \<and> \<not> family before)"

text \<open>The fields of a machine that is stored: what the agent told, and from the machine \<open>before\<close>, if it is known,
  the system, and after a fast report, which looks less closely, what the report lacks.\<close>

definition stores_vm :: "SyncMode \<Rightarrow> agent \<Rightarrow> HostInfo \<Rightarrow> int \<Rightarrow> VirtualMachine option \<Rightarrow> AgentVM \<Rightarrow> VirtualMachine \<Rightarrow> bool" where
  "stores_vm mode item info t before told m \<longleftrightarrow>
    (let lacks = (\<lambda>missing. mode = SyncFast \<and> before \<noteq> None \<and> missing);
         no_ip = TrimSpace (av_PrimaryIP told) = [] \<or> HasPrefix (TrimSpace (av_PrimaryIP told)) ''127.'' \<or>
           HasPrefix (TrimSpace (av_PrimaryIP told)) ''169.254.'' in
     vm_ID m = agent_id item @ '':'' @ (if TrimSpace (av_UUID told) = [] then av_Name told else TrimSpace (av_UUID told)) \<and>
     vm_HostID m = agent_id item \<and>
     vm_HostName m = TrimSpace (if TrimSpace (hi_HostAddress info) = [] then agent_endpoint item else hi_HostAddress info) \<and>
     vm_Name m = av_Name told \<and> vm_UUID m = av_UUID told \<and>
     vm_Status m = (if TrimSpace (av_Status told) = [] then ''unknown''
        else if ToLower (TrimSpace (av_Status told)) \<in> {''shut off'', ''shutoff'', ''off''} then ''stopped''
        else ToLower (TrimSpace (av_Status told))) \<and>
     vm_OSType m = (if mode \<noteq> SyncVMs \<and> before \<noteq> None \<and> keeps_os (av_OSType told) (vm_OSType (the before))
        then vm_OSType (the before) else av_OSType told) \<and>
     vm_CPUCores m = av_CPUCores told \<and> vm_CPUUsage m = percent_of (av_CPUUsage told) \<and>
     vm_CPUUsageAvailable m = av_CPUUsageAvailable told \<and> vm_MemoryBytes m = av_MemoryBytes told \<and>
     vm_Description m = (if lacks (TrimSpace (av_Description told) = []) then vm_Description (the before) else av_Description told) \<and>
     vm_PrimaryIP m = (if lacks no_ip then vm_PrimaryIP (the before) else av_PrimaryIP told) \<and>
     (vm_DiskBytes m, vm_DiskUsedBytes m, vm_Disks m, vm_DiskUsage m, vm_DiskUsageAvailable m) =
       (if lacks (av_DiskBytes told \<le> 0) then (vm_DiskBytes (the before), vm_DiskUsedBytes (the before), vm_Disks (the before),
          vm_DiskUsage (the before), vm_DiskUsageAvailable (the before))
        else (av_DiskBytes told, av_DiskUsedBytes told, av_Disks told, percent_of (av_DiskUsage told), av_DiskUsageAvailable told)) \<and>
     (vm_MemoryUsage m, vm_MemoryUsageAvailable m) =
       (if lacks (\<not> av_MemoryUsageAvailable told \<and> vm_MemoryUsageAvailable (the before)) then (vm_MemoryUsage (the before), True)
        else (percent_of (av_MemoryUsage told), av_MemoryUsageAvailable told)) \<and>
     vm_DiskReadBytesPerSec m = av_DiskReadBytesPerSec told \<and> vm_DiskWriteBytesPerSec m = av_DiskWriteBytesPerSec told \<and>
     vm_NetworkRxBytesPerSec m = av_NetworkRxBytesPerSec told \<and> vm_NetworkTxBytesPerSec m = av_NetworkTxBytesPerSec told \<and>
     vm_UptimeSeconds m = av_UptimeSeconds told \<and> \<not> vm_IsTemplate m \<and> vm_TemplateID m = [] \<and> vm_TemplateName m = [] \<and>
     vm_TemplateDescription m = [] \<and> vm_CreatedAt m = agent_created_at item \<and> vm_UpdatedAt m = t)"

text \<open>Of two reported machines with the same identifier the later one counts.\<close>

definition last_told :: "agent \<Rightarrow> AgentVM list \<Rightarrow> string \<Rightarrow> AgentVM option" where
  "last_told item remotes i = find (\<lambda>r. vmRuntimeID (agent_id item) (av_Name r) (av_UUID r) = i) (rev remotes)"

definition stores_vms ::
  "SyncMode \<Rightarrow> agent \<Rightarrow> HostInfo \<Rightarrow> int \<Rightarrow> (string \<Rightarrow> VirtualMachine option) \<Rightarrow> AgentVM list \<Rightarrow> (string \<Rightarrow> VirtualMachine option) \<Rightarrow> bool" where
  "stores_vms mode item info t before remotes vms \<longleftrightarrow> (\<forall>i. case last_told item remotes i of None \<Rightarrow> vms i = None
     | Some told \<Rightarrow> \<exists>m. vms i = Some m \<and> stores_vm mode item info t (before i) told m)"

lemma percent_of_clamp: "clampPercent p = percent_of p"
  by (simp add: clampPercent_def percent_of_def)

lemma host_is_stored: "stores_host item info n t (build_host item info (int n) t)"
  by (auto simp: stores_host_def build_host_def percent_of_clamp normalizeHostStatus_def Let_def)

lemma confidence_family:
  "osTypeConfidence os = (if TrimSpace os = [] then 0 else if family os then 1 else 2)"
  by (simp add: osTypeConfidence_def family_def Let_def ToLower_def)

lemma family_trimmed [simp]: "family (TrimSpace os) = family os"
  by (simp add: family_def)

lemma preserves_iff: "shouldPreservePreviousOSType told before = keeps_os told before"
proof (cases "EqualFold (TrimSpace told) (TrimSpace before)")
  case True
  then have "family told = family before" "(TrimSpace told = []) = (TrimSpace before = [])"
    by (simp add: EqualFold_def family_def, simp add: EqualFold_def ToLower_def) (metis map_is_Nil_conv)
  with True show ?thesis by (simp add: shouldPreservePreviousOSType_def keeps_os_def Let_def)
next
  case False
  then show ?thesis by (simp add: shouldPreservePreviousOSType_def keeps_os_def Let_def confidence_family)
qed

lemma convert_id [simp]: "convertVMDiskList ds = ds"
  by (simp add: convertVMDiskList_def map_idI)

lemma address_is_first: "firstNonEmpty [a, b] = TrimSpace (if TrimSpace a = [] then b else a)"
  by simp

lemma status_is_told:
  "normalizeVMStatus told = (if TrimSpace told = [] then ''unknown''
     else if ToLower (TrimSpace told) \<in> {''shut off'', ''shutoff'', ''off''} then ''stopped'' else ToLower (TrimSpace told))"
proof (cases "TrimSpace told = []")
  case True
  then show ?thesis by (simp add: normalizeVMStatus_def ToLower_def)
qed (simp add: normalizeVMStatus_def Let_def)

lemmas told_fields = address_is_first status_is_told percent_of_clamp convert_id vmRuntimeID_def Let_def

lemma fast_merge:
  "mergeFastRuntimeDetails m b = m\<lparr>
     vm_OSType := (if keeps_os (vm_OSType m) (vm_OSType b) then vm_OSType b else vm_OSType m),
     vm_Description := (if TrimSpace (vm_Description m) = [] then vm_Description b else vm_Description m),
     vm_PrimaryIP := (if usablePrimaryIP (vm_PrimaryIP m) then vm_PrimaryIP m else vm_PrimaryIP b),
     vm_DiskBytes := (if vm_DiskBytes m \<le> 0 then vm_DiskBytes b else vm_DiskBytes m),
     vm_DiskUsedBytes := (if vm_DiskBytes m \<le> 0 then vm_DiskUsedBytes b else vm_DiskUsedBytes m),
     vm_Disks := (if vm_DiskBytes m \<le> 0 then vm_Disks b else vm_Disks m),
     vm_DiskUsage := (if vm_DiskBytes m \<le> 0 then vm_DiskUsage b else vm_DiskUsage m),
     vm_DiskUsageAvailable := (if vm_DiskBytes m \<le> 0 then vm_DiskUsageAvailable b else vm_DiskUsageAvailable m),
     vm_MemoryUsage := (if \<not> vm_MemoryUsageAvailable m \<and> vm_MemoryUsageAvailable b then vm_MemoryUsage b else vm_MemoryUsage m),
     vm_MemoryUsageAvailable := (vm_MemoryUsageAvailable m \<or> vm_MemoryUsageAvailable b)\<rparr>"
  by (cases "keeps_os (vm_OSType m) (vm_OSType b)"; cases "TrimSpace (vm_Description m) = []"; cases "usablePrimaryIP (vm_PrimaryIP m)";
    cases "vm_DiskBytes m \<le> 0"; cases "vm_MemoryUsageAvailable m"; cases "vm_MemoryUsageAvailable b")
    (simp_all only: mergeFastRuntimeDetails_def Let_def preserves_iff if_True if_False VirtualMachine.simps, simp_all)

lemma built:
  "vm_ID (build_vm item info t remote) = vmRuntimeID (agent_id item) (av_Name remote) (av_UUID remote)"
  "vm_HostID (build_vm item info t remote) = agent_id item"
  "vm_HostName (build_vm item info t remote) = firstNonEmpty [hi_HostAddress info, agent_endpoint item]"
  "vm_Name (build_vm item info t remote) = av_Name remote"
  "vm_UUID (build_vm item info t remote) = av_UUID remote"
  "vm_Description (build_vm item info t remote) = av_Description remote"
  "vm_OSType (build_vm item info t remote) = av_OSType remote"
  "vm_Status (build_vm item info t remote) = normalizeVMStatus (av_Status remote)"
  "vm_CPUCores (build_vm item info t remote) = av_CPUCores remote"
  "vm_MemoryBytes (build_vm item info t remote) = av_MemoryBytes remote"
  "vm_DiskBytes (build_vm item info t remote) = av_DiskBytes remote"
  "vm_DiskUsedBytes (build_vm item info t remote) = av_DiskUsedBytes remote"
  "vm_Disks (build_vm item info t remote) = convertVMDiskList (av_Disks remote)"
  "vm_PrimaryIP (build_vm item info t remote) = av_PrimaryIP remote"
  "vm_CPUUsage (build_vm item info t remote) = clampPercent (av_CPUUsage remote)"
  "vm_CPUUsageAvailable (build_vm item info t remote) = av_CPUUsageAvailable remote"
  "vm_MemoryUsage (build_vm item info t remote) = clampPercent (av_MemoryUsage remote)"
  "vm_MemoryUsageAvailable (build_vm item info t remote) = av_MemoryUsageAvailable remote"
  "vm_DiskUsage (build_vm item info t remote) = clampPercent (av_DiskUsage remote)"
  "vm_DiskUsageAvailable (build_vm item info t remote) = av_DiskUsageAvailable remote"
  "vm_DiskReadBytesPerSec (build_vm item info t remote) = av_DiskReadBytesPerSec remote"
  "vm_DiskWriteBytesPerSec (build_vm item info t remote) = av_DiskWriteBytesPerSec remote"
  "vm_NetworkRxBytesPerSec (build_vm item info t remote) = av_NetworkRxBytesPerSec remote"
  "vm_NetworkTxBytesPerSec (build_vm item info t remote) = av_NetworkTxBytesPerSec remote"
  "vm_UptimeSeconds (build_vm item info t remote) = av_UptimeSeconds remote"
  "vm_IsTemplate (build_vm item info t remote) = False"
  "vm_TemplateID (build_vm item info t remote) = []"
  "vm_TemplateName (build_vm item info t remote) = []"
  "vm_TemplateDescription (build_vm item info t remote) = []"
  "vm_CreatedAt (build_vm item info t remote) = agent_created_at item"
  "vm_UpdatedAt (build_vm item info t remote) = t"
  by (simp_all add: build_vm_def)

lemma vm_is_stored:
  "stores_vm mode item info t before told (case before of None \<Rightarrow> build_vm item info t told | Some b \<Rightarrow> merge_of mode (build_vm item info t told) b)"
proof (cases before)
  case None
  then show ?thesis unfolding stores_vm_def Let_def by (intro conjI; simp add: built told_fields)
next
  case (Some b)
  show ?thesis
  proof (cases mode)
    case SyncFast
    show ?thesis
      unfolding Some SyncFast stores_vm_def merge_of_def SyncMode.case option.case fast_merge Let_def
      by (intro conjI; simp add: built told_fields usablePrimaryIP_def split del: if_split; simp add: built percent_of_clamp)
  next
    case SyncFull
    have full: "merge_of SyncFull m b = m\<lparr>vm_OSType := (if keeps_os (vm_OSType m) (vm_OSType b) then vm_OSType b else vm_OSType m)\<rparr>" for m
      by (simp add: merge_of_def preserves_iff)
    show ?thesis
      unfolding Some SyncFull stores_vm_def Let_def option.case full by (intro conjI; simp add: built told_fields)
  next
    case SyncVMs
    have same: "merge_of SyncVMs m b = m" for m by (simp add: merge_of_def)
    show ?thesis
      unfolding Some SyncVMs stores_vm_def Let_def option.case same by (intro conjI; simp add: built told_fields)
  qed
qed

lemma map_put_of: "map_of (map_put k v m) = (map_of m)(k \<mapsto> v)"
proof (cases "k \<in> fst ` set m")
  case True
  have "map_of (map (\<lambda>(k', v'). (k', if k' = k then v else v')) m) i = map_option (\<lambda>v'. if i = k then v else v') (map_of m i)" for i
    by (induction m) (simp_all add: case_prod_beta)
  moreover have "map_of m k \<noteq> None" using True by (simp add: map_of_eq_None_iff)
  ultimately show ?thesis using True by (simp add: map_put_def fun_eq_iff map_option.id [unfolded id_def])
next
  case False
  then have "map_of m k = None" by (simp add: map_of_eq_None_iff)
  with False show ?thesis by (simp add: map_put_def fun_eq_iff map_add_def split: option.split)
qed

lemma last_is_built:
  "map_of (buildRuntimeVMs item info remotes t) i = map_option (build_vm item info t) (last_told item remotes i)"
  by (induction remotes rule: rev_induct) (simp_all add: buildRuntimeVMs_def last_told_def map_put_of)

lemma vms_are_stored:
  "stores_vms mode item info t known remotes (map_of (merged mode known (buildRuntimeVMs item info remotes t)))"
proof -
  have "map_of (merged mode known vms) i = map_option (\<lambda>vm. case known i of None \<Rightarrow> vm | Some b \<Rightarrow> merge_of mode vm b) (map_of vms i)" for vms i
    by (induction vms) (simp_all add: merged_def case_prod_beta split: option.split)
  note of = this [of "buildRuntimeVMs item info remotes t", unfolded last_is_built]
  show ?thesis
    unfolding stores_vms_def
  proof
    fix i
    show "case last_told item remotes i of None \<Rightarrow> map_of (merged mode known (buildRuntimeVMs item info remotes t)) i = None
     | Some told \<Rightarrow> \<exists>m. map_of (merged mode known (buildRuntimeVMs item info remotes t)) i = Some m \<and> stores_vm mode item info t (known i) told m"
      unfolding of by (cases "last_told item remotes i") (simp_all add: vm_is_stored)
  qed
qed

section \<open>Until the report is complete\<close>

text \<open>The state after the row of the agent says that the synchronisation started.\<close>

definition started :: "agent \<Rightarrow> 'r rt \<Rightarrow> 'r rt" where
  "started item s = snd (on_store (MarkAgentSyncStarted (agent_id item)) s)"

text \<open>
  The agent answers with \<open>info\<close> and \<open>remotes\<close>, and after the second answer, in \<open>read\<close>, the last known
  machines are read. The snapshots are collected until \<open>s'\<close>. Other requests may have run before each answer.
\<close>

definition answered ::
  "('r, 'v) realtime_service \<Rightarrow> agent \<Rightarrow> string \<Rightarrow> SyncMode \<Rightarrow> 'r rt \<Rightarrow> HostInfo \<Rightarrow> AgentVM list \<Rightarrow> 'r rt \<Rightarrow>
   (string \<times> Snapshot) list \<Rightarrow> 'r rt \<Rightarrow> bool" where
  "answered v item token mode s info remotes read snapshots s' \<longleftrightarrow>
    (\<exists>s1. ag_HostInfo (sv_agents v) (config_of item token) (started item s) = (Inr info, s1) \<and>
       (if mode = SyncFast then ag_ListVMsFast else ag_ListVMs) (sv_agents v) (config_of item token) s1 = (Inr remotes, read)) \<and>
    (if mode = SyncFull then collect_snapshots v item token (clock (rt_db read))
       (map (\<lambda>r. (av_Name r, vmRuntimeID (agent_id item) (av_Name r) (av_UUID r))) remotes) [] else ret []) read = (Inr snapshots, s')"

text \<open>What is then stored.\<close>

definition new_host :: "agent \<Rightarrow> HostInfo \<Rightarrow> AgentVM list \<Rightarrow> 'r rt \<Rightarrow> Host" where
  "new_host item info remotes read = build_host item info (int (length remotes)) (clock (rt_db read))"

definition new_vms ::
  "('r, 'v) realtime_service \<Rightarrow> ('r \<Rightarrow> 'v keyspace) \<Rightarrow> agent \<Rightarrow> SyncMode \<Rightarrow> HostInfo \<Rightarrow> AgentVM list \<Rightarrow> 'r rt \<Rightarrow>
   (string \<times> VirtualMachine) list" where
  "new_vms v view item mode info remotes read =
     merged mode (known_vm (sv_store v) view (rt_redis read)) (buildRuntimeVMs item info remotes (clock (rt_db read)))"

lemma new_vms_keys:
  "distinct (map fst (new_vms v view item mode info remotes read))"
  "fst ` set (new_vms v view item mode info remotes read) = (\<lambda>r. vmRuntimeID (agent_id item) (av_Name r) (av_UUID r)) ` set remotes"
proof -
  show "distinct (map fst (new_vms v view item mode info remotes read))"
    unfolding new_vms_def merged_keys by (rule buildRuntimeVMs_keys)
  have "set (map fst (new_vms v view item mode info remotes read)) =
      set (map fst (buildRuntimeVMs item info remotes (clock (rt_db read))))"
    unfolding new_vms_def merged_keys ..
  then show "fst ` set (new_vms v view item mode info remotes read) =
      (\<lambda>r. vmRuntimeID (agent_id item) (av_Name r) (av_UUID r)) ` set remotes"
    by (simp add: buildRuntimeVMs_keys)
qed

lemma on_redis_merges:
  assumes "redis_laws c view"
  shows "on_redis (mergeRuntimeDetails c vms) s = (Inr (merged SyncFull (known_vm c view (rt_redis s)) vms), s)"
    "on_redis (mergeFastRuntime c vms) s = (Inr (merged SyncFast (known_vm c view (rt_redis s)) vms), s)"
  by (simp_all add: on_redis_def merge_runs(1,2) [OF assms])

text \<open>From there on the synchronisation is its end, in the state where the report is complete.\<close>

lemma sync_answered:
  assumes "redis_laws (sv_store v) view" "answered v item token mode s info remotes read snapshots s'"
  shows "syncWithToken v item token mode s =
    bindp (ensureAgentStillRegistered v (agent_id item)) (\<lambda>registered.
      if \<not> registered then fail (RepoError ErrNotFound)
      else bindp (store_runtime (SaveAgentRuntime (sv_store v) (agent_id item) (new_host item info remotes read)
          (new_vms v view item mode info remotes read) snapshots (mode = SyncFull))) (\<lambda>_.
        report_success v item info (new_host item info remotes read)
          (map snd (new_vms v view item mode info remotes read)) (clock (rt_db read)))) s'"
proof -
  let ?vms = "buildRuntimeVMs item info remotes (clock (rt_db read))" and ?known = "known_vm (sv_store v) view (rt_redis read)"
  from assms(2) obtain s1 where calls: "ag_HostInfo (sv_agents v) (config_of item token) (started item s) = (Inr info, s1)"
    "(if mode = SyncFast then ag_ListVMsFast else ag_ListVMs) (sv_agents v) (config_of item token) s1 = (Inr remotes, read)"
    and snaps: "(if mode = SyncFull then collect_snapshots v item token (clock (rt_db read))
       (map (\<lambda>r. (av_Name r, vmRuntimeID (agent_id item) (av_Name r) (av_UUID r))) remotes) [] else ret []) read = (Inr snapshots, s')"
    unfolding answered_def by blast
  have mark: "ignore (on_store (MarkAgentSyncStarted (agent_id item))) s = (Inr (), started item s)"
    by (simp add: ignore_def started_def)
  have agent_calls: "call_agent v item (ag_HostInfo (sv_agents v) (config_of item token)) (started item s) = (Inr info, s1)"
    "call_agent v item ((if mode = SyncFast then ag_ListVMsFast else ag_ListVMs) (sv_agents v) (config_of item token)) s1 = (Inr remotes, read)"
    unfolding call_agent_def bindp_def attempt_def calls by (simp_all add: ret_def)
  show ?thesis
  proof (cases mode)
    case SyncFast
    have c2: "call_agent v item (ag_ListVMsFast (sv_agents v) (config_of item token)) s1 = (Inr remotes, read)"
      using agent_calls(2) SyncFast by simp
    from SyncFast snaps have same: "s' = read" "snapshots = []" by (simp_all add: ret_def)
    from SyncFast show ?thesis unfolding new_vms_def new_host_def SyncFast same
      by (simp add: syncWithToken_def Let_def bindp_def mark agent_calls(1) c2
        time_now_def ret_def on_redis_merges [OF assms(1)])
  next
    case SyncFull
    have c2: "call_agent v item (ag_ListVMs (sv_agents v) (config_of item token)) s1 = (Inr remotes, read)"
      using agent_calls(2) SyncFull by simp
    from SyncFull snaps show ?thesis unfolding new_vms_def new_host_def SyncFull
      by (simp add: syncWithToken_def Let_def bindp_def mark agent_calls(1) c2
        time_now_def ret_def on_redis_merges [OF assms(1)])
  next
    case SyncVMs
    have c2: "call_agent v item (ag_ListVMs (sv_agents v) (config_of item token)) s1 = (Inr remotes, read)"
      using agent_calls(2) SyncVMs by simp
    from SyncVMs snaps have same: "s' = read" "snapshots = []" by (simp_all add: ret_def)
    from SyncVMs show ?thesis unfolding new_vms_def new_host_def SyncVMs same merge_runs(3) [OF assms(1)]
      by (simp add: syncWithToken_def Let_def bindp_def mark agent_calls(1) c2
        time_now_def ret_def)
  qed
qed


section \<open>The agent is registered\<close>

lemma GetAgent_run:
  "faults d = [] \<Longrightarrow> GetAgent i d = (case row_of agent_id i (agents d) of None \<Rightarrow> (Inl ErrNotFound, d) | Some a \<Rightarrow> (Inr a, d))"
  by (simp add: GetAgent_def bindp_def query_no_fault found_agent_def ret_def fail_def split: option.split)

lemma registered_run:
  assumes "faults (rt_db s) = []"
  shows "row_of agent_id i (agents (rt_db s)) = Some row \<Longrightarrow> ensureAgentStillRegistered v i s = (Inr True, s)"
    "row_of agent_id i (agents (rt_db s)) = None \<Longrightarrow>
       ensureAgentStillRegistered v i s = bindp (on_redis (RemoveAgent (sv_store v) i)) (\<lambda>_. ret False) s"
  using assms by (simp_all add: ensureAgentStillRegistered_def bindp_def attempt_def on_store_def lift_error_def on_db_run
    GetAgent_run ret_def)

lemma sync_registered:
  assumes "redis_laws (sv_store v) view" "stream_apart v view"
    and "answered v item token mode s info remotes read snapshots s'"
    and "faults (rt_db s') = []" "row_of agent_id (agent_id item) (agents (rt_db s')) = Some row"
    and "SaveAgentRuntime (sv_store v) (agent_id item) (new_host item info remotes read) (new_vms v view item mode info remotes read)
       snapshots (mode = SyncFull) (rt_redis s') = (Inr (), r)"
  shows "\<exists>s2. syncWithToken v item token mode s = (Inr (), s2) \<and> no_active ''agent'' (agent_id item) (rt_db s2) \<and>
     rest_and_keys (rt_db s') (upd_where (\<lambda>a. agent_id a = agent_id item) (synced_row info (clock (rt_db s'))) (agents (rt_db s')))
       view (view r) s2"
proof -
  let ?h = "new_host item info remotes read" and ?vms = "new_vms v view item mode info remotes read"
  obtain s2 where s2: "report_success v item info ?h (map snd ?vms) (clock (rt_db read)) (s'\<lparr>rt_redis := r\<rparr>) = (Inr (), s2)"
    "no_active ''agent'' (agent_id item) (rt_db s2)"
    "rest_and_keys (rt_db s') (upd_where (\<lambda>a. agent_id a = agent_id item) (synced_row info (clock (rt_db s'))) (agents (rt_db s')))
       view (view r) s2"
    using report_success_run [OF _ assms(2), of "s'\<lparr>rt_redis := r\<rparr>" item info ?h "map snd ?vms" "clock (rt_db read)"] assms(4)
    by auto
  have "store_runtime (SaveAgentRuntime (sv_store v) (agent_id item) ?h ?vms snapshots (mode = SyncFull)) s' = (Inr (), s'\<lparr>rt_redis := r\<rparr>)"
    by (simp add: store_runtime_def bindp_def attempt_def on_redis_def assms(6) ret_def)
  then have "syncWithToken v item token mode s = (Inr (), s2)"
    unfolding sync_answered [OF assms(1,3)] bindp_def
    by (simp add: registered_run(1) [OF assms(4,5)] s2(1))
  with s2 show ?thesis by blast
qed

text \<open>C29: a synchronisation whose agent answers and is still registered succeeds and replaces the state of the
  agent by the report: the fleet then has a host whose every field is what \<open>stores_host\<close> says of the answer
  (status normalised, percentages clamped, as many machines as were listed), and exactly the reported machines,
  each with the fields that \<open>stores_vm\<close> says, from the last report under its identifier and, where the mode and
  the report leave room for it, from the last known state of the machine; the other agents are as they were.
  The row of the agent is online without failures, no other row and no task has changed, and no alert about the
  agent is active.\<close>

theorem sync_stores_report:
  assumes "redis_laws (sv_store v) view" "stream_apart v view"
    and "answered v item token mode s info remotes read snapshots s'"
    and "faults (rt_db s') = []" "row_of agent_id (agent_id item) (agents (rt_db s')) = Some row"
    and "runtime_wf (sv_store v) view (rt_redis s')" "agent_id item \<notin> fl_deleted (fleet_at (sv_store v) view (rt_redis s'))"
    and "\<forall>b r. b \<noteq> agent_id item \<longrightarrow> r \<in> set remotes \<longrightarrow>
       fl_vms (fleet_at (sv_store v) view (rt_redis s')) b (vmRuntimeID (agent_id item) (av_Name r) (av_UUID r)) = None"
  shows "\<exists>s2 host vms. syncWithToken v item token mode s = (Inr (), s2) \<and> runtime_wf (sv_store v) view (rt_redis s2) \<and>
     fleet_at (sv_store v) view (rt_redis s2) =
       (fleet_at (sv_store v) view (rt_redis s'))
         \<lparr>fl_host := (fl_host (fleet_at (sv_store v) view (rt_redis s')))(agent_id item \<mapsto> host),
          fl_vms := (fl_vms (fleet_at (sv_store v) view (rt_redis s')))(agent_id item := vms)\<rparr> \<and>
     stores_host item info (length remotes) (clock (rt_db read)) host \<and>
     stores_vms mode item info (clock (rt_db read)) (known_vm (sv_store v) view (rt_redis read)) remotes vms \<and>
     agents (rt_db s2) = upd_where (\<lambda>a. agent_id a = agent_id item) (synced_row info (clock (rt_db s'))) (agents (rt_db s')) \<and>
     no_active ''agent'' (agent_id item) (rt_db s2) \<and> tasks (rt_db s2) = tasks (rt_db s')"
proof -
  let ?c = "sv_store v" and ?h = "new_host item info remotes read" and ?vms = "new_vms v view item mode info remotes read"
  let ?w = "Save (agent_id item) ?h ?vms snapshots (mode = SyncFull)"
  note wf = assms(6) [unfolded runtime_wf_def]
  have "write_ok ?w (fleet_at ?c view (rt_redis s'))"
    using assms(8) by (auto simp: write_ok_def new_vms_keys)
  from save_write [OF assms(1) wf this [unfolded fleet_at_def]] assms(7) obtain r where
    r: "SaveAgentRuntime ?c (agent_id item) ?h ?vms snapshots (mode = SyncFull) (rt_redis s') = (Inr (), r)"
      "runtime_wf ?c view r" "fleet_at ?c view r = fleet_effect ?w (fleet_at ?c view (rt_redis s'))"
    by (auto simp: fleet_write_def target_def fleet_at_def runtime_wf_def)
  have stored: "stores_host item info (length remotes) (clock (rt_db read)) ?h"
    "stores_vms mode item info (clock (rt_db read)) (known_vm ?c view (rt_redis read)) remotes (map_of ?vms)"
    unfolding new_host_def new_vms_def by (rule host_is_stored, rule vms_are_stored)
  from sync_registered [OF assms(1-5) r(1)] r(2,3) obtain s2 where
    "syncWithToken v item token mode s = (Inr (), s2)" "no_active ''agent'' (agent_id item) (rt_db s2)" "runtime_wf ?c view (rt_redis s2)"
    "fleet_at ?c view (rt_redis s2) = fleet_effect ?w (fleet_at ?c view (rt_redis s'))" "tasks (rt_db s2) = tasks (rt_db s')"
    "agents (rt_db s2) = upd_where (\<lambda>a. agent_id a = agent_id item) (synced_row info (clock (rt_db s'))) (agents (rt_db s'))"
    by (auto simp: rest_and_keys_def same_rest_def runtime_wf_def fleet_at_def)
  with stored show ?thesis
    by (intro exI [of _ s2] exI [of _ ?h] exI [of _ "map_of ?vms"]) (simp add: fleet_effect_def)
qed

lemma test_store [simp]: "sv_store (test_service m) = memory_client"
  by (simp add: test_service_def)

lemma test_runs:
  "stream_apart (test_service m) view_memory" "runtime_wf memory_client view_memory (rt_redis (memory_rt d))"
  "fleet_at memory_client view_memory (rt_redis (memory_rt d)) =
     \<lparr>fl_host = Map.empty, fl_vms = (\<lambda>_. Map.empty), fl_deleted = {}\<rparr>"
  by (simp_all add: stream_apart_def test_service_def memory_rt_def empty_store)

theorem sync_stores_report_witness:
  "\<exists>s2 h m. syncWithToken (test_service (ret ())) test_agent ''t'' SyncFast (memory_rt (empty_db\<lparr>agents := [test_agent]\<rparr>)) = (Inr (), s2) \<and>
     fl_host (fleet_at memory_client view_memory (rt_redis s2)) ''a1'' = Some h \<and> h_CPUCores h = 4 \<and> h_VMCount h = 1 \<and> h_Status h = ''online'' \<and>
     fl_vms (fleet_at memory_client view_memory (rt_redis s2)) ''a1'' ''a1:u1'' = Some m \<and> vm_Status m = ''running'' \<and> vm_MemoryBytes m = 512 \<and>
     no_active ''agent'' ''a1'' (rt_db s2)"
proof -
  let ?v = "test_service (ret ())" and ?s = "memory_rt (empty_db\<lparr>agents := [test_agent]\<rparr>)"
  let ?s' = "started test_agent ?s"
  have start: "?s' = memory_rt (empty_db\<lparr>agents := [test_agent\<lparr>agent_last_sync_started_at := Some 1000, agent_updated_at := 1000\<rparr>]\<rparr>)"
    by (simp add: started_def on_store_def lift_error_def on_db_run MarkAgentSyncStarted_def update_agent_def exec_no_fault
      memory_rt_def empty_db_def upd_where_def)
  have 1: "answered ?v test_agent ''t'' SyncFast ?s test_info [test_vm] ?s' [] ?s'"
    by (simp add: answered_def test_service_def test_agents_def bindp_def ret_def)
  have base: "faults (rt_db ?s') = []" "row_of agent_id (agent_id test_agent) (agents (rt_db ?s')) =
      Some (test_agent\<lparr>agent_last_sync_started_at := Some 1000, agent_updated_at := 1000\<rparr>)"
    unfolding start by (simp_all add: memory_rt_def empty_db_def row_of_def)
  have laws: "redis_laws (sv_store ?v) view_memory" by (simp add: memory_laws)
  have more: "runtime_wf (sv_store ?v) view_memory (rt_redis ?s')"
    "agent_id test_agent \<notin> fl_deleted (fleet_at (sv_store ?v) view_memory (rt_redis ?s'))"
    "\<forall>b r. b \<noteq> agent_id test_agent \<longrightarrow> r \<in> set [test_vm] \<longrightarrow> fl_vms (fleet_at (sv_store ?v) view_memory (rt_redis ?s')) b
       (vmRuntimeID (agent_id test_agent) (av_Name r) (av_UUID r)) = None"
    unfolding start by (simp_all add: test_runs)
  obtain s2 host vms where s2: "syncWithToken ?v test_agent ''t'' SyncFast ?s = (Inr (), s2)"
      "fleet_at (sv_store ?v) view_memory (rt_redis s2) = (fleet_at (sv_store ?v) view_memory (rt_redis ?s'))
         \<lparr>fl_host := (fl_host (fleet_at (sv_store ?v) view_memory (rt_redis ?s')))(agent_id test_agent \<mapsto> host),
          fl_vms := (fl_vms (fleet_at (sv_store ?v) view_memory (rt_redis ?s')))(agent_id test_agent := vms)\<rparr>"
      "stores_host test_agent test_info (length [test_vm]) (clock (rt_db ?s')) host"
      "stores_vms SyncFast test_agent test_info (clock (rt_db ?s')) (known_vm (sv_store ?v) view_memory (rt_redis ?s')) [test_vm] vms"
      "no_active ''agent'' (agent_id test_agent) (rt_db s2)"
    using sync_stores_report [OF laws test_runs(1) 1 base more] by blast
  have low: "ToLower ''online'' = ''online''" "TrimSpace ''online'' = ''online''" "ToLower ''running'' = ''running''" "TrimSpace ''running'' = ''running''"
    "vmRuntimeID ''a1'' ''web'' ''u1'' = ''a1:u1''"
    by code_simp+
  have "h_CPUCores host = 4" "h_VMCount host = 1" "h_Status host = ''online''"
    using s2(3) by (simp_all add: stores_host_def test_info_def low)
  moreover have "last_told test_agent [test_vm] ''a1:u1'' = Some test_vm"
    by (simp add: last_told_def test_agent_def test_vm_def low)
  with s2(4) obtain m where "vms ''a1:u1'' = Some m" "stores_vm SyncFast test_agent test_info (clock (rt_db ?s'))
      (known_vm (sv_store ?v) view_memory (rt_redis ?s') ''a1:u1'') test_vm m"
    by (force simp: stores_vms_def dest: spec [of _ "''a1:u1''"])
  then have "vms ''a1:u1'' = Some m" "vm_Status m = ''running''" "vm_MemoryBytes m = 512"
    by (simp_all add: stores_vm_def Let_def test_vm_def low)
  ultimately show ?thesis using s2(1,2,5) by (auto simp: test_agent_def)
qed

text \<open>C30: an agent that is deleted while its synchronisation waits for its answers stays deleted: the
  synchronisation ends with the error that it is not found, and nothing of the report is stored; what Redis
  still has of the agent is removed, the other agents are as they were, and the database has not changed.\<close>

theorem deleted_during_sync:
  assumes "redis_laws (sv_store v) view"
    and "answered v item token mode s info remotes read snapshots s'"
    and "faults (rt_db s') = []" "row_of agent_id (agent_id item) (agents (rt_db s')) = None"
    and "runtime_wf (sv_store v) view (rt_redis s')"
  shows "\<exists>s2. syncWithToken v item token mode s = (Inl (RepoError ErrNotFound), s2) \<and> rt_db s2 = rt_db s' \<and>
     runtime_wf (sv_store v) view (rt_redis s2) \<and>
     fleet_at (sv_store v) view (rt_redis s2) = fleet_effect (Remove (agent_id item)) (fleet_at (sv_store v) view (rt_redis s'))"
proof -
  from remove_write [OF assms(1) assms(5) [unfolded runtime_wf_def]] obtain r where
    r: "RemoveAgent (sv_store v) (agent_id item) (rt_redis s') = (Inr (), r)" "runtime_wf (sv_store v) view r"
      "fleet_at (sv_store v) view r = fleet_effect (Remove (agent_id item)) (fleet_at (sv_store v) view (rt_redis s'))"
    unfolding runtime_wf_def fleet_at_def by blast
  have "on_redis (RemoveAgent (sv_store v) (agent_id item)) s' = (Inr (), s'\<lparr>rt_redis := r\<rparr>)"
    by (simp add: on_redis_def r(1))
  then have "syncWithToken v item token mode s = (Inl (RepoError ErrNotFound), s'\<lparr>rt_redis := r\<rparr>)"
    unfolding sync_answered [OF assms(1,2)] bindp_def
    by (simp add: registered_run(2) [OF assms(3,4)] bindp_def ret_def fail_def)
  with r show ?thesis by simp
qed

text \<open>Another request deletes the agent while its machines are read.\<close>

definition delete_meanwhile :: "(memory rt, agent_error, unit) prog" where
  "delete_meanwhile s = (Inr (), s\<lparr>rt_db := (rt_db s)\<lparr>agents := []\<rparr>\<rparr>)"

theorem deleted_during_sync_witness:
  "\<exists>s2. syncWithToken (test_service delete_meanwhile) test_agent ''t'' SyncFast (memory_rt (empty_db\<lparr>agents := [test_agent]\<rparr>)) =
     (Inl (RepoError ErrNotFound), s2) \<and> fl_deleted (fleet_at memory_client view_memory (rt_redis s2)) = {''a1''}"
proof -
  let ?v = "test_service delete_meanwhile" and ?s = "memory_rt (empty_db\<lparr>agents := [test_agent]\<rparr>)"
  let ?s' = "snd (delete_meanwhile (started test_agent ?s))"
  have start: "?s' = memory_rt empty_db"
    by (simp add: delete_meanwhile_def started_def on_store_def lift_error_def on_db_run MarkAgentSyncStarted_def update_agent_def
      exec_no_fault memory_rt_def empty_db_def)
  have 1: "answered ?v test_agent ''t'' SyncFast ?s test_info [test_vm] ?s' [] ?s'"
    by (simp add: answered_def test_service_def test_agents_def bindp_def ret_def delete_meanwhile_def)
  have base: "faults (rt_db ?s') = []" "row_of agent_id (agent_id test_agent) (agents (rt_db ?s')) = None"
    unfolding start by (simp_all add: memory_rt_def empty_db_def row_of_def)
  have laws: "redis_laws (sv_store ?v) view_memory" by (simp add: memory_laws)
  have "runtime_wf (sv_store ?v) view_memory (rt_redis ?s')" unfolding start by (simp add: test_runs)
  from deleted_during_sync [OF laws 1 base this] obtain s2 where
    s2: "syncWithToken ?v test_agent ''t'' SyncFast ?s = (Inl (RepoError ErrNotFound), s2)"
      "fleet_at (sv_store ?v) view_memory (rt_redis s2) =
         fleet_effect (Remove (agent_id test_agent)) (fleet_at (sv_store ?v) view_memory (rt_redis ?s'))"
    by blast
  have "fl_deleted (fleet_at memory_client view_memory (rt_redis s2)) = {''a1''}"
    using s2(2) unfolding start by (simp add: test_runs fleet_effect_def test_agent_def)
  with s2(1) show ?thesis by blast
qed


section \<open>Snapshots that could not be listed\<close>

lemma full_save_drops:
  assumes "redis_laws c view" "a \<notin> fl_deleted (fleet_at c view r)"
    and "i \<in> members (view r) (redisAgentVMsKey a)" "k \<in> members (view r) (redisVMSnapshotsKey i)"
  shows "\<exists>r'. SaveAgentRuntime c a host vms [] True r = (Inr (), r') \<and> k \<notin> members (view r') redisSnapshotsKey \<and>
     GetSnapshot c k r' = (Inr None, r')"
proof -
  have m: "a \<notin> s_marked (shelf_of (view r))" using assms(2) by (simp add: fleet_at_def)
  let ?cs = "save_commands c a host (map (save_chunk c r True) (smem c r (redisAgentVMsKey a))) vms [] True"
  obtain r' where r': "SaveAgentRuntime c a host vms [] True r = rejectDeletedAgentRuntimeWrite c a (Inr ()) r'"
    "view r' = fold run_command ?cs (view r)"
    by (rule SaveAgentRuntime_run [OF assms(1) m])
  have "view r' (redisAgentDeleteMarkerKey a) = view r (redisAgentDeleteMarkerKey a)"
    unfolding r'(2) by (rule fold_untouched) (auto simp: save_commands_def save_chunk_def snapshot_drops_def add_snapshots_def)
  with m have "a \<notin> s_marked (shelf_of (view r'))" by (simp add: shelf_sel)
  then have run: "SaveAgentRuntime c a host vms [] True r = (Inr (), r')"
    unfolding r'(1) by (rule reject_unmarked [OF assms(1)])
  have drops: "SRem redisSnapshotsKey k \<in> set ?cs" "Del [redisSnapshotKey k] \<in> set ?cs"
    using assms(3,4) by (auto simp: save_commands_def save_chunk_def snapshot_drops_def redis_reads(2) [OF assms(1)])
  have "members (view r') redisSnapshotsKey = members (view r) redisSnapshotsKey - {j. SRem redisSnapshotsKey j \<in> set ?cs}"
    unfolding r'(2) by (rule fold_srem) (auto simp: save_commands_def save_chunk_def snapshot_drops_def add_snapshots_def)
  moreover have "view r' (redisSnapshotKey k) = (if \<exists>x \<in> set ?cs. redisSnapshotKey k \<in> writes x then None else view r (redisSnapshotKey k))"
    unfolding r'(2) by (rule fold_del) (auto simp: save_commands_def save_chunk_def snapshot_drops_def add_snapshots_def)
  moreover have "\<exists>x \<in> set ?cs. redisSnapshotKey k \<in> writes x" using drops(2) by (intro bexI) auto
  ultimately have "k \<notin> members (view r') redisSnapshotsKey" "view r' (redisSnapshotKey k) = None" using drops(1) by simp_all
  then show ?thesis
    by (intro exI [of _ r']) (simp add: run GetSnapshot_def get_decoded_def bindp_def ret_def redis_reads(3) [OF assms(1)] text_at_def)
qed

lemma nothing_listed:
  assumes "\<forall>name s. \<exists>e. ag_ListSnapshots (sv_agents v) name (config_of item token) s = (Inl e, s)"
  shows "collect_snapshots v item token t ms acc s = (Inr acc, s)"
proof (induction ms)
  case (Cons m ms)
  obtain name i where "m = (name, i)" by (cases m)
  moreover obtain e where "ag_ListSnapshots (sv_agents v) name (config_of item token) s = (Inl e, s)" using assms by blast
  ultimately show ?case using Cons by (simp add: bindp_def attempt_def)
qed (simp add: ret_def)

text \<open>a full synchronisation during which the snapshots of the machines cannot be listed succeeds, and every
  snapshot that was known of the agent's machines is gone from the lists, as if it had been deleted.\<close>

theorem failed_listing_drops_snapshots:
  assumes "redis_laws (sv_store v) view" "stream_apart v view"
    and "\<forall>name s. \<exists>e. ag_ListSnapshots (sv_agents v) name (config_of item token) s = (Inl e, s)"
    and "ag_HostInfo (sv_agents v) (config_of item token) (started item s) = (Inr info, s1)"
    and "ag_ListVMs (sv_agents v) (config_of item token) s1 = (Inr remotes, read)"
    and "faults (rt_db read) = []" "row_of agent_id (agent_id item) (agents (rt_db read)) = Some row"
    and "agent_id item \<notin> fl_deleted (fleet_at (sv_store v) view (rt_redis read))"
    and "i \<in> members (view (rt_redis read)) (redisAgentVMsKey (agent_id item))" "k \<in> members (view (rt_redis read)) (redisVMSnapshotsKey i)"
  shows "\<exists>s2. syncWithToken v item token SyncFull s = (Inr (), s2) \<and> k \<notin> members (view (rt_redis s2)) redisSnapshotsKey \<and>
     GetSnapshot (sv_store v) k (rt_redis s2) = (Inr None, rt_redis s2)"
proof -
  have 1: "answered v item token SyncFull s info remotes read [] read"
    using assms(4,5) unfolding answered_def by (auto simp: nothing_listed [OF assms(3)])
  obtain r where r: "SaveAgentRuntime (sv_store v) (agent_id item) (new_host item info remotes read)
      (new_vms v view item SyncFull info remotes read) [] (SyncFull = SyncFull) (rt_redis read) = (Inr (), r)"
    "k \<notin> members (view r) redisSnapshotsKey" "GetSnapshot (sv_store v) k r = (Inr None, r)"
    using full_save_drops [OF assms(1,8-10)] by auto
  from sync_registered [OF assms(1,2) 1 assms(6,7) r(1)] obtain s2 where
    s2: "syncWithToken v item token SyncFull s = (Inr (), s2)" "view (rt_redis s2) = view r"
    unfolding rest_and_keys_def by blast
  have "GetSnapshot (sv_store v) k (rt_redis s2) = (Inr None, rt_redis s2)"
    using r(3) by (auto simp: GetSnapshot_def get_decoded_def bindp_def ret_def fail_def redis_reads(3) [OF assms(1)] s2(2)
      split: option.splits)
  with s2 r(2) show ?thesis by auto
qed


definition no_listing :: "(memory, blob) realtime_service" where
  "no_listing = (test_service (ret ()))\<lparr>sv_agents := (test_agents (ret ()))
     \<lparr>ag_ListSnapshots := \<lambda>name cfg s. (Inl \<lparr>ae_kind = PlainError, ae_text = ''unavailable''\<rparr>, s)\<rparr>\<rparr>"

definition one_snapshot :: memory where
  "one_snapshot = [redisAgentVMsKey ''a1'' \<mapsto> ListSlot [''a1:u1''], redisVMSnapshotsKey ''a1:u1'' \<mapsto> ListSlot [''s1''],
     redisSnapshotsKey \<mapsto> ListSlot [''s1''], redisSnapshotKey ''s1'' \<mapsto> OneSlot (SnapshotBlob sample_snapshot)]"

theorem failed_listing_drops_snapshots_witness:
  "\<exists>s2. syncWithToken no_listing test_agent ''t'' SyncFull ((memory_rt (empty_db\<lparr>agents := [test_agent]\<rparr>))\<lparr>rt_redis := one_snapshot\<rparr>) =
     (Inr (), s2) \<and> GetSnapshot memory_client ''s1'' (rt_redis s2) = (Inr None, rt_redis s2)"
proof -
  let ?s = "(memory_rt (empty_db\<lparr>agents := [test_agent]\<rparr>))\<lparr>rt_redis := one_snapshot\<rparr>"
  have store: "sv_store no_listing = memory_client" by (simp add: no_listing_def test_service_def)
  have laws: "redis_laws (sv_store no_listing) view_memory" by (simp add: store memory_laws)
  have calls: "ag_HostInfo (sv_agents no_listing) cfg x = (Inr test_info, x)" "ag_ListVMs (sv_agents no_listing) cfg x = (Inr [test_vm], x)" for cfg x
    by (simp_all add: no_listing_def test_agents_def bindp_def ret_def)
  have "started test_agent ?s = (memory_rt (empty_db\<lparr>agents := [test_agent\<lparr>agent_last_sync_started_at := Some 1000, agent_updated_at := 1000\<rparr>]\<rparr>))
      \<lparr>rt_redis := one_snapshot\<rparr>"
    by (simp add: started_def on_store_def lift_error_def on_db_run MarkAgentSyncStarted_def update_agent_def exec_no_fault
      memory_rt_def empty_db_def upd_where_def)
  then have base: "faults (rt_db (started test_agent ?s)) = []" "row_of agent_id (agent_id test_agent) (agents (rt_db (started test_agent ?s))) =
      Some (test_agent\<lparr>agent_last_sync_started_at := Some 1000, agent_updated_at := 1000\<rparr>)"
    "rt_redis (started test_agent ?s) = one_snapshot"
    by (simp_all add: memory_rt_def empty_db_def row_of_def)
  have apart: "stream_apart no_listing view_memory" by (simp add: stream_apart_def no_listing_def test_service_def)
  have broken: "\<forall>name s. \<exists>e. ag_ListSnapshots (sv_agents no_listing) name (config_of test_agent ''t'') s = (Inl e, s)"
    by (simp add: no_listing_def)
  have known: "agent_id test_agent \<notin> fl_deleted (fleet_at (sv_store no_listing) view_memory (rt_redis (started test_agent ?s)))"
    "''a1:u1'' \<in> members (view_memory (rt_redis (started test_agent ?s))) (redisAgentVMsKey (agent_id test_agent))"
    "''s1'' \<in> members (view_memory (rt_redis (started test_agent ?s))) (redisVMSnapshotsKey ''a1:u1'')"
    unfolding base(3) by (simp_all add: fleet_at_def shelf_sel one_snapshot_def members_def view_memory_def test_agent_def)
  from failed_listing_drops_snapshots [where s = ?s and remotes = "[test_vm]", OF laws apart broken calls base(1,2) known] show ?thesis
    unfolding store by blast
qed

end
