(* ===== verification/Agent_Types.thy ===== *)
theory Agent_Types
  imports Sync_Service
begin

text \<open>
  What the server and an agent exchange: the structs of \<open>backend/pkg/agent\<close> (\<open>client.go\<close>, \<open>vm.go\<close>,
  \<open>pool_types.go\<close>). The agent declares the same structs again (\<open>agent/internal/kvm/types.go\<close>); a value is
  encoded field by field as JSON and decoded on the other side, so the two are one type here. The hosts,
  machines and snapshots of a report are in \<open>Sync_Helpers\<close>.
\<close>

record HostInterface =
  ifc_Name :: string
  ifc_Type :: string
  ifc_MAC :: string
  ifc_IPv4 :: string
  ifc_IPv4Mode :: string
  ifc_IPv6 :: string
  ifc_IPv6Mode :: string
  ifc_BridgeDevice :: string
  ifc_BootMode :: string
  ifc_Status :: string
  ifc_STP :: string
  ifc_Delay :: string

record HostInterfaceCreateRequest =
  ic_Name :: string
  ic_StartMode :: string
  ic_Device :: string
  ic_Type :: string
  ic_STP :: string
  ic_Delay :: string
  ic_IPv4Mode :: string
  ic_IPv4Address :: string
  ic_IPv4Gateway :: string
  ic_IPv6Mode :: string
  ic_IPv6Address :: string
  ic_IPv6Gateway :: string
  ic_ApplySystemConfig :: bool
  ic_DNSServers :: "string list"

record HostInterfaceDevice =
  idv_Name :: string

record StoragePool =
  sp_Name :: string
  sp_Type :: string
  sp_State :: string
  sp_Autostart :: bool
  sp_Path :: string
  sp_CapacitySource :: string
  sp_Capacity :: int
  sp_Allocation :: int
  sp_Available :: int
  sp_VolumeCount :: int

record StoragePoolCreateRequest =
  spc_Name :: string
  spc_Type :: string
  spc_Path :: string
  spc_Device :: string
  spc_SourceHost :: string
  spc_SourcePath :: string
  spc_Format :: string

record ISOFile =
  iso_Name :: string
  iso_Path :: string
  iso_Bytes :: int
  iso_Pool :: string

record StorageVolume =
  vol_Name :: string
  vol_Path :: string
  vol_Type :: string
  vol_Format :: string
  vol_Capacity :: int
  vol_Allocation :: int
  vol_Pool :: string
  vol_CloneSupported :: bool
  vol_DeleteSupported :: bool

record StorageVolumeCreateRequest =
  volc_Name :: string
  volc_Format :: string
  volc_CapacityBytes :: int
  volc_PreallocMetadata :: bool

record StorageVolumeCloneRequest =
  voll_Name :: string
  voll_SourceName :: string
  voll_Format :: string
  voll_Convert :: bool
  voll_PreallocMetadata :: bool

record PoolStateUpdateRequest =
  pst_Active :: bool

record PoolAutostartUpdateRequest =
  pau_Autostart :: bool

record NetworkFixedAddress =
  nfa_Address :: string
  nfa_MAC :: string

record NetworkPool =
  np_Name :: string
  np_State :: string
  np_Autostart :: bool
  np_Bridge :: string
  np_Forward :: string
  np_Subnet :: string
  np_DHCP :: bool
  np_DHCPStart :: string
  np_DHCPEnd :: string
  np_FixedAddresses :: "NetworkFixedAddress list"
  np_OpenVSwitch :: bool

record NetworkPoolCreateRequest =
  npc_Name :: string
  npc_Subnet :: string
  npc_DHCP :: bool
  npc_FixedAddress :: bool
  npc_Type :: string
  npc_Bridge :: string
  npc_OpenVSwitch :: bool

record VMConfigDisk =
  cd_Name :: string
  cd_Path :: string
  cd_SourcePath :: string
  cd_Pool :: string
  cd_Bus :: string
  cd_Device :: string
  cd_Type :: string
  cd_Bytes :: int

record VMConfigInterface =
  ci_Name :: string
  ci_MAC :: string
  ci_Type :: string
  ci_Source :: string
  ci_Model :: string

record VMConfigCDROM =
  cc_Name :: string
  cc_Path :: string
  cc_Bus :: string
  cc_Connected :: bool

record VMConfigGraphics =
  cg_Type :: string
  cg_Listen :: string
  cg_Port :: string
  cg_PasswordEnabled :: bool

record VMConfig =
  vc_Name :: string
  vc_UUID :: string
  vc_OSType :: string
  vc_Status :: string
  vc_Description :: string
  vc_Autostart :: bool
  vc_CurrentCPU :: int
  vc_MaximumCPU :: int
  vc_HostCPU :: int
  vc_Arch :: string
  vc_CurrentMemoryBytes :: int
  vc_MaximumMemoryBytes :: int
  vc_HostMemoryBytes :: int
  vc_MemoryStatsPeriod :: int
  vc_Disks :: "VMConfigDisk list"
  vc_Interfaces :: "VMConfigInterface list"
  vc_CDROMs :: "VMConfigCDROM list"
  vc_Graphics :: VMConfigGraphics
  vc_XML :: string

record VMConfigUpdateRequest =
  cu_Description :: string
  cu_CurrentCPU :: int
  cu_MaximumCPU :: int
  cu_CurrentMemoryMB :: int
  cu_MaximumMemoryMB :: int
  cu_MemoryStatsPeriod :: int

record VMRenameRequest =
  rn_Name :: string

record VMAutostartUpdateRequest =
  vau_Autostart :: bool

record VMConsoleUpdateRequest =
  con_PasswordEnabled :: bool
  con_Password :: string

record VMMediaConnectRequest =
  mco_Target :: string
  mco_ISOPath :: string

record VMMediaDisconnectRequest =
  mdi_Target :: string

record VMXMLUpdateRequest =
  xu_XML :: string

record VMDeviceInterfaceRequest =
  di_Name :: string
  di_MAC :: string
  di_Source :: string

record VMDeviceNewInterface =
  dni_Source :: string
  dni_Model :: string

record VMDeviceDeleteInterface =
  ddi_Name :: string
  ddi_MAC :: string

record VMDeviceDiskResizeRequest =
  drs_Name :: string
  drs_CapacityBytes :: int

record VMDeviceDeleteDiskRequest =
  ddd_Name :: string

record VMDeviceNewDiskRequest =
  dnd_Name :: string
  dnd_Pool :: string
  dnd_Target :: string
  dnd_Bus :: string
  dnd_Format :: string
  dnd_CapacityBytes :: int
  dnd_PreallocMetadata :: bool

record VMDeviceUpdateRequest =
  du_Interfaces :: "VMDeviceInterfaceRequest list"
  du_NewInterfaces :: "VMDeviceNewInterface list"
  du_DeletedInterfaces :: "VMDeviceDeleteInterface list"
  du_DiskResizes :: "VMDeviceDiskResizeRequest list"
  du_NewDisks :: "VMDeviceNewDiskRequest list"
  du_DeletedDisks :: "VMDeviceDeleteDiskRequest list"

record VMCloneInterfaceRequest =
  kif_Name :: string
  kif_MAC :: string
  kif_Source :: string

record VMCloneDiskRequest =
  kd_Name :: string
  kd_Pool :: string
  kd_SourcePath :: string
  kd_TargetName :: string
  kd_PreallocMetadata :: bool

record VMCloneRequest =
  cl_Name :: string
  cl_Description :: string
  cl_Autostart :: bool
  cl_CurrentCPU :: int
  cl_MaximumCPU :: int
  cl_CurrentMemoryMB :: int
  cl_MaximumMemoryMB :: int
  cl_CDROMPolicy :: string
  cl_Interfaces :: "VMCloneInterfaceRequest list"
  cl_Disks :: "VMCloneDiskRequest list"

record VMCreateTemplate =
  ct_SourcePool :: string
  ct_SourceName :: string
  ct_TargetPool :: string
  ct_TargetName :: string
  ct_Bus :: string
  ct_Format :: string
  ct_Convert :: bool
  ct_PreallocMetadata :: bool

record VMCreateDiskRequest =
  crd_Name :: string
  crd_Pool :: string
  crd_Format :: string
  crd_Bus :: string
  crd_CapacityGB :: int
  crd_PreallocMetadata :: bool

record VMCreateRequest =
  cr_CreateMode :: string
  cr_Name :: string
  cr_Description :: string
  cr_Autostart :: bool
  cr_CurrentCPU :: int
  cr_MaximumCPU :: int
  cr_CurrentMemoryMB :: int
  cr_MaximumMemoryMB :: int
  cr_CPUModel :: string
  cr_OSType :: string
  cr_Disks :: "VMCreateDiskRequest list"
  cr_DiskName :: string
  cr_DiskPool :: string
  cr_DiskFormat :: string
  cr_DiskBus :: string
  cr_DiskCapacityGB :: int
  cr_PreallocMetadata :: bool
  cr_ISOPath :: string
  cr_ISOBus :: string
  cr_NetworkSource :: string
  cr_NetworkModel :: string
  cr_Graphics :: string
  cr_ConsolePassword :: string
  cr_BootFirmware :: string
  cr_Template :: VMCreateTemplate
  cr_XML :: string

record VMMigrateRequest =
  mg_DestinationURI :: string
  mg_Live :: bool
  mg_CopyDisks :: bool
  mg_Persistent :: bool
  mg_UndefineSource :: bool
  mg_AutoConverge :: bool
  mg_PostCopy :: bool

record MigrationConnectionCheckRequest =
  mcq_DestinationURI :: string
  mcq_Live :: bool

record MigrationConnectionCheckResult =
  mcr_OK :: bool
  mcr_PasswordRequired :: bool
  mcr_Message :: string

record MigrationSSHKeySetupRequest =
  msk_DestinationURI :: string
  msk_Username :: string
  msk_Password :: string

record MigrationHostnameSetupRequest =
  mhn_DestinationURI :: string
  mhn_Hostname :: string

record ConsoleInfo =
  ki_Type :: string
  ki_Listen :: string
  ki_Port :: int
  ki_PasswordEnabled :: bool

record SnapshotCreateRequest =
  sc_Name :: string
  sc_Description :: string

end
