(* ===== verification/Agent_Client.thy ===== *)
theory Agent_Client
  imports Agent_Types Auth_Wecom
begin

text \<open>
  The client of an agent: \<open>backend/pkg/agent/client.go\<close>, \<open>vm.go\<close> and \<open>storage_upload.go\<close>. The transport
  (\<open>net/http\<close> and the network) is an argument: it gets the method, the URL, the bearer token and the body, and
  gives the status and the body of the answer, or an error. A body is the value that is encoded as JSON. Time
  limits are among the errors of the transport.
\<close>

section \<open>Bodies and answers\<close>

datatype (plugins only: code) request_body =
    NoBody
  | QInterface HostInterfaceCreateRequest
  | QPool StoragePoolCreateRequest
  | QVolume StorageVolumeCreateRequest
  | QVolumeClone StorageVolumeCloneRequest
  | QUpload string string string
  | QState PoolStateUpdateRequest
  | QAutostart PoolAutostartUpdateRequest
  | QNetwork NetworkPoolCreateRequest
  | QConfig VMConfigUpdateRequest
  | QRename VMRenameRequest
  | QVMAutostart VMAutostartUpdateRequest
  | QConsole VMConsoleUpdateRequest
  | QConnect VMMediaConnectRequest
  | QDisconnect VMMediaDisconnectRequest
  | QXML VMXMLUpdateRequest
  | QVMDevices VMDeviceUpdateRequest
  | QCloneVM VMCloneRequest
  | QCreateVM VMCreateRequest
  | QMigrate VMMigrateRequest
  | QCheck MigrationConnectionCheckRequest
  | QSSHKey MigrationSSHKeySetupRequest
  | QHostname MigrationHostnameSetupRequest
  | QSnapshot SnapshotCreateRequest

datatype (plugins only: code) reply =
    RHost HostInfo
  | RInterfaces "HostInterface list"
  | RInterface HostInterface
  | RInterfaceDevices "HostInterfaceDevice list"
  | RPools "StoragePool list"
  | RPool StoragePool
  | RISOFiles "ISOFile list"
  | RVolumes "StorageVolume list"
  | RVolume StorageVolume
  | RNetworks "NetworkPool list"
  | RNetwork NetworkPool
  | RVMs "AgentVM list"
  | RVM AgentVM
  | RConfig VMConfig
  | RConsole ConsoleInfo
  | RSnapshots "AgentSnapshot list"
  | RMigration MigrationConnectionCheckResult
  | RDone
  | RError string string

text \<open>The body of an answer is nothing when it is not the JSON text of a value, or an error of more than 4096 bytes.\<close>

record http_answer =
  ans_status :: int
  ans_text :: string
  ans_body :: "reply option"

type_synonym 's http_transport =
  "string \<Rightarrow> string \<Rightarrow> string \<Rightarrow> bool \<Rightarrow> request_body \<Rightarrow> ('s, agent_error, http_answer) prog"

section \<open>A request\<close>

definition urlPathEscape :: "string \<Rightarrow> string" where
  "urlPathEscape value = ReplaceAll (QueryEscape value) ''+'' ''%20''"

definition readAgentErrorMessage :: "reply option \<Rightarrow> string" where
  "readAgentErrorMessage body = (case body of
     Some (RError error message) \<Rightarrow> if TrimSpace message \<noteq> [] then TrimSpace message else TrimSpace error
   | _ \<Rightarrow> [])"

text \<open>
  \<open>target\<close> decodes the body. A body of another shape than the one asked for is an error here; the code would
  take the fields that agree.
\<close>

definition client_do ::
  "'s http_transport \<Rightarrow> string \<Rightarrow> agent_config \<Rightarrow> string \<Rightarrow> request_body \<Rightarrow> (reply \<Rightarrow> 'a option) \<Rightarrow> ('s, agent_error, 'a) prog" where
  "client_do send meth cfg path body target =
    bindp (send meth (TrimRight (cfg_Endpoint cfg) ''/'' @ path) (cfg_Token cfg) (cfg_TLSInsecure cfg) body) (\<lambda>ans.
    if ans_status ans < 200 \<or> 300 \<le> ans_status ans
    then fail (http_error (ans_status ans) (ans_text ans) (readAgentErrorMessage (ans_body ans)))
    else case Option.bind (ans_body ans) target of
      None \<Rightarrow> fail \<lparr>ae_kind = PlainError, ae_text = ''invalid JSON''\<rparr>
    | Some x \<Rightarrow> ret x)"

text \<open>A request whose answer is not read.\<close>

definition client_send :: "'s http_transport \<Rightarrow> string \<Rightarrow> agent_config \<Rightarrow> string \<Rightarrow> request_body \<Rightarrow> ('s, agent_error, unit) prog" where
  "client_send send meth cfg path body =
    bindp (send meth (TrimRight (cfg_Endpoint cfg) ''/'' @ path) (cfg_Token cfg) (cfg_TLSInsecure cfg) body) (\<lambda>ans.
    if ans_status ans < 200 \<or> 300 \<le> ans_status ans
    then fail (http_error (ans_status ans) (ans_text ans) (readAgentErrorMessage (ans_body ans)))
    else ret ())"

abbreviation "client_get send cfg path \<equiv> client_do send ''GET'' cfg path NoBody"

section \<open>Targets\<close>

definition as_vms :: "reply \<Rightarrow> AgentVM list option" where "as_vms r = (case r of RVMs x \<Rightarrow> Some x | _ \<Rightarrow> None)"
definition as_vm :: "reply \<Rightarrow> AgentVM option" where "as_vm r = (case r of RVM x \<Rightarrow> Some x | _ \<Rightarrow> None)"
definition as_host :: "reply \<Rightarrow> HostInfo option" where "as_host r = (case r of RHost x \<Rightarrow> Some x | _ \<Rightarrow> None)"
definition as_interfaces :: "reply \<Rightarrow> HostInterface list option" where "as_interfaces r = (case r of RInterfaces x \<Rightarrow> Some x | _ \<Rightarrow> None)"
definition as_interface :: "reply \<Rightarrow> HostInterface option" where "as_interface r = (case r of RInterface x \<Rightarrow> Some x | _ \<Rightarrow> None)"
definition as_devices :: "reply \<Rightarrow> HostInterfaceDevice list option" where "as_devices r = (case r of RInterfaceDevices x \<Rightarrow> Some x | _ \<Rightarrow> None)"
definition as_pools :: "reply \<Rightarrow> StoragePool list option" where "as_pools r = (case r of RPools x \<Rightarrow> Some x | _ \<Rightarrow> None)"
definition as_pool :: "reply \<Rightarrow> StoragePool option" where "as_pool r = (case r of RPool x \<Rightarrow> Some x | _ \<Rightarrow> None)"
definition as_isos :: "reply \<Rightarrow> ISOFile list option" where "as_isos r = (case r of RISOFiles x \<Rightarrow> Some x | _ \<Rightarrow> None)"
definition as_volumes :: "reply \<Rightarrow> StorageVolume list option" where "as_volumes r = (case r of RVolumes x \<Rightarrow> Some x | _ \<Rightarrow> None)"
definition as_volume :: "reply \<Rightarrow> StorageVolume option" where "as_volume r = (case r of RVolume x \<Rightarrow> Some x | _ \<Rightarrow> None)"
definition as_networks :: "reply \<Rightarrow> NetworkPool list option" where "as_networks r = (case r of RNetworks x \<Rightarrow> Some x | _ \<Rightarrow> None)"
definition as_network :: "reply \<Rightarrow> NetworkPool option" where "as_network r = (case r of RNetwork x \<Rightarrow> Some x | _ \<Rightarrow> None)"
definition as_config :: "reply \<Rightarrow> VMConfig option" where "as_config r = (case r of RConfig x \<Rightarrow> Some x | _ \<Rightarrow> None)"
definition as_console :: "reply \<Rightarrow> ConsoleInfo option" where "as_console r = (case r of RConsole x \<Rightarrow> Some x | _ \<Rightarrow> None)"
definition as_snapshots :: "reply \<Rightarrow> AgentSnapshot list option" where "as_snapshots r = (case r of RSnapshots x \<Rightarrow> Some x | _ \<Rightarrow> None)"
definition as_migration :: "reply \<Rightarrow> MigrationConnectionCheckResult option" where
  "as_migration r = (case r of RMigration x \<Rightarrow> Some x | _ \<Rightarrow> None)"

lemmas target_defs = as_vms_def as_vm_def as_host_def as_interfaces_def as_interface_def as_devices_def as_pools_def as_pool_def
  as_isos_def as_volumes_def as_volume_def as_networks_def as_network_def as_config_def as_console_def as_snapshots_def as_migration_def

section \<open>The operations\<close>

definition client_HostInfo :: "'s http_transport \<Rightarrow> agent_config \<Rightarrow> ('s, agent_error, HostInfo) prog" where
  "client_HostInfo send cfg = client_do send ''GET'' cfg ''/v1/host'' NoBody as_host"

definition client_ListHostInterfaces :: "'s http_transport \<Rightarrow> agent_config \<Rightarrow> ('s, agent_error, HostInterface list) prog" where
  "client_ListHostInterfaces send cfg = client_do send ''GET'' cfg ''/v1/host/interfaces'' NoBody as_interfaces"

definition client_CreateHostInterface :: "'s http_transport \<Rightarrow> agent_config \<Rightarrow> HostInterfaceCreateRequest \<Rightarrow> ('s, agent_error, HostInterface) prog" where
  "client_CreateHostInterface send cfg request = client_do send ''POST'' cfg ''/v1/host/interfaces'' (QInterface request) as_interface"

definition client_ListHostInterfaceDevices :: "'s http_transport \<Rightarrow> agent_config \<Rightarrow> ('s, agent_error, HostInterfaceDevice list) prog" where
  "client_ListHostInterfaceDevices send cfg = client_do send ''GET'' cfg ''/v1/host/interfaces/devices/list'' NoBody as_devices"

definition client_DeleteHostInterface :: "'s http_transport \<Rightarrow> agent_config \<Rightarrow> string \<Rightarrow> ('s, agent_error, unit) prog" where
  "client_DeleteHostInterface send cfg name =
     client_send send ''DELETE'' cfg (''/v1/host/interfaces/'' @ urlPathEscape name @ ''/delete'') NoBody"

definition client_UpdateHostInterfaceState :: "'s http_transport \<Rightarrow> agent_config \<Rightarrow> string \<Rightarrow> PoolStateUpdateRequest \<Rightarrow> ('s, agent_error, unit) prog" where
  "client_UpdateHostInterfaceState send cfg name request =
     client_send send ''PUT'' cfg (''/v1/host/interfaces/'' @ urlPathEscape name @ ''/state'') (QState request)"

definition client_ListStoragePools :: "'s http_transport \<Rightarrow> agent_config \<Rightarrow> ('s, agent_error, StoragePool list) prog" where
  "client_ListStoragePools send cfg = client_do send ''GET'' cfg ''/v1/storage-pools'' NoBody as_pools"

definition client_CreateStoragePool :: "'s http_transport \<Rightarrow> agent_config \<Rightarrow> StoragePoolCreateRequest \<Rightarrow> ('s, agent_error, StoragePool) prog" where
  "client_CreateStoragePool send cfg request = client_do send ''POST'' cfg ''/v1/storage-pools'' (QPool request) as_pool"

definition client_ListISOFiles :: "'s http_transport \<Rightarrow> agent_config \<Rightarrow> string \<Rightarrow> ('s, agent_error, ISOFile list) prog" where
  "client_ListISOFiles send cfg poolName =
     client_do send ''GET'' cfg (''/v1/storage-pools/'' @ urlPathEscape poolName @ ''/iso-files'') NoBody as_isos"

definition client_ListStorageVolumes :: "'s http_transport \<Rightarrow> agent_config \<Rightarrow> string \<Rightarrow> ('s, agent_error, StorageVolume list) prog" where
  "client_ListStorageVolumes send cfg poolName =
     client_do send ''GET'' cfg (''/v1/storage-pools/'' @ urlPathEscape poolName @ ''/volumes'') NoBody as_volumes"

definition client_CreateStorageVolume :: "'s http_transport \<Rightarrow> agent_config \<Rightarrow> string \<Rightarrow> StorageVolumeCreateRequest \<Rightarrow> ('s, agent_error, StorageVolume) prog" where
  "client_CreateStorageVolume send cfg poolName request =
     client_do send ''POST'' cfg (''/v1/storage-pools/'' @ urlPathEscape poolName @ ''/volumes'') (QVolume request) as_volume"

definition client_CloneStorageVolume :: "'s http_transport \<Rightarrow> agent_config \<Rightarrow> string \<Rightarrow> StorageVolumeCloneRequest \<Rightarrow> ('s, agent_error, StorageVolume) prog" where
  "client_CloneStorageVolume send cfg poolName request =
     client_do send ''POST'' cfg (''/v1/storage-pools/'' @ urlPathEscape poolName @ ''/volumes/clone'') (QVolumeClone request) as_volume"

definition client_DeleteStorageVolume :: "'s http_transport \<Rightarrow> agent_config \<Rightarrow> string \<Rightarrow> string \<Rightarrow> ('s, agent_error, unit) prog" where
  "client_DeleteStorageVolume send cfg poolName volumeName =
     client_send send ''DELETE'' cfg (''/v1/storage-pools/'' @ urlPathEscape poolName @ ''/volumes?name='' @ QueryEscape volumeName) NoBody"

definition client_UploadStorageVolume :: "'s http_transport \<Rightarrow> agent_config \<Rightarrow> string \<Rightarrow> string \<Rightarrow> string \<Rightarrow> string \<Rightarrow> ('s, agent_error, StorageVolume) prog" where
  "client_UploadStorageVolume send cfg poolName volumeName fileName content =
     client_do send ''POST'' cfg (''/v1/storage-pools/'' @ urlPathEscape poolName @ ''/volumes/upload'') (QUpload (if TrimSpace volumeName \<noteq> [] then volumeName else []) fileName content) as_volume"

definition client_DeleteStoragePool :: "'s http_transport \<Rightarrow> agent_config \<Rightarrow> string \<Rightarrow> ('s, agent_error, unit) prog" where
  "client_DeleteStoragePool send cfg poolName =
     client_send send ''DELETE'' cfg (''/v1/storage-pools/'' @ urlPathEscape poolName @ ''/delete'') NoBody"

definition client_UpdateStoragePoolState :: "'s http_transport \<Rightarrow> agent_config \<Rightarrow> string \<Rightarrow> PoolStateUpdateRequest \<Rightarrow> ('s, agent_error, unit) prog" where
  "client_UpdateStoragePoolState send cfg poolName request =
     client_send send ''PUT'' cfg (''/v1/storage-pools/'' @ urlPathEscape poolName @ ''/state'') (QState request)"

definition client_UpdateStoragePoolAutostart :: "'s http_transport \<Rightarrow> agent_config \<Rightarrow> string \<Rightarrow> PoolAutostartUpdateRequest \<Rightarrow> ('s, agent_error, unit) prog" where
  "client_UpdateStoragePoolAutostart send cfg poolName request =
     client_send send ''PUT'' cfg (''/v1/storage-pools/'' @ urlPathEscape poolName @ ''/autostart'') (QAutostart request)"

definition client_ListNetworkPools :: "'s http_transport \<Rightarrow> agent_config \<Rightarrow> ('s, agent_error, NetworkPool list) prog" where
  "client_ListNetworkPools send cfg = client_do send ''GET'' cfg ''/v1/network-pools'' NoBody as_networks"

definition client_CreateNetworkPool :: "'s http_transport \<Rightarrow> agent_config \<Rightarrow> NetworkPoolCreateRequest \<Rightarrow> ('s, agent_error, NetworkPool) prog" where
  "client_CreateNetworkPool send cfg request = client_do send ''POST'' cfg ''/v1/network-pools'' (QNetwork request) as_network"

definition client_DeleteNetworkPool :: "'s http_transport \<Rightarrow> agent_config \<Rightarrow> string \<Rightarrow> ('s, agent_error, unit) prog" where
  "client_DeleteNetworkPool send cfg poolName =
     client_send send ''DELETE'' cfg (''/v1/network-pools/'' @ urlPathEscape poolName @ ''/delete'') NoBody"

definition client_UpdateNetworkPoolState :: "'s http_transport \<Rightarrow> agent_config \<Rightarrow> string \<Rightarrow> PoolStateUpdateRequest \<Rightarrow> ('s, agent_error, unit) prog" where
  "client_UpdateNetworkPoolState send cfg poolName request =
     client_send send ''PUT'' cfg (''/v1/network-pools/'' @ urlPathEscape poolName @ ''/state'') (QState request)"

definition client_UpdateNetworkPoolAutostart :: "'s http_transport \<Rightarrow> agent_config \<Rightarrow> string \<Rightarrow> PoolAutostartUpdateRequest \<Rightarrow> ('s, agent_error, unit) prog" where
  "client_UpdateNetworkPoolAutostart send cfg poolName request =
     client_send send ''PUT'' cfg (''/v1/network-pools/'' @ urlPathEscape poolName @ ''/autostart'') (QAutostart request)"

definition client_RunVMAction :: "'s http_transport \<Rightarrow> agent_config \<Rightarrow> string \<Rightarrow> string \<Rightarrow> ('s, agent_error, unit) prog" where
  "client_RunVMAction send cfg vmName action = client_send send ''POST'' cfg (''/v1/vms/'' @ urlPathEscape vmName @ ''/'' @ action) NoBody"

definition client_listVMs :: "'s http_transport \<Rightarrow> agent_config \<Rightarrow> string \<Rightarrow> ('s, agent_error, AgentVM list) prog" where
  "client_listVMs send cfg level =
     client_do send ''GET'' cfg (if level = [] then ''/v1/vms'' else ''/v1/vms?level='' @ QueryEscape level) NoBody as_vms"

definition client_VM :: "'s http_transport \<Rightarrow> agent_config \<Rightarrow> string \<Rightarrow> ('s, agent_error, AgentVM) prog" where
  "client_VM send cfg vmName = client_do send ''GET'' cfg (''/v1/vms/'' @ urlPathEscape vmName @ ''/refresh'') NoBody as_vm"

definition client_ListSnapshots :: "'s http_transport \<Rightarrow> agent_config \<Rightarrow> string \<Rightarrow> ('s, agent_error, AgentSnapshot list) prog" where
  "client_ListSnapshots send cfg vmName =
     client_do send ''GET'' cfg (''/v1/vms/'' @ urlPathEscape vmName @ ''/snapshots'') NoBody as_snapshots"

definition client_VMConfig :: "'s http_transport \<Rightarrow> agent_config \<Rightarrow> string \<Rightarrow> ('s, agent_error, VMConfig) prog" where
  "client_VMConfig send cfg vmName = client_do send ''GET'' cfg (''/v1/vms/'' @ urlPathEscape vmName @ ''/config'') NoBody as_config"

definition client_ConsoleInfo :: "'s http_transport \<Rightarrow> agent_config \<Rightarrow> string \<Rightarrow> ('s, agent_error, ConsoleInfo) prog" where
  "client_ConsoleInfo send cfg vmName = client_do send ''GET'' cfg (''/v1/vms/'' @ urlPathEscape vmName @ ''/console'') NoBody as_console"

definition client_UpdateVMConfig :: "'s http_transport \<Rightarrow> agent_config \<Rightarrow> string \<Rightarrow> VMConfigUpdateRequest \<Rightarrow> ('s, agent_error, VMConfig) prog" where
  "client_UpdateVMConfig send cfg vmName request =
     client_do send ''PUT'' cfg (''/v1/vms/'' @ urlPathEscape vmName @ ''/config'') (QConfig request) as_config"

definition client_RenameVM :: "'s http_transport \<Rightarrow> agent_config \<Rightarrow> string \<Rightarrow> VMRenameRequest \<Rightarrow> ('s, agent_error, VMConfig) prog" where
  "client_RenameVM send cfg vmName request =
     client_do send ''PUT'' cfg (''/v1/vms/'' @ urlPathEscape vmName @ ''/rename'') (QRename request) as_config"

definition client_UpdateVMAutostart :: "'s http_transport \<Rightarrow> agent_config \<Rightarrow> string \<Rightarrow> VMAutostartUpdateRequest \<Rightarrow> ('s, agent_error, unit) prog" where
  "client_UpdateVMAutostart send cfg vmName request =
     client_send send ''PUT'' cfg (''/v1/vms/'' @ urlPathEscape vmName @ ''/autostart'') (QVMAutostart request)"

definition client_UpdateVMConsole :: "'s http_transport \<Rightarrow> agent_config \<Rightarrow> string \<Rightarrow> VMConsoleUpdateRequest \<Rightarrow> ('s, agent_error, VMConfig) prog" where
  "client_UpdateVMConsole send cfg vmName request =
     client_do send ''PUT'' cfg (''/v1/vms/'' @ urlPathEscape vmName @ ''/console'') (QConsole request) as_config"

definition client_ConnectVMMedia :: "'s http_transport \<Rightarrow> agent_config \<Rightarrow> string \<Rightarrow> VMMediaConnectRequest \<Rightarrow> ('s, agent_error, VMConfig) prog" where
  "client_ConnectVMMedia send cfg vmName request =
     client_do send ''PUT'' cfg (''/v1/vms/'' @ urlPathEscape vmName @ ''/media'') (QConnect request) as_config"

definition client_DisconnectVMMedia :: "'s http_transport \<Rightarrow> agent_config \<Rightarrow> string \<Rightarrow> VMMediaDisconnectRequest \<Rightarrow> ('s, agent_error, VMConfig) prog" where
  "client_DisconnectVMMedia send cfg vmName request =
     client_do send ''DELETE'' cfg (''/v1/vms/'' @ urlPathEscape vmName @ ''/media'') (QDisconnect request) as_config"

definition client_UpdateVMXML :: "'s http_transport \<Rightarrow> agent_config \<Rightarrow> string \<Rightarrow> VMXMLUpdateRequest \<Rightarrow> ('s, agent_error, VMConfig) prog" where
  "client_UpdateVMXML send cfg vmName request =
     client_do send ''PUT'' cfg (''/v1/vms/'' @ urlPathEscape vmName @ ''/xml'') (QXML request) as_config"

definition client_UpdateVMDevices :: "'s http_transport \<Rightarrow> agent_config \<Rightarrow> string \<Rightarrow> VMDeviceUpdateRequest \<Rightarrow> ('s, agent_error, VMConfig) prog" where
  "client_UpdateVMDevices send cfg vmName request =
     client_do send ''PUT'' cfg (''/v1/vms/'' @ urlPathEscape vmName @ ''/devices'') (QVMDevices request) as_config"

definition client_CloneVM :: "'s http_transport \<Rightarrow> agent_config \<Rightarrow> string \<Rightarrow> VMCloneRequest \<Rightarrow> ('s, agent_error, VMConfig) prog" where
  "client_CloneVM send cfg vmName request =
     client_do send ''POST'' cfg (''/v1/vms/'' @ urlPathEscape vmName @ ''/clone'') (QCloneVM request) as_config"

definition client_CreateVM :: "'s http_transport \<Rightarrow> agent_config \<Rightarrow> VMCreateRequest \<Rightarrow> ('s, agent_error, VMConfig) prog" where
  "client_CreateVM send cfg request = client_do send ''POST'' cfg ''/v1/vms'' (QCreateVM request) as_config"

definition client_MigrateVM :: "'s http_transport \<Rightarrow> agent_config \<Rightarrow> string \<Rightarrow> VMMigrateRequest \<Rightarrow> ('s, agent_error, unit) prog" where
  "client_MigrateVM send cfg vmName request =
     client_send send ''POST'' cfg (''/v1/vms/'' @ urlPathEscape vmName @ ''/migrate'') (QMigrate request)"

definition client_CheckMigrationConnection :: "'s http_transport \<Rightarrow> agent_config \<Rightarrow> MigrationConnectionCheckRequest \<Rightarrow> ('s, agent_error, MigrationConnectionCheckResult) prog" where
  "client_CheckMigrationConnection send cfg request = client_do send ''POST'' cfg ''/v1/migration/check'' (QCheck request) as_migration"

definition client_SetupMigrationSSHKey :: "'s http_transport \<Rightarrow> agent_config \<Rightarrow> MigrationSSHKeySetupRequest \<Rightarrow> ('s, agent_error, MigrationConnectionCheckResult) prog" where
  "client_SetupMigrationSSHKey send cfg request = client_do send ''POST'' cfg ''/v1/migration/ssh-key'' (QSSHKey request) as_migration"

definition client_SetupMigrationHostname :: "'s http_transport \<Rightarrow> agent_config \<Rightarrow> MigrationHostnameSetupRequest \<Rightarrow> ('s, agent_error, MigrationConnectionCheckResult) prog" where
  "client_SetupMigrationHostname send cfg request = client_do send ''POST'' cfg ''/v1/migration/hostname'' (QHostname request) as_migration"

definition client_RunSnapshotAction :: "'s http_transport \<Rightarrow> agent_config \<Rightarrow> string \<Rightarrow> string \<Rightarrow> string \<Rightarrow> ('s, agent_error, unit) prog" where
  "client_RunSnapshotAction send cfg vmName snapshotName action =
     client_send send ''POST'' cfg (''/v1/vms/'' @ urlPathEscape vmName @ ''/snapshots/'' @ urlPathEscape snapshotName @ ''/'' @ urlPathEscape action) NoBody"

definition client_CreateSnapshot :: "'s http_transport \<Rightarrow> agent_config \<Rightarrow> string \<Rightarrow> SnapshotCreateRequest \<Rightarrow> ('s, agent_error, unit) prog" where
  "client_CreateSnapshot send cfg vmName request =
     client_send send ''POST'' cfg (''/v1/vms/'' @ urlPathEscape vmName @ ''/snapshots'') (QSnapshot request)"

definition client_ListVMs :: "'s http_transport \<Rightarrow> agent_config \<Rightarrow> ('s, agent_error, AgentVM list) prog" where
  "client_ListVMs send cfg = client_listVMs send cfg []"

definition client_ListVMsFast :: "'s http_transport \<Rightarrow> agent_config \<Rightarrow> ('s, agent_error, AgentVM list) prog" where
  "client_ListVMsFast send cfg = client_listVMs send cfg ''fast''"

text \<open>The client of the realtime service.\<close>

definition http_agents :: "'r rt http_transport \<Rightarrow> 'r agent_client" where
  "http_agents send = \<lparr>ag_HostInfo = client_HostInfo send, ag_ListVMs = client_ListVMs send, ag_ListVMsFast = client_ListVMsFast send,
     ag_VM = (\<lambda>name cfg. client_VM send cfg name), ag_ListSnapshots = (\<lambda>name cfg. client_ListSnapshots send cfg name)\<rparr>"

lemmas client_defs = client_HostInfo_def client_ListHostInterfaces_def client_CreateHostInterface_def client_ListHostInterfaceDevices_def client_DeleteHostInterface_def client_UpdateHostInterfaceState_def client_ListStoragePools_def client_CreateStoragePool_def client_ListISOFiles_def client_ListStorageVolumes_def client_CreateStorageVolume_def client_CloneStorageVolume_def client_DeleteStorageVolume_def client_UploadStorageVolume_def client_DeleteStoragePool_def client_UpdateStoragePoolState_def client_UpdateStoragePoolAutostart_def client_ListNetworkPools_def client_CreateNetworkPool_def client_DeleteNetworkPool_def client_UpdateNetworkPoolState_def client_UpdateNetworkPoolAutostart_def client_RunVMAction_def client_listVMs_def client_VM_def client_ListSnapshots_def client_VMConfig_def client_ConsoleInfo_def client_UpdateVMConfig_def client_RenameVM_def client_UpdateVMAutostart_def client_UpdateVMConsole_def client_ConnectVMMedia_def client_DisconnectVMMedia_def client_UpdateVMXML_def client_UpdateVMDevices_def client_CloneVM_def client_CreateVM_def client_MigrateVM_def client_CheckMigrationConnection_def client_SetupMigrationSSHKey_def client_SetupMigrationHostname_def client_RunSnapshotAction_def client_CreateSnapshot_def client_ListVMs_def client_ListVMsFast_def

end
