(* ===== verification/Agent_Api.thy ===== *)
theory Agent_Api
  imports Agent_Client
begin

text \<open>
  The API of an agent: \<open>agent/api/router\<close> (\<open>router.go\<close>, \<open>vm_config.go\<close>, \<open>host_interfaces.go\<close>,
  \<open>route_helpers.go\<close>) and \<open>agent/internal/security/auth.go\<close>. The provider is an argument, as in the code: a
  record with the methods of the interface \<open>kvm.Provider\<close>, which run on the state of the host and fail with
  the text of an error. The console is a byte stream and left out.
\<close>

section \<open>The provider\<close>

type_synonym ('k, 'a) host_op = "('k, string, 'a) prog"

record 'k provider =
  pv_HostInfo :: "('k, HostInfo) host_op"
  pv_ListHostInterfaces :: "('k, HostInterface list) host_op"
  pv_ListHostInterfaceDevices :: "('k, HostInterfaceDevice list) host_op"
  pv_CreateHostInterface :: "HostInterfaceCreateRequest \<Rightarrow> ('k, HostInterface) host_op"
  pv_UpdateHostInterfaceState :: "string \<Rightarrow> bool \<Rightarrow> ('k, unit) host_op"
  pv_DeleteHostInterface :: "string \<Rightarrow> ('k, unit) host_op"
  pv_ListVMs :: "('k, AgentVM list) host_op"
  pv_ListVMsFast :: "('k, AgentVM list) host_op"
  pv_VM :: "string \<Rightarrow> ('k, AgentVM) host_op"
  pv_VMConfig :: "string \<Rightarrow> ('k, VMConfig) host_op"
  pv_UpdateVMConfig :: "string \<Rightarrow> VMConfigUpdateRequest \<Rightarrow> ('k, VMConfig) host_op"
  pv_RenameVM :: "string \<Rightarrow> VMRenameRequest \<Rightarrow> ('k, VMConfig) host_op"
  pv_UpdateVMAutostart :: "string \<Rightarrow> VMAutostartUpdateRequest \<Rightarrow> ('k, unit) host_op"
  pv_UpdateVMConsole :: "string \<Rightarrow> VMConsoleUpdateRequest \<Rightarrow> ('k, VMConfig) host_op"
  pv_ConnectVMMedia :: "string \<Rightarrow> VMMediaConnectRequest \<Rightarrow> ('k, VMConfig) host_op"
  pv_DisconnectVMMedia :: "string \<Rightarrow> VMMediaDisconnectRequest \<Rightarrow> ('k, VMConfig) host_op"
  pv_UpdateVMXML :: "string \<Rightarrow> VMXMLUpdateRequest \<Rightarrow> ('k, VMConfig) host_op"
  pv_UpdateVMDevices :: "string \<Rightarrow> VMDeviceUpdateRequest \<Rightarrow> ('k, VMConfig) host_op"
  pv_CloneVM :: "string \<Rightarrow> VMCloneRequest \<Rightarrow> ('k, VMConfig) host_op"
  pv_CreateVM :: "VMCreateRequest \<Rightarrow> ('k, VMConfig) host_op"
  pv_MigrateVM :: "string \<Rightarrow> VMMigrateRequest \<Rightarrow> ('k, unit) host_op"
  pv_CheckMigrationConnection :: "MigrationConnectionCheckRequest \<Rightarrow> ('k, MigrationConnectionCheckResult) host_op"
  pv_SetupMigrationSSHKey :: "MigrationSSHKeySetupRequest \<Rightarrow> ('k, MigrationConnectionCheckResult) host_op"
  pv_SetupMigrationHostname :: "MigrationHostnameSetupRequest \<Rightarrow> ('k, MigrationConnectionCheckResult) host_op"
  pv_ListSnapshots :: "string \<Rightarrow> ('k, AgentSnapshot list) host_op"
  pv_CreateSnapshot :: "string \<Rightarrow> SnapshotCreateRequest \<Rightarrow> ('k, unit) host_op"
  pv_ListStoragePools :: "('k, StoragePool list) host_op"
  pv_CreateStoragePool :: "StoragePoolCreateRequest \<Rightarrow> ('k, StoragePool) host_op"
  pv_ListISOFiles :: "string \<Rightarrow> ('k, ISOFile list) host_op"
  pv_ListStorageVolumes :: "string \<Rightarrow> ('k, StorageVolume list) host_op"
  pv_CreateStorageVolume :: "string \<Rightarrow> StorageVolumeCreateRequest \<Rightarrow> ('k, StorageVolume) host_op"
  pv_UploadStorageVolume :: "string \<Rightarrow> StorageVolumeCreateRequest \<Rightarrow> string \<Rightarrow> ('k, StorageVolume) host_op"
  pv_CloneStorageVolume :: "string \<Rightarrow> StorageVolumeCloneRequest \<Rightarrow> ('k, StorageVolume) host_op"
  pv_DeleteStoragePool :: "string \<Rightarrow> ('k, unit) host_op"
  pv_DeleteStorageVolume :: "string \<Rightarrow> string \<Rightarrow> ('k, unit) host_op"
  pv_UpdateStoragePoolState :: "string \<Rightarrow> PoolStateUpdateRequest \<Rightarrow> ('k, unit) host_op"
  pv_UpdateStoragePoolAutostart :: "string \<Rightarrow> PoolAutostartUpdateRequest \<Rightarrow> ('k, unit) host_op"
  pv_ListNetworkPools :: "('k, NetworkPool list) host_op"
  pv_CreateNetworkPool :: "NetworkPoolCreateRequest \<Rightarrow> ('k, NetworkPool) host_op"
  pv_DeleteNetworkPool :: "string \<Rightarrow> ('k, unit) host_op"
  pv_UpdateNetworkPoolState :: "string \<Rightarrow> PoolStateUpdateRequest \<Rightarrow> ('k, unit) host_op"
  pv_UpdateNetworkPoolAutostart :: "string \<Rightarrow> PoolAutostartUpdateRequest \<Rightarrow> ('k, unit) host_op"
  pv_ConsoleInfo :: "string \<Rightarrow> ('k, ConsoleInfo) host_op"
  pv_RevertSnapshot :: "string \<Rightarrow> string \<Rightarrow> ('k, unit) host_op"
  pv_DeleteSnapshot :: "string \<Rightarrow> string \<Rightarrow> ('k, unit) host_op"
  pv_StartVM :: "string \<Rightarrow> ('k, unit) host_op"
  pv_ShutdownVM :: "string \<Rightarrow> ('k, unit) host_op"
  pv_PauseVM :: "string \<Rightarrow> ('k, unit) host_op"
  pv_ResumeVM :: "string \<Rightarrow> ('k, unit) host_op"
  pv_RebootVM :: "string \<Rightarrow> ('k, unit) host_op"
  pv_ResetVM :: "string \<Rightarrow> ('k, unit) host_op"
  pv_DestroyVM :: "string \<Rightarrow> ('k, unit) host_op"
  pv_DeleteVM :: "string \<Rightarrow> ('k, unit) host_op"
  pv_ForceDeleteVM :: "string \<Rightarrow> ('k, unit) host_op"

section \<open>Paths\<close>

definition agent_parts :: "string \<Rightarrow> string \<Rightarrow> string list" where
  "agent_parts path prefix = Split CHR ''/'' (TrimCut (TrimPrefix path prefix) ''/'')"

definition agent_parseVMConsolePath :: "string \<Rightarrow> string option" where
  "agent_parseVMConsolePath path = (case agent_parts path ''/v1/vms/'' of
     [a, b, c] \<Rightarrow> if b = ''console'' \<and> c = ''ws'' \<and> a \<noteq> [] then Some a else None
   | _ \<Rightarrow> None)"

definition agent_parseVMPath :: "string \<Rightarrow> (string \<times> string) option" where
  "agent_parseVMPath path =
    (if TrimCut (TrimPrefix path ''/v1/vms/'') ''/'' = [] then None
     else case agent_parts path ''/v1/vms/'' of [a, b] \<Rightarrow> Some (a, b) | _ \<Rightarrow> None)"

definition parseStoragePoolPath :: "string \<Rightarrow> (string \<times> string) option" where
  "parseStoragePoolPath path = (case agent_parts path ''/v1/storage-pools/'' of
     [a, b] \<Rightarrow> if a = [] \<or> b = [] then None else Some (a, b)
   | [a, b, c] \<Rightarrow>
       if a \<noteq> [] \<and> b = ''volumes'' \<and> c = ''upload'' then Some (a, ''volumes/upload'')
       else if a \<noteq> [] \<and> b = ''volumes'' \<and> c = ''clone'' then Some (a, ''volumes/clone'')
       else None
   | _ \<Rightarrow> None)"

definition parseNetworkPoolPath :: "string \<Rightarrow> (string \<times> string) option" where
  "parseNetworkPoolPath path = (case agent_parts path ''/v1/network-pools/'' of
     [a, b] \<Rightarrow> if a = [] \<or> b = [] then None else Some (a, b)
   | _ \<Rightarrow> None)"

definition parseSnapshotActionPath :: "string \<Rightarrow> (string \<times> string \<times> string) option" where
  "parseSnapshotActionPath path = (case agent_parts path ''/v1/vms/'' of
     [a, b, c, d] \<Rightarrow> if b \<noteq> ''snapshots'' \<or> a = [] \<or> c = [] \<or> d = [] then None else Some (a, c, d)
   | _ \<Rightarrow> None)"

definition parseHostInterfacePath :: "string \<Rightarrow> (string \<times> string) option" where
  "parseHostInterfacePath path = (case agent_parts path ''/v1/host/interfaces/'' of
     [a, b] \<Rightarrow> if a = ''devices'' \<and> b = ''list'' then Some (a, b) else if a = [] \<or> b = [] then None else Some (a, b)
   | _ \<Rightarrow> None)"

text \<open>\<open>^[A-Za-z0-9._:-]{1,80}$\<close>.\<close>

definition snapshot_char :: "char \<Rightarrow> bool" where
  "snapshot_char c \<longleftrightarrow> (let n = byte c in
     (65 \<le> n \<and> n \<le> 90) \<or> (97 \<le> n \<and> n \<le> 122) \<or> (48 \<le> n \<and> n \<le> 57) \<or> c \<in> set ''._:-'')"

definition snapshotNamePattern :: "string \<Rightarrow> bool" where
  "snapshotNamePattern name \<longleftrightarrow> name \<noteq> [] \<and> length name \<le> 80 \<and> list_all snapshot_char name"

section \<open>Messages\<close>

text \<open>The helpers that the agent has in the same words as the server are those of \<open>Agent_Errors\<close>.\<close>

definition quotedErrorValueAfter :: "string \<Rightarrow> string \<Rightarrow> string" where
  "quotedErrorValueAfter detail marker = (case Index (ToLower detail) (ToLower marker) of
     None \<Rightarrow> []
   | Some i \<Rightarrow> let rest = TrimSpace (drop (i + length marker) detail) in
       (case Index rest [CHR 0x27] of
          None \<Rightarrow> []
        | Some q \<Rightarrow> let rest1 = drop (Suc q) rest in
            (case Index rest1 [CHR 0x27] of None \<Rightarrow> [] | Some e \<Rightarrow> TrimSpace (take e rest1))))"

definition storageSourceConflictMessage :: "string \<Rightarrow> string" where
  "storageSourceConflictMessage detail = (let pool = quotedErrorValueAfter detail ''Storage source conflict with pool:'' in
     if pool = [] then zh ''e5ad98e582a8e6b1a0e8b7afe5be84e5b7b2e8a2abe585b6e4bb96e5ad98e582a8e6b1a0e4bdbfe794a8efbc8ce8afb7e69bb4e68da2e8b7afe5be84e68896e58588e5a484e79086e586b2e7aa81e79a84e5ad98e582a8e6b1a0''
     else zh ''e5ad98e582a8e6b1a0e8b7afe5be84e5b7b2e8a2abe5ad98e582a8e6b1a020'' @ pool @ zh ''20e4bdbfe794a8efbc8ce8afb7e69bb4e68da2e8b7afe5be84e68896e58588e5a484e79086e8afa5e5ad98e582a8e6b1a0'')"

definition migrationNonMigratableDeviceMessage :: "string \<Rightarrow> string" where
  "migrationNonMigratableDeviceMessage detail = (let device = quotedErrorValueAfter detail ''non-migratable device'' in
     if device = [] then zh ''e5bd93e5898de8999ae68b9fe69cbae58c85e590abe783ade8bf81e7a7bbe4b88de694afe68c81e79a84e8aebee5a487efbc8ce8afb7e7a7bbe999a4e68896e69bb4e68da2e8afa5e8aebee5a487e5908ee9878de8af95efbc8ce68896e585b3e69cbae5908ee689a7e8a18ce586b7e8bf81e7a7bb''
     else let device1 = (case LastIndex device ''/'' of
            Some slash \<Rightarrow> if slash + 1 < length device then drop (slash + 1) device else device
          | None \<Rightarrow> device) in
       zh ''e5bd93e5898de8999ae68b9fe69cbae58c85e590abe783ade8bf81e7a7bbe4b88de694afe68c81e79a84e8aebee5a48720'' @ device1 @ zh ''efbc8ce8afb7e7a7bbe999a4e68896e69bb4e68da2e8afa5e8aebee5a487e5908ee9878de8af95efbc8ce68896e585b3e69cbae5908ee689a7e8a18ce586b7e8bf81e7a7bb'')"

definition isStoragePoolUnmountBusyError :: "string \<Rightarrow> bool" where
  "isStoragePoolUnmountBusyError low \<longleftrightarrow>
     Contains low ''pool-destroy'' \<and> Contains low ''umount'' \<and> Contains low ''device is busy''"

definition isMigrationOperation :: "string \<Rightarrow> string \<Rightarrow> bool" where
  "isMigrationOperation summary low \<longleftrightarrow>
     Contains summary (zh ''e8bf81e7a7bb'') \<or> Contains low '' migrate '' \<or> Contains low ''qemu+ssh://''"

definition operationErrorMessage :: "string \<Rightarrow> string \<Rightarrow> string" where
  "operationErrorMessage summary err =
    (if TrimSpace err = [] then summary else
     let detail = Join (GoStrings.Fields (TrimSpace err)) '' ''; low = ToLower detail in
     if Contains low ''snapshot-revert'' \<and> Contains low ''no such file or directory''
     then snapshotRevertMissingDiskMessage detail
     else if isGuestMemoryAllocationError low
     then zh ''e79baee6a087e5aebfe4b8bbe69cbae58fafe794a8e58685e5ad98e4b88de8b6b3efbc8ce697a0e6b395e4b8bae8bf81e7a7bbe8999ae68b9fe69cbae58886e9858de58685e5ad98efbc8ce8afb7e9878ae694bee79baee6a087e5aebfe4b8bbe69cbae58685e5ad98e68896e9998de4bd8ee8999ae68b9fe69cbae58685e5ad98e5908ee9878de8af95''
     else if Contains low ''cannot access storage file'' \<and> Contains low ''no such file or directory'' \<and> isMigrationStorageAccessError low
     then migrationStorageAccessMessage detail
     else if Contains low ''cannot access storage file'' \<and> Contains low ''no such file or directory''
     then zh ''e8999ae68b9fe69cbae68c82e8bdbde79a84e9959ce5838fe68896e58589e9a9b1e69687e4bbb6e4b88de5ad98e59ca8efbc8ce8afb7e6a380e69fa52049534f2fe7a381e79b98e8b7afe5be84e698afe590a6e4bb8de59ca8e5aebfe4b8bbe69cbae4b88aefbc8ce68896e696ade5bc80e697a0e69588e4bb8be8b4a8e5908ee9878de8af95''
     else if Contains low ''disk image has internal snapshots and cannot be resized'' \<or> Contains low ''image has snapshots'' \<or> Contains low ''does not support resize''
     then zh ''e7a381e79b98e9959ce5838fe58c85e590abe58685e983a8e5bfabe785a7efbc8ce697a0e6b395e79bb4e68ea5e689a9e5aeb9e38082e8afb7e58588e588a0e999a4e8afa5e8999ae68b9fe69cbae79a84e58685e983a8e5bfabe785a7efbc8ce68896e9878de696b0e5889be5bbbae697a0e58685e983a8e5bfabe785a7e79a84e7a381e79b98e5908ee5868de689a9e5aeb9''
     else if Contains low ''domain is already paused''
     then zh ''e8999ae68b9fe69cbae5bd93e5898de5b7b2e69a82e5819c''
     else if isDomainAlreadyRunningError low
     then zh ''e8999ae68b9fe69cbae5bd93e5898de5b7b2e8bf90e8a18c''
     else if isDomainNotRunningError low
     then not_running_message low
     else if Contains low ''domain is not paused''
     then zh ''e8999ae68b9fe69cbae5bd93e5898de69caae69a82e5819cefbc8ce697a0e6b395e681a2e5a48d''
     else if Contains low ''domain is paused''
     then zh ''e8999ae68b9fe69cbae5bd93e5898de5b7b2e69a82e5819cefbc8ce8afb7e58588e681a2e5a48de5908ee5868de689a7e8a18ce8afa5e6938de4bd9c''
     else if Contains low ''cannot delete inactive domain with'' \<and> Contains low ''snapshot''
     then vmDeleteHasSnapshotsMessage detail
     else if Contains low ''must be stopped before delete''
     then zh ''e8afb7e58588e585b3e997ade8999ae68b9fe69cbae5908ee5868de588a0e999a4''
     else if Contains low ''storage pool must be stopped before deletion''
     then zh ''e8afb7e58588e5819ce6ada2e5ad98e582a8e6b1a0e5908ee5868de588a0e999a4''
     else if isStoragePoolUnmountBusyError low
     then zh ''e5ad98e582a8e6b1a0e68c82e8bdbde79baee5bd95e6ada3e59ca8e8a2abe4bdbfe794a8e4b8adefbc8ce697a0e6b395e5819ce6ada2''
     else if Contains low ''storage volume is used by virtual machine''
     then zh ''e8afa5e5ad98e582a8e58db7e6ada3e59ca8e8a2abe8999ae68b9fe69cbae4bdbfe794a8efbc8ce8afb7e58588e4bb8ee8999ae68b9fe69cbae7a7bbe999a4e7a381e79b98e68896e585b3e997ade79bb8e585b3e8999ae68b9fe69cbae5908ee5868de588a0e999a4''
     else if Contains low ''target storage pool'' \<and> Contains low ''is unavailable''
     then targetStoragePoolUnavailableMessage detail
     else if Contains low ''target storage pools are unavailable''
     then zh ''e79baee6a087e5aebfe4b8bbe69cbae5ad98e582a8e6b1a0e4b88de58fafe794a8efbc8ce8afb7e7a1aee8aea4e79baee6a087e5aebfe4b8bbe69cbae5ad98e59ca8e58fafe794a8e5ad98e582a8e6b1a0''
     else if Contains low ''target disk already exists''
     then zh ''e79baee6a087e5aebfe4b8bbe69cbae5b7b2e5ad98e59ca8e5908ce5908de7a381e79b98e69687e4bbb6efbc8ce8afb7e58588e588a0e999a4e79baee6a087e7a381e79b98e68896e69bb4e68da2e6ba90e8999ae68b9fe69cbae7a381e79b98e5908de7a7b0e5908ee5868de8bf81e7a7bb''
     else if Contains low ''migration disk storage pool is unavailable''
     then zh ''e6ba90e8999ae68b9fe69cbae7a381e79b98e697a0e6b395e8af86e588abe68980e5b19ee5ad98e582a8e6b1a0efbc8ce697a0e6b395e689a7e8a18ce586b7e8bf81e7a7bbe5a48de588b6e7a381e79b98''
     else if Contains low ''migration disk path is unavailable''
     then zh ''e6ba90e8999ae68b9fe69cbae7a381e79b98e8b7afe5be84e4b88de58fafe794a8efbc8ce697a0e6b395e689a7e8a18ce586b7e8bf81e7a7bbe5a48de588b6e7a381e79b98''
     else if Contains low ''hostname on destination resolved to localhost'' \<and> Contains low ''migration requires an fqdn''
     then zh ''e79baee6a087e5aebfe4b8bbe69cbae4b8bbe69cbae5908de8a7a3e69e90e4b8ba206c6f63616c686f7374efbc8ce783ade8bf81e7a7bbe99c80e8a681e79baee6a087e4b8bbe69cbae5908de8a7a3e69e90e588b0e79c9fe5ae9ee7bd91e7bb9ce59cb0e59d80efbc8ce8afb7e6a380e69fa5e79baee6a087e5aebfe4b8bbe69cba20686f73746e616d6520e5928c202f6574632f686f737473''
     else if Contains low ''vm is running''
     then zh ''e8999ae68b9fe69cbae6ada3e59ca8e8bf90e8a18cefbc8ce8afb7e58588e585b3e997ade8999ae68b9fe69cbae5908ee5868de6938de4bd9c''
     else if Contains low ''live maximum cpu cannot change''
     then zh ''e8999ae68b9fe69cbae8bf90e8a18ce4b8ade58faae883bde8b083e695b4e5bd93e5898d20435055efbc8ce69c80e5a4a72043505520e99c80e585b3e69cbae5908ee4bfaee694b9''
     else if Contains low ''live cpu cannot shrink''
     then zh ''e8999ae68b9fe69cbae8bf90e8a18ce4b8ad2043505520e58faae883bde689a9e5aeb9efbc8ce4b88de883bde7bca9e5aeb9''
     else if Contains low ''live cpu cannot exceed maximum cpu''
     then zh ''e5bd93e5898d2043505520e4b88de883bde8b685e8bf87e5b7b2e9a284e79599e79a84e69c80e5a4a720435055''
     else if Contains low ''live maximum memory cannot change''
     then zh ''e8999ae68b9fe69cbae8bf90e8a18ce4b8ade58faae883bde8b083e695b4e5bd93e5898de58685e5ad98efbc8ce69c80e5a4a7e58685e5ad98e99c80e585b3e69cbae5908ee4bfaee694b9''
     else if Contains low ''live memory cannot shrink''
     then zh ''e8999ae68b9fe69cbae8bf90e8a18ce4b8ade58685e5ad98e58faae883bde689a9e5aeb9efbc8ce4b88de883bde7bca9e5aeb9''
     else if Contains low ''live memory cannot exceed maximum memory''
     then zh ''e5bd93e5898de58685e5ad98e4b88de883bde8b685e8bf87e5b7b2e9a284e79599e79a84e69c80e5a4a7e58685e5ad98''
     else if Contains low ''attach-interface'' \<or> Contains low ''detach-interface''
     then zh ''e8999ae68b9fe69cbae7bd91e58da1e783ade68f92e68b94e5a4b1e8b4a5efbc8ce8afb7e6a380e69fa5e7bd91e7bb9ce6b1a0e5928ce7bd91e58da1e9858de7bdae''
     else if Contains low ''interface already exists''
     then zh ''e68ea5e58fa3e5908de7a7b0e5b7b2e5ad98e59ca8efbc8ce8afb7e9878de696b0e69bb4e68da2e5908de7a7b0''
     else if Contains low ''interface device does not exist'' \<or> Contains low ''bridge device does not exist''
     then zh ''e7bb91e5ae9ae8aebee5a487e4b88de5ad98e59ca8efbc8ce8afb7e9878de696b0e98089e68ba9e8aebee5a487''
     else if Contains low ''interface start mode is invalid''
     then zh ''e590afe58aa8e6a8a1e5bc8fe4b88de58f97e694afe68c81efbc8ce8afb7e98089e68ba9206e6f6e65e380816f6e626f6f7420e6889620686f74706c7567''
     else if Contains low ''unsupported interface type''
     then zh ''e5bd93e5898de68ea5e58fa3e7b1bbe59e8be4b88de58f97e694afe68c81''
     else if Contains low ''interface must be stopped before deletion''
     then zh ''e8afb7e58588e5819ce6ada2e68ea5e58fa3e5908ee5868de588a0e999a4''
     else if Contains low ''bridge delay is invalid''
     then zh ''44656c617920e5bf85e9a1bbe698afe69c89e69588e695b0e5ad97''
     else if Contains low ''ipv4 address is required''
     then zh ''e8afb7e5a1abe58699204950763420e59cb0e59d80''
     else if Contains low ''ipv6 address is required''
     then zh ''e8afb7e5a1abe58699204950763620e59cb0e59d80''
     else if Contains low ''ipv4 address is invalid''
     then zh ''4950763420e59cb0e59d80e6a0bce5bc8fe4b88de6ada3e7a1aeefbc8ce8afb7e4bdbfe794a8204349445220e6a0bce5bc8f''
     else if Contains low ''ipv6 address is invalid''
     then zh ''4950763620e59cb0e59d80e6a0bce5bc8fe4b88de6ada3e7a1aeefbc8ce8afb7e4bdbfe794a8204349445220e6a0bce5bc8f''
     else if Contains low ''cdrom target is required''
     then zh ''e8afb7e98089e68ba9e8a681e8bf9ee68ea5e79a84e58589e9a9b1''
     else if Contains low ''iso path is required''
     then zh ''e8afb7e98089e68ba92049534f20e69687e4bbb6''
     else if Contains low ''target cdrom not found''
     then zh ''e69caae689bee588b0e68c87e5ae9ae58589e9a9b1''
     else if Contains low ''network pool must be stopped before deletion''
     then zh ''e8afb7e58588e5819ce6ada2e7bd91e7bb9ce6b1a0e5908ee5868de588a0e999a4''
     else if Contains low ''subnet is too small for dhcp''
     then zh ''e5ad90e7bd91e58fafe794a8e59cb0e59d80e4b88de8b6b3efbc8ce697a0e6b395e590afe794a82044484350''
     else if Contains low ''subnet is too small for fixed address''
     then zh ''e5ad90e7bd91e58fafe794a8e59cb0e59d80e4b88de8b6b3efbc8ce697a0e6b395e7949fe68890e59bbae5ae9ae59cb0e59d80''
     else if Contains low ''fixed address range is too large''
     then zh ''e59bbae5ae9ae59cb0e59d80e88c83e59bb4e8bf87e5a4a7efbc8ce8afb7e7bca9e5b08fe5ad90e7bd91e68896e585b3e997ade59bbae5ae9ae59cb0e59d80''
     else if Contains low ''storage volume'' \<and> (Contains low ''already exists'' \<or> Contains low ''exists already'')
     then zh ''e9959ce5838fe5908de7a7b0e5b7b2e5ad98e59ca8efbc8ce8afb7e69bb4e68da2e5908de7a7b0''
     else if Contains low ''target volume already exists''
     then zh ''e9959ce5838fe5908de7a7b0e5b7b2e5ad98e59ca8efbc8ce8afb7e69bb4e68da2e5908de7a7b0''
     else if Contains low ''already exists''
     then zh ''e5908de7a7b0e5b7b2e5ad98e59ca8efbc8ce8afb7e9878de696b0e69bb4e68da2e5908de7a7b0''
     else if Contains low ''name is required''
     then zh ''e8afb7e5a1abe58699e5908de7a7b0''
     else if Contains low ''must be an absolute path''
     then zh ''e8afb7e5a1abe58699e7bb9de5afb9e8b7afe5be84''
     else if Contains low ''must be a directory''
     then zh ''e8b7afe5be84e5bf85e9a1bbe698afe79baee5bd95''
     else if Contains low ''must be a block device''
     then zh ''4c564d20e8aebee5a487e8b7afe5be84e5bf85e9a1bbe698afe59d97e8aebee5a487''
     else if Contains low ''storage source conflict with pool''
     then storageSourceConflictMessage detail
     else if Contains low ''path is required'' \<or> Contains low ''target''
     then zh ''e8afb7e5a1abe58699e6ada3e7a1aee79a84e8b7afe5be84''
     else if Contains low ''live disk snapshot not supported''
     then zh ''e5bd93e5898de5aebfe4b8bbe69cba2051454d552f6c69627669727420e4b88de694afe68c81e8bf90e8a18ce4b8ade58685e983a8e7a381e79b98e5bfabe785a7e38082e8afb7e58588e585b3e997ade8999ae68b9fe69cbae5908ee5889be5bbbae5bfabe785a7efbc8ce68896e58d87e7baa7e5aebfe4b8bbe69cba2051454d552f6c69627669727420e5908ee9878de8af95''
     else if Contains low ''non-migratable device'' \<and> isMigrationOperation summary low
     then migrationNonMigratableDeviceMessage detail
     else if Contains low ''non-migratable device''
     then zh ''e5bd93e5898de8999ae68b9fe69cbae58c85e590abe4b88de694afe68c81e4bf9de5ad98e8bf90e8a18ce78ab6e68081e79a84e8aebee5a487e38082e8afb7e58f96e6b688e2809ce58c85e68bace8999ae68b9fe69cbae58685e5ad98e2809de5908ee9878de8af95efbc8ce68896e8b083e695b4e8999ae68b9fe7a1ace4bbb6e5908ee5868de5889be5bbbae58685e5ad98e5bfabe785a7''
     else if Contains low ''guest agent''
     then zh ''e99d99e9bb98e5aea2e688b7e69cbae69687e4bbb6e7b3bbe7bb9fe99c80e8a681e8999ae68b9fe69cbae586852051454d55204775657374204167656e7420e58fafe794a8efbc8ce8afb7e7a1aee8aea4e5b7b2e5ae89e8a385e5b9b6e8bf90e8a18ce5908ee9878de8af95''
     else take 500 detail)"

section \<open>Handlers\<close>

text \<open>
  What every handler does with the result of its operation: the answer of a success, or status 503 with the code of
  the handler and the message for the error.
\<close>

type_synonym api_answer = "int \<times> reply"

definition provide ::
  "('k, string, 'a) prog \<Rightarrow> string \<Rightarrow> (string \<Rightarrow> string) \<Rightarrow> ('a \<Rightarrow> api_answer) \<Rightarrow> ('k, 'e, api_answer) prog" where
  "provide m code message success =
    bindp (attempt m) (\<lambda>r. case r of
      Inl e \<Rightarrow> ret (503, RError code (message e))
    | Inr x \<Rightarrow> ret (success x))"

definition invalid_body :: "string \<Rightarrow> ('k, 'e, api_answer) prog" where
  "invalid_body message = ret (400, RError ''invalid_request'' message)"

definition not_found :: "('k, 'e, api_answer) prog" where
  "not_found = ret (404, RError ''not_found'' (zh ''e68ea5e58fa3e4b88de5ad98e59ca8''))"

definition method_not_allowed :: "('k, 'e, api_answer) prog" where
  "method_not_allowed = ret (405, RError ''method_not_allowed'' (zh ''e8afb7e6b182e696b9e6b395e4b88de694afe68c81''))"

subsection \<open>Pools and volumes\<close>

definition agent_handleStoragePools :: "'k provider \<Rightarrow> string \<Rightarrow> request_body \<Rightarrow> ('k, 'e, api_answer) prog" where
  "agent_handleStoragePools P meth body =
    (if meth = ''GET'' then
       provide (pv_ListStoragePools P) ''list_storage_pools_failed'' (\<lambda>_. zh ''e8afbbe58f96e5ad98e582a8e6b1a0e5a4b1e8b4a5'') (\<lambda>items. (200, RPools items))
     else if meth = ''POST'' then
       (case body of
          QPool q \<Rightarrow> provide (pv_CreateStoragePool P q) ''storage_pool_create_failed'' (operationErrorMessage (zh ''e5889be5bbbae5ad98e582a8e6b1a0e5a4b1e8b4a5'')) (\<lambda>item. (200, RPool item))
        | _ \<Rightarrow> invalid_body (zh ''e5ad98e582a8e6b1a0e58f82e695b0e6a0bce5bc8fe4b88de6ada3e7a1ae''))
     else method_not_allowed)"

definition agent_handleCreateStorageVolume :: "'k provider \<Rightarrow> request_body \<Rightarrow> string \<Rightarrow> ('k, 'e, api_answer) prog" where
  "agent_handleCreateStorageVolume P body poolName = (case body of
     QVolume q \<Rightarrow> provide (pv_CreateStorageVolume P poolName q) ''storage_volume_create_failed''
       (operationErrorMessage (zh ''e5889be5bbbae5ad98e582a8e58db7e5a4b1e8b4a5'')) (\<lambda>v. (200, RVolume v))
   | _ \<Rightarrow> invalid_body (zh ''e5ad98e582a8e58db7e58f82e695b0e6a0bce5bc8fe4b88de6ada3e7a1ae''))"

text \<open>\<open>filepath.Base\<close>, to which \<open>mime/multipart\<close> reduces the name of an uploaded file that is not empty.\<close>

definition file_base :: "string \<Rightarrow> string" where
  "file_base path =
    (if path = [] then ''.''
     else let name = rev (takeWhile (\<lambda>c. c \<noteq> CHR ''/'') (dropWhile (\<lambda>c. c = CHR ''/'') (rev path))) in
       if name = [] then ''/'' else name)"

text \<open>A body that is not a form; a form whose part has no file name, which is not a file for \<open>FormFile\<close>; the size in
  the header of a part is the length of its content.\<close>

definition agent_handleUploadStorageVolume :: "'k provider \<Rightarrow> request_body \<Rightarrow> string \<Rightarrow> ('k, 'e, api_answer) prog" where
  "agent_handleUploadStorageVolume P body poolName = (case body of
     QUpload field fileName content \<Rightarrow>
       if fileName = [] then invalid_body (zh ''e8afb7e98089e68ba9e8a681e4b88ae4bca0e79a84e69687e4bbb6'')
       else
         let name = (if TrimSpace field = [] then file_base fileName else TrimSpace field);
             request = \<lparr>volc_Name = name, volc_Format = ''raw'', volc_CapacityBytes = int (length content), volc_PreallocMetadata = False\<rparr> in
         provide (pv_UploadStorageVolume P poolName request content) ''storage_volume_upload_failed''
           (operationErrorMessage (zh ''e4b88ae4bca02049534f20e5a4b1e8b4a5'')) (\<lambda>v. (200, RVolume v))
   | _ \<Rightarrow> invalid_body (zh ''e4b88ae4bca0e69687e4bbb6e58f82e695b0e4b88de6ada3e7a1ae''))"

definition agent_handleCloneStorageVolume :: "'k provider \<Rightarrow> request_body \<Rightarrow> string \<Rightarrow> ('k, 'e, api_answer) prog" where
  "agent_handleCloneStorageVolume P body poolName = (case body of
     QVolumeClone q \<Rightarrow> provide (pv_CloneStorageVolume P poolName q) ''storage_volume_clone_failed''
       (operationErrorMessage (zh ''e5858be99a86e5ad98e582a8e58db7e5a4b1e8b4a5'')) (\<lambda>v. (200, RVolume v))
   | _ \<Rightarrow> invalid_body (zh ''e5858be99a86e5ad98e582a8e58db7e58f82e695b0e6a0bce5bc8fe4b88de6ada3e7a1ae''))"

text \<open>\<open>name\<close> is the parameter of the query, empty when it is missing.\<close>

definition agent_handleDeleteStorageVolume :: "'k provider \<Rightarrow> string \<Rightarrow> string \<Rightarrow> ('k, 'e, api_answer) prog" where
  "agent_handleDeleteStorageVolume P name poolName =
    (let volumeName = TrimSpace name in
     if volumeName = [] then invalid_body (zh ''e5ad98e582a8e58db7e5908de7a7b0e4b88de883bde4b8bae7a9ba'')
     else provide (pv_DeleteStorageVolume P poolName volumeName) ''storage_volume_delete_failed''
       (operationErrorMessage (zh ''e588a0e999a4e5ad98e582a8e58db7e5a4b1e8b4a5'')) (\<lambda>_. (200, RDone)))"

definition agent_handleDeleteStoragePool :: "'k provider \<Rightarrow> string \<Rightarrow> ('k, 'e, api_answer) prog" where
  "agent_handleDeleteStoragePool P poolName = provide (pv_DeleteStoragePool P poolName) ''storage_pool_delete_failed''
     (operationErrorMessage (zh ''e588a0e999a4e5ad98e582a8e6b1a0e5a4b1e8b4a5'')) (\<lambda>_. (200, RDone))"

definition agent_handleUpdateStoragePoolState :: "'k provider \<Rightarrow> request_body \<Rightarrow> string \<Rightarrow> ('k, 'e, api_answer) prog" where
  "agent_handleUpdateStoragePoolState P body poolName = (case body of
     QState q \<Rightarrow> provide (pv_UpdateStoragePoolState P poolName q) ''storage_pool_state_update_failed''
       (operationErrorMessage (zh ''e4bfaee694b9e5ad98e582a8e6b1a0e78ab6e68081e5a4b1e8b4a5'')) (\<lambda>_. (200, RDone))
   | _ \<Rightarrow> invalid_body (zh ''e5ad98e582a8e6b1a0e78ab6e68081e58f82e695b0e6a0bce5bc8fe4b88de6ada3e7a1ae''))"

definition agent_handleUpdateStoragePoolAutostart :: "'k provider \<Rightarrow> request_body \<Rightarrow> string \<Rightarrow> ('k, 'e, api_answer) prog" where
  "agent_handleUpdateStoragePoolAutostart P body poolName = (case body of
     QAutostart q \<Rightarrow> provide (pv_UpdateStoragePoolAutostart P poolName q) ''storage_pool_autostart_update_failed''
       (operationErrorMessage (zh ''e4bfaee694b9e5ad98e582a8e6b1a0e887aae590afe58aa8e5a4b1e8b4a5'')) (\<lambda>_. (200, RDone))
   | _ \<Rightarrow> invalid_body (zh ''e5ad98e582a8e6b1a0e887aae590afe58aa8e58f82e695b0e6a0bce5bc8fe4b88de6ada3e7a1ae''))"

definition agent_pool_action ::
  "'k provider \<Rightarrow> string \<Rightarrow> string \<Rightarrow> request_body \<Rightarrow> string \<Rightarrow> string \<Rightarrow> ('k, 'e, api_answer) prog" where
  "agent_pool_action P meth name body pool action =
      (if meth = ''GET'' \<and> action = ''iso-files'' then
         provide (pv_ListISOFiles P pool) ''list_iso_files_failed'' (\<lambda>_. zh ''e8afbbe58f962049534f20e69687e4bbb6e5a4b1e8b4a5'') (\<lambda>items. (200, RISOFiles items))
       else if meth = ''GET'' \<and> action = ''volumes'' then
         provide (pv_ListStorageVolumes P pool) ''list_storage_volumes_failed'' (\<lambda>_. zh ''e8afbbe58f96e5ad98e582a8e58db7e5a4b1e8b4a5'') (\<lambda>items. (200, RVolumes items))
       else if meth = ''POST'' \<and> action = ''volumes'' then agent_handleCreateStorageVolume P body pool
       else if meth = ''POST'' \<and> action = ''volumes/upload'' then agent_handleUploadStorageVolume P body pool
       else if meth = ''POST'' \<and> action = ''volumes/clone'' then agent_handleCloneStorageVolume P body pool
       else if meth = ''DELETE'' \<and> action = ''volumes'' then agent_handleDeleteStorageVolume P name pool
       else if meth = ''DELETE'' \<and> action = ''delete'' then agent_handleDeleteStoragePool P pool
       else if meth = ''PUT'' \<and> action = ''state'' then agent_handleUpdateStoragePoolState P body pool
       else if meth = ''PUT'' \<and> action = ''autostart'' then agent_handleUpdateStoragePoolAutostart P body pool
       else method_not_allowed)"

definition agent_handleStoragePoolRoute ::
  "'k provider \<Rightarrow> string \<Rightarrow> string \<Rightarrow> string \<Rightarrow> request_body \<Rightarrow> ('k, 'e, api_answer) prog" where
  "agent_handleStoragePoolRoute P meth path name body = (case parseStoragePoolPath path of
     None \<Rightarrow> not_found
   | Some (pool, action) \<Rightarrow> agent_pool_action P meth name body pool action)"

definition agent_handleNetworkPools :: "'k provider \<Rightarrow> string \<Rightarrow> request_body \<Rightarrow> ('k, 'e, api_answer) prog" where
  "agent_handleNetworkPools P meth body =
    (if meth = ''GET'' then
       provide (pv_ListNetworkPools P) ''list_network_pools_failed'' (\<lambda>_. zh ''e8afbbe58f96e7bd91e7bb9ce6b1a0e5a4b1e8b4a5'') (\<lambda>items. (200, RNetworks items))
     else if meth = ''POST'' then
       (case body of
          QNetwork q \<Rightarrow> provide (pv_CreateNetworkPool P q) ''network_pool_create_failed'' (operationErrorMessage (zh ''e5889be5bbbae7bd91e7bb9ce6b1a0e5a4b1e8b4a5'')) (\<lambda>item. (200, RNetwork item))
        | _ \<Rightarrow> invalid_body (zh ''e7bd91e7bb9ce6b1a0e58f82e695b0e6a0bce5bc8fe4b88de6ada3e7a1ae''))
     else method_not_allowed)"

definition agent_handleDeleteNetworkPool :: "'k provider \<Rightarrow> string \<Rightarrow> ('k, 'e, api_answer) prog" where
  "agent_handleDeleteNetworkPool P poolName = provide (pv_DeleteNetworkPool P poolName) ''network_pool_delete_failed''
     (operationErrorMessage (zh ''e588a0e999a4e7bd91e7bb9ce6b1a0e5a4b1e8b4a5'')) (\<lambda>_. (200, RDone))"

definition agent_handleUpdateNetworkPoolState :: "'k provider \<Rightarrow> request_body \<Rightarrow> string \<Rightarrow> ('k, 'e, api_answer) prog" where
  "agent_handleUpdateNetworkPoolState P body poolName = (case body of
     QState q \<Rightarrow> provide (pv_UpdateNetworkPoolState P poolName q) ''network_pool_state_update_failed''
       (operationErrorMessage (zh ''e4bfaee694b9e7bd91e7bb9ce6b1a0e78ab6e68081e5a4b1e8b4a5'')) (\<lambda>_. (200, RDone))
   | _ \<Rightarrow> invalid_body (zh ''e7bd91e7bb9ce6b1a0e78ab6e68081e58f82e695b0e6a0bce5bc8fe4b88de6ada3e7a1ae''))"

definition agent_handleUpdateNetworkPoolAutostart :: "'k provider \<Rightarrow> request_body \<Rightarrow> string \<Rightarrow> ('k, 'e, api_answer) prog" where
  "agent_handleUpdateNetworkPoolAutostart P body poolName = (case body of
     QAutostart q \<Rightarrow> provide (pv_UpdateNetworkPoolAutostart P poolName q) ''network_pool_autostart_update_failed''
       (operationErrorMessage (zh ''e4bfaee694b9e7bd91e7bb9ce6b1a0e887aae590afe58aa8e5a4b1e8b4a5'')) (\<lambda>_. (200, RDone))
   | _ \<Rightarrow> invalid_body (zh ''e7bd91e7bb9ce6b1a0e887aae590afe58aa8e58f82e695b0e6a0bce5bc8fe4b88de6ada3e7a1ae''))"

definition agent_network_action :: "'k provider \<Rightarrow> string \<Rightarrow> request_body \<Rightarrow> string \<Rightarrow> string \<Rightarrow> ('k, 'e, api_answer) prog" where
  "agent_network_action P meth body pool action =
      (if meth = ''PUT'' \<and> action = ''state'' then agent_handleUpdateNetworkPoolState P body pool
       else if meth = ''PUT'' \<and> action = ''autostart'' then agent_handleUpdateNetworkPoolAutostart P body pool
       else if meth = ''DELETE'' \<and> action = ''delete'' then agent_handleDeleteNetworkPool P pool
       else method_not_allowed)"

definition agent_handleNetworkPoolRoute :: "'k provider \<Rightarrow> string \<Rightarrow> string \<Rightarrow> request_body \<Rightarrow> ('k, 'e, api_answer) prog" where
  "agent_handleNetworkPoolRoute P meth path body = (case parseNetworkPoolPath path of
     None \<Rightarrow> not_found
   | Some (pool, action) \<Rightarrow> agent_network_action P meth body pool action)"

subsection \<open>Host interfaces\<close>

definition agent_handleHostInterfaces :: "'k provider \<Rightarrow> string \<Rightarrow> request_body \<Rightarrow> ('k, 'e, api_answer) prog" where
  "agent_handleHostInterfaces P meth body =
    (if meth = ''GET'' then
       provide (pv_ListHostInterfaces P) ''list_host_interfaces_failed'' (\<lambda>_. zh ''e8afbbe58f96e5aebfe4b8bbe69cbae68ea5e58fa3e5a4b1e8b4a5'') (\<lambda>items. (200, RInterfaces items))
     else if meth = ''POST'' then
       (case body of
          QInterface q \<Rightarrow> provide (pv_CreateHostInterface P q) ''create_host_interface_failed''
            (operationErrorMessage (zh ''e5889be5bbbae5aebfe4b8bbe69cbae68ea5e58fa3e5a4b1e8b4a5'')) (\<lambda>item. (200, RInterface item))
        | _ \<Rightarrow> invalid_body (zh ''e68ea5e58fa3e58f82e695b0e6a0bce5bc8fe4b88de6ada3e7a1ae''))
     else method_not_allowed)"

definition agent_handleHostInterfaceDevices :: "'k provider \<Rightarrow> ('k, 'e, api_answer) prog" where
  "agent_handleHostInterfaceDevices P = provide (pv_ListHostInterfaceDevices P) ''list_host_interface_devices_failed''
     (\<lambda>_. zh ''e8afbbe58f96e5aebfe4b8bbe69cbae68ea5e58fa3e8aebee5a487e5a4b1e8b4a5'') (\<lambda>items. (200, RInterfaceDevices items))"

definition agent_handleUpdateHostInterfaceState :: "'k provider \<Rightarrow> request_body \<Rightarrow> string \<Rightarrow> ('k, 'e, api_answer) prog" where
  "agent_handleUpdateHostInterfaceState P body name = (case body of
     QState q \<Rightarrow> provide (pv_UpdateHostInterfaceState P name (pst_Active q)) ''host_interface_state_failed''
       (operationErrorMessage (zh ''e4bfaee694b9e5aebfe4b8bbe69cbae68ea5e58fa3e78ab6e68081e5a4b1e8b4a5'')) (\<lambda>_. (200, RDone))
   | _ \<Rightarrow> invalid_body (zh ''e68ea5e58fa3e78ab6e68081e58f82e695b0e6a0bce5bc8fe4b88de6ada3e7a1ae''))"

definition agent_handleDeleteHostInterface :: "'k provider \<Rightarrow> string \<Rightarrow> ('k, 'e, api_answer) prog" where
  "agent_handleDeleteHostInterface P name = provide (pv_DeleteHostInterface P name) ''host_interface_delete_failed''
     (operationErrorMessage (zh ''e588a0e999a4e5aebfe4b8bbe69cbae68ea5e58fa3e5a4b1e8b4a5'')) (\<lambda>_. (200, RDone))"

definition agent_interface_action :: "'k provider \<Rightarrow> string \<Rightarrow> request_body \<Rightarrow> string \<Rightarrow> string \<Rightarrow> ('k, 'e, api_answer) prog" where
  "agent_interface_action P meth body name action =
      (if meth = ''GET'' \<and> name = ''devices'' \<and> action = ''list'' then agent_handleHostInterfaceDevices P
       else if meth = ''PUT'' \<and> action = ''state'' then agent_handleUpdateHostInterfaceState P body name
       else if meth = ''DELETE'' \<and> action = ''delete'' then agent_handleDeleteHostInterface P name
       else method_not_allowed)"

definition agent_handleHostInterfaceRoute :: "'k provider \<Rightarrow> string \<Rightarrow> string \<Rightarrow> request_body \<Rightarrow> ('k, 'e, api_answer) prog" where
  "agent_handleHostInterfaceRoute P meth path body = (case parseHostInterfacePath path of
     None \<Rightarrow> not_found
   | Some (name, action) \<Rightarrow> agent_interface_action P meth body name action)"

subsection \<open>Virtual machines\<close>

definition agent_handleHost :: "'k provider \<Rightarrow> ('k, 'e, api_answer) prog" where
  "agent_handleHost P = provide (pv_HostInfo P) ''host_unavailable'' (\<lambda>_. zh ''e5aebfe4b8bbe69cbae4bfa1e681afe4b88de58fafe794a8'') (\<lambda>info. (200, RHost info))"

definition agent_handleListVMs :: "'k provider \<Rightarrow> string \<Rightarrow> ('k, 'e, api_answer) prog" where
  "agent_handleListVMs P level =
    provide (if EqualFold (TrimSpace level) ''fast'' then pv_ListVMsFast P else pv_ListVMs P)
      ''list_vms_failed'' (\<lambda>_. zh ''e8afbbe58f96e8999ae68b9fe69cbae58897e8a1a8e5a4b1e8b4a5'') (\<lambda>vms. (200, RVMs vms))"

definition agent_handleUpdateVMConfig :: "'k provider \<Rightarrow> request_body \<Rightarrow> string \<Rightarrow> ('k, 'e, api_answer) prog" where
  "agent_handleUpdateVMConfig P body vmName = (case body of
     QConfig q \<Rightarrow> provide (pv_UpdateVMConfig P vmName (q\<lparr>cu_Description := TrimSpace (cu_Description q)\<rparr>)) ''vm_config_update_failed''
       (operationErrorMessage (zh ''e4bfaee694b9e8999ae68b9fe69cbae9858de7bdaee5a4b1e8b4a5'')) (\<lambda>c. (200, RConfig c))
   | _ \<Rightarrow> invalid_body (zh ''e8999ae68b9fe69cbae9858de7bdaee58f82e695b0e6a0bce5bc8fe4b88de6ada3e7a1ae''))"

definition agent_handleRenameVM :: "'k provider \<Rightarrow> request_body \<Rightarrow> string \<Rightarrow> ('k, 'e, api_answer) prog" where
  "agent_handleRenameVM P body vmName = (case body of
     QRename q \<Rightarrow> provide (pv_RenameVM P vmName (q\<lparr>rn_Name := TrimSpace (rn_Name q)\<rparr>)) ''vm_rename_failed''
       (operationErrorMessage (zh ''e4bfaee694b9e8999ae68b9fe69cbae5908de7a7b0e5a4b1e8b4a5'')) (\<lambda>c. (200, RConfig c))
   | _ \<Rightarrow> invalid_body (zh ''e8999ae68b9fe69cbae5908de7a7b0e58f82e695b0e6a0bce5bc8fe4b88de6ada3e7a1ae''))"

definition agent_handleUpdateVMAutostart :: "'k provider \<Rightarrow> request_body \<Rightarrow> string \<Rightarrow> ('k, 'e, api_answer) prog" where
  "agent_handleUpdateVMAutostart P body vmName = (case body of
     QVMAutostart q \<Rightarrow> provide (pv_UpdateVMAutostart P vmName q) ''vm_autostart_update_failed''
       (operationErrorMessage (zh ''e4bfaee694b9e8999ae68b9fe69cbae887aae590afe58aa8e5a4b1e8b4a5'')) (\<lambda>_. (200, RDone))
   | _ \<Rightarrow> invalid_body (zh ''e8999ae68b9fe69cbae887aae590afe58aa8e58f82e695b0e6a0bce5bc8fe4b88de6ada3e7a1ae''))"

definition agent_handleUpdateVMConsole :: "'k provider \<Rightarrow> request_body \<Rightarrow> string \<Rightarrow> ('k, 'e, api_answer) prog" where
  "agent_handleUpdateVMConsole P body vmName = (case body of
     QConsole q \<Rightarrow> provide (pv_UpdateVMConsole P vmName (q\<lparr>con_Password := TrimSpace (con_Password q)\<rparr>)) ''vm_console_update_failed''
       (operationErrorMessage (zh ''e4bfaee694b9e68ea7e588b6e58fb0e9858de7bdaee5a4b1e8b4a5'')) (\<lambda>c. (200, RConfig c))
   | _ \<Rightarrow> invalid_body (zh ''e68ea7e588b6e58fb0e9858de7bdaee58f82e695b0e6a0bce5bc8fe4b88de6ada3e7a1ae''))"

definition agent_handleConnectVMMedia :: "'k provider \<Rightarrow> request_body \<Rightarrow> string \<Rightarrow> ('k, 'e, api_answer) prog" where
  "agent_handleConnectVMMedia P body vmName = (case body of
     QConnect q \<Rightarrow> provide (pv_ConnectVMMedia P vmName (q\<lparr>mco_Target := TrimSpace (mco_Target q), mco_ISOPath := TrimSpace (mco_ISOPath q)\<rparr>))
       ''vm_media_connect_failed'' (operationErrorMessage (zh ''e8bf9ee68ea5e4bb8be8b4a8e5a4b1e8b4a5'')) (\<lambda>c. (200, RConfig c))
   | _ \<Rightarrow> invalid_body (zh ''e4bb8be8b4a8e8bf9ee68ea5e58f82e695b0e6a0bce5bc8fe4b88de6ada3e7a1ae''))"

definition agent_handleDisconnectVMMedia :: "'k provider \<Rightarrow> request_body \<Rightarrow> string \<Rightarrow> ('k, 'e, api_answer) prog" where
  "agent_handleDisconnectVMMedia P body vmName = (case body of
     QDisconnect q \<Rightarrow> provide (pv_DisconnectVMMedia P vmName (q\<lparr>mdi_Target := TrimSpace (mdi_Target q)\<rparr>)) ''vm_media_disconnect_failed''
       (operationErrorMessage (zh ''e696ade5bc80e4bb8be8b4a8e5a4b1e8b4a5'')) (\<lambda>c. (200, RConfig c))
   | _ \<Rightarrow> invalid_body (zh ''e4bb8be8b4a8e696ade5bc80e58f82e695b0e6a0bce5bc8fe4b88de6ada3e7a1ae''))"

definition agent_handleUpdateVMXML :: "'k provider \<Rightarrow> request_body \<Rightarrow> string \<Rightarrow> ('k, 'e, api_answer) prog" where
  "agent_handleUpdateVMXML P body vmName = (case body of
     QXML q \<Rightarrow> provide (pv_UpdateVMXML P vmName q) ''vm_xml_update_failed''
       (operationErrorMessage (zh ''e4bfaee694b9e8999ae68b9fe69cba20584d4c20e5a4b1e8b4a5'')) (\<lambda>c. (200, RConfig c))
   | _ \<Rightarrow> invalid_body (zh ''e8999ae68b9fe69cba20584d4c20e58f82e695b0e6a0bce5bc8fe4b88de6ada3e7a1ae''))"

definition agent_handleUpdateVMDevices :: "'k provider \<Rightarrow> request_body \<Rightarrow> string \<Rightarrow> ('k, 'e, api_answer) prog" where
  "agent_handleUpdateVMDevices P body vmName = (case body of
     QVMDevices q \<Rightarrow> provide (pv_UpdateVMDevices P vmName q) ''vm_devices_update_failed''
       (operationErrorMessage (zh ''e4bfaee694b9e8999ae68b9fe69cbae8aebee5a487e5a4b1e8b4a5'')) (\<lambda>c. (200, RConfig c))
   | _ \<Rightarrow> invalid_body (zh ''e8999ae68b9fe69cbae8aebee5a487e58f82e695b0e6a0bce5bc8fe4b88de6ada3e7a1ae''))"

definition agent_handleCloneVM :: "'k provider \<Rightarrow> request_body \<Rightarrow> string \<Rightarrow> ('k, 'e, api_answer) prog" where
  "agent_handleCloneVM P body vmName = (case body of
     QCloneVM q \<Rightarrow> provide (pv_CloneVM P vmName q) ''vm_clone_failed''
       (operationErrorMessage (zh ''e5858be99a86e8999ae68b9fe69cbae5a4b1e8b4a5'')) (\<lambda>c. (200, RConfig c))
   | _ \<Rightarrow> invalid_body (zh ''e8999ae68b9fe69cbae5858be99a86e58f82e695b0e6a0bce5bc8fe4b88de6ada3e7a1ae''))"

definition agent_handleCreateVM :: "'k provider \<Rightarrow> request_body \<Rightarrow> ('k, 'e, api_answer) prog" where
  "agent_handleCreateVM P body = (case body of
     QCreateVM q \<Rightarrow> provide (pv_CreateVM P q) ''vm_create_failed''
       (operationErrorMessage (zh ''e5889be5bbbae8999ae68b9fe69cbae5a4b1e8b4a5'')) (\<lambda>c. (200, RConfig c))
   | _ \<Rightarrow> invalid_body (zh ''e5889be5bbbae8999ae68b9fe69cbae58f82e695b0e6a0bce5bc8fe4b88de6ada3e7a1ae''))"

definition agent_handleMigrateVM :: "'k provider \<Rightarrow> request_body \<Rightarrow> string \<Rightarrow> ('k, 'e, api_answer) prog" where
  "agent_handleMigrateVM P body name = (case body of
     QMigrate q \<Rightarrow> provide (pv_MigrateVM P name q) ''vm_migrate_failed''
       (operationErrorMessage (zh ''e8bf81e7a7bbe8999ae68b9fe69cbae5a4b1e8b4a5'')) (\<lambda>_. (202, RDone))
   | _ \<Rightarrow> invalid_body (zh ''e8bf81e7a7bbe8999ae68b9fe69cbae58f82e695b0e6a0bce5bc8fe4b88de6ada3e7a1ae''))"

definition agent_handleMigrationCheck :: "'k provider \<Rightarrow> request_body \<Rightarrow> ('k, 'e, api_answer) prog" where
  "agent_handleMigrationCheck P body = (case body of
     QCheck q \<Rightarrow> provide (pv_CheckMigrationConnection P q) ''migration_check_failed''
       (operationErrorMessage (zh ''e8bf81e7a7bbe9809ae98193e6a380e6b58be5a4b1e8b4a5'')) (\<lambda>x. (200, RMigration x))
   | _ \<Rightarrow> invalid_body (zh ''e8bf81e7a7bbe9809ae98193e6a380e6b58be58f82e695b0e6a0bce5bc8fe4b88de6ada3e7a1ae''))"

definition agent_handleMigrationSSHKey :: "'k provider \<Rightarrow> request_body \<Rightarrow> ('k, 'e, api_answer) prog" where
  "agent_handleMigrationSSHKey P body = (case body of
     QSSHKey q \<Rightarrow> provide (pv_SetupMigrationSSHKey P q) ''migration_ssh_key_failed''
       (operationErrorMessage (zh ''e8bf81e7a7bb2053534820e5858de5af86e9858de7bdaee5a4b1e8b4a5'')) (\<lambda>x. (200, RMigration x))
   | _ \<Rightarrow> invalid_body (zh ''e8bf81e7a7bb2053534820e5858de5af86e9858de7bdaee58f82e695b0e6a0bce5bc8fe4b88de6ada3e7a1ae''))"

definition agent_handleMigrationHostname :: "'k provider \<Rightarrow> request_body \<Rightarrow> ('k, 'e, api_answer) prog" where
  "agent_handleMigrationHostname P body = (case body of
     QHostname q \<Rightarrow> provide (pv_SetupMigrationHostname P q) ''migration_hostname_failed''
       (operationErrorMessage (zh ''e9858de7bdaee8bf81e7a7bbe79baee6a087e4b8bbe69cbae5908de5a4b1e8b4a5'')) (\<lambda>x. (200, RMigration x))
   | _ \<Rightarrow> invalid_body (zh ''e8bf81e7a7bbe79baee6a087e4b8bbe69cbae5908de9858de7bdaee58f82e695b0e6a0bce5bc8fe4b88de6ada3e7a1ae''))"

definition agent_handleCreateSnapshot :: "'k provider \<Rightarrow> request_body \<Rightarrow> string \<Rightarrow> ('k, 'e, api_answer) prog" where
  "agent_handleCreateSnapshot P body vmName = (case body of
     QSnapshot q0 \<Rightarrow>
       let q = q0\<lparr>sc_Name := TrimSpace (sc_Name q0), sc_Description := TrimSpace (sc_Description q0)\<rparr> in
       if \<not> snapshotNamePattern (sc_Name q)
       then ret (400, RError ''invalid_snapshot_name'' (zh ''e5bfabe785a7e5908de7a7b0e58faae883bde58c85e590abe5ad97e6af8de38081e695b0e5ad97e38081e782b9e38081e4b88be58892e7babfe38081e58692e58fb7e5928ce8bf9ee5ad97e7aca6efbc8ce995bfe5baa620312d3830''))
       else provide (pv_CreateSnapshot P vmName q) ''snapshot_create_failed''
         (operationErrorMessage (zh ''e5889be5bbbae5bfabe785a7e5a4b1e8b4a5'')) (\<lambda>_. (202, RDone))
   | _ \<Rightarrow> invalid_body (zh ''e5bfabe785a7e58f82e695b0e6a0bce5bc8fe4b88de6ada3e7a1ae''))"

text \<open>The error for an unknown action is \<open>http.ErrNotSupported\<close>.\<close>

definition not_supported :: "('k, unit) host_op" where
  "not_supported = fail ''feature not supported''"

definition runAction :: "'k provider \<Rightarrow> string \<Rightarrow> string \<Rightarrow> ('k, unit) host_op" where
  "runAction P name action =
    (if action = ''start'' then pv_StartVM P name
     else if action = ''shutdown'' then pv_ShutdownVM P name
     else if action = ''suspend'' then pv_PauseVM P name
     else if action = ''resume'' then pv_ResumeVM P name
     else if action = ''reboot'' then pv_RebootVM P name
     else if action = ''reset'' then pv_ResetVM P name
     else if action = ''destroy'' then pv_DestroyVM P name
     else if action = ''delete'' then pv_DeleteVM P name
     else if action = ''force-delete'' then pv_ForceDeleteVM P name
     else not_supported)"

definition runSnapshotAction :: "'k provider \<Rightarrow> string \<Rightarrow> string \<Rightarrow> string \<Rightarrow> ('k, unit) host_op" where
  "runSnapshotAction P vmName snapshotName action =
    (if action = ''revert'' then pv_RevertSnapshot P vmName snapshotName
     else if action = ''delete'' then pv_DeleteSnapshot P vmName snapshotName
     else not_supported)"

definition snapshotActionSummary :: "string \<Rightarrow> string" where
  "snapshotActionSummary action =
    (if action = ''revert'' then zh ''e681a2e5a48de5bfabe785a7e5a4b1e8b4a5''
     else if action = ''delete'' then zh ''e588a0e999a4e5bfabe785a7e5a4b1e8b4a5''
     else zh ''e5bfabe785a7e6938de4bd9ce5a4b1e8b4a5'')"

text \<open>The methods with a body of their own or none, in the order of the code; the console is the argument.\<close>

definition agent_vm_action ::
  "'k provider \<Rightarrow> string \<Rightarrow> request_body \<Rightarrow> string \<Rightarrow> string \<Rightarrow> ('k, 'e, api_answer) prog" where
  "agent_vm_action P meth body name action =
    (if meth = ''GET'' \<and> action = ''snapshots'' then
       provide (pv_ListSnapshots P name) ''list_snapshots_failed'' (\<lambda>_. zh ''e8afbbe58f96e5bfabe785a7e58897e8a1a8e5a4b1e8b4a5'') (\<lambda>items. (200, RSnapshots items))
     else if meth = ''GET'' \<and> action = ''refresh'' then
       provide (pv_VM P name) ''vm_refresh_failed'' (operationErrorMessage (zh ''e588b7e696b0e8999ae68b9fe69cbae4bfa1e681afe5a4b1e8b4a5'')) (\<lambda>vm. (200, RVM vm))
     else if meth = ''GET'' \<and> action = ''config'' then
       provide (pv_VMConfig P name) ''vm_config_failed'' (\<lambda>_. zh ''e8afbbe58f96e8999ae68b9fe69cbae9858de7bdaee5a4b1e8b4a5'') (\<lambda>c. (200, RConfig c))
     else if meth = ''GET'' \<and> action = ''console'' then
       provide (pv_ConsoleInfo P name) ''console_info_failed'' (\<lambda>_. zh ''e8afbbe58f96e68ea7e588b6e58fb0e9858de7bdaee5a4b1e8b4a5'') (\<lambda>c. (200, RConsole c))
     else if meth = ''PUT'' \<and> action = ''config'' then agent_handleUpdateVMConfig P body name
     else if meth = ''PUT'' \<and> action = ''console'' then agent_handleUpdateVMConsole P body name
     else if meth = ''PUT'' \<and> action = ''rename'' then agent_handleRenameVM P body name
     else if meth = ''PUT'' \<and> action = ''autostart'' then agent_handleUpdateVMAutostart P body name
     else if meth = ''PUT'' \<and> action = ''media'' then agent_handleConnectVMMedia P body name
     else if meth = ''DELETE'' \<and> action = ''media'' then agent_handleDisconnectVMMedia P body name
     else if meth = ''PUT'' \<and> action = ''xml'' then agent_handleUpdateVMXML P body name
     else if meth = ''PUT'' \<and> action = ''devices'' then agent_handleUpdateVMDevices P body name
     else if meth = ''POST'' \<and> action = ''clone'' then agent_handleCloneVM P body name
     else if meth = ''POST'' \<and> action = ''migrate'' then agent_handleMigrateVM P body name
     else if meth = ''POST'' \<and> action = ''snapshots'' then agent_handleCreateSnapshot P body name
     else if meth = ''POST'' then
       provide (runAction P name action) ''vm_action_failed'' (operationErrorMessage (zh ''e8999ae68b9fe69cbae6938de4bd9ce5a4b1e8b4a5'')) (\<lambda>_. (202, RDone))
     else method_not_allowed)"

definition agent_handleVMRoute ::
  "'k provider \<Rightarrow> (string \<Rightarrow> ('k, 'e, api_answer) prog) \<Rightarrow> string \<Rightarrow> string \<Rightarrow> request_body \<Rightarrow> ('k, 'e, api_answer) prog" where
  "agent_handleVMRoute P console meth path body =
    (case (if meth = ''GET'' then agent_parseVMConsolePath path else None) of
       Some name \<Rightarrow> console name
     | None \<Rightarrow>
        (case (if meth = ''POST'' then parseSnapshotActionPath path else None) of
           Some (vmName, snapshotName, action) \<Rightarrow>
             provide (runSnapshotAction P vmName snapshotName action) ''snapshot_action_failed''
               (operationErrorMessage (snapshotActionSummary action)) (\<lambda>_. (202, RDone))
         | None \<Rightarrow>
            (case agent_parseVMPath path of
               None \<Rightarrow> not_found
             | Some (name, action) \<Rightarrow> agent_vm_action P meth body name action)))"

section \<open>The server\<close>

text \<open>
  \<open>net/http\<close>: the target of a request is split at the question mark, the path into its segments, and the
  escapes are decoded. Percent escapes with two hexadecimal digits are decoded, a plus sign only in a query.
\<close>

definition hex_of_char :: "char \<Rightarrow> nat option" where
  "hex_of_char c = (let n = byte c in
     if 48 \<le> n \<and> n \<le> 57 then Some (n - 48)
     else if 65 \<le> n \<and> n \<le> 70 then Some (n - 55)
     else if 97 \<le> n \<and> n \<le> 102 then Some (n - 87)
     else None)"

fun unescape :: "bool \<Rightarrow> string \<Rightarrow> string option" where
  "unescape q [] = Some []"
| "unescape q (c # s) =
    (if c = CHR ''%'' then
       (case s of
          a # b # r \<Rightarrow> (case (hex_of_char a, hex_of_char b) of
             (Some h, Some l) \<Rightarrow> map_option ((#) (char_of (16 * h + l))) (unescape q r)
           | _ \<Rightarrow> None)
        | _ \<Rightarrow> None)
     else map_option ((#) (if q \<and> c = CHR ''+'' then CHR '' '' else c)) (unescape q s))"

text \<open>\<open>Query().Get(key)\<close>: the first value, empty when there is none; pairs that cannot be decoded are dropped.\<close>

fun query_value :: "string \<Rightarrow> string list \<Rightarrow> string" where
  "query_value key [] = []"
| "query_value key (p # ps) =
    (let v = drop (Suc (length (takeWhile (\<lambda>c. c \<noteq> CHR ''='') p))) p in
     if p = [] \<or> CHR '';'' \<in> set p \<or> unescape True (takeWhile (\<lambda>c. c \<noteq> CHR ''='') p) \<noteq> Some key \<or> unescape True v = None
     then query_value key ps else the (unescape True v))"

definition query_get :: "string \<Rightarrow> string \<Rightarrow> string" where
  "query_get target key = query_value key (Split CHR ''&'' (drop (Suc (length (takeWhile (\<lambda>c. c \<noteq> CHR ''?'') target))) target))"

text \<open>
  The patterns of \<open>ServeMux\<close> match the segments of the path; a pattern for GET also takes HEAD. A path with a
  segment that is empty or made of dots is redirected. \<open>allowed\<close> has the methods of the pattern and whether it
  ends in a slash.
\<close>

definition method_in :: "string \<Rightarrow> string list \<Rightarrow> bool" where
  "method_in meth ms \<longleftrightarrow> meth \<in> set ms \<or> (meth = ''HEAD'' \<and> ''GET'' \<in> set ms)"

definition unclean :: "string list \<Rightarrow> bool" where
  "unclean segs \<longleftrightarrow> (\<exists>x \<in> set segs. x = ''.'' \<or> x = ''..'') \<or> [] \<in> set (butlast (tl segs))"

definition mux_match :: "string list \<Rightarrow> bool \<Rightarrow> string list \<Rightarrow> bool" where
  "mux_match pattern subtree segs \<longleftrightarrow>
     (if subtree then take (length pattern) segs = pattern \<and> length pattern < length segs else segs = pattern)"

text \<open>\<open>security.Authenticator\<close>; \<open>http.Error\<close> answers plain text.\<close>

definition bearer_ok :: "string \<Rightarrow> string \<Rightarrow> bool" where
  "bearer_ok token value \<longleftrightarrow> HasPrefix value ''Bearer '' \<and> TrimSpace (TrimPrefix value ''Bearer '') = token"

record agent_request =
  rq_method :: string
  rq_target :: string
  rq_auth :: string
  rq_body :: request_body

type_synonym raw_answer = "int \<times> reply option"

definition with_auth :: "string \<Rightarrow> agent_request \<Rightarrow> ('k, 'e, api_answer) prog \<Rightarrow> ('k, 'e, raw_answer) prog" where
  "with_auth token rq handler =
    (if bearer_ok token (rq_auth rq) then bindp handler (\<lambda>(status, reply). ret (status, Some reply)) else ret (401, None))"

text \<open>The routes with their methods, in the order of \<open>New\<close>.\<close>

definition agent_routes ::
  "'k provider \<Rightarrow> (string \<Rightarrow> ('k, 'e, api_answer) prog) \<Rightarrow> agent_request \<Rightarrow> string \<Rightarrow>
   (string list \<times> bool \<times> string list \<times> ('k, 'e, api_answer) prog) list" where
  "agent_routes P console rq path =
    (let meth = rq_method rq; body = rq_body rq; q = query_get (rq_target rq) in
     [([[], ''v1'', ''host''], False, [''GET''], agent_handleHost P),
      ([[], ''v1'', ''host'', ''interfaces''], False, [''GET'', ''POST''], agent_handleHostInterfaces P meth body),
      ([[], ''v1'', ''host'', ''interfaces''], True, [''GET'', ''PUT'', ''DELETE''], agent_handleHostInterfaceRoute P meth path body),
      ([[], ''v1'', ''vms''], False, [''GET''], agent_handleListVMs P (q ''level'')),
      ([[], ''v1'', ''vms''], False, [''POST''], agent_handleCreateVM P body),
      ([[], ''v1'', ''storage-pools''], False, [''GET'', ''POST''], agent_handleStoragePools P meth body),
      ([[], ''v1'', ''storage-pools''], True, [''GET'', ''POST'', ''PUT'', ''DELETE''],
         agent_handleStoragePoolRoute P meth path (q ''name'') body),
      ([[], ''v1'', ''network-pools''], False, [''GET'', ''POST''], agent_handleNetworkPools P meth body),
      ([[], ''v1'', ''network-pools''], True, [''PUT'', ''DELETE''], agent_handleNetworkPoolRoute P meth path body),
      ([[], ''v1'', ''migration'', ''check''], False, [''POST''], agent_handleMigrationCheck P body),
      ([[], ''v1'', ''migration'', ''ssh-key''], False, [''POST''], agent_handleMigrationSSHKey P body),
      ([[], ''v1'', ''migration'', ''hostname''], False, [''POST''], agent_handleMigrationHostname P body),
      ([[], ''v1'', ''vms''], True, [''GET'', ''PUT'', ''POST'', ''DELETE''], agent_handleVMRoute P console meth path body)])"

fun first_some :: "('a \<Rightarrow> 'b option) \<Rightarrow> 'a list \<Rightarrow> 'b option" where
  "first_some f [] = None"
| "first_some f (x # xs) = (case f x of Some y \<Rightarrow> Some y | None \<Rightarrow> first_some f xs)"

text \<open>
  The handler for the path with these segments. A request whose method no pattern has for the path is sent to the
  path with a slash when that is a pattern that takes it.
\<close>

definition agent_dispatch ::
  "string \<Rightarrow> 'k provider \<Rightarrow> (string \<Rightarrow> ('k, 'e, api_answer) prog) \<Rightarrow> agent_request \<Rightarrow> string list \<Rightarrow> ('k, 'e, raw_answer) prog" where
  "agent_dispatch token P console rq segs =
    (let all_routes = agent_routes P console rq (Join segs ''/'');
         routes = filter (\<lambda>(pattern, subtree, _). mux_match pattern subtree segs) all_routes in
     if segs = [[], ''health''] then (if method_in (rq_method rq) [''GET''] then ret (200, Some RDone) else ret (405, None))
     else case first_some (\<lambda>(_, _, methods, handler). if method_in (rq_method rq) methods then Some handler else None) routes of
       Some handler \<Rightarrow> with_auth token rq handler
     | None \<Rightarrow>
         if list_ex (\<lambda>(pattern, subtree, methods, _). subtree \<and> segs = pattern \<and> method_in (rq_method rq) methods) all_routes
         then ret (301, None)
         else if routes = [] then ret (404, None)
         else ret (405, None))"

definition agent_serve ::
  "string \<Rightarrow> 'k provider \<Rightarrow> (string \<Rightarrow> ('k, 'e, api_answer) prog) \<Rightarrow> agent_request \<Rightarrow> ('k, 'e, raw_answer) prog" where
  "agent_serve token P console rq =
    (let raw = Split CHR ''/'' (takeWhile (\<lambda>c. c \<noteq> CHR ''?'') (rq_target rq)) in
     if list_ex (\<lambda>x. unescape False x = None) raw then ret (400, None)
     else if unclean raw then ret (301, None)
     else agent_dispatch token P console rq (map (the \<circ> unescape False) raw))"

end
