(* ===== verification/Agent_Path.thy ===== *)
theory Agent_Path
  imports Agent_Api
begin

text \<open>
  The path of a request between the client of an agent and its API: what the client escapes the server reads back,
  and the parsers of the handlers find the parts again.
\<close>

section \<open>Escapes\<close>

definition path_char :: "char \<Rightarrow> string" where
  "path_char c = (if unreserved c then [c] else [CHR ''%'', upper_hex (byte c div 16), upper_hex (byte c mod 16)])"

lemma replace_plus: "CHR ''+'' \<notin> set u \<Longrightarrow> length (u @ s) \<le> k \<Longrightarrow>
    replace_fuel k (u @ s) ''+'' r = u @ replace_fuel (k - length u) s ''+'' r"
proof (induction u arbitrary: k)
  case (Cons c u)
  then obtain k' where k: "k = Suc k'" by (cases k) auto
  show ?case using Cons by (auto simp: k)
qed simp

lemma byte_upper_hex: "n < 16 \<Longrightarrow> byte (upper_hex n) = (if n < 10 then 48 + n else 55 + n)"
  by (simp add: upper_hex_def byte_def)

lemma upper_hex_plain: "n < 16 \<Longrightarrow> unreserved (upper_hex n)"
  by (simp add: unreserved_def Let_def byte_upper_hex)

lemma unreserved_not [simp]: "\<not> unreserved CHR ''+''" "\<not> unreserved CHR ''/''" "\<not> unreserved CHR ''?''" "\<not> unreserved CHR ''%''"
    "\<not> unreserved CHR ''&''" "\<not> unreserved CHR ''=''" "\<not> unreserved CHR '';''" "\<not> unreserved CHR '' ''"
  by (simp_all add: unreserved_def byte_def)

lemma upper_hex_not [simp]: "n < 16 \<Longrightarrow> upper_hex n \<noteq> CHR ''+''" "n < 16 \<Longrightarrow> upper_hex n \<noteq> CHR ''/''"
    "n < 16 \<Longrightarrow> upper_hex n \<noteq> CHR ''?''" "n < 16 \<Longrightarrow> upper_hex n \<noteq> CHR ''%''"
    "n < 16 \<Longrightarrow> upper_hex n \<noteq> CHR ''&''" "n < 16 \<Longrightarrow> upper_hex n \<noteq> CHR ''=''" "n < 16 \<Longrightarrow> upper_hex n \<noteq> CHR '';''"
  using upper_hex_plain [of n] by (force simp: )+

lemma byte_div [simp]: "byte c div 16 < 16"
  using byte_lt [of c] by (simp add: div_less_iff_less_mult)

text \<open>A blank is the only character that the two steps of the escape treat in another way.\<close>

lemma replace_QueryEscape: "length (QueryEscape s) \<le> k \<Longrightarrow> replace_fuel k (QueryEscape s) ''+'' ''%20'' = concat (map path_char s)"
proof (induction s arbitrary: k)
  case Nil then show ?case by (cases k) (simp_all add: QueryEscape_def)
next
  case (Cons c s)
  let ?rest = "QueryEscape s"
  consider (plain) "unreserved c" | (blank) "c = CHR '' ''" | (other) "\<not> unreserved c" "c \<noteq> CHR '' ''" by auto
  then show ?case
  proof cases
    case plain
    then have e: "QueryEscape (c # s) = [c] @ ?rest" by (simp add: QueryEscape_def)
    have "c \<noteq> CHR ''+''" using plain by auto
    then show ?thesis using Cons plain replace_plus [of "[c]" ?rest k "''%20''"] by (simp add: e path_char_def)
  next
    case blank
    then have e: "QueryEscape (c # s) = CHR ''+'' # ?rest" by (simp add: QueryEscape_def)
    obtain k' where k: "k = Suc k'" using Cons.prems by (cases k) (auto simp: e)
    have "path_char c = ''%20''" unfolding blank by code_simp
    then show ?thesis using Cons by (simp add: e k)
  next
    case other
    then have e: "QueryEscape (c # s) = path_char c @ ?rest" by (simp add: QueryEscape_def path_char_def)
    have "CHR ''+'' \<notin> set (path_char c)" using other by (auto simp: path_char_def dest!: sym [of "CHR ''+''"])
    then show ?thesis using Cons replace_plus [of "path_char c" ?rest k "''%20''"] by (simp add: e)
  qed
qed

lemma urlPathEscape_concat: "urlPathEscape s = concat (map path_char s)"
  by (simp add: urlPathEscape_def ReplaceAll_def replace_QueryEscape)

lemma urlPathEscape_plain: "list_all unreserved s \<Longrightarrow> urlPathEscape s = s"
  by (induction s) (auto simp: urlPathEscape_concat path_char_def)

lemma urlPathEscape_Nil_iff [simp]: "urlPathEscape s = [] \<longleftrightarrow> s = []"
  by (cases s) (auto simp: urlPathEscape_concat path_char_def)

lemma path_char_set: "set (path_char c) \<subseteq> {x. unreserved x \<or> x = CHR ''%''}"
  by (auto simp: path_char_def upper_hex_plain)

lemma urlPathEscape_set: "c \<in> set (urlPathEscape s) \<Longrightarrow> unreserved c \<or> c = CHR ''%''"
  using path_char_set by (fastforce simp: urlPathEscape_concat)

lemma urlPathEscape_no [simp]: "CHR ''/'' \<notin> set (urlPathEscape s)" "CHR ''?'' \<notin> set (urlPathEscape s)"
  using urlPathEscape_set [of "CHR ''/''" s] urlPathEscape_set [of "CHR ''?''" s] by auto

lemma hex_of_upper_hex [simp]: "n < 16 \<Longrightarrow> hex_of_char (upper_hex n) = Some n"
  by (simp add: hex_of_char_def Let_def byte_upper_hex)

lemma unescape_path_char: "unescape q (path_char c @ s) = map_option ((#) c) (unescape q s)"
proof (cases "unreserved c")
  case True
  then show ?thesis by (auto simp: path_char_def)
next
  case False
  have "char_of (16 * (byte c div 16) + byte c mod 16) = c" by simp
  then show ?thesis using False by (simp add: path_char_def del: mult_div_mod_eq)
qed

text \<open>The server reads every name that the client escapes.\<close>

lemma unescape_urlPathEscape [simp]: "unescape q (urlPathEscape s) = Some s"
  by (induction s) (simp_all add: urlPathEscape_concat unescape_path_char)

lemma QueryEscape_Cons: "QueryEscape (c # s) = (if c = CHR '' '' then ''+'' else path_char c) @ QueryEscape s"
  by (simp add: QueryEscape_def path_char_def)

lemma unescape_QueryEscape [simp]: "unescape True (QueryEscape s) = Some s"
proof (induction s)
  case Nil show ?case by (simp add: QueryEscape_def)
next
  case (Cons c s)
  then show ?case by (simp add: QueryEscape_Cons unescape_path_char)
qed

lemma QueryEscape_no: "c \<in> set (QueryEscape s) \<Longrightarrow> unreserved c \<or> c = CHR ''%'' \<or> c = CHR ''+''"
  using path_char_set by (fastforce simp: QueryEscape_def path_char_def upper_hex_plain split: if_splits)

section \<open>Segments\<close>

lemma Split_none: "d \<notin> set s \<Longrightarrow> Split d s = [s]"
  by (induction s) auto

lemma Split_cut: "d \<notin> set a \<Longrightarrow> Split d (a @ d # s) = a # Split d s"
  by (induction a) auto

lemma Split_Join: "ss \<noteq> [] \<Longrightarrow> list_all (\<lambda>s. d \<notin> set s) ss \<Longrightarrow> Split d (Join ss [d]) = ss"
  by (induction ss "[d]" rule: Join.induct) (auto simp: Split_none Split_cut)

definition good_seg :: "string \<Rightarrow> bool" where
  "good_seg s \<longleftrightarrow> s \<noteq> [] \<and> CHR ''/'' \<notin> set s \<and> s \<noteq> ''.'' \<and> s \<noteq> ''..''"

lemma path_char_dot: "path_char c @ r = CHR ''.'' # t \<Longrightarrow> c = CHR ''.'' \<and> r = t"
  by (auto simp: path_char_def split: if_splits)

lemma urlPathEscape_dots: "urlPathEscape s = ''.'' \<longleftrightarrow> s = ''.''" "urlPathEscape s = ''..'' \<longleftrightarrow> s = ''..''"
proof -
  have "unescape False (urlPathEscape s) = unescape False ''.'' \<Longrightarrow> s = ''.''" by simp
  moreover have "unescape False (urlPathEscape s) = unescape False ''..'' \<Longrightarrow> s = ''..''" by simp
  moreover have "urlPathEscape ''.'' = ''.''" "urlPathEscape ''..'' = ''..''"
    by (rule urlPathEscape_plain, simp add: unreserved_def byte_def)+
  ultimately show "urlPathEscape s = ''.'' \<longleftrightarrow> s = ''.''" "urlPathEscape s = ''..'' \<longleftrightarrow> s = ''..''" by metis+
qed

lemma escape_good: "good_seg s \<Longrightarrow> urlPathEscape s \<noteq> [] \<and> urlPathEscape s \<noteq> ''.'' \<and> urlPathEscape s \<noteq> ''..''"
  by (simp add: good_seg_def urlPathEscape_dots)

lemma good_seg_ends: "good_seg s \<Longrightarrow> s \<noteq> [] \<and> hd s \<noteq> CHR ''/'' \<and> last s \<noteq> CHR ''/''"
  unfolding good_seg_def by (metis hd_in_set last_in_set)

definition target_of :: "string list \<Rightarrow> string" where
  "target_of segs = Join ([] # map urlPathEscape segs) ''/''"

lemma target_no: "CHR ''?'' \<notin> set (Join (map urlPathEscape ss) ''/'')"
  by (induction ss rule: induct_list012) auto

lemma target_of_no [simp]: "CHR ''?'' \<notin> set (target_of ss)"
  using target_no [of "[] # ss"] by (simp add: target_of_def urlPathEscape_concat)

lemma takeWhile_target: "CHR ''?'' \<notin> set s \<Longrightarrow> qs = [] \<or> hd qs = CHR ''?'' \<Longrightarrow>
    takeWhile (\<lambda>c. c \<noteq> CHR ''?'') (s @ qs) = s"
  by (cases qs) (auto simp: takeWhile_append2 takeWhile_tail)

text \<open>A request for a clean path is dispatched by its segments.\<close>

lemma agent_serve_target:
  assumes ss: "ss \<noteq> []" "list_all good_seg ss" and target: "rq_target rq = target_of ss @ qs" and qs: "qs = [] \<or> hd qs = CHR ''?''"
  shows "agent_serve token P console rq = agent_dispatch token P console rq ([] # ss)"
proof -
  have split: "Split CHR ''/'' (takeWhile (\<lambda>c. c \<noteq> CHR ''?'') (rq_target rq)) = [] # map urlPathEscape ss"
    using Split_Join [of "[] # map urlPathEscape ss" "CHR ''/''"]
    unfolding target takeWhile_target [OF target_of_no qs] unfolding target_of_def by (simp add: list_all_iff)
  have escapes: "\<not> list_ex (\<lambda>x. unescape False x = None) ([] # map urlPathEscape ss)"
    by (auto simp: list_ex_iff)
  have segs: "x \<in> set (map urlPathEscape ss) \<Longrightarrow> x \<noteq> [] \<and> x \<noteq> ''.'' \<and> x \<noteq> ''..''" for x
    using ss(2) escape_good by (auto simp: list_all_iff)
  have clean: "\<not> unclean ([] # map urlPathEscape ss)"
    unfolding unclean_def using segs by (auto dest!: in_set_butlastD simp del: set_map)
  have read: "map (the \<circ> unescape False) ([] # map urlPathEscape ss) = [] # ss"
    by (simp add: comp_def map_idI)
  show ?thesis by (simp only: agent_serve_def Let_def split escapes clean read if_False)
qed

lemma TrimLeft_keep: "s = [] \<or> hd s \<noteq> CHR ''/'' \<Longrightarrow> TrimLeft s ''/'' = s"
  by (cases s) (auto simp: TrimLeft_def)

lemma Join_ends:
  assumes "ss \<noteq> []" "list_all good_seg ss"
  shows "Join ss ''/'' \<noteq> []" "hd (Join ss ''/'') \<noteq> CHR ''/''" "last (Join ss ''/'') \<noteq> CHR ''/''"
proof -
  have "Join ss ''/'' \<noteq> [] \<and> hd (Join ss ''/'') \<noteq> CHR ''/'' \<and> last (Join ss ''/'') \<noteq> CHR ''/''"
    using assms
  proof (induction ss rule: induct_list012)
    case (2 s) then show ?case using good_seg_ends [of s] by simp
  next
    case (3 s t ss)
    then show ?case using good_seg_ends [of s] by (simp add: last_append)
  qed simp
  then show "Join ss ''/'' \<noteq> []" "hd (Join ss ''/'') \<noteq> CHR ''/''" "last (Join ss ''/'') \<noteq> CHR ''/''" by auto
qed

lemma TrimCut_Join: "ss \<noteq> [] \<Longrightarrow> list_all good_seg ss \<Longrightarrow> TrimCut (Join ss ''/'') ''/'' = Join ss ''/''"
  using Join_ends [of ss] by (simp add: TrimCut_def TrimLeft_keep hd_rev)

lemma agent_parts_Join:
  assumes "ss \<noteq> []" "list_all good_seg ss"
  shows "agent_parts (prefix @ Join ss ''/'') prefix = ss"
proof -
  have "list_all (\<lambda>s. CHR ''/'' \<notin> set s) ss" using assms by (auto simp: list_all_iff good_seg_def)
  then show ?thesis using assms by (simp add: agent_parts_def TrimPrefix_def TrimCut_Join Split_Join)
qed

lemma query_get_single:
  assumes "CHR ''?'' \<notin> set path" "list_all unreserved key" "key \<noteq> []"
  shows "query_get (path @ ''?'' @ key @ ''='' @ QueryEscape v) key = v"
proof -
  have no: "CHR ''?'' \<notin> set path" "CHR ''='' \<notin> set key" "CHR '';'' \<notin> set key" "CHR ''&'' \<notin> set key"
    using assms by (auto simp: list_all_iff)
  have esc: "CHR '';'' \<notin> set (QueryEscape v)" "CHR ''&'' \<notin> set (QueryEscape v)"
    using QueryEscape_no [of "CHR '';''" v] QueryEscape_no [of "CHR ''&''" v] by auto
  have key: "unescape True key = Some key"
    using unescape_urlPathEscape [of True key] assms(2) by (simp add: urlPathEscape_plain)
  have tw: "takeWhile (\<lambda>c. c \<noteq> CHR ''?'') (path @ CHR ''?'' # t) = path" "takeWhile (\<lambda>c. c \<noteq> CHR ''='') (key @ CHR ''='' # t) = key" for t
    by (subst takeWhile_append2; use no in auto)+
  have split: "Split CHR ''&'' (key @ CHR ''='' # QueryEscape v) = [key @ CHR ''='' # QueryEscape v]"
    by (rule Split_none) (use no esc in auto)
  show ?thesis using no esc key assms(3) by (simp add: query_get_def tw split Let_def)
qed

end
