(* ===== verification/Agent_Ops.thy ===== *)
theory Agent_Ops
  imports Agent_Path
begin

text \<open>
  The operations of the client of an agent and of the provider behind its API, side by side, and the wire between
  them. \<open>agent_op\<close> has a constructor per method of the client; \<open>client_op\<close> calls it, \<open>provider_op\<close> is the
  operation of the host that is meant, with the arguments as the handlers trim them.
\<close>

definition uploaded_volume :: "string \<Rightarrow> string \<Rightarrow> string \<Rightarrow> StorageVolumeCreateRequest" where
  "uploaded_volume v file content = \<lparr>volc_Name = (if TrimSpace v = [] then file else TrimSpace v), volc_Format = ''raw'',
     volc_CapacityBytes = int (length content), volc_PreallocMetadata = False\<rparr>"

datatype (plugins only: code) agent_op =
    Op_HostInfo
  | Op_ListHostInterfaces
  | Op_CreateHostInterface HostInterfaceCreateRequest
  | Op_ListHostInterfaceDevices
  | Op_DeleteHostInterface string
  | Op_UpdateHostInterfaceState string PoolStateUpdateRequest
  | Op_ListStoragePools
  | Op_CreateStoragePool StoragePoolCreateRequest
  | Op_ListISOFiles string
  | Op_ListStorageVolumes string
  | Op_CreateStorageVolume string StorageVolumeCreateRequest
  | Op_CloneStorageVolume string StorageVolumeCloneRequest
  | Op_DeleteStorageVolume string string
  | Op_UploadStorageVolume string string string string
  | Op_DeleteStoragePool string
  | Op_UpdateStoragePoolState string PoolStateUpdateRequest
  | Op_UpdateStoragePoolAutostart string PoolAutostartUpdateRequest
  | Op_ListNetworkPools
  | Op_CreateNetworkPool NetworkPoolCreateRequest
  | Op_DeleteNetworkPool string
  | Op_UpdateNetworkPoolState string PoolStateUpdateRequest
  | Op_UpdateNetworkPoolAutostart string PoolAutostartUpdateRequest
  | Op_RunVMAction string string
  | Op_ListVMs
  | Op_ListVMsFast
  | Op_VM string
  | Op_ListSnapshots string
  | Op_VMConfig string
  | Op_ConsoleInfo string
  | Op_UpdateVMConfig string VMConfigUpdateRequest
  | Op_RenameVM string VMRenameRequest
  | Op_UpdateVMAutostart string VMAutostartUpdateRequest
  | Op_UpdateVMConsole string VMConsoleUpdateRequest
  | Op_ConnectVMMedia string VMMediaConnectRequest
  | Op_DisconnectVMMedia string VMMediaDisconnectRequest
  | Op_UpdateVMXML string VMXMLUpdateRequest
  | Op_UpdateVMDevices string VMDeviceUpdateRequest
  | Op_CloneVM string VMCloneRequest
  | Op_CreateVM VMCreateRequest
  | Op_MigrateVM string VMMigrateRequest
  | Op_CheckMigrationConnection MigrationConnectionCheckRequest
  | Op_SetupMigrationSSHKey MigrationSSHKeySetupRequest
  | Op_SetupMigrationHostname MigrationHostnameSetupRequest
  | Op_RunSnapshotAction string string string
  | Op_CreateSnapshot string SnapshotCreateRequest

primrec client_op :: "'s http_transport \<Rightarrow> agent_config \<Rightarrow> agent_op \<Rightarrow> ('s, agent_error, reply) prog" where
  "client_op send cfg Op_HostInfo = bindp (client_HostInfo send cfg) (\<lambda>x. ret (RHost x))"
| "client_op send cfg Op_ListHostInterfaces = bindp (client_ListHostInterfaces send cfg) (\<lambda>x. ret (RInterfaces x))"
| "client_op send cfg (Op_CreateHostInterface q) = bindp (client_CreateHostInterface send cfg q) (\<lambda>x. ret (RInterface x))"
| "client_op send cfg Op_ListHostInterfaceDevices = bindp (client_ListHostInterfaceDevices send cfg) (\<lambda>x. ret (RInterfaceDevices x))"
| "client_op send cfg (Op_DeleteHostInterface n) = bindp (client_DeleteHostInterface send cfg n) (\<lambda>_. ret RDone)"
| "client_op send cfg (Op_UpdateHostInterfaceState n q) = bindp (client_UpdateHostInterfaceState send cfg n q) (\<lambda>_. ret RDone)"
| "client_op send cfg Op_ListStoragePools = bindp (client_ListStoragePools send cfg) (\<lambda>x. ret (RPools x))"
| "client_op send cfg (Op_CreateStoragePool q) = bindp (client_CreateStoragePool send cfg q) (\<lambda>x. ret (RPool x))"
| "client_op send cfg (Op_ListISOFiles n) = bindp (client_ListISOFiles send cfg n) (\<lambda>x. ret (RISOFiles x))"
| "client_op send cfg (Op_ListStorageVolumes n) = bindp (client_ListStorageVolumes send cfg n) (\<lambda>x. ret (RVolumes x))"
| "client_op send cfg (Op_CreateStorageVolume n q) = bindp (client_CreateStorageVolume send cfg n q) (\<lambda>x. ret (RVolume x))"
| "client_op send cfg (Op_CloneStorageVolume n q) = bindp (client_CloneStorageVolume send cfg n q) (\<lambda>x. ret (RVolume x))"
| "client_op send cfg (Op_DeleteStorageVolume n v) = bindp (client_DeleteStorageVolume send cfg n v) (\<lambda>_. ret RDone)"
| "client_op send cfg (Op_UploadStorageVolume n v file content) = bindp (client_UploadStorageVolume send cfg n v file content) (\<lambda>x. ret (RVolume x))"
| "client_op send cfg (Op_DeleteStoragePool n) = bindp (client_DeleteStoragePool send cfg n) (\<lambda>_. ret RDone)"
| "client_op send cfg (Op_UpdateStoragePoolState n q) = bindp (client_UpdateStoragePoolState send cfg n q) (\<lambda>_. ret RDone)"
| "client_op send cfg (Op_UpdateStoragePoolAutostart n q) = bindp (client_UpdateStoragePoolAutostart send cfg n q) (\<lambda>_. ret RDone)"
| "client_op send cfg Op_ListNetworkPools = bindp (client_ListNetworkPools send cfg) (\<lambda>x. ret (RNetworks x))"
| "client_op send cfg (Op_CreateNetworkPool q) = bindp (client_CreateNetworkPool send cfg q) (\<lambda>x. ret (RNetwork x))"
| "client_op send cfg (Op_DeleteNetworkPool n) = bindp (client_DeleteNetworkPool send cfg n) (\<lambda>_. ret RDone)"
| "client_op send cfg (Op_UpdateNetworkPoolState n q) = bindp (client_UpdateNetworkPoolState send cfg n q) (\<lambda>_. ret RDone)"
| "client_op send cfg (Op_UpdateNetworkPoolAutostart n q) = bindp (client_UpdateNetworkPoolAutostart send cfg n q) (\<lambda>_. ret RDone)"
| "client_op send cfg (Op_RunVMAction n action) = bindp (client_RunVMAction send cfg n action) (\<lambda>_. ret RDone)"
| "client_op send cfg Op_ListVMs = bindp (client_ListVMs send cfg) (\<lambda>x. ret (RVMs x))"
| "client_op send cfg Op_ListVMsFast = bindp (client_ListVMsFast send cfg) (\<lambda>x. ret (RVMs x))"
| "client_op send cfg (Op_VM n) = bindp (client_VM send cfg n) (\<lambda>x. ret (RVM x))"
| "client_op send cfg (Op_ListSnapshots n) = bindp (client_ListSnapshots send cfg n) (\<lambda>x. ret (RSnapshots x))"
| "client_op send cfg (Op_VMConfig n) = bindp (client_VMConfig send cfg n) (\<lambda>x. ret (RConfig x))"
| "client_op send cfg (Op_ConsoleInfo n) = bindp (client_ConsoleInfo send cfg n) (\<lambda>x. ret (RConsole x))"
| "client_op send cfg (Op_UpdateVMConfig n q) = bindp (client_UpdateVMConfig send cfg n q) (\<lambda>x. ret (RConfig x))"
| "client_op send cfg (Op_RenameVM n q) = bindp (client_RenameVM send cfg n q) (\<lambda>x. ret (RConfig x))"
| "client_op send cfg (Op_UpdateVMAutostart n q) = bindp (client_UpdateVMAutostart send cfg n q) (\<lambda>_. ret RDone)"
| "client_op send cfg (Op_UpdateVMConsole n q) = bindp (client_UpdateVMConsole send cfg n q) (\<lambda>x. ret (RConfig x))"
| "client_op send cfg (Op_ConnectVMMedia n q) = bindp (client_ConnectVMMedia send cfg n q) (\<lambda>x. ret (RConfig x))"
| "client_op send cfg (Op_DisconnectVMMedia n q) = bindp (client_DisconnectVMMedia send cfg n q) (\<lambda>x. ret (RConfig x))"
| "client_op send cfg (Op_UpdateVMXML n q) = bindp (client_UpdateVMXML send cfg n q) (\<lambda>x. ret (RConfig x))"
| "client_op send cfg (Op_UpdateVMDevices n q) = bindp (client_UpdateVMDevices send cfg n q) (\<lambda>x. ret (RConfig x))"
| "client_op send cfg (Op_CloneVM n q) = bindp (client_CloneVM send cfg n q) (\<lambda>x. ret (RConfig x))"
| "client_op send cfg (Op_CreateVM q) = bindp (client_CreateVM send cfg q) (\<lambda>x. ret (RConfig x))"
| "client_op send cfg (Op_MigrateVM n q) = bindp (client_MigrateVM send cfg n q) (\<lambda>_. ret RDone)"
| "client_op send cfg (Op_CheckMigrationConnection q) = bindp (client_CheckMigrationConnection send cfg q) (\<lambda>x. ret (RMigration x))"
| "client_op send cfg (Op_SetupMigrationSSHKey q) = bindp (client_SetupMigrationSSHKey send cfg q) (\<lambda>x. ret (RMigration x))"
| "client_op send cfg (Op_SetupMigrationHostname q) = bindp (client_SetupMigrationHostname send cfg q) (\<lambda>x. ret (RMigration x))"
| "client_op send cfg (Op_RunSnapshotAction n snap action) = bindp (client_RunSnapshotAction send cfg n snap action) (\<lambda>_. ret RDone)"
| "client_op send cfg (Op_CreateSnapshot n q) = bindp (client_CreateSnapshot send cfg n q) (\<lambda>_. ret RDone)"

primrec provider_op :: "'k provider \<Rightarrow> agent_op \<Rightarrow> ('k, string, reply) prog" where
  "provider_op P Op_HostInfo = bindp (pv_HostInfo P) (\<lambda>x. ret (RHost x))"
| "provider_op P Op_ListHostInterfaces = bindp (pv_ListHostInterfaces P) (\<lambda>x. ret (RInterfaces x))"
| "provider_op P (Op_CreateHostInterface q) = bindp (pv_CreateHostInterface P q) (\<lambda>x. ret (RInterface x))"
| "provider_op P Op_ListHostInterfaceDevices = bindp (pv_ListHostInterfaceDevices P) (\<lambda>x. ret (RInterfaceDevices x))"
| "provider_op P (Op_DeleteHostInterface n) = bindp (pv_DeleteHostInterface P n) (\<lambda>_. ret RDone)"
| "provider_op P (Op_UpdateHostInterfaceState n q) = bindp (pv_UpdateHostInterfaceState P n (pst_Active q)) (\<lambda>_. ret RDone)"
| "provider_op P Op_ListStoragePools = bindp (pv_ListStoragePools P) (\<lambda>x. ret (RPools x))"
| "provider_op P (Op_CreateStoragePool q) = bindp (pv_CreateStoragePool P q) (\<lambda>x. ret (RPool x))"
| "provider_op P (Op_ListISOFiles n) = bindp (pv_ListISOFiles P n) (\<lambda>x. ret (RISOFiles x))"
| "provider_op P (Op_ListStorageVolumes n) = bindp (pv_ListStorageVolumes P n) (\<lambda>x. ret (RVolumes x))"
| "provider_op P (Op_CreateStorageVolume n q) = bindp (pv_CreateStorageVolume P n q) (\<lambda>x. ret (RVolume x))"
| "provider_op P (Op_CloneStorageVolume n q) = bindp (pv_CloneStorageVolume P n q) (\<lambda>x. ret (RVolume x))"
| "provider_op P (Op_DeleteStorageVolume n v) = bindp (pv_DeleteStorageVolume P n (TrimSpace v)) (\<lambda>_. ret RDone)"
| "provider_op P (Op_UploadStorageVolume n v file content) = bindp (pv_UploadStorageVolume P n (uploaded_volume v file content) content) (\<lambda>x. ret (RVolume x))"
| "provider_op P (Op_DeleteStoragePool n) = bindp (pv_DeleteStoragePool P n) (\<lambda>_. ret RDone)"
| "provider_op P (Op_UpdateStoragePoolState n q) = bindp (pv_UpdateStoragePoolState P n q) (\<lambda>_. ret RDone)"
| "provider_op P (Op_UpdateStoragePoolAutostart n q) = bindp (pv_UpdateStoragePoolAutostart P n q) (\<lambda>_. ret RDone)"
| "provider_op P Op_ListNetworkPools = bindp (pv_ListNetworkPools P) (\<lambda>x. ret (RNetworks x))"
| "provider_op P (Op_CreateNetworkPool q) = bindp (pv_CreateNetworkPool P q) (\<lambda>x. ret (RNetwork x))"
| "provider_op P (Op_DeleteNetworkPool n) = bindp (pv_DeleteNetworkPool P n) (\<lambda>_. ret RDone)"
| "provider_op P (Op_UpdateNetworkPoolState n q) = bindp (pv_UpdateNetworkPoolState P n q) (\<lambda>_. ret RDone)"
| "provider_op P (Op_UpdateNetworkPoolAutostart n q) = bindp (pv_UpdateNetworkPoolAutostart P n q) (\<lambda>_. ret RDone)"
| "provider_op P (Op_RunVMAction n action) = bindp (runAction P n action) (\<lambda>_. ret RDone)"
| "provider_op P Op_ListVMs = bindp (pv_ListVMs P) (\<lambda>x. ret (RVMs x))"
| "provider_op P Op_ListVMsFast = bindp (pv_ListVMsFast P) (\<lambda>x. ret (RVMs x))"
| "provider_op P (Op_VM n) = bindp (pv_VM P n) (\<lambda>x. ret (RVM x))"
| "provider_op P (Op_ListSnapshots n) = bindp (pv_ListSnapshots P n) (\<lambda>x. ret (RSnapshots x))"
| "provider_op P (Op_VMConfig n) = bindp (pv_VMConfig P n) (\<lambda>x. ret (RConfig x))"
| "provider_op P (Op_ConsoleInfo n) = bindp (pv_ConsoleInfo P n) (\<lambda>x. ret (RConsole x))"
| "provider_op P (Op_UpdateVMConfig n q) = bindp (pv_UpdateVMConfig P n (q\<lparr>cu_Description := TrimSpace (cu_Description q)\<rparr>)) (\<lambda>x. ret (RConfig x))"
| "provider_op P (Op_RenameVM n q) = bindp (pv_RenameVM P n (q\<lparr>rn_Name := TrimSpace (rn_Name q)\<rparr>)) (\<lambda>x. ret (RConfig x))"
| "provider_op P (Op_UpdateVMAutostart n q) = bindp (pv_UpdateVMAutostart P n q) (\<lambda>_. ret RDone)"
| "provider_op P (Op_UpdateVMConsole n q) = bindp (pv_UpdateVMConsole P n (q\<lparr>con_Password := TrimSpace (con_Password q)\<rparr>)) (\<lambda>x. ret (RConfig x))"
| "provider_op P (Op_ConnectVMMedia n q) = bindp (pv_ConnectVMMedia P n (q\<lparr>mco_Target := TrimSpace (mco_Target q), mco_ISOPath := TrimSpace (mco_ISOPath q)\<rparr>)) (\<lambda>x. ret (RConfig x))"
| "provider_op P (Op_DisconnectVMMedia n q) = bindp (pv_DisconnectVMMedia P n (q\<lparr>mdi_Target := TrimSpace (mdi_Target q)\<rparr>)) (\<lambda>x. ret (RConfig x))"
| "provider_op P (Op_UpdateVMXML n q) = bindp (pv_UpdateVMXML P n q) (\<lambda>x. ret (RConfig x))"
| "provider_op P (Op_UpdateVMDevices n q) = bindp (pv_UpdateVMDevices P n q) (\<lambda>x. ret (RConfig x))"
| "provider_op P (Op_CloneVM n q) = bindp (pv_CloneVM P n q) (\<lambda>x. ret (RConfig x))"
| "provider_op P (Op_CreateVM q) = bindp (pv_CreateVM P q) (\<lambda>x. ret (RConfig x))"
| "provider_op P (Op_MigrateVM n q) = bindp (pv_MigrateVM P n q) (\<lambda>_. ret RDone)"
| "provider_op P (Op_CheckMigrationConnection q) = bindp (pv_CheckMigrationConnection P q) (\<lambda>x. ret (RMigration x))"
| "provider_op P (Op_SetupMigrationSSHKey q) = bindp (pv_SetupMigrationSSHKey P q) (\<lambda>x. ret (RMigration x))"
| "provider_op P (Op_SetupMigrationHostname q) = bindp (pv_SetupMigrationHostname P q) (\<lambda>x. ret (RMigration x))"
| "provider_op P (Op_RunSnapshotAction n snap action) = bindp (runSnapshotAction P n snap action) (\<lambda>_. ret RDone)"
| "provider_op P (Op_CreateSnapshot n q) = bindp (pv_CreateSnapshot P n (q\<lparr>sc_Name := TrimSpace (sc_Name q), sc_Description := TrimSpace (sc_Description q)\<rparr>)) (\<lambda>_. ret RDone)"

section \<open>The wire\<close>

text \<open>\<open>Response.Status\<close> for the status codes of the API.\<close>

definition status_line :: "int \<Rightarrow> string" where
  "status_line n =
    (if n = 200 then ''200 OK'' else if n = 202 then ''202 Accepted'' else if n = 301 then ''301 Moved Permanently''
     else if n = 400 then ''400 Bad Request'' else if n = 401 then ''401 Unauthorized'' else if n = 404 then ''404 Not Found''
     else if n = 405 then ''405 Method Not Allowed'' else ''503 Service Unavailable'')"

text \<open>
  What \<open>encoding/json\<close> makes of the bodies: the length of the text of a request, the request that is read back from
  it and the reply that is read back from the text of a reply. They are what was sent, save for bytes that are not
  UTF-8, which are replaced. The fields of the requests have the same names on both sides, so that
  \<open>DisallowUnknownFields\<close> refuses none of the client's.
\<close>

record body_coding =
  bc_size :: "request_body \<Rightarrow> nat"
  bc_request :: "request_body \<Rightarrow> request_body"
  bc_reply :: "reply \<Rightarrow> reply"

text \<open>A body that is longer than its limit cannot be decoded and is as good as none. The limit is that of the handler
  which reads the body; the form of an upload is read without one.\<close>

definition decodeJSONBodyLimit :: "body_coding \<Rightarrow> nat \<Rightarrow> request_body \<Rightarrow> request_body" where
  "decodeJSONBodyLimit C maxBytes body = (if bc_size C body > maxBytes then NoBody else bc_request C body)"

definition body_limit :: "request_body \<Rightarrow> nat" where
  "body_limit body = (case body of QXML _ \<Rightarrow> 4 * 2 ^ 20 | _ \<Rightarrow> 2 ^ 20)"

definition decodeJSONBody :: "body_coding \<Rightarrow> request_body \<Rightarrow> request_body" where
  "decodeJSONBody C body = (case body of
     NoBody \<Rightarrow> NoBody
   | QUpload field fileName content \<Rightarrow> QUpload field fileName content
   | _ \<Rightarrow> decodeJSONBodyLimit C (body_limit body) body)"

text \<open>A transport that brings the requests for one base URL to a server, and reaches nothing else.\<close>

definition plain_wire :: "string \<Rightarrow> (agent_request \<Rightarrow> ('k, agent_error, raw_answer) prog) \<Rightarrow> 'k http_transport" where
  "plain_wire base serve meth url token insecure body =
    (if HasPrefix url base
     then bindp (serve \<lparr>rq_method = meth, rq_target = drop (length base) url, rq_auth = ''Bearer '' @ token, rq_body = body\<rparr>)
       (\<lambda>(status, reply). ret \<lparr>ans_status = status, ans_text = status_line status, ans_body = reply\<rparr>)
     else fail \<lparr>ae_kind = PlainError, ae_text = ''connection refused''\<rparr>)"

text \<open>The same with the texts of the bodies in between.\<close>

definition wire :: "body_coding \<Rightarrow> string \<Rightarrow> (agent_request \<Rightarrow> ('k, agent_error, raw_answer) prog) \<Rightarrow> 'k http_transport" where
  "wire C base serve meth url token insecure body =
    bindp (plain_wire base serve meth url token insecure (decodeJSONBody C body))
      (\<lambda>ans. ret (ans\<lparr>ans_body := map_option (bc_reply C) (ans_body ans)\<rparr>))"

text \<open>
  The requests that mean one operation: names are segments of a path of at most 4096 bytes, the action is one the API
  has, a volume and a snapshot are named, and an uploaded file has a name of its own.
\<close>

primrec op_names :: "agent_op \<Rightarrow> string list" where
  "op_names Op_HostInfo = []"
| "op_names Op_ListHostInterfaces = []"
| "op_names (Op_CreateHostInterface _) = []"
| "op_names Op_ListHostInterfaceDevices = []"
| "op_names (Op_DeleteHostInterface n) = [n]"
| "op_names (Op_UpdateHostInterfaceState n _) = [n]"
| "op_names Op_ListStoragePools = []"
| "op_names (Op_CreateStoragePool _) = []"
| "op_names (Op_ListISOFiles n) = [n]"
| "op_names (Op_ListStorageVolumes n) = [n]"
| "op_names (Op_CreateStorageVolume n _) = [n]"
| "op_names (Op_CloneStorageVolume n _) = [n]"
| "op_names (Op_DeleteStorageVolume n _) = [n]"
| "op_names (Op_UploadStorageVolume n _ _ _) = [n]"
| "op_names (Op_DeleteStoragePool n) = [n]"
| "op_names (Op_UpdateStoragePoolState n _) = [n]"
| "op_names (Op_UpdateStoragePoolAutostart n _) = [n]"
| "op_names Op_ListNetworkPools = []"
| "op_names (Op_CreateNetworkPool _) = []"
| "op_names (Op_DeleteNetworkPool n) = [n]"
| "op_names (Op_UpdateNetworkPoolState n _) = [n]"
| "op_names (Op_UpdateNetworkPoolAutostart n _) = [n]"
| "op_names (Op_RunVMAction n action) = [n, action]"
| "op_names Op_ListVMs = []"
| "op_names Op_ListVMsFast = []"
| "op_names (Op_VM n) = [n]"
| "op_names (Op_ListSnapshots n) = [n]"
| "op_names (Op_VMConfig n) = [n]"
| "op_names (Op_ConsoleInfo n) = [n]"
| "op_names (Op_UpdateVMConfig n _) = [n]"
| "op_names (Op_RenameVM n _) = [n]"
| "op_names (Op_UpdateVMAutostart n _) = [n]"
| "op_names (Op_UpdateVMConsole n _) = [n]"
| "op_names (Op_ConnectVMMedia n _) = [n]"
| "op_names (Op_DisconnectVMMedia n _) = [n]"
| "op_names (Op_UpdateVMXML n _) = [n]"
| "op_names (Op_UpdateVMDevices n _) = [n]"
| "op_names (Op_CloneVM n _) = [n]"
| "op_names (Op_CreateVM _) = []"
| "op_names (Op_MigrateVM n _) = [n]"
| "op_names (Op_CheckMigrationConnection _) = []"
| "op_names (Op_SetupMigrationSSHKey _) = []"
| "op_names (Op_SetupMigrationHostname _) = []"
| "op_names (Op_RunSnapshotAction n snap action) = [n, snap, action]"
| "op_names (Op_CreateSnapshot n _) = [n]"

text \<open>The body that the client sends for an operation.\<close>

primrec op_body :: "agent_op \<Rightarrow> request_body" where
  "op_body Op_HostInfo = NoBody"
| "op_body Op_ListHostInterfaces = NoBody"
| "op_body (Op_CreateHostInterface q) = QInterface q"
| "op_body Op_ListHostInterfaceDevices = NoBody"
| "op_body (Op_DeleteHostInterface _) = NoBody"
| "op_body (Op_UpdateHostInterfaceState _ q) = QState q"
| "op_body Op_ListStoragePools = NoBody"
| "op_body (Op_CreateStoragePool q) = QPool q"
| "op_body (Op_ListISOFiles _) = NoBody"
| "op_body (Op_ListStorageVolumes _) = NoBody"
| "op_body (Op_CreateStorageVolume _ q) = QVolume q"
| "op_body (Op_CloneStorageVolume _ q) = QVolumeClone q"
| "op_body (Op_DeleteStorageVolume _ _) = NoBody"
| "op_body (Op_UploadStorageVolume _ v file content) = QUpload (if TrimSpace v \<noteq> [] then v else []) file content"
| "op_body (Op_DeleteStoragePool _) = NoBody"
| "op_body (Op_UpdateStoragePoolState _ q) = QState q"
| "op_body (Op_UpdateStoragePoolAutostart _ q) = QAutostart q"
| "op_body Op_ListNetworkPools = NoBody"
| "op_body (Op_CreateNetworkPool q) = QNetwork q"
| "op_body (Op_DeleteNetworkPool _) = NoBody"
| "op_body (Op_UpdateNetworkPoolState _ q) = QState q"
| "op_body (Op_UpdateNetworkPoolAutostart _ q) = QAutostart q"
| "op_body (Op_RunVMAction _ _) = NoBody"
| "op_body Op_ListVMs = NoBody"
| "op_body Op_ListVMsFast = NoBody"
| "op_body (Op_VM _) = NoBody"
| "op_body (Op_ListSnapshots _) = NoBody"
| "op_body (Op_VMConfig _) = NoBody"
| "op_body (Op_ConsoleInfo _) = NoBody"
| "op_body (Op_UpdateVMConfig _ q) = QConfig q"
| "op_body (Op_RenameVM _ q) = QRename q"
| "op_body (Op_UpdateVMAutostart _ q) = QVMAutostart q"
| "op_body (Op_UpdateVMConsole _ q) = QConsole q"
| "op_body (Op_ConnectVMMedia _ q) = QConnect q"
| "op_body (Op_DisconnectVMMedia _ q) = QDisconnect q"
| "op_body (Op_UpdateVMXML _ q) = QXML q"
| "op_body (Op_UpdateVMDevices _ q) = QVMDevices q"
| "op_body (Op_CloneVM _ q) = QCloneVM q"
| "op_body (Op_CreateVM q) = QCreateVM q"
| "op_body (Op_MigrateVM _ q) = QMigrate q"
| "op_body (Op_CheckMigrationConnection q) = QCheck q"
| "op_body (Op_SetupMigrationSSHKey q) = QSSHKey q"
| "op_body (Op_SetupMigrationHostname q) = QHostname q"
| "op_body (Op_RunSnapshotAction _ _ _) = NoBody"
| "op_body (Op_CreateSnapshot _ q) = QSnapshot q"

text \<open>A file name that \<open>mime/multipart\<close> carries as it is: not empty, without a slash or control characters.\<close>

definition plain_file :: "string \<Rightarrow> bool" where
  "plain_file file \<longleftrightarrow> file \<noteq> [] \<and> length file \<le> 2 ^ 12 \<and> list_all (\<lambda>c. 32 \<le> byte c \<and> byte c \<noteq> 127 \<and> c \<noteq> CHR ''/'') file"

definition op_ok :: "agent_op \<Rightarrow> bool" where
  "op_ok c \<longleftrightarrow> list_all good_seg (op_names c) \<and> list_all (\<lambda>n. length n \<le> 2 ^ 12) (op_names c) \<and> (case c of
     Op_RunVMAction _ action \<Rightarrow> list_all unreserved action \<and> action \<notin> set [''clone'', ''migrate'', ''snapshots'']
   | Op_DeleteStorageVolume _ v \<Rightarrow> TrimSpace v \<noteq> [] \<and> length v \<le> 2 ^ 12
   | Op_UploadStorageVolume _ v file _ \<Rightarrow> plain_file file \<and> length v \<le> 2 ^ 12
   | Op_CreateSnapshot _ q \<Rightarrow> snapshotNamePattern (TrimSpace (sc_Name q))
   | _ \<Rightarrow> True)"

text \<open>The bodies of an operation survive their way: the request is not longer than the limit and reads back as it
  was sent, and the result that the host gives in the state \<open>s\<close> reads back as it was given.\<close>

definition survives :: "body_coding \<Rightarrow> 'k provider \<Rightarrow> agent_op \<Rightarrow> 'k \<Rightarrow> bool" where
  "survives C P c s \<longleftrightarrow> bc_size C (op_body c) \<le> body_limit (op_body c) \<and> bc_request C (op_body c) = op_body c \<and>
     (\<forall>x. fst (provider_op P c s) = Inr x \<longrightarrow> bc_reply C x = x)"

text \<open>
  \<open>m\<close> is carried out by \<open>client\<close>: the same change of the host and the same result; an error of the host becomes a
  status 503 with a message.
\<close>

definition carries_out :: "('k, agent_error, 'a) prog \<Rightarrow> ('k, string, 'a) prog \<Rightarrow> 'k \<Rightarrow> bool" where
  "carries_out client m s \<longleftrightarrow> (case m s of
     (Inr x, t) \<Rightarrow> client s = (Inr x, t)
   | (Inl _, t) \<Rightarrow> (\<exists>message. client s = (Inl (http_error 503 ''503 Service Unavailable'' message), t)))"

end
