(* ===== verification/Agent_Api_Properties.thy ===== *)
theory Agent_Api_Properties
  imports Agent_Ops
begin

text \<open>
  What the API of an agent guarantees: no request without the token of the agent reaches the host, and every
  operation of the client is the operation of the host that it names.
\<close>

section \<open>Dispatch\<close>

lemma agent_serve_segs:
  assumes "ss \<noteq> []" "list_all good_seg ss" "qs = [] \<or> hd qs = CHR ''?''"
  shows "agent_serve token P console \<lparr>rq_method = m, rq_target = target_of ss @ qs, rq_auth = a, rq_body = b\<rparr> =
    agent_dispatch token P console \<lparr>rq_method = m, rq_target = target_of ss @ qs, rq_auth = a, rq_body = b\<rparr> ([] # ss)"
  by (rule agent_serve_target) (use assms in auto)







section \<open>The parsers on the paths of the client\<close>

lemma parts_vms: "list_all good_seg ss \<Longrightarrow> ss \<noteq> [] \<Longrightarrow> agent_parts (''/v1/vms/'' @ Join ss ''/'') ''/v1/vms/'' = ss"
  by (rule agent_parts_Join)




section \<open>Answers\<close>











section \<open>The routes of the client\<close>






















section \<open>Every operation\<close>




















section \<open>The bodies on their way\<close>










section \<open>The theorems\<close>


text \<open>A host that knows the names of its running machines and can only stop them.\<close>

definition test_host :: "string list provider" where
  "test_host = \<lparr>pv_HostInfo = fail ''down'', pv_ListHostInterfaces = fail ''down'', pv_ListHostInterfaceDevices = fail ''down'',
     pv_CreateHostInterface = (\<lambda>_. fail ''down''), pv_UpdateHostInterfaceState = (\<lambda>_ _. fail ''down''), pv_DeleteHostInterface = (\<lambda>_. fail ''down''),
     pv_ListVMs = fail ''down'', pv_ListVMsFast = fail ''down'', pv_VM = (\<lambda>_. fail ''down''),
     pv_VMConfig = (\<lambda>_. fail ''down''), pv_UpdateVMConfig = (\<lambda>_ _. fail ''down''), pv_RenameVM = (\<lambda>_ _. fail ''down''),
     pv_UpdateVMAutostart = (\<lambda>_ _. fail ''down''), pv_UpdateVMConsole = (\<lambda>_ _. fail ''down''), pv_ConnectVMMedia = (\<lambda>_ _. fail ''down''),
     pv_DisconnectVMMedia = (\<lambda>_ _. fail ''down''), pv_UpdateVMXML = (\<lambda>_ _. fail ''down''), pv_UpdateVMDevices = (\<lambda>_ _. fail ''down''),
     pv_CloneVM = (\<lambda>_ _. fail ''down''), pv_CreateVM = (\<lambda>_. fail ''down''), pv_MigrateVM = (\<lambda>_ _. fail ''down''),
     pv_CheckMigrationConnection = (\<lambda>_. fail ''down''), pv_SetupMigrationSSHKey = (\<lambda>_. fail ''down''), pv_SetupMigrationHostname = (\<lambda>_. fail ''down''),
     pv_ListSnapshots = (\<lambda>_. fail ''down''), pv_CreateSnapshot = (\<lambda>_ _. fail ''down''), pv_ListStoragePools = fail ''down'',
     pv_CreateStoragePool = (\<lambda>_. fail ''down''), pv_ListISOFiles = (\<lambda>_. fail ''down''), pv_ListStorageVolumes = (\<lambda>_. fail ''down''),
     pv_CreateStorageVolume = (\<lambda>_ _. fail ''down''), pv_UploadStorageVolume = (\<lambda>_ _ _. fail ''down''), pv_CloneStorageVolume = (\<lambda>_ _. fail ''down''),
     pv_DeleteStoragePool = (\<lambda>_. fail ''down''), pv_DeleteStorageVolume = (\<lambda>_ _. fail ''down''), pv_UpdateStoragePoolState = (\<lambda>_ _. fail ''down''),
     pv_UpdateStoragePoolAutostart = (\<lambda>_ _. fail ''down''), pv_ListNetworkPools = fail ''down'', pv_CreateNetworkPool = (\<lambda>_. fail ''down''),
     pv_DeleteNetworkPool = (\<lambda>_. fail ''down''), pv_UpdateNetworkPoolState = (\<lambda>_ _. fail ''down''), pv_UpdateNetworkPoolAutostart = (\<lambda>_ _. fail ''down''),
     pv_ConsoleInfo = (\<lambda>_. fail ''down''), pv_RevertSnapshot = (\<lambda>_ _. fail ''down''), pv_DeleteSnapshot = (\<lambda>_ _. fail ''down''),
     pv_StartVM = (\<lambda>_. fail ''down''), pv_ShutdownVM = (\<lambda>_. fail ''down''), pv_PauseVM = (\<lambda>_. fail ''down''),
     pv_ResumeVM = (\<lambda>_. fail ''down''), pv_RebootVM = (\<lambda>_. fail ''down''), pv_ResetVM = (\<lambda>_. fail ''down''),
     pv_DestroyVM = (\<lambda>n names. (if n \<in> set names then Inr () else Inl ''domain is not running'', removeAll n names)), pv_DeleteVM = (\<lambda>_. fail ''down''), pv_ForceDeleteVM = (\<lambda>_. fail ''down'')\<rparr>"


definition no_console :: "string \<Rightarrow> (string list, agent_error, api_answer) prog" where
  "no_console name = ret (404, RDone)"



text \<open>C40: A request without the token of the agent never reaches the host: the host is as it was, and the answer is an
  empty one, a redirection or a refusal, or that of the health check.\<close>

theorem agent_requires_token:
  assumes "\<not> bearer_ok token (rq_auth rq)"
  shows "\<exists>a. agent_serve token P console rq s = (Inr a, s) \<and>
    a \<in> {(200, Some RDone), (301, None), (400, None), (401, None), (404, None), (405, None)}"
  using assms
  by (auto simp: agent_serve_def agent_dispatch_def with_auth_def Let_def ret_def split: option.splits)

lemma agent_requires_token_witness:
  "\<exists>a. agent_serve ''secret'' test_host no_console
      \<lparr>rq_method = ''POST'', rq_target = ''/v1/vms/db/destroy'', rq_auth = ''Bearer guess'', rq_body = NoBody\<rparr> [''db''] = (Inr a, [''db'']) \<and>
    a \<in> {(200, Some RDone), (301, None), (400, None), (401, None), (404, None), (405, None)}"
proof (rule agent_requires_token)
  have "\<not> bearer_ok ''secret'' ''Bearer guess''" by code_simp
  then show "\<not> bearer_ok ''secret'' (rq_auth \<lparr>rq_method = ''POST'', rq_target = ''/v1/vms/db/destroy'', rq_auth = ''Bearer guess'', rq_body = NoBody\<rparr>)"
    by simp
qed

end
