(* ===== verification/Go_Url.thy ===== *)
theory Go_Url
  imports Agent_Errors Encoding
begin

text \<open>
  What the code uses of \<open>net/url\<close>: \<open>Parse\<close>, \<open>ParseRequestURI\<close>, and of a parsed address the scheme, the host, the
  port, the path and the text. Of a fragment only its presence counts.
\<close>

section \<open>Escapes\<close>

datatype url_mode = HostMode | ZoneMode | PathMode | UserMode | FragmentMode

definition hex_value :: "char \<Rightarrow> nat option" where
  "hex_value c = (let n = byte c in
     if 48 \<le> n \<and> n \<le> 57 then Some (n - 48)
     else if 65 \<le> n \<and> n \<le> 70 then Some (n - 55)
     else if 97 \<le> n \<and> n \<le> 102 then Some (n - 87)
     else None)"

text \<open>\<open>shouldEscape\<close> for the modes used here.\<close>

definition should_escape :: "url_mode \<Rightarrow> char \<Rightarrow> bool" where
  "should_escape m c \<longleftrightarrow> \<not> (unreserved c
     \<or> ((m = HostMode \<or> m = ZoneMode) \<and> c \<in> set ''!$&()*+,;=:[]<>'' \<union> {CHR 0x27, CHR 0x22})
     \<or> (m = PathMode \<and> c \<in> set ''$&+,/:;=@'')
     \<or> (m = UserMode \<and> c \<in> set ''$&+,;='')
     \<or> (m = FragmentMode \<and> c \<in> set ''$&+,/:;=?@!()*''))"

fun url_unescape :: "url_mode \<Rightarrow> string \<Rightarrow> string option" where
  "url_unescape m [] = Some []"
| "url_unescape m (c # s) =
    (if c = CHR ''%'' then
       (case s of
          a # b # r \<Rightarrow> (case (hex_value a, hex_value b) of
             (Some h, Some l) \<Rightarrow>
               if m = HostMode \<and> h < 8 \<and> [a, b] \<noteq> ''25'' then None
               else if m = ZoneMode \<and> [a, b] \<noteq> ''25'' \<and> char_of (16 * h + l) \<noteq> CHR '' ''
                 \<and> should_escape HostMode (char_of (16 * h + l)) then None
               else map_option ((#) (char_of (16 * h + l))) (url_unescape m r)
           | _ \<Rightarrow> None)
        | _ \<Rightarrow> None)
     else if (m = HostMode \<or> m = ZoneMode) \<and> byte c < 128 \<and> should_escape m c then None
     else map_option ((#) c) (url_unescape m s))"

definition url_escape :: "url_mode \<Rightarrow> string \<Rightarrow> string" where
  "url_escape m s = concat (map (\<lambda>c. if should_escape m c
     then [CHR ''%'', upper_hex (byte c div 16), upper_hex (byte c mod 16)] else [c]) s)"

section \<open>Parsing\<close>

record url =
  u_Scheme :: string
  u_Opaque :: string
  u_User :: "(string \<times> string option) option"
  u_Host :: string
  u_Path :: string
  u_RawPath :: string
  u_OmitHost :: bool
  u_ForceQuery :: bool
  u_RawQuery :: string
  u_HasFragment :: bool

definition empty_url :: url where
  "empty_url = \<lparr>u_Scheme = [], u_Opaque = [], u_User = None, u_Host = [], u_Path = [], u_RawPath = [], u_OmitHost = False, u_ForceQuery = False, u_RawQuery = [], u_HasFragment = False\<rparr>"

text \<open>\<open>strings.Cut\<close> at a character.\<close>

definition cut_at :: "char \<Rightarrow> string \<Rightarrow> string \<times> string \<times> bool" where
  "cut_at d s = (let a = takeWhile (\<lambda>c. c \<noteq> d) s in (a, drop (Suc (length a)) s, d \<in> set s))"

definition letter :: "char \<Rightarrow> bool" where
  "letter c \<longleftrightarrow> (let n = byte c in (65 \<le> n \<and> n \<le> 90) \<or> (97 \<le> n \<and> n \<le> 122))"

definition digit :: "char \<Rightarrow> bool" where
  "digit c \<longleftrightarrow> (let n = byte c in 48 \<le> n \<and> n \<le> 57)"

text \<open>\<open>None\<close> is the error, a scheme that is empty is none at all.\<close>

fun getScheme :: "string \<Rightarrow> string \<Rightarrow> string \<Rightarrow> (string \<times> string) option" where
  "getScheme raw seen [] = Some ([], raw)"
| "getScheme raw seen (c # s) =
    (if letter c then getScheme raw (seen @ [c]) s
     else if digit c \<or> c \<in> set ''+-.'' then (if seen = [] then Some ([], raw) else getScheme raw (seen @ [c]) s)
     else if c = CHR '':'' then (if seen = [] then None else Some (seen, s))
     else Some ([], raw))"

definition validOptionalPort :: "string \<Rightarrow> bool" where
  "validOptionalPort port \<longleftrightarrow> port = [] \<or> (hd port = CHR '':'' \<and> list_all digit (tl port))"

definition parseHost :: "string \<Rightarrow> string option" where
  "parseHost host =
    (if HasPrefix host ''['' then
       (case LastIndex host '']'' of
          None \<Rightarrow> None
        | Some i \<Rightarrow>
            if \<not> validOptionalPort (drop (Suc i) host) then None
            else case Index (take i host) ''%25'' of
              Some z \<Rightarrow>
                (case (url_unescape HostMode (take z host), url_unescape ZoneMode (drop z (take i host)), url_unescape HostMode (drop i host)) of
                   (Some a, Some b, Some c) \<Rightarrow> Some (a @ b @ c)
                 | _ \<Rightarrow> None)
            | None \<Rightarrow> url_unescape HostMode host)
     else case LastIndex host '':'' of
       Some i \<Rightarrow> if \<not> validOptionalPort (drop i host) then None else url_unescape HostMode host
     | None \<Rightarrow> url_unescape HostMode host)"

definition validUserinfo :: "string \<Rightarrow> bool" where
  "validUserinfo s \<longleftrightarrow> list_all (\<lambda>c. letter c \<or> digit c \<or> c \<in> set ''-._:~!$&()*+,;=%@'' \<or> c = CHR 0x27) s"

text \<open>The user, with the password if there is one, and the host.\<close>

definition parseAuthority :: "string \<Rightarrow> ((string \<times> string option) option \<times> string) option" where
  "parseAuthority authority = (case LastIndex authority ''@'' of
     None \<Rightarrow> map_option (\<lambda>h. (None, h)) (parseHost authority)
   | Some i \<Rightarrow>
       (case parseHost (drop (Suc i) authority) of
          None \<Rightarrow> None
        | Some h \<Rightarrow>
            let info = take i authority; (name, password, colon) = cut_at CHR '':'' info in
            if \<not> validUserinfo info then None
            else (case (url_unescape UserMode name, url_unescape UserMode password) of
               (Some n, Some p) \<Rightarrow> Some (Some (n, if colon then Some p else None), h)
             | _ \<Rightarrow> None)))"

definition setPath :: "string \<Rightarrow> url \<Rightarrow> url option" where
  "setPath p u = (case url_unescape PathMode p of
     None \<Rightarrow> None
   | Some path \<Rightarrow> Some (u\<lparr>u_Path := path, u_RawPath := (if p = url_escape PathMode path then [] else p)\<rparr>))"

definition url_parse :: "bool \<Rightarrow> string \<Rightarrow> url option" where
  "url_parse viaRequest raw =
    (if list_ex (\<lambda>c. byte c < 32 \<or> byte c = 127) raw then None
     else if raw = [] \<and> viaRequest then None
     else if raw = ''*'' then Some (empty_url\<lparr>u_Path := ''*''\<rparr>)
     else case getScheme raw [] raw of
       None \<Rightarrow> None
     | Some (scheme0, rest0) \<Rightarrow>
         let scheme = ToLower scheme0; (rest, query, _) = cut_at CHR ''?'' rest0;
             u = empty_url\<lparr>u_Scheme := scheme, u_ForceQuery := (CHR ''?'' \<in> set rest0 \<and> query = []), u_RawQuery := query\<rparr> in
         if \<not> HasPrefix rest ''/'' \<and> scheme \<noteq> [] then Some (u\<lparr>u_Opaque := rest\<rparr>)
         else if \<not> HasPrefix rest ''/'' \<and> viaRequest then None
         else if \<not> HasPrefix rest ''/'' \<and> CHR '':'' \<in> set (fst (cut_at CHR ''/'' rest)) then None
         else if (scheme \<noteq> [] \<or> (\<not> viaRequest \<and> \<not> HasPrefix rest ''///'')) \<and> HasPrefix rest ''//'' then
           (let authority = takeWhile (\<lambda>c. c \<noteq> CHR ''/'') (drop 2 rest); path = drop (length authority) (drop 2 rest) in
            case parseAuthority authority of
              None \<Rightarrow> None
            | Some (user, host) \<Rightarrow> setPath path (u\<lparr>u_User := user, u_Host := host\<rparr>))
         else setPath rest (u\<lparr>u_OmitHost := (scheme \<noteq> [] \<and> HasPrefix rest ''/'')\<rparr>))"

definition url_Parse :: "string \<Rightarrow> url option" where
  "url_Parse raw = (let (u, frag, _) = cut_at CHR ''#'' raw in
     case url_parse False u of
       None \<Rightarrow> None
     | Some p \<Rightarrow>
         if frag = [] then Some p
         else if url_unescape FragmentMode frag = None then None
         else Some (p\<lparr>u_HasFragment := True\<rparr>))"

definition ParseRequestURI :: "string \<Rightarrow> url option" where
  "ParseRequestURI raw = url_parse True raw"

section \<open>Parts\<close>

text \<open>\<open>Hostname\<close> and \<open>Port\<close> (\<open>splitHostPort\<close>).\<close>

definition splitHostPort :: "string \<Rightarrow> string \<times> string" where
  "splitHostPort hostPort =
    (let (host, port) = (case LastIndex hostPort '':'' of
           Some i \<Rightarrow> if validOptionalPort (drop i hostPort) then (take i hostPort, drop (Suc i) hostPort) else (hostPort, [])
         | None \<Rightarrow> (hostPort, [])) in
     (if HasPrefix host ''['' \<and> HasSuffix host '']'' then butlast (tl host) else host, port))"

definition Hostname :: "url \<Rightarrow> string" where "Hostname u = fst (splitHostPort (u_Host u))"
definition Port :: "url \<Rightarrow> string" where "Port u = snd (splitHostPort (u_Host u))"

text \<open>\<open>validEncoded\<close>.\<close>

definition valid_encoded :: "string \<Rightarrow> bool" where
  "valid_encoded s \<longleftrightarrow> list_all (\<lambda>c. c \<in> set ''!$&()*+,;=:@[]%'' \<or> c = CHR 0x27 \<or> \<not> should_escape PathMode c) s"

definition EscapedPath :: "url \<Rightarrow> string" where
  "EscapedPath u =
    (if u_RawPath u \<noteq> [] \<and> valid_encoded (u_RawPath u) \<and> url_unescape PathMode (u_RawPath u) = Some (u_Path u) then u_RawPath u
     else if u_Path u = ''*'' then ''*''
     else url_escape PathMode (u_Path u))"

text \<open>\<open>String\<close> of an address that has a scheme, without its fragment.\<close>

definition userinfo_text :: "string \<times> string option \<Rightarrow> string" where
  "userinfo_text u = url_escape UserMode (fst u) @ (case snd u of None \<Rightarrow> [] | Some p \<Rightarrow> '':'' @ url_escape UserMode p)"

definition url_String :: "url \<Rightarrow> string" where
  "url_String u = (let path = EscapedPath u in
     u_Scheme u @ '':''
       @ (if u_Opaque u \<noteq> [] then u_Opaque u
          else (if u_OmitHost u \<and> u_Host u = [] \<and> u_User u = None then []
                else (if u_Host u \<noteq> [] \<or> u_Path u \<noteq> [] \<or> u_User u \<noteq> None then ''//'' else [])
                  @ (case u_User u of None \<Rightarrow> [] | Some user \<Rightarrow> userinfo_text user @ ''@'')
                  @ url_escape HostMode (u_Host u))
             @ (if path \<noteq> [] \<and> \<not> HasPrefix path ''/'' \<and> u_Host u \<noteq> [] then ''/'' else []) @ path)
       @ (if u_ForceQuery u \<or> u_RawQuery u \<noteq> [] then ''?'' @ u_RawQuery u else []))"

end
