(* ===== verification/Api_Base.thy ===== *)
theory Api_Base
  imports Agent_Client Route_Helpers Go_Url Sync_Service
begin

text \<open>
  What the handlers of the fleet share (\<open>api/router/router.go\<close>, \<open>vm_lifecycle.go\<close>, \<open>pools.go\<close>): the answers, the
  permission check, the choice of an agent with its token, tasks and the audit log. A handler is a program that
  gives its answer and the goroutines it has started; each of them is a program that runs at some later time.
  The events for the browsers are left out.
\<close>

section \<open>Answers\<close>

record migrationPrecheckItem =
  mi_Key :: string
  mi_Label :: string
  mi_Status :: string
  mi_Message :: string
  mi_Code :: string

record migrationPrecheckReport =
  mr_Passed :: bool
  mr_Items :: "migrationPrecheckItem list"
  mr_FailureStatus :: int
  mr_FailureCode :: string
  mr_FailureMessage :: string

text \<open>A task is none when it could not be created; the code then encodes the zero task.\<close>

datatype (plugins only: code) api_body =
    ApiError string string
  | AStatus string
  | AVM VirtualMachine
  | AVMs "VirtualMachine list"
  | AHosts "Host list"
  | ATasks "task list" nat
  | ATask task
  | AQueued task
  | AVMTask VirtualMachine "task option"
  | AConfig VMConfig
  | AConfigTask VMConfig "task option"
  | AAutostartTask bool "task option"
  | AStatusTask "task option"
  | AMarkTask VMTemplateMark "task option"
  | AReport migrationPrecheckReport
  | AMigration MigrationConnectionCheckResult
  | APools "StoragePool list"
  | APool StoragePool
  | AISOs "ISOFile list"
  | AVolumes "StorageVolume list"
  | AVolume StorageVolume
  | ANetworks "NetworkPool list"
  | ANetwork NetworkPool
  | AInterfaces "HostInterface list"
  | AInterface HostInterface
  | ADevices "HostInterfaceDevice list"
  | AActive bool
  | AAutostart bool
  | ASnapshots "Snapshot list"
  | ASnapshot Snapshot
  | ASnapshotTask "Snapshot option" "task option"
  | AAgents "agent list"
  | AAgent agent
  | AHost HostInfo
  | AAgentSynced string
  | AConsole ConsoleInfo
  | ASocket string bool
  | ASummary DashboardSummary
  | AAudit "audit_row list" nat
  | AAlerts "alert list" nat

type_synonym fleet_answer = "int \<times> api_body"

type_synonym 'r api_prog = "('r, fleet_answer \<times> ('r, unit) service_prog list) service_prog"

definition respond :: "int \<Rightarrow> api_body \<Rightarrow> 'r api_prog" where
  "respond status body = ret ((status, body), [])"

text \<open>The answer of a handler that leaves goroutines behind.\<close>

definition respond_with :: "('r, unit) service_prog list \<Rightarrow> int \<Rightarrow> api_body \<Rightarrow> 'r api_prog" where
  "respond_with later status body = ret ((status, body), later)"

type_synonym refusal = "int \<times> string \<times> string"

definition refuse :: "int \<Rightarrow> string \<Rightarrow> string \<Rightarrow> 'r api_prog" where
  "refuse status code message = respond status (ApiError code message)"

definition no_permission :: "'r api_prog" where
  "no_permission = refuse 403 ''permission_denied'' (zh ''e5bd93e5898de794a8e688b7e697a0e69d83e689a7e8a18ce6ada4e6938de4bd9c'')"

definition permitted :: "user \<Rightarrow> string \<Rightarrow> 'r api_prog \<Rightarrow> 'r api_prog" where
  "permitted u permission handler = (if hasPermission u permission then handler else no_permission)"

definition no_route :: "'r api_prog" where
  "no_route = refuse 404 ''not_found'' (zh ''e68ea5e58fa3e4b88de5ad98e59ca8'')"

definition wrong_method :: "'r api_prog" where
  "wrong_method = refuse 405 ''method_not_allowed'' (zh ''e8afb7e6b182e696b9e6b395e4b88de694afe68c81'')"

section \<open>The server\<close>

text \<open>
  \<open>xml_name\<close> is \<open>xml.Unmarshal\<close> into a struct with the element \<open>name\<close> (an argument: the decoder of XML);
  \<open>lookup_ip\<close> is \<open>net.ParseIP\<close> or the resolver, the addresses as texts (an argument: the network); \<open>random\<close> is the
  nonce that \<open>crypto/rand\<close> gives, if it does.
\<close>

record ('r, 'v) api_env =
  en_sv :: "('r, 'v) realtime_service"
  en_send :: "'r rt http_transport"
  en_xml_name :: "string \<Rightarrow> string option"
  en_lookup_ip :: "string \<Rightarrow> string list option"
  en_hash_token :: "string \<Rightarrow> string"
  en_random :: "string option"

record api_request =
  rq_user :: user
  rq_ip :: string

definition token_of :: "('r, 'v) api_env \<Rightarrow> agent \<Rightarrow> open_error + string" where
  "token_of E a = Open (sv_aead (en_sv E)) (sv_secret (en_sv E)) (agent_token_ciphertext a)"

text \<open>The token of an agent when it can be used.\<close>

definition usable_token :: "('r, 'v) api_env \<Rightarrow> agent \<Rightarrow> string option" where
  "usable_token E a = (case token_of E a of Inl _ \<Rightarrow> None | Inr t \<Rightarrow> if TrimSpace t = [] then None else Some t)"

definition agent_and_token ::
  "('r, 'v) api_env \<Rightarrow> string \<Rightarrow> refusal \<Rightarrow> string \<Rightarrow> (agent \<Rightarrow> string \<Rightarrow> 'r api_prog) \<Rightarrow> 'r api_prog" where
  "agent_and_token E i missing unusable k =
    bindp (attempt (on_store (GetAgent i))) (\<lambda>r. case r of
      Inl e \<Rightarrow>
        if e = RepoError ErrNotFound then (case missing of (status, code, message) \<Rightarrow> refuse status code message)
        else refuse 500 ''get_agent_failed'' (zh ''e8afbbe58f96204167656e7420e5a4b1e8b4a5'')
    | Inr a \<Rightarrow> (case usable_token E a of
          None \<Rightarrow> refuse 400 ''agent_token_unavailable'' unusable
        | Some token \<Rightarrow> k a token))"

definition agentTokenForVM :: "('r, 'v) api_env \<Rightarrow> VirtualMachine \<Rightarrow> (agent \<Rightarrow> string \<Rightarrow> 'r api_prog) \<Rightarrow> 'r api_prog" where
  "agentTokenForVM E vm = agent_and_token E (vm_HostID vm)
     (400, ''agent_not_bound'', zh ''e8999ae68b9fe69cbae68980e5b19ee5aebfe4b8bbe69cbae69caae7bb91e5ae9a204167656e74efbc8ce697a0e6b395e689a7e8a18ce6938de4bd9c'') (zh ''4167656e7420e4bba4e7898ce4b88de58fafe794a8e4ba8ee689a7e8a18ce6938de4bd9cefbc8ce8afb7e9878de696b0e4bf9de5ad98204167656e74'')"

definition agentTokenForID :: "('r, 'v) api_env \<Rightarrow> string \<Rightarrow> (agent \<Rightarrow> string \<Rightarrow> 'r api_prog) \<Rightarrow> 'r api_prog" where
  "agentTokenForID E i k =
    (if i = [] then refuse 400 ''agent_required'' (zh ''e8afb7e98089e68ba9e5aebfe4b8bbe69cba'')
     else agent_and_token E i (404, ''agent_not_found'', zh ''e5aebfe4b8bbe69cba204167656e7420e4b88de5ad98e59ca8'') (zh ''4167656e7420e4bba4e7898ce4b88de58fafe794a8e4ba8ee689a7e8a18ce6938de4bd9cefbc8ce8afb7e9878de696b0e4bf9de5ad98204167656e74'') k)"

text \<open>Any error of the lookup counts as a missing agent, and a token of blanks as one that can be used.\<close>

definition agentTokenForHost :: "('r, 'v) api_env \<Rightarrow> string \<Rightarrow> (agent \<Rightarrow> string \<Rightarrow> 'r api_prog) \<Rightarrow> 'r api_prog" where
  "agentTokenForHost E i k =
    bindp (attempt (on_store (GetAgent i))) (\<lambda>r. case r of
      Inl _ \<Rightarrow> refuse 404 ''agent_not_found'' (zh ''e5aebfe4b8bbe69cbae5afb9e5ba94204167656e7420e4b88de5ad98e59ca8'')
    | Inr a \<Rightarrow> (case token_of E a of
          Inr (c # t) \<Rightarrow> k a (c # t)
        | _ \<Rightarrow> refuse 400 ''agent_token_unavailable'' (zh ''4167656e7420e4bba4e7898ce4b88de58fafe794a8e4ba8ee689a7e8a18ce6938de4bd9cefbc8ce8afb7e9878de696b0e4bf9de5ad98204167656e74'')))"

definition with_vm :: "('r, 'v) api_env \<Rightarrow> string \<Rightarrow> string \<Rightarrow> (VirtualMachine \<Rightarrow> 'r api_prog) \<Rightarrow> 'r api_prog" where
  "with_vm E i message k =
    bindp (service_GetVM (en_sv E) i) (\<lambda>found. case found of
      None \<Rightarrow> refuse 404 ''vm_not_found'' message
    | Some vm \<Rightarrow> k vm)"

definition vm_missing :: string where "vm_missing = zh ''e8999ae68b9fe69cbae4b88de5ad98e59ca8''"

text \<open>A call of an agent: its error is told to the user with the code of the handler.\<close>

definition calling ::
  "('r rt, agent_error, 'a) prog \<Rightarrow> string \<Rightarrow> string \<Rightarrow> ('a \<Rightarrow> 'r api_prog) \<Rightarrow> 'r api_prog" where
  "calling m code prefix k =
    bindp (attempt m) (\<lambda>r. case r of
      Inl e \<Rightarrow> refuse 503 code (prefix @ UserFacingErrorMessage e)
    | Inr x \<Rightarrow> k x)"

definition running :: "VirtualMachine \<Rightarrow> bool" where
  "running vm \<longleftrightarrow> EqualFold (TrimSpace (vm_Status vm)) ''running''"

section \<open>Tasks and audit\<close>

definition audit ::
  "api_request \<Rightarrow> string \<Rightarrow> string \<Rightarrow> string \<Rightarrow> (string \<rightharpoonup> json) \<Rightarrow> ('r, unit) service_prog" where
  "audit rq action resourceType resourceID metadata =
     ignore (on_store (WriteAudit (ID (rq_user rq)) action resourceType resourceID (rq_ip rq) metadata))"

text \<open>The task that records a finished operation; that it cannot be created is only logged.\<close>

definition finished_task ::
  "api_request \<Rightarrow> string \<Rightarrow> string \<Rightarrow> string \<Rightarrow> (string \<rightharpoonup> json) \<Rightarrow> ('r, task option) service_prog" where
  "finished_task rq taskType targetType targetID payload =
    bindp (attempt (on_store (CreateTask taskType ''completed'' targetType targetID (Fields payload) (ID (rq_user rq)) [])))
      (\<lambda>r. ret (case r of Inl _ \<Rightarrow> None | Inr t \<Rightarrow> Some t))"

text \<open>The task of an operation that goes on in the background.\<close>

definition queued_task ::
  "api_request \<Rightarrow> string \<Rightarrow> string \<Rightarrow> string \<Rightarrow> (string \<rightharpoonup> json) \<Rightarrow> string \<Rightarrow> string \<Rightarrow>
   (task \<Rightarrow> ('r, unit) service_prog) \<Rightarrow> 'r api_prog" where
  "queued_task rq taskType targetType targetID payload code message run =
    bindp (attempt (on_store (CreateTask taskType ''queued'' targetType targetID (Fields payload) (ID (rq_user rq)) [])))
      (\<lambda>r. case r of
        Inl _ \<Rightarrow> refuse 500 code message
      | Inr t \<Rightarrow> respond_with [run t] 202 (AQueued t))"

text \<open>
  A background task: it is claimed, its progress is saved, the agent is called, and it ends with the error or with
  the result. \<open>job\<close> gives the call, \<open>failure\<close> what is recorded for an error, \<open>success\<close> what follows a result.
  A task that cannot be claimed, also because it no longer is queued, is ended as failed.
\<close>

record ('r, 'a) background_job =
  bj_call :: "('r rt, agent_error, 'a) prog"
  bj_unclaimed :: "string \<rightharpoonup> json"
  bj_unclaimed_message :: string
  bj_progress :: "string \<rightharpoonup> json"
  bj_message :: "agent_error \<Rightarrow> string"
  bj_failed_audit :: "string \<Rightarrow> ('r, unit) service_prog"
  bj_done :: "'a \<Rightarrow> (string \<rightharpoonup> json)"
  bj_after :: "'a \<Rightarrow> ('r, unit) service_prog"

definition run_background :: "string \<Rightarrow> ('r, 'a) background_job \<Rightarrow> ('r, unit) service_prog" where
  "run_background taskID j =
    bindp (attempt (on_store (ClaimTask taskID))) (\<lambda>claimed.
    if claimed \<noteq> Inr True then
      ignore (on_store (FinishTask taskID ''failed'' (Fields (bj_unclaimed j)) (bj_unclaimed_message j)))
    else
      bindp (ignore (on_store (UpdateTaskProgress taskID (Fields (bj_progress j)) []))) (\<lambda>_.
      bindp (attempt (bj_call j)) (\<lambda>r. case r of
        Inl e \<Rightarrow>
          bindp (ignore (on_store (FinishTask taskID ''failed'' (Fields (bj_progress j)) (bj_message j e)))) (\<lambda>_.
          bj_failed_audit j (bj_message j e))
      | Inr x \<Rightarrow>
          bindp (ignore (on_store (FinishTask taskID ''completed'' (Fields (bj_done j x)) []))) (\<lambda>_.
          bj_after j x))))"

text \<open>\<open>strings.TrimRight\<close> with the characters of \<open>cs\<close>.\<close>

definition TrimRight :: "string \<Rightarrow> string \<Rightarrow> string" where
  "TrimRight s cs = rev (dropWhile (\<lambda>c. c \<in> set cs) (rev s))"

section \<open>Synchronisation in the background\<close>

text \<open>The wait of \<open>vmActionFullSyncDelay\<close> before the delayed one is left out: it may run at any later time.\<close>

definition SyncAgentWithTokenDelayedFull :: "('r, 'v) api_env \<Rightarrow> string \<Rightarrow> string \<Rightarrow> ('r, unit) service_prog" where
  "SyncAgentWithTokenDelayedFull E i token = ignore (SyncAgentWithTokenMode (en_sv E) i token SyncFull)"

definition syncVMRuntimeAsync :: "('r, 'v) api_env \<Rightarrow> string \<Rightarrow> string \<Rightarrow> string \<Rightarrow> string \<Rightarrow> ('r, unit) service_prog" where
  "syncVMRuntimeAsync E agentID token vmID vmName = ignore (SyncVMWithToken (en_sv E) agentID token vmID vmName)"

end
