(* ===== verification/Vm_Requests.thy ===== *)
theory Vm_Requests
  imports Api_Base
begin

text \<open>
  What a request for a virtual machine must satisfy, and what is sent to the agent: the validations of
  \<open>vm_lifecycle.go\<close>, \<open>vm_clone.go\<close>, \<open>vm_config.go\<close> and \<open>vm_devices.go\<close>. The body of a request has the fields of
  the request to the agent; a validation gives the message of its error.
\<close>

record createVMRequest = VMCreateRequest +
  cr_AgentID :: string

text \<open>\<open>strings.ContainsAny(s, `/\`)\<close>.\<close>

definition has_separator :: "string \<Rightarrow> bool" where
  "has_separator s \<longleftrightarrow> CHR ''/'' \<in> set s \<or> CHR 0x5C \<in> set s"

definition lower :: "string \<Rightarrow> string" where
  "lower s = ToLower (TrimSpace s)"

section \<open>Creation\<close>

definition supportedVMCreateDiskBus :: "string \<Rightarrow> bool" where
  "supportedVMCreateDiskBus bus \<longleftrightarrow> lower bus \<in> set [''virtio'', ''sata'', ''scsi'', ''ide'']"

definition supportedVMCDROMBus :: "string \<Rightarrow> bool" where
  "supportedVMCDROMBus bus \<longleftrightarrow> lower bus \<in> set [[], ''sata'', ''ide'', ''scsi'', ''usb'']"

definition supportedVMNetworkModel :: "string \<Rightarrow> bool" where
  "supportedVMNetworkModel model \<longleftrightarrow> lower model \<in> set [[], ''virtio'', ''e1000'', ''e1000e'', ''rtl8139'', ''vmxnet3'']"

definition supportedVMInterfaceModel :: "string \<Rightarrow> bool" where
  "supportedVMInterfaceModel model \<longleftrightarrow> lower model \<in> set [''virtio'', ''e1000'', ''e1000e'', ''rtl8139'', ''vmxnet3'']"

definition supportedVMDeviceDiskFormat :: "string \<Rightarrow> bool" where
  "supportedVMDeviceDiskFormat format \<longleftrightarrow> lower format \<in> set [''qcow2'', ''qcow'', ''qed'', ''raw'']"

definition vmDeviceDiskNameMatchesFormat :: "string \<Rightarrow> string \<Rightarrow> bool" where
  "vmDeviceDiskNameMatchesFormat name format \<longleftrightarrow>
     HasSuffix (lower name) (if EqualFold (TrimSpace format) ''qcow2'' then ''.qcow2'' else ''.img'')"

definition normalizedCreateMode :: "'a VMCreateRequest_scheme \<Rightarrow> string" where
  "normalizedCreateMode body =
    (if TrimSpace (cr_XML body) \<noteq> [] then ''xml''
     else if lower (cr_CreateMode body) = [] then ''blank'' else lower (cr_CreateMode body))"

definition normalizeCreateVMTemplate :: "VMCreateTemplate \<Rightarrow> VMCreateTemplate" where
  "normalizeCreateVMTemplate t =
     \<lparr>ct_SourcePool = TrimSpace (ct_SourcePool t), ct_SourceName = TrimSpace (ct_SourceName t),
      ct_TargetPool = TrimSpace (ct_TargetPool t), ct_TargetName = TrimSpace (ct_TargetName t), ct_Bus = TrimSpace (ct_Bus t),
      ct_Format = lower (ct_Format t), ct_Convert = ct_Convert t, ct_PreallocMetadata = ct_PreallocMetadata t\<rparr>"

definition validateCreateVMTemplate :: "VMCreateTemplate \<Rightarrow> string option" where
  "validateCreateVMTemplate t =
    (if ct_SourcePool t = [] \<or> ct_SourceName t = [] \<or> ct_TargetPool t = [] \<or> ct_TargetName t = [] \<or> ct_Bus t = []
     then Some (zh ''e8afb7e5ae8ce695b4e5a1abe58699e6a8a1e69dbfe7a381e79b98e9858de7bdae'')
     else if has_separator (ct_SourceName t) \<or> has_separator (ct_TargetName t) then Some (zh ''e6a8a1e69dbfe7a381e79b98e58db7e5908de7a7b0e4b88de883bde58c85e590abe8b7afe5be84e58886e99a94e7aca6'')
     else if \<not> supportedVMDeviceDiskFormat (ct_Format t) then Some (zh ''e6a8a1e69dbfe7a381e79b98e6a0bce5bc8fe4b88de694afe68c81'')
     else if \<not> vmDeviceDiskNameMatchesFormat (ct_TargetName t) (ct_Format t)
     then Some (zh ''e79baee6a087e7a381e79b98e58db7e5908de7a7b0e689a9e5b195e5908de5bf85e9a1bbe4b88ee6a0bce5bc8fe4b880e887b4efbc8c71636f773220e4bdbfe794a8202e71636f7732efbc8ce585b6e4bb96e6a0bce5bc8fe4bdbfe794a8202e696d67'')
     else if \<not> supportedVMCreateDiskBus (ct_Bus t) then Some (zh ''e6a8a1e69dbfe7a381e79b98e680bbe7babfe4b88de694afe68c81'')
     else None)"

text \<open>Without a list of disks the single disk of the body counts.\<close>

definition normalizeCreateVMDisks :: "'a VMCreateRequest_scheme \<Rightarrow> VMCreateDiskRequest list" where
  "normalizeCreateVMDisks body =
     map (\<lambda>d. \<lparr>crd_Name = TrimSpace (crd_Name d), crd_Pool = TrimSpace (crd_Pool d), crd_Format = lower (crd_Format d),
        crd_Bus = TrimSpace (crd_Bus d), crd_CapacityGB = crd_CapacityGB d, crd_PreallocMetadata = crd_PreallocMetadata d\<rparr>)
       (if cr_Disks body = []
        then [\<lparr>crd_Name = cr_DiskName body, crd_Pool = cr_DiskPool body, crd_Format = cr_DiskFormat body, crd_Bus = cr_DiskBus body,
               crd_CapacityGB = cr_DiskCapacityGB body, crd_PreallocMetadata = cr_PreallocMetadata body\<rparr>]
        else cr_Disks body)"

definition createVMDiskSettingsMatchSystem :: "VMCreateDiskRequest \<Rightarrow> VMCreateDiskRequest \<Rightarrow> bool" where
  "createVMDiskSettingsMatchSystem s d \<longleftrightarrow> EqualFold (crd_Pool s) (crd_Pool d) \<and> EqualFold (crd_Format s) (crd_Format d) \<and>
     EqualFold (crd_Bus s) (crd_Bus d) \<and> crd_PreallocMetadata s = crd_PreallocMetadata d"

definition disk_key :: "VMCreateDiskRequest \<Rightarrow> string" where
  "disk_key d = ToLower (crd_Pool d @ ''/'' @ crd_Name d)"

text \<open>The loop over the disks; \<open>seen\<close> has the keys so far and is empty at the first.\<close>

definition check_disk :: "VMCreateDiskRequest \<Rightarrow> bool \<Rightarrow> string list \<Rightarrow> VMCreateDiskRequest \<Rightarrow> string option" where
  "check_disk system first seen d =
    (let label = (if first then zh ''e7b3bbe7bb9fe79b98'' else zh ''e7a381e79b98'') in
     if crd_Name d = [] \<or> crd_Pool d = [] \<or> crd_Format d = [] \<or> crd_Bus d = [] \<or> crd_CapacityGB d \<le> 0
     then Some (label @ zh ''e9858de7bdaee4b88de5ae8ce695b4'')
     else if \<not> supportedVMDeviceDiskFormat (crd_Format d) then Some (label @ zh ''e6a0bce5bc8fe4b88de694afe68c81'')
     else if \<not> vmDeviceDiskNameMatchesFormat (crd_Name d) (crd_Format d)
     then Some (label @ zh ''e5908de7a7b0e689a9e5b195e5908de5bf85e9a1bbe4b88ee6a0bce5bc8fe4b880e887b4efbc8c71636f773220e4bdbfe794a8202e71636f7732efbc8ce585b6e4bb96e6a0bce5bc8fe4bdbfe794a8202e696d67'')
     else if has_separator (crd_Name d) then Some (label @ zh ''e5908de7a7b0e4b88de883bde58c85e590abe8b7afe5be84e58886e99a94e7aca6'')
     else if \<not> first \<and> \<not> createVMDiskSettingsMatchSystem system d
     then Some (label @ zh ''e99c80e4b88ee7b3bbe7bb9fe79b98e4bdbfe794a8e79bb8e5908ce79a84e5ad98e582a8e6b1a0e38081e7a381e79b98e6a0bce5bc8fe38081e7a381e79b98e680bbe7babfe5928c204d6574616461746120e9858de7bdae'')
     else if disk_key d \<in> set seen then Some (zh ''e7a381e79b98e58db7e5908de7a7b0e4b88de883bde9878de5a48d'')
     else None)"

fun check_disks :: "VMCreateDiskRequest \<Rightarrow> bool \<Rightarrow> string list \<Rightarrow> VMCreateDiskRequest list \<Rightarrow> string option" where
  "check_disks system first seen [] = None"
| "check_disks system first seen (d # ds) =
    (case check_disk system first seen d of
       Some e \<Rightarrow> Some e
     | None \<Rightarrow> check_disks system False (disk_key d # seen) ds)"

definition validateCreateVMDisks :: "VMCreateDiskRequest list \<Rightarrow> string option" where
  "validateCreateVMDisks disks = (case disks of
     [] \<Rightarrow> Some (zh ''e8afb7e887b3e5b091e9858de7bdaee4b880e59d97e7a381e79b98'')
   | system # _ \<Rightarrow> check_disks system True [] disks)"

definition validateCreateVMRequest :: "createVMRequest \<Rightarrow> string option" where
  "validateCreateVMRequest body =
    (if TrimSpace (cr_AgentID body) = [] then Some (zh ''e8afb7e98089e68ba9e5aebfe4b8bbe69cba'')
     else if TrimSpace (cr_Name body) = [] \<and> TrimSpace (cr_XML body) = [] then Some (zh ''e8999ae68b9fe69cbae5908de7a7b0e4b88de883bde4b8bae7a9ba'')
     else if length (cr_Description body) > 2048 then Some (zh ''e68f8fe8bfb0e4b88de883bde8b685e8bf87203230343820e4b8aae5ad97e7aca6'')
     else if TrimSpace (cr_XML body) \<noteq> [] then None
     else if cr_CurrentCPU body \<le> 0 \<or> cr_MaximumCPU body \<le> 0 \<or> cr_CurrentCPU body > cr_MaximumCPU body then Some (zh ''43505520e9858de7bdaee4b88de6ada3e7a1ae'')
     else if cr_CurrentMemoryMB body \<le> 0 \<or> cr_MaximumMemoryMB body \<le> 0 \<or> cr_CurrentMemoryMB body > cr_MaximumMemoryMB body
     then Some (zh ''e58685e5ad98e9858de7bdaee4b88de6ada3e7a1ae'')
     else
       let mode = normalizedCreateMode body;
           disks = (if mode = ''blank'' then validateCreateVMDisks (normalizeCreateVMDisks body)
             else if mode = ''template'' then validateCreateVMTemplate (normalizeCreateVMTemplate (cr_Template body))
             else Some (zh ''e5889be5bbbae6a8a1e5bc8fe4b88de694afe68c81'')) in
       if disks \<noteq> None then disks
       else if TrimSpace (cr_NetworkSource body) = [] then Some (zh ''e8afb7e98089e68ba9e7bd91e7bb9ce6b1a0e68896e6a1a5e68ea5e7bd91e7bb9c'')
       else if TrimSpace (cr_ISOBus body) \<noteq> [] \<and> \<not> supportedVMCDROMBus (cr_ISOBus body) then Some (zh ''49534f20e680bbe7babfe7b1bbe59e8be4b88de694afe68c81'')
       else if TrimSpace (cr_NetworkModel body) \<noteq> [] \<and> \<not> supportedVMNetworkModel (cr_NetworkModel body) then Some (zh ''e7bd91e58da1e6a8a1e59e8be4b88de694afe68c81'')
       else if TrimSpace (cr_Graphics body) \<noteq> [] \<and> \<not> EqualFold (TrimSpace (cr_Graphics body)) ''vnc''
       then Some (zh ''e5bd93e5898de4bb85e694afe68c8120564e4320e68ea7e588b6e58fb0'')
       else None)"

text \<open>The request for the agent. The list of disks has a first one whenever it is used.\<close>

definition create_request :: "createVMRequest \<Rightarrow> VMCreateRequest" where
  "create_request body =
    (let mode = normalizedCreateMode body; xml = TrimSpace (cr_XML body);
         disks = (if xml = [] \<and> mode \<noteq> ''template'' then normalizeCreateVMDisks body else []);
         request = \<lparr>cr_CreateMode = mode, cr_Name = TrimSpace (cr_Name body), cr_Description = TrimSpace (cr_Description body),
           cr_Autostart = cr_Autostart body, cr_CurrentCPU = cr_CurrentCPU body, cr_MaximumCPU = cr_MaximumCPU body,
           cr_CurrentMemoryMB = cr_CurrentMemoryMB body, cr_MaximumMemoryMB = cr_MaximumMemoryMB body,
           cr_CPUModel = TrimSpace (cr_CPUModel body), cr_OSType = TrimSpace (cr_OSType body), cr_Disks = disks,
           cr_DiskName = [], cr_DiskPool = [], cr_DiskFormat = [], cr_DiskBus = [], cr_DiskCapacityGB = 0, cr_PreallocMetadata = False,
           cr_ISOPath = TrimSpace (cr_ISOPath body), cr_ISOBus = TrimSpace (cr_ISOBus body),
           cr_NetworkSource = TrimSpace (cr_NetworkSource body), cr_NetworkModel = TrimSpace (cr_NetworkModel body),
           cr_Graphics = TrimSpace (cr_Graphics body), cr_ConsolePassword = TrimSpace (cr_ConsolePassword body),
           cr_BootFirmware = TrimSpace (cr_BootFirmware body), cr_Template = normalizeCreateVMTemplate (cr_Template body), cr_XML = xml\<rparr> in
     case disks of
       [] \<Rightarrow> request
     | d # _ \<Rightarrow> request\<lparr>cr_DiskName := crd_Name d, cr_DiskPool := crd_Pool d, cr_DiskFormat := crd_Format d, cr_DiskBus := crd_Bus d,
           cr_DiskCapacityGB := crd_CapacityGB d, cr_PreallocMetadata := crd_PreallocMetadata d\<rparr>)"

section \<open>Migration\<close>

record migrateVMRequest = VMMigrateRequest +
  mg_TargetAgentID :: string

definition validateMigrateVMRequest :: "migrateVMRequest \<Rightarrow> VirtualMachine \<Rightarrow> string option" where
  "validateMigrateVMRequest body vm =
    (if TrimSpace (mg_TargetAgentID body) = [] then Some (zh ''e8afb7e98089e68ba9e79baee6a087e5aebfe4b8bbe69cba'')
     else if TrimSpace (mg_TargetAgentID body) = vm_HostID vm then Some (zh ''e79baee6a087e5aebfe4b8bbe69cbae4b88de883bde4b88ee6ba90e5aebfe4b8bbe69cbae79bb8e5908c'')
     else if \<not> mg_Live body \<and> EqualFold (vm_Status vm) ''running'' then Some (zh ''e8bf90e8a18ce4b8ade79a84e8999ae68b9fe69cbae8afb7e98089e68ba9e783ade8bf81e7a7bbefbc8ce68896e58588e585b3e997ade8999ae68b9fe69cbae5908ee5868de586b7e8bf81e7a7bb'')
     else if mg_Live body \<and> \<not> EqualFold (vm_Status vm) ''running'' then Some (zh ''e99d9ee8bf90e8a18ce78ab6e68081e79a84e8999ae68b9fe69cbae8afb7e98089e68ba9e586b7e8bf81e7a7bb'')
     else None)"

text \<open>The second attempt, \<open>net.SplitHostPort\<close>, has nothing to split when the host is empty.\<close>

definition defaultMigrationURI :: "agent \<Rightarrow> string" where
  "defaultMigrationURI a = (case url_Parse (agent_endpoint a) of
     None \<Rightarrow> []
   | Some u \<Rightarrow> if Hostname u = [] then [] else ''qemu+ssh://'' @ Hostname u @ ''/system'')"

definition migration_uri :: "string \<Rightarrow> agent \<Rightarrow> string" where
  "migration_uri given target = (if TrimSpace given = [] then defaultMigrationURI target else TrimSpace given)"

definition migrate_request :: "migrateVMRequest \<Rightarrow> agent \<Rightarrow> VMMigrateRequest" where
  "migrate_request body target =
     \<lparr>mg_DestinationURI = migration_uri (mg_DestinationURI body) target, mg_Live = mg_Live body, mg_CopyDisks = mg_CopyDisks body,
      mg_Persistent = mg_Persistent body, mg_UndefineSource = mg_UndefineSource body, mg_AutoConverge = mg_AutoConverge body,
      mg_PostCopy = mg_PostCopy body\<rparr>"

section \<open>Clones\<close>

text \<open>\<open>strings.LastIndexAny(s, `/\`)\<close>: what follows the last separator.\<close>

definition base_name :: "string \<Rightarrow> string" where
  "base_name s = rev (takeWhile (\<lambda>c. c \<noteq> CHR ''/'' \<and> c \<noteq> CHR 0x5C) (rev s))"

definition volumeExtension :: "string \<Rightarrow> string" where
  "volumeExtension name = (let b = base_name (TrimSpace name) in
     case LastIndex b ''.'' of Some i \<Rightarrow> if i > 0 then drop i b else [] | None \<Rightarrow> [])"

fun first_error :: "('a \<Rightarrow> string option) \<Rightarrow> 'a list \<Rightarrow> string option" where
  "first_error f [] = None"
| "first_error f (x # xs) = (case f x of Some e \<Rightarrow> Some e | None \<Rightarrow> first_error f xs)"

text \<open>Checks in order; the first error counts.\<close>

fun in_order :: "string option list \<Rightarrow> string option" where
  "in_order [] = None"
| "in_order (e # es) = (case e of Some m \<Rightarrow> Some m | None \<Rightarrow> in_order es)"

definition check_clone_disk :: "VMCloneDiskRequest \<Rightarrow> string option" where
  "check_clone_disk d =
    (if TrimSpace (kd_Name d) = [] \<or> TrimSpace (kd_Pool d) = [] \<or> TrimSpace (kd_SourcePath d) = [] \<or> TrimSpace (kd_TargetName d) = []
     then Some (zh ''e7a381e79b98e5908de7a7b0e38081e5ad98e582a8e6b1a0e38081e6ba90e8b7afe5be84e5928ce79baee6a087e58db7e5908de4b88de883bde4b8bae7a9ba'')
     else let source = volumeExtension (kd_SourcePath d); target = volumeExtension (kd_TargetName d) in
       if source \<noteq> [] \<and> \<not> EqualFold source target
       then Some (zh ''e7a381e79b9820'' @ TrimSpace (kd_Name d) @ zh ''20e79a84e79baee6a087e58db7e689a9e5b195e5908de5bf85e9a1bbe5928ce6ba90e7a381e79b9820'' @ source @ zh ''20e4b880e887b4'') else None)"

definition validateVMCloneRequest :: "VMCloneRequest \<Rightarrow> string option" where
  "validateVMCloneRequest body =
    (if length (cl_Description body) > 2048 then Some (zh ''e68f8fe8bfb0e4b88de883bde8b685e8bf87203230343820e4b8aae5ad97e7aca6'')
     else if cl_CurrentCPU body < 0 \<or> cl_MaximumCPU body < 0 \<or> cl_CurrentMemoryMB body < 0 \<or> cl_MaximumMemoryMB body < 0
     then Some (zh ''43505520e4b88ee58685e5ad98e9858de7bdaee4b88de883bde4b8bae8b49fe695b0'')
     else if cl_CurrentCPU body > 0 \<and> cl_MaximumCPU body > 0 \<and> cl_CurrentCPU body > cl_MaximumCPU body
     then Some (zh ''e5bd93e5898d2043505520e4b88de883bde5a4a7e4ba8ee69c80e5a4a720435055'')
     else if cl_CurrentMemoryMB body > 0 \<and> cl_MaximumMemoryMB body > 0 \<and> cl_CurrentMemoryMB body > cl_MaximumMemoryMB body
     then Some (zh ''e5bd93e5898de58685e5ad98e4b88de883bde5a4a7e4ba8ee69c80e5a4a7e58685e5ad98'')
     else if lower (cl_CDROMPolicy body) \<notin> set [[], ''inherit'', ''disconnect''] then Some (zh ''e4bb8be8b4a8e7ad96e795a5e4b88de6ada3e7a1ae'')
     else in_order [
       first_error (\<lambda>i. if TrimSpace (kif_MAC i) = [] \<or> TrimSpace (kif_Source i) = []
         then Some (zh ''e7bd91e7bb9ce8aebee5a487204d414320e5928ce7bd91e7bb9ce6b1a0e4b88de883bde4b8bae7a9ba'') else None) (cl_Interfaces body),
       first_error check_clone_disk (cl_Disks body)])"

definition buildVMCloneAgentRequest :: "VMCloneRequest \<Rightarrow> VMCloneRequest" where
  "buildVMCloneAgentRequest body = body\<lparr>
     cl_Description := TrimSpace (cl_Description body),
     cl_CDROMPolicy := (if cl_Autostart body then ''disconnect'' else TrimSpace (cl_CDROMPolicy body)),
     cl_Interfaces := map (\<lambda>i. \<lparr>kif_Name = TrimSpace (kif_Name i), kif_MAC = TrimSpace (kif_MAC i), kif_Source = TrimSpace (kif_Source i)\<rparr>)
       (cl_Interfaces body),
     cl_Disks := map (\<lambda>d. \<lparr>kd_Name = TrimSpace (kd_Name d), kd_Pool = TrimSpace (kd_Pool d), kd_SourcePath = TrimSpace (kd_SourcePath d),
        kd_TargetName = TrimSpace (kd_TargetName d), kd_PreallocMetadata = kd_PreallocMetadata d\<rparr>) (cl_Disks body)\<rparr>"

section \<open>Configuration and devices\<close>

definition validateVMConfigUpdate :: "VMConfigUpdateRequest \<Rightarrow> string option" where
  "validateVMConfigUpdate body =
    (if cu_CurrentCPU body \<le> 0 \<or> cu_MaximumCPU body \<le> 0 then Some (zh ''43505520e58886e9858de5bf85e9a1bbe5a4a7e4ba8e2030'')
     else if cu_CurrentCPU body > cu_MaximumCPU body then Some (zh ''e980bbe8be912043505520e5bd93e5898de58886e9858de4b88de883bde5a4a7e4ba8ee69c80e5a4a7e58886e9858d'')
     else if cu_CurrentMemoryMB body \<le> 0 \<or> cu_MaximumMemoryMB body \<le> 0 then Some (zh ''e58685e5ad98e58886e9858de5bf85e9a1bbe5a4a7e4ba8e2030'')
     else if cu_CurrentMemoryMB body > cu_MaximumMemoryMB body then Some (zh ''e680bbe58685e5ad98e5bd93e5898de58886e9858de4b88de883bde5a4a7e4ba8ee69c80e5a4a7e58886e9858d'')
     else if cu_MemoryStatsPeriod body < 0 \<or> cu_MemoryStatsPeriod body > 86400 then Some (zh ''e58685e5ad98e7bb9fe8aea1e591a8e69c9fe5bf85e9a1bbe59ca8203020e588b020383634303020e7a792e4b98be997b4'')
     else if length (cu_Description body) > 2048 then Some (zh ''e68f8fe8bfb0e4b88de883bde8b685e8bf87203230343820e4b8aae5ad97e7aca6'')
     else None)"

definition check_new_disk :: "VMDeviceNewDiskRequest \<Rightarrow> string option" where
  "check_new_disk d =
    (if TrimSpace (dnd_Name d) = [] \<or> TrimSpace (dnd_Pool d) = [] \<or> TrimSpace (dnd_Target d) = [] \<or> TrimSpace (dnd_Bus d) = []
       \<or> TrimSpace (dnd_Format d) = [] \<or> dnd_CapacityBytes d \<le> 0
     then Some (zh ''e696b0e5a29ee7a381e79b98e5908de7a7b0e38081e5ad98e582a8e6b1a0e38081e79baee6a087e8aebee5a487e38081e680bbe7babfe38081e6a0bce5bc8fe5928ce5aeb9e9878fe4b88de883bde4b8bae7a9ba'')
     else if \<not> supportedVMDeviceDiskFormat (dnd_Format d) then Some (zh ''e696b0e5a29ee7a381e79b98e6a0bce5bc8fe4b88de694afe68c81'')
     else if has_separator (TrimSpace (dnd_Name d)) then Some (zh ''e696b0e5a29ee7a381e79b98e5908de7a7b0e4b88de883bde58c85e590abe8b7afe5be84e58886e99a94e7aca6'')
     else if \<not> vmDeviceDiskNameMatchesFormat (dnd_Name d) (dnd_Format d) then Some (zh ''e696b0e5a29ee7a381e79b98e5908de7a7b0e689a9e5b195e5908de5bf85e9a1bbe4b88ee6a0bce5bc8fe4b880e887b4'')
     else None)"

definition validateVMDevicesUpdate :: "VMDeviceUpdateRequest \<Rightarrow> string option" where
  "validateVMDevicesUpdate body = in_order [
     first_error (\<lambda>i. if TrimSpace (di_Source i) = [] then Some (zh ''e7bd91e7bb9ce6b1a0e4b88de883bde4b8bae7a9ba'')
       else if TrimSpace (di_MAC i) = [] \<and> TrimSpace (di_Name i) = [] then Some (zh ''e7bd91e7bb9ce8aebee5a487e4bfa1e681afe7bcbae5a4b1efbc8ce8afb7e588b7e696b0e9858de7bdaee5908ee9878de8af95'') else None) (du_Interfaces body),
     first_error (\<lambda>i. if TrimSpace (dni_Source i) = [] then Some (zh ''e696b0e5a29ee7bd91e58da1e7bd91e7bb9ce6b1a0e4b88de883bde4b8bae7a9ba'')
       else if TrimSpace (dni_Model i) \<noteq> [] \<and> \<not> supportedVMInterfaceModel (TrimSpace (dni_Model i)) then Some (zh ''e696b0e5a29ee7bd91e58da1e6a8a1e59e8be4b88de694afe68c81'') else None)
       (du_NewInterfaces body),
     first_error (\<lambda>i. if TrimSpace (ddi_MAC i) = [] \<and> TrimSpace (ddi_Name i) = [] then Some (zh ''e588a0e999a4e7bd91e58da1e4bfa1e681afe7bcbae5a4b1efbc8ce8afb7e588b7e696b0e9858de7bdaee5908ee9878de8af95'') else None)
       (du_DeletedInterfaces body),
     first_error (\<lambda>d. if TrimSpace (drs_Name d) = [] \<or> drs_CapacityBytes d \<le> 0 then Some (zh ''e689a9e5aeb9e7a381e79b98e5908de7a7b0e5928ce79baee6a087e5aeb9e9878fe4b88de883bde4b8bae7a9ba'') else None)
       (du_DiskResizes body),
     first_error (\<lambda>d. if TrimSpace (ddd_Name d) = [] then Some (zh ''e588a0e999a4e7a381e79b98e5908de7a7b0e4b88de883bde4b8bae7a9ba'') else None) (du_DeletedDisks body),
     first_error check_new_disk (du_NewDisks body)]"

definition validateRunningVMDevicesUpdate :: "VMDeviceUpdateRequest \<Rightarrow> string option" where
  "validateRunningVMDevicesUpdate body =
    (if du_Interfaces body \<noteq> [] \<or> du_NewInterfaces body \<noteq> [] \<or> du_DeletedInterfaces body \<noteq> []
     then Some (zh ''e8999ae68b9fe69cbae6ada3e59ca8e8bf90e8a18cefbc8ce4b88de694afe68c81e4bfaee694b9e7bd91e7bb9ce8aebee5a487efbc8ce8afb7e58588e585b3e997ade8999ae68b9fe69cbae5908ee5868de6938de4bd9c'')
     else if du_DeletedDisks body \<noteq> [] then Some (zh ''e8999ae68b9fe69cbae6ada3e59ca8e8bf90e8a18cefbc8ce4b88de694afe68c81e588a0e999a4e7a381e79b98efbc8ce8afb7e58588e585b3e997ade8999ae68b9fe69cbae5908ee5868de6938de4bd9c'')
     else None)"

definition devices_request :: "VMDeviceUpdateRequest \<Rightarrow> VMDeviceUpdateRequest" where
  "devices_request body =
     \<lparr>du_Interfaces = map (\<lambda>i. \<lparr>di_Name = TrimSpace (di_Name i), di_MAC = TrimSpace (di_MAC i), di_Source = TrimSpace (di_Source i)\<rparr>) (du_Interfaces body),
      du_NewInterfaces = map (\<lambda>i. \<lparr>dni_Source = TrimSpace (dni_Source i), dni_Model = TrimSpace (dni_Model i)\<rparr>) (du_NewInterfaces body),
      du_DeletedInterfaces = map (\<lambda>i. \<lparr>ddi_Name = TrimSpace (ddi_Name i), ddi_MAC = TrimSpace (ddi_MAC i)\<rparr>) (du_DeletedInterfaces body),
      du_DiskResizes = map (\<lambda>d. \<lparr>drs_Name = TrimSpace (drs_Name d), drs_CapacityBytes = drs_CapacityBytes d\<rparr>) (du_DiskResizes body),
      du_NewDisks = map (\<lambda>d. \<lparr>dnd_Name = TrimSpace (dnd_Name d), dnd_Pool = TrimSpace (dnd_Pool d), dnd_Target = TrimSpace (dnd_Target d),
         dnd_Bus = TrimSpace (dnd_Bus d), dnd_Format = TrimSpace (dnd_Format d), dnd_CapacityBytes = dnd_CapacityBytes d,
         dnd_PreallocMetadata = dnd_PreallocMetadata d\<rparr>) (du_NewDisks body),
      du_DeletedDisks = map (\<lambda>d. \<lparr>ddd_Name = TrimSpace (ddd_Name d)\<rparr>) (du_DeletedDisks body)\<rparr>"

section \<open>The resources of a host\<close>

text \<open>The product of an \<open>int64\<close> wraps around.\<close>

definition validateHostResourceLimits :: "int \<Rightarrow> int \<Rightarrow> int \<Rightarrow> int \<Rightarrow> refusal option" where
  "validateHostResourceLimits hostCPU hostMemoryBytes maximumCPU maximumMemoryMB =
    (if hostCPU > 0 \<and> maximumCPU > hostCPU then Some (400, ''vm_resource_exceeds_host'', zh ''e69c80e5a4a72043505520e4b88de883bde8b685e8bf87e5aebfe4b8bbe69cbae980bbe8be9120435055'')
     else if hostMemoryBytes > 0 \<and> i64 (maximumMemoryMB * 1024 * 1024) > hostMemoryBytes
     then Some (400, ''vm_resource_exceeds_host'', zh ''e69c80e5a4a7e58685e5ad98e4b88de883bde8b685e8bf87e5aebfe4b8bbe69cbae680bbe58685e5ad98'')
     else None)"

end
