(* ===== verification/Vm_Lifecycle.thy ===== *)
theory Vm_Lifecycle
  imports Vm_Requests
begin

text \<open>
  The handlers of \<open>api/router/vms.go\<close> and \<open>vm_lifecycle.go\<close> and the background tasks of \<open>vm_lifecycle_tasks.go\<close>:
  one machine and its refresh, the actions, the creation and the migration.
\<close>

section \<open>One machine\<close>

definition handleGetVM :: "('r, 'v) api_env \<Rightarrow> string \<Rightarrow> 'r api_prog" where
  "handleGetVM E i = with_vm E i vm_missing (\<lambda>vm. respond 200 (AVM vm))"

definition service_error_message :: "('r, 'v) api_env \<Rightarrow> service_error \<Rightarrow> string" where
  "service_error_message E e = UserFacingErrorMessage (as_agent_error (sv_text (en_sv E)) e)"

definition handleRefreshVM :: "('r, 'v) api_env \<Rightarrow> api_request \<Rightarrow> string \<Rightarrow> 'r api_prog" where
  "handleRefreshVM E rq i = with_vm E i vm_missing (\<lambda>vm.
    agent_and_token E (vm_HostID vm) (400, ''agent_not_bound'', zh ''e8afa5e8999ae68b9fe69cbae68980e5b19ee5aebfe4b8bbe69cbae69caae7bb91e5ae9a204167656e74efbc8ce697a0e6b395e588b7e696b0'')
      (zh ''4167656e7420e4bba4e7898ce4b88de58fafe794a8e4ba8ee588b7e696b0e8999ae68b9fe69cbaefbc8ce8afb7e9878de696b0e4bf9de5ad98204167656e74'') (\<lambda>a token.
    bindp (attempt (SyncVMWithToken (en_sv E) (agent_id a) token i (vm_Name vm))) (\<lambda>r. case r of
      Inl e \<Rightarrow> refuse 503 ''agent_vm_refresh_failed'' (service_error_message E e)
    | Inr refreshed \<Rightarrow>
        bindp (audit rq ''vm.refresh'' ''virtual_machine'' i [''name'' \<mapsto> JStr (vm_Name vm), ''agent'' \<mapsto> JStr (agent_name a)]) (\<lambda>_.
        respond 200 (AVM refreshed)))))"

section \<open>Actions\<close>

definition shouldUpdateStatusAndDelayFullSyncAfterVMAction :: "string \<Rightarrow> bool" where
  "shouldUpdateStatusAndDelayFullSyncAfterVMAction action \<longleftrightarrow>
     action \<in> set [''start'', ''resume'', ''reboot'', ''force-reboot'', ''shutdown'', ''stop'', ''force-shutdown'', ''force-stop'', ''pause'']"

definition shouldRemoveVMAndDelayFullSyncAfterVMAction :: "string \<Rightarrow> bool" where
  "shouldRemoveVMAndDelayFullSyncAfterVMAction action \<longleftrightarrow> action \<in> set [''delete'', ''force-delete'']"

definition statusAfterVMAction :: "string \<Rightarrow> string" where
  "statusAfterVMAction action =
    (if action = ''pause'' then ''paused''
     else if action \<in> set [''shutdown'', ''stop'', ''force-shutdown'', ''force-stop'', ''delete'', ''force-delete''] then ''stopped''
     else ''running'')"

text \<open>What an action leaves in the runtime state: the machine that is shown, and the synchronisation to come.\<close>

definition after_action ::
  "('r, 'v) api_env \<Rightarrow> VirtualMachine \<Rightarrow> string \<Rightarrow> agent \<Rightarrow> string \<Rightarrow> string \<Rightarrow>
   ('r, VirtualMachine \<times> ('r, unit) service_prog list) service_prog" where
  "after_action E vm i a token action =
    (let later = [SyncAgentWithTokenDelayedFull E (agent_id a) token] in
     if shouldRemoveVMAndDelayFullSyncAfterVMAction action then
       bindp (ignore (RemoveVM (en_sv E) i (agent_id a))) (\<lambda>_. ret (vm, later))
     else if shouldUpdateStatusAndDelayFullSyncAfterVMAction action then
       bindp (UpdateVMStatus (en_sv E) i (statusAfterVMAction action)) (\<lambda>updated.
       ret (case updated of Some vm' \<Rightarrow> vm' | None \<Rightarrow> vm, later))
     else
       bindp (ignore (SyncAgentWithToken (en_sv E) (agent_id a) token)) (\<lambda>_. ret (vm, [])))"

definition handleVMAction :: "('r, 'v) api_env \<Rightarrow> api_request \<Rightarrow> string \<Rightarrow> string \<Rightarrow> 'r api_prog" where
  "handleVMAction E rq i action = (case mapVMAction action of
     None \<Rightarrow> refuse 404 ''unknown_action'' (zh ''e4b88de694afe68c81e79a84e8999ae68b9fe69cbae6938de4bd9c'')
   | Some agentAction \<Rightarrow> with_vm E i vm_missing (\<lambda>vm.
       agent_and_token E (vm_HostID vm) (400, ''agent_not_bound'', zh ''e8afa5e8999ae68b9fe69cbae68980e5b19ee5aebfe4b8bbe69cbae69caae7bb91e5ae9a204167656e74efbc8ce697a0e6b395e4b88be58f91e8bf9ce7a88be6938de4bd9c'')
         (zh ''4167656e7420e4bba4e7898ce4b88de58fafe794a8e4ba8ee689a7e8a18ce6938de4bd9cefbc8ce8afb7e9878de696b0e4bf9de5ad98204167656e74'') (\<lambda>a token.
       calling (client_RunVMAction (en_send E) (config_of a token) (vm_Name vm) agentAction) ''agent_vm_action_failed'' [] (\<lambda>_.
       bindp (after_action E vm i a token action) (\<lambda>(shown, later).
       bindp (finished_task rq (''vm.'' @ action) ''virtual_machine'' i
         [''agentAction'' \<mapsto> JStr agentAction, ''agent'' \<mapsto> JStr (agent_name a)]) (\<lambda>t.
       bindp (audit rq (''vm.'' @ action) ''virtual_machine'' i
         [''name'' \<mapsto> JStr (vm_Name vm), ''agent'' \<mapsto> JStr (agent_name a)]) (\<lambda>_.
       respond_with later 200 (AVMTask shown t))))))))"

section \<open>The checks on a host before a machine is created\<close>

text \<open>A check gives the refusal it found.\<close>

type_synonym 'r check = "('r, refusal option) service_prog"

definition passed :: "'r check" where "passed = ret None"
definition failed_check :: "int \<Rightarrow> string \<Rightarrow> string \<Rightarrow> 'r check" where
  "failed_check status code message = ret (Some (status, code, message))"

definition asking :: "('r rt, agent_error, 'a) prog \<Rightarrow> string \<Rightarrow> string \<Rightarrow> ('a \<Rightarrow> 'r check) \<Rightarrow> 'r check" where
  "asking m code prefix k =
    bindp (attempt m) (\<lambda>r. case r of
      Inl e \<Rightarrow> failed_check 503 code (prefix @ UserFacingErrorMessage e)
    | Inr x \<Rightarrow> k x)"

definition and_then :: "'r check \<Rightarrow> 'r check \<Rightarrow> 'r check" where
  "and_then c d = bindp c (\<lambda>r. case r of Some e \<Rightarrow> ret (Some e) | None \<Rightarrow> d)"

definition checked :: "'r check \<Rightarrow> 'r api_prog \<Rightarrow> 'r api_prog" where
  "checked c k = bindp c (\<lambda>r. case r of Some (status, code, message) \<Rightarrow> refuse status code message | None \<Rightarrow> k)"

definition validateRequestedHostResources :: "'r rt http_transport \<Rightarrow> agent_config \<Rightarrow> int \<Rightarrow> int \<Rightarrow> 'r check" where
  "validateRequestedHostResources send cfg maximumCPU maximumMemoryMB =
    (if maximumCPU \<le> 0 \<and> maximumMemoryMB \<le> 0 then passed
     else asking (client_HostInfo send cfg) ''agent_host_resource_precheck_failed'' (zh ''e6a380e69fa5e5aebfe4b8bbe69cbae8b584e6ba90e5a4b1e8b4a5efbc9a'') (\<lambda>info.
       ret (validateHostResourceLimits (hi_CPUCores info) (hi_MemoryBytes info) maximumCPU maximumMemoryMB)))"

definition isTemplateStorageVolume :: "StorageVolume \<Rightarrow> bool" where
  "isTemplateStorageVolume v \<longleftrightarrow> vol_CloneSupported v \<and>
    (let format = (if lower (vol_Format v) = [] then lower (vol_Type v) else lower (vol_Format v)) in
     format \<in> set [''qcow2'', ''raw'', ''qcow'', ''qed''] \<or>
     list_ex (\<lambda>ext. HasSuffix (ToLower (vol_Name v)) ext \<or> HasSuffix (ToLower (vol_Path v)) ext)
       [''.qcow2'', ''.img'', ''.raw'', ''.qcow'', ''.qed''])"

definition validateVMCreateTemplateTargets :: "'r rt http_transport \<Rightarrow> agent_config \<Rightarrow> VMCreateTemplate \<Rightarrow> 'r check" where
  "validateVMCreateTemplateTargets send cfg t =
    asking (client_ListStorageVolumes send cfg (ct_SourcePool t)) ''agent_template_volume_precheck_failed'' (zh ''e6a380e69fa5e6a8a1e69dbfe5ad98e582a8e6b1a0e5a4b1e8b4a5efbc9a'') (\<lambda>sources.
    case find (\<lambda>v. vol_Name v = ct_SourceName t) sources of
      None \<Rightarrow> failed_check 400 ''vm_create_template_not_found'' (zh ''e6a8a1e69dbfe69687e4bbb6e4b88de5ad98e59ca8efbc8ce8afb7e9878de696b0e98089e68ba9'')
    | Some v \<Rightarrow>
        if \<not> isTemplateStorageVolume v
        then failed_check 400 ''vm_create_template_unsupported'' (zh ''e6a8a1e69dbfe69687e4bbb6e4bb85e694afe68c812071636f7732e38081696d67e38081726177e3808171636f77e3808171656420e6a0bce5bc8f'')
        else
          let free = (\<lambda>targets. if list_ex (\<lambda>w. EqualFold (TrimSpace (vol_Name w)) (ct_TargetName t)) targets
                then failed_check 400 ''vm_create_disk_exists''
                  (zh ''e5ad98e582a8e6b1a020'' @ ct_TargetPool t @ zh ''20e4b8ade5b7b2e5ad98e59ca8e58db720'' @ ct_TargetName t @ zh ''efbc8ce8afb7e69bb4e68da2e7a381e79b98e58db7e5908de7a7b0'')
                else passed) in
          if ct_TargetPool t = ct_SourcePool t then free sources
          else asking (client_ListStorageVolumes send cfg (ct_TargetPool t)) ''agent_template_target_precheck_failed''
            (zh ''e6a380e69fa5e79baee6a087e5ad98e582a8e6b1a0e5a4b1e8b4a5efbc9a'') free)"

text \<open>
  The disks by pool; the code ranges over a map, so \<open>order\<close> gives the order in which it meets the pools. Of two
  refusals the first in this order is told.
\<close>

definition check_new_volumes :: "'r rt http_transport \<Rightarrow> agent_config \<Rightarrow> VMCreateDiskRequest list \<Rightarrow> string \<Rightarrow> 'r check" where
  "check_new_volumes send cfg disks pool =
    asking (client_ListStorageVolumes send cfg pool) ''agent_storage_volume_precheck_failed'' (zh ''e6a380e69fa5e5ad98e582a8e6b1a0e58db7e5a4b1e8b4a5efbc9a'') (\<lambda>volumes.
    case find (\<lambda>d. crd_Name d \<in> vol_Name ` set volumes) (filter (\<lambda>d. crd_Pool d = pool) disks) of
      None \<Rightarrow> passed
    | Some d \<Rightarrow> failed_check 400 ''vm_create_disk_exists'' (zh ''e5ad98e582a8e6b1a020'' @ pool @ zh ''20e4b8ade5b7b2e5ad98e59ca8e58db720'' @ crd_Name d @ zh ''efbc8ce8afb7e69bb4e68da2e7a381e79b98e58db7e5908de7a7b0''))"

fun check_each :: "('a \<Rightarrow> 'r check) \<Rightarrow> 'a list \<Rightarrow> 'r check" where
  "check_each f [] = passed"
| "check_each f (x # xs) = and_then (f x) (check_each f xs)"

definition validateVMCreateTargets ::
  "(string list \<Rightarrow> string list) \<Rightarrow> 'r rt http_transport \<Rightarrow> agent_config \<Rightarrow> VMCreateRequest \<Rightarrow> bool \<Rightarrow> 'r check" where
  "validateVMCreateTargets order send cfg request checkResources =
    and_then (if checkResources then validateRequestedHostResources send cfg (cr_MaximumCPU request) (cr_MaximumMemoryMB request) else passed)
    (asking (client_ListVMsFast send cfg) ''agent_vm_create_precheck_failed'' (zh ''e6a380e69fa5e8999ae68b9fe69cbae5908de7a7b0e5a4b1e8b4a5efbc9a'') (\<lambda>vms.
     if list_ex (\<lambda>vm. av_Name vm = cr_Name request) vms
     then failed_check 400 ''vm_create_name_exists'' (zh ''e8999ae68b9fe69cbae5908de7a7b0e5b7b2e5ad98e59ca8efbc8ce8afb7e69bb4e68da2e5908de7a7b0'')
     else if TrimSpace (cr_XML request) \<noteq> [] then passed
     else if cr_CreateMode request = ''template'' then validateVMCreateTemplateTargets send cfg (cr_Template request)
     else check_each (check_new_volumes send cfg (cr_Disks request)) (order (remdups (map crd_Pool (cr_Disks request))))))"

section \<open>Creation\<close>

definition isQemuImageWriteLockMessage :: "string \<Rightarrow> bool" where
  "isQemuImageWriteLockMessage message = (let low = ToLower (Join (GoStrings.Fields (TrimSpace message)) '' '') in
     Contains low (''failed to get shared '' @ [CHR 0x22] @ ''write'' @ [CHR 0x22] @ '' lock'') \<or>
     Contains low (''failed to get '' @ [CHR 0x22] @ ''write'' @ [CHR 0x22] @ '' lock'') \<or>
     Contains low ''is another process using the image'' \<or> Contains low ''is already in use'')"

definition friendlyVMCreateTaskMessage :: "VMCreateRequest \<Rightarrow> string \<Rightarrow> string" where
  "friendlyVMCreateTaskMessage request message =
    (if cr_CreateMode request \<noteq> ''template'' \<or> \<not> isQemuImageWriteLockMessage message then message
     else if TrimSpace (ct_SourceName (cr_Template request)) = []
     then zh ''e5bd93e5898de6a8a1e69dbfe69687e4bbb6e6ada3e59ca8e8a2abe8bf90e8a18ce4b8ade79a84e8999ae68b9fe69cbae4bdbfe794a8efbc8ce697a0e6b395e5858be99a86e38082e8afb7e58588e585b3e997ade4bdbfe794a8e8afa5e6a8a1e69dbfe69687e4bbb6e79a84e8999ae68b9fe69cbae5908ee5868de5889be5bbba''
     else zh ''e6a8a1e69dbfe69687e4bbb620'' @ ct_SourceName (cr_Template request) @ zh ''20e6ada3e59ca8e8a2abe8bf90e8a18ce4b8ade79a84e8999ae68b9fe69cbae4bdbfe794a8efbc8ce697a0e6b395e5858be99a86e38082e8afb7e58588e585b3e997ade4bdbfe794a8e8afa5e6a8a1e69dbfe69687e4bbb6e79a84e8999ae68b9fe69cbae5908ee5868de5889be5bbba'')"

text \<open>The goroutine of the delayed synchronisation follows at once.\<close>

definition sync_fast_then_full :: "('r, 'v) api_env \<Rightarrow> string \<Rightarrow> string \<Rightarrow> ('r, unit) service_prog" where
  "sync_fast_then_full E i token =
    bindp (ignore (SyncAgentWithTokenFast (en_sv E) i token)) (\<lambda>_. SyncAgentWithTokenDelayedFull E i token)"

definition runVMCreateTask ::
  "('r, 'v) api_env \<Rightarrow> api_request \<Rightarrow> agent \<Rightarrow> agent_config \<Rightarrow> VMCreateRequest \<Rightarrow> string \<Rightarrow> ('r, unit) service_prog" where
  "runVMCreateTask E rq a cfg request taskID =
    (let about = (\<lambda>vm. [''agent'' \<mapsto> JStr (agent_name a), ''vm'' \<mapsto> JStr vm]) in
     run_background taskID \<lparr>bj_call = client_CreateVM (en_send E) cfg request,
      bj_unclaimed = (about (cr_Name request))(''message'' \<mapsto> JStr (zh ''e590afe58aa8e8999ae68b9fe69cbae5889be5bbbae4bbbbe58aa1e5a4b1e8b4a5'')),
      bj_unclaimed_message = zh ''e590afe58aa8e8999ae68b9fe69cbae5889be5bbbae4bbbbe58aa1e5a4b1e8b4a5'',
      bj_progress = (about (cr_Name request))(''message'' \<mapsto> JStr (zh ''e6ada3e59ca8e5889be5bbbae8999ae68b9fe69cba'')),
      bj_message = (\<lambda>e. friendlyVMCreateTaskMessage request (UserFacingErrorMessage e)),
      bj_failed_audit = (\<lambda>message. audit rq ''vm.create.failed'' ''agent'' (agent_id a) ((about (cr_Name request))(''error'' \<mapsto> JStr message))),
      bj_done = (\<lambda>config. (about (vc_Name config))(''message'' \<mapsto> JStr (zh ''e8999ae68b9fe69cbae5889be5bbbae5ae8ce68890''))),
      bj_after = (\<lambda>config. bindp (audit rq ''vm.create'' ''agent'' (agent_id a) (about (vc_Name config))) (\<lambda>_.
        sync_fast_then_full E (agent_id a) (cfg_Token cfg)))\<rparr>)"

text \<open>\<open>None\<close> as a body is one that cannot be decoded.\<close>

definition decoded :: "'a option \<Rightarrow> string \<Rightarrow> ('a \<Rightarrow> 'r api_prog) \<Rightarrow> 'r api_prog" where
  "decoded body message k = (case body of None \<Rightarrow> refuse 400 ''invalid_request'' message | Some b \<Rightarrow> k b)"

definition valid :: "string option \<Rightarrow> string \<Rightarrow> 'r api_prog \<Rightarrow> 'r api_prog" where
  "valid e code k = (case e of Some message \<Rightarrow> refuse 400 code message | None \<Rightarrow> k)"

definition domainNameFromXML :: "('r, 'v) api_env \<Rightarrow> string \<Rightarrow> string + string" where
  "domainNameFromXML E input = (case en_xml_name E (TrimSpace input) of
     None \<Rightarrow> Inl (zh ''e8999ae68b9fe69cba20584d4c20e6a0bce5bc8fe4b88de6ada3e7a1ae'')
   | Some name \<Rightarrow> if TrimSpace name = [] then Inl (zh ''e8afb7e59ca820584d4c20e4b8ade9858de7bdaee8999ae68b9fe69cbae5908de7a7b0'') else Inr (TrimSpace name))"

definition handleCreateVM :: "('r, 'v) api_env \<Rightarrow> (string list \<Rightarrow> string list) \<Rightarrow> api_request \<Rightarrow> createVMRequest option \<Rightarrow> 'r api_prog" where
  "handleCreateVM E order rq input = permitted (rq_user rq) ''vms.create'' (
    decoded input (zh ''e5889be5bbbae8999ae68b9fe69cbae58f82e695b0e6a0bce5bc8fe4b88de6ada3e7a1ae'') (\<lambda>body0.
    case (if TrimSpace (cr_XML body0) = [] then Inr body0
          else case domainNameFromXML E (cr_XML body0) of Inl e \<Rightarrow> Inl e | Inr name \<Rightarrow> Inr (body0\<lparr>cr_Name := name\<rparr>)) of
      Inl e \<Rightarrow> refuse 400 ''invalid_vm_create'' e
    | Inr body \<Rightarrow>
        valid (validateCreateVMRequest body) ''invalid_vm_create'' (
        agentTokenForID E (TrimSpace (cr_AgentID body)) (\<lambda>a token.
        let request = create_request body; cfg = config_of a token in
        checked (validateVMCreateTargets order (en_send E) cfg request (cr_XML request = [])) (
        queued_task rq ''vm.create'' ''agent'' (agent_id a)
          [''vm'' \<mapsto> JStr (cr_Name request), ''agent'' \<mapsto> JStr (agent_name a), ''message'' \<mapsto> JStr (zh ''e5889be5bbbae8999ae68b9fe69cbae68e92e9989fe4b8ad'')]
          ''create_vm_task_failed'' (zh ''e5889be5bbbae8999ae68b9fe69cbae4bbbbe58aa1e5a4b1e8b4a5'') (\<lambda>t. runVMCreateTask E rq a cfg request (task_id t)))))))"

section \<open>Migration\<close>

definition runVMMigrateTask ::
  "('r, 'v) api_env \<Rightarrow> api_request \<Rightarrow> VirtualMachine \<Rightarrow> agent \<Rightarrow> string \<Rightarrow> agent \<Rightarrow> string \<Rightarrow> VMMigrateRequest \<Rightarrow> string \<Rightarrow>
   ('r, unit) service_prog" where
  "runVMMigrateTask E rq vm source sourceToken target targetToken request taskID =
    (let about = [''vm'' \<mapsto> JStr (vm_Name vm), ''sourceAgent'' \<mapsto> JStr (agent_name source), ''targetAgent'' \<mapsto> JStr (agent_name target)];
         sv = en_sv E in
     run_background taskID \<lparr>bj_call = client_MigrateVM (en_send E) (config_of source sourceToken) (vm_Name vm) request,
      bj_unclaimed = [''vm'' \<mapsto> JStr (vm_Name vm), ''message'' \<mapsto> JStr (zh ''e590afe58aa8e8999ae68b9fe69cbae8bf81e7a7bbe4bbbbe58aa1e5a4b1e8b4a5'')],
      bj_unclaimed_message = zh ''e590afe58aa8e8999ae68b9fe69cbae8bf81e7a7bbe4bbbbe58aa1e5a4b1e8b4a5'',
      bj_progress = about(''message'' \<mapsto> JStr (zh ''e6ada3e59ca8e8bf81e7a7bbe8999ae68b9fe69cba'')),
      bj_message = UserFacingErrorMessage,
      bj_failed_audit = (\<lambda>message. audit rq ''vm.migrate.failed'' ''virtual_machine'' (vm_ID vm) (about(''error'' \<mapsto> JStr message))),
      bj_done = (\<lambda>_. about(''message'' \<mapsto> JStr (zh ''e8999ae68b9fe69cbae8bf81e7a7bbe5ae8ce68890''))),
      bj_after = (\<lambda>_. bindp (audit rq ''vm.migrate'' ''virtual_machine'' (vm_ID vm) about) (\<lambda>_.
        bindp (ignore (SyncAgentWithTokenFast sv (agent_id source) sourceToken)) (\<lambda>_.
        bindp (ignore (SyncAgentWithTokenFast sv (agent_id target) targetToken)) (\<lambda>_.
        bindp (ignore (SyncAgentWithToken sv (agent_id source) sourceToken)) (\<lambda>_.
        ignore (SyncAgentWithToken sv (agent_id target) targetToken))))))\<rparr>)"

definition handleMigrateVM :: "('r, 'v) api_env \<Rightarrow> api_request \<Rightarrow> migrateVMRequest option \<Rightarrow> string \<Rightarrow> 'r api_prog" where
  "handleMigrateVM E rq input i = decoded input (zh ''e8bf81e7a7bbe8999ae68b9fe69cbae58f82e695b0e6a0bce5bc8fe4b88de6ada3e7a1ae'') (\<lambda>body.
    with_vm E i vm_missing (\<lambda>vm.
    valid (validateMigrateVMRequest body vm) ''invalid_vm_migrate'' (
    agentTokenForVM E vm (\<lambda>source sourceToken.
    agentTokenForID E (TrimSpace (mg_TargetAgentID body)) (\<lambda>target targetToken.
    let request = migrate_request body target in
    if ParseRequestURI (mg_DestinationURI request) = None then refuse 400 ''invalid_vm_migrate'' (zh ''e8bf81e7a7bb2055524920e4b88de6ada3e7a1ae'')
    else queued_task rq ''vm.migrate'' ''virtual_machine'' i
      [''vm'' \<mapsto> JStr (vm_Name vm), ''sourceAgent'' \<mapsto> JStr (agent_name source), ''targetAgent'' \<mapsto> JStr (agent_name target),
       ''message'' \<mapsto> JStr (zh ''e8bf81e7a7bbe8999ae68b9fe69cbae68e92e9989fe4b8ad'')]
      ''create_vm_migrate_task_failed'' (zh ''e5889be5bbbae8999ae68b9fe69cbae8bf81e7a7bbe4bbbbe58aa1e5a4b1e8b4a5'')
      (\<lambda>t. runVMMigrateTask E rq vm source sourceToken target targetToken request (task_id t)))))))"

record migrationSSHKeySetupRequest = MigrationSSHKeySetupRequest +
  msk_TargetAgentID :: string

record migrationHostnameSetupRequest = MigrationHostnameSetupRequest +
  mhn_TargetAgentID :: string

definition firstNonEmptyString :: "string list \<Rightarrow> string" where
  "firstNonEmptyString values = (case find (\<lambda>v. TrimSpace v \<noteq> []) values of None \<Rightarrow> ''-'' | Some v \<Rightarrow> TrimSpace v)"

definition handleSetupVMMigrationSSHKey ::
  "('r, 'v) api_env \<Rightarrow> api_request \<Rightarrow> migrationSSHKeySetupRequest option \<Rightarrow> string \<Rightarrow> 'r api_prog" where
  "handleSetupVMMigrationSSHKey E rq input i = decoded input (zh ''e8bf81e7a7bb2053534820e5858de5af86e9858de7bdaee58f82e695b0e6a0bce5bc8fe4b88de6ada3e7a1ae'') (\<lambda>body.
    with_vm E i vm_missing (\<lambda>vm.
    agentTokenForVM E vm (\<lambda>source sourceToken.
    agentTokenForID E (TrimSpace (msk_TargetAgentID body)) (\<lambda>target _.
    let uri = migration_uri (msk_DestinationURI body) target in
    if TrimSpace (msk_Password body) = [] then refuse 400 ''missing_ssh_password'' (zh ''e8afb7e8be93e585a5e79baee6a087e5aebfe4b8bbe69cba2053534820e5af86e7a081'')
    else calling (client_SetupMigrationSSHKey (en_send E) (config_of source sourceToken)
        \<lparr>msk_DestinationURI = uri, msk_Username = TrimSpace (msk_Username body), msk_Password = msk_Password body\<rparr>)
        ''migration_ssh_key_failed'' (zh ''e9858de7bdaee8bf81e7a7bb2053534820e5858de5af86e5a4b1e8b4a5efbc9a'') (\<lambda>result.
      if \<not> mcr_OK result
      then refuse 400 ''migration_ssh_key_failed'' (firstNonEmptyString [mcr_Message result, zh ''e9858de7bdaee8bf81e7a7bb2053534820e5858de5af86e5a4b1e8b4a5''])
      else bindp (audit rq ''vm.migrate.ssh_key.setup'' ''virtual_machine'' i
          [''vm'' \<mapsto> JStr (vm_Name vm), ''sourceAgent'' \<mapsto> JStr (agent_name source), ''targetAgent'' \<mapsto> JStr (agent_name target),
           ''destinationUri'' \<mapsto> JStr uri, ''username'' \<mapsto> JStr (TrimSpace (msk_Username body))]) (\<lambda>_.
        respond 200 (AMigration result)))))))"

definition handleSetupVMMigrationHostname ::
  "('r, 'v) api_env \<Rightarrow> api_request \<Rightarrow> migrationHostnameSetupRequest option \<Rightarrow> string \<Rightarrow> 'r api_prog" where
  "handleSetupVMMigrationHostname E rq input i = decoded input (zh ''e8bf81e7a7bbe79baee6a087e4b8bbe69cbae5908de9858de7bdaee58f82e695b0e6a0bce5bc8fe4b88de6ada3e7a1ae'') (\<lambda>body.
    with_vm E i vm_missing (\<lambda>vm.
    agentTokenForVM E vm (\<lambda>source sourceToken.
    agentTokenForID E (TrimSpace (mhn_TargetAgentID body)) (\<lambda>target _.
    let uri = migration_uri (mhn_DestinationURI body) target; hostname = TrimSpace (mhn_Hostname body) in
    if ParseRequestURI uri = None then refuse 400 ''invalid_vm_migrate'' (zh ''e8bf81e7a7bb2055524920e4b88de6ada3e7a1ae'')
    else if hostname = [] then refuse 400 ''missing_hostname'' (zh ''e8afb7e8be93e585a5e79baee6a087e5aebfe4b8bbe69cbae4b8bbe69cbae5908d'')
    else calling (client_SetupMigrationHostname (en_send E) (config_of source sourceToken)
        \<lparr>mhn_DestinationURI = uri, mhn_Hostname = hostname\<rparr>) ''migration_hostname_failed'' (zh ''e9858de7bdaee8bf81e7a7bbe79baee6a087e4b8bbe69cbae5908de5a4b1e8b4a5efbc9a'') (\<lambda>result.
      if \<not> mcr_OK result
      then refuse 400 ''migration_hostname_failed'' (firstNonEmptyString [mcr_Message result, zh ''e9858de7bdaee8bf81e7a7bbe79baee6a087e4b8bbe69cbae5908de5a4b1e8b4a5''])
      else bindp (audit rq ''vm.migrate.hostname.setup'' ''virtual_machine'' i
          [''vm'' \<mapsto> JStr (vm_Name vm), ''sourceAgent'' \<mapsto> JStr (agent_name source), ''targetAgent'' \<mapsto> JStr (agent_name target),
           ''destinationUri'' \<mapsto> JStr uri, ''hostname'' \<mapsto> JStr hostname]) (\<lambda>_.
        respond 200 (AMigration result)))))))"

end
