(* ===== verification/Vm_Config_Api.thy ===== *)
theory Vm_Config_Api
  imports Vm_Lifecycle
begin

text \<open>
  The handlers of \<open>api/router/vm_config.go\<close>, \<open>vm_devices.go\<close>, \<open>vm_clone.go\<close>, \<open>vm_clone_tasks.go\<close>,
  \<open>vm_templates.go\<close>, \<open>vm_template_tasks.go\<close> and \<open>console.go\<close>: the configuration of a machine, its clones, its mark
  as a template, its console.
\<close>

definition when_stopped :: "VirtualMachine \<Rightarrow> string \<Rightarrow> 'r api_prog \<Rightarrow> 'r api_prog" where
  "when_stopped vm message k = (if running vm then refuse 400 ''vm_running'' message else k)"

text \<open>What follows a change of a machine: the finished task, the audit log and the answer.\<close>

definition recorded ::
  "api_request \<Rightarrow> string \<Rightarrow> string \<Rightarrow> (string \<rightharpoonup> json) \<Rightarrow> (string \<rightharpoonup> json) \<Rightarrow> (task option \<Rightarrow> 'r api_prog) \<Rightarrow> 'r api_prog" where
  "recorded rq action i payload metadata k =
    bindp (finished_task rq action ''virtual_machine'' i payload) (\<lambda>t.
    bindp (audit rq action ''virtual_machine'' i metadata) (\<lambda>_. k t))"

definition about_vm :: "string \<Rightarrow> VirtualMachine \<Rightarrow> agent \<Rightarrow> (string \<rightharpoonup> json)" where
  "about_vm key vm a = [key \<mapsto> JStr (vm_Name vm), ''agent'' \<mapsto> JStr (agent_name a)]"

section \<open>Configuration\<close>

definition handleGetVMConfig :: "('r, 'v) api_env \<Rightarrow> string \<Rightarrow> 'r api_prog" where
  "handleGetVMConfig E i = with_vm E i vm_missing (\<lambda>vm. agentTokenForVM E vm (\<lambda>a token.
     calling (client_VMConfig (en_send E) (config_of a token) (vm_Name vm)) ''agent_vm_config_failed'' [] (\<lambda>config.
     respond 200 (AConfig config))))"

definition config_metadata :: "VMConfigUpdateRequest \<Rightarrow> (string \<rightharpoonup> json) \<Rightarrow> (string \<rightharpoonup> json)" where
  "config_metadata c m = m(''currentCpu'' \<mapsto> JInt (cu_CurrentCPU c), ''maximumCpu'' \<mapsto> JInt (cu_MaximumCPU c),
     ''currentMemoryMB'' \<mapsto> JInt (cu_CurrentMemoryMB c), ''maximumMemoryMB'' \<mapsto> JInt (cu_MaximumMemoryMB c),
     ''memoryStatsPeriod'' \<mapsto> JInt (cu_MemoryStatsPeriod c))"

definition handleUpdateVMConfig ::
  "('r, 'v) api_env \<Rightarrow> api_request \<Rightarrow> VMConfigUpdateRequest option \<Rightarrow> string \<Rightarrow> 'r api_prog" where
  "handleUpdateVMConfig E rq input i = decoded input (zh ''e8999ae68b9fe69cbae9858de7bdaee58f82e695b0e6a0bce5bc8fe4b88de6ada3e7a1ae'') (\<lambda>body0.
    let body = body0\<lparr>cu_Description := TrimSpace (cu_Description body0)\<rparr> in
    valid (validateVMConfigUpdate body) ''invalid_vm_config'' (
    with_vm E i vm_missing (\<lambda>vm. agentTokenForVM E vm (\<lambda>a token.
    calling (client_UpdateVMConfig (en_send E) (config_of a token) (vm_Name vm) body) ''agent_vm_config_update_failed'' [] (\<lambda>config.
    recorded rq ''vm.config.update'' i (config_metadata body (about_vm ''vm'' vm a)) (config_metadata body (about_vm ''name'' vm a)) (\<lambda>t.
    respond_with [syncVMRuntimeAsync E (agent_id a) token i (vm_Name vm)] 200 (AConfigTask config t)))))))"

definition validateVMRenameTarget :: "'r rt http_transport \<Rightarrow> agent_config \<Rightarrow> string \<Rightarrow> 'r check" where
  "validateVMRenameTarget send cfg name =
    asking (client_ListVMsFast send cfg) ''agent_vm_rename_precheck_failed'' (zh ''e6a380e69fa5e8999ae68b9fe69cbae5908de7a7b0e5a4b1e8b4a5efbc9a'') (\<lambda>vms.
    if list_ex (\<lambda>vm. av_Name vm = name) vms
    then failed_check 400 ''vm_rename_name_exists'' (zh ''e8999ae68b9fe69cbae5908de7a7b0e5b7b2e5ad98e59ca8efbc8ce8afb7e69bb4e68da2e5908de7a7b0'') else passed)"

definition handleRenameVM :: "('r, 'v) api_env \<Rightarrow> api_request \<Rightarrow> VMRenameRequest option \<Rightarrow> string \<Rightarrow> 'r api_prog" where
  "handleRenameVM E rq input i = decoded input (zh ''e8999ae68b9fe69cbae5908de7a7b0e58f82e695b0e6a0bce5bc8fe4b88de6ada3e7a1ae'') (\<lambda>body.
    let name = TrimSpace (rn_Name body) in
    if name = [] then refuse 400 ''invalid_vm_name'' (zh ''e8999ae68b9fe69cbae5908de7a7b0e4b88de883bde4b8bae7a9ba'')
    else with_vm E i vm_missing (\<lambda>vm.
      when_stopped vm (zh ''e8999ae68b9fe69cbae6ada3e59ca8e8bf90e8a18cefbc8ce697a0e6b395e4bfaee694b9e5908de7a7b0efbc8ce8afb7e58588e585b3e997ade8999ae68b9fe69cbae5908ee5868de6938de4bd9c'') (
      agentTokenForVM E vm (\<lambda>a token.
      let cfg = config_of a token in
      if name = vm_Name vm
      then calling (client_VMConfig (en_send E) cfg (vm_Name vm)) ''agent_vm_config_failed'' [] (\<lambda>config.
        respond 200 (AConfigTask config None))
      else checked (validateVMRenameTarget (en_send E) cfg name) (
        calling (client_RenameVM (en_send E) cfg (vm_Name vm) \<lparr>rn_Name = name\<rparr>) ''agent_vm_rename_failed'' [] (\<lambda>config.
        bindp (ignore (SyncAgentWithToken (en_sv E) (agent_id a) token)) (\<lambda>_.
        recorded rq ''vm.rename'' i ((about_vm ''vm'' vm a)(''newName'' \<mapsto> JStr name)) ((about_vm ''name'' vm a)(''newName'' \<mapsto> JStr name)) (\<lambda>t.
        respond 200 (AConfigTask config t)))))))))"

definition handleUpdateVMAutostart ::
  "('r, 'v) api_env \<Rightarrow> api_request \<Rightarrow> VMAutostartUpdateRequest option \<Rightarrow> string \<Rightarrow> 'r api_prog" where
  "handleUpdateVMAutostart E rq input i = decoded input (zh ''e8999ae68b9fe69cbae887aae590afe58aa8e58f82e695b0e6a0bce5bc8fe4b88de6ada3e7a1ae'') (\<lambda>body.
    with_vm E i vm_missing (\<lambda>vm. agentTokenForVM E vm (\<lambda>a token.
    calling (client_UpdateVMAutostart (en_send E) (config_of a token) (vm_Name vm) body) ''agent_vm_autostart_update_failed'' [] (\<lambda>_.
    let autostart = JBool (vau_Autostart body) in
    recorded rq ''vm.autostart.update'' i ((about_vm ''vm'' vm a)(''autostart'' \<mapsto> autostart)) ((about_vm ''name'' vm a)(''autostart'' \<mapsto> autostart)) (\<lambda>t.
    respond_with [syncVMRuntimeAsync E (agent_id a) token i (vm_Name vm)] 200 (AAutostartTask (vau_Autostart body) t))))))"

definition handleUpdateVMConsole ::
  "('r, 'v) api_env \<Rightarrow> api_request \<Rightarrow> VMConsoleUpdateRequest option \<Rightarrow> string \<Rightarrow> 'r api_prog" where
  "handleUpdateVMConsole E rq input i = decoded input (zh ''e68ea7e588b6e58fb0e9858de7bdaee58f82e695b0e6a0bce5bc8fe4b88de6ada3e7a1ae'') (\<lambda>body0.
    let body = body0\<lparr>con_Password := TrimSpace (con_Password body0)\<rparr>; enabled = JBool (con_PasswordEnabled body) in
    if con_PasswordEnabled body \<and> con_Password body = [] then refuse 400 ''invalid_console_password'' (zh ''e8afb7e8be93e585a5e68ea7e588b6e58fb0e5af86e7a081'')
    else with_vm E i vm_missing (\<lambda>vm. agentTokenForVM E vm (\<lambda>a token.
      let cfg = config_of a token;
          update = calling (client_UpdateVMConsole (en_send E) cfg (vm_Name vm) body) ''agent_vm_console_update_failed'' [] (\<lambda>config.
            recorded rq ''vm.console.update'' i ((about_vm ''vm'' vm a)(''passwordEnabled'' \<mapsto> enabled)) ((about_vm ''name'' vm a)(''passwordEnabled'' \<mapsto> enabled)) (\<lambda>t.
            respond 200 (AConfigTask config t))) in
      if \<not> con_PasswordEnabled body \<and> EqualFold (vm_Status vm) ''running''
      then calling (client_VMConfig (en_send E) cfg (vm_Name vm)) ''agent_vm_console_check_failed'' [] (\<lambda>current.
        if cg_PasswordEnabled (vc_Graphics current)
        then refuse 400 ''running_console_password_disable_unsupported'' (zh ''e8bf90e8a18ce4b8ade79a84e8999ae68b9fe69cbae4b88de694afe68c81e585b3e997ade68ea7e588b6e58fb0e5af86e7a081efbc8ce8afb7e58588e585b3e997ade8999ae68b9fe69cbae5908ee5868de6938de4bd9c'')
        else update)
      else update)))"

definition handleConnectVMMedia ::
  "('r, 'v) api_env \<Rightarrow> api_request \<Rightarrow> VMMediaConnectRequest option \<Rightarrow> string \<Rightarrow> 'r api_prog" where
  "handleConnectVMMedia E rq input i = decoded input (zh ''e4bb8be8b4a8e8bf9ee68ea5e58f82e695b0e6a0bce5bc8fe4b88de6ada3e7a1ae'') (\<lambda>body.
    let target = TrimSpace (mco_Target body); iso = TrimSpace (mco_ISOPath body);
        more = (\<lambda>m. m(''target'' \<mapsto> JStr target, ''isoPath'' \<mapsto> JStr iso)) in
    if target = [] then refuse 400 ''invalid_vm_media'' (zh ''e8afb7e98089e68ba9e8a681e8bf9ee68ea5e79a84e58589e9a9b1'')
    else if iso = [] then refuse 400 ''invalid_vm_media'' (zh ''e8afb7e98089e68ba92049534f20e69687e4bbb6'')
    else with_vm E i vm_missing (\<lambda>vm. agentTokenForVM E vm (\<lambda>a token.
      calling (client_ConnectVMMedia (en_send E) (config_of a token) (vm_Name vm) \<lparr>mco_Target = target, mco_ISOPath = iso\<rparr>)
        ''agent_vm_media_connect_failed'' [] (\<lambda>config.
      recorded rq ''vm.media.connect'' i (more (about_vm ''vm'' vm a)) (more (about_vm ''name'' vm a)) (\<lambda>t.
      respond_with [syncVMRuntimeAsync E (agent_id a) token i (vm_Name vm)] 200 (AConfigTask config t))))))"

definition handleDisconnectVMMedia ::
  "('r, 'v) api_env \<Rightarrow> api_request \<Rightarrow> VMMediaDisconnectRequest option \<Rightarrow> string \<Rightarrow> 'r api_prog" where
  "handleDisconnectVMMedia E rq input i = decoded input (zh ''e4bb8be8b4a8e696ade5bc80e58f82e695b0e6a0bce5bc8fe4b88de6ada3e7a1ae'') (\<lambda>body.
    let target = TrimSpace (mdi_Target body) in
    if target = [] then refuse 400 ''invalid_vm_media'' (zh ''e8afb7e98089e68ba9e8a681e696ade5bc80e79a84e58589e9a9b1'')
    else with_vm E i vm_missing (\<lambda>vm. agentTokenForVM E vm (\<lambda>a token.
      calling (client_DisconnectVMMedia (en_send E) (config_of a token) (vm_Name vm) \<lparr>mdi_Target = target\<rparr>)
        ''agent_vm_media_disconnect_failed'' [] (\<lambda>config.
      recorded rq ''vm.media.disconnect'' i ((about_vm ''vm'' vm a)(''target'' \<mapsto> JStr target)) ((about_vm ''name'' vm a)(''target'' \<mapsto> JStr target)) (\<lambda>t.
      respond_with [syncVMRuntimeAsync E (agent_id a) token i (vm_Name vm)] 200 (AConfigTask config t))))))"

definition handleUpdateVMXML :: "('r, 'v) api_env \<Rightarrow> api_request \<Rightarrow> VMXMLUpdateRequest option \<Rightarrow> string \<Rightarrow> 'r api_prog" where
  "handleUpdateVMXML E rq input i = decoded input (zh ''e8999ae68b9fe69cba20584d4c20e58f82e695b0e6a0bce5bc8fe4b88de6ada3e7a1ae'') (\<lambda>body.
    let xml = TrimSpace (xu_XML body) in
    if xml = [] then refuse 400 ''invalid_vm_xml'' (zh ''e8999ae68b9fe69cba20584d4c20e4b88de883bde4b8bae7a9ba'')
    else with_vm E i vm_missing (\<lambda>vm.
      when_stopped vm (zh ''e8999ae68b9fe69cbae6ada3e59ca8e8bf90e8a18cefbc8ce697a0e6b395e4bfaee694b920584d4cefbc8ce8afb7e58588e585b3e997ade8999ae68b9fe69cbae5908ee5868de6938de4bd9c'') (
      agentTokenForVM E vm (\<lambda>a token.
      calling (client_UpdateVMXML (en_send E) (config_of a token) (vm_Name vm) \<lparr>xu_XML = xml\<rparr>) ''agent_vm_xml_update_failed'' [] (\<lambda>config.
      recorded rq ''vm.xml.update'' i (about_vm ''vm'' vm a) (about_vm ''name'' vm a) (\<lambda>t.
      respond_with [syncVMRuntimeAsync E (agent_id a) token i (vm_Name vm)] 200 (AConfigTask config t)))))))"

section \<open>Devices\<close>

definition devices_metadata :: "VMDeviceUpdateRequest \<Rightarrow> (string \<rightharpoonup> json) \<Rightarrow> (string \<rightharpoonup> json)" where
  "devices_metadata d m = m(''interfaces'' \<mapsto> JInt (int (length (du_Interfaces d))), ''newInterfaces'' \<mapsto> JInt (int (length (du_NewInterfaces d))),
       ''deletedInterfaces'' \<mapsto> JInt (int (length (du_DeletedInterfaces d))), ''diskResizes'' \<mapsto> JInt (int (length (du_DiskResizes d))),
       ''newDisks'' \<mapsto> JInt (int (length (du_NewDisks d))), ''deletedDisks'' \<mapsto> JInt (int (length (du_DeletedDisks d))))"

definition handleUpdateVMDevices ::
  "('r, 'v) api_env \<Rightarrow> api_request \<Rightarrow> VMDeviceUpdateRequest option \<Rightarrow> string \<Rightarrow> 'r api_prog" where
  "handleUpdateVMDevices E rq input i = decoded input (zh ''e8999ae68b9fe69cbae8aebee5a487e58f82e695b0e6a0bce5bc8fe4b88de6ada3e7a1ae'') (\<lambda>body.
    valid (validateVMDevicesUpdate body) ''invalid_vm_devices'' (
    with_vm E i vm_missing (\<lambda>vm.
    valid (if running vm then validateRunningVMDevicesUpdate body else None) ''vm_running'' (
    agentTokenForVM E vm (\<lambda>a token.
    let request = devices_request body in
    calling (client_UpdateVMDevices (en_send E) (config_of a token) (vm_Name vm) request) ''agent_vm_devices_update_failed'' [] (\<lambda>config.
    recorded rq ''vm.devices.update'' i (devices_metadata request (about_vm ''vm'' vm a)) (devices_metadata request (about_vm ''name'' vm a)) (\<lambda>t.
    respond_with [syncVMRuntimeAsync E (agent_id a) token i (vm_Name vm)] 200 (AConfigTask config t))))))))"

section \<open>Clones\<close>

text \<open>The first target that an earlier disk has already; \<open>seen\<close> has the pools and names so far.\<close>

fun duplicate_target :: "(string \<times> string) list \<Rightarrow> VMCloneDiskRequest list \<Rightarrow> (string \<times> string) option" where
  "duplicate_target seen [] = None"
| "duplicate_target seen (d # ds) = (let key = (TrimSpace (kd_Pool d), TrimSpace (kd_TargetName d)) in
     if key \<in> set seen then Some key else duplicate_target (key # seen) ds)"

definition clone_targets :: "VMCloneRequest \<Rightarrow> string \<Rightarrow> string list" where
  "clone_targets request pool = map (\<lambda>d. TrimSpace (kd_TargetName d)) (filter (\<lambda>d. TrimSpace (kd_Pool d) = pool) (cl_Disks request))"

definition check_clone_pool :: "'r rt http_transport \<Rightarrow> agent_config \<Rightarrow> VMCloneRequest \<Rightarrow> string \<Rightarrow> 'r check" where
  "check_clone_pool send cfg request pool =
    asking (client_ListStorageVolumes send cfg pool) ''agent_storage_volume_precheck_failed'' (zh ''e6a380e69fa5e5ad98e582a8e6b1a020'' @ pool @ zh ''20e4b8ade79a84e58db7e5a4b1e8b4a5efbc9a'') (\<lambda>volumes.
    case find (\<lambda>v. vol_Name v \<in> set (clone_targets request pool)) volumes of
      None \<Rightarrow> passed
    | Some v \<Rightarrow> failed_check 400 ''vm_clone_disk_target_exists'' (zh ''e5ad98e582a8e6b1a020'' @ pool @ zh ''20e4b8ade5b7b2e5ad98e59ca8e58db720'' @ vol_Name v @ zh ''efbc8ce8afb7e69bb4e68da2e5ad98e582a8e9858de7bdaee5908de7a7b0''))"

text \<open>The code ranges over a map of the pools; \<open>order\<close> gives the order in which it meets them.\<close>

definition validateVMCloneTargets ::
  "(string list \<Rightarrow> string list) \<Rightarrow> 'r rt http_transport \<Rightarrow> agent_config \<Rightarrow> VMCloneRequest \<Rightarrow> 'r check" where
  "validateVMCloneTargets order send cfg request =
    and_then (validateRequestedHostResources send cfg (cl_MaximumCPU request) (cl_MaximumMemoryMB request))
    (asking (client_ListVMsFast send cfg) ''agent_vm_clone_precheck_failed'' (zh ''e6a380e69fa5e5858be99a86e8999ae68b9fe69cbae5908de7a7b0e5a4b1e8b4a5efbc9a'') (\<lambda>vms.
     if list_ex (\<lambda>vm. av_Name vm = cl_Name request) vms
     then failed_check 400 ''vm_clone_name_exists'' (zh ''e5858be99a86e5908de7a7b0e5b7b2e5ad98e59ca8efbc8ce8afb7e69bb4e68da2e5858be99a86e5908de7a7b0'')
     else case duplicate_target [] (cl_Disks request) of
       Some (pool, target) \<Rightarrow> failed_check 400 ''vm_clone_disk_target_duplicated'' (zh ''e5ad98e582a8e6b1a020'' @ pool @ zh ''20e4b8ade79a84e79baee6a087e58db7e5908de9878de5a48defbc9a'' @ target)
     | None \<Rightarrow> check_each (check_clone_pool send cfg request) (order (remdups (map (\<lambda>d. TrimSpace (kd_Pool d)) (cl_Disks request))))))"

text \<open>A clone of the machine \<open>source\<close>; \<open>about\<close> names it in the task and \<open>key\<close> the new machine.\<close>

definition clone_job ::
  "('r, 'v) api_env \<Rightarrow> api_request \<Rightarrow> agent \<Rightarrow> agent_config \<Rightarrow> VirtualMachine \<Rightarrow> VMCloneRequest \<Rightarrow> string \<Rightarrow> string \<Rightarrow> (string \<rightharpoonup> json) \<Rightarrow> string \<Rightarrow>
   string \<Rightarrow> string \<Rightarrow> string \<Rightarrow> ('r, VMConfig) background_job" where
  "clone_job E rq a cfg source request sourceID action about key unclaimed doing finished =
    \<lparr>bj_call = client_CloneVM (en_send E) cfg (vm_Name source) request,
     bj_unclaimed = about(key \<mapsto> JStr (cl_Name request), ''message'' \<mapsto> JStr unclaimed),
     bj_unclaimed_message = unclaimed,
     bj_progress = about(key \<mapsto> JStr (cl_Name request), ''message'' \<mapsto> JStr doing),
     bj_message = UserFacingErrorMessage,
     bj_failed_audit = (\<lambda>message. audit rq (action @ ''.failed'') ''virtual_machine'' sourceID (about(key \<mapsto> JStr (cl_Name request), ''error'' \<mapsto> JStr message))),
     bj_done = (\<lambda>config. about(key \<mapsto> JStr (vc_Name config), ''message'' \<mapsto> JStr finished)),
     bj_after = (\<lambda>config. bindp (audit rq action ''virtual_machine'' sourceID (about(key \<mapsto> JStr (vc_Name config)))) (\<lambda>_.
       sync_fast_then_full E (agent_id a) (cfg_Token cfg)))\<rparr>"

definition runVMCloneTask ::
  "('r, 'v) api_env \<Rightarrow> api_request \<Rightarrow> string \<Rightarrow> VirtualMachine \<Rightarrow> agent \<Rightarrow> agent_config \<Rightarrow> VMCloneRequest \<Rightarrow> string \<Rightarrow> ('r, unit) service_prog" where
  "runVMCloneTask E rq sourceID source a cfg request taskID = run_background taskID
     (clone_job E rq a cfg source request sourceID ''vm.clone'' [''agent'' \<mapsto> JStr (agent_name a), ''vm'' \<mapsto> JStr (vm_Name source)] ''clone''
       (zh ''e590afe58aa8e8999ae68b9fe69cbae5858be99a86e4bbbbe58aa1e5a4b1e8b4a5'') (zh ''e6ada3e59ca8e5858be99a86e8999ae68b9fe69cba'') (zh ''e8999ae68b9fe69cbae5858be99a86e5ae8ce68890''))"

text \<open>The checks of a clone that come before the machine is looked up; \<open>code\<close> and the messages are those of the handler.\<close>

definition clone_body ::
  "VMCloneRequest option \<Rightarrow> string \<Rightarrow> string \<Rightarrow> string \<Rightarrow> string \<Rightarrow> (VMCloneRequest \<Rightarrow> 'r api_prog) \<Rightarrow> 'r api_prog" where
  "clone_body input malformed code nameless diskless k = decoded input malformed (\<lambda>body0.
    let body = body0\<lparr>cl_Name := TrimSpace (cl_Name body0)\<rparr> in
    if cl_Name body = [] then refuse 400 code nameless
    else if cl_Disks body = [] then refuse 400 code diskless
    else valid (validateVMCloneRequest body) code (k body))"

definition handleCloneVM ::
  "('r, 'v) api_env \<Rightarrow> (string list \<Rightarrow> string list) \<Rightarrow> api_request \<Rightarrow> VMCloneRequest option \<Rightarrow> string \<Rightarrow> 'r api_prog" where
  "handleCloneVM E order rq input i =
    clone_body input (zh ''e8999ae68b9fe69cbae5858be99a86e58f82e695b0e6a0bce5bc8fe4b88de6ada3e7a1ae'') ''invalid_vm_clone'' (zh ''e5858be99a86e5908de7a7b0e4b88de883bde4b8bae7a9ba'') (zh ''e8afb7e98089e68ba9e8a681e5858be99a86e79a84e7a381e79b98'') (\<lambda>body.
    with_vm E i vm_missing (\<lambda>vm.
    when_stopped vm (zh ''e8999ae68b9fe69cbae6ada3e59ca8e8bf90e8a18cefbc8ce697a0e6b395e5858be99a86efbc8ce8afb7e58588e585b3e997ade8999ae68b9fe69cbae5908ee5868de6938de4bd9c'') (
    agentTokenForVM E vm (\<lambda>a token.
    let request = buildVMCloneAgentRequest body; cfg = config_of a token in
    checked (validateVMCloneTargets order (en_send E) cfg request) (
    queued_task rq ''vm.clone'' ''virtual_machine'' i
      [''vm'' \<mapsto> JStr (vm_Name vm), ''clone'' \<mapsto> JStr (cl_Name request), ''agent'' \<mapsto> JStr (agent_name a), ''message'' \<mapsto> JStr (zh ''e5858be99a86e8999ae68b9fe69cbae68e92e9989fe4b8ad'')]
      ''create_vm_clone_task_failed'' (zh ''e5889be5bbbae8999ae68b9fe69cbae5858be99a86e4bbbbe58aa1e5a4b1e8b4a5'') (\<lambda>t. runVMCloneTask E rq i vm a cfg request (task_id t)))))))"

section \<open>Templates\<close>

record markVMTemplateRequest =
  mk_Name :: string
  mk_Description :: string

definition handleMarkVMTemplate ::
  "('r, 'v) api_env \<Rightarrow> api_request \<Rightarrow> markVMTemplateRequest option \<Rightarrow> string \<Rightarrow> 'r api_prog" where
  "handleMarkVMTemplate E rq input i = decoded input (zh ''e6a8a1e69dbfe6a087e8aeb0e58f82e695b0e6a0bce5bc8fe4b88de6ada3e7a1ae'') (\<lambda>body.
    let name = TrimSpace (mk_Name body); description = TrimSpace (mk_Description body) in
    if name = [] then refuse 400 ''invalid_vm_template'' (zh ''e6a8a1e69dbfe5908de7a7b0e4b88de883bde4b8bae7a9ba'')
    else if length description > 2048 then refuse 400 ''invalid_vm_template'' (zh ''e6a8a1e69dbfe68f8fe8bfb0e4b88de883bde8b685e8bf87203230343820e4b8aae5ad97e7aca6'')
    else with_vm E i vm_missing (\<lambda>vm.
      if TrimSpace (vm_UUID vm) = [] then refuse 400 ''vm_uuid_required'' (zh ''e5bd93e5898de8999ae68b9fe69cbae7bcbae5b0912055554944efbc8ce697a0e6b395e6a087e8aeb0e4b8bae6a8a1e69dbf'')
      else when_stopped vm (zh ''e8999ae68b9fe69cbae6ada3e59ca8e8bf90e8a18cefbc8ce697a0e6b395e6a087e8aeb0e4b8bae6a8a1e69dbfefbc8ce8afb7e58588e585b3e997ade8999ae68b9fe69cbae5908ee5868de6938de4bd9c'') (
        bindp (attempt (on_store (UpsertVMTemplateMark (vm_HostID vm) (vm_UUID vm) name description (ID (rq_user rq))))) (\<lambda>r. case r of
          Inl _ \<Rightarrow> refuse 500 ''mark_vm_template_failed'' (zh ''e6a087e8aeb0e8999ae68b9fe69cbae6a8a1e69dbfe5a4b1e8b4a5'')
        | Inr mark \<Rightarrow>
            recorded rq ''vm.template.mark'' i
              [''vm'' \<mapsto> JStr (vm_Name vm), ''template'' \<mapsto> JStr (tm_name mark), ''message'' \<mapsto> JStr (zh ''e8999ae68b9fe69cbae5b7b2e6a087e8aeb0e4b8bae6a8a1e69dbf'')]
              [''name'' \<mapsto> JStr (vm_Name vm), ''template'' \<mapsto> JStr (tm_name mark)] (\<lambda>t.
            respond 200 (AMarkTask mark t))))))"

definition handleUnmarkVMTemplate :: "('r, 'v) api_env \<Rightarrow> api_request \<Rightarrow> string \<Rightarrow> 'r api_prog" where
  "handleUnmarkVMTemplate E rq i = with_vm E i vm_missing (\<lambda>vm.
    if TrimSpace (vm_UUID vm) = [] then refuse 400 ''vm_uuid_required'' (zh ''e5bd93e5898de8999ae68b9fe69cbae7bcbae5b0912055554944efbc8ce697a0e6b395e58f96e6b688e6a8a1e69dbfe6a087e8aeb0'')
    else bindp (attempt (on_store (DeleteVMTemplateMark (vm_HostID vm) (vm_UUID vm)))) (\<lambda>r. case r of
      Inl e \<Rightarrow>
        if e = RepoError ErrNotFound then refuse 404 ''vm_template_not_found'' (zh ''e5bd93e5898de8999ae68b9fe69cbae69caae6a087e8aeb0e4b8bae6a8a1e69dbf'')
        else refuse 500 ''unmark_vm_template_failed'' (zh ''e58f96e6b688e8999ae68b9fe69cbae6a8a1e69dbfe6a087e8aeb0e5a4b1e8b4a5'')
    | Inr _ \<Rightarrow>
        recorded rq ''vm.template.unmark'' i
          [''vm'' \<mapsto> JStr (vm_Name vm), ''message'' \<mapsto> JStr (zh ''e5b7b2e58f96e6b688e8999ae68b9fe69cbae6a8a1e69dbfe6a087e8aeb0'')]
          [''name'' \<mapsto> JStr (vm_Name vm), ''template'' \<mapsto> JStr (vm_TemplateName vm)] (\<lambda>t.
        respond 200 (AStatusTask t))))"

definition templateDisplayName :: "VirtualMachine \<Rightarrow> string" where
  "templateDisplayName vm = (if TrimSpace (vm_TemplateName vm) \<noteq> [] then vm_TemplateName vm else vm_Name vm)"

definition runVMTemplateCreateTask ::
  "('r, 'v) api_env \<Rightarrow> api_request \<Rightarrow> VirtualMachine \<Rightarrow> agent \<Rightarrow> agent_config \<Rightarrow> VMCloneRequest \<Rightarrow> string \<Rightarrow> ('r, unit) service_prog" where
  "runVMTemplateCreateTask E rq t a cfg request taskID = run_background taskID
     (clone_job E rq a cfg t request (vm_ID t) ''vm.template.create''
       [''agent'' \<mapsto> JStr (agent_name a), ''template'' \<mapsto> JStr (templateDisplayName t)] ''vm''
       (zh ''e590afe58aa8e6a8a1e69dbfe5889be5bbbae4bbbbe58aa1e5a4b1e8b4a5'') (zh ''e6ada3e59ca8e4bb8ee6a8a1e69dbfe5889be5bbbae8999ae68b9fe69cba'') (zh ''e4bb8ee6a8a1e69dbfe5889be5bbbae8999ae68b9fe69cbae5ae8ce68890''))"

definition handleCreateVMFromTemplate ::
  "('r, 'v) api_env \<Rightarrow> (string list \<Rightarrow> string list) \<Rightarrow> api_request \<Rightarrow> VMCloneRequest option \<Rightarrow> string \<Rightarrow> 'r api_prog" where
  "handleCreateVMFromTemplate E order rq input i =
    clone_body input (zh ''e6a8a1e69dbfe5889be5bbbae58f82e695b0e6a0bce5bc8fe4b88de6ada3e7a1ae'') ''invalid_vm_template_create'' (zh ''e8999ae68b9fe69cbae5908de7a7b0e4b88de883bde4b8bae7a9ba'') (zh ''e8afb7e9858de7bdaee4bb8ee6a8a1e69dbfe5858be99a86e79a84e7a381e79b98'') (\<lambda>body.
    with_vm E i (zh ''e6a8a1e69dbfe8999ae68b9fe69cbae4b88de5ad98e59ca8'') (\<lambda>vm.
    if \<not> vm_IsTemplate vm then refuse 400 ''vm_template_required'' (zh ''e8afb7e98089e68ba9e5b7b2e6a087e8aeb0e79a84e8999ae68b9fe69cbae6a8a1e69dbf'')
    else when_stopped vm (zh ''e6a8a1e69dbfe8999ae68b9fe69cbae6ada3e59ca8e8bf90e8a18cefbc8ce697a0e6b395e5889be5bbbaefbc8ce8afb7e58588e585b3e997ade6a8a1e69dbfe8999ae68b9fe69cbae5908ee5868de6938de4bd9c'') (
    agentTokenForVM E vm (\<lambda>a token.
    let request = buildVMCloneAgentRequest body; cfg = config_of a token in
    checked (validateVMCloneTargets order (en_send E) cfg request) (
    queued_task rq ''vm.template.create'' ''virtual_machine'' i
      [''template'' \<mapsto> JStr (templateDisplayName vm), ''vm'' \<mapsto> JStr (cl_Name request), ''agent'' \<mapsto> JStr (agent_name a),
       ''message'' \<mapsto> JStr (zh ''e4bb8ee6a8a1e69dbfe5889be5bbbae8999ae68b9fe69cbae68e92e9989fe4b8ad'')]
      ''create_vm_template_task_failed'' (zh ''e5889be5bbbae6a8a1e69dbfe8999ae68b9fe69cbae4bbbbe58aa1e5a4b1e8b4a5'') (\<lambda>t. runVMTemplateCreateTask E rq vm a cfg request (task_id t)))))))"

section \<open>Console\<close>

definition handleGetVMConsole :: "('r, 'v) api_env \<Rightarrow> string \<Rightarrow> 'r api_prog" where
  "handleGetVMConsole E i = with_vm E i vm_missing (\<lambda>vm. agentTokenForID E (vm_HostID vm) (\<lambda>a token.
     calling (client_ConsoleInfo (en_send E) (config_of a token) (vm_Name vm)) ''agent_vm_console_failed'' [] (\<lambda>info.
     respond 200 (AConsole info))))"

definition parseVMConsolePath :: "string \<Rightarrow> string option" where
  "parseVMConsolePath path = (let parts = Split CHR ''/'' (TrimCut (TrimPrefix path ''/api/vms/'') ''/'') in
     case parts of
       [i, c, w] \<Rightarrow> if c = ''console'' \<and> w = ''ws'' \<and> i \<noteq> [] then Some i else None
     | _ \<Rightarrow> None)"

definition agentConsoleURL :: "string \<Rightarrow> string \<Rightarrow> string option" where
  "agentConsoleURL endpoint vmName = (case url_Parse (TrimSpace endpoint) of
     None \<Rightarrow> None
   | Some u \<Rightarrow>
       let scheme = u_Scheme u;
           socket = (if scheme = ''http'' then Some ''ws'' else if scheme = ''https'' then Some ''wss''
             else if scheme \<in> {''ws'', ''wss''} then Some scheme else None) in
       case socket of
         None \<Rightarrow> None
       | Some s \<Rightarrow> Some (url_String (u\<lparr>u_Scheme := s,
             u_Path := TrimRight (u_Path u) ''/'' @ ''/v1/vms/'' @ urlPathEscape vmName @ ''/console/ws'', u_RawQuery := []\<rparr>)))"

text \<open>
  \<open>upgrade\<close> is the status the websocket library answers when it does not upgrade the request, \<open>dial\<close> the connection to
  the agent. A connection that stands is written to the audit log, and then bytes go in both directions.
\<close>

definition handleVMConsoleWS ::
  "('r, 'v) api_env \<Rightarrow> int option \<Rightarrow> (bool \<Rightarrow> string \<Rightarrow> string \<Rightarrow> ('r, bool) service_prog) \<Rightarrow> api_request \<Rightarrow> string \<Rightarrow> 'r api_prog" where
  "handleVMConsoleWS E upgrade dial rq i = with_vm E i vm_missing (\<lambda>vm.
    if vm_Status vm \<noteq> ''running'' then refuse 400 ''vm_not_running'' (zh ''e8999ae68b9fe69cbae69caae8bf90e8a18cefbc8ce697a0e6b395e68993e5bc80e68ea7e588b6e58fb0'')
    else agent_and_token E (vm_HostID vm) (400, ''agent_not_bound'', zh ''e8afa5e8999ae68b9fe69cbae68980e5b19ee5aebfe4b8bbe69cbae69caae7bb91e5ae9a204167656e74'')
      (zh ''4167656e7420e4bba4e7898ce4b88de58fafe794a8e4ba8ee68993e5bc80e68ea7e588b6e58fb0'') (\<lambda>a token.
      case agentConsoleURL (agent_endpoint a) (vm_Name vm) of
        None \<Rightarrow> refuse 400 ''invalid_agent_endpoint'' (zh ''4167656e7420e59cb0e59d80e4b88de6ada3e7a1ae'')
      | Some address \<Rightarrow> (case upgrade of
          Some status \<Rightarrow> respond status (ASocket address False)
        | None \<Rightarrow>
            bindp (dial (agent_tls_insecure a) address token) (\<lambda>connected.
            if \<not> connected then respond 101 (ASocket address False)
            else bindp (audit rq ''vm.console'' ''virtual_machine'' i [''name'' \<mapsto> JStr (vm_Name vm), ''agent'' \<mapsto> JStr (agent_name a)]) (\<lambda>_.
              respond 101 (ASocket address True))))))"

end
