(* ===== verification/Vm_Migrate_Check.thy ===== *)
theory Vm_Migrate_Check
  imports Vm_Lifecycle
begin

text \<open>
  The check of a migration before it starts (\<open>api/router/vm_migrate_precheck.go\<close>): the resources of the target, its
  names, networks, storage and the channel between the hosts. Every check adds an item to the report, the first
  that fails ends it.
\<close>

section \<open>Paths\<close>

text \<open>\<open>filepath.Clean\<close>, \<open>filepath.Base\<close> on a system with slashes.\<close>

fun clean_elements :: "bool \<Rightarrow> string list \<Rightarrow> string list \<Rightarrow> string list" where
  "clean_elements rooted seen [] = rev seen"
| "clean_elements rooted seen (e # es) =
    (if e = [] \<or> e = ''.'' then clean_elements rooted seen es
     else if e = ''..'' then
       (case seen of
          s # ss \<Rightarrow> if s = ''..'' then clean_elements rooted (e # seen) es else clean_elements rooted ss es
        | [] \<Rightarrow> if rooted then clean_elements rooted [] es else clean_elements rooted [e] es)
     else clean_elements rooted (e # seen) es)"

definition filepath_Clean :: "string \<Rightarrow> string" where
  "filepath_Clean path = (let rooted = HasPrefix path ''/''; elements = clean_elements rooted [] (Split CHR ''/'' path) in
     if rooted then ''/'' @ Join elements ''/'' else if elements = [] then ''.'' else Join elements ''/'')"

definition filepath_Base :: "string \<Rightarrow> string" where
  "filepath_Base path =
    (if path = [] then ''.''
     else let p = TrimRight path ''/'' in
       if p = [] then ''/'' else rev (takeWhile (\<lambda>c. c \<noteq> CHR ''/'') (rev p)))"

definition cleanMigrationStoragePath :: "string \<Rightarrow> string" where
  "cleanMigrationStoragePath path = (if TrimSpace path = [] then [] else filepath_Clean (TrimSpace path))"

definition migrationPathHasPoolPrefix :: "string \<Rightarrow> string \<Rightarrow> bool" where
  "migrationPathHasPoolPrefix path poolPath \<longleftrightarrow> path = poolPath \<or>
     (HasPrefix path poolPath \<and>
      (let remainder = TrimPrefix path poolPath in HasPrefix remainder ''/'' \<or> HasPrefix remainder [CHR 0x5C]))"

section \<open>Reports\<close>

definition add_item :: "string \<Rightarrow> string \<Rightarrow> string \<Rightarrow> string \<Rightarrow> string \<Rightarrow> migrationPrecheckReport \<Rightarrow> migrationPrecheckReport" where
  "add_item status key label message code r = r\<lparr>mr_Items := mr_Items r @
     [\<lparr>mi_Key = key, mi_Label = label, mi_Status = status, mi_Message = message, mi_Code = code\<rparr>]\<rparr>"

definition addPassed :: "string \<Rightarrow> string \<Rightarrow> string \<Rightarrow> migrationPrecheckReport \<Rightarrow> migrationPrecheckReport" where
  "addPassed key label message = add_item ''passed'' key label message []"

definition addSkipped :: "string \<Rightarrow> string \<Rightarrow> string \<Rightarrow> migrationPrecheckReport \<Rightarrow> migrationPrecheckReport" where
  "addSkipped key label message = add_item ''skipped'' key label message []"

definition withFailure :: "migrationPrecheckReport \<Rightarrow> string \<Rightarrow> string \<Rightarrow> string \<Rightarrow> int \<Rightarrow> string \<Rightarrow> migrationPrecheckReport" where
  "withFailure r key label message status code = add_item ''failed'' key label message code
     (r\<lparr>mr_Passed := False, mr_FailureStatus := status, mr_FailureCode := code, mr_FailureMessage := message\<rparr>)"

definition empty_report :: migrationPrecheckReport where
  "empty_report = \<lparr>mr_Passed = True, mr_Items = [], mr_FailureStatus = 0, mr_FailureCode = [], mr_FailureMessage = []\<rparr>"

section \<open>The target\<close>

text \<open>
  \<open>%.1f\<close> of a size as a \<open>float64\<close>: the 53 bits of the conversion, the exact division by a power of two, and the
  nearest tenth, at a tie the even one.
\<close>

definition round_even :: "int \<Rightarrow> int \<Rightarrow> int" where
  "round_even n d = (let q = n div d; r = n mod d in
     if 2 * r > d \<or> (2 * r = d \<and> odd q) then q + 1 else q)"

definition float_of :: "int \<Rightarrow> int" where
  "float_of v = (case find (\<lambda>k. v < 2 ^ (53 + k)) [0..<11] of
     None \<Rightarrow> v | Some k \<Rightarrow> round_even v (2 ^ k) * 2 ^ k)"

definition tenths :: "int \<Rightarrow> int \<Rightarrow> string" where
  "tenths v unit = (let t = round_even (10 * float_of v) unit in Itoa (t div 10) @ ''.'' @ Itoa (t mod 10))"

definition formatMigrationBytes :: "int \<Rightarrow> string" where
  "formatMigrationBytes v =
    (if v \<ge> 2 ^ 30 then tenths v (2 ^ 30) @ '' GB''
     else if v \<ge> 2 ^ 20 then tenths v (2 ^ 20) @ '' MB''
     else Itoa v @ '' B'')"

definition validateMigrationTargetResources :: "VMConfig \<Rightarrow> HostInfo \<Rightarrow> string option" where
  "validateMigrationTargetResources config target =
    (let requiredCPU = (if vc_MaximumCPU config \<le> 0 then vc_CurrentCPU config else vc_MaximumCPU config);
         requiredMemory = (if vc_MaximumMemoryBytes config \<le> 0 then vc_CurrentMemoryBytes config else vc_MaximumMemoryBytes config) in
     if hi_CPUCores target > 0 \<and> requiredCPU > hi_CPUCores target
     then Some (zh ''e79baee6a087e5aebfe4b8bbe69cba2043505520e4b88de8b6b3efbc8ce8999ae68b9fe69cbae69c80e5a4a72043505520e4b8ba20'' @ Itoa requiredCPU @ zh ''efbc8ce79baee6a087e5aebfe4b8bbe69cbae980bbe8be912043505520e4b8ba20'' @ Itoa (hi_CPUCores target))
     else if hi_MemoryBytes target > 0 \<and> requiredMemory > hi_MemoryBytes target
     then Some (zh ''e79baee6a087e5aebfe4b8bbe69cbae58685e5ad98e4b88de8b6b3efbc8ce8999ae68b9fe69cbae69c80e5a4a7e58685e5ad98e4b8ba20'' @ formatMigrationBytes requiredMemory @ zh ''efbc8ce79baee6a087e5aebfe4b8bbe69cbae680bbe58685e5ad98e4b8ba20''
       @ formatMigrationBytes (hi_MemoryBytes target))
     else None)"

definition hasCapability :: "string list \<Rightarrow> string \<Rightarrow> bool" where
  "hasCapability items target \<longleftrightarrow> list_ex (\<lambda>item. EqualFold (TrimSpace item) target) items"

definition cpuArchitectureFamily :: "string \<Rightarrow> string" where
  "cpuArchitectureFamily v = (let low = lower v in
     if low = [] then []
     else if Contains low ''x86_64'' \<or> Contains low ''amd64'' \<or> Contains low ''i686'' \<or> Contains low ''i386'' then ''x86''
     else if Contains low ''aarch64'' \<or> Contains low ''arm64'' then ''arm64''
     else if Contains low ''ppc64'' then ''ppc64''
     else if Contains low ''s390x'' then ''s390x''
     else [])"

definition migrationCPUArchitectureCompatible :: "string \<Rightarrow> string \<Rightarrow> bool" where
  "migrationCPUArchitectureCompatible vmArch targetCPUModel \<longleftrightarrow>
    (let vmFamily = cpuArchitectureFamily vmArch; targetFamily = cpuArchitectureFamily targetCPUModel in
     vmFamily = [] \<or> targetFamily = [] \<or> vmFamily = targetFamily)"

definition validateMigrationTargetCapabilities :: "VMConfig \<Rightarrow> HostInfo \<Rightarrow> string option" where
  "validateMigrationTargetCapabilities config target =
    (if hi_Capabilities target = [] then Some (zh ''e79baee6a087e5aebfe4b8bbe69cbae883bde58a9be4bfa1e681afe4b88de58fafe794a8efbc8ce697a0e6b395e7a1aee8aea4e698afe590a6e694afe68c81204b564d20e8bf81e7a7bb'')
     else if \<not> hasCapability (hi_Capabilities target) ''vm.list'' then Some (zh ''e79baee6a087e5aebfe4b8bbe69cbae69caae8bf94e59b9ee8999ae68b9fe69cbae7aea1e79086e883bde58a9befbc8ce697a0e6b395e7a1aee8aea4e698afe590a6e694afe68c81204b564d20e8bf81e7a7bb'')
     else if \<not> migrationCPUArchitectureCompatible (vc_Arch config) (hi_CPUModel target)
     then Some (zh ''e79baee6a087e5aebfe4b8bbe69cba2043505520e69eb6e69e84e4b88ee8999ae68b9fe69cbae4b88de585bce5aeb9efbc8ce8999ae68b9fe69cbae69eb6e69e84e4b8ba20'' @ TrimSpace (vc_Arch config) @ zh ''efbc8ce79baee6a0872043505520e4b8ba20'' @ TrimSpace (hi_CPUModel target))
     else None)"

definition validateMigrationTargetVMName :: "string \<Rightarrow> AgentVM list \<Rightarrow> string option" where
  "validateMigrationTargetVMName vmName targetVMs = (let name = TrimSpace vmName in
     if name = [] then Some (zh ''e8999ae68b9fe69cbae5908de7a7b0e4b8bae7a9baefbc8ce697a0e6b395e8bf81e7a7bb'')
     else if list_ex (\<lambda>item. EqualFold (TrimSpace (av_Name item)) name) targetVMs
     then Some (zh ''e79baee6a087e5aebfe4b8bbe69cbae5b7b2e5ad98e59ca8e5908ce5908de8999ae68b9fe69cba20'' @ name @ zh ''efbc8ce8afb7e58588e9878de591bde5908de68896e588a0e999a4e79baee6a087e8999ae68b9fe69cba'')
     else None)"

definition migrationNetworkPoolIsActive :: "string \<Rightarrow> bool" where
  "migrationNetworkPoolIsActive state \<longleftrightarrow> lower state \<in> set [[], ''yes'', ''active'', ''running'', ''up'']"

text \<open>A Go map that is filled in the order of a list: the last entry of a key counts.\<close>

definition go_map :: "('a \<Rightarrow> string) \<Rightarrow> 'a list \<Rightarrow> string \<Rightarrow> 'a option" where
  "go_map key xs k = find (\<lambda>x. key x = k) (rev xs)"

definition validateMigrationNetworkPools :: "VMConfigInterface list \<Rightarrow> NetworkPool list \<Rightarrow> string option" where
  "validateMigrationNetworkPools interfaces targetPools = first_error (\<lambda>iface.
     let source = TrimSpace (ci_Source iface);
         pool = (case go_map (\<lambda>p. lower (np_Name p)) targetPools (ToLower source) of
           Some p \<Rightarrow> Some p
         | None \<Rightarrow> go_map (\<lambda>p. lower (np_Bridge p)) (filter (\<lambda>p. TrimSpace (np_Bridge p) \<noteq> []) targetPools) (ToLower source)) in
     if source = [] then None
     else case pool of
       None \<Rightarrow> Some (zh ''e79baee6a087e5aebfe4b8bbe69cbae7bcbae5b091e7bd91e7bb9ce6b1a0e68896e6a1a5e68ea5e8aebee5a48720'' @ source)
     | Some p \<Rightarrow> if migrationNetworkPoolIsActive (np_State p) then None
         else Some (zh ''e79baee6a087e5aebfe4b8bbe69cbae7bd91e7bb9ce6b1a020'' @ source @ zh ''20e5bd93e5898de4b88de698af2061637469766520e78ab6e68081'')) interfaces"

section \<open>Storage\<close>

definition migrationDiskRequiresStorageCheck :: "VMConfigDisk \<Rightarrow> bool" where
  "migrationDiskRequiresStorageCheck d \<longleftrightarrow> TrimSpace (cd_Device d) = [] \<or> EqualFold (TrimSpace (cd_Device d)) ''disk''"

definition migrationStoragePoolLooksShared :: "StoragePool \<Rightarrow> StoragePool \<Rightarrow> bool" where
  "migrationStoragePoolLooksShared source target \<longleftrightarrow>
    (let sourceType = lower (sp_Type source); targetType = lower (sp_Type target) in
     if sourceType \<noteq> [] \<and> targetType \<noteq> [] \<and> sourceType \<noteq> targetType then False
     else firstNonEmptyString [sourceType, targetType] \<in> set [''netfs'', ''iscsi'', ''iscsi-direct'', ''rbd'', ''gluster'', ''sheepdog'',
         ''mpath'', ''zfs'', ''logical'']
       \<or> (TrimSpace (sp_Path source) \<noteq> [] \<and> TrimSpace (sp_Path target) \<noteq> [] \<and> TrimSpace (sp_Path source) = TrimSpace (sp_Path target)))"

definition check_shared_disk :: "StoragePool list \<Rightarrow> StoragePool list \<Rightarrow> VMConfigDisk \<Rightarrow> string option" where
  "check_shared_disk sourcePools targetPools d =
    (let poolName = TrimSpace (cd_Pool d); named = go_map (\<lambda>p. lower (sp_Name p)) in
     if \<not> migrationDiskRequiresStorageCheck d then None
     else if poolName = []
     then Some (zh ''e8999ae68b9fe69cbae7a381e79b9820'' @ firstNonEmptyString [cd_Name d, cd_Path d] @ zh ''20e69caae8af86e588abe588b0e5ad98e582a8e6b1a0efbc8ce697a0e6b395e7a1aee8aea4e585b1e4baabe5ad98e582a8efbc9be5a682e99c80e8bf81e7a7bbe69cace59cb0e7a381e79b98e8afb7e58bbee98089e5a48de588b6e69cace59cb0e7a381e79b98'')
     else case named targetPools (ToLower poolName) of
       None \<Rightarrow> Some (zh ''e79baee6a087e5aebfe4b8bbe69cbae7bcbae5b091e5ad98e582a8e6b1a020'' @ poolName @ zh ''efbc9be5a682e99c80e8bf81e7a7bbe69cace59cb0e7a381e79b98e8afb7e58bbee98089e5a48de588b6e69cace59cb0e7a381e79b98'')
     | Some target \<Rightarrow>
         if TrimSpace (sp_State target) \<noteq> [] \<and> \<not> EqualFold (sp_State target) ''running''
         then Some (zh ''e79baee6a087e5aebfe4b8bbe69cbae5ad98e582a8e6b1a020'' @ poolName @ zh ''20e5bd93e5898de4b88de698af2072756e6e696e6720e78ab6e68081'')
         else (case named sourcePools (ToLower poolName) of
           None \<Rightarrow> Some (zh ''e6ba90e5aebfe4b8bbe69cbae5ad98e582a8e6b1a020'' @ poolName @ zh ''20e4bfa1e681afe4b88de58fafe794a8efbc8ce697a0e6b395e7a1aee8aea4e585b1e4baabe5ad98e582a8efbc9be5a682e99c80e8bf81e7a7bbe69cace59cb0e7a381e79b98e8afb7e58bbee98089e5a48de588b6e69cace59cb0e7a381e79b98'')
         | Some source \<Rightarrow>
             if migrationStoragePoolLooksShared source target then None
             else Some (zh ''e6ba90e5aebfe4b8bbe69cbae4b88ee79baee6a087e5aebfe4b8bbe69cbae79a84e5ad98e582a8e6b1a020'' @ poolName @ zh ''20e69caae698bee7a4bae585b1e4baabe5ad98e582a8e789b9e5be81efbc9be5a682e99c80e8bf81e7a7bbe69cace59cb0e7a381e79b98e8afb7e58bbee98089e5a48de588b6e69cace59cb0e7a381e79b98'')))"

definition validateMigrationSharedStorage :: "VMConfigDisk list \<Rightarrow> StoragePool list \<Rightarrow> StoragePool list \<Rightarrow> string option" where
  "validateMigrationSharedStorage disks sourcePools targetPools = first_error (check_shared_disk sourcePools targetPools) disks"

definition empty_pool :: StoragePool where
  "empty_pool = \<lparr>sp_Name = [], sp_Type = [], sp_State = [], sp_Autostart = False, sp_Path = [], sp_CapacitySource = [],
     sp_Capacity = 0, sp_Allocation = 0, sp_Available = 0, sp_VolumeCount = 0\<rparr>"

text \<open>The longest path of a pool that leads to the disk; of two the first.\<close>

fun best_pool :: "string \<Rightarrow> StoragePool \<Rightarrow> nat \<Rightarrow> StoragePool list \<Rightarrow> StoragePool" where
  "best_pool diskPath best bestLength [] = best"
| "best_pool diskPath best bestLength (p # ps) = (let poolPath = cleanMigrationStoragePath (sp_Path p) in
     if poolPath \<noteq> [] \<and> migrationPathHasPoolPrefix diskPath poolPath \<and> length poolPath > bestLength
     then best_pool diskPath p (length poolPath) ps
     else best_pool diskPath best bestLength ps)"

definition migrationStoragePoolForDiskPath :: "string \<Rightarrow> StoragePool list \<Rightarrow> StoragePool" where
  "migrationStoragePoolForDiskPath diskPath pools = (let path = cleanMigrationStoragePath diskPath in
     if path = [] then empty_pool else best_pool path empty_pool 0 pools)"

record migrationCopyTargetDisk =
  mc_Path :: string
  mc_VolumeName :: string
  mc_Pool :: StoragePool

definition copy_target_disk :: "StoragePool list \<Rightarrow> VMConfigDisk \<Rightarrow> string + migrationCopyTargetDisk" where
  "copy_target_disk targetPools d =
    (let diskPath = cleanMigrationStoragePath (firstNonEmptyString [cd_Path d, cd_SourcePath d]);
         pool = migrationStoragePoolForDiskPath diskPath targetPools in
     if diskPath = [] then Inl (zh ''e7a381e79b9820'' @ firstNonEmptyString [cd_Name d, ''-''] @ zh ''20e8b7afe5be84e4b88de58fafe794a8efbc8ce697a0e6b395e689a7e8a18ce8bf81e7a7bbe5a48de588b6e7a381e79b98'')
     else if TrimSpace (sp_Path pool) = []
     then Inl (zh ''e79baee6a087e5aebfe4b8bbe69cbae6b2a1e69c89e6ba90e7a381e79b98e8b7afe5be8420'' @ diskPath @ zh ''20e68980e59ca8e79a84e5ad98e582a8e6b1a0efbc8ce697a0e6b395e689a7e8a18ce8bf81e7a7bbe5a48de588b6e7a381e79b98'')
     else Inr \<lparr>mc_Path = diskPath, mc_VolumeName = filepath_Base diskPath, mc_Pool = pool\<rparr>)"

fun all_or_error :: "('a \<Rightarrow> 'e + 'b) \<Rightarrow> 'a list \<Rightarrow> 'e + 'b list" where
  "all_or_error f [] = Inr []"
| "all_or_error f (x # xs) = (case f x of
     Inl e \<Rightarrow> Inl e
   | Inr y \<Rightarrow> (case all_or_error f xs of Inl e \<Rightarrow> Inl e | Inr ys \<Rightarrow> Inr (y # ys)))"

definition migrationCopyTargetDisks :: "VMConfigDisk list \<Rightarrow> StoragePool list \<Rightarrow> string + migrationCopyTargetDisk list" where
  "migrationCopyTargetDisks disks targetPools = all_or_error (copy_target_disk targetPools) (filter migrationDiskRequiresStorageCheck disks)"

definition validateMigrationCopyTargetPools :: "VMConfigDisk list \<Rightarrow> StoragePool list \<Rightarrow> string option" where
  "validateMigrationCopyTargetPools disks targetPools =
    (case migrationCopyTargetDisks disks targetPools of Inl e \<Rightarrow> Some e | Inr _ \<Rightarrow> None)"

definition migrationTargetDiskExists :: "string \<Rightarrow> string \<Rightarrow> StorageVolume list \<Rightarrow> bool" where
  "migrationTargetDiskExists diskPath0 volumeName0 volumes =
    (let diskPath = cleanMigrationStoragePath diskPath0; volumeName = lower volumeName0 in
     list_ex (\<lambda>v. (diskPath \<noteq> [] \<and> cleanMigrationStoragePath (vol_Path v) = diskPath)
       \<or> (volumeName \<noteq> [] \<and> lower (vol_Name v) = volumeName)) volumes)"

text \<open>The volumes of a pool are asked for once; \<open>known\<close> has the lists so far.\<close>

fun check_target_disks ::
  "'r rt http_transport \<Rightarrow> agent_config \<Rightarrow> (string \<rightharpoonup> StorageVolume list) \<Rightarrow> migrationCopyTargetDisk list \<Rightarrow> 'r check" where
  "check_target_disks send cfg known [] = passed"
| "check_target_disks send cfg known (t # ts) =
    (let poolName = TrimSpace (sp_Name (mc_Pool t)); key = ToLower poolName;
         look = (\<lambda>known' volumes.
           if migrationTargetDiskExists (mc_Path t) (mc_VolumeName t) volumes
           then failed_check 400 ''vm_migrate_target_disk_exists''
             (zh ''e79baee6a087e5aebfe4b8bbe69cbae5b7b2e5ad98e59ca8e7a381e79b98e69687e4bbb620'' @ mc_Path t @ zh ''efbc8ce8afb7e58588e588a0e999a4e79baee6a087e7a381e79b98e68896e69bb4e68da2e6ba90e8999ae68b9fe69cbae7a381e79b98e5908de7a7b0e5908ee5868de8bf81e7a7bb'')
           else check_target_disks send cfg known' ts) in
     if poolName = [] then failed_check 400 ''vm_migrate_storage_mismatch'' (zh ''e79baee6a087e5aebfe4b8bbe69cbae5ad98e582a8e6b1a0e5908de7a7b0e4b88de58fafe794a8efbc8ce697a0e6b395e6a380e69fa5e79baee6a087e7a381e79b98e698afe590a6e5b7b2e5ad98e59ca8'')
     else case known key of
       Some volumes \<Rightarrow> look known volumes
     | None \<Rightarrow> asking (client_ListStorageVolumes send cfg poolName) ''vm_migrate_target_disk_precheck_failed'' (zh ''e6a380e69fa5e79baee6a087e5aebfe4b8bbe69cbae7a381e79b98e69687e4bbb6e5a4b1e8b4a5efbc9a'')
         (\<lambda>volumes. look (known(key \<mapsto> volumes)) volumes))"

definition precheckMigrationCopyTargetVolumes ::
  "'r rt http_transport \<Rightarrow> agent_config \<Rightarrow> VMConfigDisk list \<Rightarrow> StoragePool list \<Rightarrow> 'r check" where
  "precheckMigrationCopyTargetVolumes send cfg disks targetPools =
    (case migrationCopyTargetDisks disks targetPools of
       Inl e \<Rightarrow> failed_check 400 ''vm_migrate_storage_mismatch'' e
     | Inr targets \<Rightarrow> check_target_disks send cfg Map.empty targets)"

section \<open>The whole check\<close>

definition isQemuSSHMigrationURI :: "string \<Rightarrow> bool" where
  "isQemuSSHMigrationURI uri \<longleftrightarrow> HasPrefix (lower uri) ''qemu+ssh://''"

type_synonym 'r reporting = "('r, migrationPrecheckReport) service_prog"

text \<open>A question to an agent within the check: its error ends the report.\<close>

definition inquire ::
  "('r rt, agent_error, 'a) prog \<Rightarrow> migrationPrecheckReport \<Rightarrow> string \<Rightarrow> string \<Rightarrow> string \<Rightarrow> string \<Rightarrow>
   ('a \<Rightarrow> 'r reporting) \<Rightarrow> 'r reporting" where
  "inquire m r key label prefix code k = bindp (attempt m) (\<lambda>answer. case answer of
     Inl e \<Rightarrow> ret (withFailure r key label (prefix @ UserFacingErrorMessage e) 503 code)
   | Inr x \<Rightarrow> k x)"

text \<open>A condition of the check: its message ends the report, otherwise an item is added.\<close>

definition require ::
  "string option \<Rightarrow> migrationPrecheckReport \<Rightarrow> string \<Rightarrow> string \<Rightarrow> string \<Rightarrow> string \<Rightarrow>
   (migrationPrecheckReport \<Rightarrow> 'r reporting) \<Rightarrow> 'r reporting" where
  "require e r key label message code k = (case e of
     Some m \<Rightarrow> ret (withFailure r key label m 400 code)
   | None \<Rightarrow> k (addPassed key label message r))"

definition precheck_channel ::
  "'r rt http_transport \<Rightarrow> agent_config \<Rightarrow> VMMigrateRequest \<Rightarrow> migrationPrecheckReport \<Rightarrow> 'r reporting" where
  "precheck_channel send sourceCfg request r =
    (let key = ''migration-channel''; label = zh ''e8bf81e7a7bbe9809ae98193''; uri = mg_DestinationURI request in
     if \<not> isQemuSSHMigrationURI uri then
       (if mg_CopyDisks request then ret (withFailure r key label (zh ''e5a48de588b6e69cace59cb0e7a381e79b98e99c80e8a6812071656d752b7373683a2f2f20e8bf81e7a7bb20555249'') 400 ''invalid_vm_migrate'')
        else ret (addSkipped key label (zh ''e5bd93e5898de8bf81e7a7bb2055524920e4b88de698af2071656d752b737368efbc8ce8b7b3e8bf872053534820e5858de5af86e6a380e6b58b'') r))
     else inquire (client_CheckMigrationConnection send sourceCfg \<lparr>mcq_DestinationURI = uri, mcq_Live = mg_Live request\<rparr>)
       r key label (zh ''e6a380e69fa5e8bf81e7a7bbe9809ae98193e5a4b1e8b4a5efbc9a'') ''vm_migrate_connection_precheck_failed'' (\<lambda>result.
       if \<not> mcr_OK result then
         (let code = (if mcr_PasswordRequired result \<or> Contains (mcr_Message result) (zh ''53534820e68c87e7bab9'') then ''vm_migrate_ssh_password_required''
            else if Contains (mcr_Message result) (zh ''e4b8bbe69cbae5908de8a7a3e69e90e4b8ba206c6f63616c686f7374'') then ''vm_migrate_target_hostname_localhost''
            else ''vm_migrate_connection_unavailable'') in
          ret (withFailure r key label (firstNonEmptyString [mcr_Message result, zh ''e8bf81e7a7bbe9809ae98193e4b88de58fafe794a8'']) 400 code))
       else ret (addPassed key label (zh ''e6ba90e5aebfe4b8bbe69cbae58fafe99d9ee4baa4e4ba92e8bf9ee68ea5e79baee6a087206c696276697274'') r)))"

definition precheck_storage ::
  "'r rt http_transport \<Rightarrow> agent_config \<Rightarrow> agent_config \<Rightarrow> VMConfig \<Rightarrow> VMMigrateRequest \<Rightarrow> migrationPrecheckReport \<Rightarrow> 'r reporting" where
  "precheck_storage send sourceCfg targetCfg config request r =
    (let shared = zh ''e585b1e4baabe5ad98e582a8''; store = zh ''e79baee6a087e5ad98e582a8e6b1a0''; failed = ''vm_migrate_storage_precheck_failed'' in
     if \<not> mg_CopyDisks request then
       inquire (client_ListStoragePools send sourceCfg) r ''shared-storage'' shared (zh ''e6a380e69fa5e6ba90e5aebfe4b8bbe69cbae5ad98e582a8e6b1a0e5a4b1e8b4a5efbc9a'') failed (\<lambda>sourcePools.
       inquire (client_ListStoragePools send targetCfg) r ''shared-storage'' shared (zh ''e6a380e69fa5e79baee6a087e5aebfe4b8bbe69cbae5ad98e582a8e6b1a0e5a4b1e8b4a5efbc9a'') failed (\<lambda>targetPools.
       require (validateMigrationSharedStorage (vc_Disks config) sourcePools targetPools) r ''shared-storage'' shared
         (zh ''e6ba90e5aebfe4b8bbe69cbae5928ce79baee6a087e5aebfe4b8bbe69cbae5ad98e582a8e6b1a0e698bee7a4bae585b1e4baabe789b9e5be81'') ''vm_migrate_storage_mismatch'' (precheck_channel send sourceCfg request)))
     else
       (let r1 = addSkipped ''shared-storage'' shared (zh ''e5b7b2e98089e68ba9e5a48de588b6e69cace59cb0e7a381e79b98efbc8ce8b7b3e8bf87e585b1e4baabe5ad98e582a8e6a380e69fa5'') r in
        inquire (client_ListStoragePools send targetCfg) r1 ''target-storage'' store (zh ''e6a380e69fa5e79baee6a087e5aebfe4b8bbe69cbae5ad98e582a8e6b1a0e5a4b1e8b4a5efbc9a'') failed (\<lambda>targetPools.
        case validateMigrationCopyTargetPools (vc_Disks config) targetPools of
          Some e \<Rightarrow> ret (withFailure r1 ''target-storage'' store e 400 ''vm_migrate_storage_mismatch'')
        | None \<Rightarrow>
            bindp (precheckMigrationCopyTargetVolumes send targetCfg (vc_Disks config) targetPools) (\<lambda>found. case found of
              Some (status, code, message) \<Rightarrow> ret (withFailure r1 ''target-disk'' (zh ''e79baee6a087e7a381e79b98e69687e4bbb6'') message status code)
            | None \<Rightarrow> precheck_channel send sourceCfg request
                (addPassed ''target-storage'' store (zh ''e79baee6a087e5aebfe4b8bbe69cbae5ad98e59ca8e6ba90e7a381e79b98e8b7afe5be84e68980e59ca8e79a84e5ad98e582a8e6b1a0efbc8ce58fafe794a8e4ba8ee8bf81e7a7bbe5a48de588b6e7a381e79b98'') r1)))))"

definition precheck_target ::
  "'r rt http_transport \<Rightarrow> agent_config \<Rightarrow> agent_config \<Rightarrow> VirtualMachine \<Rightarrow> VMConfig \<Rightarrow> VMMigrateRequest \<Rightarrow>
   migrationPrecheckReport \<Rightarrow> 'r reporting" where
  "precheck_target send sourceCfg targetCfg vm config request r =
    inquire (client_HostInfo send targetCfg) r ''target-host'' (zh ''e79baee6a087e5aebfe4b8bbe69cbae8b584e6ba90'') (zh ''e6a380e69fa5e79baee6a087e5aebfe4b8bbe69cbae8b584e6ba90e5a4b1e8b4a5efbc9a'') ''vm_migrate_target_precheck_failed'' (\<lambda>info.
    require (validateMigrationTargetResources config info) r ''target-resource'' (zh ''e79baee6a08720435055202f20e58685e5ad98'')
      (zh ''e79baee6a087e5aebfe4b8bbe69cba2043505520e5928ce58685e5ad98e6bba1e8b6b3e8999ae68b9fe69cbae69c80e5a4a7e9858de7bdae'') ''vm_migrate_resource_mismatch'' (\<lambda>r1.
    require (validateMigrationTargetCapabilities config info) r1 ''target-capability'' (zh ''e79baee6a0872043505520e69eb6e69e84'')
      (zh ''e79baee6a087e5aebfe4b8bbe69cbae883bde58a9be4b88ee8999ae68b9fe69cbae59fbae7a180e69eb6e69e84e58cb9e9858d'') ''vm_migrate_cpu_incompatible'' (\<lambda>r2.
    inquire (client_ListVMsFast send targetCfg) r2 ''target-name'' (zh ''e79baee6a087e5908ce5908de8999ae68b9fe69cba'') (zh ''e6a380e69fa5e79baee6a087e5aebfe4b8bbe69cbae8999ae68b9fe69cbae5908de7a7b0e5a4b1e8b4a5efbc9a'') ''vm_migrate_name_precheck_failed'' (\<lambda>vms.
    require (validateMigrationTargetVMName (vm_Name vm) vms) r2 ''target-name'' (zh ''e79baee6a087e5908ce5908de8999ae68b9fe69cba'')
      (zh ''e79baee6a087e5aebfe4b8bbe69cbae69caae58f91e78eb0e5908ce5908de8999ae68b9fe69cba'') ''vm_migrate_name_exists'' (\<lambda>r3.
    inquire (client_ListNetworkPools send targetCfg) r3 ''target-network'' (zh ''e79baee6a087e7bd91e7bb9ce6b1a0'') (zh ''e6a380e69fa5e79baee6a087e5aebfe4b8bbe69cbae7bd91e7bb9ce6b1a0e5a4b1e8b4a5efbc9a'') ''vm_migrate_network_precheck_failed'' (\<lambda>networks.
    require (validateMigrationNetworkPools (vc_Interfaces config) networks) r3 ''target-network'' (zh ''e79baee6a087e7bd91e7bb9ce6b1a0'')
      (zh ''e79baee6a087e5aebfe4b8bbe69cbae7bd91e7bb9ce6b1a0e68896e6a1a5e68ea5e8aebee5a487e58cb9e9858d'') ''vm_migrate_network_mismatch''
      (precheck_storage send sourceCfg targetCfg config request)))))))"

definition runVMMigrationPrecheck ::
  "'r rt http_transport \<Rightarrow> agent_config \<Rightarrow> agent_config \<Rightarrow> VirtualMachine \<Rightarrow> VMMigrateRequest \<Rightarrow> 'r reporting" where
  "runVMMigrationPrecheck send sourceCfg targetCfg vm request =
    (let key = ''source-status''; label = zh ''e6ba90e8999ae68b9fe69cbae78ab6e68081'' in
     inquire (client_VMConfig send sourceCfg (vm_Name vm)) empty_report key label (zh ''e8afbbe58f96e6ba90e8999ae68b9fe69cbae9858de7bdaee5a4b1e8b4a5efbc9a'') ''vm_migrate_precheck_failed'' (\<lambda>config.
     let up = EqualFold (vc_Status config) ''running'' in
     require (if mg_Live request \<and> \<not> up then Some (zh ''e99d9ee8bf90e8a18ce78ab6e68081e79a84e8999ae68b9fe69cbae8afb7e98089e68ba9e586b7e8bf81e7a7bb'')
         else if \<not> mg_Live request \<and> up then Some (zh ''e8bf90e8a18ce4b8ade79a84e8999ae68b9fe69cbae8afb7e98089e68ba9e783ade8bf81e7a7bbefbc8ce68896e58588e585b3e997ade8999ae68b9fe69cbae5908ee5868de586b7e8bf81e7a7bb'') else None)
       empty_report key label (zh ''e6ba90e8999ae68b9fe69cbae78ab6e68081e4b88ee8bf81e7a7bbe696b9e5bc8fe58cb9e9858d'') ''invalid_vm_migrate''
       (precheck_target send sourceCfg targetCfg vm config request)))"

definition handlePrecheckVMMigration :: "('r, 'v) api_env \<Rightarrow> migrateVMRequest option \<Rightarrow> string \<Rightarrow> 'r api_prog" where
  "handlePrecheckVMMigration E input i = decoded input (zh ''e8bf81e7a7bbe8999ae68b9fe69cbae58f82e695b0e6a0bce5bc8fe4b88de6ada3e7a1ae'') (\<lambda>body.
    with_vm E i vm_missing (\<lambda>vm.
    valid (validateMigrateVMRequest body vm) ''invalid_vm_migrate'' (
    agentTokenForVM E vm (\<lambda>source sourceToken.
    agentTokenForID E (TrimSpace (mg_TargetAgentID body)) (\<lambda>target targetToken.
    let request = migrate_request body target in
    if ParseRequestURI (mg_DestinationURI request) = None then refuse 400 ''invalid_vm_migrate'' (zh ''e8bf81e7a7bb2055524920e4b88de6ada3e7a1ae'')
    else bindp (runVMMigrationPrecheck (en_send E) (config_of source sourceToken) (config_of target targetToken) vm request)
      (\<lambda>report. respond 200 (AReport report)))))))"

end
