(* ===== verification/Snapshot_Api.thy ===== *)
theory Snapshot_Api
  imports Vm_Lifecycle Agent_Api
begin

text \<open>
  The handlers of snapshots (\<open>api/router/snapshots.go\<close>): the list with its annotations, the refresh, creation,
  reverting, deletion. Names follow the same pattern as in the agent (\<open>snapshotNamePattern\<close>).
\<close>

record createSnapshotRequest =
  csn_VMID :: string
  csn_Name :: string
  csn_Description :: string
  csn_Tags :: "string list"

definition handleListSnapshots :: "('r, 'v) api_env \<Rightarrow> api_request \<Rightarrow> 'r api_prog" where
  "handleListSnapshots E rq = permitted (rq_user rq) ''snapshots.read'' (
    bindp (service_ListSnapshots (en_sv E)) (\<lambda>items.
    bindp (attempt (on_store (ApplySnapshotAnnotations items))) (\<lambda>r. case r of
      Inl _ \<Rightarrow> refuse 500 ''list_snapshots_failed'' (zh ''e8afbbe58f96e5bfabe785a7e58897e8a1a8e5a4b1e8b4a5'')
    | Inr shown \<Rightarrow> respond 200 (ASnapshots shown))))"

text \<open>An agent whose token cannot be opened is skipped; an empty token is not looked at.\<close>

definition refresh_snapshots_of :: "('r, 'v) api_env \<Rightarrow> agent \<Rightarrow> ('r, unit) service_prog" where
  "refresh_snapshots_of E a = (case token_of E a of
     Inl _ \<Rightarrow> ret ()
   | Inr token \<Rightarrow> ignore (SyncSnapshotsWithToken (en_sv E) (agent_id a) token))"

definition handleRefreshSnapshots :: "('r, 'v) api_env \<Rightarrow> api_request \<Rightarrow> 'r api_prog" where
  "handleRefreshSnapshots E rq = permitted (rq_user rq) ''snapshots.read'' (
    bindp (attempt (on_store ListAgents)) (\<lambda>r. case r of
      Inl _ \<Rightarrow> refuse 500 ''list_agents_failed'' (zh ''e8afbbe58f96204167656e7420e58897e8a1a8e5a4b1e8b4a5'')
    | Inr as \<Rightarrow>
        bindp (for_each (refresh_snapshots_of E) as) (\<lambda>_.
        bindp (audit rq ''snapshot.refresh'' ''snapshot'' [] Map.empty) (\<lambda>_.
        respond 200 (AStatus ''completed'')))))"

definition hasOversizedSnapshotTag :: "string list \<Rightarrow> bool" where
  "hasOversizedSnapshotTag tags \<longleftrightarrow> list_ex (\<lambda>t. rune_count (TrimSpace t) > 40) tags"

text \<open>
  The snapshot that is shown is the one the synchronisation found; when its annotation cannot be saved the code shows
  the zero value, as it does when there is none.
\<close>

definition annotate_created ::
  "createSnapshotRequest \<Rightarrow> user \<Rightarrow> Snapshot option \<Rightarrow> ('r, Snapshot option) service_prog" where
  "annotate_created body u found = (case found of
     Some s \<Rightarrow>
       if csn_Description body \<noteq> [] \<or> csn_Tags body \<noteq> []
       then bindp (attempt (on_store (UpsertSnapshotAnnotation s
           \<lparr>sai_DisplayName = [], sai_Description = csn_Description body, sai_Tags = csn_Tags body\<rparr> (ID u))))
         (\<lambda>r. ret (case r of Inl _ \<Rightarrow> None | Inr s' \<Rightarrow> Some s'))
       else ret (Some s)
   | None \<Rightarrow> ret None)"

definition snapshot_metadata :: "string \<Rightarrow> VirtualMachine \<Rightarrow> agent \<Rightarrow> (string \<rightharpoonup> json)" where
  "snapshot_metadata name vm a = [''snapshot'' \<mapsto> JStr name, ''vm'' \<mapsto> JStr (vm_Name vm), ''agent'' \<mapsto> JStr (agent_name a)]"

definition handleCreateSnapshot :: "('r, 'v) api_env \<Rightarrow> api_request \<Rightarrow> createSnapshotRequest option \<Rightarrow> 'r api_prog" where
  "handleCreateSnapshot E rq input = permitted (rq_user rq) ''snapshots.create'' (
    decoded input (zh ''e5bfabe785a7e58f82e695b0e6a0bce5bc8fe4b88de6ada3e7a1ae'') (\<lambda>body0.
    let body = body0\<lparr>csn_VMID := TrimSpace (csn_VMID body0), csn_Name := TrimSpace (csn_Name body0),
          csn_Description := TrimSpace (csn_Description body0)\<rparr>;
        i = csn_VMID body in
    if i = [] \<or> \<not> snapshotNamePattern (csn_Name body)
    then refuse 400 ''invalid_snapshot'' (zh ''e8afb7e98089e68ba9e8999ae68b9fe69cbaefbc8ce5b9b6e5a1abe5869920312d383020e4bd8de5bfabe785a7e5908de7a7b0efbc8ce5908de7a7b0e4bb85e694afe68c81e5ad97e6af8de38081e695b0e5ad97e38081e782b9e38081e4b88be58892e7babfe38081e58692e58fb7e5928ce8bf9ee5ad97e7aca6'')
    else if length (csn_Tags body) > 12 \<or> length (csn_Description body) > 500 \<or> hasOversizedSnapshotTag (csn_Tags body)
    then refuse 400 ''invalid_snapshot_annotation'' (zh ''e5bfabe785a7e68f8fe8bfb0e68896e6a087e7adbee695b0e9878fe8b685e587bae99990e588b6'')
    else with_vm E i vm_missing (\<lambda>vm.
      if lower (vm_Status vm) \<noteq> ''stopped'' then refuse 400 ''vm_must_be_stopped'' (zh ''e58faae69c89e5b7b2e585b3e69cbae79a84e8999ae68b9fe69cbae58fafe4bba5e5889be5bbbae5bfabe785a7'')
      else agentTokenForVM E vm (\<lambda>a token.
        calling (client_CreateSnapshot (en_send E) (config_of a token) (vm_Name vm)
            \<lparr>sc_Name = csn_Name body, sc_Description = csn_Description body\<rparr>) ''agent_snapshot_create_failed'' [] (\<lambda>_.
        bindp (ignore (SyncSnapshotsWithToken (en_sv E) (agent_id a) token)) (\<lambda>_.
        bindp (service_GetSnapshot (en_sv E) (i @ '':snapshot:'' @ csn_Name body)) (\<lambda>found.
        bindp (annotate_created body (rq_user rq) found) (\<lambda>shown.
        let m = (snapshot_metadata (csn_Name body) vm a)(''snapshotType'' \<mapsto> JStr ''internal'') in
        bindp (finished_task rq ''snapshot.create'' ''virtual_machine'' i m) (\<lambda>t.
        bindp (audit rq ''snapshot.create'' ''virtual_machine'' i m) (\<lambda>_.
        respond 200 (ASnapshotTask shown t)))))))))))"

definition snapshotActionPermission :: "string \<Rightarrow> string" where
  "snapshotActionPermission action = (if action = ''delete'' then ''snapshots.delete'' else ''snapshots.revert'')"

definition handleUpdateSnapshotAnnotation ::
  "('r, 'v) api_env \<Rightarrow> api_request \<Rightarrow> SnapshotAnnotationInput option \<Rightarrow> string \<Rightarrow> 'r api_prog" where
  "handleUpdateSnapshotAnnotation E rq input i =
    bindp (service_GetSnapshot (en_sv E) i) (\<lambda>found. case found of
      None \<Rightarrow> refuse 404 ''snapshot_not_found'' (zh ''e5bfabe785a7e4b88de5ad98e59ca8'')
    | Some s \<Rightarrow> decoded input (zh ''e5bfabe785a7e5a487e6b3a8e6a0bce5bc8fe4b88de6ada3e7a1ae'') (\<lambda>body.
        if length (sai_Tags body) > 12 \<or> length (sai_DisplayName body) > 120 \<or> length (sai_Description body) > 500
          \<or> hasOversizedSnapshotTag (sai_Tags body)
        then refuse 400 ''invalid_snapshot_annotation'' (zh ''e5bfabe785a7e698bee7a4bae5908de38081e68f8fe8bfb0e68896e6a087e7adbee695b0e9878fe8b685e587bae99990e588b6'')
        else bindp (attempt (on_store (UpsertSnapshotAnnotation s body (ID (rq_user rq))))) (\<lambda>r. case r of
          Inl _ \<Rightarrow> refuse 500 ''update_snapshot_annotation_failed'' (zh ''e4bf9de5ad98e5bfabe785a7e5a487e6b3a8e5a4b1e8b4a5'')
        | Inr updated \<Rightarrow>
            bindp (audit rq ''snapshot.annotation.update'' ''snapshot'' i
              [''snapshot'' \<mapsto> JStr (sn_Name s), ''vm'' \<mapsto> JStr (sn_VMName s)]) (\<lambda>_.
            respond 200 (ASnapshot updated)))))"

text \<open>Reverting or deleting a snapshot.\<close>

definition snapshot_action :: "('r, 'v) api_env \<Rightarrow> api_request \<Rightarrow> string \<Rightarrow> string \<Rightarrow> 'r api_prog" where
  "snapshot_action E rq i action =
    bindp (service_GetSnapshot (en_sv E) i) (\<lambda>found. case found of
      None \<Rightarrow> refuse 404 ''snapshot_not_found'' (zh ''e5bfabe785a7e4b88de5ad98e59ca8'')
    | Some s \<Rightarrow> with_vm E (sn_VMID s) (zh ''e5bfabe785a7e68980e5b19ee8999ae68b9fe69cbae4b88de5ad98e59ca8'') (\<lambda>vm. agentTokenForVM E vm (\<lambda>a token.
        calling (client_RunSnapshotAction (en_send E) (config_of a token) (vm_Name vm) (sn_Name s) action) ''agent_snapshot_action_failed'' [] (\<lambda>_.
        bindp (if action = ''revert'' then ignore (SyncVMWithToken (en_sv E) (agent_id a) token (vm_ID vm) (vm_Name vm)) else ret ()) (\<lambda>_.
        bindp (ignore (SyncSnapshotsWithToken (en_sv E) (agent_id a) token)) (\<lambda>_.
        let m = snapshot_metadata (sn_Name s) vm a in
        bindp (finished_task rq (''snapshot.'' @ action) ''snapshot'' i m) (\<lambda>t.
        bindp (audit rq (''snapshot.'' @ action) ''snapshot'' i m) (\<lambda>_.
        respond 200 (ASnapshotTask (Some s) t)))))))))"

definition handleSnapshotRoute ::
  "('r, 'v) api_env \<Rightarrow> api_request \<Rightarrow> string \<Rightarrow> string \<Rightarrow> SnapshotAnnotationInput option \<Rightarrow> 'r api_prog" where
  "handleSnapshotRoute E rq meth path input = (case parseSnapshotPath path of
     None \<Rightarrow> no_route
   | Some (i, action) \<Rightarrow>
       if meth = ''PUT'' \<and> action = ''annotation''
       then permitted (rq_user rq) ''snapshots.update'' (handleUpdateSnapshotAnnotation E rq input i)
       else if meth \<noteq> ''POST'' then wrong_method
       else if action \<noteq> ''revert'' \<and> action \<noteq> ''delete'' then refuse 404 ''unknown_action'' (zh ''e4b88de694afe68c81e79a84e5bfabe785a7e6938de4bd9c'')
       else permitted (rq_user rq) (snapshotActionPermission action) (snapshot_action E rq i action))"

end
