(* ===== verification/Pool_Api.thy ===== *)
theory Pool_Api
  imports Vm_Lifecycle
begin

text \<open>
  The handlers of storage pools, volumes and networks (\<open>api/router/pools.go\<close>), their background tasks
  (\<open>storage_volume_tasks.go\<close>) and the handlers of the interfaces of a host (\<open>host_interfaces.go\<close>).
\<close>

section \<open>Requests\<close>

text \<open>
  The upload of a file as the form was read: it is malformed, has no file, or has the field \<open>name\<close>, the name of the
  file and its content. \<open>temp_files\<close> says what the temporary file on the server does: it can be created, be written,
  and later be opened.
\<close>

datatype upload_form = MalformedForm | NoFile | Upload string string string

record temp_files =
  tf_create :: bool
  tf_save :: bool
  tf_open :: bool

record host_request =
  hq_method :: string
  hq_path :: string
  hq_name :: string
  hq_pool :: "StoragePoolCreateRequest option"
  hq_volume :: "StorageVolumeCreateRequest option"
  hq_clone :: "StorageVolumeCloneRequest option"
  hq_upload :: upload_form
  hq_state :: "PoolStateUpdateRequest option"
  hq_autostart :: "PoolAutostartUpdateRequest option"
  hq_network :: "NetworkPoolCreateRequest option"
  hq_interface :: "HostInterfaceCreateRequest option"

definition TrimSuffix :: "string \<Rightarrow> string \<Rightarrow> string" where
  "TrimSuffix s suffix = (if HasSuffix s suffix then take (length s - length suffix) s else s)"

definition parseHostResourcePath :: "string \<Rightarrow> string \<Rightarrow> (string \<times> string) option" where
  "parseHostResourcePath path prefix =
    (let trimmed = TrimCut (TrimPrefix path prefix) ''/'' in
     if trimmed = [] \<or> HasPrefix trimmed prefix then None
     else case Split CHR ''/'' trimmed of
       p # ps \<Rightarrow> if p = [] then None else Some (p, Join ps ''/'')
     | [] \<Rightarrow> None)"

text \<open>The audit log and the answer after a change of a host.\<close>

definition host_audited ::
  "api_request \<Rightarrow> agent \<Rightarrow> string \<Rightarrow> (string \<rightharpoonup> json) \<Rightarrow> api_body \<Rightarrow> 'r api_prog" where
  "host_audited rq a action metadata body =
    bindp (audit rq action ''agent'' (agent_id a) (metadata(''agent'' \<mapsto> JStr (agent_name a)))) (\<lambda>_. respond 200 body)"

definition answered_with ::
  "('r rt, agent_error, 'a) prog \<Rightarrow> string \<Rightarrow> ('a \<Rightarrow> api_body) \<Rightarrow> 'r api_prog" where
  "answered_with m code body = calling m code [] (\<lambda>x. respond 200 (body x))"

section \<open>Storage pools\<close>

definition handleCreateStoragePool ::
  "('r, 'v) api_env \<Rightarrow> api_request \<Rightarrow> StoragePoolCreateRequest option \<Rightarrow> agent \<Rightarrow> agent_config \<Rightarrow> 'r api_prog" where
  "handleCreateStoragePool E rq input a cfg = decoded input (zh ''e5ad98e582a8e6b1a0e58f82e695b0e6a0bce5bc8fe4b88de6ada3e7a1ae'') (\<lambda>b.
    calling (client_CreateStoragePool (en_send E) cfg \<lparr>spc_Name = TrimSpace (spc_Name b), spc_Type = TrimSpace (spc_Type b),
        spc_Path = TrimSpace (spc_Path b), spc_Device = TrimSpace (spc_Device b), spc_SourceHost = TrimSpace (spc_SourceHost b),
        spc_SourcePath = TrimSpace (spc_SourcePath b), spc_Format = TrimSpace (spc_Format b)\<rparr>) ''agent_storage_pool_create_failed'' [] (\<lambda>item.
    host_audited rq a ''storage_pool.create'' [''name'' \<mapsto> JStr (sp_Name item), ''type'' \<mapsto> JStr (sp_Type item)] (APool item)))"

definition handleDeleteStorageVolume ::
  "('r, 'v) api_env \<Rightarrow> api_request \<Rightarrow> string \<Rightarrow> agent \<Rightarrow> agent_config \<Rightarrow> string \<Rightarrow> 'r api_prog" where
  "handleDeleteStorageVolume E rq name a cfg poolName = (let volumeName = TrimSpace name in
    if volumeName = [] then refuse 400 ''invalid_request'' (zh ''e5ad98e582a8e58db7e5908de7a7b0e4b88de883bde4b8bae7a9ba'')
    else calling (client_DeleteStorageVolume (en_send E) cfg poolName volumeName) ''agent_storage_volume_delete_failed'' [] (\<lambda>_.
      host_audited rq a ''storage_volume.delete'' [''pool'' \<mapsto> JStr poolName, ''volume'' \<mapsto> JStr volumeName] (AStatus ''ok'')))"

definition handleCreateStorageVolume ::
  "('r, 'v) api_env \<Rightarrow> api_request \<Rightarrow> StorageVolumeCreateRequest option \<Rightarrow> agent \<Rightarrow> agent_config \<Rightarrow> string \<Rightarrow> 'r api_prog" where
  "handleCreateStorageVolume E rq input a cfg poolName = decoded input (zh ''e5ad98e582a8e58db7e58f82e695b0e6a0bce5bc8fe4b88de6ada3e7a1ae'') (\<lambda>b.
    calling (client_CreateStorageVolume (en_send E) cfg poolName
        (b\<lparr>volc_Name := TrimSpace (volc_Name b), volc_Format := TrimSpace (volc_Format b)\<rparr>)) ''agent_storage_volume_create_failed'' [] (\<lambda>item.
    host_audited rq a ''storage_volume.create'' [''pool'' \<mapsto> JStr poolName, ''volume'' \<mapsto> JStr (vol_Name item)] (AVolume item)))"

text \<open>A listing that fails counts as a free name.\<close>

definition storageVolumeNameExists ::
  "'r rt http_transport \<Rightarrow> agent_config \<Rightarrow> string \<Rightarrow> string \<Rightarrow> ('r, bool) service_prog" where
  "storageVolumeNameExists send cfg poolName volumeName =
    (if lower volumeName = [] then ret False
     else bindp (attempt (client_ListStorageVolumes send cfg poolName)) (\<lambda>r. ret (case r of
       Inl _ \<Rightarrow> False
     | Inr volumes \<Rightarrow> list_ex (\<lambda>v. lower (vol_Name v) = lower volumeName) volumes)))"

definition friendlyStorageVolumeMessage :: "string \<Rightarrow> string" where
  "friendlyStorageVolumeMessage message =
    (let compact = Join (GoStrings.Fields (TrimSpace message)) '' ''; low = ToLower compact; q = [CHR 0x22] in
     if Contains low ''target volume already exists'' \<or> Contains low ''exists already'' \<or> Contains low ''already exists''
     then zh ''e9959ce5838fe5908de7a7b0e5b7b2e5ad98e59ca8efbc8ce8afb7e69bb4e68da2e5908de7a7b0''
     else if Contains low (''failed to get shared '' @ q @ ''write'' @ q @ '' lock'') \<or> Contains low (''failed to get '' @ q @ ''write'' @ q @ '' lock'')
       \<or> Contains low ''is already in use''
     then zh ''e5bd93e5898de9959ce5838fe6ada3e59ca8e8a2abe8999ae68b9fe69cbae4bdbfe794a8efbc8ce697a0e6b395e5858be99a86e38082e8afb7e58588e585b3e997ade79bb8e585b3e8999ae68b9fe69cbaefbc8ce68896e9809ae8bf87e5bfabe785a7e5889be5bbbae4b880e887b4e680a7e589afe69cac''
     else if Contains low ''permission denied'' then zh ''e5aebfe4b8bbe69cbae69d83e99990e4b88de8b6b3efbc8ce697a0e6b395e6938de4bd9ce8afa5e9959ce5838f''
     else if Contains low ''no space left'' then zh ''e5aebfe4b8bbe69cbae5ad98e582a8e7a9bae997b4e4b88de8b6b3efbc8ce697a0e6b395e5ae8ce68890e6938de4bd9c''
     else if Contains low ''qemu-img'' \<or> Contains low ''virsh'' \<or> Contains low ''error:''
     then zh ''e5aebfe4b8bbe69cbae591bde4bba4e689a7e8a18ce5a4b1e8b4a5efbc8ce8afb7e6a380e69fa5e9959ce5838fe78ab6e68081e38081e6a0bce5bc8fe5928ce69d83e99990''
     else if compact = [] then zh ''e5ad98e582a8e58db7e6938de4bd9ce5a4b1e8b4a5''
     else if length compact > 120 then take 120 compact @ ''...''
     else compact)"

definition runStorageVolumeCloneTask ::
  "('r, 'v) api_env \<Rightarrow> api_request \<Rightarrow> agent \<Rightarrow> agent_config \<Rightarrow> string \<Rightarrow> StorageVolumeCloneRequest \<Rightarrow> string \<Rightarrow> ('r, unit) service_prog" where
  "runStorageVolumeCloneTask E rq a cfg poolName request taskID =
    (let place = [''agent'' \<mapsto> JStr (agent_name a), ''pool'' \<mapsto> JStr poolName];
         source = place(''source'' \<mapsto> JStr (voll_SourceName request));
         about = source(''volume'' \<mapsto> JStr (voll_Name request));
         unclaimed = zh ''e590afe58aa8e5858be99a86e4bbbbe58aa1e5a4b1e8b4a5'' in
     run_background taskID \<lparr>bj_call = client_CloneStorageVolume (en_send E) cfg poolName request,
       bj_unclaimed = place(''message'' \<mapsto> JStr unclaimed),
       bj_unclaimed_message = unclaimed,
       bj_progress = about(''message'' \<mapsto> JStr (zh ''e6ada3e59ca8e5858be99a86e9959ce5838f'')),
       bj_message = UserFacingErrorMessage,
       bj_failed_audit = (\<lambda>message. audit rq ''storage_volume.clone.failed'' ''agent'' (agent_id a) (about(''error'' \<mapsto> JStr message))),
       bj_done = (\<lambda>item. source(''volume'' \<mapsto> JStr (vol_Name item), ''message'' \<mapsto> JStr (zh ''e9959ce5838fe5858be99a86e5ae8ce68890''))),
       bj_after = (\<lambda>item. audit rq ''storage_volume.clone'' ''agent'' (agent_id a) (source(''volume'' \<mapsto> JStr (vol_Name item))))\<rparr>)"

definition handleCloneStorageVolume ::
  "('r, 'v) api_env \<Rightarrow> api_request \<Rightarrow> StorageVolumeCloneRequest option \<Rightarrow> agent \<Rightarrow> agent_config \<Rightarrow> string \<Rightarrow> 'r api_prog" where
  "handleCloneStorageVolume E rq input a cfg poolName = decoded input (zh ''e5ad98e582a8e58db7e5858be99a86e58f82e695b0e6a0bce5bc8fe4b88de6ada3e7a1ae'') (\<lambda>b.
    let request = b\<lparr>voll_Name := TrimSpace (voll_Name b), voll_SourceName := TrimSpace (voll_SourceName b),
          voll_Format := TrimSpace (voll_Format b)\<rparr> in
    if voll_Name request = [] \<or> voll_SourceName request = [] then refuse 400 ''invalid_request'' (zh ''e5858be99a86e9959ce5838fe5908de7a7b0e4b88de883bde4b8bae7a9ba'')
    else bindp (storageVolumeNameExists (en_send E) cfg poolName (voll_Name request)) (\<lambda>exists.
      if exists then refuse 409 ''storage_volume_exists'' (zh ''e9959ce5838fe5908de7a7b0e5b7b2e5ad98e59ca8efbc8ce8afb7e69bb4e68da2e5908de7a7b0'')
      else queued_task rq ''storage_volume.clone'' ''agent'' (agent_id a)
        [''agent'' \<mapsto> JStr (agent_name a), ''pool'' \<mapsto> JStr poolName, ''source'' \<mapsto> JStr (voll_SourceName request),
         ''volume'' \<mapsto> JStr (voll_Name request), ''message'' \<mapsto> JStr (zh ''e5858be99a86e9959ce5838fe68e92e9989fe4b8ad'')]
        ''create_storage_volume_clone_task_failed'' (zh ''e5889be5bbbae5858be99a86e4bbbbe58aa1e5a4b1e8b4a5'') (\<lambda>t.
        runStorageVolumeCloneTask E rq a cfg poolName request (task_id t))))"

text \<open>A file that cannot be opened ends the task without an entry in the audit log.\<close>

definition runStorageVolumeUploadTask ::
  "('r, 'v) api_env \<Rightarrow> api_request \<Rightarrow> agent \<Rightarrow> agent_config \<Rightarrow> string \<Rightarrow> string \<Rightarrow> string \<Rightarrow> string option \<Rightarrow> string \<Rightarrow>
   ('r, unit) service_prog" where
  "runStorageVolumeUploadTask E rq a cfg poolName volumeName fileName content taskID =
    (let place = [''agent'' \<mapsto> JStr (agent_name a), ''pool'' \<mapsto> JStr poolName];
         displayName = (if TrimSpace volumeName = [] then fileName else TrimSpace volumeName);
         about = place(''volume'' \<mapsto> JStr displayName);
         unclaimed = zh ''e590afe58aa8e4b88ae4bca0e4bbbbe58aa1e5a4b1e8b4a5'';
         job = \<lparr>bj_call = (case content of
             Some bytes \<Rightarrow> client_UploadStorageVolume (en_send E) cfg poolName volumeName fileName bytes
           | None \<Rightarrow> fail \<lparr>ae_kind = PlainError, ae_text = []\<rparr>),
           bj_unclaimed = place(''message'' \<mapsto> JStr unclaimed),
           bj_unclaimed_message = unclaimed,
           bj_progress = about(''message'' \<mapsto> JStr (zh ''e6ada3e59ca8e4b88ae4bca02049534f'')),
           bj_message = (\<lambda>e. if content = None then zh ''e8afbbe58f96e4b88ae4bca0e69687e4bbb6e5a4b1e8b4a5'' else UserFacingErrorMessage e),
           bj_failed_audit = (\<lambda>message. if content = None then ret () else
             audit rq ''storage_volume.upload.failed'' ''agent'' (agent_id a) (about(''error'' \<mapsto> JStr message))),
           bj_done = (\<lambda>item. place(''volume'' \<mapsto> JStr (vol_Name item), ''message'' \<mapsto> JStr (zh ''49534f20e4b88ae4bca0e5ae8ce68890''))),
           bj_after = (\<lambda>item. audit rq ''storage_volume.upload'' ''agent'' (agent_id a) (place(''volume'' \<mapsto> JStr (vol_Name item))))\<rparr> in
     run_background taskID job)"

definition handleUploadStorageVolume ::
  "('r, 'v) api_env \<Rightarrow> temp_files \<Rightarrow> api_request \<Rightarrow> upload_form \<Rightarrow> agent \<Rightarrow> agent_config \<Rightarrow> string \<Rightarrow> 'r api_prog" where
  "handleUploadStorageVolume E tmp rq form a cfg poolName = (case form of
     MalformedForm \<Rightarrow> refuse 400 ''invalid_request'' (zh ''e4b88ae4bca0e69687e4bbb6e58f82e695b0e4b88de6ada3e7a1ae'')
   | NoFile \<Rightarrow> refuse 400 ''invalid_request'' (zh ''e8afb7e98089e68ba9e8a681e4b88ae4bca0e79a84e69687e4bbb6'')
   | Upload name fileName content \<Rightarrow>
       let volumeName = TrimSpace name; displayName = (if volumeName = [] then fileName else volumeName) in
       if \<not> tf_create tmp then refuse 500 ''create_upload_temp_failed'' (zh ''e5889be5bbbae4b88ae4bca0e7bc93e5ad98e5a4b1e8b4a5'')
       else if \<not> tf_save tmp then refuse 500 ''save_upload_temp_failed'' (zh ''e4bf9de5ad98e4b88ae4bca0e69687e4bbb6e5a4b1e8b4a5'')
       else if \<not> HasSuffix (ToLower displayName) ''.iso'' then refuse 400 ''invalid_iso_name'' (zh ''49534f20e5908de7a7b0e5bf85e9a1bbe4bba5202e69736f20e7bb93e5b0be'')
       else bindp (storageVolumeNameExists (en_send E) cfg poolName displayName) (\<lambda>exists.
         if exists then refuse 409 ''storage_volume_exists'' (zh ''e9959ce5838fe5908de7a7b0e5b7b2e5ad98e59ca8efbc8ce8afb7e69bb4e68da2e5908de7a7b0'')
         else queued_task rq ''storage_volume.upload'' ''agent'' (agent_id a)
           [''agent'' \<mapsto> JStr (agent_name a), ''pool'' \<mapsto> JStr poolName, ''volume'' \<mapsto> JStr displayName, ''message'' \<mapsto> JStr (zh ''e4b88ae4bca02049534f20e68e92e9989fe4b8ad'')]
           ''create_storage_volume_upload_task_failed'' (zh ''e5889be5bbbae4b88ae4bca0e4bbbbe58aa1e5a4b1e8b4a5'') (\<lambda>t.
           runStorageVolumeUploadTask E rq a cfg poolName volumeName fileName (if tf_open tmp then Some content else None) (task_id t))))"

definition handleDeleteStoragePool ::
  "('r, 'v) api_env \<Rightarrow> api_request \<Rightarrow> agent \<Rightarrow> agent_config \<Rightarrow> string \<Rightarrow> 'r api_prog" where
  "handleDeleteStoragePool E rq a cfg poolName =
    (if TrimSpace poolName = [] then refuse 400 ''invalid_request'' (zh ''e5ad98e582a8e6b1a0e5908de7a7b0e4b88de883bde4b8bae7a9ba'')
     else calling (client_DeleteStoragePool (en_send E) cfg poolName) ''agent_storage_pool_delete_failed'' [] (\<lambda>_.
       host_audited rq a ''storage_pool.delete'' [''pool'' \<mapsto> JStr poolName] (AStatus ''ok'')))"

definition handleUpdateStoragePoolState ::
  "('r, 'v) api_env \<Rightarrow> api_request \<Rightarrow> PoolStateUpdateRequest option \<Rightarrow> agent \<Rightarrow> agent_config \<Rightarrow> string \<Rightarrow> 'r api_prog" where
  "handleUpdateStoragePoolState E rq input a cfg poolName = decoded input (zh ''e5ad98e582a8e6b1a0e78ab6e68081e58f82e695b0e6a0bce5bc8fe4b88de6ada3e7a1ae'') (\<lambda>b.
    calling (client_UpdateStoragePoolState (en_send E) cfg poolName b) ''agent_storage_pool_state_failed'' [] (\<lambda>_.
    host_audited rq a ''storage_pool.state.update'' [''name'' \<mapsto> JStr poolName, ''active'' \<mapsto> JBool (pst_Active b)] (AActive (pst_Active b))))"

definition handleUpdateStoragePoolAutostart ::
  "('r, 'v) api_env \<Rightarrow> api_request \<Rightarrow> PoolAutostartUpdateRequest option \<Rightarrow> agent \<Rightarrow> agent_config \<Rightarrow> string \<Rightarrow> 'r api_prog" where
  "handleUpdateStoragePoolAutostart E rq input a cfg poolName = decoded input (zh ''e5ad98e582a8e6b1a0e887aae590afe58aa8e58f82e695b0e6a0bce5bc8fe4b88de6ada3e7a1ae'') (\<lambda>b.
    calling (client_UpdateStoragePoolAutostart (en_send E) cfg poolName b) ''agent_storage_pool_autostart_failed'' [] (\<lambda>_.
    host_audited rq a ''storage_pool.autostart.update'' [''name'' \<mapsto> JStr poolName, ''autostart'' \<mapsto> JBool (pau_Autostart b)]
      (AAutostart (pau_Autostart b))))"

text \<open>The choice of a handler by the method and the rest of the path.\<close>

definition storage_route ::
  "('r, 'v) api_env \<Rightarrow> temp_files \<Rightarrow> api_request \<Rightarrow> host_request \<Rightarrow> agent \<Rightarrow> agent_config \<Rightarrow> string \<Rightarrow> 'r api_prog" where
  "storage_route E tmp rq hq a cfg action =
    (let meth = hq_method hq; send = en_send E; volumes = HasPrefix action ''volumes/''; volume = TrimPrefix action ''volumes/'' in
     if meth = ''GET'' \<and> action = [] then answered_with (client_ListStoragePools send cfg) ''agent_storage_pools_failed'' APools
     else if meth = ''POST'' \<and> action = [] then handleCreateStoragePool E rq (hq_pool hq) a cfg
     else if meth = ''GET'' \<and> HasPrefix action ''iso-files/''
     then answered_with (client_ListISOFiles send cfg (TrimPrefix action ''iso-files/'')) ''agent_iso_files_failed'' AISOs
     else if meth = ''GET'' \<and> volumes then answered_with (client_ListStorageVolumes send cfg volume) ''agent_storage_volumes_failed'' AVolumes
     else if meth = ''POST'' \<and> volumes \<and> HasSuffix action ''/upload''
     then handleUploadStorageVolume E tmp rq (hq_upload hq) a cfg (TrimSuffix volume ''/upload'')
     else if meth = ''POST'' \<and> volumes \<and> HasSuffix action ''/clone''
     then handleCloneStorageVolume E rq (hq_clone hq) a cfg (TrimSuffix volume ''/clone'')
     else if meth = ''POST'' \<and> volumes then handleCreateStorageVolume E rq (hq_volume hq) a cfg volume
     else if meth = ''DELETE'' \<and> volumes then handleDeleteStorageVolume E rq (hq_name hq) a cfg volume
     else if meth = ''DELETE'' \<and> HasPrefix action ''delete/'' then handleDeleteStoragePool E rq a cfg (TrimPrefix action ''delete/'')
     else if meth = ''PUT'' \<and> HasPrefix action ''state/'' then handleUpdateStoragePoolState E rq (hq_state hq) a cfg (TrimPrefix action ''state/'')
     else if meth = ''PUT'' \<and> HasPrefix action ''autostart/''
     then handleUpdateStoragePoolAutostart E rq (hq_autostart hq) a cfg (TrimPrefix action ''autostart/'')
     else wrong_method)"

text \<open>What the three routes share: reading asks for one permission, the rest for another, then comes the agent.\<close>

definition host_route ::
  "('r, 'v) api_env \<Rightarrow> api_request \<Rightarrow> host_request \<Rightarrow> bool \<Rightarrow> string \<Rightarrow> string \<Rightarrow>
   (agent \<Rightarrow> agent_config \<Rightarrow> string \<Rightarrow> 'r api_prog) \<Rightarrow> 'r api_prog" where
  "host_route E rq hq readable manage prefix route =
    (if (if hq_method hq = ''GET'' then readable else hasPermission (rq_user rq) manage)
     then (case parseHostResourcePath (hq_path hq) prefix of
       None \<Rightarrow> no_route
     | Some (agentID, action) \<Rightarrow> agentTokenForHost E agentID (\<lambda>a token. route a (config_of a token) action))
     else no_permission)"

definition handleStoragePoolRoute :: "('r, 'v) api_env \<Rightarrow> temp_files \<Rightarrow> api_request \<Rightarrow> host_request \<Rightarrow> 'r api_prog" where
  "handleStoragePoolRoute E tmp rq hq =
    host_route E rq hq (hasAssociatedStoragePoolReadPermission (rq_user rq)) ''storage.manage'' ''/api/storage-pools/'' (storage_route E tmp rq hq)"

section \<open>Networks\<close>

definition handleCreateNetworkPool ::
  "('r, 'v) api_env \<Rightarrow> api_request \<Rightarrow> NetworkPoolCreateRequest option \<Rightarrow> agent \<Rightarrow> agent_config \<Rightarrow> 'r api_prog" where
  "handleCreateNetworkPool E rq input a cfg = decoded input (zh ''e7bd91e7bb9ce6b1a0e58f82e695b0e6a0bce5bc8fe4b88de6ada3e7a1ae'') (\<lambda>b.
    calling (client_CreateNetworkPool (en_send E) cfg (b\<lparr>npc_Name := TrimSpace (npc_Name b), npc_Subnet := TrimSpace (npc_Subnet b),
        npc_Type := TrimSpace (npc_Type b), npc_Bridge := TrimSpace (npc_Bridge b)\<rparr>)) ''agent_network_pool_create_failed'' [] (\<lambda>item.
    host_audited rq a ''network_pool.create'' [''name'' \<mapsto> JStr (np_Name item), ''type'' \<mapsto> JStr (np_Forward item)] (ANetwork item)))"

definition handleDeleteNetworkPool ::
  "('r, 'v) api_env \<Rightarrow> api_request \<Rightarrow> agent \<Rightarrow> agent_config \<Rightarrow> string \<Rightarrow> 'r api_prog" where
  "handleDeleteNetworkPool E rq a cfg poolName =
    (if TrimSpace poolName = [] then refuse 400 ''invalid_request'' (zh ''e7bd91e7bb9ce6b1a0e5908de7a7b0e4b88de883bde4b8bae7a9ba'')
     else calling (client_DeleteNetworkPool (en_send E) cfg poolName) ''agent_network_pool_delete_failed'' [] (\<lambda>_.
       host_audited rq a ''network_pool.delete'' [''pool'' \<mapsto> JStr poolName] (AStatus ''ok'')))"

definition handleUpdateNetworkPoolState ::
  "('r, 'v) api_env \<Rightarrow> api_request \<Rightarrow> PoolStateUpdateRequest option \<Rightarrow> agent \<Rightarrow> agent_config \<Rightarrow> string \<Rightarrow> 'r api_prog" where
  "handleUpdateNetworkPoolState E rq input a cfg poolName = decoded input (zh ''e7bd91e7bb9ce6b1a0e78ab6e68081e58f82e695b0e6a0bce5bc8fe4b88de6ada3e7a1ae'') (\<lambda>b.
    calling (client_UpdateNetworkPoolState (en_send E) cfg poolName b) ''agent_network_pool_state_failed'' [] (\<lambda>_.
    host_audited rq a ''network_pool.state.update'' [''name'' \<mapsto> JStr poolName, ''active'' \<mapsto> JBool (pst_Active b)] (AActive (pst_Active b))))"

definition handleUpdateNetworkPoolAutostart ::
  "('r, 'v) api_env \<Rightarrow> api_request \<Rightarrow> PoolAutostartUpdateRequest option \<Rightarrow> agent \<Rightarrow> agent_config \<Rightarrow> string \<Rightarrow> 'r api_prog" where
  "handleUpdateNetworkPoolAutostart E rq input a cfg poolName = decoded input (zh ''e7bd91e7bb9ce6b1a0e887aae590afe58aa8e58f82e695b0e6a0bce5bc8fe4b88de6ada3e7a1ae'') (\<lambda>b.
    calling (client_UpdateNetworkPoolAutostart (en_send E) cfg poolName b) ''agent_network_pool_autostart_failed'' [] (\<lambda>_.
    host_audited rq a ''network_pool.autostart.update'' [''name'' \<mapsto> JStr poolName, ''autostart'' \<mapsto> JBool (pau_Autostart b)]
      (AAutostart (pau_Autostart b))))"

definition network_route ::
  "('r, 'v) api_env \<Rightarrow> api_request \<Rightarrow> host_request \<Rightarrow> agent \<Rightarrow> agent_config \<Rightarrow> string \<Rightarrow> 'r api_prog" where
  "network_route E rq hq a cfg action = (let meth = hq_method hq in
     if meth = ''GET'' \<and> action = [] then answered_with (client_ListNetworkPools (en_send E) cfg) ''agent_network_pools_failed'' ANetworks
     else if meth = ''POST'' \<and> action = [] then handleCreateNetworkPool E rq (hq_network hq) a cfg
     else if meth = ''PUT'' \<and> HasPrefix action ''state/'' then handleUpdateNetworkPoolState E rq (hq_state hq) a cfg (TrimPrefix action ''state/'')
     else if meth = ''PUT'' \<and> HasPrefix action ''autostart/''
     then handleUpdateNetworkPoolAutostart E rq (hq_autostart hq) a cfg (TrimPrefix action ''autostart/'')
     else if meth = ''DELETE'' \<and> HasPrefix action ''delete/'' then handleDeleteNetworkPool E rq a cfg (TrimPrefix action ''delete/'')
     else wrong_method)"

definition handleNetworkPoolRoute :: "('r, 'v) api_env \<Rightarrow> api_request \<Rightarrow> host_request \<Rightarrow> 'r api_prog" where
  "handleNetworkPoolRoute E rq hq =
    host_route E rq hq (hasAssociatedNetworkPoolReadPermission (rq_user rq)) ''network.manage'' ''/api/network-pools/'' (network_route E rq hq)"

section \<open>Interfaces of a host\<close>

definition trimStringSlice :: "string list \<Rightarrow> string list" where
  "trimStringSlice values = filter (\<lambda>v. v \<noteq> []) (map TrimSpace values)"

definition handleCreateHostInterface ::
  "('r, 'v) api_env \<Rightarrow> api_request \<Rightarrow> HostInterfaceCreateRequest option \<Rightarrow> agent \<Rightarrow> agent_config \<Rightarrow> 'r api_prog" where
  "handleCreateHostInterface E rq input a cfg = decoded input (zh ''e68ea5e58fa3e58f82e695b0e6a0bce5bc8fe4b88de6ada3e7a1ae'') (\<lambda>b.
    calling (client_CreateHostInterface (en_send E) cfg \<lparr>ic_Name = TrimSpace (ic_Name b), ic_StartMode = TrimSpace (ic_StartMode b),
        ic_Device = TrimSpace (ic_Device b), ic_Type = TrimSpace (ic_Type b), ic_STP = TrimSpace (ic_STP b), ic_Delay = TrimSpace (ic_Delay b),
        ic_IPv4Mode = TrimSpace (ic_IPv4Mode b), ic_IPv4Address = TrimSpace (ic_IPv4Address b), ic_IPv4Gateway = TrimSpace (ic_IPv4Gateway b),
        ic_IPv6Mode = TrimSpace (ic_IPv6Mode b), ic_IPv6Address = TrimSpace (ic_IPv6Address b), ic_IPv6Gateway = TrimSpace (ic_IPv6Gateway b),
        ic_ApplySystemConfig = ic_ApplySystemConfig b, ic_DNSServers = trimStringSlice (ic_DNSServers b)\<rparr>)
      ''agent_host_interface_create_failed'' [] (\<lambda>item.
    host_audited rq a ''host_interface.create'' [''name'' \<mapsto> JStr (ifc_Name item), ''type'' \<mapsto> JStr (ifc_Type item)] (AInterface item)))"

definition handleUpdateHostInterfaceState ::
  "('r, 'v) api_env \<Rightarrow> api_request \<Rightarrow> PoolStateUpdateRequest option \<Rightarrow> agent \<Rightarrow> agent_config \<Rightarrow> string \<Rightarrow> 'r api_prog" where
  "handleUpdateHostInterfaceState E rq input a cfg name =
    (if TrimSpace name = [] then refuse 400 ''invalid_request'' (zh ''e68ea5e58fa3e5908de7a7b0e4b88de883bde4b8bae7a9ba'')
     else decoded input (zh ''e68ea5e58fa3e78ab6e68081e58f82e695b0e6a0bce5bc8fe4b88de6ada3e7a1ae'') (\<lambda>b.
       calling (client_UpdateHostInterfaceState (en_send E) cfg name b) ''agent_host_interface_state_failed'' [] (\<lambda>_.
       host_audited rq a ''host_interface.state.update'' [''name'' \<mapsto> JStr name, ''active'' \<mapsto> JBool (pst_Active b)] (AActive (pst_Active b)))))"

definition handleDeleteHostInterface ::
  "('r, 'v) api_env \<Rightarrow> api_request \<Rightarrow> agent \<Rightarrow> agent_config \<Rightarrow> string \<Rightarrow> 'r api_prog" where
  "handleDeleteHostInterface E rq a cfg name =
    (if TrimSpace name = [] then refuse 400 ''invalid_request'' (zh ''e68ea5e58fa3e5908de7a7b0e4b88de883bde4b8bae7a9ba'')
     else calling (client_DeleteHostInterface (en_send E) cfg name) ''agent_host_interface_delete_failed'' [] (\<lambda>_.
       host_audited rq a ''host_interface.delete'' [''name'' \<mapsto> JStr name] (AStatus ''ok'')))"

definition interface_route ::
  "('r, 'v) api_env \<Rightarrow> api_request \<Rightarrow> host_request \<Rightarrow> agent \<Rightarrow> agent_config \<Rightarrow> string \<Rightarrow> 'r api_prog" where
  "interface_route E rq hq a cfg action = (let meth = hq_method hq; send = en_send E in
     if meth = ''GET'' \<and> action = [] then answered_with (client_ListHostInterfaces send cfg) ''agent_host_interfaces_failed'' AInterfaces
     else if meth = ''GET'' \<and> action = ''devices/list''
     then answered_with (client_ListHostInterfaceDevices send cfg) ''agent_host_interface_devices_failed'' ADevices
     else if meth = ''POST'' \<and> action = [] then handleCreateHostInterface E rq (hq_interface hq) a cfg
     else if meth = ''PUT'' \<and> HasPrefix action ''state/'' then handleUpdateHostInterfaceState E rq (hq_state hq) a cfg (TrimPrefix action ''state/'')
     else if meth = ''DELETE'' \<and> HasPrefix action ''delete/'' then handleDeleteHostInterface E rq a cfg (TrimPrefix action ''delete/'')
     else wrong_method)"

definition handleHostInterfaceRoute :: "('r, 'v) api_env \<Rightarrow> api_request \<Rightarrow> host_request \<Rightarrow> 'r api_prog" where
  "handleHostInterfaceRoute E rq hq =
    host_route E rq hq (hasPermission (rq_user rq) ''host.interfaces.read'') ''host.interfaces.manage'' ''/api/host-interfaces/'' (interface_route E rq hq)"

end
