(* ===== verification/Agent_Router.thy ===== *)
theory Agent_Router
  imports Vm_Lifecycle
begin

text \<open>
  The handlers of agents (\<open>api/router/agents.go\<close>): registration with the check that the host is not registered
  already, the test of a connection, synchronisation and deletion.
\<close>

record createAgentRequest =
  ca_Name :: string
  ca_Endpoint :: string
  ca_Token :: string
  ca_TLSInsecure :: bool

section \<open>The identity of an address\<close>

datatype agent_check_error =
    NameDuplicate
  | EndpointDuplicate
  | EndpointIPDuplicate
  | InvalidEndpoint string
  | CheckFailed

record agentEndpointIdentity =
  ei_normalized :: string
  ei_ips :: "string list"

text \<open>\<open>net.LookupPort\<close> of a text that is empty or has only digits; \<open>net.JoinHostPort\<close>.\<close>

definition port_ok :: "string \<Rightarrow> bool" where
  "port_ok port \<longleftrightarrow> foldl (\<lambda>n c. 10 * n + (byte c - 48)) 0 port \<le> 65535"

definition JoinHostPort :: "string \<Rightarrow> string \<Rightarrow> string" where
  "JoinHostPort host port = (if CHR '':'' \<in> set host then ''['' @ host @ '']:'' @ port else host @ '':'' @ port)"

text \<open>
  \<open>lookup\<close> answers an address literal by itself and a name by the addresses of the resolver. The order of the
  addresses is that of their texts.
\<close>

definition resolveAgentEndpointIdentity ::
  "(string \<Rightarrow> string list option) \<Rightarrow> string \<Rightarrow> agent_check_error + agentEndpointIdentity" where
  "resolveAgentEndpointIdentity lookup endpoint =
    (let invalid = (\<lambda>m. Inl (InvalidEndpoint m)) in
     case url_Parse endpoint of
       None \<Rightarrow> invalid (zh ''4167656e7420e59cb0e59d80e6a0bce5bc8fe4b88de6ada3e7a1ae'')
     | Some u \<Rightarrow>
         let host = Hostname u;
             port = (if Port u \<noteq> [] then Port u else if u_Scheme u = ''http'' then ''80'' else if u_Scheme u = ''https'' then ''443'' else []) in
         if u_Scheme u = [] \<or> u_Host u = [] then invalid (zh ''4167656e7420e59cb0e59d80e6a0bce5bc8fe4b88de6ada3e7a1ae'')
         else if u_User u \<noteq> None \<or> u_RawQuery u \<noteq> [] \<or> u_HasFragment u then invalid (zh ''4167656e7420e59cb0e59d80e4b88de883bde58c85e590abe8aea4e8af81e4bfa1e681afe38081e69fa5e8afa2e58f82e695b0e68896e78987e6aeb5'')
         else if host = [] then invalid (zh ''4167656e7420e59cb0e59d80e7bcbae5b091e4b8bbe69cbae5908d'')
         else if \<not> port_ok port then invalid (zh ''4167656e7420e59cb0e59d80e7abafe58fa3e4b88de6ada3e7a1ae'')
         else case lookup host of
           None \<Rightarrow> invalid (zh ''4167656e7420e59cb0e59d80e697a0e6b395e8a7a3e69e90'')
         | Some found \<Rightarrow>
             let ips = remdups (filter (\<lambda>ip. ip \<noteq> []) found) in
             if ips = [] then invalid (zh ''4167656e7420e59cb0e59d80e6b2a1e69c89e58fafe794a8204950'')
             else Inr \<lparr>ei_normalized = url_String (u\<lparr>u_Host := JoinHostPort (ToLower host) port, u_Path := TrimRight (EscapedPath u) ''/''\<rparr>),
               ei_ips = sort ips\<rparr>)"

definition sameEndpointSchemePortPath :: "string \<Rightarrow> string \<Rightarrow> bool" where
  "sameEndpointSchemePortPath a b = (case (url_Parse a, url_Parse b) of
     (Some l, Some r) \<Rightarrow> u_Scheme l = u_Scheme r \<and> Port l = Port r \<and> TrimRight (EscapedPath l) ''/'' = TrimRight (EscapedPath r) ''/''
   | _ \<Rightarrow> False)"

definition endpointIdentityMatches :: "agentEndpointIdentity \<Rightarrow> agentEndpointIdentity \<Rightarrow> bool" where
  "endpointIdentityMatches new old \<longleftrightarrow> ei_normalized new = ei_normalized old \<or>
     (sameEndpointSchemePortPath (ei_normalized new) (ei_normalized old) \<and> list_ex (\<lambda>ip. ip \<in> set (ei_ips old)) (ei_ips new))"

text \<open>The text of the error is that of \<open>errInvalidAgentEndpoint\<close>, a colon and the detail.\<close>

definition invalidAgentEndpointMessage :: "string \<Rightarrow> string" where
  "invalidAgentEndpointMessage e = (let message = TrimSpace e; prefix = ''invalid agent endpoint:'' in
     if HasPrefix message prefix then TrimSpace (TrimPrefix message prefix) else zh ''4167656e7420e59cb0e59d80e6a0bce5bc8fe4b88de6ada3e7a1ae'')"

section \<open>Registration\<close>

type_synonym 'r agent_check = "('r, agent_check_error option) service_prog"

definition ensureAgentNameUnique :: "string \<Rightarrow> 'r agent_check" where
  "ensureAgentNameUnique name = bindp (attempt (on_store (GetAgentByName name))) (\<lambda>r. ret (case r of
     Inr _ \<Rightarrow> Some NameDuplicate
   | Inl e \<Rightarrow> if e = RepoError ErrNotFound then None else Some CheckFailed))"

text \<open>An agent whose address cannot be resolved is passed over.\<close>

definition same_endpoint :: "(string \<Rightarrow> string list option) \<Rightarrow> agentEndpointIdentity \<Rightarrow> agent \<Rightarrow> bool" where
  "same_endpoint lookup identity a = (case resolveAgentEndpointIdentity lookup (agent_endpoint a) of
     Inl _ \<Rightarrow> False | Inr old \<Rightarrow> endpointIdentityMatches identity old)"

definition ensureAgentEndpointUnique :: "(string \<Rightarrow> string list option) \<Rightarrow> string \<Rightarrow> 'r agent_check" where
  "ensureAgentEndpointUnique lookup endpoint = (case resolveAgentEndpointIdentity lookup endpoint of
     Inl e \<Rightarrow> ret (Some e)
   | Inr identity \<Rightarrow>
       bindp (attempt (on_store (GetAgentByEndpoint (ei_normalized identity)))) (\<lambda>r. case r of
         Inr _ \<Rightarrow> ret (Some EndpointDuplicate)
       | Inl e \<Rightarrow>
           if e \<noteq> RepoError ErrNotFound then ret (Some CheckFailed)
           else bindp (attempt (on_store ListAgents)) (\<lambda>listed. ret (case listed of
             Inl _ \<Rightarrow> Some CheckFailed
           | Inr as \<Rightarrow> if list_ex (same_endpoint lookup identity) as then Some EndpointIPDuplicate else None))))"

definition tidy_request :: "createAgentRequest \<Rightarrow> createAgentRequest" where
  "tidy_request b = b\<lparr>ca_Name := TrimSpace (ca_Name b), ca_Endpoint := TrimRight (TrimSpace (ca_Endpoint b)) ''/'', ca_Token := TrimSpace (ca_Token b)\<rparr>"

definition http_address :: "string \<Rightarrow> bool" where
  "http_address endpoint \<longleftrightarrow> HasPrefix endpoint ''http://'' \<or> HasPrefix endpoint ''https://''"

definition create_agent :: "('r, 'v) api_env \<Rightarrow> api_request \<Rightarrow> createAgentRequest \<Rightarrow> 'r api_prog" where
  "create_agent E rq body = (case Seal (sv_aead (en_sv E)) (en_random E) (sv_secret (en_sv E)) (ca_Token body) of
     None \<Rightarrow> refuse 500 ''create_agent_failed'' (zh ''e4bf9de5ad98204167656e7420e4bba4e7898ce5a4b1e8b4a5'')
   | Some ciphertext \<Rightarrow>
       bindp (attempt (on_store (CreateAgent (en_hash_token E) (ca_Name body) (ca_Endpoint body) (ca_Token body) ciphertext (ca_TLSInsecure body)))) (\<lambda>r. case r of
         Inl e \<Rightarrow>
           if e = RepoError UniqueViolation then refuse 409 ''agent_exists'' (zh ''4167656e7420e5908de7a7b0e5b7b2e5ad98e59ca8'')
           else refuse 500 ''create_agent_failed'' (zh ''e5889be5bbba204167656e7420e5a4b1e8b4a5'')
       | Inr a \<Rightarrow>
           bindp (audit rq ''agent.create'' ''agent'' (agent_id a) [''name'' \<mapsto> JStr (agent_name a), ''endpoint'' \<mapsto> JStr (agent_endpoint a)]) (\<lambda>_.
           respond 201 (AAgent a))))"

definition handleCreateAgent :: "('r, 'v) api_env \<Rightarrow> api_request \<Rightarrow> createAgentRequest option \<Rightarrow> 'r api_prog" where
  "handleCreateAgent E rq input = permitted (rq_user rq) ''agents.manage'' (
    decoded input (zh ''e8afb7e6b182e4bd93e5bf85e9a1bbe698afe69c89e69588e79a84204167656e74204a534f4e'') (\<lambda>body0.
    let body = tidy_request body0 in
    if ca_Name body = [] \<or> ca_Endpoint body = [] \<or> ca_Token body = []
    then refuse 400 ''missing_agent_fields'' (zh ''4167656e7420e5908de7a7b0e38081e59cb0e59d80e5928ce4bba4e7898ce4b88de883bde4b8bae7a9ba'')
    else if \<not> http_address (ca_Endpoint body) then refuse 400 ''invalid_endpoint'' (zh ''4167656e7420e59cb0e59d80e5bf85e9a1bbe4bba520687474703a2f2f20e688962068747470733a2f2f20e5bc80e5a4b4'')
    else bindp (ensureAgentNameUnique (ca_Name body)) (\<lambda>named. case named of
      Some NameDuplicate \<Rightarrow> refuse 409 ''agent_exists'' (zh ''4167656e7420e5908de7a7b0e5b7b2e5ad98e59ca8'')
    | Some _ \<Rightarrow> refuse 500 ''check_agent_name_failed'' (zh ''e6a380e69fa5204167656e7420e5908de7a7b0e5a4b1e8b4a5'')
    | None \<Rightarrow>
        bindp (ensureAgentEndpointUnique (en_lookup_ip E) (ca_Endpoint body)) (\<lambda>placed. case placed of
          Some EndpointDuplicate \<Rightarrow> refuse 409 ''agent_endpoint_exists'' (zh ''4167656e7420e59cb0e59d80e5b7b2e5ad98e59ca8'')
        | Some EndpointIPDuplicate \<Rightarrow> refuse 409 ''agent_endpoint_exists'' (zh ''4167656e7420e59cb0e59d80e5b7b2e5ad98e59ca8'')
        | Some (InvalidEndpoint m) \<Rightarrow> refuse 400 ''invalid_endpoint'' (invalidAgentEndpointMessage (''invalid agent endpoint: '' @ m))
        | Some _ \<Rightarrow> refuse 500 ''check_agent_endpoint_failed'' (zh ''e6a380e69fa5204167656e7420e59cb0e59d80e5a4b1e8b4a5'')
        | None \<Rightarrow> create_agent E rq body))))"

definition handleListAgents :: "api_request \<Rightarrow> 'r api_prog" where
  "handleListAgents rq = permitted (rq_user rq) ''agents.read'' (
    bindp (attempt (on_store ListAgents)) (\<lambda>r. case r of
      Inl _ \<Rightarrow> refuse 500 ''list_agents_failed'' (zh ''e8afbbe58f96204167656e7420e58897e8a1a8e5a4b1e8b4a5'')
    | Inr as \<Rightarrow> respond 200 (AAgents as)))"

section \<open>Operations on an agent\<close>

definition probeAgentHost :: "('r, 'v) api_env \<Rightarrow> string \<Rightarrow> string \<Rightarrow> bool \<Rightarrow> ('r rt, agent_error, HostInfo) prog" where
  "probeAgentHost E endpoint token tlsInsecure =
     client_HostInfo (en_send E) \<lparr>cfg_Endpoint = endpoint, cfg_Token = token, cfg_TLSInsecure = tlsInsecure\<rparr>"

definition handleAgentProbe :: "('r, 'v) api_env \<Rightarrow> api_request \<Rightarrow> createAgentRequest option \<Rightarrow> 'r api_prog" where
  "handleAgentProbe E rq input = permitted (rq_user rq) ''agents.manage'' (
    decoded input (zh ''e8afb7e6b182e4bd93e5bf85e9a1bbe698afe69c89e69588e79a84204167656e74204a534f4e'') (\<lambda>body0.
    let body = tidy_request body0 in
    if ca_Endpoint body = [] \<or> ca_Token body = [] then refuse 400 ''missing_agent_fields'' (zh ''4167656e7420e59cb0e59d80e5928ce4bba4e7898ce4b88de883bde4b8bae7a9ba'')
    else if \<not> http_address (ca_Endpoint body) then refuse 400 ''invalid_endpoint'' (zh ''4167656e7420e59cb0e59d80e5bf85e9a1bbe4bba520687474703a2f2f20e688962068747470733a2f2f20e5bc80e5a4b4'')
    else calling (probeAgentHost E (ca_Endpoint body) (ca_Token body) (ca_TLSInsecure body)) ''agent_unreachable'' [] (\<lambda>info.
      respond 200 (AHost info))))"

text \<open>\<open>given\<close> is the token in the body, none when it cannot be decoded.\<close>

definition agentWithOptionalToken ::
  "('r, 'v) api_env \<Rightarrow> string \<Rightarrow> string option \<Rightarrow> (agent \<Rightarrow> string \<Rightarrow> 'r api_prog) \<Rightarrow> 'r api_prog" where
  "agentWithOptionalToken E i given k =
    bindp (attempt (on_store (GetAgent i))) (\<lambda>r. case r of
      Inl e \<Rightarrow>
        if e = RepoError ErrNotFound then refuse 404 ''agent_not_found'' (zh ''4167656e7420e4b88de5ad98e59ca8'')
        else refuse 500 ''get_agent_failed'' (zh ''e8afbbe58f96204167656e7420e5a4b1e8b4a5'')
    | Inr a \<Rightarrow>
        let token = (case given of None \<Rightarrow> [] | Some t \<Rightarrow> TrimSpace t) in
        if token \<noteq> [] then
          bindp (attempt (on_store (GetAgentTokenHash i))) (\<lambda>h.
          if h = Inr (en_hash_token E token) then k a token
          else refuse 401 ''invalid_agent_token'' (zh ''4167656e7420e4bba4e7898ce4b88de6ada3e7a1ae''))
        else (case usable_token E a of
          None \<Rightarrow> refuse 400 ''agent_token_unavailable'' (zh ''4167656e7420e4bba4e7898ce4b88de58fafe794a8efbc8ce8afb7e9878de696b0e4bf9de5ad98204167656e74'')
        | Some t \<Rightarrow> k a t))"

definition handleAgentTest :: "('r, 'v) api_env \<Rightarrow> api_request \<Rightarrow> string option \<Rightarrow> string \<Rightarrow> 'r api_prog" where
  "handleAgentTest E rq given i = agentWithOptionalToken E i given (\<lambda>a token.
    bindp (attempt (probeAgentHost E (agent_endpoint a) token (agent_tls_insecure a))) (\<lambda>r. case r of
      Inl e \<Rightarrow>
        let message = UserFacingErrorMessage e in
        bindp (ignore (on_store (UpdateAgentHealth i ''offline'' [] [] message))) (\<lambda>_.
        bindp (audit rq ''agent.test'' ''agent'' i [''agent'' \<mapsto> JStr (agent_name a), ''status'' \<mapsto> JStr ''offline'', ''error'' \<mapsto> JStr message]) (\<lambda>_.
        refuse 503 ''agent_unreachable'' message))
    | Inr info \<Rightarrow>
        bindp (ignore (on_store (UpdateAgentHealth i ''online'' (hi_KVMVersion info) (hi_Capabilities info) []))) (\<lambda>_.
        bindp (audit rq ''agent.test'' ''agent'' i [''agent'' \<mapsto> JStr (agent_name a), ''status'' \<mapsto> JStr ''online'']) (\<lambda>_.
        respond 200 (AHost info)))))"

definition handleAgentSync :: "('r, 'v) api_env \<Rightarrow> api_request \<Rightarrow> string option \<Rightarrow> string \<Rightarrow> 'r api_prog" where
  "handleAgentSync E rq given i = agentWithOptionalToken E i given (\<lambda>a token.
    case Seal (sv_aead (en_sv E)) (en_random E) (sv_secret (en_sv E)) token of
      None \<Rightarrow> refuse 500 ''seal_agent_token_failed'' (zh ''e4bf9de5ad98204167656e7420e4bba4e7898ce5a4b1e8b4a5'')
    | Some ciphertext \<Rightarrow>
        bindp (ignore (on_store (UpdateAgentTokenCiphertext i ciphertext))) (\<lambda>_.
        bindp (attempt (SyncAgentWithToken (en_sv E) i token)) (\<lambda>r. case r of
          Inl e \<Rightarrow>
            if e = RepoError ErrNotFound then refuse 404 ''agent_not_found'' (zh ''4167656e7420e4b88de5ad98e59ca8'')
            else refuse 503 ''agent_sync_failed'' (service_error_message E e)
        | Inr _ \<Rightarrow>
            bindp (audit rq ''agent.sync'' ''agent'' i [''agent'' \<mapsto> JStr (agent_name a)]) (\<lambda>_.
            respond 200 (AAgentSynced (agent_name a))))))"

text \<open>The alerts are resolved before the deletion; a resolution that fails is only logged.\<close>

definition handleAgentDelete :: "('r, 'v) api_env \<Rightarrow> api_request \<Rightarrow> string \<Rightarrow> 'r api_prog" where
  "handleAgentDelete E rq i =
    (let missing = refuse 404 ''agent_not_found'' (zh ''4167656e7420e4b88de5ad98e59ca8'') in
     bindp (attempt (on_store (GetAgent i))) (\<lambda>r. case r of
       Inl e \<Rightarrow> if e = RepoError ErrNotFound then missing else refuse 500 ''get_agent_failed'' (zh ''e8afbbe58f96204167656e7420e5a4b1e8b4a5'')
     | Inr a \<Rightarrow>
         bindp (attempt (on_store (ResolveActiveAlertsBySourceReturning ''agent'' i))) (\<lambda>resolved.
         bindp (attempt (on_store (DeleteAgent i))) (\<lambda>deleted. case deleted of
           Inl e \<Rightarrow> if e = RepoError ErrNotFound then missing else refuse 500 ''delete_agent_failed'' (zh ''e588a0e999a4204167656e7420e5a4b1e8b4a5'')
         | Inr _ \<Rightarrow>
             bindp (case resolved of
                 Inr (al # als) \<Rightarrow> on_alerts (QueueResolvedAlertNotifications (sv_notifier (en_sv E)) (al # als))
               | _ \<Rightarrow> ret ()) (\<lambda>_.
             bindp (service_RemoveAgent (en_sv E) i) (\<lambda>_.
             bindp (audit rq ''agent.delete'' ''agent'' i [''name'' \<mapsto> JStr (agent_name a), ''endpoint'' \<mapsto> JStr (agent_endpoint a)]) (\<lambda>_.
             respond 200 (AStatus ''ok''))))))))"

definition handleAgentRoute :: "('r, 'v) api_env \<Rightarrow> api_request \<Rightarrow> string \<Rightarrow> string \<Rightarrow> string option \<Rightarrow> 'r api_prog" where
  "handleAgentRoute E rq meth path given = permitted (rq_user rq) ''agents.manage'' (
    case parseAgentPath path of
      None \<Rightarrow> no_route
    | Some (i, action) \<Rightarrow>
        if meth = ''DELETE'' then (if action \<noteq> [] then wrong_method else handleAgentDelete E rq i)
        else if meth \<noteq> ''POST'' then wrong_method
        else if action = ''test-connection'' then handleAgentTest E rq given i
        else if action = ''sync'' then handleAgentSync E rq given i
        else refuse 404 ''unknown_action'' (zh ''e4b88de694afe68c81e79a84204167656e7420e6938de4bd9c''))"

end
