(* ===== verification/Fleet_Router.thy ===== *)
theory Fleet_Router
  imports Vm_Config_Api Vm_Migrate_Check Snapshot_Api Pool_Api Agent_Router Auth_Service
begin

text \<open>
  The routes of the fleet (\<open>api/router/router.go\<close>): the route of a machine with its permissions, the lists, and
  the choice of a handler by method and path behind \<open>requireAuth\<close>.
\<close>

section \<open>One machine\<close>

record vm_request =
  vq_method :: string
  vq_path :: string
  vq_config :: "VMConfigUpdateRequest option"
  vq_console :: "VMConsoleUpdateRequest option"
  vq_rename :: "VMRenameRequest option"
  vq_autostart :: "VMAutostartUpdateRequest option"
  vq_connect :: "VMMediaConnectRequest option"
  vq_disconnect :: "VMMediaDisconnectRequest option"
  vq_xml :: "VMXMLUpdateRequest option"
  vq_devices :: "VMDeviceUpdateRequest option"
  vq_mark :: "markVMTemplateRequest option"
  vq_clone :: "VMCloneRequest option"
  vq_migrate :: "migrateVMRequest option"
  vq_ssh_key :: "migrationSSHKeySetupRequest option"
  vq_hostname :: "migrationHostnameSetupRequest option"
  vq_upgrade :: "int option"

text \<open>\<open>order\<close> is the order in which the code meets the keys of a map, \<open>dial\<close> the connection to the console of an agent.\<close>

record 'r vm_world =
  vw_order :: "string list \<Rightarrow> string list"
  vw_dial :: "bool \<Rightarrow> string \<Rightarrow> string \<Rightarrow> ('r, bool) service_prog"

definition vm_get :: "('r, 'v) api_env \<Rightarrow> string \<Rightarrow> string \<Rightarrow> 'r api_prog" where
  "vm_get E i action =
    (if action = [] then handleGetVM E i
     else if action = ''config'' then handleGetVMConfig E i
     else if action = ''console'' then handleGetVMConsole E i
     else wrong_method)"

definition vm_put :: "('r, 'v) api_env \<Rightarrow> api_request \<Rightarrow> vm_request \<Rightarrow> string \<Rightarrow> string \<Rightarrow> 'r api_prog" where
  "vm_put E rq q i action =
    (if action = ''config'' then handleUpdateVMConfig E rq (vq_config q) i
     else if action = ''console'' then handleUpdateVMConsole E rq (vq_console q) i
     else if action = ''rename'' then handleRenameVM E rq (vq_rename q) i
     else if action = ''autostart'' then handleUpdateVMAutostart E rq (vq_autostart q) i
     else if action = ''media'' then handleConnectVMMedia E rq (vq_connect q) i
     else if action = ''xml'' then handleUpdateVMXML E rq (vq_xml q) i
     else if action = ''devices'' then handleUpdateVMDevices E rq (vq_devices q) i
     else wrong_method)"

definition vm_delete :: "('r, 'v) api_env \<Rightarrow> api_request \<Rightarrow> vm_request \<Rightarrow> string \<Rightarrow> string \<Rightarrow> 'r api_prog" where
  "vm_delete E rq q i action =
    (if action = ''media'' then handleDisconnectVMMedia E rq (vq_disconnect q) i
     else if action = ''template-mark'' then handleUnmarkVMTemplate E rq i
     else wrong_method)"

definition vm_post ::
  "('r, 'v) api_env \<Rightarrow> 'r vm_world \<Rightarrow> api_request \<Rightarrow> vm_request \<Rightarrow> string \<Rightarrow> string \<Rightarrow> 'r api_prog" where
  "vm_post E W rq q i action =
    (if action = ''template-mark'' then handleMarkVMTemplate E rq (vq_mark q) i
     else if action = ''template-create'' then handleCreateVMFromTemplate E (vw_order W) rq (vq_clone q) i
     else if action = ''clone'' then handleCloneVM E (vw_order W) rq (vq_clone q) i
     else if action = ''migrate'' then handleMigrateVM E rq (vq_migrate q) i
     else if action = ''migrate-precheck'' then handlePrecheckVMMigration E (vq_migrate q) i
     else if action = ''migrate-ssh-key'' then handleSetupVMMigrationSSHKey E rq (vq_ssh_key q) i
     else if action = ''migrate-hostname'' then handleSetupVMMigrationHostname E rq (vq_hostname q) i
     else if action = ''refresh'' then handleRefreshVM E rq i
     else if action \<noteq> [] then handleVMAction E rq i action
     else wrong_method)"

definition vm_operation ::
  "('r, 'v) api_env \<Rightarrow> 'r vm_world \<Rightarrow> api_request \<Rightarrow> vm_request \<Rightarrow> string \<Rightarrow> string \<Rightarrow> 'r api_prog" where
  "vm_operation E W rq q i action =
    (if vq_method q = ''GET'' then vm_get E i action
     else if vq_method q = ''PUT'' then vm_put E rq q i action
     else if vq_method q = ''DELETE'' then vm_delete E rq q i action
     else if vq_method q = ''POST'' then vm_post E W rq q i action
     else wrong_method)"

definition handleVMRoute :: "('r, 'v) api_env \<Rightarrow> 'r vm_world \<Rightarrow> api_request \<Rightarrow> vm_request \<Rightarrow> 'r api_prog" where
  "handleVMRoute E W rq q = (let meth = vq_method q; path = vq_path q in
     case (if meth = ''GET'' then parseVMConsolePath path else None) of
       Some i \<Rightarrow> permitted (rq_user rq) ''vms.console'' (handleVMConsoleWS E (vq_upgrade q) (vw_dial W) rq i)
     | None \<Rightarrow> (case parseVMPath path of
         None \<Rightarrow> no_route
       | Some (i, action) \<Rightarrow>
           let permission = vmRoutePermission meth action in
           if permission = [] then vm_operation E W rq q i action
           else permitted (rq_user rq) permission (vm_operation E W rq q i action)))"

section \<open>Lists\<close>

definition handleListVMs :: "('r, 'v) api_env \<Rightarrow> api_request \<Rightarrow> string \<Rightarrow> string \<Rightarrow> string \<Rightarrow> 'r api_prog" where
  "handleListVMs E rq status q hostID =
    (if hasAssociatedVMReadPermission (rq_user rq)
     then bindp (service_ListVMs (en_sv E) status (TrimSpace q) (TrimSpace hostID)) (\<lambda>vms. respond 200 (AVMs vms))
     else no_permission)"

definition handleListHosts :: "('r, 'v) api_env \<Rightarrow> api_request \<Rightarrow> 'r api_prog" where
  "handleListHosts E rq =
    (if hasAssociatedHostReadPermission (rq_user rq)
     then bindp (service_ListHosts (en_sv E)) (\<lambda>hosts. respond 200 (AHosts hosts))
     else no_permission)"

text \<open>The search in the text of a row (ILIKE, JSON operators) is the argument \<open>search\<close>.\<close>

definition listed :: "int \<Rightarrow> int \<Rightarrow> int \<Rightarrow> ('a \<Rightarrow> bool) \<Rightarrow> ('a \<Rightarrow> int) \<Rightarrow> (db \<Rightarrow> 'a list) \<Rightarrow> ('a list \<times> nat) db_prog" where
  "listed fallback limit0 offset0 shown key rows =
    (let limit = (if limit0 < 0 \<or> limit0 > 200 then fallback else limit0);
         offset = (if offset0 < 0 then 0 else offset0) in
     bindp (query (\<lambda>d. length (filter shown (rows d)))) (\<lambda>count.
     bindp (query (\<lambda>d. page limit offset (sort_key (\<lambda>x. - key x) (filter shown (rows d))))) (\<lambda>items.
     ret (items, count))))"

definition ListAuditLogs :: "(audit_row \<Rightarrow> bool) \<Rightarrow> int \<Rightarrow> int \<Rightarrow> (audit_row list \<times> nat) db_prog" where
  "ListAuditLogs search limit offset = listed 20 limit offset search au_created_at audit_log"

definition ListAlerts :: "(alert \<Rightarrow> bool) \<Rightarrow> string \<Rightarrow> int \<Rightarrow> int \<Rightarrow> (alert list \<times> nat) db_prog" where
  "ListAlerts search status limit offset =
     listed 20 limit offset (\<lambda>a. (status = [] \<or> alert_status a = status) \<and> search a) alert_last_seen_at alerts"

definition everything :: "'a \<Rightarrow> bool" where "everything x \<longleftrightarrow> True"

definition handleDashboardSummary :: "('r, 'v) api_env \<Rightarrow> api_request \<Rightarrow> 'r api_prog" where
  "handleDashboardSummary E rq = permitted (rq_user rq) ''dashboard.read'' (
    bindp (attempt (on_store (ListAuditLogs everything 8 0))) (\<lambda>logged. case logged of
      Inl _ \<Rightarrow> refuse 500 ''dashboard_failed'' (zh ''e8afbbe58f96e4bbaae8a1a8e79b98e695b0e68daee5a4b1e8b4a5'')
    | Inr (logs, _) \<Rightarrow>
        bindp (attempt (on_store (ListAlerts everything ''active'' 6 0))) (\<lambda>alerted. case alerted of
          Inl _ \<Rightarrow> refuse 500 ''dashboard_failed'' (zh ''e8afbbe58f96e4bbaae8a1a8e79b98e5918ae8ada6e5a4b1e8b4a5'')
        | Inr (as, _) \<Rightarrow> bindp (service_DashboardSummary (en_sv E) logs as) (\<lambda>summary. respond 200 (ASummary summary)))))"

record list_query =
  lq_status :: string
  lq_limit :: string
  lq_offset :: string
  lq_page :: string

definition handleListTasks :: "(task \<Rightarrow> bool) \<Rightarrow> api_request \<Rightarrow> list_query \<Rightarrow> 'r api_prog" where
  "handleListTasks search rq q = permitted (rq_user rq) ''operations.read'' (
    let limit = parseLimit (lq_limit q) 50; offset = parseOffset (lq_offset q) (lq_page q) limit in
    bindp (attempt (on_store (ListTasks search (TrimSpace (lq_status q)) limit offset))) (\<lambda>r. case r of
      Inl _ \<Rightarrow> refuse 500 ''list_tasks_failed'' (zh ''e8afbbe58f96e4bbbbe58aa1e58897e8a1a8e5a4b1e8b4a5'')
    | Inr (items, count) \<Rightarrow> respond 200 (ATasks items count)))"

definition handleTaskRoute :: "api_request \<Rightarrow> string \<Rightarrow> string \<Rightarrow> 'r api_prog" where
  "handleTaskRoute rq meth path = permitted (rq_user rq) ''operations.read'' (
    if meth \<noteq> ''GET'' then wrong_method
    else let i = TrimCut (TrimPrefix path ''/api/tasks/'') ''/'' in
      if i = [] \<or> Contains i ''/'' then no_route
      else bindp (attempt (on_store (GetTask i))) (\<lambda>r. case r of
        Inl e \<Rightarrow>
          if e = RepoError ErrNotFound then refuse 404 ''task_not_found'' (zh ''e4bbbbe58aa1e4b88de5ad98e59ca8'')
          else refuse 500 ''get_task_failed'' (zh ''e8afbbe58f96e4bbbbe58aa1e5a4b1e8b4a5'')
      | Inr t \<Rightarrow> respond 200 (ATask t)))"

definition handleListAuditLogs :: "(audit_row \<Rightarrow> bool) \<Rightarrow> api_request \<Rightarrow> list_query \<Rightarrow> 'r api_prog" where
  "handleListAuditLogs search rq q = permitted (rq_user rq) ''operations.read'' (
    let limit = parseLimit (lq_limit q) 20; offset = parseOffset (lq_offset q) (lq_page q) limit in
    bindp (attempt (on_store (ListAuditLogs search limit offset))) (\<lambda>r. case r of
      Inl _ \<Rightarrow> refuse 500 ''list_audit_failed'' (zh ''e8afbbe58f96e5aea1e8aea1e697a5e5bf97e5a4b1e8b4a5'')
    | Inr (items, count) \<Rightarrow> respond 200 (AAudit items count)))"

definition handleListAlerts :: "(alert \<Rightarrow> bool) \<Rightarrow> api_request \<Rightarrow> list_query \<Rightarrow> 'r api_prog" where
  "handleListAlerts search rq q = permitted (rq_user rq) ''operations.read'' (
    let limit = parseLimit (lq_limit q) 20; offset = parseOffset (lq_offset q) (lq_page q) limit in
    bindp (attempt (on_store (ListAlerts search (TrimSpace (lq_status q)) limit offset))) (\<lambda>r. case r of
      Inl _ \<Rightarrow> refuse 500 ''list_alerts_failed'' (zh ''e8afbbe58f96e5918ae8ada6e58897e8a1a8e5a4b1e8b4a5'')
    | Inr (items, count) \<Rightarrow> respond 200 (AAlerts items count)))"

section \<open>The routes\<close>

text \<open>
  A request to the fleet: the route of the mux that it takes, and what its handler decodes. The answers of the mux to
  a path or a method without a route are those of \<open>net/http\<close> and left out.
\<close>

datatype (plugins only: code) fleet_call =
    GetHosts
  | GetVMs string string string
  | PostVM "createVMRequest option"
  | VMRoute vm_request
  | StoragePools host_request temp_files
  | NetworkPools host_request
  | HostInterfaces host_request
  | GetAgents
  | PostAgent "createAgentRequest option"
  | PostAgentProbe "createAgentRequest option"
  | AgentRoute string string "string option"
  | GetSnapshots
  | PostSnapshot "createSnapshotRequest option"
  | PostSnapshotsRefresh
  | SnapshotRoute string string "SnapshotAnnotationInput option"
  | GetDashboard
  | GetTasks "task \<Rightarrow> bool" list_query
  | TaskRoute string
  | GetAuditLogs "audit_row \<Rightarrow> bool" list_query
  | GetAlerts "alert \<Rightarrow> bool" list_query

definition fleet_handler :: "('r, 'v) api_env \<Rightarrow> 'r vm_world \<Rightarrow> fleet_call \<Rightarrow> api_request \<Rightarrow> 'r api_prog" where
  "fleet_handler E W c rq = (case c of
     GetHosts \<Rightarrow> handleListHosts E rq
   | GetVMs status q hostID \<Rightarrow> handleListVMs E rq status q hostID
   | PostVM input \<Rightarrow> handleCreateVM E (vw_order W) rq input
   | VMRoute q \<Rightarrow> handleVMRoute E W rq q
   | StoragePools hq tmp \<Rightarrow> handleStoragePoolRoute E tmp rq hq
   | NetworkPools hq \<Rightarrow> handleNetworkPoolRoute E rq hq
   | HostInterfaces hq \<Rightarrow> handleHostInterfaceRoute E rq hq
   | GetAgents \<Rightarrow> handleListAgents rq
   | PostAgent input \<Rightarrow> handleCreateAgent E rq input
   | PostAgentProbe input \<Rightarrow> handleAgentProbe E rq input
   | AgentRoute meth path given \<Rightarrow> handleAgentRoute E rq meth path given
   | GetSnapshots \<Rightarrow> handleListSnapshots E rq
   | PostSnapshot input \<Rightarrow> handleCreateSnapshot E rq input
   | PostSnapshotsRefresh \<Rightarrow> handleRefreshSnapshots E rq
   | SnapshotRoute meth path input \<Rightarrow> handleSnapshotRoute E rq meth path input
   | GetDashboard \<Rightarrow> handleDashboardSummary E rq
   | GetTasks search q \<Rightarrow> handleListTasks search rq q
   | TaskRoute path \<Rightarrow> handleTaskRoute rq ''GET'' path
   | GetAuditLogs search q \<Rightarrow> handleListAuditLogs search rq q
   | GetAlerts search q \<Rightarrow> handleListAlerts search rq q)"

text \<open>\<open>requireAuth\<close> in front of a route of the fleet.\<close>

definition validated :: "auth_service \<Rightarrow> string \<Rightarrow> ('r, auth_error + session) service_prog" where
  "validated svc token s = (case Validate svc token (rt_db s) of (r, d) \<Rightarrow> (Inr r, s\<lparr>rt_db := d\<rparr>))"

definition serve_fleet ::
  "('r, 'v) api_env \<Rightarrow> 'r vm_world \<Rightarrow> auth_service \<Rightarrow> string \<Rightarrow> string \<Rightarrow> string \<Rightarrow> fleet_call \<Rightarrow> 'r api_prog" where
  "serve_fleet E W svc authorization queryToken ip c =
    (let bearer = bearerToken authorization; token = (if bearer = [] then TrimSpace queryToken else bearer) in
     bindp (validated svc token) (\<lambda>r. case r of
       Inl _ \<Rightarrow> refuse 401 ''unauthorized'' (zh ''e4bc9ae8af9de5b7b2e5a4b1e69588efbc8ce8afb7e9878de696b0e799bbe5bd95'')
     | Inr sess \<Rightarrow> fleet_handler E W c \<lparr>rq_user = sess_user sess, rq_ip = ip\<rparr>))"

end
