(* ===== verification/Fleet_Access.thy ===== *)
theory Fleet_Access
  imports Fleet_Router Auth_Properties Sync_Properties
begin

text \<open>
  Who may use the routes of the fleet: the table of the operations with the permission each asks for, and that the
  router serves an operation only to a live session of an account that holds it.
\<close>

section \<open>The table of rights\<close>

text \<open>The operations on a machine by method and action.\<close>

definition vm_rights :: "(string \<times> string list \<times> string) list" where
  "vm_rights =
    [(''GET'', [[], ''config''], ''vms.read''),
     (''GET'', [''console''], ''vms.console''),
     (''PUT'', [''config'', ''console'', ''rename'', ''autostart'', ''media'', ''xml'', ''devices''], ''vms.update''),
     (''DELETE'', [''media'', ''template-mark''], ''vms.update''),
     (''POST'', [''template-mark''], ''vms.update''),
     (''POST'', [''template-create''], ''vms.create''),
     (''POST'', [''clone''], ''vms.clone''),
     (''POST'', [''migrate'', ''migrate-precheck'', ''migrate-ssh-key'', ''migrate-hostname''], ''vms.migrate''),
     (''POST'', [''refresh''], ''vms.read''),
     (''POST'', [''start'', ''reboot'', ''pause'', ''resume'', ''stop'', ''shutdown''], ''vms.power''),
     (''POST'', [''force-stop'', ''force-shutdown'', ''force-reboot'', ''force-delete''], ''vms.force''),
     (''POST'', [''delete''], ''vms.delete'')]"

definition vm_right :: "user \<Rightarrow> string \<Rightarrow> string \<Rightarrow> bool" where
  "vm_right u meth action \<longleftrightarrow> list_ex (\<lambda>(m, as, p). m = meth \<and> action \<in> set as \<and> hasPermission u p) vm_rights"

definition host_right :: "user \<Rightarrow> host_request \<Rightarrow> string list \<Rightarrow> string \<Rightarrow> bool" where
  "host_right u hq reading managing \<longleftrightarrow>
     (if hq_method hq = ''GET'' then hasAnyPermission u reading else hasPermission u managing)"

definition fleet_right :: "user \<Rightarrow> fleet_call \<Rightarrow> bool" where
  "fleet_right u c = (case c of
     GetHosts \<Rightarrow> hasAssociatedHostReadPermission u
   | GetVMs _ _ _ \<Rightarrow> hasAssociatedVMReadPermission u
   | PostVM _ \<Rightarrow> hasPermission u ''vms.create''
   | VMRoute q \<Rightarrow> (case parseVMPath (vq_path q) of
         Some (_, action) \<Rightarrow> vm_right u (vq_method q) action
       | None \<Rightarrow> False) \<or> (vq_method q = ''GET'' \<and> parseVMConsolePath (vq_path q) \<noteq> None \<and> hasPermission u ''vms.console'')
   | StoragePools hq _ \<Rightarrow> host_right u hq
       [''storage.read'', ''storage.manage'', ''vms.read'', ''vms.create'', ''vms.update'', ''vms.clone'', ''vms.migrate''] ''storage.manage''
   | NetworkPools hq \<Rightarrow> host_right u hq
       [''network.read'', ''network.manage'', ''vms.read'', ''vms.create'', ''vms.update'', ''vms.clone'', ''vms.migrate''] ''network.manage''
   | HostInterfaces hq \<Rightarrow> host_right u hq [''host.interfaces.read''] ''host.interfaces.manage''
   | GetAgents \<Rightarrow> hasPermission u ''agents.read''
   | PostAgent _ \<Rightarrow> hasPermission u ''agents.manage''
   | PostAgentProbe _ \<Rightarrow> hasPermission u ''agents.manage''
   | AgentRoute _ _ _ \<Rightarrow> hasPermission u ''agents.manage''
   | GetSnapshots \<Rightarrow> hasPermission u ''snapshots.read''
   | PostSnapshot _ \<Rightarrow> hasPermission u ''snapshots.create''
   | PostSnapshotsRefresh \<Rightarrow> hasPermission u ''snapshots.read''
   | SnapshotRoute meth path _ \<Rightarrow> (case parseSnapshotPath path of
         Some (_, action) \<Rightarrow> (meth, action, True) \<in>
           {(''PUT'', ''annotation'', hasPermission u ''snapshots.update''),
            (''POST'', ''revert'', hasPermission u ''snapshots.revert''),
            (''POST'', ''delete'', hasPermission u ''snapshots.delete'')}
       | None \<Rightarrow> False)
   | GetDashboard \<Rightarrow> hasPermission u ''dashboard.read''
   | GetTasks _ _ \<Rightarrow> hasPermission u ''operations.read''
   | TaskRoute _ \<Rightarrow> hasPermission u ''operations.read''
   | GetAuditLogs _ _ \<Rightarrow> hasPermission u ''operations.read''
   | GetAlerts _ _ \<Rightarrow> hasPermission u ''operations.read'')"

section \<open>Refusals\<close>

text \<open>A program that only refuses: it reads and changes nothing and starts nothing.\<close>

definition refusing :: "'r api_prog \<Rightarrow> bool" where
  "refusing m \<longleftrightarrow> (\<exists>status code message. status \<in> {401, 403, 404, 405} \<and> m = refuse status code message)"

lemma refusing_refuse: "status \<in> {401, 403, 404, 405} \<Longrightarrow> refusing (refuse status code message)"
  unfolding refusing_def by blast

lemma refusing_fixed: "refusing no_permission" "refusing no_route" "refusing wrong_method"
  by (auto simp: no_permission_def no_route_def wrong_method_def intro: refusing_refuse)

lemma refusing_denied: "\<not> hasPermission u p \<Longrightarrow> refusing (permitted u p m)"
  by (simp add: permitted_def refusing_fixed)

lemma refusing_if: "(b \<Longrightarrow> refusing m) \<Longrightarrow> (\<not> b \<Longrightarrow> refusing n) \<Longrightarrow> refusing (if b then m else n)"
  by simp

lemmas vm_right_simps = vm_right_def vm_rights_def vmRoutePermission_def

lemma refusing_get: "hasPermission u (vmRoutePermission ''GET'' action) \<Longrightarrow> \<not> vm_right u ''GET'' action \<Longrightarrow>
    refusing (vm_get E i action)"
  unfolding vm_get_def by (intro refusing_if refusing_fixed) (simp_all add: vm_right_simps)

lemma refusing_put: "hasPermission (rq_user rq) (vmRoutePermission ''PUT'' action) \<Longrightarrow> \<not> vm_right (rq_user rq) ''PUT'' action \<Longrightarrow>
    refusing (vm_put E rq q i action)"
  unfolding vm_put_def by (intro refusing_if refusing_fixed) (simp_all add: vm_right_simps)

lemma refusing_delete:
  "hasPermission (rq_user rq) (vmRoutePermission ''DELETE'' action) \<Longrightarrow> \<not> vm_right (rq_user rq) ''DELETE'' action \<Longrightarrow>
    refusing (vm_delete E rq q i action)"
  unfolding vm_delete_def by (intro refusing_if refusing_fixed) (simp_all add: vm_right_simps)

lemma refusing_action: "mapVMAction action = None \<Longrightarrow> refusing (handleVMAction E rq i action)"
  by (simp add: handleVMAction_def refusing_refuse)

lemma mapped_actions: "mapVMAction action \<noteq> None \<Longrightarrow> action \<in> set [''start'', ''reboot'', ''force-reboot'', ''pause'', ''resume'',
    ''stop'', ''force-stop'', ''shutdown'', ''force-shutdown'', ''delete'', ''force-delete'']"
  by (auto simp: mapVMAction_def split: if_splits)

lemma action_right: "mapVMAction action \<noteq> None \<Longrightarrow> hasPermission u (vmRoutePermission ''POST'' action) \<Longrightarrow> vm_right u ''POST'' action"
  by (drule mapped_actions, simp only: list.set insert_iff empty_iff simp_thms)
    (elim disjE; simp add: vm_right_simps)

lemma refusing_post:
  assumes "hasPermission (rq_user rq) (vmRoutePermission ''POST'' action)" "\<not> vm_right (rq_user rq) ''POST'' action"
  shows "refusing (vm_post E W rq q i action)"
proof -
  from assms have "mapVMAction action = None" using action_right by blast
  then have "refusing (handleVMAction E rq i action)" by (rule refusing_action)
  with assms show ?thesis
    unfolding vm_post_def by (intro refusing_if refusing_fixed) (simp_all add: vm_right_simps)
qed

lemma refusing_vm_operation:
  assumes "\<not> vm_right (rq_user rq) (vq_method q) action"
    and "hasPermission (rq_user rq) (vmRoutePermission (vq_method q) action) \<or> vmRoutePermission (vq_method q) action = []"
  shows "refusing (vm_operation E W rq q i action)"
proof (cases "vq_method q \<in> {''GET'', ''PUT'', ''DELETE'', ''POST''}")
  case True
  then have "vmRoutePermission (vq_method q) action \<noteq> []" by (auto simp: vmRoutePermission_def)
  with assms True show ?thesis
    by (auto simp: vm_operation_def refusing_get refusing_put refusing_delete refusing_post)
qed (simp add: vm_operation_def refusing_fixed)

lemma refusing_vm_route:
  assumes "\<not> fleet_right (rq_user rq) (VMRoute q)"
  shows "refusing (handleVMRoute E W rq q)"
  using assms
  by (auto simp: handleVMRoute_def fleet_right_def Let_def permitted_def refusing_fixed
      intro: refusing_vm_operation split: option.splits if_splits)

lemma refusing_host_route:
  assumes "\<not> host_right (rq_user rq) hq reading managing" "readable = hasAnyPermission (rq_user rq) reading"
  shows "refusing (host_route E rq hq readable managing prefix route)"
  using assms by (auto simp: host_route_def host_right_def refusing_fixed split: if_splits)

lemma refusing_host_routes:
  "\<not> fleet_right (rq_user rq) (StoragePools hq tmp) \<Longrightarrow> refusing (handleStoragePoolRoute E tmp rq hq)"
  "\<not> fleet_right (rq_user rq) (NetworkPools hq) \<Longrightarrow> refusing (handleNetworkPoolRoute E rq hq)"
  "\<not> fleet_right (rq_user rq) (HostInterfaces hq) \<Longrightarrow> refusing (handleHostInterfaceRoute E rq hq)"
  by (simp_all add: handleStoragePoolRoute_def handleNetworkPoolRoute_def handleHostInterfaceRoute_def fleet_right_def,
      (erule refusing_host_route,
        simp add: hasAssociatedStoragePoolReadPermission_def hasAssociatedNetworkPoolReadPermission_def hasAnyPermission_def)+)

lemma refusing_snapshot_route:
  assumes "\<not> fleet_right (rq_user rq) (SnapshotRoute meth path input)"
  shows "refusing (handleSnapshotRoute E rq meth path input)"
  using assms
  by (auto simp: handleSnapshotRoute_def fleet_right_def permitted_def snapshotActionPermission_def refusing_fixed
      refusing_refuse split: option.splits if_splits)

text \<open>The routes that ask for one permission before anything else.\<close>

lemma refusing_single:
  "\<not> hasPermission (rq_user rq) ''vms.create'' \<Longrightarrow> refusing (handleCreateVM E order rq new)"
  "\<not> hasPermission (rq_user rq) ''agents.read'' \<Longrightarrow> refusing (handleListAgents rq)"
  "\<not> hasPermission (rq_user rq) ''agents.manage'' \<Longrightarrow> refusing (handleCreateAgent E rq agent)"
  "\<not> hasPermission (rq_user rq) ''agents.manage'' \<Longrightarrow> refusing (handleAgentProbe E rq agent)"
  "\<not> hasPermission (rq_user rq) ''agents.manage'' \<Longrightarrow> refusing (handleAgentRoute E rq meth path given)"
  "\<not> hasPermission (rq_user rq) ''snapshots.read'' \<Longrightarrow> refusing (handleListSnapshots E rq)"
  "\<not> hasPermission (rq_user rq) ''snapshots.create'' \<Longrightarrow> refusing (handleCreateSnapshot E rq snap)"
  "\<not> hasPermission (rq_user rq) ''snapshots.read'' \<Longrightarrow> refusing (handleRefreshSnapshots E rq)"
  "\<not> hasPermission (rq_user rq) ''dashboard.read'' \<Longrightarrow> refusing (handleDashboardSummary E rq)"
  "\<not> hasPermission (rq_user rq) ''operations.read'' \<Longrightarrow> refusing (handleListTasks f rq lq)"
  "\<not> hasPermission (rq_user rq) ''operations.read'' \<Longrightarrow> refusing (handleTaskRoute rq meth path)"
  "\<not> hasPermission (rq_user rq) ''operations.read'' \<Longrightarrow> refusing (handleListAuditLogs g rq lq)"
  "\<not> hasPermission (rq_user rq) ''operations.read'' \<Longrightarrow> refusing (handleListAlerts h rq lq)"
  unfolding handleCreateVM_def handleListAgents_def handleCreateAgent_def handleAgentProbe_def handleAgentRoute_def
    handleListSnapshots_def handleCreateSnapshot_def handleRefreshSnapshots_def handleDashboardSummary_def
    handleListTasks_def handleTaskRoute_def handleListAuditLogs_def handleListAlerts_def
  by (erule refusing_denied)+

lemma refusing_lists:
  "\<not> hasAssociatedHostReadPermission (rq_user rq) \<Longrightarrow> refusing (handleListHosts E rq)"
  "\<not> hasAssociatedVMReadPermission (rq_user rq) \<Longrightarrow> refusing (handleListVMs E rq status q hostID)"
  by (simp_all add: handleListHosts_def handleListVMs_def refusing_fixed)

lemma refusing_fleet:
  assumes "\<not> fleet_right (rq_user rq) c"
  shows "refusing (fleet_handler E W c rq)"
  using assms
  unfolding fleet_handler_def
  by (cases c; simp only: fleet_call.case)
    (simp_all only: refusing_vm_route refusing_host_routes refusing_snapshot_route fleet_right_def fleet_call.case
      refusing_single refusing_lists)

section \<open>Authorisation\<close>

text \<open>C3: a request to the fleet is refused with 401, 403, 404 or 405, reads and changes nothing beyond the check of its
  token and starts nothing in the background, unless its token names a stored session that has not expired, of an account
  that exists and is not disabled, and that account holds the permission the table gives for the operation.\<close>

theorem fleet_authorised:
  "let token = (if bearerToken authorization = [] then TrimSpace queryToken else bearerToken authorization);
       after = snd (Validate svc token (rt_db s)) in
   (\<exists>status\<in>{401, 403, 404, 405}. \<exists>code message.
      serve_fleet E W svc authorization queryToken ip c s = (Inr ((status, ApiError code message), []), s\<lparr>rt_db := after\<rparr>)) \<or>
   (\<exists>sess stored u j. Validate svc token (rt_db s) = (Inr sess, after) \<and> fleet_right (sess_user sess) c \<and>
      row_of jti j (sessions (rt_db s)) = Some stored \<and> clock (rt_db s) < us_expires_at stored \<and>
      row_of ur_id (us_user_id stored) (users (rt_db s)) = Some u \<and> \<not> ur_disabled u \<and> ID (sess_user sess) = ur_id u)"
proof -
  let ?token = "if bearerToken authorization = [] then TrimSpace queryToken else bearerToken authorization"
  obtain r d where v: "Validate svc ?token (rt_db s) = (r, d)" by fastforce
  have serve: "serve_fleet E W svc authorization queryToken ip c s = (case r of
      Inl _ \<Rightarrow> refuse 401 ''unauthorized'' (zh ''e4bc9ae8af9de5b7b2e5a4b1e69588efbc8ce8afb7e9878de696b0e799bbe5bd95'')
    | Inr sess \<Rightarrow> fleet_handler E W c \<lparr>rq_user = sess_user sess, rq_ip = ip\<rparr>) (s\<lparr>rt_db := d\<rparr>)"
    by (simp only: serve_fleet_def Let_def validated_def bindp_def v prod.case sum.case)
  show ?thesis
  proof (cases r)
    case (Inl e)
    with serve v show ?thesis by (simp add: refuse_def respond_def ret_def)
  next
    case (Inr sess)
    let ?rq = "\<lparr>rq_user = sess_user sess, rq_ip = ip\<rparr>"
    show ?thesis
    proof (cases "fleet_right (sess_user sess) c")
      case True
      with Validate_facts [OF v [unfolded Inr]] v Inr show ?thesis unfolding Let_def by fastforce
    next
      case False
      then have "refusing (fleet_handler E W c ?rq)" by (simp add: refusing_fleet)
      with serve v Inr show ?thesis
        unfolding Let_def refusing_def by (auto simp: refuse_def respond_def ret_def)
    qed
  qed
qed

end
