(* ===== verification/Fleet_Rules.thy ===== *)
theory Fleet_Rules
  imports Fleet_Router
begin

text \<open>
  What an answer of a handler that is not a refusal says of the steps before it: elimination rules for the
  permission, the checks, the choice of an agent and the call.
\<close>

definition answered :: "api_body \<Rightarrow> bool" where
  "answered b \<longleftrightarrow> (case b of ApiError _ _ \<Rightarrow> False | _ \<Rightarrow> True)"

lemma answered_simps [simp]:
  "\<not> answered (ApiError code message)" "answered (AQueued t)" "answered (AVMTask vm k)" "answered (AAgent a)" "answered (AStatus x)"
  by (simp_all add: answered_def)

lemma refuse_Inr: "refuse status code message s = (Inr ((st, b), l), s') \<longleftrightarrow> st = status \<and> b = ApiError code message \<and> l = [] \<and> s' = s"
  by (auto simp: refuse_def respond_def ret_def)

lemma refuse_unanswered: "answered b \<Longrightarrow> refuse status code message s \<noteq> (Inr ((st, b), l), s')"
  by (auto simp: refuse_Inr)

lemma permittedE:
  assumes "permitted u p m s = (Inr ((st, b), l), s')" "answered b"
  obtains "hasPermission u p" "m s = (Inr ((st, b), l), s')"
  using assms by (auto simp: permitted_def no_permission_def refuse_unanswered split: if_splits)

lemma validE:
  assumes "valid e code m s = (Inr ((st, b), l), s')" "answered b"
  obtains "e = None" "m s = (Inr ((st, b), l), s')"
  using assms by (auto simp: valid_def refuse_unanswered split: option.splits)

lemma decodedE:
  assumes "decoded input message k s = (Inr ((st, b), l), s')" "answered b"
  obtains body where "input = Some body" "k body s = (Inr ((st, b), l), s')"
  using assms by (auto simp: decoded_def refuse_unanswered split: option.splits)

lemma checkedE:
  assumes "checked c k s = (Inr ((st, b), l), s')" "answered b"
  obtains s1 where "c s = (Inr None, s1)" "k s1 = (Inr ((st, b), l), s')"
  using assms unfolding checked_def
  by (auto elim!: bindp_InrE simp: refuse_unanswered split: option.splits)

lemma agent_and_tokenE:
  assumes "agent_and_token E i missing unusable k s = (Inr ((st, b), l), s')" "answered b"
  obtains a token s1 where "on_store (GetAgent i) s = (Inr a, s1)" "usable_token E a = Some token"
    "k a token s1 = (Inr ((st, b), l), s')"
  using assms unfolding agent_and_token_def
  by (auto elim!: bindp_attemptE simp: refuse_unanswered split: sum.splits option.splits if_splits prod.splits)

lemma agentTokenForIDE:
  assumes "agentTokenForID E i k s = (Inr ((st, b), l), s')" "answered b"
  obtains a token s1 where "on_store (GetAgent i) s = (Inr a, s1)" "usable_token E a = Some token"
    "k a token s1 = (Inr ((st, b), l), s')"
  using assms unfolding agentTokenForID_def
  by (auto elim: agent_and_tokenE simp: refuse_unanswered split: if_splits)

lemma with_vmE:
  assumes "with_vm E i message k s = (Inr ((st, b), l), s')" "answered b"
  obtains vm s1 where "service_GetVM (en_sv E) i s = (Inr (Some vm), s1)" "k vm s1 = (Inr ((st, b), l), s')"
  using assms unfolding with_vm_def
  by (auto elim!: bindp_InrE simp: refuse_unanswered split: option.splits)

lemma callingE:
  assumes "calling m code prefix k s = (Inr ((st, b), l), s')" "answered b"
  obtains x s1 where "m s = (Inr x, s1)" "k x s1 = (Inr ((st, b), l), s')"
  using assms unfolding calling_def
  by (auto elim!: bindp_attemptE simp: refuse_unanswered split: sum.splits)

end
