(* ===== verification/Fleet_Tasks.thy ===== *)
theory Fleet_Tasks
  imports Fleet_Router Sync_Properties
begin

text \<open>
  The background tasks of the fleet: a queued task that runs ends the way its agent answered, and no other task
  changes.
\<close>

section \<open>Statements on the task of a job\<close>

lemma progress_run: "quiet s \<Longrightarrow> ignore (on_store (UpdateTaskProgress i p m)) s = (Inr (), put_tasks (upd_where (\<lambda>t. task_id t = i)
   (\<lambda>t. t\<lparr>task_payload_of := p, task_error_message := m, task_updated_at := clock (rt_db s)\<rparr>) (tasks (rt_db s))) s)"
  by (simp add: ignore_def quiet_def on_store_def lift_error_def on_db_run UpdateTaskProgress_def
    update_task_def bindp_def ret_def fail_def exec_count_no_fault put_tasks_def)

lemma ending_run: "quiet s \<Longrightarrow> ignore (on_store (FinishTask i status p m)) s = (Inr (), put_tasks (upd_where (\<lambda>t. task_id t = i)
   (\<lambda>t. t\<lparr>task_status := status, task_payload_of := p, task_error_message := m, task_finished_at := Some (clock (rt_db s)),
      task_updated_at := clock (rt_db s)\<rparr>) (tasks (rt_db s))) s)"
  by (simp add: ignore_def quiet_def on_store_def lift_error_def on_db_run FinishTask_def
    update_task_def bindp_def ret_def fail_def exec_count_no_fault put_tasks_def)

lemma claim_same:
  assumes "distinct (map task_id ts)" "row_of task_id i ts = Some t" "task_status t = ''queued''"
  shows "upd_where (\<lambda>t. task_id t = i \<and> task_status t = ''queued'') f ts = upd_where (\<lambda>t. task_id t = i) f ts"
  unfolding upd_where_def
proof (rule map_cong [OF refl])
  fix u assume u: "u \<in> set ts"
  have "u = t" if "task_id u = i"
    using row_of_distinct [OF assms(1) u] assms(2) that by simp
  with assms(3) show "(if task_id u = i \<and> task_status u = ''queued'' then f u else u) = (if task_id u = i then f u else u)" by auto
qed

lemma row_of_task_upd: "row_of task_id i ts = Some t \<Longrightarrow> (\<And>u. task_id (f u) = task_id u) \<Longrightarrow>
    row_of task_id i (upd_where (\<lambda>t. task_id t = i) f ts) = Some (f t)"
  using row_of_SomeD [of task_id i ts t] by (simp add: row_of_upd_where)

lemma calm_keeps: "keeps (calm ts) m \<Longrightarrow> quiet s \<Longrightarrow> tasks (rt_db s) = ts \<Longrightarrow> quiet (snd (m s)) \<and> tasks (rt_db (snd (m s))) = ts"
  by (simp add: keeps_def calm_def quiet_def)

lemma calm_audit: "keeps (calm ts) (audit rq action rt ri md)"
  unfolding audit_def
  by (intro keeps_ignore calm_on_store)
    (auto simp: WriteAudit_def keeps_def stmt_def split: list.split)

text \<open>What the jobs call leaves the tasks alone and the database without faults.\<close>

definition leaves_tasks_alone :: "('r, 'a) background_job \<Rightarrow> bool" where
  "leaves_tasks_alone j \<longleftrightarrow> (\<forall>ts. keeps (calm ts) (bj_call j) \<and> (\<forall>m. keeps (calm ts) (bj_failed_audit j m)) \<and>
     (\<forall>x. keeps (calm ts) (bj_after j x)))"

section \<open>A task that runs\<close>

text \<open>C20: a queued background task (creation, clone, migration, template, volume clone or upload) that runs ends: it is
  completed with the result when the agent has done its part, failed with the message of the error otherwise, it keeps
  the identity it was created with, and no other task has changed.\<close>

theorem background_task_ends:
  fixes s :: "'a rt"
  assumes "faults (rt_db s) = []" "row_of task_id i (tasks (rt_db s)) = Some t" "task_status t = ''queued''"
    and "distinct (map task_id (tasks (rt_db s)))" "leaves_tasks_alone j"
  shows "\<exists>s1 r s2 t'. bj_call j s1 = (r, s2) \<and> agents (rt_db s1) = agents (rt_db s) \<and>
     row_of task_id i (tasks (rt_db (snd (run_background i j s)))) = Some t' \<and> task_finished_at t' \<noteq> None \<and>
     task_type t' = task_type t \<and> task_created_by t' = task_created_by t \<and>
     (case r of
        Inl e \<Rightarrow> task_status t' = ''failed'' \<and> task_error_message t' = bj_message j e \<and> task_payload_of t' = Fields (bj_progress j)
      | Inr x \<Rightarrow> task_status t' = ''completed'' \<and> task_error_message t' = [] \<and> task_payload_of t' = Fields (bj_done j x)) \<and>
     filter (\<lambda>t. task_id t \<noteq> i) (tasks (rt_db (snd (run_background i j s)))) = filter (\<lambda>t. task_id t \<noteq> i) (tasks (rt_db s))"
proof -
  let ?ts = "tasks (rt_db s)" and ?c = "clock (rt_db s)"
  let ?claim = "\<lambda>t. t\<lparr>task_status := ''running'', task_updated_at := ?c\<rparr>"
    and ?progress = "\<lambda>t. t\<lparr>task_payload_of := Fields (bj_progress j), task_error_message := [], task_updated_at := ?c\<rparr>"
  have q: "quiet s" using assms(1) by (simp add: quiet_def)
  have t: "t \<in> set ?ts" "task_id t = i" using row_of_SomeD [OF assms(2)] by simp_all
  let ?s0 = "put_tasks (upd_where (\<lambda>t. task_id t = i) ?claim ?ts) s"
  let ?s1 = "put_tasks (upd_where (\<lambda>t. task_id t = i) ?progress (upd_where (\<lambda>t. task_id t = i) ?claim ?ts)) s"
  let ?ts1 = "tasks (rt_db ?s1)"
  have claimed: "on_store (ClaimTask i) s = (Inr True, ?s0)"
    using t assms(3) by (auto simp: ClaimTask_run [OF q] list_ex_iff claim_same [OF assms(4,2,3)])
  have progressed: "(ignore (on_store (UpdateTaskProgress i (Fields (bj_progress j)) [])) :: ('a, unit) service_prog) ?s0 = (Inr (), ?s1)"
    by (simp add: progress_run q)
  obtain r s2 where call: "bj_call j ?s1 = (r, s2)" by fastforce
  have s2: "quiet s2" "tasks (rt_db s2) = ?ts1"
    using calm_keeps [of ?ts1 "bj_call j" ?s1] assms(5) q by (simp_all add: leaves_tasks_alone_def call)
  let ?ending = "\<lambda>status p m. upd_where (\<lambda>t. task_id t = i)
     (\<lambda>t. t\<lparr>task_status := status, task_payload_of := p, task_error_message := m, task_finished_at := Some (clock (rt_db s2)),
        task_updated_at := clock (rt_db s2)\<rparr>) ?ts1"
  let ?final = "case r of Inl e \<Rightarrow> ?ending ''failed'' (Fields (bj_progress j)) (bj_message j e) | Inr x \<Rightarrow> ?ending ''completed'' (Fields (bj_done j x)) []"
  have run: "run_background i j s = (case r of
      Inl e \<Rightarrow> bindp (ignore (on_store (FinishTask i ''failed'' (Fields (bj_progress j)) (bj_message j e)))) (\<lambda>_. bj_failed_audit j (bj_message j e))
    | Inr x \<Rightarrow> bindp (ignore (on_store (FinishTask i ''completed'' (Fields (bj_done j x)) []))) (\<lambda>_. bj_after j x)) s2"
    using claimed progressed call by (simp add: run_background_def bindp_def attempt_def)
  have final: "tasks (rt_db (snd (run_background i j s))) = ?final"
    using calm_keeps [of ?final "case r of Inl e \<Rightarrow> bj_failed_audit j (bj_message j e) | Inr x \<Rightarrow> bj_after j x" "put_tasks ?final s2"] assms(5) s2
    by (auto simp: run bindp_def ending_run leaves_tasks_alone_def split: sum.splits)
  have same: "filter (\<lambda>t. task_id t \<noteq> i) ?final = filter (\<lambda>t. task_id t \<noteq> i) ?ts"
    by (simp add: filter_upd_other split: sum.split)
  let ?ended = "\<lambda>status p m. (?progress (?claim t))\<lparr>task_status := status, task_payload_of := p, task_error_message := m,
     task_finished_at := Some (clock (rt_db s2)), task_updated_at := clock (rt_db s2)\<rparr>"
  let ?t' = "case r of Inl e \<Rightarrow> ?ended ''failed'' (Fields (bj_progress j)) (bj_message j e) | Inr x \<Rightarrow> ?ended ''completed'' (Fields (bj_done j x)) []"
  have "row_of task_id i (?ending status p m) = Some (?ended status p m)" for status p m
    using assms(2) by (simp add: row_of_task_upd)
  then have "row_of task_id i ?final = Some ?t'" by (simp split: sum.split)
  moreover have "task_finished_at ?t' \<noteq> None" "task_type ?t' = task_type t" "task_created_by ?t' = task_created_by t"
    "case r of Inl e \<Rightarrow> task_status ?t' = ''failed'' \<and> task_error_message ?t' = bj_message j e \<and> task_payload_of ?t' = Fields (bj_progress j)
     | Inr x \<Rightarrow> task_status ?t' = ''completed'' \<and> task_error_message ?t' = [] \<and> task_payload_of ?t' = Fields (bj_done j x)"
    by (simp_all split: sum.split)
  ultimately show ?thesis using call final same
    by (intro exI [of _ ?s1] exI [of _ r] exI [of _ s2] exI [of _ ?t']) simp
qed

section \<open>The jobs of the handlers leave the tasks alone\<close>

text \<open>A transport that does not touch the database, as every answer of an agent.\<close>

definition quiet_transport :: "'r rt http_transport \<Rightarrow> bool" where
  "quiet_transport send \<longleftrightarrow> (\<forall>ts meth url token insecure body. keeps (calm ts) (send meth url token insecure body))"

lemma calm_client:
  assumes "quiet_transport send"
  shows "keeps (calm ts) (client_do send meth cfg path body read)" "keeps (calm ts) (client_send send meth cfg path body)"
  using assms unfolding client_do_def client_send_def quiet_transport_def
  by (auto intro!: keeps_intros split: option.split)

lemma calm_mode:
  assumes "leaves_tasks (sv_agents v)"
  shows "keeps (calm ts) (SyncAgentWithTokenMode v i token mode)"
  unfolding SyncAgentWithTokenMode_def by (intro keeps_intros calm_rules calm_sync [OF assms])

lemma calm_syncs:
  assumes "leaves_tasks (sv_agents v)"
  shows "keeps (calm ts) (SyncAgentWithToken v i token)" "keeps (calm ts) (SyncAgentWithTokenFast v i token)"
  unfolding SyncAgentWithToken_def SyncAgentWithTokenFast_def by (rule calm_mode [OF assms])+

lemma migrate_leaves_tasks:
  assumes "quiet_transport (en_send E)" "leaves_tasks (sv_agents (en_sv E))"
  shows "\<exists>j. runVMMigrateTask E rq vm source st dest tt request = (\<lambda>i. run_background i j) \<and> leaves_tasks_alone j \<and>
    bj_call j = client_MigrateVM (en_send E) (config_of source st) (vm_Name vm) request"
  unfolding runVMMigrateTask_def Let_def fun_eq_iff
  by (rule exI, intro conjI allI, rule refl)
    (auto simp: leaves_tasks_alone_def client_MigrateVM_def intro!: keeps_intros calm_client assms calm_audit calm_syncs)

text \<open>A server with its state in memory and agents that answer everything with 200.\<close>

definition test_env :: "(memory, blob) api_env" where
  "test_env = \<lparr>en_sv = Sync_Properties.test_service (ret ()),
     en_send = (\<lambda>meth url token insecure body. ret \<lparr>ans_status = 200, ans_text = ''200 OK'', ans_body = None\<rparr>),
     en_xml_name = (\<lambda>_. None), en_lookup_ip = (\<lambda>_. None), en_hash_token = (\<lambda>t. t), en_random = Some ''n''\<rparr>"

lemma test_env_quiet: "quiet_transport (en_send test_env)" "leaves_tasks (sv_agents (en_sv test_env))"
  by (auto simp: test_env_def quiet_transport_def leaves_tasks_def Sync_Properties.test_service_def test_agents_def intro!: keeps_intros)

definition move_request :: VMMigrateRequest where
  "move_request = \<lparr>mg_DestinationURI = ''qemu+ssh://b/system'', mg_Live = True, mg_CopyDisks = False, mg_Persistent = True,
     mg_UndefineSource = True, mg_AutoConverge = False, mg_PostCopy = False\<rparr>"

definition test_request :: Api_Base.api_request where
  "test_request = \<lparr>rq_user = user_of_row admin_row, rq_ip = ''10.0.0.9''\<rparr>"

lemma background_task_ends_witness:
  "\<exists>t'. row_of task_id ''t1'' (tasks (rt_db (snd (runVMMigrateTask test_env test_request (build_vm test_agent test_info 900 test_vm)
     test_agent ''t'' test_agent ''t'' move_request ''t1'' (memory_rt refresh_db))))) = Some t' \<and> task_status t' = ''completed''"
proof -
  let ?s = "memory_rt refresh_db" and ?vm = "build_vm test_agent test_info 900 test_vm"
  obtain j where j: "runVMMigrateTask test_env test_request ?vm test_agent ''t'' test_agent ''t'' move_request = (\<lambda>i. run_background i j)"
    "leaves_tasks_alone j" "bj_call j = client_MigrateVM (en_send test_env) (config_of test_agent ''t'') (vm_Name ?vm) move_request"
    using migrate_leaves_tasks [OF test_env_quiet] by blast
  have "faults (rt_db ?s) = []" "row_of task_id ''t1'' (tasks (rt_db ?s)) = Some sample_task"
    "task_status sample_task = ''queued''" "distinct (map task_id (tasks (rt_db ?s)))"
    by (simp_all add: memory_rt_def refresh_db_def empty_db_def row_of_def sample_task_def)
  from background_task_ends [OF this j(2)] obtain s1 r s2 t' where
    "bj_call j s1 = (r, s2)" "row_of task_id ''t1'' (tasks (rt_db (snd (run_background ''t1'' j ?s)))) = Some t'"
    "case r of Inl e \<Rightarrow> task_status t' = ''failed'' \<and> task_error_message t' = bj_message j e \<and> task_payload_of t' = Fields (bj_progress j)
      | Inr x \<Rightarrow> task_status t' = ''completed'' \<and> task_error_message t' = [] \<and> task_payload_of t' = Fields (bj_done j x)" by blast
  moreover from this(1) have "r = Inr ()"
    by (auto simp: j(3) client_MigrateVM_def client_send_def test_env_def bindp_def ret_def)
  ultimately show ?thesis unfolding j(1) by auto
qed

end
