(* ===== verification/Fleet_Checks.thy ===== *)
theory Fleet_Checks
  imports Fleet_Rules Fleet_Tasks
begin

text \<open>
  What the checks in front of an operation on a machine promise: the disks of a creation, the resources of the host,
  and that an accepted creation takes no name that the host already has.
\<close>

section \<open>The disks of a creation\<close>

definition disk_complete :: "VMCreateDiskRequest \<Rightarrow> bool" where
  "disk_complete d \<longleftrightarrow> crd_Name d \<noteq> [] \<and> crd_Pool d \<noteq> [] \<and> crd_Bus d \<noteq> [] \<and> 0 < crd_CapacityGB d \<and>
     supportedVMDeviceDiskFormat (crd_Format d) \<and> vmDeviceDiskNameMatchesFormat (crd_Name d) (crd_Format d) \<and>
     \<not> has_separator (crd_Name d)"

lemma supported_format_nonempty: "supportedVMDeviceDiskFormat f \<Longrightarrow> f \<noteq> []"
  by (auto simp: supportedVMDeviceDiskFormat_def lower_def TrimSpace_def TrimCut_def ToLower_def)

lemma check_disk_None: "check_disk system first seen d = None \<longleftrightarrow>
    disk_complete d \<and> (first \<or> createVMDiskSettingsMatchSystem system d) \<and> disk_key d \<notin> set seen"
  using supported_format_nonempty [of "crd_Format d"]
  by (auto simp: check_disk_def disk_complete_def Let_def)

lemma check_disks_None: "check_disks system first seen ds = None \<longleftrightarrow>
    list_all disk_complete ds \<and> list_all (createVMDiskSettingsMatchSystem system) (if first then tl ds else ds) \<and>
    distinct (map disk_key ds) \<and> set (map disk_key ds) \<inter> set seen = {}"
proof (induction ds arbitrary: first seen)
  case (Cons d ds)
  have "check_disks system first seen (d # ds) = None \<longleftrightarrow>
      check_disk system first seen d = None \<and> check_disks system False (disk_key d # seen) ds = None"
    by (simp split: option.split)
  then show ?case by (auto simp: check_disk_None Cons.IH)
qed simp

text \<open>the disks of a creation are accepted exactly when there is one at least, every disk is complete (a name that ends
  as its format asks and has no separator, a pool, a bus, a positive capacity, a supported format), every further disk has
  the settings of the system disk, and no two disks would be the same file, case and all folded.\<close>

theorem accepted_disks:
  "validateCreateVMDisks ds = None \<longleftrightarrow> ds \<noteq> [] \<and> list_all disk_complete ds \<and>
     list_all (createVMDiskSettingsMatchSystem (hd ds)) (tl ds) \<and> distinct (map disk_key ds)"
  using check_disks_None [of "hd ds" True "[]" ds]
  by (cases ds) (simp_all add: validateCreateVMDisks_def del: check_disks.simps)

section \<open>The resources of the host\<close>

text \<open>C38: for a memory of 0 to 2^43 - 1 MB the limits of a host are exact, and a host that reports no limit has none.
  The bytes are counted in an int64: a request for 2^44 MB, which is valid wherever one for 1 MB is, passes on every host.\<close>

theorem host_limits:
  assumes "0 \<le> mb" "mb < 2 ^ 43"
  shows "(validateHostResourceLimits cpus bytes cpu mb = None \<longleftrightarrow> (cpus \<le> 0 \<or> cpu \<le> cpus) \<and> (bytes \<le> 0 \<or> mb * 1048576 \<le> bytes)) \<and>
    validateHostResourceLimits cpus bytes cpus (2 ^ 44) = None \<and>
    validateCreateVMRequest (body\<lparr>cr_CurrentMemoryMB := 1, cr_MaximumMemoryMB := 2 ^ 44\<rparr>) =
      validateCreateVMRequest (body\<lparr>cr_CurrentMemoryMB := 1, cr_MaximumMemoryMB := 1\<rparr>)"
proof -
  have "mb * 1048576 < 2 ^ 63" using assms(2) by simp
  then have "in_i64 (mb * 1048576)" using assms(1) by (simp add: in_i64_def)
  then have "i64 (mb * 1024 * 1024) = mb * 1048576" by (simp add: i64_id mult.assoc)
  moreover have "i64 (2 ^ 44 * 1024 * 1024) = 0" by (simp add: i64_def)
  moreover have "validateCreateVMRequest (body\<lparr>cr_CurrentMemoryMB := 1, cr_MaximumMemoryMB := 2 ^ 44\<rparr>) =
      validateCreateVMRequest (body\<lparr>cr_CurrentMemoryMB := 1, cr_MaximumMemoryMB := 1\<rparr>)"
    by (simp add: validateCreateVMRequest_def normalizedCreateMode_def normalizeCreateVMDisks_def Let_def)
  ultimately show ?thesis by (auto simp: validateHostResourceLimits_def)
qed

lemma host_limits_witness:
  "validateHostResourceLimits 4 (8 * 1024 ^ 3) 2 8192 = None \<and> validateHostResourceLimits 4 (8 * 1024 ^ 3) 2 8193 \<noteq> None \<and>
   validateHostResourceLimits 4 (8 * 1024 ^ 3) 4 (2 ^ 44) = None"
  using host_limits [of 8192 4 "8 * 1024 ^ 3" 2] host_limits [of 8193 4 "8 * 1024 ^ 3" 2] by simp

section \<open>An accepted creation\<close>

text \<open>\<open>asks send s t\<close>: calls of agents alone lead from the state \<open>s\<close> to \<open>t\<close>.\<close>

inductive asks :: "'r rt http_transport \<Rightarrow> 'r rt \<Rightarrow> 'r rt \<Rightarrow> bool" for send where
  asks_none: "asks send s s"
| asks_once: "asks send s t \<Longrightarrow> asks send s (snd (send meth url token insecure body t))"

text \<open>The checks of a creation do nothing to the state but ask.\<close>

definition call_keeps :: "('r rt \<Rightarrow> bool) \<Rightarrow> 'r rt http_transport \<Rightarrow> bool" where
  "call_keeps I send \<longleftrightarrow> (\<forall>meth url token insecure body. keeps I (send meth url token insecure body))"

lemma asks_kept: "call_keeps (asks send s) send"
  by (auto simp: call_keeps_def keeps_def intro: asks_once)

lemma keeps_client_do: "call_keeps I send \<Longrightarrow> keeps I (client_do send meth cfg path body read)"
  unfolding client_do_def call_keeps_def by (auto intro!: keeps_intros split: option.split)

lemma keeps_asking: "keeps I m \<Longrightarrow> (\<And>x. keeps I (k x)) \<Longrightarrow> keeps I (asking m code prefix k)"
  unfolding asking_def failed_check_def by (intro keeps_intros) (auto intro!: keeps_intros split: sum.split)

lemma keeps_and_then: "keeps I c \<Longrightarrow> keeps I d \<Longrightarrow> keeps I (and_then c d)"
  unfolding and_then_def by (auto intro!: keeps_intros split: option.split)

lemma keeps_check_each: "(\<And>x. keeps I (f x)) \<Longrightarrow> keeps I (check_each f xs)"
  by (induction xs) (auto intro: keeps_and_then simp: passed_def keeps_ret)

lemma keeps_refusals: "keeps I passed" "keeps I (failed_check status code message)"
  by (simp_all add: passed_def failed_check_def keeps_ret)

lemma keeps_listings:
  assumes "call_keeps I send"
  shows "keeps I (client_ListStorageVolumes send cfg pool)" "keeps I (client_ListVMsFast send cfg)"
    "keeps I (client_HostInfo send cfg)"
  using assms unfolding client_ListStorageVolumes_def client_ListVMsFast_def client_listVMs_def client_HostInfo_def
  by (auto intro: keeps_client_do)

lemma keeps_host_checks:
  assumes "call_keeps I send"
  shows "keeps I (validateRequestedHostResources send cfg cpu mb)" "keeps I (check_new_volumes send cfg disks pool)"
    "keeps I (validateVMCreateTemplateTargets send cfg template)"
  unfolding validateRequestedHostResources_def check_new_volumes_def validateVMCreateTemplateTargets_def Let_def
  by (auto intro!: keeps_asking keeps_listings [OF assms] keeps_ret keeps_refusals split: option.split)

lemma keeps_targets: "call_keeps I send \<Longrightarrow> keeps I (validateVMCreateTargets order send cfg request check)"
  unfolding validateVMCreateTargets_def
  by (intro keeps_and_then keeps_asking keeps_listings)
    (auto intro: keeps_check_each keeps_host_checks keeps_refusals)

lemma asks_run: "keeps (asks send s) m \<Longrightarrow> m s = (r, t) \<Longrightarrow> asks send s t"
  by (erule keeps_result [where I = "asks send s"]) (rule asks_none)

lemma asks_trans: "asks send t u \<Longrightarrow> asks send s t \<Longrightarrow> asks send s u"
  by (induction rule: asks.induct) (auto intro: asks_once)

text \<open>What a check that has passed has found.\<close>

lemma askingE:
  assumes "asking m code prefix k s = (Inr None, s')"
  obtains x s1 where "m s = (Inr x, s1)" "k x s1 = (Inr None, s')"
  using assms unfolding asking_def
  by (auto elim!: bindp_attemptE simp: failed_check_def ret_def split: sum.splits)

lemma and_thenE:
  assumes "and_then c d s = (Inr None, s')"
  obtains s1 where "c s = (Inr None, s1)" "d s1 = (Inr None, s')"
  using assms unfolding and_then_def by (auto elim!: bindp_InrE simp: ret_def split: option.splits)

lemma check_each_passed:
  assumes "\<And>x s. keeps (asks send s) (f x)"
  shows "check_each f xs s = (Inr None, s') \<Longrightarrow> x \<in> set xs \<Longrightarrow>
    \<exists>s1 s2. asks send s s1 \<and> f x s1 = (Inr None, s2) \<and> asks send s2 s'"
proof (induction xs arbitrary: s)
  case (Cons y ys)
  from Cons.prems(1) obtain s1 where first: "f y s = (Inr None, s1)" and rest: "check_each f ys s1 = (Inr None, s')"
    by (auto elim: and_thenE)
  have "asks send s s1" by (rule asks_run [OF assms first])
  moreover have "asks send s1 s'" by (rule asks_run [OF keeps_check_each [OF assms] rest])
  moreover have "\<exists>s2 s3. asks send s1 s2 \<and> f x s2 = (Inr None, s3) \<and> asks send s3 s'" if "x \<in> set ys"
    using Cons.IH [OF rest that] .
  ultimately show ?case using first Cons.prems(2) asks_none asks_trans by (metis set_ConsD)
qed simp

lemma new_volumes_free:
  assumes "check_new_volumes send cfg disks pool s = (Inr None, s')"
  shows "\<exists>volumes. client_ListStorageVolumes send cfg pool s = (Inr volumes, s') \<and>
    (\<forall>d \<in> set disks. crd_Pool d = pool \<longrightarrow> crd_Name d \<notin> vol_Name ` set volumes)"
proof -
  from assms obtain volumes s1 where "client_ListStorageVolumes send cfg pool s = (Inr volumes, s1)"
    "(case find (\<lambda>d. crd_Name d \<in> vol_Name ` set volumes) (filter (\<lambda>d. crd_Pool d = pool) disks) of
        None \<Rightarrow> passed
      | Some d \<Rightarrow> failed_check 400 ''vm_create_disk_exists''
          (zh ''e5ad98e582a8e6b1a020'' @ pool @ zh ''20e4b8ade5b7b2e5ad98e59ca8e58db720'' @ crd_Name d @
           zh ''efbc8ce8afb7e69bb4e68da2e7a381e79b98e58db7e5908de7a7b0'')) s1 = (Inr None, s')"
    unfolding check_new_volumes_def by (rule askingE)
  then show ?thesis
    by (auto simp: failed_check_def passed_def ret_def find_None_iff split: option.splits)
qed

text \<open>A pool that was listed at some point of the run from \<open>s\<close> to \<open>s'\<close>.\<close>

definition listed_pool ::
  "'r rt http_transport \<Rightarrow> agent_config \<Rightarrow> string \<Rightarrow> StorageVolume list \<Rightarrow> 'r rt \<Rightarrow> 'r rt \<Rightarrow> bool" where
  "listed_pool send cfg pool volumes s s' \<longleftrightarrow>
     (\<exists>s1 s2. asks send s s1 \<and> client_ListStorageVolumes send cfg pool s1 = (Inr volumes, s2) \<and> asks send s2 s')"

lemma template_target_free:
  assumes "validateVMCreateTemplateTargets send cfg t s = (Inr None, s')"
  shows "\<exists>sources targets. listed_pool send cfg (ct_SourcePool t) sources s s' \<and>
    listed_pool send cfg (ct_TargetPool t) targets s s' \<and>
    (\<exists>v \<in> set sources. vol_Name v = ct_SourceName t \<and> isTemplateStorageVolume v) \<and>
    (\<forall>w \<in> set targets. \<not> EqualFold (TrimSpace (vol_Name w)) (ct_TargetName t))"
proof -
  let ?free = "\<lambda>targets. if list_ex (\<lambda>w. EqualFold (TrimSpace (vol_Name w)) (ct_TargetName t)) targets
      then failed_check 400 ''vm_create_disk_exists''
        (zh ''e5ad98e582a8e6b1a020'' @ ct_TargetPool t @ zh ''20e4b8ade5b7b2e5ad98e59ca8e58db720'' @ ct_TargetName t @ zh ''efbc8ce8afb7e69bb4e68da2e7a381e79b98e58db7e5908de7a7b0'')
      else passed"
  have free: "u = s' \<and> (\<forall>w \<in> set targets. \<not> EqualFold (TrimSpace (vol_Name w)) (ct_TargetName t))"
    if "?free targets u = (Inr None, s')" for targets u
    using that by (auto simp: failed_check_def passed_def ret_def list_ex_iff split: if_splits)
  note steps = keeps_listings(1) [OF asks_kept]
  from assms obtain sources s1 where src: "client_ListStorageVolumes send cfg (ct_SourcePool t) s = (Inr sources, s1)"
    and rest: "(case find (\<lambda>v. vol_Name v = ct_SourceName t) sources of
      None \<Rightarrow> failed_check 400 ''vm_create_template_not_found'' (zh ''e6a8a1e69dbfe69687e4bbb6e4b88de5ad98e59ca8efbc8ce8afb7e9878de696b0e98089e68ba9'')
    | Some v \<Rightarrow>
        if \<not> isTemplateStorageVolume v
        then failed_check 400 ''vm_create_template_unsupported'' (zh ''e6a8a1e69dbfe69687e4bbb6e4bb85e694afe68c812071636f7732e38081696d67e38081726177e3808171636f77e3808171656420e6a0bce5bc8f'')
        else if ct_TargetPool t = ct_SourcePool t then ?free sources
          else asking (client_ListStorageVolumes send cfg (ct_TargetPool t)) ''agent_template_target_precheck_failed''
            (zh ''e6a380e69fa5e79baee6a087e5ad98e582a8e6b1a0e5a4b1e8b4a5efbc9a'') ?free) s1 = (Inr None, s')"
    unfolding validateVMCreateTemplateTargets_def Let_def by (rule askingE)
  from rest obtain v where v: "find (\<lambda>v. vol_Name v = ct_SourceName t) sources = Some v" "isTemplateStorageVolume v"
    and target: "(if ct_TargetPool t = ct_SourcePool t then ?free sources
      else asking (client_ListStorageVolumes send cfg (ct_TargetPool t)) ''agent_template_target_precheck_failed''
            (zh ''e6a380e69fa5e79baee6a087e5ad98e582a8e6b1a0e5a4b1e8b4a5efbc9a'') ?free) s1 = (Inr None, s')"
    by (auto simp: failed_check_def ret_def split: option.splits if_split_asm)
  from v(1) have "v \<in> set sources" "vol_Name v = ct_SourceName t" by (auto simp: find_Some_iff)
  moreover have "\<exists>targets. listed_pool send cfg (ct_TargetPool t) targets s s' \<and> asks send s1 s' \<and>
      (\<forall>w \<in> set targets. \<not> EqualFold (TrimSpace (vol_Name w)) (ct_TargetName t))"
  proof (cases "ct_TargetPool t = ct_SourcePool t")
    case True
    have f: "?free sources s1 = (Inr None, s')" using target unfolding if_P [OF True] .
    have "listed_pool send cfg (ct_TargetPool t) sources s s1"
      unfolding listed_pool_def True using src asks_none by blast
    with free [OF f] asks_none show ?thesis by blast
  next
    case False
    obtain targets s2 where t: "client_ListStorageVolumes send cfg (ct_TargetPool t) s1 = (Inr targets, s2)"
      and f: "?free targets s2 = (Inr None, s')" using target unfolding if_not_P [OF False] by (rule askingE)
    with free [OF f] asks_run [OF steps t(1)] asks_run [OF steps src] asks_none show ?thesis
      unfolding listed_pool_def by blast
  qed
  moreover from this src have "asks send s1 s' \<Longrightarrow> listed_pool send cfg (ct_SourcePool t) sources s s'"
    using asks_none by (auto simp: listed_pool_def)
  ultimately show ?thesis using v(2) by blast
qed

lemma listed_pool_later:
  "listed_pool send cfg pool volumes t s' \<Longrightarrow> asks send s t \<Longrightarrow> listed_pool send cfg pool volumes s s'"
  using asks_trans unfolding listed_pool_def by blast

lemma create_targets_free:
  assumes "validateVMCreateTargets order send cfg request check s = (Inr None, s')" "\<And>ps. set (order ps) = set ps"
  shows "(\<exists>s1 vms s2. asks send s s1 \<and> client_ListVMsFast send cfg s1 = (Inr vms, s2) \<and> asks send s2 s' \<and>
      cr_Name request \<notin> av_Name ` set vms) \<and>
    (TrimSpace (cr_XML request) = [] \<longrightarrow>
      (if cr_CreateMode request = ''template'' then
        (\<exists>sources targets. listed_pool send cfg (ct_SourcePool (cr_Template request)) sources s s' \<and>
          listed_pool send cfg (ct_TargetPool (cr_Template request)) targets s s' \<and>
          (\<exists>v \<in> set sources. vol_Name v = ct_SourceName (cr_Template request) \<and> isTemplateStorageVolume v) \<and>
          (\<forall>w \<in> set targets. \<not> EqualFold (TrimSpace (vol_Name w)) (ct_TargetName (cr_Template request))))
       else (\<forall>d \<in> set (cr_Disks request). \<exists>volumes. listed_pool send cfg (crd_Pool d) volumes s s' \<and>
          crd_Name d \<notin> vol_Name ` set volumes)))"
proof -
  let ?pools = "order (remdups (map crd_Pool (cr_Disks request)))"
  let ?resources = "if check then validateRequestedHostResources send cfg (cr_MaximumCPU request) (cr_MaximumMemoryMB request) else passed"
  from assms(1) obtain s0 where res: "?resources s = (Inr None, s0)"
    and run: "asking (client_ListVMsFast send cfg) ''agent_vm_create_precheck_failed'' (zh ''e6a380e69fa5e8999ae68b9fe69cbae5908de7a7b0e5a4b1e8b4a5efbc9a'') (\<lambda>vms.
     if list_ex (\<lambda>vm. av_Name vm = cr_Name request) vms
     then failed_check 400 ''vm_create_name_exists'' (zh ''e8999ae68b9fe69cbae5908de7a7b0e5b7b2e5ad98e59ca8efbc8ce8afb7e69bb4e68da2e5908de7a7b0'')
     else if TrimSpace (cr_XML request) \<noteq> [] then passed
     else if cr_CreateMode request = ''template'' then validateVMCreateTemplateTargets send cfg (cr_Template request)
     else check_each (check_new_volumes send cfg (cr_Disks request)) ?pools) s0 = (Inr None, s')"
    unfolding validateVMCreateTargets_def by (rule and_thenE)
  have "keeps (asks send s) ?resources" by (simp add: keeps_host_checks(1) [OF asks_kept] keeps_refusals(1))
  then have to0: "asks send s s0" using res by (rule asks_run)
  from run obtain vms s1 where list: "client_ListVMsFast send cfg s0 = (Inr vms, s1)"
    and named: "(if list_ex (\<lambda>vm. av_Name vm = cr_Name request) vms
     then failed_check 400 ''vm_create_name_exists'' (zh ''e8999ae68b9fe69cbae5908de7a7b0e5b7b2e5ad98e59ca8efbc8ce8afb7e69bb4e68da2e5908de7a7b0'')
     else if TrimSpace (cr_XML request) \<noteq> [] then passed
     else if cr_CreateMode request = ''template'' then validateVMCreateTemplateTargets send cfg (cr_Template request)
     else check_each (check_new_volumes send cfg (cr_Disks request)) ?pools) s1 = (Inr None, s')"
    by (rule askingE)
  have new: "\<not> list_ex (\<lambda>vm. av_Name vm = cr_Name request) vms"
    using named by (auto simp: failed_check_def ret_def split: if_split_asm)
  then have vms: "client_ListVMsFast send cfg s0 = (Inr vms, s1)" "cr_Name request \<notin> av_Name ` set vms"
    using list by (auto simp: list_ex_iff)
  note rest = named [unfolded if_not_P [OF new]]
  have to1: "asks send s s1" by (rule asks_trans [OF asks_run [OF keeps_listings(2) [OF asks_kept] vms(1)] to0])
  have "keeps (asks send s1) (if TrimSpace (cr_XML request) \<noteq> [] then passed
     else if cr_CreateMode request = ''template'' then validateVMCreateTemplateTargets send cfg (cr_Template request)
     else check_each (check_new_volumes send cfg (cr_Disks request)) ?pools)"
    by (simp add: keeps_refusals(1) keeps_host_checks(3) [OF asks_kept] keeps_check_each [OF keeps_host_checks(2) [OF asks_kept]])
  then have on: "asks send s1 s'" using rest by (rule asks_run)
  show ?thesis
  proof (intro conjI impI)
    show "\<exists>s1 vms s2. asks send s s1 \<and> client_ListVMsFast send cfg s1 = (Inr vms, s2) \<and> asks send s2 s' \<and>
        cr_Name request \<notin> av_Name ` set vms" using to0 vms on by blast
  next
    assume xml: "TrimSpace (cr_XML request) = []"
    show "if cr_CreateMode request = ''template'' then
        (\<exists>sources targets. listed_pool send cfg (ct_SourcePool (cr_Template request)) sources s s' \<and>
          listed_pool send cfg (ct_TargetPool (cr_Template request)) targets s s' \<and>
          (\<exists>v \<in> set sources. vol_Name v = ct_SourceName (cr_Template request) \<and> isTemplateStorageVolume v) \<and>
          (\<forall>w \<in> set targets. \<not> EqualFold (TrimSpace (vol_Name w)) (ct_TargetName (cr_Template request))))
       else (\<forall>d \<in> set (cr_Disks request). \<exists>volumes. listed_pool send cfg (crd_Pool d) volumes s s' \<and>
          crd_Name d \<notin> vol_Name ` set volumes)"
    proof (cases "cr_CreateMode request = ''template''")
      case True
      with rest xml have "validateVMCreateTemplateTargets send cfg (cr_Template request) s1 = (Inr None, s')" by simp
      from template_target_free [OF this] True show ?thesis
        by (simp add: if_P) (blast intro: listed_pool_later [OF _ to1])
    next
      case False
      have "\<exists>volumes. listed_pool send cfg (crd_Pool d) volumes s s' \<and> crd_Name d \<notin> vol_Name ` set volumes"
        if d: "d \<in> set (cr_Disks request)" for d
      proof -
        have "crd_Pool d \<in> set ?pools" using d assms(2) by simp
        moreover have "check_each (check_new_volumes send cfg (cr_Disks request)) ?pools s1 = (Inr None, s')"
          using rest xml False by simp
        ultimately obtain s2 s3 where "asks send s1 s2" "asks send s3 s'"
          and new: "check_new_volumes send cfg (cr_Disks request) (crd_Pool d) s2 = (Inr None, s3)"
          using check_each_passed [where f = "check_new_volumes send cfg (cr_Disks request)", OF keeps_host_checks(2) [OF asks_kept]] by blast
        with new_volumes_free [OF new] d asks_trans [OF \<open>asks send s1 s2\<close> to1] show ?thesis
          unfolding listed_pool_def by blast
      qed
      with False show ?thesis by simp
    qed
  qed
qed

text \<open>The request that is sent has the names of the body.\<close>

lemma create_request_fields:
  "cr_Name (create_request body) = TrimSpace (cr_Name body)" "cr_XML (create_request body) = TrimSpace (cr_XML body)"
  "cr_CreateMode (create_request body) = normalizedCreateMode body"
  "cr_Template (create_request body) = normalizeCreateVMTemplate (cr_Template body)"
  "TrimSpace (cr_XML body) = [] \<Longrightarrow> normalizedCreateMode body \<noteq> ''template'' \<Longrightarrow> cr_Disks (create_request body) = normalizeCreateVMDisks body"
  by (simp_all add: create_request_def Let_def split: list.split)

text \<open>The body with the name that the machine gets: that of its XML when it has one.\<close>

definition named_body :: "('r, 'v) api_env \<Rightarrow> createVMRequest \<Rightarrow> createVMRequest option" where
  "named_body E body =
    (if TrimSpace (cr_XML body) = [] then Some body
     else case en_xml_name E (TrimSpace (cr_XML body)) of None \<Rightarrow> None
       | Some name \<Rightarrow> if TrimSpace name = [] then None else Some (body\<lparr>cr_Name := TrimSpace name\<rparr>))"

lemma named_body_decoded: "(if TrimSpace (cr_XML body) = [] then Inr body
     else case domainNameFromXML E (cr_XML body) of Inl e \<Rightarrow> Inl e | Inr name \<Rightarrow> Inr (body\<lparr>cr_Name := name\<rparr>)) = Inr b
   \<longleftrightarrow> named_body E body = Some b"
  by (auto simp: named_body_def domainNameFromXML_def split: option.split)

text \<open>C18: a creation, by settings, from a template or by XML, is accepted (202, a task in the queue) only for a user with the
  permission, when the request is valid, and when its agent, asked on the way from the lookup of the agent to the
  creation of the task, listed no machine of that name and: for new disks, no volume of the same name in the pool of
  any of them; for a template, the source as a template volume and no volume with the name of the target, case
  folded, in the pool of the target. A creation by XML is checked for the name of its machine alone. The task that is
  left to run is the creation of this request.\<close>

theorem accepted_creation:
  assumes "handleCreateVM E order rq (Some body0) s = (Inr ((status, AQueued t), later), s')" "\<And>ps. set (order ps) = set ps"
  shows "hasPermission (rq_user rq) ''vms.create'' \<and> status = 202 \<and>
    (\<exists>body a token s0 s1. named_body E body0 = Some body \<and> validateCreateVMRequest body = None \<and>
       on_store (GetAgent (TrimSpace (cr_AgentID body))) s = (Inr a, s0) \<and> usable_token E a = Some token \<and>
       (\<exists>t1 vms t2. asks (en_send E) s0 t1 \<and> client_ListVMsFast (en_send E) (config_of a token) t1 = (Inr vms, t2) \<and>
          asks (en_send E) t2 s1 \<and> TrimSpace (cr_Name body) \<notin> av_Name ` set vms) \<and>
       (TrimSpace (cr_XML body) = [] \<longrightarrow>
         (if normalizedCreateMode body = ''template'' then
           (let t = normalizeCreateVMTemplate (cr_Template body) in \<exists>sources targets.
              listed_pool (en_send E) (config_of a token) (ct_SourcePool t) sources s0 s1 \<and>
              listed_pool (en_send E) (config_of a token) (ct_TargetPool t) targets s0 s1 \<and>
              (\<exists>v \<in> set sources. vol_Name v = ct_SourceName t \<and> isTemplateStorageVolume v) \<and>
              (\<forall>w \<in> set targets. \<not> EqualFold (TrimSpace (vol_Name w)) (ct_TargetName t)))
          else \<forall>d \<in> set (normalizeCreateVMDisks body). \<exists>volumes.
             listed_pool (en_send E) (config_of a token) (crd_Pool d) volumes s0 s1 \<and> crd_Name d \<notin> vol_Name ` set volumes)) \<and>
       (\<exists>payload. on_store (CreateTask ''vm.create'' ''queued'' ''agent'' (agent_id a) payload (ID (rq_user rq)) []) s1 = (Inr t, s')) \<and>
       later = [runVMCreateTask E rq a (config_of a token) (create_request body) (task_id t)])"
proof -
  note queued [simp] = answered_simps(2)
  have "hasPermission (rq_user rq) ''vms.create''"
    and decoded: "(case (if TrimSpace (cr_XML body0) = [] then Inr body0
          else case domainNameFromXML E (cr_XML body0) of Inl e \<Rightarrow> Inl e | Inr name \<Rightarrow> Inr (body0\<lparr>cr_Name := name\<rparr>)) of
      Inl e \<Rightarrow> refuse 400 ''invalid_vm_create'' e
    | Inr body \<Rightarrow>
        valid (validateCreateVMRequest body) ''invalid_vm_create'' (
        agentTokenForID E (TrimSpace (cr_AgentID body)) (\<lambda>a token.
        let request = create_request body; cfg = config_of a token in
        checked (validateVMCreateTargets order (en_send E) cfg request (cr_XML request = [])) (
        queued_task rq ''vm.create'' ''agent'' (agent_id a)
          [''vm'' \<mapsto> JStr (cr_Name request), ''agent'' \<mapsto> JStr (agent_name a), ''message'' \<mapsto> JStr (zh ''e5889be5bbbae8999ae68b9fe69cbae68e92e9989fe4b8ad'')]
          ''create_vm_task_failed'' (zh ''e5889be5bbbae8999ae68b9fe69cbae4bbbbe58aa1e5a4b1e8b4a5'') (\<lambda>t. runVMCreateTask E rq a cfg request (task_id t)))))) s
      = (Inr ((status, AQueued t), later), s')"
    by (rule permittedE [OF assms(1) [unfolded handleCreateVM_def decoded_def option.case] queued], assumption)+
  from decoded obtain body where body: "named_body E body0 = Some body"
    and v: "valid (validateCreateVMRequest body) ''invalid_vm_create'' (
        agentTokenForID E (TrimSpace (cr_AgentID body)) (\<lambda>a token.
        let request = create_request body; cfg = config_of a token in
        checked (validateVMCreateTargets order (en_send E) cfg request (cr_XML request = [])) (
        queued_task rq ''vm.create'' ''agent'' (agent_id a)
          [''vm'' \<mapsto> JStr (cr_Name request), ''agent'' \<mapsto> JStr (agent_name a), ''message'' \<mapsto> JStr (zh ''e5889be5bbbae8999ae68b9fe69cbae68e92e9989fe4b8ad'')]
          ''create_vm_task_failed'' (zh ''e5889be5bbbae8999ae68b9fe69cbae4bbbbe58aa1e5a4b1e8b4a5'') (\<lambda>t. runVMCreateTask E rq a cfg request (task_id t))))) s
      = (Inr ((status, AQueued t), later), s')"
    by (cases "if TrimSpace (cr_XML body0) = [] then Inr body0
          else case domainNameFromXML E (cr_XML body0) of Inl e \<Rightarrow> Inl e | Inr name \<Rightarrow> Inr (body0\<lparr>cr_Name := name\<rparr>)")
      (simp_all only: sum.case named_body_decoded refuse_Inr, simp_all)
  from v obtain a token s0 where "validateCreateVMRequest body = None"
    and agent: "on_store (GetAgent (TrimSpace (cr_AgentID body))) s = (Inr a, s0)" "usable_token E a = Some token"
    and run: "checked (validateVMCreateTargets order (en_send E) (config_of a token) (create_request body) (cr_XML (create_request body) = [])) (
        queued_task rq ''vm.create'' ''agent'' (agent_id a)
          [''vm'' \<mapsto> JStr (cr_Name (create_request body)), ''agent'' \<mapsto> JStr (agent_name a),
           ''message'' \<mapsto> JStr (zh ''e5889be5bbbae8999ae68b9fe69cbae68e92e9989fe4b8ad'')]
          ''create_vm_task_failed'' (zh ''e5889be5bbbae8999ae68b9fe69cbae4bbbbe58aa1e5a4b1e8b4a5'')
          (\<lambda>t. runVMCreateTask E rq a (config_of a token) (create_request body) (task_id t))) s0 = (Inr ((status, AQueued t), later), s')"
    unfolding Let_def by (auto elim!: validE [OF _ queued] agentTokenForIDE [OF _ queued])
  from run obtain s1 where targets: "validateVMCreateTargets order (en_send E) (config_of a token) (create_request body)
      (cr_XML (create_request body) = []) s0 = (Inr None, s1)"
    and q: "queued_task rq ''vm.create'' ''agent'' (agent_id a)
          [''vm'' \<mapsto> JStr (cr_Name (create_request body)), ''agent'' \<mapsto> JStr (agent_name a),
           ''message'' \<mapsto> JStr (zh ''e5889be5bbbae8999ae68b9fe69cbae68e92e9989fe4b8ad'')]
          ''create_vm_task_failed'' (zh ''e5889be5bbbae8999ae68b9fe69cbae4bbbbe58aa1e5a4b1e8b4a5'')
          (\<lambda>t. runVMCreateTask E rq a (config_of a token) (create_request body) (task_id t)) s1 = (Inr ((status, AQueued t), later), s')"
    by (rule checkedE [OF _ queued])
  from q have "status = 202 \<and> (\<exists>payload. on_store (CreateTask ''vm.create'' ''queued'' ''agent'' (agent_id a) payload (ID (rq_user rq)) []) s1 = (Inr t, s')) \<and>
      later = [runVMCreateTask E rq a (config_of a token) (create_request body) (task_id t)]"
    unfolding queued_task_def by (auto elim!: bindp_attemptE simp: refuse_Inr respond_with_def ret_def split: sum.splits)
  moreover have "TrimSpace (cr_XML (create_request body)) = [] \<longleftrightarrow> TrimSpace (cr_XML body) = []"
    by (simp add: create_request_fields)
  moreover note create_targets_free [OF targets assms(2)]
  ultimately show ?thesis
    using \<open>hasPermission (rq_user rq) ''vms.create''\<close> body \<open>validateCreateVMRequest body = None\<close> agent
    by (intro conjI, blast, blast, intro exI [of _ body] exI [of _ a] exI [of _ token] exI [of _ s0] exI [of _ s1])
      (auto simp: create_request_fields Let_def)
qed

definition sealed_agent :: agent where
  "sealed_agent = test_agent\<lparr>agent_token_ciphertext := ''v1:dG9r''\<rparr>"

text \<open>An agent that reports a host with four processors, one machine and no volumes.\<close>

definition host_answers :: "'r rt http_transport" where
  "host_answers meth url token insecure body = ret \<lparr>ans_status = 200, ans_text = ''200 OK'', ans_body = Some (
     if HasSuffix url ''/v1/host'' then RHost test_info
     else if Contains url ''/volumes'' then RVolumes [] else RVMs [test_vm])\<rparr>"

definition create_env :: "(memory, blob) api_env" where
  "create_env = test_env\<lparr>en_send := host_answers\<rparr>"

definition create_body :: createVMRequest where
  "create_body = \<lparr>cr_CreateMode = [], cr_Name = ''db'', cr_Description = [], cr_Autostart = False, cr_CurrentCPU = 1, cr_MaximumCPU = 2,
     cr_CurrentMemoryMB = 0, cr_MaximumMemoryMB = 0, cr_CPUModel = [], cr_OSType = ''linux'', cr_Disks = [], cr_DiskName = ''db.qcow2'',
     cr_DiskPool = ''default'', cr_DiskFormat = ''qcow2'', cr_DiskBus = ''virtio'', cr_DiskCapacityGB = 10, cr_PreallocMetadata = False,
     cr_ISOPath = [], cr_ISOBus = [], cr_NetworkSource = ''default'', cr_NetworkModel = [], cr_Graphics = [], cr_ConsolePassword = [],
     cr_BootFirmware = [], cr_Template = \<lparr>ct_SourcePool = [], ct_SourceName = [], ct_TargetPool = [], ct_TargetName = [], ct_Bus = [],
       ct_Format = [], ct_Convert = False, ct_PreallocMetadata = False\<rparr>, cr_XML = [], cr_AgentID = ''a1''\<rparr>"

definition create_state :: "memory rt" where
  "create_state = memory_rt (empty_db\<lparr>agents := [sealed_agent]\<rparr>)"

text \<open>The memory asked for is 2^44 MB.\<close>

definition wide_body :: createVMRequest where
  "wide_body = create_body\<lparr>cr_CurrentMemoryMB := 1, cr_MaximumMemoryMB := 2 ^ 44\<rparr>"

lemma wide_valid: "validateCreateVMRequest wide_body = None" "TrimSpace (cr_XML wide_body) = []" "TrimSpace (cr_AgentID wide_body) = ''a1''"
  "cr_XML (create_request wide_body) = []"
  by code_simp+

lemma sealed_token: "usable_token create_env sealed_agent = Some ''tok''"
  by code_simp

lemma create_agent_found: "on_store (GetAgent ''a1'') create_state = (Inr sealed_agent, create_state)"
  by (simp add: create_state_def sealed_agent_def test_agent_def memory_rt_def empty_db_def GetAgent_def
     on_store_def lift_error_def on_db_run row_of_def query_no_fault bindp_def ret_def found_agent_def)

lemma wide_targets: "fst (validateVMCreateTargets (\<lambda>ps. ps) host_answers (config_of sealed_agent ''tok'') (create_request wide_body) True s) = Inr None"
  by code_simp

lemma keeps_answers: "call_keeps I host_answers"
  by (simp add: call_keeps_def host_answers_def keeps_ret)

lemma wide_run: "validateVMCreateTargets (\<lambda>ps. ps) host_answers (config_of sealed_agent ''tok'') (create_request wide_body) True s = (Inr None, s)"
  using keepsD [OF keeps_targets [OF keeps_answers [where I = "\<lambda>x. x = s"]] refl] wide_targets [of s]
  by (metis prod.collapse)

lemma accepted_creation_witness:
  "\<exists>t later s'. handleCreateVM create_env (\<lambda>ps. ps) test_request (Some wide_body) create_state = (Inr ((202, AQueued t), later), s') \<and>
     (\<exists>s1 vms s2. client_ListVMsFast (en_send create_env) (config_of sealed_agent ''tok'') s1 = (Inr vms, s2) \<and> ''db'' \<notin> av_Name ` set vms)"
proof -
  have env: "hasPermission (rq_user test_request) ''vms.create''" "en_send create_env = host_answers" "''a1'' \<noteq> []"
    by (simp_all add: test_request_def hasPermission_def user_of_row_def admin_row_def create_env_def)
  have agent: "attempt (on_store (GetAgent ''a1'')) create_state = (Inr (Inr sealed_agent), create_state)"
    by (simp add: attempt_def create_agent_found)
  have "\<exists>t later s'. queued_task test_request ty tt ti p code m run create_state = (Inr ((202, AQueued t), later), s')" for ty tt ti p code m run
    by (simp add: queued_task_def CreateTask_def bindp_def attempt_def on_store_def lift_error_def on_db_run stmt_no_fault gen_uuid_def
      create_state_def memory_rt_def empty_db_def test_request_def user_of_row_def admin_row_def respond_with_def ret_def Let_def)
  then have "\<exists>t later s'. handleCreateVM create_env (\<lambda>ps. ps) test_request (Some wide_body) create_state = (Inr ((202, AQueued t), later), s')"
    unfolding handleCreateVM_def permitted_def decoded_def option.case Let_def agentTokenForID_def agent_and_token_def checked_def valid_def
    by (simp add: env wide_valid sealed_token wide_run agent bindp_def)
  then obtain t later s' where run: "handleCreateVM create_env (\<lambda>ps. ps) test_request (Some wide_body) create_state = (Inr ((202, AQueued t), later), s')"
    by blast
  have name: "TrimSpace (cr_Name wide_body) = ''db''" by code_simp
  have body: "named_body create_env wide_body = Some wide_body" by (simp add: named_body_def wide_valid)
  have "\<exists>t1 vms t2. client_ListVMsFast (en_send create_env) (config_of sealed_agent ''tok'') t1 = (Inr vms, t2) \<and> ''db'' \<notin> av_Name ` set vms"
    using accepted_creation [OF run] body create_agent_found sealed_token wide_valid(3) name by fastforce
  then show ?thesis using run by blast
qed

end
