(* ===== verification/Fleet_Agents.thy ===== *)
theory Fleet_Agents
  imports Fleet_Rules Fleet_Checks
begin

text \<open>
  The agents of the fleet: no two of them stand for the same address, and a machine that is deleted leaves the fleet.
\<close>

section \<open>Addresses\<close>

definition same_place :: "(string \<Rightarrow> string list option) \<Rightarrow> agent \<Rightarrow> agent \<Rightarrow> bool" where
  "same_place lookup a b \<longleftrightarrow> (case resolveAgentEndpointIdentity lookup (agent_endpoint a) of
     Inl _ \<Rightarrow> False | Inr identity \<Rightarrow> same_endpoint lookup identity b)"

text \<open>No agent stands for the address of one that was registered before it.\<close>

definition endpoints_apart :: "(string \<Rightarrow> string list option) \<Rightarrow> agent list \<Rightarrow> bool" where
  "endpoints_apart lookup as \<longleftrightarrow> sorted_wrt (\<lambda>a b. \<not> same_place lookup b a) as"

lemma same_place_sym: "same_place lookup a b \<longleftrightarrow> same_place lookup b a"
  by (auto simp: same_place_def same_endpoint_def endpointIdentityMatches_def sameEndpointSchemePortPath_def list_ex_iff
    split: sum.splits option.splits)

lemma agents_unread: "fault_blind (\<lambda>d. agents d = as)"
  by (simp add: fault_blind_def)

abbreviation keeps_agents :: "agent list \<Rightarrow> ('r, 'a) service_prog \<Rightarrow> bool" where
  "keeps_agents as \<equiv> keeps (\<lambda>s. agents (rt_db s) = as)"

lemma keeps_agents_reads:
  "keeps_agents as (on_store (GetAgent i))" "keeps_agents as (on_store (GetAgentByName n))" "keeps_agents as (on_store (GetAgentByEndpoint n))"
  "keeps_agents as (on_store ListAgents)" "keeps_agents as (audit rq action rt ri md)"
  unfolding GetAgent_def GetAgentByName_def GetAgentByEndpoint_def ListAgents_def found_agent_def audit_def WriteAudit_def
  by (auto intro!: keeps_on_store [where I = "\<lambda>d. agents d = as"] keeps_ignore keeps_intros keeps_stmt agents_unread split: option.split)

lemma keeps_agents_checks: "keeps_agents as (ensureAgentNameUnique n)" "keeps_agents as (ensureAgentEndpointUnique lookup e)"
  unfolding ensureAgentNameUnique_def ensureAgentEndpointUnique_def
  by (auto intro!: keeps_intros keeps_agents_reads split: sum.split)

lemma audit_agents: "agents (rt_db (snd (audit rq action rt ri md s))) = agents (rt_db s)"
  using keepsD [OF keeps_agents_reads(5) refl] .

lemma ListAgents_Inr: "on_store ListAgents s = (Inr as, s') \<Longrightarrow> set as = set (agents (rt_db s))"
  by (auto simp: on_store_def lift_error_def on_db_run ListAgents_def query_def stmt_def split: list.splits sum.splits if_splits prod.splits)

lemma endpoint_checked:
  assumes "ensureAgentEndpointUnique lookup e s = (Inr None, s')"
  shows "\<exists>identity. resolveAgentEndpointIdentity lookup e = Inr identity \<and> (\<forall>a\<in>set (agents (rt_db s)). \<not> same_endpoint lookup identity a)"
proof -
  from assms obtain identity where i: "resolveAgentEndpointIdentity lookup e = Inr identity"
    unfolding ensureAgentEndpointUnique_def by (auto simp: ret_def split: sum.splits)
  with assms have "bindp (attempt (on_store (GetAgentByEndpoint (ei_normalized identity)))) (\<lambda>x. case x of
         Inr _ \<Rightarrow> ret (Some EndpointDuplicate)
       | Inl e \<Rightarrow>
           if e \<noteq> RepoError ErrNotFound then ret (Some CheckFailed)
           else bindp (attempt (on_store ListAgents)) (\<lambda>listed. ret (case listed of
             Inl _ \<Rightarrow> Some CheckFailed
           | Inr as \<Rightarrow> if list_ex (same_endpoint lookup identity) as then Some EndpointIPDuplicate else None))) s = (Inr None :: service_error + agent_check_error option, s')"
    unfolding ensureAgentEndpointUnique_def by simp
  then obtain x s1 where first: "on_store (GetAgentByEndpoint (ei_normalized identity)) s = (x, s1)"
    and rest: "(case x of
         Inr _ \<Rightarrow> ret (Some EndpointDuplicate)
       | Inl e \<Rightarrow>
           if e \<noteq> RepoError ErrNotFound then ret (Some CheckFailed)
           else bindp (attempt (on_store ListAgents)) (\<lambda>listed. ret (case listed of
             Inl _ \<Rightarrow> Some CheckFailed
           | Inr as \<Rightarrow> if list_ex (same_endpoint lookup identity) as then Some EndpointIPDuplicate else None))) s1 = (Inr None :: service_error + agent_check_error option, s')"
    by (rule bindp_attemptE)
  from rest obtain as s2 where "on_store ListAgents s1 = (Inr as, s2)" "\<not> list_ex (same_endpoint lookup identity) as"
    by (auto simp: ret_def elim!: bindp_attemptE split: sum.splits if_splits)
  moreover have "agents (rt_db s1) = agents (rt_db s)"
    using keeps_result [OF keeps_agents_reads(3) refl first] by simp
  ultimately show ?thesis using i ListAgents_Inr by (metis list_ex_iff)
qed

lemma statement_cases:
  assumes "stmt f d = (r, d')"
  shows "(r = Inl DbFailure \<and> (\<exists>fs. d' = d\<lparr>faults := fs\<rparr>)) \<or> (\<exists>fs. f (d\<lparr>faults := fs\<rparr>) = (r, d'))"
proof (cases "faults d")
  case Nil
  then have "d = d\<lparr>faults := []\<rparr>" by simp
  with assms Nil show ?thesis by (metis stmt_no_fault)
next
  case (Cons b fs)
  with assms show ?thesis by (auto simp: stmt_def split: if_splits)
qed

text \<open>Either nothing is registered, or the new agent is.\<close>

lemma CreateAgent_cases:
  assumes "on_store (CreateAgent h n e t c tls) s = (r, s')"
  shows "(\<exists>err. r = Inl err \<and> agents (rt_db s') = agents (rt_db s)) \<or>
    (\<exists>a. r = Inr a \<and> agents (rt_db s') = agents (rt_db s) @ [a] \<and> agent_name a = n \<and> agent_endpoint a = e \<and>
       n \<notin> agent_name ` set (agents (rt_db s)) \<and> agent_id a \<notin> agent_id ` set (agents (rt_db s)))"
proof -
  obtain x d where run: "CreateAgent h n e t c tls (rt_db s) = (x, d)" by fastforce
  have s': "rt_db s' = d" and r: "r = (case x of Inl err \<Rightarrow> Inl (RepoError err) | Inr a \<Rightarrow> Inr a)"
    using assms by (auto simp: on_store_def lift_error_def on_db_run run split: sum.splits)
  have u: "gen_uuid d0 = (i, d1) \<Longrightarrow> agents d1 = agents d0" for d0 d1 :: db and i
    by (auto simp: gen_uuid_def split: list.splits)
  from statement_cases [OF run [unfolded CreateAgent_def]] show ?thesis
  proof (elim disjE conjE exE)
    fix fs assume "x = Inl DbFailure" "d = rt_db s\<lparr>faults := fs\<rparr>"
    then show ?thesis by (simp add: r s')
  next
    fix fs
    obtain i d1 where g: "gen_uuid (rt_db s\<lparr>faults := fs\<rparr>) = (i, d1)" by fastforce
    assume "(let (i, d1) = gen_uuid (rt_db s\<lparr>faults := fs\<rparr>);
         a = \<lparr>agent_id = i, agent_name = n, agent_endpoint = e, agent_tls_insecure = tls,
           agent_status = ''unknown'', agent_version = [], agent_capabilities = [],
           agent_last_heartbeat_at = None, agent_last_error = [], agent_token_hash = h t,
           agent_token_ciphertext = c, agent_failure_count = 0,
           agent_last_sync_started_at = None, agent_last_sync_finished_at = None,
           agent_created_at = clock d1, agent_updated_at = clock d1\<rparr> in
     if n \<in> agent_name ` set (agents d1) \<or> i \<in> agent_id ` set (agents d1) then (Inl UniqueViolation, d1)
     else (Inr a, d1\<lparr>agents := agents d1 @ [a]\<rparr>)) = (x, d)"
    with u [OF g] show ?thesis by (auto simp: g r s' Let_def split: if_splits)
  qed
qed

lemma registered:
  assumes "create_agent E rq body s = (r, s')"
  shows "agents (rt_db s') = agents (rt_db s) \<or> (\<exists>a. r = Inr ((201, AAgent a), []) \<and> agents (rt_db s') = agents (rt_db s) @ [a] \<and>
    agent_name a = ca_Name body \<and> agent_endpoint a = ca_Endpoint body \<and> ca_Name body \<notin> agent_name ` set (agents (rt_db s)) \<and>
    agent_id a \<notin> agent_id ` set (agents (rt_db s)))"
proof (cases "Seal (sv_aead (en_sv E)) (en_random E) (sv_secret (en_sv E)) (ca_Token body)")
  case None
  with assms show ?thesis by (auto simp: create_agent_def refuse_def respond_def ret_def)
next
  case (Some c)
  with assms have "bindp (attempt (on_store (CreateAgent (en_hash_token E) (ca_Name body) (ca_Endpoint body) (ca_Token body) c (ca_TLSInsecure body)))) (\<lambda>x. case x of
         Inl e \<Rightarrow>
           if e = RepoError UniqueViolation then refuse 409 ''agent_exists'' (zh ''4167656e7420e5908de7a7b0e5b7b2e5ad98e59ca8'')
           else refuse 500 ''create_agent_failed'' (zh ''e5889be5bbba204167656e7420e5a4b1e8b4a5'')
       | Inr a \<Rightarrow>
           bindp (audit rq ''agent.create'' ''agent'' (agent_id a) [''name'' \<mapsto> JStr (agent_name a), ''endpoint'' \<mapsto> JStr (agent_endpoint a)]) (\<lambda>_.
           respond 201 (AAgent a))) s = (r, s')"
    unfolding create_agent_def by simp
  then obtain x s1 where created: "on_store (CreateAgent (en_hash_token E) (ca_Name body) (ca_Endpoint body) (ca_Token body) c (ca_TLSInsecure body)) s = (x, s1)"
    and rest: "(case x of
         Inl e \<Rightarrow>
           if e = RepoError UniqueViolation then refuse 409 ''agent_exists'' (zh ''4167656e7420e5908de7a7b0e5b7b2e5ad98e59ca8'')
           else refuse 500 ''create_agent_failed'' (zh ''e5889be5bbba204167656e7420e5a4b1e8b4a5'')
       | Inr a \<Rightarrow>
           bindp (audit rq ''agent.create'' ''agent'' (agent_id a) [''name'' \<mapsto> JStr (agent_name a), ''endpoint'' \<mapsto> JStr (agent_endpoint a)]) (\<lambda>_.
           respond 201 (AAgent a))) s1 = (r, s')"
    by (rule bindp_attemptE)
  show ?thesis
  proof (cases x)
    case (Inl e)
    with rest CreateAgent_cases [OF created] show ?thesis by (auto simp: refuse_def respond_def ret_def split: if_splits)
  next
    case (Inr a)
    from rest have "agents (rt_db s') = agents (rt_db s1)" "r = Inr ((201, AAgent a), [])"
      using audit_agents [of rq "''agent.create''" "''agent''" "agent_id a" "[''name'' \<mapsto> JStr (agent_name a), ''endpoint'' \<mapsto> JStr (agent_endpoint a)]" s1]
      by (auto simp: Inr bindp_def audit_def ignore_def respond_def ret_def)
    with CreateAgent_cases [OF created] Inr show ?thesis by auto
  qed
qed

text \<open>C21: however a registration is asked for and whatever fails on the way, no two agents stand for the same address; the
  agents either stay as they are, or the answer is 201 and the new one is the last of them, for a user with the
  permission, under a name and an identifier that no agent had.\<close>

theorem registration_keeps_apart:
  assumes "endpoints_apart (en_lookup_ip E) (agents (rt_db s))" "handleCreateAgent E rq input s = (r, s')"
  shows "endpoints_apart (en_lookup_ip E) (agents (rt_db s')) \<and>
    (agents (rt_db s') = agents (rt_db s) \<or>
     (\<exists>a. r = Inr ((201, AAgent a), []) \<and> agents (rt_db s') = agents (rt_db s) @ [a] \<and> hasPermission (rq_user rq) ''agents.manage'' \<and>
        agent_name a \<notin> agent_name ` set (agents (rt_db s)) \<and> agent_id a \<notin> agent_id ` set (agents (rt_db s))))"
proof (cases "agents (rt_db s') = agents (rt_db s)")
  case True
  with assms(1) show ?thesis by simp
next
  case False
  let ?body = "tidy_request (the input)"
  have allowed: "hasPermission (rq_user rq) ''agents.manage''" and some: "input = Some (the input)"
    using assms(2) False by (auto simp: handleCreateAgent_def permitted_def decoded_def no_permission_def refuse_def respond_def ret_def
      split: if_splits option.splits)
  obtain x1 s1 where named: "ensureAgentNameUnique (ca_Name ?body) s = (x1, s1)" by fastforce
  obtain x2 s2 where placed: "ensureAgentEndpointUnique (en_lookup_ip E) (ca_Endpoint ?body) s1 = (x2, s2)" by fastforce
  have same: "agents (rt_db s1) = agents (rt_db s)" "agents (rt_db s2) = agents (rt_db s)"
    using keeps_result [OF keeps_agents_checks(1) refl named] keeps_result [OF keeps_agents_checks(2) refl placed] by simp_all
  obtain body0 where input: "input = Some body0" using some by blast
  have left: "agents (rt_db s') \<noteq> agents (rt_db s1)" "agents (rt_db s') \<noteq> agents (rt_db s2)" "agents (rt_db s') \<noteq> agents (rt_db s)"
    using False same by simp_all
  have name_ok: "x1 = Inr None"
  proof (rule ccontr)
    assume "x1 \<noteq> Inr None"
    with assms(2) left named show False
      by (cases x1) (auto simp: handleCreateAgent_def permitted_def allowed decoded_def Let_def bindp_def input refuse_def respond_def ret_def
        split: if_splits option.splits agent_check_error.splits)
  qed
  have endpoint_ok: "x2 = Inr None"
  proof (rule ccontr)
    assume "x2 \<noteq> Inr None"
    with assms(2) left named placed show False
      by (cases x2) (auto simp: handleCreateAgent_def permitted_def allowed decoded_def Let_def bindp_def input name_ok refuse_def respond_def ret_def
        split: if_splits option.splits agent_check_error.splits)
  qed
  have free: "x1 = Inr None \<and> x2 = Inr None \<and> create_agent E rq ?body s2 = (r, s')"
    using assms(2) left named placed
    by (auto simp: handleCreateAgent_def permitted_def allowed decoded_def Let_def bindp_def input name_ok endpoint_ok refuse_def respond_def ret_def
      split: if_splits)
  then obtain a where a: "r = Inr ((201, AAgent a), [])" "agents (rt_db s') = agents (rt_db s) @ [a]" "agent_endpoint a = ca_Endpoint ?body"
    "agent_name a \<notin> agent_name ` set (agents (rt_db s))" "agent_id a \<notin> agent_id ` set (agents (rt_db s))"
    using registered [of E rq ?body s2 r s'] False same by auto
  from endpoint_checked placed free obtain identity where
    "resolveAgentEndpointIdentity (en_lookup_ip E) (agent_endpoint a) = Inr identity"
    "\<forall>b\<in>set (agents (rt_db s)). \<not> same_endpoint (en_lookup_ip E) identity b" unfolding a(3) same(1) [symmetric] by metis
  then have "\<forall>b\<in>set (agents (rt_db s)). \<not> same_place (en_lookup_ip E) a b" by (simp add: same_place_def)
  with assms(1) a(2) have "endpoints_apart (en_lookup_ip E) (agents (rt_db s'))"
    by (simp add: endpoints_apart_def sorted_wrt_append)
  with a allowed show ?thesis by blast
qed

definition register_env :: "(memory, blob) api_env" where
  "register_env = test_env\<lparr>en_lookup_ip := (\<lambda>host. Some [host])\<rparr>"

definition other_agent :: createAgentRequest where
  "other_agent = \<lparr>ca_Name = ''other'', ca_Endpoint = ''https://m:9443/'', ca_Token = ''t'', ca_TLSInsecure = False\<rparr>"

lemma registration_keeps_apart_witness:
  "endpoints_apart (en_lookup_ip register_env) (agents (rt_db (snd (handleCreateAgent register_env test_request (Some other_agent)
     (memory_rt (empty_db\<lparr>agents := [test_agent]\<rparr>))))))"
proof -
  let ?s = "memory_rt (empty_db\<lparr>agents := [test_agent]\<rparr>)"
  obtain r s' where run: "handleCreateAgent register_env test_request (Some other_agent) ?s = (r, s')" by fastforce
  have "endpoints_apart (en_lookup_ip register_env) (agents (rt_db ?s))" by (simp add: endpoints_apart_def memory_rt_def)
  from registration_keeps_apart [OF this run] run show ?thesis by simp
qed

section \<open>A machine that is deleted\<close>

abbreviation keeps_runtime :: "'r \<Rightarrow> ('r rt, 'e, 'a) prog \<Rightarrow> bool" where
  "keeps_runtime R \<equiv> keeps (\<lambda>s. rt_redis s = R)"

lemma runtime_unread: "keeps_runtime R (on_store m)"
  by (auto simp: keeps_def on_store_def lift_error_def on_db_run split: prod.splits sum.splits)

lemma runtime_after: "keeps_runtime R (finished_task rq ty tt ti p)" "keeps_runtime R (audit rq action rt ri md)"
  "keeps_runtime R (respond_with later st b)"
  unfolding finished_task_def audit_def respond_with_def by (auto intro!: keeps_intros runtime_unread split: sum.split)

lemma runtime_found:
  assumes "redis_laws (sv_store v) view"
  shows "keeps_runtime R (service_GetVM v i)"
proof -
  have "snd (GetVM (sv_store v) i r) = r" for r
    using redis_reads(3) [OF assms] by (auto simp: GetVM_def get_decoded_def bindp_def ret_def fail_def split: option.split)
  then have "keeps_runtime R (on_redis (GetVM (sv_store v) i))"
    by (auto simp: keeps_def on_redis_def split: prod.splits sum.splits) (metis snd_conv)+
  then show ?thesis unfolding service_GetVM_def applyTemplateMarkToVM_def
    by (auto intro!: keeps_intros runtime_unread split: sum.split option.split)
qed

lemma runtime_called:
  assumes "\<And>meth url token insecure body. keeps_runtime R (send meth url token insecure body)"
  shows "keeps_runtime R (client_RunVMAction send cfg name action)"
  unfolding client_RunVMAction_def client_send_def by (auto intro!: keeps_intros assms)

lemma bindp_at: "m s = (Inr x, s1) \<Longrightarrow> bindp m f s = f x s1"
  by (simp add: bindp_def)

lemma GetAgent_Inr: "on_store (GetAgent i) s = (Inr a, s') \<Longrightarrow> agent_id a = i"
  by (auto simp: on_store_def lift_error_def on_db_run GetAgent_def bindp_def found_agent_def ret_def fail_def
    split: prod.splits sum.splits option.splits dest!: query_InrD row_of_SomeD sym [of "Some _"])

text \<open>\<open>RemoveVM\<close> takes the machine out of the fleet, whether or not its agent has been deleted meanwhile.\<close>

lemma RemoveVM_leaves:
  assumes laws: "redis_laws (sv_store v) view" and wf: "runtime_wf (sv_store v) view (rt_redis s)"
    and host: "h \<noteq> []" "\<forall>b. b \<noteq> h \<longrightarrow> fl_vms (fleet_at (sv_store v) view (rt_redis s)) b i = None"
  shows "\<exists>b s'. Sync_Service.RemoveVM v i h s = (Inr b, s') \<and> runtime_wf (sv_store v) view (rt_redis s') \<and>
    (\<forall>a j. fl_vms (fleet_at (sv_store v) view (rt_redis s')) a j =
       (if j = i then None else fl_vms (fleet_at (sv_store v) view (rt_redis s)) a j))"
proof -
  let ?fl = "fleet_at (sv_store v) view (rt_redis s)"
  have "write_ok (RemoveVM h i) ?fl" using host by (simp add: write_ok_def)
  from remove_vm_write [OF laws wf [unfolded runtime_wf_def] this [unfolded fleet_at_def]] obtain r' where
    r': "RemoveVMRuntime (sv_store v) h i (rt_redis s) = (fst (fleet_write (RemoveVM h i) ?fl), r')"
      "runtime_wf (sv_store v) view r'" "fleet_at (sv_store v) view r' = snd (fleet_write (RemoveVM h i) ?fl)"
    unfolding fleet_at_def runtime_wf_def by blast
  have "fl_vms ?fl h j = None" if "h \<in> fl_deleted ?fl" for j
    using wf that unfolding runtime_wf_def shelf_wf_def by (auto simp: fleet_at_def)
  then have "fl_vms (fleet_at (sv_store v) view r') a j = (if j = i then None else fl_vms ?fl a j)" for a j
    using host(2) unfolding r'(3) by (auto simp: fleet_write_def fleet_effect_def target_def is_removal_def)
  moreover have "\<exists>b. Sync_Service.RemoveVM v i h s = (Inr b, s\<lparr>rt_redis := r'\<rparr>)"
    by (auto simp: Sync_Service.RemoveVM_def bindp_def attempt_def on_redis_def r'(1) ret_def split: sum.split)
  ultimately show ?thesis using r'(2) by (metis rt.select_convs(3) rt.surjective rt.update_convs(3))
qed

text \<open>What an answer to a deletion says of the steps before it; \<open>s3\<close> is the state after the call of the agent.\<close>

lemma deletion_steps:
  assumes "handleVMAction E rq i action s = (Inr ((status, AVMTask vm t), later), s')" "action \<in> {''delete'', ''force-delete''}"
    and laws: "redis_laws (sv_store (en_sv E)) view"
    and calls: "\<And>R meth url token insecure body. keeps_runtime R (en_send E meth url token insecure body)"
  obtains s1 a s2 token s3 where "service_GetVM (en_sv E) i s = (Inr (Some vm), s1)"
    "on_store (GetAgent (vm_HostID vm)) s1 = (Inr a, s2)" "usable_token E a = Some token"
    "rt_redis s3 = rt_redis s" "status = 200" "later = [ignore (SyncAgentWithTokenMode (en_sv E) (vm_HostID vm) token SyncFull)]"
    "rt_redis s' = rt_redis (snd (Sync_Service.RemoveVM (en_sv E) i (vm_HostID vm) s3))"
proof -
  obtain agentAction where mapped: "mapVMAction action = Some agentAction" using assms(2) by (auto simp: mapVMAction_def)
  from assms(1) obtain vm0 a token x s1 s2 s3 where
    found: "service_GetVM (en_sv E) i s = (Inr (Some vm0), s1)" and agent: "on_store (GetAgent (vm_HostID vm0)) s1 = (Inr a, s2)"
    and usable: "usable_token E a = Some token"
    and sent: "client_RunVMAction (en_send E) (config_of a token) (vm_Name vm0) agentAction s2 = (Inr x, s3)"
    and rest: "bindp (after_action E vm0 i a token action) (\<lambda>(shown, later).
       bindp (finished_task rq (''vm.'' @ action) ''virtual_machine'' i
         [''agentAction'' \<mapsto> JStr agentAction, ''agent'' \<mapsto> JStr (agent_name a)]) (\<lambda>t.
       bindp (audit rq (''vm.'' @ action) ''virtual_machine'' i
         [''name'' \<mapsto> JStr (vm_Name vm0), ''agent'' \<mapsto> JStr (agent_name a)]) (\<lambda>_.
       respond_with later 200 (AVMTask shown t)))) s3 = (Inr ((status, AVMTask vm t), later), s')"
    unfolding handleVMAction_def mapped option.case
    by (elim with_vmE [OF _ answered_simps(3)] agent_and_tokenE [OF _ answered_simps(3)] callingE [OF _ answered_simps(3)]) blast
  have called: "rt_redis s3 = rt_redis s"
    using keeps_result [OF runtime_found [OF laws] refl found] keeps_result [OF runtime_unread refl agent]
      keeps_result [OF runtime_called [OF calls] refl sent] by simp
  have removal: "after_action E vm0 i a token action =
      bindp (ignore (Sync_Service.RemoveVM (en_sv E) i (agent_id a))) (\<lambda>_. ret (vm0, [SyncAgentWithTokenDelayedFull E (agent_id a) token]))"
    using assms(2) by (auto simp: after_action_def shouldRemoveVMAndDelayFullSyncAfterVMAction_def Let_def)
  let ?s4 = "snd (Sync_Service.RemoveVM (en_sv E) i (agent_id a) s3)" and ?later = "[SyncAgentWithTokenDelayedFull E (agent_id a) token]"
  have step: "after_action E vm0 i a token action s3 = (Inr (vm0, ?later), ?s4)"
    by (simp add: removal bindp_def ignore_def ret_def)
  from rest have "bindp (finished_task rq (''vm.'' @ action) ''virtual_machine'' i
         [''agentAction'' \<mapsto> JStr agentAction, ''agent'' \<mapsto> JStr (agent_name a)]) (\<lambda>t.
       bindp (audit rq (''vm.'' @ action) ''virtual_machine'' i
         [''name'' \<mapsto> JStr (vm_Name vm0), ''agent'' \<mapsto> JStr (agent_name a)]) (\<lambda>_.
       respond_with ?later 200 (AVMTask vm0 t))) ?s4 = (Inr ((status, AVMTask vm t), later), s')"
    by (simp only: bindp_at [where m = "after_action E vm0 i a token action", OF step] prod.case)
  then obtain t0 s5 u s6 where task: "finished_task rq (''vm.'' @ action) ''virtual_machine'' i
         [''agentAction'' \<mapsto> JStr agentAction, ''agent'' \<mapsto> JStr (agent_name a)] ?s4 = (Inr t0, s5)"
    and log: "audit rq (''vm.'' @ action) ''virtual_machine'' i [''name'' \<mapsto> JStr (vm_Name vm0), ''agent'' \<mapsto> JStr (agent_name a)] s5 = (Inr u, s6)"
    and answer: "respond_with ?later 200 (AVMTask vm0 t0) s6 = (Inr ((status, AVMTask vm t), later), s')"
    by (elim bindp_InrE) blast
  have same: "vm0 = vm" "status = 200" "later = ?later" "s' = s6" using answer by (simp_all add: respond_with_def ret_def)
  have id: "agent_id a = vm_HostID vm" using GetAgent_Inr [OF agent] same(1) by simp
  have r: "rt_redis s' = rt_redis ?s4"
    using keeps_result [OF runtime_after(1) refl task] keeps_result [OF runtime_after(2) refl log] same(4) by simp
  show thesis
    by (rule that [of s1 a s2 token s3])
      (use called found agent usable same r id in \<open>simp_all add: SyncAgentWithTokenDelayedFull_def\<close>)
qed

text \<open>C19: when an agent has deleted a machine for a user (200), the machine has left the fleet at once, together with
  nothing else: the indexes still agree, the list shows every other machine and not this one, and what is left to run
  is one full synchronisation of the host with the token of its agent (after a delay that the model leaves out). This
  holds also when the agent is removed meanwhile.\<close>

theorem deleted_vm_leaves_fleet:
  assumes "handleVMAction E rq i action s = (Inr ((status, AVMTask vm t), later), s')" "action \<in> {''delete'', ''force-delete''}"
    and laws: "redis_laws (sv_store (en_sv E)) view" and wf: "runtime_wf (sv_store (en_sv E)) view (rt_redis s)"
    and host: "vm_HostID vm \<noteq> []" "\<forall>b. b \<noteq> vm_HostID vm \<longrightarrow> fl_vms (fleet_at (sv_store (en_sv E)) view (rt_redis s)) b i = None"
    and calls: "\<And>R meth url token insecure body. keeps_runtime R (en_send E meth url token insecure body)"
  shows "status = 200 \<and>
    (\<exists>s1 a s2 token. service_GetVM (en_sv E) i s = (Inr (Some vm), s1) \<and> on_store (GetAgent (vm_HostID vm)) s1 = (Inr a, s2) \<and>
       usable_token E a = Some token \<and> later = [ignore (SyncAgentWithTokenMode (en_sv E) (vm_HostID vm) token SyncFull)]) \<and>
    runtime_wf (sv_store (en_sv E)) view (rt_redis s') \<and>
    (\<forall>a j. fl_vms (fleet_at (sv_store (en_sv E)) view (rt_redis s')) a j =
       (if j = i then None else fl_vms (fleet_at (sv_store (en_sv E)) view (rt_redis s)) a j)) \<and>
    (\<exists>vms. ListVMs (sv_store (en_sv E)) ''all'' [] [] (rt_redis s') = (Inr vms, rt_redis s') \<and>
       set vms = {m. \<exists>a j. j \<noteq> i \<and> fl_vms (fleet_at (sv_store (en_sv E)) view (rt_redis s)) a j = Some m})"
proof -
  let ?at = "fleet_at (sv_store (en_sv E)) view"
  obtain s1 a s2 token s3 where sync: "service_GetVM (en_sv E) i s = (Inr (Some vm), s1)"
    "on_store (GetAgent (vm_HostID vm)) s1 = (Inr a, s2)" "usable_token E a = Some token"
    and s3: "rt_redis s3 = rt_redis s" "status = 200" "later = [ignore (SyncAgentWithTokenMode (en_sv E) (vm_HostID vm) token SyncFull)]"
    "rt_redis s' = rt_redis (snd (Sync_Service.RemoveVM (en_sv E) i (vm_HostID vm) s3))"
    by (rule deletion_steps [OF assms(1,2) laws calls])
  have start: "runtime_wf (sv_store (en_sv E)) view (rt_redis s3)"
    "\<forall>b. b \<noteq> vm_HostID vm \<longrightarrow> fl_vms (?at (rt_redis s3)) b i = None"
    using wf host by (simp_all add: s3(1))
  obtain b s4 where "Sync_Service.RemoveVM (en_sv E) i (vm_HostID vm) s3 = (Inr b, s4)" "runtime_wf (sv_store (en_sv E)) view (rt_redis s4)"
    "\<forall>a j. fl_vms (?at (rt_redis s4)) a j = (if j = i then None else fl_vms (?at (rt_redis s3)) a j)"
    using RemoveVM_leaves [OF laws start(1) host(1) start(2)] by blast
  then have final: "runtime_wf (sv_store (en_sv E)) view (rt_redis s')"
    "\<forall>a j. fl_vms (?at (rt_redis s')) a j = (if j = i then None else fl_vms (?at (rt_redis s)) a j)"
    unfolding s3(4) s3(1) [symmetric] by simp_all
  obtain vms where vms: "ListVMs (sv_store (en_sv E)) ''all'' [] [] (rt_redis s') = (Inr vms, rt_redis s')"
    "set vms = {m. \<exists>a i. fl_vms (?at (rt_redis s')) a i = Some m}"
    using ListVMs_run [OF laws final(1) [unfolded runtime_wf_def]] unfolding fleet_at_def by blast
  have "set vms = {m. \<exists>a j. j \<noteq> i \<and> fl_vms (?at (rt_redis s)) a j = Some m}"
    unfolding vms(2) final(2) [rule_format] by (auto split: if_splits)
  with vms(1) final s3(2,3) sync show ?thesis by (intro conjI) blast+
qed

definition fleet_store :: memory where
  "fleet_store = snd (SaveAgentRuntime memory_client ''a'' sample_host [(''a-1'', sample_vm)] [] True Map.empty)"

lemma fleet_store_ok: "runtime_wf memory_client view_memory fleet_store"
  "fl_vms (fleet_at memory_client view_memory fleet_store) = (\<lambda>_. Map.empty)(''a'' := [''a-1'' \<mapsto> sample_vm])"
proof -
  let ?w = "Save ''a'' sample_host [(''a-1'', sample_vm)] [] True"
  have "write_ok ?w (fleet_at memory_client view_memory Map.empty)" by (simp add: write_ok_def empty_store)
  from save_write [OF memory_laws empty_store(1) [unfolded runtime_wf_def] this [unfolded fleet_at_def]]
  have "runtime_wf memory_client view_memory fleet_store \<and>
    fleet_at memory_client view_memory fleet_store = snd (fleet_write ?w (fleet_at memory_client view_memory Map.empty))"
    unfolding fleet_store_def fleet_at_def runtime_wf_def by (metis snd_conv)
  then show "runtime_wf memory_client view_memory fleet_store"
    "fl_vms (fleet_at memory_client view_memory fleet_store) = (\<lambda>_. Map.empty)(''a'' := [''a-1'' \<mapsto> sample_vm])"
    by (simp_all add: fleet_write_def fleet_effect_def target_def empty_store)
qed

lemma fleet_store_vm: "GetVM memory_client ''a-1'' fleet_store = (Inr (Some sample_vm), fleet_store)"
proof -
  let ?s = "shelf_of (view_memory fleet_store)"
  have v: "fl_vms (fleet_of memory_client ?s) ''a'' ''a-1'' = Some sample_vm"
    using fleet_store_ok(2) unfolding fleet_at_def by simp
  then have o: "''a-1'' \<in> s_owned ?s ''a''" and "Option.bind (s_vm ?s ''a-1'') (dec_vm memory_client) = Some sample_vm"
    by (simp_all split: if_splits)
  with GetVM_run [where view = view_memory and r = fleet_store, OF memory_laws fleet_store_ok(1) [unfolded runtime_wf_def] o] show ?thesis by auto
qed

definition delete_state :: "memory rt" where
  "delete_state = (memory_rt (empty_db\<lparr>agents := [sealed_agent\<lparr>agent_id := ''a''\<rparr>]\<rparr>))\<lparr>rt_redis := fleet_store\<rparr>"

lemma delete_runs:
  "\<exists>t later s'. handleVMAction create_env test_request ''a-1'' ''delete'' delete_state = (Inr ((200, AVMTask sample_vm t), later), s')"
proof -
  have token: "usable_token create_env (sealed_agent\<lparr>agent_id := ''a''\<rparr>) = Some ''tok''" by code_simp
  have vm: "service_GetVM (en_sv create_env) ''a-1'' delete_state = (Inr (Some sample_vm), delete_state)"
    by (simp add: service_GetVM_def create_env_def test_env_def Sync_Properties.test_service_def attempt_def bindp_def on_redis_def delete_state_def
      fleet_store_vm applyTemplateMarkToVM_def sample_vm_def TrimSpace_def ret_def)
  have agent: "on_store (GetAgent ''a'') delete_state = (Inr (sealed_agent\<lparr>agent_id := ''a''\<rparr>), delete_state)"
    by (simp add: delete_state_def sealed_agent_def test_agent_def memory_rt_def empty_db_def GetAgent_def
      on_store_def lift_error_def on_db_run row_of_def query_no_fault bindp_def ret_def found_agent_def)
  have call: "client_RunVMAction (en_send create_env) cfg name action s = (Inr (), s)" for cfg name action s
    by (simp add: client_RunVMAction_def client_send_def create_env_def host_answers_def bindp_def ret_def)
  have "\<exists>t later s'. bindp (after_action create_env sample_vm ''a-1'' a ''tok'' ''delete'') (\<lambda>(shown, later).
      bindp (finished_task rq ty tt ti p) (\<lambda>t. bindp (audit rq action rt ri md) (\<lambda>_. respond_with later 200 (AVMTask shown t)))) s =
        (Inr ((200, AVMTask sample_vm t), later), s')" for a rq ty tt ti p action rt ri md s
    by (auto simp: after_action_def shouldRemoveVMAndDelayFullSyncAfterVMAction_def Let_def finished_task_def audit_def bindp_def ignore_def
      attempt_def ret_def respond_with_def split: prod.split sum.split)
  moreover have "mapVMAction ''delete'' = Some ''delete''" "vm_HostID sample_vm = ''a''" by (simp_all add: mapVMAction_def sample_vm_def)
  ultimately show ?thesis
    unfolding handleVMAction_def with_vm_def agent_and_token_def calling_def
    by (simp add: bindp_def vm agent token call attempt_def)
qed

lemma deleted_vm_leaves_fleet_witness:
  "\<exists>t later s'. handleVMAction create_env test_request ''a-1'' ''delete'' delete_state = (Inr ((200, AVMTask sample_vm t), later), s') \<and>
     ListVMs memory_client ''all'' [] [] (rt_redis s') = (Inr [], rt_redis s')"
proof -
  from delete_runs obtain t later s' where
    run: "handleVMAction create_env test_request ''a-1'' ''delete'' delete_state = (Inr ((200, AVMTask sample_vm t), later), s')" by blast
  have store: "sv_store (en_sv create_env) = memory_client" "rt_redis delete_state = fleet_store"
    by (simp_all add: create_env_def test_env_def Sync_Properties.test_service_def delete_state_def)
  have calls: "keeps_runtime R (en_send create_env meth url token insecure body)" for R meth url token insecure body
    by (simp add: create_env_def host_answers_def keeps_ret)
  have "vm_HostID sample_vm \<noteq> []"
    "\<forall>b. b \<noteq> vm_HostID sample_vm \<longrightarrow> fl_vms (fleet_at (sv_store (en_sv create_env)) view_memory (rt_redis delete_state)) b ''a-1'' = None"
    by (simp_all add: store fleet_store_ok sample_vm_def)
  from deleted_vm_leaves_fleet [where view = view_memory, OF run _ _ _ this calls] have
    "\<exists>vms. ListVMs memory_client ''all'' [] [] (rt_redis s') = (Inr vms, rt_redis s') \<and> vms = []"
    by (auto simp: store memory_laws fleet_store_ok split: if_splits)
  with run show ?thesis by blast
qed

end
