(* ===== verification/Fleet_Migration.thy ===== *)
theory Fleet_Migration
  imports Fleet_Router Fleet_Tasks
begin

text \<open>
  The check of a migration: its report is well formed, and a report that has passed says that every condition held
  on the answers of the two agents.
\<close>

section \<open>Reports\<close>

definition clean :: "migrationPrecheckReport \<Rightarrow> bool" where
  "clean r \<longleftrightarrow> mr_Passed r \<and> (\<forall>item\<in>set (mr_Items r). mi_Status item \<in> {''passed'', ''skipped''})"

text \<open>A report that has not passed ends with its one failure.\<close>

definition ends_failed :: "migrationPrecheckReport \<Rightarrow> bool" where
  "ends_failed r \<longleftrightarrow> \<not> mr_Passed r \<and> mr_Items r \<noteq> [] \<and>
     (\<forall>item\<in>set (butlast (mr_Items r)). mi_Status item \<in> {''passed'', ''skipped''}) \<and>
     (let item = last (mr_Items r) in mi_Status item = ''failed'' \<and> mi_Code item = mr_FailureCode r \<and> mi_Message item = mr_FailureMessage r)"

lemma clean_added [simp]:
  "clean r \<Longrightarrow> clean (addPassed key label message r)" "clean r \<Longrightarrow> clean (addSkipped key label message r)"
  by (auto simp: clean_def addPassed_def addSkipped_def add_item_def)

lemma clean_empty [simp]: "clean empty_report"
  by (simp add: clean_def empty_report_def)

lemma failed_report [simp]: "clean r \<Longrightarrow> ends_failed (withFailure r key label message status code)"
  by (simp add: clean_def ends_failed_def withFailure_def add_item_def)

definition well_reported :: "'r reporting \<Rightarrow> bool" where
  "well_reported m \<longleftrightarrow> (\<forall>s r s'. m s = (Inr r, s') \<longrightarrow> clean r \<or> ends_failed r)"

lemma well_ret: "clean r \<or> ends_failed r \<Longrightarrow> well_reported (ret r)"
  by (simp add: well_reported_def ret_def)

lemma well_bindp: "(\<And>x. well_reported (k x)) \<Longrightarrow> well_reported (bindp m k)"
  by (auto simp: well_reported_def elim!: bindp_InrE)

lemma well_inquire: "clean r \<Longrightarrow> (\<And>x. well_reported (k x)) \<Longrightarrow> well_reported (inquire m r key label prefix code k)"
  unfolding inquire_def by (auto intro!: well_bindp well_ret split: sum.split)

lemma well_require: "clean r \<Longrightarrow> (\<And>r'. clean r' \<Longrightarrow> well_reported (k r')) \<Longrightarrow> well_reported (require e r key label message code k)"
  unfolding require_def by (auto intro!: well_ret split: option.split)

lemma well_channel: "clean r \<Longrightarrow> well_reported (precheck_channel send cfg request r)"
  unfolding precheck_channel_def Let_def by (auto intro!: well_inquire well_ret)

lemma well_storage: "clean r \<Longrightarrow> well_reported (precheck_storage send cfg cfg' config request r)"
  unfolding precheck_storage_def Let_def
  by (auto intro!: well_inquire well_require well_bindp well_ret well_channel split: option.split)

lemma well_precheck: "well_reported (runVMMigrationPrecheck send cfg cfg' vm request)"
  unfolding runVMMigrationPrecheck_def precheck_target_def Let_def
  by (intro well_inquire well_require well_storage clean_empty) assumption+

section \<open>What a passed report says\<close>

definition gives :: "('s, 'e, 'a) prog \<Rightarrow> 'a \<Rightarrow> bool" where
  "gives m x \<longleftrightarrow> (\<exists>s s'. m s = (Inr x, s'))"

lemma failure_not_passed [simp]: "\<not> mr_Passed (withFailure r key label message status code)"
  by (simp add: withFailure_def add_item_def)

lemma inquireE:
  assumes "inquire m r key label prefix code k s = (Inr r', s')" "mr_Passed r'"
  obtains x s1 where "gives m x" "k x s1 = (Inr r', s')"
  using assms unfolding inquire_def gives_def
  by (auto simp: bindp_def attempt_def ret_def split: prod.splits sum.splits)

lemma requireE:
  assumes "require e r key label message code k s = (Inr r', s')" "mr_Passed r'"
  obtains r1 where "e = None" "k r1 s = (Inr r', s')"
  using assms unfolding require_def by (auto simp: ret_def split: option.splits)

definition target_suits :: "VirtualMachine \<Rightarrow> VMConfig \<Rightarrow> HostInfo \<Rightarrow> AgentVM list \<Rightarrow> NetworkPool list \<Rightarrow> bool" where
  "target_suits vm config info vms networks \<longleftrightarrow>
     validateMigrationTargetResources config info = None \<and> validateMigrationTargetCapabilities config info = None \<and>
     validateMigrationTargetVMName (vm_Name vm) vms = None \<and> validateMigrationNetworkPools (vc_Interfaces config) networks = None"

definition channel_open :: "'r rt http_transport \<Rightarrow> agent_config \<Rightarrow> VMMigrateRequest \<Rightarrow> bool" where
  "channel_open send source request \<longleftrightarrow>
    (if isQemuSSHMigrationURI (mg_DestinationURI request)
     then \<exists>result. gives (client_CheckMigrationConnection send source \<lparr>mcq_DestinationURI = mg_DestinationURI request, mcq_Live = mg_Live request\<rparr>) result
       \<and> mcr_OK result
     else \<not> mg_CopyDisks request)"

definition storage_suits :: "'r rt http_transport \<Rightarrow> agent_config \<Rightarrow> agent_config \<Rightarrow> VMConfig \<Rightarrow> VMMigrateRequest \<Rightarrow> bool" where
  "storage_suits send source dest config request \<longleftrightarrow>
    (if mg_CopyDisks request
     then \<exists>pools. gives (client_ListStoragePools send dest) pools \<and> validateMigrationCopyTargetPools (vc_Disks config) pools = None \<and>
       gives (precheckMigrationCopyTargetVolumes send dest (vc_Disks config) pools) None
     else \<exists>sourcePools pools. gives (client_ListStoragePools send source) sourcePools \<and> gives (client_ListStoragePools send dest) pools \<and>
       validateMigrationSharedStorage (vc_Disks config) sourcePools pools = None)"

lemma channel_passed:
  assumes "precheck_channel send source request r s = (Inr r', s')" "mr_Passed r'"
  shows "channel_open send source request"
proof (cases "isQemuSSHMigrationURI (mg_DestinationURI request)")
  case True
  with assms show ?thesis unfolding precheck_channel_def channel_open_def Let_def
    by (auto elim!: inquireE simp: ret_def split: if_splits)
next
  case False
  with assms show ?thesis unfolding precheck_channel_def channel_open_def Let_def
    by (auto simp: ret_def split: if_splits)
qed

lemma volumesE:
  assumes "(case e of Some message \<Rightarrow> ret (withFailure r key label message status code)
    | None \<Rightarrow> bindp m (\<lambda>found. case found of
          Some (status, code, message) \<Rightarrow> ret (withFailure r' key' label' message status code)
        | None \<Rightarrow> k)) s = (Inr rep, s')" "mr_Passed rep"
  obtains s1 where "e = None" "gives m None" "k s1 = (Inr rep, s')"
proof -
  from assms obtain s1 where "e = None" "m s = (Inr None, s1)" "k s1 = (Inr rep, s')"
    by (auto simp: ret_def elim!: bindp_InrE split: option.splits)
  then show thesis by (intro that) (auto simp: gives_def)
qed

lemma storage_passed:
  assumes "precheck_storage send source dest config request r s = (Inr r', s')" "mr_Passed r'"
  shows "storage_suits send source dest config request \<and> channel_open send source request"
proof (cases "mg_CopyDisks request")
  case True
  with assms show ?thesis unfolding precheck_storage_def storage_suits_def Let_def
    by (auto elim!: inquireE volumesE intro: channel_passed)
next
  case False
  with assms show ?thesis unfolding precheck_storage_def storage_suits_def Let_def
    by (auto elim!: inquireE requireE intro: channel_passed)
qed

text \<open>C22: the report of a migration check either has passed, with no failed item, or ends with its one failure, whose code
  and message it carries; and when it has passed then the machine runs exactly if the migration is live, the target
  has the processors, the memory, the capabilities and the networks of the machine, none of its machines has the name,
  its storage suits the way the disks go, and the channel between the hosts is open.\<close>

theorem precheck_report:
  assumes "runVMMigrationPrecheck send source dest vm request s = (Inr r, s')"
  shows "if mr_Passed r
    then clean r \<and> (\<exists>config info vms networks. gives (client_VMConfig send source (vm_Name vm)) config \<and>
       mg_Live request = EqualFold (vc_Status config) ''running'' \<and>
       gives (client_HostInfo send dest) info \<and> gives (client_ListVMsFast send dest) vms \<and> gives (client_ListNetworkPools send dest) networks \<and>
       target_suits vm config info vms networks \<and> storage_suits send source dest config request \<and> channel_open send source request)
    else ends_failed r"
proof -
  have form: "clean r \<or> ends_failed r" using well_precheck assms unfolding well_reported_def by blast
  show ?thesis
  proof (cases "mr_Passed r")
    case True
    from assms obtain config s1 where c: "gives (client_VMConfig send source (vm_Name vm)) config"
      and live: "mg_Live request = EqualFold (vc_Status config) ''running''"
      and rest: "\<exists>r0. precheck_target send source dest vm config request r0 s1 = (Inr r, s')"
      unfolding runVMMigrationPrecheck_def Let_def
      by (elim inquireE [OF _ True] requireE [OF _ True]) (auto split: if_splits)
    from rest obtain info vms networks r1 s2 where
      "gives (client_HostInfo send dest) info" "gives (client_ListVMsFast send dest) vms" "gives (client_ListNetworkPools send dest) networks"
      "target_suits vm config info vms networks" and last: "precheck_storage send source dest config request r1 s2 = (Inr r, s')"
      unfolding precheck_target_def target_suits_def
      by (elim exE inquireE [OF _ True] requireE [OF _ True]) blast
    with c live storage_passed [OF last True] True form show ?thesis by (auto simp: ends_failed_def)
  next
    case False
    with form show ?thesis by (auto simp: clean_def)
  qed
qed

definition moving_config :: VMConfig where
  "moving_config = \<lparr>vc_Name = ''web'', vc_UUID = ''u1'', vc_OSType = ''hvm'', vc_Status = ''running'', vc_Description = [],
     vc_Autostart = False, vc_CurrentCPU = 2, vc_MaximumCPU = 4, vc_HostCPU = 4, vc_Arch = ''x86_64'', vc_CurrentMemoryBytes = 512,
     vc_MaximumMemoryBytes = 1024, vc_HostMemoryBytes = 1024, vc_MemoryStatsPeriod = 0, vc_Disks = [], vc_Interfaces = [], vc_CDROMs = [],
     vc_Graphics = \<lparr>cg_Type = ''vnc'', cg_Listen = [], cg_Port = [], cg_PasswordEnabled = False\<rparr>, vc_XML = []\<rparr>"

text \<open>Both hosts answer alike: the machine runs on the first, and the second has the room and no machine of the name.\<close>

definition two_hosts :: "memory rt http_transport" where
  "two_hosts meth url token insecure body = ret \<lparr>ans_status = 200, ans_text = ''200 OK'', ans_body = Some (
     let page = rev (takeWhile (\<lambda>c. c \<noteq> CHR ''/'') (rev url)) in
     if page = ''config'' then RConfig moving_config
     else if page = ''host'' then RHost (test_info\<lparr>hi_Capabilities := [''vm.list'']\<rparr>)
     else if page = ''network-pools'' then RNetworks []
     else if page = ''storage-pools'' then RPools [] else RVMs [])\<rparr>"

lemma two_hosts_answers:
  "client_VMConfig two_hosts cfg name s = (Inr moving_config, s)"
  "client_HostInfo two_hosts cfg s = (Inr (test_info\<lparr>hi_Capabilities := [''vm.list'']\<rparr>), s)"
  "client_ListVMsFast two_hosts cfg s = (Inr [], s)"
  "client_ListNetworkPools two_hosts cfg s = (Inr [], s)"
  "client_ListStoragePools two_hosts cfg s = (Inr [], s)"
proof -
  have "QueryEscape ''fast'' = ''fast''" by code_simp
  then show
    "client_VMConfig two_hosts cfg name s = (Inr moving_config, s)"
    "client_HostInfo two_hosts cfg s = (Inr (test_info\<lparr>hi_Capabilities := [''vm.list'']\<rparr>), s)"
    "client_ListVMsFast two_hosts cfg s = (Inr [], s)"
    "client_ListNetworkPools two_hosts cfg s = (Inr [], s)"
    "client_ListStoragePools two_hosts cfg s = (Inr [], s)"
    by (simp_all add: client_VMConfig_def client_HostInfo_def client_ListVMsFast_def client_listVMs_def client_ListNetworkPools_def
      client_ListStoragePools_def client_do_def bindp_def ret_def two_hosts_def target_defs)
qed

lemma two_hosts_passes:
  "validateMigrationTargetResources moving_config (test_info\<lparr>hi_Capabilities := [''vm.list'']\<rparr>) = None"
  "validateMigrationTargetCapabilities moving_config (test_info\<lparr>hi_Capabilities := [''vm.list'']\<rparr>) = None"
  "validateMigrationTargetVMName ''web'' [] = None" "EqualFold (vc_Status moving_config) ''running''"
  "isQemuSSHMigrationURI ''qemu+tcp://b/system'' = False"
  "validateMigrationNetworkPools (vc_Interfaces moving_config) [] = None" "validateMigrationSharedStorage (vc_Disks moving_config) [] [] = None"
  by code_simp+

lemma two_hosts_report:
  assumes "vm_Name vm = ''web''" "mg_Live request" "\<not> mg_CopyDisks request" "mg_DestinationURI request = ''qemu+tcp://b/system''"
  shows "\<exists>r. runVMMigrationPrecheck two_hosts source dest vm request s = (Inr r, s) \<and> mr_Passed r"
  using assms
  by (simp add: runVMMigrationPrecheck_def precheck_target_def precheck_storage_def precheck_channel_def inquire_def require_def bindp_def
    attempt_def two_hosts_answers two_hosts_passes Let_def ret_def addPassed_def addSkipped_def add_item_def empty_report_def)

lemma precheck_report_witness:
  "\<exists>r s'. runVMMigrationPrecheck two_hosts (config_of test_agent ''t'') (config_of test_agent ''t'') (build_vm test_agent test_info 900 test_vm)
     (move_request\<lparr>mg_DestinationURI := ''qemu+tcp://b/system''\<rparr>) (memory_rt refresh_db) = (Inr r, s') \<and> clean r"
proof -
  let ?vm = "build_vm test_agent test_info 900 test_vm" and ?request = "move_request\<lparr>mg_DestinationURI := ''qemu+tcp://b/system''\<rparr>"
  have "vm_Name ?vm = ''web''" "mg_Live ?request" "\<not> mg_CopyDisks ?request" "mg_DestinationURI ?request = ''qemu+tcp://b/system''"
    by (simp_all add: build_vm_def test_vm_def move_request_def)
  from two_hosts_report [OF this] obtain r where
    run: "runVMMigrationPrecheck two_hosts (config_of test_agent ''t'') (config_of test_agent ''t'') ?vm ?request (memory_rt refresh_db) =
      (Inr r, memory_rt refresh_db)" "mr_Passed r" by blast
  from precheck_report [OF run(1)] run(2) have "clean r" by simp
  with run(1) show ?thesis by blast
qed

end
