(* ===== verification/Notice_Templates.thy ===== *)
theory Notice_Templates
  imports Alert_Service Go_Url
begin

text \<open>
  The texts of notifications (\<open>internal/service/notification/templates.go\<close>): templates with tokens, the values of
  an alert, and the preview. \<open>local_time\<close> is the format of an instant in the zone of the server (an argument),
  \<open>decode\<close> the decoder of JSON, into an object or null (an argument).
\<close>

section \<open>Errors\<close>

text \<open>An error is its text and what \<open>errors.Is\<close> and \<open>errors.As\<close> find in it.\<close>

datatype failure_kind = OtherFailure | ContextCanceled | DeadlineExceeded | NetTimeout

datatype notice_error = NoticeError (ne_text: string) (ne_kind: failure_kind)

definition Errorf :: "string \<Rightarrow> notice_error" where
  "Errorf s = NoticeError s OtherFailure"

definition wrap_error :: "string \<Rightarrow> notice_error \<Rightarrow> notice_error" where
  "wrap_error prefix e = NoticeError (prefix @ ne_text e) (ne_kind e)"

definition notice_UserFacingErrorMessage :: "notice_error \<Rightarrow> string" where
  "notice_UserFacingErrorMessage e =
    (let message = ne_text e in
     if HasPrefix message (zh ''e9809ae79fa5'') \<or> HasPrefix message ''Webhook'' \<or> HasPrefix message ''SMTP''
       \<or> HasPrefix message (zh ''e69cbae599a8e4baba'') \<or> HasPrefix message (zh ''e4b88de694afe68c81e79a84e9809ae79fa5e5aa92e4bb8b'') then message
     else (case ne_kind e of
         ContextCanceled \<Rightarrow> zh ''e9809ae79fa5e58f91e98081e5b7b2e58f96e6b688''
       | DeadlineExceeded \<Rightarrow> zh ''e9809ae79fa5e58f91e98081e8b685e697b6''
       | NetTimeout \<Rightarrow> zh ''e9809ae79fa5e58f91e98081e8b685e697b6''
       | OtherFailure \<Rightarrow> zh ''e9809ae79fa5e58f91e98081e5a4b1e8b4a5''))"

section \<open>Settings of the templates\<close>

record templateConfig =
  tc_ProblemTemplate :: string
  tc_RecoveryTemplate :: string
  tc_ProblemSubjectTemplate :: string
  tc_RecoverySubjectTemplate :: string
  tc_LarkProblemTitleTemplate :: string
  tc_LarkRecoveryTitleTemplate :: string
  tc_LarkProblemCardTemplate :: string
  tc_LarkRecoveryCardTemplate :: string
  tc_EmailContentType :: string
  tc_LarkMessageType :: string
  tc_WechatMessageType :: string
  tc_DingTalkMessageType :: string
  tc_SendRecovery :: bool
  tc_WebhookProblemPayload :: string
  tc_WebhookRecoveryPayload :: string

text \<open>A member of the wrong type is left out; the error of the decoder is dropped.\<close>

definition notificationTemplateConfig :: "members \<Rightarrow> templateConfig" where
  "notificationTemplateConfig m = \<lparr>
     tc_ProblemTemplate = text_field m ''problemTemplate'',
     tc_RecoveryTemplate = text_field m ''recoveryTemplate'',
     tc_ProblemSubjectTemplate = text_field m ''problemSubjectTemplate'',
     tc_RecoverySubjectTemplate = text_field m ''recoverySubjectTemplate'',
     tc_LarkProblemTitleTemplate = text_field m ''larkProblemTitleTemplate'',
     tc_LarkRecoveryTitleTemplate = text_field m ''larkRecoveryTitleTemplate'',
     tc_LarkProblemCardTemplate = text_field m ''larkProblemCardTemplate'',
     tc_LarkRecoveryCardTemplate = text_field m ''larkRecoveryCardTemplate'',
     tc_EmailContentType = text_field m ''emailContentType'',
     tc_LarkMessageType = text_field m ''larkMessageType'',
     tc_WechatMessageType = text_field m ''wechatMessageType'',
     tc_DingTalkMessageType = text_field m ''dingtalkMessageType'',
     tc_SendRecovery = bool_field m ''sendRecovery'',
     tc_WebhookProblemPayload = text_field m ''webhookProblemPayload'',
     tc_WebhookRecoveryPayload = text_field m ''webhookRecoveryPayload''\<rparr>"

section \<open>Values of an alert\<close>

text \<open>An event is its type and its alert. The zero time of Go is the first instant of the year 1.\<close>

type_synonym notice_event = "string \<times> alert"

definition eventStatusText :: "string \<Rightarrow> string" where
  "eventStatusText eventType = (if eventType = ''recovery'' then zh ''e681a2e5a48d'' else zh ''e5918ae8ada6'')"

definition alertLevelText :: "string \<Rightarrow> string" where
  "alertLevelText level =
    (if level = ''critical'' then zh ''e4b8a5e9878d'' else if level = ''warning'' then zh ''e8ada6e5918a''
     else if level = ''info'' then zh ''e4bfa1e681af'' else level)"

definition formatTemplateTime :: "(int \<Rightarrow> string) \<Rightarrow> int \<Rightarrow> string" where
  "formatTemplateTime local_time t = (if t = - 62135596800 then [] else local_time t)"

definition formatOptionalTemplateTime :: "(int \<Rightarrow> string) \<Rightarrow> int option \<Rightarrow> string" where
  "formatOptionalTemplateTime local_time t = (case t of None \<Rightarrow> [] | Some x \<Rightarrow> formatTemplateTime local_time x)"

definition alertDuration :: "alert \<Rightarrow> string" where
  "alertDuration a = (case alert_resolved_at a of
      None \<Rightarrow> []
    | Some resolvedAt \<Rightarrow>
       (let duration = resolvedAt - alert_first_seen_at a in
        if duration < 0 then []
        else if duration < 60 then Itoa duration @ zh ''e7a792''
        else if duration < 3600 then Itoa (duration div 60) @ zh ''e58886e9929f''
        else if duration < 86400 then
          Itoa (duration div 3600) @ zh ''e5b08fe697b6'' @ Itoa (duration div 60 mod 60) @ zh ''e58886e9929f''
        else Itoa (duration div 3600 div 24) @ zh ''e5a4a9'' @ Itoa (duration div 3600 mod 24) @ zh ''e5b08fe697b6''))"

text \<open>The values that the metadata has here: numbers are whole and below \<open>2 ^ 53\<close>, so \<open>%v\<close> writes their digits.\<close>

definition stringifyTemplateValue :: "json \<Rightarrow> string" where
  "stringifyTemplateValue v = (case v of
      JStr s \<Rightarrow> s | JInt n \<Rightarrow> Itoa n | JBool b \<Rightarrow> (if b then ''true'' else ''false''))"

definition alertTemplateValues :: "(int \<Rightarrow> string) \<Rightarrow> notice_event \<Rightarrow> string \<Rightarrow> string" where
  "alertTemplateValues local_time event key =
    (let (eventType, a) = event in
     if HasPrefix key ''metadata.'' then
       (case alert_metadata a (TrimPrefix key ''metadata.'') of None \<Rightarrow> [] | Some v \<Rightarrow> stringifyTemplateValue v)
     else (case map_of [
         (''event.type'', eventType), (''event.statusText'', eventStatusText eventType),
         (''alert.id'', alert_id a), (''alert.level'', alert_level a),
         (''alert.levelText'', alertLevelText (alert_level a)), (''alert.status'', alert_status a),
         (''alert.title'', alert_title a), (''alert.message'', alert_message a),
         (''alert.sourceType'', alert_source_type a), (''alert.sourceId'', alert_source_id a),
         (''alert.firstSeenAt'', formatTemplateTime local_time (alert_first_seen_at a)),
         (''alert.lastSeenAt'', formatTemplateTime local_time (alert_last_seen_at a)),
         (''alert.resolvedAt'', formatOptionalTemplateTime local_time (alert_resolved_at a)),
         (''alert.duration'', alertDuration a)] key of
       None \<Rightarrow> [] | Some v \<Rightarrow> v))"

section \<open>Rendering\<close>

text \<open>
  \<open>templateTokenPattern\<close>: two braces, a name between optional blanks, two braces. The classes of blanks, names and
  braces have no character in common, so a match is the longest run of each.
\<close>

definition blank_char :: "char \<Rightarrow> bool" where
  "blank_char c \<longleftrightarrow> c \<in> set [CHR 0x20, CHR 0x09, CHR 0x0A, CHR 0x0C, CHR 0x0D]"

definition token_char :: "char \<Rightarrow> bool" where
  "token_char c \<longleftrightarrow> letter c \<or> digit c \<or> c \<in> set ''_.-''"

definition template_token :: "string \<Rightarrow> (string \<times> string) option" where
  "template_token s =
    (if HasPrefix s ''{{'' then
       (let r = dropWhile blank_char (drop 2 s); name = takeWhile token_char r;
            close = dropWhile blank_char (dropWhile token_char r) in
        if name \<noteq> [] \<and> HasPrefix close ''}}'' then Some (name, drop 2 close) else None)
     else None)"

lemma template_token_shorter: "template_token s = Some (name, r) \<Longrightarrow> length r < length s"
proof -
  assume "template_token s = Some (name, r)"
  then have "length r \<le> length (drop 2 s)" "s \<noteq> []"
    using length_dropWhile_le [of blank_char "drop 2 s"]
      length_dropWhile_le [of token_char "dropWhile blank_char (drop 2 s)"]
      length_dropWhile_le [of blank_char "dropWhile token_char (dropWhile blank_char (drop 2 s))"]
    by (auto simp: template_token_def Let_def split: if_splits)
  then show ?thesis by (cases s) auto
qed

function render_template :: "(string \<Rightarrow> string) \<Rightarrow> string \<Rightarrow> string" where
  "render_template values s = (case template_token s of
      Some (name, r) \<Rightarrow> values name @ render_template values r
    | None \<Rightarrow> (case s of [] \<Rightarrow> [] | c # t \<Rightarrow> c # render_template values t))"
  by pat_completeness auto
termination
  by (relation "measure (\<lambda>(values, s). length s)") (auto dest: template_token_shorter)

declare render_template.simps [simp del]

definition renderAlertTemplate :: "(int \<Rightarrow> string) \<Rightarrow> string \<Rightarrow> notice_event \<Rightarrow> string" where
  "renderAlertTemplate local_time template event = render_template (alertTemplateValues local_time event) template"

section \<open>The texts of an event\<close>

definition newline :: string where "newline = [CHR 0x0A]"

definition defaultProblemTemplate :: string where
  "defaultProblemTemplate = ''[{{alert.level}}] {{alert.title}}'' @ newline @ ''{{alert.message}}'' @ newline
     @ (zh ''e69da5e6ba90efbc9a'') @ ''{{alert.sourceType}}/{{alert.sourceId}}''"

definition defaultRecoveryTemplate :: string where
  "defaultRecoveryTemplate = (zh ''5be681a2e5a48d5d20'') @ ''{{alert.title}}'' @ newline @ ''{{alert.message}}'' @ newline
     @ (zh ''e69da5e6ba90efbc9a'') @ ''{{alert.sourceType}}/{{alert.sourceId}}'' @ newline
     @ (zh ''e681a2e5a48de697b6e997b4efbc9a'') @ ''{{alert.resolvedAt}}'' @ newline @ (zh ''e68c81e7bbade697b6e997b4efbc9a'') @ ''{{alert.duration}}''"

definition defaultProblemSubjectTemplate :: string where
  "defaultProblemSubjectTemplate = ''{{alert.title}}''"

definition defaultRecoverySubjectTemplate :: string where
  "defaultRecoverySubjectTemplate = (zh ''e681a2e5a48defbc9a'') @ ''{{alert.title}}''"

definition defaultWebhookProblemPayload :: string where
  "defaultWebhookProblemPayload =
     ''{\"id\":\"{{alert.id}}\",\"eventType\":\"{{event.type}}\",\"level\":\"{{alert.level}}\",''
   @ ''\"title\":\"{{alert.title}}\",\"message\":\"{{alert.message}}\",\"sourceType\":\"{{alert.sourceType}}\",''
   @ ''\"sourceId\":\"{{alert.sourceId}}\",\"lastSeenAt\":\"{{alert.lastSeenAt}}\"}''"

definition defaultWebhookRecoveryPayload :: string where
  "defaultWebhookRecoveryPayload =
     ''{\"id\":\"{{alert.id}}\",\"eventType\":\"{{event.type}}\",\"level\":\"{{alert.level}}\",''
   @ ''\"title\":\"{{alert.title}}\",\"message\":\"{{alert.message}}\",\"sourceType\":\"{{alert.sourceType}}\",''
   @ ''\"sourceId\":\"{{alert.sourceId}}\",\"lastSeenAt\":\"{{alert.lastSeenAt}}\",''
   @ ''\"resolvedAt\":\"{{alert.resolvedAt}}\",\"duration\":\"{{alert.duration}}\"}''"

text \<open>The template for an event: the one for its type, or the default when it is blank.\<close>

definition chosen_template :: "string \<Rightarrow> string \<Rightarrow> string \<Rightarrow> string \<Rightarrow> string \<Rightarrow> string" where
  "chosen_template eventType problem recovery defaultProblem defaultRecovery =
    (let template = TrimSpace (if eventType = ''recovery'' then recovery else problem) in
     if template = [] then (if eventType = ''recovery'' then defaultRecovery else defaultProblem) else template)"

definition alertText :: "(int \<Rightarrow> string) \<Rightarrow> notice_event \<Rightarrow> templateConfig \<Rightarrow> string" where
  "alertText local_time event cfg = renderAlertTemplate local_time
     (chosen_template (fst event) (tc_ProblemTemplate cfg) (tc_RecoveryTemplate cfg)
        defaultProblemTemplate defaultRecoveryTemplate) event"

definition alertSubject :: "(int \<Rightarrow> string) \<Rightarrow> notice_event \<Rightarrow> templateConfig \<Rightarrow> string" where
  "alertSubject local_time event cfg = renderAlertTemplate local_time
     (chosen_template (fst event) (tc_ProblemSubjectTemplate cfg) (tc_RecoverySubjectTemplate cfg)
        defaultProblemSubjectTemplate defaultRecoverySubjectTemplate) event"

text \<open>The decoder reads an object or null, or gives its error.\<close>

type_synonym json_decoder = "string \<Rightarrow> notice_error + jvalue"

definition alertWebhookPayload ::
  "(int \<Rightarrow> string) \<Rightarrow> json_decoder \<Rightarrow> notice_event \<Rightarrow> templateConfig \<Rightarrow> notice_error + jvalue" where
  "alertWebhookPayload local_time decode event cfg =
    (let rendered = renderAlertTemplate local_time
        (chosen_template (fst event) (tc_WebhookProblemPayload cfg) (tc_WebhookRecoveryPayload cfg)
           defaultWebhookProblemPayload defaultWebhookRecoveryPayload) event in
     (case decode rendered of
        Inl e \<Rightarrow> Inl (wrap_error (zh ''576562686f6f6b204a534f4e20e6a8a1e69dbfe6b8b2e69f93e7bb93e69e9ce4b88de698afe69c89e69588204a534f4eefbc9a'') e)
      | Inr payload \<Rightarrow> Inr payload))"

section \<open>Validation and preview\<close>

definition template_test_alert :: "int \<Rightarrow> alert" where
  "template_test_alert t = \<lparr>alert_id = ''test'', alert_level = ''warning'', alert_status = ''active'',
     alert_source_type = ''system'', alert_source_id = ''template-test'', alert_title = zh ''e6a8a1e69dbfe6b58be8af95e5918ae8ada6'',
     alert_message = zh ''e8bf99e698afe4b880e69da1e6a8a1e69dbfe6b58be8af95e6b688e681af'',
     alert_metadata = [''agent'' \<mapsto> JStr (zh ''e6b58be8af95e88a82e782b9''), ''metric'' \<mapsto> JStr ''cpu'', ''value'' \<mapsto> JInt 90, ''limit'' \<mapsto> JInt 85],
     alert_first_seen_at = t - 600, alert_last_seen_at = t, alert_resolved_at = None,
     alert_notification_sent_at = None, alert_read_at = None, alert_dismissed_at = None,
     alert_created_at = - 62135596800, alert_updated_at = - 62135596800\<rparr>"

definition ValidateTemplateConfig :: "(int \<Rightarrow> string) \<Rightarrow> json_decoder \<Rightarrow> int \<Rightarrow> members \<Rightarrow> notice_error option" where
  "ValidateTemplateConfig local_time decode t data =
    (let cfg = notificationTemplateConfig data; testAlert = template_test_alert t;
         resolved = testAlert\<lparr>alert_status := ''resolved'', alert_resolved_at := Some t\<rparr>;
         check = (\<lambda>payload event. if TrimSpace payload = [] then None
           else (case alertWebhookPayload local_time decode event cfg of Inl e \<Rightarrow> Some e | Inr _ \<Rightarrow> None)) in
     (case check (tc_WebhookProblemPayload cfg) (''problem'', testAlert) of
        Some e \<Rightarrow> Some e
      | None \<Rightarrow> check (tc_WebhookRecoveryPayload cfg) (''recovery'', resolved)))"

text \<open>
  \<open>first_seen\<close> is 2026-06-06 09:30 in the zone of the server; the alert is seen again after 15 minutes and resolved
  after 35.
\<close>

definition templatePreviewAlerts :: "int \<Rightarrow> alert \<times> alert" where
  "templatePreviewAlerts first_seen =
    (let a = \<lparr>alert_id = ''preview-alert'', alert_level = ''warning'', alert_status = ''active'',
       alert_source_type = ''virtual_machine'', alert_source_id = ''vm-demo:cpu'',
       alert_title = zh ''e8999ae68b9fe69cba435055e4bdbfe794a8e78e87e8bf87e9ab98'', alert_message = zh ''e8999ae68b9fe69cba2064656d6f2043505520e4bdbfe794a8e78e87e8bebee588b020393025'',
       alert_metadata = [''agent'' \<mapsto> JStr ''node-a'', ''vm'' \<mapsto> JStr ''demo'', ''vmIp'' \<mapsto> JStr ''192.168.1.106'',
         ''vmDescription'' \<mapsto> JStr ''demo'', ''metric'' \<mapsto> JStr ''cpu'', ''value'' \<mapsto> JInt 90, ''limit'' \<mapsto> JInt 85,
         ''consecutive'' \<mapsto> JInt 3],
       alert_first_seen_at = first_seen, alert_last_seen_at = first_seen + 15 * 60, alert_resolved_at = None,
       alert_notification_sent_at = None, alert_read_at = None, alert_dismissed_at = None,
       alert_created_at = - 62135596800, alert_updated_at = - 62135596800\<rparr> in
     (a, a\<lparr>alert_status := ''resolved'', alert_resolved_at := Some (first_seen + 35 * 60)\<rparr>))"

text \<open>The kinds of messages (\<open>service.go\<close>).\<close>

definition emailContentType :: "templateConfig \<Rightarrow> string" where
  "emailContentType cfg =
    (if EqualFold (TrimSpace (tc_EmailContentType cfg)) ''text/html'' then ''text/html'' else ''text/plain'')"

definition larkMessageType :: "templateConfig \<Rightarrow> string" where
  "larkMessageType cfg = (let kind = ToLower (TrimSpace (tc_LarkMessageType cfg)) in
     if kind = ''post'' \<or> kind = ''interactive'' then kind else ''text'')"

definition IsLarkCardTemplate :: "string \<Rightarrow> bool" where
  "IsLarkCardTemplate v \<longleftrightarrow> ToLower (TrimSpace v) \<in> set [''red'', ''green'', ''blue'', ''orange'', ''yellow'',
     ''purple'', ''wathet'', ''turquoise'', ''indigo'', ''grey'']"

definition wechatMessageType :: "templateConfig \<Rightarrow> string" where
  "wechatMessageType cfg =
    (if EqualFold (TrimSpace (tc_WechatMessageType cfg)) ''markdown'' then ''markdown'' else ''text'')"

definition dingTalkMessageType :: "templateConfig \<Rightarrow> string" where
  "dingTalkMessageType cfg =
    (if EqualFold (TrimSpace (tc_DingTalkMessageType cfg)) ''markdown'' then ''markdown'' else ''text'')"

definition larkTitle :: "(int \<Rightarrow> string) \<Rightarrow> notice_event \<Rightarrow> templateConfig \<Rightarrow> string" where
  "larkTitle local_time event cfg =
    (let template = TrimSpace (if fst event = ''recovery'' then tc_LarkRecoveryTitleTemplate cfg
        else tc_LarkProblemTitleTemplate cfg) in
     if template = [] then alertSubject local_time event cfg else renderAlertTemplate local_time template event)"

definition larkCardTemplate :: "notice_event \<Rightarrow> templateConfig \<Rightarrow> string" where
  "larkCardTemplate event cfg =
    (let template = TrimSpace (if fst event = ''recovery'' then tc_LarkRecoveryCardTemplate cfg
        else tc_LarkProblemCardTemplate cfg) in
     if IsLarkCardTemplate template then template
     else if fst event = ''recovery'' then ''green'' else ''red'')"

record TemplatePreview =
  tp_ProblemSubject :: string
  tp_ProblemText :: string
  tp_ProblemWebhook :: "jvalue option"
  tp_RecoverySubject :: string
  tp_RecoveryText :: string
  tp_RecoveryWebhook :: "jvalue option"
  tp_ContentType :: string
  tp_MessageType :: string
  tp_ProblemTitle :: string
  tp_RecoveryTitle :: string
  tp_ProblemColor :: string
  tp_RecoveryColor :: string

definition PreviewTemplateConfig ::
  "(int \<Rightarrow> string) \<Rightarrow> json_decoder \<Rightarrow> int \<Rightarrow> string \<Rightarrow> members \<Rightarrow> notice_error + TemplatePreview" where
  "PreviewTemplateConfig local_time decode first_seen channelID data =
    (let cfg = notificationTemplateConfig data; (problemAlert, recoveryAlert) = templatePreviewAlerts first_seen;
         problem = (''problem'', problemAlert); recovery = (''recovery'', recoveryAlert);
         preview = \<lparr>tp_ProblemSubject = alertSubject local_time problem cfg,
           tp_ProblemText = alertText local_time problem cfg, tp_ProblemWebhook = None,
           tp_RecoverySubject = alertSubject local_time recovery cfg,
           tp_RecoveryText = alertText local_time recovery cfg, tp_RecoveryWebhook = None,
           tp_ContentType = [], tp_MessageType = [], tp_ProblemTitle = [], tp_RecoveryTitle = [],
           tp_ProblemColor = [], tp_RecoveryColor = []\<rparr> in
     if channelID = ''email'' then Inr (preview\<lparr>tp_ContentType := emailContentType cfg\<rparr>)
     else if channelID = ''lark'' \<or> channelID = ''lark_app'' then
       (let kind = larkMessageType cfg; preview = preview\<lparr>tp_MessageType := kind\<rparr>;
            preview = (if kind = ''post'' \<or> kind = ''interactive''
              then preview\<lparr>tp_ProblemTitle := larkTitle local_time problem cfg,
                tp_RecoveryTitle := larkTitle local_time recovery cfg\<rparr> else preview);
            preview = (if kind = ''interactive''
              then preview\<lparr>tp_ProblemColor := larkCardTemplate problem cfg,
                tp_RecoveryColor := larkCardTemplate recovery cfg\<rparr> else preview) in
        Inr preview)
     else if channelID = ''wechat'' \<or> channelID = ''wechat_app'' then
       Inr (preview\<lparr>tp_MessageType := wechatMessageType cfg\<rparr>)
     else if channelID = ''dingtalk'' \<or> channelID = ''dingtalk_app'' then
       Inr (preview\<lparr>tp_MessageType := dingTalkMessageType cfg\<rparr>)
     else if channelID = ''webhook'' then
       (case alertWebhookPayload local_time decode problem cfg of
          Inl e \<Rightarrow> Inl e
        | Inr payload \<Rightarrow>
           (case alertWebhookPayload local_time decode recovery cfg of
              Inl e \<Rightarrow> Inl e
            | Inr payload' \<Rightarrow>
                Inr (preview\<lparr>tp_ProblemWebhook := Some payload, tp_RecoveryWebhook := Some payload'\<rparr>)))
     else Inr preview)"

end
