(* ===== verification/Notice_Channels.thy ===== *)
theory Notice_Channels
  imports Notice_Templates
begin

text \<open>
  The delivery of notifications (\<open>internal/service/notification/service.go\<close>, \<open>app_notifications.go\<close>): what each
  channel sends for an alert and for a reset code, the requests in their order, and the errors. The network is an
  argument: what it answers to an event may depend on the events before it. The state of a program is the list of
  the events so far.
\<close>

section \<open>The network\<close>

text \<open>A request of \<open>http.Client\<close> with its time limit in seconds, its headers, and the JSON value it carries.\<close>

record http_call =
  hc_Timeout :: int
  hc_Method :: string
  hc_URL :: string
  hc_Headers :: "(string \<times> string) list"
  hc_Payload :: "jvalue option"

datatype smtp_auth = PlainAuth string string string | PlainInsecureAuth string

datatype smtp_step =
    SmtpDial string int
  | SmtpHandshake string
  | SmtpNewClient string
  | SmtpExtension string
  | SmtpStartTLS string
  | SmtpAuth smtp_auth
  | SmtpMail string
  | SmtpRcpt string
  | SmtpData
  | SmtpWrite string
  | SmtpCloseData
  | SmtpQuit
  | SmtpClose

datatype net_event = HttpDo http_call | Smtp smtp_step

text \<open>The body of an answer: blank, no JSON or of another type, or an object (null decodes as the empty one).\<close>

datatype reply_body = Blank | Garbled notice_error | Decoded members

text \<open>An error, an HTTP answer with its status and the text of the status, or the success of an SMTP step.\<close>

datatype net_answer = Refused notice_error | HttpReply int string reply_body | Completed bool

type_synonym wire = "net_event list \<Rightarrow> net_event \<Rightarrow> net_answer"

type_synonym 'a net_prog = "(net_event list, notice_error, 'a) prog"

definition perform :: "wire \<Rightarrow> net_event \<Rightarrow> net_answer net_prog" where
  "perform w e past = ((case w past e of Refused err \<Rightarrow> Inl err | answer \<Rightarrow> Inr answer), past @ [e])"

definition smtp_step :: "wire \<Rightarrow> smtp_step \<Rightarrow> unit net_prog" where
  "smtp_step w s = bindp (perform w (Smtp s)) (\<lambda>_. ret ())"

text \<open>
  What the service relies on: the network, the instant in milliseconds, the formats of an instant, the encoder and
  the decoder of JSON, HMAC-SHA256, and \<open>mail.Address.String\<close>. \<open>ns_Timeout\<close> is \<open>alertHTTPTimeout\<close> in seconds,
  0 where it is not set.
\<close>

record notice_env =
  ns_wire :: wire
  ns_now :: int
  ns_local_time :: "int \<Rightarrow> string"
  ns_rfc3339 :: "int \<Rightarrow> string"
  ns_marshal :: "jvalue \<Rightarrow> string"
  ns_decode :: json_decoder
  ns_hmac :: "string \<Rightarrow> string \<Rightarrow> string"
  ns_mail_address :: "string \<Rightarrow> string \<Rightarrow> string"
  ns_Timeout :: int

definition client_timeout :: "notice_env \<Rightarrow> int" where
  "client_timeout E = (if ns_Timeout E \<le> 0 then 8 else ns_Timeout E)"

text \<open>\<open>strings.ToUpper\<close>, as \<open>ToLower\<close> for ASCII.\<close>

definition upper_char :: "char \<Rightarrow> char" where
  "upper_char c = (if 97 \<le> (of_char c :: nat) \<and> (of_char c :: nat) \<le> 122
     then char_of (of_char c - 32 :: nat) else c)"

definition ToUpper :: "string \<Rightarrow> string" where
  "ToUpper s = map upper_char s"

section \<open>Requests\<close>

text \<open>\<open>http.NewRequestWithContext\<close> refuses an address that does not parse.\<close>

definition new_request :: "string \<Rightarrow> unit net_prog" where
  "new_request address = (case url_Parse address of None \<Rightarrow> fail (Errorf ''parse'') | Some _ \<Rightarrow> ret ())"

definition set_header :: "string \<times> string \<Rightarrow> (string \<times> string) list \<Rightarrow> (string \<times> string) list" where
  "set_header h hs = filter (\<lambda>q. \<not> EqualFold (fst q) (fst h)) hs @ [h]"

text \<open>The headers of the configuration come after the one of the content; blank names are left out.\<close>

definition json_headers :: "(string \<times> string) list \<Rightarrow> (string \<times> string) list" where
  "json_headers headers = fold set_header (filter (\<lambda>h. TrimSpace (fst h) \<noteq> []) headers)
     [(''Content-Type'', ''application/json'')]"

definition postJSON :: "notice_env \<Rightarrow> string \<Rightarrow> string \<Rightarrow> jvalue \<Rightarrow> (string \<times> string) list \<Rightarrow> unit net_prog" where
  "postJSON E verb targetURL payload headers =
    (if TrimSpace targetURL = [] then fail (Errorf (zh ''576562686f6f6b2055524c20e4b88de883bde4b8bae7a9ba''))
     else
      bindp (new_request targetURL) (\<lambda>_.
      bindp (perform (ns_wire E) (HttpDo \<lparr>hc_Timeout = client_timeout E, hc_Method = verb, hc_URL = targetURL,
        hc_Headers = json_headers headers, hc_Payload = Some payload\<rparr>)) (\<lambda>answer.
      case answer of
        HttpReply status statusText _ \<Rightarrow>
          if status < 200 \<or> status \<ge> 300 then fail (Errorf ((zh ''576562686f6f6b20e8bf94e59b9ee5bc82e5b8b8e78ab6e68081efbc9a'') @ statusText)) else ret ()
      | _ \<Rightarrow> ret ())))"

text \<open>
  \<open>decodeNotificationResponse\<close>: a blank body leaves the struct as it is. The struct has one whole number and some
  texts; a member of another type is an error.
\<close>

definition decodeNotificationResponse :: "string \<Rightarrow> string list \<Rightarrow> net_answer \<Rightarrow> members net_prog" where
  "decodeNotificationResponse code texts answer =
    (case answer of
       HttpReply status statusText body \<Rightarrow>
         if status < 200 \<or> status \<ge> 300 then fail (Errorf ((zh ''e9809ae79fa5e68ea5e58fa3e8bf94e59b9ee5bc82e5b8b8e78ab6e68081efbc9a'') @ statusText))
         else (case body of
             Blank \<Rightarrow> ret []
           | Garbled e \<Rightarrow> fail e
           | Decoded m \<Rightarrow>
               if is_int (json_field m code) \<and> list_all (\<lambda>k. is_text (json_field m k)) texts then ret m
               else fail (Errorf ''json: cannot unmarshal''))
     | _ \<Rightarrow> ret [])"

text \<open>The clients of the applications use \<open>s.http\<close>, whose limit is 8 seconds.\<close>

definition getJSONDecode :: "notice_env \<Rightarrow> string \<Rightarrow> string \<Rightarrow> string list \<Rightarrow> members net_prog" where
  "getJSONDecode E targetURL code texts =
    bindp (new_request targetURL) (\<lambda>_.
    bindp (perform (ns_wire E) (HttpDo \<lparr>hc_Timeout = 8, hc_Method = ''GET'', hc_URL = targetURL,
      hc_Headers = [], hc_Payload = None\<rparr>)) (decodeNotificationResponse code texts))"

definition postJSONDecode ::
  "notice_env \<Rightarrow> string \<Rightarrow> jvalue \<Rightarrow> (string \<times> string) list \<Rightarrow> string \<Rightarrow> string list \<Rightarrow> members net_prog" where
  "postJSONDecode E targetURL payload headers code texts =
    bindp (new_request targetURL) (\<lambda>_.
    bindp (perform (ns_wire E) (HttpDo \<lparr>hc_Timeout = 8, hc_Method = ''POST'', hc_URL = targetURL,
      hc_Headers = json_headers headers, hc_Payload = Some payload\<rparr>)) (decodeNotificationResponse code texts))"

definition firstNonEmpty :: "string list \<Rightarrow> string" where
  "firstNonEmpty vs = (case filter (\<lambda>v. TrimSpace v \<noteq> []) vs of [] \<Rightarrow> ''unknown'' | v # _ \<Rightarrow> TrimSpace v)"

text \<open>The code of an answer that is not 0 is an error, with the message of the answer or the code.\<close>

definition reply_accepted :: "string \<Rightarrow> string \<Rightarrow> string \<Rightarrow> members \<Rightarrow> unit net_prog" where
  "reply_accepted code msg label m =
    (if int_field m code \<noteq> 0
     then fail (Errorf (label @ (zh ''efbc9a'') @ firstNonEmpty [text_field m msg, Itoa (int_field m code)])) else ret ())"

section \<open>Configurations\<close>

text \<open>\<open>decodeConfig\<close>: a member of the wrong type is an error, also one of the templates.\<close>

definition template_keys :: "string list" where
  "template_keys = [''problemTemplate'', ''recoveryTemplate'', ''problemSubjectTemplate'',
     ''recoverySubjectTemplate'', ''larkProblemTitleTemplate'', ''larkRecoveryTitleTemplate'',
     ''larkProblemCardTemplate'', ''larkRecoveryCardTemplate'', ''emailContentType'', ''larkMessageType'',
     ''wechatMessageType'', ''dingtalkMessageType'', ''webhookProblemPayload'', ''webhookRecoveryPayload'']"

definition config_decodes :: "string list \<Rightarrow> members \<Rightarrow> bool" where
  "config_decodes texts m \<longleftrightarrow> list_all (\<lambda>k. is_text (json_field m k)) (texts @ template_keys)
     \<and> is_bool (json_field m ''sendRecovery'')"

definition decodeConfig :: "bool \<Rightarrow> 'c \<Rightarrow> 'c net_prog" where
  "decodeConfig decodes c = (if decodes then ret c else fail (Errorf ''json: cannot unmarshal''))"

record webhookConfig =
  wh_URL :: string
  wh_Method :: string
  wh_Secret :: string
  wh_Headers :: "(string \<times> string) list"
  wh_templates :: templateConfig

definition is_text_map :: "jvalue \<Rightarrow> bool" where
  "is_text_map v = (case v of VObj ms \<Rightarrow> list_all (\<lambda>(_, x). is_text x) ms | VNull \<Rightarrow> True | _ \<Rightarrow> False)"

definition text_map :: "jvalue \<Rightarrow> (string \<times> string) list" where
  "text_map v = (case v of VObj ms \<Rightarrow> map (\<lambda>(k, x). (k, case x of VStr s \<Rightarrow> s | _ \<Rightarrow> [])) ms | _ \<Rightarrow> [])"

definition webhook_config :: "members \<Rightarrow> webhookConfig net_prog" where
  "webhook_config m = decodeConfig
     (config_decodes [''url'', ''method'', ''secret''] m \<and> is_text_map (json_field m ''headers''))
     \<lparr>wh_URL = text_field m ''url'', wh_Method = text_field m ''method'', wh_Secret = text_field m ''secret'',
       wh_Headers = text_map (json_field m ''headers''), wh_templates = notificationTemplateConfig m\<rparr>"

record robotConfig =
  rb_WebhookURL :: string
  rb_Secret :: string
  rb_templates :: templateConfig

definition robot_config :: "members \<Rightarrow> robotConfig net_prog" where
  "robot_config m = decodeConfig (config_decodes [''webhookUrl'', ''secret''] m)
     \<lparr>rb_WebhookURL = text_field m ''webhookUrl'', rb_Secret = text_field m ''secret'',
       rb_templates = notificationTemplateConfig m\<rparr>"

record emailConfig =
  em_SMTPHost :: string
  em_SMTPPort :: int
  em_Username :: string
  em_Password :: string
  em_From :: string
  em_FromName :: string
  em_To :: "string list"
  em_UseTLS :: bool
  em_StartTLS :: bool
  em_AllowInsecureAuth :: bool
  em_templates :: templateConfig

definition is_text_list :: "jvalue \<Rightarrow> bool" where
  "is_text_list v = (case v of VList vs \<Rightarrow> list_all is_text vs | VNull \<Rightarrow> True | _ \<Rightarrow> False)"

definition text_list :: "jvalue \<Rightarrow> string list" where
  "text_list v = (case v of VList vs \<Rightarrow> map (\<lambda>x. case x of VStr s \<Rightarrow> s | _ \<Rightarrow> []) vs | _ \<Rightarrow> [])"

definition email_config :: "members \<Rightarrow> emailConfig net_prog" where
  "email_config m = decodeConfig
     (config_decodes [''smtpHost'', ''username'', ''password'', ''from'', ''fromName''] m
       \<and> is_int (json_field m ''smtpPort'') \<and> is_text_list (json_field m ''to'')
       \<and> list_all (\<lambda>k. is_bool (json_field m k)) [''useTLS'', ''startTLS'', ''allowInsecureAuth''])
     \<lparr>em_SMTPHost = text_field m ''smtpHost'', em_SMTPPort = int_field m ''smtpPort'',
       em_Username = text_field m ''username'', em_Password = text_field m ''password'',
       em_From = text_field m ''from'', em_FromName = text_field m ''fromName'',
       em_To = text_list (json_field m ''to''), em_UseTLS = bool_field m ''useTLS'',
       em_StartTLS = bool_field m ''startTLS'', em_AllowInsecureAuth = bool_field m ''allowInsecureAuth'',
       em_templates = notificationTemplateConfig m\<rparr>"

record larkAppConfig =
  la_AppID :: string
  la_AppSecret :: string
  la_ReceiveIDType :: string
  la_ReceiveID :: string
  la_templates :: templateConfig

definition lark_app_config :: "members \<Rightarrow> larkAppConfig net_prog" where
  "lark_app_config m = decodeConfig (config_decodes [''appId'', ''appSecret'', ''receiveIdType'', ''receiveId''] m)
     \<lparr>la_AppID = text_field m ''appId'', la_AppSecret = text_field m ''appSecret'',
       la_ReceiveIDType = text_field m ''receiveIdType'', la_ReceiveID = text_field m ''receiveId'',
       la_templates = notificationTemplateConfig m\<rparr>"

record wechatAppConfig =
  wa_CorpID :: string
  wa_AgentID :: string
  wa_Secret :: string
  wa_ToUser :: string
  wa_ToParty :: string
  wa_ToTag :: string
  wa_templates :: templateConfig

definition wechat_app_config :: "members \<Rightarrow> wechatAppConfig net_prog" where
  "wechat_app_config m = decodeConfig
     (config_decodes [''corpId'', ''agentId'', ''secret'', ''toUser'', ''toParty'', ''toTag''] m)
     \<lparr>wa_CorpID = text_field m ''corpId'', wa_AgentID = text_field m ''agentId'',
       wa_Secret = text_field m ''secret'', wa_ToUser = text_field m ''toUser'',
       wa_ToParty = text_field m ''toParty'', wa_ToTag = text_field m ''toTag'',
       wa_templates = notificationTemplateConfig m\<rparr>"

record dingTalkAppConfig =
  da_AppKey :: string
  da_AppSecret :: string
  da_AgentID :: string
  da_UserIDList :: string
  da_DeptIDList :: string
  da_templates :: templateConfig

definition dingtalk_app_config :: "members \<Rightarrow> dingTalkAppConfig net_prog" where
  "dingtalk_app_config m = decodeConfig
     (config_decodes [''appKey'', ''appSecret'', ''agentId'', ''useridList'', ''deptIdList''] m)
     \<lparr>da_AppKey = text_field m ''appKey'', da_AppSecret = text_field m ''appSecret'',
       da_AgentID = text_field m ''agentId'', da_UserIDList = text_field m ''useridList'',
       da_DeptIDList = text_field m ''deptIdList'', da_templates = notificationTemplateConfig m\<rparr>"

section \<open>Webhooks and robots\<close>

text \<open>The message of a reset code. Its expiry is an instant.\<close>

record PasswordResetMessage =
  pm_Username :: string
  pm_Code :: string
  pm_ExpiresAt :: int
  pm_RequestIP :: string
  pm_To :: string

definition webhook_method :: "webhookConfig \<Rightarrow> string net_prog" where
  "webhook_method cfg =
    (if TrimSpace (wh_URL cfg) = [] then fail (Errorf (zh ''576562686f6f6b2055524c20e4b88de883bde4b8bae7a9ba''))
     else
      (let verb = ToUpper (TrimSpace (wh_Method cfg)); verb = (if verb = [] then ''POST'' else verb) in
       if verb \<noteq> ''POST'' \<and> verb \<noteq> ''PUT'' \<and> verb \<noteq> ''PATCH''
       then fail (Errorf (zh ''576562686f6f6b20e8afb7e6b182e696b9e6b395e4bb85e694afe68c8120504f5354e3808150555420e68896205041544348'')) else ret verb))"

definition sendWebhook :: "notice_env \<Rightarrow> webhookConfig \<Rightarrow> notice_event \<Rightarrow> unit net_prog" where
  "sendWebhook E cfg event =
    bindp (webhook_method cfg) (\<lambda>verb.
    case alertWebhookPayload (ns_local_time E) (ns_decode E) event (wh_templates cfg) of
      Inl e \<Rightarrow> fail e
    | Inr payload \<Rightarrow> postJSON E verb (wh_URL cfg) payload (wh_Headers cfg))"

definition sendPasswordResetWebhook :: "notice_env \<Rightarrow> webhookConfig \<Rightarrow> PasswordResetMessage \<Rightarrow> unit net_prog" where
  "sendPasswordResetWebhook E cfg m =
    bindp (webhook_method cfg) (\<lambda>verb.
    postJSON E verb (wh_URL cfg) (VObj
      [(''type'', VStr ''password_reset''), (''title'', VStr (zh ''4b564d204d616e6167657220e5af86e7a081e689bee59b9e'')),
       (''username'', VStr (pm_Username m)), (''code'', VStr (pm_Code m)),
       (''expiresAt'', VStr (ns_rfc3339 E (pm_ExpiresAt m))), (''requestIP'', VStr (pm_RequestIP m))])
      (wh_Headers cfg))"

definition larkPostContent :: "string \<Rightarrow> jvalue" where
  "larkPostContent t = VList (map (\<lambda>line. VList [VObj [(''tag'', VStr ''text''), (''text'', VStr line)]])
     (Split (CHR 0x0A) t))"

definition lark_card :: "string \<Rightarrow> string \<Rightarrow> jvalue list \<Rightarrow> jvalue" where
  "lark_card template title elements = VObj
     [(''config'', VObj [(''wide_screen_mode'', VBool True)]),
      (''header'', VObj [(''template'', VStr template),
         (''title'', VObj [(''tag'', VStr ''plain_text''), (''content'', VStr title)])]),
      (''elements'', VList elements)]"

definition lark_div :: "string \<Rightarrow> string \<Rightarrow> jvalue" where
  "lark_div tag content =
     VObj [(''tag'', VStr ''div''), (''text'', VObj [(''tag'', VStr tag), (''content'', VStr content)])]"

definition larkAlertPayload :: "(int \<Rightarrow> string) \<Rightarrow> notice_event \<Rightarrow> templateConfig \<Rightarrow> members" where
  "larkAlertPayload local_time event cfg =
    (let subject = larkTitle local_time event cfg; t = alertText local_time event cfg in
     if larkMessageType cfg = ''post'' then
       [(''msg_type'', VStr ''post''),
        (''content'', VObj [(''post'', VObj [(''zh_cn'', VObj [(''title'', VStr subject),
           (''content'', larkPostContent t)])])])]
     else if larkMessageType cfg = ''interactive'' then
       [(''msg_type'', VStr ''interactive''),
        (''card'', lark_card (larkCardTemplate event cfg) subject [lark_div ''lark_md'' t])]
     else [(''msg_type'', VStr ''text''), (''content'', VObj [(''text'', VStr t)])])"

definition unix_text :: "notice_env \<Rightarrow> string" where "unix_text E = Itoa (ns_now E div 1000)"

definition signLark :: "notice_env \<Rightarrow> string \<Rightarrow> string \<Rightarrow> string" where
  "signLark E timestamp secret = EncodeToString (ns_hmac E (timestamp @ newline @ secret) [])"

definition lark_signed :: "notice_env \<Rightarrow> robotConfig \<Rightarrow> members \<Rightarrow> members" where
  "lark_signed E cfg payload = (let secret = TrimSpace (rb_Secret cfg) in
     if secret = [] then payload
     else json_set ''sign'' (VStr (signLark E (unix_text E) secret))
       (json_set ''timestamp'' (VStr (unix_text E)) payload))"

definition sendLark :: "notice_env \<Rightarrow> robotConfig \<Rightarrow> notice_event \<Rightarrow> unit net_prog" where
  "sendLark E cfg event = postJSON E ''POST'' (rb_WebhookURL cfg)
     (VObj (lark_signed E cfg (larkAlertPayload (ns_local_time E) event (rb_templates cfg)))) []"

definition sendLarkMarkdown :: "notice_env \<Rightarrow> robotConfig \<Rightarrow> string \<Rightarrow> unit net_prog" where
  "sendLarkMarkdown E cfg t = postJSON E ''POST'' (rb_WebhookURL cfg)
     (VObj (lark_signed E cfg [(''msg_type'', VStr ''text''), (''content'', VObj [(''text'', VStr t)])])) []"

definition reset_lines :: "notice_env \<Rightarrow> PasswordResetMessage \<Rightarrow> string" where
  "reset_lines E m = (zh ''e8b4a6e58fb7efbc9a'') @ pm_Username m @ newline @ (zh ''e9aa8ce8af81e7a081efbc9a'') @ pm_Code m @ newline
     @ (zh ''e69c89e69588e69c9fe887b3efbc9a'') @ ns_local_time E (pm_ExpiresAt m) @ newline @ (zh ''e8afb7e6b182e69da5e6ba90efbc9a'') @ pm_RequestIP m"

definition reset_card :: "notice_env \<Rightarrow> PasswordResetMessage \<Rightarrow> jvalue" where
  "reset_card E m = lark_card ''green'' (zh ''4b564d204d616e6167657220e5af86e7a081e689bee59b9e'')
     [lark_div ''lark_md'' (reset_lines E m), VObj [(''tag'', VStr ''hr'')],
      lark_div ''plain_text'' (zh ''e5a682e69e9ce4b88de698afe682a8e69cace4babae6938de4bd9cefbc8ce8afb7e5bfbde795a5e69cace6b688e681afe5b9b6e6a380e69fa5e5b9b3e58fb0e8b4a6e58fb7e5ae89e585a8e38082'')]"

definition sendLarkPasswordResetCard :: "notice_env \<Rightarrow> robotConfig \<Rightarrow> PasswordResetMessage \<Rightarrow> unit net_prog" where
  "sendLarkPasswordResetCard E cfg m = postJSON E ''POST'' (rb_WebhookURL cfg)
     (VObj (lark_signed E cfg [(''msg_type'', VStr ''interactive''), (''card'', reset_card E m)])) []"

definition passwordResetRobotText :: "notice_env \<Rightarrow> PasswordResetMessage \<Rightarrow> string" where
  "passwordResetRobotText E m = (zh ''2323204b564d204d616e6167657220e5af86e7a081e689bee59b9e'') @ newline @ newline @ reset_lines E m @ newline @ newline
     @ (zh ''e5a682e69e9ce4b88de698afe682a8e69cace4babae6938de4bd9cefbc8ce8afb7e5bfbde795a5e69cace6b688e681afe5b9b6e6a380e69fa5e5b9b3e58fb0e8b4a6e58fb7e5ae89e585a8e38082'')"

definition content_message :: "string \<Rightarrow> string \<Rightarrow> members" where
  "content_message kind t = [(''msgtype'', VStr kind), (kind, VObj [(''content'', VStr t)])]"

definition sendWechat :: "notice_env \<Rightarrow> robotConfig \<Rightarrow> notice_event \<Rightarrow> unit net_prog" where
  "sendWechat E cfg event =
    (let t = alertText (ns_local_time E) event (rb_templates cfg) in
     postJSON E ''POST'' (rb_WebhookURL cfg) (VObj (content_message
       (if wechatMessageType (rb_templates cfg) = ''markdown'' then ''markdown'' else ''text'') t)) [])"

definition sendWechatMarkdown :: "notice_env \<Rightarrow> robotConfig \<Rightarrow> string \<Rightarrow> unit net_prog" where
  "sendWechatMarkdown E cfg t =
    postJSON E ''POST'' (rb_WebhookURL cfg) (VObj (content_message ''markdown'' t)) []"

text \<open>\<open>url.ParseQuery\<close>, whose error is dropped, \<open>Set\<close> and \<open>Encode\<close>.\<close>

definition query_unescape :: "string \<Rightarrow> string option" where
  "query_unescape s = url_unescape PathMode (map (\<lambda>c. if c = CHR ''+'' then CHR '' '' else c) s)"

definition ParseQuery :: "string \<Rightarrow> (string \<times> string) list" where
  "ParseQuery s = List.map_filter (\<lambda>part.
     if part = [] \<or> CHR '';'' \<in> set part then None
     else (let (k, v, _) = cut_at (CHR ''='') part in
       (case (query_unescape k, query_unescape v) of (Some k', Some v') \<Rightarrow> Some (k', v') | _ \<Rightarrow> None)))
     (Split (CHR ''&'') s)"

definition set_value :: "string \<Rightarrow> string \<Rightarrow> (string \<times> string) list \<Rightarrow> (string \<times> string) list" where
  "set_value k v kvs = filter (\<lambda>q. fst q \<noteq> k) kvs @ [(k, v)]"

text \<open>The text of an address with or without a scheme; the fragment is not sent.\<close>

definition address_text :: "url \<Rightarrow> string" where
  "address_text u =
    (if u_Scheme u \<noteq> [] then url_String u
     else if u_Host u \<noteq> [] \<or> u_User u \<noteq> None then drop 1 (url_String u)
     else EscapedPath u @ (if u_ForceQuery u \<or> u_RawQuery u \<noteq> [] then ''?'' @ u_RawQuery u else []))"

definition signDingTalkURL :: "notice_env \<Rightarrow> string \<Rightarrow> string \<Rightarrow> string net_prog" where
  "signDingTalkURL E rawURL secret =
    (case url_Parse rawURL of
       None \<Rightarrow> fail (Errorf ''parse'')
     | Some u \<Rightarrow>
        (let timestamp = Itoa (ns_now E);
             sign = EncodeToString (ns_hmac E secret (timestamp @ newline @ secret));
             values = set_value ''sign'' sign (set_value ''timestamp'' timestamp (ParseQuery (u_RawQuery u))) in
         ret (address_text (u\<lparr>u_RawQuery := EncodeValues (sort_key fst values)\<rparr>))))"

definition dingtalk_address :: "notice_env \<Rightarrow> robotConfig \<Rightarrow> string net_prog" where
  "dingtalk_address E cfg = (let secret = TrimSpace (rb_Secret cfg) in
     if secret = [] then ret (rb_WebhookURL cfg) else signDingTalkURL E (rb_WebhookURL cfg) secret)"

definition dingtalkMarkdownLineBreaks :: "string \<Rightarrow> string" where
  "dingtalkMarkdownLineBreaks t = ReplaceAll t newline (''  '' @ newline)"

definition dingTalkAppMarkdownPayload :: "string \<Rightarrow> string \<Rightarrow> jvalue" where
  "dingTalkAppMarkdownPayload title t = VObj [(''msgtype'', VStr ''markdown''),
     (''markdown'', VObj [(''title'', VStr title), (''text'', VStr t)])]"

text \<open>\<open>dingTalkAppAlertPayload\<close>; the robot sends the same.\<close>

definition dingTalkAppAlertPayload :: "(int \<Rightarrow> string) \<Rightarrow> notice_event \<Rightarrow> templateConfig \<Rightarrow> jvalue" where
  "dingTalkAppAlertPayload local_time event cfg =
    (let t = alertText local_time event cfg in
     if dingTalkMessageType cfg = ''markdown''
     then dingTalkAppMarkdownPayload (alertSubject local_time event cfg) (dingtalkMarkdownLineBreaks t)
     else VObj (content_message ''text'' t))"

definition sendDingTalk :: "notice_env \<Rightarrow> robotConfig \<Rightarrow> notice_event \<Rightarrow> unit net_prog" where
  "sendDingTalk E cfg event =
    bindp (dingtalk_address E cfg) (\<lambda>webhookURL.
    postJSON E ''POST'' webhookURL (dingTalkAppAlertPayload (ns_local_time E) event (rb_templates cfg)) [])"

definition sendDingTalkMarkdown :: "notice_env \<Rightarrow> robotConfig \<Rightarrow> string \<Rightarrow> string \<Rightarrow> unit net_prog" where
  "sendDingTalkMarkdown E cfg title t =
    bindp (dingtalk_address E cfg) (\<lambda>webhookURL.
    postJSON E ''POST'' webhookURL (dingTalkAppMarkdownPayload title t) [])"

section \<open>Applications\<close>

definition larkAppAlertPayload :: "notice_env \<Rightarrow> notice_event \<Rightarrow> templateConfig \<Rightarrow> members" where
  "larkAppAlertPayload E event cfg =
    (let payload = larkAlertPayload (ns_local_time E) event cfg;
         payload = (case map_of payload ''content'' of
             None \<Rightarrow> payload
           | Some content \<Rightarrow> json_set ''content'' (VStr (ns_marshal E content)) payload) in
     (case map_of payload ''card'' of
        None \<Rightarrow> payload
      | Some shown \<Rightarrow> json_drop ''card'' (json_set ''content'' (VStr (ns_marshal E shown)) payload)))"

text \<open>The token of an answer without an error; a blank one is an error.\<close>

definition token_from :: "string \<Rightarrow> string \<Rightarrow> string \<Rightarrow> string \<Rightarrow> members \<Rightarrow> string net_prog" where
  "token_from code msg key label m =
    bindp (reply_accepted code msg label m) (\<lambda>_.
    if TrimSpace (text_field m key) = [] then fail (Errorf label) else ret (text_field m key))"

definition larkTenantAccessToken :: "notice_env \<Rightarrow> larkAppConfig \<Rightarrow> string net_prog" where
  "larkTenantAccessToken E cfg =
    (if TrimSpace (la_AppID cfg) = [] then fail (Errorf (zh ''e9a39ee4b9a62041707020494420e4b88de883bde4b8bae7a9ba''))
     else if TrimSpace (la_AppSecret cfg) = [] then fail (Errorf (zh ''e9a39ee4b9a6204170702053656372657420e4b88de883bde4b8bae7a9ba''))
     else
      bindp (postJSONDecode E ''https://open.feishu.cn/open-apis/auth/v3/tenant_access_token/internal''
        (VObj [(''app_id'', VStr (la_AppID cfg)), (''app_secret'', VStr (la_AppSecret cfg))]) []
        ''code'' [''msg'', ''tenant_access_token''])
      (token_from ''code'' ''msg'' ''tenant_access_token'' (zh ''e9a39ee4b9a6e88eb7e58f96e8aebfe997aee4bba4e7898ce5a4b1e8b4a5'')))"

definition postLarkAppMessage :: "notice_env \<Rightarrow> larkAppConfig \<Rightarrow> string \<Rightarrow> members \<Rightarrow> unit net_prog" where
  "postLarkAppMessage E cfg token payload =
    (let receiveIDType = TrimSpace (la_ReceiveIDType cfg); receiveID = TrimSpace (la_ReceiveID cfg) in
     if receiveIDType = [] \<or> receiveID = [] then fail (Errorf (zh ''e9a39ee4b9a6e68ea5e694b620494420e7b1bbe59e8be5928ce68ea5e694b620494420e4b88de883bde4b8bae7a9ba''))
     else
      bindp (postJSONDecode E
        (''https://open.feishu.cn/open-apis/im/v1/messages'' @ ''?receive_id_type='' @ QueryEscape receiveIDType)
        (VObj (json_set ''receive_id'' (VStr receiveID) payload)) [(''Authorization'', ''Bearer '' @ token)]
        ''code'' [''msg''])
      (reply_accepted ''code'' ''msg'' (zh ''e9a39ee4b9a6e5ba94e794a8e6b688e681afe58f91e98081e5a4b1e8b4a5'')))"

definition sendLarkApp :: "notice_env \<Rightarrow> larkAppConfig \<Rightarrow> notice_event \<Rightarrow> unit net_prog" where
  "sendLarkApp E cfg event =
    bindp (larkTenantAccessToken E cfg) (\<lambda>token.
    postLarkAppMessage E cfg token (larkAppAlertPayload E event (la_templates cfg)))"

definition sendLarkAppPasswordReset :: "notice_env \<Rightarrow> larkAppConfig \<Rightarrow> PasswordResetMessage \<Rightarrow> unit net_prog" where
  "sendLarkAppPasswordReset E cfg m =
    bindp (larkTenantAccessToken E cfg) (\<lambda>token.
    postLarkAppMessage E cfg token
      [(''msg_type'', VStr ''interactive''), (''content'', VStr (ns_marshal E (reset_card E m)))])"

definition wechatAppTextPayload :: "wechatAppConfig \<Rightarrow> string \<Rightarrow> bool \<Rightarrow> members" where
  "wechatAppTextPayload cfg t markdown =
    [(''touser'', VStr (TrimSpace (wa_ToUser cfg))), (''toparty'', VStr (TrimSpace (wa_ToParty cfg))),
     (''totag'', VStr (TrimSpace (wa_ToTag cfg))), (''agentid'', VStr (wa_AgentID cfg)), (''safe'', VNum 0)]
    @ content_message (if markdown then ''markdown'' else ''text'') t"

text \<open>The recipients of an alert are blank here and filled in when it is sent.\<close>

definition wechatAppAlertPayload :: "(int \<Rightarrow> string) \<Rightarrow> notice_event \<Rightarrow> templateConfig \<Rightarrow> members" where
  "wechatAppAlertPayload local_time event cfg = wechatAppTextPayload
     \<lparr>wa_CorpID = [], wa_AgentID = [], wa_Secret = [], wa_ToUser = [], wa_ToParty = [], wa_ToTag = [],
       wa_templates = cfg\<rparr> (alertText local_time event cfg) (wechatMessageType cfg = ''markdown'')"

definition wechatAccessToken :: "notice_env \<Rightarrow> wechatAppConfig \<Rightarrow> string net_prog" where
  "wechatAccessToken E cfg =
    (if TrimSpace (wa_CorpID cfg) = [] then fail (Errorf (zh ''e4bc81e4b89a20494420e4b88de883bde4b8bae7a9ba''))
     else if TrimSpace (wa_Secret cfg) = [] then fail (Errorf (zh ''e5ba94e794a82053656372657420e4b88de883bde4b8bae7a9ba''))
     else
      bindp (getJSONDecode E (''https://qyapi.weixin.qq.com/cgi-bin/gettoken'' @ ''?corpid='' @ QueryEscape (wa_CorpID cfg)
        @ ''&corpsecret='' @ QueryEscape (wa_Secret cfg)) ''errcode'' [''errmsg'', ''access_token''])
      (token_from ''errcode'' ''errmsg'' ''access_token'' (zh ''e4bc81e4b89ae5beaee4bfa1e88eb7e58f96e8aebfe997aee4bba4e7898ce5a4b1e8b4a5'')))"

definition postWechatAppMessage :: "notice_env \<Rightarrow> wechatAppConfig \<Rightarrow> string \<Rightarrow> members \<Rightarrow> unit net_prog" where
  "postWechatAppMessage E cfg token payload =
    (if TrimSpace (wa_AgentID cfg) = [] then fail (Errorf (zh ''e5ba94e794a8204167656e74496420e4b88de883bde4b8bae7a9ba''))
     else if TrimSpace (wa_ToUser cfg) = [] \<and> TrimSpace (wa_ToParty cfg) = [] \<and> TrimSpace (wa_ToTag cfg) = []
     then fail (Errorf (zh ''e4bc81e4b89ae5beaee4bfa1e68ea5e694b6e4babae38081e983a8e997a8e68896e6a087e7adbee887b3e5b091e5a1abe58699e4b880e9a1b9''))
     else
      (let payload = json_set ''touser'' (VStr (TrimSpace (wa_ToUser cfg))) payload;
           payload = json_set ''toparty'' (VStr (TrimSpace (wa_ToParty cfg))) payload;
           payload = json_set ''totag'' (VStr (TrimSpace (wa_ToTag cfg))) payload;
           payload = json_set ''agentid'' (VStr (wa_AgentID cfg)) payload in
       bindp (postJSONDecode E
         (''https://qyapi.weixin.qq.com/cgi-bin/message/send'' @ ''?access_token='' @ QueryEscape token)
         (VObj payload) [] ''errcode'' [''errmsg''])
       (reply_accepted ''errcode'' ''errmsg'' (zh ''e4bc81e4b89ae5beaee4bfa1e5ba94e794a8e6b688e681afe58f91e98081e5a4b1e8b4a5''))))"

definition sendWechatApp :: "notice_env \<Rightarrow> wechatAppConfig \<Rightarrow> notice_event \<Rightarrow> unit net_prog" where
  "sendWechatApp E cfg event =
    bindp (wechatAccessToken E cfg) (\<lambda>token.
    postWechatAppMessage E cfg token (wechatAppAlertPayload (ns_local_time E) event (wa_templates cfg)))"

definition sendWechatAppPasswordReset :: "notice_env \<Rightarrow> wechatAppConfig \<Rightarrow> PasswordResetMessage \<Rightarrow> unit net_prog" where
  "sendWechatAppPasswordReset E cfg m =
    bindp (wechatAccessToken E cfg) (\<lambda>token.
    postWechatAppMessage E cfg token (wechatAppTextPayload cfg (passwordResetRobotText E m) True))"

definition dingTalkAccessToken :: "notice_env \<Rightarrow> dingTalkAppConfig \<Rightarrow> string net_prog" where
  "dingTalkAccessToken E cfg =
    (if TrimSpace (da_AppKey cfg) = [] then fail (Errorf (zh ''e99289e99289204170704b657920e4b88de883bde4b8bae7a9ba''))
     else if TrimSpace (da_AppSecret cfg) = [] then fail (Errorf (zh ''e99289e992892041707053656372657420e4b88de883bde4b8bae7a9ba''))
     else
      bindp (getJSONDecode E (''https://oapi.dingtalk.com/gettoken'' @ ''?appkey='' @ QueryEscape (da_AppKey cfg)
        @ ''&appsecret='' @ QueryEscape (da_AppSecret cfg)) ''errcode'' [''errmsg'', ''access_token''])
      (token_from ''errcode'' ''errmsg'' ''access_token'' (zh ''e99289e99289e88eb7e58f96e8aebfe997aee4bba4e7898ce5a4b1e8b4a5'')))"

definition postDingTalkAppMessage :: "notice_env \<Rightarrow> dingTalkAppConfig \<Rightarrow> string \<Rightarrow> jvalue \<Rightarrow> unit net_prog" where
  "postDingTalkAppMessage E cfg token message =
    (let (agentID, parsed) = ParseInt (TrimSpace (da_AgentID cfg)) in
     if \<not> parsed \<or> agentID \<le> 0 then fail (Errorf (zh ''e5ba94e794a8204167656e74496420e5bf85e9a1bbe698afe695b0e5ad97''))
     else if TrimSpace (da_UserIDList cfg) = [] \<and> TrimSpace (da_DeptIDList cfg) = []
     then fail (Errorf (zh ''e99289e99289e794a8e688b7e58897e8a1a8e68896e983a8e997a8e58897e8a1a8e887b3e5b091e5a1abe58699e4b880e9a1b9''))
     else
      (let payload = [(''agent_id'', VNum (of_int agentID)), (''msg'', message)]
           @ (if TrimSpace (da_UserIDList cfg) \<noteq> [] then [(''userid_list'', VStr (TrimSpace (da_UserIDList cfg)))] else [])
           @ (if TrimSpace (da_DeptIDList cfg) \<noteq> [] then [(''dept_id_list'', VStr (TrimSpace (da_DeptIDList cfg)))] else []) in
       bindp (postJSONDecode E
         (''https://oapi.dingtalk.com/topapi/message/corpconversation/asyncsend_v2'' @ ''?access_token='' @ QueryEscape token)
         (VObj payload) [] ''errcode'' [''errmsg''])
       (reply_accepted ''errcode'' ''errmsg'' (zh ''e99289e99289e5ba94e794a8e6b688e681afe58f91e98081e5a4b1e8b4a5''))))"

definition sendDingTalkApp :: "notice_env \<Rightarrow> dingTalkAppConfig \<Rightarrow> notice_event \<Rightarrow> unit net_prog" where
  "sendDingTalkApp E cfg event =
    bindp (dingTalkAccessToken E cfg) (\<lambda>token.
    postDingTalkAppMessage E cfg token (dingTalkAppAlertPayload (ns_local_time E) event (da_templates cfg)))"

definition sendDingTalkAppPasswordReset :: "notice_env \<Rightarrow> dingTalkAppConfig \<Rightarrow> PasswordResetMessage \<Rightarrow> unit net_prog" where
  "sendDingTalkAppPasswordReset E cfg m =
    bindp (dingTalkAccessToken E cfg) (\<lambda>token.
    postDingTalkAppMessage E cfg token (dingTalkAppMarkdownPayload (zh ''4b564d204d616e6167657220e5af86e7a081e689bee59b9e'')
      (dingtalkMarkdownLineBreaks (passwordResetRobotText E m))))"

end
