(* ===== verification/Notice_Mail.thy ===== *)
theory Notice_Mail
  imports Notice_Channels
begin

text \<open>
  The delivery by mail, the choice of the channel, and the attempts of the service
  (\<open>internal/service/notification/service.go\<close>).
\<close>

section \<open>SMTP\<close>

definition smtpError :: "notice_error \<Rightarrow> notice_error" where
  "smtpError e = (if HasPrefix (ne_text e) ''SMTP '' \<or> HasPrefix (ne_text e) ''TLS '' then e
     else wrap_error (zh ''534d545020e58f91e98081e5a4b1e8b4a5efbc9a'') e)"

definition with_smtp_error :: "'a net_prog \<Rightarrow> 'a net_prog" where
  "with_smtp_error m = bindp (attempt m) (\<lambda>r. case r of Inl e \<Rightarrow> fail (smtpError e) | Inr x \<Rightarrow> ret x)"

text \<open>A deferred call, and a step whose failure closes the connection.\<close>

definition deferring :: "unit net_prog \<Rightarrow> 'a net_prog \<Rightarrow> 'a net_prog" where
  "deferring later m = bindp (attempt m) (\<lambda>r.
     bindp (ignore later) (\<lambda>_. case r of Inl e \<Rightarrow> fail e | Inr x \<Rightarrow> ret x))"

definition or_close :: "wire \<Rightarrow> unit net_prog \<Rightarrow> unit net_prog" where
  "or_close w m = bindp (attempt m) (\<lambda>r. case r of
     Inl e \<Rightarrow> bindp (ignore (smtp_step w SmtpClose)) (\<lambda>_. fail e) | Inr x \<Rightarrow> ret x)"

definition dialPlainSMTP :: "wire \<Rightarrow> string \<Rightarrow> string \<Rightarrow> int \<Rightarrow> unit net_prog" where
  "dialPlainSMTP w addr host timeout =
    bindp (smtp_step w (SmtpDial addr timeout)) (\<lambda>_. or_close w (smtp_step w (SmtpNewClient host)))"

definition dialTLSSMTP :: "wire \<Rightarrow> string \<Rightarrow> string \<Rightarrow> int \<Rightarrow> unit net_prog" where
  "dialTLSSMTP w addr host timeout =
    bindp (smtp_step w (SmtpDial addr timeout)) (\<lambda>_.
    bindp (or_close w (smtp_step w (SmtpHandshake host))) (\<lambda>_.
    or_close w (smtp_step w (SmtpNewClient host))))"

text \<open>\<open>Extension\<close> has no error: a failed greeting counts as no extension.\<close>

definition dialStartTLSSMTP :: "wire \<Rightarrow> string \<Rightarrow> string \<Rightarrow> int \<Rightarrow> unit net_prog" where
  "dialStartTLSSMTP w addr host timeout =
    bindp (dialPlainSMTP w addr host timeout) (\<lambda>_.
    bindp (attempt (perform w (Smtp (SmtpExtension ''STARTTLS'')))) (\<lambda>found.
    if found \<noteq> Inr (Completed True)
    then bindp (ignore (smtp_step w SmtpClose)) (\<lambda>_. fail (Errorf (zh ''534d545020e69c8de58aa1e4b88de694afe68c81205354415254544c53'')))
    else or_close w (smtp_step w (SmtpStartTLS host))))"

definition writeSMTPMessage :: "wire \<Rightarrow> string \<Rightarrow> string list \<Rightarrow> string \<Rightarrow> smtp_auth \<Rightarrow> unit net_prog" where
  "writeSMTPMessage w sender recipients message auth =
    bindp (smtp_step w (SmtpAuth auth)) (\<lambda>_.
    bindp (smtp_step w (SmtpMail sender)) (\<lambda>_.
    bindp (for_each (\<lambda>to. smtp_step w (SmtpRcpt to)) recipients) (\<lambda>_.
    bindp (smtp_step w SmtpData) (\<lambda>_.
    bindp (attempt (smtp_step w (SmtpWrite message))) (\<lambda>r. case r of
      Inl e \<Rightarrow> bindp (ignore (smtp_step w SmtpCloseData)) (\<lambda>_. fail e)
    | Inr _ \<Rightarrow> smtp_step w SmtpCloseData)))))"

definition plainInsecureAuthPayload :: "string \<Rightarrow> string \<Rightarrow> smtp_auth" where
  "plainInsecureAuthPayload username password =
     PlainInsecureAuth ([CHR 0x00] @ username @ [CHR 0x00] @ password)"

definition sendSMTPMessage :: "notice_env \<Rightarrow> emailConfig \<Rightarrow> string \<Rightarrow> string list \<Rightarrow> string \<Rightarrow> unit net_prog" where
  "sendSMTPMessage E cfg addr recipients message =
    (let w = ns_wire E; timeout = client_timeout E; host = em_SMTPHost cfg;
         plain = PlainAuth (em_Username cfg) (em_Password cfg) host;
         deliver = (\<lambda>auth. deferring (smtp_step w SmtpQuit)
           (with_smtp_error (writeSMTPMessage w (em_From cfg) recipients message auth))) in
     if em_UseTLS cfg \<and> em_StartTLS cfg then fail (Errorf (zh ''544c5320e4b88e205354415254544c5320e4b88de883bde5908ce697b6e590afe794a8''))
     else if \<not> em_UseTLS cfg \<and> \<not> em_StartTLS cfg then
       bindp (with_smtp_error (dialPlainSMTP w addr host timeout)) (\<lambda>_.
       deliver (if em_AllowInsecureAuth cfg then plainInsecureAuthPayload (em_Username cfg) (em_Password cfg) else plain))
     else
       bindp (with_smtp_error (if em_UseTLS cfg then dialTLSSMTP w addr host timeout
         else dialStartTLSSMTP w addr host timeout)) (\<lambda>_. deliver plain))"

section \<open>Mails\<close>

definition formatMailFrom :: "notice_env \<Rightarrow> emailConfig \<Rightarrow> string" where
  "formatMailFrom E cfg = (let name = TrimSpace (em_FromName cfg) in
     if name = [] then em_From cfg else ns_mail_address E name (em_From cfg))"

text \<open>The checks that both kinds of mail make first.\<close>

definition email_complaint :: "emailConfig \<Rightarrow> string option" where
  "email_complaint cfg =
    (if em_SMTPHost cfg = [] then Some (zh ''534d545020e4b8bbe69cbae4b88de883bde4b8bae7a9ba'')
     else if em_SMTPPort cfg \<le> 0 then Some (zh ''534d545020e7abafe58fa3e4b88de883bde4b8bae7a9ba'')
     else if em_Username cfg = [] then Some (zh ''e794a8e688b7e5908de4b88de883bde4b8bae7a9ba'')
     else if em_Password cfg = [] then Some (zh ''e5af86e7a081e4b88de883bde4b8bae7a9ba'')
     else if em_From cfg = [] then Some (zh ''e58f91e4bbb6e4babae4b88de883bde4b8bae7a9ba'')
     else None)"

definition crlf :: string where "crlf = [CHR 0x0D, CHR 0x0A]"

definition smtp_address :: "emailConfig \<Rightarrow> string" where
  "smtp_address cfg = em_SMTPHost cfg @ '':'' @ Itoa (em_SMTPPort cfg)"

definition sendEmail :: "notice_env \<Rightarrow> emailConfig \<Rightarrow> notice_event \<Rightarrow> unit net_prog" where
  "sendEmail E cfg event = (case email_complaint cfg of
      Some complaint \<Rightarrow> fail (Errorf complaint)
    | None \<Rightarrow>
        if em_To cfg = [] then fail (Errorf (zh ''e694b6e4bbb6e4babae4b88de883bde4b8bae7a9ba''))
        else sendSMTPMessage E cfg (smtp_address cfg) (em_To cfg)
          (''From: '' @ formatMailFrom E cfg @ crlf @ ''To: '' @ Join (em_To cfg) '','' @ crlf
            @ ''Subject: '' @ alertSubject (ns_local_time E) event (em_templates cfg) @ crlf
            @ ''Content-Type: '' @ emailContentType (em_templates cfg) @ ''; charset=UTF-8'' @ crlf @ crlf
            @ alertText (ns_local_time E) event (em_templates cfg)))"

text \<open>\<open>passwordResetEmailHTML\<close>: the lines of the page, with the four values as they are.\<close>

definition reset_mail_lines :: "string \<Rightarrow> string \<Rightarrow> string \<Rightarrow> string \<Rightarrow> string list" where
  "reset_mail_lines username code expires ip = [
     ''<!doctype html>'',
     ''<html>'',
     ''<body style=\"margin:0;background:#f5f7fb;font-family:-apple-system,BlinkMacSystemFont,'' @ [CHR 0x27] @ ''Segoe UI'' @ [CHR 0x27] @ '',sans-serif;color:#172033;\">'',
     ''  <table role=\"presentation\" width=\"100%\" cellspacing=\"0\" cellpadding=\"0\" style=\"background:#f5f7fb;padding:32px 12px;\">'',
     ''    <tr>'',
     ''      <td align=\"center\">'',
     ''        <table role=\"presentation\" width=\"560\" cellspacing=\"0\" cellpadding=\"0\" style=\"max-width:560px;background:#ffffff;border:1px solid #e4e9f2;border-radius:14px;overflow:hidden;\">'',
     ''          <tr>'',
     ''            <td style=\"padding:28px 32px 18px;background:#0f766e;color:#ffffff;\">'',
     ''              <div style=\"font-size:20px;font-weight:700;\">KVM Manager '' @ zh ''e5af86e7a081e689bee59b9e'' @ ''</div>'',
     ''              <div style=\"margin-top:8px;font-size:13px;opacity:.86;\">'' @ zh ''e8afb7e4bdbfe794a8e4bba5e4b88be9aa8ce8af81e7a081e5ae8ce68890e5af86e7a081e9878de7bdae'' @ ''</div>'',
     ''            </td>'',
     ''          </tr>'',
     ''          <tr>'',
     ''            <td style=\"padding:30px 32px;\">'',
     ''              <div style=\"font-size:14px;color:#526071;\">'' @ zh ''e8b4a6e58fb7'' @ ''</div>'',
     ''              <div style=\"margin-top:6px;font-size:18px;font-weight:700;color:#172033;\">'' @ username @ ''</div>'',
     ''              <div style=\"margin-top:24px;padding:18px 20px;border-radius:12px;background:#ecfdf5;border:1px solid #a7f3d0;text-align:center;\">'',
     ''                <div style=\"font-size:13px;color:#047857;\">'' @ zh ''e9aa8ce8af81e7a081'' @ ''</div>'',
     ''                <div style=\"margin-top:8px;font-size:34px;letter-spacing:8px;font-weight:800;color:#065f46;\">'' @ code @ ''</div>'',
     ''              </div>'',
     ''              <div style=\"margin-top:22px;font-size:14px;line-height:1.8;color:#526071;\">'',
     ''                '' @ zh ''e69c89e69588e69c9fe887b3efbc9a'' @ ''<strong style=\"color:#172033;\">'' @ expires @ ''</strong><br>'',
     ''                '' @ zh ''e8afb7e6b182e69da5e6ba90efbc9a'' @ ''<strong style=\"color:#172033;\">'' @ ip @ ''</strong>'',
     ''              </div>'',
     ''              <div style=\"margin-top:24px;padding:14px 16px;border-radius:10px;background:#fff7ed;border:1px solid #fed7aa;color:#9a3412;font-size:13px;line-height:1.7;\">'',
     ''                '' @ zh ''e5a682e69e9ce4b88de698afe682a8e69cace4babae6938de4bd9cefbc8ce8afb7e5bfbde795a5e69cace982aee4bbb6e5b9b6e6a380e69fa5e5b9b3e58fb0e8b4a6e58fb7e5ae89e585a8e38082'',
     ''              </div>'',
     ''            </td>'',
     ''          </tr>'',
     ''        </table>'',
     ''      </td>'',
     ''    </tr>'',
     ''  </table>'',
     ''</body>'',
     ''</html>'']"

definition passwordResetEmailHTML :: "notice_env \<Rightarrow> PasswordResetMessage \<Rightarrow> string" where
  "passwordResetEmailHTML E m = Join (reset_mail_lines (pm_Username m) (pm_Code m)
     (ns_local_time E (pm_ExpiresAt m)) (pm_RequestIP m)) newline"

definition sendPasswordResetEmail :: "notice_env \<Rightarrow> emailConfig \<Rightarrow> PasswordResetMessage \<Rightarrow> unit net_prog" where
  "sendPasswordResetEmail E cfg m = (case email_complaint cfg of
      Some complaint \<Rightarrow> fail (Errorf complaint)
    | None \<Rightarrow>
       (let to = TrimSpace (pm_To m) in
        if to = [] then fail (Errorf (zh ''e689bee59b9ee5af86e7a081e694b6e4bbb6e4babae4b88de883bde4b8bae7a9ba''))
        else sendSMTPMessage E cfg (smtp_address cfg) [to]
          (''From: '' @ formatMailFrom E cfg @ crlf @ ''To: '' @ to @ crlf
            @ ''Subject: '' @ (zh ''4b564d204d616e6167657220e5af86e7a081e689bee59b9ee9aa8ce8af81e7a081'') @ crlf @ ''MIME-Version: 1.0'' @ crlf
            @ ''Content-Type: text/html; charset=UTF-8'' @ crlf @ crlf @ passwordResetEmailHTML E m)))"

section \<open>Channels\<close>

definition unsupported_channel :: "string \<Rightarrow> unit net_prog" where
  "unsupported_channel cid = fail (Errorf ((zh ''e4b88de694afe68c81e79a84e9809ae79fa5e5aa92e4bb8b20'') @ cid))"

text \<open>\<open>send\<close>.\<close>

definition send_alert :: "notice_env \<Rightarrow> channel \<Rightarrow> notice_event \<Rightarrow> unit net_prog" where
  "send_alert E c event =
    (let m = ch_config c in
     if ch_id c = ''webhook'' then bindp (webhook_config m) (\<lambda>cfg. sendWebhook E cfg event)
     else if ch_id c = ''lark'' then bindp (robot_config m) (\<lambda>cfg. sendLark E cfg event)
     else if ch_id c = ''lark_app'' then bindp (lark_app_config m) (\<lambda>cfg. sendLarkApp E cfg event)
     else if ch_id c = ''wechat'' then bindp (robot_config m) (\<lambda>cfg. sendWechat E cfg event)
     else if ch_id c = ''wechat_app'' then bindp (wechat_app_config m) (\<lambda>cfg. sendWechatApp E cfg event)
     else if ch_id c = ''dingtalk'' then bindp (robot_config m) (\<lambda>cfg. sendDingTalk E cfg event)
     else if ch_id c = ''dingtalk_app'' then bindp (dingtalk_app_config m) (\<lambda>cfg. sendDingTalkApp E cfg event)
     else if ch_id c = ''email'' then bindp (email_config m) (\<lambda>cfg. sendEmail E cfg event)
     else unsupported_channel (ch_id c))"

definition SendPasswordReset :: "notice_env \<Rightarrow> channel \<Rightarrow> PasswordResetMessage \<Rightarrow> unit net_prog" where
  "SendPasswordReset E c m =
    (let members = ch_config c in
     if ch_id c = ''webhook'' then bindp (webhook_config members) (\<lambda>cfg. sendPasswordResetWebhook E cfg m)
     else if ch_id c = ''email'' then bindp (email_config members) (\<lambda>cfg. sendPasswordResetEmail E cfg m)
     else if ch_id c = ''lark'' then bindp (robot_config members) (\<lambda>cfg. sendLarkPasswordResetCard E cfg m)
     else if ch_id c = ''lark_app'' then bindp (lark_app_config members) (\<lambda>cfg. sendLarkAppPasswordReset E cfg m)
     else if ch_id c = ''wechat'' then
       bindp (robot_config members) (\<lambda>cfg. sendWechatMarkdown E cfg (passwordResetRobotText E m))
     else if ch_id c = ''wechat_app'' then
       bindp (wechat_app_config members) (\<lambda>cfg. sendWechatAppPasswordReset E cfg m)
     else if ch_id c = ''dingtalk'' then
       bindp (robot_config members) (\<lambda>cfg. sendDingTalkMarkdown E cfg (zh ''4b564d204d616e6167657220e5af86e7a081e689bee59b9e'')
         (dingtalkMarkdownLineBreaks (passwordResetRobotText E m)))
     else if ch_id c = ''dingtalk_app'' then
       bindp (dingtalk_app_config members) (\<lambda>cfg. sendDingTalkAppPasswordReset E cfg m)
     else unsupported_channel (ch_id c))"

text \<open>A conversation that starts now: its error, if it has one.\<close>

definition outcome_of :: "unit net_prog \<Rightarrow> notice_error option" where
  "outcome_of m = (case fst (m []) of Inl e \<Rightarrow> Some e | Inr _ \<Rightarrow> None)"

section \<open>The service\<close>

text \<open>The time limit of \<open>alertNotificationRuntimeConfig\<close>.\<close>

definition notification_timeout :: "int db_prog" where
  "notification_timeout =
    bindp (attempt GetSystemBaseConfig) (\<lambda>r. ret (case r of
      Inl _ \<Rightarrow> 8 | Inr base \<Rightarrow> clampConfigInt (AlertNotificationTimeoutSeconds base) 3 60 8))"

definition withAlertHTTPTimeout :: "int \<Rightarrow> notice_env \<Rightarrow> notice_env" where
  "withAlertHTTPTimeout timeout E = (if timeout \<le> 0 then E else E\<lparr>ns_Timeout := timeout\<rparr>)"

definition send_test_alert :: "int \<Rightarrow> alert" where
  "send_test_alert t = \<lparr>alert_id = ''test'', alert_level = ''info'', alert_status = ''active'',
     alert_source_type = ''system'', alert_source_id = ''notification-test'',
     alert_title = zh ''4b564d204d616e6167657220e6b58be8af95e9809ae79fa5'', alert_message = zh ''e8bf99e698afe4b880e69da1e9809ae79fa5e5aa92e4bb8be6b58be8af95e6b688e681af'', alert_metadata = Map.empty,
     alert_first_seen_at = t, alert_last_seen_at = t, alert_resolved_at = None,
     alert_notification_sent_at = None, alert_read_at = None, alert_dismissed_at = None,
     alert_created_at = - 62135596800, alert_updated_at = - 62135596800\<rparr>"

definition SendTest :: "notice_env \<Rightarrow> channel \<Rightarrow> notice_error option db_prog" where
  "SendTest E c =
    bindp notification_timeout (\<lambda>timeout.
    ret (outcome_of (send_alert (withAlertHTTPTimeout timeout E) c
      (''problem'', send_test_alert (ns_now E div 1000)))))"

text \<open>What \<open>NotifyDelivery\<close> of \<open>Alert_Service\<close> calls: the message of a failed attempt.\<close>

definition channel_transport :: "notice_env \<Rightarrow> transport" where
  "channel_transport E t c q a =
     map_option notice_UserFacingErrorMessage (outcome_of (send_alert E c (dl_event_type q, a)))"

text \<open>The channels in turn: whether one took the event, and how many were asked.\<close>

fun notify_channels :: "notice_env \<Rightarrow> notice_event \<Rightarrow> channel list \<Rightarrow> bool \<Rightarrow> nat \<Rightarrow> bool \<times> nat" where
  "notify_channels E event [] sent n = (sent, n)"
| "notify_channels E event (c # cs) sent n =
    (if \<not> ch_enabled c \<or> (fst event = ''recovery'' \<and> \<not> ch_send_recovery c)
     then notify_channels E event cs sent n
     else notify_channels E event cs (sent \<or> outcome_of (send_alert E c event) = None) (Suc n))"

definition NotifyAlertEvent :: "notice_env \<Rightarrow> notice_event \<Rightarrow> unit db_prog" where
  "NotifyAlertEvent E event =
    bindp notification_timeout (\<lambda>timeout.
    bindp (attempt ListNotificationChannels) (\<lambda>r. case r of
      Inl _ \<Rightarrow> ret ()
    | Inr cs \<Rightarrow>
       (let (sent, n) = notify_channels (withAlertHTTPTimeout timeout E) event cs False 0 in
        if fst event = ''problem'' \<and> (sent \<or> n = 0)
        then ignore (MarkAlertNotificationSent (alert_id (snd event))) else ret ())))"

definition NotifyAlert :: "notice_env \<Rightarrow> alert \<Rightarrow> unit db_prog" where
  "NotifyAlert E a = NotifyAlertEvent E (''problem'', a)"

end
