(* ===== verification/Settings_Config.thy ===== *)
theory Settings_Config
  imports Notice_Mail Reset Auth_Wecom
begin

text \<open>
  The settings of notification channels and login providers: what a save accepts and keeps, what is shown of the
  secrets, and the handlers (\<open>api/router/notifications.go\<close>, \<open>auth_providers.go\<close>, \<open>settings_secret_redaction.go\<close>).
\<close>

section \<open>Secrets\<close>

definition notificationSecretKeys :: "string \<Rightarrow> string list" where
  "notificationSecretKeys i =
    (if i = ''email'' then [''password'']
     else if i = ''lark'' \<or> i = ''dingtalk'' then [''secret'']
     else if i = ''lark_app'' \<or> i = ''dingtalk_app'' then [''appSecret'']
     else if i = ''wechat_app'' then [''secret'']
     else [])"

definition secretPresenceKey :: "string \<Rightarrow> string" where
  "secretPresenceKey key = (case TrimSpace key of [] \<Rightarrow> ''hasSecret'' | c # s \<Rightarrow> ''has'' @ ToUpper [c] @ s)"

text \<open>The stored text is kept as it is when there is nothing to hide.\<close>

definition redactConfigSecrets :: "members \<Rightarrow> string list \<Rightarrow> members" where
  "redactConfigSecrets config keys = fold (\<lambda>key m.
     if stringValue (json_get m key) = [] then m
     else json_set (secretPresenceKey key) (VBool True) (json_drop key m)) keys config"

definition discardSecretPresenceMarkers :: "string list \<Rightarrow> members \<Rightarrow> members" where
  "discardSecretPresenceMarkers keys config = fold (\<lambda>key. json_drop (secretPresenceKey key)) keys config"

definition retainedNotificationSecretMarkers :: "string \<Rightarrow> members \<Rightarrow> string list" where
  "retainedNotificationSecretMarkers i config = filter (\<lambda>key.
     boolValue (json_get config (secretPresenceKey key)) \<and> stringValue (json_get config key) = [])
     (notificationSecretKeys i)"

definition keep_secret :: "members \<Rightarrow> string \<Rightarrow> members \<Rightarrow> members" where
  "keep_secret previous key config =
    (if stringValue (json_get previous key) \<noteq> []
     then json_set key (VStr (stringValue (json_get previous key))) config else config)"

definition mergeRetainedNotificationSecrets :: "string \<Rightarrow> members \<Rightarrow> string list \<Rightarrow> members \<Rightarrow> members" where
  "mergeRetainedNotificationSecrets i previous retained config =
    (if previous = [] then config
     else fold (\<lambda>key m. if stringValue (json_get m key) = [] \<or> key \<in> set retained then keep_secret previous key m else m)
       (notificationSecretKeys i) config)"

section \<open>The configuration of a channel\<close>

definition bad_config :: "string \<Rightarrow> notice_error + members" where
  "bad_config message = Inl (Errorf message)"

definition validated :: "notice_env \<Rightarrow> members \<Rightarrow> notice_error + members" where
  "validated E config =
    (case ValidateTemplateConfig (ns_local_time E) (ns_decode E) (ns_now E div 1000) config of
       Some e \<Rightarrow> Inl e | None \<Rightarrow> Inr config)"

text \<open>The first of the needed that is blank, by its label.\<close>

definition first_missing :: "members \<Rightarrow> (string \<times> string) list \<Rightarrow> string option" where
  "first_missing config needed = map_option snd (find (\<lambda>(key, _). stringValue (json_get config key) = []) needed)"

definition requiring ::
  "members \<Rightarrow> (string \<times> string) list \<Rightarrow> notice_error + members \<Rightarrow> notice_error + members" where
  "requiring config needed k = (case first_missing config needed of
     Some label \<Rightarrow> bad_config (label @ (zh ''e4b88de883bde4b8bae7a9ba'')) | None \<Rightarrow> k)"

definition validateLarkCardTemplateFields :: "members \<Rightarrow> bool" where
  "validateLarkCardTemplateFields config \<longleftrightarrow> list_all (\<lambda>key.
     stringValue (json_get config key) = [] \<or> IsLarkCardTemplate (stringValue (json_get config key)))
     [''larkProblemCardTemplate'', ''larkRecoveryCardTemplate'']"

definition isAllowedValue :: "string \<Rightarrow> string list \<Rightarrow> bool" where
  "isAllowedValue v allowed \<longleftrightarrow> v \<in> set allowed"

definition message_type_allowed :: "members \<Rightarrow> string \<Rightarrow> string list \<Rightarrow> bool" where
  "message_type_allowed config key allowed \<longleftrightarrow> isAllowedValue (stringValue (json_get config key)) ([] # allowed)"

definition sanitize_webhook :: "notice_env \<Rightarrow> members \<Rightarrow> notice_error + members" where
  "sanitize_webhook E config =
    (if stringValue (json_get config ''url'') = [] then bad_config (zh ''576562686f6f6b2055524c20e4b88de883bde4b8bae7a9ba'')
     else
      (let verb = ToUpper (stringValue (json_get config ''method'')) in
       if verb \<noteq> [] \<and> \<not> isAllowedValue verb [''POST'', ''PUT'', ''PATCH'']
       then bad_config (zh ''576562686f6f6b20e8afb7e6b182e696b9e6b395e4bb85e694afe68c8120504f5354e3808150555420e68896205041544348'')
       else
        (let config = (if verb \<noteq> [] then json_set ''method'' (VStr verb) config else config) in
         if stringValue (json_get config ''headers'') = []
         then validated E (removeEmptyConfigValues (json_drop ''headers'' config))
         else (case json_get config ''headers'' of
             VObj _ \<Rightarrow> validated E (removeEmptyConfigValues config)
           | _ \<Rightarrow> bad_config (zh ''e8afb7e6b182e5a4b4204a534f4e20e6a0bce5bc8fe4b88de6ada3e7a1ae'')))))"

definition email_recipients :: "members \<Rightarrow> members" where
  "email_recipients config = (case json_get config ''to'' of
      VStr s \<Rightarrow> json_set ''to'' (VList (map VStr (filter (\<lambda>t. t \<noteq> []) (map TrimSpace (Split (CHR '','') s))))) config
    | _ \<Rightarrow> config)"

definition sanitize_email :: "notice_env \<Rightarrow> members \<Rightarrow> notice_error + members" where
  "sanitize_email E config =
    (if \<not> message_type_allowed config ''emailContentType'' [''text/plain'', ''text/html'']
     then bad_config (zh ''e982aee4bbb6e58685e5aeb9e7b1bbe59e8be4bb85e694afe68c8120746578742f706c61696e20e6889620746578742f68746d6c'')
     else
      (let config = email_recipients config; tls = boolValue (json_get config ''useTLS'');
           start = boolValue (json_get config ''startTLS'') in
       if tls \<and> start then bad_config (zh ''544c5320e4b88e205354415254544c5320e4b88de883bde5908ce697b6e590afe794a8'')
       else requiring config [(''smtpHost'', zh ''534d545020e4b8bbe69cba''), (''username'', zh ''e794a8e688b7e5908d''), (''password'', zh ''e5af86e7a081''),
         (''from'', zh ''e58f91e4bbb6e4baba'')]
        (if stringList (json_get config ''to'') = [] then bad_config (zh ''e694b6e4bbb6e4babae4b88de883bde4b8bae7a9ba'')
         else if tls then validated E (json_drop ''allowInsecureAuth'' (json_set ''smtpPort'' (VNum 465) config))
         else if start then validated E (json_drop ''allowInsecureAuth'' (json_set ''smtpPort'' (VNum 587) config))
         else if not_positive (numberValue (json_get config ''smtpPort'')) then bad_config (zh ''534d545020e7abafe58fa3e4b88de883bde4b8bae7a9ba'')
         else validated E config)))"

definition sanitize_lark_message :: "notice_env \<Rightarrow> members \<Rightarrow> notice_error + members" where
  "sanitize_lark_message E config =
    (if \<not> message_type_allowed config ''larkMessageType'' [''text'', ''post'', ''interactive'']
     then bad_config (zh ''e9a39ee4b9a6e6b688e681afe7b1bbe59e8be4bb85e694afe68c812074657874e38081706f737420e6889620696e746572616374697665'')
     else if \<not> validateLarkCardTemplateFields config then bad_config (zh ''e9a39ee4b9a6e58da1e78987e6a087e9a298e9a29ce889b2e4b88de6ada3e7a1ae'')
     else validated E config)"

definition sanitize_lark :: "notice_env \<Rightarrow> members \<Rightarrow> notice_error + members" where
  "sanitize_lark E config =
    (if stringValue (json_get config ''webhookUrl'') = [] then bad_config (zh ''e69cbae599a8e4baba20576562686f6f6b20e4b88de883bde4b8bae7a9ba'')
     else sanitize_lark_message E config)"

definition sanitize_lark_app :: "notice_env \<Rightarrow> members \<Rightarrow> notice_error + members" where
  "sanitize_lark_app E config = requiring config [(''appId'', zh ''e9a39ee4b9a620417070204944''), (''appSecret'', zh ''e9a39ee4b9a62041707020536563726574''),
      (''receiveIdType'', zh ''e68ea5e694b620494420e7b1bbe59e8b''), (''receiveId'', zh ''e68ea5e694b6204944'')]
    (if \<not> isAllowedValue (stringValue (json_get config ''receiveIdType''))
         [''open_id'', ''user_id'', ''union_id'', ''email'', ''chat_id'']
     then bad_config (zh ''e9a39ee4b9a6e68ea5e694b620494420e7b1bbe59e8be4bb85e694afe68c81206f70656e5f6964e38081757365725f6964e38081756e696f6e5f6964e38081656d61696c20e6889620636861745f6964'')
     else sanitize_lark_message E config)"

definition sanitize_wechat_message :: "notice_env \<Rightarrow> members \<Rightarrow> notice_error + members" where
  "sanitize_wechat_message E config =
    (if \<not> message_type_allowed config ''wechatMessageType'' [''text'', ''markdown'']
     then bad_config (zh ''e4bc81e4b89ae5beaee4bfa1e6b688e681afe7b1bbe59e8be4bb85e694afe68c81207465787420e68896206d61726b646f776e'') else validated E config)"

definition sanitize_wechat :: "notice_env \<Rightarrow> members \<Rightarrow> notice_error + members" where
  "sanitize_wechat E config =
    (if stringValue (json_get config ''webhookUrl'') = [] then bad_config (zh ''e69cbae599a8e4baba20576562686f6f6b20e4b88de883bde4b8bae7a9ba'')
     else sanitize_wechat_message E config)"

definition sanitize_wechat_app :: "notice_env \<Rightarrow> members \<Rightarrow> notice_error + members" where
  "sanitize_wechat_app E config = requiring config [(''corpId'', zh ''e4bc81e4b89a204944''), (''agentId'', zh ''e5ba94e794a8204167656e744964''),
      (''secret'', zh ''e5ba94e794a820536563726574'')]
    (if stringValue (json_get config ''toUser'') = [] \<and> stringValue (json_get config ''toParty'') = []
       \<and> stringValue (json_get config ''toTag'') = []
     then bad_config (zh ''e4bc81e4b89ae5beaee4bfa1e68ea5e694b6e4babae38081e983a8e997a8e68896e6a087e7adbee887b3e5b091e5a1abe58699e4b880e9a1b9'')
     else sanitize_wechat_message E config)"

definition sanitize_dingtalk_message :: "notice_env \<Rightarrow> members \<Rightarrow> notice_error + members" where
  "sanitize_dingtalk_message E config =
    (if \<not> message_type_allowed config ''dingtalkMessageType'' [''text'', ''markdown'']
     then bad_config (zh ''e99289e99289e6b688e681afe7b1bbe59e8be4bb85e694afe68c81207465787420e68896206d61726b646f776e'') else validated E config)"

definition sanitize_dingtalk :: "notice_env \<Rightarrow> members \<Rightarrow> notice_error + members" where
  "sanitize_dingtalk E config =
    (if stringValue (json_get config ''webhookUrl'') = [] then bad_config (zh ''e69cbae599a8e4baba20576562686f6f6b20e4b88de883bde4b8bae7a9ba'')
     else sanitize_dingtalk_message E config)"

definition sanitize_dingtalk_app :: "notice_env \<Rightarrow> members \<Rightarrow> notice_error + members" where
  "sanitize_dingtalk_app E config = requiring config [(''appKey'', zh ''e99289e99289204170704b6579''), (''appSecret'', zh ''e99289e9928920417070536563726574''),
      (''agentId'', zh ''e5ba94e794a8204167656e744964'')]
    (if stringValue (json_get config ''useridList'') = [] \<and> stringValue (json_get config ''deptIdList'') = []
     then bad_config (zh ''e99289e99289e794a8e688b7e58897e8a1a8e68896e983a8e997a8e58897e8a1a8e887b3e5b091e5a1abe58699e4b880e9a1b9'')
     else sanitize_dingtalk_message E config)"

definition sanitize_enabled :: "notice_env \<Rightarrow> string \<Rightarrow> members \<Rightarrow> notice_error + members" where
  "sanitize_enabled E i config =
    (if i = ''webhook'' then sanitize_webhook E config
     else if i = ''email'' then sanitize_email E config
     else if i = ''lark'' then sanitize_lark E config
     else if i = ''lark_app'' then sanitize_lark_app E config
     else if i = ''wechat'' then sanitize_wechat E config
     else if i = ''wechat_app'' then sanitize_wechat_app E config
     else if i = ''dingtalk'' then sanitize_dingtalk E config
     else if i = ''dingtalk_app'' then sanitize_dingtalk_app E config
     else validated E config)"

definition sanitizeNotificationConfigForUpdate ::
  "notice_env \<Rightarrow> string \<Rightarrow> members \<Rightarrow> members \<Rightarrow> bool \<Rightarrow> bool \<Rightarrow> notice_error + members" where
  "sanitizeNotificationConfigForUpdate E i config previous enabled clearConfig =
    (let trimmed = trim_texts config; retained = retainedNotificationSecretMarkers i trimmed;
         plain = discardSecretPresenceMarkers (notificationSecretKeys i) trimmed;
         merge = (\<lambda>m. if clearConfig then m else mergeRetainedNotificationSecrets i previous retained m) in
     if \<not> enabled then Inr (merge (removeEmptyConfigValues (json_drop ''sendRecovery'' plain)))
     else sanitize_enabled E i (merge plain))"

definition sanitizeNotificationConfigWithPrevious ::
  "notice_env \<Rightarrow> string \<Rightarrow> members \<Rightarrow> members \<Rightarrow> bool \<Rightarrow> notice_error + members" where
  "sanitizeNotificationConfigWithPrevious E i config previous enabled =
     sanitizeNotificationConfigForUpdate E i config previous enabled False"

section \<open>The configuration of a provider\<close>

definition normalizeBaseURL :: "string \<Rightarrow> string \<Rightarrow> string + string" where
  "normalizeBaseURL v label = (let v = TrimRight (TrimSpace v) ''/'' in
     if \<not> HasPrefix v ''http://'' \<and> \<not> HasPrefix v ''https://''
     then Inl (label @ (zh ''e5bf85e9a1bbe4bba520687474703a2f2f20e688962068747470733a2f2f20e5bc80e5a4b4'')) else Inr v)"

text \<open>The secrets keep their stored value when the form leaves them blank.\<close>

definition keep_blank_secret :: "members \<Rightarrow> string \<Rightarrow> members \<Rightarrow> members" where
  "keep_blank_secret previous key config =
    (if stringValue (json_get config key) = [] then keep_secret previous key config else config)"

definition require_texts :: "members \<Rightarrow> (string \<times> string) list \<Rightarrow> string + members \<Rightarrow> string + members" where
  "require_texts config needed k = (case first_missing config needed of Some message \<Rightarrow> Inl message | None \<Rightarrow> k)"

definition sanitizeLDAPProviderConfig :: "members \<Rightarrow> members \<Rightarrow> bool \<Rightarrow> string + members" where
  "sanitizeLDAPProviderConfig config previous enabled =
    (let config = fold json_drop [''defaultRole'', ''adminGroupDN'', ''usernameAttribute'', ''displayNameAttribute'',
           ''emailAttribute''] config;
         config = discardSecretPresenceMarkers [''bindPassword''] config in
     if \<not> enabled then Inr (removeEmptyConfigValues config)
     else
      (let config = keep_blank_secret previous ''bindPassword'' config;
           tls = boolValue (json_get config ''useTLS''); start = boolValue (json_get config ''startTLS'') in
       require_texts config [(''host'', zh ''4c44415020e69c8de58aa1e599a8e59cb0e59d80e4b88de883bde4b8bae7a9ba''), (''baseDN'', zh ''4261736520444e20e4b88de883bde4b8bae7a9ba''),
         (''userFilter'', zh ''e794a8e688b7e8bf87e6bba4e599a8e4b88de883bde4b8bae7a9ba''), (''bindDN'', zh ''e7bb91e5ae9a20444e20e4b88de883bde4b8bae7a9ba''), (''bindPassword'', zh ''e7bb91e5ae9ae5af86e7a081e4b88de883bde4b8bae7a9ba'')]
        (if tls \<and> start then Inl (zh ''4c4441505320e4b88e205374617274544c5320e4b88de883bde5908ce697b6e590afe794a8'')
         else if tls then Inr (removeEmptyConfigValues (json_set ''port'' (VNum 636) config))
         else if start then Inr (removeEmptyConfigValues (json_set ''port'' (VNum 389) config))
         else if not_positive (numberValue (json_get config ''port'')) then Inl (zh ''e7abafe58fa3e4b88de883bde4b8bae7a9ba'')
         else Inr (removeEmptyConfigValues config))))"

definition sanitize_wecom_sso :: "members \<Rightarrow> string + members" where
  "sanitize_wecom_sso config =
    (if stringValue (json_get config ''ssoBaseUrl'') = [] then Inl (zh ''e8aea4e8af81e4b8ade5bf83e59cb0e59d80e4b88de883bde4b8bae7a9ba'')
     else (case normalizeBaseURL (stringValue (json_get config ''ssoBaseUrl'')) (zh ''e8aea4e8af81e4b8ade5bf83e59cb0e59d80'') of
         Inl message \<Rightarrow> Inl message
       | Inr base \<Rightarrow>
          (let config = json_set ''ssoBaseUrl'' (VStr base) config in
           require_texts config [(''ssoAppID'', zh ''e5ba94e794a8e6a087e8af86e4b88de883bde4b8bae7a9ba''), (''ssoAppSecret'', zh ''e5ba94e794a8e5af86e992a5e4b88de883bde4b8bae7a9ba'')]
             (Inr (removeEmptyConfigValues config)))))"

definition sanitize_wecom_direct :: "members \<Rightarrow> string + members" where
  "sanitize_wecom_direct config =
    (if stringValue (json_get config ''corpid'') = [] then Inl (zh ''e4bc81e4b89a204944efbc88636f72706964efbc89e4b88de883bde4b8bae7a9ba'')
     else
      (let agentid = int_of_float (numberValue (json_get config ''agentid''));
           config = json_set ''agentid'' (VNum (of_int agentid)) config in
       if agentid \<le> 0 then Inl (zh ''e5ba94e794a8204167656e74494420e4b88de883bde4b8bae7a9ba'')
       else if stringValue (json_get config ''secret'') = [] then Inl (zh ''e5ba94e794a82053656372657420e4b88de883bde4b8bae7a9ba'')
       else if stringValue (json_get config ''redirectPrefix'') \<noteq> [] then
         (case normalizeBaseURL (stringValue (json_get config ''redirectPrefix'')) (zh ''e59b9ee8b083e59cb0e59d80e5898de7bc80'') of
            Inl message \<Rightarrow> Inl message
          | Inr prefix \<Rightarrow> Inr (removeEmptyConfigValues (json_set ''redirectPrefix'' (VStr prefix) config)))
       else Inr (removeEmptyConfigValues config)))"

definition sanitizeWecomProviderConfig :: "members \<Rightarrow> members \<Rightarrow> bool \<Rightarrow> string + members" where
  "sanitizeWecomProviderConfig config previous enabled =
    (let config = discardSecretPresenceMarkers [''secret'', ''ssoAppSecret''] config in
     if \<not> enabled then Inr (removeEmptyConfigValues config)
     else
      (let config = keep_blank_secret previous ''secret'' config;
           config = keep_blank_secret previous ''ssoAppSecret'' config;
           authMode = stringValue (json_get config ''authMode'') in
       if authMode \<noteq> [] \<and> authMode \<noteq> ''direct'' \<and> authMode \<noteq> ''sso''
       then Inl (zh ''e8aea4e8af81e696b9e5bc8fe4bb85e694afe68c812064697265637420e688962073736f'')
       else
        (let config = (if authMode = [] then json_set ''authMode'' (VStr ''direct'') config else config) in
         if stringValue (json_get config ''authMode'') = ''sso'' then sanitize_wecom_sso config
         else sanitize_wecom_direct config)))"

definition sanitizeAuthProviderConfigWithPrevious ::
  "string \<Rightarrow> members \<Rightarrow> members \<Rightarrow> bool \<Rightarrow> string + members" where
  "sanitizeAuthProviderConfigWithPrevious i config previous enabled =
    (if i = ''wecom'' then sanitizeWecomProviderConfig (trim_texts config) previous enabled
     else if i = ''ldap'' then sanitizeLDAPProviderConfig (trim_texts config) previous enabled
     else Inl (zh ''e4b88de694afe68c81e79a84e8aea4e8af81e9858de7bdae''))"

section \<open>The rows\<close>

definition UpsertNotificationChannel :: "string \<Rightarrow> bool \<Rightarrow> bool \<Rightarrow> members \<Rightarrow> channel db_prog" where
  "UpsertNotificationChannel i enabled passwordReset config =
    (let c = \<lparr>ch_id = i, ch_enabled = enabled, ch_password_reset_enabled = passwordReset, ch_config = config\<rparr> in
     stmt (\<lambda>d. (Inr c, d\<lparr>channels :=
       (if i \<in> ch_id ` set (channels d) then upd_where (\<lambda>q. ch_id q = i) (\<lambda>_. c) (channels d)
        else channels d @ [c])\<rparr>)))"

definition redactNotificationChannel :: "channel \<Rightarrow> channel" where
  "redactNotificationChannel c =
    (let c = (if isPasswordResetChannel (ch_id c) then c else c\<lparr>ch_password_reset_enabled := False\<rparr>) in
     c\<lparr>ch_config := redactConfigSecrets (ch_config c) (notificationSecretKeys (ch_id c))\<rparr>)"

definition redactAuthProvider :: "auth_provider \<Rightarrow> auth_provider" where
  "redactAuthProvider p = p\<lparr>ap_config := redactConfigSecrets (ap_config p)
     (if ap_type p = ''wecom'' then [''secret'', ''ssoAppSecret''] else [''bindPassword''])\<rparr>"

section \<open>Handlers\<close>

datatype settings_body =
    SError string string
  | SChannels "channel list" nat
  | SChannel channel
  | SPreview TemplatePreview
  | SProviders "auth_provider list" nat
  | SProvider auth_provider
  | SPublicProviders "auth_provider list" nat
  | SOk
  | STested int string

type_synonym settings_answer = "int \<times> settings_body"

type_synonym settings_prog = "settings_answer db_prog"

definition settings_refuse :: "int \<Rightarrow> string \<Rightarrow> string \<Rightarrow> settings_prog" where
  "settings_refuse status code message = ret (status, SError code message)"

definition isNotificationChannelID :: "string \<Rightarrow> bool" where
  "isNotificationChannelID i \<longleftrightarrow> i \<in> set [''webhook'', ''email'', ''lark'', ''wechat'', ''dingtalk'', ''lark_app'',
     ''wechat_app'', ''dingtalk_app'']"

definition isAuthProviderID :: "string \<Rightarrow> bool" where
  "isAuthProviderID i \<longleftrightarrow> i \<in> set [''ldap'', ''wecom'']"

text \<open>The identifier and the action of a path, both of them for the channels and the providers.\<close>

definition parse_settings_path :: "string \<Rightarrow> string \<Rightarrow> (string \<times> string) option" where
  "parse_settings_path prefix path =
    (case Split (CHR ''/'') (TrimCut (TrimPrefix path prefix) ''/'') of
       [i] \<Rightarrow> if i \<noteq> [] then Some (i, []) else None
     | [i, action] \<Rightarrow> if i \<noteq> [] \<and> action \<noteq> [] then Some (i, action) else None
     | _ \<Rightarrow> None)"

definition parseNotificationPath :: "string \<Rightarrow> (string \<times> string) option" where
  "parseNotificationPath path = parse_settings_path ''/api/settings/notifications/'' path"

definition parseAuthProviderPath :: "string \<Rightarrow> (string \<times> string) option" where
  "parseAuthProviderPath path = parse_settings_path ''/api/settings/auth-providers/'' path"

record notificationChannelRequest =
  nr_Enabled :: bool
  nr_PasswordResetEnabled :: bool
  nr_ClearConfig :: bool
  nr_Config :: members

record authProviderRequest =
  pr_Name :: string
  pr_Enabled :: bool
  pr_Config :: members

definition handleListNotificationChannels :: settings_prog where
  "handleListNotificationChannels =
    bindp (attempt ListNotificationChannels) (\<lambda>r. case r of
      Inl _ \<Rightarrow> settings_refuse 500 ''list_notifications_failed'' (zh ''e8afbbe58f96e9809ae79fa5e9858de7bdaee5a4b1e8b4a5'')
    | Inr items \<Rightarrow> ret (200, SChannels (map redactNotificationChannel items) (length items)))"

text \<open>The stored configuration; any error of the query counts as an empty one.\<close>

definition previous_config :: "('a db_prog) \<Rightarrow> ('a \<Rightarrow> members) \<Rightarrow> members db_prog" where
  "previous_config found config =
    bindp (attempt found) (\<lambda>r. ret (case r of Inl _ \<Rightarrow> [] | Inr row \<Rightarrow> config row))"

definition handleUpdateNotificationChannel ::
  "notice_env \<Rightarrow> string \<Rightarrow> string \<Rightarrow> string \<Rightarrow> notificationChannelRequest option \<Rightarrow> settings_prog" where
  "handleUpdateNotificationChannel E uid ip i decoded =
    (if \<not> isNotificationChannelID i then settings_refuse 404 ''notification_not_found'' (zh ''e9809ae79fa5e5aa92e4bb8be4b88de5ad98e59ca8'')
     else (case decoded of
         None \<Rightarrow> settings_refuse 400 ''invalid_request'' (zh ''e9809ae79fa5e9858de7bdaee6a0bce5bc8fe4b88de6ada3e7a1ae'')
       | Some b \<Rightarrow>
          (let passwordReset = (nr_PasswordResetEnabled b \<and> isPasswordResetChannel i) in
           bindp (previous_config (GetNotificationChannel i) ch_config) (\<lambda>previous.
           case sanitizeNotificationConfigForUpdate E i (nr_Config b) previous (nr_Enabled b \<or> passwordReset)
               (nr_ClearConfig b) of
             Inl e \<Rightarrow> settings_refuse 400 ''invalid_notification_config'' (notice_UserFacingErrorMessage e)
           | Inr config \<Rightarrow>
               bindp (attempt (UpsertNotificationChannel i (nr_Enabled b) passwordReset config)) (\<lambda>saved. case saved of
                 Inl _ \<Rightarrow> settings_refuse 500 ''save_notification_failed'' (zh ''e4bf9de5ad98e9809ae79fa5e9858de7bdaee5a4b1e8b4a5'')
               | Inr c \<Rightarrow>
                   bindp (ignore (WriteAudit uid ''settings.notification.update'' ''notification_channel'' i ip
                     [''enabled'' \<mapsto> JBool (nr_Enabled b), ''passwordResetEnabled'' \<mapsto> JBool passwordReset])) (\<lambda>_.
                   ret (200, SChannel (redactNotificationChannel c))))))))"

definition handleTestNotificationChannel :: "notice_env \<Rightarrow> string \<Rightarrow> string \<Rightarrow> string \<Rightarrow> settings_prog" where
  "handleTestNotificationChannel E uid ip i =
    (if \<not> isNotificationChannelID i then settings_refuse 404 ''notification_not_found'' (zh ''e9809ae79fa5e5aa92e4bb8be4b88de5ad98e59ca8'')
     else
      bindp (attempt (GetNotificationChannel i)) (\<lambda>r. case r of
        Inl e \<Rightarrow> (if e = ErrNotFound then settings_refuse 404 ''notification_not_found'' (zh ''e9809ae79fa5e5aa92e4bb8be4b88de5ad98e59ca8'')
            else settings_refuse 500 ''get_notification_failed'' (zh ''e8afbbe58f96e9809ae79fa5e9858de7bdaee5a4b1e8b4a5''))
      | Inr c \<Rightarrow>
          bindp (SendTest E c) (\<lambda>failed. case failed of
            Some e \<Rightarrow> settings_refuse 503 ''notification_test_failed'' (notice_UserFacingErrorMessage e)
          | None \<Rightarrow>
              bindp (ignore (WriteAudit uid ''settings.notification.test'' ''notification_channel'' i ip Map.empty)) (\<lambda>_.
              ret (200, SOk)))))"

text \<open>\<open>first_seen\<close> is the instant of the sample alert.\<close>

definition handlePreviewNotificationChannel ::
  "notice_env \<Rightarrow> int \<Rightarrow> string \<Rightarrow> notificationChannelRequest option \<Rightarrow> settings_prog" where
  "handlePreviewNotificationChannel E first_seen i decoded =
    (if \<not> isNotificationChannelID i then settings_refuse 404 ''notification_not_found'' (zh ''e9809ae79fa5e5aa92e4bb8be4b88de5ad98e59ca8'')
     else (case decoded of
         None \<Rightarrow> settings_refuse 400 ''invalid_request'' (zh ''e9809ae79fa5e9858de7bdaee6a0bce5bc8fe4b88de6ada3e7a1ae'')
       | Some b \<Rightarrow>
          bindp (previous_config (GetNotificationChannel i) ch_config) (\<lambda>previous.
          case sanitizeNotificationConfigWithPrevious E i (nr_Config b) previous False of
            Inl e \<Rightarrow> settings_refuse 400 ''invalid_notification_config'' (notice_UserFacingErrorMessage e)
          | Inr config \<Rightarrow>
             (case PreviewTemplateConfig (ns_local_time E) (ns_decode E) first_seen i config of
                Inl e \<Rightarrow> settings_refuse 400 ''invalid_notification_template'' (notice_UserFacingErrorMessage e)
              | Inr preview \<Rightarrow> ret (200, SPreview preview)))))"

definition handleNotificationRoute ::
  "notice_env \<Rightarrow> int \<Rightarrow> string \<Rightarrow> string \<Rightarrow> string \<Rightarrow> string \<Rightarrow> notificationChannelRequest option \<Rightarrow> settings_prog" where
  "handleNotificationRoute E first_seen uid ip verb path decoded =
    (case parseNotificationPath path of
       None \<Rightarrow> settings_refuse 404 ''not_found'' (zh ''e68ea5e58fa3e4b88de5ad98e59ca8'')
     | Some (i, action) \<Rightarrow>
         if verb = ''PUT'' \<and> action = [] then handleUpdateNotificationChannel E uid ip i decoded
         else if verb = ''POST'' \<and> action = ''test'' then handleTestNotificationChannel E uid ip i
         else if verb = ''POST'' \<and> action = ''preview'' then handlePreviewNotificationChannel E first_seen i decoded
         else settings_refuse 405 ''method_not_allowed'' (zh ''e8afb7e6b182e696b9e6b395e4b88de694afe68c81''))"

definition handlePublicAuthProviders :: settings_prog where
  "handlePublicAuthProviders =
    bindp (attempt ListEnabledPublicAuthProviders) (\<lambda>r. case r of
      Inl _ \<Rightarrow> settings_refuse 500 ''list_auth_providers_failed'' (zh ''e8afbbe58f96e8aea4e8af81e696b9e5bc8fe5a4b1e8b4a5'')
    | Inr items \<Rightarrow> ret (200, SPublicProviders (map (\<lambda>p. p\<lparr>ap_config := []\<rparr>) items) (length items)))"

definition handleListAuthProviders :: settings_prog where
  "handleListAuthProviders =
    bindp (attempt ListAuthProviders) (\<lambda>r. case r of
      Inl _ \<Rightarrow> settings_refuse 500 ''list_auth_providers_failed'' (zh ''e8afbbe58f96e8aea4e8af81e9858de7bdaee5a4b1e8b4a5'')
    | Inr items \<Rightarrow> ret (200, SProviders (map redactAuthProvider items) (length items)))"

definition handleUpdateAuthProvider ::
  "string \<Rightarrow> string \<Rightarrow> string \<Rightarrow> authProviderRequest option \<Rightarrow> settings_prog" where
  "handleUpdateAuthProvider uid ip i decoded =
    (if \<not> isAuthProviderID i then settings_refuse 404 ''auth_provider_not_found'' (zh ''e8aea4e8af81e9858de7bdaee4b88de5ad98e59ca8'')
     else (case decoded of
         None \<Rightarrow> settings_refuse 400 ''invalid_request'' (zh ''e8aea4e8af81e9858de7bdaee6a0bce5bc8fe4b88de6ada3e7a1ae'')
       | Some b \<Rightarrow>
          (let name = TrimSpace (pr_Name b) in
           if name = [] then settings_refuse 400 ''invalid_auth_provider_name'' (zh ''e698bee7a4bae5908de7a7b0e4b88de883bde4b8bae7a9ba'')
           else
            bindp (previous_config (GetAuthProvider i) ap_config) (\<lambda>previous.
            case sanitizeAuthProviderConfigWithPrevious i (pr_Config b) previous (pr_Enabled b) of
              Inl message \<Rightarrow> settings_refuse 400 ''invalid_auth_provider_config'' message
            | Inr config \<Rightarrow>
                bindp (attempt (UpsertAuthProvider \<lparr>ap_id = i, ap_type = i, ap_name = name,
                  ap_enabled = pr_Enabled b, ap_config = config\<rparr>)) (\<lambda>saved. case saved of
                  Inl _ \<Rightarrow> settings_refuse 500 ''save_auth_provider_failed'' (zh ''e4bf9de5ad98e8aea4e8af81e9858de7bdaee5a4b1e8b4a5'')
                | Inr p \<Rightarrow>
                    bindp (ignore (WriteAudit uid ''settings.auth_provider.update'' ''auth_provider'' i ip
                      [''enabled'' \<mapsto> JBool (pr_Enabled b)])) (\<lambda>_.
                    ret (200, SProvider (redactAuthProvider p))))))))"

text \<open>\<open>run_test\<close> is \<open>runAuthProviderTest\<close>: the message for the user of its error, or the number of users found.\<close>

definition handleTestAuthProvider ::
  "(string \<Rightarrow> auth_provider \<Rightarrow> string + int) \<Rightarrow> string \<Rightarrow> string \<Rightarrow> string \<Rightarrow> settings_prog" where
  "handleTestAuthProvider run_test uid ip i =
    (if \<not> isAuthProviderID i then settings_refuse 404 ''auth_provider_not_found'' (zh ''e8aea4e8af81e9858de7bdaee4b88de5ad98e59ca8'')
     else
      bindp (attempt (GetAuthProvider i)) (\<lambda>r. case r of
        Inl e \<Rightarrow> (if e = ErrNotFound then settings_refuse 404 ''auth_provider_not_found'' (zh ''e8aea4e8af81e9858de7bdaee4b88de5ad98e59ca8'')
            else settings_refuse 500 ''get_auth_provider_failed'' (zh ''e8afbbe58f96e8aea4e8af81e9858de7bdaee5a4b1e8b4a5''))
      | Inr p \<Rightarrow> (case run_test i p of
            Inl message \<Rightarrow> settings_refuse 503 ''auth_provider_test_failed'' message
          | Inr matched \<Rightarrow>
              bindp (ignore (WriteAudit uid ''settings.auth_provider.test'' ''auth_provider'' i ip Map.empty)) (\<lambda>_.
              ret (200, STested matched (if i = ''wecom'' then zh ''e4bc81e4b89ae5beaee4bfa1e8aea4e8af81e9858de7bdaee9aa8ce8af81e9809ae8bf87'' else []))))))"

definition handleAuthProviderRoute ::
  "(string \<Rightarrow> auth_provider \<Rightarrow> string + int) \<Rightarrow> string \<Rightarrow> string \<Rightarrow> string \<Rightarrow> string \<Rightarrow> authProviderRequest option
   \<Rightarrow> settings_prog" where
  "handleAuthProviderRoute run_test uid ip verb path decoded =
    (case parseAuthProviderPath path of
       None \<Rightarrow> settings_refuse 404 ''not_found'' (zh ''e68ea5e58fa3e4b88de5ad98e59ca8'')
     | Some (i, action) \<Rightarrow>
         if verb = ''PUT'' \<and> action = [] then handleUpdateAuthProvider uid ip i decoded
         else if verb = ''POST'' \<and> action = ''test'' then handleTestAuthProvider run_test uid ip i
         else settings_refuse 405 ''method_not_allowed'' (zh ''e8afb7e6b182e696b9e6b395e4b88de694afe68c81''))"

section \<open>The address of a client\<close>

text \<open>\<open>net.SplitHostPort\<close>: the host, if the text is a host with a port.\<close>

definition SplitHost :: "string \<Rightarrow> string option" where
  "SplitHost s =
    (if CHR '':'' \<notin> set s then None
     else
      (let before = rev (drop 1 (dropWhile (\<lambda>c. c \<noteq> CHR '':'') (rev s)));
           after = rev (takeWhile (\<lambda>c. c \<noteq> CHR '':'') (rev s)) in
       if HasPrefix s ''['' then
         (case Index s '']'' of
            None \<Rightarrow> None
          | Some e \<Rightarrow>
              if e + 1 \<noteq> length before then None
              else if CHR ''['' \<in> set (drop 1 s) \<or> CHR '']'' \<in> set (drop (e + 1) s) then None
              else Some (take (e - 1) (drop 1 s)))
       else if CHR '':'' \<in> set before \<or> CHR ''['' \<in> set s \<or> CHR '']'' \<in> set s then None
       else Some before))"

text \<open>The last check of the code, \<open>net.ParseIP\<close>, has the same result on both sides.\<close>

definition normalizeClientIP :: "string \<Rightarrow> string" where
  "normalizeClientIP v =
    (let v = TrimSpace v;
         v = (if CHR '','' \<in> set v then TrimSpace (hd (Split (CHR '','') v)) else v) in
     if v = [] then []
     else (case SplitHost v of Some host \<Rightarrow> host | None \<Rightarrow> TrimCut v ''[]''))"

definition ClientIP :: "string \<Rightarrow> string \<Rightarrow> string \<Rightarrow> string" where
  "ClientIP forwardedFor realIP remoteAddr =
    (case filter (\<lambda>ip. ip \<noteq> []) (map normalizeClientIP [forwardedFor, realIP, remoteAddr]) of
       [] \<Rightarrow> [] | ip # _ \<Rightarrow> ip)"

end
