(* ===== verification/Settings_Secrets.thy ===== *)
theory Settings_Secrets
  imports Settings_Config Access_Properties
begin

text \<open>
  What the settings show and keep of the secrets: no answer has one, a blank secret keeps the stored one of a
  channel, and the places where a save loses one.
\<close>

section \<open>Keys\<close>

lemma secret_keys: "notificationSecretKeys i \<in> {[], [''password''], [''secret''], [''appSecret'']}"
  by (simp add: notificationSecretKeys_def)

lemma trim_keys [simp]:
  "TrimSpace ''password'' = ''password''" "TrimSpace ''secret'' = ''secret''" "TrimSpace ''appSecret'' = ''appSecret''"
  "TrimSpace ''bindPassword'' = ''bindPassword''" "TrimSpace ''ssoAppSecret'' = ''ssoAppSecret''"
  by code_simp+

lemma presence_keys [simp]:
  "secretPresenceKey ''password'' = ''hasPassword''" "secretPresenceKey ''secret'' = ''hasSecret''"
  "secretPresenceKey ''appSecret'' = ''hasAppSecret''" "secretPresenceKey ''bindPassword'' = ''hasBindPassword''"
  "secretPresenceKey ''ssoAppSecret'' = ''hasSsoAppSecret''"
  by code_simp+

section \<open>What is shown\<close>

text \<open>
  The secrets as the manual lists them (\<open>docs/manual.md\<close>, the endpoints of the settings), by the type of the channel or
  provider, each with the marker that tells that it is set.
\<close>

definition manual_channel_secrets :: "(string \<times> (string \<times> string) list) list" where
  "manual_channel_secrets =
    [(''email'', [(''password'', ''hasPassword'')]), (''lark'', [(''secret'', ''hasSecret'')]),
     (''dingtalk'', [(''secret'', ''hasSecret'')]), (''wechat_app'', [(''secret'', ''hasSecret'')]),
     (''lark_app'', [(''appSecret'', ''hasAppSecret'')]), (''dingtalk_app'', [(''appSecret'', ''hasAppSecret'')]),
     (''webhook'', []), (''wechat'', [])]"

definition manual_provider_secrets :: "(string \<times> (string \<times> string) list) list" where
  "manual_provider_secrets =
    [(''ldap'', [(''bindPassword'', ''hasBindPassword'')]),
     (''wecom'', [(''secret'', ''hasSecret''), (''ssoAppSecret'', ''hasSsoAppSecret'')])]"

text \<open>A stored configuration as an answer may show it: no text under a secret, its marker instead, all else as stored.\<close>

definition shown_as :: "(string \<times> string) list \<Rightarrow> members \<Rightarrow> members \<Rightarrow> bool" where
  "shown_as secrets stored shown \<longleftrightarrow>
     (\<forall>(k, mark) \<in> set secrets. stringValue (json_get shown k) = [] \<and>
        (stringValue (json_get stored k) \<noteq> [] \<longrightarrow> json_get shown mark = VBool True)) \<and>
     (\<forall>q. q \<notin> fst ` set secrets \<union> snd ` set secrets \<longrightarrow> json_get shown q = json_get stored q)"

definition shows_channel :: "channel \<Rightarrow> channel \<Rightarrow> bool" where
  "shows_channel stored shown \<longleftrightarrow> ch_id shown = ch_id stored \<and>
     (\<forall>secrets. map_of manual_channel_secrets (ch_id stored) = Some secrets \<longrightarrow>
        shown_as secrets (ch_config stored) (ch_config shown))"

definition shows_provider :: "auth_provider \<Rightarrow> auth_provider \<Rightarrow> bool" where
  "shows_provider stored shown \<longleftrightarrow> ap_id shown = ap_id stored \<and>
     (\<forall>secrets. map_of manual_provider_secrets (ap_type stored) = Some secrets \<longrightarrow>
        shown_as secrets (ap_config stored) (ap_config shown))"

text \<open>What an answer shows of the stored rows.\<close>

definition shown_channels :: "settings_body \<Rightarrow> channel list" where
  "shown_channels b = (case b of SChannels cs _ \<Rightarrow> cs | SChannel c \<Rightarrow> [c] | _ \<Rightarrow> [])"

definition shown_providers :: "settings_body \<Rightarrow> auth_provider list" where
  "shown_providers b = (case b of SProviders ps _ \<Rightarrow> ps | SProvider p \<Rightarrow> [p] | _ \<Rightarrow> [])"

definition shown_logins :: "settings_body \<Rightarrow> auth_provider list" where
  "shown_logins b = (case b of SPublicProviders ps _ \<Rightarrow> ps | _ \<Rightarrow> [])"

lemma shown_simps [simp]:
  "shown_channels (SError code message) = []" "shown_channels (SPreview t) = []" "shown_channels SOk = []"
  "shown_channels (STested k message) = []" "shown_channels (SChannels cs n) = cs" "shown_channels (SChannel c) = [c]"
  "shown_channels (SProviders ps n) = []" "shown_channels (SProvider p) = []" "shown_channels (SPublicProviders ps n) = []"
  "shown_providers (SError code message) = []" "shown_providers (SPreview t) = []" "shown_providers SOk = []"
  "shown_providers (STested k message) = []" "shown_providers (SChannels cs n) = []" "shown_providers (SChannel c) = []"
  "shown_providers (SProviders ps n) = ps" "shown_providers (SProvider p) = [p]" "shown_providers (SPublicProviders ps n) = []"
  "shown_logins (SError code message) = []" "shown_logins (SPreview t) = []" "shown_logins SOk = []"
  "shown_logins (STested k message) = []" "shown_logins (SChannels cs n) = []" "shown_logins (SChannel c) = []"
  "shown_logins (SProviders ps n) = []" "shown_logins (SProvider p) = []" "shown_logins (SPublicProviders ps n) = ps"
  by (simp_all add: shown_channels_def shown_providers_def shown_logins_def)








text \<open>An answer that shows the rows of a database only so, and a program all of whose answers do.\<close>

definition discreet_answer :: "settings_body \<Rightarrow> db \<Rightarrow> bool" where
  "discreet_answer body d \<longleftrightarrow>
     (\<forall>c \<in> set (shown_channels body). \<exists>stored \<in> set (channels d). shows_channel stored c) \<and>
     (\<forall>p \<in> set (shown_providers body). \<exists>stored \<in> set (auth_providers d). shows_provider stored p) \<and>
     (\<forall>p \<in> set (shown_logins body). ap_config p = [])"

definition discreet :: "settings_prog \<Rightarrow> bool" where
  "discreet m \<longleftrightarrow> (\<forall>d status body d'. m d = (Inr (status, body), d') \<longrightarrow> discreet_answer body d')"

lemma discreet_refuse [simp]: "discreet (settings_refuse status code message)"
  by (simp add: discreet_def discreet_answer_def settings_refuse_def ret_def)

lemma discreet_ret [simp]: "shown_channels body = [] \<Longrightarrow> shown_providers body = [] \<Longrightarrow> shown_logins body = [] \<Longrightarrow> discreet (ret (status, body))"
  by (simp add: discreet_def discreet_answer_def ret_def)















section \<open>What a save keeps\<close>

lemma stringValue_idem [simp]: "TrimSpace (stringValue v) = stringValue v"
  by (cases v) simp_all

lemma map_of_trim_texts: "map_of (trim_texts m) k =
    map_option (\<lambda>v. case v of VStr s \<Rightarrow> VStr (TrimSpace s) | _ \<Rightarrow> v) (map_of m k)"
  by (induction m) (auto simp: trim_texts_def case_prod_unfold)

lemma stringValue_trim_texts [simp]: "stringValue (json_get (trim_texts m) k) = stringValue (json_get m k)"
  by (cases "map_of m k") (auto simp: json_get_def map_of_trim_texts split: jvalue.split)

lemma keys_trim_texts [simp]: "map fst (trim_texts m) = map fst m"
  by (simp add: trim_texts_def case_prod_unfold comp_def)

lemma distinct_drop: "distinct (map fst m) \<Longrightarrow> distinct (map fst (json_drop k m))"
  by (induction m) (auto simp: json_drop_def)

lemma removeEmpty_keys: "fst ` set (removeEmptyConfigValues m) \<subseteq> fst ` set m"
proof (induction m)
  case (Cons a m)
  then show ?case by (cases a) (auto split: option.split)
qed simp

lemma json_get_removeEmpty:
  "distinct (map fst m) \<Longrightarrow>
   json_get (removeEmptyConfigValues m) k = (case clean_value (json_get m k) of None \<Rightarrow> VNull | Some w \<Rightarrow> w)"
proof (induction m)
  case (Cons a m)
  obtain q v where a: "a = (q, v)" by force
  from Cons.prems a have out: "q \<notin> fst ` set (removeEmptyConfigValues m)" using removeEmpty_keys [of m] by auto
  then have "map_of (removeEmptyConfigValues m) q = None" by (simp add: map_of_eq_None_iff)
  with Cons a show ?case by (auto simp: json_get_def split: option.split)
qed (simp add: json_get_def)

lemma stringValue_removeEmpty:
  "distinct (map fst m) \<Longrightarrow> stringValue (json_get (removeEmptyConfigValues m) k) = stringValue (json_get m k)"
  by (cases "json_get m k") (simp_all add: json_get_removeEmpty Let_def)

lemma removeEmpty_dropped: "json_get (removeEmptyConfigValues (json_drop k m)) k = VNull"
proof -
  have "k \<notin> fst ` set (json_drop k m)" by (auto simp: json_drop_def)
  then have "k \<notin> fst ` set (removeEmptyConfigValues (json_drop k m))"
    using removeEmpty_keys [of "json_drop k m"] by (rule contra_subsetD [rotated])
  then have "map_of (removeEmptyConfigValues (json_drop k m)) k = None" by (simp add: map_of_eq_None_iff)
  then show ?thesis by (simp add: json_get_def)
qed

lemma discard_get: "k \<notin> secretPresenceKey ` set keys \<Longrightarrow>
    json_get (discardSecretPresenceMarkers keys m) k = json_get m k"
  by (induction keys arbitrary: m) (auto simp: discardSecretPresenceMarkers_def)

lemma distinct_discard: "distinct (map fst m) \<Longrightarrow> distinct (map fst (discardSecretPresenceMarkers keys m))"
  by (induction keys arbitrary: m) (auto simp: discardSecretPresenceMarkers_def distinct_drop)

lemma secret_not_marker:
  "k \<in> set (notificationSecretKeys i) \<Longrightarrow> k \<notin> secretPresenceKey ` set (notificationSecretKeys i)"
  using secret_keys [of i] by auto

lemma validated_Inr: "validated E m = Inr m' \<Longrightarrow> m' = m"
  by (auto simp: validated_def split: option.splits)

lemma bad_config_Inr [simp]: "bad_config message \<noteq> Inr m"
  by (simp add: bad_config_def)

lemma requiring_Inr: "requiring m needed k = Inr m' \<Longrightarrow> k = Inr m'"
  by (auto simp: requiring_def split: option.splits)

lemma email_recipients_get: "k \<noteq> ''to'' \<Longrightarrow> json_get (email_recipients m) k = json_get m k"
  by (auto simp: email_recipients_def split: jvalue.split)

text \<open>The checks of an enabled channel leave its secret alone.\<close>

lemma sanitize_keeps_secret:
  assumes "sanitize_enabled E i m = Inr m'" "k \<in> set (notificationSecretKeys i)"
  shows "json_get m' k = json_get m k"
  using assms
  by (auto simp: sanitize_enabled_def notificationSecretKeys_def sanitize_email_def sanitize_lark_def
      sanitize_lark_message_def sanitize_lark_app_def sanitize_wechat_app_def sanitize_wechat_message_def
      sanitize_dingtalk_def sanitize_dingtalk_message_def sanitize_dingtalk_app_def email_recipients_get Let_def
      dest!: requiring_Inr validated_Inr split: if_splits)

lemma merge_keeps:
  assumes "k \<in> set (notificationSecretKeys i)" "stringValue (json_get m k) = []"
    "stringValue (json_get previous k) \<noteq> []"
  shows "stringValue (json_get (mergeRetainedNotificationSecrets i previous retained m) k) = stringValue (json_get previous k)"
proof -
  have "previous \<noteq> []" using assms(3) by (auto simp: json_get_def)
  then show ?thesis using assms secret_keys [of i]
    by (auto simp: mergeRetainedNotificationSecrets_def keep_secret_def)
qed

text \<open>What a save makes of a blank secret: the stored one, or nothing when the stored configuration is empty.\<close>

lemma update_blank_secret:
  assumes "sanitizeNotificationConfigForUpdate E i config previous enabled False = Inr m"
    "k \<in> set (notificationSecretKeys i)" "distinct (map fst config)" "stringValue (json_get config k) = []"
  shows "stringValue (json_get previous k) \<noteq> [] \<Longrightarrow> stringValue (json_get m k) = stringValue (json_get previous k)"
    and "previous = [] \<Longrightarrow> stringValue (json_get m k) = []"
proof -
  let ?p = "discardSecretPresenceMarkers (notificationSecretKeys i) (trim_texts config)"
  let ?r = "retainedNotificationSecretMarkers i (trim_texts config)"
  let ?c = "removeEmptyConfigValues (json_drop ''sendRecovery'' ?p)"
  note notmark = secret_not_marker [OF assms(2)]
  have p: "stringValue (json_get ?p k) = []" using assms(4) notmark by (simp add: discard_get)
  have "distinct (map fst ?p)" using assms(3) by (simp add: distinct_discard)
  then have c: "stringValue (json_get ?c k) = []" using p by (simp add: stringValue_removeEmpty distinct_drop)
  have m: "json_get m k = json_get (mergeRetainedNotificationSecrets i previous ?r (if enabled then ?p else ?c)) k"
    using assms(1) sanitize_keeps_secret [OF _ assms(2)]
    by (auto simp: sanitizeNotificationConfigForUpdate_def Let_def split: if_splits)
  show "stringValue (json_get previous k) \<noteq> [] \<Longrightarrow> stringValue (json_get m k) = stringValue (json_get previous k)"
    using merge_keeps [OF assms(2)] p c unfolding m by simp
  show "previous = [] \<Longrightarrow> stringValue (json_get m k) = []"
    using p c unfolding m by (simp add: mergeRetainedNotificationSecrets_def)
qed

lemma row_of_replaced: "i \<in> key ` set rs \<Longrightarrow> key c = i \<Longrightarrow> row_of key i (upd_where (\<lambda>q. key q = i) (\<lambda>_. c) rs) = Some c"
  by (induction rs) (auto simp: row_of_def upd_where_def)

lemma row_of_inserted: "i \<notin> key ` set rs \<Longrightarrow> key c = i \<Longrightarrow> row_of key i (rs @ [c]) = Some c"
  by (simp add: row_of_append iffD2 [OF row_of_None_iff]) (simp add: row_of_def)

text \<open>The row after a save that is answered with 200.\<close>

lemma saved_channel:
  assumes "handleUpdateNotificationChannel E uid ip i (Some b) d = (Inr (200, body), d')"
    "previous_config (GetNotificationChannel i) ch_config d = (Inr previous, d1)" "faults d1 = []"
  shows "\<exists>c en. row_of ch_id i (channels d') = Some c \<and> (nr_Enabled b \<longrightarrow> en)
    \<and> sanitizeNotificationConfigForUpdate E i (nr_Config b) previous en (nr_ClearConfig b) = Inr (ch_config c)"
proof -
  let ?reset = "nr_PasswordResetEnabled b \<and> isPasswordResetChannel i"
  let ?s = "sanitizeNotificationConfigForUpdate E i (nr_Config b) previous (nr_Enabled b \<or> ?reset) (nr_ClearConfig b)"
  obtain m where m: "?s = Inr m"
    using assms(1,2)
    by (cases ?s) (auto simp: handleUpdateNotificationChannel_def settings_refuse_def Let_def run_simps split: if_splits)
  let ?c = "\<lparr>ch_id = i, ch_enabled = nr_Enabled b, ch_password_reset_enabled = ?reset, ch_config = m\<rparr>"
  have new: "channels d' = (if i \<in> ch_id ` set (channels d1) then upd_where (\<lambda>q. ch_id q = i) (\<lambda>_. ?c) (channels d1)
        else channels d1 @ [?c])"
    using assms m
    by (auto simp: handleUpdateNotificationChannel_def settings_refuse_def Let_def run_simps
        UpsertNotificationChannel_def WriteAudit_def split: if_splits)
  have row: "row_of ch_id i (channels d') = Some ?c"
  proof (cases "i \<in> ch_id ` set (channels d1)")
    case True
    have e: "channels d' = upd_where (\<lambda>q. ch_id q = i) (\<lambda>_. ?c) (channels d1)"
      using new if_P [OF True] by (rule trans)
    show ?thesis unfolding e by (rule row_of_replaced [OF True, of ?c]) simp
  next
    case False
    have e: "channels d' = channels d1 @ [?c]" using new if_not_P [OF False] by (rule trans)
    show ?thesis unfolding e by (rule row_of_inserted [OF False, of ?c]) simp
  qed
  show ?thesis
    by (rule exI [of _ ?c], rule exI [of _ "nr_Enabled b \<or> ?reset"]) (simp only: row m channel.select_convs simp_thms, blast)
qed

definition test_notice_env :: notice_env where
  "test_notice_env = \<lparr>ns_wire = \<lambda>_ _. HttpReply 200 ''200 OK'' Blank, ns_now = 0, ns_local_time = \<lambda>_. [],
     ns_rfc3339 = \<lambda>_. [], ns_marshal = \<lambda>_. ''{}'', ns_decode = \<lambda>_. Inr VNull, ns_hmac = \<lambda>k m. k,
     ns_mail_address = \<lambda>name address. address, ns_Timeout = 0\<rparr>"

definition stored_lark :: channel where
  "stored_lark = \<lparr>ch_id = ''lark'', ch_enabled = True, ch_password_reset_enabled = False,
     ch_config = [(''webhookUrl'', VStr ''u''), (''secret'', VStr ''s'')]\<rparr>"

definition blank_form :: notificationChannelRequest where
  "blank_form = \<lparr>nr_Enabled = True, nr_PasswordResetEnabled = False, nr_ClearConfig = False,
     nr_Config = [(''webhookUrl'', VStr ''v''), (''hasSecret'', VBool True)]\<rparr>"

lemma validated_plain:
  "text_field m ''webhookProblemPayload'' = [] \<Longrightarrow> text_field m ''webhookRecoveryPayload'' = [] \<Longrightarrow> validated E m = Inr m"
  by (simp add: validated_def ValidateTemplateConfig_def notificationTemplateConfig_def Let_def)

lemma plain_payloads:
  "validated E [(''webhookUrl'', VStr ''v''), (''secret'', VStr ''s'')] = Inr [(''webhookUrl'', VStr ''v''), (''secret'', VStr ''s'')]"
  "validated E [(''webhookUrl'', VStr ''v'')] = Inr [(''webhookUrl'', VStr ''v'')]"
  "validated E [(''url'', VStr ''u'')] = Inr [(''url'', VStr ''u'')]"
  by (rule validated_plain; code_simp)+

lemma trim_letters [simp]: "TrimSpace ''s'' = ''s''" "TrimSpace ''u'' = ''u''" "TrimSpace ''v'' = ''v''"
  by code_simp+

lemmas sanitize_run = sanitizeNotificationConfigForUpdate_def retainedNotificationSecretMarkers_def
  notificationSecretKeys_def discardSecretPresenceMarkers_def mergeRetainedNotificationSecrets_def keep_secret_def
  sanitize_enabled_def trim_texts_def json_drop_def json_set_def json_get_def message_type_allowed_def
  isAllowedValue_def validateLarkCardTemplateFields_def Let_def

lemma blank_form_accepted:
  "sanitizeNotificationConfigForUpdate test_notice_env ''lark'' (nr_Config blank_form) (ch_config stored_lark) True False
     = Inr [(''webhookUrl'', VStr ''v''), (''secret'', VStr ''s'')]"
  "sanitizeNotificationConfigForUpdate test_notice_env ''lark'' (nr_Config blank_form) [] True False
     = Inr [(''webhookUrl'', VStr ''v'')]"
  by (simp_all add: sanitize_run sanitize_lark_def sanitize_lark_message_def blank_form_def stored_lark_def plain_payloads)

lemmas update_run = handleUpdateNotificationChannel_def isNotificationChannelID_def previous_config_def
  GetNotificationChannel_def UpsertNotificationChannel_def WriteAudit_def stmt_def query_def run_simps Let_def

text \<open>C16: A save of a channel that is answered with success and leaves a secret blank, without the wish to clear it,
  keeps the stored secret, whether the channel is enabled or not.\<close>

theorem blank_secret_kept:
  assumes "faults d = []" "row_of ch_id i (channels d) = Some c" "k \<in> set (notificationSecretKeys i)"
    "stringValue (json_get (ch_config c) k) \<noteq> []" "distinct (map fst (nr_Config b))"
    "stringValue (json_get (nr_Config b) k) = []" "\<not> nr_ClearConfig b"
    "handleUpdateNotificationChannel E uid ip i (Some b) d = (Inr (200, body), d')"
  shows "\<exists>c'. row_of ch_id i (channels d') = Some c'
    \<and> stringValue (json_get (ch_config c') k) = stringValue (json_get (ch_config c) k)"
proof -
  have "previous_config (GetNotificationChannel i) ch_config d = (Inr (ch_config c), d)"
    using assms(1,2) by (simp add: previous_config_def GetNotificationChannel_def run_simps)
  from saved_channel [OF assms(8) this assms(1)] assms(7) obtain c' en where
    "row_of ch_id i (channels d') = Some c'"
    "sanitizeNotificationConfigForUpdate E i (nr_Config b) (ch_config c) en False = Inr (ch_config c')"
    by auto
  with update_blank_secret(1) [OF _ assms(3,5,6) assms(4)] show ?thesis by blast
qed

theorem blank_secret_kept_witness:
  "\<exists>c'. row_of ch_id ''lark'' (channels (snd (handleUpdateNotificationChannel test_notice_env ''u1'' ''ip'' ''lark''
      (Some blank_form) (empty_db\<lparr>channels := [stored_lark]\<rparr>)))) = Some c'
    \<and> stringValue (json_get (ch_config c') ''secret'') = stringValue (json_get (ch_config stored_lark) ''secret'')"
proof -
  let ?d = "empty_db\<lparr>channels := [stored_lark]\<rparr>"
  let ?h = "handleUpdateNotificationChannel test_notice_env ''u1'' ''ip'' ''lark'' (Some blank_form)"
  have r: "row_of ch_id ''lark'' [stored_lark] = Some stored_lark" by (simp add: row_of_def stored_lark_def)
  have f: "nr_Enabled blank_form" "\<not> nr_PasswordResetEnabled blank_form" "\<not> nr_ClearConfig blank_form"
    by (simp_all add: blank_form_def)
  have "\<exists>body d'. ?h ?d = (Inr (200, body), d')"
    using r f blank_form_accepted(1) by (simp add: update_run empty_db_def)
  then obtain body where h: "?h ?d = (Inr (200, body), snd (?h ?d))" by auto
  show ?thesis
    by (rule blank_secret_kept [OF _ _ _ _ _ _ f(3) h])
      (simp_all add: empty_db_def stored_lark_def blank_form_def notificationSecretKeys_def json_get_def row_of_def)
qed

lemma quiet_channel_saved:
  assumes "faults d1 = []" "previous_config (GetNotificationChannel i) ch_config d = (Inr previous, d1)"
    "isNotificationChannelID i" "\<not> nr_Enabled b" "\<not> (nr_PasswordResetEnabled b \<and> isPasswordResetChannel i)"
  shows "\<exists>body. handleUpdateNotificationChannel E uid ip i (Some b) d =
    (Inr (200, SChannel body), snd (handleUpdateNotificationChannel E uid ip i (Some b) d))"
proof -
  have "\<exists>m. sanitizeNotificationConfigForUpdate E i (nr_Config b) previous False (nr_ClearConfig b) = Inr m"
    by (simp add: sanitizeNotificationConfigForUpdate_def Let_def)
  with assms show ?thesis
    by (auto simp: handleUpdateNotificationChannel_def UpsertNotificationChannel_def WriteAudit_def run_simps Let_def)
qed

lemma secret_channel: "k \<in> set (notificationSecretKeys i) \<Longrightarrow> isNotificationChannelID i"
  by (auto simp: notificationSecretKeys_def isNotificationChannelID_def split: if_splits)

text \<open>C32: A save that switches a channel off and leaves its stored secret blank is answered with success and keeps the
  secret; when the read of the stored configuration fails, its error is dropped: the save is answered with success all
  the same, and the secret is gone.\<close>

theorem read_fault_loses_secret:
  assumes "row_of ch_id i (channels d) = Some c" "k \<in> set (notificationSecretKeys i)"
    "stringValue (json_get (ch_config c) k) \<noteq> []"
    "distinct (map fst (nr_Config b))" "stringValue (json_get (nr_Config b) k) = []" "\<not> nr_ClearConfig b"
    "\<not> nr_Enabled b" "\<not> (nr_PasswordResetEnabled b \<and> isPasswordResetChannel i)"
  shows "(\<exists>shown d'. handleUpdateNotificationChannel E uid ip i (Some b) (d\<lparr>faults := []\<rparr>) = (Inr (200, SChannel shown), d') \<and>
      (\<exists>c'. row_of ch_id i (channels d') = Some c' \<and> stringValue (json_get (ch_config c') k) = stringValue (json_get (ch_config c) k))) \<and>
    (\<exists>shown d'. handleUpdateNotificationChannel E uid ip i (Some b) (d\<lparr>faults := [True]\<rparr>) = (Inr (200, SChannel shown), d') \<and>
      (\<exists>c'. row_of ch_id i (channels d') = Some c' \<and> stringValue (json_get (ch_config c') k) = []))"
proof
  let ?h = "handleUpdateNotificationChannel E uid ip i (Some b)" and ?d = "d\<lparr>faults := []\<rparr>" and ?f = "d\<lparr>faults := [True]\<rparr>"
  note i = secret_channel [OF assms(2)]
  have read: "previous_config (GetNotificationChannel i) ch_config ?d = (Inr (ch_config c), ?d)"
    using assms(1) by (simp add: previous_config_def GetNotificationChannel_def run_simps)
  obtain shown where h: "?h ?d = (Inr (200, SChannel shown), snd (?h ?d))"
    using quiet_channel_saved [OF _ read i assms(7,8), of E uid ip] by auto
  from saved_channel [OF h read] assms(6) obtain c' en where
    "row_of ch_id i (channels (snd (?h ?d))) = Some c'"
    "sanitizeNotificationConfigForUpdate E i (nr_Config b) (ch_config c) en False = Inr (ch_config c')" by auto
  with h update_blank_secret(1) [OF _ assms(2,4,5,3)]
  show "\<exists>shown d'. ?h ?d = (Inr (200, SChannel shown), d') \<and>
      (\<exists>c'. row_of ch_id i (channels d') = Some c' \<and> stringValue (json_get (ch_config c') k) = stringValue (json_get (ch_config c) k))" by blast
  have fault: "previous_config (GetNotificationChannel i) ch_config ?f = (Inr [], d\<lparr>faults := []\<rparr>)"
    by (simp add: previous_config_def GetNotificationChannel_def query_def stmt_def run_simps)
  obtain shown where h: "?h ?f = (Inr (200, SChannel shown), snd (?h ?f))"
    using quiet_channel_saved [OF _ fault i assms(7,8), of E uid ip] by auto
  from saved_channel [OF h fault] assms(6) obtain c' en where
    "row_of ch_id i (channels (snd (?h ?f))) = Some c'"
    "sanitizeNotificationConfigForUpdate E i (nr_Config b) [] en False = Inr (ch_config c')" by auto
  with h update_blank_secret(2) [OF _ assms(2,4,5)]
  show "\<exists>shown d'. ?h ?f = (Inr (200, SChannel shown), d') \<and>
      (\<exists>c'. row_of ch_id i (channels d') = Some c' \<and> stringValue (json_get (ch_config c') k) = [])" by blast
qed

theorem read_fault_loses_secret_witness:
  "\<exists>shown d'. handleUpdateNotificationChannel test_notice_env ''u1'' ''ip'' ''lark'' (Some (blank_form\<lparr>nr_Enabled := False\<rparr>))
      (empty_db\<lparr>channels := [stored_lark], faults := [True]\<rparr>) = (Inr (200, SChannel shown), d') \<and>
    (\<exists>c'. row_of ch_id ''lark'' (channels d') = Some c' \<and> stringValue (json_get (ch_config c') ''secret'') = [])"
proof -
  have "row_of ch_id ''lark'' (channels (empty_db\<lparr>channels := [stored_lark]\<rparr>)) = Some stored_lark"
    "''secret'' \<in> set (notificationSecretKeys ''lark'')" "stringValue (json_get (ch_config stored_lark) ''secret'') \<noteq> []"
    "distinct (map fst (nr_Config (blank_form\<lparr>nr_Enabled := False\<rparr>)))"
    "stringValue (json_get (nr_Config (blank_form\<lparr>nr_Enabled := False\<rparr>)) ''secret'') = []"
    "\<not> nr_ClearConfig (blank_form\<lparr>nr_Enabled := False\<rparr>)" "\<not> nr_Enabled (blank_form\<lparr>nr_Enabled := False\<rparr>)"
    "\<not> (nr_PasswordResetEnabled (blank_form\<lparr>nr_Enabled := False\<rparr>) \<and> isPasswordResetChannel ''lark'')"
    by (simp_all add: row_of_def stored_lark_def notificationSecretKeys_def json_get_def blank_form_def)
  from read_fault_loses_secret [OF this] show ?thesis by simp
qed

text \<open>C33: A save of the enabled webhook that is answered with success stores no request headers, whatever the form
  has: an object is not a text, and counts as blank. (A webhook that is saved disabled keeps them.)\<close>

theorem webhook_headers_dropped:
  assumes "faults d = []" "nr_Enabled b"
    "handleUpdateNotificationChannel E uid ip ''webhook'' (Some b) d = (Inr (200, body), d')"
  shows "\<exists>c. row_of ch_id ''webhook'' (channels d') = Some c \<and> json_get (ch_config c) ''headers'' = VNull"
proof -
  have "\<exists>p. previous_config (GetNotificationChannel ''webhook'') ch_config d = (Inr p, d)"
    using assms(1) by (cases "row_of ch_id ''webhook'' (channels d)")
      (auto simp: previous_config_def GetNotificationChannel_def run_simps)
  then obtain p where "previous_config (GetNotificationChannel ''webhook'') ch_config d = (Inr p, d)" by blast
  from saved_channel [OF assms(3) this assms(1)] assms(2) obtain c where
    c: "row_of ch_id ''webhook'' (channels d') = Some c"
    "sanitizeNotificationConfigForUpdate E ''webhook'' (nr_Config b) p True (nr_ClearConfig b) = Inr (ch_config c)"
    by auto
  from c(2) obtain m where "sanitize_webhook E m = Inr (ch_config c)"
    by (auto simp: sanitizeNotificationConfigForUpdate_def sanitize_enabled_def Let_def split: if_splits)
  then have "json_get (ch_config c) ''headers'' = VNull"
    by (cases "json_get m ''headers''")
      (auto simp: sanitize_webhook_def Let_def removeEmpty_dropped dest!: validated_Inr split: if_splits)
  with c(1) show ?thesis by blast
qed

definition webhook_form :: notificationChannelRequest where
  "webhook_form = \<lparr>nr_Enabled = True, nr_PasswordResetEnabled = False, nr_ClearConfig = False,
     nr_Config = [(''url'', VStr ''u''), (''headers'', VObj [(''X-Token'', VStr ''t'')])]\<rparr>"

lemma webhook_form_accepted:
  "sanitizeNotificationConfigForUpdate test_notice_env ''webhook'' (nr_Config webhook_form) [] True False
     = Inr [(''url'', VStr ''u'')]"
  by (simp add: sanitize_run sanitize_webhook_def webhook_form_def plain_payloads ToUpper_def)

theorem webhook_headers_dropped_witness:
  "\<exists>c. row_of ch_id ''webhook'' (channels (snd (handleUpdateNotificationChannel test_notice_env ''u1'' ''ip'' ''webhook''
      (Some webhook_form) (empty_db\<lparr>channels := []\<rparr>)))) = Some c \<and> json_get (ch_config c) ''headers'' = VNull"
proof -
  let ?d = "empty_db\<lparr>channels := []\<rparr>"
  let ?h = "handleUpdateNotificationChannel test_notice_env ''u1'' ''ip'' ''webhook'' (Some webhook_form)"
  have f: "nr_Enabled webhook_form" "\<not> nr_PasswordResetEnabled webhook_form" "\<not> nr_ClearConfig webhook_form"
    by (simp_all add: webhook_form_def)
  have "\<exists>body d'. ?h ?d = (Inr (200, body), d')"
    using f webhook_form_accepted by (simp add: update_run empty_db_def row_of_def)
  then obtain body where h: "?h ?d = (Inr (200, body), snd (?h ?d))" by auto
  show ?thesis by (rule webhook_headers_dropped [OF _ f(1) h]) (simp add: empty_db_def)
qed

end
