(* ===== verification/Notice_Properties.thy ===== *)
theory Notice_Properties
  imports Settings_Config
begin

text \<open>
  What the delivery of notifications does on the network: the conversation of the applications, the texts that go
  out as they came in, and what a channel needs beside the checks of the settings.
\<close>

section \<open>Conversations\<close>

text \<open>
  A program that appends at most \<open>n\<close> requests, each an HTTP call with the limit of 8 seconds: the clients of the
  applications.
\<close>

lemma perform_log: "snd (perform w e past) = past @ [e]"
  by (simp add: perform_def)

lemma perform_Inr: "perform w e past = (Inr a, past') \<Longrightarrow> past' = past @ [e] \<and> w past e = a"
  by (auto simp: perform_def split: net_answer.splits)

lemma perform_Inl: "perform w e past = (Inl x, past') \<Longrightarrow> past' = past @ [e]"
  by (auto simp: perform_def)

definition quiet :: "'a net_prog \<Rightarrow> bool" where
  "quiet m \<longleftrightarrow> (\<forall>past. snd (m past) = past)"

lemma quiet_ret [simp]: "quiet (ret x)" and quiet_fail [simp]: "quiet (fail e)"
  by (simp_all add: quiet_def ret_def fail_def)

lemma quiet_bindp: "quiet m \<Longrightarrow> (\<And>x. quiet (f x)) \<Longrightarrow> quiet (bindp m f)"
  by (auto simp: quiet_def bindp_def split: prod.splits sum.splits) (metis snd_conv)+

lemma quietD: "quiet m \<Longrightarrow> m past = (r, past') \<Longrightarrow> past' = past"
  by (auto simp: quiet_def dest: arg_cong [where f = snd])

lemma quiet_parts [simp]:
  "quiet (new_request address)" "quiet (decodeNotificationResponse code texts answer)"
  "quiet (reply_accepted code msg label m)" "quiet (token_from code msg key label m)"
  by (auto simp: new_request_def decodeNotificationResponse_def reply_accepted_def token_from_def
      intro!: quiet_bindp split: option.split net_answer.split reply_body.split)

lemma quiet_config [simp]: "quiet (decodeConfig b c)"
  by (simp add: decodeConfig_def)

text \<open>What an answer that is taken was.\<close>

definition taken :: "members \<Rightarrow> net_answer \<Rightarrow> bool" where
  "taken m answer \<longleftrightarrow> (case answer of
      HttpReply status _ body \<Rightarrow> 200 \<le> status \<and> status < 300 \<and> (case body of
          Blank \<Rightarrow> m = [] | Garbled _ \<Rightarrow> False | Decoded m' \<Rightarrow> m = m')
    | Completed _ \<Rightarrow> m = []
    | Refused _ \<Rightarrow> False)"

lemma decode_taken: "decodeNotificationResponse code texts answer past = (Inr m, past') \<Longrightarrow> answer \<noteq> Refused x
    \<Longrightarrow> (\<And>x. answer \<noteq> Refused x) \<Longrightarrow> taken m answer"
  by (auto simp: decodeNotificationResponse_def taken_def run_simps split: net_answer.splits reply_body.splits if_splits)

text \<open>
  A program that fails without a word, or asks one question of the form \<open>Q\<close>; its result is what \<open>R\<close> makes of the
  answer.
\<close>

definition asks :: "wire \<Rightarrow> (net_event \<Rightarrow> bool) \<Rightarrow> ('a \<Rightarrow> net_answer \<Rightarrow> bool) \<Rightarrow> 'a net_prog \<Rightarrow> bool" where
  "asks w Q R m \<longleftrightarrow> (\<forall>past r past'. m past = (r, past') \<longrightarrow>
     (past' = past \<and> (\<exists>x. r = Inl x)) \<or>
     (\<exists>e. past' = past @ [e] \<and> Q e \<and> (\<forall>x. r = Inr x \<longrightarrow> R x (w past e))))"

lemma asksI:
  "(\<And>past r past'. m past = (r, past') \<Longrightarrow> (past' = past \<and> (\<exists>x. r = Inl x)) \<or>
     (\<exists>e. past' = past @ [e] \<and> Q e \<and> (\<forall>x. r = Inr x \<longrightarrow> R x (w past e)))) \<Longrightarrow> asks w Q R m"
  by (simp add: asks_def)

lemma asksD:
  "asks w Q R m \<Longrightarrow> m past = (r, past') \<Longrightarrow> (past' = past \<and> (\<exists>x. r = Inl x)) \<or>
     (\<exists>e. past' = past @ [e] \<and> Q e \<and> (\<forall>x. r = Inr x \<longrightarrow> R x (w past e)))"
  by (simp add: asks_def)

lemma asks_if: "asks w Q R a \<Longrightarrow> asks w Q R b \<Longrightarrow> asks w Q R (if c then a else b)"
  by simp

lemma asks_fail [simp]: "asks w Q R (fail e)"
  by (simp add: asks_def fail_def)

lemma asks_quiet:
  assumes "asks w Q R m" "\<And>x. quiet (f x)" "\<And>x y a past past'. f x past = (Inr y, past') \<Longrightarrow> R x a \<Longrightarrow> R' y a"
  shows "asks w Q R' (bindp m f)"
proof (rule asksI)
  fix past r past' assume run: "bindp m f past = (r, past')"
  obtain r1 p1 where m: "m past = (r1, p1)" by force
  note cases = asksD [OF assms(1) m]
  show "(past' = past \<and> (\<exists>x. r = Inl x)) \<or> (\<exists>e. past' = past @ [e] \<and> Q e \<and> (\<forall>x. r = Inr x \<longrightarrow> R' x (w past e)))"
  proof (cases r1)
    case (Inl x)
    with run m have "r = Inl x" "past' = p1" by (simp_all add: bindp_def)
    with cases Inl show ?thesis by auto
  next
    case (Inr x)
    with run m have f: "f x p1 = (r, past')" by (simp add: bindp_def)
    then have p: "past' = p1" by (rule quietD [OF assms(2)])
    from cases Inr obtain e where e: "p1 = past @ [e]" "Q e" "R x (w past e)" by auto
    have "\<forall>y. r = Inr y \<longrightarrow> R' y (w past e)"
    proof (intro allI impI)
      fix y assume "r = Inr y"
      with f have "f x p1 = (Inr y, past')" by simp
      then show "R' y (w past e)" using e(3) by (rule assms(3))
    qed
    with e p show ?thesis by simp
  qed
qed

lemma asks_mono:
  assumes "asks w Q R m" "\<And>e. Q e \<Longrightarrow> Q' e" "\<And>x a. R x a \<Longrightarrow> R' x a"
  shows "asks w Q' R' m"
proof (rule asksI)
  fix past r past' assume "m past = (r, past')"
  from asksD [OF assms(1) this]
  show "(past' = past \<and> (\<exists>x. r = Inl x)) \<or> (\<exists>e. past' = past @ [e] \<and> Q' e \<and> (\<forall>x. r = Inr x \<longrightarrow> R' x (w past e)))"
  proof
    assume "\<exists>e. past' = past @ [e] \<and> Q e \<and> (\<forall>x. r = Inr x \<longrightarrow> R x (w past e))"
    then obtain e where "past' = past @ [e]" "Q e" "\<forall>x. r = Inr x \<longrightarrow> R x (w past e)" by blast
    with assms(2) [of e] assms(3) [of _ "w past e"] have "past' = past @ [e] \<and> Q' e \<and> (\<forall>x. r = Inr x \<longrightarrow> R' x (w past e))"
      by simp
    then show ?thesis by blast
  qed simp
qed

lemma asks_call:
  "asks w (\<lambda>e. e = q) taken (bindp (new_request address) (\<lambda>_.
     bindp (perform w q) (decodeNotificationResponse code texts)))"
proof (cases "url_Parse address")
  case (Some u)
  have "asks w (\<lambda>e. e = q) (\<lambda>a b. b = a \<and> (\<forall>x. a \<noteq> Refused x)) (perform w q)"
    by (auto simp: asks_def perform_def split: net_answer.splits)
  then have "asks w (\<lambda>e. e = q) taken (bindp (perform w q) (decodeNotificationResponse code texts))"
    by (rule asks_quiet) (auto dest: decode_taken)
  with Some show ?thesis by (simp add: new_request_def)
qed (simp add: new_request_def)

text \<open>The requests of the applications: the limit of 8 seconds, and the token that a message carries.\<close>

definition app_call :: "net_event \<Rightarrow> bool" where
  "app_call e \<longleftrightarrow> (\<exists>c. e = HttpDo c \<and> hc_Timeout c = 8)"

definition carries :: "string \<Rightarrow> net_event \<Rightarrow> bool" where
  "carries token e \<longleftrightarrow> (\<exists>c. e = HttpDo c \<and> ((''Authorization'', ''Bearer '' @ token) \<in> set (hc_Headers c)
     \<or> (\<exists>p. hc_URL c = p @ ''?access_token='' @ QueryEscape token)))"

definition token_answer :: "string \<Rightarrow> string \<Rightarrow> string \<Rightarrow> net_answer \<Rightarrow> bool" where
  "token_answer code key token a \<longleftrightarrow> (\<exists>status statusText m. a = HttpReply status statusText (Decoded m)
     \<and> 200 \<le> status \<and> status < 300 \<and> int_field m code = 0 \<and> token = text_field m key \<and> TrimSpace token \<noteq> [])"

lemma text_field_Nil [simp]: "text_field [] k = []"
  by (simp add: text_field_def json_field_def)

lemma token_from_taken:
  "token_from code msg key label m past = (Inr token, past') \<Longrightarrow> taken m a \<Longrightarrow> token_answer code key token a"
  by (auto simp: token_from_def reply_accepted_def run_simps taken_def token_answer_def
      split: if_splits net_answer.splits reply_body.splits)

lemma asks_token:
  assumes "hc_Timeout c = 8"
  shows "asks w app_call (token_answer code key) (bindp (bindp (new_request address) (\<lambda>_.
     bindp (perform w (HttpDo c)) (decodeNotificationResponse code texts))) (token_from code msg key label))"
proof (rule asks_quiet)
  show "asks w app_call taken (bindp (new_request address) (\<lambda>_.
     bindp (perform w (HttpDo c)) (decodeNotificationResponse code texts)))"
    by (rule asks_mono [OF asks_call]) (use assms in \<open>auto simp: app_call_def\<close>)
qed (auto dest: token_from_taken)

lemma tokens_asked:
  "asks (ns_wire E) app_call (token_answer ''code'' ''tenant_access_token'') (larkTenantAccessToken E la)"
  "asks (ns_wire E) app_call (token_answer ''errcode'' ''access_token'') (wechatAccessToken E wa)"
  "asks (ns_wire E) app_call (token_answer ''errcode'' ''access_token'') (dingTalkAccessToken E da)"
  unfolding larkTenantAccessToken_def wechatAccessToken_def dingTalkAccessToken_def postJSONDecode_def getJSONDecode_def
  by (auto intro!: asks_token)

lemma asks_message:
  assumes "hc_Timeout c = 8" "carries token (HttpDo c)"
  shows "asks w (\<lambda>e. app_call e \<and> carries token e) (\<lambda>_ _. True) (bindp (bindp (new_request address) (\<lambda>_.
     bindp (perform w (HttpDo c)) (decodeNotificationResponse code texts))) (reply_accepted code msg label))"
proof (rule asks_quiet)
  show "asks w (\<lambda>e. app_call e \<and> carries token e) taken (bindp (new_request address) (\<lambda>_.
     bindp (perform w (HttpDo c)) (decodeNotificationResponse code texts)))"
    by (rule asks_mono [OF asks_call]) (use assms in \<open>auto simp: app_call_def\<close>)
qed auto

lemma authorization_kept: "(''Authorization'', v) \<in> set (json_headers [(''Authorization'', v)])"
proof -
  have "TrimSpace ''Authorization'' \<noteq> []" by code_simp
  then show ?thesis by (simp add: json_headers_def set_header_def)
qed

lemma carries_header: "(''Authorization'', ''Bearer '' @ token) \<in> set (hc_Headers c) \<Longrightarrow> carries token (HttpDo c)"
  by (simp add: carries_def)

lemma carries_url: "hc_URL c = p @ ''?access_token='' @ QueryEscape token \<Longrightarrow> carries token (HttpDo c)"
  by (auto simp: carries_def)

lemma messages_sent:
  "asks (ns_wire E) (\<lambda>e. app_call e \<and> carries token e) (\<lambda>_ _. True) (postLarkAppMessage E la token p)"
  "asks (ns_wire E) (\<lambda>e. app_call e \<and> carries token e) (\<lambda>_ _. True) (postWechatAppMessage E wa token p)"
  "asks (ns_wire E) (\<lambda>e. app_call e \<and> carries token e) (\<lambda>_ _. True) (postDingTalkAppMessage E da token q)"
  unfolding postLarkAppMessage_def postWechatAppMessage_def postDingTalkAppMessage_def postJSONDecode_def Let_def
    case_prod_unfold
    apply (intro asks_if asks_fail asks_message carries_header; simp add: authorization_kept)
   apply (intro asks_if asks_fail asks_message carries_url; simp only: http_call.select_convs append_assoc)
  apply (intro asks_if asks_fail asks_message carries_url; simp only: http_call.select_convs append_assoc)
  done

text \<open>A token, then a message with it.\<close>

definition app_conversation :: "wire \<Rightarrow> string \<Rightarrow> string \<Rightarrow> (notice_error + unit) \<Rightarrow> net_event list \<Rightarrow> bool" where
  "app_conversation w code key r es \<longleftrightarrow> list_all app_call es \<and>
     ((es = [] \<and> r \<noteq> Inr ()) \<or> (\<exists>e. es = [e] \<and> r \<noteq> Inr ()) \<or>
      (\<exists>e1 e2 token. es = [e1, e2] \<and> token_answer code key token (w [] e1) \<and> carries token e2))"

lemma token_then_message:
  assumes "asks w app_call (token_answer code key) get"
    and "\<And>token. asks w (\<lambda>e. app_call e \<and> carries token e) (\<lambda>_ _. True) (post token)"
    and run: "bindp get post [] = (r, es)"
  shows "app_conversation w code key r es"
proof -
  obtain r1 p1 where g: "get [] = (r1, p1)" by force
  from asksD [OF assms(1) g] show ?thesis
  proof
    assume "p1 = [] \<and> (\<exists>x. r1 = Inl x)"
    with g run show ?thesis by (auto simp: bindp_def app_conversation_def)
  next
    assume "\<exists>e. p1 = [] @ [e] \<and> app_call e \<and> (\<forall>x. r1 = Inr x \<longrightarrow> token_answer code key x (w [] e))"
    then obtain e where e: "p1 = [e]" "app_call e" "\<And>x. r1 = Inr x \<Longrightarrow> token_answer code key x (w [] e)" by auto
    show ?thesis
    proof (cases r1)
      case (Inl x)
      with e g run show ?thesis by (auto simp: bindp_def app_conversation_def)
    next
      case (Inr token)
      with g run e have "post token [e] = (r, es)" by (simp add: bindp_def)
      from asksD [OF assms(2) this] e Inr show ?thesis by (auto simp: app_conversation_def)
    qed
  qed
qed

lemma decoded_conversation:
  assumes "bindp (decodeConfig ok cfg) k [] = (r, es)" "k cfg [] = (r, es) \<Longrightarrow> app_conversation w code key r es"
  shows "app_conversation w code key r es"
  using assms by (cases ok) (auto simp: decodeConfig_def bindp_def ret_def fail_def app_conversation_def)

definition token_names :: "string \<Rightarrow> string \<times> string" where
  "token_names i = (if i = ''lark_app'' then (''code'', ''tenant_access_token'') else (''errcode'', ''access_token''))"

lemmas app_sends = sendLarkApp_def sendWechatApp_def sendDingTalkApp_def sendLarkAppPasswordReset_def
  sendWechatAppPasswordReset_def sendDingTalkAppPasswordReset_def

lemma app_conversations:
  "sendLarkApp E la event [] = (r, es) \<Longrightarrow> app_conversation (ns_wire E) ''code'' ''tenant_access_token'' r es"
  "sendLarkAppPasswordReset E la m [] = (r, es) \<Longrightarrow> app_conversation (ns_wire E) ''code'' ''tenant_access_token'' r es"
  "sendWechatApp E wa event [] = (r, es) \<Longrightarrow> app_conversation (ns_wire E) ''errcode'' ''access_token'' r es"
  "sendWechatAppPasswordReset E wa m [] = (r, es) \<Longrightarrow> app_conversation (ns_wire E) ''errcode'' ''access_token'' r es"
  "sendDingTalkApp E da event [] = (r, es) \<Longrightarrow> app_conversation (ns_wire E) ''errcode'' ''access_token'' r es"
  "sendDingTalkAppPasswordReset E da m [] = (r, es) \<Longrightarrow> app_conversation (ns_wire E) ''errcode'' ''access_token'' r es"
  unfolding app_sends by (erule token_then_message [rotated -1], rule tokens_asked, rule messages_sent)+

text \<open>C17: An application asks for a token and sends at most one message after it, which carries the token that the
  first answer gave without an error; without a token nothing is sent, and a success means that both went out.
  Every request has the limit of 8 seconds, whatever the settings say.\<close>

theorem application_conversation:
  assumes "ch_id c \<in> {''lark_app'', ''wechat_app'', ''dingtalk_app''}"
    and "send_alert E c event [] = (r, es) \<or> SendPasswordReset E c m [] = (r, es)"
  shows "app_conversation (ns_wire E) (fst (token_names (ch_id c))) (snd (token_names (ch_id c))) r es"
  using assms unfolding send_alert_def SendPasswordReset_def Let_def lark_app_config_def wechat_app_config_def
    dingtalk_app_config_def
  by (auto simp: token_names_def elim!: decoded_conversation intro: app_conversations)

definition answering_env :: notice_env where
  "answering_env = \<lparr>ns_wire = \<lambda>_ e. (case e of
       HttpDo c \<Rightarrow> HttpReply 200 ''200 OK'' (Decoded [(''errcode'', VNum 0), (''access_token'', VStr ''t'')])
     | Smtp s \<Rightarrow> Completed True), ns_now = 0, ns_local_time = \<lambda>_. [], ns_rfc3339 = \<lambda>_. [], ns_marshal = \<lambda>_. ''{}'',
     ns_decode = \<lambda>_. Inr VNull, ns_hmac = \<lambda>k m. k, ns_mail_address = \<lambda>name address. address, ns_Timeout = 30\<rparr>"

definition wechat_channel :: channel where
  "wechat_channel = \<lparr>ch_id = ''wechat_app'', ch_enabled = True, ch_password_reset_enabled = False,
     ch_config = [(''corpId'', VStr ''c''), (''agentId'', VStr ''1''), (''secret'', VStr ''s''), (''toUser'', VStr ''u'')]\<rparr>"

definition reset_message :: PasswordResetMessage where
  "reset_message = \<lparr>pm_Username = ''a'', pm_Code = ''1'', pm_ExpiresAt = 0, pm_RequestIP = ''<b>x</b>'', pm_To = ''t''\<rparr>"

theorem application_conversation_witness:
  "app_conversation (ns_wire answering_env) ''errcode'' ''access_token''
     (fst (SendPasswordReset answering_env wechat_channel reset_message []))
     (snd (SendPasswordReset answering_env wechat_channel reset_message []))"
proof -
  have "app_conversation (ns_wire answering_env) (fst (token_names (ch_id wechat_channel)))
     (snd (token_names (ch_id wechat_channel)))
     (fst (SendPasswordReset answering_env wechat_channel reset_message []))
     (snd (SendPasswordReset answering_env wechat_channel reset_message []))"
    by (rule application_conversation [where event = undefined and m = reset_message]) (simp_all add: wechat_channel_def)
  then show ?thesis by (simp add: token_names_def wechat_channel_def)
qed

section \<open>Mails\<close>

text \<open>The texts that are written are one text.\<close>

definition writes_only :: "string \<Rightarrow> net_event list \<Rightarrow> bool" where
  "writes_only text es \<longleftrightarrow> (\<forall>t. Smtp (SmtpWrite t) \<in> set es \<longrightarrow> t = text)"

lemma keeps_perform:
  "(\<And>t. e = Smtp (SmtpWrite t) \<Longrightarrow> t = text) \<Longrightarrow> keeps (writes_only text) (perform w e)"
  by (rule keepsI) (auto simp: writes_only_def perform_def)

lemma keeps_smtp_step [keeps_intros]:
  "(\<And>t. s = SmtpWrite t \<Longrightarrow> t = text) \<Longrightarrow> keeps (writes_only text) (smtp_step w s)"
  unfolding smtp_step_def by (intro keeps_intros keeps_perform) auto

lemma keeps_mail_steps [keeps_intros]:
  "keeps (writes_only text) m \<Longrightarrow> keeps (writes_only text) (with_smtp_error m)"
  "keeps (writes_only text) m \<Longrightarrow> keeps (writes_only text) l \<Longrightarrow> keeps (writes_only text) (deferring l m)"
  "keeps (writes_only text) n \<Longrightarrow> keeps (writes_only text) (or_close w n)"
  unfolding with_smtp_error_def deferring_def or_close_def by (intro keeps_intros | assumption | simp)+

lemma keeps_sendSMTPMessage [keeps_intros]: "keeps (writes_only text) (sendSMTPMessage E cfg addr recipients text)"
  unfolding sendSMTPMessage_def dialPlainSMTP_def dialTLSSMTP_def dialStartTLSSMTP_def writeSMTPMessage_def Let_def
  by (intro keeps_intros keeps_perform | simp)+

lemma keeps_decodeConfig [keeps_intros]: "keeps I (decodeConfig ok cfg)"
  unfolding decodeConfig_def by (intro keeps_intros)

lemma decoded_event: "e \<in> set (snd (bindp (decodeConfig ok cfg) k [])) \<Longrightarrow> e \<in> set (snd (k cfg []))"
  by (cases ok) (simp_all add: decodeConfig_def bindp_def ret_def fail_def)

lemma Join_member: "x \<in> set xs \<Longrightarrow> \<exists>a b. Join xs d = a @ x @ b"
proof (induction xs)
  case (Cons y xs)
  show ?case
  proof (cases "x = y")
    case True
    then have "Join (y # xs) d = [] @ x @ (if xs = [] then [] else d @ Join xs d)" by (simp add: Join_Cons)
    then show ?thesis by blast
  next
    case False
    with Cons.prems have "x \<in> set xs" by simp
    from Cons.IH [OF this] obtain a b where ab: "Join xs d = a @ x @ b" by blast
    moreover have "xs \<noteq> []" using \<open>x \<in> set xs\<close> by auto
    ultimately have "Join (y # xs) d = (y @ d @ a) @ x @ b" by (simp add: Join_Cons)
    then show ?thesis by blast
  qed
qed simp

lemma reset_mail_shows: "\<exists>a b. passwordResetEmailHTML E m = a @ pm_RequestIP m @ b"
proof -
  let ?lines = "reset_mail_lines (pm_Username m) (pm_Code m) (ns_local_time E (pm_ExpiresAt m)) (pm_RequestIP m)"
  have "?lines ! 23 = (''                '' @ zh ''e8afb7e6b182e69da5e6ba90efbc9a'' @ ''<strong style=\"color:#172033;\">'') @ pm_RequestIP m @ ''</strong>''"
    "23 < length ?lines"
    by (simp_all add: reset_mail_lines_def)
  then have "\<exists>p q. p @ pm_RequestIP m @ q \<in> set ?lines" by (metis nth_mem)
  then obtain p q where "p @ pm_RequestIP m @ q \<in> set ?lines" by blast
  from Join_member [OF this, of newline] obtain a b where "passwordResetEmailHTML E m = a @ (p @ pm_RequestIP m @ q) @ b"
    unfolding passwordResetEmailHTML_def by blast
  then have "passwordResetEmailHTML E m = (a @ p) @ pm_RequestIP m @ (q @ b)" by simp
  then show ?thesis by blast
qed

lemma mail_text_shows:
  assumes "Smtp (SmtpWrite t) \<in> set (snd (sendPasswordResetEmail E cfg m []))"
  shows "\<exists>a b. t = a @ pm_RequestIP m @ b"
proof -
  obtain a b where h: "passwordResetEmailHTML E m = a @ pm_RequestIP m @ b" using reset_mail_shows by blast
  let ?text = "''From: '' @ formatMailFrom E cfg @ crlf @ ''To: '' @ TrimSpace (pm_To m) @ crlf
            @ ''Subject: '' @ (zh ''4b564d204d616e6167657220e5af86e7a081e689bee59b9ee9aa8ce8af81e7a081'') @ crlf @ ''MIME-Version: 1.0'' @ crlf
            @ ''Content-Type: text/html; charset=UTF-8'' @ crlf @ crlf @ passwordResetEmailHTML E m"
  have "keeps (writes_only ?text) (sendPasswordResetEmail E cfg m)"
    unfolding sendPasswordResetEmail_def Let_def by (intro keeps_intros)
  then have "writes_only ?text (snd (sendPasswordResetEmail E cfg m []))" by (rule keepsD) (simp add: writes_only_def)
  with assms have "t = ?text" by (simp only: writes_only_def)
  moreover have "\<exists>p. ?text = p @ passwordResetEmailHTML E m"
    by (simp only: append_assoc [symmetric], rule exI, rule refl)
  ultimately obtain p where "t = p @ passwordResetEmailHTML E m" by blast
  with h have "t = (p @ a) @ pm_RequestIP m @ b" by simp
  then show ?thesis by blast
qed

lemma dropWhile_none: "(\<And>c. c \<in> set s \<Longrightarrow> \<not> P c) \<Longrightarrow> dropWhile P s = s"
  by (cases s) auto

lemma plain_client_ip:
  assumes "TrimSpace h = h" "set h \<inter> set '',:[]'' = {}"
  shows "normalizeClientIP h = h"
proof -
  have "dropWhile (\<lambda>c. c = CHR ''['' \<or> c = CHR '']'') h = h" "dropWhile (\<lambda>c. c = CHR ''['' \<or> c = CHR '']'') (rev h) = rev h"
    using assms(2) by (auto intro!: dropWhile_none)
  with assms show ?thesis by (auto simp: normalizeClientIP_def SplitHost_def TrimCut_def TrimLeft_def Let_def)
qed

text \<open>C34: The address of a request is the text of a header that any client can send, and it is no check that it is an
  address; the mail with a reset code has it as it is, with the markup it may have.\<close>

theorem forwarded_text_in_mail:
  assumes "ch_id c = ''email''" "TrimSpace h = h" "h \<noteq> []" "set h \<inter> set '',:[]'' = {}"
    "pm_RequestIP m = ClientIP h realIP remoteAddr" "Smtp (SmtpWrite t) \<in> set (snd (SendPasswordReset E c m []))"
  shows "\<exists>a b. t = a @ h @ b"
proof -
  have ip: "pm_RequestIP m = h" using assms(3,5) plain_client_ip [OF assms(2,4)] by (simp add: ClientIP_def)
  obtain cfg where "Smtp (SmtpWrite t) \<in> set (snd (sendPasswordResetEmail E cfg m []))"
    using assms(1,6) by (auto simp: SendPasswordReset_def email_config_def Let_def dest!: decoded_event)
  from mail_text_shows [OF this] ip show ?thesis by simp
qed

definition mail_channel :: channel where
  "mail_channel = \<lparr>ch_id = ''email'', ch_enabled = True, ch_password_reset_enabled = True,
     ch_config = [(''smtpHost'', VStr ''h''), (''smtpPort'', VNum 25), (''username'', VStr ''u''),
       (''password'', VStr ''p''), (''from'', VStr ''f'')]\<rparr>"

lemma mail_decodes:
  "config_decodes [''smtpHost'', ''username'', ''password'', ''from'', ''fromName''] (ch_config mail_channel)"
  "is_int (json_field (ch_config mail_channel) ''smtpPort'')" "is_text_list (json_field (ch_config mail_channel) ''to'')"
  "list_all (\<lambda>k. is_bool (json_field (ch_config mail_channel) k)) [''useTLS'', ''startTLS'', ''allowInsecureAuth'']"
  by code_simp+

lemma mail_fields:
  "text_field (ch_config mail_channel) ''smtpHost'' = ''h''" "int_field (ch_config mail_channel) ''smtpPort'' = 25"
  "text_field (ch_config mail_channel) ''username'' = ''u''" "text_field (ch_config mail_channel) ''password'' = ''p''"
  "text_field (ch_config mail_channel) ''from'' = ''f''" "bool_field (ch_config mail_channel) ''useTLS'' = False"
  "bool_field (ch_config mail_channel) ''startTLS'' = False"
  by code_simp+

lemma mail_written: "\<exists>t. Smtp (SmtpWrite t) \<in> set (snd (SendPasswordReset answering_env mail_channel reset_message []))"
proof -
  have trim: "TrimSpace ''t'' = ''t''" by code_simp
  have "ch_id mail_channel = ''email''" by (simp add: mail_channel_def)
  then show ?thesis
    by (simp add: SendPasswordReset_def email_config_def Let_def mail_decodes [simplified] mail_fields decodeConfig_def
        sendPasswordResetEmail_def email_complaint_def reset_message_def trim sendSMTPMessage_def dialPlainSMTP_def
        writeSMTPMessage_def deferring_def or_close_def with_smtp_error_def smtp_step_def perform_def answering_env_def
        run_simps)
qed

theorem forwarded_text_in_mail_witness:
  "\<exists>t a b. Smtp (SmtpWrite t) \<in> set (snd (SendPasswordReset answering_env mail_channel reset_message []))
     \<and> t = a @ ''<b>x</b>'' @ b"
proof -
  obtain t where t: "Smtp (SmtpWrite t) \<in> set (snd (SendPasswordReset answering_env mail_channel reset_message []))"
    using mail_written by blast
  have trim: "TrimSpace ''<b>x</b>'' = ''<b>x</b>''" by code_simp
  have "pm_RequestIP reset_message = ClientIP ''<b>x</b>'' [] []"
    using plain_client_ip [OF trim] by (simp add: reset_message_def ClientIP_def)
  then have "\<exists>a b. t = a @ ''<b>x</b>'' @ b"
    by (rule forwarded_text_in_mail [OF _ trim _ _ _ t, rotated -1]) (simp_all add: mail_channel_def)
  with t show ?thesis by blast
qed

section \<open>Templates\<close>

lemma render_token:
  assumes "name \<noteq> []" "list_all token_char name"
  shows "render_template v (''{{'' @ name @ ''}}'' @ s) = v name @ render_template v s"
proof -
  have cs: "\<And>c. c \<in> set name \<Longrightarrow> token_char c" using assms(2) by (simp add: list_all_iff)
  have brace: "\<not> token_char CHR ''}''" "\<not> blank_char CHR ''}''" by code_simp+
  have "\<not> blank_char c" if "token_char c" for c
    using that by (auto simp: blank_char_def token_char_def letter_def digit_def byte_def)
  with assms(1) cs have d: "dropWhile blank_char (name @ ''}}'' @ s) = name @ ''}}'' @ s" by (cases name) auto
  have t: "takeWhile token_char (name @ ''}}'' @ s) = name" "dropWhile token_char (name @ ''}}'' @ s) = ''}}'' @ s"
    using cs brace by (simp_all add: takeWhile_append2 dropWhile_append2)
  have "template_token (''{{'' @ name @ ''}}'' @ s) = Some (name, s)"
    using d t assms(1) brace by (simp add: template_token_def Let_def)
  then show ?thesis by (subst render_template.simps) simp
qed

lemma render_token_text:
  "list_all token_char name \<Longrightarrow> name \<noteq> [] \<Longrightarrow> t = ''{{'' @ name @ ''}}'' \<Longrightarrow>
   render_template v (t @ s) = v name @ render_template v s"
  using render_token [of name v s] by simp

lemma render_text:
  "CHR ''{'' \<notin> set p \<Longrightarrow> render_template v (p @ s) = p @ render_template v s"
proof (induction p)
  case (Cons c p)
  then have "template_token ((c # p) @ s) = None" by (auto simp: template_token_def)
  with Cons show ?case by (subst render_template.simps) simp
qed simp

lemma render_char: "c \<noteq> CHR ''{'' \<Longrightarrow> render_template v (c # s) = c # render_template v s"
  using render_text [of "[c]"] by simp

text \<open>A brace before something else than a brace.\<close>

lemma render_brace: "c \<noteq> CHR ''{'' \<Longrightarrow> render_template v (CHR ''{'' # c # s) = CHR ''{'' # render_template v (c # s)"
  by (subst render_template.simps) (simp add: template_token_def)

text \<open>The default payload of a webhook is the values of the alert between fixed texts: a quote or a backslash of
  a message is not escaped.\<close>

theorem webhook_text_verbatim:
  "renderAlertTemplate local_time defaultWebhookProblemPayload (eventType, a) =
     ''{\"id\":\"'' @ alert_id a @ ''\",\"eventType\":\"'' @ eventType @ ''\",\"level\":\"'' @ alert_level a
   @ ''\",\"title\":\"'' @ alert_title a @ ''\",\"message\":\"'' @ alert_message a
   @ ''\",\"sourceType\":\"'' @ alert_source_type a @ ''\",\"sourceId\":\"'' @ alert_source_id a
   @ ''\",\"lastSeenAt\":\"'' @ formatTemplateTime local_time (alert_last_seen_at a) @ ''\"}''"
proof -
  let ?v = "alertTemplateValues local_time (eventType, a)"
  have names: "list_all (list_all token_char) [''alert.id'', ''event.type'', ''alert.level'', ''alert.title'',
     ''alert.message'', ''alert.sourceType'', ''alert.sourceId'', ''alert.lastSeenAt'']"
    by code_simp
  have tokens:
    "\<And>s. render_template ?v (''{{alert.id}}'' @ s) = ?v ''alert.id'' @ render_template ?v s"
    "\<And>s. render_template ?v (''{{event.type}}'' @ s) = ?v ''event.type'' @ render_template ?v s"
    "\<And>s. render_template ?v (''{{alert.level}}'' @ s) = ?v ''alert.level'' @ render_template ?v s"
    "\<And>s. render_template ?v (''{{alert.title}}'' @ s) = ?v ''alert.title'' @ render_template ?v s"
    "\<And>s. render_template ?v (''{{alert.message}}'' @ s) = ?v ''alert.message'' @ render_template ?v s"
    "\<And>s. render_template ?v (''{{alert.sourceType}}'' @ s) = ?v ''alert.sourceType'' @ render_template ?v s"
    "\<And>s. render_template ?v (''{{alert.sourceId}}'' @ s) = ?v ''alert.sourceId'' @ render_template ?v s"
    "\<And>s. render_template ?v (''{{alert.lastSeenAt}}'' @ s) = ?v ''alert.lastSeenAt'' @ render_template ?v s"
    by (rule render_token_text; use names in simp)+
  have "render_template ?v [] = []" by (subst render_template.simps) (simp add: template_token_def)
  with tokens show ?thesis unfolding renderAlertTemplate_def defaultWebhookProblemPayload_def
    by (simp add: render_brace render_char alertTemplateValues_def)
qed

end
