(* ===== verification/Spec2Isabelle.thy ===== *)
theory Spec2Isabelle
  imports Access_Properties Settings_Properties Auth_Properties Reset_Properties
    Alert_Properties Runtime_Properties Refresh_Properties Metric_Properties Sync_Outcome
    Agent_Api_Properties Fleet_Access Fleet_Agents Fleet_Migration Settings_Secrets
    Notice_Properties
begin

text \<open>
  KVM Manager: a verification development of its access control, authentication, settings, password
  recovery, alerts, notifications, refresh tasks, runtime state, of its fleet API, and of the API of its agents.

  \<^bold>\<open>The program.\<close>  KVM Manager is a web server (\<open>backend/\<close>) that manages virtual machines through
  agents (\<open>agent/\<close>) on the hosts. The server keeps its data in PostgreSQL
  (\<open>backend/internal/repository\<close>), the last known state of hosts, machines and snapshots in Redis
  (\<open>backend/internal/service/realtime\<close>), answers a JSON API (\<open>backend/api/router\<close>), and runs services
  for logins, notifications and the synchronisation with the agents (\<open>backend/internal/service\<close>). Every
  request of the API passes the middleware, which turns the bearer token into a session, the session
  into a user, and the roles of the user into permissions.

  \<^bold>\<open>The state.\<close>  The record \<open>db\<close> of \<open>Domain\<close> has one list of rows for each table, in
  the order of insertion, the clock of the server, the identifiers that the database gives to new
  rows, and a list \<open>faults\<close> that says which of the next statements fail: a statement that fails
  answers \<open>ErrFault\<close> and changes nothing. Operations are programs
  \<open>db \<Rightarrow> (error + result) \<times> db\<close> (\<open>Prelude\<close>): \<open>bindp\<close> is the sequence with the early return
  of Go's \<open>if err != nil\<close>, \<open>attempt\<close> gives the error to the program, \<open>ignore\<close> is a call whose
  error is dropped. A program that fails after it has written keeps what it wrote, as the code does
  outside a transaction. The SQL text in the Go files is translated into functions on the rows,
  with its conditions, orders, conflict clauses and cascades. The services run on the record \<open>rt\<close>:
  the database, the state of Redis, the counters of the alerts and the queue of refresh tasks.

  \<^bold>\<open>The theories.\<close>
  \<^item> \<open>Prelude\<close>: programs, their laws, and \<open>keeps\<close>, the invariance of a predicate under a program;
    rows and lists. \<open>GoStrings\<close>: what the code uses of Go's \<open>strings\<close>, \<open>strconv\<close> and \<open>unicode/utf8\<close>
    on byte strings. \<open>Encoding\<close>: hexadecimal, base64, query escaping, decimal numbers, with their
    round trips.
  \<^item> \<open>Json_Value\<close>: the values of JSON that a configuration keeps, their conversions and their cleaning
    (\<open>router/notifications.go\<close>, \<open>auth_providers.go\<close>), and the decoding of a field.
  \<^item> \<open>Domain\<close>: the structs of \<open>internal/domain\<close> and the tables. \<open>Http\<close>: responses.
  \<^item> \<open>Access_Repo\<close>, \<open>Access_Groups\<close>: \<open>repository/rbac.go\<close> and the user part of
    \<open>repository/repository.go\<close>. \<open>Access_Router\<close>: \<open>router/rbac.go\<close> and \<open>router/middleware.go\<close>, one
    definition for each handler with its guards in order.
  \<^item> \<open>Settings\<close>: \<open>repository/system_settings.go\<close> and \<open>router/system_base_config.go\<close>.
  \<^item> \<open>Auth_Store\<close>: sessions, failed logins, one-time states, providers, bindings, reset codes.
    The locale \<open>token_table\<close> states what a table of tokens with an expiry promises; sessions and
    one-time states are interpretations of it.
  \<^item> \<open>Auth_Service\<close>: \<open>service/auth/service.go\<close> and \<open>login_throttle.go\<close>. \<open>Auth_Wecom\<close>: \<open>wecom.go\<close>
    and \<open>wecom_sso.go\<close>. \<open>Auth_Router\<close>: the login handlers of \<open>router/router.go\<close> and
    \<open>auth_wecom.go\<close>, and the routes of the settings.
  \<^item> \<open>Reset\<close>: \<open>router/password_reset.go\<close>.
  \<^item> \<open>Server_Steps\<close>: the server as a step relation, one rule for each kind of request that touches
    these tables and one for the passing of time, its reachable states, and the invariant of the
    steps.
  \<^item> \<open>Access_Proofs\<close>, \<open>Access_Safety\<close>, \<open>Access_Steps\<close>: the invariant of the access tables
    (uniqueness, foreign keys, the built-in roles, the default administrator) and that each operation
    and each handler keeps it. \<open>Access_Properties\<close>, \<open>Settings_Properties\<close>, \<open>Auth_Properties\<close>,
    \<open>Reset_Properties\<close>: the properties, each with a concrete instance.
  \<^item> \<open>Alert_Store\<close>: alerts, the notification panel, deliveries and their retries
    (\<open>repository/repository.go\<close>, \<open>alert_notification_deliveries.go\<close>, \<open>alerts_resolution.go\<close>,
    \<open>alert_notifications.go\<close>, \<open>retention.go\<close>). \<open>Agent_Store\<close>: agents, template marks, annotations of
    snapshots, \<open>pkg/tokencrypto\<close>. \<open>Task_Store\<close>: the tasks.
  \<^item> \<open>Alert_Service\<close>: the evaluation of thresholds, the queue of notifications, the deliveries
    (\<open>service/realtime/service.go\<close>, \<open>alert_notifications.go\<close>, \<open>service/notification/service.go\<close>).
    \<open>Route_Helpers\<close>, \<open>Alert_Router\<close>: the endpoints. \<open>Alert_Invariant\<close>, \<open>Alert_Properties\<close>: the invariant
    of the tables of alerts and deliveries, and the properties.
  \<^item> \<open>Runtime_Store\<close>: \<open>service/realtime/redis_runtime_store.go\<close>, its keys, reads and pipelines, and what
    a server promises (\<open>redis_laws\<close>). \<open>Runtime_Refinement\<close>: the abstract fleet, and that each pipeline is a
    write of the fleet. \<open>Runtime_Properties\<close>: the properties.
  \<^item> \<open>Refresh\<close>: the refresh tasks (\<open>service/realtime/refresh_worker.go\<close>, \<open>scheduler.go\<close>, \<open>events.go\<close>).
    \<open>Refresh_Properties\<close>: the step relation of requests, scheduler, worker and restart, its invariants, and
    the end of a task.
  \<^item> \<open>Agent_Errors\<close>: the messages for errors of an agent (\<open>pkg/agent/client.go\<close>). \<open>Sync_Helpers\<close>: what a
    synchronisation makes of a report (\<open>service/realtime/service.go\<close>, \<open>merge.go\<close>).
  \<^item> \<open>Metric_Store\<close>: samples, kept averages and their endpoints (\<open>repository/metrics.go\<close>, \<open>rollup.go\<close>,
    \<open>retention.go\<close>, \<open>router/metrics.go\<close>). \<open>Metric_Stream\<close>: the stream of samples (\<open>metrics_stream.go\<close>).
    \<open>Metric_Properties\<close>: what the averages are.
  \<^item> \<open>Sync_Service\<close>: the synchronisation of agents, the lists and the dashboard (\<open>service.go\<close>, \<open>sync_mode.go\<close>).
    \<open>Sync_Frame\<close>: what the alerts and a synchronisation leave alone, as two locales. \<open>Sync_Properties\<close>,
    \<open>Sync_Outcome\<close>: a refresh task over the synchronisation ends; what a synchronisation leaves behind.
  \<^item> \<open>Agent_Types\<close>: the requests and reports between server and agent (\<open>pkg/agent\<close>, the same structs as
    \<open>agent/internal/kvm/types.go\<close>). \<open>Agent_Client\<close>: the methods of the client (\<open>pkg/agent/client.go\<close>, \<open>vm.go\<close>,
    \<open>storage_upload.go\<close>). \<open>Agent_Api\<close>: the API of an agent (\<open>agent/api/router\<close>, \<open>agent/internal/security\<close>).
    \<open>Agent_Path\<close>: the path of a request on both sides. \<open>Agent_Ops\<close>, \<open>Agent_Api_Properties\<close>: client and API composed.
  \<^item> \<open>Go_Url\<close>: what the code uses of \<open>net/url\<close>. \<open>Api_Base\<close>: what the handlers of the fleet share, answers,
    the choice of an agent with its token, tasks, the audit log (\<open>router.go\<close>, \<open>vm_lifecycle.go\<close>, \<open>pools.go\<close>).
    \<open>Vm_Requests\<close>: the validations and the requests to an agent (\<open>vm_lifecycle.go\<close>, \<open>vm_clone.go\<close>,
    \<open>vm_config.go\<close>, \<open>vm_devices.go\<close>). \<open>Vm_Lifecycle\<close>: a machine, its actions, creation and migration
    (\<open>vms.go\<close>, \<open>vm_lifecycle.go\<close>, \<open>vm_lifecycle_tasks.go\<close>). \<open>Vm_Config_Api\<close>: configuration, devices, console,
    clone and templates (\<open>vm_config.go\<close>, \<open>vm_devices.go\<close>, \<open>vm_clone.go\<close>, \<open>vm_templates.go\<close>, \<open>console.go\<close>).
    \<open>Vm_Migrate_Check\<close>: \<open>vm_migrate_precheck.go\<close>. \<open>Snapshot_Api\<close>: \<open>snapshots.go\<close>. \<open>Pool_Api\<close>: \<open>pools.go\<close>,
    \<open>storage_volume_tasks.go\<close>, \<open>host_interfaces.go\<close>. \<open>Agent_Router\<close>: \<open>agents.go\<close>. \<open>Fleet_Router\<close>: the routes
    of the fleet behind the session check (\<open>router.go\<close>, \<open>vms.go\<close>, \<open>tasks.go\<close>, \<open>dashboard.go\<close>).
  \<^item> \<open>Fleet_Access\<close>: the table of rights and who is served. \<open>Fleet_Rules\<close>: elimination rules for the steps of a
    handler. \<open>Fleet_Tasks\<close>: the end of a background task. \<open>Fleet_Checks\<close>: the checks of a creation.
    \<open>Fleet_Migration\<close>: the report of a migration check. \<open>Fleet_Agents\<close>: registration and deletion.

  \<^item> \<open>Notice_Templates\<close>: the texts of a notification, templates, validation, preview
    (\<open>service/notification/templates.go\<close>). \<open>Notice_Channels\<close>: the network and the requests of webhooks, robots and
    applications (\<open>service.go\<close>, \<open>app_notifications.go\<close>). \<open>Notice_Mail\<close>: SMTP, the mails, the choice of a channel.
    A program of these runs on the list of the events of its conversation, which the network may answer as it likes.
  \<^item> \<open>Settings_Config\<close>: the settings of channels and providers (\<open>router/notifications.go\<close>, \<open>auth_providers.go\<close>,
    \<open>settings_secret_redaction.go\<close>) and the address of a client (\<open>repository/repository.go\<close>). \<open>Settings_Secrets\<close>:
    what is shown and kept of the secrets. \<open>Notice_Properties\<close>: the conversations, the mails and the templates.

  \<^bold>\<open>What is shown.\<close>  Safety of all reachable states; a change of users, roles or groups needs a
  live session with the permission; tokens are accepted exactly while their stored session lives and
  never after a logout; an account is locked after the allowed failures; one-time states and reset
  codes are used once; reset codes are limited in number; the permissions of a user are those of the
  roles; configurations are in range and read back as saved. Alerts: one active alert for each source and
  title, unique deliveries, an alert after exactly the configured number of samples in a row, retries after
  a bounded delay that end. Runtime state: every write to Redis is the write of an abstract fleet, and a
  save that races with the removal of its agent is undone. Refresh tasks: at most one of each type is
  active, none runs twice, and one that runs ends. A
  synchronisation makes the report the state of the agent, and an agent deleted meanwhile stays deleted. Between server and
  agent, every call of the client is the operation of the host it names, and none without the token. The fleet
  API: an operation is served only to a live session with its permission, a refusal changes nothing; an accepted
  creation takes no name of the host; a background task ends as its agent answered; a migration report that
  has passed says that every condition held; no two agents share an address; a deleted machine leaves the fleet. Settings and
  notifications: no answer shows a secret, a blank form keeps it, an application sends its message with the token it was given. And the places where the code leaves a partial change
  behind, each as a theorem about the state after the error.

  \<^bold>\<open>Parameters.\<close>  bcrypt, the JWT library, HMAC-SHA256, SHA-256 and AES-GCM, the LDAP connection, the
  WeCom service, the Redis client, the transport to the agents, the decoder of XML, the resolver of names, the order in
  which Go meets the keys of a map, temporary files, the websocket library, the random source, the network of the
  notifications, the text of a JSON value and its decoder, and the format of a time are arguments of the definitions that use them. Where a theorem needs a law of one of them it is a
  premise, and the instance of the theorem has a function that satisfies it. Times are integers: seconds
  since 1970, and minutes where the code's durations are minutes.

  \<^bold>\<open>Bounds.\<close>  The definitions are total: recursion is on lists, or has a measure. Only \<open>ReplaceAll\<close> has fuel, the
  length of the text, of which each step takes at least one character.

  \<^bold>\<open>Not modelled, and why.\<close>  Byte input and output, TLS, the JSON text of bodies (a body is the
  decoded record, or none), logging and the Swagger documents carry no decision. The agent's
  handling of \<open>virsh\<close> (commands and the parsing of their output), the connection test of a login provider and
  the user messages of its errors, the stream of events to browsers, the health check and
  the start of the processes are left out.
\<close>

end
